(* ===== verification/Prelude.thy ===== *)
theory Prelude
  imports Main
begin

text \<open>
  Shared notions of the development: results that may fail, aggregates with their uncommitted
  events, tables as lists of rows, a small transition-system interface, and the lemmas on lists
  and options that the component theories rest on.

  A command that throws returns \<open>Inl\<close> of the failure and one that completes \<open>Inr\<close> of its
  result. Everything a command does before it throws inside a transaction is rolled back, so a
  failing command has no resulting state at all.
\<close>

section \<open>Collections of facts\<close>

named_theorems result_simps \<open>rewriting of results that may fail\<close>
named_theorems table_simps \<open>rewriting of statements over tables\<close>
named_theorems agg_simps \<open>rewriting of aggregates and their events\<close>

section \<open>Instants and identifiers\<close>

text \<open>
  An \<open>Instant\<close> of the program is an ISO string with millisecond resolution, a \<open>Date\<close> of its
  rows the same instant; both are the number of milliseconds since the epoch here.
\<close>

type_synonym instant = int
type_synonym ident = string

section \<open>Results that may fail\<close>

definition bindE :: "'e + 'a \<Rightarrow> ('a \<Rightarrow> 'e + 'b) \<Rightarrow> 'e + 'b" where
  "bindE m f = (case m of Inl e \<Rightarrow> Inl e | Inr a \<Rightarrow> f a)"

definition ensure :: "bool \<Rightarrow> 'e \<Rightarrow> 'e + unit" where
  "ensure b e = (if b then Inr () else Inl e)"

text \<open>An assertion of the core library: \<open>None\<close> when it passes, \<open>Some e\<close> when it throws \<open>e\<close>.\<close>

definition assertE :: "'e option \<Rightarrow> 'e + unit" where
  "assertE r = (case r of None \<Rightarrow> Inr () | Some e \<Rightarrow> Inl e)"

lemma bindE_Inl [simp, code_unfold]: "bindE (Inl e) f = Inl e"
  by (simp add: bindE_def)

lemma bindE_Inr [simp, code_unfold]: "bindE (Inr a) f = f a"
  by (simp add: bindE_def)

lemma bindE_eq_Inr [result_simps]: "bindE m f = Inr b \<longleftrightarrow> (\<exists>a. m = Inr a \<and> f a = Inr b)"
  by (cases m) auto

lemma bindE_eq_Inl [result_simps]:
  "bindE m f = Inl e \<longleftrightarrow> m = Inl e \<or> (\<exists>a. m = Inr a \<and> f a = Inl e)"
  by (cases m) auto

lemma bindE_cong [fundef_cong]:
  "m = m' \<Longrightarrow> (\<And>a. m' = Inr a \<Longrightarrow> f a = f' a) \<Longrightarrow> bindE m f = bindE m' f'"
  by (cases m') auto

lemma bindE_assoc: "bindE (bindE m f) g = bindE m (\<lambda>a. bindE (f a) g)"
  by (cases m) auto

lemma ensure_eq_Inr [result_simps]: "ensure b e = Inr u \<longleftrightarrow> b"
  by (simp add: ensure_def)

lemma ensure_eq_Inl [result_simps]: "ensure b e = Inl e' \<longleftrightarrow> \<not> b \<and> e = e'"
  by (simp add: ensure_def)

lemma assertE_eq_Inr [result_simps]: "assertE r = Inr u \<longleftrightarrow> r = None"
  by (simp add: assertE_def split: option.splits)

lemma assertE_eq_Inl [result_simps]: "assertE r = Inl e \<longleftrightarrow> r = Some e"
  by (simp add: assertE_def split: option.splits)

lemma case_InrE: "(case r of Inl _ \<Rightarrow> False | Inr a \<Rightarrow> P a) \<Longrightarrow> (\<And>a. r = Inr a \<Longrightarrow> P a \<Longrightarrow> thesis) \<Longrightarrow> thesis"
  by (cases r) auto

text \<open>A loop whose body may throw: it stops at the first failure.\<close>

fun foldE :: "('a \<Rightarrow> 's \<Rightarrow> 'e + 's) \<Rightarrow> 'a list \<Rightarrow> 's \<Rightarrow> 'e + 's" where
  "foldE f [] s = Inr s"
| "foldE f (x # xs) s = bindE (f x s) (foldE f xs)"

lemma foldE_invariant:
  assumes "foldE f xs s = Inr s'" and "P s"
    and "\<And>x s s'. x \<in> set xs \<Longrightarrow> P s \<Longrightarrow> f x s = Inr s' \<Longrightarrow> P s'"
  shows "P s'"
  using assms
proof (induction xs arbitrary: s)
  case Nil
  then show ?case by simp
next
  case (Cons x xs)
  then obtain t where "f x s = Inr t" and rest: "foldE f xs t = Inr s'"
    by (auto simp: bindE_eq_Inr)
  with Cons.prems have "P t" by auto
  with rest show ?case
    using Cons.IH Cons.prems(3) by auto
qed

section \<open>Aggregates\<close>

text \<open>
  An aggregate root keeps its current snapshot and the domain events it applied and has not
  published yet, in the order it applied them.
\<close>

record ('s, 'e) aggregate =
  current :: 's
  uncommitted :: "'e list"

definition restore :: "'s \<Rightarrow> ('s, 'e) aggregate" where
  "restore snapshot = \<lparr>current = snapshot, uncommitted = []\<rparr>"

definition apply_event :: "'e \<Rightarrow> ('s, 'e) aggregate \<Rightarrow> ('s, 'e) aggregate" where
  "apply_event e a = a\<lparr>uncommitted := uncommitted a @ [e]\<rparr>"

lemma current_restore [simp]: "current (restore s) = s"
  by (simp add: restore_def)

lemma uncommitted_restore [simp]: "uncommitted (restore s) = []"
  by (simp add: restore_def)

lemma current_apply_event [simp, agg_simps]: "current (apply_event e a) = current a"
  by (simp add: apply_event_def)

lemma uncommitted_apply_event [simp, agg_simps]:
  "uncommitted (apply_event e a) = uncommitted a @ [e]"
  by (simp add: apply_event_def)

section \<open>Tables\<close>

text \<open>
  A table is the list of its rows. \<open>UPDATE t SET f WHERE p\<close> is \<open>tbl_update\<close>, the number of rows
  it reports \<open>tbl_affected\<close>; a row found by its key is the first one carrying it.
\<close>

definition tbl_update :: "('r \<Rightarrow> bool) \<Rightarrow> ('r \<Rightarrow> 'r) \<Rightarrow> 'r list \<Rightarrow> 'r list" where
  "tbl_update p f t = map (\<lambda>r. if p r then f r else r) t"

definition tbl_affected :: "('r \<Rightarrow> bool) \<Rightarrow> 'r list \<Rightarrow> nat" where
  "tbl_affected p t = length (filter p t)"

definition tbl_find :: "('r \<Rightarrow> 'k) \<Rightarrow> 'k \<Rightarrow> 'r list \<Rightarrow> 'r option" where
  "tbl_find key k t = find (\<lambda>r. key r = k) t"

lemma tbl_update_Nil [simp]: "tbl_update p f [] = []"
  by (simp add: tbl_update_def)

lemma tbl_update_Cons [simp]:
  "tbl_update p f (r # t) = (if p r then f r else r) # tbl_update p f t"
  by (simp add: tbl_update_def)

lemma set_tbl_update [table_simps]: "set (tbl_update p f t) = (\<lambda>r. if p r then f r else r) ` set t"
  by (simp add: tbl_update_def)

lemma length_tbl_update [simp]: "length (tbl_update p f t) = length t"
  by (simp add: tbl_update_def)

lemma map_tbl_update_same:
  "(\<And>r. p r \<Longrightarrow> g (f r) = g r) \<Longrightarrow> map g (tbl_update p f t) = map g t"
  by (auto simp: tbl_update_def)

lemma tbl_update_none: "(\<And>r. r \<in> set t \<Longrightarrow> \<not> p r) \<Longrightarrow> tbl_update p f t = t"
  by (simp add: tbl_update_def map_idI)

lemma tbl_find_Nil [simp]: "tbl_find key k [] = None"
  by (simp add: tbl_find_def)

lemma tbl_find_Cons [simp]:
  "tbl_find key k (r # t) = (if key r = k then Some r else tbl_find key k t)"
  by (simp add: tbl_find_def)

lemma tbl_find_SomeD: "tbl_find key k t = Some r \<Longrightarrow> r \<in> set t \<and> key r = k"
  by (induction t) (auto split: if_splits)

lemma tbl_find_None: "tbl_find key k t = None \<longleftrightarrow> k \<notin> key ` set t"
  by (induction t) auto

lemma tbl_find_append:
  "tbl_find key k (t @ [r]) =
    (case tbl_find key k t of None \<Rightarrow> if key r = k then Some r else None | Some x \<Rightarrow> Some x)"
  by (induction t) auto

lemma tbl_find_unique:
  "distinct (map key t) \<Longrightarrow> r \<in> set t \<Longrightarrow> tbl_find key (key r) t = Some r"
  by (induction t) (auto simp: rev_image_eqI)

lemma tbl_find_tbl_update:
  assumes "\<And>r. p r \<Longrightarrow> key (f r) = key r"
  shows "tbl_find key k (tbl_update p f t) =
    map_option (\<lambda>r. if p r then f r else r) (tbl_find key k t)"
  by (induction t) (auto simp: assms)

lemma tbl_affected_key:
  assumes "distinct (map key t)" and "\<And>r. p r \<Longrightarrow> key r = k"
  shows "tbl_affected p t = (case tbl_find key k t of None \<Rightarrow> 0 | Some r \<Rightarrow> if p r then 1 else 0)"
  using assms
proof (induction t)
  case Nil
  then show ?case by (simp add: tbl_affected_def)
next
  case (Cons r t)
  have "filter p t = []" if "key r = k"
    using that Cons.prems by (auto simp: filter_empty_conv rev_image_eqI)
  with Cons show ?case
    by (auto simp: tbl_affected_def tbl_find_None split: option.splits)
qed

text \<open>Sums over a table change by what the statement changes on the rows it selects.\<close>

lemma sum_tbl_update:
  fixes g :: "'r \<Rightarrow> int"
  shows "(\<Sum>r\<leftarrow>tbl_update p f t. g r) = (\<Sum>r\<leftarrow>t. g r) + (\<Sum>r\<leftarrow>filter p t. g (f r) - g r)"
  by (induction t) auto

lemma sum_filter_if:
  fixes g :: "'r \<Rightarrow> int"
  shows "(\<Sum>r\<leftarrow>filter p t. g r) = (\<Sum>r\<leftarrow>t. if p r then g r else 0)"
  by (induction t) auto

lemma member_le_sum:
  fixes g :: "'r \<Rightarrow> int"
  shows "r \<in> set t \<Longrightarrow> (\<And>x. x \<in> set t \<Longrightarrow> 0 \<le> g x) \<Longrightarrow> g r \<le> (\<Sum>x\<leftarrow>t. g x)"
proof (induction t)
  case Nil
  then show ?case by simp
next
  case (Cons x t)
  have "0 \<le> (\<Sum>x\<leftarrow>t. g x)" using Cons.prems(2) by (intro sum_list_nonneg) auto
  with Cons show ?case by fastforce
qed

lemma filter_key_unique:
  assumes "distinct (map key t)" and "r \<in> set t"
  shows "filter (\<lambda>x. key x = key r) t = [r]"
  using assms by (induction t) (auto simp: filter_empty_conv rev_image_eqI)

lemma filter_key_unique_conj:
  assumes "distinct (map key t)" and "r \<in> set t"
  shows "filter (\<lambda>x. key x = key r \<and> q x) t = (if q r then [r] else [])"
proof -
  have "filter (\<lambda>x. key x = key r \<and> q x) t = filter q (filter (\<lambda>x. key x = key r) t)"
    by (simp add: conj_commute)
  with filter_key_unique [OF assms] show ?thesis by simp
qed

lemma filter_key_length: "distinct (map key t) \<Longrightarrow> length (filter (\<lambda>x. key x = k \<and> p x) t) \<le> 1"
proof (induction t)
  case Nil
  then show ?case by simp
next
  case (Cons r t)
  have "filter (\<lambda>x. key x = k \<and> p x) t = []" if "key r = k"
    using that Cons.prems by (auto simp: filter_empty_conv rev_image_eqI)
  with Cons show ?case by auto
qed

lemma distinct_concat_map:
  assumes "distinct (map k hs)" and "\<And>h. h \<in> set hs \<Longrightarrow> length (f h) \<le> 1"
    and "\<And>h x. h \<in> set hs \<Longrightarrow> x \<in> set (f h) \<Longrightarrow> g x = k h"
  shows "distinct (map g (concat (map f hs)))"
  using assms
proof (induction hs)
  case Nil
  then show ?case by simp
next
  case (Cons h hs)
  have "distinct (map g (f h))" using Cons.prems(2) [of h] by (cases "f h") auto
  moreover have "g x \<noteq> g y" if x: "x \<in> set (f h)" and y: "y \<in> set (concat (map f hs))" for x y
  proof -
    obtain h' where h': "h' \<in> set hs" "y \<in> set (f h')" using y by auto
    have "g x = k h" "g y = k h'" using Cons.prems(3) x h' by auto
    with Cons.prems(1) h'(1) show ?thesis by (auto simp: rev_image_eqI)
  qed
  ultimately show ?case using Cons by (fastforce simp: image_iff)
qed

section \<open>Sorting and batching\<close>

text \<open>
  A stable sort by a comparison (\<open>Array.prototype.sort\<close>, \<open>ORDER BY\<close>): \<open>le x y\<close> when \<open>x\<close> may stand
  before \<open>y\<close>.
\<close>

fun insert_by :: "('a \<Rightarrow> 'a \<Rightarrow> bool) \<Rightarrow> 'a \<Rightarrow> 'a list \<Rightarrow> 'a list" where
  "insert_by le x [] = [x]"
| "insert_by le x (y # ys) = (if le x y then x # y # ys else y # insert_by le x ys)"

definition sort_by :: "('a \<Rightarrow> 'a \<Rightarrow> bool) \<Rightarrow> 'a list \<Rightarrow> 'a list" where
  "sort_by le xs = foldr (insert_by le) xs []"

lemma set_insert_by [simp]: "set (insert_by le x xs) = insert x (set xs)"
  by (induction xs) auto

lemma set_sort_by [simp]: "set (sort_by le xs) = set xs"
  by (induction xs) (auto simp: sort_by_def)

lemma length_insert_by [simp]: "length (insert_by le x xs) = Suc (length xs)"
  by (induction xs) auto

lemma length_sort_by [simp]: "length (sort_by le xs) = length xs"
  by (induction xs) (auto simp: sort_by_def)

lemma sum_insert_by:
  fixes g :: "'a \<Rightarrow> int"
  shows "(\<Sum>r\<leftarrow>insert_by le x xs. g r) = g x + (\<Sum>r\<leftarrow>xs. g r)"
  by (induction xs) auto

lemma sum_sort_by:
  fixes g :: "'a \<Rightarrow> int"
  shows "(\<Sum>r\<leftarrow>sort_by le xs. g r) = (\<Sum>r\<leftarrow>xs. g r)"
  by (induction xs) (auto simp: sort_by_def sum_insert_by)

lemma distinct_insert_by: "distinct (map f (insert_by le x xs)) \<longleftrightarrow> f x \<notin> f ` set xs \<and> distinct (map f xs)"
  by (induction xs) auto

lemma distinct_sort_by [simp]: "distinct (map f (sort_by le xs)) = distinct (map f xs)"
proof (induction xs)
  case Nil
  then show ?case by (simp add: sort_by_def)
next
  case (Cons x xs)
  have "sort_by le (x # xs) = insert_by le x (sort_by le xs)" by (simp add: sort_by_def)
  with Cons show ?case by (simp add: distinct_insert_by)
qed

text \<open>\<open>for (let start = 0; start < xs.length; start += n) xs.slice(start, start + n)\<close>, \<open>n\<close> positive.\<close>

function batches :: "nat \<Rightarrow> 'a list \<Rightarrow> 'a list list" where
  "batches n xs = (if n = 0 \<or> xs = [] then [] else take n xs # batches n (drop n xs))"
  by auto
termination by (relation "measure (\<lambda>(n, xs). length xs)") auto

declare batches.simps [simp del]

lemma concat_batches: "0 < n \<Longrightarrow> concat (batches n xs) = xs"
proof (induction n xs rule: batches.induct)
  case (1 n xs)
  then show ?case by (subst batches.simps) auto
qed

section \<open>Transition systems\<close>

text \<open>
  What a component that runs as a sequence of transactions promises: an invariant of its initial
  states that every step keeps. The client's lemmas are that it holds after any run and in every
  reachable state.
\<close>

locale invariant_system =
  fixes init :: "'s \<Rightarrow> bool"
    and step :: "'s \<Rightarrow> 's \<Rightarrow> bool"
    and inv :: "'s \<Rightarrow> bool"
  assumes inv_init: "init s \<Longrightarrow> inv s"
    and inv_step: "step s t \<Longrightarrow> inv s \<Longrightarrow> inv t"
begin

lemma run_inv: "step\<^sup>*\<^sup>* s t \<Longrightarrow> inv s \<Longrightarrow> inv t"
  by (induction rule: rtranclp_induct) (auto intro: inv_step)

lemma reachable_inv: "init s \<Longrightarrow> step\<^sup>*\<^sup>* s t \<Longrightarrow> inv t"
  by (auto intro: run_inv inv_init)

end

text \<open>
  A component that implements a specification: an abstraction of its states under which every step
  is a run of the specification's, as long as the component's own invariant holds. The client's
  lemma is that every reachable state abstracts to one the specification reaches.
\<close>

locale simulation =
  fixes cinit :: "'c \<Rightarrow> bool"
    and cstep :: "'c \<Rightarrow> 'c \<Rightarrow> bool"
    and cinv :: "'c \<Rightarrow> bool"
    and ainit :: "'a \<Rightarrow> bool"
    and astep :: "'a \<Rightarrow> 'a \<Rightarrow> bool"
    and abs_of :: "'c \<Rightarrow> 'a"
  assumes cinit_inv: "cinit s \<Longrightarrow> cinv s"
    and cinit_abs: "cinit s \<Longrightarrow> ainit (abs_of s)"
    and cstep_inv: "cstep s t \<Longrightarrow> cinv s \<Longrightarrow> cinv t"
    and cstep_abs: "cstep s t \<Longrightarrow> cinv s \<Longrightarrow> astep\<^sup>*\<^sup>* (abs_of s) (abs_of t)"
begin

lemma run_sim: "cstep\<^sup>*\<^sup>* s t \<Longrightarrow> cinv s \<Longrightarrow> cinv t \<and> astep\<^sup>*\<^sup>* (abs_of s) (abs_of t)"
proof (induction rule: rtranclp_induct)
  case base
  then show ?case by simp
next
  case (step t u)
  then have t: "cinv t" "astep\<^sup>*\<^sup>* (abs_of s) (abs_of t)" by auto
  with step.hyps(2) show ?case using cstep_inv cstep_abs by (meson rtranclp_trans)
qed

lemma reachable_sim:
  "cinit s \<Longrightarrow> cstep\<^sup>*\<^sup>* s t \<Longrightarrow> \<exists>a. ainit a \<and> astep\<^sup>*\<^sup>* a (abs_of t)"
  using run_sim cinit_inv cinit_abs by blast

lemma reachable_transfers:
  assumes "\<And>a b. astep a b \<Longrightarrow> ainv a \<Longrightarrow> ainv b" and "\<And>a. ainit a \<Longrightarrow> ainv a"
    and "cinit s" and "cstep\<^sup>*\<^sup>* s t"
  shows "ainv (abs_of t)"
proof -
  obtain a where "ainit a" and run: "astep\<^sup>*\<^sup>* a (abs_of t)" using reachable_sim assms(3,4) by blast
  from run show ?thesis
    by (induction rule: rtranclp_induct) (use assms(1,2) \<open>ainit a\<close> in blast)+
qed

end

sublocale simulation \<subseteq> concrete: invariant_system cinit cstep cinv
  by unfold_locales (auto intro: cinit_inv cstep_inv)

section \<open>Versioned aggregates\<close>

text \<open>
  What every aggregate promises the repository that stores it: a command moves its version by at
  most one and never back, and only appends to the events it has not published. The client's
  lemmas lift both to a sequence of commands run in one transaction.
\<close>

locale versioned_aggregate =
  fixes step :: "'c \<Rightarrow> ('s, 'e) aggregate \<Rightarrow> 'f + ('s, 'e) aggregate"
    and version :: "'s \<Rightarrow> int"
  assumes step_version:
      "step cmd a = Inr a' \<Longrightarrow>
        version (current a') = version (current a) \<or> version (current a') = version (current a) + 1"
    and step_events: "step cmd a = Inr a' \<Longrightarrow> \<exists>es. uncommitted a' = uncommitted a @ es"
begin

lemma step_version_mono: "step cmd a = Inr a' \<Longrightarrow> version (current a) \<le> version (current a')"
  using step_version by force

lemma run_version_mono: "foldE step cmds a = Inr a' \<Longrightarrow> version (current a) \<le> version (current a')"
  by (rule foldE_invariant [where P = "\<lambda>x. version (current a) \<le> version (current x)"])
    (auto dest: step_version_mono)

lemma run_version_bound:
  "foldE step cmds a = Inr a' \<Longrightarrow>
    version (current a') \<le> version (current a) + int (length cmds)"
proof (induction cmds arbitrary: a)
  case Nil
  then show ?case by simp
next
  case (Cons cmd cmds)
  then obtain b where b: "step cmd a = Inr b" and rest: "foldE step cmds b = Inr a'"
    by (auto simp: bindE_eq_Inr)
  from step_version [OF b] have "version (current b) \<le> version (current a) + 1" by auto
  with Cons.IH [OF rest] show ?case by simp
qed

lemma run_events: "foldE step cmds a = Inr a' \<Longrightarrow> \<exists>es. uncommitted a' = uncommitted a @ es"
  by (rule foldE_invariant [where P = "\<lambda>x. \<exists>es. uncommitted x = uncommitted a @ es"])
    (auto dest!: step_events)

end

end
