(* ===== verification/Core_Api.thy ===== *)
theory Core_Api
  imports Prelude
begin

text \<open>
  The vocabulary ticketing takes from the package \<open>@arthome/core\<close> and the functions it calls
  there. The package is not part of the repository: its enumerations are the members the sources
  name (\<open>apps/ticketing/src/wire.ts\<close> lists several of them exhaustively), and its functions are
  fields of the records below, arguments of every definition that calls them. What the code relies
  on of them is stated by the \<open>\<dots>_laws\<close> predicates at the end, each with the place that documents it.
\<close>

section \<open>Enumerations\<close>

datatype price_tier = Tier_Full | Tier_Reduced | Tier_Support

datatype date_outcome = Outcome_Postponed | Outcome_Cancelled | Outcome_Interrupted

datatype refund_reason =
    Refund_Viewer_Request
  | Refund_Date_Cancelled
  | Refund_Account_Deletion
  | Refund_Goodwill
  | Refund_Duplicate
  | Refund_Dispute
  | Refund_Hold_Expired_Capacity_Lost

datatype seat_cancel_reason = Cancel_Viewer_Request | Cancel_Date_Cancelled | Cancel_Account_Deletion

datatype credit_origin = Credit_Interrupted_Date | Credit_Goodwill

datatype credit_state = Credit_Issued

datatype order_state =
    Order_Pending
  | Order_Awaiting_Action
  | Order_Processing
  | Order_Paid
  | Order_Partially_Refunded
  | Order_Refunded
  | Order_Failed
  | Order_Disputed

datatype seat_state = Seat_Active | Seat_Cancelled | Seat_Refunded | Seat_Credited

datatype seat_hold_state = Hold_Active | Hold_Consumed | Hold_Released | Hold_Expired

datatype seat_hold_origin = Origin_Checkout

datatype waitlist_entry_state =
    Entry_Waiting
  | Entry_Notified
  | Entry_Left
  | Entry_Lapsed
  | Entry_Converted
  | Entry_Closed

datatype order_error_code =
    Code_Sold_Out
  | Code_Sales_Closed
  | Code_Payment_Declined
  | Code_Price_Stale
  | Code_Tier_Unavailable
  | Code_Late_Entry_Unacknowledged
  | Code_Seat_Not_Active
  | Code_Seat_Cancel_Deadline_Passed
  | Code_Refund_Amount_Exceeds_Remaining
  | Code_Waitlist_Not_Sold_Out

datatype refund_method = Original_Payment_Method | Account_Credit

datatype intent_status =
    Intent_Succeeded
  | Intent_Requires_Action
  | Intent_Processing
  | Intent_Declined

datatype payment_event_kind =
    Event_Intent_Succeeded
  | Event_Intent_Requires_Action
  | Event_Intent_Processing
  | Event_Intent_Failed
  | Event_Intent_Cancelled
  | Event_Refund_Succeeded
  | Event_Dispute_Opened
  | Event_Unhandled

datatype replay_state = Replay_Pending | Replay_Online | Replay_Closed | Replay_Withdrawn

datatype replay_policy = Policy_Included | Policy_Subscription | Policy_Unit | Policy_None

datatype replay_access_origin = Access_Seat

datatype replay_access_revocation_reason = Revoked_Replay_Withdrawn

section \<open>Values\<close>

text \<open>Amounts are integers of minor units; the code keeps them in the safe range of a JS number.\<close>

record money =
  amount_minor :: int
  currency_code :: string

record tier_price =
  tp_tier :: price_tier
  tp_amount :: money
  tp_active :: bool

record order_quote_core =
  tier_total :: money
  service_fee :: money
  discount :: money
  total :: money

record order_quote = order_quote_core +
  unit_price :: money

record service_fee_schedule =
  per_seat :: money
  rate_bps :: int

record late_entry =
  started_at :: instant
  minutes_elapsed :: int
  late_sales_end_at :: instant

record gauge =
  g_capacity_total :: int
  g_seats_sold :: int
  g_seats_held :: int
  g_waitlist_count :: int
  g_priority_pool_seats :: int

record waitlist_conditions =
  public_seats_available :: int
  wc_sales_end_at :: instant
  wc_outcome :: "date_outcome option"
  wc_now :: instant

section \<open>Failures\<close>

text \<open>
  The codes a \<open>DomainError\<close> or a refusal carries, with their parameters; \<open>Core_Code\<close> is any code
  thrown by an assertion of core itself.
\<close>

datatype error_code =
    HOLD_QUANTITY_INVALID int
  | STATE_CONFLICT int
  | SOLD_OUT
  | SALES_CLOSED instant
  | TIER_UNAVAILABLE
  | PRICE_STALE int int string
  | LATE_ENTRY_UNACKNOWLEDGED late_entry
  | PAYMENT_DECLINED "string option"
  | SEAT_NOT_ACTIVE seat_state
  | PRICES_LOCKED instant
  | OUTCOME_FINAL date_outcome
  | NOT_FOUND
  | FORBIDDEN
  | IDEMPOTENCY_KEY_REUSED
  | IDEMPOTENCY_IN_FLIGHT int
  | SERVICE_UNAVAILABLE
  | UNAUTHENTICATED
  | SCHEMA_INVALID
  | ORDER_STATE_CONFLICT int order_state
  | OUTCOME_CONFLICT int "date_outcome option"
  | REFUND_AMOUNT_EXCEEDS_REMAINING int string
  | EMAIL_TAKEN
  | INVALID_CREDENTIALS
  | VERIFICATION_LINK_INVALID
  | Core_Code string

text \<open>
  What a command may throw: a domain error, a refusal of the HTTP edge, a plain \<open>Error\<close>, a
  constraint of the database, or a signal its caller catches: two of the purchase, one of a seat's
  cancellation and one of the payment events, for an event no retry can apply.
\<close>

datatype failure =
    Domain_Error error_code
  | Refusal error_code
  | Plain_Error string
  | Constraint_Violation string
  | Key_Bound_Meanwhile
  | Renewal_Sold_Out ident ident
  | Date_Cancelled_Meanwhile
  | Unappliable string

type_synonym 'a result = "failure + 'a"

section \<open>The functions called\<close>

record sales_core =
  is_before :: "instant \<Rightarrow> instant \<Rightarrow> bool"
  assert_prices_share_currency :: "tier_price list \<Rightarrow> failure option"
  assert_tier_widens :: "int \<Rightarrow> int \<Rightarrow> failure option"
  assert_technical_provision_covers :: "int \<Rightarrow> int option \<Rightarrow> instant option \<Rightarrow> failure option"
  assert_technical_provision_recordable ::
    "int \<Rightarrow> int \<Rightarrow> instant option \<Rightarrow> instant \<Rightarrow> failure option"
  late_entry_of :: "instant option \<Rightarrow> instant \<Rightarrow> late_entry option"
  priority_until_of :: "instant \<Rightarrow> instant"
  sales_ended_by :: "instant option \<Rightarrow> instant \<Rightarrow> bool"
  seat_sales_end_at :: "instant \<Rightarrow> instant"
  requires_technical_provision :: "int \<Rightarrow> bool"
  technical_provision_threshold :: int
  provision_revisable_until :: "instant \<Rightarrow> instant"
  price_of_tier :: "tier_price list \<Rightarrow> price_tier \<Rightarrow> money option"
  quote_seats ::
    "money \<Rightarrow> int \<Rightarrow> int \<Rightarrow> string option \<Rightarrow> service_fee_schedule \<Rightarrow> failure + order_quote_core"
  zero_money :: "string \<Rightarrow> money"
  basis_points :: "int \<Rightarrow> int"
  gauge_seats_available :: "gauge \<Rightarrow> int"
  fill_rate_bps :: "gauge \<Rightarrow> int"
  availability_kind :: "gauge \<Rightarrow> string"
  lowest_active_price :: "tier_price list \<Rightarrow> money option"
  money_of :: "int \<Rightarrow> string \<Rightarrow> money"
  availability_publish_min_interval_seconds :: int

record order_core =
  order_state_moves_forward :: "order_state \<Rightarrow> order_state \<Rightarrow> bool"
  seat_state_may_move :: "seat_state \<Rightarrow> seat_state \<Rightarrow> bool"
  refund_idempotency_key :: "ident \<Rightarrow> string"
  refundable_remaining :: "money \<Rightarrow> money \<Rightarrow> money"
  assert_refund_within_remaining :: "money \<Rightarrow> money \<Rightarrow> failure option"
  money_sum :: "money list \<Rightarrow> string \<Rightarrow> money"
  money_compare :: "money \<Rightarrow> money \<Rightarrow> int"
  money_subtract :: "money \<Rightarrow> money \<Rightarrow> money"

record waitlist_core =
  is_priority_window_open :: "instant option \<Rightarrow> instant \<Rightarrow> bool"
  waitlist_entry_may_move :: "waitlist_entry_state \<Rightarrow> waitlist_entry_state \<Rightarrow> bool"
  waitlist_state_on_join :: "bool \<Rightarrow> waitlist_entry_state"
  assert_waitlist_joinable :: "waitlist_conditions \<Rightarrow> failure option"
  outcome_ends_waitlist :: "date_outcome \<Rightarrow> bool"
  waitlist_priority_hours :: int
  waitlist_notified_accounts_max :: nat

record checkout_core =
  hold_for :: "int \<Rightarrow> instant \<Rightarrow> failure + (int \<times> instant)"
  checkout_intent_expiry :: "instant \<Rightarrow> instant"
  payment_return_path :: "ident \<Rightarrow> string"
  seat_cancel_deadline :: "instant \<Rightarrow> instant"
  refund_reason_on_date :: "date_outcome option \<Rightarrow> refund_reason \<Rightarrow> refund_reason"
  order_reference :: "instant \<Rightarrow> int \<Rightarrow> string"
  seat_cancel_reason_of :: "refund_reason \<Rightarrow> seat_cancel_reason option"
  refund_delay_code_of :: "refund_method \<Rightarrow> string option"
  collates :: "string \<Rightarrow> string \<Rightarrow> bool"

record refund_core =
  seat_shares_of :: "money \<Rightarrow> int \<Rightarrow> money list"
  money_min :: "money \<Rightarrow> money \<Rightarrow> money"
  assert_seat_cancellable :: "seat_state \<Rightarrow> instant option \<Rightarrow> instant \<Rightarrow> failure option"
  refund_cancels_seat :: "refund_reason \<Rightarrow> bool"
  credit_amount_for :: "money \<Rightarrow> money"
  credit_expires_at :: "instant \<Rightarrow> instant"
  intent_cancel_idempotency_key :: "ident \<Rightarrow> string"
  grants_replay_on_live_end :: "replay_policy \<Rightarrow> instant \<Rightarrow> date_outcome option \<Rightarrow> bool"

record core =
  sales_rules :: sales_core
  order_rules :: order_core
  waitlist_rules :: waitlist_core
  checkout_rules :: checkout_core
  refund_rules :: refund_core

section \<open>What the code relies on\<close>

text \<open>
  Instants are compared by time (\<open>isBefore\<close>); a sale has ended by \<open>now\<close> when it has an end that is
  not after \<open>now\<close> (D-089: the hold's statement repeats it as \<open>sales_end_at > now\<close>).
\<close>

definition time_laws :: "sales_core \<Rightarrow> bool" where
  "time_laws c \<longleftrightarrow>
     (\<forall>a b. is_before c a b \<longleftrightarrow> a < b) \<and>
     (\<forall>e now. sales_ended_by c e now \<longleftrightarrow> (\<exists>t. e = Some t \<and> t \<le> now))"

text \<open>\<open>money(amountMinor, currencyCode)\<close> builds the amount it is given.\<close>

definition money_of_laws :: "sales_core \<Rightarrow> bool" where
  "money_of_laws c \<longleftrightarrow> (\<forall>n cur. money_of c n cur = \<lparr>amount_minor = n, currency_code = cur\<rparr>)"

text \<open>
  Money of one currency adds, subtracts and compares as its minor units do; what is left to refund
  is the total less every refund owed or made (handover 0m), and a refund past it is refused with
  \<open>refund.amount_exceeds_remaining\<close> (handover 0o).
\<close>

definition money_laws :: "order_core \<Rightarrow> bool" where
  "money_laws c \<longleftrightarrow>
     (\<forall>ms cur. list_all (\<lambda>m. currency_code m = cur) ms \<longrightarrow>
        money_sum c ms cur = \<lparr>amount_minor = (\<Sum>m\<leftarrow>ms. amount_minor m), currency_code = cur\<rparr>) \<and>
     (\<forall>a b. currency_code a = currency_code b \<longrightarrow>
        (0 < money_compare c a b \<longleftrightarrow> amount_minor b < amount_minor a) \<and>
        (money_compare c a b = 0 \<longleftrightarrow> amount_minor a = amount_minor b) \<and>
        money_subtract c a b =
          \<lparr>amount_minor = amount_minor a - amount_minor b, currency_code = currency_code a\<rparr>) \<and>
     (\<forall>a b. currency_code a = currency_code b \<and> amount_minor b \<le> amount_minor a \<longrightarrow>
        refundable_remaining c a b =
          \<lparr>amount_minor = amount_minor a - amount_minor b, currency_code = currency_code a\<rparr>) \<and>
     (\<forall>a r. assert_refund_within_remaining c a r = None \<longrightarrow>
        currency_code a = currency_code r \<and> amount_minor a \<le> amount_minor r)"

text \<open>
  The states of an order move forward only (data-model.md 7.3, adr-payments.md 8): a strict order,
  in which a payment is ahead of every state that waits for it and of a failure (D-082), and behind
  the refunds and the dispute.
\<close>

definition forward_laws :: "order_core \<Rightarrow> bool" where
  "forward_laws c \<longleftrightarrow>
     (\<forall>a. \<not> order_state_moves_forward c a a) \<and>
     (\<forall>a b d. order_state_moves_forward c a b \<and> order_state_moves_forward c b d \<longrightarrow>
        order_state_moves_forward c a d) \<and>
     list_all (\<lambda>a. order_state_moves_forward c a Order_Paid)
       [Order_Pending, Order_Awaiting_Action, Order_Processing, Order_Failed] \<and>
     order_state_moves_forward c Order_Paid Order_Partially_Refunded \<and>
     order_state_moves_forward c Order_Partially_Refunded Order_Refunded \<and>
     order_state_moves_forward c Order_Refunded Order_Disputed"

text \<open>
  A seat leaves \<open>active\<close> once, by a cancellation or a credit, and a cancelled one becomes
  \<open>refunded\<close> when its refund is made (data-model.md 3.3).
\<close>

definition seat_move_laws :: "order_core \<Rightarrow> bool" where
  "seat_move_laws c \<longleftrightarrow>
     (\<forall>s. seat_state_may_move c s Seat_Cancelled \<longleftrightarrow> s = Seat_Active) \<and>
     (\<forall>s. seat_state_may_move c s Seat_Credited \<longleftrightarrow> s = Seat_Active) \<and>
     (\<forall>s. seat_state_may_move c s Seat_Refunded \<longleftrightarrow> s = Seat_Cancelled)"

text \<open>A window is open while its end is after \<open>now\<close> (D-083), as the pool's statement reads it.\<close>

definition window_laws :: "waitlist_core \<Rightarrow> bool" where
  "window_laws c \<longleftrightarrow>
     (\<forall>u now. is_priority_window_open c u now \<longleftrightarrow> (\<exists>t. u = Some t \<and> now < t)) \<and>
     waitlist_state_on_join c True = Entry_Notified \<and>
     waitlist_state_on_join c False = Entry_Waiting"

lemma money_laws_sum:
  assumes "money_laws c" and "list_all (\<lambda>m. currency_code m = cur) ms"
  shows "money_sum c ms cur = \<lparr>amount_minor = (\<Sum>m\<leftarrow>ms. amount_minor m), currency_code = cur\<rparr>"
  using assms unfolding money_laws_def by blast

lemma money_laws_compare:
  assumes "money_laws c" and "currency_code a = currency_code b"
  shows "0 < money_compare c a b \<longleftrightarrow> amount_minor b < amount_minor a"
    and "money_compare c a b = 0 \<longleftrightarrow> amount_minor a = amount_minor b"
  using assms unfolding money_laws_def by blast+

lemma money_laws_subtract:
  assumes "money_laws c" and "currency_code a = currency_code b"
  shows "money_subtract c a b =
    \<lparr>amount_minor = amount_minor a - amount_minor b, currency_code = currency_code a\<rparr>"
  using assms unfolding money_laws_def by blast

lemma money_laws_remaining:
  assumes "money_laws c" and "currency_code a = currency_code b"
    and "amount_minor b \<le> amount_minor a"
  shows "refundable_remaining c a b =
    \<lparr>amount_minor = amount_minor a - amount_minor b, currency_code = currency_code a\<rparr>"
  using assms unfolding money_laws_def by blast

lemma money_laws_within:
  assumes "money_laws c" and "assert_refund_within_remaining c a r = None"
  shows "currency_code a = currency_code r" and "amount_minor a \<le> amount_minor r"
  using assms unfolding money_laws_def by blast+

lemma forward_laws_irrefl: "forward_laws c \<Longrightarrow> \<not> order_state_moves_forward c a a"
  unfolding forward_laws_def by blast

lemma forward_laws_trans:
  "forward_laws c \<Longrightarrow> order_state_moves_forward c a b \<Longrightarrow> order_state_moves_forward c b d \<Longrightarrow>
    order_state_moves_forward c a d"
  unfolding forward_laws_def by blast

lemma forward_laws_paid_ahead:
  assumes "forward_laws c"
    and "s \<in> {Order_Pending, Order_Awaiting_Action, Order_Processing, Order_Failed}"
  shows "order_state_moves_forward c s Order_Paid"
proof -
  have "list_all (\<lambda>a. order_state_moves_forward c a Order_Paid)
      [Order_Pending, Order_Awaiting_Action, Order_Processing, Order_Failed]"
    using assms(1) unfolding forward_laws_def by blast
  with assms(2) show ?thesis by auto
qed

lemma forward_laws_past_paid:
  assumes "forward_laws c"
    and "s \<in> {Order_Paid, Order_Partially_Refunded, Order_Refunded, Order_Disputed}"
  shows "\<not> order_state_moves_forward c s Order_Paid"
proof -
  let ?m = "order_state_moves_forward c"
  have steps: "?m Order_Paid Order_Partially_Refunded" "?m Order_Partially_Refunded Order_Refunded"
    "?m Order_Refunded Order_Disputed"
    using assms(1) unfolding forward_laws_def by blast+
  note tr = forward_laws_trans [OF assms(1)]
  have "?m Order_Paid s \<or> s = Order_Paid"
    using assms(2) steps tr [OF steps(1,2)] tr [OF tr [OF steps(1,2)] steps(3)] by blast
  then show ?thesis
    using forward_laws_irrefl [OF assms(1)] tr by blast
qed

lemma forward_laws_accepts_iff:
  assumes "forward_laws c"
  shows "order_state_moves_forward c s Order_Paid \<longleftrightarrow>
    s \<in> {Order_Pending, Order_Awaiting_Action, Order_Processing, Order_Failed}"
  using forward_laws_paid_ahead [OF assms] forward_laws_past_paid [OF assms]
  by (cases s) auto

text \<open>
  A hold is placed for the quantity asked and expires with its intent, one instant for both
  (data-model.md 3.2, seat-hold.aggregate.spec.ts); a quantity that is not positive is refused.
\<close>

definition hold_laws :: "checkout_core \<Rightarrow> bool" where
  "hold_laws c \<longleftrightarrow>
     (\<forall>q e q' e'. hold_for c q e = Inr (q', e') \<longrightarrow> q' = q \<and> e' = e \<and> 0 < q)"

text \<open>
  A total is split over a number of seats without a remainder, each share of its currency and none
  negative (handover 0n, 0o); the lesser of two amounts of one currency is one of them. A seat can be
  cancelled while it is active (handover 0o).
\<close>

definition share_laws :: "refund_core \<Rightarrow> bool" where
  "share_laws c \<longleftrightarrow>
     (\<forall>m n. 0 < n \<longrightarrow> int (length (seat_shares_of c m n)) = n \<and>
        (\<Sum>x\<leftarrow>seat_shares_of c m n. amount_minor x) = amount_minor m \<and>
        list_all (\<lambda>x. currency_code x = currency_code m) (seat_shares_of c m n) \<and>
        (0 \<le> amount_minor m \<longrightarrow> list_all (\<lambda>x. 0 \<le> amount_minor x) (seat_shares_of c m n))) \<and>
     (\<forall>a b. currency_code a = currency_code b \<longrightarrow>
        money_min c a b = (if amount_minor a \<le> amount_minor b then a else b)) \<and>
     (\<forall>s d now. assert_seat_cancellable c s d now = None \<longrightarrow> s = Seat_Active)"

section \<open>An instance\<close>

text \<open>
  A concrete instance of the functions that meets every law above: the ranks of the order's states,
  integer arithmetic on minor units, and fixed delays. The witnesses of the properties use it.
\<close>

fun order_rank :: "order_state \<Rightarrow> nat" where
  "order_rank Order_Pending = 0"
| "order_rank Order_Awaiting_Action = 1"
| "order_rank Order_Processing = 2"
| "order_rank Order_Failed = 3"
| "order_rank Order_Paid = 4"
| "order_rank Order_Partially_Refunded = 5"
| "order_rank Order_Refunded = 6"
| "order_rank Order_Disputed = 7"

definition sample_order_core :: order_core where
  "sample_order_core = \<lparr>
     order_state_moves_forward = (\<lambda>a b. order_rank a < order_rank b),
     seat_state_may_move = (\<lambda>a b. (a = Seat_Active \<and> b \<in> {Seat_Cancelled, Seat_Credited})
       \<or> (a = Seat_Cancelled \<and> b = Seat_Refunded)),
     refund_idempotency_key = (\<lambda>i. ''refund:'' @ i),
     refundable_remaining = (\<lambda>t r. t\<lparr>amount_minor := amount_minor t - amount_minor r\<rparr>),
     assert_refund_within_remaining = (\<lambda>a r.
       if currency_code a = currency_code r \<and> amount_minor a \<le> amount_minor r then None
       else Some (Domain_Error (Core_Code ''refund.amount_exceeds_remaining''))),
     money_sum = (\<lambda>ms cur. \<lparr>amount_minor = (\<Sum>m\<leftarrow>ms. amount_minor m), currency_code = cur\<rparr>),
     money_compare = (\<lambda>a b. amount_minor a - amount_minor b),
     money_subtract = (\<lambda>a b. a\<lparr>amount_minor := amount_minor a - amount_minor b\<rparr>)\<rparr>"

lemma sample_money_laws: "money_laws sample_order_core"
  unfolding money_laws_def sample_order_core_def by (simp split: if_splits)

lemma sample_forward_laws: "forward_laws sample_order_core"
  unfolding forward_laws_def sample_order_core_def by simp

lemma sample_seat_move_laws: "seat_move_laws sample_order_core"
  unfolding seat_move_laws_def sample_order_core_def by simp

definition sample_sales_core :: sales_core where
  "sample_sales_core = \<lparr>
     is_before = (<),
     assert_prices_share_currency = (\<lambda>_. None),
     assert_tier_widens = (\<lambda>from to.
       if from < to then None else Some (Domain_Error (Core_Code ''capacity.tier_must_widen''))),
     assert_technical_provision_covers = (\<lambda>_ _ _. None),
     assert_technical_provision_recordable = (\<lambda>_ _ _ _. None),
     late_entry_of = (\<lambda>s now. case s of None \<Rightarrow> None | Some t \<Rightarrow>
       if now < t then None
       else Some \<lparr>started_at = t, minutes_elapsed = (now - t) div 60000,
                  late_sales_end_at = t + 1800000\<rparr>),
     priority_until_of = (\<lambda>now. now + 172800000),
     sales_ended_by = (\<lambda>e now. case e of None \<Rightarrow> False | Some t \<Rightarrow> t \<le> now),
     seat_sales_end_at = (\<lambda>t. t + 1800000),
     requires_technical_provision = (\<lambda>n. 10000 < n),
     technical_provision_threshold = 10000,
     provision_revisable_until = (\<lambda>t. t - 604800000),
     price_of_tier = (\<lambda>ts t. map_option tp_amount (find (\<lambda>p. tp_tier p = t \<and> tp_active p) ts)),
     quote_seats = (\<lambda>u n _ _ f. Inr \<lparr>
       tier_total = u\<lparr>amount_minor := amount_minor u * n\<rparr>,
       service_fee = per_seat f,
       discount = u\<lparr>amount_minor := 0\<rparr>,
       total = u\<lparr>amount_minor := amount_minor u * n\<rparr>\<rparr>),
     zero_money = (\<lambda>cur. \<lparr>amount_minor = 0, currency_code = cur\<rparr>),
     basis_points = (\<lambda>n. n),
     gauge_seats_available = (\<lambda>g.
       g_capacity_total g - g_seats_sold g - g_seats_held g - g_priority_pool_seats g),
     fill_rate_bps = (\<lambda>g. g_seats_sold g * 10000 div max 1 (g_capacity_total g)),
     availability_kind = (\<lambda>g. if 0 < g_capacity_total g - g_seats_sold g - g_seats_held g
       - g_priority_pool_seats g then ''seats_available'' else ''sold_out''),
     lowest_active_price = (\<lambda>_. None),
     money_of = (\<lambda>n cur. \<lparr>amount_minor = n, currency_code = cur\<rparr>),
     availability_publish_min_interval_seconds = 2\<rparr>"

lemma sample_time_laws: "time_laws sample_sales_core"
  by (auto simp: time_laws_def sample_sales_core_def split: option.splits)

lemma sample_money_of_laws: "money_of_laws sample_sales_core"
  by (simp add: money_of_laws_def sample_sales_core_def)

definition sample_waitlist_core :: waitlist_core where
  "sample_waitlist_core = \<lparr>
     is_priority_window_open = (\<lambda>u now. case u of None \<Rightarrow> False | Some t \<Rightarrow> now < t),
     waitlist_entry_may_move = (\<lambda>a b.
       (a \<in> {Entry_Waiting, Entry_Notified} \<and> b \<noteq> Entry_Waiting)
       \<or> (a \<in> {Entry_Left, Entry_Lapsed, Entry_Converted} \<and> b \<in> {Entry_Waiting, Entry_Notified})),
     waitlist_state_on_join = (\<lambda>w. if w then Entry_Notified else Entry_Waiting),
     assert_waitlist_joinable = (\<lambda>_. None),
     outcome_ends_waitlist = (\<lambda>d. d \<noteq> Outcome_Postponed),
     waitlist_priority_hours = 48,
     waitlist_notified_accounts_max = 2\<rparr>"

lemma sample_window_laws: "window_laws sample_waitlist_core"
  by (auto simp: window_laws_def sample_waitlist_core_def split: option.splits)

definition sample_checkout_core :: checkout_core where
  "sample_checkout_core = \<lparr>
     hold_for = (\<lambda>q e. if 0 < q then Inr (q, e) else Inl (Domain_Error (HOLD_QUANTITY_INVALID q))),
     checkout_intent_expiry = (\<lambda>now. now + 600000),
     payment_return_path = (\<lambda>i. ''/orders/'' @ i),
     seat_cancel_deadline = (\<lambda>t. t - 86400000),
     refund_reason_on_date = (\<lambda>d r. if d = Some Outcome_Cancelled then Refund_Date_Cancelled else r),
     order_reference = (\<lambda>_ n. replicate (nat n) CHR ''I''),
     seat_cancel_reason_of = (\<lambda>r. case r of
         Refund_Viewer_Request \<Rightarrow> Some Cancel_Viewer_Request
       | Refund_Date_Cancelled \<Rightarrow> Some Cancel_Date_Cancelled
       | Refund_Account_Deletion \<Rightarrow> Some Cancel_Account_Deletion
       | _ \<Rightarrow> None),
     refund_delay_code_of = (\<lambda>_. None),
     collates = (\<lambda>a b. length a \<le> length b)\<rparr>"

lemma sample_hold_laws: "hold_laws sample_checkout_core"
  by (auto simp: hold_laws_def sample_checkout_core_def split: if_splits)

text \<open>The first share takes what the even split leaves.\<close>

definition sample_refund_core :: refund_core where
  "sample_refund_core = \<lparr>
     seat_shares_of = (\<lambda>m n.
       if n \<le> 0 then []
       else m\<lparr>amount_minor := amount_minor m - (n - 1) * (amount_minor m div n)\<rparr> #
         replicate (nat (n - 1)) (m\<lparr>amount_minor := amount_minor m div n\<rparr>)),
     money_min = (\<lambda>a b. if amount_minor a \<le> amount_minor b then a else b),
     assert_seat_cancellable = (\<lambda>s d now.
       if s \<noteq> Seat_Active then Some (Domain_Error (SEAT_NOT_ACTIVE s))
       else case d of None \<Rightarrow> None
         | Some t \<Rightarrow> if now < t then None else Some (Domain_Error (Core_Code ''seat.cancel_deadline_passed''))),
     refund_cancels_seat = (\<lambda>r. r = Refund_Date_Cancelled),
     credit_amount_for = (\<lambda>m. m),
     credit_expires_at = (\<lambda>now. now + 31536000000),
     intent_cancel_idempotency_key = (\<lambda>i. ''cancel:'' @ i),
     grants_replay_on_live_end = (\<lambda>p ms out. p = Policy_Included \<and> 0 < ms \<and>
       (out = None \<or> out = Some Outcome_Postponed))\<rparr>"

lemma sample_share_laws: "share_laws sample_refund_core"
proof -
  have le: "(n - 1) * (a div n) \<le> a" if "0 < n" "0 \<le> a" for a n :: int
  proof -
    have "(n - 1) * (a div n) = n * (a div n) - a div n" by (simp add: algebra_simps)
    moreover have "0 \<le> a div n" using that by (simp add: pos_imp_zdiv_nonneg_iff)
    moreover have "n * (a div n) \<le> a" using that(1) by (simp add: minus_mod_eq_mult_div [symmetric])
    ultimately show ?thesis by linarith
  qed
  show ?thesis
    unfolding share_laws_def sample_refund_core_def
    by (auto simp: sum_list_replicate list_all_iff le pos_imp_zdiv_nonneg_iff split: if_splits)
qed

definition sample_core :: core where
  "sample_core = \<lparr>sales_rules = sample_sales_core, order_rules = sample_order_core,
     waitlist_rules = sample_waitlist_core, checkout_rules = sample_checkout_core,
     refund_rules = sample_refund_core\<rparr>"

end
