(* ===== verification/Transactions.thy ===== *)
theory Transactions
  imports Core_Api
begin

text \<open>
  \<open>libs/transactions\<close>: the runner a command's transaction opens, the version each aggregate was
  loaded or last written at, and the version-conditional save every repository uses.

  A transaction is a function of the committed tables it finds. What it writes it holds locked to
  its commit, so the rows it changed are the ones the commit finds; what it reads without a lock may
  be older, and is then a table of its own (the \<open>seen\<close> arguments of the handlers). A transaction
  that throws leaves the tables as they were.
\<close>

section \<open>Tracked aggregates\<close>

text \<open>
  An aggregate with what the adapter keeps of it: the version it was loaded or last written at,
  \<open>None\<close> for one this transaction created, and the snapshot the store held then.
\<close>

record ('s, 'e) tracked =
  root :: "('s, 'e) aggregate"
  version_of :: "int option"
  stored :: "'s option"

definition loaded :: "('s, 'e) aggregate \<Rightarrow> int \<Rightarrow> ('s, 'e) tracked" where
  "loaded a version = \<lparr>root = a, version_of = Some version, stored = Some (current a)\<rparr>"

definition created :: "('s, 'e) aggregate \<Rightarrow> ('s, 'e) tracked" where
  "created a = \<lparr>root = a, version_of = None, stored = None\<rparr>"

definition written :: "int \<Rightarrow> ('s, 'e) tracked \<Rightarrow> ('s, 'e) tracked" where
  "written version t = t\<lparr>version_of := Some version, stored := Some (current (root t))\<rparr>"

definition with_root :: "('s, 'e) aggregate \<Rightarrow> ('s, 'e) tracked \<Rightarrow> ('s, 'e) tracked" where
  "with_root a t = t\<lparr>root := a\<rparr>"

lemma tracked_simps [simp]:
  "root (loaded a v) = a" "version_of (loaded a v) = Some v" "stored (loaded a v) = Some (current a)"
  "root (created a) = a" "version_of (created a) = None" "stored (created a) = None"
  "root (written v t) = root t" "version_of (written v t) = Some v"
  "stored (written v t) = Some (current (root t))"
  "root (with_root a t) = a" "version_of (with_root a t) = version_of t"
  "stored (with_root a t) = stored t"
  by (simp_all add: loaded_def created_def written_def with_root_def)

section \<open>The version-conditional save\<close>

definition save_versioned ::
    "('r \<Rightarrow> bool) \<Rightarrow> ('r \<Rightarrow> int) \<Rightarrow> int \<Rightarrow> ('r \<Rightarrow> 'r) \<Rightarrow> 'r list \<Rightarrow> 'r list result" where
  "save_versioned key version loaded_version columns t =
     (let found = (\<lambda>r. key r \<and> version r = loaded_version) in
      if tbl_affected found t = 1 then Inr (tbl_update found columns t)
      else case find key t of
          None \<Rightarrow> Inl (Plain_Error ''EntityNotFoundError'')
        | Some cur \<Rightarrow> Inl (Domain_Error (STATE_CONFLICT (version cur))))"

lemma save_versioned_Inr:
  assumes "save_versioned (\<lambda>r. key r = k) version v columns t = Inr t'"
    and "distinct (map key t)"
  shows "\<exists>r \<in> set t. key r = k \<and> version r = v \<and> tbl_find key k t = Some r \<and>
    t' = tbl_update (\<lambda>x. key x = k) columns t"
proof -
  let ?p = "\<lambda>r. key r = k \<and> version r = v"
  have one: "tbl_affected ?p t = 1" and t': "t' = tbl_update ?p columns t"
    using assms(1) by (auto simp: save_versioned_def Let_def split: if_splits option.splits)
  from tbl_affected_key [OF assms(2), of ?p k] one
  obtain r where found: "tbl_find key k t = Some r" and "?p r"
    by (auto split: option.splits if_splits)
  moreover have "r \<in> set t" using tbl_find_SomeD [OF found] by blast
  moreover have "t' = tbl_update (\<lambda>x. key x = k) columns t"
    unfolding t' tbl_update_def
  proof (rule map_cong [OF refl])
    fix x assume "x \<in> set t"
    have "version x = v" if "key x = k"
    proof -
      have "tbl_find key k t = Some x" using tbl_find_unique [OF assms(2) \<open>x \<in> set t\<close>] that by simp
      with found \<open>?p r\<close> show ?thesis by simp
    qed
    then show "(if ?p x then columns x else x) = (if key x = k then columns x else x)" by simp
  qed
  ultimately show ?thesis by blast
qed

lemma save_versioned_finds:
  assumes "distinct (map key t)" and "r \<in> set t" and "key r = k" and "version r = v"
  shows "save_versioned (\<lambda>r. key r = k) version v columns t =
    Inr (tbl_update (\<lambda>r. key r = k \<and> version r = v) columns t)"
proof -
  have "tbl_affected (\<lambda>r. key r = k \<and> version r = v) t = 1"
    using tbl_affected_key [OF assms(1), of "\<lambda>r. key r = k \<and> version r = v" k]
      tbl_find_unique [OF assms(1,2)] assms(3,4) by simp
  then show ?thesis by (simp add: save_versioned_def)
qed

text \<open>
  Of two transactions that loaded a row at the same version and save it, the second is
  refused: once a save moved the version, another from the version it was loaded at throws
  \<open>STATE_CONFLICT\<close> with the version the row has now, and writes nothing.
\<close>

theorem second_save_conflicts:
  assumes "distinct (map key t)"
    and "save_versioned (\<lambda>r. key r = k) version v columns t = Inr t'"
    and "\<And>r. key (columns r) = key r" and "\<And>r. version (columns r) = v'" and "v' \<noteq> v"
  shows "save_versioned (\<lambda>r. key r = k) version v columns2 t' =
    Inl (Domain_Error (STATE_CONFLICT v'))"
proof -
  obtain r where r: "r \<in> set t" "key r = k" and found: "tbl_find key k t = Some r"
    and t': "t' = tbl_update (\<lambda>x. key x = k) columns t"
    using save_versioned_Inr [OF assms(2,1)] by blast
  have keys: "distinct (map key t')" unfolding t' using assms(1,3) by (simp add: map_tbl_update_same)
  have now: "find (\<lambda>x. key x = k) t' = Some (columns r)"
    using tbl_find_tbl_update [of "\<lambda>x. key x = k" key columns k t, OF assms(3)] found r(2)
    by (simp add: t' tbl_find_def)
  have "tbl_affected (\<lambda>x. key x = k \<and> version x = v) t' = 0"
    using tbl_affected_key [OF keys, of "\<lambda>x. key x = k \<and> version x = v" k] now assms(3,4,5) r(2)
    by (simp add: tbl_find_def)
  with now assms(4) show ?thesis by (simp add: save_versioned_def)
qed

theorem second_save_conflicts_witness:
  "save_versioned (\<lambda>r. fst r = (1::nat)) snd 1 (\<lambda>r. (fst r, 2)) [(1, 2), (2, 1)] =
    Inl (Domain_Error (STATE_CONFLICT 2))"
  by (rule second_save_conflicts [where t = "[(1, 1), (2, 1)]" and columns = "\<lambda>r. (fst r, 2)" and v' = 2])
    (auto simp: save_versioned_def tbl_affected_def)

section \<open>The runner\<close>

text \<open>
  \<open>TransactionRunner.run\<close>: refused inside another transaction; the tables \<open>work\<close> left once it
  completed, the ones it found when it threw. The domain events published after the commit have no
  subscriber in the repository.
\<close>

definition run_transaction ::
    "bool \<Rightarrow> ('db \<Rightarrow> ('a \<times> 'db) result) \<Rightarrow> 'db \<Rightarrow> 'a result \<times> 'db" where
  "run_transaction already_open work db =
     (if already_open then (Inl (Plain_Error ''a transaction is already open''), db)
      else case work db of
          Inl e \<Rightarrow> (Inl e, db)
        | Inr (x, db') \<Rightarrow> (Inr x, db'))"

lemma run_transaction_rollback:
  "fst (run_transaction already w db) = Inl e \<Longrightarrow> snd (run_transaction already w db) = db"
  by (auto simp: run_transaction_def split: sum.splits if_splits)

end
