(* ===== verification/Seat_Hold.thy ===== *)
theory Seat_Hold
  imports Core_Api
begin

text \<open>
  \<open>SeatHold\<close>, the capacity a purchase carries until it is paid
  (\<open>apps/ticketing/src/orders/seat-hold.aggregate.ts\<close>): placed active, it is consumed or released
  once. The sweeper's expiry is set-based and modelled with the orders.
\<close>

record seat_hold_snapshot =
  sh_id :: ident
  sh_date_id :: ident
  sh_account_id :: "ident option"
  sh_profile_id :: "ident option"
  sh_tier :: price_tier
  sh_quantity :: int
  sh_pool_seats :: int
  sh_origin :: seat_hold_origin
  sh_origin_ref :: ident
  sh_expires_at :: instant
  sh_state :: seat_hold_state
  sh_version :: int

record seat_hold_placement =
  shp_id :: ident
  shp_date_id :: ident
  shp_account_id :: "ident option"
  shp_profile_id :: "ident option"
  shp_tier :: price_tier
  shp_quantity :: int
  shp_origin :: seat_hold_origin
  shp_origin_ref :: ident
  shp_intent_expires_at :: instant

datatype seat_hold_event =
    SeatHoldPlaced ident ident int instant instant
  | SeatHoldConsumed ident ident int instant
  | SeatHoldReleased ident ident int instant

type_synonym seat_hold = "(seat_hold_snapshot, seat_hold_event) aggregate"

definition hold_place ::
    "checkout_core \<Rightarrow> seat_hold_placement \<Rightarrow> instant \<Rightarrow> seat_hold result" where
  "hold_place c p now =
     bindE (hold_for c (shp_quantity p) (shp_intent_expires_at p)) (\<lambda>(quantity, expires_at).
     Inr (apply_event (SeatHoldPlaced (shp_id p) (shp_date_id p) quantity expires_at now)
       (restore \<lparr>sh_id = shp_id p, sh_date_id = shp_date_id p, sh_account_id = shp_account_id p,
          sh_profile_id = shp_profile_id p, sh_tier = shp_tier p, sh_quantity = quantity,
          sh_pool_seats = 0, sh_origin = shp_origin p, sh_origin_ref = shp_origin_ref p,
          sh_expires_at = expires_at, sh_state = Hold_Active, sh_version = 1\<rparr>)))"

definition hold_is_active :: "seat_hold_snapshot \<Rightarrow> bool" where
  "hold_is_active s \<longleftrightarrow> sh_state s = Hold_Active"

definition hold_leave :: "seat_hold_state \<Rightarrow> seat_hold \<Rightarrow> seat_hold result" where
  "hold_leave state a =
     (let s = current a in
      if \<not> hold_is_active s then Inl (Plain_Error ''hold is not active'')
      else Inr (a\<lparr>current := s\<lparr>sh_state := state, sh_version := sh_version s + 1\<rparr>\<rparr>))"

definition hold_consume :: "instant \<Rightarrow> seat_hold \<Rightarrow> seat_hold result" where
  "hold_consume now a =
     bindE (hold_leave Hold_Consumed a) (\<lambda>b.
     Inr (apply_event (SeatHoldConsumed (sh_id (current b)) (sh_date_id (current b))
            (sh_quantity (current b)) now) b))"

definition hold_release :: "instant \<Rightarrow> seat_hold \<Rightarrow> seat_hold result" where
  "hold_release now a =
     bindE (hold_leave Hold_Released a) (\<lambda>b.
     Inr (apply_event (SeatHoldReleased (sh_id (current b)) (sh_date_id (current b))
            (sh_quantity (current b)) now) b))"

datatype seat_hold_command = Consume instant | Release instant

fun seat_hold_step :: "seat_hold_command \<Rightarrow> seat_hold \<Rightarrow> seat_hold result" where
  "seat_hold_step (Consume now) a = hold_consume now a"
| "seat_hold_step (Release now) a = hold_release now a"

lemma hold_place_Inr:
  assumes "hold_place c p now = Inr a"
  shows "\<exists>q e. hold_for c (shp_quantity p) (shp_intent_expires_at p) = Inr (q, e) \<and>
    current a = \<lparr>sh_id = shp_id p, sh_date_id = shp_date_id p, sh_account_id = shp_account_id p,
      sh_profile_id = shp_profile_id p, sh_tier = shp_tier p, sh_quantity = q, sh_pool_seats = 0,
      sh_origin = shp_origin p, sh_origin_ref = shp_origin_ref p, sh_expires_at = e,
      sh_state = Hold_Active, sh_version = 1\<rparr>"
  using assms by (auto simp: hold_place_def result_simps)

lemma hold_consume_Inr:
  assumes "hold_consume now a = Inr a'"
  shows "hold_is_active (current a)"
    and "current a' = (current a)\<lparr>sh_state := Hold_Consumed, sh_version := sh_version (current a) + 1\<rparr>"
    and "uncommitted a' = uncommitted a @ [SeatHoldConsumed (sh_id (current a))
      (sh_date_id (current a)) (sh_quantity (current a)) now]"
  using assms by (auto simp: hold_consume_def hold_leave_def Let_def result_simps split: if_splits)

lemma hold_release_Inr:
  assumes "hold_release now a = Inr a'"
  shows "hold_is_active (current a)"
    and "current a' = (current a)\<lparr>sh_state := Hold_Released, sh_version := sh_version (current a) + 1\<rparr>"
    and "uncommitted a' = uncommitted a @ [SeatHoldReleased (sh_id (current a))
      (sh_date_id (current a)) (sh_quantity (current a)) now]"
  using assms by (auto simp: hold_release_def hold_leave_def Let_def result_simps split: if_splits)

lemma hold_leaves_active:
  "hold_is_active (current a) \<Longrightarrow> \<exists>a'. hold_consume now a = Inr a'"
  "hold_is_active (current a) \<Longrightarrow> \<exists>a'. hold_release now a = Inr a'"
  by (auto simp: hold_consume_def hold_release_def hold_leave_def Let_def)

lemma seat_hold_step_Inr:
  assumes "seat_hold_step cmd a = Inr a'"
  shows "hold_is_active (current a) \<and> (\<exists>state. state \<noteq> Hold_Active \<and>
    current a' = (current a)\<lparr>sh_state := state, sh_version := sh_version (current a) + 1\<rparr>)"
  using assms
  by (cases cmd) (auto simp: hold_consume_def hold_release_def hold_leave_def Let_def result_simps
      split: if_splits)

interpretation sh: versioned_aggregate seat_hold_step sh_version
proof unfold_locales
  fix cmd a a'
  assume step: "seat_hold_step cmd a = Inr a'"
  show "sh_version (current a') = sh_version (current a)
      \<or> sh_version (current a') = sh_version (current a) + 1"
    using step by (cases cmd) (auto dest: hold_consume_Inr(2) hold_release_Inr(2))
  show "\<exists>es. uncommitted a' = uncommitted a @ es"
    using step by (cases cmd) (auto dest: hold_consume_Inr(3) hold_release_Inr(3))
qed

text \<open>
  Property C33. A hold leaves \<open>active\<close> at most once: a run of its commands succeeds only when it is
  empty or a single command on an active hold, and it never changes which seats the hold carries.
\<close>

theorem hold_left_once:
  assumes "foldE seat_hold_step cmds a = Inr a'"
  shows "(cmds = [] \<and> a' = a \<or>
      length cmds = 1 \<and> hold_is_active (current a) \<and> \<not> hold_is_active (current a') \<and>
        sh_version (current a') = sh_version (current a) + 1) \<and>
    sh_quantity (current a') = sh_quantity (current a) \<and>
    sh_date_id (current a') = sh_date_id (current a)"
proof (cases cmds)
  case Nil
  with assms show ?thesis by simp
next
  case (Cons cmd rest)
  with assms obtain b where b: "seat_hold_step cmd a = Inr b"
    and rest: "foldE seat_hold_step rest b = Inr a'"
    by (auto simp: bindE_eq_Inr)
  have left: "hold_is_active (current a)" "\<not> hold_is_active (current b)"
    "sh_version (current b) = sh_version (current a) + 1"
    "sh_quantity (current b) = sh_quantity (current a)"
    "sh_date_id (current b) = sh_date_id (current a)"
    using seat_hold_step_Inr [OF b] by (auto simp: hold_is_active_def)
  have "rest = []"
  proof (cases rest)
    case (Cons cmd' rest')
    with rest obtain d where "seat_hold_step cmd' b = Inr d"
      by (auto simp: bindE_eq_Inr)
    with left(2) show ?thesis by (auto dest: seat_hold_step_Inr)
  qed simp
  with rest left Cons show ?thesis by simp
qed

definition sample_hold :: seat_hold where
  "sample_hold = restore \<lparr>sh_id = ''h'', sh_date_id = ''d'', sh_account_id = Some ''acc'',
     sh_profile_id = None, sh_tier = Tier_Full, sh_quantity = 2, sh_pool_seats = 0,
     sh_origin = Origin_Checkout, sh_origin_ref = ''o'', sh_expires_at = 600000,
     sh_state = Hold_Active, sh_version = 1\<rparr>"

theorem hold_left_once_witness:
  "(\<exists>a'. foldE seat_hold_step [Consume 5] sample_hold = Inr a' \<and> \<not> hold_is_active (current a')) \<and>
    \<not> (\<exists>a'. foldE seat_hold_step [Consume 5, Release 6] sample_hold = Inr a')"
proof -
  obtain a' where "foldE seat_hold_step [Consume 5] sample_hold = Inr a'"
    using hold_leaves_active(1) [of sample_hold 5]
    by (auto simp: sample_hold_def hold_is_active_def)
  with hold_left_once [OF this] hold_left_once [of "[Consume 5, Release 6]" sample_hold]
  show ?thesis by auto
qed

end
