(* ===== verification/Date_Sales.thy ===== *)
theory Date_Sales
  imports Core_Api
begin

text \<open>
  \<open>DateSales\<close>, a date's commercial face (\<open>apps/ticketing/src/date-sales/date-sales.aggregate.ts\<close>):
  its snapshot, its events, every command and query of the aggregate, with the technical provision
  (\<open>technical-provision.ts\<close>) and the quote (\<open>seat-quote.ts\<close>) it composes.

  The lemmas: which commands move the version and by how much, how each changes the counters, when
  the sale is open, and that an older catalog fact never overwrites a newer one, so that the facts
  may arrive in any order.
\<close>

section \<open>Snapshot and events\<close>

record capacity_tier =
  ct_id :: ident
  ct_capacity :: int
  ct_opened_at :: instant

record technical_provision =
  tpr_required :: bool
  tpr_threshold :: int
  tpr_provisioned_capacity :: "int option"
  tpr_revisable_until :: "instant option"

record date_sales_snapshot =
  ds_date_id :: ident
  ds_channel_id :: ident
  ds_capacity_total :: int
  ds_provisioned_capacity :: "int option"
  ds_capacity_tiers :: "capacity_tier list"
  ds_seats_available :: int
  ds_seats_sold :: int
  ds_waitlist_count :: int
  ds_priority_pool_seats :: int
  ds_priority_until :: "instant option"
  ds_price_tiers :: "tier_price list"
  ds_prices_locked_at :: "instant option"
  ds_sales_closed_at :: "instant option"
  ds_sales_end_at :: "instant option"
  ds_starts_at :: "instant option"
  ds_schedule_stated_at :: "instant option"
  ds_outcome :: "date_outcome option"
  ds_outcome_stated_at :: "instant option"
  ds_version :: int

datatype date_sales_event =
    DateSalesOpened ident ident instant
  | DatePricesSet ident ident "tier_price list" instant
  | DatePricesLocked ident ident "tier_price list" instant
  | CapacityTierOpened ident ident capacity_tier int technical_provision instant
  | TechnicalProvisionSet ident ident int technical_provision instant
  | DateScheduleRecorded ident ident instant int technical_provision instant
  | DateOutcomeRecorded ident ident date_outcome bool instant
  | DateSalesEnded ident ident instant instant
  | DateSalesReopened ident ident instant
  | SeatsHeld ident int instant
  | PriorityWindowOpened ident int instant instant

type_synonym date_sales = "(date_sales_snapshot, date_sales_event) aggregate"

definition technical_provision_of ::
    "sales_core \<Rightarrow> int \<Rightarrow> int option \<Rightarrow> instant option \<Rightarrow> technical_provision" where
  "technical_provision_of c capacity provisioned starts_at = \<lparr>
     tpr_required = requires_technical_provision c capacity,
     tpr_threshold = technical_provision_threshold c,
     tpr_provisioned_capacity = provisioned,
     tpr_revisable_until =
       (case starts_at of None \<Rightarrow> None | Some t \<Rightarrow> Some (provision_revisable_until c t))\<rparr>"

definition interim_service_fee_schedule :: "sales_core \<Rightarrow> string \<Rightarrow> service_fee_schedule" where
  "interim_service_fee_schedule c currency =
     \<lparr>per_seat = zero_money c currency, rate_bps = basis_points c 0\<rparr>"

definition seat_quote_of ::
    "sales_core \<Rightarrow> tier_price list \<Rightarrow> price_tier \<Rightarrow> int \<Rightarrow> order_quote option result" where
  "seat_quote_of c tiers tier quantity =
     (case price_of_tier c tiers tier of
        None \<Rightarrow> Inr None
      | Some unit \<Rightarrow>
          bindE (quote_seats c unit quantity (basis_points c 0) None
                   (interim_service_fee_schedule c (currency_code unit)))
            (\<lambda>q. Inr (Some \<lparr>tier_total = tier_total q, service_fee = service_fee q,
                           discount = discount q, total = total q, unit_price = unit\<rparr>)))"

section \<open>Opening and queries\<close>

definition outcomes_closing_sales :: "date_outcome list" where
  "outcomes_closing_sales = [Outcome_Cancelled, Outcome_Interrupted]"

definition is_stale :: "sales_core \<Rightarrow> instant \<Rightarrow> instant option \<Rightarrow> bool" where
  "is_stale c stated_at last_stated_at =
     (case last_stated_at of None \<Rightarrow> False | Some t \<Rightarrow> is_before c stated_at t)"

definition open_sales :: "ident \<Rightarrow> ident \<Rightarrow> instant \<Rightarrow> date_sales" where
  "open_sales date_id channel_id now =
     apply_event (DateSalesOpened date_id channel_id now)
       (restore \<lparr>ds_date_id = date_id, ds_channel_id = channel_id, ds_capacity_total = 0,
          ds_provisioned_capacity = None, ds_capacity_tiers = [], ds_seats_available = 0,
          ds_seats_sold = 0, ds_waitlist_count = 0, ds_priority_pool_seats = 0,
          ds_priority_until = None, ds_price_tiers = [], ds_prices_locked_at = None,
          ds_sales_closed_at = None, ds_sales_end_at = None, ds_starts_at = None,
          ds_schedule_stated_at = None, ds_outcome = None, ds_outcome_stated_at = None,
          ds_version = 1\<rparr>)"

definition is_on_sale :: "date_sales_snapshot \<Rightarrow> bool" where
  "is_on_sale s \<longleftrightarrow> ds_prices_locked_at s \<noteq> None \<and> ds_sales_closed_at s = None"

definition has_ended_by :: "sales_core \<Rightarrow> date_sales_snapshot \<Rightarrow> instant \<Rightarrow> bool" where
  "has_ended_by c s now = sales_ended_by c (ds_sales_end_at s) now"

definition sells_seats_at :: "sales_core \<Rightarrow> date_sales_snapshot \<Rightarrow> instant \<Rightarrow> bool" where
  "sells_seats_at c s now \<longleftrightarrow> is_on_sale s \<and> \<not> has_ended_by c s now"

definition late_entry_at :: "sales_core \<Rightarrow> date_sales_snapshot \<Rightarrow> instant \<Rightarrow> late_entry option" where
  "late_entry_at c s now = late_entry_of c (ds_starts_at s) now"

definition quote_at ::
    "sales_core \<Rightarrow> date_sales_snapshot \<Rightarrow> price_tier \<Rightarrow> int \<Rightarrow> order_quote option result" where
  "quote_at c s tier quantity = seat_quote_of c (ds_price_tiers s) tier quantity"

definition closed_by_time :: "date_sales_snapshot \<Rightarrow> bool" where
  "closed_by_time s \<longleftrightarrow>
     ds_sales_closed_at s \<noteq> None \<and>
     (case ds_outcome s of None \<Rightarrow> True | Some out \<Rightarrow> \<not> List.member outcomes_closing_sales out)"

definition advanced_from :: "int \<Rightarrow> date_sales_snapshot \<Rightarrow> int result" where
  "advanced_from expected s =
     (if ds_version s \<noteq> expected then Inl (Domain_Error (STATE_CONFLICT (ds_version s)))
      else Inr (ds_version s + 1))"

section \<open>Commands\<close>

text \<open>\<open>Number.isSafeInteger\<close> on a number that is an integer.\<close>

definition is_safe_integer :: "int \<Rightarrow> bool" where
  "is_safe_integer n \<longleftrightarrow> \<bar>n\<bar> \<le> 2 ^ 53 - 1"

definition hold_seats :: "sales_core \<Rightarrow> int \<Rightarrow> instant \<Rightarrow> date_sales \<Rightarrow> date_sales result" where
  "hold_seats c quantity now a =
     (let s = current a in
      if \<not> is_safe_integer quantity \<or> quantity \<le> 0
      then Inl (Domain_Error (HOLD_QUANTITY_INVALID quantity))
      else case (ds_sales_end_at s, has_ended_by c s now) of
        (Some end_at, True) \<Rightarrow> Inl (Domain_Error (SALES_CLOSED end_at))
      | _ \<Rightarrow>
        if \<not> is_on_sale s then Inl (Domain_Error SOLD_OUT)
        else Inr (apply_event (SeatsHeld (ds_date_id s) quantity now)
               (a\<lparr>current := s\<lparr>ds_seats_available := ds_seats_available s - quantity\<rparr>\<rparr>)))"

definition set_prices ::
    "sales_core \<Rightarrow> int \<Rightarrow> tier_price list \<Rightarrow> instant \<Rightarrow> date_sales \<Rightarrow> date_sales result" where
  "set_prices c expected tiers now a =
     (let s = current a in
      bindE (advanced_from expected s) (\<lambda>version.
      case ds_prices_locked_at s of
        Some locked_at \<Rightarrow> Inl (Domain_Error (PRICES_LOCKED locked_at))
      | None \<Rightarrow>
        bindE (assertE (assert_prices_share_currency c tiers)) (\<lambda>_.
        Inr (apply_event (DatePricesSet (ds_date_id s) (ds_channel_id s) tiers now)
               (a\<lparr>current := s\<lparr>ds_price_tiers := tiers, ds_version := version\<rparr>\<rparr>)))))"

text \<open>The new tier's id is drawn by the caller (\<open>uuidv7\<close>).\<close>

definition open_capacity_tier ::
    "sales_core \<Rightarrow> ident \<Rightarrow> int \<Rightarrow> int \<Rightarrow> bool \<Rightarrow> instant \<Rightarrow> date_sales
       \<Rightarrow> (date_sales \<times> instant option) result" where
  "open_capacity_tier c tier_id expected additional notify now a =
     (let s = current a in
      bindE (advanced_from expected s) (\<lambda>version.
      case (ds_sales_closed_at s, ds_outcome s) of
        (Some _, Some out) \<Rightarrow> Inl (Domain_Error (OUTCOME_FINAL out))
      | _ \<Rightarrow>
        (let widened = ds_capacity_total s + additional in
         bindE (assertE (assert_tier_widens c (ds_capacity_total s) widened)) (\<lambda>_.
         bindE (assertE (assert_technical_provision_covers c widened
                  (ds_provisioned_capacity s) (ds_starts_at s))) (\<lambda>_.
         let tier = \<lparr>ct_id = tier_id, ct_capacity = additional, ct_opened_at = now\<rparr>;
             priority_until =
               (if notify \<and> 0 < ds_waitlist_count s then Some (priority_until_of c now) else None);
             widened_s = s\<lparr>ds_capacity_total := widened,
                           ds_capacity_tiers := ds_capacity_tiers s @ [tier],
                           ds_version := version\<rparr>;
             s' = (case priority_until of
                     None \<Rightarrow>
                       widened_s\<lparr>ds_seats_available := ds_seats_available s + additional\<rparr>
                   | Some u \<Rightarrow>
                       widened_s\<lparr>ds_priority_pool_seats := ds_priority_pool_seats s + additional,
                                 ds_priority_until := Some u\<rparr>);
             opened = apply_event (CapacityTierOpened (ds_date_id s) (ds_channel_id s) tier widened
                        (technical_provision_of c widened (ds_provisioned_capacity s)
                           (ds_starts_at s)) now) (a\<lparr>current := s'\<rparr>)
         in Inr (case priority_until of
                   None \<Rightarrow> opened
                 | Some u \<Rightarrow> apply_event
                     (PriorityWindowOpened (ds_date_id s) additional u now) opened,
                 priority_until))))))"

definition set_technical_provision ::
    "sales_core \<Rightarrow> int \<Rightarrow> int \<Rightarrow> instant \<Rightarrow> date_sales \<Rightarrow> date_sales result" where
  "set_technical_provision c expected provisioned now a =
     (let s = current a in
      bindE (advanced_from expected s) (\<lambda>version.
      bindE (assertE (assert_technical_provision_recordable c (ds_capacity_total s) provisioned
               (ds_starts_at s) now)) (\<lambda>_.
      Inr (apply_event (TechnicalProvisionSet (ds_date_id s) (ds_channel_id s)
             (ds_capacity_total s)
             (technical_provision_of c (ds_capacity_total s) (Some provisioned) (ds_starts_at s))
             now)
           (a\<lparr>current := s\<lparr>ds_provisioned_capacity := Some provisioned,
                          ds_version := version\<rparr>\<rparr>)))))"

definition lock_prices :: "instant \<Rightarrow> instant \<Rightarrow> date_sales \<Rightarrow> date_sales \<times> bool" where
  "lock_prices engaged_at now a =
     (let s = current a in
      if ds_prices_locked_at s \<noteq> None then (a, False)
      else (apply_event (DatePricesLocked (ds_date_id s) (ds_channel_id s) (ds_price_tiers s) now)
              (a\<lparr>current := s\<lparr>ds_prices_locked_at := Some engaged_at,
                             ds_version := ds_version s + 1\<rparr>\<rparr>), True))"

definition record_schedule ::
    "sales_core \<Rightarrow> instant \<Rightarrow> instant \<Rightarrow> instant \<Rightarrow> date_sales \<Rightarrow> date_sales \<times> bool" where
  "record_schedule c starts_at stated_at now a =
     (let s = current a in
      if is_stale c stated_at (ds_schedule_stated_at s) then (a, False)
      else
        let sales_end_at = seat_sales_end_at c starts_at;
            reopens = (closed_by_time s \<and> is_before c now sales_end_at);
            a' = apply_event (DateScheduleRecorded (ds_date_id s) (ds_channel_id s) starts_at
                   (ds_capacity_total s)
                   (technical_provision_of c (ds_capacity_total s) (ds_provisioned_capacity s)
                      (Some starts_at)) now)
                 (a\<lparr>current := s\<lparr>ds_starts_at := Some starts_at,
                    ds_sales_end_at := Some sales_end_at,
                    ds_sales_closed_at := (if reopens then None else ds_sales_closed_at s),
                    ds_schedule_stated_at := Some stated_at,
                    ds_version := ds_version s + 1\<rparr>\<rparr>)
        in (if reopens
            then apply_event (DateSalesReopened (ds_date_id s) (ds_channel_id s) now) a'
            else a', True))"

definition end_sales :: "sales_core \<Rightarrow> instant \<Rightarrow> date_sales \<Rightarrow> date_sales \<times> bool" where
  "end_sales c now a =
     (let s = current a in
      case (is_on_sale s, ds_sales_end_at s) of
        (True, Some end_at) \<Rightarrow>
          if is_before c now end_at then (a, False)
          else (apply_event (DateSalesEnded (ds_date_id s) (ds_channel_id s) end_at now)
                  (a\<lparr>current := s\<lparr>ds_sales_closed_at := Some end_at,
                                 ds_version := ds_version s + 1\<rparr>\<rparr>), True)
      | _ \<Rightarrow> (a, False))"

definition record_outcome ::
    "sales_core \<Rightarrow> date_outcome \<Rightarrow> instant \<Rightarrow> instant \<Rightarrow> date_sales \<Rightarrow> date_sales \<times> bool" where
  "record_outcome c outcome stated_at now a =
     (let s = current a in
      if is_stale c stated_at (ds_outcome_stated_at s) then (a, False)
      else
        let closes = List.member outcomes_closing_sales outcome
        in (apply_event (DateOutcomeRecorded (ds_date_id s) (ds_channel_id s) outcome closes now)
              (a\<lparr>current := s\<lparr>ds_outcome := Some outcome,
                 ds_outcome_stated_at := Some stated_at,
                 ds_sales_closed_at :=
                   (if closes
                    then (case ds_sales_closed_at s of None \<Rightarrow> Some stated_at | Some t \<Rightarrow> Some t)
                    else ds_sales_closed_at s),
                 ds_version := ds_version s + 1\<rparr>\<rparr>), True))"

section \<open>The aggregate as a command processor\<close>

text \<open>
  Every way a caller changes the aggregate, as one step: a studio command, a hold, or a fact
  learnt from catalog or from the clock.
\<close>

datatype date_sales_command =
    Hold int instant
  | Set_Prices int "tier_price list" instant
  | Open_Tier ident int int bool instant
  | Set_Provision int int instant
  | Lock_Prices instant instant
  | Record_Schedule instant instant instant
  | End_Sales instant
  | Record_Outcome date_outcome instant instant

fun date_sales_step ::
    "sales_core \<Rightarrow> date_sales_command \<Rightarrow> date_sales \<Rightarrow> date_sales result" where
  "date_sales_step c (Hold q now) a = hold_seats c q now a"
| "date_sales_step c (Set_Prices v ts now) a = set_prices c v ts now a"
| "date_sales_step c (Open_Tier i v n w now) a =
     bindE (open_capacity_tier c i v n w now a) (\<lambda>(a', _). Inr a')"
| "date_sales_step c (Set_Provision v n now) a = set_technical_provision c v n now a"
| "date_sales_step c (Lock_Prices t now) a = Inr (fst (lock_prices t now a))"
| "date_sales_step c (Record_Schedule t st now) a = Inr (fst (record_schedule c t st now a))"
| "date_sales_step c (End_Sales now) a = Inr (fst (end_sales c now a))"
| "date_sales_step c (Record_Outcome out st now) a = Inr (fst (record_outcome c out st now a))"

lemmas date_sales_command_defs =
  hold_seats_def set_prices_def open_capacity_tier_def set_technical_provision_def
  lock_prices_def record_schedule_def end_sales_def record_outcome_def advanced_from_def


section \<open>What each command does\<close>

lemma member_closing [simp]:
  "out \<in> set outcomes_closing_sales \<longleftrightarrow> out = Outcome_Cancelled \<or> out = Outcome_Interrupted"
  by (auto simp: outcomes_closing_sales_def)

lemma hold_seats_Inr:
  assumes "hold_seats c q now a = Inr a'"
  shows "0 < q" and "is_safe_integer q" and "is_on_sale (current a)"
    and "ds_sales_end_at (current a) = None \<or> \<not> has_ended_by c (current a) now"
    and "a' = apply_event (SeatsHeld (ds_date_id (current a)) q now)
      (a\<lparr>current := (current a)\<lparr>ds_seats_available := ds_seats_available (current a) - q\<rparr>\<rparr>)"
  using assms by (auto simp: hold_seats_def Let_def split: if_splits option.splits bool.splits)

lemma set_prices_Inr:
  assumes "set_prices c v ts now a = Inr a'"
  shows "v = ds_version (current a)" and "ds_prices_locked_at (current a) = None"
    and "current a' = (current a)\<lparr>ds_price_tiers := ts, ds_version := ds_version (current a) + 1\<rparr>"
    and "uncommitted a' = uncommitted a @
      [DatePricesSet (ds_date_id (current a)) (ds_channel_id (current a)) ts now]"
  using assms
  by (auto simp: set_prices_def advanced_from_def Let_def result_simps
      split: if_splits option.splits)

lemma set_technical_provision_Inr:
  assumes "set_technical_provision c v n now a = Inr a'"
  shows "v = ds_version (current a)"
    and "current a' = (current a)\<lparr>ds_provisioned_capacity := Some n,
      ds_version := ds_version (current a) + 1\<rparr>"
    and "\<exists>e. uncommitted a' = uncommitted a @ [e]"
  using assms
  by (auto simp: set_technical_provision_def advanced_from_def Let_def result_simps
      split: if_splits)

definition tier_opened :: "sales_core \<Rightarrow> ident \<Rightarrow> int \<Rightarrow> bool \<Rightarrow> instant
    \<Rightarrow> date_sales_snapshot \<Rightarrow> date_sales_snapshot" where
  "tier_opened c i n notify now s =
     (let s' = s\<lparr>ds_capacity_total := ds_capacity_total s + n,
                 ds_capacity_tiers := ds_capacity_tiers s @
                   [\<lparr>ct_id = i, ct_capacity = n, ct_opened_at = now\<rparr>],
                 ds_version := ds_version s + 1\<rparr>
      in if notify \<and> 0 < ds_waitlist_count s
         then s'\<lparr>ds_priority_pool_seats := ds_priority_pool_seats s + n,
                 ds_priority_until := Some (priority_until_of c now)\<rparr>
         else s'\<lparr>ds_seats_available := ds_seats_available s + n\<rparr>)"

lemma open_capacity_tier_Inr:
  assumes "open_capacity_tier c i v n w now a = Inr (a', u)"
  shows "v = ds_version (current a)"
    and "assert_tier_widens c (ds_capacity_total (current a))
      (ds_capacity_total (current a) + n) = None"
    and "ds_sales_closed_at (current a) = None \<or> ds_outcome (current a) = None"
    and "current a' = tier_opened c i n w now (current a)"
    and "u = (if w \<and> 0 < ds_waitlist_count (current a) then Some (priority_until_of c now) else None)"
    and "\<exists>es. uncommitted a' = uncommitted a @ es"
  using assms
  by (auto simp: open_capacity_tier_def advanced_from_def tier_opened_def Let_def result_simps
      split: if_splits option.splits)

definition schedule_recorded ::
    "sales_core \<Rightarrow> instant \<Rightarrow> instant \<Rightarrow> instant \<Rightarrow> date_sales_snapshot \<Rightarrow> date_sales_snapshot" where
  "schedule_recorded c starts_at stated_at now s =
     s\<lparr>ds_starts_at := Some starts_at,
       ds_sales_end_at := Some (seat_sales_end_at c starts_at),
       ds_sales_closed_at := (if closed_by_time s \<and> is_before c now (seat_sales_end_at c starts_at)
                              then None else ds_sales_closed_at s),
       ds_schedule_stated_at := Some stated_at,
       ds_version := ds_version s + 1\<rparr>"

definition outcome_recorded ::
    "date_outcome \<Rightarrow> instant \<Rightarrow> date_sales_snapshot \<Rightarrow> date_sales_snapshot" where
  "outcome_recorded out st s =
     s\<lparr>ds_outcome := Some out, ds_outcome_stated_at := Some st,
       ds_sales_closed_at :=
         (if out \<in> set outcomes_closing_sales \<and> ds_sales_closed_at s = None then Some st
          else ds_sales_closed_at s),
       ds_version := ds_version s + 1\<rparr>"

text \<open>The snapshot after a command, as one function of the snapshot before it.\<close>

fun snapshot_after ::
    "sales_core \<Rightarrow> date_sales_command \<Rightarrow> date_sales_snapshot \<Rightarrow> date_sales_snapshot" where
  "snapshot_after c (Hold q now) s = s\<lparr>ds_seats_available := ds_seats_available s - q\<rparr>"
| "snapshot_after c (Set_Prices v ts now) s = s\<lparr>ds_price_tiers := ts, ds_version := ds_version s + 1\<rparr>"
| "snapshot_after c (Open_Tier i v n w now) s = tier_opened c i n w now s"
| "snapshot_after c (Set_Provision v n now) s =
     s\<lparr>ds_provisioned_capacity := Some n, ds_version := ds_version s + 1\<rparr>"
| "snapshot_after c (Lock_Prices t now) s =
     (if ds_prices_locked_at s = None
      then s\<lparr>ds_prices_locked_at := Some t, ds_version := ds_version s + 1\<rparr> else s)"
| "snapshot_after c (Record_Schedule t st now) s =
     (if is_stale c st (ds_schedule_stated_at s) then s else schedule_recorded c t st now s)"
| "snapshot_after c (End_Sales now) s =
     (case ds_sales_end_at s of
        None \<Rightarrow> s
      | Some e \<Rightarrow> if is_on_sale s \<and> \<not> is_before c now e
                 then s\<lparr>ds_sales_closed_at := Some e, ds_version := ds_version s + 1\<rparr> else s)"
| "snapshot_after c (Record_Outcome out st now) s =
     (if is_stale c st (ds_outcome_stated_at s) then s else outcome_recorded out st s)"

lemma date_sales_step_snapshot:
  assumes "date_sales_step c cmd a = Inr a'"
  shows "current a' = snapshot_after c cmd (current a)"
proof (cases cmd)
  case (Hold q now)
  with assms show ?thesis by (auto dest: hold_seats_Inr(5))
next
  case (Set_Prices v ts now)
  with assms show ?thesis by (auto dest: set_prices_Inr(3))
next
  case (Open_Tier i v n w now)
  with assms show ?thesis by (auto simp: result_simps dest: open_capacity_tier_Inr(4))
next
  case (Set_Provision v n now)
  with assms show ?thesis by (auto dest: set_technical_provision_Inr(2))
next
  case (Lock_Prices t now)
  with assms show ?thesis by (auto simp: lock_prices_def Let_def)
next
  case (Record_Schedule t st now)
  with assms show ?thesis by (auto simp: record_schedule_def schedule_recorded_def Let_def)
next
  case (End_Sales now)
  with assms show ?thesis by (cases "is_on_sale (current a)") (auto simp: end_sales_def Let_def split: option.splits)
next
  case (Record_Outcome out st now)
  with assms show ?thesis by (auto simp: record_outcome_def outcome_recorded_def Let_def split: option.splits)
qed

lemma snapshot_after_version:
  "ds_version (snapshot_after c cmd s) \<in> {ds_version s, ds_version s + 1}"
  by (cases cmd) (auto simp: tier_opened_def schedule_recorded_def outcome_recorded_def Let_def
      split: option.splits)

lemma date_sales_step_events:
  assumes "date_sales_step c cmd a = Inr a'"
  shows "\<exists>es. uncommitted a' = uncommitted a @ es"
proof (cases cmd)
  case (Hold q now)
  with assms show ?thesis by (auto dest: hold_seats_Inr(5))
next
  case (Set_Prices v ts now)
  with assms show ?thesis by (auto dest: set_prices_Inr(4))
next
  case (Open_Tier i v n w now)
  with assms show ?thesis by (auto simp: result_simps dest: open_capacity_tier_Inr(6))
next
  case (Set_Provision v n now)
  with assms show ?thesis by (auto dest: set_technical_provision_Inr(3))
next
  case (Lock_Prices t now)
  with assms show ?thesis by (auto simp: lock_prices_def Let_def)
next
  case (Record_Schedule t st now)
  with assms show ?thesis by (auto simp: record_schedule_def Let_def)
next
  case (End_Sales now)
  with assms show ?thesis by (auto simp: end_sales_def Let_def split: option.splits bool.splits)
next
  case (Record_Outcome out st now)
  with assms show ?thesis by (auto simp: record_outcome_def Let_def)
qed

interpretation ds: versioned_aggregate "date_sales_step c" ds_version for c
proof unfold_locales
  fix cmd a a'
  assume step: "date_sales_step c cmd a = Inr a'"
  show "ds_version (current a') = ds_version (current a)
      \<or> ds_version (current a') = ds_version (current a) + 1"
    using snapshot_after_version [of c cmd "current a"] date_sales_step_snapshot [OF step] by auto
  show "\<exists>es. uncommitted a' = uncommitted a @ es"
    by (rule date_sales_step_events [OF step])
qed

section \<open>Properties\<close>

text \<open>The seats of the capacity that are neither on sale, in the pool nor sold: those held.\<close>

definition ds_seats_held :: "date_sales_snapshot \<Rightarrow> int" where
  "ds_seats_held s = ds_capacity_total s - ds_seats_available s - ds_priority_pool_seats s - ds_seats_sold s"

text \<open>
  The well-formedness a date's commercial face keeps: its capacity is the sum of its tiers, a pool
  exists only within a window, its end of sales follows its start, each fact is dated, and a
  cancelled or interrupted date is closed.
\<close>

definition ds_wf :: "sales_core \<Rightarrow> date_sales_snapshot \<Rightarrow> bool" where
  "ds_wf c s \<longleftrightarrow>
     ds_capacity_total s = (\<Sum>t\<leftarrow>ds_capacity_tiers s. ct_capacity t) \<and>
     (ds_priority_pool_seats s = 0 \<or> ds_priority_until s \<noteq> None) \<and>
     ds_sales_end_at s = map_option (seat_sales_end_at c) (ds_starts_at s) \<and>
     (ds_starts_at s = None \<longleftrightarrow> ds_schedule_stated_at s = None) \<and>
     (ds_outcome s = None \<longleftrightarrow> ds_outcome_stated_at s = None) \<and>
     (ds_outcome s \<in> Some ` set outcomes_closing_sales \<longrightarrow> ds_sales_closed_at s \<noteq> None) \<and>
     1 \<le> ds_version s"

lemma snapshot_after_held:
  "ds_seats_held (snapshot_after c cmd s) =
     ds_seats_held s + (case cmd of Hold q _ \<Rightarrow> q | _ \<Rightarrow> 0)"
  by (cases cmd) (auto simp: ds_seats_held_def tier_opened_def schedule_recorded_def
      outcome_recorded_def Let_def split: option.splits)

lemma snapshot_after_wf:
  assumes "ds_wf c s"
  shows "ds_wf c (snapshot_after c cmd s)"
proof (cases cmd)
  case (Open_Tier i v n w now)
  with assms show ?thesis by (simp add: ds_wf_def tier_opened_def Let_def)
next
  case (Record_Schedule t st now)
  with assms show ?thesis
    by (auto simp: ds_wf_def schedule_recorded_def closed_by_time_def)
next
  case (End_Sales now)
  with assms show ?thesis by (auto simp: ds_wf_def split: option.splits)
next
  case (Record_Outcome out st now)
  with assms show ?thesis by (auto simp: ds_wf_def outcome_recorded_def)
qed (use assms in \<open>auto simp: ds_wf_def\<close>)

text \<open>
  Property C30. Whatever commands a date's commercial face runs, in any order and number, from its
  opening, it keeps its well-formedness, and the seats of its capacity that are neither on sale,
  nor in the priority pool, nor sold are exactly those its holds took.
\<close>

theorem date_sales_run_wf:
  assumes "foldE (date_sales_step c) cmds (open_sales date_id channel_id now) = Inr a"
  shows "ds_wf c (current a) \<and>
    ds_seats_held (current a) = (\<Sum>cmd\<leftarrow>cmds. case cmd of Hold q _ \<Rightarrow> q | _ \<Rightarrow> 0)"
proof -
  have run: "ds_wf c (current b) \<longrightarrow> ds_wf c (current a) \<and> ds_seats_held (current a) =
      ds_seats_held (current b) + (\<Sum>cmd\<leftarrow>cmds. case cmd of Hold q _ \<Rightarrow> q | _ \<Rightarrow> 0)"
    if "foldE (date_sales_step c) cmds b = Inr a" for b
    using that
  proof (induction cmds arbitrary: b)
    case Nil
    then show ?case by simp
  next
    case (Cons cmd cmds)
    then obtain d where d: "date_sales_step c cmd b = Inr d"
      and rest: "foldE (date_sales_step c) cmds d = Inr a"
      by (auto simp: bindE_eq_Inr)
    from date_sales_step_snapshot [OF d] Cons.IH [OF rest] show ?case
      by (auto simp: snapshot_after_wf snapshot_after_held)
  qed
  have "ds_wf c (current (open_sales date_id channel_id now))"
    and "ds_seats_held (current (open_sales date_id channel_id now)) = 0"
    by (auto simp: open_sales_def ds_wf_def ds_seats_held_def)
  with run [OF assms] show ?thesis by simp
qed

theorem date_sales_run_wf_witness:
  "\<exists>a. foldE (date_sales_step sample_sales_core)
      [Open_Tier ''t'' 1 100 False 5, Lock_Prices 6 7, Record_Schedule 1000 6 8, Hold 2 9]
      (open_sales ''d'' ''c'' 0) = Inr a
    \<and> ds_wf sample_sales_core (current a) \<and> ds_seats_held (current a) = 2"
proof -
  let ?cmds = "[Open_Tier ''t'' 1 100 False 5, Lock_Prices 6 7, Record_Schedule 1000 6 8, Hold 2 9]"
  obtain a where a: "foldE (date_sales_step sample_sales_core) ?cmds (open_sales ''d'' ''c'' 0) = Inr a"
    by (simp add: date_sales_command_defs sample_sales_core_def open_sales_def Let_def
        is_on_sale_def has_ended_by_def is_safe_integer_def assertE_def is_stale_def restore_def
        apply_event_def closed_by_time_def)
  with date_sales_run_wf [OF a] show ?thesis by simp
qed

text \<open>
  A hold is decided exactly when its quantity is a positive safe integer, the prices
  are locked, no closing is recorded and the end of sales is not reached; it then takes the seats
  off the public count, leaves the version and every other figure, and applies one event.
\<close>

lemma hold_seats_decides:
  assumes "time_laws c"
  shows "((\<exists>a'. hold_seats c q now a = Inr a') \<longleftrightarrow>
       is_safe_integer q \<and> 0 < q \<and> sells_seats_at c (current a) now) \<and>
     (\<forall>a'. hold_seats c q now a = Inr a' \<longrightarrow>
       current a' = (current a)\<lparr>ds_seats_available := ds_seats_available (current a) - q\<rparr> \<and>
       uncommitted a' = uncommitted a @ [SeatsHeld (ds_date_id (current a)) q now])"
proof -
  have ended: "has_ended_by c (current a) now \<longleftrightarrow>
      (\<exists>t. ds_sales_end_at (current a) = Some t \<and> t \<le> now)"
    using assms by (simp add: has_ended_by_def time_laws_def)
  have "(\<exists>a'. hold_seats c q now a = Inr a') \<longleftrightarrow>
      is_safe_integer q \<and> 0 < q \<and> sells_seats_at c (current a) now"
    using ended by (auto simp: hold_seats_def sells_seats_at_def Let_def
        split: option.splits bool.splits)
  then show ?thesis by (auto dest: hold_seats_Inr(5))
qed

definition sample_on_sale :: date_sales where
  "sample_on_sale = restore ((current (open_sales ''d'' ''c'' 0))\<lparr>
     ds_capacity_total := 100, ds_seats_available := 100, ds_prices_locked_at := Some 6,
     ds_starts_at := Some 1000, ds_sales_end_at := Some 1801000, ds_schedule_stated_at := Some 6\<rparr>)"

theorem hold_seats_decides_witness:
  "time_laws sample_sales_core \<and> sells_seats_at sample_sales_core (current sample_on_sale) 9 \<and>
    (\<exists>a'. hold_seats sample_sales_core 2 9 sample_on_sale = Inr a') \<and>
    \<not> (\<exists>a'. hold_seats sample_sales_core 2 1801000 sample_on_sale = Inr a')"
proof -
  have "sells_seats_at sample_sales_core (current sample_on_sale) 9"
    and "\<not> sells_seats_at sample_sales_core (current sample_on_sale) 1801000"
    by (simp_all add: sells_seats_at_def is_on_sale_def has_ended_by_def sample_on_sale_def
        sample_sales_core_def open_sales_def)
  moreover have "is_safe_integer 2" by (simp add: is_safe_integer_def)
  ultimately show ?thesis
    using sample_time_laws
      hold_seats_decides [OF sample_time_laws, of 2 9 sample_on_sale]
      hold_seats_decides [OF sample_time_laws, of 2 1801000 sample_on_sale]
    by auto
qed

text \<open>
  A studio command that names another version than the current one is refused with
  the current version, whatever else it asks.
\<close>

lemma studio_command_conflict:
  assumes "expected \<noteq> ds_version (current a)"
    and "cmd \<in> {Set_Prices expected ts now, Open_Tier i expected n w now, Set_Provision expected n now}"
  shows "date_sales_step c cmd a = Inl (Domain_Error (STATE_CONFLICT (ds_version (current a))))"
  using assms
  by (auto simp: set_prices_def open_capacity_tier_def set_technical_provision_def
      advanced_from_def Let_def)

theorem studio_command_conflict_witness:
  "date_sales_step sample_sales_core (Set_Prices 7 [] 9) sample_on_sale =
    Inl (Domain_Error (STATE_CONFLICT 1))"
  using studio_command_conflict [of 7 sample_on_sale "Set_Prices 7 [] 9" "[]" 9]
  by (simp add: sample_on_sale_def open_sales_def)

text \<open>
  Once the prices are locked no command changes them or the instant they were locked
  at: a viewer is charged the price the box office opened with.
\<close>

lemma locked_prices_hold:
  assumes "ds_prices_locked_at (current a) = Some t"
    and "foldE (date_sales_step c) cmds a = Inr a'"
  shows "ds_prices_locked_at (current a') = Some t \<and>
    ds_price_tiers (current a') = ds_price_tiers (current a)"
proof (rule foldE_invariant [where P = "\<lambda>x. ds_prices_locked_at (current x) = Some t \<and>
      ds_price_tiers (current x) = ds_price_tiers (current a)", OF assms(2)])
  fix cmd x x'
  assume IH: "ds_prices_locked_at (current x) = Some t \<and>
      ds_price_tiers (current x) = ds_price_tiers (current a)"
    and step: "date_sales_step c cmd x = Inr x'"
  have "\<forall>v ts now. cmd \<noteq> Set_Prices v ts now"
    using IH step set_prices_Inr(2) by fastforce
  with IH show "ds_prices_locked_at (current x') = Some t \<and>
      ds_price_tiers (current x') = ds_price_tiers (current a)"
    unfolding date_sales_step_snapshot [OF step]
    by (cases cmd) (auto simp: tier_opened_def schedule_recorded_def outcome_recorded_def Let_def
        split: option.splits)
qed (use assms(1) in auto)

theorem locked_prices_hold_witness:
  "\<exists>a'. foldE (date_sales_step sample_sales_core)
      [Hold 2 9, Record_Outcome Outcome_Cancelled 10 11] sample_on_sale = Inr a'
    \<and> ds_prices_locked_at (current a') = Some 6 \<and> ds_price_tiers (current a') = []"
proof -
  obtain a' where run: "foldE (date_sales_step sample_sales_core)
      [Hold 2 9, Record_Outcome Outcome_Cancelled 10 11] sample_on_sale = Inr a'"
    by (simp add: hold_seats_def record_outcome_def Let_def is_on_sale_def has_ended_by_def
        is_safe_integer_def sample_on_sale_def sample_sales_core_def open_sales_def is_stale_def)
  have "ds_prices_locked_at (current sample_on_sale) = Some 6"
    by (simp add: sample_on_sale_def)
  from locked_prices_hold [OF this run] run show ?thesis
    by (simp add: sample_on_sale_def open_sales_def)
qed

subsection \<open>Facts from catalog, redelivered and reordered\<close>

text \<open>A start as catalog stated it, with the instant of the statement and of its arrival.\<close>

type_synonym schedule_fact = "instant \<times> instant \<times> instant"

definition learn_schedules :: "sales_core \<Rightarrow> schedule_fact list \<Rightarrow> date_sales \<Rightarrow> date_sales" where
  "learn_schedules c facts a =
     fold (\<lambda>(t, st, now) x. fst (record_schedule c t st now x)) facts a"

text \<open>
  What is recorded after some facts: nothing older than any of them or than what was known, and
  one of them, or what was known.
\<close>

definition newest_schedule ::
    "sales_core \<Rightarrow> schedule_fact set \<Rightarrow> date_sales_snapshot \<Rightarrow> date_sales_snapshot \<Rightarrow> bool" where
  "newest_schedule c facts s s' \<longleftrightarrow>
     (\<forall>(t, st, now) \<in> facts. \<exists>m. ds_schedule_stated_at s' = Some m \<and> st \<le> m) \<and>
     (\<forall>m0. ds_schedule_stated_at s = Some m0 \<longrightarrow>
        (\<exists>m. ds_schedule_stated_at s' = Some m \<and> m0 \<le> m)) \<and>
     (ds_starts_at s' = ds_starts_at s \<and> ds_sales_end_at s' = ds_sales_end_at s \<and>
        ds_schedule_stated_at s' = ds_schedule_stated_at s \<or>
      (\<exists>(t, st, now) \<in> facts. ds_starts_at s' = Some t \<and>
        ds_sales_end_at s' = Some (seat_sales_end_at c t) \<and> ds_schedule_stated_at s' = Some st))"

lemma record_schedule_newest:
  assumes "time_laws c"
  shows "newest_schedule c {(t, st, now)} (current a) (current (fst (record_schedule c t st now a)))"
  using assms by (auto simp: newest_schedule_def record_schedule_def is_stale_def time_laws_def
      Let_def split: option.splits)

lemma newest_schedule_trans:
  assumes "newest_schedule c F s s'" and "newest_schedule c G s' s''"
  shows "newest_schedule c (F \<union> G) s s''"
proof -
  have le: "\<exists>m'. ds_schedule_stated_at s'' = Some m' \<and> m \<le> m'" if "ds_schedule_stated_at s' = Some m" for m
    using assms(2) that unfolding newest_schedule_def by blast
  have "\<exists>m. ds_schedule_stated_at s'' = Some m \<and> st \<le> m" if "(t, st, now) \<in> F" for t st now
    using assms(1) that le unfolding newest_schedule_def by (fastforce intro: order_trans)
  moreover have "\<exists>m. ds_schedule_stated_at s'' = Some m \<and> st \<le> m" if "(t, st, now) \<in> G" for t st now
    using assms(2) that unfolding newest_schedule_def by blast
  moreover have "\<exists>m. ds_schedule_stated_at s'' = Some m \<and> m0 \<le> m"
    if "ds_schedule_stated_at s = Some m0" for m0
    using assms(1) that le unfolding newest_schedule_def by (fastforce intro: order_trans)
  moreover have "ds_starts_at s'' = ds_starts_at s \<and> ds_sales_end_at s'' = ds_sales_end_at s \<and>
        ds_schedule_stated_at s'' = ds_schedule_stated_at s \<or>
      (\<exists>(t, st, now) \<in> F \<union> G. ds_starts_at s'' = Some t \<and>
        ds_sales_end_at s'' = Some (seat_sales_end_at c t) \<and> ds_schedule_stated_at s'' = Some st)"
    using assms unfolding newest_schedule_def by fastforce
  ultimately show ?thesis unfolding newest_schedule_def by blast
qed

lemma learn_schedules_newest:
  assumes "time_laws c"
  shows "newest_schedule c (set facts) (current a) (current (learn_schedules c facts a))"
proof (induction facts arbitrary: a)
  case Nil
  show ?case by (simp add: learn_schedules_def newest_schedule_def)
next
  case (Cons f facts)
  obtain t st now where f: "f = (t, st, now)" by (cases f)
  have "newest_schedule c ({f} \<union> set facts) (current a)
      (current (learn_schedules c facts (fst (record_schedule c t st now a))))"
    using newest_schedule_trans [OF record_schedule_newest [OF assms] Cons.IH] f by simp
  then show ?case by (simp add: learn_schedules_def f)
qed

text \<open>Facts stated at one instant state one start, the one already recorded at it included.\<close>

definition consistent_schedules :: "schedule_fact set \<Rightarrow> date_sales_snapshot \<Rightarrow> bool" where
  "consistent_schedules facts s \<longleftrightarrow>
     (\<forall>(t, st, now) \<in> facts. \<forall>(t', st', now') \<in> facts. st = st' \<longrightarrow> t = t') \<and>
     (\<forall>(t, st, now) \<in> facts. ds_schedule_stated_at s = Some st \<longrightarrow> ds_starts_at s = Some t)"

lemma newest_schedule_le:
  assumes "newest_schedule c F s u" and "newest_schedule c F s v"
    and "ds_schedule_stated_at u = Some m"
  shows "\<exists>m'. ds_schedule_stated_at v = Some m' \<and> m \<le> m'"
proof -
  from assms(1) consider "ds_schedule_stated_at u = ds_schedule_stated_at s"
    | t st now where "(t, st, now) \<in> F" "ds_schedule_stated_at u = Some st"
    unfolding newest_schedule_def by blast
  then show ?thesis
  proof cases
    case 1
    with assms(2,3) show ?thesis unfolding newest_schedule_def by simp
  next
    case 2
    with assms(2,3) show ?thesis unfolding newest_schedule_def by fastforce
  qed
qed

lemma newest_schedule_end:
  assumes "newest_schedule c F s u" and "ds_wf c s"
  shows "ds_sales_end_at u = map_option (seat_sales_end_at c) (ds_starts_at u)"
  using assms unfolding newest_schedule_def ds_wf_def by fastforce

lemma newest_schedule_start:
  assumes "newest_schedule c F s u" and "consistent_schedules F s" and "ds_wf c s"
    and "ds_schedule_stated_at u = Some m"
  shows "(\<exists>now t. (t, m, now) \<in> F \<and> ds_starts_at u = Some t) \<or>
    ds_schedule_stated_at s = Some m \<and> ds_starts_at u = ds_starts_at s"
  using assms unfolding newest_schedule_def by fastforce

lemma newest_schedule_unique:
  assumes u: "newest_schedule c F s u" and v: "newest_schedule c F s v"
    and con: "consistent_schedules F s" and wf: "ds_wf c s"
  shows "ds_starts_at u = ds_starts_at v \<and> ds_sales_end_at u = ds_sales_end_at v \<and>
    ds_schedule_stated_at u = ds_schedule_stated_at v"
proof -
  have stated: "ds_schedule_stated_at u = ds_schedule_stated_at v"
    using newest_schedule_le [OF u v] newest_schedule_le [OF v u]
    by (cases "ds_schedule_stated_at u"; cases "ds_schedule_stated_at v") auto
  have "ds_starts_at u = ds_starts_at v"
  proof (cases "ds_schedule_stated_at u")
    case None
    then have "ds_starts_at u = ds_starts_at s" and "ds_starts_at v = ds_starts_at s"
      using u v stated unfolding newest_schedule_def by auto
    then show ?thesis by simp
  next
    case (Some m)
    with stated have "ds_schedule_stated_at v = Some m" by simp
    from newest_schedule_start [OF u con wf Some] newest_schedule_start [OF v con wf this] con
    show ?thesis unfolding consistent_schedules_def by fastforce
  qed
  then show ?thesis
    using stated newest_schedule_end [OF u wf] newest_schedule_end [OF v wf] by simp
qed



subsection \<open>A cancelled or interrupted sale\<close>

definition closed_for_good :: "date_sales_snapshot \<Rightarrow> bool" where
  "closed_for_good s \<longleftrightarrow>
     ds_outcome s \<in> Some ` set outcomes_closing_sales \<and> ds_sales_closed_at s \<noteq> None"

lemma closed_for_good_iff:
  "closed_for_good s \<longleftrightarrow>
    (ds_outcome s = Some Outcome_Cancelled \<or> ds_outcome s = Some Outcome_Interrupted) \<and>
    ds_sales_closed_at s \<noteq> None"
  by (auto simp: closed_for_good_def)

lemma closed_for_good_snapshot:
  assumes "closed_for_good s" and "\<forall>st now. cmd \<noteq> Record_Outcome Outcome_Postponed st now"
  shows "closed_for_good (snapshot_after c cmd s)"
proof (cases cmd)
  case (Record_Schedule t st now)
  with assms(1) show ?thesis
    by (auto simp: closed_for_good_iff schedule_recorded_def closed_by_time_def)
next
  case (End_Sales now)
  with assms(1) show ?thesis by (simp add: closed_for_good_iff split: option.splits)
next
  case (Record_Outcome out st now)
  with assms show ?thesis by (cases out) (auto simp: closed_for_good_iff outcome_recorded_def)
qed (use assms(1) in \<open>auto simp: closed_for_good_iff tier_opened_def Let_def\<close>)

lemma closed_for_good_step:
  assumes "date_sales_step c cmd a = Inr a'" and "closed_for_good (current a)"
    and "\<forall>st now. cmd \<noteq> Record_Outcome Outcome_Postponed st now"
  shows "closed_for_good (current a') \<and> (\<forall>q now. cmd \<noteq> Hold q now)"
proof -
  have "\<not> is_on_sale (current a)"
    using assms(2) by (simp add: closed_for_good_def is_on_sale_def)
  then have "\<forall>q now. cmd \<noteq> Hold q now"
    using assms(1) hold_seats_Inr(3) by fastforce
  with closed_for_good_snapshot [OF assms(2,3)] date_sales_step_snapshot [OF assms(1)]
  show ?thesis by simp
qed

text \<open>
  A sale a cancellation or an interruption closed stays closed through every command,
  and no hold is decided on it, as long as catalog states no later postponement of the same date.
\<close>

theorem closed_sale_stays_closed:
  assumes "foldE (date_sales_step c) cmds a = Inr a'" and "closed_for_good (current a)"
    and "\<forall>st now. Record_Outcome Outcome_Postponed st now \<notin> set cmds"
  shows "closed_for_good (current a') \<and> (\<forall>q now. Hold q now \<notin> set cmds)"
  using assms
proof (induction cmds arbitrary: a)
  case Nil
  then show ?case by simp
next
  case (Cons cmd cmds)
  then obtain b where b: "date_sales_step c cmd a = Inr b"
    and rest: "foldE (date_sales_step c) cmds b = Inr a'"
    by (auto simp: bindE_eq_Inr)
  have "\<forall>st now. cmd \<noteq> Record_Outcome Outcome_Postponed st now"
    using Cons.prems(3) by auto
  from closed_for_good_step [OF b Cons.prems(2) this] Cons.IH [OF rest] Cons.prems(3)
  show ?case by auto
qed

definition sample_cancelled :: date_sales where
  "sample_cancelled = restore ((current sample_on_sale)\<lparr>
     ds_outcome := Some Outcome_Cancelled, ds_outcome_stated_at := Some 10,
     ds_sales_closed_at := Some 10\<rparr>)"

theorem closed_sale_stays_closed_witness:
  "\<exists>a'. foldE (date_sales_step sample_sales_core)
      [Record_Schedule 5000 20 30, Record_Outcome Outcome_Interrupted 40 50] sample_cancelled = Inr a'
    \<and> closed_for_good (current sample_cancelled) \<and> closed_for_good (current a')"
proof -
  let ?cmds = "[Record_Schedule 5000 20 30, Record_Outcome Outcome_Interrupted 40 50]"
  obtain a' where run: "foldE (date_sales_step sample_sales_core) ?cmds sample_cancelled = Inr a'"
    by simp
  have closed: "closed_for_good (current sample_cancelled)"
    by (simp add: closed_for_good_def sample_cancelled_def image_iff)
  from closed_sale_stays_closed [OF run closed] run closed show ?thesis by simp
qed



end
