(* ===== verification/Seat_Order.thy ===== *)
theory Seat_Order
  imports Core_Api
begin

text \<open>
  \<open>SeatOrder\<close>, the order a purchase places
  (\<open>apps/ticketing/src/orders/seat-order.aggregate.ts\<close>): its snapshot with its seats and its
  refunds, every command and query of the aggregate. The invariant it keeps and what follows from
  it are in \<open>Seat_Order_Props\<close>.
\<close>

section \<open>Snapshot and events\<close>

type_synonym next_action = string

record declared_tax_location =
  country :: string
  subdivision :: "string option"
  postal_code :: "string option"

record payment_intent_record =
  pi_ref :: ident
  pi_client_secret :: "string option"
  pi_next_action :: "next_action option"

record seat_snapshot =
  se_id :: ident
  se_code :: string
  se_tier :: price_tier
  se_state :: seat_state
  se_cancel_deadline :: "instant option"
  se_activated_at :: instant
  se_ended_at :: "instant option"
  se_cancel_reason :: "seat_cancel_reason option"
  se_refund_id :: "ident option"
  se_refund_amount :: "money option"
  se_credit_id :: "ident option"
  se_credit_amount :: "money option"

record seat_cancellation =
  sc_reason :: seat_cancel_reason
  sc_refund_id :: "ident option"
  sc_seats :: "(ident \<times> money option) list"

record seat_crediting =
  scr_credit_id :: ident
  scr_seats :: "(ident \<times> money) list"

record seat_issue =
  si_id :: ident
  si_code :: string
  si_cancel_deadline :: "instant option"

record order_failure =
  of_code :: "order_error_code option"
  of_decline_code :: "string option"

record owed_refund =
  rf_id :: ident
  rf_amount :: money
  rf_reason :: refund_reason
  rf_idempotency_key :: string
  rf_seat_id :: "ident option"

record order_refund = owed_refund +
  rf_owed_at :: instant
  rf_ref :: "ident option"
  rf_refunded_at :: "instant option"

record seat_order_snapshot =
  so_id :: ident
  so_reference :: string
  so_date_id :: ident
  so_channel_id :: ident
  so_account_id :: "ident option"
  so_profile_id :: "ident option"
  so_tier :: price_tier
  so_quantity :: int
  so_quote :: order_quote
  so_declared_tax_location :: "declared_tax_location option"
  so_hold_id :: ident
  so_expires_at :: instant
  so_state :: order_state
  so_intent :: "payment_intent_record option"
  so_failure :: "order_failure option"
  so_refunds :: "order_refund list"
  so_intent_cancel_owed_at :: "instant option"
  so_placed_at :: instant
  so_paid_at :: "instant option"
  so_seats :: "seat_snapshot list"
  so_version :: int

record seat_order_placement =
  sp_id :: ident
  sp_reference :: string
  sp_date_id :: ident
  sp_channel_id :: ident
  sp_account_id :: "ident option"
  sp_profile_id :: "ident option"
  sp_tier :: price_tier
  sp_quantity :: int
  sp_quote :: order_quote
  sp_declared_tax_location :: "declared_tax_location option"
  sp_hold_id :: ident
  sp_expires_at :: instant

datatype seat_order_event =
    SeatOrderPlaced ident ident ident money instant
  | SeatOrderHoldRenewed ident ident instant instant
  | SeatOrderIntentRecorded ident ident order_state instant
  | SeatOrderPaid ident ident ident "ident option" "ident option" price_tier order_quote ident
      "declared_tax_location option" "seat_snapshot list" instant
  | SeatOrderFailed ident ident "order_error_code option" instant
  | SeatOrderRefundOwed ident ident money refund_reason "ident option" instant
  | SeatOrderRefunded ident ident ident money ident refund_reason instant
  | SeatCancelled ident ident ident "ident option" seat_cancel_reason instant
  | SeatsCredited ident ident ident "ident list" instant

type_synonym seat_order = "(seat_order_snapshot, seat_order_event) aggregate"

section \<open>Helpers and queries\<close>

definition order_states_awaiting_payment :: "order_state list" where
  "order_states_awaiting_payment = [Order_Pending, Order_Awaiting_Action, Order_Processing]"

definition states_owing_refunds :: "order_state list" where
  "states_owing_refunds = [Order_Paid, Order_Partially_Refunded]"

definition same_refund :: "order_refund \<Rightarrow> owed_refund \<Rightarrow> bool" where
  "same_refund owed refund \<longleftrightarrow>
     rf_id owed = rf_id refund \<and>
     rf_idempotency_key owed = rf_idempotency_key refund \<and>
     rf_reason owed = rf_reason refund \<and>
     rf_seat_id owed = rf_seat_id refund \<and>
     currency_code (rf_amount owed) = currency_code (rf_amount refund) \<and>
     amount_minor (rf_amount owed) = amount_minor (rf_amount refund)"

definition or_else :: "'a option \<Rightarrow> 'a option \<Rightarrow> 'a option" where
  "or_else x y = (case x of None \<Rightarrow> y | Some v \<Rightarrow> Some v)"

definition completed_intent ::
    "payment_intent_record option \<Rightarrow> payment_intent_record \<Rightarrow> payment_intent_record" where
  "completed_intent known told =
     (case known of
        None \<Rightarrow> told
      | Some k \<Rightarrow>
          if pi_ref k \<noteq> pi_ref told then k
          else
            let client_secret = or_else (pi_client_secret k) (pi_client_secret told);
                next_action = or_else (pi_next_action k) (pi_next_action told)
            in if client_secret = pi_client_secret k \<and> next_action = pi_next_action k then k
               else \<lparr>pi_ref = pi_ref k, pi_client_secret = client_secret,
                      pi_next_action = next_action\<rparr>)"

definition order_place :: "seat_order_placement \<Rightarrow> instant \<Rightarrow> seat_order" where
  "order_place p now =
     apply_event (SeatOrderPlaced (sp_id p) (sp_date_id p) (sp_hold_id p) (total (sp_quote p)) now)
       (restore \<lparr>so_id = sp_id p, so_reference = sp_reference p, so_date_id = sp_date_id p,
          so_channel_id = sp_channel_id p, so_account_id = sp_account_id p,
          so_profile_id = sp_profile_id p, so_tier = sp_tier p, so_quantity = sp_quantity p,
          so_quote = sp_quote p, so_declared_tax_location = sp_declared_tax_location p,
          so_hold_id = sp_hold_id p, so_expires_at = sp_expires_at p, so_state = Order_Pending,
          so_intent = None, so_failure = None, so_refunds = [], so_intent_cancel_owed_at = None,
          so_placed_at = now, so_paid_at = None, so_seats = [], so_version = 1\<rparr>)"

definition accepts_payment :: "order_core \<Rightarrow> seat_order_snapshot \<Rightarrow> bool" where
  "accepts_payment c s \<longleftrightarrow>
     so_refunds s = [] \<and> order_state_moves_forward c (so_state s) Order_Paid"

definition awaits_intent :: "seat_order_snapshot \<Rightarrow> bool" where
  "awaits_intent s \<longleftrightarrow> so_state s = Order_Pending \<and> so_intent s = None"

definition awaits_payment :: "seat_order_snapshot \<Rightarrow> bool" where
  "awaits_payment s = List.member order_states_awaiting_payment (so_state s)"

definition awaits_client_secret :: "seat_order_snapshot \<Rightarrow> bool" where
  "awaits_client_secret s \<longleftrightarrow>
     awaits_payment s \<and> so_refunds s = [] \<and>
     (case so_intent s of None \<Rightarrow> False | Some i \<Rightarrow> pi_client_secret i = None)"

definition owes_refund :: "seat_order_snapshot \<Rightarrow> bool" where
  "owes_refund s = list_ex (\<lambda>r. rf_refunded_at r = None) (so_refunds s)"

definition refundable_left :: "order_core \<Rightarrow> seat_order_snapshot \<Rightarrow> money" where
  "refundable_left c s =
     refundable_remaining c (total (so_quote s))
       (money_sum c (map rf_amount (so_refunds s)) (currency_code (total (so_quote s))))"

definition advance ::
    "(seat_order_snapshot \<Rightarrow> seat_order_snapshot) \<Rightarrow> seat_order \<Rightarrow> seat_order" where
  "advance f a = a\<lparr>current := (f (current a))\<lparr>so_version := so_version (current a) + 1\<rparr>\<rparr>"

section \<open>Commands\<close>

definition renew_hold :: "ident \<Rightarrow> instant \<Rightarrow> instant \<Rightarrow> seat_order \<Rightarrow> seat_order result" where
  "renew_hold hold_id expires_at now a =
     (if \<not> awaits_intent (current a) then Inl (Plain_Error ''order holds no seats to renew'')
      else Inr (apply_event (SeatOrderHoldRenewed (so_id (current a)) hold_id expires_at now)
             (advance (\<lambda>s. s\<lparr>so_hold_id := hold_id, so_expires_at := expires_at\<rparr>) a)))"

text \<open>The state told is \<open>awaiting_action\<close> or \<open>processing\<close>; \<open>True\<close> for a failed order.\<close>

definition record_intent ::
    "order_core \<Rightarrow> payment_intent_record \<Rightarrow> order_state \<Rightarrow> instant \<Rightarrow> seat_order
       \<Rightarrow> seat_order \<times> bool" where
  "record_intent c intent state now a =
     (let s = current a in
      if so_state s = Order_Failed then
        (advance (\<lambda>s. s\<lparr>so_intent := or_else (so_intent s) (Some intent),
           so_intent_cancel_owed_at := or_else (so_intent_cancel_owed_at s) (Some now)\<rparr>) a, True)
      else if \<not> awaits_payment s then (a, False)
      else
        let intent_known = completed_intent (so_intent s) intent
        in if order_state_moves_forward c (so_state s) state then
             (apply_event (SeatOrderIntentRecorded (so_id s) (pi_ref intent) state now)
                (advance (\<lambda>s. s\<lparr>so_state := state, so_intent := Some intent_known\<rparr>) a), False)
           else if Some intent_known \<noteq> so_intent s then
             (advance (\<lambda>s. s\<lparr>so_intent := Some intent_known\<rparr>) a, False)
           else (a, False))"

definition seat_issued :: "price_tier \<Rightarrow> instant \<Rightarrow> seat_issue \<Rightarrow> seat_snapshot" where
  "seat_issued tier now i =
     \<lparr>se_id = si_id i, se_code = si_code i, se_tier = tier, se_state = Seat_Active,
      se_cancel_deadline = si_cancel_deadline i, se_activated_at = now, se_ended_at = None,
      se_cancel_reason = None, se_refund_id = None, se_refund_amount = None,
      se_credit_id = None, se_credit_amount = None\<rparr>"

definition order_pay ::
    "order_core \<Rightarrow> ident \<Rightarrow> seat_issue list \<Rightarrow> instant \<Rightarrow> seat_order \<Rightarrow> seat_order result" where
  "order_pay c intent_ref issues now a =
     (let s = current a in
      if \<not> accepts_payment c s then Inr a
      else if int (length issues) \<noteq> so_quantity s
      then Inl (Plain_Error ''order buys another number of seats'')
      else
        let seats = map (seat_issued (so_tier s) now) issues
        in Inr (apply_event
             (SeatOrderPaid (so_id s) (so_date_id s) (so_channel_id s) (so_account_id s)
                (so_profile_id s) (so_tier s) (so_quote s) intent_ref
                (so_declared_tax_location s) seats now)
             (advance (\<lambda>s. s\<lparr>so_state := Order_Paid,
                so_intent := or_else (so_intent s) (Some \<lparr>pi_ref = intent_ref,
                  pi_client_secret = None, pi_next_action = None\<rparr>),
                so_failure := None, so_intent_cancel_owed_at := None, so_paid_at := Some now,
                so_seats := seats\<rparr>) a)))"

definition order_fail :: "order_failure \<Rightarrow> instant \<Rightarrow> seat_order \<Rightarrow> seat_order \<times> bool" where
  "order_fail failure now a =
     (let s = current a in
      if \<not> awaits_payment s then (a, False)
      else (apply_event (SeatOrderFailed (so_id s) (so_date_id s) (of_code failure) now)
              (advance (\<lambda>s. s\<lparr>so_state := Order_Failed, so_failure := Some failure\<rparr>) a), True))"

definition owed_of :: "owed_refund \<Rightarrow> instant \<Rightarrow> order_refund" where
  "owed_of refund now =
     \<lparr>rf_id = rf_id refund, rf_amount = rf_amount refund, rf_reason = rf_reason refund,
      rf_idempotency_key = rf_idempotency_key refund, rf_seat_id = rf_seat_id refund,
      rf_owed_at = now, rf_ref = None, rf_refunded_at = None\<rparr>"

definition owe ::
    "owed_refund \<Rightarrow> instant \<Rightarrow> (seat_order_snapshot \<Rightarrow> seat_order_snapshot) \<Rightarrow> seat_order
       \<Rightarrow> seat_order \<times> order_refund" where
  "owe refund now changes a =
     (let s = current a; owed = owed_of refund now
      in (apply_event (SeatOrderRefundOwed (so_id s) (rf_id refund) (rf_amount refund)
             (rf_reason refund) (rf_seat_id refund) now)
            (advance (\<lambda>s. (changes s)\<lparr>so_refunds := so_refunds s @ [owed]\<rparr>) a), owed))"

definition owe_refund ::
    "order_core \<Rightarrow> owed_refund \<Rightarrow> instant \<Rightarrow> seat_order \<Rightarrow> (seat_order \<times> order_refund) result" where
  "owe_refund c refund now a =
     (let s = current a in
      case find (\<lambda>r. rf_id r = rf_id refund \<or> rf_idempotency_key r = rf_idempotency_key refund)
             (so_refunds s) of
        Some owed \<Rightarrow>
          if same_refund owed refund then Inr (a, owed)
          else Inl (Plain_Error ''order already owes another refund under this id or key'')
      | None \<Rightarrow>
          if \<not> List.member states_owing_refunds (so_state s)
          then Inl (Plain_Error ''order holds no money to refund'')
          else if amount_minor (rf_amount refund) \<le> 0
          then Inl (Plain_Error ''order cannot owe a refund of nothing'')
          else bindE (assertE (assert_refund_within_remaining c (rf_amount refund)
                        (refundable_left c s))) (\<lambda>_. Inr (owe refund now (\<lambda>s. s) a)))"

text \<open>The refund's id is drawn by the caller (\<open>uuidv7\<close>).\<close>

definition owe_unseated_payment_back ::
    "order_core \<Rightarrow> ident \<Rightarrow> refund_reason \<Rightarrow> ident \<Rightarrow> instant \<Rightarrow> seat_order
       \<Rightarrow> seat_order \<times> ident option" where
  "owe_unseated_payment_back c refund_id reason intent_ref now a =
     (let s = current a in
      if \<not> accepts_payment c s then (a, None)
      else (fst (owe \<lparr>rf_id = refund_id, rf_amount = total (so_quote s), rf_reason = reason,
                      rf_idempotency_key = refund_idempotency_key c refund_id,
                      rf_seat_id = None\<rparr> now
                   (\<lambda>s. s\<lparr>so_intent := or_else (so_intent s) (Some \<lparr>pi_ref = intent_ref,
                            pi_client_secret = None, pi_next_action = None\<rparr>),
                          so_intent_cancel_owed_at := None\<rparr>) a), Some refund_id))"

definition refund_made ::
    "order_core \<Rightarrow> ident \<Rightarrow> ident \<Rightarrow> instant \<Rightarrow> seat_order \<Rightarrow> seat_order result" where
  "refund_made c refund_id refund_ref now a =
     (let s = current a in
      case find (\<lambda>r. rf_id r = refund_id) (so_refunds s) of
        None \<Rightarrow> Inl (Plain_Error ''order owes no such refund'')
      | Some refund \<Rightarrow>
          if rf_refunded_at refund \<noteq> None then Inr a
          else
            let refunds = map (\<lambda>r. if rf_id r = refund_id
                    then r\<lparr>rf_ref := Some refund_ref, rf_refunded_at := Some now\<rparr> else r)
                  (so_refunds s);
                made = money_sum c
                  (map rf_amount (filter (\<lambda>r. rf_refunded_at r \<noteq> None) refunds))
                  (currency_code (total (so_quote s)));
                reached = (if 0 \<le> money_compare c made (total (so_quote s))
                           then Order_Refunded else Order_Partially_Refunded);
                seats = map (\<lambda>seat. if se_refund_id seat = Some refund_id
                      \<and> seat_state_may_move c (se_state seat) Seat_Refunded
                    then seat\<lparr>se_state := Seat_Refunded\<rparr> else seat) (so_seats s);
                moves = order_state_moves_forward c (so_state s) reached
            in Inr (apply_event (SeatOrderRefunded (so_id s) (so_channel_id s) refund_id
                      (rf_amount refund) refund_ref (rf_reason refund) now)
                 (advance (\<lambda>s. (if moves then s\<lparr>so_state := reached, so_failure := None\<rparr> else s)
                    \<lparr>so_refunds := refunds, so_seats := seats\<rparr>) a)))"

definition refunds_the_provider_may_have_made ::
    "order_core \<Rightarrow> money \<Rightarrow> seat_order_snapshot \<Rightarrow> ident list option" where
  "refunds_the_provider_may_have_made c amount_refunded s =
     (let currency = currency_code (total (so_quote s));
          amounts_of = (\<lambda>held. money_sum c (map rf_amount held) currency);
          refunds = so_refunds s
      in if 0 < money_compare c amount_refunded (amounts_of refunds) then None
         else
           let unmade = filter (\<lambda>r. rf_refunded_at r = None) refunds;
               made = filter (\<lambda>r. rf_refunded_at r \<noteq> None) refunds;
               unexplained = money_subtract c amount_refunded (amounts_of made)
           in Some (map rf_id (filter (\<lambda>r. money_compare c (rf_amount r) unexplained \<le> 0) unmade)))"

fun seats_may_move ::
    "order_core \<Rightarrow> seat_order_snapshot \<Rightarrow> seat_state \<Rightarrow> ident list \<Rightarrow> unit result" where
  "seats_may_move c s to [] = Inr ()"
| "seats_may_move c s to (seat_id # rest) =
     (case find (\<lambda>seat. se_id seat = seat_id) (so_seats s) of
        None \<Rightarrow> Inl (Plain_Error ''order holds no such seat'')
      | Some seat \<Rightarrow>
          if \<not> seat_state_may_move c (se_state seat) to
          then Inl (Domain_Error (SEAT_NOT_ACTIVE (se_state seat)))
          else seats_may_move c s to rest)"

definition assert_seats_may_move ::
    "order_core \<Rightarrow> seat_order_snapshot \<Rightarrow> seat_state \<Rightarrow> ident list \<Rightarrow> unit result" where
  "assert_seats_may_move c s to seat_ids =
     (if \<not> distinct seat_ids then Inl (Plain_Error ''a seat is named twice'')
      else seats_may_move c s to seat_ids)"

definition amounts_given :: "(ident \<times> money option) list \<Rightarrow> money list" where
  "amounts_given seats = List.map_filter snd seats"

definition amounts_held :: "ident option \<Rightarrow> seat_snapshot list \<Rightarrow> money list" where
  "amounts_held refund_id seats =
     List.map_filter (\<lambda>seat. if se_refund_id seat = refund_id then se_refund_amount seat else None) seats"

text \<open>\<open>new Map(pairs)\<close>: the last pair of a key wins.\<close>

definition js_map :: "('k \<times> 'v) list \<Rightarrow> 'k \<Rightarrow> 'v option" where
  "js_map pairs = map_of (rev pairs)"

definition seat_cancelled_with ::
    "seat_cancellation \<Rightarrow> instant \<Rightarrow> seat_snapshot \<Rightarrow> seat_snapshot" where
  "seat_cancelled_with cancellation now seat =
     (case js_map (sc_seats cancellation) (se_id seat) of
        None \<Rightarrow> seat
      | Some share \<Rightarrow>
          let given_back = (case share of None \<Rightarrow> None
                | Some m \<Rightarrow> if 0 < amount_minor m then Some m else None)
          in seat\<lparr>se_state := Seat_Cancelled, se_ended_at := Some now,
                  se_cancel_reason := Some (sc_reason cancellation),
                  se_refund_id := (if given_back = None then None else sc_refund_id cancellation),
                  se_refund_amount := given_back\<rparr>)"

definition cancel_seats ::
    "order_core \<Rightarrow> seat_cancellation \<Rightarrow> instant \<Rightarrow> seat_order \<Rightarrow> seat_order result" where
  "cancel_seats c cancellation now a =
     (let s = current a;
          seats = sc_seats cancellation;
          refund_id = sc_refund_id cancellation;
          refund = find (\<lambda>r. Some (rf_id r) = refund_id) (so_refunds s);
          given_back = amounts_given seats;
          held_already = amounts_held refund_id (so_seats s)
      in
      bindE (ensure (\<not> (refund_id \<noteq> None \<and> refund = None))
               (Plain_Error ''order owes no such refund'')) (\<lambda>_.
      bindE (ensure (\<not> list_ex (\<lambda>m. amount_minor m < 0) given_back)
               (Plain_Error ''a share of a refund cannot be negative'')) (\<lambda>_.
      bindE (ensure (case refund of None \<Rightarrow> True | Some r \<Rightarrow>
                 \<not> 0 < money_compare c (money_sum c (held_already @ given_back)
                           (currency_code (rf_amount r))) (rf_amount r))
               (Plain_Error ''the shares exceed the refund'')) (\<lambda>_.
      bindE (ensure (\<not> (refund_id = None \<and> list_ex (\<lambda>p. snd p \<noteq> None) seats))
               (Plain_Error ''cannot give a seat a share of no refund'')) (\<lambda>_.
      bindE (assert_seats_may_move c s Seat_Cancelled (map fst seats)) (\<lambda>_.
      Inr (fold (\<lambda>seat_id. apply_event (SeatCancelled (so_id s) (so_date_id s) seat_id
                    (so_account_id s) (sc_reason cancellation) now)) (map fst seats)
             (advance (\<lambda>s. s\<lparr>so_seats := map (seat_cancelled_with cancellation now) (so_seats s)\<rparr>)
                a))))))))"

definition seat_credited_with :: "seat_crediting \<Rightarrow> instant \<Rightarrow> seat_snapshot \<Rightarrow> seat_snapshot" where
  "seat_credited_with crediting now seat =
     (case js_map (scr_seats crediting) (se_id seat) of
        None \<Rightarrow> seat
      | Some share \<Rightarrow> seat\<lparr>se_state := Seat_Credited, se_ended_at := Some now,
                           se_credit_id := Some (scr_credit_id crediting),
                           se_credit_amount := Some share\<rparr>)"

definition credit_seats ::
    "order_core \<Rightarrow> seat_crediting \<Rightarrow> instant \<Rightarrow> seat_order \<Rightarrow> seat_order result" where
  "credit_seats c crediting now a =
     (let s = current a in
      bindE (assert_seats_may_move c s Seat_Credited (map fst (scr_seats crediting))) (\<lambda>_.
      Inr (apply_event (SeatsCredited (so_id s) (so_date_id s) (scr_credit_id crediting)
             (map fst (scr_seats crediting)) now)
           (advance (\<lambda>s. s\<lparr>so_seats := map (seat_credited_with crediting now) (so_seats s)\<rparr>) a))))"

definition order_dispute :: "order_core \<Rightarrow> seat_order \<Rightarrow> seat_order \<times> bool" where
  "order_dispute c a =
     (if \<not> order_state_moves_forward c (so_state (current a)) Order_Disputed then (a, False)
      else (advance (\<lambda>s. s\<lparr>so_state := Order_Disputed, so_failure := None\<rparr>) a, True))"

definition intent_cancelled :: "seat_order \<Rightarrow> seat_order" where
  "intent_cancelled a =
     (if so_intent_cancel_owed_at (current a) = None then a
      else advance (\<lambda>s. s\<lparr>so_intent_cancel_owed_at := None\<rparr>) a)"

section \<open>The aggregate as a command processor\<close>

datatype seat_order_command =
    Renew_Hold ident instant instant
  | Intent_Awaiting payment_intent_record instant
  | Intent_In_Process payment_intent_record instant
  | Pay ident "seat_issue list" instant
  | Fail order_failure instant
  | Owe_Refund owed_refund instant
  | Owe_Unseated ident refund_reason ident instant
  | Refund_Made ident ident instant
  | Cancel_Seats seat_cancellation instant
  | Credit_Seats seat_crediting instant
  | Dispute
  | Intent_Cancelled

fun seat_order_step ::
    "order_core \<Rightarrow> seat_order_command \<Rightarrow> seat_order \<Rightarrow> seat_order result" where
  "seat_order_step c (Renew_Hold h e now) a = renew_hold h e now a"
| "seat_order_step c (Intent_Awaiting i now) a = Inr (fst (record_intent c i Order_Awaiting_Action now a))"
| "seat_order_step c (Intent_In_Process i now) a = Inr (fst (record_intent c i Order_Processing now a))"
| "seat_order_step c (Pay i issues now) a = order_pay c i issues now a"
| "seat_order_step c (Fail f now) a = Inr (fst (order_fail f now a))"
| "seat_order_step c (Owe_Refund r now) a = bindE (owe_refund c r now a) (\<lambda>(a', _). Inr a')"
| "seat_order_step c (Owe_Unseated i reason ref now) a =
     Inr (fst (owe_unseated_payment_back c i reason ref now a))"
| "seat_order_step c (Refund_Made i ref now) a = refund_made c i ref now a"
| "seat_order_step c (Cancel_Seats x now) a = cancel_seats c x now a"
| "seat_order_step c (Credit_Seats x now) a = credit_seats c x now a"
| "seat_order_step c Dispute a = Inr (fst (order_dispute c a))"
| "seat_order_step c Intent_Cancelled a = Inr (intent_cancelled a)"

end
