(* ===== verification/Ticketing_Events.thy ===== *)
theory Ticketing_Events
  imports Date_Sales Seat_Order
begin

text \<open>
  The outbox: the integration events ticketing publishes (\<open>ticketing-events.ts\<close>,
  \<open>date-sales-integration-events.ts\<close>, \<open>seat-order-integration-events.ts\<close>) and the row each is
  written as (\<open>libs/messaging/src/write.ts\<close>). A payload is the protobuf message the code creates,
  before its encoding to bytes, with the domain's enumerations in place of the wire's numbers
  (\<open>wire.ts\<close> maps one onto the other).
\<close>

section \<open>Messages\<close>

datatype ticketing_event_type =
    Type_Capacity_Set
  | Type_Pricing_Changed
  | Type_Availability_Changed
  | Type_Seat_Activated
  | Type_Seat_Cancelled
  | Type_Waitlist_Notified
  | Type_Order_Paid
  | Type_Order_Refunded
  | Type_Credit_Issued

datatype ticketing_topic = Topic_Date_Sales | Topic_Order | Topic_Account

fun ticketing_event_topics :: "ticketing_event_type \<Rightarrow> ticketing_topic" where
  "ticketing_event_topics Type_Capacity_Set = Topic_Date_Sales"
| "ticketing_event_topics Type_Pricing_Changed = Topic_Date_Sales"
| "ticketing_event_topics Type_Availability_Changed = Topic_Date_Sales"
| "ticketing_event_topics Type_Seat_Activated = Topic_Date_Sales"
| "ticketing_event_topics Type_Seat_Cancelled = Topic_Date_Sales"
| "ticketing_event_topics Type_Waitlist_Notified = Topic_Date_Sales"
| "ticketing_event_topics Type_Order_Paid = Topic_Order"
| "ticketing_event_topics Type_Order_Refunded = Topic_Order"
| "ticketing_event_topics Type_Credit_Issued = Topic_Account"

record capacity_set_message =
  cs_date_id :: ident
  cs_channel_id :: ident
  cs_capacity_total :: int
  cs_technical_provision_required :: bool
  cs_provision_revisable_until :: "instant option"
  cs_provisioned_capacity :: "int option"
  cs_occurred_at :: instant

record pricing_changed_message =
  pc_date_id :: ident
  pc_channel_id :: ident
  pc_tiers :: "tier_price list"
  pc_prices_locked :: bool
  pc_occurred_at :: instant

record availability_changed_message =
  ac_date_id :: ident
  ac_channel_id :: ident
  ac_seats_available :: int
  ac_waitlist_count :: int
  ac_fill_rate_bps :: int
  ac_lowest_price :: "money option"
  ac_sold_out :: bool
  ac_occurred_at :: instant

record tax_evidence =
  tv_country :: string
  tv_subdivision :: string
  tv_source :: string
  tv_collected_at :: instant

record buyer_tax_location =
  tl_country :: string
  tl_subdivision :: string
  tl_postal_code :: string
  tl_evidence :: "tax_evidence list"

record order_paid_message =
  op_order_id :: ident
  op_channel_id :: ident
  op_date_id :: ident
  op_account_id :: ident
  op_gross_ttc :: money
  op_service_fee :: money
  op_discount :: money
  op_credit_applied :: money
  op_payment_intent_ref :: ident
  op_paid_at :: instant
  op_buyer_tax_location :: "buyer_tax_location option"

record seat_activated_message =
  sa_seat_id :: ident
  sa_order_id :: ident
  sa_date_id :: ident
  sa_account_id :: ident
  sa_profile_id :: ident
  sa_tier :: price_tier
  sa_seat_code :: string
  sa_cancel_deadline :: "instant option"
  sa_occurred_at :: instant

record seat_cancelled_message =
  sx_seat_id :: ident
  sx_date_id :: ident
  sx_account_id :: ident
  sx_reason :: seat_cancel_reason
  sx_occurred_at :: instant

record order_refunded_message =
  om_order_id :: ident
  om_channel_id :: ident
  om_amount :: money
  om_reason :: "seat_cancel_reason option"
  om_refund_ref :: ident
  om_occurred_at :: instant
  om_refund_reason :: refund_reason

record waitlist_notified_message =
  wn_date_id :: ident
  wn_account_ids :: "ident list"
  wn_priority_until :: instant
  wn_occurred_at :: instant

record credit_issued_message =
  ci_credit_id :: ident
  ci_account_id :: ident
  ci_channel_id :: ident
  ci_amount :: money
  ci_origin :: credit_origin
  ci_origin_date_id :: ident
  ci_expires_at :: instant
  ci_occurred_at :: instant

datatype ticketing_payload =
    Capacity_Set capacity_set_message
  | Pricing_Changed pricing_changed_message
  | Availability_Changed availability_changed_message
  | Seat_Activated_Event seat_activated_message
  | Seat_Cancelled_Event seat_cancelled_message
  | Waitlist_Notified waitlist_notified_message
  | Order_Paid_Event order_paid_message
  | Order_Refunded_Event order_refunded_message
  | Credit_Issued_Event credit_issued_message

record ticketing_event =
  te_type :: ticketing_event_type
  te_key :: ident
  te_payload :: ticketing_payload
  te_traceparent :: "string option"

section \<open>The outbox row\<close>

text \<open>The row's own id, a \<open>uuidv7\<close> nothing reads back, is left out.\<close>

record outbox_row =
  ob_aggregatetype :: ticketing_topic
  ob_aggregateid :: ident
  ob_type :: ticketing_event_type
  ob_payload :: ticketing_payload
  ob_tracecontext :: "string option"
  ob_actor_id :: "ident option"
  ob_created_at :: instant

definition write_outbox_event ::
    "ticketing_topic \<Rightarrow> ticketing_event \<Rightarrow> ident option \<Rightarrow> instant \<Rightarrow> outbox_row" where
  "write_outbox_event topic e actor_id occurred_at =
     \<lparr>ob_aggregatetype = topic, ob_aggregateid = te_key e, ob_type = te_type e,
      ob_payload = te_payload e, ob_tracecontext = te_traceparent e, ob_actor_id = actor_id,
      ob_created_at = occurred_at\<rparr>"

definition write_ticketing_event :: "ticketing_event \<Rightarrow> instant \<Rightarrow> outbox_row" where
  "write_ticketing_event e occurred_at =
     write_outbox_event (ticketing_event_topics (te_type e)) e None occurred_at"

section \<open>A date's events\<close>

definition pricing_changed ::
    "ident \<Rightarrow> ident \<Rightarrow> tier_price list \<Rightarrow> instant \<Rightarrow> bool \<Rightarrow> string option \<Rightarrow> ticketing_event" where
  "pricing_changed date_id channel_id tiers occurred_at prices_locked traceparent =
     \<lparr>te_type = Type_Pricing_Changed, te_key = date_id,
      te_payload = Pricing_Changed \<lparr>pc_date_id = date_id, pc_channel_id = channel_id,
        pc_tiers = tiers, pc_prices_locked = prices_locked, pc_occurred_at = occurred_at\<rparr>,
      te_traceparent = traceparent\<rparr>"

definition capacity_set ::
    "ident \<Rightarrow> ident \<Rightarrow> int \<Rightarrow> technical_provision \<Rightarrow> instant \<Rightarrow> string option \<Rightarrow> ticketing_event" where
  "capacity_set date_id channel_id capacity provision occurred_at traceparent =
     (let deadline = (if tpr_required provision \<or> tpr_provisioned_capacity provision \<noteq> None
                      then tpr_revisable_until provision else None)
      in \<lparr>te_type = Type_Capacity_Set, te_key = date_id,
          te_payload = Capacity_Set \<lparr>cs_date_id = date_id, cs_channel_id = channel_id,
            cs_capacity_total = capacity,
            cs_technical_provision_required = tpr_required provision,
            cs_provision_revisable_until = deadline,
            cs_provisioned_capacity = tpr_provisioned_capacity provision,
            cs_occurred_at = occurred_at\<rparr>,
          te_traceparent = traceparent\<rparr>)"

fun date_sales_integration_event_of ::
    "string option \<Rightarrow> date_sales_event \<Rightarrow> (ticketing_event \<times> instant) option" where
  "date_sales_integration_event_of tp (DatePricesSet d ch tiers at) =
     Some (pricing_changed d ch tiers at False tp, at)"
| "date_sales_integration_event_of tp (DatePricesLocked d ch tiers at) =
     Some (pricing_changed d ch tiers at True tp, at)"
| "date_sales_integration_event_of tp (CapacityTierOpened d ch _ cap provision at) =
     Some (capacity_set d ch cap provision at tp, at)"
| "date_sales_integration_event_of tp (TechnicalProvisionSet d ch cap provision at) =
     Some (capacity_set d ch cap provision at tp, at)"
| "date_sales_integration_event_of tp (DateScheduleRecorded d ch _ cap provision at) =
     (if tpr_required provision \<or> tpr_provisioned_capacity provision \<noteq> None
      then Some (capacity_set d ch cap provision at tp, at) else None)"
| "date_sales_integration_event_of tp _ = None"

definition write_date_sales_integration_events ::
    "string option \<Rightarrow> date_sales_event list \<Rightarrow> outbox_row list" where
  "write_date_sales_integration_events tp events =
     map (\<lambda>(e, at). write_ticketing_event e at)
       (List.map_filter (date_sales_integration_event_of tp) events)"

section \<open>An order's events\<close>

definition text_or_empty :: "string option \<Rightarrow> string" where
  "text_or_empty s = (case s of None \<Rightarrow> [] | Some x \<Rightarrow> x)"

definition declared_location_of :: "declared_tax_location \<Rightarrow> instant \<Rightarrow> buyer_tax_location" where
  "declared_location_of declared collected_at =
     \<lparr>tl_country = country declared, tl_subdivision = text_or_empty (subdivision declared),
      tl_postal_code = text_or_empty (postal_code declared),
      tl_evidence = [\<lparr>tv_country = country declared,
        tv_subdivision = text_or_empty (subdivision declared),
        tv_source = ''purchase.declared_tax_location'', tv_collected_at = collected_at\<rparr>]\<rparr>"

definition seat_activated ::
    "ident \<Rightarrow> ident \<Rightarrow> ident option \<Rightarrow> ident option \<Rightarrow> instant \<Rightarrow> string option \<Rightarrow> seat_snapshot
       \<Rightarrow> ticketing_event" where
  "seat_activated order_id date_id account_id profile_id occurred_at tp seat =
     \<lparr>te_type = Type_Seat_Activated, te_key = date_id,
      te_payload = Seat_Activated_Event \<lparr>sa_seat_id = se_id seat, sa_order_id = order_id,
        sa_date_id = date_id, sa_account_id = text_or_empty account_id,
        sa_profile_id = text_or_empty profile_id, sa_tier = se_tier seat,
        sa_seat_code = se_code seat, sa_cancel_deadline = se_cancel_deadline seat,
        sa_occurred_at = occurred_at\<rparr>,
      te_traceparent = tp\<rparr>"

fun seat_order_integration_events_of ::
    "core \<Rightarrow> string option \<Rightarrow> seat_order_event \<Rightarrow> (ticketing_event \<times> instant) list" where
  "seat_order_integration_events_of c tp
       (SeatOrderPaid order_id date_id channel_id account_id profile_id _ quote intent_ref
          declared seats at) =
     (\<lparr>te_type = Type_Order_Paid, te_key = order_id,
       te_payload = Order_Paid_Event \<lparr>op_order_id = order_id, op_channel_id = channel_id,
         op_date_id = date_id, op_account_id = text_or_empty account_id,
         op_gross_ttc = total quote, op_service_fee = service_fee quote,
         op_discount = discount quote,
         op_credit_applied = zero_money (sales_rules c) (currency_code (total quote)),
         op_payment_intent_ref = intent_ref, op_paid_at = at,
         op_buyer_tax_location = map_option (\<lambda>d. declared_location_of d at) declared\<rparr>,
       te_traceparent = tp\<rparr>, at)
     # map (\<lambda>seat. (seat_activated order_id date_id account_id profile_id at tp seat, at)) seats"
| "seat_order_integration_events_of c tp
       (SeatOrderRefunded order_id channel_id _ amount refund_ref reason at) =
     [(\<lparr>te_type = Type_Order_Refunded, te_key = order_id,
        te_payload = Order_Refunded_Event \<lparr>om_order_id = order_id, om_channel_id = channel_id,
          om_amount = amount, om_reason = seat_cancel_reason_of (checkout_rules c) reason,
          om_refund_ref = refund_ref, om_occurred_at = at, om_refund_reason = reason\<rparr>,
        te_traceparent = tp\<rparr>, at)]"
| "seat_order_integration_events_of c tp (SeatCancelled _ date_id seat_id account_id reason at) =
     [(\<lparr>te_type = Type_Seat_Cancelled, te_key = date_id,
        te_payload = Seat_Cancelled_Event \<lparr>sx_seat_id = seat_id, sx_date_id = date_id,
          sx_account_id = text_or_empty account_id, sx_reason = reason, sx_occurred_at = at\<rparr>,
        te_traceparent = tp\<rparr>, at)]"
| "seat_order_integration_events_of c tp _ = []"

definition write_seat_order_integration_events ::
    "core \<Rightarrow> string option \<Rightarrow> seat_order_event list \<Rightarrow> outbox_row list" where
  "write_seat_order_integration_events c tp events =
     map (\<lambda>(e, at). write_ticketing_event e at)
       (concat (map (seat_order_integration_events_of c tp) events))"

section \<open>The waiting list's notices\<close>

definition write_waitlist_notified ::
    "waitlist_core \<Rightarrow> ident \<Rightarrow> ident list \<Rightarrow> instant \<Rightarrow> instant \<Rightarrow> string option \<Rightarrow> outbox_row list" where
  "write_waitlist_notified c date_id account_ids priority_until now tp =
     map (\<lambda>batch. write_ticketing_event
         \<lparr>te_type = Type_Waitlist_Notified, te_key = date_id,
          te_payload = Waitlist_Notified \<lparr>wn_date_id = date_id, wn_account_ids = batch,
            wn_priority_until = priority_until, wn_occurred_at = now\<rparr>,
          te_traceparent = tp\<rparr> now)
       (batches (waitlist_notified_accounts_max c) account_ids)"

section \<open>What the rows say\<close>

text \<open>The partition keys: a date's events and its seats' by the date, an order's by the order.\<close>

fun payload_key :: "ticketing_payload \<Rightarrow> ident" where
  "payload_key (Capacity_Set m) = cs_date_id m"
| "payload_key (Pricing_Changed m) = pc_date_id m"
| "payload_key (Availability_Changed m) = ac_date_id m"
| "payload_key (Seat_Activated_Event m) = sa_date_id m"
| "payload_key (Seat_Cancelled_Event m) = sx_date_id m"
| "payload_key (Waitlist_Notified m) = wn_date_id m"
| "payload_key (Order_Paid_Event m) = op_order_id m"
| "payload_key (Order_Refunded_Event m) = om_order_id m"
| "payload_key (Credit_Issued_Event m) = ci_account_id m"

fun payload_type :: "ticketing_payload \<Rightarrow> ticketing_event_type" where
  "payload_type (Capacity_Set m) = Type_Capacity_Set"
| "payload_type (Pricing_Changed m) = Type_Pricing_Changed"
| "payload_type (Availability_Changed m) = Type_Availability_Changed"
| "payload_type (Seat_Activated_Event m) = Type_Seat_Activated"
| "payload_type (Seat_Cancelled_Event m) = Type_Seat_Cancelled"
| "payload_type (Waitlist_Notified m) = Type_Waitlist_Notified"
| "payload_type (Order_Paid_Event m) = Type_Order_Paid"
| "payload_type (Order_Refunded_Event m) = Type_Order_Refunded"
| "payload_type (Credit_Issued_Event m) = Type_Credit_Issued"

definition outbox_row_ok :: "outbox_row \<Rightarrow> bool" where
  "outbox_row_ok r \<longleftrightarrow> ob_aggregateid r = payload_key (ob_payload r) \<and>
     ob_type r = payload_type (ob_payload r) \<and>
     ob_aggregatetype r = ticketing_event_topics (payload_type (ob_payload r))"

definition event_ok :: "ticketing_event \<Rightarrow> bool" where
  "event_ok e \<longleftrightarrow> te_key e = payload_key (te_payload e) \<and> te_type e = payload_type (te_payload e)"

lemma write_ticketing_event_ok: "event_ok e \<Longrightarrow> outbox_row_ok (write_ticketing_event e at)"
  by (simp add: event_ok_def outbox_row_ok_def write_ticketing_event_def write_outbox_event_def)

lemma date_sales_integration_event_ok:
  "date_sales_integration_event_of tp e = Some (t, at) \<Longrightarrow> event_ok t"
  by (cases e) (auto simp: event_ok_def pricing_changed_def capacity_set_def Let_def split: if_splits)

lemma seat_order_integration_events_ok:
  "(t, at) \<in> set (seat_order_integration_events_of c tp e) \<Longrightarrow> event_ok t"
  by (cases e) (auto simp: event_ok_def seat_activated_def)

text \<open>
  Every row the outbox receives of a date's events, of an order's and of a notice is
  routed to the topic of its type and keyed by the aggregate its payload is about, so one date's and
  one order's events stay in order.
\<close>

lemma outbox_rows_keyed:
  "list_all outbox_row_ok (write_date_sales_integration_events tp ds_events @
     write_seat_order_integration_events c tp so_events @
     write_waitlist_notified w date_id accounts until now tp)"
proof -
  have "outbox_row_ok r" if "r \<in> set (write_date_sales_integration_events tp ds_events)" for r
    using that by (auto simp: write_date_sales_integration_events_def List.map_filter_def
        intro!: write_ticketing_event_ok dest: date_sales_integration_event_ok)
  moreover have "outbox_row_ok r" if "r \<in> set (write_seat_order_integration_events c tp so_events)" for r
    using that by (auto simp: write_seat_order_integration_events_def
        intro!: write_ticketing_event_ok dest: seat_order_integration_events_ok)
  moreover have "outbox_row_ok r" if "r \<in> set (write_waitlist_notified w date_id accounts until now tp)" for r
    using that by (auto simp: write_waitlist_notified_def event_ok_def intro!: write_ticketing_event_ok)
  ultimately show ?thesis by (auto simp: list_all_iff)
qed

end
