(* ===== verification/Credits.thy ===== *)
theory Credits
  imports Ticketing_Events
begin

text \<open>
  The credit an interrupted date's settlement issues (\<open>apps/ticketing/src/credits\<close>): its aggregate
  and the outbox row of its event. Its table is in \<open>Ticketing_Db\<close>, its repository in
  \<open>Credit_Store\<close>.
\<close>

record credit_issue =
  cr_id :: ident
  cr_account_id :: ident
  cr_channel_id :: ident
  cr_order_id :: ident
  cr_amount :: money
  cr_origin :: credit_origin
  cr_origin_ref :: "ident option"

record credit_snapshot = credit_issue +
  cr_state :: credit_state
  cr_expires_at :: instant
  cr_version :: int

datatype credit_event = CreditIssued credit_snapshot instant

type_synonym credit = "(credit_snapshot, credit_event) aggregate"

definition issue_credit :: "refund_core \<Rightarrow> credit_issue \<Rightarrow> instant \<Rightarrow> credit result" where
  "issue_credit c i now =
     (if amount_minor (cr_amount i) \<le> 0 then Inl (Plain_Error ''a credit would be of nothing'')
      else
        let snapshot = \<lparr>cr_id = cr_id i, cr_account_id = cr_account_id i,
              cr_channel_id = cr_channel_id i, cr_order_id = cr_order_id i,
              cr_amount = cr_amount i, cr_origin = cr_origin i, cr_origin_ref = cr_origin_ref i,
              cr_state = Credit_Issued, cr_expires_at = credit_expires_at c now, cr_version = 1\<rparr>
        in Inr (apply_event (CreditIssued snapshot now) (restore snapshot)))"

fun credit_issued :: "string option \<Rightarrow> credit_event \<Rightarrow> ticketing_event \<times> instant" where
  "credit_issued tp (CreditIssued cr at) =
     (\<lparr>te_type = Type_Credit_Issued, te_key = cr_account_id cr,
       te_payload = Credit_Issued_Event \<lparr>ci_credit_id = cr_id cr, ci_account_id = cr_account_id cr,
         ci_channel_id = cr_channel_id cr, ci_amount = cr_amount cr, ci_origin = cr_origin cr,
         ci_origin_date_id = (if cr_origin cr = Credit_Interrupted_Date
           then text_or_empty (cr_origin_ref cr) else []),
         ci_expires_at = cr_expires_at cr, ci_occurred_at = at\<rparr>,
       te_traceparent = tp\<rparr>, at)"

definition record_credit_events :: "string option \<Rightarrow> credit_event list \<Rightarrow> outbox_row list" where
  "record_credit_events tp events =
     map (\<lambda>e. case credit_issued tp e of (t, at) \<Rightarrow> write_ticketing_event t at) events"

lemma record_credit_events_ok: "list_all outbox_row_ok (record_credit_events tp events)"
proof -
  have "outbox_row_ok (case credit_issued tp e of (t, at) \<Rightarrow> write_ticketing_event t at)" for e
    by (cases e) (auto simp: event_ok_def intro!: write_ticketing_event_ok)
  then show ?thesis by (simp add: record_credit_events_def list_all_iff)
qed

lemma issue_credit_Inr:
  assumes "issue_credit c i now = Inr a"
  shows "0 < amount_minor (cr_amount i)" and "cr_amount (current a) = cr_amount i"
    and "cr_version (current a) = 1" and "cr_order_id (current a) = cr_order_id i"
    and "cr_id (current a) = cr_id i" and "cr_account_id (current a) = cr_account_id i"
    and "uncommitted a = [CreditIssued (current a) now]"
  using assms by (auto simp: issue_credit_def Let_def split: if_splits)

end
