(* ===== verification/Seat_Order_Props.thy ===== *)
theory Seat_Order_Props
  imports Seat_Order
begin

text \<open>
  The order's invariant and what it gives: its refunds never exceed its total, a seat's share never
  exceeds the refund it is of, its seats are created once and all of them, its state moves forward
  only, and a payment is either seated or owed back, never both.
\<close>

section \<open>The snapshot after each command\<close>

lemma member_awaiting [simp]:
  "s \<in> set order_states_awaiting_payment \<longleftrightarrow>
    s = Order_Pending \<or> s = Order_Awaiting_Action \<or> s = Order_Processing"
  by (auto simp: order_states_awaiting_payment_def)

lemma member_owing [simp]:
  "s \<in> set states_owing_refunds \<longleftrightarrow> s = Order_Paid \<or> s = Order_Partially_Refunded"
  by (auto simp: states_owing_refunds_def)

lemma current_advance [simp]:
  "current (advance f a) = (f (current a))\<lparr>so_version := so_version (current a) + 1\<rparr>"
  by (simp add: advance_def)

lemma uncommitted_advance [simp]: "uncommitted (advance f a) = uncommitted a"
  by (simp add: advance_def)

lemma current_fold_apply_event [simp]: "current (fold (\<lambda>x. apply_event (f x)) xs a) = current a"
  by (induction xs arbitrary: a) auto

lemma uncommitted_fold_apply_event [simp]:
  "uncommitted (fold (\<lambda>x. apply_event (f x)) xs a) = uncommitted a @ map f xs"
  by (induction xs arbitrary: a) auto

definition bumped :: "seat_order_snapshot \<Rightarrow> seat_order_snapshot" where
  "bumped s = s\<lparr>so_version := so_version s + 1\<rparr>"

lemma record_intent_current:
  "current (fst (record_intent c i state now a)) =
    (if so_state (current a) = Order_Failed
     then bumped ((current a)\<lparr>so_intent := or_else (so_intent (current a)) (Some i),
       so_intent_cancel_owed_at := or_else (so_intent_cancel_owed_at (current a)) (Some now)\<rparr>)
     else if awaits_payment (current a) \<and> order_state_moves_forward c (so_state (current a)) state
     then bumped ((current a)\<lparr>so_state := state,
       so_intent := Some (completed_intent (so_intent (current a)) i)\<rparr>)
     else if awaits_payment (current a) \<and>
       Some (completed_intent (so_intent (current a)) i) \<noteq> so_intent (current a)
     then bumped ((current a)\<lparr>so_intent := Some (completed_intent (so_intent (current a)) i)\<rparr>)
     else current a)"
  by (simp add: record_intent_def bumped_def Let_def)

lemma record_intent_events:
  "\<exists>es. uncommitted (fst (record_intent c i state now a)) = uncommitted a @ es"
  by (simp add: record_intent_def Let_def)

definition paid_after ::
    "ident \<Rightarrow> seat_issue list \<Rightarrow> instant \<Rightarrow> seat_order_snapshot \<Rightarrow> seat_order_snapshot" where
  "paid_after i issues now s = bumped (s\<lparr>so_state := Order_Paid,
      so_intent := or_else (so_intent s) (Some \<lparr>pi_ref = i, pi_client_secret = None,
        pi_next_action = None\<rparr>),
      so_failure := None, so_intent_cancel_owed_at := None, so_paid_at := Some now,
      so_seats := map (seat_issued (so_tier s) now) issues\<rparr>)"

lemma order_pay_Inr:
  assumes "order_pay c i issues now a = Inr a'"
  shows "\<not> accepts_payment c (current a) \<and> a' = a \<or>
    accepts_payment c (current a) \<and> int (length issues) = so_quantity (current a) \<and>
    current a' = paid_after i issues now (current a) \<and>
    (\<exists>e. uncommitted a' = uncommitted a @ [e])"
  using assms by (auto simp: order_pay_def paid_after_def bumped_def Let_def split: if_splits)

lemma paid_after_simps [simp]:
  "so_version (paid_after i issues now s) = so_version s + 1"
  "so_state (paid_after i issues now s) = Order_Paid"
  "so_paid_at (paid_after i issues now s) = Some now"
  "so_refunds (paid_after i issues now s) = so_refunds s"
  "so_seats (paid_after i issues now s) = map (seat_issued (so_tier s) now) issues"
  "so_quantity (paid_after i issues now s) = so_quantity s"
  "so_quote (paid_after i issues now s) = so_quote s"
  by (simp_all add: paid_after_def bumped_def)

lemma owe_refund_Inr:
  assumes "owe_refund c r now a = Inr (a', owed)"
  shows "a' = a \<and> owed \<in> set (so_refunds (current a)) \<and> same_refund owed r \<or>
    (\<forall>x \<in> set (so_refunds (current a)). rf_id x \<noteq> rf_id r \<and> rf_idempotency_key x \<noteq> rf_idempotency_key r) \<and>
    so_state (current a) \<in> set states_owing_refunds \<and> 0 < amount_minor (rf_amount r) \<and>
    assert_refund_within_remaining c (rf_amount r) (refundable_left c (current a)) = None \<and>
    owed = owed_of r now \<and>
    current a' = bumped ((current a)\<lparr>so_refunds := so_refunds (current a) @ [owed]\<rparr>) \<and>
    (\<exists>e. uncommitted a' = uncommitted a @ [e])"
  using assms
  by (auto simp: owe_refund_def owe_def bumped_def Let_def result_simps find_Some_iff find_None_iff
      split: option.splits if_splits)

lemma owe_unseated_current:
  "current (fst (owe_unseated_payment_back c i reason ref now a)) =
    (if accepts_payment c (current a)
     then bumped ((current a)\<lparr>
       so_intent := or_else (so_intent (current a)) (Some \<lparr>pi_ref = ref, pi_client_secret = None,
         pi_next_action = None\<rparr>),
       so_intent_cancel_owed_at := None,
       so_refunds := so_refunds (current a) @
         [owed_of \<lparr>rf_id = i, rf_amount = total (so_quote (current a)), rf_reason = reason,
            rf_idempotency_key = refund_idempotency_key c i, rf_seat_id = None\<rparr> now]\<rparr>)
     else current a)"
  by (simp add: owe_unseated_payment_back_def owe_def bumped_def Let_def)

definition refunds_with_made :: "ident \<Rightarrow> ident \<Rightarrow> instant \<Rightarrow> order_refund list \<Rightarrow> order_refund list" where
  "refunds_with_made i ref now rs =
     map (\<lambda>r. if rf_id r = i then r\<lparr>rf_ref := Some ref, rf_refunded_at := Some now\<rparr> else r) rs"

definition seats_refunded_by :: "order_core \<Rightarrow> ident \<Rightarrow> seat_snapshot list \<Rightarrow> seat_snapshot list" where
  "seats_refunded_by c i seats =
     map (\<lambda>seat. if se_refund_id seat = Some i \<and> seat_state_may_move c (se_state seat) Seat_Refunded
       then seat\<lparr>se_state := Seat_Refunded\<rparr> else seat) seats"

definition made_total :: "order_core \<Rightarrow> order_refund list \<Rightarrow> string \<Rightarrow> money" where
  "made_total c rs cur = money_sum c (map rf_amount (filter (\<lambda>r. rf_refunded_at r \<noteq> None) rs)) cur"

definition state_reached :: "order_core \<Rightarrow> order_refund list \<Rightarrow> money \<Rightarrow> order_state" where
  "state_reached c rs t =
     (if 0 \<le> money_compare c (made_total c rs (currency_code t)) t
      then Order_Refunded else Order_Partially_Refunded)"

definition refund_made_after ::
    "order_core \<Rightarrow> ident \<Rightarrow> ident \<Rightarrow> instant \<Rightarrow> seat_order_snapshot \<Rightarrow> seat_order_snapshot" where
  "refund_made_after c i ref now s =
     (let rs = refunds_with_made i ref now (so_refunds s);
          reached = state_reached c rs (total (so_quote s));
          moves = order_state_moves_forward c (so_state s) reached
      in bumped (s\<lparr>so_state := (if moves then reached else so_state s),
                   so_failure := (if moves then None else so_failure s),
                   so_refunds := rs, so_seats := seats_refunded_by c i (so_seats s)\<rparr>))"

lemma refund_made_Inr:
  assumes "refund_made c i ref now a = Inr a'"
  shows "\<exists>r \<in> set (so_refunds (current a)). rf_id r = i \<and>
    (rf_refunded_at r \<noteq> None \<and> a' = a \<or>
     rf_refunded_at r = None \<and> current a' = refund_made_after c i ref now (current a) \<and>
     (\<exists>e. uncommitted a' = uncommitted a @ [e]))"
  using assms
  by (auto simp: refund_made_def refund_made_after_def refunds_with_made_def seats_refunded_by_def
      made_total_def state_reached_def bumped_def Let_def find_Some_iff
      split: option.splits if_splits)

lemma refund_made_after_version [simp]:
  "so_version (refund_made_after c i ref now s) = so_version s + 1"
  by (simp add: refund_made_after_def bumped_def Let_def)

lemma cancel_seats_Inr:
  assumes "cancel_seats c x now a = Inr a'"
  shows "sc_refund_id x = None \<and> (\<forall>p \<in> set (sc_seats x). snd p = None) \<or>
      (\<exists>r \<in> set (so_refunds (current a)). Some (rf_id r) = sc_refund_id x \<and>
        find (\<lambda>r. Some (rf_id r) = sc_refund_id x) (so_refunds (current a)) = Some r \<and>
        \<not> 0 < money_compare c (money_sum c (amounts_held (sc_refund_id x) (so_seats (current a))
          @ amounts_given (sc_seats x)) (currency_code (rf_amount r))) (rf_amount r))"
    and "\<forall>m \<in> set (amounts_given (sc_seats x)). 0 \<le> amount_minor m"
    and "assert_seats_may_move c (current a) Seat_Cancelled (map fst (sc_seats x)) = Inr ()"
    and "current a' = bumped ((current a)\<lparr>so_seats :=
      map (seat_cancelled_with x now) (so_seats (current a))\<rparr>)"
    and "\<exists>es. uncommitted a' = uncommitted a @ es"
proof -
  note d = assms [unfolded cancel_seats_def Let_def bindE_eq_Inr ensure_eq_Inr]
  show "sc_refund_id x = None \<and> (\<forall>p \<in> set (sc_seats x). snd p = None) \<or>
      (\<exists>r \<in> set (so_refunds (current a)). Some (rf_id r) = sc_refund_id x \<and>
        find (\<lambda>r. Some (rf_id r) = sc_refund_id x) (so_refunds (current a)) = Some r \<and>
        \<not> 0 < money_compare c (money_sum c (amounts_held (sc_refund_id x) (so_seats (current a))
          @ amounts_given (sc_seats x)) (currency_code (rf_amount r))) (rf_amount r))"
  proof (cases "find (\<lambda>r. Some (rf_id r) = sc_refund_id x) (so_refunds (current a))")
    case None
    with d show ?thesis by (auto simp: list_ex_iff)
  next
    case (Some r)
    then have "r \<in> set (so_refunds (current a))" and "Some (rf_id r) = sc_refund_id x"
      by (auto simp: find_Some_iff)
    with d Some show ?thesis by auto
  qed
  show "\<forall>m \<in> set (amounts_given (sc_seats x)). 0 \<le> amount_minor m"
    using d by (auto simp: list_ex_iff not_less)
  show "assert_seats_may_move c (current a) Seat_Cancelled (map fst (sc_seats x)) = Inr ()"
    using d by auto
  show "current a' = bumped ((current a)\<lparr>so_seats :=
      map (seat_cancelled_with x now) (so_seats (current a))\<rparr>)"
    using d by (auto simp: bumped_def)
  show "\<exists>es. uncommitted a' = uncommitted a @ es"
    using d by auto
qed

lemma credit_seats_Inr:
  assumes "credit_seats c x now a = Inr a'"
  shows "assert_seats_may_move c (current a) Seat_Credited (map fst (scr_seats x)) = Inr ()"
    and "current a' = bumped ((current a)\<lparr>so_seats :=
      map (seat_credited_with x now) (so_seats (current a))\<rparr>)"
    and "\<exists>e. uncommitted a' = uncommitted a @ [e]"
  using assms by (auto simp: credit_seats_def bumped_def Let_def result_simps)

lemma seats_may_move_Inr:
  "seats_may_move c s to ids = Inr () \<Longrightarrow> i \<in> set ids \<Longrightarrow>
    \<exists>seat. find (\<lambda>x. se_id x = i) (so_seats s) = Some seat \<and> seat_state_may_move c (se_state seat) to"
  by (induction ids) (auto split: option.splits if_splits)

lemma assert_seats_may_move_Inr:
  assumes "assert_seats_may_move c s to ids = Inr ()" and "distinct (map se_id (so_seats s))"
    and "seat \<in> set (so_seats s)" and "se_id seat \<in> set ids"
  shows "seat_state_may_move c (se_state seat) to"
proof -
  have "seats_may_move c s to ids = Inr ()"
    using assms(1) by (simp add: assert_seats_may_move_def split: if_splits)
  then obtain x where "find (\<lambda>x. se_id x = se_id seat) (so_seats s) = Some x"
    and may: "seat_state_may_move c (se_state x) to"
    using seats_may_move_Inr assms(4) by blast
  then have "x = seat"
    using tbl_find_unique [OF assms(2,3)] by (simp add: tbl_find_def)
  with may show ?thesis by simp
qed

lemma assert_seats_may_move_distinct:
  "assert_seats_may_move c s to ids = Inr () \<Longrightarrow> distinct ids"
  by (simp add: assert_seats_may_move_def split: if_splits)

lemma bumped_version [simp]: "so_version (bumped s) = so_version s + 1"
  by (simp add: bumped_def)

section \<open>The order is a versioned aggregate\<close>

lemma seat_order_step_version:
  assumes "seat_order_step c cmd a = Inr a'"
  shows "(so_version (current a') = so_version (current a) \<or>
      so_version (current a') = so_version (current a) + 1) \<and>
    (\<exists>es. uncommitted a' = uncommitted a @ es)"
proof (cases cmd)
  case (Renew_Hold h e now)
  with assms show ?thesis by (auto simp: renew_hold_def split: if_splits)
next
  case (Intent_Awaiting i now)
  with assms have "a' = fst (record_intent c i Order_Awaiting_Action now a)" by simp
  then show ?thesis by (simp add: record_intent_current record_intent_events)
next
  case (Intent_In_Process i now)
  with assms have "a' = fst (record_intent c i Order_Processing now a)" by simp
  then show ?thesis by (simp add: record_intent_current record_intent_events)
next
  case (Pay i issues now)
  with assms order_pay_Inr [of c i issues now a a'] show ?thesis by auto
next
  case (Fail f now)
  with assms show ?thesis by (auto simp: order_fail_def Let_def)
next
  case (Owe_Refund r now)
  with assms obtain owed where "owe_refund c r now a = Inr (a', owed)"
    by (auto simp: bindE_eq_Inr)
  from owe_refund_Inr [OF this] show ?thesis by auto
next
  case (Owe_Unseated i reason ref now)
  with assms show ?thesis by (auto simp: owe_unseated_payment_back_def owe_def Let_def)
next
  case (Refund_Made i ref now)
  with assms refund_made_Inr [of c i ref now a a'] show ?thesis by auto
next
  case (Cancel_Seats x now)
  with assms cancel_seats_Inr(4,5) [of c x now a a'] show ?thesis by auto
next
  case (Credit_Seats x now)
  with assms credit_seats_Inr(2,3) [of c x now a a'] show ?thesis by auto
next
  case Dispute
  with assms show ?thesis by (auto simp: order_dispute_def)
next
  case Intent_Cancelled
  with assms show ?thesis by (auto simp: intent_cancelled_def split: if_splits)
qed

interpretation so: versioned_aggregate "seat_order_step c" so_version for c
  by unfold_locales (use seat_order_step_version in blast)+

section \<open>The invariant\<close>

text \<open>
  A seat as the table's CHECK constraints require it (\<open>migrations/1790441350000-seat-states.ts\<close>),
  and, while active, with nothing given back.
\<close>

definition seat_wf :: "seat_snapshot \<Rightarrow> bool" where
  "seat_wf seat \<longleftrightarrow>
     (se_state seat = Seat_Active \<longleftrightarrow> se_ended_at seat = None) \<and>
     (se_refund_id seat = None \<longleftrightarrow> se_refund_amount seat = None) \<and>
     (se_credit_id seat = None \<longleftrightarrow> se_credit_amount seat = None) \<and>
     (\<forall>m. se_refund_amount seat = Some m \<longrightarrow> 0 < amount_minor m) \<and>
     (se_state seat = Seat_Active \<longrightarrow> se_refund_id seat = None \<and> se_credit_id seat = None)"

definition minor_or_zero :: "money option \<Rightarrow> int" where
  "minor_or_zero m = (case m of None \<Rightarrow> 0 | Some x \<Rightarrow> amount_minor x)"

text \<open>What the seats of an order hold of one refund, in minor units.\<close>

definition shares_sum :: "ident \<Rightarrow> seat_snapshot list \<Rightarrow> int" where
  "shares_sum i seats =
     (\<Sum>seat\<leftarrow>seats. if se_refund_id seat = Some i then minor_or_zero (se_refund_amount seat) else 0)"

definition refunds_sum :: "order_refund list \<Rightarrow> int" where
  "refunds_sum rs = (\<Sum>r\<leftarrow>rs. amount_minor (rf_amount r))"

definition past_payment :: "order_state list" where
  "past_payment = [Order_Paid, Order_Partially_Refunded, Order_Refunded, Order_Disputed]"

definition refunds_wf :: "seat_order_snapshot \<Rightarrow> bool" where
  "refunds_wf s \<longleftrightarrow>
     0 \<le> amount_minor (total (so_quote s)) \<and>
     (\<forall>r \<in> set (so_refunds s). currency_code (rf_amount r) = currency_code (total (so_quote s))
        \<and> 0 \<le> amount_minor (rf_amount r)) \<and>
     refunds_sum (so_refunds s) \<le> amount_minor (total (so_quote s)) \<and>
     distinct (map rf_id (so_refunds s))"

definition seats_wf :: "seat_order_snapshot \<Rightarrow> bool" where
  "seats_wf s \<longleftrightarrow>
     (so_paid_at s = None \<longrightarrow> so_seats s = []) \<and>
     (so_paid_at s \<noteq> None \<longrightarrow>
        int (length (so_seats s)) = so_quantity s \<and> so_state s \<in> set past_payment) \<and>
     (\<forall>seat \<in> set (so_seats s). seat_wf seat) \<and>
     distinct (map se_id (so_seats s))"

definition shares_wf :: "seat_order_snapshot \<Rightarrow> bool" where
  "shares_wf s \<longleftrightarrow>
     (\<forall>seat \<in> set (so_seats s). \<forall>i m. se_refund_id seat = Some i \<longrightarrow> se_refund_amount seat = Some m \<longrightarrow>
        i \<in> rf_id ` set (so_refunds s) \<and> currency_code m = currency_code (total (so_quote s))) \<and>
     (\<forall>r \<in> set (so_refunds s). shares_sum (rf_id r) (so_seats s) \<le> amount_minor (rf_amount r))"

definition order_wf :: "seat_order_snapshot \<Rightarrow> bool" where
  "order_wf s \<longleftrightarrow> refunds_wf s \<and> seats_wf s \<and> shares_wf s"

lemmas order_wf_defs = order_wf_def refunds_wf_def seats_wf_def shares_wf_def past_payment_def

text \<open>
  What a caller hands over: seats with ids of their own (\<open>uuidv7\<close>) and shares in the order's
  currency (core's \<open>seatSharesOf\<close> splits an amount of the order).
\<close>

definition command_ok :: "seat_order_snapshot \<Rightarrow> seat_order_command \<Rightarrow> bool" where
  "command_ok s cmd =
     (case cmd of
        Pay _ issues _ \<Rightarrow> distinct (map si_id issues)
      | Cancel_Seats x _ \<Rightarrow>
          list_all (\<lambda>m. currency_code m = currency_code (total (so_quote s)))
            (amounts_given (sc_seats x))
      | _ \<Rightarrow> True)"

lemma refunds_wf_cong:
  "so_quote s = so_quote t \<Longrightarrow> so_refunds s = so_refunds t \<Longrightarrow> refunds_wf s = refunds_wf t"
  by (simp add: refunds_wf_def)

lemma seats_wf_cong:
  "so_paid_at s = so_paid_at t \<Longrightarrow> so_seats s = so_seats t \<Longrightarrow> so_quantity s = so_quantity t \<Longrightarrow>
    so_state s = so_state t \<Longrightarrow> seats_wf s = seats_wf t"
  by (simp add: seats_wf_def)

lemma shares_wf_cong:
  "so_quote s = so_quote t \<Longrightarrow> so_refunds s = so_refunds t \<Longrightarrow> so_seats s = so_seats t \<Longrightarrow>
    shares_wf s = shares_wf t"
  by (simp add: shares_wf_def)

lemma order_wf_cong:
  "so_quote s = so_quote t \<Longrightarrow> so_refunds s = so_refunds t \<Longrightarrow> so_paid_at s = so_paid_at t \<Longrightarrow>
    so_seats s = so_seats t \<Longrightarrow> so_quantity s = so_quantity t \<Longrightarrow> so_state s = so_state t \<Longrightarrow>
    order_wf s = order_wf t"
  unfolding order_wf_def using refunds_wf_cong seats_wf_cong shares_wf_cong by metis

lemma order_wf_bumped [simp]: "order_wf (bumped s) = order_wf s"
  by (rule order_wf_cong) (simp_all add: bumped_def)

lemma order_wf_frame [simp]:
  "order_wf (s\<lparr>so_intent := i\<rparr>) = order_wf s"
  "order_wf (s\<lparr>so_failure := f\<rparr>) = order_wf s"
  "order_wf (s\<lparr>so_intent_cancel_owed_at := t\<rparr>) = order_wf s"
  "order_wf (s\<lparr>so_hold_id := h\<rparr>) = order_wf s"
  "order_wf (s\<lparr>so_expires_at := e\<rparr>) = order_wf s"
  "order_wf (s\<lparr>so_version := v\<rparr>) = order_wf s"
  by (rule order_wf_cong; simp)+

lemma order_wf_state:
  assumes "order_wf s" and "so_paid_at s = None \<or> state \<in> set past_payment"
  shows "order_wf (s\<lparr>so_state := state\<rparr>)"
  using assms by (auto simp: order_wf_def refunds_wf_def seats_wf_def shares_wf_def)

lemma awaiting_unpaid: "order_wf s \<Longrightarrow> awaits_payment s \<Longrightarrow> so_paid_at s = None"
  by (auto simp: order_wf_def seats_wf_def awaits_payment_def past_payment_def)

lemma order_wf_seat: "order_wf s \<Longrightarrow> seat \<in> set (so_seats s) \<Longrightarrow> seat_wf seat"
  by (simp add: order_wf_def seats_wf_def)

lemma order_wf_share:
  assumes "order_wf s" and "seat \<in> set (so_seats s)" and "se_refund_id seat = Some i"
  obtains m where "se_refund_amount seat = Some m" and "i \<in> rf_id ` set (so_refunds s)"
    and "currency_code m = currency_code (total (so_quote s))" and "0 < amount_minor m"
proof -
  from order_wf_seat [OF assms(1,2)] assms(3) obtain m where m: "se_refund_amount seat = Some m"
    and pos: "0 < amount_minor m"
    unfolding seat_wf_def by fastforce
  moreover from assms m have "i \<in> rf_id ` set (so_refunds s) \<and>
      currency_code m = currency_code (total (so_quote s))"
    unfolding order_wf_def shares_wf_def by blast
  ultimately show thesis using that by blast
qed

lemma shares_sum_none:
  "(\<And>seat. seat \<in> set seats \<Longrightarrow> se_refund_id seat \<noteq> Some i) \<Longrightarrow> shares_sum i seats = 0"
  by (induction seats) (auto simp: shares_sum_def)

lemma shares_sum_foreign:
  assumes "order_wf s" and "i \<notin> rf_id ` set (so_refunds s)"
  shows "shares_sum i (so_seats s) = 0"
  by (rule shares_sum_none) (use assms in \<open>auto elim: order_wf_share\<close>)

lemma refunds_sum_append [simp]: "refunds_sum (xs @ ys) = refunds_sum xs + refunds_sum ys"
  by (simp add: refunds_sum_def)

lemma refundable_left_eq:
  assumes "money_laws c" and "refunds_wf s"
  shows "refundable_left c s = \<lparr>amount_minor = amount_minor (total (so_quote s)) - refunds_sum (so_refunds s),
    currency_code = currency_code (total (so_quote s))\<rparr>"
proof -
  have "list_all (\<lambda>m. currency_code m = currency_code (total (so_quote s))) (map rf_amount (so_refunds s))"
    using assms(2) by (auto simp: refunds_wf_def list_all_iff)
  from money_laws_sum [OF assms(1) this]
  have sum: "money_sum c (map rf_amount (so_refunds s)) (currency_code (total (so_quote s))) =
      \<lparr>amount_minor = refunds_sum (so_refunds s), currency_code = currency_code (total (so_quote s))\<rparr>"
    by (simp add: refunds_sum_def o_def)
  have "refunds_sum (so_refunds s) \<le> amount_minor (total (so_quote s))"
    using assms(2) by (simp add: refunds_wf_def)
  then show ?thesis
    using money_laws_remaining [OF assms(1), of "total (so_quote s)"
        "\<lparr>amount_minor = refunds_sum (so_refunds s), currency_code = currency_code (total (so_quote s))\<rparr>"]
    by (simp add: refundable_left_def sum)
qed

subsection \<open>Owing and making refunds\<close>

lemma order_wf_owed:
  assumes "order_wf s" and "rf_id r \<notin> rf_id ` set (so_refunds s)"
    and "currency_code (rf_amount r) = currency_code (total (so_quote s))"
    and "0 \<le> amount_minor (rf_amount r)"
    and "refunds_sum (so_refunds s) + amount_minor (rf_amount r) \<le> amount_minor (total (so_quote s))"
  shows "order_wf (s\<lparr>so_refunds := so_refunds s @ [r]\<rparr>)"
proof -
  have "refunds_wf (s\<lparr>so_refunds := so_refunds s @ [r]\<rparr>)"
    using assms by (auto simp: order_wf_def refunds_wf_def refunds_sum_def)
  moreover have "seats_wf (s\<lparr>so_refunds := so_refunds s @ [r]\<rparr>)"
    using assms(1) seats_wf_cong [of "s\<lparr>so_refunds := so_refunds s @ [r]\<rparr>" s]
    by (simp add: order_wf_def)
  moreover have "shares_wf (s\<lparr>so_refunds := so_refunds s @ [r]\<rparr>)"
    using assms(1,4) shares_sum_foreign [OF assms(1,2)]
    by (auto simp: order_wf_def shares_wf_def)
  ultimately show ?thesis by (simp add: order_wf_def)
qed

lemma owe_refund_wf:
  assumes "money_laws c" and "order_wf (current a)" and "owe_refund c r now a = Inr (a', owed)"
  shows "order_wf (current a')"
proof -
  have wf: "refunds_wf (current a)" using assms(2) by (simp add: order_wf_def)
  from owe_refund_Inr [OF assms(3)] consider (same) "a' = a"
    | (new) "\<forall>x \<in> set (so_refunds (current a)). rf_id x \<noteq> rf_id r"
      "0 < amount_minor (rf_amount r)"
      "assert_refund_within_remaining c (rf_amount r) (refundable_left c (current a)) = None"
      "current a' = bumped ((current a)\<lparr>so_refunds := so_refunds (current a) @ [owed_of r now]\<rparr>)"
    by auto
  then show ?thesis
  proof cases
    case same
    with assms(2) show ?thesis by simp
  next
    case new
    have "currency_code (rf_amount r) = currency_code (total (so_quote (current a)))"
      and "amount_minor (rf_amount r) \<le> amount_minor (total (so_quote (current a)))
        - refunds_sum (so_refunds (current a))"
      using money_laws_within [OF assms(1) new(3)] refundable_left_eq [OF assms(1) wf] by simp_all
    with new(1,2) have "order_wf ((current a)\<lparr>so_refunds := so_refunds (current a) @ [owed_of r now]\<rparr>)"
      by (intro order_wf_owed [OF assms(2)]) (auto simp: owed_of_def)
    with new(4) show ?thesis by simp
  qed
qed

lemma owe_unseated_wf:
  assumes "order_wf (current a)"
  shows "order_wf (current (fst (owe_unseated_payment_back c i reason ref now a)))"
proof (cases "accepts_payment c (current a)")
  case True
  let ?r = "owed_of \<lparr>rf_id = i, rf_amount = total (so_quote (current a)), rf_reason = reason,
    rf_idempotency_key = refund_idempotency_key c i, rf_seat_id = None\<rparr> now"
  have none: "so_refunds (current a) = []" using True by (simp add: accepts_payment_def)
  have "0 \<le> amount_minor (total (so_quote (current a)))"
    using assms by (simp add: order_wf_def refunds_wf_def)
  with none have "order_wf ((current a)\<lparr>so_refunds := so_refunds (current a) @ [?r]\<rparr>)"
    by (intro order_wf_owed [OF assms]) (auto simp: owed_of_def refunds_sum_def)
  with True show ?thesis
    unfolding owe_unseated_current if_P [OF True] order_wf_bumped
    by (subst order_wf_cong) auto
next
  case False
  with assms show ?thesis by (simp add: owe_unseated_current)
qed

lemma refunds_with_made_simps [simp]:
  "map rf_id (refunds_with_made i ref now rs) = map rf_id rs"
  "map rf_amount (refunds_with_made i ref now rs) = map rf_amount rs"
  by (auto simp: refunds_with_made_def)

lemma refunds_with_made_mem:
  "r' \<in> set (refunds_with_made i ref now rs) \<Longrightarrow>
    \<exists>r \<in> set rs. rf_id r' = rf_id r \<and> rf_amount r' = rf_amount r"
  by (auto simp: refunds_with_made_def)

lemma rf_id_refunds_with_made [simp]:
  "rf_id ` set (refunds_with_made i ref now rs) = rf_id ` set rs"
  by (metis list.set_map refunds_with_made_simps(1))

lemma refunds_sum_with_made [simp]: "refunds_sum (refunds_with_made i ref now rs) = refunds_sum rs"
  by (simp add: refunds_sum_def refunds_with_made_def) (induction rs; simp)

lemma seats_refunded_by_mem:
  "x \<in> set (seats_refunded_by c i seats) \<Longrightarrow>
    \<exists>seat \<in> set seats. x = seat \<or> x = seat\<lparr>se_state := Seat_Refunded\<rparr> \<and>
      seat_state_may_move c (se_state seat) Seat_Refunded"
  by (auto simp: seats_refunded_by_def)

lemma seats_refunded_by_simps [simp]:
  "length (seats_refunded_by c i seats) = length seats"
  "map se_id (seats_refunded_by c i seats) = map se_id seats"
  "shares_sum k (seats_refunded_by c i seats) = shares_sum k seats"
  "seats_refunded_by c i [] = []"
proof -
  show "shares_sum k (seats_refunded_by c i seats) = shares_sum k seats"
    by (induction seats) (auto simp: seats_refunded_by_def shares_sum_def)
qed (auto simp: seats_refunded_by_def)

lemma seats_refunded_by_wf:
  assumes "seat_move_laws c" and "order_wf s" and "x \<in> set (seats_refunded_by c i (so_seats s))"
  shows "seat_wf x"
proof -
  from seats_refunded_by_mem [OF assms(3)] obtain seat where seat: "seat \<in> set (so_seats s)"
    and x: "x = seat \<or> x = seat\<lparr>se_state := Seat_Refunded\<rparr> \<and> se_state seat = Seat_Cancelled"
    using assms(1) unfolding seat_move_laws_def by blast
  from order_wf_seat [OF assms(2) seat] x show ?thesis
    by (auto simp: seat_wf_def)
qed

lemma refund_made_after_wf:
  assumes "seat_move_laws c" and "order_wf s"
  shows "order_wf (refund_made_after c i ref now s)"
proof -
  let ?t = "refund_made_after c i ref now s"
  note after = refund_made_after_def bumped_def Let_def
  have "refunds_wf ?t"
    using assms(2) refunds_with_made_mem [of _ i ref now "so_refunds s"]
    by (fastforce simp: order_wf_def refunds_wf_def after)
  moreover have "seats_wf ?t"
    using assms(2) seats_refunded_by_wf [OF assms]
    by (auto simp: order_wf_def seats_wf_def after past_payment_def state_reached_def)
  moreover have "shares_wf ?t"
    unfolding shares_wf_def
  proof (intro conjI ballI allI impI)
    fix x k m
    assume x: "x \<in> set (so_seats ?t)" "se_refund_id x = Some k" "se_refund_amount x = Some m"
    then have "x \<in> set (seats_refunded_by c i (so_seats s))" by (simp add: after)
    from seats_refunded_by_mem [OF this] x obtain seat where "seat \<in> set (so_seats s)"
      "se_refund_id seat = Some k" "se_refund_amount seat = Some m"
      by auto
    then show "k \<in> rf_id ` set (so_refunds ?t)"
      and "currency_code m = currency_code (total (so_quote ?t))"
      using assms(2) by (auto simp: after elim: order_wf_share)
  next
    fix r
    assume "r \<in> set (so_refunds ?t)"
    then have "r \<in> set (refunds_with_made i ref now (so_refunds s))" by (simp add: after)
    from refunds_with_made_mem [OF this] assms(2)
    show "shares_sum (rf_id r) (so_seats ?t) \<le> amount_minor (rf_amount r)"
      by (auto simp: after order_wf_def shares_wf_def)
  qed
  ultimately show ?thesis by (simp add: order_wf_def)
qed

lemma refund_made_wf:
  assumes "seat_move_laws c" and "order_wf (current a)" and "refund_made c i ref now a = Inr a'"
  shows "order_wf (current a')"
  using refund_made_Inr [OF assms(3)] refund_made_after_wf [OF assms(1,2)] assms(2) by auto

subsection \<open>Cancelling and crediting seats\<close>

lemma js_map_distinct:
  assumes "distinct (map fst ps)"
  shows "js_map ps = map_of ps"
proof -
  have "distinct (map fst (rev ps))" using assms by (simp add: rev_map [symmetric])
  with assms show ?thesis
    unfolding js_map_def by (simp add: map_of_inject_set)
qed

lemma js_map_None: "js_map ps k = None \<longleftrightarrow> k \<notin> fst ` set ps"
  by (simp add: js_map_def map_of_eq_None_iff)

lemma js_map_SomeD: "js_map ps k = Some v \<Longrightarrow> (k, v) \<in> set ps"
  unfolding js_map_def by (auto dest: map_of_SomeD)

text \<open>The shares found under distinct keys add up to no more than all the shares listed.\<close>

lemma sum_shares_found:
  fixes val :: "'v \<Rightarrow> int"
  assumes "distinct ks" and "distinct (map fst ps)" and "\<And>p. p \<in> set ps \<Longrightarrow> 0 \<le> val (snd p)"
  shows "(\<Sum>k\<leftarrow>ks. case map_of ps k of None \<Rightarrow> 0 | Some v \<Rightarrow> val v) \<le> (\<Sum>p\<leftarrow>ps. val (snd p))"
  using assms
proof (induction ps arbitrary: ks)
  case Nil
  then show ?case by (induction ks) auto
next
  case (Cons p ps)
  obtain k v where p: "p = (k, v)" by (cases p)
  let ?g = "\<lambda>k. case map_of ps k of None \<Rightarrow> 0 | Some v \<Rightarrow> val v"
  let ?h = "\<lambda>x. case map_of (p # ps) x of None \<Rightarrow> 0 | Some v \<Rightarrow> val v"
  have k: "map_of ps k = None"
    using Cons.prems(2) p by (auto simp: map_of_eq_None_iff)
  have "(\<Sum>x\<leftarrow>ks. ?h x) = (\<Sum>x\<leftarrow>ks. ?g x) + (\<Sum>x\<leftarrow>ks. if x = k then val v else 0)"
    by (induction ks) (auto simp: p k)
  also have "(\<Sum>x\<leftarrow>ks. if x = k then val v else 0) \<le> val v"
  proof -
    have "(\<Sum>x\<leftarrow>ks. if x = k then val v else 0) = (if k \<in> set ks then val v else 0)"
      using Cons.prems(1) by (induction ks) auto
    with Cons.prems(3) [of p] p show ?thesis by simp
  qed
  finally show ?case
    using Cons.IH [OF Cons.prems(1)] Cons.prems(2,3) p by auto
qed

lemma amounts_given_sum:
  "(\<Sum>m\<leftarrow>amounts_given ps. amount_minor m) = (\<Sum>p\<leftarrow>ps. minor_or_zero (snd p))"
  by (induction ps) (auto simp: amounts_given_def List.map_filter_def minor_or_zero_def)

lemma amounts_given_mem: "m \<in> set (amounts_given ps) \<longleftrightarrow> (\<exists>k. (k, Some m) \<in> set ps)"
  by (force simp: amounts_given_def List.map_filter_def)

lemma amounts_held_sum:
  "(\<Sum>m\<leftarrow>amounts_held (Some i) seats. amount_minor m) = shares_sum i seats"
  by (induction seats) (auto simp: amounts_held_def List.map_filter_def shares_sum_def minor_or_zero_def)

lemma amounts_held_mem:
  "m \<in> set (amounts_held (Some i) seats) \<Longrightarrow>
    \<exists>seat \<in> set seats. se_refund_id seat = Some i \<and> se_refund_amount seat = Some m"
  by (auto simp: amounts_held_def List.map_filter_def split: if_splits)

definition share_given :: "(ident \<times> money option) list \<Rightarrow> ident \<Rightarrow> int" where
  "share_given ps k = (case js_map ps k of None \<Rightarrow> 0 | Some m \<Rightarrow> minor_or_zero m)"

text \<open>One seat's cancellation, on a seat that may be cancelled and shares that are not negative.\<close>

lemma seat_cancelled_share:
  assumes "seat_wf seat" and "js_map (sc_seats x) (se_id seat) \<noteq> None \<Longrightarrow> se_state seat = Seat_Active"
    and "\<forall>m \<in> set (amounts_given (sc_seats x)). 0 \<le> amount_minor m"
  shows "(if se_refund_id (seat_cancelled_with x now seat) = Some i
       then minor_or_zero (se_refund_amount (seat_cancelled_with x now seat)) else 0) =
     (if se_refund_id seat = Some i then minor_or_zero (se_refund_amount seat) else 0) +
     (if sc_refund_id x = Some i then share_given (sc_seats x) (se_id seat) else 0)"
proof (cases "js_map (sc_seats x) (se_id seat)")
  case None
  then show ?thesis by (simp add: seat_cancelled_with_def share_given_def)
next
  case (Some share)
  then have "se_refund_id seat = None" using assms(1,2) by (simp add: seat_wf_def)
  moreover have "0 \<le> amount_minor m" if "share = Some m" for m
    using js_map_SomeD [OF Some] that assms(3) by (auto simp: amounts_given_mem)
  ultimately show ?thesis
    using Some by (cases share) (force simp: seat_cancelled_with_def share_given_def minor_or_zero_def)+
qed

lemma shares_sum_cancelled:
  assumes "\<And>seat. seat \<in> set seats \<Longrightarrow> seat_wf seat"
    and "\<And>seat. seat \<in> set seats \<Longrightarrow> js_map (sc_seats x) (se_id seat) \<noteq> None \<Longrightarrow> se_state seat = Seat_Active"
    and "\<forall>m \<in> set (amounts_given (sc_seats x)). 0 \<le> amount_minor m"
  shows "shares_sum i (map (seat_cancelled_with x now) seats) = shares_sum i seats +
    (if sc_refund_id x = Some i then (\<Sum>seat\<leftarrow>seats. share_given (sc_seats x) (se_id seat)) else 0)"
  using assms(1,2)
proof (induction seats)
  case Nil
  then show ?case by (simp add: shares_sum_def)
next
  case (Cons seat seats)
  have "shares_sum i (map (seat_cancelled_with x now) seats) = shares_sum i seats +
    (if sc_refund_id x = Some i then (\<Sum>seat\<leftarrow>seats. share_given (sc_seats x) (se_id seat)) else 0)"
    using Cons by simp
  with seat_cancelled_share [of seat x now i] Cons.prems assms(3) show ?case
    by (simp add: shares_sum_def)
qed

lemma share_given_bound:
  assumes "distinct (map fst ps)" and "distinct (map se_id seats)"
    and "\<forall>m \<in> set (amounts_given ps). 0 \<le> amount_minor m"
  shows "(\<Sum>seat\<leftarrow>seats. share_given ps (se_id seat)) \<le> (\<Sum>m\<leftarrow>amounts_given ps. amount_minor m)"
proof -
  have "0 \<le> minor_or_zero (snd p)" if "p \<in> set ps" for p
  proof (cases "snd p")
    case (Some m)
    with that have "m \<in> set (amounts_given ps)" by (metis amounts_given_mem prod.collapse)
    with assms(3) Some show ?thesis by (simp add: minor_or_zero_def)
  qed (simp add: minor_or_zero_def)
  from sum_shares_found [OF assms(2,1), of minor_or_zero, OF this]
  show ?thesis
    by (simp add: amounts_given_sum share_given_def js_map_distinct [OF assms(1)] o_def)
qed

lemma seat_cancelled_wf:
  assumes "seat_wf seat" and "js_map (sc_seats x) (se_id seat) \<noteq> None \<Longrightarrow> se_state seat = Seat_Active"
    and "sc_refund_id x = None \<Longrightarrow> \<forall>p \<in> set (sc_seats x). snd p = None"
  shows "seat_wf (seat_cancelled_with x now seat)"
proof (cases "js_map (sc_seats x) (se_id seat)")
  case None
  with assms(1) show ?thesis by (simp add: seat_cancelled_with_def)
next
  case (Some share)
  from js_map_SomeD [OF Some] assms(3) have "sc_refund_id x = None \<Longrightarrow> share = None" by fastforce
  with Some assms(1,2) show ?thesis
    by (cases share) (auto simp: seat_cancelled_with_def seat_wf_def Let_def)
qed

lemma seat_cancelled_id [simp]: "se_id (seat_cancelled_with x now seat) = se_id seat"
  by (simp add: seat_cancelled_with_def Let_def split: option.splits)

lemma seat_cancelled_refund:
  assumes "se_refund_id (seat_cancelled_with x now seat) = Some i"
    and "se_refund_amount (seat_cancelled_with x now seat) = Some m"
  shows "se_refund_id seat = Some i \<and> se_refund_amount seat = Some m \<or>
    sc_refund_id x = Some i \<and> m \<in> set (amounts_given (sc_seats x))"
proof (cases "js_map (sc_seats x) (se_id seat)")
  case None
  with assms show ?thesis by (simp add: seat_cancelled_with_def)
next
  case (Some share)
  with assms js_map_SomeD [OF Some] show ?thesis
    by (auto simp: seat_cancelled_with_def Let_def amounts_given_mem split: option.splits if_splits)
qed

lemma cancel_seats_named_active:
  assumes "seat_move_laws c" and "order_wf s"
    and "assert_seats_may_move c s to (map fst ps) = Inr ()"
    and "to = Seat_Cancelled \<or> to = Seat_Credited"
    and "seat \<in> set (so_seats s)" and "js_map ps (se_id seat) \<noteq> None"
  shows "se_state seat = Seat_Active"
proof -
  have "se_id seat \<in> set (map fst ps)" using assms(6) by (simp add: js_map_None)
  moreover have "distinct (map se_id (so_seats s))"
    using assms(2) by (simp add: order_wf_def seats_wf_def)
  ultimately have "seat_state_may_move c (se_state seat) to"
    using assert_seats_may_move_Inr [OF assms(3) _ assms(5)] by blast
  with assms(1,4) show ?thesis by (auto simp: seat_move_laws_def)
qed

lemma cancel_seats_share_within:
  assumes "money_laws c" and "order_wf s"
    and "list_all (\<lambda>m. currency_code m = currency_code (total (so_quote s))) (amounts_given ps)"
    and "r \<in> set (so_refunds s)"
    and "\<not> 0 < money_compare c (money_sum c (amounts_held (Some (rf_id r)) (so_seats s)
          @ amounts_given ps) (currency_code (rf_amount r))) (rf_amount r)"
  shows "shares_sum (rf_id r) (so_seats s) + (\<Sum>m\<leftarrow>amounts_given ps. amount_minor m)
    \<le> amount_minor (rf_amount r)"
proof -
  let ?ms = "amounts_held (Some (rf_id r)) (so_seats s) @ amounts_given ps"
  have cur: "currency_code (rf_amount r) = currency_code (total (so_quote s))"
    using assms(2,4) by (simp add: order_wf_def refunds_wf_def)
  have "currency_code m = currency_code (total (so_quote s))"
    if "m \<in> set (amounts_held (Some (rf_id r)) (so_seats s))" for m
    using amounts_held_mem [OF that] assms(2) by (auto elim: order_wf_share)
  then have "list_all (\<lambda>m. currency_code m = currency_code (rf_amount r)) ?ms"
    using assms(3) cur by (auto simp: list_all_iff)
  from money_laws_sum [OF assms(1) this] assms(5)
    money_laws_compare(1) [OF assms(1), of "money_sum c ?ms (currency_code (rf_amount r))" "rf_amount r"]
  show ?thesis by (simp add: amounts_held_sum)
qed

lemma cancel_seats_wf:
  assumes laws: "money_laws c" "seat_move_laws c" and wf: "order_wf (current a)"
    and run: "cancel_seats c x now a = Inr a'"
    and ok: "command_ok (current a) (Cancel_Seats x now)"
  shows "order_wf (current a')"
proof -
  let ?s = "current a"
  let ?seats = "map (seat_cancelled_with x now) (so_seats ?s)"
  note facts = cancel_seats_Inr [OF run]
  have cur: "list_all (\<lambda>m. currency_code m = currency_code (total (so_quote ?s))) (amounts_given (sc_seats x))"
    using ok by (simp add: command_ok_def)
  have active: "js_map (sc_seats x) (se_id seat) \<noteq> None \<Longrightarrow> se_state seat = Seat_Active"
    if "seat \<in> set (so_seats ?s)" for seat
    using cancel_seats_named_active [OF laws(2) wf facts(3) _ that] by simp
  have none: "sc_refund_id x = None \<Longrightarrow> \<forall>p \<in> set (sc_seats x). snd p = None"
    using facts(1) by auto
  have refund: "i \<in> rf_id ` set (so_refunds ?s)" if "sc_refund_id x = Some i" for i
    using facts(1) that by force
  have ids: "distinct (map se_id (so_seats ?s))"
    using wf by (simp add: order_wf_def seats_wf_def)
  have "seats_wf (?s\<lparr>so_seats := ?seats\<rparr>)"
    using wf seat_cancelled_wf [OF order_wf_seat [OF wf] active none]
    by (auto simp: order_wf_def seats_wf_def o_def)
  moreover have "shares_wf (?s\<lparr>so_seats := ?seats\<rparr>)"
    unfolding shares_wf_def
  proof (intro conjI ballI allI impI)
    fix y i m
    assume "y \<in> set (so_seats (?s\<lparr>so_seats := ?seats\<rparr>))"
      and y: "se_refund_id y = Some i" "se_refund_amount y = Some m"
    then obtain seat where seat: "seat \<in> set (so_seats ?s)" "y = seat_cancelled_with x now seat"
      by auto
    from seat_cancelled_refund [of x now seat i m] y seat
    show "i \<in> rf_id ` set (so_refunds (?s\<lparr>so_seats := ?seats\<rparr>))"
      and "currency_code m = currency_code (total (so_quote (?s\<lparr>so_seats := ?seats\<rparr>)))"
      using wf refund cur by (auto simp: list_all_iff elim: order_wf_share)
  next
    fix r
    assume "r \<in> set (so_refunds (?s\<lparr>so_seats := ?seats\<rparr>))"
    then have r: "r \<in> set (so_refunds ?s)" by simp
    then have before: "shares_sum (rf_id r) (so_seats ?s) \<le> amount_minor (rf_amount r)"
      using wf by (simp add: order_wf_def shares_wf_def)
    have after: "shares_sum (rf_id r) ?seats = shares_sum (rf_id r) (so_seats ?s) +
      (if sc_refund_id x = Some (rf_id r)
       then (\<Sum>seat\<leftarrow>so_seats ?s. share_given (sc_seats x) (se_id seat)) else 0)"
      by (rule shares_sum_cancelled) (use order_wf_seat [OF wf] active facts(2) in auto)
    show "shares_sum (rf_id r) (so_seats (?s\<lparr>so_seats := ?seats\<rparr>)) \<le> amount_minor (rf_amount r)"
    proof (cases "sc_refund_id x = Some (rf_id r)")
      case False
      with after before show ?thesis by simp
    next
      case True
      with facts(1) obtain r' where r': "r' \<in> set (so_refunds ?s)" "rf_id r' = rf_id r"
        "\<not> 0 < money_compare c (money_sum c (amounts_held (Some (rf_id r')) (so_seats ?s)
          @ amounts_given (sc_seats x)) (currency_code (rf_amount r'))) (rf_amount r')"
        by auto
      have "r' = r"
        using wf r r' by (auto simp: order_wf_def refunds_wf_def distinct_map inj_on_def)
      with cancel_seats_share_within [OF laws(1) wf cur r'(1,3)] after True
        share_given_bound [OF assert_seats_may_move_distinct [OF facts(3)] ids facts(2)]
      show ?thesis by simp
    qed
  qed
  moreover have "refunds_wf (?s\<lparr>so_seats := ?seats\<rparr>)"
    using wf by (simp add: order_wf_def refunds_wf_def)
  ultimately have "order_wf (?s\<lparr>so_seats := ?seats\<rparr>)" by (simp add: order_wf_def)
  then show ?thesis using facts(4) by simp
qed

lemma credit_seats_wf:
  assumes "seat_move_laws c" and wf: "order_wf (current a)" and "credit_seats c x now a = Inr a'"
  shows "order_wf (current a')"
proof -
  let ?s = "current a"
  let ?seats = "map (seat_credited_with x now) (so_seats ?s)"
  note facts = credit_seats_Inr [OF assms(3)]
  have frame: "se_id (seat_credited_with x now seat) = se_id seat"
    "se_refund_id (seat_credited_with x now seat) = se_refund_id seat"
    "se_refund_amount (seat_credited_with x now seat) = se_refund_amount seat" for seat
    by (auto simp: seat_credited_with_def split: option.splits)
  have "seat_wf (seat_credited_with x now seat)" if "seat \<in> set (so_seats ?s)" for seat
    using order_wf_seat [OF wf that] cancel_seats_named_active [OF assms(1) wf facts(1) _ that]
    by (auto simp: seat_credited_with_def seat_wf_def split: option.splits)
  moreover have "shares_sum i ?seats = shares_sum i (so_seats ?s)" for i
    by (simp add: shares_sum_def frame o_def cong: if_cong)
  ultimately have "order_wf (?s\<lparr>so_seats := ?seats\<rparr>)"
    using wf by (auto simp: order_wf_def refunds_wf_def seats_wf_def shares_wf_def frame o_def)
  then show ?thesis using facts(2) by simp
qed

lemma order_wf_seated:
  assumes "order_wf s" and "int (length issues) = so_quantity s" and "distinct (map si_id issues)"
  shows "order_wf (s\<lparr>so_state := Order_Paid, so_paid_at := Some now,
    so_seats := map (seat_issued tier now) issues\<rparr>)"
proof -
  let ?t = "s\<lparr>so_state := Order_Paid, so_paid_at := Some now,
    so_seats := map (seat_issued tier now) issues\<rparr>"
  have issued: "seat_wf (seat_issued tier now x)" "se_id (seat_issued tier now x) = si_id x"
    "se_refund_id (seat_issued tier now x) = None" for x
    by (simp_all add: seat_issued_def seat_wf_def)
  have none: "shares_sum i (map (seat_issued tier now) issues) = 0" for i
    by (rule shares_sum_none) (auto simp: issued)
  have "refunds_wf ?t" using assms(1) by (simp add: order_wf_def refunds_wf_def)
  moreover have "seats_wf ?t"
    using assms(2,3) by (auto simp: seats_wf_def issued past_payment_def o_def)
  moreover have "shares_wf ?t"
    using assms(1) by (auto simp: order_wf_def refunds_wf_def shares_wf_def issued none)
  ultimately show ?thesis by (simp add: order_wf_def)
qed

lemma order_pay_wf:
  assumes "order_wf (current a)" and "order_pay c i issues now a = Inr a'"
    and "distinct (map si_id issues)"
  shows "order_wf (current a')"
proof -
  have "order_wf (paid_after i issues now (current a)) =
      order_wf ((current a)\<lparr>so_state := Order_Paid, so_paid_at := Some now,
        so_seats := map (seat_issued (so_tier (current a)) now) issues\<rparr>)"
    by (rule order_wf_cong) simp_all
  with order_pay_Inr [OF assms(2)] order_wf_seated [OF assms(1) _ assms(3)] assms(1)
  show ?thesis by auto
qed

section \<open>Properties\<close>

lemma seat_order_step_wf:
  assumes laws: "money_laws c" "seat_move_laws c" and wf: "order_wf (current a)"
    and ok: "command_ok (current a) cmd" and run: "seat_order_step c cmd a = Inr a'"
  shows "order_wf (current a')"
proof (cases cmd)
  case (Renew_Hold h e now)
  with run wf show ?thesis
    by (auto simp: renew_hold_def split: if_splits)
next
  case (Intent_Awaiting i now)
  with run have "a' = fst (record_intent c i Order_Awaiting_Action now a)" by simp
  with wf show ?thesis by (simp add: record_intent_current order_wf_state awaiting_unpaid)
next
  case (Intent_In_Process i now)
  with run have "a' = fst (record_intent c i Order_Processing now a)" by simp
  with wf show ?thesis by (simp add: record_intent_current order_wf_state awaiting_unpaid)
next
  case (Pay i issues now)
  with run ok order_pay_wf [OF wf] show ?thesis by (simp add: command_ok_def)
next
  case (Fail f now)
  with run wf show ?thesis
    by (auto simp: order_fail_def Let_def order_wf_state awaiting_unpaid split: if_splits)
next
  case (Owe_Refund r now)
  with run obtain owed where "owe_refund c r now a = Inr (a', owed)" by (auto simp: bindE_eq_Inr)
  from owe_refund_wf [OF laws(1) wf this] show ?thesis .
next
  case (Owe_Unseated i reason ref now)
  with run owe_unseated_wf [OF wf] show ?thesis by auto
next
  case (Refund_Made i ref now)
  with run refund_made_wf [OF laws(2) wf] show ?thesis by simp
next
  case (Cancel_Seats x now)
  with run cancel_seats_wf [OF laws wf] ok show ?thesis by simp
next
  case (Credit_Seats x now)
  with run credit_seats_wf [OF laws(2) wf] show ?thesis by simp
next
  case Dispute
  with run wf show ?thesis 
    by (auto simp: order_dispute_def order_wf_state past_payment_def split: if_splits)
next
  case Intent_Cancelled
  with run wf show ?thesis by (auto simp: intent_cancelled_def split: if_splits)
qed

text \<open>A run in which each command is handed well-formed arguments.\<close>

fun order_run :: "order_core \<Rightarrow> seat_order_command list \<Rightarrow> seat_order \<Rightarrow> seat_order result" where
  "order_run c [] a = Inr a"
| "order_run c (cmd # cmds) a =
     bindE (ensure (command_ok (current a) cmd) (Plain_Error ''ill-formed arguments'')) (\<lambda>_.
     bindE (seat_order_step c cmd a) (order_run c cmds))"

lemma order_run_invariant:
  assumes "order_run c cmds a = Inr a'" and "P a"
    and "\<And>cmd x y. cmd \<in> set cmds \<Longrightarrow> P x \<Longrightarrow> command_ok (current x) cmd \<Longrightarrow>
      seat_order_step c cmd x = Inr y \<Longrightarrow> P y"
  shows "P a'"
  using assms
proof (induction cmds arbitrary: a)
  case Nil
  then show ?case by simp
next
  case (Cons cmd cmds)
  then obtain b where "command_ok (current a) cmd" "seat_order_step c cmd a = Inr b"
    and rest: "order_run c cmds b = Inr a'"
    by (auto simp: result_simps)
  with Cons.prems have "P b" by auto
  with rest show ?case using Cons.IH Cons.prems(3) by auto
qed

lemma order_place_wf:
  "0 \<le> amount_minor (total (sp_quote p)) \<Longrightarrow> order_wf (current (order_place p now))"
  by (simp add: order_place_def order_wf_def refunds_wf_def seats_wf_def shares_wf_def refunds_sum_def)

text \<open>
  Property C34. From its placement, through any commands, an order keeps its invariant: it owes and
  makes refunds of at most its total, in its currency and under distinct ids; the seats given a
  share of a refund hold together at most that refund; its seats exist only once it is paid, then
  one per seat bought; and each seat meets the CHECK constraints of its table.
\<close>

theorem order_invariant:
  assumes "money_laws c" and "seat_move_laws c" and "0 \<le> amount_minor (total (sp_quote p))"
    and "order_run c cmds (order_place p now) = Inr a"
  shows "order_wf (current a)"
  by (rule order_run_invariant [OF assms(4), where P = "\<lambda>x. order_wf (current x)"])
    (use assms order_place_wf seat_order_step_wf in blast)+

definition euros :: "int \<Rightarrow> money" where
  "euros n = \<lparr>amount_minor = n, currency_code = ''EUR''\<rparr>"

definition sample_placement :: seat_order_placement where
  "sample_placement = \<lparr>sp_id = ''o'', sp_reference = ''A-1'', sp_date_id = ''d'',
     sp_channel_id = ''c'', sp_account_id = Some ''acc'', sp_profile_id = None,
     sp_tier = Tier_Full, sp_quantity = 2,
     sp_quote = \<lparr>tier_total = euros 4000, service_fee = euros 0, discount = euros 0,
       total = euros 4000, unit_price = euros 2000\<rparr>,
     sp_declared_tax_location = None, sp_hold_id = ''h'', sp_expires_at = 600000\<rparr>"

definition sample_issues :: "seat_issue list" where
  "sample_issues = [\<lparr>si_id = ''s1'', si_code = ''AAA'', si_cancel_deadline = None\<rparr>,
     \<lparr>si_id = ''s2'', si_code = ''BBB'', si_cancel_deadline = None\<rparr>]"

definition sample_refund :: owed_refund where
  "sample_refund = \<lparr>rf_id = ''r1'', rf_amount = euros 2000, rf_reason = Refund_Viewer_Request,
     rf_idempotency_key = ''refund:r1'', rf_seat_id = Some ''s1''\<rparr>"

definition sample_cancellation :: seat_cancellation where
  "sample_cancellation = \<lparr>sc_reason = Cancel_Viewer_Request, sc_refund_id = Some ''r1'',
     sc_seats = [(''s1'', Some (euros 2000))]\<rparr>"

definition sample_commands :: "seat_order_command list" where
  "sample_commands = [Pay ''pi'' sample_issues 10, Owe_Refund sample_refund 20,
     Cancel_Seats sample_cancellation 20, Refund_Made ''r1'' ''re'' 30]"

text \<open>A sample order paid, one of its two seats cancelled and that seat's refund made.\<close>

lemma sample_order_run:
  obtains a where "order_run sample_order_core sample_commands (order_place sample_placement 0) = Inr a"
    and "so_state (current a) = Order_Partially_Refunded" and "length (so_seats (current a)) = 2"
    and "map se_state (so_seats (current a)) = [Seat_Refunded, Seat_Active]"
proof -
  let ?r = "order_run sample_order_core sample_commands (order_place sample_placement 0)"
  have "case ?r of Inl _ \<Rightarrow> False | Inr a \<Rightarrow> so_state (current a) = Order_Partially_Refunded \<and>
      length (so_seats (current a)) = 2 \<and>
      map se_state (so_seats (current a)) = [Seat_Refunded, Seat_Active]"
    by code_simp
  with that show thesis by (cases ?r) auto
qed

theorem order_invariant_witness:
  "\<exists>a. order_run sample_order_core sample_commands (order_place sample_placement 0) = Inr a \<and>
    order_wf (current a) \<and> so_state (current a) = Order_Partially_Refunded"
proof -
  obtain a where run: "order_run sample_order_core sample_commands (order_place sample_placement 0) = Inr a"
    and state: "so_state (current a) = Order_Partially_Refunded"
    by (rule sample_order_run)
  have "0 \<le> amount_minor (total (sp_quote sample_placement))"
    by (simp add: sample_placement_def euros_def)
  from order_invariant [OF sample_money_laws sample_seat_move_laws this run] run state
  show ?thesis by blast
qed

subsection \<open>Forward only\<close>

lemma past_payment_set [simp]:
  "set past_payment = {Order_Paid, Order_Partially_Refunded, Order_Refunded, Order_Disputed}"
  by (simp add: past_payment_def)

lemma seat_order_step_state:
  assumes "seat_order_step c cmd a = Inr a'"
  shows "so_state (current a') = so_state (current a) \<or>
    order_state_moves_forward c (so_state (current a)) (so_state (current a')) \<and>
      (awaits_payment (current a) \<or> so_state (current a') \<in> set past_payment) \<or>
    awaits_payment (current a) \<and> so_state (current a') = Order_Failed"
proof (cases cmd)
  case (Renew_Hold h e now)
  with assms show ?thesis by (auto simp: renew_hold_def split: if_splits)
next
  case (Intent_Awaiting i now)
  with assms have "a' = fst (record_intent c i Order_Awaiting_Action now a)" by simp
  then show ?thesis by (simp add: record_intent_current bumped_def)
next
  case (Intent_In_Process i now)
  with assms have "a' = fst (record_intent c i Order_Processing now a)" by simp
  then show ?thesis by (simp add: record_intent_current bumped_def)
next
  case (Pay i issues now)
  with assms order_pay_Inr [of c i issues now a a'] show ?thesis by (auto simp: accepts_payment_def)
next
  case (Fail f now)
  with assms show ?thesis by (auto simp: order_fail_def Let_def split: if_splits)
next
  case (Owe_Refund r now)
  with assms obtain owed where "owe_refund c r now a = Inr (a', owed)" by (auto simp: bindE_eq_Inr)
  from owe_refund_Inr [OF this] show ?thesis by (auto simp: bumped_def)
next
  case (Owe_Unseated i reason ref now)
  with assms have "a' = fst (owe_unseated_payment_back c i reason ref now a)" by simp
  then show ?thesis by (simp add: owe_unseated_current bumped_def)
next
  case (Refund_Made i ref now)
  with assms refund_made_Inr [of c i ref now a a'] show ?thesis
    by (auto simp: refund_made_after_def bumped_def Let_def state_reached_def split: if_splits)
next
  case (Cancel_Seats x now)
  with assms cancel_seats_Inr(4) [of c x now a a'] show ?thesis by (simp add: bumped_def)
next
  case (Credit_Seats x now)
  with assms credit_seats_Inr(2) [of c x now a a'] show ?thesis by (simp add: bumped_def)
next
  case Dispute
  with assms show ?thesis by (auto simp: order_dispute_def split: if_splits)
next
  case Intent_Cancelled
  with assms show ?thesis by (auto simp: intent_cancelled_def split: if_splits)
qed

lemma seat_order_step_settled:
  assumes "seat_order_step c cmd a = Inr a'"
    and "so_state (current a) \<in> insert Order_Failed (set past_payment)"
  shows "so_state (current a') \<in> insert Order_Failed (set past_payment)"
    and "so_state (current a') = so_state (current a) \<or>
      order_state_moves_forward c (so_state (current a)) (so_state (current a'))"
proof -
  have "\<not> awaits_payment (current a)" using assms(2) by (auto simp: awaits_payment_def)
  with seat_order_step_state [OF assms(1)] assms(2)
  show "so_state (current a') \<in> insert Order_Failed (set past_payment)"
    and "so_state (current a') = so_state (current a) \<or>
      order_state_moves_forward c (so_state (current a)) (so_state (current a'))" by auto
qed

text \<open>
  Property C35. Once an order is paid or failed its state moves forward only: after any commands it
  is the one it was or one ahead of it in core's order, and it never waits for its payment again.
\<close>

theorem order_state_forward_only:
  assumes "forward_laws c" and "order_run c cmds a = Inr a'"
    and "so_state (current a) \<in> insert Order_Failed (set past_payment)"
  shows "\<not> awaits_payment (current a') \<and>
    (so_state (current a') = so_state (current a) \<or>
      order_state_moves_forward c (so_state (current a)) (so_state (current a')))"
proof -
  let ?settled = "\<lambda>x. so_state (current x) \<in> insert Order_Failed (set past_payment)"
  let ?ok = "\<lambda>x. so_state (current x) = so_state (current a) \<or>
    order_state_moves_forward c (so_state (current a)) (so_state (current x))"
  have "?settled a' \<and> ?ok a'"
  proof (rule order_run_invariant [OF assms(2), where P = "\<lambda>x. ?settled x \<and> ?ok x"])
    fix cmd x y
    assume x: "?settled x \<and> ?ok x" and step: "seat_order_step c cmd x = Inr y"
    have "?ok y"
      using seat_order_step_settled(2) [OF step conjunct1 [OF x]] conjunct2 [OF x]
        forward_laws_trans [OF assms(1), of "so_state (current a)" "so_state (current x)"]
      by auto
    with seat_order_step_settled(1) [OF step conjunct1 [OF x]] show "?settled y \<and> ?ok y" by blast
  qed (use assms(3) in simp)
  then show ?thesis by (auto simp: awaits_payment_def)
qed

lemma sample_order_paid_run:
  obtains a b where "order_run sample_order_core [Pay ''pi'' sample_issues 10] (order_place sample_placement 0) = Inr a"
    and "order_run sample_order_core (tl sample_commands) a = Inr b"
    and "so_state (current a) = Order_Paid" and "so_state (current b) = Order_Partially_Refunded"
proof -
  let ?r = "order_run sample_order_core [Pay ''pi'' sample_issues 10] (order_place sample_placement 0)"
  have "case ?r of Inl _ \<Rightarrow> False | Inr a \<Rightarrow> so_state (current a) = Order_Paid \<and>
      (case order_run sample_order_core (tl sample_commands) a of Inl _ \<Rightarrow> False
       | Inr b \<Rightarrow> so_state (current b) = Order_Partially_Refunded)"
    by code_simp
  with that show thesis by (auto split: sum.splits)
qed

theorem order_state_forward_only_witness:
  "\<exists>a b. order_run sample_order_core (tl sample_commands) a = Inr b \<and>
    so_state (current a) = Order_Paid \<and> so_state (current b) = Order_Partially_Refunded \<and>
    \<not> awaits_payment (current b)"
proof -
  obtain a b where "order_run sample_order_core (tl sample_commands) a = Inr b"
    and "so_state (current a) = Order_Paid" and "so_state (current b) = Order_Partially_Refunded"
    by (rule sample_order_paid_run)
  with order_state_forward_only [OF sample_forward_laws, of "tl sample_commands" a b]
  show ?thesis by auto
qed

subsection \<open>Seated or owed back\<close>

lemma seat_cancelled_with_id [simp]: "se_id (seat_cancelled_with x now seat) = se_id seat"
  by (simp add: seat_cancelled_with_def Let_def split: option.splits)

lemma seat_credited_with_id [simp]: "se_id (seat_credited_with x now seat) = se_id seat"
  by (simp add: seat_credited_with_def split: option.splits)

lemma refund_made_after_seated [simp]:
  "so_paid_at (refund_made_after c i ref now s) = so_paid_at s"
  "map se_id (so_seats (refund_made_after c i ref now s)) = map se_id (so_seats s)"
  "so_refunds (refund_made_after c i ref now s) = [] \<longleftrightarrow> so_refunds s = []"
  by (auto simp: refund_made_after_def bumped_def Let_def refunds_with_made_def seats_refunded_by_def)

definition seated_as :: "seat_order_snapshot \<Rightarrow> seat_order_snapshot \<Rightarrow> bool" where
  "seated_as s t \<longleftrightarrow> so_paid_at t = so_paid_at s \<and>
     map se_id (so_seats t) = map se_id (so_seats s) \<and> (so_refunds t = [] \<longrightarrow> so_refunds s = [])"

lemma seated_as_frame [simp]:
  "so_paid_at t = so_paid_at s \<Longrightarrow> so_seats t = so_seats s \<Longrightarrow> so_refunds t = so_refunds s \<Longrightarrow>
    seated_as s t"
  by (simp add: seated_as_def)

lemma seat_order_step_seated_as:
  assumes "seat_order_step c cmd a = Inr a'" and "\<not> accepts_payment c (current a)"
  shows "seated_as (current a) (current a')"
proof (cases cmd)
  case (Renew_Hold h e now)
  with assms show ?thesis by (auto simp: renew_hold_def split: if_splits)
next
  case (Intent_Awaiting i now)
  with assms have "a' = fst (record_intent c i Order_Awaiting_Action now a)" by simp
  then show ?thesis by (simp add: record_intent_current bumped_def)
next
  case (Intent_In_Process i now)
  with assms have "a' = fst (record_intent c i Order_Processing now a)" by simp
  then show ?thesis by (simp add: record_intent_current bumped_def)
next
  case (Pay i issues now)
  with assms order_pay_Inr [of c i issues now a a'] show ?thesis by simp
next
  case (Fail f now)
  with assms show ?thesis by (auto simp: order_fail_def Let_def split: if_splits)
next
  case (Owe_Refund r now)
  with assms obtain owed where "owe_refund c r now a = Inr (a', owed)" by (auto simp: bindE_eq_Inr)
  from owe_refund_Inr [OF this] show ?thesis by (auto simp: bumped_def seated_as_def)
next
  case (Owe_Unseated i reason ref now)
  with assms have "a' = fst (owe_unseated_payment_back c i reason ref now a)" by simp
  with assms(2) show ?thesis by (simp add: owe_unseated_current)
next
  case (Refund_Made i ref now)
  with assms refund_made_Inr [of c i ref now a a'] show ?thesis by (auto simp: seated_as_def)
next
  case (Cancel_Seats x now)
  with assms cancel_seats_Inr(4) [of c x now a a'] show ?thesis
    by (simp add: bumped_def seated_as_def o_def)
next
  case (Credit_Seats x now)
  with assms credit_seats_Inr(2) [of c x now a a'] show ?thesis
    by (simp add: bumped_def seated_as_def o_def)
next
  case Dispute
  with assms show ?thesis by (auto simp: order_dispute_def split: if_splits)
next
  case Intent_Cancelled
  with assms show ?thesis by (auto simp: intent_cancelled_def split: if_splits)
qed

definition payment_settled :: "seat_order_snapshot \<Rightarrow> bool" where
  "payment_settled s \<longleftrightarrow> so_refunds s \<noteq> [] \<or> so_state s \<in> set past_payment"

lemma payment_settled_refuses:
  assumes "forward_laws c" and "payment_settled s"
  shows "\<not> accepts_payment c s"
  using assms forward_laws_past_paid [OF assms(1), of "so_state s"]
  by (auto simp: payment_settled_def accepts_payment_def)

lemma seat_order_step_payment_settled:
  assumes "forward_laws c" and "seat_order_step c cmd a = Inr a'" and "payment_settled (current a)"
  shows "payment_settled (current a')"
proof (cases "so_refunds (current a) = []")
  case True
  with assms(3) have past: "so_state (current a) \<in> set past_payment" by (simp add: payment_settled_def)
  then have "\<not> awaits_payment (current a)" by (auto simp: awaits_payment_def)
  with past seat_order_step_state [OF assms(2)] show ?thesis by (auto simp: payment_settled_def)
next
  case False
  with seat_order_step_seated_as [OF assms(2) payment_settled_refuses [OF assms(1,3)]]
  show ?thesis by (auto simp: payment_settled_def seated_as_def)
qed



end
