(* ===== verification/Order_Views.thy ===== *)
theory Order_Views
  imports Seat_Order_Props
begin

text \<open>
  What a purchase and the reads of an order answer (\<open>apps/ticketing/src/orders/order-views.ts\<close>):
  the order's view, its tickets' in the order of their codes with what each gives back, and the
  payment handoff of an order that waits for its buyer.
\<close>

record ticket_refund_view =
  tr_amount :: money
  tr_delay_code :: "string option"
  tr_method :: refund_method
  tr_refund_reason_code :: "refund_reason option"

record ticket_view =
  tk_seat_id :: ident
  tk_date_id :: ident
  tk_order_id :: ident
  tk_seat_code :: string
  tk_tier :: price_tier
  tk_state :: seat_state
  tk_cancel_deadline :: "instant option"
  tk_refund :: "ticket_refund_view option"

text \<open>The view's \<open>kind\<close> is always \<open>OrderKind.SEAT\<close> and is left out.\<close>

record order_view =
  ov_id :: ident
  ov_reference :: string
  ov_channel_id :: ident
  ov_state :: order_state
  ov_total :: money
  ov_placed_at :: instant
  ov_refund_reason_code :: "refund_reason option"

record payment_handoff_view =
  ph_order_id :: ident
  ph_state :: order_state
  ph_payment_intent_ref :: ident
  ph_client_secret :: string
  ph_next_action :: "next_action option"
  ph_return_url :: string
  ph_expires_at :: instant

definition states_serving_refund_reason :: "order_state list" where
  "states_serving_refund_reason = [Order_Refunded, Order_Partially_Refunded]"

text \<open>\<open>(refundedAt ?? '')\<close> compares a missing instant below every instant.\<close>

definition instant_after :: "instant option \<Rightarrow> instant option \<Rightarrow> bool" where
  "instant_after a b =
     (case a of None \<Rightarrow> False | Some x \<Rightarrow> (case b of None \<Rightarrow> True | Some y \<Rightarrow> y < x))"

definition latest_refund_made :: "seat_order_snapshot \<Rightarrow> order_refund option" where
  "latest_refund_made s =
     fold (\<lambda>refund latest. case latest of None \<Rightarrow> Some refund
         | Some l \<Rightarrow> if instant_after (rf_refunded_at refund) (rf_refunded_at l) then Some refund
                     else Some l)
       (filter (\<lambda>r. rf_refunded_at r \<noteq> None) (so_refunds s)) None"

definition order_view_of :: "seat_order_snapshot \<Rightarrow> order_view" where
  "order_view_of s =
     (let refunded = (if List.member states_serving_refund_reason (so_state s)
                      then latest_refund_made s else None)
      in \<lparr>ov_id = so_id s, ov_reference = so_reference s, ov_channel_id = so_channel_id s,
          ov_state = so_state s, ov_total = total (so_quote s), ov_placed_at = so_placed_at s,
          ov_refund_reason_code = map_option rf_reason refunded\<rparr>)"

definition ticket_refund_of ::
    "checkout_core \<Rightarrow> seat_snapshot \<Rightarrow> order_refund list \<Rightarrow> ticket_refund_view option" where
  "ticket_refund_of c seat refunds =
     (case (se_state seat = Seat_Credited, se_credit_amount seat) of
        (True, Some credit) \<Rightarrow>
          Some \<lparr>tr_amount = credit, tr_delay_code = refund_delay_code_of c Account_Credit,
                tr_method = Account_Credit, tr_refund_reason_code = None\<rparr>
      | _ \<Rightarrow>
          (case (se_refund_amount seat, find (\<lambda>r. Some (rf_id r) = se_refund_id seat) refunds) of
             (Some amount, Some refund) \<Rightarrow>
               Some \<lparr>tr_amount = amount,
                     tr_delay_code = refund_delay_code_of c Original_Payment_Method,
                     tr_method = Original_Payment_Method,
                     tr_refund_reason_code = Some (rf_reason refund)\<rparr>
           | _ \<Rightarrow> None))"

definition ticket_views_of :: "checkout_core \<Rightarrow> seat_order_snapshot \<Rightarrow> ticket_view list" where
  "ticket_views_of c s =
     map (\<lambda>seat. \<lparr>tk_seat_id = se_id seat, tk_date_id = so_date_id s, tk_order_id = so_id s,
         tk_seat_code = se_code seat, tk_tier = se_tier seat, tk_state = se_state seat,
         tk_cancel_deadline = se_cancel_deadline seat,
         tk_refund = ticket_refund_of c seat (so_refunds s)\<rparr>)
       (sort_by (\<lambda>l r. collates c (se_code l) (se_code r)) (so_seats s))"

definition ticket_view_of :: "checkout_core \<Rightarrow> seat_order_snapshot \<Rightarrow> ident \<Rightarrow> ticket_view result" where
  "ticket_view_of c s seat_id =
     (case find (\<lambda>v. tk_seat_id v = seat_id) (ticket_views_of c s) of
        None \<Rightarrow> Inl (Plain_Error ''order holds no such seat'')
      | Some v \<Rightarrow> Inr v)"

definition handoff_of :: "seat_order_snapshot \<Rightarrow> string \<Rightarrow> payment_handoff_view option" where
  "handoff_of s return_url =
     (case so_intent s of
        None \<Rightarrow> None
      | Some i \<Rightarrow>
          (case pi_client_secret i of
             None \<Rightarrow> None
           | Some secret \<Rightarrow>
               if \<not> List.member order_states_awaiting_payment (so_state s) then None
               else Some \<lparr>ph_order_id = so_id s, ph_state = so_state s,
                 ph_payment_intent_ref = pi_ref i, ph_client_secret = secret,
                 ph_next_action = pi_next_action i, ph_return_url = return_url,
                 ph_expires_at = so_expires_at s\<rparr>))"

section \<open>What the views show\<close>

lemma fold_latest_in:
  "fold (\<lambda>refund latest. case latest of None \<Rightarrow> Some refund
      | Some l \<Rightarrow> if instant_after (rf_refunded_at refund) (rf_refunded_at l) then Some refund
                  else Some l) xs acc = Some r \<Longrightarrow> r \<in> set xs \<or> acc = Some r"
proof (induction xs arbitrary: acc)
  case Nil
  then show ?case by simp
next
  case (Cons x xs)
  from Cons.IH Cons.prems show ?case by (auto split: option.splits if_splits)
qed

lemma latest_refund_made_in:
  "latest_refund_made s = Some r \<Longrightarrow> r \<in> set (so_refunds s) \<and> rf_refunded_at r \<noteq> None"
  using fold_latest_in [of "filter (\<lambda>r. rf_refunded_at r \<noteq> None) (so_refunds s)" None r]
  by (auto simp: latest_refund_made_def)

lemma ticket_refund_seat:
  assumes "order_wf s" and "seat \<in> set (so_seats s)"
    and "ticket_refund_of c seat (so_refunds s) = Some v"
  shows "se_state seat \<noteq> Seat_Active"
  using assms by (auto simp: ticket_refund_of_def order_wf_def seats_wf_def seat_wf_def
      split: option.splits bool.splits)

lemma share_within_refund:
  assumes "order_wf s" and "seat \<in> set (so_seats s)"
    and "se_refund_id seat = Some (rf_id r)" and "r \<in> set (so_refunds s)"
    and "se_refund_amount seat = Some m"
  shows "amount_minor m \<le> amount_minor (rf_amount r)"
proof -
  let ?share = "\<lambda>x. if se_refund_id x = Some (rf_id r) then minor_or_zero (se_refund_amount x) else 0"
  have wf: "\<forall>x \<in> set (so_seats s). seat_wf x" using assms(1) by (simp add: order_wf_def seats_wf_def)
  have "?share seat \<le> shares_sum (rf_id r) (so_seats s)"
    unfolding shares_sum_def using assms(2)
  proof (rule member_le_sum)
    fix x assume "x \<in> set (so_seats s)"
    with wf have "seat_wf x" by blast
    then show "0 \<le> ?share x" by (force simp: seat_wf_def minor_or_zero_def split: option.splits)
  qed
  also have "\<dots> \<le> amount_minor (rf_amount r)"
    using assms(1,4) by (simp add: order_wf_def shares_wf_def)
  finally show ?thesis using assms(3,5) by (simp add: minor_or_zero_def)
qed

lemma ticket_refund_original:
  assumes "order_wf s" and "seat \<in> set (so_seats s)"
    and "ticket_refund_of c seat (so_refunds s) = Some v" and "tr_method v = Original_Payment_Method"
  shows "\<exists>r \<in> set (so_refunds s). tr_refund_reason_code v = Some (rf_reason r) \<and>
    amount_minor (tr_amount v) \<le> amount_minor (rf_amount r)"
proof -
  from assms(3,4) obtain m r where "se_refund_amount seat = Some m"
    and found: "find (\<lambda>r. Some (rf_id r) = se_refund_id seat) (so_refunds s) = Some r"
    and "tr_amount v = m" and "tr_refund_reason_code v = Some (rf_reason r)"
    by (auto simp: ticket_refund_of_def split: option.splits bool.splits)
  moreover have "r \<in> set (so_refunds s)" and "se_refund_id seat = Some (rf_id r)"
    using found by (auto simp: find_Some_iff)
  ultimately show ?thesis using share_within_refund [OF assms(1,2)] by blast
qed

text \<open>
  The tickets of an order in its invariant are its seats, one view each; an active
  seat shows no refund, and what a cancelled one shows is a share of a refund of the order, no more
  than that refund, with its reason.
\<close>

lemma ticket_views_show_seats:
  assumes "order_wf s"
  shows "length (ticket_views_of c s) = length (so_seats s) \<and>
    tk_seat_id ` set (ticket_views_of c s) = se_id ` set (so_seats s) \<and>
    (\<forall>v \<in> set (ticket_views_of c s). \<forall>x. tk_refund v = Some x \<longrightarrow>
      tk_state v \<noteq> Seat_Active \<and>
      (tr_method x = Original_Payment_Method \<longrightarrow>
        (\<exists>r \<in> set (so_refunds s). tr_refund_reason_code x = Some (rf_reason r) \<and>
          amount_minor (tr_amount x) \<le> amount_minor (rf_amount r))))"
proof (intro conjI ballI allI impI)
  show "length (ticket_views_of c s) = length (so_seats s)" by (simp add: ticket_views_of_def)
  show "tk_seat_id ` set (ticket_views_of c s) = se_id ` set (so_seats s)"
    by (simp add: ticket_views_of_def image_image)
next
  fix v x
  assume "v \<in> set (ticket_views_of c s)" and x: "tk_refund v = Some x"
  then obtain seat where seat: "seat \<in> set (so_seats s)" and "tk_state v = se_state seat"
    and refund: "ticket_refund_of c seat (so_refunds s) = Some x"
    by (auto simp: ticket_views_of_def)
  with ticket_refund_seat [OF assms seat refund] show "tk_state v \<noteq> Seat_Active" by simp
  show "\<exists>r \<in> set (so_refunds s). tr_refund_reason_code x = Some (rf_reason r) \<and>
      amount_minor (tr_amount x) \<le> amount_minor (rf_amount r)"
    if "tr_method x = Original_Payment_Method"
    using ticket_refund_original [OF assms seat refund that] .
qed

lemma ticket_views_show_seats_witness:
  "\<exists>s. order_wf s \<and> so_state s = Order_Partially_Refunded \<and>
    length (ticket_views_of sample_checkout_core s) = length (so_seats s)"
proof -
  obtain a where run: "order_run sample_order_core sample_commands (order_place sample_placement 0) = Inr a"
    and state: "so_state (current a) = Order_Partially_Refunded"
    by (rule sample_order_run)
  have "order_wf (current (order_place sample_placement 0))"
    by (rule order_place_wf) (simp add: sample_placement_def euros_def)
  then have "order_wf (current a)"
    by (rule order_run_invariant [OF run, where P = "\<lambda>x. order_wf (current x)"])
      (use seat_order_step_wf sample_money_laws sample_seat_move_laws in blast)
  with ticket_views_show_seats [OF this, of sample_checkout_core] state show ?thesis by blast
qed

end
