(* ===== verification/Ticketing_Db.thy ===== *)
theory Ticketing_Db
  imports Transactions Seat_Hold Credits Order_Views
begin

text \<open>
  The tables of ticketing's database: a record per entity (\<open>*.entity.ts\<close>) with the constraints of
  its migrations (\<open>apps/ticketing/src/migrations\<close>), and the record of all of them that a transaction
  reads and writes. Every statement that inserts or updates a row checks the row it leaves; one that
  breaks a constraint throws. \<open>created_at\<close> and \<open>updated_at\<close> are read by nothing and left out, and a
  \<open>bigint\<close> read as text is the integer it spells.
\<close>

section \<open>Rows\<close>

record price_tier_column =
  ptc_tier :: price_tier
  ptc_amount_minor :: int
  ptc_currency_code :: string
  ptc_active :: bool

record date_sales_row =
  dr_date_id :: ident
  dr_channel_id :: ident
  dr_capacity_total :: int
  dr_provisioned_capacity :: "int option"
  dr_capacity_tiers :: "capacity_tier list"
  dr_seats_available :: int
  dr_seats_sold :: int
  dr_waitlist_count :: int
  dr_priority_pool_seats :: int
  dr_priority_until :: "instant option"
  dr_price_tiers :: "price_tier_column list"
  dr_prices_locked_at :: "instant option"
  dr_sales_closed_at :: "instant option"
  dr_sales_end_at :: "instant option"
  dr_starts_at :: "instant option"
  dr_schedule_stated_at :: "instant option"
  dr_outcome :: "date_outcome option"
  dr_outcome_stated_at :: "instant option"
  dr_version :: int
  dr_availability_moves :: int

text \<open>Generated by the database: \<open>prices_locked_at IS NOT NULL AND sales_closed_at IS NULL\<close>.\<close>

definition dr_on_sale :: "date_sales_row \<Rightarrow> bool" where
  "dr_on_sale r \<longleftrightarrow> dr_prices_locked_at r \<noteq> None \<and> dr_sales_closed_at r = None"

definition int4 :: "int \<Rightarrow> bool" where
  "int4 n \<longleftrightarrow> - (2 ^ 31) \<le> n \<and> n < 2 ^ 31"

definition date_sales_check :: "date_sales_row \<Rightarrow> bool" where
  "date_sales_check r \<longleftrightarrow>
     0 \<le> dr_capacity_total r \<and> int4 (dr_capacity_total r) \<and>
     (case dr_provisioned_capacity r of None \<Rightarrow> True | Some n \<Rightarrow> 0 < n \<and> int4 n) \<and>
     0 \<le> dr_seats_available r \<and> 0 \<le> dr_seats_sold r \<and>
     0 \<le> dr_waitlist_count r \<and> int4 (dr_waitlist_count r) \<and> 0 \<le> dr_priority_pool_seats r \<and>
     dr_seats_available r + dr_priority_pool_seats r + dr_seats_sold r \<le> dr_capacity_total r \<and>
     (dr_priority_pool_seats r = 0 \<or> dr_priority_until r \<noteq> None) \<and> int4 (dr_version r)"

record seat_hold_row =
  hr_id :: ident
  hr_date_id :: ident
  hr_account_id :: "ident option"
  hr_profile_id :: "ident option"
  hr_tier :: price_tier
  hr_quantity :: int
  hr_pool_seats :: int
  hr_origin :: seat_hold_origin
  hr_origin_ref :: ident
  hr_expires_at :: instant
  hr_state :: seat_hold_state
  hr_version :: int

definition seat_hold_check :: "seat_hold_row \<Rightarrow> bool" where
  "seat_hold_check r \<longleftrightarrow> 0 < hr_quantity r \<and> int4 (hr_quantity r) \<and>
     0 \<le> hr_pool_seats r \<and> hr_pool_seats r \<le> hr_quantity r \<and> int4 (hr_version r)"

text \<open>What a purchase answered, kept with its order: the seats once paid, or the handoff.\<close>

datatype answer_body =
    Purchased_Seats "ticket_view list" order_view
  | Payment_Handoff payment_handoff_view

record stored_answer =
  sa_status :: int
  sa_served_at :: instant
  sa_body :: answer_body

record seat_order_row =
  or_id :: ident
  or_reference :: string
  or_idempotency_key :: ident
  or_account_id :: "ident option"
  or_fingerprint :: string
  or_date_id :: ident
  or_channel_id :: ident
  or_profile_id :: "ident option"
  or_tier :: price_tier
  or_quantity :: int
  or_currency_code :: string
  or_unit_price_minor :: int
  or_tier_total_minor :: int
  or_service_fee_minor :: int
  or_discount_minor :: int
  or_total_minor :: int
  or_declared_tax_location :: "declared_tax_location option"
  or_hold_id :: ident
  or_expires_at :: instant
  or_state :: order_state
  or_payment_intent_ref :: "ident option"
  or_client_secret :: "string option"
  or_next_action :: "next_action option"
  or_failure_code :: "order_error_code option"
  or_decline_code :: "string option"
  or_intent_cancel_owed_at :: "instant option"
  or_intent_cancel_enqueued_at :: "instant option"
  or_intent_cancel_dead_at :: "instant option"
  or_placed_at :: instant
  or_paid_at :: "instant option"
  or_outcome_settled_at :: "instant option"
  or_answer :: "stored_answer option"
  or_version :: int

definition seat_order_check :: "seat_order_row \<Rightarrow> bool" where
  "seat_order_check r \<longleftrightarrow> 0 < or_quantity r \<and> int4 (or_quantity r) \<and> 0 \<le> or_total_minor r \<and>
     int4 (or_version r)"

record seat_row =
  sr_id :: ident
  sr_order_id :: ident
  sr_date_id :: ident
  sr_account_id :: "ident option"
  sr_profile_id :: "ident option"
  sr_tier :: price_tier
  sr_seat_code :: string
  sr_state :: seat_state
  sr_cancel_deadline :: "instant option"
  sr_activated_at :: instant
  sr_ended_at :: "instant option"
  sr_cancel_reason :: "seat_cancel_reason option"
  sr_refund_id :: "ident option"
  sr_refund_amount_minor :: "int option"
  sr_credit_id :: "ident option"
  sr_credit_amount_minor :: "int option"

definition seat_check :: "seat_row \<Rightarrow> bool" where
  "seat_check r \<longleftrightarrow>
     (sr_state r = Seat_Active \<longleftrightarrow> sr_ended_at r = None) \<and>
     (sr_refund_id r = None \<longleftrightarrow> sr_refund_amount_minor r = None) \<and>
     (sr_credit_id r = None \<longleftrightarrow> sr_credit_amount_minor r = None) \<and>
     (case sr_refund_amount_minor r of None \<Rightarrow> True | Some n \<Rightarrow> 0 < n) \<and>
     (case sr_credit_amount_minor r of None \<Rightarrow> True | Some n \<Rightarrow> 0 \<le> n)"

record order_refund_row =
  rr_id :: ident
  rr_order_id :: ident
  rr_seat_id :: "ident option"
  rr_amount_minor :: int
  rr_currency_code :: string
  rr_reason :: refund_reason
  rr_idempotency_key :: string
  rr_owed_at :: instant
  rr_traceparent :: "string option"
  rr_enqueued_at :: "instant option"
  rr_rerun_asked_at :: "instant option"
  rr_refund_ref :: "ident option"
  rr_refunded_at :: "instant option"
  rr_dead_at :: "instant option"

definition order_refund_check :: "order_refund_row \<Rightarrow> bool" where
  "order_refund_check r \<longleftrightarrow> 0 < rr_amount_minor r"

text \<open>\<open>uq_order_refund_unseated\<close>: one refund of an unseated payment per order.\<close>

definition unseated_refund :: "order_refund_row \<Rightarrow> bool" where
  "unseated_refund r \<longleftrightarrow> rr_seat_id r = None \<and>
     (rr_reason r = Refund_Hold_Expired_Capacity_Lost \<or> rr_reason r = Refund_Date_Cancelled)"

record waitlist_entry_row =
  wr_id :: ident
  wr_date_id :: ident
  wr_account_id :: ident
  wr_state :: waitlist_entry_state
  wr_joined_at :: instant
  wr_notified_at :: "instant option"
  wr_ended_at :: "instant option"
  wr_version :: int

definition waitlist_entry_check :: "waitlist_entry_row \<Rightarrow> bool" where
  "waitlist_entry_check r \<longleftrightarrow> 1 \<le> wr_version r \<and> int4 (wr_version r)"

record date_availability_publication_row =
  pr_date_id :: ident
  pr_published_moves :: int
  pr_published_at :: "instant option"
  pr_published_sold_out :: "bool option"
  pr_failed_at :: "instant option"
  pr_closing_due :: bool

record credit_row =
  kr_id :: ident
  kr_account_id :: ident
  kr_channel_id :: ident
  kr_order_id :: ident
  kr_amount_minor :: int
  kr_currency_code :: string
  kr_origin :: credit_origin
  kr_origin_ref :: "ident option"
  kr_state :: credit_state
  kr_expires_at :: instant
  kr_version :: int

record date_outcome_settlement_row =
  xr_date_id :: ident
  xr_outcome :: date_outcome
  xr_recorded_at :: instant
  xr_traceparent :: "string option"
  xr_waitlist_ended_at :: "instant option"
  xr_settled_at :: "instant option"
  xr_failed_at :: "instant option"

definition credit_check :: "credit_row \<Rightarrow> bool" where
  "credit_check r \<longleftrightarrow> 0 < kr_amount_minor r \<and> 1 \<le> kr_version r \<and> int4 (kr_version r)"

text \<open>The webhooks received (\<open>stripe_event_inbox\<close>); the payload and the last error are read by nothing.\<close>

record inbox_row =
  ir_event_id :: string
  ir_kind :: payment_event_kind
  ir_intent_ref :: "ident option"
  ir_order_id :: "ident option"
  ir_decline_code :: "string option"
  ir_occurred_at :: instant
  ir_traceparent :: "string option"
  ir_refund_ref :: "ident option"
  ir_amount_refunded_minor :: "int option"
  ir_amount_refunded_currency_code :: "string option"
  ir_received_at :: instant
  ir_applied_at :: "instant option"
  ir_attempts :: nat
  ir_retry_at :: "instant option"
  ir_dead_at :: "instant option"

record replay_window_row =
  qr_date_id :: ident
  qr_state :: replay_state
  qr_version :: int
  qr_policy :: replay_policy
  qr_live_ended_at :: instant
  qr_closes_at :: instant
  qr_online_at :: "instant option"
  qr_granted_at :: "instant option"
  qr_revoked_at :: "instant option"
  qr_recorded_at :: instant

definition replay_window_check :: "replay_window_row \<Rightarrow> bool" where
  "replay_window_check r \<longleftrightarrow> qr_revoked_at r = None \<or> qr_state r = Replay_Withdrawn"

record replay_access_row =
  yr_date_id :: ident
  yr_seat_id :: ident
  yr_origin :: replay_access_origin
  yr_granted_at :: instant
  yr_revoked_at :: "instant option"
  yr_revocation_reason :: "replay_access_revocation_reason option"

section \<open>The database\<close>

record db =
  db_sales :: "date_sales_row list"
  db_holds :: "seat_hold_row list"
  db_orders :: "seat_order_row list"
  db_seats :: "seat_row list"
  db_refunds :: "order_refund_row list"
  db_entries :: "waitlist_entry_row list"
  db_publications :: "date_availability_publication_row list"
  db_credits :: "credit_row list"
  db_settlements :: "date_outcome_settlement_row list"
  db_inbox :: "inbox_row list"
  db_replay_windows :: "replay_window_row list"
  db_replay_accesses :: "replay_access_row list"
  db_processed :: "ident list"
  db_outbox :: "outbox_row list"

definition empty_db :: db where
  "empty_db = \<lparr>db_sales = [], db_holds = [], db_orders = [], db_seats = [], db_refunds = [],
     db_entries = [], db_publications = [], db_credits = [], db_settlements = [], db_inbox = [],
     db_replay_windows = [], db_replay_accesses = [], db_processed = [],
     db_outbox = []\<rparr>"

definition write_outbox :: "outbox_row list \<Rightarrow> db \<Rightarrow> db" where
  "write_outbox rows db = db\<lparr>db_outbox := db_outbox db @ rows\<rparr>"

text \<open>
  \<open>claimMessage\<close>: the message's id inserted once, in the caller's transaction; \<open>False\<close> when it was
  seen before.
\<close>

definition claim_message :: "ident \<Rightarrow> db \<Rightarrow> bool \<times> db" where
  "claim_message message_id db =
     (if message_id \<in> set (db_processed db) then (False, db)
      else (True, db\<lparr>db_processed := db_processed db @ [message_id]\<rparr>))"

text \<open>
  An update that checks the rows it leaves: \<open>table_update name check p f t\<close> is \<open>UPDATE \<dots> SET f WHERE
  p\<close> with the number of rows it wrote, refused when a row breaks its constraints.
\<close>

definition table_update ::
    "string \<Rightarrow> ('r \<Rightarrow> bool) \<Rightarrow> ('r \<Rightarrow> bool) \<Rightarrow> ('r \<Rightarrow> 'r) \<Rightarrow> 'r list \<Rightarrow> (nat \<times> 'r list) result" where
  "table_update name check p f t =
     (if list_all (\<lambda>r. p r \<longrightarrow> check (f r)) t then Inr (tbl_affected p t, tbl_update p f t)
      else Inl (Constraint_Violation name))"

text \<open>An insert under a key, refused when the key is taken or the row breaks its constraints.\<close>

definition table_insert ::
    "string \<Rightarrow> ('r \<Rightarrow> bool) \<Rightarrow> ('r \<Rightarrow> 'k) \<Rightarrow> 'r \<Rightarrow> 'r list \<Rightarrow> 'r list result" where
  "table_insert name check key r t =
     (if check r \<and> key r \<notin> key ` set t then Inr (t @ [r]) else Inl (Constraint_Violation name))"

lemma table_update_Inr [result_simps]:
  "table_update name check p f t = Inr (n, t') \<longleftrightarrow>
    (\<forall>r \<in> set t. p r \<longrightarrow> check (f r)) \<and> n = tbl_affected p t \<and> t' = tbl_update p f t"
  by (auto simp: table_update_def list_all_iff)

lemma table_insert_Inr [result_simps]:
  "table_insert name check key r t = Inr t' \<longleftrightarrow> check r \<and> key r \<notin> key ` set t \<and> t' = t @ [r]"
  by (auto simp: table_insert_def)

lemma table_update_check:
  assumes "table_update name check p f t = Inr (n, t')" and "\<forall>r \<in> set t. check r"
  shows "\<forall>r \<in> set t'. check r"
  using assms by (auto simp: table_update_Inr table_simps)

lemma table_insert_check:
  assumes "table_insert name check key r t = Inr t'" and "\<forall>r \<in> set t. check r"
  shows "\<forall>r \<in> set t'. check r"
  using assms by (auto simp: table_insert_Inr)

lemma table_insert_distinct:
  assumes "table_insert name check key r t = Inr t'" and "distinct (map key t)"
  shows "distinct (map key t')"
  using assms by (auto simp: table_insert_Inr)

end
