(* ===== verification/Date_Sales_Store.thy ===== *)
theory Date_Sales_Store
  imports Ticketing_Db
begin

text \<open>
  \<open>TypeOrmDateSalesRepository\<close> (\<open>date-sales/date-sales.typeorm-repository.ts\<close>): the row read as an
  aggregate and saved from one, and the conditional statements that move the hot row's counters with
  no load and no version. Then the figures read off the row (\<open>date-sales-figures.ts\<close>,
  \<open>date-sales-pane.ts\<close>).
\<close>

section \<open>The row and the snapshot\<close>

definition tier_price_of :: "core \<Rightarrow> price_tier_column \<Rightarrow> tier_price" where
  "tier_price_of c col = \<lparr>tp_tier = ptc_tier col,
     tp_amount = money_of (sales_rules c) (ptc_amount_minor col) (ptc_currency_code col),
     tp_active = ptc_active col\<rparr>"

definition price_tier_column_of :: "tier_price \<Rightarrow> price_tier_column" where
  "price_tier_column_of p = \<lparr>ptc_tier = tp_tier p, ptc_amount_minor = amount_minor (tp_amount p),
     ptc_currency_code = currency_code (tp_amount p), ptc_active = tp_active p\<rparr>"

definition date_sales_snapshot_of :: "core \<Rightarrow> date_sales_row \<Rightarrow> date_sales_snapshot" where
  "date_sales_snapshot_of c r = \<lparr>
     ds_date_id = dr_date_id r, ds_channel_id = dr_channel_id r,
     ds_capacity_total = dr_capacity_total r,
     ds_provisioned_capacity = dr_provisioned_capacity r,
     ds_capacity_tiers = dr_capacity_tiers r,
     ds_seats_available = dr_seats_available r, ds_seats_sold = dr_seats_sold r,
     ds_waitlist_count = dr_waitlist_count r,
     ds_priority_pool_seats = dr_priority_pool_seats r,
     ds_priority_until = dr_priority_until r,
     ds_price_tiers = map (tier_price_of c) (dr_price_tiers r),
     ds_prices_locked_at = dr_prices_locked_at r, ds_sales_closed_at = dr_sales_closed_at r,
     ds_sales_end_at = dr_sales_end_at r, ds_starts_at = dr_starts_at r,
     ds_schedule_stated_at = dr_schedule_stated_at r, ds_outcome = dr_outcome r,
     ds_outcome_stated_at = dr_outcome_stated_at r, ds_version = dr_version r\<rparr>"

text \<open>Every column a save writes as it stands in the snapshot: all but the key and the counters.\<close>

definition sales_state_columns_of :: "date_sales_snapshot \<Rightarrow> date_sales_row \<Rightarrow> date_sales_row" where
  "sales_state_columns_of s r = r\<lparr>
     dr_channel_id := ds_channel_id s, dr_capacity_total := ds_capacity_total s,
     dr_provisioned_capacity := ds_provisioned_capacity s,
     dr_capacity_tiers := ds_capacity_tiers s,
     dr_price_tiers := map price_tier_column_of (ds_price_tiers s),
     dr_prices_locked_at := ds_prices_locked_at s, dr_sales_closed_at := ds_sales_closed_at s,
     dr_sales_end_at := ds_sales_end_at s, dr_starts_at := ds_starts_at s,
     dr_schedule_stated_at := ds_schedule_stated_at s, dr_outcome := ds_outcome s,
     dr_outcome_stated_at := ds_outcome_stated_at s, dr_priority_until := ds_priority_until s,
     dr_version := ds_version s\<rparr>"

definition sales_row_of :: "date_sales_snapshot \<Rightarrow> date_sales_row" where
  "sales_row_of s = sales_state_columns_of s \<lparr>
     dr_date_id = ds_date_id s, dr_channel_id = [], dr_capacity_total = 0,
     dr_provisioned_capacity = None, dr_capacity_tiers = [],
     dr_seats_available = ds_seats_available s, dr_seats_sold = ds_seats_sold s,
     dr_waitlist_count = ds_waitlist_count s, dr_priority_pool_seats = ds_priority_pool_seats s,
     dr_priority_until = None, dr_price_tiers = [], dr_prices_locked_at = None,
     dr_sales_closed_at = None, dr_sales_end_at = None, dr_starts_at = None,
     dr_schedule_stated_at = None, dr_outcome = None, dr_outcome_stated_at = None,
     dr_version = 0, dr_availability_moves = 0\<rparr>"

section \<open>Loading\<close>

type_synonym tracked_sales = "(date_sales_snapshot, date_sales_event) tracked"

definition restored_sales :: "core \<Rightarrow> date_sales_row \<Rightarrow> tracked_sales" where
  "restored_sales c r = loaded (restore (date_sales_snapshot_of c r)) (dr_version r)"

text \<open>
  \<open>findById\<close> under the row's lock, \<open>findUnlocked\<close> without: the same read, of the tables the
  transaction holds or of the ones it saw.
\<close>

definition find_sales :: "core \<Rightarrow> ident \<Rightarrow> db \<Rightarrow> tracked_sales option" where
  "find_sales c date_id db = map_option (restored_sales c) (tbl_find dr_date_id date_id (db_sales db))"

section \<open>The statements\<close>

definition sales_update ::
    "(date_sales_row \<Rightarrow> bool) \<Rightarrow> (date_sales_row \<Rightarrow> date_sales_row) \<Rightarrow> db \<Rightarrow> (nat \<times> db) result" where
  "sales_update p f db =
     bindE (table_update ''date_sales'' date_sales_check p f (db_sales db)) (\<lambda>(n, t).
     Inr (n, db\<lparr>db_sales := t\<rparr>))"

definition one_more_move :: "date_sales_row \<Rightarrow> date_sales_row" where
  "one_more_move r = r\<lparr>dr_availability_moves := dr_availability_moves r + 1\<rparr>"

definition before_sales_end :: "instant \<Rightarrow> date_sales_row \<Rightarrow> bool" where
  "before_sales_end now r =
     (case dr_sales_end_at r of None \<Rightarrow> True | Some t \<Rightarrow> now < t)"

definition window_open_at :: "instant \<Rightarrow> date_sales_row \<Rightarrow> bool" where
  "window_open_at now r = (case dr_priority_until r of None \<Rightarrow> False | Some t \<Rightarrow> now < t)"

definition open_pool_at :: "instant \<Rightarrow> date_sales_row \<Rightarrow> int" where
  "open_pool_at now r = (if window_open_at now r then dr_priority_pool_seats r else 0)"

text \<open>\<open>heldBy\<close>: the stored snapshot moved as the aggregate's \<open>holdSeats\<close> moved it.\<close>

definition held_by :: "int \<Rightarrow> tracked_sales \<Rightarrow> tracked_sales" where
  "held_by quantity t =
     (let s = (case stored t of None \<Rightarrow> current (root t) | Some s \<Rightarrow> s)
      in t\<lparr>stored := Some (s\<lparr>ds_seats_available := ds_seats_available s - quantity\<rparr>)\<rparr>)"

definition take_seats ::
    "tracked_sales \<Rightarrow> int \<Rightarrow> instant \<Rightarrow> db \<Rightarrow> (bool \<times> tracked_sales \<times> db) result" where
  "take_seats t quantity now db =
     bindE (sales_update
       (\<lambda>r. dr_date_id r = ds_date_id (current (root t)) \<and> dr_on_sale r \<and>
            quantity \<le> dr_seats_available r \<and> before_sales_end now r)
       (\<lambda>r. one_more_move (r\<lparr>dr_seats_available := dr_seats_available r - quantity\<rparr>)) db)
     (\<lambda>(n, db'). if n = 1 then Inr (True, held_by quantity t, db') else Inr (False, t, db'))"

definition pool_share :: "instant \<Rightarrow> int \<Rightarrow> date_sales_row \<Rightarrow> int" where
  "pool_share now quantity r = min (open_pool_at now r) quantity"

definition take_from_pool :: "instant \<Rightarrow> int \<Rightarrow> date_sales_row \<Rightarrow> date_sales_row" where
  "take_from_pool now quantity r =
     r\<lparr>dr_priority_pool_seats := dr_priority_pool_seats r - pool_share now quantity r,
       dr_seats_available := dr_seats_available r - (quantity - pool_share now quantity r)\<rparr>"

definition pool_sells :: "ident \<Rightarrow> int \<Rightarrow> instant \<Rightarrow> date_sales_row \<Rightarrow> bool" where
  "pool_sells date_id quantity now r \<longleftrightarrow>
     dr_date_id r = date_id \<and> dr_on_sale r \<and>
     quantity \<le> dr_seats_available r + open_pool_at now r \<and> before_sales_end now r"

definition take_seats_from_pool ::
    "tracked_sales \<Rightarrow> ident \<Rightarrow> int \<Rightarrow> instant \<Rightarrow> db \<Rightarrow> (bool \<times> tracked_sales \<times> db) result" where
  "take_seats_from_pool t hold_id quantity now db =
     (let p = pool_sells (ds_date_id (current (root t))) quantity now in
      bindE (sales_update p (\<lambda>r. one_more_move (take_from_pool now quantity r)) db) (\<lambda>(_, db').
      case find p (db_sales db) of
        None \<Rightarrow> Inr (False, t, db')
      | Some taken \<Rightarrow>
          bindE (table_update ''seat_hold'' seat_hold_check (\<lambda>h. hr_id h = hold_id)
                   (\<lambda>h. h\<lparr>hr_pool_seats := pool_share now quantity taken\<rparr>) (db_holds db'))
            (\<lambda>(n, holds).
             let db'' = db'\<lparr>db_holds := holds\<rparr>
             in if n \<noteq> 1 then Inr (False, t, db'') else Inr (True, held_by quantity t, db''))))"

definition sell_held_seats :: "ident \<Rightarrow> int \<Rightarrow> db \<Rightarrow> db result" where
  "sell_held_seats date_id quantity db =
     bindE (sales_update (\<lambda>r. dr_date_id r = date_id)
       (\<lambda>r. one_more_move (r\<lparr>dr_seats_sold := dr_seats_sold r + quantity\<rparr>)) db)
     (\<lambda>(_, db'). Inr db')"

definition return_held_seats :: "ident \<Rightarrow> int \<Rightarrow> int \<Rightarrow> instant \<Rightarrow> db \<Rightarrow> db result" where
  "return_held_seats date_id quantity pool_seats now db =
     bindE (sales_update (\<lambda>r. dr_date_id r = date_id)
       (\<lambda>r. let to_pool = (if window_open_at now r then pool_seats else 0)
             in one_more_move (r\<lparr>dr_priority_pool_seats := dr_priority_pool_seats r + to_pool,
                  dr_seats_available := dr_seats_available r + quantity - to_pool\<rparr>)) db)
     (\<lambda>(_, db'). Inr db')"

definition release_sold_seats :: "ident \<Rightarrow> int \<Rightarrow> db \<Rightarrow> (bool \<times> db) result" where
  "release_sold_seats date_id quantity db =
     bindE (sales_update
       (\<lambda>r. dr_date_id r = date_id \<and> quantity \<le> dr_seats_sold r \<and>
            dr_outcome r \<noteq> Some Outcome_Cancelled)
       (\<lambda>r. one_more_move (r\<lparr>dr_seats_available := dr_seats_available r + quantity,
              dr_seats_sold := dr_seats_sold r - quantity\<rparr>)) db)
     (\<lambda>(n, db'). Inr (n = 1, db'))"

definition take_and_sell_seats ::
    "ident \<Rightarrow> int \<Rightarrow> instant \<Rightarrow> bool \<Rightarrow> db \<Rightarrow> (bool \<times> db) result" where
  "take_and_sell_seats date_id quantity now from_pool db =
     (let open_pool = (\<lambda>r. if from_pool then open_pool_at now r else 0) in
      bindE (sales_update
        (\<lambda>r. dr_date_id r = date_id \<and> dr_on_sale r \<and>
             quantity \<le> dr_seats_available r + open_pool r \<and> before_sales_end now r)
        (\<lambda>r. let share = min (open_pool r) quantity
              in one_more_move (r\<lparr>dr_priority_pool_seats := dr_priority_pool_seats r - share,
                   dr_seats_available := dr_seats_available r - (quantity - share),
                   dr_seats_sold := dr_seats_sold r + quantity\<rparr>)) db)
      (\<lambda>(n, db'). Inr (n = 1, db')))"

definition move_waitlist_count :: "tracked_sales \<Rightarrow> int \<Rightarrow> db \<Rightarrow> db result" where
  "move_waitlist_count t by_seats db =
     bindE (sales_update
       (\<lambda>r. dr_date_id r = ds_date_id (current (root t)) \<and> 0 \<le> dr_waitlist_count r + by_seats)
       (\<lambda>r. one_more_move (r\<lparr>dr_waitlist_count := dr_waitlist_count r + by_seats\<rparr>)) db)
     (\<lambda>(n, db'). if n = 1 then Inr db' else Inl (Plain_Error ''waitlist count would go negative''))"

definition end_priority_window :: "ident \<Rightarrow> int \<Rightarrow> db \<Rightarrow> db result" where
  "end_priority_window date_id entries_ended db =
     bindE (sales_update (\<lambda>r. dr_date_id r = date_id \<and> dr_priority_until r \<noteq> None)
       (\<lambda>r. one_more_move (r\<lparr>
          dr_seats_available := dr_seats_available r + dr_priority_pool_seats r,
          dr_priority_pool_seats := 0, dr_priority_until := None,
          dr_waitlist_count := dr_waitlist_count r - entries_ended\<rparr>)) db)
     (\<lambda>(_, db'). Inr db')"

definition close_waitlist :: "ident \<Rightarrow> db \<Rightarrow> (bool \<times> db) result" where
  "close_waitlist date_id db =
     bindE (sales_update
       (\<lambda>r. dr_date_id r = date_id \<and> (dr_priority_until r \<noteq> None \<or> dr_waitlist_count r \<noteq> 0))
       (\<lambda>r. one_more_move (r\<lparr>
          dr_seats_available := dr_seats_available r + dr_priority_pool_seats r,
          dr_priority_pool_seats := 0, dr_priority_until := None,
          dr_waitlist_count := 0\<rparr>)) db)
     (\<lambda>(n, db'). Inr (n = 1, db'))"

section \<open>Saving\<close>

text \<open>The counters move by what the aggregate added since the store last held it.\<close>

definition moved_columns ::
    "date_sales_snapshot \<Rightarrow> date_sales_snapshot \<Rightarrow> date_sales_row \<Rightarrow> date_sales_row" where
  "moved_columns s before r = (sales_state_columns_of s r)\<lparr>
     dr_seats_available := dr_seats_available r + (ds_seats_available s - ds_seats_available before),
     dr_seats_sold := dr_seats_sold r + (ds_seats_sold s - ds_seats_sold before),
     dr_waitlist_count := dr_waitlist_count r + (ds_waitlist_count s - ds_waitlist_count before),
     dr_priority_pool_seats :=
       dr_priority_pool_seats r + (ds_priority_pool_seats s - ds_priority_pool_seats before)\<rparr>"

definition deltas :: "date_sales_snapshot \<Rightarrow> date_sales_snapshot \<Rightarrow> int list" where
  "deltas s before = [ds_seats_available s - ds_seats_available before,
     ds_seats_sold s - ds_seats_sold before, ds_waitlist_count s - ds_waitlist_count before,
     ds_priority_pool_seats s - ds_priority_pool_seats before]"

definition save_sales :: "tracked_sales \<Rightarrow> db \<Rightarrow> (tracked_sales \<times> db) result" where
  "save_sales t db =
     (let s = current (root t) in
      bindE
        (case version_of t of
           None \<Rightarrow> table_insert ''date_sales'' date_sales_check dr_date_id (sales_row_of s) (db_sales db)
         | Some v \<Rightarrow>
             let before = (case stored t of None \<Rightarrow> s | Some b \<Rightarrow> b) in
             bindE (ensure (list_all is_safe_integer (deltas s before))
                      (Plain_Error ''a counter moved by an unsafe amount'')) (\<lambda>_.
             bindE (save_versioned (\<lambda>r. dr_date_id r = ds_date_id s) dr_version v
                      (moved_columns s before) (db_sales db)) (\<lambda>rows.
             bindE (ensure (list_all date_sales_check rows) (Constraint_Violation ''date_sales''))
               (\<lambda>_. Inr rows))))
        (\<lambda>rows. Inr (written (ds_version s) t, db\<lparr>db_sales := rows\<rparr>)))"

section \<open>Figures\<close>

definition gauge_of :: "date_sales_row \<Rightarrow> gauge" where
  "gauge_of r = \<lparr>g_capacity_total = dr_capacity_total r, g_seats_sold = dr_seats_sold r,
     g_seats_held = dr_capacity_total r - dr_seats_sold r - dr_seats_available r
       - dr_priority_pool_seats r,
     g_waitlist_count = dr_waitlist_count r, g_priority_pool_seats = dr_priority_pool_seats r\<rparr>"

record availability_figures =
  af_seats_available :: int
  af_waitlist_count :: int
  af_fill_rate_bps :: int
  af_sold_out :: bool
  af_lowest_price :: "money option"

definition availability_figures_of :: "core \<Rightarrow> date_sales_row \<Rightarrow> availability_figures" where
  "availability_figures_of c r =
     (let g = gauge_of r; rules = sales_rules c
      in \<lparr>af_seats_available = gauge_seats_available rules g,
          af_waitlist_count = g_waitlist_count g, af_fill_rate_bps = fill_rate_bps rules g,
          af_sold_out = (availability_kind rules g \<noteq> ''seats_available''),
          af_lowest_price = lowest_active_price rules (map (tier_price_of c) (dr_price_tiers r))\<rparr>)"

text \<open>\<open>promotions\<close> is always empty and left out.\<close>

record date_sales_pane =
  pn_date_id :: ident
  pn_capacity_total :: int
  pn_capacity_tiers :: "capacity_tier list"
  pn_seats_available :: int
  pn_seats_sold :: int
  pn_waitlist_count :: int
  pn_priority_pool :: "(int \<times> instant) option"
  pn_fill_rate_bps :: int
  pn_price_tiers :: "price_tier_column list"
  pn_prices_locked :: bool
  pn_technical_provision :: technical_provision
  pn_version :: int

definition date_sales_pane_of :: "core \<Rightarrow> date_sales_row \<Rightarrow> instant \<Rightarrow> date_sales_pane" where
  "date_sales_pane_of c r now =
     (let figures = availability_figures_of c r
      in \<lparr>pn_date_id = dr_date_id r, pn_capacity_total = dr_capacity_total r,
          pn_capacity_tiers = dr_capacity_tiers r,
          pn_seats_available = af_seats_available figures, pn_seats_sold = dr_seats_sold r,
          pn_waitlist_count = af_waitlist_count figures,
          pn_priority_pool = (case dr_priority_until r of
              None \<Rightarrow> None
            | Some u \<Rightarrow> if is_priority_window_open (waitlist_rules c) (Some u) now
                        then Some (dr_priority_pool_seats r, u) else None),
          pn_fill_rate_bps = af_fill_rate_bps figures, pn_price_tiers = dr_price_tiers r,
          pn_prices_locked = (dr_prices_locked_at r \<noteq> None),
          pn_technical_provision = technical_provision_of (sales_rules c) (dr_capacity_total r)
            (dr_provisioned_capacity r) (dr_starts_at r),
          pn_version = dr_version r\<rparr>)"

definition read_date_sales_pane :: "core \<Rightarrow> ident \<Rightarrow> instant \<Rightarrow> db \<Rightarrow> date_sales_pane option" where
  "read_date_sales_pane c date_id now db =
     map_option (\<lambda>r. date_sales_pane_of c r now) (tbl_find dr_date_id date_id (db_sales db))"

section \<open>What the availability publisher reads\<close>

fun moves_availability :: "date_sales_event \<Rightarrow> bool" where
  "moves_availability (DatePricesSet _ _ _ _) = True"
| "moves_availability (DatePricesLocked _ _ _ _) = True"
| "moves_availability (CapacityTierOpened _ _ _ _ _ _) = True"
| "moves_availability (DateOutcomeRecorded _ _ _ closes _) = closes"
| "moves_availability (DateSalesEnded _ _ _ _) = True"
| "moves_availability (DateSalesReopened _ _ _) = True"
| "moves_availability _ = False"

fun closes_sale :: "date_sales_event \<Rightarrow> bool" where
  "closes_sale (DateOutcomeRecorded _ _ _ closes _) = closes"
| "closes_sale (DateSalesEnded _ _ _ _) = True"
| "closes_sale _ = False"

fun opens_sale :: "date_sales_event \<Rightarrow> bool" where
  "opens_sale (DateSalesOpened _ _ _) = True"
| "opens_sale _ = False"

fun event_date :: "date_sales_event \<Rightarrow> ident" where
  "event_date (DateSalesOpened d _ _) = d"
| "event_date (DatePricesSet d _ _ _) = d"
| "event_date (DatePricesLocked d _ _ _) = d"
| "event_date (CapacityTierOpened d _ _ _ _ _) = d"
| "event_date (TechnicalProvisionSet d _ _ _ _) = d"
| "event_date (DateScheduleRecorded d _ _ _ _ _) = d"
| "event_date (DateOutcomeRecorded d _ _ _ _) = d"
| "event_date (DateSalesEnded d _ _ _) = d"
| "event_date (DateSalesReopened d _ _) = d"
| "event_date (SeatsHeld d _ _) = d"
| "event_date (PriorityWindowOpened d _ _ _) = d"

definition record_availability_moves :: "date_sales_event list \<Rightarrow> db \<Rightarrow> db result" where
  "record_availability_moves events db =
     bindE
       (case find opens_sale events of
          None \<Rightarrow> Inr db
        | Some e \<Rightarrow>
            bindE (table_insert ''date_availability_publication'' (\<lambda>_. True) pr_date_id
                \<lparr>pr_date_id = event_date e, pr_published_moves = 0, pr_published_at = None,
                 pr_published_sold_out = None, pr_failed_at = None, pr_closing_due = False\<rparr>
                (db_publications db)) (\<lambda>t. Inr (db\<lparr>db_publications := t\<rparr>))) (\<lambda>db1.
     bindE
       (case find moves_availability events of
          None \<Rightarrow> Inr db1
        | Some e \<Rightarrow>
            bindE (sales_update (\<lambda>r. dr_date_id r = event_date e) one_more_move db1)
              (\<lambda>(_, db'). Inr db')) (\<lambda>db2.
     Inr (case find closes_sale events of
          None \<Rightarrow> db2
        | Some e \<Rightarrow> db2\<lparr>db_publications := tbl_update (\<lambda>p. pr_date_id p = event_date e)
                          (\<lambda>p. p\<lparr>pr_closing_due := True\<rparr>) (db_publications db2)\<rparr>)))"

definition record_date_sales_events ::
    "string option \<Rightarrow> date_sales_event list \<Rightarrow> db \<Rightarrow> db result" where
  "record_date_sales_events tp events db =
     bindE (record_availability_moves events db) (\<lambda>db1.
     Inr (write_outbox (write_date_sales_integration_events tp events) db1))"

end
