(* ===== verification/Waitlist.thy ===== *)
theory Waitlist
  imports Date_Sales_Store
begin

text \<open>
  The waiting list (\<open>apps/ticketing/src/waitlist\<close>): the entry's aggregate and its table's
  set-based moves, the priority pool a notified account buys from, joining and leaving, and the
  window's end.
\<close>

section \<open>The entry\<close>

record waitlist_entry_snapshot =
  we_id :: ident
  we_date_id :: ident
  we_account_id :: ident
  we_state :: waitlist_entry_state
  we_joined_at :: instant
  we_notified_at :: "instant option"
  we_ended_at :: "instant option"
  we_version :: int

datatype waitlist_entry_event =
    WaitlistJoined ident ident ident waitlist_entry_state "instant option" instant
  | WaitlistLeft ident ident ident instant

type_synonym waitlist_entry = "(waitlist_entry_snapshot, waitlist_entry_event) aggregate"

definition is_on_waitlist :: "waitlist_entry_state option \<Rightarrow> bool" where
  "is_on_waitlist state \<longleftrightarrow> state = Some Entry_Waiting \<or> state = Some Entry_Notified"

definition apply_joined :: "instant option \<Rightarrow> instant \<Rightarrow> waitlist_entry \<Rightarrow> waitlist_entry" where
  "apply_joined priority_until now a =
     (let s = current a in
      apply_event (WaitlistJoined (we_id s) (we_date_id s) (we_account_id s) (we_state s)
        (if we_state s = Entry_Notified then priority_until else None) now) a)"

definition join_entry ::
    "waitlist_core \<Rightarrow> ident \<Rightarrow> ident \<Rightarrow> ident \<Rightarrow> instant option \<Rightarrow> instant \<Rightarrow> waitlist_entry" where
  "join_entry c entry_id date_id account_id priority_until now =
     (let window_open = is_priority_window_open c priority_until now in
      apply_joined priority_until now (restore \<lparr>we_id = entry_id, we_date_id = date_id,
        we_account_id = account_id, we_state = waitlist_state_on_join c window_open,
        we_joined_at = now, we_notified_at = (if window_open then Some now else None),
        we_ended_at = None, we_version = 1\<rparr>))"

definition entry_on_list :: "waitlist_entry_snapshot \<Rightarrow> bool" where
  "entry_on_list s = is_on_waitlist (Some (we_state s))"

definition entry_move_to ::
    "waitlist_core \<Rightarrow> waitlist_entry_state \<Rightarrow> waitlist_entry \<Rightarrow> waitlist_entry result" where
  "entry_move_to c state a =
     (let s = current a in
      if \<not> waitlist_entry_may_move c (we_state s) state
      then Inl (Plain_Error ''waitlist entry cannot move'')
      else Inr (a\<lparr>current := s\<lparr>we_state := state, we_version := we_version s + 1\<rparr>\<rparr>))"

definition rejoin_entry ::
    "waitlist_core \<Rightarrow> instant option \<Rightarrow> instant \<Rightarrow> waitlist_entry \<Rightarrow> waitlist_entry result" where
  "rejoin_entry c priority_until now a =
     (let window_open = is_priority_window_open c priority_until now in
      bindE (entry_move_to c (waitlist_state_on_join c window_open) a) (\<lambda>b.
      Inr (apply_joined priority_until now (b\<lparr>current := (current b)\<lparr>we_joined_at := now,
        we_notified_at := (if window_open then Some now else None), we_ended_at := None\<rparr>\<rparr>))))"

definition leave_entry ::
    "waitlist_core \<Rightarrow> instant \<Rightarrow> waitlist_entry \<Rightarrow> (waitlist_entry \<times> bool) result" where
  "leave_entry c now a =
     (if \<not> entry_on_list (current a) then Inr (a, False)
      else bindE (entry_move_to c Entry_Left a) (\<lambda>b.
        let s = (current b)\<lparr>we_ended_at := Some now\<rparr>
        in Inr (apply_event (WaitlistLeft (we_id s) (we_date_id s) (we_account_id s) now)
                  (b\<lparr>current := s\<rparr>), True)))"

section \<open>The table\<close>

type_synonym tracked_entry = "(waitlist_entry_snapshot, waitlist_entry_event) tracked"

definition waitlist_entry_snapshot_of :: "waitlist_entry_row \<Rightarrow> waitlist_entry_snapshot" where
  "waitlist_entry_snapshot_of r = \<lparr>we_id = wr_id r, we_date_id = wr_date_id r,
     we_account_id = wr_account_id r, we_state = wr_state r, we_joined_at = wr_joined_at r,
     we_notified_at = wr_notified_at r, we_ended_at = wr_ended_at r, we_version = wr_version r\<rparr>"

definition entry_state_columns_of ::
    "waitlist_entry_snapshot \<Rightarrow> waitlist_entry_row \<Rightarrow> waitlist_entry_row" where
  "entry_state_columns_of s r = r\<lparr>wr_state := we_state s, wr_joined_at := we_joined_at s,
     wr_notified_at := we_notified_at s, wr_ended_at := we_ended_at s,
     wr_version := we_version s\<rparr>"

definition entry_row_of :: "waitlist_entry_snapshot \<Rightarrow> waitlist_entry_row" where
  "entry_row_of s = \<lparr>wr_id = we_id s, wr_date_id = we_date_id s, wr_account_id = we_account_id s,
     wr_state = we_state s, wr_joined_at = we_joined_at s, wr_notified_at = we_notified_at s,
     wr_ended_at = we_ended_at s, wr_version = we_version s\<rparr>"

definition account_entry :: "ident \<Rightarrow> ident \<Rightarrow> db \<Rightarrow> waitlist_entry_row option" where
  "account_entry date_id account_id db =
     find (\<lambda>r. wr_date_id r = date_id \<and> wr_account_id r = account_id) (db_entries db)"

definition find_entry_by_account :: "ident \<Rightarrow> ident \<Rightarrow> db \<Rightarrow> tracked_entry option" where
  "find_entry_by_account date_id account_id db =
     map_option (\<lambda>r. loaded (restore (waitlist_entry_snapshot_of r)) (wr_version r))
       (account_entry date_id account_id db)"

definition entry_state_of :: "ident \<Rightarrow> ident \<Rightarrow> db \<Rightarrow> waitlist_entry_state option" where
  "entry_state_of date_id account_id db = map_option wr_state (account_entry date_id account_id db)"

text \<open>\<open>waitlist_entry_one_per_account\<close>: one row per date and account.\<close>

definition save_entry :: "tracked_entry \<Rightarrow> db \<Rightarrow> (tracked_entry \<times> db) result" where
  "save_entry t db =
     (let s = current (root t) in
      bindE
        (case version_of t of
           None \<Rightarrow>
             bindE (ensure (account_entry (we_date_id s) (we_account_id s) db = None \<and>
                        we_date_id s \<in> dr_date_id ` set (db_sales db))
                      (Constraint_Violation ''waitlist_entry'')) (\<lambda>_.
             table_insert ''waitlist_entry'' waitlist_entry_check wr_id (entry_row_of s) (db_entries db))
         | Some v \<Rightarrow>
             bindE (save_versioned (\<lambda>r. wr_id r = we_id s) wr_version v (entry_state_columns_of s)
                      (db_entries db)) (\<lambda>rows.
             bindE (ensure (list_all waitlist_entry_check rows) (Constraint_Violation ''waitlist_entry''))
               (\<lambda>_. Inr rows)))
        (\<lambda>rows. Inr (written (we_version s) t, db\<lparr>db_entries := rows\<rparr>)))"

text \<open>
  The set-based moves, each checked against core when the statement is built (\<open>movedFrom\<close>).
\<close>

definition moved_from ::
    "waitlist_core \<Rightarrow> waitlist_entry_state list \<Rightarrow> waitlist_entry_state \<Rightarrow> unit result" where
  "moved_from c from to =
     ensure (list_all (\<lambda>s. waitlist_entry_may_move c s to) from) (Plain_Error ''no waitlist move'')"

definition entries_update ::
    "(waitlist_entry_row \<Rightarrow> bool) \<Rightarrow> (waitlist_entry_row \<Rightarrow> waitlist_entry_row) \<Rightarrow> db
       \<Rightarrow> (nat \<times> db) result" where
  "entries_update p f db =
     bindE (table_update ''waitlist_entry'' waitlist_entry_check p f (db_entries db)) (\<lambda>(n, t).
     Inr (n, db\<lparr>db_entries := t\<rparr>))"

definition entry_moved ::
    "waitlist_entry_state \<Rightarrow> instant option \<Rightarrow> waitlist_entry_row \<Rightarrow> waitlist_entry_row" where
  "entry_moved to ended r = r\<lparr>wr_state := to,
     wr_ended_at := (case ended of None \<Rightarrow> wr_ended_at r | Some t \<Rightarrow> Some t),
     wr_version := wr_version r + 1\<rparr>"

definition notify_all :: "core \<Rightarrow> ident \<Rightarrow> instant \<Rightarrow> db \<Rightarrow> (ident list \<times> db) result" where
  "notify_all c date_id now db =
     (let p = (\<lambda>r. wr_date_id r = date_id \<and> is_on_waitlist (Some (wr_state r))) in
      bindE (moved_from (waitlist_rules c) [Entry_Waiting, Entry_Notified] Entry_Notified) (\<lambda>_.
      bindE (entries_update p
               (\<lambda>r. (entry_moved Entry_Notified None r)\<lparr>wr_notified_at :=
                  (if wr_state r = Entry_Notified then wr_notified_at r else Some now)\<rparr>) db)
        (\<lambda>(_, db'). Inr (sort_by (collates (checkout_rules c))
                            (map wr_account_id (filter p (db_entries db))), db'))))"

text \<open>Converted: its account paid an order on the date since it was told.\<close>

definition entry_converts :: "db \<Rightarrow> waitlist_entry_row \<Rightarrow> bool" where
  "entry_converts db e =
     list_ex (\<lambda>o'. or_account_id o' = Some (wr_account_id e) \<and> or_date_id o' = wr_date_id e \<and>
       (case (or_paid_at o', wr_notified_at e) of (Some p, Some n) \<Rightarrow> n \<le> p | _ \<Rightarrow> False))
       (db_orders db)"

definition end_notified ::
    "waitlist_core \<Rightarrow> ident \<Rightarrow> waitlist_entry_state \<Rightarrow> instant \<Rightarrow> db \<Rightarrow> (int \<times> db) result" where
  "end_notified c date_id otherwise now db =
     (let notified = (\<lambda>r. wr_date_id r = date_id \<and> wr_state r = Entry_Notified) in
      bindE (moved_from c [Entry_Notified] Entry_Converted) (\<lambda>_.
      bindE (entries_update (\<lambda>r. notified r \<and> entry_converts db r)
               (entry_moved Entry_Converted (Some now)) db) (\<lambda>(converted, db1).
      bindE (moved_from c [Entry_Notified] otherwise) (\<lambda>_.
      bindE (entries_update notified (entry_moved otherwise (Some now)) db1) (\<lambda>(ended, db2).
      Inr (int converted + int ended, db2))))))"

definition close_waiting :: "waitlist_core \<Rightarrow> ident \<Rightarrow> instant \<Rightarrow> db \<Rightarrow> (nat \<times> db) result" where
  "close_waiting c date_id now db =
     bindE (moved_from c [Entry_Waiting] Entry_Closed) (\<lambda>_.
     entries_update (\<lambda>r. wr_date_id r = date_id \<and> wr_state r = Entry_Waiting)
       (entry_moved Entry_Closed (Some now)) db)"

section \<open>The pool\<close>

definition in_priority_window ::
    "waitlist_core \<Rightarrow> waitlist_entry_state option \<Rightarrow> instant option \<Rightarrow> instant \<Rightarrow> bool" where
  "in_priority_window c state priority_until now \<longleftrightarrow>
     state = Some Entry_Notified \<and> is_priority_window_open c priority_until now"

definition draws_on_priority_pool ::
    "waitlist_core \<Rightarrow> tracked_sales option \<Rightarrow> ident option \<Rightarrow> instant \<Rightarrow> db \<Rightarrow> bool" where
  "draws_on_priority_pool c sales account_id now db =
     (case (sales, account_id) of
        (Some t, Some account) \<Rightarrow>
          let s = current (root t) in
          if \<not> is_priority_window_open c (ds_priority_until s) now then False
          else in_priority_window c (entry_state_of (ds_date_id s) account db) (ds_priority_until s) now
      | _ \<Rightarrow> False)"

text \<open>\<open>rankDisclosed\<close> is always false and \<open>rank\<close> null.\<close>

record waitlist_registration_view =
  wv_joined :: bool
  wv_state :: "waitlist_entry_state option"
  wv_priority_window_hours :: int
  wv_priority_until :: "instant option"
  wv_priority_pool_seats :: "int option"

definition waitlist_registration_of ::
    "waitlist_core \<Rightarrow> waitlist_entry_state option \<Rightarrow> instant option \<Rightarrow> int \<Rightarrow> instant
       \<Rightarrow> waitlist_registration_view" where
  "waitlist_registration_of c state priority_until pool_seats now =
     (let in_window = in_priority_window c state priority_until now
      in \<lparr>wv_joined = is_on_waitlist state, wv_state = state,
          wv_priority_window_hours = waitlist_priority_hours c,
          wv_priority_until = (if in_window then priority_until else None),
          wv_priority_pool_seats = (if in_window then Some pool_seats else None)\<rparr>)"

section \<open>Joining and leaving\<close>

fun record_waitlist_entry_event ::
    "waitlist_core \<Rightarrow> string option \<Rightarrow> waitlist_entry_event \<Rightarrow> outbox_row list" where
  "record_waitlist_entry_event c tp (WaitlistJoined _ date_id account_id state until at) =
     (case (state = Entry_Notified, until) of
        (True, Some u) \<Rightarrow> write_waitlist_notified c date_id [account_id] u at tp
      | _ \<Rightarrow> [])"
| "record_waitlist_entry_event c tp (WaitlistLeft _ _ _ _) = []"

definition record_waitlist_entry_events ::
    "waitlist_core \<Rightarrow> string option \<Rightarrow> waitlist_entry_event list \<Rightarrow> db \<Rightarrow> db" where
  "record_waitlist_entry_events c tp events db =
     write_outbox (concat (map (record_waitlist_entry_event c tp) events)) db"

definition join_in ::
    "core \<Rightarrow> ident \<Rightarrow> ident \<Rightarrow> ident \<Rightarrow> string option \<Rightarrow> instant \<Rightarrow> db
       \<Rightarrow> (waitlist_registration_view \<times> db) result" where
  "join_in c entry_id date_id account_id tp now db =
     (let w = waitlist_rules c in
      case find_sales c date_id db of
        None \<Rightarrow> Inl (Refusal NOT_FOUND)
      | Some sales \<Rightarrow>
        (let s = current (root sales);
             answer = (\<lambda>state. waitlist_registration_of w (Some state) (ds_priority_until s)
                          (ds_priority_pool_seats s) now)
         in case (ds_prices_locked_at s, ds_sales_end_at s) of
          (Some _, Some sales_end_at) \<Rightarrow>
            let found = find_entry_by_account date_id account_id db;
                joinable = assertE (assert_waitlist_joinable w
                  \<lparr>public_seats_available = ds_seats_available s, wc_sales_end_at = sales_end_at,
                   wc_outcome = ds_outcome s, wc_now = now\<rparr>);
                record = (\<lambda>entry.
                  bindE (save_entry entry db) (\<lambda>(entry', db1).
                  bindE (move_waitlist_count sales 1
                           (record_waitlist_entry_events w tp (uncommitted (root entry')) db1))
                    (\<lambda>db2. Inr (answer (we_state (current (root entry'))), db2))))
            in (case found of
                 None \<Rightarrow> bindE joinable (\<lambda>_.
                   record (created (join_entry w entry_id date_id account_id (ds_priority_until s) now)))
               | Some entry \<Rightarrow>
                   if entry_on_list (current (root entry))
                   then Inr (answer (we_state (current (root entry))), db)
                   else bindE joinable (\<lambda>_.
                     bindE (rejoin_entry w (ds_priority_until s) now (root entry)) (\<lambda>a.
                     record (with_root a entry))))
        | _ \<Rightarrow> Inl (Refusal NOT_FOUND)))"

definition leave_in ::
    "core \<Rightarrow> ident \<Rightarrow> ident \<Rightarrow> string option \<Rightarrow> instant \<Rightarrow> db \<Rightarrow> (unit \<times> db) result" where
  "leave_in c date_id account_id tp now db =
     (let w = waitlist_rules c in
      case find_sales c date_id db of
        None \<Rightarrow> Inl (Refusal NOT_FOUND)
      | Some sales \<Rightarrow>
        (case find_entry_by_account date_id account_id db of
           None \<Rightarrow> Inr ((), db)
         | Some entry \<Rightarrow>
             bindE (leave_entry w now (root entry)) (\<lambda>(a, left).
             if \<not> left then Inr ((), db)
             else
               bindE (save_entry (with_root a entry) db) (\<lambda>(entry', db1).
               bindE (move_waitlist_count sales (-1)
                        (record_waitlist_entry_events w tp (uncommitted (root entry')) db1))
                 (\<lambda>db2. Inr ((), db2))))))"

section \<open>The window's end\<close>

text \<open>
  With \<open>skipLocked\<close> a row another transaction holds is skipped: \<open>locked\<close> says whether it is.
\<close>

definition end_due_priority_window ::
    "core \<Rightarrow> ident \<Rightarrow> instant \<Rightarrow> bool \<Rightarrow> db \<Rightarrow> (bool \<times> db) result" where
  "end_due_priority_window c date_id now locked db =
     (case tbl_find dr_date_id date_id (db_sales db) of
        None \<Rightarrow> Inr (False, db)
      | Some r \<Rightarrow>
          if locked \<or> (case dr_priority_until r of None \<Rightarrow> True | Some u \<Rightarrow> now < u) then Inr (False, db)
          else
            let otherwise = (case dr_outcome r of
                  Some out \<Rightarrow> if outcome_ends_waitlist (waitlist_rules c) out then Entry_Closed
                             else Entry_Lapsed
                | None \<Rightarrow> Entry_Lapsed)
            in bindE (end_notified (waitlist_rules c) date_id otherwise now db) (\<lambda>(ended, db1).
               bindE (end_priority_window date_id ended db1) (\<lambda>db2. Inr (True, db2))))"

text \<open>\<open>WaitlistEndingHook.endWaitlist\<close>, in the settlement's transaction.\<close>

definition end_waitlist :: "core \<Rightarrow> ident \<Rightarrow> instant \<Rightarrow> db \<Rightarrow> (unit \<times> db) result" where
  "end_waitlist c date_id now db =
     (case find_sales c date_id db of
        None \<Rightarrow> Inr ((), db)
      | Some _ \<Rightarrow>
          bindE (end_notified (waitlist_rules c) date_id Entry_Closed now db) (\<lambda>(_, db1).
          bindE (close_waiting (waitlist_rules c) date_id now db1) (\<lambda>(_, db2).
          bindE (close_waitlist date_id db2) (\<lambda>(_, db3). Inr ((), db3)))))"

text \<open>
  \<open>GetWaitlistRegistration\<close>, read without a lock.
\<close>

definition get_waitlist_registration ::
    "core \<Rightarrow> ident \<Rightarrow> ident \<Rightarrow> instant \<Rightarrow> db \<Rightarrow> waitlist_registration_view result" where
  "get_waitlist_registration c date_id account_id now db =
     (case tbl_find dr_date_id date_id (db_sales db) of
        None \<Rightarrow> Inl (Refusal NOT_FOUND)
      | Some r \<Rightarrow>
          if dr_prices_locked_at r = None then Inl (Refusal NOT_FOUND)
          else Inr (waitlist_registration_of (waitlist_rules c)
                 (entry_state_of date_id account_id db) (dr_priority_until r)
                 (dr_priority_pool_seats r) now))"

end
