(* ===== verification/Order_Store.thy ===== *)
theory Order_Store
  imports Ticketing_Db
begin

text \<open>
  \<open>TypeOrmSeatHoldRepository\<close> and \<open>TypeOrmSeatOrderRepository\<close>
  (\<open>orders/seat-hold.typeorm-repository.ts\<close>, \<open>orders/seat-order.typeorm-repository.ts\<close>): a hold and an
  order read from their rows and saved to them, the order with its seats and its refunds. Then the
  columns beside the aggregate: the kept answer (\<open>purchase-answers.ts\<close>), the trace of a refund
  (\<open>refund-ledger.ts\<close>) and the marks of an intent's cancellation (\<open>owed-calls.ts\<close>).
\<close>

section \<open>Holds\<close>

type_synonym tracked_hold = "(seat_hold_snapshot, seat_hold_event) tracked"

definition seat_hold_snapshot_of :: "seat_hold_row \<Rightarrow> seat_hold_snapshot" where
  "seat_hold_snapshot_of r = \<lparr>sh_id = hr_id r, sh_date_id = hr_date_id r,
     sh_account_id = hr_account_id r, sh_profile_id = hr_profile_id r, sh_tier = hr_tier r,
     sh_quantity = hr_quantity r, sh_pool_seats = hr_pool_seats r, sh_origin = hr_origin r,
     sh_origin_ref = hr_origin_ref r, sh_expires_at = hr_expires_at r, sh_state = hr_state r,
     sh_version = hr_version r\<rparr>"

definition seat_hold_row_of :: "seat_hold_snapshot \<Rightarrow> seat_hold_row" where
  "seat_hold_row_of s = \<lparr>hr_id = sh_id s, hr_date_id = sh_date_id s,
     hr_account_id = sh_account_id s, hr_profile_id = sh_profile_id s, hr_tier = sh_tier s,
     hr_quantity = sh_quantity s, hr_pool_seats = sh_pool_seats s, hr_origin = sh_origin s,
     hr_origin_ref = sh_origin_ref s, hr_expires_at = sh_expires_at s, hr_state = sh_state s,
     hr_version = sh_version s\<rparr>"

definition find_hold :: "ident \<Rightarrow> db \<Rightarrow> tracked_hold option" where
  "find_hold hold_id db =
     map_option (\<lambda>r. loaded (restore (seat_hold_snapshot_of r)) (hr_version r))
       (tbl_find hr_id hold_id (db_holds db))"

text \<open>The foreign key of a hold's date is checked by the insert.\<close>

definition save_hold :: "tracked_hold \<Rightarrow> db \<Rightarrow> (tracked_hold \<times> db) result" where
  "save_hold t db =
     (let s = current (root t) in
      bindE
        (case version_of t of
           None \<Rightarrow>
             bindE (ensure (sh_date_id s \<in> dr_date_id ` set (db_sales db))
                      (Constraint_Violation ''seat_hold_date_id_fkey'')) (\<lambda>_.
             table_insert ''seat_hold'' seat_hold_check hr_id (seat_hold_row_of s) (db_holds db))
         | Some v \<Rightarrow>
             bindE (save_versioned (\<lambda>r. hr_id r = sh_id s) hr_version v
                      (\<lambda>r. r\<lparr>hr_state := sh_state s, hr_version := sh_version s\<rparr>) (db_holds db))
               (\<lambda>rows. bindE (ensure (list_all seat_hold_check rows) (Constraint_Violation ''seat_hold''))
               (\<lambda>_. Inr rows)))
        (\<lambda>rows. Inr (written (sh_version s) t, db\<lparr>db_holds := rows\<rparr>)))"

section \<open>Orders: rows and snapshots\<close>

type_synonym tracked_order = "(seat_order_snapshot, seat_order_event) tracked"

definition refund_of :: "core \<Rightarrow> order_refund_row \<Rightarrow> order_refund" where
  "refund_of c r = \<lparr>rf_id = rr_id r,
     rf_amount = money_of (sales_rules c) (rr_amount_minor r) (rr_currency_code r),
     rf_reason = rr_reason r, rf_idempotency_key = rr_idempotency_key r, rf_seat_id = rr_seat_id r,
     rf_owed_at = rr_owed_at r, rf_ref = rr_refund_ref r, rf_refunded_at = rr_refunded_at r\<rparr>"

definition refund_row_of :: "ident \<Rightarrow> order_refund \<Rightarrow> order_refund_row" where
  "refund_row_of order_id r = \<lparr>rr_id = rf_id r, rr_order_id = order_id, rr_seat_id = rf_seat_id r,
     rr_amount_minor = amount_minor (rf_amount r), rr_currency_code = currency_code (rf_amount r),
     rr_reason = rf_reason r, rr_idempotency_key = rf_idempotency_key r, rr_owed_at = rf_owed_at r,
     rr_traceparent = None, rr_enqueued_at = None, rr_rerun_asked_at = None,
     rr_refund_ref = rf_ref r, rr_refunded_at = rf_refunded_at r, rr_dead_at = None\<rparr>"

definition seat_snapshot_of :: "core \<Rightarrow> string \<Rightarrow> seat_row \<Rightarrow> seat_snapshot" where
  "seat_snapshot_of c currency r =
     (let amount = map_option (\<lambda>minor. money_of (sales_rules c) minor currency)
      in \<lparr>se_id = sr_id r, se_code = sr_seat_code r, se_tier = sr_tier r, se_state = sr_state r,
          se_cancel_deadline = sr_cancel_deadline r, se_activated_at = sr_activated_at r,
          se_ended_at = sr_ended_at r, se_cancel_reason = sr_cancel_reason r,
          se_refund_id = sr_refund_id r, se_refund_amount = amount (sr_refund_amount_minor r),
          se_credit_id = sr_credit_id r, se_credit_amount = amount (sr_credit_amount_minor r)\<rparr>)"

definition seat_state_columns_of :: "seat_snapshot \<Rightarrow> seat_row \<Rightarrow> seat_row" where
  "seat_state_columns_of s r = r\<lparr>sr_state := se_state s, sr_ended_at := se_ended_at s,
     sr_cancel_reason := se_cancel_reason s, sr_refund_id := se_refund_id s,
     sr_refund_amount_minor := map_option amount_minor (se_refund_amount s),
     sr_credit_id := se_credit_id s,
     sr_credit_amount_minor := map_option amount_minor (se_credit_amount s)\<rparr>"

definition seat_row_of :: "seat_order_snapshot \<Rightarrow> seat_snapshot \<Rightarrow> seat_row" where
  "seat_row_of order s = seat_state_columns_of s \<lparr>sr_id = se_id s, sr_order_id = so_id order,
     sr_date_id = so_date_id order, sr_account_id = so_account_id order,
     sr_profile_id = so_profile_id order, sr_tier = se_tier s, sr_seat_code = se_code s,
     sr_state = Seat_Active, sr_cancel_deadline = se_cancel_deadline s,
     sr_activated_at = se_activated_at s, sr_ended_at = None, sr_cancel_reason = None,
     sr_refund_id = None, sr_refund_amount_minor = None, sr_credit_id = None,
     sr_credit_amount_minor = None\<rparr>"

text \<open>Whether a move wrote any of the seat's columns: what \<open>saveMovedSeats\<close> compares as JSON.\<close>

definition seat_moved :: "seat_snapshot \<Rightarrow> seat_snapshot \<Rightarrow> bool" where
  "seat_moved before s \<longleftrightarrow>
     (se_state before, se_ended_at before, se_cancel_reason before, se_refund_id before,
      map_option amount_minor (se_refund_amount before), se_credit_id before,
      map_option amount_minor (se_credit_amount before)) \<noteq>
     (se_state s, se_ended_at s, se_cancel_reason s, se_refund_id s,
      map_option amount_minor (se_refund_amount s), se_credit_id s,
      map_option amount_minor (se_credit_amount s))"

definition seat_order_snapshot_of ::
    "core \<Rightarrow> seat_order_row \<Rightarrow> seat_row list \<Rightarrow> order_refund_row list \<Rightarrow> seat_order_snapshot" where
  "seat_order_snapshot_of c r seats refunds =
     (let amount = (\<lambda>minor. money_of (sales_rules c) minor (or_currency_code r))
      in \<lparr>so_id = or_id r, so_reference = or_reference r, so_date_id = or_date_id r,
          so_channel_id = or_channel_id r, so_account_id = or_account_id r,
          so_profile_id = or_profile_id r, so_tier = or_tier r, so_quantity = or_quantity r,
          so_quote = \<lparr>tier_total = amount (or_tier_total_minor r),
            service_fee = amount (or_service_fee_minor r), discount = amount (or_discount_minor r),
            total = amount (or_total_minor r), unit_price = amount (or_unit_price_minor r)\<rparr>,
          so_declared_tax_location = or_declared_tax_location r, so_hold_id = or_hold_id r,
          so_expires_at = or_expires_at r, so_state = or_state r,
          so_intent = (case or_payment_intent_ref r of
              None \<Rightarrow> None
            | Some ref \<Rightarrow> Some \<lparr>pi_ref = ref, pi_client_secret = or_client_secret r,
                               pi_next_action = or_next_action r\<rparr>),
          so_failure = (if or_state r = Order_Failed
            then Some \<lparr>of_code = or_failure_code r, of_decline_code = or_decline_code r\<rparr> else None),
          so_refunds = map (refund_of c) refunds,
          so_intent_cancel_owed_at = or_intent_cancel_owed_at r, so_placed_at = or_placed_at r,
          so_paid_at = or_paid_at r,
          so_seats = map (seat_snapshot_of c (or_currency_code r)) seats,
          so_version = or_version r\<rparr>)"

text \<open>Every column a save may move; the rest are the placement's, written once.\<close>

definition order_state_columns_of :: "seat_order_snapshot \<Rightarrow> seat_order_row \<Rightarrow> seat_order_row" where
  "order_state_columns_of s r = r\<lparr>or_hold_id := so_hold_id s, or_expires_at := so_expires_at s,
     or_state := so_state s, or_payment_intent_ref := map_option pi_ref (so_intent s),
     or_client_secret := Option.bind (so_intent s) pi_client_secret,
     or_next_action := Option.bind (so_intent s) pi_next_action,
     or_failure_code := Option.bind (so_failure s) of_code,
     or_decline_code := Option.bind (so_failure s) of_decline_code,
     or_intent_cancel_owed_at := so_intent_cancel_owed_at s, or_paid_at := so_paid_at s,
     or_version := so_version s\<rparr>"

record idempotency_binding =
  ib_account_id :: "ident option"
  ib_key :: ident
  ib_fingerprint :: string

definition order_row_of :: "idempotency_binding \<Rightarrow> seat_order_snapshot \<Rightarrow> seat_order_row" where
  "order_row_of b s =
     (let q = so_quote s in
      order_state_columns_of s \<lparr>or_id = so_id s, or_reference = so_reference s,
        or_idempotency_key = ib_key b, or_account_id = ib_account_id b,
        or_fingerprint = ib_fingerprint b, or_date_id = so_date_id s,
        or_channel_id = so_channel_id s, or_profile_id = so_profile_id s, or_tier = so_tier s,
        or_quantity = so_quantity s, or_currency_code = currency_code (total q),
        or_unit_price_minor = amount_minor (unit_price q),
        or_tier_total_minor = amount_minor (tier_total q),
        or_service_fee_minor = amount_minor (service_fee q),
        or_discount_minor = amount_minor (discount q), or_total_minor = amount_minor (total q),
        or_declared_tax_location = so_declared_tax_location s, or_hold_id = [],
        or_expires_at = 0, or_state = so_state s, or_payment_intent_ref = None,
        or_client_secret = None, or_next_action = None, or_failure_code = None,
        or_decline_code = None, or_intent_cancel_owed_at = None,
        or_intent_cancel_enqueued_at = None, or_intent_cancel_dead_at = None,
        or_placed_at = so_placed_at s, or_paid_at = None, or_outcome_settled_at = None,
        or_answer = None, or_version = 0\<rparr>)"

section \<open>Orders: the repository\<close>

text \<open>
  The seats in the order of their codes, the refunds by when they were owed and their id: the
  database's collation is the parameter \<open>collates\<close>.
\<close>

definition seats_of_order :: "core \<Rightarrow> ident \<Rightarrow> db \<Rightarrow> seat_row list" where
  "seats_of_order c order_id db =
     sort_by (\<lambda>l r. collates (checkout_rules c) (sr_seat_code l) (sr_seat_code r))
       (filter (\<lambda>r. sr_order_id r = order_id) (db_seats db))"

definition refunds_of_order :: "core \<Rightarrow> ident \<Rightarrow> db \<Rightarrow> order_refund_row list" where
  "refunds_of_order c order_id db =
     sort_by (\<lambda>l r. rr_owed_at l < rr_owed_at r \<or>
         rr_owed_at l = rr_owed_at r \<and> collates (checkout_rules c) (rr_id l) (rr_id r))
       (filter (\<lambda>r. rr_order_id r = order_id) (db_refunds db))"

definition find_order :: "core \<Rightarrow> ident \<Rightarrow> db \<Rightarrow> tracked_order option" where
  "find_order c order_id db =
     map_option (\<lambda>r. loaded (restore (seat_order_snapshot_of c r (seats_of_order c order_id db)
         (refunds_of_order c order_id db))) (or_version r))
       (tbl_find or_id order_id (db_orders db))"

definition find_bound :: "ident option \<Rightarrow> ident \<Rightarrow> db \<Rightarrow> (ident \<times> string) option" where
  "find_bound account_id key db =
     map_option (\<lambda>r. (or_id r, or_fingerprint r))
       (find (\<lambda>r. or_account_id r = account_id \<and> or_idempotency_key r = key) (db_orders db))"

text \<open>
  \<open>INSERT \<dots> ON CONFLICT DO NOTHING\<close>: \<open>False\<close>, nothing written, when the id, the reference or the
  account's key is taken. The date's foreign key is immediate, the hold's deferred to the commit.
\<close>

definition place_order ::
    "tracked_order \<Rightarrow> idempotency_binding \<Rightarrow> db \<Rightarrow> (bool \<times> tracked_order \<times> db) result" where
  "place_order t b db =
     (let s = current (root t); row = order_row_of b s in
      bindE (ensure (seat_order_check row) (Constraint_Violation ''seat_order'')) (\<lambda>_.
      if list_ex (\<lambda>r. or_id r = or_id row \<or> or_reference r = or_reference row \<or>
           (or_account_id r = or_account_id row \<and> or_idempotency_key r = or_idempotency_key row))
           (db_orders db)
      then Inr (False, t, db)
      else
        bindE (ensure (or_date_id row \<in> dr_date_id ` set (db_sales db))
                 (Constraint_Violation ''seat_order_date_id_fkey'')) (\<lambda>_.
        Inr (True, written (so_version s) t, db\<lparr>db_orders := db_orders db @ [row]\<rparr>))))"

text \<open>
  A refund's row inserted on the order's save: one already there under its id is kept when it is the
  same refund, and refused when it is another's or when its key is.
\<close>

definition refund_conflicts :: "order_refund_row \<Rightarrow> order_refund_row \<Rightarrow> bool" where
  "refund_conflicts row r \<longleftrightarrow> rr_id r = rr_id row \<or> rr_idempotency_key r = rr_idempotency_key row \<or>
     (unseated_refund r \<and> unseated_refund row \<and> rr_order_id r = rr_order_id row)"

definition insert_refund :: "ident \<Rightarrow> order_refund \<Rightarrow> db \<Rightarrow> db result" where
  "insert_refund order_id refund db =
     (let row = refund_row_of order_id refund in
      if \<not> order_refund_check row then Inl (Constraint_Violation ''order_refund'')
      else if \<not> list_ex (refund_conflicts row) (db_refunds db)
      then Inr (db\<lparr>db_refunds := db_refunds db @ [row]\<rparr>)
      else case tbl_find rr_id (rf_id refund) (db_refunds db) of
          None \<Rightarrow> Inl (Plain_Error ''refund not recorded'')
        | Some held \<Rightarrow>
            if rr_order_id held = order_id \<and> rr_idempotency_key held = rf_idempotency_key refund \<and>
               rr_amount_minor held = amount_minor (rf_amount refund)
            then Inr db else Inl (Plain_Error ''refund not recorded''))"

definition save_refunds :: "seat_order_snapshot \<Rightarrow> seat_order_snapshot \<Rightarrow> db \<Rightarrow> db result" where
  "save_refunds before s db =
     (let was = (\<lambda>i. find (\<lambda>r. rf_id r = i) (so_refunds before)) in
      bindE (foldE (insert_refund (so_id s))
               (filter (\<lambda>r. was (rf_id r) = None) (so_refunds s)) db) (\<lambda>db1.
      Inr (fold (\<lambda>r db. case was (rf_id r) of
             None \<Rightarrow> db
           | Some b \<Rightarrow>
               if rf_refunded_at b = rf_refunded_at r \<and> rf_ref b = rf_ref r then db
               else db\<lparr>db_refunds := tbl_update (\<lambda>x. rr_id x = rf_id r)
                      (\<lambda>x. x\<lparr>rr_refund_ref := rf_ref r, rr_refunded_at := rf_refunded_at r\<rparr>)
                      (db_refunds db)\<rparr>) (so_refunds s) db1)))"

definition insert_seat :: "seat_row \<Rightarrow> seat_row list \<Rightarrow> seat_row list result" where
  "insert_seat row t =
     bindE (ensure (sr_seat_code row \<notin> sr_seat_code ` set t) (Constraint_Violation ''seat_code''))
       (\<lambda>_. table_insert ''seat'' seat_check sr_id row t)"

definition save_moved_seats :: "seat_order_snapshot \<Rightarrow> seat_order_snapshot \<Rightarrow> db \<Rightarrow> db result" where
  "save_moved_seats before s db =
     foldE (\<lambda>seat db. case find (\<lambda>x. se_id x = se_id seat) (so_seats before) of
           None \<Rightarrow> Inr db
         | Some b \<Rightarrow>
             if \<not> seat_moved b seat then Inr db
             else bindE (table_update ''seat'' seat_check (\<lambda>r. sr_id r = se_id seat)
                    (seat_state_columns_of seat) (db_seats db))
                  (\<lambda>(_, t). Inr (db\<lparr>db_seats := t\<rparr>))) (so_seats s) db"

definition save_order :: "tracked_order \<Rightarrow> db \<Rightarrow> (tracked_order \<times> db) result" where
  "save_order t db =
     (let s = current (root t) in
      case version_of t of
        None \<Rightarrow> Inl (Plain_Error ''order was neither loaded nor placed in this transaction'')
      | Some v \<Rightarrow>
          let before = (case stored t of None \<Rightarrow> s\<lparr>so_seats := [], so_refunds := []\<rparr> | Some b \<Rightarrow> b) in
          bindE (save_versioned (\<lambda>r. or_id r = so_id s) or_version v (order_state_columns_of s)
                   (db_orders db)) (\<lambda>orders.
          bindE (ensure (list_all seat_order_check orders) (Constraint_Violation ''seat_order'')) (\<lambda>_.
          bindE (foldE insert_seat
                   (map (seat_row_of s)
                      (filter (\<lambda>seat. find (\<lambda>x. se_id x = se_id seat) (so_seats before) = None)
                         (so_seats s))) (db_seats db)) (\<lambda>seats.
          bindE (save_refunds before s (db\<lparr>db_orders := orders, db_seats := seats\<rparr>)) (\<lambda>db1.
          bindE (save_moved_seats before s db1) (\<lambda>db2.
          Inr (written (so_version s) t, db2)))))))"

section \<open>Beside the aggregate\<close>

definition stored_answer_of :: "ident \<Rightarrow> db \<Rightarrow> stored_answer option" where
  "stored_answer_of order_id db = Option.bind (tbl_find or_id order_id (db_orders db)) or_answer"

definition store_answer :: "ident \<Rightarrow> stored_answer \<Rightarrow> db \<Rightarrow> bool \<times> db" where
  "store_answer order_id answer db =
     (let p = (\<lambda>r. or_id r = order_id \<and> or_answer r = None)
      in (tbl_affected p (db_orders db) = 1,
          db\<lparr>db_orders := tbl_update p (\<lambda>r. r\<lparr>or_answer := Some answer\<rparr>) (db_orders db)\<rparr>))"

definition record_refund_traceparent :: "ident \<Rightarrow> string option \<Rightarrow> db \<Rightarrow> db result" where
  "record_refund_traceparent refund_id tp db =
     (let p = (\<lambda>r. rr_id r = refund_id)
      in if tbl_affected p (db_refunds db) = 1
         then Inr (db\<lparr>db_refunds := tbl_update p (\<lambda>r. r\<lparr>rr_traceparent := tp\<rparr>) (db_refunds db)\<rparr>)
         else Inl (Plain_Error ''refund has no row yet''))"

definition owe_intent_cancellation_again :: "ident \<Rightarrow> db \<Rightarrow> db" where
  "owe_intent_cancellation_again order_id db =
     db\<lparr>db_orders := tbl_update (\<lambda>r. or_id r = order_id)
       (\<lambda>r. r\<lparr>or_intent_cancel_enqueued_at := None, or_intent_cancel_dead_at := None\<rparr>)
       (db_orders db)\<rparr>"

end
