(* ===== verification/Purchase.thy ===== *)
theory Purchase
  imports Waitlist Order_Store
begin

text \<open>
  The purchase (\<open>apps/ticketing/src/orders\<close>): a confirmed payment settled, an unpaid order failed,
  an intent that waits recorded, then \<open>PurchaseSeatHandler\<close>: tx A binds the key to a new order and
  takes its seats, the provider is called outside any transaction, tx B records what it said, and a
  replay under the key serves the kept answer or resumes the order where it stands.

  What the code draws at random or waits for is an argument: the \<open>draws\<close> record holds the fresh ids
  (\<open>uuidv7\<close>), the sequence's next value, the seat codes drawn round by round, and whether the wait
  on another purchase holding the key ran into the lock timeout. A read without a lock is of the
  tables \<open>seen\<close>, which may be older than the ones the transaction writes.
\<close>

record draws =
  dw_order_id :: ident
  dw_hold_id :: ident
  dw_sequence :: int
  dw_refund_id :: ident
  dw_seat_ids :: "ident list"
  dw_code_rounds :: "string list list"
  dw_key_lock_timeout :: bool

section \<open>Refusals\<close>

definition retry_after_ms :: int where
  "retry_after_ms = 1000"

definition sold_out :: failure where
  "sold_out = Refusal SOLD_OUT"

definition sales_closed :: "instant \<Rightarrow> failure" where
  "sales_closed sales_end_at = Refusal (SALES_CLOSED sales_end_at)"

definition price_stale :: "money \<Rightarrow> money \<Rightarrow> failure" where
  "price_stale expected now_is =
     Refusal (PRICE_STALE (amount_minor expected) (amount_minor now_is) (currency_code now_is))"

definition tier_unavailable :: failure where
  "tier_unavailable = Refusal TIER_UNAVAILABLE"

definition late_entry_unacknowledged :: "late_entry \<Rightarrow> failure" where
  "late_entry_unacknowledged l = Refusal (LATE_ENTRY_UNACKNOWLEDGED l)"

definition key_reused :: failure where
  "key_reused = Refusal IDEMPOTENCY_KEY_REUSED"

definition key_in_flight :: failure where
  "key_in_flight = Refusal (IDEMPOTENCY_IN_FLIGHT retry_after_ms)"

definition payment_unavailable :: failure where
  "payment_unavailable = Refusal SERVICE_UNAVAILABLE"

definition refusal_of_unpaid :: "seat_order_snapshot \<Rightarrow> instant option \<Rightarrow> failure" where
  "refusal_of_unpaid s sales_end_at =
     (case so_failure s of
        Some f \<Rightarrow>
          if of_code f = Some Code_Payment_Declined
          then Refusal (PAYMENT_DECLINED (of_decline_code f))
          else (case (of_code f = Some Code_Sales_Closed, sales_end_at) of
                  (True, Some t) \<Rightarrow> sales_closed t
                | _ \<Rightarrow> sold_out)
      | None \<Rightarrow> sold_out)"

section \<open>Seat codes\<close>

text \<open>
  One round draws as many codes as are missing, drops the ones already kept and the ones a seat
  carries, and keeps the rest once each. \<open>None\<close> when the rounds given do not suffice: the code then
  draws again.
\<close>

definition keep_codes :: "string list \<Rightarrow> string list \<Rightarrow> string list \<Rightarrow> string list" where
  "keep_codes taken codes drawn =
     fold (\<lambda>code kept. if code \<in> set taken \<or> code \<in> set kept then kept else kept @ [code])
       (filter (\<lambda>code. code \<notin> set codes) drawn) codes"

fun draw_free_seat_codes ::
    "string list \<Rightarrow> nat \<Rightarrow> string list \<Rightarrow> string list list \<Rightarrow> string list option" where
  "draw_free_seat_codes taken count codes [] = (if count \<le> length codes then Some codes else None)"
| "draw_free_seat_codes taken count codes (round # rounds) =
     (if count \<le> length codes then Some codes
      else draw_free_seat_codes taken count
             (keep_codes taken codes (take (count - length codes) round)) rounds)"

section \<open>Settling a payment\<close>

type_synonym counter_move = "db \<Rightarrow> db result"

definition owe_payment_back ::
    "core \<Rightarrow> draws \<Rightarrow> date_outcome option \<Rightarrow> ident \<Rightarrow> instant \<Rightarrow> string option \<Rightarrow> tracked_order \<Rightarrow> db
       \<Rightarrow> (tracked_order \<times> db) result" where
  "owe_payment_back c d outcome intent_ref now tp t db =
     (case owe_unseated_payment_back (order_rules c) (dw_refund_id d)
         (refund_reason_on_date (checkout_rules c) outcome Refund_Hold_Expired_Capacity_Lost)
         intent_ref now (root t) of
        (a, None) \<Rightarrow> Inr (with_root a t, db)
      | (a, Some refund_id) \<Rightarrow>
          bindE (save_order (with_root a t) db) (\<lambda>(t', db1).
          bindE (record_refund_traceparent refund_id tp db1) (\<lambda>db2.
          Inr (t', db2))))"

definition active_hold :: "ident \<Rightarrow> db \<Rightarrow> tracked_hold option" where
  "active_hold hold_id db =
     (case find_hold hold_id db of
        None \<Rightarrow> None
      | Some h \<Rightarrow> if hold_is_active (current (root h)) then Some h else None)"

definition release_hold_in ::
    "instant \<Rightarrow> tracked_hold \<Rightarrow> db \<Rightarrow> (seat_hold_snapshot \<times> db) result" where
  "release_hold_in now h db =
     bindE (hold_release now (root h)) (\<lambda>a.
     bindE (save_hold (with_root a h) db) (\<lambda>(h', db1).
     Inr (current (root h'), db1)))"

definition consume_hold_in ::
    "instant \<Rightarrow> tracked_hold \<Rightarrow> db \<Rightarrow> (seat_hold_snapshot \<times> db) result" where
  "consume_hold_in now h db =
     bindE (hold_consume now (root h)) (\<lambda>a.
     bindE (save_hold (with_root a h) db) (\<lambda>(h', db1).
     Inr (current (root h'), db1)))"

definition issue_seats ::
    "core \<Rightarrow> draws \<Rightarrow> db \<Rightarrow> tracked_sales option \<Rightarrow> ident \<Rightarrow> instant \<Rightarrow> tracked_order
       \<Rightarrow> tracked_order result" where
  "issue_seats c d seen sales intent_ref now t =
     (let s = current (root t);
          starts_at = Option.bind sales (\<lambda>x. ds_starts_at (current (root x)));
          deadline = map_option (seat_cancel_deadline (checkout_rules c)) starts_at
      in case draw_free_seat_codes (map sr_seat_code (db_seats seen)) (nat (so_quantity s)) []
                (dw_code_rounds d) of
           None \<Rightarrow> Inl (Plain_Error ''still drawing seat codes'')
         | Some codes \<Rightarrow>
             bindE (order_pay (order_rules c) intent_ref
                      (map2 (\<lambda>i code. \<lparr>si_id = i, si_code = code, si_cancel_deadline = deadline\<rparr>)
                         (dw_seat_ids d) codes) now (root t))
               (\<lambda>a. Inr (with_root a t)))"

definition sales_outcome :: "tracked_sales option \<Rightarrow> date_outcome option" where
  "sales_outcome sales = Option.bind sales (\<lambda>x. ds_outcome (current (root x)))"

definition settle_confirmed_payment ::
    "core \<Rightarrow> draws \<Rightarrow> db \<Rightarrow> db \<Rightarrow> ident \<Rightarrow> instant \<Rightarrow> string option \<Rightarrow> tracked_order \<Rightarrow> db
       \<Rightarrow> (counter_move option \<times> tracked_order \<times> db) result" where
  "settle_confirmed_payment c d seen again intent_ref now tp t db =
     (let s = current (root t) in
      if \<not> accepts_payment (order_rules c) s then Inr (None, t, db)
      else
        let date_id = so_date_id s; quantity = so_quantity s;
            sales = find_sales c date_id seen;
            hold = active_hold (so_hold_id s) db
        in if sales_outcome sales = Some Outcome_Cancelled then
             bindE (case hold of
                 None \<Rightarrow> Inr (None, db)
               | Some h \<Rightarrow> bindE (release_hold_in now h db) (\<lambda>(released, db1).
                   Inr (Some (return_held_seats date_id (sh_quantity released)
                          (sh_pool_seats released) now), db1))) (\<lambda>(returned, db1).
             bindE (owe_payment_back c d (sales_outcome sales) intent_ref now tp t db1)
               (\<lambda>(t', db2). Inr (returned, t', db2)))
           else case hold of
               Some h \<Rightarrow>
                 bindE (consume_hold_in now h db) (\<lambda>(_, db1).
                 bindE (issue_seats c d seen sales intent_ref now t) (\<lambda>t'.
                 Inr (Some (sell_held_seats date_id quantity), t', db1)))
             | None \<Rightarrow>
                 bindE (take_and_sell_seats date_id quantity now
                    (draws_on_priority_pool (waitlist_rules c) sales (so_account_id s) now seen) db)
                 (\<lambda>(taken, db1).
                  if \<not> taken then
                    bindE (owe_payment_back c d (sales_outcome (find_sales c date_id again))
                             intent_ref now tp t db1) (\<lambda>(t', db2). Inr (None, t', db2))
                  else
                    bindE (issue_seats c d seen sales intent_ref now t) (\<lambda>t'.
                    Inr (None, t', db1))))"

definition fail_unpaid_order ::
    "order_failure \<Rightarrow> instant \<Rightarrow> tracked_order \<Rightarrow> db
       \<Rightarrow> (counter_move option \<times> tracked_order \<times> db) result" where
  "fail_unpaid_order failure now t db =
     (case order_fail failure now (root t) of
        (a, False) \<Rightarrow> Inr (None, with_root a t, db)
      | (a, True) \<Rightarrow>
          (case active_hold (so_hold_id (current a)) db of
             None \<Rightarrow> Inr (None, with_root a t, db)
           | Some h \<Rightarrow>
               bindE (release_hold_in now h db) (\<lambda>(released, db1).
               Inr (Some (return_held_seats (sh_date_id released) (sh_quantity released)
                      (sh_pool_seats released) now), with_root a t, db1))))"

definition record_waiting_intent ::
    "core \<Rightarrow> payment_intent_record \<Rightarrow> order_state \<Rightarrow> instant \<Rightarrow> tracked_order \<Rightarrow> db
       \<Rightarrow> tracked_order \<times> db" where
  "record_waiting_intent c intent state now t db =
     (case record_intent (order_rules c) intent state now (root t) of
        (a, failed) \<Rightarrow>
          (with_root a t,
           if failed then owe_intent_cancellation_again (so_id (current a)) db else db))"

section \<open>The answer\<close>

datatype resumption =
    Answered stored_answer bool
  | Refused failure
  | Create_Intent ident money instant string

definition load_order :: "core \<Rightarrow> ident \<Rightarrow> db \<Rightarrow> tracked_order result" where
  "load_order c order_id db =
     (case find_order c order_id db of None \<Rightarrow> Inl (Plain_Error ''order vanished'') | Some t \<Rightarrow> Inr t)"

definition kept :: "ident \<Rightarrow> stored_answer \<Rightarrow> db \<Rightarrow> (resumption \<times> db) result" where
  "kept order_id answer db =
     (case store_answer order_id answer db of
        (True, db1) \<Rightarrow> Inr (Answered answer False, db1)
      | (False, db1) \<Rightarrow>
          (case stored_answer_of order_id db1 of
             None \<Rightarrow> Inl (Plain_Error ''order kept no answer'')
           | Some first \<Rightarrow> Inr (Answered first True, db1)))"

definition return_url :: "core \<Rightarrow> string \<Rightarrow> ident \<Rightarrow> string" where
  "return_url c origin order_id = origin @ payment_return_path (checkout_rules c) order_id"

definition answer_of ::
    "core \<Rightarrow> string \<Rightarrow> db \<Rightarrow> instant \<Rightarrow> seat_order_snapshot \<Rightarrow> db \<Rightarrow> (resumption \<times> db) result" where
  "answer_of c origin seen now s db =
     (if so_state s = Order_Paid then
        kept (so_id s) \<lparr>sa_status = 201, sa_served_at = now,
          sa_body = Purchased_Seats (ticket_views_of (checkout_rules c) s) (order_view_of s)\<rparr> db
      else
        case (if owes_refund s then None else handoff_of s (return_url c origin (so_id s))) of
          Some handoff \<Rightarrow>
            kept (so_id s) \<lparr>sa_status = 202, sa_served_at = now, sa_body = Payment_Handoff handoff\<rparr> db
        | None \<Rightarrow>
            Inr (Refused (refusal_of_unpaid s
                   (Option.bind (find_sales c (so_date_id s) seen)
                      (\<lambda>x. ds_sales_end_at (current (root x))))), db))"

definition intent_request_of :: "core \<Rightarrow> string \<Rightarrow> seat_order_snapshot \<Rightarrow> resumption" where
  "intent_request_of c origin s =
     Create_Intent (so_id s) (total (so_quote s)) (so_expires_at s) (return_url c origin (so_id s))"

section \<open>Tx A\<close>

record purchase_command =
  pcm_date_id :: ident
  pcm_tier :: price_tier
  pcm_quantity :: int
  pcm_expected_total :: money
  pcm_declared_tax_location :: "declared_tax_location option"
  pcm_account_id :: ident
  pcm_profile_id :: "ident option"
  pcm_binding :: idempotency_binding
  pcm_traceparent :: "string option"
  pcm_late_entry_acknowledged :: bool

datatype placement = Placed ident resumption | Bound ident

definition order_of_purchase ::
    "core \<Rightarrow> draws \<Rightarrow> purchase_command \<Rightarrow> ident \<Rightarrow> order_quote \<Rightarrow> instant \<Rightarrow> instant \<Rightarrow> seat_order" where
  "order_of_purchase c d cmd channel_id quote expires_at now =
     order_place \<lparr>sp_id = dw_order_id d,
       sp_reference = order_reference (checkout_rules c) now (dw_sequence d),
       sp_date_id = pcm_date_id cmd, sp_channel_id = channel_id,
       sp_account_id = Some (pcm_account_id cmd), sp_profile_id = pcm_profile_id cmd,
       sp_tier = pcm_tier cmd, sp_quantity = pcm_quantity cmd, sp_quote = quote,
       sp_declared_tax_location = pcm_declared_tax_location cmd, sp_hold_id = dw_hold_id d,
       sp_expires_at = expires_at\<rparr> now"

definition bind_key ::
    "draws \<Rightarrow> tracked_order \<Rightarrow> idempotency_binding \<Rightarrow> db \<Rightarrow> (tracked_order \<times> db) result" where
  "bind_key d t b db =
     (if dw_key_lock_timeout d then Inl key_in_flight
      else bindE (place_order t b db) (\<lambda>(placed, t', db1).
        if placed then Inr (t', db1) else Inl Key_Bound_Meanwhile))"

definition take_seats_for ::
    "bool \<Rightarrow> tracked_sales \<Rightarrow> ident \<Rightarrow> int \<Rightarrow> instant \<Rightarrow> db \<Rightarrow> (bool \<times> tracked_sales \<times> db) result" where
  "take_seats_for from_pool sales hold_id quantity now db =
     (if from_pool then take_seats_from_pool sales hold_id quantity now db
      else take_seats sales quantity now db)"

definition place_in ::
    "core \<Rightarrow> string \<Rightarrow> draws \<Rightarrow> db \<Rightarrow> instant \<Rightarrow> purchase_command \<Rightarrow> db \<Rightarrow> (placement \<times> db) result" where
  "place_in c origin d seen now cmd db =
     (let b = pcm_binding cmd; rules = sales_rules c in
      case find_bound (ib_account_id b) (ib_key b) seen of
        Some (order_id, fingerprint) \<Rightarrow>
          if fingerprint \<noteq> ib_fingerprint b then Inl key_reused else Inr (Bound order_id, db)
      | None \<Rightarrow>
        (case find_sales c (pcm_date_id cmd) seen of
           None \<Rightarrow> Inl sold_out
         | Some loaded_sales \<Rightarrow>
            bindE (hold_seats rules (pcm_quantity cmd) now (root loaded_sales)) (\<lambda>held.
            let sales = with_root held loaded_sales; s = current held in
            bindE (case late_entry_at rules s now of
                None \<Rightarrow> Inr ()
              | Some l \<Rightarrow> ensure (pcm_late_entry_acknowledged cmd) (late_entry_unacknowledged l)) (\<lambda>_.
            bindE (quote_at rules s (pcm_tier cmd) (pcm_quantity cmd)) (\<lambda>quoted.
            case quoted of
              None \<Rightarrow> Inl tier_unavailable
            | Some quote \<Rightarrow>
              bindE (ensure (amount_minor (total quote) = amount_minor (pcm_expected_total cmd) \<and>
                        currency_code (total quote) = currency_code (pcm_expected_total cmd))
                       (price_stale (pcm_expected_total cmd) (total quote))) (\<lambda>_.
              let from_pool = draws_on_priority_pool (waitlist_rules c) (Some sales)
                    (Some (pcm_account_id cmd)) now seen;
                  expires_at = checkout_intent_expiry (checkout_rules c) now
              in
              bindE (hold_place (checkout_rules c) \<lparr>shp_id = dw_hold_id d,
                       shp_date_id = pcm_date_id cmd, shp_account_id = Some (pcm_account_id cmd),
                       shp_profile_id = pcm_profile_id cmd, shp_tier = pcm_tier cmd,
                       shp_quantity = pcm_quantity cmd, shp_origin = Origin_Checkout,
                       shp_origin_ref = dw_order_id d, shp_intent_expires_at = expires_at\<rparr> now)
                (\<lambda>hold.
              let order = order_of_purchase c d cmd (ds_channel_id s) quote expires_at now in
              bindE (bind_key d (created order) b db) (\<lambda>(t, db1).
              bindE (save_hold (created hold) db1) (\<lambda>(_, db2).
              bindE (take_seats_for from_pool sales (dw_hold_id d) (pcm_quantity cmd) now
                       (write_outbox (write_seat_order_integration_events c (pcm_traceparent cmd)
                          (uncommitted (root t))) db2)) (\<lambda>(taken, _, db3).
              if \<not> taken then Inl sold_out
              else Inr (Placed (dw_order_id d) (intent_request_of c origin (current (root t))), db3)
              ))))))))))"

section \<open>Resuming\<close>

definition save_resumed ::
    "core \<Rightarrow> string option \<Rightarrow> tracked_order \<Rightarrow> db \<Rightarrow> (tracked_order \<times> db) result" where
  "save_resumed c tp t db =
     bindE (save_order t db) (\<lambda>(t', db1).
     Inr (t', write_outbox (write_seat_order_integration_events c tp (uncommitted (root t'))) db1))"

text \<open>\<open>None\<close>, the order failed sold out, when the sale no longer sells.\<close>

definition renew_hold_in ::
    "core \<Rightarrow> draws \<Rightarrow> db \<Rightarrow> tracked_sales option \<Rightarrow> instant \<Rightarrow> tracked_order \<Rightarrow> db
       \<Rightarrow> ((db \<Rightarrow> (bool \<times> tracked_sales \<times> db) result) option \<times> tracked_order \<times> db) result" where
  "renew_hold_in c d seen sales now t db =
     (let s = current (root t);
          fails = Inr (None, with_root (fst (order_fail \<lparr>of_code = Some Code_Sold_Out,
                    of_decline_code = None\<rparr> now (root t))) t, db)
      in case sales of
           None \<Rightarrow> fails
         | Some loaded_sales \<Rightarrow>
             if \<not> sells_seats_at (sales_rules c) (current (root loaded_sales)) now then fails
             else
               bindE (hold_seats (sales_rules c) (so_quantity s) now (root loaded_sales)) (\<lambda>held.
               let sales' = with_root held loaded_sales;
                   from_pool = draws_on_priority_pool (waitlist_rules c) (Some sales')
                     (so_account_id s) now seen;
                   expires_at = checkout_intent_expiry (checkout_rules c) now
               in
               bindE (hold_place (checkout_rules c) \<lparr>shp_id = dw_hold_id d,
                        shp_date_id = so_date_id s, shp_account_id = so_account_id s,
                        shp_profile_id = so_profile_id s, shp_tier = so_tier s,
                        shp_quantity = so_quantity s, shp_origin = Origin_Checkout,
                        shp_origin_ref = so_id s, shp_intent_expires_at = expires_at\<rparr> now)
                 (\<lambda>hold.
               bindE (save_hold (created hold) db) (\<lambda>(_, db1).
               bindE (renew_hold (dw_hold_id d) expires_at now (root t)) (\<lambda>a.
               Inr (Some (take_seats_for from_pool sales' (dw_hold_id d) (so_quantity s) now),
                    with_root a t, db1))))))"

definition resume_in ::
    "core \<Rightarrow> string \<Rightarrow> draws \<Rightarrow> db \<Rightarrow> instant \<Rightarrow> ident \<Rightarrow> string option \<Rightarrow> bool \<Rightarrow> db
       \<Rightarrow> (resumption \<times> db) result" where
  "resume_in c origin d seen now order_id tp acknowledged db =
     (case stored_answer_of order_id seen of
        Some answer \<Rightarrow> Inr (Answered answer True, db)
      | None \<Rightarrow>
        bindE (load_order c order_id db) (\<lambda>t.
        let s = current (root t); secret = awaits_client_secret s in
        if \<not> secret \<and> \<not> awaits_intent s then answer_of c origin seen now s db
        else
          let sales = find_sales c (so_date_id s) seen;
              hold_gone = (\<not> secret \<and> active_hold (so_hold_id s) db = None);
              sales_end_at = Option.bind sales (\<lambda>x. ds_sales_end_at (current (root x)));
              late_entry = Option.bind sales
                (\<lambda>x. late_entry_at (sales_rules c) (current (root x)) now)
          in case (hold_gone \<and> sales_ended_by (sales_rules c) sales_end_at now, sales_end_at) of
               (True, Some end_at) \<Rightarrow>
                 bindE (save_resumed c tp (with_root (fst (order_fail
                          \<lparr>of_code = Some Code_Sales_Closed, of_decline_code = None\<rparr> now (root t))) t)
                          db) (\<lambda>(_, db1).
                 Inr (Refused (sales_closed end_at), db1))
             | _ \<Rightarrow>
               (case (late_entry, acknowledged) of
                  (Some l, False) \<Rightarrow> Inr (Refused (late_entry_unacknowledged l), db)
                | _ \<Rightarrow>
                  if \<not> hold_gone then Inr (intent_request_of c origin s, db)
                  else
                    bindE (renew_hold_in c d seen sales now t db) (\<lambda>(take_seats, t1, db1).
                    bindE (save_resumed c tp t1 db1) (\<lambda>(t2, db2).
                    case take_seats of
                      None \<Rightarrow> Inr (Refused sold_out, db2)
                    | Some take_them \<Rightarrow>
                        bindE (take_them db2) (\<lambda>(taken, _, db3).
                        if \<not> taken then Inl (Renewal_Sold_Out order_id (so_hold_id s))
                        else Inr (intent_request_of c origin (current (root t2)), db3)))))))"

definition fail_sold_out_in ::
    "core \<Rightarrow> string \<Rightarrow> db \<Rightarrow> instant \<Rightarrow> ident \<Rightarrow> ident \<Rightarrow> string option \<Rightarrow> db
       \<Rightarrow> (resumption \<times> db) result" where
  "fail_sold_out_in c origin seen now order_id stale_hold_id tp db =
     bindE (load_order c order_id db) (\<lambda>t.
     let s = current (root t) in
     if so_hold_id s \<noteq> stale_hold_id then Inr (Refused key_in_flight, db)
     else if \<not> awaits_intent s then answer_of c origin seen now s db
     else
       bindE (save_resumed c tp (with_root (fst (order_fail
                \<lparr>of_code = Some Code_Sold_Out, of_decline_code = None\<rparr> now (root t))) t) db)
         (\<lambda>(_, db1). Inr (Refused sold_out, db1)))"

section \<open>Tx B\<close>

record payment_intent =
  in_ref :: ident
  in_status :: intent_status
  in_client_secret :: "string option"
  in_next_action :: "next_action option"
  in_decline_code :: "string option"

definition run_counter_move :: "counter_move option \<Rightarrow> db \<Rightarrow> db result" where
  "run_counter_move pending db = (case pending of None \<Rightarrow> Inr db | Some move \<Rightarrow> move db)"

definition apply_intent ::
    "core \<Rightarrow> draws \<Rightarrow> db \<Rightarrow> db \<Rightarrow> instant \<Rightarrow> payment_intent \<Rightarrow> string option \<Rightarrow> tracked_order \<Rightarrow> db
       \<Rightarrow> (counter_move option \<times> tracked_order \<times> db) result" where
  "apply_intent c d seen again now intent tp t db =
     (let rec = \<lparr>pi_ref = in_ref intent, pi_client_secret = in_client_secret intent,
                 pi_next_action = in_next_action intent\<rparr>
      in case in_status intent of
           Intent_Succeeded \<Rightarrow> settle_confirmed_payment c d seen again (in_ref intent) now tp t db
         | Intent_Requires_Action \<Rightarrow>
             (case record_waiting_intent c rec Order_Awaiting_Action now t db of
                (t', db1) \<Rightarrow> Inr (None, t', db1))
         | Intent_Processing \<Rightarrow>
             (case record_waiting_intent c rec Order_Processing now t db of
                (t', db1) \<Rightarrow> Inr (None, t', db1))
         | Intent_Declined \<Rightarrow>
             fail_unpaid_order \<lparr>of_code = Some Code_Payment_Declined,
               of_decline_code = in_decline_code intent\<rparr> now t db)"

definition record_intent_in ::
    "core \<Rightarrow> string \<Rightarrow> draws \<Rightarrow> db \<Rightarrow> db \<Rightarrow> instant \<Rightarrow> ident \<Rightarrow> payment_intent \<Rightarrow> string option \<Rightarrow> db
       \<Rightarrow> (resumption \<times> db) result" where
  "record_intent_in c origin d seen again now order_id intent tp db =
     bindE (load_order c order_id db) (\<lambda>t.
     bindE (apply_intent c d seen again now intent tp t db) (\<lambda>(pending, t1, db1).
     bindE (save_resumed c tp t1 db1) (\<lambda>(t2, db2).
     bindE (answer_of c origin again now (current (root t2)) db2) (\<lambda>(answer, db3).
     bindE (run_counter_move pending db3) (\<lambda>db4.
     Inr (answer, db4))))))"

definition release_hold_of ::
    "core \<Rightarrow> instant \<Rightarrow> ident \<Rightarrow> db \<Rightarrow> (unit \<times> db) result" where
  "release_hold_of c now order_id db =
     bindE (load_order c order_id db) (\<lambda>t.
     let s = current (root t) in
     if \<not> awaits_intent s then Inr ((), db)
     else case active_hold (so_hold_id s) db of
         None \<Rightarrow> Inr ((), db)
       | Some h \<Rightarrow>
           bindE (release_hold_in now h db) (\<lambda>(released, db1).
           bindE (return_held_seats (sh_date_id released) (sh_quantity released)
                    (sh_pool_seats released) now db1) (\<lambda>db2.
           Inr ((), db2))))"

end
