(* ===== verification/Retry.thy ===== *)
theory Retry
  imports Core_Api
begin

text \<open>
  The retry schedules: the consumers' (\<open>libs/messaging/src/failure.ts\<close>) and the provider calls'
  (\<open>apps/ticketing/src/payments/owed-calls.ts\<close>, \<open>provider-call-queues.ts\<close>). Delays are whole
  milliseconds; a value of \<open>Math.random()\<close> is the numerator of a fraction over \<open>2 ^ 53\<close>, and the
  jitter's ratio of 0.2 is kept exact.
\<close>

section \<open>Schedules\<close>

definition RETRY_DELAYS_MS :: "int list" where
  "RETRY_DELAYS_MS = [5000, 30000, 300000]"

text \<open>\<open>JITTER_RATIO\<close> is one over this.\<close>

definition jitter_denominator :: int where
  "jitter_denominator = 5"

definition random_denominator :: int where
  "random_denominator = 2 ^ 53"

definition random_value :: "int \<Rightarrow> bool" where
  "random_value u \<longleftrightarrow> 0 \<le> u \<and> u < random_denominator"

text \<open>
  The loop pushes until the elapsed time reaches the total; from a delay that never grows it would
  push forever, which is \<open>None\<close>.
\<close>

partial_function (option) doubling_from :: "int \<Rightarrow> int \<Rightarrow> int \<Rightarrow> int \<Rightarrow> int list option" where
  "doubling_from cap total_ms delay elapsed =
     (if elapsed < total_ms
      then Option.bind (doubling_from cap total_ms (min (delay * 2) cap) (elapsed + delay))
             (\<lambda>delays. Some (delay # delays))
      else Some [])"

declare doubling_from.simps [code]

definition doubling_delays :: "int \<Rightarrow> int \<Rightarrow> int \<Rightarrow> int list option" where
  "doubling_delays first_ms cap_ms total_ms = doubling_from cap_ms total_ms first_ms 0"

text \<open>\<open>delaysMs[i]\<close>: undefined out of range, a negative index included.\<close>

definition js_index :: "'a list \<Rightarrow> int \<Rightarrow> 'a option" where
  "js_index xs i = (if 0 \<le> i \<and> i < int (length xs) then Some (xs ! nat i) else None)"

definition jittered :: "int \<Rightarrow> int \<Rightarrow> int" where
  "jittered random delay = delay + (delay * random) div (jitter_denominator * random_denominator)"

definition retry_delay_after :: "int \<Rightarrow> int \<Rightarrow> int list \<Rightarrow> int option" where
  "retry_delay_after random attempts delays =
     (case js_index delays (attempts - 1) of None \<Rightarrow> None | Some delay \<Rightarrow> Some (jittered random delay))"

definition next_attempt_at :: "int \<Rightarrow> int \<Rightarrow> instant \<Rightarrow> int list \<Rightarrow> instant option" where
  "next_attempt_at random attempts now delays =
     (case retry_delay_after random attempts delays of None \<Rightarrow> None | Some delay \<Rightarrow> Some (now + delay))"

definition attempts_allowed_by :: "int list \<Rightarrow> int" where
  "attempts_allowed_by delays = int (length delays) + 1"

section \<open>A consumer's failure\<close>

datatype dlq_reason = Permanent | Exhausted

datatype failure_route = Retry int instant | Dlq dlq_reason

definition route_failure :: "int \<Rightarrow> bool \<Rightarrow> int \<Rightarrow> instant \<Rightarrow> failure_route" where
  "route_failure random permanent attempts_so_far now =
     (if permanent then Dlq Permanent
      else let attempt = attempts_so_far + 1 in
        case next_attempt_at random attempt now RETRY_DELAYS_MS of
          None \<Rightarrow> Dlq Exhausted
        | Some not_before \<Rightarrow> Retry attempt not_before)"

definition retry_topic :: "string \<Rightarrow> string" where
  "retry_topic service = ''arthome.'' @ service @ ''.retry''"

definition dead_letter_topic :: "string \<Rightarrow> string" where
  "dead_letter_topic service = ''arthome.'' @ service @ ''.dlq''"

section \<open>The provider's calls\<close>

definition HOUR_MS :: int where
  "HOUR_MS = 3600000"

definition PROVIDER_KEY_RETENTION_MS :: int where
  "PROVIDER_KEY_RETENTION_MS = 24 * HOUR_MS"

definition REFUND_RETRIES_WITHIN_MS :: int where
  "REFUND_RETRIES_WITHIN_MS = PROVIDER_KEY_RETENTION_MS - HOUR_MS"

definition REFUND_FIRST_RETRY_DELAY_MS :: int where
  "REFUND_FIRST_RETRY_DELAY_MS = 5000"

definition REFUND_RETRY_DELAY_CAP_MS :: int where
  "REFUND_RETRY_DELAY_CAP_MS = HOUR_MS"

text \<open>\<open>REFUND_RETRIES_WITHIN_MS / (1 + JITTER_RATIO)\<close> is a whole number.\<close>

definition refund_schedule_total :: int where
  "refund_schedule_total =
     REFUND_RETRIES_WITHIN_MS * jitter_denominator div (jitter_denominator + 1) - REFUND_RETRY_DELAY_CAP_MS"

definition REFUND_RETRY_DELAYS_MS :: "int list" where
  "REFUND_RETRY_DELAYS_MS =
     (case doubling_delays REFUND_FIRST_RETRY_DELAY_MS REFUND_RETRY_DELAY_CAP_MS refund_schedule_total of
        None \<Rightarrow> [] | Some delays \<Rightarrow> delays)"

definition INTENT_CANCEL_RETRY_DELAYS_MS :: "int list" where
  "INTENT_CANCEL_RETRY_DELAYS_MS = RETRY_DELAYS_MS"

text \<open>The whole schedule with its jitter, rounded up, and an hour more.\<close>

definition stale_after_ms :: "int list \<Rightarrow> int" where
  "stale_after_ms delays =
     (let schedule = foldl (+) 0 delays
      in - ((- (schedule * (jitter_denominator + 1))) div jitter_denominator) + HOUR_MS)"

definition job_id_of :: "string \<Rightarrow> string" where
  "job_id_of key = map (\<lambda>ch. if ch = CHR '':'' then CHR ''-'' else ch) key"

definition is_last_attempt :: "int \<Rightarrow> int option \<Rightarrow> bool" where
  "is_last_attempt attempts_made attempts \<longleftrightarrow>
     (case attempts of None \<Rightarrow> 1 | Some n \<Rightarrow> n) \<le> attempts_made + 1"

section \<open>The loop ends\<close>

lemma doubling_from_ends:
  assumes "0 < delay" and "0 < cap"
  shows "\<exists>delays. doubling_from cap total_ms delay elapsed = Some delays \<and>
    total_ms \<le> elapsed + sum_list delays \<and>
    (delays = [] \<longleftrightarrow> total_ms \<le> elapsed) \<and>
    (delays \<noteq> [] \<longrightarrow> elapsed + sum_list (butlast delays) < total_ms) \<and>
    list_all (\<lambda>d. min delay cap \<le> d \<and> d \<le> max delay cap) delays"
  using assms
proof (induction "nat (total_ms - elapsed)" arbitrary: delay elapsed rule: less_induct)
  case less
  show ?case
  proof (cases "elapsed < total_ms")
    case False
    then show ?thesis by (subst doubling_from.simps) simp
  next
    case True
    have pos: "0 < min (delay * 2) cap" using less.prems by simp
    have "nat (total_ms - (elapsed + delay)) < nat (total_ms - elapsed)" using True less.prems by simp
    from less.hyps [OF this pos less.prems(2)] obtain rest where
      rest: "doubling_from cap total_ms (min (delay * 2) cap) (elapsed + delay) = Some rest"
        "total_ms \<le> elapsed + delay + sum_list rest"
        "rest = [] \<longleftrightarrow> total_ms \<le> elapsed + delay"
        "rest \<noteq> [] \<longrightarrow> elapsed + delay + sum_list (butlast rest) < total_ms"
        "list_all (\<lambda>d. min (min (delay * 2) cap) cap \<le> d \<and> d \<le> max (min (delay * 2) cap) cap) rest"
      by blast
    have "list_all (\<lambda>d. min delay cap \<le> d \<and> d \<le> max delay cap) rest"
      using rest(5) less.prems by (auto simp: list_all_iff)
    with True rest(1-4) show ?thesis
      by (subst doubling_from.simps) (auto simp: add.assoc)
  qed
qed

text \<open>
  The doubling schedule is always built: from a positive delay and a positive cap the
  loop ends, its delays lie between the first and the cap, they add up to at least the total asked
  and all but the last to less.
\<close>

lemma doubling_delays_built:
  assumes "0 < first_ms" and "0 < cap_ms" and "0 < total_ms"
  shows "\<exists>delays. doubling_delays first_ms cap_ms total_ms = Some delays \<and>
    total_ms \<le> sum_list delays \<and> sum_list (butlast delays) < total_ms \<and>
    list_all (\<lambda>d. min first_ms cap_ms \<le> d \<and> d \<le> max first_ms cap_ms) delays"
  using doubling_from_ends [OF assms(1,2), of total_ms 0] assms(3)
  by (auto simp: doubling_delays_def)

lemma refund_schedule_total_eq: "refund_schedule_total = 65400000"
  by (simp add: refund_schedule_total_def REFUND_RETRIES_WITHIN_MS_def PROVIDER_KEY_RETENTION_MS_def
      HOUR_MS_def jitter_denominator_def REFUND_RETRY_DELAY_CAP_MS_def)

theorem doubling_delays_built_witness:
  "\<exists>delays. doubling_delays REFUND_FIRST_RETRY_DELAY_MS REFUND_RETRY_DELAY_CAP_MS refund_schedule_total =
     Some delays \<and> refund_schedule_total \<le> sum_list delays"
  using doubling_delays_built [of 5000 3600000 65400000]
  by (auto simp: REFUND_FIRST_RETRY_DELAY_MS_def REFUND_RETRY_DELAY_CAP_MS_def HOUR_MS_def
      refund_schedule_total_eq)

section \<open>Attempts inside the bound\<close>

lemma jittered_within:
  assumes "random_value u" and "0 \<le> delay"
  shows "delay \<le> jittered u delay" and "jitter_denominator * jittered u delay \<le> (jitter_denominator + 1) * delay"
proof -
  let ?n = "random_denominator"
  have n: "0 < ?n" by (simp add: random_denominator_def)
  have u: "0 \<le> u" "u \<le> ?n" using assms(1) by (auto simp: random_value_def)
  have "delay * u \<le> delay * ?n" using assms(2) u by (simp add: mult_left_mono)
  then have "(delay * u) div (5 * ?n) \<le> (delay * ?n) div (5 * ?n)"
    by (rule zdiv_mono1) (simp add: n)
  also have "\<dots> = delay div 5" using n by simp
  finally have "(delay * u) div (5 * ?n) \<le> delay div 5" .
  moreover have "5 * (delay div 5) \<le> delay" by simp
  ultimately show "jitter_denominator * jittered u delay \<le> (jitter_denominator + 1) * delay"
    by (simp add: jittered_def jitter_denominator_def algebra_simps)
  have "0 \<le> (delay * u) div (5 * ?n)" using assms(2) u(1) n by (simp add: pos_imp_zdiv_nonneg_iff)
  then show "delay \<le> jittered u delay" by (simp add: jittered_def jitter_denominator_def)
qed

lemma jittered_sum_within:
  assumes "list_all random_value us" and "list_all (\<lambda>d. 0 \<le> d) delays"
  shows "jitter_denominator * sum_list (map2 jittered us delays) \<le> (jitter_denominator + 1) * sum_list delays"
  using assms
proof (induction us delays rule: list_induct2')
  case (4 u us d delays)
  have "jitter_denominator * jittered u d \<le> (jitter_denominator + 1) * d"
    using jittered_within(2) [of u d] 4(2,3) by simp
  with 4 show ?case by (simp add: distrib_left add_mono)
qed (auto simp: jitter_denominator_def sum_list_nonneg list_all_iff)

lemma foldl_plus: "foldl (+) (n :: int) xs = n + sum_list xs"
  by (induction xs arbitrary: n) auto

lemma stale_after_covers:
  assumes "list_all random_value us" and "list_all (\<lambda>d. 0 \<le> d) delays"
  shows "sum_list (map2 jittered us delays) + HOUR_MS \<le> stale_after_ms delays"
proof -
  have "5 * sum_list (map2 jittered us delays) \<le> 6 * sum_list delays"
    using jittered_sum_within [OF assms] by (simp add: jitter_denominator_def)
  then show ?thesis
    by (simp add: stale_after_ms_def foldl_plus jitter_denominator_def)
qed

lemma refund_delays_eq:
  "REFUND_RETRY_DELAYS_MS = [5000, 10000, 20000, 40000, 80000, 160000, 320000, 640000, 1280000, 2560000]
     @ replicate 17 3600000"
  unfolding REFUND_RETRY_DELAYS_MS_def doubling_delays_def refund_schedule_total_eq
    REFUND_FIRST_RETRY_DELAY_MS_def REFUND_RETRY_DELAY_CAP_MS_def HOUR_MS_def
  by (simp add: doubling_from.simps eval_nat_numeral)

text \<open>
  Property C40. Every automatic attempt at a refund lands at least an hour inside the time the
  provider keeps its key, whatever the jitter drew: the jittered delays of the whole schedule add up
  to no more than \<open>REFUND_RETRIES_WITHIN_MS\<close>. A refund swept as lost was enqueued longer ago than its
  last attempt could be, and still inside the retention.
\<close>

theorem refund_attempts_within_retention:
  assumes "list_all random_value us"
  shows "sum_list (map2 jittered us REFUND_RETRY_DELAYS_MS) \<le> REFUND_RETRIES_WITHIN_MS \<and>
    sum_list (map2 jittered us REFUND_RETRY_DELAYS_MS) + HOUR_MS \<le> stale_after_ms REFUND_RETRY_DELAYS_MS \<and>
    stale_after_ms REFUND_RETRY_DELAYS_MS < PROVIDER_KEY_RETENTION_MS"
proof (intro conjI)
  have nonneg: "list_all (\<lambda>d. 0 \<le> d) REFUND_RETRY_DELAYS_MS" by (simp add: refund_delays_eq list_all_iff)
  have total: "sum_list REFUND_RETRY_DELAYS_MS = 66315000" by (simp add: refund_delays_eq sum_list_replicate)
  show "sum_list (map2 jittered us REFUND_RETRY_DELAYS_MS) \<le> REFUND_RETRIES_WITHIN_MS"
    using jittered_sum_within [OF assms nonneg] total
    by (simp add: jitter_denominator_def REFUND_RETRIES_WITHIN_MS_def PROVIDER_KEY_RETENTION_MS_def HOUR_MS_def)
  show "sum_list (map2 jittered us REFUND_RETRY_DELAYS_MS) + HOUR_MS \<le> stale_after_ms REFUND_RETRY_DELAYS_MS"
    by (rule stale_after_covers [OF assms nonneg])
  show "stale_after_ms REFUND_RETRY_DELAYS_MS < PROVIDER_KEY_RETENTION_MS"
    by (simp add: stale_after_ms_def foldl_plus total jitter_denominator_def PROVIDER_KEY_RETENTION_MS_def
        HOUR_MS_def)
qed

theorem refund_attempts_within_retention_witness:
  "sum_list (map2 jittered (replicate 27 (2 ^ 53 - 1)) REFUND_RETRY_DELAYS_MS) \<le> REFUND_RETRIES_WITHIN_MS"
  using refund_attempts_within_retention [of "replicate 27 (2 ^ 53 - 1)"]
  by (simp add: list_all_iff random_value_def random_denominator_def)

section \<open>Routing\<close>

text \<open>
  A message that fails for good is discarded at once; any other is retried after each of
  the three delays, no earlier than the delay and no later than a fifth past it, and its fourth
  failure discards it.
\<close>

lemma failure_routed:
  assumes "random_value u" and "0 \<le> n"
  shows "route_failure u True n now = Dlq Permanent \<and>
    (route_failure u False n now = Dlq Exhausted \<longleftrightarrow> attempts_allowed_by RETRY_DELAYS_MS \<le> n + 1) \<and>
    (n + 1 < attempts_allowed_by RETRY_DELAYS_MS \<longrightarrow>
      (\<exists>at. route_failure u False n now = Retry (n + 1) at \<and>
        now + RETRY_DELAYS_MS ! nat n \<le> at \<and> 5 * (at - now) \<le> 6 * RETRY_DELAYS_MS ! nat n))"
proof -
  let ?d = "RETRY_DELAYS_MS ! nat n"
  have routed: "route_failure u False n now = Retry (n + 1) (now + jittered u ?d)" if "n < 3"
    using that assms(2)
    by (simp add: route_failure_def next_attempt_at_def retry_delay_after_def js_index_def RETRY_DELAYS_MS_def)
  have late: "route_failure u False n now = Dlq Exhausted" if "3 \<le> n"
    using that
    by (simp add: route_failure_def next_attempt_at_def retry_delay_after_def js_index_def RETRY_DELAYS_MS_def)
  have "0 \<le> ?d" if "n < 3"
  proof -
    have "nat n < length RETRY_DELAYS_MS" using that assms(2) by (simp add: RETRY_DELAYS_MS_def nat_less_iff)
    then have "?d \<in> set RETRY_DELAYS_MS" by (rule nth_mem)
    then show ?thesis by (auto simp: RETRY_DELAYS_MS_def)
  qed
  then have "?d \<le> jittered u ?d" "5 * jittered u ?d \<le> 6 * ?d" if "n < 3"
    using jittered_within [OF assms(1), of ?d] that by (auto simp: jitter_denominator_def)
  with routed late show ?thesis
    by (cases "n < 3") (auto simp: attempts_allowed_by_def RETRY_DELAYS_MS_def route_failure_def)
qed

theorem failure_routed_witness:
  "route_failure 0 True 0 7 = Dlq Permanent \<and> route_failure 0 False 3 7 = Dlq Exhausted \<and>
   (\<exists>at. route_failure 0 False 1 7 = Retry 2 at \<and> 30007 \<le> at)"
  using failure_routed [of 0 0 7] failure_routed [of 0 3 7] failure_routed [of 0 1 7]
  by (simp add: random_value_def random_denominator_def attempts_allowed_by_def RETRY_DELAYS_MS_def)
    blast

text \<open>A job's id holds no colon, and two keys cut at the same places have one id only when they are one.\<close>

lemma job_id_no_colon: "CHR '':'' \<notin> set (job_id_of key)"
  by (auto simp: job_id_of_def)

lemma job_id_inj:
  assumes "job_id_of (p @ '':'' @ x) = job_id_of (p @ '':'' @ y)"
    and "CHR '':'' \<notin> set x" and "CHR '':'' \<notin> set y"
  shows "x = y"
proof -
  have "map (\<lambda>ch. if ch = CHR '':'' then CHR ''-'' else ch) z = z" if "CHR '':'' \<notin> set z" for z
    using that by (intro map_idI) auto
  with assms show ?thesis by (simp add: job_id_of_def)
qed

end
