(* ===== verification/Payments.thy ===== *)
theory Payments
  imports Purchase Retry
begin

text \<open>
  The payments (\<open>apps/ticketing/src/payments\<close>): a provider's webhook recorded once
  (\<open>record-payment-event.handler.ts\<close>), the worker that applies the recorded ones to their orders
  (\<open>apply-payment-events.handler.ts\<close>), and the calls owed to the provider: the ledger of refunds
  (\<open>refund-ledger.ts\<close>), the marks of an intent's cancellation (\<open>owed-calls.ts\<close>), the processors that
  make them and the relay that enqueues them.

  The provider's port and its webhooks' (\<open>@arthome/core\<close>) are arguments: whether a signature covers
  the bytes, the event the bytes parse to, and what a call answers. A queue of BullMQ is read as the
  state of a job and written as the jobs to add and to promote, returned by the relay.
\<close>

section \<open>Recording a webhook\<close>

record payment_event =
  pe_event_id :: string
  pe_kind :: payment_event_kind
  pe_intent_ref :: "ident option"
  pe_order_id :: "ident option"
  pe_decline_code :: "string option"
  pe_occurred_at :: instant
  pe_refund_ref :: "ident option"
  pe_amount_refunded :: "money option"

record webhook_port =
  verify_signature :: "string \<Rightarrow> string option \<Rightarrow> instant \<Rightarrow> bool"
  parse_event :: "string \<Rightarrow> payment_event option"

record payment_event_receipt =
  rcp_event_id :: string
  rcp_duplicate :: bool

definition inbox_row_of :: "payment_event \<Rightarrow> string option \<Rightarrow> instant \<Rightarrow> inbox_row" where
  "inbox_row_of e tp received_at = \<lparr>ir_event_id = pe_event_id e, ir_kind = pe_kind e,
     ir_intent_ref = pe_intent_ref e, ir_order_id = pe_order_id e,
     ir_decline_code = pe_decline_code e, ir_occurred_at = pe_occurred_at e, ir_traceparent = tp,
     ir_refund_ref = pe_refund_ref e,
     ir_amount_refunded_minor = map_option amount_minor (pe_amount_refunded e),
     ir_amount_refunded_currency_code = map_option currency_code (pe_amount_refunded e),
     ir_received_at = received_at, ir_applied_at = None, ir_attempts = 0, ir_retry_at = None,
     ir_dead_at = None\<rparr>"

definition record_payment_event ::
    "webhook_port \<Rightarrow> string \<Rightarrow> string option \<Rightarrow> string option \<Rightarrow> instant \<Rightarrow> db
       \<Rightarrow> (payment_event_receipt \<times> db) result" where
  "record_payment_event w raw_body signature tp now db =
     (if \<not> verify_signature w raw_body signature now then Inl (Refusal UNAUTHENTICATED)
      else case parse_event w raw_body of
          None \<Rightarrow> Inl (Refusal SCHEMA_INVALID)
        | Some e \<Rightarrow>
            if pe_event_id e \<in> ir_event_id ` set (db_inbox db)
            then Inr (\<lparr>rcp_event_id = pe_event_id e, rcp_duplicate = True\<rparr>, db)
            else Inr (\<lparr>rcp_event_id = pe_event_id e, rcp_duplicate = False\<rparr>,
                      db\<lparr>db_inbox := db_inbox db @ [inbox_row_of e tp now]\<rparr>))"

section \<open>The ledger of refunds\<close>

record refund_call =
  rc_order_id :: ident
  rc_intent_ref :: "ident option"
  rc_amount :: money
  rc_idempotency_key :: string
  rc_settled :: bool
  rc_disputed :: bool
  rc_traceparent :: "string option"

definition refund_call_of :: "core \<Rightarrow> ident \<Rightarrow> db \<Rightarrow> refund_call option" where
  "refund_call_of c refund_id db =
     (case tbl_find rr_id refund_id (db_refunds db) of
        None \<Rightarrow> None
      | Some r \<Rightarrow>
          (case tbl_find or_id (rr_order_id r) (db_orders db) of
             None \<Rightarrow> None
           | Some placed \<Rightarrow> Some \<lparr>rc_order_id = rr_order_id r,
               rc_intent_ref = or_payment_intent_ref placed,
               rc_amount = money_of (sales_rules c) (rr_amount_minor r) (rr_currency_code r),
               rc_idempotency_key = rr_idempotency_key r,
               rc_settled = (rr_refunded_at r \<noteq> None \<or> rr_dead_at r \<noteq> None),
               rc_disputed = (or_state placed = Order_Disputed),
               rc_traceparent = rr_traceparent r\<rparr>))"

definition refunds_update ::
    "(order_refund_row \<Rightarrow> bool) \<Rightarrow> (order_refund_row \<Rightarrow> order_refund_row) \<Rightarrow> db \<Rightarrow> db" where
  "refunds_update p f db = db\<lparr>db_refunds := tbl_update p f (db_refunds db)\<rparr>"

definition ask_refund_calls_again :: "ident list \<Rightarrow> instant \<Rightarrow> db \<Rightarrow> db" where
  "ask_refund_calls_again refund_ids now db =
     (if refund_ids = [] then db
      else refunds_update
        (\<lambda>r. rr_id r \<in> set refund_ids \<and> rr_refunded_at r = None \<and> rr_dead_at r = None \<and>
             rr_rerun_asked_at r = None)
        (\<lambda>r. r\<lparr>rr_rerun_asked_at := Some now\<rparr>) db)"

definition give_up_refund :: "ident \<Rightarrow> instant \<Rightarrow> db \<Rightarrow> db" where
  "give_up_refund refund_id now db =
     refunds_update (\<lambda>r. rr_id r = refund_id \<and> rr_refunded_at r = None)
       (\<lambda>r. r\<lparr>rr_dead_at := Some now\<rparr>) db"

section \<open>Applying a webhook\<close>

definition rerun_refunds_reported ::
    "core \<Rightarrow> inbox_row \<Rightarrow> instant \<Rightarrow> tracked_order \<Rightarrow> db \<Rightarrow> db result" where
  "rerun_refunds_reported c row now t db =
     (case (ir_amount_refunded_minor row, ir_amount_refunded_currency_code row) of
        (Some minor, Some currency) \<Rightarrow>
          (case refunds_the_provider_may_have_made (order_rules c)
                  (money_of (sales_rules c) minor currency) (current (root t)) of
             None \<Rightarrow> Inr db
           | Some refund_ids \<Rightarrow> Inr (ask_refund_calls_again refund_ids now db))
      | _ \<Rightarrow> Inl (Unappliable ''a refund made carries no amount refunded''))"

definition apply_dispute ::
    "core \<Rightarrow> draws \<Rightarrow> db \<Rightarrow> db \<Rightarrow> inbox_row \<Rightarrow> instant \<Rightarrow> tracked_order \<Rightarrow> db
       \<Rightarrow> (counter_move option \<times> tracked_order \<times> db) result" where
  "apply_dispute c d seen again row now t db =
     (case ir_intent_ref row of
        None \<Rightarrow> Inl (Unappliable ''a dispute names no intent'')
      | Some intent_ref \<Rightarrow>
          bindE (settle_confirmed_payment c d seen again intent_ref now (ir_traceparent row) t db)
            (\<lambda>(pending, t1, db1).
             Inr (pending, with_root (fst (order_dispute (order_rules c) (root t1))) t1, db1)))"

definition apply_to ::
    "core \<Rightarrow> draws \<Rightarrow> db \<Rightarrow> db \<Rightarrow> inbox_row \<Rightarrow> instant \<Rightarrow> tracked_order \<Rightarrow> db
       \<Rightarrow> (counter_move option \<times> tracked_order \<times> db) result" where
  "apply_to c d seen again row now t db =
     (let intent = \<lparr>pi_ref = text_or_empty (ir_intent_ref row), pi_client_secret = None,
                    pi_next_action = None\<rparr>;
          waits = (\<lambda>state. case record_waiting_intent c intent state now t db of
                     (t1, db1) \<Rightarrow> Inr (None, t1, db1))
      in case ir_kind row of
           Event_Intent_Succeeded \<Rightarrow>
             (case ir_intent_ref row of
                None \<Rightarrow> Inl (Unappliable ''a confirmation names no intent'')
              | Some intent_ref \<Rightarrow>
                  settle_confirmed_payment c d seen again intent_ref now (ir_traceparent row) t db)
         | Event_Intent_Requires_Action \<Rightarrow> waits Order_Awaiting_Action
         | Event_Intent_Processing \<Rightarrow> waits Order_Processing
         | Event_Intent_Failed \<Rightarrow>
             fail_unpaid_order \<lparr>of_code = Some Code_Payment_Declined,
               of_decline_code = ir_decline_code row\<rparr> now t db
         | Event_Intent_Cancelled \<Rightarrow>
             fail_unpaid_order \<lparr>of_code = None, of_decline_code = None\<rparr> now t db
         | Event_Refund_Succeeded \<Rightarrow>
             bindE (rerun_refunds_reported c row now t db) (\<lambda>db1. Inr (None, t, db1))
         | Event_Dispute_Opened \<Rightarrow> apply_dispute c d seen again row now t db
         | Event_Unhandled \<Rightarrow> Inr (None, t, db))"

definition inbox_update :: "(inbox_row \<Rightarrow> bool) \<Rightarrow> (inbox_row \<Rightarrow> inbox_row) \<Rightarrow> db \<Rightarrow> db" where
  "inbox_update p f db = db\<lparr>db_inbox := tbl_update p f (db_inbox db)\<rparr>"

definition mark_applied :: "string \<Rightarrow> instant \<Rightarrow> db \<Rightarrow> db" where
  "mark_applied event_id now =
     inbox_update (\<lambda>r. ir_event_id r = event_id) (\<lambda>r. r\<lparr>ir_applied_at := Some now\<rparr>)"

definition inbox_due :: "inbox_row \<Rightarrow> bool" where
  "inbox_due r \<longleftrightarrow> ir_applied_at r = None \<and> ir_dead_at r = None"

text \<open>\<open>locked\<close>: another pass holds the row, which \<open>SKIP LOCKED\<close> leaves out.\<close>

definition apply_in ::
    "core \<Rightarrow> draws \<Rightarrow> db \<Rightarrow> db \<Rightarrow> bool \<Rightarrow> instant \<Rightarrow> string \<Rightarrow> db \<Rightarrow> (bool \<times> db) result" where
  "apply_in c d seen again locked now event_id db =
     (case find (\<lambda>r. ir_event_id r = event_id \<and> inbox_due r \<and> \<not> locked) (db_inbox db) of
        None \<Rightarrow> Inr (False, db)
      | Some row \<Rightarrow>
          (case (ir_kind row = Event_Unhandled, ir_order_id row) of
             (False, Some order_id) \<Rightarrow>
               (case find_order c order_id db of
                  None \<Rightarrow> Inl (Unappliable ''no order for payment event'')
                | Some t \<Rightarrow>
                    bindE (apply_to c d seen again row now t db) (\<lambda>(pending, t1, db1).
                    bindE (save_order t1 db1) (\<lambda>(t2, db2).
                    bindE (run_counter_move pending
                             (mark_applied event_id now
                               (write_outbox (write_seat_order_integration_events c
                                  (ir_traceparent row) (uncommitted (root t2))) db2))) (\<lambda>db3.
                    Inr (True, db3)))))
           | _ \<Rightarrow> Inr (True, mark_applied event_id now db)))"

fun unappliable :: "failure \<Rightarrow> bool" where
  "unappliable (Unappliable _) = True"
| "unappliable _ = False"

text \<open>
  An event not applied: one more attempt, due again after its delay, or given up on. \<open>random\<close> is
  what the jitter drew.
\<close>

definition event_failed :: "int \<Rightarrow> instant \<Rightarrow> string \<Rightarrow> failure \<Rightarrow> db \<Rightarrow> bool \<times> db" where
  "event_failed random now event_id e db =
     (let p = (\<lambda>r. ir_event_id r = event_id);
          db1 = inbox_update p (\<lambda>r. r\<lparr>ir_attempts := ir_attempts r + 1\<rparr>) db;
          attempts = (case find p (db_inbox db1) of None \<Rightarrow> 1 | Some r \<Rightarrow> int (ir_attempts r));
          retry_at = (if unappliable e then None else next_attempt_at random attempts now RETRY_DELAYS_MS)
      in case retry_at of
           None \<Rightarrow> (True, inbox_update p (\<lambda>r. r\<lparr>ir_dead_at := Some now, ir_retry_at := None\<rparr>) db1)
         | Some at \<Rightarrow> (False, inbox_update p (\<lambda>r. r\<lparr>ir_retry_at := Some at\<rparr>) db1))"

definition due_events :: "instant \<Rightarrow> nat \<Rightarrow> db \<Rightarrow> string list" where
  "due_events now batch db =
     map ir_event_id (take batch (sort_by (\<lambda>l r. ir_received_at l \<le> ir_received_at r)
       (filter (\<lambda>r. inbox_due r \<and> (case ir_retry_at r of None \<Rightarrow> True | Some at \<Rightarrow> at \<le> now))
          (db_inbox db))))"

text \<open>One event of a pass: its transaction, or its failure recorded once it rolled back.\<close>

definition apply_payment_event ::
    "core \<Rightarrow> draws \<Rightarrow> int \<Rightarrow> db \<Rightarrow> db \<Rightarrow> bool \<Rightarrow> instant \<Rightarrow> string \<Rightarrow> db \<Rightarrow> bool \<times> db" where
  "apply_payment_event c d random seen again locked now event_id db =
     (case apply_in c d seen again locked now event_id db of
        Inr (applied, db1) \<Rightarrow> (applied, db1)
      | Inl e \<Rightarrow> event_failed random now event_id e db)"

text \<open>A pass with nothing else running beside it: each event's unlocked reads see the tables it finds.\<close>

definition apply_payment_events ::
    "core \<Rightarrow> (string \<Rightarrow> draws \<times> int) \<Rightarrow> instant \<Rightarrow> nat \<Rightarrow> db \<Rightarrow> nat \<times> db" where
  "apply_payment_events c drawn now batch db =
     fold (\<lambda>event_id (settled, db).
         case drawn event_id of (d, random) \<Rightarrow>
         case apply_payment_event c d random db db False now event_id db of (done, db1) \<Rightarrow>
           (if done then settled + 1 else settled, db1))
       (due_events now batch db) (0, db)"

section \<open>A refund asked of the provider\<close>

datatype refund_plan = Nothing_To_Ask | Disputed_Refund | No_Intent_To_Refund | Ask_Refund ident money string

definition refund_plan_of :: "refund_call option \<Rightarrow> refund_plan" where
  "refund_plan_of call =
     (case call of
        None \<Rightarrow> Nothing_To_Ask
      | Some x \<Rightarrow>
          if rc_settled x then Nothing_To_Ask
          else if rc_disputed x then Disputed_Refund
          else case rc_intent_ref x of
              None \<Rightarrow> No_Intent_To_Refund
            | Some intent_ref \<Rightarrow> Ask_Refund intent_ref (rc_amount x) (rc_idempotency_key x))"

definition refund_made_in ::
    "core \<Rightarrow> ident \<Rightarrow> ident \<Rightarrow> ident \<Rightarrow> string option \<Rightarrow> instant \<Rightarrow> db \<Rightarrow> (unit \<times> db) result" where
  "refund_made_in c order_id refund_id refund_ref tp now db =
     (case find_order c order_id db of
        None \<Rightarrow> Inr ((), db)
      | Some t \<Rightarrow>
          bindE (refund_made (order_rules c) refund_id refund_ref now (root t)) (\<lambda>a.
          bindE (save_resumed c tp (with_root a t) db) (\<lambda>(_, db1). Inr ((), db1))))"

text \<open>
  \<open>provider\<close> is the port's \<open>refund\<close>: an intent, an amount and a key to the provider's reference or an
  error. The refund is read in the tables \<open>seen\<close> before the call; what it leaves is of the tables
  \<open>db\<close> after it. \<open>last_attempt\<close>: this is the job's last attempt.
\<close>

definition process_refund ::
    "core \<Rightarrow> (ident \<Rightarrow> money \<Rightarrow> string \<Rightarrow> ident result) \<Rightarrow> bool \<Rightarrow> instant \<Rightarrow> ident \<Rightarrow> db \<Rightarrow> db
       \<Rightarrow> unit result \<times> db" where
  "process_refund c provider last_attempt now refund_id seen db =
     (let call = refund_call_of c refund_id seen;
          fails = (\<lambda>e. (Inl e, if last_attempt then give_up_refund refund_id now db else db))
      in case (refund_plan_of call, call) of
           (Disputed_Refund, _) \<Rightarrow> (Inr (), give_up_refund refund_id now db)
         | (No_Intent_To_Refund, _) \<Rightarrow> fails (Plain_Error ''order holds no intent to refund'')
         | (Ask_Refund intent_ref amount key, Some x) \<Rightarrow>
             (case provider intent_ref amount key of
                Inl e \<Rightarrow> fails e
              | Inr refund_ref \<Rightarrow>
                  (case refund_made_in c (rc_order_id x) refund_id refund_ref (rc_traceparent x) now db of
                     Inl e \<Rightarrow> fails e
                   | Inr (_, db1) \<Rightarrow> (Inr (), db1)))
         | _ \<Rightarrow> (Inr (), db))"

section \<open>An intent's cancellation\<close>

definition intent_cancellation_of :: "ident \<Rightarrow> db \<Rightarrow> (ident option \<times> bool) option" where
  "intent_cancellation_of order_id db =
     map_option (\<lambda>r. (or_payment_intent_ref r,
         or_intent_cancel_owed_at r \<noteq> None \<and> or_intent_cancel_dead_at r = None))
       (tbl_find or_id order_id (db_orders db))"

definition give_up_intent_cancellation :: "ident \<Rightarrow> instant \<Rightarrow> db \<Rightarrow> db" where
  "give_up_intent_cancellation order_id now db =
     db\<lparr>db_orders := tbl_update (\<lambda>r. or_id r = order_id \<and> or_intent_cancel_owed_at r \<noteq> None)
       (\<lambda>r. r\<lparr>or_intent_cancel_dead_at := Some now\<rparr>) (db_orders db)\<rparr>"

definition intent_cancelled_in :: "core \<Rightarrow> ident \<Rightarrow> db \<Rightarrow> (unit \<times> db) result" where
  "intent_cancelled_in c order_id db =
     (case find_order c order_id db of
        None \<Rightarrow> Inr ((), db)
      | Some t \<Rightarrow>
          bindE (save_order (with_root (intent_cancelled (root t)) t) db) (\<lambda>(_, db1). Inr ((), db1)))"

definition process_intent_cancellation ::
    "core \<Rightarrow> (ident \<Rightarrow> string \<Rightarrow> unit result) \<Rightarrow> bool \<Rightarrow> instant \<Rightarrow> ident \<Rightarrow> db \<Rightarrow> db
       \<Rightarrow> unit result \<times> db" where
  "process_intent_cancellation c provider last_attempt now order_id seen db =
     (let fails = (\<lambda>e. (Inl e, if last_attempt then give_up_intent_cancellation order_id now db else db))
      in case intent_cancellation_of order_id seen of
           Some (Some intent_ref, True) \<Rightarrow>
             (case provider intent_ref (intent_cancel_idempotency_key (refund_rules c) order_id) of
                Inl e \<Rightarrow> fails e
              | Inr _ \<Rightarrow>
                  (case intent_cancelled_in c order_id db of
                     Inl e \<Rightarrow> fails e
                   | Inr (_, db1) \<Rightarrow> (Inr (), db1)))
         | _ \<Rightarrow> (Inr (), db))"

section \<open>The relay\<close>

definition RELAY_BATCH :: nat where
  "RELAY_BATCH = 500"

definition RERUN_BATCH :: nat where
  "RERUN_BATCH = 50"

definition nulls_first_le :: "instant option \<Rightarrow> instant option \<Rightarrow> bool" where
  "nulls_first_le a b =
     (case (a, b) of (None, _) \<Rightarrow> True | (Some _, None) \<Rightarrow> False | (Some x, Some y) \<Rightarrow> x \<le> y)"

text \<open>A job to add: its id and the row it names.\<close>

type_synonym job = "string \<times> ident"

definition unsettled_refund :: "order_refund_row \<Rightarrow> bool" where
  "unsettled_refund r \<longleftrightarrow> rr_refunded_at r = None \<and> rr_dead_at r = None"

definition lost_refunds :: "(ident \<Rightarrow> bool) \<Rightarrow> instant \<Rightarrow> db \<Rightarrow> ident list" where
  "lost_refunds locked enqueued_before db =
     map rr_id (take RELAY_BATCH (sort_by (\<lambda>l r. nulls_first_le (rr_enqueued_at l) (rr_enqueued_at r))
       (filter (\<lambda>r. unsettled_refund r \<and> \<not> locked (rr_id r) \<and>
          (case rr_enqueued_at r of None \<Rightarrow> False | Some at \<Rightarrow> at < enqueued_before)) (db_refunds db))))"

definition give_up_lost_refunds ::
    "int list \<Rightarrow> (ident \<Rightarrow> bool) \<Rightarrow> instant \<Rightarrow> db \<Rightarrow> nat \<times> db" where
  "give_up_lost_refunds schedule locked now db =
     (let lost = lost_refunds locked (now - stale_after_ms schedule) db
      in (length lost,
          refunds_update (\<lambda>r. rr_id r \<in> set lost) (\<lambda>r. r\<lparr>rr_dead_at := Some now\<rparr>) db))"

definition due_refunds :: "(ident \<Rightarrow> bool) \<Rightarrow> db \<Rightarrow> order_refund_row list" where
  "due_refunds locked db =
     take RELAY_BATCH (sort_by (\<lambda>l r. rr_owed_at l \<le> rr_owed_at r)
       (filter (\<lambda>r. unsettled_refund r \<and> rr_enqueued_at r = None \<and> \<not> locked (rr_id r))
          (db_refunds db)))"

definition relay_refunds :: "(ident \<Rightarrow> bool) \<Rightarrow> instant \<Rightarrow> db \<Rightarrow> nat \<times> job list \<times> db" where
  "relay_refunds locked now db =
     (let due = due_refunds locked db
      in (length due, map (\<lambda>r. (job_id_of (rr_idempotency_key r), rr_id r)) due,
          refunds_update (\<lambda>r. rr_id r \<in> rr_id ` set due) (\<lambda>r. r\<lparr>rr_enqueued_at := Some now\<rparr>) db))"

datatype job_state = Job_Active | Job_Delayed | Job_Other

text \<open>What the queue says of a job when it is asked to run again: whether that answers the request, and whether to promote it.\<close>

definition rerun_job :: "job_state option \<Rightarrow> bool \<times> bool" where
  "rerun_job state =
     (case state of
        None \<Rightarrow> (True, False)
      | Some Job_Active \<Rightarrow> (False, False)
      | Some Job_Delayed \<Rightarrow> (True, True)
      | Some Job_Other \<Rightarrow> (True, False))"

definition rerun_asked_refunds ::
    "(string \<Rightarrow> job_state option) \<Rightarrow> (ident \<Rightarrow> bool) \<Rightarrow> db \<Rightarrow> nat \<times> string list \<times> db" where
  "rerun_asked_refunds job_states locked db =
     (let asked = take RERUN_BATCH (sort_by (\<lambda>l r. nulls_first_le (rr_rerun_asked_at l) (rr_rerun_asked_at r))
            (filter (\<lambda>r. rr_rerun_asked_at r \<noteq> None \<and> \<not> locked (rr_id r)) (db_refunds db)));
          job = (\<lambda>r. job_id_of (rr_idempotency_key r));
          answered = filter (\<lambda>r. \<not> unsettled_refund r \<or> fst (rerun_job (job_states (job r)))) asked;
          promoted = map job (filter (\<lambda>r. unsettled_refund r \<and> snd (rerun_job (job_states (job r)))) asked)
      in (length answered, promoted,
          refunds_update (\<lambda>r. rr_id r \<in> rr_id ` set answered) (\<lambda>r. r\<lparr>rr_rerun_asked_at := None\<rparr>) db))"

definition due_intent_cancellations ::
    "(ident \<Rightarrow> bool) \<Rightarrow> instant \<Rightarrow> db \<Rightarrow> seat_order_row list" where
  "due_intent_cancellations locked enqueued_before db =
     take RELAY_BATCH (sort_by
       (\<lambda>l r. nulls_first_le (or_intent_cancel_enqueued_at l) (or_intent_cancel_enqueued_at r) \<and>
            (or_intent_cancel_enqueued_at l = or_intent_cancel_enqueued_at r \<longrightarrow>
              nulls_first_le (or_intent_cancel_owed_at l) (or_intent_cancel_owed_at r)))
       (filter (\<lambda>r. or_intent_cancel_owed_at r \<noteq> None \<and> or_intent_cancel_dead_at r = None \<and>
          (case or_intent_cancel_enqueued_at r of None \<Rightarrow> True | Some at \<Rightarrow> at < enqueued_before) \<and>
          \<not> locked (or_id r)) (db_orders db)))"

definition relay_intent_cancellations ::
    "core \<Rightarrow> int list \<Rightarrow> (ident \<Rightarrow> bool) \<Rightarrow> instant \<Rightarrow> db \<Rightarrow> nat \<times> job list \<times> db" where
  "relay_intent_cancellations c schedule locked now db =
     (let due = due_intent_cancellations locked (now - stale_after_ms schedule) db
      in (length due,
          map (\<lambda>r. (job_id_of (intent_cancel_idempotency_key (refund_rules c) (or_id r)), or_id r)) due,
          db\<lparr>db_orders := tbl_update (\<lambda>r. or_id r \<in> or_id ` set due)
               (\<lambda>r. r\<lparr>or_intent_cancel_enqueued_at := Some now\<rparr>) (db_orders db)\<rparr>))"

text \<open>
  A pass, Redis answering: what it gave up, the jobs it added and promoted, and the largest of the
  batches it settled.
\<close>

definition relay_due ::
    "core \<Rightarrow> int list \<Rightarrow> int list \<Rightarrow> (string \<Rightarrow> job_state option) \<Rightarrow> instant \<Rightarrow> db
       \<Rightarrow> nat \<times> job list \<times> string list \<times> job list \<times> db" where
  "relay_due c refund_schedule cancel_schedule job_states now db =
     (case give_up_lost_refunds refund_schedule (\<lambda>_. False) now db of (lost, db1) \<Rightarrow>
      case relay_refunds (\<lambda>_. False) now db1 of (refunds, refund_jobs, db2) \<Rightarrow>
      case rerun_asked_refunds job_states (\<lambda>_. False) db2 of (reruns, promoted, db3) \<Rightarrow>
      case relay_intent_cancellations c cancel_schedule (\<lambda>_. False) now db3 of
        (cancellations, cancel_jobs, db4) \<Rightarrow>
      (max (max lost refunds) (max (if reruns = RERUN_BATCH then RELAY_BATCH else reruns) cancellations),
       refund_jobs, promoted, cancel_jobs, db4))"

end
