(* ===== verification/Expiry.thy ===== *)
theory Expiry
  imports Purchase
begin

text \<open>
  \<open>ExpireDueHoldsHandler\<close> (\<open>orders/expire-due-holds.handler.ts\<close>): the expired active holds with
  their orders, each hold expired, its order failed, its seats back, one statement per date; and the
  pending orders whose hold went back while the provider did not answer. \<open>SKIP LOCKED\<close> leaves out the
  holds and the orders another transaction holds: \<open>locked\<close> says which.
\<close>

record due_hold =
  du_hold_id :: ident
  du_order_id :: ident
  du_date_id :: ident
  du_quantity :: int
  du_pool_seats :: int
  du_expires_at :: instant

definition due_holds :: "(ident \<Rightarrow> bool) \<Rightarrow> instant \<Rightarrow> nat \<Rightarrow> db \<Rightarrow> due_hold list" where
  "due_holds locked now batch db =
     take batch (sort_by (\<lambda>l r. du_expires_at l \<le> du_expires_at r)
       (concat (map (\<lambda>h. map (\<lambda>o'. \<lparr>du_hold_id = hr_id h, du_order_id = or_id o',
             du_date_id = hr_date_id h, du_quantity = hr_quantity h,
             du_pool_seats = hr_pool_seats h, du_expires_at = hr_expires_at h\<rparr>)
           (filter (\<lambda>o'. or_hold_id o' = hr_id h \<and> \<not> locked (or_id o')) (db_orders db)))
         (filter (\<lambda>h. hr_state h = Hold_Active \<and> hr_expires_at h \<le> now \<and> \<not> locked (hr_id h))
            (db_holds db)))))"

definition fail_pending_orders_without_hold :: "(ident \<Rightarrow> bool) \<Rightarrow> instant \<Rightarrow> db \<Rightarrow> db result" where
  "fail_pending_orders_without_hold locked now db =
     bindE (table_update ''seat_order'' seat_order_check
       (\<lambda>o'. or_state o' = Order_Pending \<and> or_payment_intent_ref o' = None \<and>
          or_expires_at o' \<le> now \<and> \<not> locked (or_id o') \<and>
          list_ex (\<lambda>h. hr_id h = or_hold_id o' \<and> hr_state h \<noteq> Hold_Active) (db_holds db))
       (\<lambda>o'. o'\<lparr>or_state := Order_Failed, or_version := or_version o' + 1\<rparr>) (db_orders db))
     (\<lambda>(_, t). Inr (db\<lparr>db_orders := t\<rparr>))"

text \<open>A \<open>Map\<close> keeps the place a key was first set at.\<close>

fun upsert :: "('k \<Rightarrow> 'v option \<Rightarrow> 'v) \<Rightarrow> 'k \<Rightarrow> ('k \<times> 'v) list \<Rightarrow> ('k \<times> 'v) list" where
  "upsert f k [] = [(k, f k None)]"
| "upsert f k ((k', v) # m) = (if k = k' then (k, f k (Some v)) # m else (k', v) # upsert f k m)"

definition seats_by_date :: "core \<Rightarrow> due_hold list \<Rightarrow> (ident \<times> int \<times> int) list" where
  "seats_by_date c due =
     sort_by (\<lambda>l r. collates (checkout_rules c) (fst l) (fst r))
       (fold (\<lambda>d. upsert (\<lambda>_ seats. case seats of
            None \<Rightarrow> (0 + du_quantity d, 0 + du_pool_seats d)
          | Some (q, p) \<Rightarrow> (q + du_quantity d, p + du_pool_seats d)) (du_date_id d)) due [])"

definition expire_holds :: "ident list \<Rightarrow> db \<Rightarrow> db result" where
  "expire_holds ids db =
     bindE (table_update ''seat_hold'' seat_hold_check (\<lambda>h. hr_id h \<in> set ids)
       (\<lambda>h. h\<lparr>hr_state := Hold_Expired, hr_version := hr_version h + 1\<rparr>) (db_holds db))
     (\<lambda>(_, t). Inr (db\<lparr>db_holds := t\<rparr>))"

definition fail_due_orders :: "ident list \<Rightarrow> instant \<Rightarrow> db \<Rightarrow> db result" where
  "fail_due_orders ids now db =
     bindE (table_update ''seat_order'' seat_order_check
       (\<lambda>o'. or_id o' \<in> set ids \<and> List.member order_states_awaiting_payment (or_state o'))
       (\<lambda>o'. o'\<lparr>or_state := Order_Failed, or_version := or_version o' + 1,
          or_intent_cancel_owed_at :=
            (if or_payment_intent_ref o' = None then None else Some now)\<rparr>) (db_orders db))
     (\<lambda>(_, t). Inr (db\<lparr>db_orders := t\<rparr>))"

definition expire_due_holds ::
    "core \<Rightarrow> (ident \<Rightarrow> bool) \<Rightarrow> instant \<Rightarrow> nat \<Rightarrow> db \<Rightarrow> (nat \<times> db) result" where
  "expire_due_holds c locked now batch db =
     (let due = due_holds locked now batch db in
      bindE (fail_pending_orders_without_hold locked now db) (\<lambda>db1.
      if due = [] then Inr (0, db1)
      else
        bindE (expire_holds (map du_hold_id due) db1) (\<lambda>db2.
        bindE (fail_due_orders (map du_order_id due) now db2) (\<lambda>db3.
        bindE (foldE (\<lambda>(date_id, quantity, pool_seats).
                  return_held_seats date_id quantity pool_seats now) (seats_by_date c due) db3)
          (\<lambda>db4. Inr (length due, db4))))))"

section \<open>The sweeper\<close>

text \<open>
  The sweepers' loop (\<open>sweeper-loop.ts\<close>) between two pauses: passes run one after the other as long as
  each settles a full batch, which means more is due; one that throws is logged and the loop pauses.
  A loop that never paused would be \<open>None\<close>. The expiry of holds is the pass studied here: the loop
  always comes to its pause, and pauses with no expired hold left unless a pass threw.
\<close>

section \<open>The loop\<close>

text \<open>Whether the last pass threw, and the tables at the pause.\<close>

partial_function (option) drain :: "('s \<Rightarrow> (nat \<times> 's) result) \<Rightarrow> nat \<Rightarrow> 's \<Rightarrow> (bool \<times> 's) option" where
  "drain pass batch s =
     (case pass s of
        Inl _ \<Rightarrow> if 0 < batch then Some (True, s) else drain pass batch s
      | Inr r \<Rightarrow> if fst r < batch then Some (False, snd r) else drain pass batch (snd r))"

declare drain.simps [code]

text \<open>
  What a pass promises the loop: a full batch leaves less due, as \<open>due_left\<close> counts it, and a batch
  not full leaves nothing that \<open>done\<close> would not accept.
\<close>

locale sweeping_pass =
  fixes pass :: "'s \<Rightarrow> (nat \<times> 's) result"
    and batch :: nat
    and due_left :: "'s \<Rightarrow> nat"
    and settled :: "'s \<Rightarrow> bool"
  assumes some_batch: "0 < batch"
    and full_batch: "pass s = Inr (n, s') \<Longrightarrow> batch \<le> n \<Longrightarrow> due_left s' < due_left s"
    and short_batch: "pass s = Inr (n, s') \<Longrightarrow> n < batch \<Longrightarrow> settled s'"
begin

lemma drain_ends: "\<exists>failed s'. drain pass batch s = Some (failed, s') \<and> (failed \<or> settled s')"
proof (induction "due_left s" arbitrary: s rule: less_induct)
  case less
  show ?case
  proof (cases "pass s")
    case (Inl e)
    then have "drain pass batch s = Some (True, s)" by (simp add: drain.simps some_batch)
    then show ?thesis by blast
  next
    case (Inr r)
    obtain n s' where r: "r = (n, s')" by (cases r)
    show ?thesis
    proof (cases "n < batch")
      case True
      then have "drain pass batch s = Some (False, s')" using Inr r by (simp add: drain.simps)
      with True Inr r short_batch show ?thesis by blast
    next
      case False
      then have "due_left s' < due_left s" using full_batch Inr r by simp
      from less [OF this] Inr r False show ?thesis by (simp add: drain.simps [of pass batch s])
    qed
  qed
qed

end

section \<open>Expired holds\<close>

definition active_holds :: "db \<Rightarrow> nat" where
  "active_holds db = length (filter (\<lambda>h. hr_state h = Hold_Active) (db_holds db))"

definition no_hold_due :: "instant \<Rightarrow> db \<Rightarrow> bool" where
  "no_hold_due now db \<longleftrightarrow> list_all (\<lambda>h. hr_state h = Hold_Active \<and> hr_expires_at h \<le> now \<longrightarrow>
     hr_id h \<notin> or_hold_id ` set (db_orders db)) (db_holds db)"

lemma due_hold_active:
  assumes "d \<in> set (due_holds locked now n db)"
  obtains h where "h \<in> set (db_holds db)" "hr_state h = Hold_Active" "du_hold_id d = hr_id h"
  using assms [unfolded due_holds_def, THEN in_set_takeD] by auto

lemma due_holds_all:
  assumes "length (due_holds (\<lambda>_. False) now batch db) < batch"
    and "h \<in> set (db_holds db)" and "hr_state h = Hold_Active" and "hr_expires_at h \<le> now"
    and "hr_id h \<in> or_hold_id ` set (db_orders db)"
  shows "hr_id h \<in> du_hold_id ` set (due_holds (\<lambda>_. False) now batch db)"
proof -
  obtain all where due: "due_holds (\<lambda>_. False) now batch db = take batch all"
    and all: "hr_id h \<in> du_hold_id ` set all"
    using assms(2-5) by (fastforce simp: due_holds_def image_iff)
  with assms(1) show ?thesis by simp
qed

lemma return_all_frames:
  assumes "foldE (\<lambda>(i, q, p). return_held_seats i q p now) xs db = Inr db'"
  shows "db_holds db' = db_holds db \<and> db_orders db' = db_orders db"
  using assms
  by (rule foldE_invariant [where P = "\<lambda>x. db_holds x = db_holds db \<and> db_orders x = db_orders db"])
    (auto simp: return_held_seats_def sales_update_def bindE_eq_Inr split: prod.splits)

text \<open>What a pass leaves of the holds, and of the holds the orders name.\<close>

lemma expire_due_holds_holds:
  assumes "expire_due_holds c locked now batch db = Inr (n, db')"
  shows "n = length (due_holds locked now batch db)"
    and "db_holds db' = tbl_update (\<lambda>h. hr_id h \<in> du_hold_id ` set (due_holds locked now batch db))
      (\<lambda>h. h\<lparr>hr_state := Hold_Expired, hr_version := hr_version h + 1\<rparr>) (db_holds db)"
    and "map or_hold_id (db_orders db') = map or_hold_id (db_orders db)"
  using assms
  by (auto simp: expire_due_holds_def Let_def bindE_eq_Inr fail_pending_orders_without_hold_def
      expire_holds_def fail_due_orders_def table_update_Inr map_tbl_update_same tbl_update_none
      split: if_splits dest!: return_all_frames)

lemma filter_tbl_update_less:
  assumes "x \<in> set t" and "p x" and "q x" and "\<And>r. \<not> q (f r)"
  shows "length (filter q (tbl_update p f t)) < length (filter q t)"
proof -
  have le: "length (filter q (tbl_update p f xs)) \<le> length (filter q xs)" for xs
    using assms(4) by (induction xs) auto
  obtain ys zs where "t = ys @ x # zs" using split_list [OF assms(1)] by blast
  with assms(2-4) le [of ys] le [of zs] show ?thesis by (simp add: tbl_update_def)
qed

lemma expire_pass_full:
  assumes "expire_due_holds c (\<lambda>_. False) now batch db = Inr (n, db')" and "batch \<le> n" and "0 < batch"
  shows "active_holds db' < active_holds db"
proof -
  let ?due = "due_holds (\<lambda>_. False) now batch db"
  have "?due \<noteq> []" using assms expire_due_holds_holds(1) by fastforce
  then obtain d where "d \<in> set ?due" by (cases ?due) auto
  then obtain h where "h \<in> set (db_holds db)" "hr_state h = Hold_Active" "hr_id h \<in> du_hold_id ` set ?due"
    by (metis due_hold_active imageI)
  then show ?thesis unfolding active_holds_def expire_due_holds_holds(2) [OF assms(1)]
    by (intro filter_tbl_update_less [of h]) auto
qed

lemma expire_pass_short:
  assumes "expire_due_holds c (\<lambda>_. False) now batch db = Inr (n, db')" and "n < batch"
  shows "no_hold_due now db'"
proof -
  have links: "or_hold_id ` set (db_orders db') = or_hold_id ` set (db_orders db)"
    using expire_due_holds_holds(3) [OF assms(1)] by (metis set_map)
  have short: "length (due_holds (\<lambda>_. False) now batch db) < batch"
    using assms expire_due_holds_holds(1) by metis
  from due_holds_all [OF short] show ?thesis
    by (auto simp: no_hold_due_def list_all_iff links expire_due_holds_holds(2) [OF assms(1)] table_simps)
qed

text \<open>The pass with a batch of at least one, as every sweeper is built.\<close>

interpretation expiry: sweeping_pass "expire_due_holds c (\<lambda>_. False) now (Suc b)" "Suc b" active_holds
    "no_hold_due now" for c now b
  by unfold_locales (auto intro: expire_pass_full expire_pass_short)


text \<open>Three expired holds, one at a time: four passes.\<close>

definition sample_due :: db where
  "sample_due =
     (let hold = (\<lambda>i. \<lparr>hr_id = ''h'' @ i, hr_date_id = ''d'', hr_account_id = None, hr_profile_id = None,
            hr_tier = Tier_Full, hr_quantity = 1, hr_pool_seats = 0, hr_origin = Origin_Checkout,
            hr_origin_ref = ''o'' @ i, hr_expires_at = 10, hr_state = Hold_Active, hr_version = 1\<rparr>);
          order = (\<lambda>i. \<lparr>or_id = ''o'' @ i, or_reference = ''r'' @ i, or_idempotency_key = ''k'' @ i, or_account_id = None,
            or_fingerprint = ''f'', or_date_id = ''d'', or_channel_id = ''ch'', or_profile_id = None, or_tier = Tier_Full,
            or_quantity = 1, or_currency_code = ''EUR'', or_unit_price_minor = 1500, or_tier_total_minor = 1500,
            or_service_fee_minor = 0, or_discount_minor = 0, or_total_minor = 1500, or_declared_tax_location = None,
            or_hold_id = ''h'' @ i, or_expires_at = 10, or_state = Order_Pending, or_payment_intent_ref = None,
            or_client_secret = None, or_next_action = None, or_failure_code = None, or_decline_code = None,
            or_intent_cancel_owed_at = None, or_intent_cancel_enqueued_at = None, or_intent_cancel_dead_at = None,
            or_placed_at = 0, or_paid_at = None, or_outcome_settled_at = None, or_answer = None, or_version = 1\<rparr>)
      in empty_db\<lparr>
        db_sales := [(sales_row_of (current (open_sales ''d'' ''ch'' 0)))\<lparr>dr_capacity_total := 3\<rparr>],
        db_holds := map hold [''1'', ''2'', ''3''], db_orders := map order [''1'', ''2'', ''3'']\<rparr>)"


end
