(* ===== verification/Sales_Commands.thy ===== *)
theory Sales_Commands
  imports Waitlist
begin

text \<open>
  The commands on a date's sales (\<open>apps/ticketing/src/date-sales/*.handler.ts\<close>), each one
  transaction under the date's row: the studio's prices, capacity tiers and technical provision, the
  facts learnt from catalog, and the sweeper's close of a sale whose end has passed. The studio's
  are wrapped by the idempotency store (\<open>Idempotency\<close>).
\<close>

section \<open>The studio's commands\<close>

text \<open>A change of the aggregate under the row's lock, saved and recorded.\<close>

definition commit_sales ::
    "string option \<Rightarrow> tracked_sales \<Rightarrow> db \<Rightarrow> (tracked_sales \<times> db) result" where
  "commit_sales tp t db =
     bindE (save_sales t db) (\<lambda>(t', db1).
     bindE (record_date_sales_events tp (uncommitted (root t')) db1) (\<lambda>db2.
     Inr (t', db2)))"

definition pane_after ::
    "core \<Rightarrow> ident \<Rightarrow> instant \<Rightarrow> db \<Rightarrow> date_sales_pane result" where
  "pane_after c date_id now db =
     (case read_date_sales_pane c date_id now db of
        None \<Rightarrow> Inl (Plain_Error ''date sales vanished inside its transaction'')
      | Some pane \<Rightarrow> Inr pane)"

definition sent_prices_of :: "core \<Rightarrow> price_tier_column list \<Rightarrow> tier_price list" where
  "sent_prices_of c tiers = map (tier_price_of c) tiers"

definition set_date_prices_in ::
    "core \<Rightarrow> ident \<Rightarrow> int \<Rightarrow> price_tier_column list \<Rightarrow> string option \<Rightarrow> instant \<Rightarrow> db
       \<Rightarrow> ((date_sales_pane \<times> int) \<times> db) result" where
  "set_date_prices_in c date_id expected tiers tp now db =
     (case find_sales c date_id db of
        None \<Rightarrow> Inl (Refusal NOT_FOUND)
      | Some t \<Rightarrow>
          bindE (set_prices (sales_rules c) expected (sent_prices_of c tiers) now (root t)) (\<lambda>a.
          bindE (commit_sales tp (with_root a t) db) (\<lambda>(t', db1).
          bindE (pane_after c date_id now db1) (\<lambda>pane.
          Inr ((pane, ds_version (current (root t'))), db1)))))"

definition set_technical_provision_in ::
    "core \<Rightarrow> ident \<Rightarrow> int \<Rightarrow> int \<Rightarrow> string option \<Rightarrow> instant \<Rightarrow> db
       \<Rightarrow> ((date_sales_pane \<times> int) \<times> db) result" where
  "set_technical_provision_in c date_id expected provisioned tp now db =
     (case find_sales c date_id db of
        None \<Rightarrow> Inl (Refusal NOT_FOUND)
      | Some t \<Rightarrow>
          bindE (set_technical_provision (sales_rules c) expected provisioned now (root t)) (\<lambda>a.
          bindE (commit_sales tp (with_root a t) db) (\<lambda>(t', db1).
          bindE (pane_after c date_id now db1) (\<lambda>pane.
          Inr ((pane, ds_version (current (root t'))), db1)))))"

record opened_capacity_tier =
  oc_sales :: date_sales_pane
  oc_waitlist_notified :: nat
  oc_priority_until :: "instant option"

definition open_capacity_tier_in ::
    "core \<Rightarrow> ident \<Rightarrow> ident \<Rightarrow> int \<Rightarrow> int \<Rightarrow> bool \<Rightarrow> string option \<Rightarrow> instant \<Rightarrow> db
       \<Rightarrow> ((opened_capacity_tier \<times> int) \<times> db) result" where
  "open_capacity_tier_in c tier_id date_id expected additional notify tp now db =
     bindE (end_due_priority_window c date_id now False db) (\<lambda>(_, db0).
     case find_sales c date_id db0 of
       None \<Rightarrow> Inl (Refusal NOT_FOUND)
     | Some t \<Rightarrow>
         bindE (open_capacity_tier (sales_rules c) tier_id expected additional notify now (root t))
           (\<lambda>(a, priority_until).
         bindE (commit_sales tp (with_root a t) db0) (\<lambda>(t', db1).
         bindE (case priority_until of
             None \<Rightarrow> Inr ([], db1)
           | Some u \<Rightarrow>
               bindE (notify_all c date_id now db1) (\<lambda>(accounts, db2).
               Inr (accounts, write_outbox
                      (write_waitlist_notified (waitlist_rules c) date_id accounts u now tp) db2)))
           (\<lambda>(accounts, db2).
         bindE (pane_after c date_id now db2) (\<lambda>pane.
         Inr ((\<lparr>oc_sales = pane, oc_waitlist_notified = length accounts,
                oc_priority_until = priority_until\<rparr>, ds_version (current (root t'))), db2))))))"

section \<open>Catalog's facts\<close>

datatype catalog_date_fact =
    Drafted ident ident instant
  | Lock_Fact ident instant
  | Start_Fact ident instant instant
  | Outcome_Fact ident date_outcome instant

datatype consumer_outcome = Applied | Duplicate | Superseded

fun fact_applied ::
    "sales_core \<Rightarrow> catalog_date_fact \<Rightarrow> instant \<Rightarrow> date_sales \<Rightarrow> date_sales \<times> bool" where
  "fact_applied c (Lock_Fact _ stated_at) now a = lock_prices stated_at now a"
| "fact_applied c (Start_Fact _ starts_at stated_at) now a = record_schedule c starts_at stated_at now a"
| "fact_applied c (Outcome_Fact _ outcome stated_at) now a = record_outcome c outcome stated_at now a"
| "fact_applied c (Drafted _ _ _) now a = (a, False)"

fun fact_date :: "catalog_date_fact \<Rightarrow> ident" where
  "fact_date (Drafted d _ _) = d"
| "fact_date (Lock_Fact d _) = d"
| "fact_date (Start_Fact d _ _) = d"
| "fact_date (Outcome_Fact d _ _) = d"

definition record_outcome_to_settle ::
    "ident \<Rightarrow> date_outcome \<Rightarrow> instant \<Rightarrow> string option \<Rightarrow> db \<Rightarrow> db" where
  "record_outcome_to_settle date_id outcome recorded_at tp db =
     (if date_id \<in> xr_date_id ` set (db_settlements db) then db
      else db\<lparr>db_settlements := db_settlements db @
        [\<lparr>xr_date_id = date_id, xr_outcome = outcome, xr_recorded_at = recorded_at,
          xr_traceparent = tp, xr_waitlist_ended_at = None, xr_settled_at = None,
          xr_failed_at = None\<rparr>]\<rparr>)"

text \<open>
  The date's active seats follow a start that moved; none against a newer start already committed.
  The subquery on the date's row runs without its lock, on the tables \<open>seen\<close>.
\<close>

definition move_seat_cancel_deadlines ::
    "core \<Rightarrow> ident \<Rightarrow> instant \<Rightarrow> instant \<Rightarrow> db \<Rightarrow> db \<Rightarrow> nat \<times> db" where
  "move_seat_cancel_deadlines c date_id starts_at stated_at seen db =
     (let deadline = Some (seat_cancel_deadline (checkout_rules c) starts_at);
          newer = list_ex (\<lambda>r. dr_date_id r = date_id \<and>
            (case dr_schedule_stated_at r of None \<Rightarrow> False | Some t \<Rightarrow> stated_at < t)) (db_sales seen);
          p = (\<lambda>r. sr_date_id r = date_id \<and> sr_state r = Seat_Active \<and>
                   sr_cancel_deadline r \<noteq> deadline \<and> \<not> newer)
      in (tbl_affected p (db_seats db),
          db\<lparr>db_seats := tbl_update p (\<lambda>r. r\<lparr>sr_cancel_deadline := deadline\<rparr>) (db_seats db)\<rparr>))"

definition fact_opened ::
    "core \<Rightarrow> ident \<Rightarrow> ident \<Rightarrow> instant \<Rightarrow> db \<Rightarrow> tracked_sales option" where
  "fact_opened c date_id channel_id now db =
     (case find_sales c date_id db of
        Some _ \<Rightarrow> None
      | None \<Rightarrow> Some (created (open_sales date_id channel_id now)))"

definition fact_moved ::
    "core \<Rightarrow> catalog_date_fact \<Rightarrow> instant \<Rightarrow> db \<Rightarrow> db \<Rightarrow> (tracked_sales option \<times> db) result" where
  "fact_moved c told now seen db =
     (case (case told of
              Start_Fact date_id starts_at stated_at \<Rightarrow>
                move_seat_cancel_deadlines c date_id starts_at stated_at seen db
            | _ \<Rightarrow> (0, db)) of
        (seats_moved, db1) \<Rightarrow>
          (case find_sales c (fact_date told) db1 of
             None \<Rightarrow> Inl (Domain_Error NOT_FOUND)
           | Some t \<Rightarrow>
               (case fact_applied (sales_rules c) told now (root t) of
                  (a, True) \<Rightarrow> Inr (Some (with_root a t), db1)
                | (_, False) \<Rightarrow>
                    if 0 < seats_moved then Inl (Plain_Error ''the start was overtaken while its seats moved'')
                    else Inr (None, db1))))"

definition apply_catalog_date_fact ::
    "core \<Rightarrow> ident \<Rightarrow> catalog_date_fact \<Rightarrow> string option \<Rightarrow> instant \<Rightarrow> db \<Rightarrow> db
       \<Rightarrow> (consumer_outcome \<times> db) result" where
  "apply_catalog_date_fact c message_id told tp now seen db =
     (case claim_message message_id db of
        (False, db0) \<Rightarrow> Inr (Duplicate, db0)
      | (True, db0) \<Rightarrow>
          bindE (case told of
              Drafted date_id channel_id _ \<Rightarrow> Inr (fact_opened c date_id channel_id now db0, db0)
            | _ \<Rightarrow> fact_moved c told now seen db0) (\<lambda>(found, db1).
          case found of
            None \<Rightarrow> Inr (Superseded, db1)
          | Some t \<Rightarrow>
              bindE (commit_sales tp t db1) (\<lambda>(_, db2).
              Inr (Applied, case told of
                  Outcome_Fact date_id outcome _ \<Rightarrow>
                    if List.member outcomes_closing_sales outcome
                    then record_outcome_to_settle date_id outcome now tp db2 else db2
                | _ \<Rightarrow> db2))))"

section \<open>The sweeper's close\<close>

definition ended_sales :: "instant \<Rightarrow> nat \<Rightarrow> db \<Rightarrow> ident list" where
  "ended_sales now batch db =
     map dr_date_id (take batch (sort_by
       (\<lambda>l r. case (dr_sales_end_at l, dr_sales_end_at r) of
           (Some x, Some y) \<Rightarrow> x \<le> y | (None, Some _) \<Rightarrow> False | _ \<Rightarrow> True)
       (filter (\<lambda>r. dr_on_sale r \<and>
          (case dr_sales_end_at r of None \<Rightarrow> False | Some t \<Rightarrow> t \<le> now)) (db_sales db))))"

definition close_ended_sale :: "core \<Rightarrow> ident \<Rightarrow> instant \<Rightarrow> db \<Rightarrow> (bool \<times> db) result" where
  "close_ended_sale c date_id now db =
     (case find_sales c date_id db of
        None \<Rightarrow> Inr (False, db)
      | Some t \<Rightarrow>
          (case end_sales (sales_rules c) now (root t) of
             (_, False) \<Rightarrow> Inr (False, db)
           | (a, True) \<Rightarrow>
               bindE (commit_sales None (with_root a t) db) (\<lambda>(_, db1). Inr (True, db1))))"

end
