(* ===== verification/Seat_Ledger.thy ===== *)
theory Seat_Ledger
  imports Expiry Sales_Commands
begin

text \<open>
  The specification of a date's capacity: its seats are free, held or sold, and every operation
  moves some of them from one to another. The tables refine it: a date's free seats are its public
  seats and its pool, its held ones what its active holds carry. This theory states the
  specification, its invariant and the abstraction, and shows what a statement and a hold's move do
  to it; \<open>Ledger_Refinement\<close> shows that every transaction of the purchase refines it.
\<close>

section \<open>The specification\<close>

record seats =
  sl_capacity :: int
  sl_free :: int
  sl_held :: int
  sl_sold :: int

type_synonym ledger = "ident \<Rightarrow> seats option"

inductive ledger_step :: "ledger \<Rightarrow> ledger \<Rightarrow> bool" where
  opened: "L d = None \<Longrightarrow>
    ledger_step L (L(d \<mapsto> \<lparr>sl_capacity = 0, sl_free = 0, sl_held = 0, sl_sold = 0\<rparr>))"
| resized: "L d = Some s \<Longrightarrow> 0 \<le> sl_free s + n \<Longrightarrow>
    ledger_step L (L(d \<mapsto> s\<lparr>sl_capacity := sl_capacity s + n, sl_free := sl_free s + n\<rparr>))"
| taken: "L d = Some s \<Longrightarrow> 0 < q \<Longrightarrow> q \<le> sl_free s \<Longrightarrow>
    ledger_step L (L(d \<mapsto> s\<lparr>sl_free := sl_free s - q, sl_held := sl_held s + q\<rparr>))"
| sold: "L d = Some s \<Longrightarrow> 0 < q \<Longrightarrow> q \<le> sl_held s \<Longrightarrow>
    ledger_step L (L(d \<mapsto> s\<lparr>sl_held := sl_held s - q, sl_sold := sl_sold s + q\<rparr>))"
| given_back: "L d = Some s \<Longrightarrow> 0 < q \<Longrightarrow> q \<le> sl_held s \<Longrightarrow>
    ledger_step L (L(d \<mapsto> s\<lparr>sl_held := sl_held s - q, sl_free := sl_free s + q\<rparr>))"
| retaken: "L d = Some s \<Longrightarrow> 0 < q \<Longrightarrow> q \<le> sl_free s \<Longrightarrow>
    ledger_step L (L(d \<mapsto> s\<lparr>sl_free := sl_free s - q, sl_sold := sl_sold s + q\<rparr>))"
| released: "L d = Some s \<Longrightarrow> 0 \<le> q \<Longrightarrow> q \<le> sl_sold s \<Longrightarrow>
    ledger_step L (L(d \<mapsto> s\<lparr>sl_sold := sl_sold s - q, sl_free := sl_free s + q\<rparr>))"

inductive_cases ledger_stepE: "ledger_step L L'"

definition seats_ok :: "seats \<Rightarrow> bool" where
  "seats_ok s \<longleftrightarrow> 0 \<le> sl_free s \<and> 0 \<le> sl_held s \<and> 0 \<le> sl_sold s \<and>
     sl_capacity s = sl_free s + sl_held s + sl_sold s"

definition ledger_ok :: "ledger \<Rightarrow> bool" where
  "ledger_ok L \<longleftrightarrow> (\<forall>d s. L d = Some s \<longrightarrow> seats_ok s)"

definition no_dates :: "ledger \<Rightarrow> bool" where
  "no_dates L \<longleftrightarrow> L = Map.empty"

lemma ledger_okD: "ledger_ok L \<Longrightarrow> L d = Some s \<Longrightarrow> seats_ok s"
  by (simp add: ledger_ok_def)

lemma ledger_ok_upd: "ledger_ok L \<Longrightarrow> seats_ok s \<Longrightarrow> ledger_ok (L(d \<mapsto> s))"
  by (simp add: ledger_ok_def)

lemma ledger_step_ok: "ledger_step L L' \<Longrightarrow> ledger_ok L \<Longrightarrow> ledger_ok L'"
  by (erule ledger_stepE)
    (auto intro!: ledger_ok_upd simp: seats_ok_def dest: ledger_okD)

lemma no_dates_ok: "no_dates L \<Longrightarrow> ledger_ok L"
  by (simp add: no_dates_def ledger_ok_def)

interpretation spec: invariant_system no_dates ledger_step ledger_ok
  by unfold_locales (auto intro: ledger_step_ok no_dates_ok)

section \<open>The abstraction\<close>

definition hold_seats_of :: "ident \<Rightarrow> seat_hold_row \<Rightarrow> int" where
  "hold_seats_of d h = (if hr_date_id h = d \<and> hr_state h = Hold_Active then hr_quantity h else 0)"

definition held_of :: "seat_hold_row list \<Rightarrow> ident \<Rightarrow> int" where
  "held_of holds d = (\<Sum>h\<leftarrow>holds. hold_seats_of d h)"

definition row_seats :: "date_sales_row \<Rightarrow> int \<Rightarrow> seats" where
  "row_seats r held = \<lparr>sl_capacity = dr_capacity_total r,
     sl_free = dr_seats_available r + dr_priority_pool_seats r, sl_held = held,
     sl_sold = dr_seats_sold r\<rparr>"

definition ledger_of :: "date_sales_row list \<Rightarrow> (ident \<Rightarrow> int) \<Rightarrow> ledger" where
  "ledger_of sales held d = map_option (\<lambda>r. row_seats r (held d)) (tbl_find dr_date_id d sales)"

definition ledger_abs :: "db \<Rightarrow> ledger" where
  "ledger_abs db = ledger_of (db_sales db) (held_of (db_holds db))"

lemma ledger_abs_cong:
  "db_sales db' = db_sales db \<Longrightarrow> db_holds db' = db_holds db \<Longrightarrow> ledger_abs db' = ledger_abs db"
  by (simp add: ledger_abs_def)

text \<open>A statement on one date, and a change of what its holds carry.\<close>

lemma ledger_of_move:
  assumes "tbl_find dr_date_id d sales = Some r" and "p r"
    and "\<And>x. p x \<Longrightarrow> dr_date_id x = d" and "\<And>x. dr_date_id (f x) = dr_date_id x"
    and "\<And>e. held' e = held e + (if e = d then n else 0)"
  shows "ledger_of (tbl_update p f sales) held' =
    (ledger_of sales held)(d \<mapsto> row_seats (f r) (held d + n))"
proof
  fix e
  have find: "tbl_find dr_date_id e (tbl_update p f sales) =
      map_option (\<lambda>x. if p x then f x else x) (tbl_find dr_date_id e sales)"
    by (rule tbl_find_tbl_update) (simp add: assms(4))
  show "ledger_of (tbl_update p f sales) held' e =
      ((ledger_of sales held)(d \<mapsto> row_seats (f r) (held d + n))) e"
  proof (cases "e = d")
    case True
    with find assms(1,2,5) show ?thesis by (simp add: ledger_of_def)
  next
    case False
    have "\<not> p x" if "tbl_find dr_date_id e sales = Some x" for x
      using tbl_find_SomeD [OF that] assms(3) False by blast
    with False find assms(5) show ?thesis
      by (cases "tbl_find dr_date_id e sales") (auto simp: ledger_of_def)
  qed
qed

lemma ledger_of_same:
  assumes "\<And>x. x \<in> set sales \<Longrightarrow> p x \<Longrightarrow> row_seats (f x) n = row_seats x n"
    and "\<And>x. dr_date_id (f x) = dr_date_id x"
  shows "ledger_of (tbl_update p f sales) held = ledger_of sales held"
proof
  fix e
  have seats: "row_seats (f x) m = row_seats x m" if "x \<in> set sales" "p x" for x m
    using assms(1) [OF that] by (simp add: row_seats_def)
  have "tbl_find dr_date_id e (tbl_update p f sales) =
      map_option (\<lambda>x. if p x then f x else x) (tbl_find dr_date_id e sales)"
    by (rule tbl_find_tbl_update) (simp add: assms(2))
  with seats show "ledger_of (tbl_update p f sales) held e = ledger_of sales held e"
    by (cases "tbl_find dr_date_id e sales") (auto simp: ledger_of_def dest: tbl_find_SomeD)
qed

lemma ledger_of_find: "tbl_find dr_date_id d sales = Some r \<Longrightarrow> ledger_of sales held d = Some (row_seats r (held d))"
  by (simp add: ledger_of_def)

section \<open>What the holds carry\<close>

lemma held_of_append [simp]: "held_of (hs @ [h]) d = held_of hs d + hold_seats_of d h"
  by (simp add: held_of_def)

lemma held_of_leave:
  assumes "distinct (map hr_id holds)" and "h \<in> set holds" and "hr_state h = Hold_Active"
    and "\<And>x. hr_state (f x) \<noteq> Hold_Active"
  shows "held_of (tbl_update (\<lambda>x. hr_id x = hr_id h) f holds) d =
    held_of holds d + (if d = hr_date_id h then - hr_quantity h else 0)"
proof -
  have "hold_seats_of d (f x) = 0" for x using assms(4) by (simp add: hold_seats_of_def)
  then show ?thesis
    unfolding held_of_def sum_tbl_update
    using filter_key_unique [OF assms(1,2)] assms(3) by (simp add: hold_seats_of_def)
qed

lemma held_of_same:
  assumes "\<And>h. h \<in> set holds \<Longrightarrow> p h \<Longrightarrow> hold_seats_of d (f h) = hold_seats_of d h"
  shows "held_of (tbl_update p f holds) d = held_of holds d"
  using assms by (induction holds) (auto simp: held_of_def)

lemma hold_seats_within:
  assumes "\<forall>h \<in> set holds. seat_hold_check h" and "h \<in> set holds" and "hr_state h = Hold_Active"
  shows "hr_quantity h \<le> held_of holds (hr_date_id h)"
proof -
  have "hold_seats_of (hr_date_id h) h \<le> held_of holds (hr_date_id h)"
    unfolding held_of_def using assms(2)
    by (rule member_le_sum) (use assms(1) in \<open>auto simp: hold_seats_of_def seat_hold_check_def\<close>)
  with assms(3) show ?thesis by (simp add: hold_seats_of_def)
qed

section \<open>The tables' invariant\<close>

text \<open>
  What the constraints and the code keep of the three tables: keys, checks, a hold's date, and each
  order with a hold of its own for its date and its quantity.
\<close>

definition order_link :: "seat_order_row \<Rightarrow> ident \<times> ident \<times> int \<times> ident" where
  "order_link o' = (or_id o', or_date_id o', or_quantity o', or_hold_id o')"

definition sales_ok :: "date_sales_row list \<Rightarrow> bool" where
  "sales_ok sales \<longleftrightarrow> distinct (map dr_date_id sales) \<and> (\<forall>r \<in> set sales. date_sales_check r)"

definition holds_ok :: "ident list \<Rightarrow> seat_hold_row list \<Rightarrow> bool" where
  "holds_ok dates holds \<longleftrightarrow> distinct (map hr_id holds) \<and>
     (\<forall>h \<in> set holds. seat_hold_check h \<and> hr_date_id h \<in> set dates)"

definition links_ok :: "(ident \<times> ident \<times> int \<times> ident) list \<Rightarrow> seat_hold_row list \<Rightarrow> bool" where
  "links_ok links holds \<longleftrightarrow>
     distinct (map fst links) \<and> distinct (map (\<lambda>(_, _, _, h). h) links) \<and>
     (\<forall>(i, d, q, h) \<in> set links. \<exists>x \<in> set holds. hr_id x = h \<and> hr_date_id x = d \<and> hr_quantity x = q)"

definition db_ok :: "db \<Rightarrow> bool" where
  "db_ok db \<longleftrightarrow> sales_ok (db_sales db) \<and>
     holds_ok (map dr_date_id (db_sales db)) (db_holds db) \<and>
     links_ok (map order_link (db_orders db)) (db_holds db)"

lemma db_ok_cong:
  assumes "db_sales db' = db_sales db" and "db_holds db' = db_holds db"
    and "map order_link (db_orders db') = map order_link (db_orders db)"
  shows "db_ok db' = db_ok db"
  using assms by (simp add: db_ok_def)

lemma db_okD:
  assumes "db_ok db"
  shows "sales_ok (db_sales db)" and "holds_ok (map dr_date_id (db_sales db)) (db_holds db)"
    and "links_ok (map order_link (db_orders db)) (db_holds db)"
    and "distinct (map dr_date_id (db_sales db))" and "distinct (map hr_id (db_holds db))"
    and "distinct (map or_id (db_orders db))"
  using assms by (auto simp: db_ok_def sales_ok_def holds_ok_def links_ok_def order_link_def o_def)

lemma links_ok_holds:
  assumes "links_ok links holds"
    and "\<And>h. h \<in> set holds \<Longrightarrow> \<exists>x \<in> set holds'. hr_id x = hr_id h \<and> hr_date_id x = hr_date_id h \<and>
      hr_quantity x = hr_quantity h"
  shows "links_ok links holds'"
  using assms unfolding links_ok_def by fastforce

end
