(* ===== verification/Ledger_Statements.thy ===== *)
theory Ledger_Statements
  imports Seat_Ledger
begin

text \<open>
  What each statement on \<open>date_sales\<close> and each repository call of a purchase does to the tables, in
  the terms of the ledger: the row of one date replaced, its seats moved between free, held and
  sold, and every other table left as it was.
\<close>

section \<open>One date's row replaced\<close>

definition date_moved :: "ident \<Rightarrow> date_sales_row \<Rightarrow> date_sales_row \<Rightarrow> db \<Rightarrow> db \<Rightarrow> bool" where
  "date_moved d r r' db db' \<longleftrightarrow>
     tbl_find dr_date_id d (db_sales db) = Some r \<and> dr_date_id r' = d \<and> date_sales_check r' \<and>
     db' = db\<lparr>db_sales := tbl_update (\<lambda>x. dr_date_id x = d) (\<lambda>_. r') (db_sales db)\<rparr>"

text \<open>The date's seats moved by \<open>g\<close>, whatever its holds carry.\<close>

definition effect :: "ident \<Rightarrow> (seats \<Rightarrow> seats) \<Rightarrow> db \<Rightarrow> db \<Rightarrow> bool" where
  "effect d g db db' \<longleftrightarrow>
     (\<exists>r r'. date_moved d r r' db db' \<and> (\<forall>n. row_seats r' n = g (row_seats r n)))"

lemma tbl_update_one:
  assumes "distinct (map key t)" and "tbl_find key k t = Some r" and "p r"
    and "\<And>x. p x \<Longrightarrow> key x = k"
  shows "tbl_update p f t = tbl_update (\<lambda>x. key x = k) (\<lambda>_. f r) t"
  unfolding tbl_update_def
proof (rule map_cong [OF refl])
  fix x assume x: "x \<in> set t"
  have "x = r" if "key x = k"
    using tbl_find_unique [OF assms(1) x] that assms(2) by simp
  with assms(3,4) show "(if p x then f x else x) = (if key x = k then f r else x)" by auto
qed

lemma sales_update_Inr [result_simps]:
  "sales_update p f db = Inr (n, db') \<longleftrightarrow>
    (\<forall>r \<in> set (db_sales db). p r \<longrightarrow> date_sales_check (f r)) \<and>
    n = tbl_affected p (db_sales db) \<and> db' = db\<lparr>db_sales := tbl_update p f (db_sales db)\<rparr>"
  by (auto simp: sales_update_def result_simps)

lemma sales_update_one:
  assumes "sales_update p f db = Inr (n, db')" and "distinct (map dr_date_id (db_sales db))"
    and "\<And>x. p x \<Longrightarrow> dr_date_id x = d" and "\<And>x. dr_date_id (f x) = dr_date_id x"
  shows "n = 0 \<and> db' = db \<and> \<not> (\<exists>r. tbl_find dr_date_id d (db_sales db) = Some r \<and> p r) \<or>
    n = 1 \<and> (\<exists>r. p r \<and> date_moved d r (f r) db db')"
proof (cases "\<exists>r. tbl_find dr_date_id d (db_sales db) = Some r \<and> p r")
  case True
  then obtain r where r: "tbl_find dr_date_id d (db_sales db) = Some r" and "p r" by blast
  have "r \<in> set (db_sales db)" using tbl_find_SomeD [OF r] by blast
  with assms(1) \<open>p r\<close> have "date_sales_check (f r)" by (auto simp: sales_update_Inr)
  moreover have "tbl_affected p (db_sales db) = 1"
    using tbl_affected_key [OF assms(2), of p d] assms(3) r \<open>p r\<close> by auto
  moreover have "dr_date_id (f r) = d" using assms(3,4) \<open>p r\<close> by simp
  ultimately show ?thesis
    using assms(1) r \<open>p r\<close>
      tbl_update_one [of dr_date_id "db_sales db" d r p f, OF assms(2) r \<open>p r\<close> assms(3)]
    by (auto simp: sales_update_Inr date_moved_def)
next
  case False
  have none: "\<not> p x" if "x \<in> set (db_sales db)" for x
    using False that assms(3) tbl_find_unique [OF assms(2) that] by metis
  then have "tbl_affected p (db_sales db) = 0" by (simp add: tbl_affected_def filter_empty_conv)
  with False assms(1) none show ?thesis by (auto simp: sales_update_Inr tbl_update_none)
qed

lemma date_moved_same:
  assumes "date_moved d r r' db db'"
  shows "db_holds db' = db_holds db" and "db_orders db' = db_orders db"
    and "map dr_date_id (db_sales db') = map dr_date_id (db_sales db)"
  using assms by (auto simp: date_moved_def tbl_update_def)

lemma effect_same:
  assumes "effect d g db db'"
  shows "db_holds db' = db_holds db" and "db_orders db' = db_orders db"
    and "map dr_date_id (db_sales db') = map dr_date_id (db_sales db)"
  using assms date_moved_same by (auto simp: effect_def)

lemma effect_sales_ok:
  assumes "effect d g db db'" and "sales_ok (db_sales db)"
  shows "sales_ok (db_sales db')"
  using assms effect_same(3) [OF assms(1)]
  by (auto simp: effect_def date_moved_def sales_ok_def table_simps)

lemma effect_ledger:
  assumes "effect d g db db'" and "\<And>e. held' e = held e + (if e = d then n else 0)"
    and "\<And>s. sl_held (g s) = sl_held s"
  shows "\<exists>s. ledger_of (db_sales db) held d = Some s \<and> sl_held s = held d \<and>
    ledger_of (db_sales db') held' = (ledger_of (db_sales db) held)(d \<mapsto> (g s)\<lparr>sl_held := held d + n\<rparr>)"
proof -
  obtain r r' where moved: "date_moved d r r' db db'" and g: "\<And>n. row_seats r' n = g (row_seats r n)"
    using assms(1) by (auto simp: effect_def)
  then have found: "tbl_find dr_date_id d (db_sales db) = Some r" and d: "dr_date_id r' = d"
    and db': "db_sales db' = tbl_update (\<lambda>x. dr_date_id x = d) (\<lambda>_. r') (db_sales db)"
    by (auto simp: date_moved_def)
  let ?f = "\<lambda>x. if dr_date_id x = d then r' else x"
  have upd: "tbl_update (\<lambda>x. dr_date_id x = d) (\<lambda>_. r') (db_sales db) =
      tbl_update (\<lambda>x. dr_date_id x = d) ?f (db_sales db)"
    by (simp add: tbl_update_def)
  have "ledger_of (tbl_update (\<lambda>x. dr_date_id x = d) ?f (db_sales db)) held' =
      (ledger_of (db_sales db) held)(d \<mapsto> row_seats (?f r) (held d + n))"
    by (rule ledger_of_move [OF found]) (use d assms(2) tbl_find_SomeD [OF found] in auto)
  moreover have "row_seats r' (held d + n) = (g (row_seats r (held d)))\<lparr>sl_held := held d + n\<rparr>"
    by (simp flip: g) (simp add: row_seats_def)
  ultimately show ?thesis
    using found tbl_find_SomeD [OF found] by (simp add: ledger_of_def db' upd row_seats_def)
qed

text \<open>What the row's constraints say of the seats a move leaves.\<close>

lemma effect_check:
  assumes "effect d g db db'"
  shows "\<exists>r r'. tbl_find dr_date_id d (db_sales db) = Some r \<and>
    (\<forall>n. row_seats r' n = g (row_seats r n)) \<and> 0 \<le> sl_free (g (row_seats r n)) \<and>
    0 \<le> sl_sold (g (row_seats r n))"
proof -
  obtain r r' where "date_moved d r r' db db'" and g: "\<And>n. row_seats r' n = g (row_seats r n)"
    using assms by (auto simp: effect_def)
  then have "tbl_find dr_date_id d (db_sales db) = Some r" and "date_sales_check r'"
    by (auto simp: date_moved_def)
  moreover have "sl_free (g (row_seats r n)) = dr_seats_available r' + dr_priority_pool_seats r'"
    "sl_sold (g (row_seats r n)) = dr_seats_sold r'" for n
    by (simp_all flip: g) (simp_all add: row_seats_def)
  ultimately show ?thesis using g by (auto simp: date_sales_check_def)
qed

section \<open>The statements\<close>

definition less_free :: "int \<Rightarrow> seats \<Rightarrow> seats" where
  "less_free q s = s\<lparr>sl_free := sl_free s - q\<rparr>"

definition more_free :: "int \<Rightarrow> seats \<Rightarrow> seats" where
  "more_free q s = s\<lparr>sl_free := sl_free s + q\<rparr>"

definition more_sold :: "int \<Rightarrow> seats \<Rightarrow> seats" where
  "more_sold q s = s\<lparr>sl_sold := sl_sold s + q\<rparr>"

definition more_seats :: "int \<Rightarrow> seats \<Rightarrow> seats" where
  "more_seats n s = s\<lparr>sl_capacity := sl_capacity s + n, sl_free := sl_free s + n\<rparr>"

lemmas seat_moves = less_free_def more_free_def more_sold_def more_seats_def

lemma one_more_move_simps [simp]:
  "dr_date_id (one_more_move r) = dr_date_id r"
  "dr_capacity_total (one_more_move r) = dr_capacity_total r"
  "dr_seats_available (one_more_move r) = dr_seats_available r"
  "dr_priority_pool_seats (one_more_move r) = dr_priority_pool_seats r"
  "dr_seats_sold (one_more_move r) = dr_seats_sold r"
  by (simp_all add: one_more_move_def)

lemma take_seats_Inr:
  assumes "take_seats t q now db = Inr (True, t', db')" and "distinct (map dr_date_id (db_sales db))"
  shows "effect (ds_date_id (current (root t))) (less_free q) db db'"
proof -
  let ?d = "ds_date_id (current (root t))"
  let ?p = "\<lambda>r. dr_date_id r = ?d \<and> dr_on_sale r \<and> q \<le> dr_seats_available r \<and> before_sales_end now r"
  let ?f = "\<lambda>r. one_more_move (r\<lparr>dr_seats_available := dr_seats_available r - q\<rparr>)"
  have "sales_update ?p ?f db = Inr (1, db')"
    using assms(1) by (auto simp: take_seats_def bindE_eq_Inr split: if_splits)
  from sales_update_one [OF this assms(2), of ?d]
  obtain r where "date_moved ?d r (?f r) db db'" by auto
  moreover have "row_seats (?f r) n = less_free q (row_seats r n)" for n
    by (simp add: row_seats_def less_free_def)
  ultimately show ?thesis unfolding effect_def by blast
qed

lemma take_seats_from_pool_Inr:
  assumes "take_seats_from_pool t hold_id q now db = Inr (True, t', db')"
    and "distinct (map dr_date_id (db_sales db))"
  shows "\<exists>db1 n. effect (ds_date_id (current (root t))) (less_free q) db db1 \<and>
    db' = db1\<lparr>db_holds := tbl_update (\<lambda>h. hr_id h = hold_id) (\<lambda>h. h\<lparr>hr_pool_seats := n\<rparr>) (db_holds db)\<rparr> \<and>
    (\<forall>h \<in> set (db_holds db). hr_id h = hold_id \<longrightarrow> seat_hold_check (h\<lparr>hr_pool_seats := n\<rparr>))"
proof -
  let ?d = "ds_date_id (current (root t))"
  let ?p = "pool_sells ?d q now"
  let ?f = "\<lambda>r. one_more_move (take_from_pool now q r)"
  obtain m db1 taken where upd: "sales_update ?p ?f db = Inr (m, db1)"
    and found: "find ?p (db_sales db) = Some taken"
    and holds: "\<forall>h \<in> set (db_holds db1). hr_id h = hold_id \<longrightarrow>
      seat_hold_check (h\<lparr>hr_pool_seats := pool_share now q taken\<rparr>)"
    and db': "db' = db1\<lparr>db_holds := tbl_update (\<lambda>h. hr_id h = hold_id)
      (\<lambda>h. h\<lparr>hr_pool_seats := pool_share now q taken\<rparr>) (db_holds db1)\<rparr>"
    using assms(1)
    by (auto simp: take_seats_from_pool_def Let_def bindE_eq_Inr table_update_Inr
        split: option.splits if_splits)
  have "\<exists>r. tbl_find dr_date_id ?d (db_sales db) = Some r \<and> ?p r"
    using found tbl_find_unique [OF assms(2), of taken]
    by (auto simp: find_Some_iff pool_sells_def)
  with sales_update_one [OF upd assms(2), of ?d]
  obtain r where moved: "date_moved ?d r (?f r) db db1"
    by (auto simp: pool_sells_def take_from_pool_def)
  have "row_seats (?f r) n = less_free q (row_seats r n)" for n
    by (simp add: row_seats_def less_free_def take_from_pool_def)
  with moved have "effect ?d (less_free q) db db1" unfolding effect_def by blast
  moreover have "db_holds db1 = db_holds db" using date_moved_same(1) [OF moved] .
  ultimately show ?thesis using db' holds by auto
qed

lemma sell_held_seats_Inr:
  assumes "sell_held_seats d q db = Inr db'" and "distinct (map dr_date_id (db_sales db))"
    and "d \<in> set (map dr_date_id (db_sales db))"
  shows "effect d (more_sold q) db db'"
proof -
  let ?f = "\<lambda>r. one_more_move (r\<lparr>dr_seats_sold := dr_seats_sold r + q\<rparr>)"
  obtain n where upd: "sales_update (\<lambda>r. dr_date_id r = d) ?f db = Inr (n, db')"
    using assms(1) by (auto simp: sell_held_seats_def bindE_eq_Inr)
  have "\<exists>r. tbl_find dr_date_id d (db_sales db) = Some r"
    using assms(3) by (metis not_None_eq set_map tbl_find_None)
  then have "\<exists>r. tbl_find dr_date_id d (db_sales db) = Some r \<and> dr_date_id r = d"
    using tbl_find_SomeD by metis
  with sales_update_one [OF upd assms(2), of d] obtain r where "date_moved d r (?f r) db db'" by auto
  moreover have "row_seats (?f r) n = more_sold q (row_seats r n)" for n
    by (simp add: row_seats_def more_sold_def)
  ultimately show ?thesis unfolding effect_def by blast
qed

lemma return_held_seats_Inr:
  assumes "return_held_seats d q pool now db = Inr db'" and "distinct (map dr_date_id (db_sales db))"
    and "d \<in> set (map dr_date_id (db_sales db))"
  shows "effect d (more_free q) db db'"
proof -
  let ?f = "\<lambda>r. let to_pool = (if window_open_at now r then pool else 0)
    in one_more_move (r\<lparr>dr_priority_pool_seats := dr_priority_pool_seats r + to_pool,
      dr_seats_available := dr_seats_available r + q - to_pool\<rparr>)"
  obtain n where upd: "sales_update (\<lambda>r. dr_date_id r = d) ?f db = Inr (n, db')"
    using assms(1) by (auto simp: return_held_seats_def bindE_eq_Inr)
  have "\<exists>r. tbl_find dr_date_id d (db_sales db) = Some r"
    using assms(3) by (metis not_None_eq set_map tbl_find_None)
  then have "\<exists>r. tbl_find dr_date_id d (db_sales db) = Some r \<and> dr_date_id r = d"
    using tbl_find_SomeD by metis
  with sales_update_one [OF upd assms(2), of d] obtain r where "date_moved d r (?f r) db db'"
    by (auto simp: Let_def)
  moreover have "row_seats (?f r) n = more_free q (row_seats r n)" for n
    by (simp add: row_seats_def more_free_def Let_def)
  ultimately show ?thesis unfolding effect_def by blast
qed

lemma take_and_sell_seats_Inr:
  assumes "take_and_sell_seats d q now from_pool db = Inr (taken, db')"
    and "distinct (map dr_date_id (db_sales db))"
  shows "if taken then effect d (more_sold q \<circ> less_free q) db db' else db' = db"
proof -
  let ?o = "\<lambda>r. if from_pool then open_pool_at now r else 0"
  let ?p = "\<lambda>r. dr_date_id r = d \<and> dr_on_sale r \<and> q \<le> dr_seats_available r + ?o r \<and> before_sales_end now r"
  let ?f = "\<lambda>r. let share = min (?o r) q
    in one_more_move (r\<lparr>dr_priority_pool_seats := dr_priority_pool_seats r - share,
      dr_seats_available := dr_seats_available r - (q - share), dr_seats_sold := dr_seats_sold r + q\<rparr>)"
  obtain n where upd: "sales_update ?p ?f db = Inr (n, db')" and taken: "taken \<longleftrightarrow> n = 1"
    using assms(1) by (auto simp: take_and_sell_seats_def Let_def bindE_eq_Inr)
  have seats: "row_seats (?f r) n = (more_sold q \<circ> less_free q) (row_seats r n)" for r n
    by (simp add: row_seats_def more_sold_def less_free_def Let_def)
  have keeps: "dr_date_id (?f x) = dr_date_id x" for x by (simp add: Let_def)
  consider "n = 0" "db' = db" | r where "n = 1" "date_moved d r (?f r) db db'"
    using sales_update_one [OF upd assms(2), of d, OF _ keeps] by auto
  then show ?thesis
  proof cases
    case 1
    with taken show ?thesis by simp
  next
    case 2
    then have "effect d (more_sold q \<circ> less_free q) db db'" unfolding effect_def using seats by blast
    with 2 taken show ?thesis by simp
  qed
qed

lemma release_sold_seats_Inr:
  assumes "release_sold_seats d q db = Inr (b, db')" and "distinct (map dr_date_id (db_sales db))"
  shows "if b then effect d (more_free q \<circ> more_sold (- q)) db db' else db' = db"
proof -
  let ?p = "\<lambda>r. dr_date_id r = d \<and> q \<le> dr_seats_sold r \<and> dr_outcome r \<noteq> Some Outcome_Cancelled"
  let ?f = "\<lambda>r. one_more_move (r\<lparr>dr_seats_available := dr_seats_available r + q,
    dr_seats_sold := dr_seats_sold r - q\<rparr>)"
  obtain n where upd: "sales_update ?p ?f db = Inr (n, db')" and b: "b \<longleftrightarrow> n = 1"
    using assms(1) by (auto simp: release_sold_seats_def bindE_eq_Inr)
  have seats: "row_seats (?f r) n = (more_free q \<circ> more_sold (- q)) (row_seats r n)" for r n
    by (simp add: row_seats_def more_sold_def more_free_def)
  consider "n = 0" "db' = db" | r where "n = 1" "date_moved d r (?f r) db db'"
    using sales_update_one [OF upd assms(2), of d] by auto
  then show ?thesis
  proof cases
    case 1
    with b show ?thesis by simp
  next
    case 2
    then have "effect d (more_free q \<circ> more_sold (- q)) db db'" unfolding effect_def using seats by blast
    with 2 b show ?thesis by simp
  qed
qed

end
