(* ===== verification/Ledger_Frames.thy ===== *)
theory Ledger_Frames
  imports Ledger_Statements Seat_Order_Props
begin

text \<open>
  What the calls of a transaction leave alone: an order's commands keep its key, its save moves at
  most the hold it names, and the outbox, the kept answer, the refunds and the waitlist stand beside
  the three tables of the ledger. Then what a hold's end and a hold's insertion do to them.
\<close>

section \<open>The same ledger tables\<close>

definition same_core :: "db \<Rightarrow> db \<Rightarrow> bool" where
  "same_core db db' \<longleftrightarrow> db_sales db' = db_sales db \<and> db_holds db' = db_holds db \<and>
     map order_link (db_orders db') = map order_link (db_orders db)"

lemma same_core_refl [simp]: "same_core db db"
  by (simp add: same_core_def)

lemma same_core_trans: "same_core a b \<Longrightarrow> same_core b d \<Longrightarrow> same_core a d"
  by (simp add: same_core_def)

lemma same_core_ok: "same_core db db' \<Longrightarrow> db_ok db \<Longrightarrow> db_ok db'"
  using db_ok_cong [of db' db] by (simp add: same_core_def)

lemma same_core_abs: "same_core db db' \<Longrightarrow> ledger_abs db' = ledger_abs db"
  using ledger_abs_cong [of db' db] by (simp add: same_core_def)

lemma same_core_fields [simp]:
  "same_core db (db\<lparr>db_seats := a\<rparr>)" "same_core db (db\<lparr>db_refunds := b\<rparr>)"
  "same_core db (db\<lparr>db_entries := e\<rparr>)" "same_core db (db\<lparr>db_outbox := g\<rparr>)"
  "same_core db (db\<lparr>db_publications := h\<rparr>)" "same_core db (db\<lparr>db_processed := i\<rparr>)"
  "same_core db (db\<lparr>db_settlements := j\<rparr>)" "same_core db (write_outbox rows db)"
  "same_core db (db\<lparr>db_inbox := k\<rparr>)" "same_core db (db\<lparr>db_credits := l\<rparr>)"
  "same_core db (db\<lparr>db_replay_windows := m\<rparr>)" "same_core db (db\<lparr>db_replay_accesses := n\<rparr>)"
  by (simp_all add: same_core_def write_outbox_def)

lemma same_core_orders:
  "(\<And>o'. p o' \<Longrightarrow> order_link (f o') = order_link o') \<Longrightarrow>
    same_core db (db\<lparr>db_orders := tbl_update p f (db_orders db)\<rparr>)"
  by (simp add: same_core_def map_tbl_update_same)

section \<open>An order's key\<close>

definition order_key :: "seat_order_snapshot \<Rightarrow> ident \<times> ident \<times> int \<times> ident" where
  "order_key s = (so_id s, so_date_id s, so_quantity s, so_hold_id s)"

lemma order_key_snapshot [simp]: "order_key (seat_order_snapshot_of c r seats refunds) = order_link r"
  by (simp add: order_key_def order_link_def seat_order_snapshot_of_def Let_def)

lemma order_fail_key [simp]: "order_key (current (fst (order_fail f now a))) = order_key (current a)"
  by (simp add: order_fail_def Let_def order_key_def advance_def)

lemma record_intent_key [simp]:
  "order_key (current (fst (record_intent c i st now a))) = order_key (current a)"
  by (simp add: record_intent_def Let_def order_key_def advance_def)

lemma owe_unseated_key [simp]:
  "order_key (current (fst (owe_unseated_payment_back c i reason ref now a))) = order_key (current a)"
  by (simp add: owe_unseated_payment_back_def owe_def Let_def order_key_def advance_def)

lemma order_pay_key: "order_pay c i issues now a = Inr a' \<Longrightarrow> order_key (current a') = order_key (current a)"
  by (auto simp: order_pay_def Let_def order_key_def advance_def split: if_splits)

lemma renew_hold_key:
  "renew_hold h e now a = Inr a' \<Longrightarrow>
    order_key (current a') = (so_id (current a), so_date_id (current a), so_quantity (current a), h)"
  by (auto simp: renew_hold_def order_key_def advance_def split: if_splits)

lemma order_dispute_key [simp]: "order_key (current (fst (order_dispute c a))) = order_key (current a)"
  by (simp add: order_dispute_def order_key_def advance_def)

lemma intent_cancelled_key [simp]: "order_key (current (intent_cancelled a)) = order_key (current a)"
  by (simp add: intent_cancelled_def order_key_def advance_def)

lemma owe_refund_key: "owe_refund c r now a = Inr (a', x) \<Longrightarrow> order_key (current a') = order_key (current a)"
  by (auto simp: owe_refund_def owe_def Let_def order_key_def advance_def bindE_eq_Inr
      split: option.splits if_splits)

lemma refund_made_key: "refund_made c i ref now a = Inr a' \<Longrightarrow> order_key (current a') = order_key (current a)"
  by (auto simp: refund_made_def Let_def order_key_def advance_def split: option.splits if_splits)

lemma cancel_seats_key: "cancel_seats c x now a = Inr a' \<Longrightarrow> order_key (current a') = order_key (current a)"
  by (auto simp: cancel_seats_def Let_def order_key_def advance_def bindE_eq_Inr)

lemma credit_seats_key: "credit_seats c x now a = Inr a' \<Longrightarrow> order_key (current a') = order_key (current a)"
  by (auto simp: credit_seats_def Let_def order_key_def advance_def bindE_eq_Inr)

definition order_of :: "db \<Rightarrow> tracked_order \<Rightarrow> bool" where
  "order_of db t \<longleftrightarrow> order_key (current (root t)) \<in> set (map order_link (db_orders db))"

lemma find_order_of:
  assumes "find_order c order_id db = Some t"
  shows "order_of db t" and "so_id (current (root t)) = order_id"
proof -
  obtain r where r: "tbl_find or_id order_id (db_orders db) = Some r"
    and t: "t = loaded (restore (seat_order_snapshot_of c r (seats_of_order c order_id db)
      (refunds_of_order c order_id db))) (or_version r)"
    using assms by (auto simp: find_order_def)
  have row: "r \<in> set (db_orders db)" "or_id r = order_id" using tbl_find_SomeD [OF r] by auto
  show "order_of db t" using row(1) by (simp add: order_of_def t)
  show "so_id (current (root t)) = order_id"
    using row(2) by (simp add: t seat_order_snapshot_of_def Let_def)
qed

lemma load_order_of:
  "load_order c order_id db = Inr t \<Longrightarrow> order_of db t"
  by (auto simp: load_order_def dest: find_order_of(1) split: option.splits)

lemma order_of_cong:
  "same_core db db' \<Longrightarrow> order_key (current (root t')) = order_key (current (root t)) \<Longrightarrow>
    order_of db t \<Longrightarrow> order_of db' t'"
  by (simp add: order_of_def same_core_def)

section \<open>Saving an order\<close>

lemma insert_refund_same: "insert_refund i r db = Inr db' \<Longrightarrow> same_core db db'"
  by (auto simp: insert_refund_def Let_def split: if_splits option.splits)

lemma save_refunds_same:
  assumes "save_refunds before s db = Inr db'"
  shows "same_core db db'"
proof -
  obtain db1 where "foldE (insert_refund (so_id s))
      (filter (\<lambda>r. find (\<lambda>x. rf_id x = rf_id r) (so_refunds before) = None) (so_refunds s)) db = Inr db1"
    and db': "db' = fold (\<lambda>r db. case find (\<lambda>x. rf_id x = rf_id r) (so_refunds before) of
             None \<Rightarrow> db
           | Some b \<Rightarrow>
               if rf_refunded_at b = rf_refunded_at r \<and> rf_ref b = rf_ref r then db
               else db\<lparr>db_refunds := tbl_update (\<lambda>x. rr_id x = rf_id r)
                      (\<lambda>x. x\<lparr>rr_refund_ref := rf_ref r, rr_refunded_at := rf_refunded_at r\<rparr>)
                      (db_refunds db)\<rparr>) (so_refunds s) db1"
    using assms by (auto simp: save_refunds_def Let_def bindE_eq_Inr)
  from this(1) have "same_core db db1"
    by (rule foldE_invariant [where P = "same_core db"])
      (simp, metis insert_refund_same same_core_trans)
  moreover have "same_core x (fold (\<lambda>r db. case find (\<lambda>x. rf_id x = rf_id r) (so_refunds before) of
             None \<Rightarrow> db
           | Some b \<Rightarrow>
               if rf_refunded_at b = rf_refunded_at r \<and> rf_ref b = rf_ref r then db
               else db\<lparr>db_refunds := tbl_update (\<lambda>x. rr_id x = rf_id r)
                      (\<lambda>x. x\<lparr>rr_refund_ref := rf_ref r, rr_refunded_at := rf_refunded_at r\<rparr>)
                      (db_refunds db)\<rparr>) rs x)" for rs x
    by (induction rs arbitrary: x)
      (auto intro: same_core_trans [OF same_core_fields(2)] split: option.splits)
  ultimately show ?thesis unfolding db' by (rule same_core_trans)
qed

lemma save_moved_seats_same: "save_moved_seats before s db = Inr db' \<Longrightarrow> same_core db db'"
  unfolding save_moved_seats_def
  by (erule foldE_invariant [where P = "same_core db"])
    (auto simp: bindE_eq_Inr intro: same_core_trans split: option.splits if_splits)

text \<open>The row found keeps its key but for the hold the snapshot names.\<close>

lemma save_order_Inr:
  assumes "save_order t db = Inr (t', db')" and "distinct (map or_id (db_orders db))"
  shows "\<exists>db1. same_core db1 db' \<and> db1 = db\<lparr>db_orders := tbl_update
      (\<lambda>r. or_id r = so_id (current (root t))) (order_state_columns_of (current (root t))) (db_orders db)\<rparr>"
    and "root t' = root t"
proof -
  let ?s = "current (root t)"
  obtain v orders seats db1 db2 b where
    orders: "save_versioned (\<lambda>r. or_id r = so_id ?s) or_version v (order_state_columns_of ?s)
      (db_orders db) = Inr orders"
    and refunds: "save_refunds b ?s (db\<lparr>db_orders := orders, db_seats := seats\<rparr>) = Inr db1"
    and moved: "save_moved_seats b ?s db1 = Inr db2" and res: "t' = written (so_version ?s) t" "db' = db2"
    using assms(1)
    by (auto simp: save_order_def Let_def bindE_eq_Inr split: option.splits)
  have eq: "orders = tbl_update (\<lambda>r. or_id r = so_id ?s) (order_state_columns_of ?s) (db_orders db)"
    using save_versioned_Inr [OF orders assms(2)] by blast
  have "same_core (db\<lparr>db_orders := orders\<rparr>) (db\<lparr>db_orders := orders, db_seats := seats\<rparr>)"
    by (simp add: same_core_def)
  then have "same_core (db\<lparr>db_orders := orders\<rparr>) db'"
    unfolding res
    using save_refunds_same [OF refunds] save_moved_seats_same [OF moved] same_core_trans by metis
  then show "\<exists>db1. same_core db1 db' \<and> db1 = db\<lparr>db_orders := tbl_update
      (\<lambda>r. or_id r = so_id ?s) (order_state_columns_of ?s) (db_orders db)\<rparr>"
    unfolding eq by blast
  show "root t' = root t" by (simp add: res)
qed

lemma order_link_columns:
  "order_link (order_state_columns_of s r) = (or_id r, or_date_id r, or_quantity r, so_hold_id s)"
  by (simp add: order_link_def order_state_columns_of_def)

lemma save_order_same:
  assumes "save_order t db = Inr (t', db')" and "distinct (map or_id (db_orders db))" and "order_of db t"
  shows "same_core db db'" and "root t' = root t"
proof -
  let ?s = "current (root t)"
  let ?orders = "tbl_update (\<lambda>r. or_id r = so_id ?s) (order_state_columns_of ?s) (db_orders db)"
  obtain o0 where o0: "o0 \<in> set (db_orders db)" "order_link o0 = order_key ?s"
    using assms(3) by (auto simp: order_of_def)
  have "order_link (order_state_columns_of ?s r) = order_link r"
    if "r \<in> set (db_orders db)" "or_id r = so_id ?s" for r
  proof -
    have "or_id o0 = or_id r" using o0(2) that(2) by (simp add: order_link_def order_key_def)
    then have "r = o0" using that(1) o0(1) assms(2) by (auto simp: distinct_map inj_on_def)
    then show ?thesis using o0(2) unfolding order_link_columns by (simp add: order_link_def order_key_def)
  qed
  then have "map order_link ?orders = map order_link (db_orders db)"
    by (simp add: tbl_update_def)
  then have "same_core db (db\<lparr>db_orders := ?orders\<rparr>)" by (simp add: same_core_def)
  then show "same_core db db'" using save_order_Inr(1) [OF assms(1,2)] same_core_trans by blast
  show "root t' = root t" by (rule save_order_Inr(2) [OF assms(1,2)])
qed

lemma save_resumed_same:
  assumes "save_resumed c tp t db = Inr (t', db')" and "distinct (map or_id (db_orders db))"
    and "order_of db t"
  shows "same_core db db'" and "root t' = root t"
proof -
  obtain db1 where saved: "save_order t db = Inr (t', db1)"
    and db': "\<exists>rows. db' = write_outbox rows db1"
    using assms(1) by (auto simp: save_resumed_def bindE_eq_Inr)
  show "same_core db db'"
    using save_order_same(1) [OF saved assms(2,3)] db' same_core_trans same_core_fields(8) by metis
  show "root t' = root t" by (rule save_order_same(2) [OF saved assms(2,3)])
qed

text \<open>An order found, changed by a command that keeps its key, and saved over tables the ledger sees the same.\<close>

lemma found_order_saved:
  assumes "find_order c i db = Some t" and "order_key (current a) = order_key (current (root t))"
    and "same_core db db1" and "save_order (with_root a t) db1 = Inr (t1, db2)"
    and "distinct (map or_id (db_orders db))"
  shows "same_core db db2" and "root t1 = a"
proof -
  have "map or_id (db_orders x) = map fst (map order_link (db_orders x))" for x
    by (simp add: order_link_def)
  then have "distinct (map or_id (db_orders db1))"
    using assms(3,5) unfolding same_core_def by metis
  moreover have "order_of db1 (with_root a t)"
    using find_order_of(1) [OF assms(1)] assms(2,3) by (simp add: order_of_def same_core_def)
  ultimately show "same_core db db2" "root t1 = a"
    using save_order_same [OF assms(4)] same_core_trans [OF assms(3)] by auto
qed

section \<open>Beside the aggregate\<close>

lemma store_answer_same: "store_answer i a db = (b, db') \<Longrightarrow> same_core db db'"
  by (auto simp: store_answer_def Let_def order_link_def intro!: same_core_orders)

lemma kept_same: "kept i a db = Inr (x, db') \<Longrightarrow> same_core db db'"
  by (auto simp: kept_def dest: store_answer_same split: prod.splits bool.splits option.splits)

lemma answer_of_same: "answer_of c origin seen now s db = Inr (x, db') \<Longrightarrow> same_core db db'"
  by (auto simp: answer_of_def dest: kept_same split: if_splits option.splits)

lemma record_refund_traceparent_same: "record_refund_traceparent i tp db = Inr db' \<Longrightarrow> same_core db db'"
  by (auto simp: record_refund_traceparent_def Let_def split: if_splits)

lemma owe_intent_cancellation_again_same: "same_core db (owe_intent_cancellation_again i db)"
  by (auto simp: owe_intent_cancellation_again_def order_link_def intro!: same_core_orders)

lemma record_waiting_intent_same:
  assumes "record_waiting_intent c i st now t db = (t', db')"
  shows "same_core db db'" and "order_key (current (root t')) = order_key (current (root t))"
proof -
  obtain a b where ri: "record_intent (order_rules c) i st now (root t) = (a, b)" by force
  with assms show "same_core db db'"
    by (auto simp: record_waiting_intent_def owe_intent_cancellation_again_same)
  show "order_key (current (root t')) = order_key (current (root t))"
    using assms ri record_intent_key [of "order_rules c" i st now "root t"]
    by (auto simp: record_waiting_intent_def)
qed

lemma owe_payment_back_same:
  assumes "owe_payment_back c d out ref now tp t db = Inr (t', db')"
    and "distinct (map or_id (db_orders db))" and "order_of db t"
  shows "same_core db db'" and "order_key (current (root t')) = order_key (current (root t))"
proof -
  let ?owed = "owe_unseated_payment_back (order_rules c) (dw_refund_id d)
    (refund_reason_on_date (checkout_rules c) out Refund_Hold_Expired_Capacity_Lost) ref now (root t)"
  obtain a b where owed: "?owed = (a, b)" by force
  have key: "order_key (current a) = order_key (current (root t))"
    using owe_unseated_key [of "order_rules c" "dw_refund_id d"
        "refund_reason_on_date (checkout_rules c) out Refund_Hold_Expired_Capacity_Lost" ref now "root t"]
    by (simp add: owed)
  have of: "order_of db (with_root a t)" using assms(3) key by (simp add: order_of_def)
  consider "b = None" "t' = with_root a t" "db' = db"
    | i db1 where "b = Some i" "save_order (with_root a t) db = Inr (t', db1)"
      "record_refund_traceparent i tp db1 = Inr db'"
    using assms(1) owed by (auto simp: owe_payment_back_def bindE_eq_Inr split: option.splits)
  then have "same_core db db' \<and> root t' = a"
  proof cases
    case 1
    then show ?thesis by simp
  next
    case 2
    then show ?thesis
      using save_order_same [OF _ assms(2) of] record_refund_traceparent_same same_core_trans
      by (metis tracked_simps(10))
  qed
  with key show "same_core db db'" and "order_key (current (root t')) = order_key (current (root t))"
    by auto
qed

lemma issue_seats_key:
  "issue_seats c d seen sales ref now t = Inr t' \<Longrightarrow>
    order_key (current (root t')) = order_key (current (root t))"
  by (auto simp: issue_seats_def Let_def bindE_eq_Inr dest: order_pay_key split: option.splits)

section \<open>A hold that ends\<close>

text \<open>The hold \<open>h\<close>, active before, left \<open>active\<close>; nothing else of the three tables moved.\<close>

definition hold_ended :: "seat_hold_row \<Rightarrow> db \<Rightarrow> db \<Rightarrow> bool" where
  "hold_ended h db db' \<longleftrightarrow> h \<in> set (db_holds db) \<and> hr_state h = Hold_Active \<and>
     (\<exists>st v. st \<noteq> Hold_Active \<and> db' = db\<lparr>db_holds := tbl_update (\<lambda>x. hr_id x = hr_id h)
        (\<lambda>x. x\<lparr>hr_state := st, hr_version := v\<rparr>) (db_holds db)\<rparr>) \<and>
     (\<forall>x \<in> set (db_holds db'). seat_hold_check x)"

lemma active_hold_Some:
  assumes "active_hold i db = Some t"
  shows "\<exists>h \<in> set (db_holds db). hr_id h = i \<and> hr_state h = Hold_Active \<and>
    current (root t) = seat_hold_snapshot_of h \<and> version_of t = Some (hr_version h)"
proof -
  obtain h where "tbl_find hr_id i (db_holds db) = Some h"
    and t: "t = loaded (restore (seat_hold_snapshot_of h)) (hr_version h)"
    and active: "hold_is_active (seat_hold_snapshot_of h)"
    using assms by (auto simp: active_hold_def find_hold_def split: option.splits if_splits)
  with tbl_find_SomeD have "h \<in> set (db_holds db)" "hr_id h = i" by fastforce+
  with active show ?thesis by (auto simp: t hold_is_active_def seat_hold_snapshot_of_def)
qed

lemma save_ended_hold:
  assumes "save_hold t db = Inr (t', db')" and "distinct (map hr_id (db_holds db))"
    and "h \<in> set (db_holds db)" and "hr_state h = Hold_Active" and "version_of t = Some v"
    and "sh_id (current (root t)) = hr_id h" and "sh_state (current (root t)) \<noteq> Hold_Active"
  shows "hold_ended h db db'" and "root t' = root t"
proof -
  let ?s = "current (root t)"
  obtain rows where
    rows: "save_versioned (\<lambda>r. hr_id r = sh_id ?s) hr_version v
      (\<lambda>r. r\<lparr>hr_state := sh_state ?s, hr_version := sh_version ?s\<rparr>) (db_holds db) = Inr rows"
    and check: "list_all seat_hold_check rows" and db': "db' = db\<lparr>db_holds := rows\<rparr>"
    and t': "t' = written (sh_version ?s) t"
    using assms(1,5) by (auto simp: save_hold_def Let_def result_simps)
  have "rows = tbl_update (\<lambda>x. hr_id x = hr_id h)
      (\<lambda>r. r\<lparr>hr_state := sh_state ?s, hr_version := sh_version ?s\<rparr>) (db_holds db)"
    using save_versioned_Inr [OF rows assms(2)] unfolding assms(6) by blast
  with check assms(3,4,7) show "hold_ended h db db'"
    unfolding hold_ended_def db' by (auto simp: list_all_iff)
  show "root t' = root t" by (simp add: t')
qed

lemma release_hold_in_Inr:
  assumes "active_hold i db = Some t" and "release_hold_in now t db = Inr (s, db')"
    and "distinct (map hr_id (db_holds db))"
  shows "\<exists>h. hold_ended h db db' \<and> hr_id h = i \<and> sh_date_id s = hr_date_id h \<and>
    sh_quantity s = hr_quantity h"
proof -
  obtain h where h: "h \<in> set (db_holds db)" "hr_id h = i" "hr_state h = Hold_Active"
    "current (root t) = seat_hold_snapshot_of h" "version_of t = Some (hr_version h)"
    using active_hold_Some [OF assms(1)] by blast
  obtain a t' where a: "hold_release now (root t) = Inr a"
    and saved: "save_hold (with_root a t) db = Inr (t', db')" and s: "s = current (root t')"
    using assms(2) by (auto simp: release_hold_in_def bindE_eq_Inr)
  have cur: "current a = (current (root t))\<lparr>sh_state := Hold_Released,
      sh_version := sh_version (current (root t)) + 1\<rparr>"
    by (rule hold_release_Inr(2) [OF a])
  show ?thesis
    using save_ended_hold [OF saved assms(3) h(1,3)] h cur s
    by (auto simp: seat_hold_snapshot_of_def)
qed

lemma consume_hold_in_Inr:
  assumes "active_hold i db = Some t" and "consume_hold_in now t db = Inr (s, db')"
    and "distinct (map hr_id (db_holds db))"
  shows "\<exists>h. hold_ended h db db' \<and> hr_id h = i"
proof -
  obtain h where h: "h \<in> set (db_holds db)" "hr_id h = i" "hr_state h = Hold_Active"
    "current (root t) = seat_hold_snapshot_of h" "version_of t = Some (hr_version h)"
    using active_hold_Some [OF assms(1)] by blast
  obtain a t' where a: "hold_consume now (root t) = Inr a"
    and saved: "save_hold (with_root a t) db = Inr (t', db')"
    using assms(2) by (auto simp: consume_hold_in_def bindE_eq_Inr)
  have cur: "current a = (current (root t))\<lparr>sh_state := Hold_Consumed,
      sh_version := sh_version (current (root t)) + 1\<rparr>"
    by (rule hold_consume_Inr(2) [OF a])
  show ?thesis
    using save_ended_hold [OF saved assms(3) h(1,3)] h cur
    by (auto simp: seat_hold_snapshot_of_def)
qed

lemma links_ok_tbl_update:
  assumes "links_ok links holds"
    and "\<And>x. hr_id (f x) = hr_id x \<and> hr_date_id (f x) = hr_date_id x \<and> hr_quantity (f x) = hr_quantity x"
  shows "links_ok links (tbl_update p f holds)"
proof (rule links_ok_holds [OF assms(1)])
  fix x assume "x \<in> set holds"
  then have "(if p x then f x else x) \<in> set (tbl_update p f holds)" by (simp add: tbl_update_def)
  with assms(2) [of x] show "\<exists>y \<in> set (tbl_update p f holds). hr_id y = hr_id x \<and>
      hr_date_id y = hr_date_id x \<and> hr_quantity y = hr_quantity x"
    by (intro bexI [of _ "if p x then f x else x"]) auto
qed

lemma hold_ended_ok:
  assumes "hold_ended h db db'" and "db_ok db"
  shows "db_ok db'"
proof -
  obtain st v where st: "st \<noteq> Hold_Active" and db': "db' = db\<lparr>db_holds := tbl_update
      (\<lambda>x. hr_id x = hr_id h) (\<lambda>x. x\<lparr>hr_state := st, hr_version := v\<rparr>) (db_holds db)\<rparr>"
    and check: "\<forall>x \<in> set (db_holds db'). seat_hold_check x"
    using assms(1) by (auto simp: hold_ended_def)
  have "holds_ok (map dr_date_id (db_sales db)) (db_holds db')"
    using db_okD(2) [OF assms(2)] check
    by (auto simp: holds_ok_def db' map_tbl_update_same table_simps)
  moreover have "links_ok (map order_link (db_orders db)) (db_holds db')"
    unfolding db' using db_okD(3) [OF assms(2)] by (simp add: links_ok_tbl_update)
  ultimately show ?thesis using db_okD(1) [OF assms(2)] by (simp add: db_ok_def db')
qed

lemma hold_ended_held:
  assumes "hold_ended h db db'" and "distinct (map hr_id (db_holds db))"
  shows "held_of (db_holds db') e =
    held_of (db_holds db) e + (if e = hr_date_id h then - hr_quantity h else 0)"
  using assms held_of_leave [OF assms(2)] by (auto simp: hold_ended_def)

end
