(* ===== verification/Ledger_Refinement.thy ===== *)
theory Ledger_Refinement
  imports Ledger_Frames
begin

text \<open>
  Every transaction of the purchase, of the sweeper and of the studio refines the ledger: it keeps
  the tables' invariant and what it does to the seats is a run of the specification's moves.
\<close>

section \<open>Advancing\<close>

definition advances :: "db \<Rightarrow> db \<Rightarrow> bool" where
  "advances db db' \<longleftrightarrow> db_ok db' \<and> ledger_step\<^sup>*\<^sup>* (ledger_abs db) (ledger_abs db')"

lemma advances_refl: "db_ok db \<Longrightarrow> advances db db"
  by (simp add: advances_def)

lemma advances_trans: "advances a b \<Longrightarrow> advances b d \<Longrightarrow> advances a d"
  by (auto simp: advances_def)

lemma advances_same: "db_ok db \<Longrightarrow> same_core db db' \<Longrightarrow> advances db db'"
  using same_core_ok same_core_abs by (auto simp: advances_def)

lemma advances_then_same: "advances db db1 \<Longrightarrow> same_core db1 db2 \<Longrightarrow> advances db db2"
  using advances_trans advances_same by (auto simp: advances_def)

text \<open>
  One date's row moved by a statement, after its holds changed by \<open>n\<close>: a move of the specification
  when \<open>move\<close> is one.
\<close>

lemma moved_ledger:
  assumes "effect d g dbm db'" and "db_sales dbm = sales"
    and "\<And>e. held' e = held e + (if e = d then n else 0)"
    and "\<And>s. sl_held (g s) = sl_held s"
    and "\<And>L s. L d = Some s \<Longrightarrow> sl_held s = held d \<Longrightarrow> 0 \<le> sl_free (g s) \<Longrightarrow> 0 \<le> sl_sold (g s) \<Longrightarrow>
      ledger_step L (L(d \<mapsto> (g s)\<lparr>sl_held := held d + n\<rparr>))"
  shows "ledger_step (ledger_of sales held) (ledger_of (db_sales db') held')"
proof -
  obtain s where s: "ledger_of sales held d = Some s" "sl_held s = held d"
    and abs: "ledger_of (db_sales db') held' = (ledger_of sales held)(d \<mapsto> (g s)\<lparr>sl_held := held d + n\<rparr>)"
    using effect_ledger [OF assms(1,3,4)] assms(2) by blast
  obtain r where "tbl_find dr_date_id d sales = Some r"
    and free: "0 \<le> sl_free (g (row_seats r (held d)))" "0 \<le> sl_sold (g (row_seats r (held d)))"
    using effect_check [OF assms(1), of "held d"] assms(2) by blast
  then have "s = row_seats r (held d)" using s(1) by (simp add: ledger_of_def)
  with free s assms(5) [of "ledger_of sales held" s] show ?thesis unfolding abs by simp
qed

lemma seats_held_same: "sl_held s = n \<Longrightarrow> s\<lparr>sl_held := n\<rparr> = s"
  by (cases s) simp

lemma ledger_moves:
  "L d = Some s \<Longrightarrow> 0 < q \<Longrightarrow> q \<le> sl_free s \<Longrightarrow>
    s' = s\<lparr>sl_free := sl_free s - q, sl_held := sl_held s + q\<rparr> \<Longrightarrow> ledger_step L (L(d \<mapsto> s'))"
  "L d = Some s \<Longrightarrow> 0 < q \<Longrightarrow> q \<le> sl_held s \<Longrightarrow>
    s' = s\<lparr>sl_held := sl_held s - q, sl_sold := sl_sold s + q\<rparr> \<Longrightarrow> ledger_step L (L(d \<mapsto> s'))"
  "L d = Some s \<Longrightarrow> 0 < q \<Longrightarrow> q \<le> sl_held s \<Longrightarrow>
    s' = s\<lparr>sl_held := sl_held s - q, sl_free := sl_free s + q\<rparr> \<Longrightarrow> ledger_step L (L(d \<mapsto> s'))"
  "L d = Some s \<Longrightarrow> 0 < q \<Longrightarrow> q \<le> sl_free s \<Longrightarrow>
    s' = s\<lparr>sl_free := sl_free s - q, sl_sold := sl_sold s + q\<rparr> \<Longrightarrow> ledger_step L (L(d \<mapsto> s'))"
  "L d = Some s \<Longrightarrow> 0 \<le> q \<Longrightarrow> q \<le> sl_sold s \<Longrightarrow>
    s' = s\<lparr>sl_sold := sl_sold s - q, sl_free := sl_free s + q\<rparr> \<Longrightarrow> ledger_step L (L(d \<mapsto> s'))"
  "L d = Some s \<Longrightarrow> 0 \<le> sl_free s + n \<Longrightarrow>
    s' = s\<lparr>sl_capacity := sl_capacity s + n, sl_free := sl_free s + n\<rparr> \<Longrightarrow> ledger_step L (L(d \<mapsto> s'))"
  by (auto intro: ledger_step.intros)

lemma effect_ok:
  assumes "effect d g db db'" and "db_ok db"
  shows "db_ok db'"
  using effect_same [OF assms(1)] effect_sales_ok [OF assms(1) db_okD(1) [OF assms(2)]]
    db_okD(2,3) [OF assms(2)] by (simp add: db_ok_def)

lemma effect_advances:
  assumes "effect d g db db'" and "db_ok db" and "\<And>s. sl_held (g s) = sl_held s"
    and "\<And>L s. L d = Some s \<Longrightarrow> 0 \<le> sl_free (g s) \<Longrightarrow> 0 \<le> sl_sold (g s) \<Longrightarrow> ledger_step L (L(d \<mapsto> g s))"
  shows "advances db db'"
proof -
  have "ledger_step (ledger_of (db_sales db) (held_of (db_holds db)))
      (ledger_of (db_sales db') (held_of (db_holds db)))"
    by (rule moved_ledger [OF assms(1) refl, where n = 0]) (use assms(3,4) in \<open>auto simp: seats_held_same\<close>)
  then show ?thesis
    using effect_ok [OF assms(1,2)] effect_same(1) [OF assms(1)]
    by (auto simp: advances_def ledger_abs_def)
qed

section \<open>What a hold carried, sold or given back\<close>

text \<open>A closing statement of a hold: its seats sold, or back to the free ones.\<close>

definition closes_hold :: "seat_hold_row \<Rightarrow> counter_move \<Rightarrow> bool" where
  "closes_hold h move \<longleftrightarrow>
     move = sell_held_seats (hr_date_id h) (hr_quantity h) \<or>
     (\<exists>pool now. move = return_held_seats (hr_date_id h) (hr_quantity h) pool now)"

lemma closes_hold_return: "closes_hold h (return_held_seats (hr_date_id h) (hr_quantity h) pool now)"
  unfolding closes_hold_def by blast

lemma closes_hold_effect:
  assumes "closes_hold h move" and "move db = Inr db'" and "distinct (map dr_date_id (db_sales db))"
    and "hr_date_id h \<in> set (map dr_date_id (db_sales db))"
  shows "effect (hr_date_id h) (more_sold (hr_quantity h)) db db' \<or>
    effect (hr_date_id h) (more_free (hr_quantity h)) db db'"
  using assms sell_held_seats_Inr return_held_seats_Inr by (auto simp: closes_hold_def)

lemma hold_closed_advances:
  assumes ok: "db_ok db" and ended: "hold_ended h db db1" and same: "same_core db1 db2"
    and closes: "closes_hold h move" and move: "move db2 = Inr db3"
  shows "advances db db3"
proof -
  let ?d = "hr_date_id h" and ?q = "hr_quantity h"
  have h: "h \<in> set (db_holds db)" "hr_state h = Hold_Active" using ended by (auto simp: hold_ended_def)
  have checks: "\<forall>x \<in> set (db_holds db). seat_hold_check x"
    and date: "?d \<in> set (map dr_date_id (db_sales db))"
    using db_okD(2) [OF ok] h(1) by (auto simp: holds_ok_def)
  have q: "0 < ?q" "?q \<le> held_of (db_holds db) ?d"
    using checks h hold_seats_within [OF checks h] by (auto simp: seat_hold_check_def)
  have sales: "db_sales db2 = db_sales db"
    using ended same by (auto simp: hold_ended_def same_core_def)
  have ok2: "db_ok db2" using same_core_ok [OF same] hold_ended_ok [OF ended ok] by blast
  have held: "held_of (db_holds db2) e = held_of (db_holds db) e + (if e = ?d then - ?q else 0)" for e
    using hold_ended_held [OF ended db_okD(5) [OF ok]] same by (simp add: same_core_def)
  have "effect ?d (more_sold ?q) db2 db3 \<or> effect ?d (more_free ?q) db2 db3"
    using closes_hold_effect [OF closes move] db_okD(4) [OF ok2] date by (simp add: sales)
  then have "db_ok db3 \<and> ledger_step (ledger_of (db_sales db) (held_of (db_holds db)))
      (ledger_of (db_sales db3) (held_of (db_holds db2))) \<and> db_holds db3 = db_holds db2"
  proof
    assume e: "effect ?d (more_sold ?q) db2 db3"
    have "ledger_step (ledger_of (db_sales db) (held_of (db_holds db)))
      (ledger_of (db_sales db3) (held_of (db_holds db2)))"
      by (rule moved_ledger [OF e sales held])
        (use q in \<open>auto simp: more_sold_def intro: ledger_moves(2) [of _ ?d _ ?q]\<close>)
    with effect_ok [OF e ok2] effect_same(1) [OF e] show ?thesis by blast
  next
    assume e: "effect ?d (more_free ?q) db2 db3"
    have "ledger_step (ledger_of (db_sales db) (held_of (db_holds db)))
      (ledger_of (db_sales db3) (held_of (db_holds db2)))"
      by (rule moved_ledger [OF e sales held])
        (use q in \<open>auto simp: more_free_def intro: ledger_moves(3) [of _ ?d _ ?q]\<close>)
    with effect_ok [OF e ok2] effect_same(1) [OF e] show ?thesis by blast
  qed
  then show ?thesis by (auto simp: advances_def ledger_abs_def)
qed

text \<open>
  What settling leaves for the end of the transaction: nothing, the seats already moved; or a hold
  that ended with the statement that closes it still to run.
\<close>

definition pends :: "db \<Rightarrow> counter_move option \<Rightarrow> db \<Rightarrow> bool" where
  "pends db pending db' \<longleftrightarrow> map order_link (db_orders db') = map order_link (db_orders db) \<and>
     (case pending of
        None \<Rightarrow> advances db db'
      | Some move \<Rightarrow> \<exists>h db1. hold_ended h db db1 \<and> same_core db1 db' \<and> closes_hold h move)"

lemma pends_same: "pends db pending db1 \<Longrightarrow> same_core db1 db2 \<Longrightarrow> pends db pending db2"
proof -
  assume p: "pends db pending db1" and s: "same_core db1 db2"
  have links: "map order_link (db_orders db2) = map order_link (db_orders db1)"
    using s by (simp add: same_core_def)
  from p advances_then_same [OF _ s] same_core_trans [OF _ s] show "pends db pending db2"
    unfolding pends_def links by (cases pending) fastforce+
qed

lemma pends_none: "advances db db' \<Longrightarrow> map order_link (db_orders db') = map order_link (db_orders db) \<Longrightarrow>
    pends db None db'"
  by (simp add: pends_def)

lemma pends_hold: "hold_ended h db db' \<Longrightarrow> closes_hold h move \<Longrightarrow> pends db (Some move) db'"
proof -
  assume h: "hold_ended h db db'" and m: "closes_hold h move"
  from h have "map order_link (db_orders db') = map order_link (db_orders db)"
    by (auto simp: hold_ended_def)
  moreover have "\<exists>h db1. hold_ended h db db1 \<and> same_core db1 db' \<and> closes_hold h move"
    using h m same_core_refl by blast
  ultimately show "pends db (Some move) db'" by (simp add: pends_def)
qed

lemma pends_run:
  assumes "pends db pending db1" and "db_ok db" and "run_counter_move pending db1 = Inr db2"
  shows "advances db db2"
  using assms hold_closed_advances
  by (auto simp: pends_def run_counter_move_def split: option.splits)

lemma pends_order:
  assumes "pends db pending db1" and "db_ok db"
  shows "distinct (map or_id (db_orders db1))"
    and "order_of db t \<Longrightarrow> order_key (current (root t')) = order_key (current (root t)) \<Longrightarrow> order_of db1 t'"
proof -
  have links: "map order_link (db_orders db1) = map order_link (db_orders db)"
    using assms(1) by (simp add: pends_def)
  have "map or_id (db_orders x) = map fst (map order_link (db_orders x))" for x
    by (simp add: order_link_def)
  then show "distinct (map or_id (db_orders db1))" using links db_okD(6) [OF assms(2)] by metis
  show "order_of db1 t'" if "order_of db t" "order_key (current (root t')) = order_key (current (root t))"
    using links that by (simp add: order_of_def)
qed

section \<open>Settling a payment\<close>

text \<open>An order's hold is for its date and its quantity.\<close>

lemma order_hold:
  assumes "db_ok db" and "order_of db t"
  shows "0 < so_quantity (current (root t))"
    and "so_date_id (current (root t)) \<in> set (map dr_date_id (db_sales db))"
    and "h \<in> set (db_holds db) \<Longrightarrow> hr_id h = so_hold_id (current (root t)) \<Longrightarrow>
      hr_date_id h = so_date_id (current (root t)) \<and> hr_quantity h = so_quantity (current (root t))"
proof -
  let ?s = "current (root t)"
  obtain x where x: "x \<in> set (db_holds db)" "hr_id x = so_hold_id ?s" "hr_date_id x = so_date_id ?s"
    "hr_quantity x = so_quantity ?s"
    using assms(2) db_okD(3) [OF assms(1)] unfolding order_of_def order_key_def links_ok_def by fastforce
  have "seat_hold_check x" "hr_date_id x \<in> set (map dr_date_id (db_sales db))"
    using db_okD(2) [OF assms(1)] x(1) by (auto simp: holds_ok_def)
  with x show "0 < so_quantity ?s" and "so_date_id ?s \<in> set (map dr_date_id (db_sales db))"
    by (auto simp: seat_hold_check_def)
  show "hr_date_id h = so_date_id ?s \<and> hr_quantity h = so_quantity ?s"
    if "h \<in> set (db_holds db)" "hr_id h = so_hold_id ?s"
  proof -
    have "x = h" using db_okD(5) [OF assms(1)] x(1,2) that by (auto simp: distinct_map inj_on_def)
    with x show ?thesis by simp
  qed
qed

lemma hold_ended_mem: "hold_ended h db db' \<Longrightarrow> h \<in> set (db_holds db)"
  by (simp add: hold_ended_def)

lemma take_and_sell_advances:
  assumes "take_and_sell_seats d q now from_pool db = Inr (taken, db')" and "db_ok db" and "0 < q"
  shows "pends db None db'"
proof (cases taken)
  case True
  then have e: "effect d (more_sold q \<circ> less_free q) db db'"
    using take_and_sell_seats_Inr [OF assms(1) db_okD(4) [OF assms(2)]] by simp
  have "advances db db'"
    by (rule effect_advances [OF e assms(2)])
      (use assms(3) in \<open>auto simp: seat_moves intro: ledger_moves(4) [of _ d _ q]\<close>)
  then show ?thesis using effect_same(2) [OF e] by (simp add: pends_def)
next
  case False
  then have "db' = db" using take_and_sell_seats_Inr [OF assms(1) db_okD(4) [OF assms(2)]] by simp
  then show ?thesis by (simp add: pends_def advances_refl assms(2))
qed

lemma release_pends:
  assumes "active_hold i db = Some h" and "release_hold_in now h db = Inr (s, db')" and "db_ok db"
  shows "pends db (Some (return_held_seats (sh_date_id s) (sh_quantity s) pool now)) db'"
proof -
  obtain x where "hold_ended x db db'" "sh_date_id s = hr_date_id x" "sh_quantity s = hr_quantity x"
    using release_hold_in_Inr [OF assms(1,2) db_okD(5) [OF assms(3)]] by blast
  then show ?thesis by (auto intro!: pends_hold closes_hold_return)
qed

lemma consume_pends:
  assumes "active_hold (so_hold_id (current (root t))) db = Some h"
    and "consume_hold_in now h db = Inr (s, db')" and "db_ok db" and "order_of db t"
  shows "pends db (Some (sell_held_seats (so_date_id (current (root t))) (so_quantity (current (root t))))) db'"
proof -
  obtain x where x: "hold_ended x db db'" "hr_id x = so_hold_id (current (root t))"
    using consume_hold_in_Inr [OF assms(1,2) db_okD(5) [OF assms(3)]] by blast
  with order_hold(3) [OF assms(3,4) hold_ended_mem [OF x(1)]] show ?thesis
    by (auto intro!: pends_hold simp: closes_hold_def)
qed

lemma owe_payment_back_pends:
  assumes "pends db pending db1" and "db_ok db" and "order_of db t"
    and "owe_payment_back c d out ref now tp t db1 = Inr (t', db2)"
  shows "pends db pending db2 \<and> order_key (current (root t')) = order_key (current (root t))"
proof -
  have "distinct (map or_id (db_orders db1))" "order_of db1 t"
    using pends_order [OF assms(1,2)] assms(3) by auto
  from owe_payment_back_same [OF assms(4) this] pends_same [OF assms(1)] show ?thesis by blast
qed

lemma settle_confirmed_payment_pends:
  assumes "settle_confirmed_payment c d seen again ref now tp t db = Inr (pending, t', db')"
    and ok: "db_ok db" and of: "order_of db t"
  shows "pends db pending db' \<and> order_key (current (root t')) = order_key (current (root t))"
proof -
  let ?s = "current (root t)"
  let ?sales = "find_sales c (so_date_id ?s) seen"
  let ?hold = "active_hold (so_hold_id ?s) db"
  note def = assms(1) [unfolded settle_confirmed_payment_def Let_def]
  have none: "pends db None db" using ok by (simp add: pends_def advances_refl)
  consider (not_accepted) "\<not> accepts_payment (order_rules c) ?s"
    | (cancelled) "accepts_payment (order_rules c) ?s" "sales_outcome ?sales = Some Outcome_Cancelled"
    | (held) h where "accepts_payment (order_rules c) ?s" "sales_outcome ?sales \<noteq> Some Outcome_Cancelled"
        "?hold = Some h"
    | (gone) "accepts_payment (order_rules c) ?s" "sales_outcome ?sales \<noteq> Some Outcome_Cancelled"
        "?hold = None"
    by (cases ?hold) auto
  then show ?thesis
  proof cases
    case not_accepted
    with def none show ?thesis by simp
  next
    case cancelled
    then obtain db1 where
      hold: "(case ?hold of None \<Rightarrow> Inr (None, db)
         | Some h \<Rightarrow> bindE (release_hold_in now h db) (\<lambda>(released, db1).
             Inr (Some (return_held_seats (so_date_id ?s) (sh_quantity released)
               (sh_pool_seats released) now), db1))) = Inr (pending, db1)"
      and owe: "owe_payment_back c d (sales_outcome ?sales) ref now tp t db1 = Inr (t', db')"
      using def by (auto simp: bindE_eq_Inr)
    have "pends db pending db1"
    proof (cases ?hold)
      case None
      with hold none show ?thesis by simp
    next
      case (Some h)
      then obtain s where rel: "release_hold_in now h db = Inr (s, db1)"
        and p: "pending = Some (return_held_seats (so_date_id ?s) (sh_quantity s) (sh_pool_seats s) now)"
        using hold by (auto simp: bindE_eq_Inr)
      obtain x where x: "hold_ended x db db1" "hr_id x = so_hold_id ?s" "sh_date_id s = hr_date_id x"
        using release_hold_in_Inr [OF Some rel db_okD(5) [OF ok]] by blast
      have "sh_date_id s = so_date_id ?s"
        using order_hold(3) [OF ok of hold_ended_mem [OF x(1)] x(2)] x(3) by simp
      with release_pends [OF Some rel ok] show ?thesis by (simp add: p)
    qed
    from owe_payment_back_pends [OF this ok of owe] show ?thesis .
  next
    case (held h)
    then obtain s where "consume_hold_in now h db = Inr (s, db')"
      and issue: "issue_seats c d seen ?sales ref now t = Inr t'"
      and p: "pending = Some (sell_held_seats (so_date_id ?s) (so_quantity ?s))"
      using def by (auto simp: bindE_eq_Inr)
    with consume_pends [OF held(3) _ ok of] issue_seats_key [OF issue] show ?thesis by (simp add: p)
  next
    case gone
    then obtain taken db1 where
      took: "take_and_sell_seats (so_date_id ?s) (so_quantity ?s) now
        (draws_on_priority_pool (waitlist_rules c) ?sales (so_account_id ?s) now seen) db = Inr (taken, db1)"
      and rest: "if taken then issue_seats c d seen ?sales ref now t = Inr t' \<and> db' = db1 \<and> pending = None
        else owe_payment_back c d (sales_outcome (find_sales c (so_date_id ?s) again)) ref now tp t db1 =
          Inr (t', db') \<and> pending = None"
      using def by (auto simp: bindE_eq_Inr split: if_splits)
    have pends: "pends db None db1" by (rule take_and_sell_advances [OF took ok order_hold(1) [OF ok of]])
    show ?thesis
    proof (cases taken)
      case True
      with rest pends issue_seats_key show ?thesis by auto
    next
      case False
      with rest owe_payment_back_pends [OF pends ok of] show ?thesis by auto
    qed
  qed
qed

lemma fail_unpaid_order_pends:
  assumes "fail_unpaid_order failure now t db = Inr (pending, t', db')"
    and ok: "db_ok db" and of: "order_of db t"
  shows "pends db pending db' \<and> order_key (current (root t')) = order_key (current (root t))"
proof -
  obtain a b where f: "order_fail failure now (root t) = (a, b)" by force
  have key: "order_key (current a) = order_key (current (root t))"
    using order_fail_key [of failure now "root t"] by (simp add: f)
  have none: "pends db None db" using ok by (simp add: pends_def advances_refl)
  consider "pending = None" "t' = with_root a t" "db' = db"
    | h s where "active_hold (so_hold_id (current a)) db = Some h"
      "release_hold_in now h db = Inr (s, db')" "t' = with_root a t"
      "pending = Some (return_held_seats (sh_date_id s) (sh_quantity s) (sh_pool_seats s) now)"
    using assms(1) f
    by (auto simp: fail_unpaid_order_def bindE_eq_Inr split: bool.splits option.splits)
  then show ?thesis
  proof cases
    case 1
    with none key show ?thesis by simp
  next
    case 2
    with release_pends [OF 2(1,2) ok] key show ?thesis by simp
  qed
qed

lemma apply_intent_pends:
  assumes "apply_intent c d seen again now intent tp t db = Inr (pending, t', db')"
    and ok: "db_ok db" and of: "order_of db t"
  shows "pends db pending db' \<and> order_key (current (root t')) = order_key (current (root t))"
proof (cases "in_status intent")
  case Intent_Succeeded
  with assms(1) settle_confirmed_payment_pends [OF _ ok of] show ?thesis by (simp add: apply_intent_def)
next
  case Intent_Declined
  with assms(1) fail_unpaid_order_pends [OF _ ok of] show ?thesis by (simp add: apply_intent_def)
qed (use assms(1) record_waiting_intent_same pends_same [OF pends_none [OF advances_refl [OF ok] refl]]
      in \<open>auto simp: apply_intent_def split: prod.splits\<close>)

section \<open>A hold placed\<close>

text \<open>Holds that differ in the pool's share only.\<close>

definition repooled :: "db \<Rightarrow> db \<Rightarrow> bool" where
  "repooled db db' \<longleftrightarrow> (\<exists>p n. db' = db\<lparr>db_holds := tbl_update p (\<lambda>h. h\<lparr>hr_pool_seats := n\<rparr>) (db_holds db)\<rparr> \<and>
     (\<forall>h \<in> set (db_holds db). p h \<longrightarrow> seat_hold_check (h\<lparr>hr_pool_seats := n\<rparr>)))"

lemma repooled_refl: "repooled db db"
  unfolding repooled_def by (rule exI [of _ "\<lambda>_. False"]) (simp add: tbl_update_none)

lemma repooled_advances:
  assumes "repooled db db'" and "db_ok db"
  shows "db_ok db'" and "ledger_abs db' = ledger_abs db"
proof -
  obtain p n where db': "db' = db\<lparr>db_holds := tbl_update p (\<lambda>h. h\<lparr>hr_pool_seats := n\<rparr>) (db_holds db)\<rparr>"
    and check: "\<forall>h \<in> set (db_holds db). p h \<longrightarrow> seat_hold_check (h\<lparr>hr_pool_seats := n\<rparr>)"
    using assms(1) by (auto simp: repooled_def)
  have "holds_ok (map dr_date_id (db_sales db)) (db_holds db')"
    using db_okD(2) [OF assms(2)] check
    by (auto simp: holds_ok_def db' map_tbl_update_same table_simps)
  moreover have "links_ok (map order_link (db_orders db)) (db_holds db')"
    unfolding db' using db_okD(3) [OF assms(2)] by (simp add: links_ok_tbl_update)
  ultimately show "db_ok db'" using db_okD(1) [OF assms(2)] by (simp add: db_ok_def db')
  have "held_of (db_holds db') = held_of (db_holds db)"
    by (rule ext) (simp add: db' held_of_same hold_seats_of_def)
  then show "ledger_abs db' = ledger_abs db" by (simp add: ledger_abs_def db')
qed

lemma take_seats_for_Inr:
  assumes "take_seats_for from_pool t i q now db = Inr (True, t', db')"
    and "distinct (map dr_date_id (db_sales db))"
  shows "\<exists>db1. effect (ds_date_id (current (root t))) (less_free q) db db1 \<and> repooled db1 db'"
proof (cases from_pool)
  case True
  then have "take_seats_from_pool t i q now db = Inr (True, t', db')"
    using assms(1) by (simp add: take_seats_for_def)
  from take_seats_from_pool_Inr [OF this assms(2)] obtain db1 n where
    e: "effect (ds_date_id (current (root t))) (less_free q) db db1"
    and "db' = db1\<lparr>db_holds := tbl_update (\<lambda>h. hr_id h = i) (\<lambda>h. h\<lparr>hr_pool_seats := n\<rparr>) (db_holds db)\<rparr>"
    and "\<forall>h \<in> set (db_holds db). hr_id h = i \<longrightarrow> seat_hold_check (h\<lparr>hr_pool_seats := n\<rparr>)"
    by blast
  with effect_same(1) [OF e] have "repooled db1 db'" unfolding repooled_def by auto
  with e show ?thesis by blast
next
  case False
  then show ?thesis
    using assms take_seats_Inr [of t q now db t' db'] repooled_refl [of db']
    by (auto simp: take_seats_for_def)
qed

lemma hold_taken_advances:
  assumes ok: "db_ok db" and sales: "db_sales db1 = db_sales db"
    and holds: "db_holds db1 = db_holds db @ [row]"
    and row: "hr_state row = Hold_Active" "seat_hold_check row" "hr_id row \<notin> hr_id ` set (db_holds db)"
      "hr_date_id row \<in> dr_date_id ` set (db_sales db)"
    and links: "links_ok (map order_link (db_orders db1)) (db_holds db1)"
    and taken: "take_seats_for from_pool t i (hr_quantity row) now db1 = Inr (True, t', db2)"
    and date: "ds_date_id (current (root t)) = hr_date_id row"
  shows "advances db db2"
proof -
  let ?d = "hr_date_id row" and ?q = "hr_quantity row"
  have ok1: "db_ok db1"
    using db_okD(1,2) [OF ok] row links by (auto simp: db_ok_def sales holds holds_ok_def)
  obtain dbe where e: "effect ?d (less_free ?q) db1 dbe" and pool: "repooled dbe db2"
    using take_seats_for_Inr [OF taken db_okD(4) [OF ok1]] date by auto
  have held: "held_of (db_holds db1) x = held_of (db_holds db) x + (if x = ?d then ?q else 0)" for x
    using row(1) by (simp add: holds hold_seats_of_def)
  have q: "0 < ?q" using row(2) by (simp add: seat_hold_check_def)
  have "ledger_step (ledger_of (db_sales db) (held_of (db_holds db)))
      (ledger_of (db_sales dbe) (held_of (db_holds db1)))"
    by (rule moved_ledger [OF e sales held])
      (use q in \<open>auto simp: less_free_def intro: ledger_moves(1) [of _ ?d _ ?q]\<close>)
  then have "ledger_step (ledger_abs db) (ledger_abs dbe)"
    using effect_same(1) [OF e] by (simp add: ledger_abs_def)
  then show ?thesis
    using repooled_advances [OF pool effect_ok [OF e ok1]] by (auto simp: advances_def)
qed

lemma links_ok_place:
  assumes "links_ok links holds" and "i \<notin> fst ` set links" and "hr_id row \<notin> hr_id ` set holds"
  shows "links_ok (links @ [(i, hr_date_id row, hr_quantity row, hr_id row)]) (holds @ [row])"
  using assms unfolding links_ok_def by (fastforce simp: image_iff)

lemma links_ok_renew:
  assumes "links_ok links holds" and "(i, hr_date_id row, hr_quantity row, h) \<in> set links"
    and "hr_id row \<notin> hr_id ` set holds"
  shows "links_ok (map (\<lambda>(j, d, q, k). (j, d, q, if j = i then hr_id row else k)) links) (holds @ [row])"
proof -
  let ?f = "\<lambda>(j, d, q, k). (j, d, q, if j = i then hr_id row else k)"
  have ids: "distinct (map fst links)" and holds: "distinct (map (\<lambda>(_, _, _, k). k) links)"
    and there: "\<And>j d q k. (j, d, q, k) \<in> set links \<Longrightarrow>
      \<exists>x \<in> set holds. hr_id x = k \<and> hr_date_id x = d \<and> hr_quantity x = q"
    using assms(1) by (auto simp: links_ok_def)
  have only: "d = hr_date_id row \<and> q = hr_quantity row \<and> k = h" if "(i, d, q, k) \<in> set links" for d q k
    using eq_key_imp_eq_value [OF ids that assms(2)] by simp
  have "map fst (map ?f links) = map fst links" by (simp add: case_prod_beta comp_def)
  moreover have "distinct (map (\<lambda>(_, _, _, k). k) (map ?f links))"
  proof -
    have "inj_on ((\<lambda>(_, _, _, k). k) \<circ> ?f) (set links)"
    proof (rule inj_onI, clarsimp)
      fix j d q k j' d' q' k'
      assume l: "(j, d, q, k) \<in> set links" "(j', d', q', k') \<in> set links"
        and eq: "(if j = i then hr_id row else k) = (if j' = i then hr_id row else k')"
      have "k \<in> hr_id ` set holds" "k' \<in> hr_id ` set holds" using there [OF l(1)] there [OF l(2)] by auto
      with eq assms(3) have "j = i \<and> j' = i \<or> k = k'" by (auto split: if_splits)
      then show "j = j' \<and> d = d' \<and> q = q' \<and> k = k'"
      proof
        assume "j = i \<and> j' = i"
        with l only [of d q k] only [of d' q' k'] show ?thesis by simp
      next
        assume "k = k'"
        with l holds show ?thesis by (auto simp: distinct_map inj_on_def)
      qed
    qed
    moreover have "distinct links" using ids by (simp add: distinct_map)
    ultimately show ?thesis by (simp add: distinct_map)
  qed
  moreover have each: "\<exists>x \<in> set (holds @ [row]). hr_id x = (if j = i then hr_id row else k) \<and>
      hr_date_id x = d \<and> hr_quantity x = q" if "(j, d, q, k) \<in> set links" for j d q k
    using there [OF that] only that by (cases "j = i") auto
  moreover have "\<forall>(j, d, q, k) \<in> set (map ?f links). \<exists>x \<in> set (holds @ [row]). hr_id x = k \<and>
      hr_date_id x = d \<and> hr_quantity x = q" using each by force
  ultimately show ?thesis using ids unfolding links_ok_def by (intro conjI) (simp only:)+
qed

lemma save_created_hold:
  assumes "save_hold (created a) db = Inr (t', db')"
  shows "db' = db\<lparr>db_holds := db_holds db @ [seat_hold_row_of (current a)]\<rparr>"
    and "seat_hold_check (seat_hold_row_of (current a))"
    and "hr_id (seat_hold_row_of (current a)) \<notin> hr_id ` set (db_holds db)"
    and "sh_date_id (current a) \<in> dr_date_id ` set (db_sales db)"
  using assms by (auto simp: save_hold_def Let_def result_simps)

lemma place_order_Inr:
  assumes "place_order t b db = Inr (True, t', db')"
  shows "db' = db\<lparr>db_orders := db_orders db @ [order_row_of b (current (root t))]\<rparr>"
    and "so_id (current (root t)) \<notin> or_id ` set (db_orders db)" and "root t' = root t"
  using assms
  by (auto simp: place_order_def Let_def result_simps list_ex_iff order_row_of_def
      order_state_columns_of_def split: if_splits)

lemma order_link_row_of [simp]: "order_link (order_row_of b s) = order_key s"
  by (simp add: order_link_def order_key_def order_row_of_def order_state_columns_of_def Let_def)

end
