(* ===== verification/Ledger_Purchases.thy ===== *)
theory Ledger_Purchases
  imports Ledger_Refinement
begin

text \<open>The purchase's transactions on the ledger: tx A, the replay's, tx B and the release of a hold.\<close>

lemma find_sales_id:
  "find_sales c d db = Some t \<Longrightarrow> ds_date_id (current (root t)) = d"
  by (auto simp: find_sales_def restored_sales_def date_sales_snapshot_of_def dest!: tbl_find_SomeD)

lemma hold_seats_id: "hold_seats c q now a = Inr a' \<Longrightarrow> ds_date_id (current a') = ds_date_id (current a)"
  by (auto dest: hold_seats_Inr(5))

lemma hold_place_row:
  assumes "hold_place c p now = Inr a" and "hold_laws c"
  shows "hr_state (seat_hold_row_of (current a)) = Hold_Active"
    and "hr_id (seat_hold_row_of (current a)) = shp_id p"
    and "hr_date_id (seat_hold_row_of (current a)) = shp_date_id p"
    and "hr_quantity (seat_hold_row_of (current a)) = shp_quantity p"
    and "sh_date_id (current a) = shp_date_id p"
proof -
  obtain q e where "hold_for c (shp_quantity p) (shp_intent_expires_at p) = Inr (q, e)"
    and a: "current a = \<lparr>sh_id = shp_id p, sh_date_id = shp_date_id p, sh_account_id = shp_account_id p,
      sh_profile_id = shp_profile_id p, sh_tier = shp_tier p, sh_quantity = q, sh_pool_seats = 0,
      sh_origin = shp_origin p, sh_origin_ref = shp_origin_ref p, sh_expires_at = e,
      sh_state = Hold_Active, sh_version = 1\<rparr>"
    using hold_place_Inr [OF assms(1)] by blast
  moreover from this(1) assms(2) have "q = shp_quantity p" unfolding hold_laws_def by blast
  ultimately show "hr_state (seat_hold_row_of (current a)) = Hold_Active"
    "hr_id (seat_hold_row_of (current a)) = shp_id p"
    "hr_date_id (seat_hold_row_of (current a)) = shp_date_id p"
    "hr_quantity (seat_hold_row_of (current a)) = shp_quantity p"
    "sh_date_id (current a) = shp_date_id p"
    by (simp_all add: seat_hold_row_of_def)
qed

lemma order_key_purchase [simp]:
  "order_key (current (order_of_purchase c d cmd ch quote e now)) =
    (dw_order_id d, pcm_date_id cmd, pcm_quantity cmd, dw_hold_id d)"
  by (simp add: order_key_def order_of_purchase_def order_place_def)

lemma bind_key_Inr:
  "bind_key d t b db = Inr (t', db') \<Longrightarrow> place_order t b db = Inr (True, t', db')"
  by (auto simp: bind_key_def bindE_eq_Inr split: if_splits)

text \<open>What tx A did when it placed an order.\<close>

lemma place_in_placed:
  assumes "place_in c origin d seen now cmd db = Inr (x, db')"
  shows "db' = db \<and> (\<exists>i f. find_bound (ib_account_id (pcm_binding cmd)) (ib_key (pcm_binding cmd)) seen =
      Some (i, f) \<and> f = ib_fingerprint (pcm_binding cmd) \<and> x = Bound i) \<or>
    (\<exists>sales held hold e quote t db1 hold' db2 rows from_pool sales'.
       find_bound (ib_account_id (pcm_binding cmd)) (ib_key (pcm_binding cmd)) seen = None \<and>
       find_sales c (pcm_date_id cmd) seen = Some sales \<and>
       hold_seats (sales_rules c) (pcm_quantity cmd) now (root sales) = Inr held \<and>
       hold_place (checkout_rules c) \<lparr>shp_id = dw_hold_id d,
                       shp_date_id = pcm_date_id cmd, shp_account_id = Some (pcm_account_id cmd),
                       shp_profile_id = pcm_profile_id cmd, shp_tier = pcm_tier cmd,
                       shp_quantity = pcm_quantity cmd, shp_origin = Origin_Checkout,
                       shp_origin_ref = dw_order_id d, shp_intent_expires_at = e\<rparr> now = Inr hold \<and>
       bind_key d (created (order_of_purchase c d cmd (ds_channel_id (current held)) quote e now))
         (pcm_binding cmd) db = Inr (t, db1) \<and>
       save_hold (created hold) db1 = Inr (hold', db2) \<and>
       take_seats_for from_pool (with_root held sales) (dw_hold_id d) (pcm_quantity cmd) now
         (write_outbox rows db2) = Inr (True, sales', db') \<and>
       x = Placed (dw_order_id d) (intent_request_of c origin (current (root t))))"
proof (cases "find_bound (ib_account_id (pcm_binding cmd)) (ib_key (pcm_binding cmd)) seen")
  case (Some b)
  then show ?thesis
    using assms by (cases b) (auto simp: place_in_def Let_def split: if_splits)
next
  case None
  show ?thesis
    by (rule disjI2, insert assms None)
      (simp add: place_in_def Let_def result_simps case_prod_beta split: option.splits if_splits; blast)
qed

lemma place_in_advances:
  assumes "place_in c origin d seen now cmd db = Inr (x, db')" and ok: "db_ok db"
    and laws: "hold_laws (checkout_rules c)"
  shows "advances db db'"
  using place_in_placed [OF assms(1)]
proof (elim disjE exE conjE)
  fix sales and held :: date_sales and hold :: seat_hold
  fix e quote t db1 hold' db2 rows from_pool sales'
  let ?p = "\<lparr>shp_id = dw_hold_id d, shp_date_id = pcm_date_id cmd,
    shp_account_id = Some (pcm_account_id cmd), shp_profile_id = pcm_profile_id cmd,
    shp_tier = pcm_tier cmd, shp_quantity = pcm_quantity cmd, shp_origin = Origin_Checkout,
    shp_origin_ref = dw_order_id d, shp_intent_expires_at = e\<rparr>"
  let ?o = "order_of_purchase c d cmd (ds_channel_id (current held)) quote e now"
  let ?row = "seat_hold_row_of (current hold)"
  assume sales: "find_sales c (pcm_date_id cmd) seen = Some sales"
    and held: "hold_seats (sales_rules c) (pcm_quantity cmd) now (root sales) = Inr held"
    and hold: "hold_place (checkout_rules c) ?p now = Inr hold"
    and bound: "bind_key d (created ?o) (pcm_binding cmd) db = Inr (t, db1)"
    and saved: "save_hold (created hold) db1 = Inr (hold', db2)"
    and taken: "take_seats_for from_pool (with_root held sales) (dw_hold_id d) (pcm_quantity cmd) now
      (write_outbox rows db2) = Inr (True, sales', db')"
  note row = hold_place_row [OF hold laws, simplified]
  note placed = place_order_Inr [OF bind_key_Inr [OF bound], simplified]
  note insd = save_created_hold [OF saved]
  have fresh: "dw_order_id d \<notin> fst ` set (map order_link (db_orders db))"
    using placed(2) by (auto simp: order_of_purchase_def order_place_def order_link_def)
  have "links_ok (map order_link (db_orders db) @ [(dw_order_id d, hr_date_id ?row, hr_quantity ?row,
      hr_id ?row)]) (db_holds db @ [?row])"
    by (rule links_ok_place [OF db_okD(3) [OF ok] fresh]) (use insd(3) placed(1) in simp)
  then have links: "links_ok (map order_link (db_orders (write_outbox rows db2)))
      (db_holds (write_outbox rows db2))"
    using insd(1) placed(1) row by (simp add: write_outbox_def)
  show "advances db db'"
  proof (rule hold_taken_advances [OF ok _ _ row(1) insd(2) _ _ links])
    show "take_seats_for from_pool (with_root held sales) (dw_hold_id d) (hr_quantity ?row) now
      (write_outbox rows db2) = Inr (True, sales', db')" using taken row by simp
    show "ds_date_id (current (root (with_root held sales))) = hr_date_id ?row"
      using hold_seats_id [OF held] find_sales_id [OF sales] row by simp
  qed (use insd placed(1) row in \<open>simp_all add: write_outbox_def\<close>)
qed (use ok in \<open>simp add: advances_refl\<close>)

section \<open>The replay\<close>

lemma load_fails_same:
  assumes "load_order c i db = Inr t" and "db_ok db"
    and "save_resumed c tp (with_root (fst (order_fail f now (root t))) t) db = Inr (t', db')"
  shows "advances db db'"
proof -
  have "order_of db (with_root (fst (order_fail f now (root t))) t)"
    using load_order_of [OF assms(1)] by (simp add: order_of_def)
  from save_resumed_same(1) [OF assms(3) db_okD(6) [OF assms(2)] this] assms(2) show ?thesis
    by (simp add: advances_same)
qed

lemma renew_hold_in_cases:
  assumes "renew_hold_in c d seen sales now t db = Inr (pending, t', db')"
  shows "pending = None \<and> t' = with_root (fst (order_fail \<lparr>of_code = Some Code_Sold_Out,
      of_decline_code = None\<rparr> now (root t))) t \<and> db' = db \<or>
    (\<exists>sales0 held e hold hold' a from_pool. sales = Some sales0 \<and>
      hold_seats (sales_rules c) (so_quantity (current (root t))) now (root sales0) = Inr held \<and>
      hold_place (checkout_rules c) \<lparr>shp_id = dw_hold_id d,
        shp_date_id = so_date_id (current (root t)), shp_account_id = so_account_id (current (root t)),
        shp_profile_id = so_profile_id (current (root t)), shp_tier = so_tier (current (root t)),
        shp_quantity = so_quantity (current (root t)), shp_origin = Origin_Checkout,
        shp_origin_ref = so_id (current (root t)), shp_intent_expires_at = e\<rparr> now = Inr hold \<and>
      save_hold (created hold) db = Inr (hold', db') \<and>
      renew_hold (dw_hold_id d) e now (root t) = Inr a \<and> t' = with_root a t \<and>
      pending = Some (take_seats_for from_pool (with_root held sales0) (dw_hold_id d)
        (so_quantity (current (root t))) now))"
proof (cases "case sales of None \<Rightarrow> False | Some x \<Rightarrow> sells_seats_at (sales_rules c) (current (root x)) now")
  case True
  then obtain sales0 where s: "sales = Some sales0" "sells_seats_at (sales_rules c) (current (root sales0)) now"
    by (auto split: option.splits)
  show ?thesis
    by (rule disjI2, insert assms s)
      (simp add: renew_hold_in_def Let_def result_simps case_prod_beta; blast)
next
  case False
  with assms show ?thesis by (auto simp: renew_hold_in_def Let_def split: option.splits if_splits)
qed

lemma renewed_links:
  assumes "distinct (map or_id orders)" and "(i, d, q, h) \<in> set (map order_link orders)"
    and "so_id s = i"
  shows "map order_link (tbl_update (\<lambda>r. or_id r = so_id s) (order_state_columns_of s) orders) =
    map (\<lambda>(j, d, q, k). (j, d, q, if j = i then so_hold_id s else k)) (map order_link orders)"
  by (simp add: tbl_update_def assms(3) order_link_columns) (simp add: order_link_def)

lemma renewal_advances:
  assumes ok: "db_ok db" and of: "order_of db t" and laws: "hold_laws (checkout_rules c)"
    and sales: "find_sales c (so_date_id (current (root t))) seen = sales"
    and renew: "renew_hold_in c d seen sales now t db = Inr (pending, t1, db1)"
    and saved: "save_resumed c tp t1 db1 = Inr (t2, db2)"
  shows "case pending of
      None \<Rightarrow> advances db db2
    | Some take_them \<Rightarrow> \<forall>x db3. take_them db2 = Inr (True, x, db3) \<longrightarrow> advances db db3"
  using renew_hold_in_cases [OF renew]
proof (elim disjE exE conjE)
  assume none: "pending = None" and t1: "t1 = with_root (fst (order_fail \<lparr>of_code = Some Code_Sold_Out,
      of_decline_code = None\<rparr> now (root t))) t" and db1: "db1 = db"
  have "order_of db t1" using of by (simp add: order_of_def t1)
  from save_resumed_same(1) [OF saved [unfolded db1] db_okD(6) [OF ok] this] ok none
  show ?thesis by (simp add: advances_same)
next
  fix sales0 and held :: date_sales and hold :: seat_hold
  fix e hold' a from_pool
  let ?s = "current (root t)"
  let ?p = "\<lparr>shp_id = dw_hold_id d,
        shp_date_id = so_date_id ?s, shp_account_id = so_account_id ?s,
        shp_profile_id = so_profile_id ?s, shp_tier = so_tier ?s,
        shp_quantity = so_quantity ?s, shp_origin = Origin_Checkout,
        shp_origin_ref = so_id ?s, shp_intent_expires_at = e\<rparr>"
  let ?row = "seat_hold_row_of (current hold)"
  assume s0: "sales = Some sales0"
    and held: "hold_seats (sales_rules c) (so_quantity ?s) now (root sales0) = Inr held"
    and hold: "hold_place (checkout_rules c) ?p now = Inr hold"
    and ins: "save_hold (created hold) db = Inr (hold', db1)"
    and a: "renew_hold (dw_hold_id d) e now (root t) = Inr a" and t1: "t1 = with_root a t"
    and pending: "pending = Some (take_seats_for from_pool (with_root held sales0) (dw_hold_id d)
      (so_quantity ?s) now)"
  note row = hold_place_row [OF hold laws, simplified]
  note insd = save_created_hold [OF ins]
  obtain dbo rows where order: "save_order t1 db1 = Inr (t2, dbo)" and db2: "db2 = write_outbox rows dbo"
    using saved by (auto simp: save_resumed_def bindE_eq_Inr)
  have ids: "distinct (map or_id (db_orders db1))" using db_okD(6) [OF ok] insd(1) by simp
  have key: "so_id (current (root t1)) = so_id ?s" "so_hold_id (current (root t1)) = dw_hold_id d"
    using renew_hold_key [OF a] by (auto simp: t1 order_key_def)
  have "same_core (db1\<lparr>db_orders := tbl_update (\<lambda>r. or_id r = so_id ?s)
      (order_state_columns_of (current (root t1))) (db_orders db1)\<rparr>) db2"
    using save_order_Inr(1) [OF order ids] same_core_trans [OF _ same_core_fields(8)]
    by (auto simp: db2 key)
  then have tables: "db_sales db2 = db_sales db" "db_holds db2 = db_holds db @ [?row]"
    and o2: "map order_link (db_orders db2) = map order_link (tbl_update (\<lambda>r. or_id r = so_id ?s)
      (order_state_columns_of (current (root t1))) (db_orders db))"
    using insd(1) by (auto simp: same_core_def)
  have link: "(so_id ?s, hr_date_id ?row, hr_quantity ?row, so_hold_id ?s) \<in> set (map order_link (db_orders db))"
    using of by (simp add: order_of_def order_key_def row)
  have links: "links_ok (map order_link (db_orders db2)) (db_holds db2)"
    using links_ok_renew [OF db_okD(3) [OF ok] link insd(3)] renewed_links [OF db_okD(6) [OF ok] link key(1)]
    unfolding o2 tables key row(2) by simp
  have "advances db db3" if "take_seats_for from_pool (with_root held sales0) (dw_hold_id d)
      (so_quantity ?s) now db2 = Inr (True, x, db3)" for x db3
  proof (rule hold_taken_advances [OF ok tables row(1) insd(2,3) _ links])
    show "take_seats_for from_pool (with_root held sales0) (dw_hold_id d) (hr_quantity ?row) now db2 =
      Inr (True, x, db3)" using that row by simp
    show "ds_date_id (current (root (with_root held sales0))) = hr_date_id ?row"
      using hold_seats_id [OF held] find_sales_id [OF sales [unfolded s0]] row by simp
  qed (use insd(4) row in simp)
  then show ?thesis by (simp add: pending)
qed

text \<open>Where the replay of an order with no kept answer may end.\<close>

lemma resume_in_cases:
  assumes "resume_in c origin d seen now i tp ack db = Inr (x, db')" and none: "stored_answer_of i seen = None"
    and t: "load_order c i db = Inr t"
  obtains (answered) "answer_of c origin seen now (current (root t)) db = Inr (x, db')"
    | (closed) f t' where "save_resumed c tp (with_root (fst (order_fail f now (root t))) t) db = Inr (t', db')"
    | (nothing) "db' = db"
    | (renewed) pending t1 db1 t2 db2 where
        "renew_hold_in c d seen (find_sales c (so_date_id (current (root t))) seen) now t db =
          Inr (pending, t1, db1)"
        "save_resumed c tp t1 db1 = Inr (t2, db2)"
        "case pending of None \<Rightarrow> db' = db2 | Some take_them \<Rightarrow> \<exists>y. take_them db2 = Inr (True, y, db')"
proof -
  let ?s = "current (root t)"
  let ?sales = "find_sales c (so_date_id ?s) seen"
  define secret where "secret = awaits_client_secret ?s"
  define hold_gone where "hold_gone = (\<not> secret \<and> active_hold (so_hold_id ?s) db = None)"
  define end_at where "end_at = Option.bind ?sales (\<lambda>x. ds_sales_end_at (current (root x)))"
  define late where "late = Option.bind ?sales (\<lambda>x. late_entry_at (sales_rules c) (current (root x)) now)"
  define ended where "ended = (hold_gone \<and> sales_ended_by (sales_rules c) end_at now)"
  note names = secret_def [symmetric] hold_gone_def [symmetric] end_at_def [symmetric]
    late_def [symmetric] ended_def [symmetric]
  note def = assms(1) [unfolded resume_in_def none Let_def option.case t bindE_Inr, unfolded names]
  show thesis
  proof (cases "\<not> secret \<and> \<not> awaits_intent ?s")
    case True
    with def show thesis by (auto intro: answered)
  next
    case open_order: False
    show thesis
    proof (cases "ended \<and> end_at \<noteq> None")
      case True
      with def open_order show thesis by (auto simp: bindE_eq_Inr intro: closed)
    next
      case False
      have "(case (ended, end_at) of (True, Some e) \<Rightarrow> f e | _ \<Rightarrow> g) = g" for f :: "instant \<Rightarrow> 'a" and g
        using False by (auto split: option.splits bool.splits)
      note rest = def [unfolded this]
      show thesis
      proof (cases "(late \<noteq> None \<and> \<not> ack) \<or> \<not> hold_gone")
        case True
        with rest open_order have "db' = db"
          by (auto split: option.splits bool.splits if_splits)
        then show thesis by (rule nothing)
      next
        case False
        with rest open_order obtain pending t1 db1 t2 db2 where
          r: "renew_hold_in c d seen ?sales now t db = Inr (pending, t1, db1)"
            "save_resumed c tp t1 db1 = Inr (t2, db2)"
          and "(case pending of None \<Rightarrow> Inr (Refused sold_out, db2)
            | Some take_them \<Rightarrow> bindE (take_them db2) (\<lambda>(taken, _, db3).
                if \<not> taken then Inl (Renewal_Sold_Out i (so_hold_id ?s))
                else Inr (intent_request_of c origin (current (root t2)), db3))) = Inr (x, db')"
          by (auto simp: bindE_eq_Inr split: option.splits bool.splits if_splits)
        then have "case pending of None \<Rightarrow> db' = db2 | Some take_them \<Rightarrow> \<exists>y. take_them db2 = Inr (True, y, db')"
          by (auto simp: bindE_eq_Inr split: option.splits if_splits)
        with r show thesis by (rule renewed)
      qed
    qed
  qed
qed

lemma resume_in_advances:
  assumes "resume_in c origin d seen now i tp ack db = Inr (x, db')" and ok: "db_ok db"
    and laws: "hold_laws (checkout_rules c)"
  shows "advances db db'"
proof (cases "stored_answer_of i seen")
  case (Some answer)
  with assms show ?thesis by (simp add: resume_in_def advances_refl)
next
  case None
  then obtain t where t: "load_order c i db = Inr t"
    using assms(1) by (auto simp: resume_in_def bindE_eq_Inr)
  from assms(1) None t show ?thesis
  proof (cases rule: resume_in_cases)
    case answered
    with answer_of_same ok show ?thesis by (blast intro: advances_same)
  next
    case closed
    with load_fails_same [OF t ok] show ?thesis by blast
  next
    case nothing
    with ok show ?thesis by (simp add: advances_refl)
  next
    case renewed
    with renewal_advances [OF ok load_order_of [OF t] laws refl renewed(1,2)] show ?thesis
      by (auto split: option.splits)
  qed
qed

lemma fail_sold_out_in_advances:
  assumes "fail_sold_out_in c origin seen now i stale tp db = Inr (x, db')" and ok: "db_ok db"
  shows "advances db db'"
proof -
  obtain t where t: "load_order c i db = Inr t"
    using assms(1) by (auto simp: fail_sold_out_in_def bindE_eq_Inr)
  have "db' = db \<or> answer_of c origin seen now (current (root t)) db = Inr (x, db') \<or>
      (\<exists>f t'. save_resumed c tp (with_root (fst (order_fail f now (root t))) t) db = Inr (t', db'))"
    using assms(1) t by (auto simp: fail_sold_out_in_def bindE_eq_Inr Let_def split: if_splits)
  then show ?thesis
    using ok load_fails_same [OF t ok] answer_of_same advances_same advances_refl by blast
qed

section \<open>Tx B and the release\<close>

lemma record_intent_in_advances:
  assumes "record_intent_in c origin d seen again now i intent tp db = Inr (x, db')" and ok: "db_ok db"
  shows "advances db db'"
proof -
  obtain t pending t1 db1 t2 db2 db3 where t: "load_order c i db = Inr t"
    and applied: "apply_intent c d seen again now intent tp t db = Inr (pending, t1, db1)"
    and saved: "save_resumed c tp t1 db1 = Inr (t2, db2)"
    and answer: "answer_of c origin again now (current (root t2)) db2 = Inr (x, db3)"
    and run: "run_counter_move pending db3 = Inr db'"
    using assms(1) by (auto simp: record_intent_in_def bindE_eq_Inr)
  have p: "pends db pending db1" and key: "order_key (current (root t1)) = order_key (current (root t))"
    using apply_intent_pends [OF applied ok load_order_of [OF t]] by auto
  have "same_core db1 db2"
    using save_resumed_same(1) [OF saved] pends_order [OF p ok] load_order_of [OF t] key by blast
  with answer_of_same [OF answer] have "same_core db1 db3" using same_core_trans by blast
  from pends_run [OF pends_same [OF p this] ok run] show ?thesis .
qed

lemma release_hold_of_advances:
  assumes "release_hold_of c now i db = Inr (x, db')" and ok: "db_ok db"
  shows "advances db db'"
proof -
  obtain t where "load_order c i db = Inr t"
    using assms(1) by (auto simp: release_hold_of_def bindE_eq_Inr)
  then consider "db' = db" | h s db1 where "active_hold (so_hold_id (current (root t))) db = Some h"
      "release_hold_in now h db = Inr (s, db1)"
      "return_held_seats (sh_date_id s) (sh_quantity s) (sh_pool_seats s) now db1 = Inr db'"
    using assms(1)
    by (auto simp: release_hold_of_def bindE_eq_Inr Let_def split: if_splits option.splits)
  then show ?thesis
  proof cases
    case 1
    with ok show ?thesis by (simp add: advances_refl)
  next
    case 2
    from pends_run [OF release_pends [OF 2(1,2) ok] ok] 2(3) show ?thesis
      by (simp add: run_counter_move_def)
  qed
qed

end
