(* ===== verification/Ledger_Payments.thy ===== *)
theory Ledger_Payments
  imports Payments Ledger_Purchases
begin

text \<open>
  The payments' transactions refine the ledger: a webhook applied moves seats as the purchase's
  second transaction does, and everything else of the payments leaves the ledger's tables alone.
\<close>

lemma refunds_update_same [simp]: "same_core db (refunds_update p f db)"
  by (simp add: refunds_update_def)

lemma inbox_update_same [simp]: "same_core db (inbox_update p f db)"
  by (simp add: inbox_update_def)

lemma mark_applied_same [simp]: "same_core db (mark_applied i now db)"
  by (simp add: mark_applied_def)

lemma ask_refund_calls_again_same [simp]: "same_core db (ask_refund_calls_again ids now db)"
  by (simp add: ask_refund_calls_again_def)

lemma give_up_refund_same [simp]: "same_core db (give_up_refund i now db)"
  by (simp add: give_up_refund_def)

section \<open>Webhooks\<close>

lemma record_payment_event_advances:
  assumes "record_payment_event w raw sig tp now db = Inr (x, db')" and "db_ok db"
  shows "advances db db'"
  using assms
  by (auto simp: record_payment_event_def split: if_splits option.splits intro!: advances_same)

lemma apply_dispute_pends:
  assumes "apply_dispute c d seen again row now t db = Inr (pending, t', db')"
    and "db_ok db" and "order_of db t"
  shows "pends db pending db' \<and> order_key (current (root t')) = order_key (current (root t))"
proof -
  obtain ref t1 where "settle_confirmed_payment c d seen again ref now (ir_traceparent row) t db = Inr (pending, t1, db')"
    and t': "t' = with_root (fst (order_dispute (order_rules c) (root t1))) t1"
    using assms(1) by (auto simp: apply_dispute_def bindE_eq_Inr split: option.splits)
  from settle_confirmed_payment_pends [OF this(1) assms(2,3)] show ?thesis by (simp add: t')
qed

lemma apply_to_pends:
  assumes "apply_to c d seen again row now t db = Inr (pending, t', db')"
    and "db_ok db" and "order_of db t"
  shows "pends db pending db' \<and> order_key (current (root t')) = order_key (current (root t))"
proof -
  have none: "pends db None db2" if "same_core db db2" for db2
    using that advances_same [OF assms(2) that] by (simp add: pends_def same_core_def)
  note def = assms(1) [unfolded apply_to_def Let_def]
  show ?thesis
  proof (cases "ir_kind row")
    case Event_Intent_Succeeded
    then show ?thesis using def settle_confirmed_payment_pends assms(2,3) by (auto split: option.splits)
  next
    case Event_Intent_Requires_Action
    then show ?thesis using def record_waiting_intent_same none by (fastforce split: prod.splits)
  next
    case Event_Intent_Processing
    then show ?thesis using def record_waiting_intent_same none by (fastforce split: prod.splits)
  next
    case Event_Intent_Failed
    then show ?thesis using def fail_unpaid_order_pends assms(2,3) by auto
  next
    case Event_Intent_Cancelled
    then show ?thesis using def fail_unpaid_order_pends assms(2,3) by auto
  next
    case Event_Refund_Succeeded
    then have "same_core db db' \<and> pending = None \<and> t' = t"
      using def by (auto simp: bindE_eq_Inr rerun_refunds_reported_def split: option.splits)
    then show ?thesis using none by simp
  next
    case Event_Dispute_Opened
    then show ?thesis using def apply_dispute_pends assms(2,3) by auto
  next
    case Event_Unhandled
    then show ?thesis using def none by simp
  qed
qed

lemma apply_in_advances:
  assumes "apply_in c d seen again locked now i db = Inr (x, db')" and ok: "db_ok db"
  shows "advances db db'"
proof -
  consider "db' = db" | "db' = mark_applied i now db"
    | row order_id t pending t1 db1 t2 db2 rows where "find_order c order_id db = Some t"
        "apply_to c d seen again row now t db = Inr (pending, t1, db1)"
        "save_order t1 db1 = Inr (t2, db2)"
        "run_counter_move pending (mark_applied i now (write_outbox rows db2)) = Inr db'"
    using assms(1)
    by (auto simp: apply_in_def bindE_eq_Inr split: option.splits bool.splits prod.splits)
  then show ?thesis
  proof cases
    case 3
    have of: "order_of db t" using find_order_of(1) [OF 3(1)] .
    have p: "pends db pending db1" and key: "order_key (current (root t1)) = order_key (current (root t))"
      using apply_to_pends [OF 3(2) ok of] by auto
    have "same_core db1 db2"
      using save_order_same(1) [OF 3(3)] pends_order [OF p ok] of key by blast
    then have "same_core db1 (mark_applied i now (write_outbox rows db2))"
      using same_core_trans same_core_fields(8) mark_applied_same by metis
    from pends_run [OF pends_same [OF p this] ok 3(4)] show ?thesis .
  qed (simp_all add: advances_refl advances_same ok)
qed

lemma event_failed_advances:
  assumes "event_failed random now i e db = (x, db')" and "db_ok db"
  shows "advances db db'"
proof -
  have "same_core db db'"
    using assms(1) same_core_trans [OF inbox_update_same inbox_update_same]
    by (auto simp: event_failed_def Let_def split: option.splits)
  then show ?thesis by (rule advances_same [OF assms(2)])
qed

lemma apply_payment_event_advances:
  assumes "apply_payment_event c d random seen again locked now i db = (x, db')" and "db_ok db"
  shows "advances db db'"
  using assms(1) apply_in_advances [OF _ assms(2)] event_failed_advances [OF _ assms(2)]
  by (auto simp: apply_payment_event_def split: sum.splits)

section \<open>The provider's calls\<close>

lemma refund_made_in_same:
  assumes "refund_made_in c order_id i ref tp now db = Inr (x, db')" and ok: "db_ok db"
  shows "same_core db db'"
proof -
  consider "db' = db"
    | t a t1 db1 rows where "find_order c order_id db = Some t" "refund_made (order_rules c) i ref now (root t) = Inr a"
      "save_order (with_root a t) db = Inr (t1, db1)" "db' = write_outbox rows db1"
    using assms(1) by (auto simp: refund_made_in_def save_resumed_def bindE_eq_Inr split: option.splits)
  then show ?thesis
  proof cases
    case 2
    from found_order_saved(1) [OF 2(1) refund_made_key [OF 2(2)] same_core_refl 2(3) db_okD(6) [OF ok]]
    show ?thesis using 2(4) same_core_trans same_core_fields(8) by metis
  qed simp
qed

lemma process_refund_advances:
  assumes "process_refund c provider final now i seen db = (x, db')" and ok: "db_ok db"
  shows "advances db db'"
proof -
  have "db' = db \<or> db' = give_up_refund i now db \<or>
      (\<exists>order_id ref tp y. refund_made_in c order_id i ref tp now db = Inr (y, db'))"
    using assms(1)
    by (auto simp: process_refund_def Let_def split: prod.splits refund_plan.splits option.splits sum.splits if_splits)
  then have "same_core db db'" using refund_made_in_same [OF _ ok] by auto
  then show ?thesis by (rule advances_same [OF ok])
qed

lemma process_intent_cancellation_advances:
  assumes "process_intent_cancellation c provider final now i seen db = (x, db')" and ok: "db_ok db"
  shows "advances db db'"
proof -
  have give_up: "same_core db (give_up_intent_cancellation i now db)"
    by (auto simp: give_up_intent_cancellation_def order_link_def intro!: same_core_orders)
  have "db' = db \<or> db' = give_up_intent_cancellation i now db \<or> (\<exists>y. intent_cancelled_in c i db = Inr (y, db'))"
    using assms(1)
    by (auto simp: process_intent_cancellation_def Let_def split: prod.splits option.splits sum.splits if_splits bool.splits)
  moreover have "same_core db db'" if "intent_cancelled_in c i db = Inr (y, db')" for y
    using that found_order_saved(1) [OF _ intent_cancelled_key same_core_refl _ db_okD(6) [OF ok]]
    by (auto simp: intent_cancelled_in_def bindE_eq_Inr split: option.splits)
  ultimately have "same_core db db'" using give_up by auto
  then show ?thesis by (rule advances_same [OF ok])
qed

section \<open>The relay\<close>

lemma relay_advances:
  assumes ok: "db_ok db"
  shows "advances db (snd (give_up_lost_refunds schedule locked now db))"
    and "advances db (snd (snd (relay_refunds locked now db)))"
    and "advances db (snd (snd (rerun_asked_refunds states locked db)))"
    and "advances db (snd (snd (relay_intent_cancellations c schedule locked now db)))"
  using advances_same [OF ok]
  by (auto simp: give_up_lost_refunds_def relay_refunds_def rerun_asked_refunds_def
      relay_intent_cancellations_def Let_def order_link_def intro!: advances_same [OF ok] same_core_orders)

end
