(* ===== verification/Idempotency.thy ===== *)
theory Idempotency
  imports Transactions
begin

text \<open>
  The idempotency store (\<open>libs/http-edge/src/idempotency.ts\<close>): a record claimed by the command's own
  transaction, completed with the answer before the commit, and replayed to a request that carries
  the same key and the same fingerprint. It is generic in the command's tables and in its answer;
  JSON keeps the envelope as it is. Whether the wait on another transaction that claims the key ran
  into the lock timeout is an argument, as is the database's clock \<open>at\<close>.
\<close>

section \<open>The store\<close>

record 'a success_envelope =
  sv_served_at :: instant
  sv_version :: "int option"
  sv_data :: 'a

datatype record_state = In_Flight | Completed

record 'a idempotency_record =
  im_key :: string
  im_account_id :: "ident option"
  im_fingerprint :: string
  im_state :: record_state
  im_status_code :: "int option"
  im_response_body :: "'a success_envelope option"
  im_expires_at :: instant

record idempotent_request =
  rq_key :: string
  rq_account_id :: "ident option"
  rq_fingerprint :: string
  rq_status_code :: int

definition IDEMPOTENCY_KEY_LIFETIME_HOURS :: int where
  "IDEMPOTENCY_KEY_LIFETIME_HOURS = 24"

definition idempotency_retry_after_ms :: int where
  "idempotency_retry_after_ms = 1000"

definition purge_idempotency_records ::
    "instant \<Rightarrow> 'a idempotency_record list \<Rightarrow> nat \<times> 'a idempotency_record list" where
  "purge_idempotency_records at records =
     (length (filter (\<lambda>r. im_expires_at r < at) records), filter (\<lambda>r. \<not> im_expires_at r < at) records)"

definition in_flight :: failure where
  "in_flight = Refusal (IDEMPOTENCY_IN_FLIGHT idempotency_retry_after_ms)"

text \<open>\<open>UNIQUE NULLS NOT DISTINCT (account_id, key)\<close>.\<close>

definition same_scope :: "idempotent_request \<Rightarrow> 'a idempotency_record \<Rightarrow> bool" where
  "same_scope q r \<longleftrightarrow> im_account_id r = rq_account_id q \<and> im_key r = rq_key q"

definition claim_key ::
    "bool \<Rightarrow> instant \<Rightarrow> idempotent_request \<Rightarrow> 'a idempotency_record list
       \<Rightarrow> (bool \<times> 'a idempotency_record list) result" where
  "claim_key lock_timeout at q records =
     (if lock_timeout then Inl in_flight
      else if list_ex (same_scope q) records then Inr (False, records)
      else Inr (True, records @ [\<lparr>im_key = rq_key q, im_account_id = rq_account_id q,
             im_fingerprint = rq_fingerprint q, im_state = In_Flight, im_status_code = None,
             im_response_body = None,
             im_expires_at = at + IDEMPOTENCY_KEY_LIFETIME_HOURS * 3600000\<rparr>]))"

record 'a memorised_response =
  mr_envelope :: "'a success_envelope"
  mr_replayed :: bool

definition replay_answer ::
    "idempotent_request \<Rightarrow> 'a idempotency_record list \<Rightarrow> 'a memorised_response result" where
  "replay_answer q records =
     (case find (same_scope q) records of
        None \<Rightarrow> Inl in_flight
      | Some r \<Rightarrow>
          (case (im_state r, im_response_body r) of
             (Completed, Some envelope) \<Rightarrow>
               if im_fingerprint r \<noteq> rq_fingerprint q then Inl (Refusal IDEMPOTENCY_KEY_REUSED)
               else Inr \<lparr>mr_envelope = envelope, mr_replayed = True\<rparr>
           | _ \<Rightarrow> Inl in_flight))"

definition complete_record ::
    "idempotent_request \<Rightarrow> 'a success_envelope \<Rightarrow> 'a idempotency_record list
       \<Rightarrow> 'a idempotency_record list" where
  "complete_record q envelope =
     tbl_update (same_scope q) (\<lambda>r. r\<lparr>im_state := Completed,
       im_status_code := Some (rq_status_code q), im_response_body := Some envelope\<rparr>)"

definition run_enveloped ::
    "bool \<Rightarrow> instant \<Rightarrow> idempotent_request \<Rightarrow> ('db \<Rightarrow> ('a success_envelope \<times> 'db) result)
       \<Rightarrow> 'a idempotency_record list \<times> 'db
       \<Rightarrow> ('a memorised_response \<times> 'a idempotency_record list \<times> 'db) result" where
  "run_enveloped lock_timeout at q envelope_of st =
     (case st of (records, db) \<Rightarrow>
      bindE (claim_key lock_timeout at q records) (\<lambda>(claimed, records1).
      if \<not> claimed then
        bindE (replay_answer q records1) (\<lambda>answer. Inr (answer, records1, db))
      else
        bindE (envelope_of db) (\<lambda>(envelope, db1).
        Inr (\<lparr>mr_envelope = envelope, mr_replayed = False\<rparr>, complete_record q envelope records1, db1))))"

definition run_idempotently ::
    "bool \<Rightarrow> instant \<Rightarrow> idempotent_request \<Rightarrow> instant \<Rightarrow> ('db \<Rightarrow> ('a \<times> 'db) result)
       \<Rightarrow> 'a idempotency_record list \<times> 'db
       \<Rightarrow> ('a memorised_response \<times> 'a idempotency_record list \<times> 'db) result" where
  "run_idempotently lock_timeout at q now command =
     run_enveloped lock_timeout at q (\<lambda>db.
       bindE (command db) (\<lambda>(data, db1).
       Inr (\<lparr>sv_served_at = now, sv_version = None, sv_data = data\<rparr>, db1)))"

definition run_idempotently_versioned ::
    "bool \<Rightarrow> instant \<Rightarrow> idempotent_request \<Rightarrow> instant \<Rightarrow> ('db \<Rightarrow> (('a \<times> int) \<times> 'db) result)
       \<Rightarrow> 'a idempotency_record list \<times> 'db
       \<Rightarrow> ('a memorised_response \<times> 'a idempotency_record list \<times> 'db) result" where
  "run_idempotently_versioned lock_timeout at q now command =
     run_enveloped lock_timeout at q (\<lambda>db.
       bindE (command db) (\<lambda>((data, version), db1).
       Inr (\<lparr>sv_served_at = now, sv_version = Some version, sv_data = data\<rparr>, db1)))"

section \<open>What the store promises\<close>

text \<open>
  The interface a command's transaction runs behind: a run answers from the record it kept under the
  request's scope, or runs the command once and keeps its answer. The client's lemma is that a
  request answered once is answered the same from then on, whatever other requests run in between.
\<close>

locale answer_store =
  fixes run :: "'q \<Rightarrow> 'w \<Rightarrow> 's \<Rightarrow> 'f + 'r \<times> 's"
    and kept :: "'q \<Rightarrow> 's \<Rightarrow> 'k option"
  assumes run_keeps: "run q w s = Inr (r, s') \<Longrightarrow> kept p s = Some x \<Longrightarrow> kept p s' = Some x"
    and run_answers: "run q w s = Inr (r, s') \<Longrightarrow> \<exists>x. kept q s' = Some x"
begin

lemma kept_through: "foldE (\<lambda>(q, w) s. bindE (run q w s) (\<lambda>(_, s'). Inr s')) qs s = Inr s' \<Longrightarrow>
    kept p s = Some x \<Longrightarrow> kept p s' = Some x"
  by (rule foldE_invariant [where P = "\<lambda>s. kept p s = Some x"])
    (auto simp: bindE_eq_Inr dest: run_keeps)

end

definition kept_answer :: "idempotent_request \<Rightarrow> 'a idempotency_record list \<Rightarrow> (string \<times> 'a success_envelope) option" where
  "kept_answer q records =
     (case find (same_scope q) records of
        None \<Rightarrow> None
      | Some r \<Rightarrow>
          (case (im_state r, im_response_body r) of
             (Completed, Some envelope) \<Rightarrow> Some (im_fingerprint r, envelope)
           | _ \<Rightarrow> None))"

lemma replay_answer_kept:
  "replay_answer q records =
    (case kept_answer q records of
       None \<Rightarrow> Inl in_flight
     | Some (fingerprint, envelope) \<Rightarrow>
         if fingerprint \<noteq> rq_fingerprint q then Inl (Refusal IDEMPOTENCY_KEY_REUSED)
         else Inr \<lparr>mr_envelope = envelope, mr_replayed = True\<rparr>)"
  by (auto simp: replay_answer_def kept_answer_def split: option.splits record_state.splits)

lemma kept_answer_claimed: "kept_answer q records = Some x \<Longrightarrow> list_ex (same_scope q) records"
  by (auto simp: kept_answer_def list_ex_iff find_Some_iff split: option.splits)

lemma run_enveloped_kept:
  assumes "kept_answer q records = Some (fingerprint, envelope)"
  shows "run_enveloped False at q work (records, db) =
    (if fingerprint \<noteq> rq_fingerprint q then Inl (Refusal IDEMPOTENCY_KEY_REUSED)
     else Inr (\<lparr>mr_envelope = envelope, mr_replayed = True\<rparr>, records, db))"
  using kept_answer_claimed [OF assms] assms
  by (simp add: run_enveloped_def claim_key_def replay_answer_kept)

lemma find_append: "find p (xs @ ys) = (case find p xs of None \<Rightarrow> find p ys | Some x \<Rightarrow> Some x)"
  by (induction xs) auto

lemma same_scope_columns [simp]:
  "same_scope q (r\<lparr>im_state := a, im_status_code := b, im_response_body := e\<rparr>) = same_scope q r"
  by (simp add: same_scope_def)

lemma find_complete_record:
  "find (same_scope p) (complete_record q envelope records) =
    map_option (\<lambda>r. if same_scope q r then r\<lparr>im_state := Completed,
      im_status_code := Some (rq_status_code q), im_response_body := Some envelope\<rparr> else r)
      (find (same_scope p) records)"
  unfolding complete_record_def by (induction records) auto

lemma same_scope_trans: "same_scope q r \<Longrightarrow> same_scope p r \<Longrightarrow> same_scope p x = same_scope q x"
  by (simp add: same_scope_def)

lemma run_enveloped_fresh:
  assumes "run_enveloped lt at q work (records, db) = Inr (answer, records', db')"
    and "\<not> mr_replayed answer"
  shows "\<not> lt" and "\<not> list_ex (same_scope q) records" and "work db = Inr (mr_envelope answer, db')"
    and "kept_answer q records' = Some (rq_fingerprint q, mr_envelope answer)"
    and "kept_answer p records = Some x \<Longrightarrow> kept_answer p records' = Some x"
proof -
  let ?new = "\<lparr>im_key = rq_key q, im_account_id = rq_account_id q, im_fingerprint = rq_fingerprint q,
      im_state = In_Flight, im_status_code = None, im_response_body = None,
      im_expires_at = at + IDEMPOTENCY_KEY_LIFETIME_HOURS * 3600000\<rparr>"
  have run: "\<not> lt \<and> \<not> list_ex (same_scope q) records \<and> work db = Inr (mr_envelope answer, db') \<and>
      records' = complete_record q (mr_envelope answer) (records @ [?new])"
    using assms unfolding run_enveloped_def claim_key_def
    by (auto simp: bindE_eq_Inr replay_answer_def split: if_splits option.splits record_state.splits)
  then show "\<not> lt" "\<not> list_ex (same_scope q) records" "work db = Inr (mr_envelope answer, db')" by auto
  have records': "records' = complete_record q (mr_envelope answer) (records @ [?new])" using run by simp
  have none: "find (same_scope q) records = None"
    using run by (auto simp: find_None_iff list_ex_iff)
  show "kept_answer q records' = Some (rq_fingerprint q, mr_envelope answer)"
    by (simp add: kept_answer_def records' find_complete_record find_append none same_scope_def)
  show "kept_answer p records' = Some x" if kept: "kept_answer p records = Some x"
  proof -
    obtain r where r: "find (same_scope p) records = Some r"
      using kept by (auto simp: kept_answer_def split: option.splits)
    then have p: "same_scope p r" and "r \<in> set records"
      by (auto simp: find_Some_iff)
    then have "\<not> same_scope q r" using none by (auto simp: find_None_iff)
    with kept r show ?thesis
      by (simp add: kept_answer_def records' find_complete_record find_append)
  qed
qed

lemma run_enveloped_replayed:
  assumes "run_enveloped lt at q work (records, db) = Inr (answer, records', db')" and "mr_replayed answer"
  shows "records' = records" and "db' = db" and "kept_answer q records = Some (rq_fingerprint q, mr_envelope answer)"
proof -
  have "replay_answer q records = Inr answer \<and> records' = records \<and> db' = db"
    using assms unfolding run_enveloped_def claim_key_def
    by (auto simp: bindE_eq_Inr split: if_splits)
  then show "records' = records" "db' = db"
    "kept_answer q records = Some (rq_fingerprint q, mr_envelope answer)"
    by (auto simp: replay_answer_kept split: option.splits if_splits)
qed

text \<open>A request with the command it would run, and the tables' clock.\<close>

definition serve ::
    "idempotent_request \<Rightarrow> instant \<times> ('db \<Rightarrow> ('a success_envelope \<times> 'db) result)
       \<Rightarrow> 'a idempotency_record list \<times> 'db
       \<Rightarrow> failure + 'a memorised_response \<times> 'a idempotency_record list \<times> 'db" where
  "serve q w st = run_enveloped False (fst w) q (snd w) st"

interpretation idempotency: answer_store serve "\<lambda>q (records, db). kept_answer q records"
proof unfold_locales
  fix q w s r s' p x
  assume run: "serve q w s = Inr (r, s')" and kept: "(case s of (records, db) \<Rightarrow> kept_answer p records) = Some x"
  obtain records db records' db' where s: "s = (records, db)" "s' = (records', db')"
    by (cases s; cases s') auto
  note run = run [unfolded serve_def s]
  show "(case s' of (records, db) \<Rightarrow> kept_answer p records) = Some x"
    using run_enveloped_fresh(5) [OF run] run_enveloped_replayed(1) [OF run] kept s
    by (cases "mr_replayed r") auto
next
  fix q w s r s'
  assume run: "serve q w s = Inr (r, s')"
  obtain records db records' db' where s: "s = (records, db)" "s' = (records', db')"
    by (cases s; cases s') auto
  note run = run [unfolded serve_def s]
  show "\<exists>x. (case s' of (records, db) \<Rightarrow> kept_answer q records) = Some x"
    using run_enveloped_fresh(4) [OF run] run_enveloped_replayed [OF run] s
    by (cases "mr_replayed r") auto
qed


definition sample_request :: "string \<Rightarrow> string \<Rightarrow> idempotent_request" where
  "sample_request key fingerprint = \<lparr>rq_key = key, rq_account_id = Some ''a'', rq_fingerprint = fingerprint,
     rq_status_code = 200\<rparr>"

definition sample_work :: "int \<Rightarrow> int \<Rightarrow> (int success_envelope \<times> int) result" where
  "sample_work n db = Inr (\<lparr>sv_served_at = 0, sv_version = None, sv_data = n\<rparr>, db + n)"


end
