(* ===== verification/Seats.thy ===== *)
theory Seats
  imports Purchase Idempotency
begin

text \<open>
  A seat cancelled by its viewer and a seat refunded by the studio (\<open>apps/ticketing/src/seats\<close>), each
  one transaction behind the idempotency store. The seat's share of its order is
  \<open>seat-share.ts\<close>; the seat's owner and the date's outcome are read without a lock, in the tables
  \<open>seen\<close>, and the outcome once more, in \<open>again\<close>, when the date refuses the seat back.
\<close>

section \<open>Shares\<close>

text \<open>\<open>Array.prototype.sort\<close> on strings: by their code units.\<close>

fun text_le :: "string \<Rightarrow> string \<Rightarrow> bool" where
  "text_le [] ys = True"
| "text_le (x # xs) [] = False"
| "text_le (x # xs) (y # ys) =
     ((of_char x :: nat) < of_char y \<or> x = y \<and> text_le xs ys)"

definition seat_owner_of :: "ident \<Rightarrow> db \<Rightarrow> (ident \<times> ident option) option" where
  "seat_owner_of seat_id db =
     map_option (\<lambda>r. (sr_order_id r, sr_account_id r)) (tbl_find sr_id seat_id (db_seats db))"

definition seat_of :: "seat_order_snapshot \<Rightarrow> ident \<Rightarrow> seat_snapshot result" where
  "seat_of s seat_id =
     (case find (\<lambda>seat. se_id seat = seat_id) (so_seats s) of
        None \<Rightarrow> Inl (Plain_Error ''order holds no such seat'')
      | Some seat \<Rightarrow> Inr seat)"

text \<open>\<open>xs.indexOf(x)\<close>: the first place, \<open>None\<close> for -1.\<close>

fun index_of :: "'a \<Rightarrow> 'a list \<Rightarrow> nat option" where
  "index_of x [] = None"
| "index_of x (y # ys) = (if x = y then Some 0 else map_option Suc (index_of x ys))"

definition seat_share_within :: "core \<Rightarrow> seat_order_snapshot \<Rightarrow> ident \<Rightarrow> money \<Rightarrow> money result" where
  "seat_share_within c s seat_id left =
     (let seat_ids = sort_by text_le (map se_id (so_seats s));
          shares = seat_shares_of (refund_rules c) (total (so_quote s)) (so_quantity s)
      in case index_of seat_id seat_ids of
           None \<Rightarrow> Inl (Plain_Error ''order holds no such seat'')
         | Some i \<Rightarrow>
             if i < length shares then Inr (money_min (refund_rules c) (shares ! i) left)
             else Inl (Plain_Error ''order holds no such seat''))"

definition seat_cancel_reason_for :: "core \<Rightarrow> refund_reason \<Rightarrow> seat_cancel_reason result" where
  "seat_cancel_reason_for c reason =
     (case seat_cancel_reason_of (checkout_rules c) reason of
        None \<Rightarrow> Inl (Plain_Error ''a refund cancels no seat'')
      | Some r \<Rightarrow> Inr r)"

section \<open>The viewer's cancellation\<close>

record cancel_seat_command =
  csc_seat_id :: ident
  csc_account_id :: ident
  csc_traceparent :: "string option"
  csc_idempotency :: idempotent_request

text \<open>The refund's id is drawn by the caller.\<close>

definition owe_share ::
    "core \<Rightarrow> ident \<Rightarrow> ident \<Rightarrow> refund_reason \<Rightarrow> instant \<Rightarrow> seat_order
       \<Rightarrow> (seat_order \<times> order_refund option) result" where
  "owe_share c refund_id seat_id reason now a =
     (let s = current a; rules = order_rules c in
      if so_state s = Order_Disputed then Inr (a, None)
      else
        bindE (seat_share_within c s seat_id (refundable_left rules s)) (\<lambda>amount.
        if amount_minor amount = 0 then Inr (a, None)
        else
          bindE (owe_refund rules \<lparr>rf_id = refund_id, rf_amount = amount, rf_reason = reason,
                   rf_idempotency_key = refund_idempotency_key rules refund_id,
                   rf_seat_id = Some seat_id\<rparr> now a) (\<lambda>(a1, owed). Inr (a1, Some owed))))"

definition release_seat :: "core \<Rightarrow> db \<Rightarrow> ident \<Rightarrow> db \<Rightarrow> db result" where
  "release_seat c again date_id db =
     bindE (release_sold_seats date_id 1 db) (\<lambda>(released, db1).
     if released then Inr db1
     else if sales_outcome (find_sales c date_id again) = Some Outcome_Cancelled
     then Inl Date_Cancelled_Meanwhile
     else Inl (Plain_Error ''the date sold no seat to give back''))"

text \<open>The trace of the refund owed, if one was.\<close>

definition trace_refund :: "ident option \<Rightarrow> string option \<Rightarrow> db \<Rightarrow> db result" where
  "trace_refund refund_id tp db =
     (case refund_id of None \<Rightarrow> Inr db | Some i \<Rightarrow> record_refund_traceparent i tp db)"

definition cancel_in ::
    "core \<Rightarrow> ident \<Rightarrow> db \<Rightarrow> db \<Rightarrow> instant \<Rightarrow> cancel_seat_command \<Rightarrow> db
       \<Rightarrow> ((ticket_view \<times> counter_move option) \<times> db) result" where
  "cancel_in c refund_id seen again now cmd db =
     (let seat_id = csc_seat_id cmd; tp = csc_traceparent cmd in
      case seat_owner_of seat_id seen of
        None \<Rightarrow> Inl (Refusal NOT_FOUND)
      | Some (order_id, account) \<Rightarrow>
        if account \<noteq> Some (csc_account_id cmd) then Inl (Refusal NOT_FOUND)
        else case find_order c order_id db of
            None \<Rightarrow> Inl (Refusal NOT_FOUND)
          | Some t \<Rightarrow>
              bindE (seat_of (current (root t)) seat_id) (\<lambda>seat.
              let date_id = so_date_id (current (root t));
                  reason = refund_reason_on_date (checkout_rules c)
                    (sales_outcome (find_sales c date_id seen)) Refund_Viewer_Request;
                  on_cancelled_date = (reason = Refund_Date_Cancelled)
              in
              bindE (assertE (assert_seat_cancellable (refund_rules c) (se_state seat)
                       (if on_cancelled_date then None else se_cancel_deadline seat) now)) (\<lambda>_.
              bindE (owe_share c refund_id seat_id reason now (root t)) (\<lambda>(a1, refund).
              bindE (seat_cancel_reason_for c reason) (\<lambda>cancel_reason.
              bindE (cancel_seats (order_rules c) \<lparr>sc_reason = cancel_reason,
                       sc_refund_id = map_option rf_id refund,
                       sc_seats = [(seat_id, map_option rf_amount refund)]\<rparr> now a1) (\<lambda>a2.
              bindE (save_order (with_root a2 t) db) (\<lambda>(t1, db1).
              bindE (trace_refund (map_option rf_id refund) tp db1) (\<lambda>db2.
              bindE (ticket_view_of (checkout_rules c) (current (root t1)) seat_id) (\<lambda>view.
              Inr ((view, if on_cancelled_date then None else Some (release_seat c again date_id)),
                   write_outbox (write_seat_order_integration_events c tp (uncommitted (root t1)))
                     db2))))))))))"

text \<open>
  The release is kept beside the answer while the store memorises it, and run last, only when this
  run cancelled the seat.
\<close>

type_synonym 'a answered = "'a memorised_response \<times> 'a idempotency_record list \<times> db"

definition cancel_once ::
    "core \<Rightarrow> ident \<Rightarrow> db \<Rightarrow> db \<Rightarrow> bool \<Rightarrow> instant \<Rightarrow> cancel_seat_command
       \<Rightarrow> ticket_view idempotency_record list \<times> db \<Rightarrow> ticket_view answered result" where
  "cancel_once c refund_id seen again lock_timeout now cmd st =
     bindE (run_idempotently lock_timeout now (csc_idempotency cmd) now
         (\<lambda>(db, _). bindE (cancel_in c refund_id seen again now cmd db)
            (\<lambda>((view, release), db1). Inr (view, (db1, release))))
         (fst st, (snd st, None))) (\<lambda>(response, records, (db1, release)).
     bindE (run_counter_move release db1) (\<lambda>db2.
     Inr (response, records, db2)))"

text \<open>Run again from the start, on the tables of then, when the date was cancelled meanwhile.\<close>

definition cancel_seat :: "'a result \<Rightarrow> 'a result \<Rightarrow> 'a result" where
  "cancel_seat first second = (case first of Inl Date_Cancelled_Meanwhile \<Rightarrow> second | r \<Rightarrow> r)"

section \<open>The studio's refund\<close>

record refund_seat_command =
  rsc_seat_id :: ident
  rsc_reason :: refund_reason
  rsc_partial_amount_minor :: "int option"
  rsc_traceparent :: "string option"
  rsc_idempotency :: idempotent_request

definition amount_to_refund ::
    "core \<Rightarrow> seat_order_snapshot \<Rightarrow> ident \<Rightarrow> int option \<Rightarrow> money result" where
  "amount_to_refund c s seat_id partial_amount =
     (let left = refundable_left (order_rules c) s in
      bindE (case partial_amount of
          None \<Rightarrow> seat_share_within c s seat_id left
        | Some minor \<Rightarrow> Inr (money_of (sales_rules c) minor (currency_code left))) (\<lambda>amount.
      bindE (assertE (assert_refund_within_remaining (order_rules c) amount left)) (\<lambda>_.
      if amount_minor amount = 0
      then Inl (Refusal (REFUND_AMOUNT_EXCEEDS_REMAINING 0 (currency_code left)))
      else Inr amount)))"

definition refund_seat_allowed ::
    "core \<Rightarrow> db \<Rightarrow> refund_reason \<Rightarrow> seat_order_snapshot \<Rightarrow> seat_snapshot \<Rightarrow> unit result" where
  "refund_seat_allowed c seen reason s seat =
     (if se_state seat \<noteq> Seat_Active then Inl (Refusal (SEAT_NOT_ACTIVE (se_state seat)))
      else if so_state s = Order_Disputed
      then Inl (Refusal (ORDER_STATE_CONFLICT (so_version s) (so_state s)))
      else if reason \<noteq> Refund_Date_Cancelled then Inr ()
      else case find_sales c (so_date_id s) seen of
          None \<Rightarrow> Inl (Plain_Error ''order sold a date with no sale'')
        | Some sales \<Rightarrow>
            ensure (ds_outcome (current (root sales)) = Some Outcome_Cancelled)
              (Refusal (OUTCOME_CONFLICT (ds_version (current (root sales)))
                 (ds_outcome (current (root sales))))))"

definition refund_in ::
    "core \<Rightarrow> ident \<Rightarrow> db \<Rightarrow> instant \<Rightarrow> refund_seat_command \<Rightarrow> db \<Rightarrow> (money \<times> db) result" where
  "refund_in c refund_id seen now cmd db =
     (let seat_id = rsc_seat_id cmd; reason = rsc_reason cmd; tp = rsc_traceparent cmd;
          rules = order_rules c
      in case seat_owner_of seat_id seen of
        None \<Rightarrow> Inl (Refusal NOT_FOUND)
      | Some (order_id, _) \<Rightarrow>
        (case find_order c order_id db of
           None \<Rightarrow> Inl (Refusal NOT_FOUND)
         | Some t \<Rightarrow>
             let s = current (root t) in
             bindE (seat_of s seat_id) (\<lambda>seat.
             bindE (refund_seat_allowed c seen reason s seat) (\<lambda>_.
             bindE (amount_to_refund c s seat_id (rsc_partial_amount_minor cmd)) (\<lambda>amount.
             bindE (owe_refund rules \<lparr>rf_id = refund_id, rf_amount = amount, rf_reason = reason,
                      rf_idempotency_key = refund_idempotency_key rules refund_id,
                      rf_seat_id = Some seat_id\<rparr> now (root t)) (\<lambda>(a1, _).
             bindE (if refund_cancels_seat (refund_rules c) reason then
                      bindE (seat_cancel_reason_for c reason) (\<lambda>cancel_reason.
                      cancel_seats rules \<lparr>sc_reason = cancel_reason, sc_refund_id = Some refund_id,
                        sc_seats = [(seat_id, Some amount)]\<rparr> now a1)
                    else Inr a1) (\<lambda>a2.
             bindE (save_order (with_root a2 t) db) (\<lambda>(t1, db1).
             bindE (record_refund_traceparent refund_id tp db1) (\<lambda>db2.
             Inr (amount,
                  write_outbox (write_seat_order_integration_events c tp (uncommitted (root t1)))
                    db2))))))))))"

definition refund_seat ::
    "core \<Rightarrow> ident \<Rightarrow> db \<Rightarrow> bool \<Rightarrow> instant \<Rightarrow> refund_seat_command
       \<Rightarrow> money idempotency_record list \<times> db \<Rightarrow> money answered result" where
  "refund_seat c refund_id seen lock_timeout now cmd =
     run_idempotently lock_timeout now (rsc_idempotency cmd) now (refund_in c refund_id seen now cmd)"

end
