(* ===== verification/Date_Outcomes.thy ===== *)
theory Date_Outcomes
  imports Seats Sales_Commands
begin

text \<open>
  A date's cancellation or interruption settled (\<open>apps/ticketing/src/date-outcomes\<close>): what each order
  gets (\<open>order-outcome.ts\<close>), the credit's row (\<open>credits/credit.typeorm-repository.ts\<close>), and the sweeper's
  pass (\<open>settle-date-outcomes.handler.ts\<close>): a batch of the date's orders in one transaction, then the
  end of its waiting list in another. \<open>locked\<close> names the rows another transaction holds, which the
  claims skip; \<open>fresh\<close> is the id drawn for each order's refund or credit.

  A comparison by \<open>localeCompare\<close> of two seats' ids, uuids of one shape, is the one of their code units.
\<close>

section \<open>What an order gets\<close>

definition states_holding_money :: "order_state list" where
  "states_holding_money = [Order_Paid, Order_Partially_Refunded]"

definition active_seats_of :: "seat_order_snapshot \<Rightarrow> seat_snapshot list" where
  "active_seats_of s =
     sort_by (\<lambda>l r. text_le (se_id l) (se_id r)) (filter (\<lambda>seat. se_state seat = Seat_Active) (so_seats s))"

definition shared_over :: "core \<Rightarrow> seat_snapshot list \<Rightarrow> money \<Rightarrow> (seat_snapshot \<times> money) list result" where
  "shared_over c seats amount =
     (let shares = seat_shares_of (refund_rules c) amount (int (length seats)) in
      if length shares < length seats then Inl (Plain_Error ''no share for a seat'')
      else Inr (zip seats shares))"

definition money_left_of :: "core \<Rightarrow> seat_order_snapshot \<Rightarrow> money option" where
  "money_left_of c s =
     (if \<not> List.member states_holding_money (so_state s) then None
      else let left = refundable_left (order_rules c) s
        in if 0 < amount_minor left then Some left else None)"

record cancelled_date_settlement =
  cd_refund :: "owed_refund option"
  cd_cancellation :: seat_cancellation

definition cancelled_date_settlement_of ::
    "core \<Rightarrow> ident \<Rightarrow> seat_order_snapshot \<Rightarrow> cancelled_date_settlement option result" where
  "cancelled_date_settlement_of c refund_id s =
     (let seats = active_seats_of s in
      if seats = [] then Inr None
      else case money_left_of c s of
          None \<Rightarrow> Inr (Some \<lparr>cd_refund = None,
              cd_cancellation = \<lparr>sc_reason = Cancel_Date_Cancelled, sc_refund_id = None,
                sc_seats = map (\<lambda>seat. (se_id seat, None)) seats\<rparr>\<rparr>)
        | Some left \<Rightarrow>
            bindE (shared_over c seats left) (\<lambda>shared.
            Inr (Some \<lparr>cd_refund = Some \<lparr>rf_id = refund_id, rf_amount = left,
                rf_reason = Refund_Date_Cancelled,
                rf_idempotency_key = refund_idempotency_key (order_rules c) refund_id,
                rf_seat_id = None\<rparr>,
              cd_cancellation = \<lparr>sc_reason = Cancel_Date_Cancelled, sc_refund_id = Some refund_id,
                sc_seats = map (\<lambda>(seat, share). (se_id seat, Some share)) shared\<rparr>\<rparr>)))"

datatype nothing_owed_because = No_Active_Seat | Nothing_Left | No_Account

datatype interrupted_date_settlement =
    Credit_Owed credit_issue seat_crediting
  | Nothing_Owed nothing_owed_because

definition interrupted_date_settlement_of ::
    "core \<Rightarrow> ident \<Rightarrow> seat_order_snapshot \<Rightarrow> interrupted_date_settlement result" where
  "interrupted_date_settlement_of c credit_id s =
     (let seats = active_seats_of s in
      if seats = [] then Inr (Nothing_Owed No_Active_Seat)
      else case money_left_of c s of
          None \<Rightarrow> Inr (Nothing_Owed Nothing_Left)
        | Some left \<Rightarrow>
            (case so_account_id s of
               None \<Rightarrow> Inr (Nothing_Owed No_Account)
             | Some account_id \<Rightarrow>
                 let amount = credit_amount_for (refund_rules c) left in
                 bindE (shared_over c seats amount) (\<lambda>shared.
                 Inr (Credit_Owed
                   \<lparr>cr_id = credit_id, cr_account_id = account_id, cr_channel_id = so_channel_id s,
                    cr_order_id = so_id s, cr_amount = amount, cr_origin = Credit_Interrupted_Date,
                    cr_origin_ref = Some (so_date_id s)\<rparr>
                   \<lparr>scr_credit_id = credit_id,
                    scr_seats = map (\<lambda>(seat, share). (se_id seat, share)) shared\<rparr>))))"

section \<open>The credit's row\<close>

definition credit_row_of :: "credit_snapshot \<Rightarrow> credit_row" where
  "credit_row_of s = \<lparr>kr_id = cr_id s, kr_account_id = cr_account_id s,
     kr_channel_id = cr_channel_id s, kr_order_id = cr_order_id s,
     kr_amount_minor = amount_minor (cr_amount s), kr_currency_code = currency_code (cr_amount s),
     kr_origin = cr_origin s, kr_origin_ref = cr_origin_ref s, kr_state = cr_state s,
     kr_expires_at = cr_expires_at s, kr_version = cr_version s\<rparr>"

text \<open>
  \<open>INSERT \<dots> ON CONFLICT DO NOTHING\<close>: \<open>False\<close>, nothing written, when the id is taken or the order has a
  credit of the origin (\<open>uq_credit_order_origin\<close>).
\<close>

definition insert_credit :: "credit \<Rightarrow> db \<Rightarrow> (bool \<times> db) result" where
  "insert_credit credit db =
     (let row = credit_row_of (current credit) in
      if \<not> credit_check row then Inl (Constraint_Violation ''credit'')
      else if list_ex (\<lambda>r. kr_id r = kr_id row \<or>
          (kr_order_id r = kr_order_id row \<and> kr_origin r = kr_origin row)) (db_credits db)
      then Inr (False, db)
      else if kr_order_id row \<notin> or_id ` set (db_orders db)
      then Inl (Constraint_Violation ''credit_order_id_fkey'')
      else Inr (True, db\<lparr>db_credits := db_credits db @ [row]\<rparr>))"

section \<open>The pass\<close>

definition DATE_OUTCOME_RETRY_SECONDS :: int where
  "DATE_OUTCOME_RETRY_SECONDS = 10"

definition order_unsettled :: "db \<Rightarrow> ident \<Rightarrow> bool" where
  "order_unsettled db order_id =
     list_ex (\<lambda>o'. or_id o' = order_id \<and> or_outcome_settled_at o' = None) (db_orders db)"

text \<open>An active seat of the date whose order no pass has settled.\<close>

definition seats_left_to_settle :: "ident \<Rightarrow> db \<Rightarrow> bool" where
  "seats_left_to_settle date_id db =
     list_ex (\<lambda>seat. sr_date_id seat = date_id \<and> sr_state seat = Seat_Active \<and>
       order_unsettled db (sr_order_id seat)) (db_seats db)"

definition nothing_left_to_settle :: "ident \<Rightarrow> db \<Rightarrow> bool" where
  "nothing_left_to_settle date_id db \<longleftrightarrow> \<not> seats_left_to_settle date_id db \<and>
     \<not> list_ex (\<lambda>h. hr_date_id h = date_id \<and> hr_state h = Hold_Active) (db_holds db)"

definition due_settlements :: "instant \<Rightarrow> nat \<Rightarrow> db \<Rightarrow> (ident \<times> instant) list" where
  "due_settlements retry_since dates db =
     (let waits = (\<lambda>r. xr_waitlist_ended_at r \<noteq> None \<and> \<not> seats_left_to_settle (xr_date_id r) db);
          failed_le = (\<lambda>a b. case (a, b) of (None, _) \<Rightarrow> True | (Some _, None) \<Rightarrow> False
                                 | (Some x, Some y) \<Rightarrow> (x :: instant) \<le> y)
      in map (\<lambda>r. (xr_date_id r, xr_recorded_at r)) (take dates (sort_by
           (\<lambda>l r. \<not> waits l \<and> waits r \<or> waits l = waits r \<and>
              (failed_le (xr_failed_at l) (xr_failed_at r) \<and>
               (xr_failed_at l = xr_failed_at r \<longrightarrow> xr_recorded_at l \<le> xr_recorded_at r)))
           (filter (\<lambda>r. xr_settled_at r = None \<and>
              (case xr_failed_at r of None \<Rightarrow> True | Some at \<Rightarrow> at \<le> retry_since)) (db_settlements db)))))"

definition claim_settlement :: "(ident \<Rightarrow> bool) \<Rightarrow> ident \<Rightarrow> db \<Rightarrow> date_outcome_settlement_row option" where
  "claim_settlement locked date_id db =
     find (\<lambda>r. xr_date_id r = date_id \<and> xr_settled_at r = None \<and> \<not> locked date_id) (db_settlements db)"

definition orders_to_settle :: "core \<Rightarrow> (ident \<Rightarrow> bool) \<Rightarrow> nat \<Rightarrow> ident \<Rightarrow> db \<Rightarrow> ident list" where
  "orders_to_settle c locked batch date_id db =
     take batch (sort_by (collates (checkout_rules c))
       (map or_id (filter (\<lambda>o'. or_outcome_settled_at o' = None \<and> \<not> locked (or_id o') \<and>
            list_ex (\<lambda>seat. sr_date_id seat = date_id \<and> sr_state seat = Seat_Active \<and>
              sr_order_id seat = or_id o') (db_seats db))
          (db_orders db))))"

definition owe_settled :: "core \<Rightarrow> owed_refund option \<Rightarrow> instant \<Rightarrow> seat_order \<Rightarrow> seat_order result" where
  "owe_settled c refund now a =
     (case refund of
        None \<Rightarrow> Inr a
      | Some r \<Rightarrow> bindE (owe_refund (order_rules c) r now a) (\<lambda>(a1, _). Inr a1))"

definition settle_cancelled ::
    "core \<Rightarrow> ident \<Rightarrow> string option \<Rightarrow> instant \<Rightarrow> tracked_order \<Rightarrow> db
       \<Rightarrow> (tracked_order option \<times> db) result" where
  "settle_cancelled c refund_id tp now t db =
     bindE (cancelled_date_settlement_of c refund_id (current (root t))) (\<lambda>settled.
     case settled of
       None \<Rightarrow> Inr (None, db)
     | Some x \<Rightarrow>
         bindE (owe_settled c (cd_refund x) now (root t)) (\<lambda>a1.
         bindE (cancel_seats (order_rules c) (cd_cancellation x) now a1) (\<lambda>a2.
         bindE (save_order (with_root a2 t) db) (\<lambda>(t1, db1).
         bindE (trace_refund (map_option rf_id (cd_refund x)) tp db1) (\<lambda>db2.
         Inr (Some t1, db2))))))"

definition settle_interrupted ::
    "core \<Rightarrow> ident \<Rightarrow> string option \<Rightarrow> instant \<Rightarrow> tracked_order \<Rightarrow> db
       \<Rightarrow> (tracked_order option \<times> db) result" where
  "settle_interrupted c credit_id tp now t db =
     bindE (interrupted_date_settlement_of c credit_id (current (root t))) (\<lambda>settled.
     case settled of
       Nothing_Owed _ \<Rightarrow> Inr (None, db)
     | Credit_Owed issue crediting \<Rightarrow>
         bindE (issue_credit (refund_rules c) issue now) (\<lambda>credit.
         bindE (insert_credit credit db) (\<lambda>(issued, db1).
         if \<not> issued then Inr (None, db1)
         else
           bindE (credit_seats (order_rules c) crediting now (root t)) (\<lambda>a.
           bindE (save_order (with_root a t) db1) (\<lambda>(t1, db2).
           Inr (Some t1, write_outbox (record_credit_events tp (uncommitted credit)) db2))))))"

definition settle_order ::
    "core \<Rightarrow> date_outcome_settlement_row \<Rightarrow> (ident \<Rightarrow> ident) \<Rightarrow> instant \<Rightarrow> ident \<Rightarrow> db \<Rightarrow> db result" where
  "settle_order c settlement fresh now order_id db =
     (let tp = xr_traceparent settlement in
      case find_order c order_id db of
        None \<Rightarrow> Inl (Plain_Error ''order vanished'')
      | Some t \<Rightarrow>
          bindE (if xr_outcome settlement = Outcome_Cancelled
                 then settle_cancelled c (fresh order_id) tp now t db
                 else settle_interrupted c (fresh order_id) tp now t db) (\<lambda>(moved, db1).
          Inr (case moved of
              None \<Rightarrow> db1
            | Some t1 \<Rightarrow>
                write_outbox (write_seat_order_integration_events c tp (uncommitted (root t1))) db1)))"

definition mark_orders_settled :: "ident list \<Rightarrow> instant \<Rightarrow> db \<Rightarrow> db" where
  "mark_orders_settled order_ids now db =
     (if order_ids = [] then db
      else db\<lparr>db_orders := tbl_update (\<lambda>o'. or_id o' \<in> set order_ids)
             (\<lambda>o'. o'\<lparr>or_outcome_settled_at := Some now\<rparr>) (db_orders db)\<rparr>)"

definition settlements_update ::
    "ident \<Rightarrow> (date_outcome_settlement_row \<Rightarrow> date_outcome_settlement_row) \<Rightarrow> db \<Rightarrow> db" where
  "settlements_update date_id f db =
     db\<lparr>db_settlements := tbl_update (\<lambda>r. xr_date_id r = date_id) f (db_settlements db)\<rparr>"

text \<open>\<open>None\<close> when another replica holds the date; otherwise the orders settled and whether the list has ended.\<close>

definition settle_orders ::
    "core \<Rightarrow> (ident \<Rightarrow> bool) \<Rightarrow> (ident \<Rightarrow> ident) \<Rightarrow> nat \<Rightarrow> instant \<Rightarrow> ident \<Rightarrow> db
       \<Rightarrow> ((nat \<times> bool) option \<times> db) result" where
  "settle_orders c locked fresh batch now date_id db =
     (case claim_settlement locked date_id db of
        None \<Rightarrow> Inr (None, db)
      | Some settlement \<Rightarrow>
          let order_ids = orders_to_settle c locked batch date_id db in
          bindE (foldE (settle_order c settlement fresh now) order_ids db) (\<lambda>db1.
          let db2 = mark_orders_settled order_ids now db1;
              waitlist_ended = (xr_waitlist_ended_at settlement \<noteq> None);
              settled = (length order_ids < batch \<and> waitlist_ended \<and> nothing_left_to_settle date_id db2)
          in Inr (Some (length order_ids, waitlist_ended),
               settlements_update date_id (\<lambda>r. r\<lparr>xr_failed_at := None,
                 xr_settled_at := (if settled then Some now else None)\<rparr>) db2)))"

definition end_waitlist_of_outcome ::
    "core \<Rightarrow> (ident \<Rightarrow> bool) \<Rightarrow> instant \<Rightarrow> ident \<Rightarrow> db \<Rightarrow> (unit \<times> db) result" where
  "end_waitlist_of_outcome c locked now date_id db =
     (case claim_settlement locked date_id db of
        None \<Rightarrow> Inr ((), db)
      | Some settlement \<Rightarrow>
          if xr_waitlist_ended_at settlement \<noteq> None then Inr ((), db)
          else
            bindE (end_waitlist c date_id now db) (\<lambda>(_, db1).
            Inr ((), settlements_update date_id (\<lambda>r. r\<lparr>xr_waitlist_ended_at := Some now\<rparr>) db1)))"

definition set_aside :: "ident \<Rightarrow> instant \<Rightarrow> db \<Rightarrow> db" where
  "set_aside date_id now = settlements_update date_id (\<lambda>r. r\<lparr>xr_failed_at := Some now\<rparr>)"

text \<open>
  A date's turn with nothing else running beside it: the orders' transaction, then the list's. One
  that throws keeps what the first committed and sets the date aside.
\<close>

definition settle_date ::
    "core \<Rightarrow> (ident \<Rightarrow> ident) \<Rightarrow> nat \<Rightarrow> instant \<Rightarrow> ident \<Rightarrow> db \<Rightarrow> nat result \<times> db" where
  "settle_date c fresh batch now date_id db =
     (case settle_orders c (\<lambda>_. False) fresh batch now date_id db of
        Inl e \<Rightarrow> (Inl e, db)
      | Inr (None, db1) \<Rightarrow> (Inr 0, db1)
      | Inr (Some (orders, True), db1) \<Rightarrow> (Inr orders, db1)
      | Inr (Some (orders, False), db1) \<Rightarrow>
          (case end_waitlist_of_outcome c (\<lambda>_. False) now date_id db1 of
             Inl e \<Rightarrow> (Inl e, db1)
           | Inr (_, db2) \<Rightarrow> (Inr orders, db2)))"

definition settle_date_outcomes ::
    "core \<Rightarrow> (ident \<Rightarrow> ident) \<Rightarrow> nat \<Rightarrow> nat \<Rightarrow> instant \<Rightarrow> db \<Rightarrow> nat \<times> db" where
  "settle_date_outcomes c fresh order_batch dates now db =
     fold (\<lambda>(date_id, _) (settled, db).
         case settle_date c fresh order_batch now date_id db of
           (Inr n, db1) \<Rightarrow> (settled + n, db1)
         | (Inl _, db1) \<Rightarrow> (settled, set_aside date_id now db1))
       (due_settlements (now - DATE_OUTCOME_RETRY_SECONDS * 1000) dates db) (0, db)"

end
