(* ===== verification/Availability.thy ===== *)
theory Availability
  imports Date_Sales_Store
begin

text \<open>
  The availability publisher (\<open>apps/ticketing/src/availability\<close>): the dates due a publication, one
  published in its own transaction through its publication row, and the figures served to a caller.
  It never locks a date's sales row: the figures a publication reads are of the tables \<open>seen\<close>, as
  committed when it reads them.
\<close>

section \<open>Figures\<close>

definition offered_figures_of :: "core \<Rightarrow> date_sales_row \<Rightarrow> availability_figures" where
  "offered_figures_of c r =
     (let figures = availability_figures_of c r
      in if dr_on_sale r then figures else figures\<lparr>af_seats_available := 0, af_sold_out := False\<rparr>)"

definition availability_changed ::
    "ident \<Rightarrow> ident \<Rightarrow> availability_figures \<Rightarrow> instant \<Rightarrow> ticketing_event" where
  "availability_changed date_id channel_id figures occurred_at =
     \<lparr>te_type = Type_Availability_Changed, te_key = date_id,
      te_payload = Availability_Changed \<lparr>ac_date_id = date_id, ac_channel_id = channel_id,
        ac_seats_available = af_seats_available figures,
        ac_waitlist_count = af_waitlist_count figures, ac_fill_rate_bps = af_fill_rate_bps figures,
        ac_lowest_price = af_lowest_price figures, ac_sold_out = af_sold_out figures,
        ac_occurred_at = occurred_at\<rparr>,
      te_traceparent = None\<rparr>"

text \<open>The tiers go out as they are stored.\<close>

record date_availability =
  da_seats_available :: int
  da_waitlist_count :: int
  da_fill_rate_bps :: int
  da_sold_out :: bool
  da_price_tiers :: "price_tier_column list"

definition date_availability_of :: "core \<Rightarrow> date_sales_row \<Rightarrow> date_availability" where
  "date_availability_of c r =
     (let figures = availability_figures_of c r
      in \<lparr>da_seats_available = af_seats_available figures,
          da_waitlist_count = af_waitlist_count figures,
          da_fill_rate_bps = af_fill_rate_bps figures, da_sold_out = af_sold_out figures,
          da_price_tiers = dr_price_tiers r\<rparr>)"

definition get_date_availability :: "core \<Rightarrow> ident \<Rightarrow> db \<Rightarrow> date_availability result" where
  "get_date_availability c date_id db =
     (case tbl_find dr_date_id date_id (db_sales db) of
        None \<Rightarrow> Inl (Refusal NOT_FOUND)
      | Some r \<Rightarrow> if dr_on_sale r then Inr (date_availability_of c r) else Inl (Refusal NOT_FOUND))"

section \<open>The publisher\<close>

definition AVAILABILITY_PUBLISH_BATCH :: nat where
  "AVAILABILITY_PUBLISH_BATCH = 100"

definition AVAILABILITY_PUBLISH_RETRY_SECONDS :: int where
  "AVAILABILITY_PUBLISH_RETRY_SECONDS = 10"

definition quiet_since :: "core \<Rightarrow> instant \<Rightarrow> instant" where
  "quiet_since c now = now - availability_publish_min_interval_seconds (sales_rules c) * 1000"

definition failed_first_le :: "instant option \<Rightarrow> instant option \<Rightarrow> bool" where
  "failed_first_le a b =
     (case (a, b) of (None, _) \<Rightarrow> True | (Some _, None) \<Rightarrow> False | (Some x, Some y) \<Rightarrow> x \<le> y)"

definition due_dates :: "instant \<Rightarrow> instant \<Rightarrow> db \<Rightarrow> ident list" where
  "due_dates quiet retry_since db =
     map (pr_date_id \<circ> snd) (take AVAILABILITY_PUBLISH_BATCH (sort_by
       (\<lambda>(_, l) (_, r). failed_first_le (pr_failed_at l) (pr_failed_at r) \<and>
          (pr_failed_at l = pr_failed_at r \<longrightarrow> failed_first_le (pr_published_at l) (pr_published_at r)))
       (filter (\<lambda>(sales, p).
           (dr_on_sale sales \<or> pr_closing_due p) \<and> dr_prices_locked_at sales \<noteq> None \<and>
           pr_published_moves p < dr_availability_moves sales \<and>
           (case pr_failed_at p of None \<Rightarrow> True | Some at \<Rightarrow> at \<le> retry_since) \<and>
           (case pr_published_at p of None \<Rightarrow> True | Some at \<Rightarrow>
              at \<le> quiet \<or>
              Some (dr_on_sale sales \<and> dr_seats_available sales = 0) \<noteq> pr_published_sold_out p))
         (concat (map (\<lambda>p. map (\<lambda>sales. (sales, p))
            (filter (\<lambda>sales. dr_date_id sales = pr_date_id p) (db_sales db))) (db_publications db))))))"

definition publication_due ::
    "instant \<Rightarrow> availability_figures \<Rightarrow> date_sales_row \<Rightarrow> date_availability_publication_row \<Rightarrow> bool" where
  "publication_due quiet figures sales p \<longleftrightarrow>
     pr_published_moves p < dr_availability_moves sales \<and>
     (case pr_published_at p of None \<Rightarrow> True
      | Some at \<Rightarrow> at \<le> quiet \<or> pr_published_sold_out p \<noteq> Some (af_sold_out figures))"

definition publish_if_due ::
    "core \<Rightarrow> bool \<Rightarrow> db \<Rightarrow> instant \<Rightarrow> ident \<Rightarrow> db \<Rightarrow> (bool \<times> db) result" where
  "publish_if_due c locked seen now date_id db =
     (case (if locked then None else tbl_find pr_date_id date_id (db_publications db)) of
        None \<Rightarrow> Inr (False, db)
      | Some p \<Rightarrow>
          (case tbl_find dr_date_id date_id (db_sales seen) of
             None \<Rightarrow> Inl (Plain_Error ''EntityNotFoundError'')
           | Some sales \<Rightarrow>
               let figures = offered_figures_of c sales in
               if \<not> publication_due (quiet_since c now) figures sales p then Inr (False, db)
               else Inr (True,
                 (write_outbox [write_ticketing_event
                     (availability_changed (dr_date_id sales) (dr_channel_id sales) figures now) now] db)
                 \<lparr>db_publications := tbl_update (\<lambda>x. pr_date_id x = date_id)
                    (\<lambda>x. x\<lparr>pr_published_moves := dr_availability_moves sales,
                           pr_published_at := Some now,
                           pr_published_sold_out := Some (af_sold_out figures),
                           pr_failed_at := None, pr_closing_due := False\<rparr>) (db_publications db)\<rparr>)))"

definition set_publication_aside :: "ident \<Rightarrow> instant \<Rightarrow> db \<Rightarrow> db" where
  "set_publication_aside date_id now db =
     db\<lparr>db_publications := tbl_update (\<lambda>x. pr_date_id x = date_id)
       (\<lambda>x. x\<lparr>pr_failed_at := Some now\<rparr>) (db_publications db)\<rparr>"

text \<open>A pass with nothing else running beside it.\<close>

definition publish_due_availability :: "core \<Rightarrow> instant \<Rightarrow> db \<Rightarrow> nat \<times> db" where
  "publish_due_availability c now db =
     fold (\<lambda>date_id (published, db).
         case publish_if_due c False db now date_id db of
           Inr (done, db1) \<Rightarrow> (if done then published + 1 else published, db1)
         | Inl _ \<Rightarrow> (published, set_publication_aside date_id now db))
       (due_dates (quiet_since c now) (now - AVAILABILITY_PUBLISH_RETRY_SECONDS * 1000) db) (0, db)"

section \<open>No move is lost\<close>

lemma find_publication_update:
  "tbl_find pr_date_id d (tbl_update (\<lambda>x. pr_date_id x = d) f t) =
    map_option f (tbl_find pr_date_id d t)"
  if "\<And>x. pr_date_id (f x) = pr_date_id x"
  using that tbl_find_tbl_update [of "\<lambda>x. pr_date_id x = d" pr_date_id f d t]
  by (cases "tbl_find pr_date_id d t") (auto dest: tbl_find_SomeD)

lemma publish_if_due_True:
  assumes "publish_if_due c locked seen now date_id db = Inr (True, db')"
  obtains p sales where "tbl_find pr_date_id date_id (db_publications db) = Some p"
    and "tbl_find dr_date_id date_id (db_sales seen) = Some sales"
    and "publication_due (quiet_since c now) (offered_figures_of c sales) sales p"
    and "tbl_find pr_date_id date_id (db_publications db') = Some (p\<lparr>pr_published_moves := dr_availability_moves sales,
           pr_published_at := Some now, pr_published_sold_out := Some (af_sold_out (offered_figures_of c sales)),
           pr_failed_at := None, pr_closing_due := False\<rparr>)"
    and "db_outbox db' = db_outbox db @ [write_ticketing_event (availability_changed date_id (dr_channel_id sales)
           (offered_figures_of c sales) now) now]"
proof -
  obtain p where p: "tbl_find pr_date_id date_id (db_publications db) = Some p" "\<not> locked"
    using assms by (auto simp: publish_if_due_def split: if_splits option.splits)
  then obtain sales where sales: "tbl_find dr_date_id date_id (db_sales seen) = Some sales"
    and due: "publication_due (quiet_since c now) (offered_figures_of c sales) sales p"
    using assms by (auto simp: publish_if_due_def Let_def split: if_splits option.splits)
  have "dr_date_id sales = date_id" using tbl_find_SomeD [OF sales] by simp
  with assms p sales due that show thesis
    by (auto simp: publish_if_due_def Let_def write_outbox_def find_publication_update)
qed


definition sample_moved_sales :: "int \<Rightarrow> db" where
  "sample_moved_sales moves = empty_db\<lparr>
     db_sales := [\<lparr>dr_date_id = ''d'', dr_channel_id = ''ch'', dr_capacity_total = 10,
       dr_provisioned_capacity = None, dr_capacity_tiers = [], dr_seats_available = 10 - moves,
       dr_seats_sold = moves, dr_waitlist_count = 0, dr_priority_pool_seats = 0,
       dr_priority_until = None, dr_price_tiers = [], dr_prices_locked_at = Some 0,
       dr_sales_closed_at = None, dr_sales_end_at = None, dr_starts_at = None,
       dr_schedule_stated_at = None, dr_outcome = None, dr_outcome_stated_at = None, dr_version = 1,
       dr_availability_moves = moves\<rparr>],
     db_publications := [\<lparr>pr_date_id = ''d'', pr_published_moves = 0, pr_published_at = None,
       pr_published_sold_out = None, pr_failed_at = None, pr_closing_due = False\<rparr>]\<rparr>"


end
