(* ===== verification/Replay_Access.thy ===== *)
theory Replay_Access
  imports Sales_Commands
begin

text \<open>
  The accesses to a date's replay (\<open>apps/ticketing/src/replay-access\<close>): ticketing's copy of the
  date's replay, ordered by its version, and the accesses of its seats, granted when the replay is
  first kept pending or online and revoked when it is withdrawn. The date's outcome and its seats are
  read without a lock, in the tables \<open>seen\<close>; an access's own id is read by nothing and left out.
\<close>

section \<open>The window\<close>

record replay_state_fact =
  rs_date_id :: ident
  rs_version :: int
  rs_to_state :: replay_state
  rs_policy :: replay_policy
  rs_live_ended_at :: instant
  rs_closes_at :: instant
  rs_online_at :: "instant option"

record replay_window =
  rw_state :: replay_state
  rw_version :: int
  rw_policy :: replay_policy
  rw_live_ended_at :: instant
  rw_closes_at :: instant
  rw_online_at :: "instant option"
  rw_granted_at :: "instant option"
  rw_revoked_at :: "instant option"

datatype accesses_owed = Grant_Accesses | Revoke_Accesses

datatype replay_window_change = Window_Superseded | Window_Kept replay_window "accesses_owed option"

text \<open>The hours of the window, as the milliseconds they are read back from.\<close>

definition window_hours_of :: "instant \<Rightarrow> instant \<Rightarrow> int" where
  "window_hours_of live_ended_at closes_at = closes_at - live_ended_at"

definition next_replay_window ::
    "core \<Rightarrow> replay_window option \<Rightarrow> replay_state_fact \<Rightarrow> date_outcome option \<Rightarrow> instant
       \<Rightarrow> replay_window_change" where
  "next_replay_window c kept_window told outcome now =
     (if (case kept_window of None \<Rightarrow> False | Some k \<Rightarrow> rs_version told \<le> rw_version k)
      then Window_Superseded
      else
        let window = \<lparr>rw_state = rs_to_state told, rw_version = rs_version told,
              rw_policy = rs_policy told, rw_live_ended_at = rs_live_ended_at told,
              rw_closes_at = rs_closes_at told, rw_online_at = rs_online_at told,
              rw_granted_at = Option.bind kept_window rw_granted_at,
              rw_revoked_at = Option.bind kept_window rw_revoked_at\<rparr>
        in if rw_state window = Replay_Withdrawn \<and> rw_revoked_at window = None
           then Window_Kept (window\<lparr>rw_revoked_at := Some now\<rparr>) (Some Revoke_Accesses)
           else if (rw_state window = Replay_Pending \<or> rw_state window = Replay_Online) \<and>
             rw_granted_at window = None \<and> rw_revoked_at window = None \<and>
             grants_replay_on_live_end (refund_rules c) (rw_policy window)
               (window_hours_of (rw_live_ended_at window) (rw_closes_at window)) outcome
           then Window_Kept (window\<lparr>rw_granted_at := Some now\<rparr>) (Some Grant_Accesses)
           else Window_Kept window None)"

section \<open>The transaction\<close>

definition replay_window_of :: "replay_window_row \<Rightarrow> replay_window" where
  "replay_window_of r = \<lparr>rw_state = qr_state r, rw_version = qr_version r, rw_policy = qr_policy r,
     rw_live_ended_at = qr_live_ended_at r, rw_closes_at = qr_closes_at r,
     rw_online_at = qr_online_at r, rw_granted_at = qr_granted_at r, rw_revoked_at = qr_revoked_at r\<rparr>"

text \<open>\<open>INSERT \<dots> ON CONFLICT DO NOTHING\<close>: the row opened, and nothing kept before it.\<close>

definition locked_window ::
    "replay_state_fact \<Rightarrow> instant \<Rightarrow> db \<Rightarrow> replay_window option \<times> db" where
  "locked_window told now db =
     (case tbl_find qr_date_id (rs_date_id told) (db_replay_windows db) of
        Some r \<Rightarrow> (Some (replay_window_of r), db)
      | None \<Rightarrow> (None, db\<lparr>db_replay_windows := db_replay_windows db @
          [\<lparr>qr_date_id = rs_date_id told, qr_state = rs_to_state told, qr_version = rs_version told,
            qr_policy = rs_policy told, qr_live_ended_at = rs_live_ended_at told,
            qr_closes_at = rs_closes_at told, qr_online_at = rs_online_at told,
            qr_granted_at = None, qr_revoked_at = None, qr_recorded_at = now\<rparr>]\<rparr>))"

definition access_of :: "instant \<Rightarrow> seat_row \<Rightarrow> replay_access_row" where
  "access_of granted_at seat = \<lparr>yr_date_id = sr_date_id seat, yr_seat_id = sr_id seat,
     yr_origin = Access_Seat, yr_granted_at = granted_at, yr_revoked_at = None,
     yr_revocation_reason = None\<rparr>"

text \<open>One statement: a seat that has an access, or got one from it, is left out.\<close>

definition grant_seat_accesses :: "ident \<Rightarrow> instant \<Rightarrow> db \<Rightarrow> db \<Rightarrow> db" where
  "grant_seat_accesses date_id granted_at seen db =
     db\<lparr>db_replay_accesses :=
       fold (\<lambda>seat accesses. if sr_id seat \<in> yr_seat_id ` set accesses then accesses
               else accesses @ [access_of granted_at seat])
         (filter (\<lambda>seat. sr_date_id seat = date_id \<and> sr_state seat = Seat_Active) (db_seats seen))
         (db_replay_accesses db)\<rparr>"

definition revoke_accesses :: "ident \<Rightarrow> instant \<Rightarrow> db \<Rightarrow> db" where
  "revoke_accesses date_id revoked_at db =
     db\<lparr>db_replay_accesses := tbl_update (\<lambda>a. yr_date_id a = date_id \<and> yr_revoked_at a = None)
       (\<lambda>a. a\<lparr>yr_revoked_at := Some revoked_at,
              yr_revocation_reason := Some Revoked_Replay_Withdrawn\<rparr>) (db_replay_accesses db)\<rparr>"

definition keep_replay_window :: "ident \<Rightarrow> replay_window \<Rightarrow> instant \<Rightarrow> db \<Rightarrow> db result" where
  "keep_replay_window date_id w now db =
     bindE (table_update ''replay_window'' replay_window_check (\<lambda>r. qr_date_id r = date_id)
       (\<lambda>r. r\<lparr>qr_state := rw_state w, qr_version := rw_version w, qr_policy := rw_policy w,
              qr_live_ended_at := rw_live_ended_at w, qr_closes_at := rw_closes_at w,
              qr_online_at := rw_online_at w, qr_granted_at := rw_granted_at w,
              qr_revoked_at := rw_revoked_at w, qr_recorded_at := now\<rparr>) (db_replay_windows db))
     (\<lambda>(_, t). Inr (db\<lparr>db_replay_windows := t\<rparr>))"

definition record_replay_state ::
    "core \<Rightarrow> ident \<Rightarrow> replay_state_fact \<Rightarrow> db \<Rightarrow> instant \<Rightarrow> db \<Rightarrow> (consumer_outcome \<times> db) result" where
  "record_replay_state c message_id told seen now db =
     (case claim_message message_id db of
        (False, db0) \<Rightarrow> Inr (Duplicate, db0)
      | (True, db0) \<Rightarrow>
          (case tbl_find dr_date_id (rs_date_id told) (db_sales seen) of
             None \<Rightarrow> Inl (Domain_Error NOT_FOUND)
           | Some sales \<Rightarrow>
               (case locked_window told now db0 of
                  (kept_window, db1) \<Rightarrow>
                    (case next_replay_window c kept_window told (dr_outcome sales) now of
                       Window_Superseded \<Rightarrow> Inr (Superseded, db1)
                     | Window_Kept window accesses \<Rightarrow>
                         let db2 = (case accesses of
                               Some Grant_Accesses \<Rightarrow> grant_seat_accesses (rs_date_id told) now seen db1
                             | Some Revoke_Accesses \<Rightarrow> revoke_accesses (rs_date_id told) now db1
                             | None \<Rightarrow> db1)
                         in bindE (keep_replay_window (rs_date_id told) window now db2) (\<lambda>db3.
                            Inr (Applied, db3))))))"

section \<open>What the accesses keep\<close>

text \<open>
  One access per seat, one window per date, no live access to a revoked replay, an access's
  revocation with its reason, and none before the date's window was granted.
\<close>

definition date_window :: "db \<Rightarrow> ident \<Rightarrow> replay_window option" where
  "date_window db d = map_option replay_window_of (tbl_find qr_date_id d (db_replay_windows db))"

definition access_ok :: "db \<Rightarrow> replay_access_row \<Rightarrow> bool" where
  "access_ok db a \<longleftrightarrow> (yr_revoked_at a = None \<longleftrightarrow> yr_revocation_reason a = None) \<and>
     (case date_window db (yr_date_id a) of
        None \<Rightarrow> False
      | Some w \<Rightarrow> rw_granted_at w \<noteq> None \<and> (rw_revoked_at w = None \<longleftrightarrow> yr_revoked_at a = None))"

definition replay_ok :: "db \<Rightarrow> bool" where
  "replay_ok db \<longleftrightarrow> distinct (map qr_date_id (db_replay_windows db)) \<and>
     (\<forall>r \<in> set (db_replay_windows db). replay_window_check r) \<and>
     distinct (map yr_seat_id (db_replay_accesses db)) \<and>
     (\<forall>a \<in> set (db_replay_accesses db). access_ok db a)"

definition replay_learn ::
    "core \<Rightarrow> (ident \<times> replay_state_fact \<times> db \<times> instant) \<Rightarrow> db \<Rightarrow> db result" where
  "replay_learn c m db =
     (case m of (message_id, told, seen, now) \<Rightarrow>
      bindE (record_replay_state c message_id told seen now db) (\<lambda>(_, db'). Inr db'))"

lemma fold_grant:
  assumes "distinct (map yr_seat_id as)"
  shows "distinct (map yr_seat_id (fold (\<lambda>seat accesses. if sr_id seat \<in> yr_seat_id ` set accesses then accesses
               else accesses @ [access_of at seat]) seats as))"
    and "set (fold (\<lambda>seat accesses. if sr_id seat \<in> yr_seat_id ` set accesses then accesses
               else accesses @ [access_of at seat]) seats as) \<subseteq> set as \<union> access_of at ` set seats"
  using assms
proof (induction seats arbitrary: as)
  case (Cons s seats)
  {
    case 1
    then show ?case using Cons.IH(1) [of "as @ [access_of at s]"] Cons.IH(1) [of as]
      by (auto simp: access_of_def)
  next
    case 2
    then show ?case using Cons.IH(2) [of "as @ [access_of at s]"] Cons.IH(2) [of as]
      by (auto simp: access_of_def split: if_splits)
  }
qed auto

lemma locked_window_ok:
  assumes "replay_ok db" and "locked_window told now db = (k, db1)"
  shows "replay_ok db1" and "k = None \<or> k = date_window db (rs_date_id told)"
    and "\<exists>r. tbl_find qr_date_id (rs_date_id told) (db_replay_windows db1) = Some r \<and>
      rw_granted_at (replay_window_of r) = Option.bind k rw_granted_at \<and>
      rw_revoked_at (replay_window_of r) = Option.bind k rw_revoked_at"
    and "db_replay_accesses db1 = db_replay_accesses db"
proof -
  have "replay_ok db1 \<and> (k = None \<or> k = date_window db (rs_date_id told)) \<and>
    (\<exists>r. tbl_find qr_date_id (rs_date_id told) (db_replay_windows db1) = Some r \<and>
      rw_granted_at (replay_window_of r) = Option.bind k rw_granted_at \<and>
      rw_revoked_at (replay_window_of r) = Option.bind k rw_revoked_at) \<and>
    db_replay_accesses db1 = db_replay_accesses db"
  proof (cases "tbl_find qr_date_id (rs_date_id told) (db_replay_windows db)")
    case (Some r)
    with assms show ?thesis by (auto simp: locked_window_def date_window_def)
  next
    case None
    then have new: "rs_date_id told \<notin> qr_date_id ` set (db_replay_windows db)" by (simp add: tbl_find_None)
    have other: "date_window db1 (yr_date_id a) = date_window db (yr_date_id a)"
      if "a \<in> set (db_replay_accesses db)" for a
    proof -
      have "access_ok db a" using assms(1) that by (simp add: replay_ok_def)
      then obtain r where "tbl_find qr_date_id (yr_date_id a) (db_replay_windows db) = Some r"
        by (auto simp: access_ok_def date_window_def split: option.splits)
      with assms(2) None show ?thesis
        by (auto simp: locked_window_def date_window_def tbl_find_append)
    qed
    have "access_ok db1 a" if "a \<in> set (db_replay_accesses db)" for a
      using assms(1) that other [OF that] by (simp add: replay_ok_def access_ok_def)
    with assms None new show ?thesis
      by (auto simp: locked_window_def replay_ok_def replay_window_check_def tbl_find_append replay_window_of_def)
  qed
  then show "replay_ok db1" "k = None \<or> k = date_window db (rs_date_id told)"
    "\<exists>r. tbl_find qr_date_id (rs_date_id told) (db_replay_windows db1) = Some r \<and>
      rw_granted_at (replay_window_of r) = Option.bind k rw_granted_at \<and>
      rw_revoked_at (replay_window_of r) = Option.bind k rw_revoked_at"
    "db_replay_accesses db1 = db_replay_accesses db" by blast+
qed

lemma keep_replay_window_ok:
  assumes "replay_ok db1" and "tbl_find qr_date_id d (db_replay_windows db1) = Some r"
    and "db_replay_windows db2 = db_replay_windows db1"
    and "distinct (map yr_seat_id (db_replay_accesses db2))"
    and "\<And>a. a \<in> set (db_replay_accesses db2) \<Longrightarrow> yr_date_id a \<noteq> d \<Longrightarrow> a \<in> set (db_replay_accesses db1)"
    and "\<And>a. a \<in> set (db_replay_accesses db2) \<Longrightarrow> yr_date_id a = d \<Longrightarrow>
      (yr_revoked_at a = None \<longleftrightarrow> yr_revocation_reason a = None) \<and> rw_granted_at w \<noteq> None \<and>
      (rw_revoked_at w = None \<longleftrightarrow> yr_revoked_at a = None)"
    and "keep_replay_window d w now db2 = Inr db3"
  shows "replay_ok db3"
proof -
  define f :: "replay_window_row \<Rightarrow> replay_window_row" where "f = (\<lambda>r. r\<lparr>qr_state := rw_state w, qr_version := rw_version w, qr_policy := rw_policy w,
      qr_live_ended_at := rw_live_ended_at w, qr_closes_at := rw_closes_at w, qr_online_at := rw_online_at w,
      qr_granted_at := rw_granted_at w, qr_revoked_at := rw_revoked_at w, qr_recorded_at := now\<rparr>)"
  have rows: "db_replay_windows db3 = tbl_update (\<lambda>r. qr_date_id r = d) f (db_replay_windows db1)"
    and checks: "\<forall>r \<in> set (db_replay_windows db1). qr_date_id r = d \<longrightarrow> replay_window_check (f r)"
    and accesses: "db_replay_accesses db3 = db_replay_accesses db2"
    using assms(3,7) by (auto simp: keep_replay_window_def bindE_eq_Inr table_update_Inr f_def)
  have key: "qr_date_id (f x) = qr_date_id x" for x by (simp add: f_def)
  have window: "date_window db3 e = (if e = d then Some w else date_window db1 e)" for e
  proof -
    have "tbl_find qr_date_id e (db_replay_windows db3) =
        map_option (\<lambda>x. if qr_date_id x = d then f x else x) (tbl_find qr_date_id e (db_replay_windows db1))"
      unfolding rows by (rule tbl_find_tbl_update) (simp add: key)
    with assms(2) show ?thesis
      by (cases "tbl_find qr_date_id e (db_replay_windows db1)")
        (auto simp: date_window_def replay_window_of_def f_def dest: tbl_find_SomeD)
  qed
  have "access_ok db3 a" if "a \<in> set (db_replay_accesses db2)" for a
  proof (cases "yr_date_id a = d")
    case True
    with assms(6) [OF that] show ?thesis by (simp add: access_ok_def window)
  next
    case False
    with assms(5) [OF that] assms(1) show ?thesis by (auto simp: access_ok_def window replay_ok_def)
  qed
  moreover have "distinct (map qr_date_id (db_replay_windows db3))"
    using assms(1) unfolding rows by (simp add: replay_ok_def map_tbl_update_same key)
  moreover have "replay_window_check x" if "x \<in> set (db_replay_windows db3)" for x
    using that checks assms(1) unfolding rows by (auto simp: table_simps replay_ok_def)
  ultimately show ?thesis using assms(4) accesses by (simp add: replay_ok_def)
qed

lemma next_replay_window_cases:
  assumes "next_replay_window c k told out now = Window_Kept w accesses"
  obtains "accesses = None" "rw_granted_at w = Option.bind k rw_granted_at"
      "rw_revoked_at w = Option.bind k rw_revoked_at"
    | "accesses = Some Revoke_Accesses" "rw_granted_at w = Option.bind k rw_granted_at"
      "Option.bind k rw_revoked_at = None" "rw_revoked_at w = Some now"
    | "accesses = Some Grant_Accesses" "Option.bind k rw_granted_at = None" "rw_granted_at w = Some now"
      "Option.bind k rw_revoked_at = None" "rw_revoked_at w = None"
  using assms unfolding next_replay_window_def Let_def by (auto split: if_splits)

lemma next_replay_window_withdrawn:
  "next_replay_window c k told out now = Window_Kept w accesses \<Longrightarrow> rw_state w = Replay_Withdrawn \<Longrightarrow>
    rw_revoked_at w \<noteq> None"
  unfolding next_replay_window_def Let_def by (auto split: if_splits)

lemma replay_ok_cong:
  "db_replay_windows db' = db_replay_windows db \<Longrightarrow> db_replay_accesses db' = db_replay_accesses db \<Longrightarrow>
    replay_ok db' = replay_ok db"
  by (simp add: replay_ok_def access_ok_def date_window_def)

lemma window_kept_ok:
  assumes "replay_ok db0" and "locked_window told now db0 = (k, db1)"
    and "next_replay_window c k told out now = Window_Kept w accesses"
    and "keep_replay_window (rs_date_id told) w now (case accesses of
      Some Grant_Accesses \<Rightarrow> grant_seat_accesses (rs_date_id told) now seen db1
    | Some Revoke_Accesses \<Rightarrow> revoke_accesses (rs_date_id told) now db1
    | None \<Rightarrow> db1) = Inr db3"
  shows "replay_ok db3"
proof -
  let ?d = "rs_date_id told"
  note lw = locked_window_ok [OF assms(1,2)]
  obtain r where r: "tbl_find qr_date_id ?d (db_replay_windows db1) = Some r"
    "rw_granted_at (replay_window_of r) = Option.bind k rw_granted_at"
    "rw_revoked_at (replay_window_of r) = Option.bind k rw_revoked_at"
    using lw(3) by blast
  have dist: "distinct (map yr_seat_id (db_replay_accesses db1))" using lw(1) by (simp add: replay_ok_def)
  have of_date: "(yr_revoked_at a = None \<longleftrightarrow> yr_revocation_reason a = None) \<and> Option.bind k rw_granted_at \<noteq> None \<and>
      (Option.bind k rw_revoked_at = None \<longleftrightarrow> yr_revoked_at a = None)"
    if "a \<in> set (db_replay_accesses db1)" "yr_date_id a = ?d" for a
    using lw(1) that r unfolding replay_ok_def access_ok_def date_window_def by force
  note keep = keep_replay_window_ok [OF lw(1) r(1)]
  from assms(3) show ?thesis
  proof (cases rule: next_replay_window_cases)
    case 1
    show ?thesis by (rule keep [OF refl dist]) (use assms(4) 1 of_date in auto)
  next
    case 2
    let ?db2 = "revoke_accesses ?d now db1"
    have keys: "map yr_seat_id (db_replay_accesses ?db2) = map yr_seat_id (db_replay_accesses db1)"
      by (simp add: revoke_accesses_def map_tbl_update_same)
    show ?thesis
    proof (rule keep [of ?db2])
      show "keep_replay_window ?d w now ?db2 = Inr db3" using assms(4) 2 by simp
      show "db_replay_windows ?db2 = db_replay_windows db1" by (simp add: revoke_accesses_def)
      show "distinct (map yr_seat_id (db_replay_accesses ?db2))" using dist by (simp add: keys)
    next
      fix a assume "a \<in> set (db_replay_accesses ?db2)" "yr_date_id a \<noteq> ?d"
      then show "a \<in> set (db_replay_accesses db1)" by (auto simp: revoke_accesses_def table_simps split: if_splits)
    next
      fix a assume "a \<in> set (db_replay_accesses ?db2)" "yr_date_id a = ?d"
      then show "(yr_revoked_at a = None \<longleftrightarrow> yr_revocation_reason a = None) \<and> rw_granted_at w \<noteq> None \<and>
          (rw_revoked_at w = None \<longleftrightarrow> yr_revoked_at a = None)"
        using 2 of_date by (auto simp: revoke_accesses_def table_simps split: if_splits)
    qed
  next
    case 3
    let ?db2 = "grant_seat_accesses ?d now seen db1"
    have sub: "set (db_replay_accesses ?db2) \<subseteq> set (db_replay_accesses db1) \<union>
        access_of now ` {seat \<in> set (db_seats seen). sr_date_id seat = ?d \<and> sr_state seat = Seat_Active}"
      using fold_grant(2) [OF dist] unfolding grant_seat_accesses_def by fastforce
    have none: "a \<notin> set (db_replay_accesses db1)" if "yr_date_id a = ?d" for a
      using of_date [OF _ that] 3 by auto
    show ?thesis
    proof (rule keep [of ?db2])
      show "keep_replay_window ?d w now ?db2 = Inr db3" using assms(4) 3 by simp
      show "db_replay_windows ?db2 = db_replay_windows db1" by (simp add: grant_seat_accesses_def)
      show "distinct (map yr_seat_id (db_replay_accesses ?db2))"
        using fold_grant(1) [OF dist] by (simp add: grant_seat_accesses_def)
    next
      fix a assume "a \<in> set (db_replay_accesses ?db2)" "yr_date_id a \<noteq> ?d"
      then show "a \<in> set (db_replay_accesses db1)" using sub by (auto simp: access_of_def)
    next
      fix a assume "a \<in> set (db_replay_accesses ?db2)" "yr_date_id a = ?d"
      then show "(yr_revoked_at a = None \<longleftrightarrow> yr_revocation_reason a = None) \<and> rw_granted_at w \<noteq> None \<and>
          (rw_revoked_at w = None \<longleftrightarrow> yr_revoked_at a = None)"
        using sub none 3 by (auto simp: access_of_def)
    qed
  qed
qed

definition withdrawn_revoked :: "db \<Rightarrow> bool" where
  "withdrawn_revoked db \<longleftrightarrow>
     (\<forall>r \<in> set (db_replay_windows db). qr_state r = Replay_Withdrawn \<longrightarrow> qr_revoked_at r \<noteq> None)"

lemma window_kept_withdrawn:
  assumes "withdrawn_revoked db0" and "locked_window told now db0 = (k, db1)"
    and "db_replay_windows db2 = db_replay_windows db1"
    and "rw_state w = Replay_Withdrawn \<longrightarrow> rw_revoked_at w \<noteq> None"
    and "keep_replay_window (rs_date_id told) w now db2 = Inr db3"
  shows "withdrawn_revoked db3"
proof -
  have other: "r \<in> set (db_replay_windows db0)" if "r \<in> set (db_replay_windows db1)" "qr_date_id r \<noteq> rs_date_id told" for r
    using that assms(2) by (auto simp: locked_window_def split: option.splits)
  show ?thesis
    using assms(1,3-5) other
    by (fastforce simp: withdrawn_revoked_def keep_replay_window_def bindE_eq_Inr table_update_Inr table_simps)
qed

lemma replay_learn_ok:
  assumes "replay_learn c m db = Inr db'" and "replay_ok db \<and> withdrawn_revoked db"
  shows "replay_ok db' \<and> withdrawn_revoked db'"
proof -
  obtain message_id told seen now where m: "m = (message_id, told, seen, now)" by (cases m)
  obtain x where run: "record_replay_state c message_id told seen now db = Inr (x, db')"
    using assms(1) by (auto simp: replay_learn_def m bindE_eq_Inr)
  obtain claimed db0 where claim: "claim_message message_id db = (claimed, db0)" by fastforce
  then have same: "db_replay_windows db0 = db_replay_windows db" "db_replay_accesses db0 = db_replay_accesses db"
    by (auto simp: claim_message_def split: if_splits)
  then have ok0: "replay_ok db0" "withdrawn_revoked db0"
    using assms(2) replay_ok_cong [OF same] by (auto simp: withdrawn_revoked_def)
  show ?thesis
  proof (cases claimed)
    case False
    with run claim ok0 show ?thesis by (simp add: record_replay_state_def)
  next
    case True
    obtain sales where sales: "tbl_find dr_date_id (rs_date_id told) (db_sales seen) = Some sales"
      using run claim True by (auto simp: record_replay_state_def split: option.splits)
    obtain k db1 where lw: "locked_window told now db0 = (k, db1)" by fastforce
    show ?thesis
    proof (cases "next_replay_window c k told (dr_outcome sales) now")
      case Window_Superseded
      then have "k \<noteq> None" by (auto simp: next_replay_window_def Let_def split: if_splits option.splits)
      then have "db1 = db0" using lw by (auto simp: locked_window_def split: option.splits)
      with run claim True sales lw Window_Superseded ok0 show ?thesis by (simp add: record_replay_state_def)
    next
      case (Window_Kept w accesses)
      let ?db2 = "case accesses of
          Some Grant_Accesses \<Rightarrow> grant_seat_accesses (rs_date_id told) now seen db1
        | Some Revoke_Accesses \<Rightarrow> revoke_accesses (rs_date_id told) now db1
        | None \<Rightarrow> db1"
      have keep: "keep_replay_window (rs_date_id told) w now ?db2 = Inr db'"
        using run claim True sales lw Window_Kept by (auto simp: record_replay_state_def Let_def bindE_eq_Inr)
      have "db_replay_windows ?db2 = db_replay_windows db1"
        by (auto simp: grant_seat_accesses_def revoke_accesses_def split: option.splits accesses_owed.splits)
      from window_kept_withdrawn [OF ok0(2) lw this _ keep] next_replay_window_withdrawn [OF Window_Kept]
        window_kept_ok [OF ok0(1) lw Window_Kept keep]
      show ?thesis by blast
    qed
  qed
qed

text \<open>
  Property C39. Whatever facts about dates' replays arrive, duplicated and in any order, no seat ever
  has two accesses, every access is of a date whose window was granted, and a withdrawn replay has no
  live access left: none of its date's is, and none is granted again.
\<close>

theorem withdrawn_replay_unwatchable:
  assumes "foldE (replay_learn c) facts empty_db = Inr db"
  shows "distinct (map yr_seat_id (db_replay_accesses db)) \<and>
    list_all (\<lambda>a. case date_window db (yr_date_id a) of
        None \<Rightarrow> False
      | Some w \<Rightarrow> rw_granted_at w \<noteq> None \<and> (rw_state w = Replay_Withdrawn \<longleftrightarrow> yr_revoked_at a \<noteq> None))
      (db_replay_accesses db)"
proof -
  have "replay_ok empty_db \<and> withdrawn_revoked empty_db"
    by (simp add: replay_ok_def withdrawn_revoked_def empty_db_def)
  then have ok: "replay_ok db \<and> withdrawn_revoked db"
    by (rule foldE_invariant [OF assms, where P = "\<lambda>db. replay_ok db \<and> withdrawn_revoked db"])
      (rule replay_learn_ok)
  have "case date_window db (yr_date_id a) of
        None \<Rightarrow> False
      | Some w \<Rightarrow> rw_granted_at w \<noteq> None \<and> (rw_state w = Replay_Withdrawn \<longleftrightarrow> yr_revoked_at a \<noteq> None)"
    if a: "a \<in> set (db_replay_accesses db)" for a
  proof -
    have "access_ok db a" using ok a by (simp add: replay_ok_def)
    then obtain r where r: "tbl_find qr_date_id (yr_date_id a) (db_replay_windows db) = Some r"
      and w: "qr_granted_at r \<noteq> None" "qr_revoked_at r = None \<longleftrightarrow> yr_revoked_at a = None"
      by (auto simp: access_ok_def date_window_def replay_window_of_def split: option.splits)
    have "r \<in> set (db_replay_windows db)" using tbl_find_SomeD [OF r] by simp
    then have "replay_window_check r" "qr_state r = Replay_Withdrawn \<longrightarrow> qr_revoked_at r \<noteq> None"
      using ok by (auto simp: replay_ok_def withdrawn_revoked_def)
    with r w show ?thesis by (auto simp: date_window_def replay_window_of_def replay_window_check_def)
  qed
  then show ?thesis using ok by (simp add: replay_ok_def list_all_iff)
qed

definition sample_replay_date :: db where
  "sample_replay_date = empty_db\<lparr>
     db_sales := [sales_row_of (current (open_sales ''d'' ''ch'' 0))],
     db_seats := [\<lparr>sr_id = ''s'', sr_order_id = ''o'', sr_date_id = ''d'', sr_account_id = None,
       sr_profile_id = None, sr_tier = Tier_Full, sr_seat_code = ''c'', sr_state = Seat_Active,
       sr_cancel_deadline = None, sr_activated_at = 0, sr_ended_at = None, sr_cancel_reason = None,
       sr_refund_id = None, sr_refund_amount_minor = None, sr_credit_id = None,
       sr_credit_amount_minor = None\<rparr>]\<rparr>"

definition sample_replay_facts :: "(ident \<times> replay_state_fact \<times> db \<times> instant) list" where
  "sample_replay_facts =
     (let told = (\<lambda>v st. \<lparr>rs_date_id = ''d'', rs_version = v, rs_to_state = st, rs_policy = Policy_Included,
            rs_live_ended_at = 0, rs_closes_at = 3600000, rs_online_at = None\<rparr>)
      in [(''m1'', told 1 Replay_Pending, sample_replay_date, 5),
          (''m3'', told 3 Replay_Withdrawn, sample_replay_date, 7),
          (''m2'', told 2 Replay_Online, sample_replay_date, 8)])"

theorem withdrawn_replay_unwatchable_witness:
  "\<exists>db a. foldE (replay_learn sample_core) sample_replay_facts empty_db = Inr db \<and>
     db_replay_accesses db = [a] \<and> yr_date_id a = ''d'' \<and> yr_revoked_at a \<noteq> None"
proof -
  have "case foldE (replay_learn sample_core) sample_replay_facts empty_db of
      Inl _ \<Rightarrow> False
    | Inr db \<Rightarrow> map yr_date_id (db_replay_accesses db) = [''d''] \<and>
        map_option rw_state (date_window db ''d'') = Some Replay_Withdrawn"
    by code_simp
  then obtain db where run: "foldE (replay_learn sample_core) sample_replay_facts empty_db = Inr db"
    and db: "map yr_date_id (db_replay_accesses db) = [''d'']" "map_option rw_state (date_window db ''d'') = Some Replay_Withdrawn"
    by (auto split: sum.splits)
  from db(1) obtain a where "db_replay_accesses db = [a]" "yr_date_id a = ''d''" by auto
  with withdrawn_replay_unwatchable [OF run] run db(2) show ?thesis by auto
qed

end
