(* ===== verification/Ledger_Studio.thy ===== *)
theory Ledger_Studio
  imports Ledger_Refinement
begin

text \<open>
  The studio's commands, catalog's facts, the sweeper's close and the waiting list on the ledger: a
  date opens with no seats, a capacity tier widens it, and nothing else of these moves a seat in or
  out of the free ones.
\<close>

section \<open>Statements that leave the seats\<close>

lemma sales_update_keeps:
  assumes "sales_update p f db = Inr (n, db')" and ok: "db_ok db"
    and date: "\<And>x. dr_date_id (f x) = dr_date_id x" and seats: "\<And>x m. row_seats (f x) m = row_seats x m"
  shows "advances db db'"
proof -
  have db': "db' = db\<lparr>db_sales := tbl_update p f (db_sales db)\<rparr>"
    and check: "\<forall>r \<in> set (db_sales db). p r \<longrightarrow> date_sales_check (f r)"
    using assms(1) by (auto simp: sales_update_Inr)
  have dates: "map dr_date_id (tbl_update p f (db_sales db)) = map dr_date_id (db_sales db)"
    by (simp add: map_tbl_update_same date)
  have "sales_ok (tbl_update p f (db_sales db))"
    using db_okD(1) [OF ok] check unfolding sales_ok_def dates by (auto simp: table_simps)
  moreover have "ledger_of (tbl_update p f (db_sales db)) h = ledger_of (db_sales db) h" for h
    by (rule ledger_of_same) (simp_all add: date seats)
  ultimately show ?thesis
    using db_okD(2,3) [OF ok] by (simp add: advances_def db_ok_def ledger_abs_def db' dates)
qed

lemma row_seats_one_more [simp]: "row_seats (one_more_move r) m = row_seats r m"
  by (simp add: row_seats_def)

lemma move_waitlist_count_advances:
  "move_waitlist_count t n db = Inr db' \<Longrightarrow> db_ok db \<Longrightarrow> advances db db'"
  by (auto simp: move_waitlist_count_def bindE_eq_Inr split: if_splits elim!: sales_update_keeps)
    (simp_all add: row_seats_def)

lemma end_priority_window_advances:
  "end_priority_window d n db = Inr db' \<Longrightarrow> db_ok db \<Longrightarrow> advances db db'"
  by (auto simp: end_priority_window_def bindE_eq_Inr elim!: sales_update_keeps)
    (simp_all add: row_seats_def)

lemma close_waitlist_advances:
  "close_waitlist d db = Inr (b, db') \<Longrightarrow> db_ok db \<Longrightarrow> advances db db'"
  by (auto simp: close_waitlist_def bindE_eq_Inr elim!: sales_update_keeps)
    (simp_all add: row_seats_def)

lemma entries_update_same: "entries_update p f db = Inr (n, db') \<Longrightarrow> same_core db db'"
  by (auto simp: entries_update_def bindE_eq_Inr)

lemma save_entry_same: "save_entry t db = Inr (t', db') \<Longrightarrow> same_core db db'"
  by (auto simp: save_entry_def Let_def bindE_eq_Inr)

lemma end_notified_same: "end_notified c d st now db = Inr (n, db') \<Longrightarrow> same_core db db'"
  by (auto simp: end_notified_def Let_def bindE_eq_Inr dest!: entries_update_same intro: same_core_trans)

lemma close_waiting_same: "close_waiting c d now db = Inr (n, db') \<Longrightarrow> same_core db db'"
  by (auto simp: close_waiting_def bindE_eq_Inr dest!: entries_update_same)

lemma notify_all_same: "notify_all c d now db = Inr (x, db') \<Longrightarrow> same_core db db'"
  by (auto simp: notify_all_def Let_def bindE_eq_Inr dest!: entries_update_same)

section \<open>The waiting list\<close>

lemma same_then_advances: "db_ok db \<Longrightarrow> same_core db db1 \<Longrightarrow> (db_ok db1 \<Longrightarrow> advances db1 db2) \<Longrightarrow> advances db db2"
  using advances_same same_core_ok advances_trans by blast

lemma join_in_advances:
  assumes "join_in c e d a tp now db = Inr (x, db')" and ok: "db_ok db"
  shows "advances db db'"
proof -
  have "db' = db \<or> (\<exists>entry sales t1 db1 rows. save_entry entry db = Inr (t1, db1) \<and>
      move_waitlist_count sales 1 (write_outbox rows db1) = Inr db')"
    using assms(1)
    by (auto simp: join_in_def Let_def bindE_eq_Inr record_waitlist_entry_events_def
        split: option.splits if_splits; blast)
  then show ?thesis
  proof (elim disjE exE conjE)
    fix entry sales t1 db1 rows
    assume saved: "save_entry entry db = Inr (t1, db1)"
      and count: "move_waitlist_count sales 1 (write_outbox rows db1) = Inr db'"
    have "same_core db (write_outbox rows db1)"
      using save_entry_same [OF saved] same_core_fields(8) same_core_trans by blast
    from same_then_advances [OF ok this move_waitlist_count_advances [OF count]] show ?thesis .
  qed (simp add: advances_refl ok)
qed

lemma leave_in_advances:
  assumes "leave_in c d a tp now db = Inr (x, db')" and ok: "db_ok db"
  shows "advances db db'"
proof -
  have "db' = db \<or> (\<exists>entry sales t1 db1 rows. save_entry entry db = Inr (t1, db1) \<and>
      move_waitlist_count sales (-1) (write_outbox rows db1) = Inr db')"
    using assms(1)
    by (auto simp: leave_in_def Let_def bindE_eq_Inr record_waitlist_entry_events_def
        split: option.splits if_splits; blast)
  then show ?thesis
  proof (elim disjE exE conjE)
    fix entry sales t1 db1 rows
    assume saved: "save_entry entry db = Inr (t1, db1)"
      and count: "move_waitlist_count sales (-1) (write_outbox rows db1) = Inr db'"
    have "same_core db (write_outbox rows db1)"
      using save_entry_same [OF saved] same_core_fields(8) same_core_trans by blast
    from same_then_advances [OF ok this move_waitlist_count_advances [OF count]] show ?thesis .
  qed (simp add: advances_refl ok)
qed

lemma end_due_priority_window_advances:
  assumes "end_due_priority_window c d now locked db = Inr (x, db')" and ok: "db_ok db"
  shows "advances db db'"
proof -
  have "db' = db \<or> (\<exists>st n db1. end_notified (waitlist_rules c) d st now db = Inr (n, db1) \<and>
      end_priority_window d n db1 = Inr db')"
    using assms(1)
    by (auto simp: end_due_priority_window_def Let_def bindE_eq_Inr split: option.splits if_splits)
  then show ?thesis
    using ok advances_refl same_then_advances [OF ok end_notified_same end_priority_window_advances] by blast
qed

lemma end_waitlist_advances:
  assumes "end_waitlist c d now db = Inr (x, db')" and ok: "db_ok db"
  shows "advances db db'"
proof -
  have "db' = db \<or> (\<exists>n db1 m db2 b. end_notified (waitlist_rules c) d Entry_Closed now db = Inr (n, db1) \<and>
      close_waiting (waitlist_rules c) d now db1 = Inr (m, db2) \<and> close_waitlist d db2 = Inr (b, db'))"
    using assms(1) by (auto simp: end_waitlist_def bindE_eq_Inr split: option.splits)
  then show ?thesis
    using ok advances_refl same_core_trans [OF end_notified_same close_waiting_same]
      same_then_advances [OF ok _ close_waitlist_advances] by metis
qed

section \<open>A date's save\<close>

text \<open>What the aggregate's commands other than a hold do to its seats: widen them, or nothing.\<close>

definition widens :: "date_sales_snapshot \<Rightarrow> date_sales_snapshot \<Rightarrow> bool" where
  "widens b s \<longleftrightarrow> ds_date_id s = ds_date_id b \<and> ds_seats_sold s = ds_seats_sold b \<and>
     ds_seats_held s = ds_seats_held b"

lemma snapshot_after_widens:
  assumes "\<And>q now. cmd \<noteq> Hold q now"
  shows "widens s (snapshot_after c cmd s)"
  using assms snapshot_after_held [of c cmd s]
  by (cases cmd) (auto simp: widens_def tier_opened_def schedule_recorded_def outcome_recorded_def Let_def
      split: option.splits)

lemma date_sales_step_widens:
  "date_sales_step c cmd a = Inr a' \<Longrightarrow> (\<And>q now. cmd \<noteq> Hold q now) \<Longrightarrow> widens (current a) (current a')"
  using date_sales_step_snapshot snapshot_after_widens by simp

lemma save_sales_advances:
  assumes saved: "save_sales t db = Inr (t', db')" and ok: "db_ok db"
    and found: "find_sales c d db = Some t0" and t: "t = with_root a t0"
    and w: "widens (current (root t0)) (current a)"
  shows "advances db db'"
proof -
  obtain r where r: "tbl_find dr_date_id d (db_sales db) = Some r" and t0: "t0 = restored_sales c r"
    using found by (auto simp: find_sales_def)
  let ?b = "date_sales_snapshot_of c r"
  have d: "dr_date_id r = d" using tbl_find_SomeD [OF r] by blast
  have date: "ds_date_id (current a) = d"
    using w by (simp add: widens_def t0 restored_sales_def date_sales_snapshot_of_def d)
  obtain rows where rows: "save_versioned (\<lambda>r. dr_date_id r = d) dr_version (dr_version r)
      (moved_columns (current a) ?b) (db_sales db) = Inr rows"
    and check: "list_all date_sales_check rows" and db': "db' = db\<lparr>db_sales := rows\<rparr>"
    using saved by (auto simp: save_sales_def t t0 restored_sales_def Let_def result_simps date)
  have upd: "rows = tbl_update (\<lambda>x. dr_date_id x = d) (moved_columns (current a) ?b) (db_sales db)"
    using save_versioned_Inr [OF rows db_okD(4) [OF ok]] by blast
  let ?r' = "moved_columns (current a) ?b r"
  have keeps: "dr_date_id (moved_columns (current a) ?b x) = dr_date_id x" for x
    by (simp add: moved_columns_def sales_state_columns_of_def)
  have "r \<in> set (db_sales db)" using tbl_find_SomeD [OF r] by blast
  then have "?r' \<in> set rows" unfolding upd by (auto simp: tbl_update_def d)
  then have r': "date_sales_check ?r'" using check by (simp add: list_all_iff)
  have e: "effect d (more_seats (ds_capacity_total (current a) - dr_capacity_total r)) db db'"
    unfolding effect_def
  proof (intro exI conjI allI)
    have "tbl_update (\<lambda>x. dr_date_id x = d) (moved_columns (current a) ?b) (db_sales db) =
        tbl_update (\<lambda>x. dr_date_id x = d) (\<lambda>_. ?r') (db_sales db)"
      by (rule tbl_update_one) (use db_okD(4) [OF ok] r d in auto)
    then show "date_moved d r ?r' db db'"
      using r r' keeps [of r] d by (simp add: date_moved_def db' upd)
    show "row_seats ?r' n = more_seats (ds_capacity_total (current a) - dr_capacity_total r) (row_seats r n)"
      for n using w
      by (simp add: row_seats_def more_seats_def moved_columns_def sales_state_columns_of_def widens_def
          ds_seats_held_def t0 restored_sales_def date_sales_snapshot_of_def)
  qed
  show ?thesis
    by (rule effect_advances [OF e ok])
      (auto simp: more_seats_def intro: ledger_moves(6)
        [of _ d _ "ds_capacity_total (current a) - dr_capacity_total r"])
qed

text \<open>A date opened: a new row, with no seats and no holds.\<close>

lemma open_sales_advances:
  assumes saved: "save_sales (created (open_sales d ch now)) db = Inr (t', db')" and ok: "db_ok db"
  shows "advances db db'"
proof -
  let ?row = "sales_row_of (current (open_sales d ch now))"
  have row: "dr_date_id ?row = d" "row_seats ?row 0 = \<lparr>sl_capacity = 0, sl_free = 0, sl_held = 0, sl_sold = 0\<rparr>"
    by (simp_all add: sales_row_of_def sales_state_columns_of_def open_sales_def row_seats_def)
  have db': "db' = db\<lparr>db_sales := db_sales db @ [?row]\<rparr>" and check: "date_sales_check ?row"
    and fresh: "d \<notin> dr_date_id ` set (db_sales db)"
    using saved row(1) by (auto simp: save_sales_def Let_def result_simps)
  have "hr_date_id h \<noteq> d" if "h \<in> set (db_holds db)" for h
    using db_okD(2) [OF ok] that fresh by (auto simp: holds_ok_def)
  then have "map (hold_seats_of d) (db_holds db) = map (\<lambda>_. 0) (db_holds db)"
    by (auto simp: hold_seats_of_def)
  then have none: "held_of (db_holds db) d = 0" unfolding held_of_def by (simp only: sum_list_0)
  have "tbl_find dr_date_id e (db_sales db @ [?row]) =
      (if e = d then Some ?row else tbl_find dr_date_id e (db_sales db))" for e
    using fresh row(1) tbl_find_None [of dr_date_id d "db_sales db"]
    by (auto simp: tbl_find_append split: option.splits)
  then have abs: "ledger_abs db' = (ledger_abs db)(d \<mapsto> \<lparr>sl_capacity = 0, sl_free = 0, sl_held = 0, sl_sold = 0\<rparr>)"
    using none row(2) by (auto simp: ledger_abs_def ledger_of_def db')
  have "ledger_abs db d = None" using fresh by (simp add: ledger_abs_def ledger_of_def tbl_find_None)
  then have "ledger_step (ledger_abs db) (ledger_abs db')" unfolding abs by (rule ledger_step.opened)
  moreover have "db_ok db'"
    using ok fresh check row(1) by (auto simp: db_ok_def db' sales_ok_def holds_ok_def)
  ultimately show ?thesis by (auto simp: advances_def)
qed

lemma record_events_advances:
  assumes "record_date_sales_events tp events db = Inr db'" and ok: "db_ok db"
  shows "advances db db'"
proof -
  obtain db1 db2 db3 where same1: "same_core db db1"
    and upd: "db2 = db1 \<or> (\<exists>p n. sales_update p one_more_move db1 = Inr (n, db2))"
    and same3: "same_core db2 db3" and db': "same_core db3 db'"
    using assms(1)
    by (auto simp: record_date_sales_events_def record_availability_moves_def bindE_eq_Inr
        split: option.splits; blast intro: same_core_refl same_core_fields)
  have ok1: "db_ok db1" by (rule same_core_ok [OF same1 ok])
  from upd have "advances db1 db2"
    using ok1 by (auto simp: advances_refl elim!: sales_update_keeps)
  from advances_then_same [OF this same_core_trans [OF same3 db']] show ?thesis
    by (rule same_then_advances [OF ok same1])
qed

lemma commit_sales_advances:
  assumes "commit_sales tp t db = Inr (t', db')"
    and "\<And>t' db1. save_sales t db = Inr (t', db1) \<Longrightarrow> advances db db1"
  shows "advances db db'"
proof -
  obtain t1 db1 events where "save_sales t db = Inr (t1, db1)"
    and rec: "record_date_sales_events tp events db1 = Inr db'"
    using assms(1) by (auto simp: commit_sales_def bindE_eq_Inr)
  then have adv: "advances db db1" using assms(2) by blast
  then have "db_ok db1" by (simp add: advances_def)
  from advances_trans [OF adv record_events_advances [OF rec this]] show ?thesis .
qed

section \<open>The commands\<close>

lemma commit_loaded_advances:
  assumes "commit_sales tp (with_root a t0) db = Inr (t', db')" and "db_ok db"
    and "find_sales c d db = Some t0" and "widens (current (root t0)) (current a)"
  shows "advances db db'"
  by (rule commit_sales_advances [OF assms(1)], rule save_sales_advances [OF _ assms(2,3) refl assms(4)])

lemma set_date_prices_in_advances:
  assumes "set_date_prices_in c d v tiers tp now db = Inr (x, db')" and ok: "db_ok db"
  shows "advances db db'"
proof -
  obtain t a t' where t: "find_sales c d db = Some t"
    and a: "set_prices (sales_rules c) v (sent_prices_of c tiers) now (root t) = Inr a"
    and commit: "commit_sales tp (with_root a t) db = Inr (t', db')"
    using assms(1) by (auto simp: set_date_prices_in_def bindE_eq_Inr split: option.splits)
  have "widens (current (root t)) (current a)"
    using date_sales_step_widens [of "sales_rules c" "Set_Prices v (sent_prices_of c tiers) now"] a by simp
  from commit_loaded_advances [OF commit ok t this] show ?thesis .
qed

lemma set_technical_provision_in_advances:
  assumes "set_technical_provision_in c d v n tp now db = Inr (x, db')" and ok: "db_ok db"
  shows "advances db db'"
proof -
  obtain t a t' where t: "find_sales c d db = Some t"
    and a: "set_technical_provision (sales_rules c) v n now (root t) = Inr a"
    and commit: "commit_sales tp (with_root a t) db = Inr (t', db')"
    using assms(1) by (auto simp: set_technical_provision_in_def bindE_eq_Inr split: option.splits)
  have "widens (current (root t)) (current a)"
    using date_sales_step_widens [of "sales_rules c" "Set_Provision v n now"] a by simp
  from commit_loaded_advances [OF commit ok t this] show ?thesis .
qed

lemma open_capacity_tier_in_advances:
  assumes "open_capacity_tier_in c i d v n notify tp now db = Inr (x, db')" and ok: "db_ok db"
  shows "advances db db'"
proof -
  obtain b db0 t a u t' db1 where win: "end_due_priority_window c d now False db = Inr (b, db0)"
    and t: "find_sales c d db0 = Some t"
    and a: "open_capacity_tier (sales_rules c) i v n notify now (root t) = Inr (a, u)"
    and commit: "commit_sales tp (with_root a t) db0 = Inr (t', db1)"
    and told: "db' = db1 \<or> (\<exists>accounts db2 rows. notify_all c d now db1 = Inr (accounts, db2) \<and>
      db' = write_outbox rows db2)"
    using assms(1)
    by (auto simp: open_capacity_tier_in_def bindE_eq_Inr split: option.splits; blast)
  have adv0: "advances db db0" by (rule end_due_priority_window_advances [OF win ok])
  then have ok0: "db_ok db0" by (simp add: advances_def)
  have "widens (current (root t)) (current a)"
    using date_sales_step_widens [of "sales_rules c" "Open_Tier i v n notify now"] a by simp
  from commit_loaded_advances [OF commit ok0 t this] adv0 have "advances db db1" by (blast intro: advances_trans)
  moreover have "same_core db1 db'"
    using told notify_all_same same_core_trans same_core_fields(8) same_core_refl by blast
  ultimately show ?thesis by (rule advances_then_same)
qed

lemma fact_applied_widens:
  assumes "fact_applied c told now a = (a', b)"
  shows "widens (current a) (current a')"
proof (cases told)
  case (Lock_Fact d t)
  then show ?thesis using assms date_sales_step_widens [of c "Lock_Prices t now" a a'] by simp
next
  case (Start_Fact d s t)
  then show ?thesis using assms date_sales_step_widens [of c "Record_Schedule s t now" a a'] by simp
next
  case (Outcome_Fact d out t)
  then show ?thesis using assms date_sales_step_widens [of c "Record_Outcome out t now" a a'] by simp
qed (use assms in \<open>simp add: widens_def\<close>)

lemma fact_moved_Inr:
  assumes "fact_moved c told now seen db = Inr (found, db')"
  shows "same_core db db'" and "found = Some t \<Longrightarrow> \<exists>t0 a. find_sales c (fact_date told) db' = Some t0 \<and>
    t = with_root a t0 \<and> widens (current (root t0)) (current a)"
proof -
  let ?first = "case told of Start_Fact d s st \<Rightarrow> move_seat_cancel_deadlines c d s st seen db | _ \<Rightarrow> (0, db)"
  obtain n where first: "?first = (n, db')"
    and rest: "found = None \<or> (\<exists>t0 a. find_sales c (fact_date told) db' = Some t0 \<and>
      fact_applied (sales_rules c) told now (root t0) = (a, True) \<and> found = Some (with_root a t0))"
    using assms unfolding fact_moved_def
    by (cases ?first) (auto split: option.splits prod.splits bool.splits if_splits)
  show "same_core db db'"
    using first by (auto simp: move_seat_cancel_deadlines_def Let_def split: catalog_date_fact.splits)
  show "\<exists>t0 a. find_sales c (fact_date told) db' = Some t0 \<and> t = with_root a t0 \<and>
      widens (current (root t0)) (current a)" if "found = Some t"
    using rest that fact_applied_widens by blast
qed

lemma catalog_fact_cases:
  assumes "apply_catalog_date_fact c m told tp now seen db = Inr (x, db')" and "claim_message m db = (b, db0)"
  obtains (seen) "db' = db0"
    | (opened) d ch t' db2 where "commit_sales tp (created (open_sales d ch now)) db0 = Inr (t', db2)"
        "same_core db2 db'"
    | (moved) found db1 where "fact_moved c told now seen db0 = Inr (found, db1)"
        "case found of None \<Rightarrow> db' = db1
          | Some t \<Rightarrow> \<exists>t' db2. commit_sales tp t db1 = Inr (t', db2) \<and> same_core db2 db'"
proof (cases "b \<and> \<not> (\<exists>d ch t. told = Drafted d ch t)")
  case True
  let ?settled = "\<lambda>db2. case told of Outcome_Fact date_id outcome _ \<Rightarrow>
      if List.member outcomes_closing_sales outcome then record_outcome_to_settle date_id outcome now tp db2
      else db2 | _ \<Rightarrow> db2"
  have same: "same_core db2 (?settled db2)" for db2
    by (simp add: record_outcome_to_settle_def split: catalog_date_fact.splits)
  from True assms obtain found db1 where "fact_moved c told now seen db0 = Inr (found, db1)"
    and "case found of None \<Rightarrow> db' = db1
      | Some t \<Rightarrow> \<exists>t' db2. commit_sales tp t db1 = Inr (t', db2) \<and> db' = ?settled db2"
    by (cases told) (auto simp: apply_catalog_date_fact_def bindE_eq_Inr split: option.splits)
  with same show thesis by (intro moved [of found db1]) (auto split: option.splits)
next
  case False
  then consider "\<not> b" | d ch t where "b" "told = Drafted d ch t" by blast
  then show thesis
  proof cases
    case 1
    with assms show thesis by (intro seen) (simp add: apply_catalog_date_fact_def)
  next
    case 2
    with assms have "db' = db0 \<or> (\<exists>t' db2. commit_sales tp (created (open_sales d ch now)) db0 = Inr (t', db2) \<and>
        db' = db2)"
      by (auto simp: apply_catalog_date_fact_def bindE_eq_Inr fact_opened_def split: option.splits)
    with seen opened [of d ch] show thesis by auto
  qed
qed

lemma apply_catalog_date_fact_advances:
  assumes "apply_catalog_date_fact c m told tp now seen db = Inr (x, db')" and ok: "db_ok db"
  shows "advances db db'"
proof -
  obtain b db0 where claim: "claim_message m db = (b, db0)" by force
  have same0: "same_core db db0" using claim by (auto simp: claim_message_def split: if_splits)
  have ok0: "db_ok db0" by (rule same_core_ok [OF same0 ok])
  show ?thesis
  proof (rule same_then_advances [OF ok same0])
    consider (seen) "db' = db0"
      | (opened) d ch t' db2 where "commit_sales tp (created (open_sales d ch now)) db0 = Inr (t', db2)"
          "same_core db2 db'"
      | (moved) found db1 where "fact_moved c told now seen db0 = Inr (found, db1)"
          "case found of None \<Rightarrow> db' = db1
            | Some t \<Rightarrow> \<exists>t' db2. commit_sales tp t db1 = Inr (t', db2) \<and> same_core db2 db'"
      by (rule catalog_fact_cases [OF assms(1) claim])
    then show "advances db0 db'"
    proof cases
      case seen
      with ok0 show ?thesis by (simp add: advances_refl)
    next
      case opened
      from commit_sales_advances [OF opened(1) open_sales_advances [OF _ ok0]] opened(2) show ?thesis
        by (rule advances_then_same)
    next
      case moved
      have same1: "same_core db0 db1" by (rule fact_moved_Inr(1) [OF moved(1)])
      show ?thesis
      proof (cases found)
        case None
        with moved(2) same1 ok0 show ?thesis by (simp add: advances_same)
      next
        case (Some t)
        then obtain t0 a where t0: "find_sales c (fact_date told) db1 = Some t0" "t = with_root a t0"
          "widens (current (root t0)) (current a)" using fact_moved_Inr(2) [OF moved(1)] by blast
        obtain t' db2 where "commit_sales tp t db1 = Inr (t', db2)" and same2: "same_core db2 db'"
          using moved(2) Some by auto
        with t0 commit_loaded_advances [OF _ same_core_ok [OF same1 ok0]] have "advances db1 db2" by blast
        with same2 same_then_advances [OF ok0 same1] advances_then_same show ?thesis by blast
      qed
    qed
  qed
qed

lemma close_ended_sale_advances:
  assumes "close_ended_sale c d now db = Inr (x, db')" and ok: "db_ok db"
  shows "advances db db'"
proof -
  have "db' = db \<or> (\<exists>t a t'. find_sales c d db = Some t \<and> end_sales (sales_rules c) now (root t) = (a, True) \<and>
      commit_sales None (with_root a t) db = Inr (t', db'))"
    using assms(1)
    by (auto simp: close_ended_sale_def bindE_eq_Inr split: option.splits prod.splits bool.splits)
  moreover have "widens (current (root t)) (current a)"
    if "end_sales (sales_rules c) now (root t) = (a, True)" for t a
    using date_sales_step_widens [of "sales_rules c" "End_Sales now" "root t" a] that by simp
  ultimately show ?thesis using ok commit_loaded_advances [OF _ ok] advances_refl by metis
qed

end
