(* ===== verification/Ledger_Outcomes.thy ===== *)
theory Ledger_Outcomes
  imports Date_Outcomes Availability Replay_Access Ledger_Purchases Ledger_Studio
begin

text \<open>
  The seats' and the outcomes' transactions refine the ledger: a viewer's cancellation gives a sold
  seat back to the free ones; a studio's refund, a date's settlement, the availability publisher and
  the replay's accesses move no seat of it.
\<close>

section \<open>Seats\<close>

lemma owe_share_key:
  "owe_share c i seat reason now a = Inr (a', r) \<Longrightarrow> order_key (current a') = order_key (current a)"
  by (auto simp: owe_share_def Let_def bindE_eq_Inr dest: owe_refund_key split: if_splits)

lemma trace_refund_same: "trace_refund i tp db = Inr db' \<Longrightarrow> same_core db db'"
  by (auto simp: trace_refund_def dest: record_refund_traceparent_same split: option.splits)

lemma owe_settled_key: "owe_settled c r now a = Inr a' \<Longrightarrow> order_key (current a') = order_key (current a)"
  by (auto simp: owe_settled_def bindE_eq_Inr dest: owe_refund_key split: option.splits)

lemma cancel_in_same:
  assumes "cancel_in c i seen again now cmd db = Inr ((view, release), db')" and ok: "db_ok db"
  shows "same_core db db'" and "release = None \<or> (\<exists>d. release = Some (release_seat c again d))"
proof -
  obtain t order_id a1 refund a2 reason x t1 db1 db2 rows where t: "find_order c order_id db = Some t"
    and a1: "owe_share c i (csc_seat_id cmd) reason now (root t) = Inr (a1, refund)"
    and a2: "cancel_seats (order_rules c) x now a1 = Inr a2"
    and saved: "save_order (with_root a2 t) db = Inr (t1, db1)"
    and traced: "trace_refund (map_option rf_id refund) (csc_traceparent cmd) db1 = Inr db2"
    and db': "db' = write_outbox rows db2"
    and rel: "release = None \<or> (\<exists>d. release = Some (release_seat c again d))"
    using assms(1)
    by (auto simp: cancel_in_def Let_def bindE_eq_Inr split: option.splits if_splits; blast)
  show "release = None \<or> (\<exists>d. release = Some (release_seat c again d))" by (rule rel)
  have "order_key (current a2) = order_key (current (root t))"
    using owe_share_key [OF a1] cancel_seats_key [OF a2] by simp
  from found_order_saved(1) [OF t this same_core_refl saved db_okD(6) [OF ok]] trace_refund_same [OF traced]
  have "same_core db db2" by (rule same_core_trans)
  then show "same_core db db'" unfolding db' using same_core_trans same_core_fields(8) by blast
qed

lemma release_seat_advances:
  assumes "release_seat c again d db = Inr db'" and ok: "db_ok db"
  shows "advances db db'"
proof -
  have "release_sold_seats d 1 db = Inr (True, db')"
    using assms(1) by (auto simp: release_seat_def bindE_eq_Inr split: if_splits)
  from release_sold_seats_Inr [OF this db_okD(4) [OF ok]]
  have e: "effect d (more_free 1 \<circ> more_sold (- 1)) db db'" by simp
  show ?thesis
    by (rule effect_advances [OF e ok])
      (auto simp: more_free_def more_sold_def intro: ledger_moves(5) [of _ d _ 1])
qed

text \<open>What a run behind the store leaves of the command's tables: what it found, or what the command left.\<close>

lemma run_idempotently_tables:
  assumes "run_idempotently lt at q now command (records, db) = Inr (answer, records', db')"
  shows "db' = db \<and> mr_replayed answer \<or> (\<exists>x. command db = Inr (x, db'))"
  using run_enveloped_replayed(2) [OF assms [unfolded run_idempotently_def]]
    run_enveloped_fresh(3) [OF assms [unfolded run_idempotently_def]]
  by (cases "mr_replayed answer") (auto simp: bindE_eq_Inr)

lemma cancel_once_advances:
  assumes "cancel_once c i seen again lt now cmd (records, db) = Inr (x, records', db')" and ok: "db_ok db"
  shows "advances db db'"
proof -
  obtain answer db1 release where
    run: "run_idempotently lt now (csc_idempotency cmd) now
      (\<lambda>(db, _). bindE (cancel_in c i seen again now cmd db) (\<lambda>((view, release), db1). Inr (view, (db1, release))))
      (records, (db, None)) = Inr (answer, records', (db1, release))"
    and counter: "run_counter_move release db1 = Inr db'"
    using assms(1) by (auto simp: cancel_once_def bindE_eq_Inr)
  from run_idempotently_tables [OF run] consider "db1 = db" "release = None"
    | view where "cancel_in c i seen again now cmd db = Inr ((view, release), db1)"
    by (auto simp: bindE_eq_Inr)
  then show ?thesis
  proof cases
    case 1
    with counter ok show ?thesis by (simp add: run_counter_move_def advances_refl)
  next
    case 2
    note same = cancel_in_same [OF 2 ok]
    from same(2) show ?thesis
    proof (elim disjE exE)
      assume "release = None"
      with counter same(1) ok show ?thesis by (simp add: run_counter_move_def advances_same)
    next
      fix d assume "release = Some (release_seat c again d)"
      with counter have "release_seat c again d db1 = Inr db'" by (simp add: run_counter_move_def)
      from same_then_advances [OF ok same(1) release_seat_advances [OF this]] show ?thesis .
    qed
  qed
qed

lemma refund_in_same:
  assumes "refund_in c i seen now cmd db = Inr (x, db')" and ok: "db_ok db"
  shows "same_core db db'"
proof -
  obtain t order_id a1 a2 y t1 db1 db2 rows owed where t: "find_order c order_id db = Some t"
    and a1: "owe_refund (order_rules c) owed now (root t) = Inr (a1, y)"
    and a2: "a2 = a1 \<or> (\<exists>z. cancel_seats (order_rules c) z now a1 = Inr a2)"
    and saved: "save_order (with_root a2 t) db = Inr (t1, db1)"
    and traced: "record_refund_traceparent i (rsc_traceparent cmd) db1 = Inr db2"
    and db': "db' = write_outbox rows db2"
    using assms(1)
    by (auto simp: refund_in_def Let_def bindE_eq_Inr split: option.splits if_splits; blast)
  have "order_key (current a2) = order_key (current (root t))"
    using owe_refund_key [OF a1] a2 cancel_seats_key by metis
  from found_order_saved(1) [OF t this same_core_refl saved db_okD(6) [OF ok]]
    record_refund_traceparent_same [OF traced]
  have "same_core db db2" by (rule same_core_trans)
  then show "same_core db db'" unfolding db' using same_core_trans same_core_fields(8) by blast
qed

lemma refund_seat_advances:
  assumes "refund_seat c i seen lt now cmd (records, db) = Inr (x, records', db')" and ok: "db_ok db"
  shows "advances db db'"
  using run_idempotently_tables [OF assms(1) [unfolded refund_seat_def]] refund_in_same [OF _ ok]
    advances_same [OF ok] advances_refl [OF ok] by blast

section \<open>Outcomes\<close>

lemma settle_cancelled_same:
  assumes "settle_cancelled c i tp now t db = Inr (x, db')" and "find_order c order_id db = Some t"
    and ok: "db_ok db"
  shows "same_core db db'"
proof -
  consider "db' = db"
    | s :: cancelled_date_settlement and a1 a2 t1 db1 where
      "owe_settled c (cd_refund s) now (root t) = Inr a1"
      "cancel_seats (order_rules c) (cd_cancellation s) now a1 = Inr a2"
      "save_order (with_root a2 t) db = Inr (t1, db1)"
      "trace_refund (map_option rf_id (cd_refund s)) tp db1 = Inr db'"
    using assms(1) by (auto simp: settle_cancelled_def bindE_eq_Inr split: option.split_asm; blast)
  then show ?thesis
  proof cases
    case 2
    have "order_key (current a2) = order_key (current (root t))"
      using owe_settled_key [OF 2(1)] cancel_seats_key [OF 2(2)] by simp
    from found_order_saved(1) [OF assms(2) this same_core_refl 2(3) db_okD(6) [OF ok]] trace_refund_same [OF 2(4)]
    show ?thesis by (rule same_core_trans)
  qed simp
qed

lemma insert_credit_same: "insert_credit credit db = Inr (b, db') \<Longrightarrow> same_core db db'"
  by (auto simp: insert_credit_def Let_def split: if_splits)

lemma settle_interrupted_same:
  assumes "settle_interrupted c i tp now t db = Inr (x, db')" and "find_order c order_id db = Some t"
    and ok: "db_ok db"
  shows "same_core db db'"
proof -
  obtain s where "interrupted_date_settlement_of c i (current (root t)) = Inr s"
    using assms(1) by (auto simp: settle_interrupted_def bindE_eq_Inr)
  then consider "db' = db"
    | credit b where "insert_credit credit db = Inr (b, db')"
    | credit b db1 crediting a t1 db2 rows where "insert_credit credit db = Inr (b, db1)"
      "credit_seats (order_rules c) crediting now (root t) = Inr a"
      "save_order (with_root a t) db1 = Inr (t1, db2)" "db' = write_outbox rows db2"
    using assms(1)
    by (cases s) (auto simp: settle_interrupted_def bindE_eq_Inr split: if_split_asm; blast)+
  then show ?thesis
  proof cases
    case 2
    then show ?thesis by (rule insert_credit_same)
  next
    case 3
    from found_order_saved(1) [OF assms(2) credit_seats_key [OF 3(2)] insert_credit_same [OF 3(1)] 3(3) db_okD(6) [OF ok]]
    show ?thesis unfolding 3(4) using same_core_trans same_core_fields(8) by blast
  qed simp
qed

lemma settle_order_same:
  assumes "settle_order c settlement fresh now order_id db = Inr db'" and ok: "db_ok db"
  shows "same_core db db'"
proof -
  obtain t moved db1 where t: "find_order c order_id db = Some t"
    and "settle_cancelled c (fresh order_id) (xr_traceparent settlement) now t db = Inr (moved, db1) \<or>
      settle_interrupted c (fresh order_id) (xr_traceparent settlement) now t db = Inr (moved, db1)"
    and db': "db' = db1 \<or> (\<exists>rows. db' = write_outbox rows db1)"
    using assms(1)
    by (auto simp: settle_order_def Let_def bindE_eq_Inr split: option.splits if_splits; metis)
  then have "same_core db db1"
    using settle_cancelled_same [OF _ t ok] settle_interrupted_same [OF _ t ok] by blast
  with db' show ?thesis using same_core_trans same_core_fields(8) by blast
qed

lemma mark_orders_settled_same: "same_core db (mark_orders_settled ids now db)"
  by (auto simp: mark_orders_settled_def order_link_def intro!: same_core_orders)

lemma settle_orders_advances:
  assumes "settle_orders c locked fresh batch now d db = Inr (x, db')" and ok: "db_ok db"
  shows "advances db db'"
proof -
  consider "db' = db"
    | s ids db1 f where "foldE (settle_order c s fresh now) ids db = Inr db1"
      "db' = settlements_update d f (mark_orders_settled ids now db1)"
    using assms(1) by (auto simp: settle_orders_def Let_def bindE_eq_Inr split: option.splits)
  then have "same_core db db'"
  proof cases
    case 2
    have "same_core db db1"
      by (rule foldE_invariant [OF 2(1), where P = "same_core db"])
        (simp, use settle_order_same same_core_ok ok same_core_trans in blast)
    then show ?thesis
      unfolding 2(2) settlements_update_def
      using mark_orders_settled_same same_core_fields(7) same_core_trans by metis
  qed simp
  then show ?thesis by (rule advances_same [OF ok])
qed

lemma end_waitlist_of_outcome_advances:
  assumes "end_waitlist_of_outcome c locked now d db = Inr (x, db')" and ok: "db_ok db"
  shows "advances db db'"
proof -
  consider "db' = db" | y db1 f where "end_waitlist c d now db = Inr (y, db1)" "db' = settlements_update d f db1"
    using assms(1) by (auto simp: end_waitlist_of_outcome_def bindE_eq_Inr split: option.splits if_splits)
  then show ?thesis
  proof cases
    case 2
    from advances_then_same [OF end_waitlist_advances [OF 2(1) ok]] show ?thesis
      by (simp add: 2(2) settlements_update_def)
  qed (simp add: advances_refl ok)
qed

lemma set_aside_advances: "db_ok db \<Longrightarrow> advances db (set_aside d now db)"
  by (simp add: advances_same set_aside_def settlements_update_def)

section \<open>Availability and replay\<close>

lemma publish_if_due_advances:
  assumes "publish_if_due c locked seen now d db = Inr (x, db')" and "db_ok db"
  shows "advances db db'"
proof -
  have "same_core db db'"
    using assms(1)
    by (auto simp: publish_if_due_def Let_def same_core_def write_outbox_def split: option.splits if_splits)
  then show ?thesis by (rule advances_same [OF assms(2)])
qed

lemma set_publication_aside_advances: "db_ok db \<Longrightarrow> advances db (set_publication_aside d now db)"
  by (simp add: advances_same set_publication_aside_def)

lemma record_replay_state_advances:
  assumes "record_replay_state c i told seen now db = Inr (x, db')" and "db_ok db"
  shows "advances db db'"
proof -
  have claim: "same_core db db0" if "claim_message i db = (b, db0)" for b db0
    using that by (auto simp: claim_message_def split: if_splits)
  have lock: "same_core db0 db1" if "locked_window told now db0 = (k, db1)" for k db0 db1
    using that by (auto simp: locked_window_def split: option.splits)
  have keep: "same_core db1 db2" if "keep_replay_window d w now db1 = Inr db2" for d w db1 db2
    using that by (auto simp: keep_replay_window_def bindE_eq_Inr table_update_Inr)
  have accesses: "same_core db1 (case a of Some Grant_Accesses \<Rightarrow> grant_seat_accesses d now seen db1
      | Some Revoke_Accesses \<Rightarrow> revoke_accesses d now db1 | None \<Rightarrow> db1)" for a d db1
    by (auto simp: grant_seat_accesses_def revoke_accesses_def split: option.splits accesses_owed.splits)
  obtain b db0 where b: "claim_message i db = (b, db0)" by fastforce
  obtain k db1 where k: "locked_window told now db0 = (k, db1)" by fastforce
  have "db' = db0 \<or> db' = db1 \<or> (\<exists>w a. keep_replay_window (rs_date_id told) w now
      (case a of Some Grant_Accesses \<Rightarrow> grant_seat_accesses (rs_date_id told) now seen db1
        | Some Revoke_Accesses \<Rightarrow> revoke_accesses (rs_date_id told) now db1 | None \<Rightarrow> db1) = Inr db')"
    using assms(1) b k
    by (auto simp: record_replay_state_def Let_def bindE_eq_Inr split: bool.splits option.splits replay_window_change.splits)
  then have "same_core db db'"
    using claim [OF b] lock [OF k] keep accesses same_core_trans by metis
  then show ?thesis by (rule advances_same [OF assms(2)])
qed

end
