(* ===== verification/Ledger_Sweeps.thy ===== *)
theory Ledger_Sweeps
  imports Ledger_Refinement
begin

text \<open>
  The sweeper's expiry on the ledger: what the due holds carried leaves the held seats at once, and
  goes back date by date.
\<close>

section \<open>The seats of the due holds\<close>

definition due_seats :: "due_hold list \<Rightarrow> ident \<Rightarrow> int" where
  "due_seats due e = (\<Sum>u\<leftarrow>due. if du_date_id u = e then du_quantity u else 0)"

definition entry_seats :: "(ident \<times> int \<times> int) list \<Rightarrow> ident \<Rightarrow> int" where
  "entry_seats m e = (\<Sum>x\<leftarrow>m. if fst x = e then fst (snd x) else 0)"

lemma entry_seats_simps [simp]:
  "entry_seats [] e = 0"
  "entry_seats (x # m) e = (if fst x = e then fst (snd x) else 0) + entry_seats m e"
  by (simp_all add: entry_seats_def)

lemma due_seats_simps [simp]:
  "due_seats [] e = 0"
  "due_seats (u # due) e = (if du_date_id u = e then du_quantity u else 0) + due_seats due e"
  by (simp_all add: due_seats_def)

definition add_due :: "due_hold \<Rightarrow> (ident \<times> int \<times> int) list \<Rightarrow> (ident \<times> int \<times> int) list" where
  "add_due d = upsert (\<lambda>_ seats. case seats of
      None \<Rightarrow> (0 + du_quantity d, 0 + du_pool_seats d)
    | Some (q, p) \<Rightarrow> (q + du_quantity d, p + du_pool_seats d)) (du_date_id d)"

lemma add_due_Cons:
  "add_due u ((k, q, p) # m) =
    (if du_date_id u = k then (k, q + du_quantity u, p + du_pool_seats u) # m else (k, q, p) # add_due u m)"
  unfolding add_due_def upsert.simps option.case prod.case by (rule if_cong) (rule refl | simp only:)+

lemma entry_seats_add_due:
  "entry_seats (add_due u m) e = entry_seats m e + (if du_date_id u = e then du_quantity u else 0)"
  unfolding add_due_def by (induction m) (auto split: prod.splits)

lemma add_due_entries:
  assumes "x \<in> set (add_due u m)" and "0 < du_quantity u" and "\<And>y. y \<in> set m \<Longrightarrow> 0 < fst (snd y)"
  shows "0 < fst (snd x) \<and> (fst x = du_date_id u \<or> fst x \<in> fst ` set m)"
  using assms
proof (induction m)
  case Nil
  then show ?case by (simp add: add_due_def)
next
  case (Cons y m)
  obtain k q p where y: "y = (k, q, p)" by (cases y)
  show ?case
  proof (cases "k = du_date_id u")
    case True
    then have "x = (du_date_id u, q + du_quantity u, p + du_pool_seats u) \<or> x \<in> set m"
      using Cons.prems(1) by (simp add: y add_due_Cons)
    with Cons.prems(2) Cons.prems(3) [of x] Cons.prems(3) [of y] show ?thesis by (auto simp: y)
  next
    case False
    then have "x = y \<or> x \<in> set (add_due u m)"
      using Cons.prems(1) by (simp add: y add_due_Cons)
    with Cons.IH Cons.prems(2) Cons.prems(3) [of y] Cons.prems(3) show ?thesis by (auto simp: y)
  qed
qed

lemma fold_add_due_seats: "entry_seats (fold add_due due m) e = entry_seats m e + due_seats due e"
  by (induction due arbitrary: m) (simp_all add: entry_seats_add_due)

lemma fold_add_due_entries:
  assumes "\<And>u. u \<in> set due \<Longrightarrow> 0 < du_quantity u" and "\<And>y. y \<in> set m \<Longrightarrow> 0 < fst (snd y)"
    and "x \<in> set (fold add_due due m)"
  shows "0 < fst (snd x) \<and> (fst x \<in> du_date_id ` set due \<or> fst x \<in> fst ` set m)"
  using assms
proof (induction due arbitrary: m)
  case Nil
  then show ?case by auto
next
  case (Cons u due)
  have m: "0 < fst (snd y) \<and> (fst y = du_date_id u \<or> fst y \<in> fst ` set m)" if "y \<in> set (add_due u m)"
    for y using add_due_entries [OF that] Cons.prems(1,2) by simp
  have "0 < fst (snd x) \<and> (fst x \<in> du_date_id ` set due \<or> fst x \<in> fst ` set (add_due u m))"
    by (rule Cons.IH) (use Cons.prems m in auto)
  then show ?case using m by force
qed

lemma seats_by_date_eq:
  "seats_by_date c due = sort_by (\<lambda>l r. collates (checkout_rules c) (fst l) (fst r)) (fold add_due due [])"
  unfolding seats_by_date_def add_due_def by (rule refl)

lemma seats_by_date_seats:
  assumes "\<And>u. u \<in> set due \<Longrightarrow> 0 < du_quantity u"
  shows "entry_seats (seats_by_date c due) e = due_seats due e"
    and "x \<in> set (seats_by_date c due) \<Longrightarrow> 0 < fst (snd x) \<and> fst x \<in> du_date_id ` set due"
proof -
  have "entry_seats (seats_by_date c due) e = entry_seats (fold add_due due []) e"
    by (simp add: entry_seats_def seats_by_date_eq sum_sort_by)
  then show "entry_seats (seats_by_date c due) e = due_seats due e"
    by (simp add: fold_add_due_seats)
  show "0 < fst (snd x) \<and> fst x \<in> du_date_id ` set due" if "x \<in> set (seats_by_date c due)"
    using fold_add_due_entries [of due "[]" x] assms that by (simp add: seats_by_date_eq)
qed

section \<open>The seats given back, date by date\<close>

lemma return_all_ledger:
  assumes "foldE (\<lambda>(d, q, p). return_held_seats d q p now) entries db = Inr db'"
    and "sales_ok (db_sales db)" and "\<And>x. x \<in> set entries \<Longrightarrow> 0 < fst (snd x)"
    and "\<And>x. x \<in> set entries \<Longrightarrow> fst x \<in> set (map dr_date_id (db_sales db))"
    and "\<And>e. entry_seats entries e \<le> held e"
  shows "sales_ok (db_sales db') \<and> map dr_date_id (db_sales db') = map dr_date_id (db_sales db) \<and>
    db_holds db' = db_holds db \<and> db_orders db' = db_orders db \<and>
    ledger_step\<^sup>*\<^sup>* (ledger_of (db_sales db) held)
      (ledger_of (db_sales db') (\<lambda>e. held e - entry_seats entries e))"
  using assms
proof (induction entries arbitrary: db held)
  case Nil
  then show ?case by simp
next
  case (Cons x entries)
  obtain d q p where x: "x = (d, q, p)" by (cases x)
  obtain db1 where ret: "return_held_seats d q p now db = Inr db1"
    and rest: "foldE (\<lambda>(d, q, p). return_held_seats d q p now) entries db1 = Inr db'"
    using Cons.prems(1) by (auto simp: x bindE_eq_Inr)
  have d: "d \<in> set (map dr_date_id (db_sales db))" and q: "0 < q"
    using Cons.prems(3,4) [of x] by (auto simp: x)
  have e: "effect d (more_free q) db db1"
    using return_held_seats_Inr [OF ret _ d] Cons.prems(2) by (simp add: sales_ok_def)
  let ?held = "\<lambda>e. held e + (if e = d then - q else 0)"
  have later: "0 \<le> entry_seats entries d"
    using Cons.prems(3) unfolding entry_seats_def by (force intro: sum_list_nonneg)
  have "q \<le> held d" using Cons.prems(5) [of d] later by (simp add: x)
  then have "ledger_step (ledger_of (db_sales db) held) (ledger_of (db_sales db1) ?held)"
    by (intro moved_ledger [OF e refl])
      (use q in \<open>auto simp: more_free_def intro: ledger_moves(3) [of _ d _ q]\<close>)
  moreover have "sales_ok (db_sales db') \<and> map dr_date_id (db_sales db') = map dr_date_id (db_sales db1) \<and>
      db_holds db' = db_holds db1 \<and> db_orders db' = db_orders db1 \<and>
      ledger_step\<^sup>*\<^sup>* (ledger_of (db_sales db1) ?held)
        (ledger_of (db_sales db') (\<lambda>e. ?held e - entry_seats entries e))"
  proof (rule Cons.IH [OF rest effect_sales_ok [OF e Cons.prems(2)]])
    show "entry_seats entries e \<le> ?held e" for e using Cons.prems(5) [of e] by (auto simp: x)
  qed (use Cons.prems(3,4) effect_same(3) [OF e] in auto)
  moreover have "(\<lambda>e. ?held e - entry_seats entries e) = (\<lambda>e. held e - entry_seats (x # entries) e)"
    by (rule ext) (simp add: x)
  ultimately show ?case using effect_same [OF e] by (auto intro: converse_rtranclp_into_rtranclp)
qed

section \<open>The due holds\<close>

lemma due_holds_mem:
  assumes "u \<in> set (due_holds locked now n db)"
  shows "\<exists>h \<in> set (db_holds db). \<exists>o' \<in> set (db_orders db). hr_state h = Hold_Active \<and>
    hr_expires_at h \<le> now \<and> or_hold_id o' = hr_id h \<and> du_hold_id u = hr_id h \<and> du_order_id u = or_id o' \<and>
    du_date_id u = hr_date_id h \<and> du_quantity u = hr_quantity h \<and> du_pool_seats u = hr_pool_seats h"
proof -
  from in_set_takeD [OF assms [unfolded due_holds_def]] obtain h o' where
    "h \<in> set (db_holds db)" "o' \<in> set (db_orders db)" "hr_state h = Hold_Active" "hr_expires_at h \<le> now"
    "or_hold_id o' = hr_id h" "u = \<lparr>du_hold_id = hr_id h, du_order_id = or_id o',
      du_date_id = hr_date_id h, du_quantity = hr_quantity h, du_pool_seats = hr_pool_seats h,
      du_expires_at = hr_expires_at h\<rparr>"
    by auto
  then show ?thesis by (intro bexI [of _ h] bexI [of _ o']) auto
qed

lemma due_holds_distinct:
  assumes "db_ok db"
  shows "distinct (map du_hold_id (due_holds locked now n db))"
proof -
  let ?holds = "filter (\<lambda>h. hr_state h = Hold_Active \<and> hr_expires_at h \<le> now \<and> \<not> locked (hr_id h)) (db_holds db)"
  let ?orders = "\<lambda>h. filter (\<lambda>o'. or_hold_id o' = hr_id h \<and> \<not> locked (or_id o')) (db_orders db)"
  let ?f = "\<lambda>h. map (\<lambda>o'. \<lparr>du_hold_id = hr_id h, du_order_id = or_id o',
             du_date_id = hr_date_id h, du_quantity = hr_quantity h,
             du_pool_seats = hr_pool_seats h, du_expires_at = hr_expires_at h\<rparr>) (?orders h)"
  have holds: "distinct (map or_hold_id (db_orders db))"
    using db_okD(3) [OF assms] by (simp add: links_ok_def order_link_def comp_def)
  have one: "length (?orders h) \<le> 1" for h by (rule filter_key_length [OF holds])
  have "distinct (map du_hold_id (concat (map ?f ?holds)))"
  proof (rule distinct_concat_map [where k = hr_id])
    show "distinct (map hr_id ?holds)" by (rule distinct_map_filter [OF db_okD(5) [OF assms]])
    show "length (?f h) \<le> 1" for h using one [of h] by simp
    show "du_hold_id x = hr_id h" if "x \<in> set (?f h)" for h x using that by auto
  qed
  then have "distinct (map du_hold_id (sort_by (\<lambda>l r. du_expires_at l \<le> du_expires_at r) (concat (map ?f ?holds))))"
    by simp
  from distinct_take [OF this, of n] show ?thesis by (simp add: due_holds_def take_map)
qed

text \<open>What the due holds carry, summed over the holds or over the due list.\<close>

lemma due_seats_holds:
  assumes "distinct (map hr_id holds)" and "distinct (map du_hold_id due)"
    and found: "\<And>u. u \<in> set due \<Longrightarrow> \<exists>h \<in> set holds. hr_state h = Hold_Active \<and> du_hold_id u = hr_id h \<and>
      du_date_id u = hr_date_id h \<and> du_quantity u = hr_quantity h"
  shows "(\<Sum>h\<leftarrow>filter (\<lambda>h. hr_id h \<in> set (map du_hold_id due)) holds. hold_seats_of e h) = due_seats due e"
proof -
  let ?due = "filter (\<lambda>h. hr_id h \<in> set (map du_hold_id due)) holds"
  define F where "F i = hold_seats_of e (the (tbl_find hr_id i holds))" for i
  have F: "F (hr_id h) = hold_seats_of e h" if "h \<in> set holds" for h
    using tbl_find_unique [OF assms(1) that] by (simp add: F_def)
  have "(\<Sum>h\<leftarrow>?due. hold_seats_of e h) = (\<Sum>i\<leftarrow>map hr_id ?due. F i)"
    unfolding map_map by (rule arg_cong [of _ _ sum_list], rule map_cong) (auto simp: F)
  also have "\<dots> = sum F (set (map hr_id ?due))"
    by (rule sum_list_distinct_conv_sum_set [OF distinct_map_filter [OF assms(1)]])
  also have "set (map hr_id ?due) = set (map du_hold_id due)"
  proof (rule set_eqI, rule iffI)
    fix i assume "i \<in> set (map du_hold_id due)"
    then obtain u where u: "u \<in> set due" "i = du_hold_id u" by auto
    then obtain h where "h \<in> set holds" "hr_id h = i" using found [OF u(1)] by auto
    with u show "i \<in> set (map hr_id ?due)" by force
  qed auto
  also have "sum F (set (map du_hold_id due)) = (\<Sum>i\<leftarrow>map du_hold_id due. F i)"
    by (rule sum_list_distinct_conv_sum_set [OF assms(2), symmetric])
  also have "\<dots> = due_seats due e"
    unfolding due_seats_def map_map
  proof (rule arg_cong [of _ _ sum_list], rule map_cong [OF refl])
    fix u assume "u \<in> set due"
    from found [OF this] F show "(F \<circ> du_hold_id) u = (if du_date_id u = e then du_quantity u else 0)"
      by (auto simp: hold_seats_of_def)
  qed
  finally show ?thesis .
qed

lemma expire_holds_Inr:
  assumes "expire_holds (map du_hold_id due) db = Inr db'" and ok: "db_ok db"
    and due: "distinct (map du_hold_id due)"
    and found: "\<And>u. u \<in> set due \<Longrightarrow> \<exists>h \<in> set (db_holds db). hr_state h = Hold_Active \<and> du_hold_id u = hr_id h \<and>
      du_date_id u = hr_date_id h \<and> du_quantity u = hr_quantity h"
  shows "db_ok db'" and "db_sales db' = db_sales db"
    and "held_of (db_holds db') e = held_of (db_holds db) e - due_seats due e"
proof -
  let ?p = "\<lambda>h. hr_id h \<in> set (map du_hold_id due)"
  let ?f = "\<lambda>h. h\<lparr>hr_state := Hold_Expired, hr_version := hr_version h + 1\<rparr>"
  have db': "db' = db\<lparr>db_holds := tbl_update ?p ?f (db_holds db)\<rparr>"
    and check: "\<forall>h \<in> set (db_holds db). ?p h \<longrightarrow> seat_hold_check (?f h)"
    using assms(1) by (auto simp: expire_holds_def bindE_eq_Inr table_update_Inr)
  show "db_sales db' = db_sales db" by (simp add: db')
  have "holds_ok (map dr_date_id (db_sales db)) (db_holds db')"
    using db_okD(2) [OF ok] check by (auto simp: holds_ok_def db' map_tbl_update_same table_simps)
  moreover have "links_ok (map order_link (db_orders db)) (db_holds db')"
    unfolding db' using db_okD(3) [OF ok] by (simp add: links_ok_tbl_update)
  ultimately show "db_ok db'" using db_okD(1) [OF ok] by (simp add: db_ok_def db')
  have "held_of (db_holds db') e = held_of (db_holds db) e + (\<Sum>h\<leftarrow>filter ?p (db_holds db). - hold_seats_of e h)"
    by (simp add: db' held_of_def sum_tbl_update hold_seats_of_def)
  also have "(\<Sum>h\<leftarrow>filter ?p (db_holds db). - hold_seats_of e h) =
      - (\<Sum>h\<leftarrow>filter ?p (db_holds db). hold_seats_of e h)"
    by (simp add: uminus_sum_list_map comp_def)
  finally show "held_of (db_holds db') e = held_of (db_holds db) e - due_seats due e"
    using due_seats_holds [OF db_okD(5) [OF ok] due found] by simp
qed

lemma fail_orders_same:
  "fail_due_orders ids now db = Inr db' \<Longrightarrow> same_core db db'"
  "fail_pending_orders_without_hold locked now db = Inr db' \<Longrightarrow> same_core db db'"
  by (auto simp: fail_due_orders_def fail_pending_orders_without_hold_def bindE_eq_Inr table_update_Inr
      order_link_def intro!: same_core_orders)

lemma due_holds_pos:
  assumes "u \<in> set (due_holds locked now n db)" and "db_ok db"
  shows "0 < du_quantity u" and "du_date_id u \<in> set (map dr_date_id (db_sales db))"
  using due_holds_mem [OF assms(1)] db_okD(2) [OF assms(2)]
  by (auto simp: holds_ok_def seat_hold_check_def)

lemma held_nonneg: "db_ok db \<Longrightarrow> 0 \<le> held_of (db_holds db) e"
  unfolding held_of_def using db_okD(2) [of db]
  by (intro sum_list_nonneg) (auto simp: hold_seats_of_def holds_ok_def seat_hold_check_def)

lemma expire_due_holds_advances:
  assumes "expire_due_holds c locked now n db = Inr (m, db')" and ok: "db_ok db"
  shows "advances db db'"
proof -
  let ?due = "due_holds locked now n db"
  obtain db1 where db1: "fail_pending_orders_without_hold locked now db = Inr db1"
    using assms(1) by (auto simp: expire_due_holds_def Let_def bindE_eq_Inr)
  have same1: "same_core db db1" by (rule fail_orders_same(2) [OF db1])
  have ok1: "db_ok db1" by (rule same_core_ok [OF same1 ok])
  show ?thesis
  proof (cases "?due = []")
    case True
    with assms(1) db1 advances_same [OF ok same1] show ?thesis by (simp add: expire_due_holds_def)
  next
    case False
    then obtain db2 db3 where db2: "expire_holds (map du_hold_id ?due) db1 = Inr db2"
      and db3: "fail_due_orders (map du_order_id ?due) now db2 = Inr db3"
      and db4: "foldE (\<lambda>(d, q, p). return_held_seats d q p now) (seats_by_date c ?due) db3 = Inr db'"
      using assms(1) db1 by (auto simp: expire_due_holds_def Let_def bindE_eq_Inr)
    have holds: "db_holds db1 = db_holds db" using same1 by (simp add: same_core_def)
    have found: "\<exists>h \<in> set (db_holds db1). hr_state h = Hold_Active \<and> du_hold_id u = hr_id h \<and>
        du_date_id u = hr_date_id h \<and> du_quantity u = hr_quantity h" if "u \<in> set ?due" for u
      using due_holds_mem [OF that] unfolding holds by blast
    note expired = expire_holds_Inr [OF db2 ok1 due_holds_distinct [OF ok] found]
    have same3: "same_core db2 db3" by (rule fail_orders_same(1) [OF db3])
    have ok3: "db_ok db3" by (rule same_core_ok [OF same3 expired(1)])
    have sales3: "db_sales db3 = db_sales db" and held3: "held_of (db_holds db3) e =
        held_of (db_holds db) e - due_seats ?due e" for e
      using same1 same3 expired(2,3) by (simp_all add: same_core_def)
    have entries: "entry_seats (seats_by_date c ?due) e = due_seats ?due e" for e
      by (rule seats_by_date_seats(1)) (use due_holds_pos(1) [OF _ ok] in auto)
    have "sales_ok (db_sales db') \<and> map dr_date_id (db_sales db') = map dr_date_id (db_sales db3) \<and>
        db_holds db' = db_holds db3 \<and> db_orders db' = db_orders db3 \<and>
        ledger_step\<^sup>*\<^sup>* (ledger_of (db_sales db3) (held_of (db_holds db)))
          (ledger_of (db_sales db') (\<lambda>e. held_of (db_holds db) e - entry_seats (seats_by_date c ?due) e))"
    proof (rule return_all_ledger [OF db4 db_okD(1) [OF ok3]])
      show "0 < fst (snd x)" "fst x \<in> set (map dr_date_id (db_sales db3))"
        if x: "x \<in> set (seats_by_date c ?due)" for x
      proof -
        have "0 < fst (snd x) \<and> fst x \<in> du_date_id ` set ?due"
          using seats_by_date_seats(2) [OF _ x] due_holds_pos(1) [OF _ ok] by blast
        then show "0 < fst (snd x)" "fst x \<in> set (map dr_date_id (db_sales db3))"
          using due_holds_pos(2) [OF _ ok] unfolding sales3 by auto
      qed
      show "entry_seats (seats_by_date c ?due) e \<le> held_of (db_holds db) e" for e
        using held_nonneg [OF ok3, of e] held3 [of e] entries [of e] by simp
    qed
    then have "sales_ok (db_sales db')" "map dr_date_id (db_sales db') = map dr_date_id (db_sales db3)"
      "db_holds db' = db_holds db3" "db_orders db' = db_orders db3"
      "ledger_step\<^sup>*\<^sup>* (ledger_abs db) (ledger_of (db_sales db') (held_of (db_holds db')))"
      by (simp_all add: entries held3 [symmetric] sales3 ledger_abs_def)
    with db_okD(2,3) [OF ok3] show ?thesis by (simp add: advances_def db_ok_def ledger_abs_def)
  qed
qed

end
