(* ===== verification/Ticketing_System.thy ===== *)
theory Ticketing_System
  imports Ledger_Payments Ledger_Outcomes Ledger_Sweeps
begin

text \<open>
  Ticketing as a transition system on its tables: a step is one committed transaction of one of its
  processes (the API, the consumer of catalog's facts, the sweepers, the payment workers), in any
  interleaving. What a
  transaction reads without a lock is of any tables \<open>seen\<close> or \<open>again\<close>; what it draws, of any
  \<open>draws\<close>. A transaction that throws commits nothing and is no step.
\<close>

inductive ticketing_step :: "core \<Rightarrow> db \<Rightarrow> db \<Rightarrow> bool" for c :: core where
  purchase_placed: "place_in c origin d seen now cmd db = Inr (x, db') \<Longrightarrow> ticketing_step c db db'"
| purchase_resumed:
    "resume_in c origin d seen now order_id tp acknowledged db = Inr (x, db') \<Longrightarrow> ticketing_step c db db'"
| renewal_failed:
    "fail_sold_out_in c origin seen now order_id stale tp db = Inr (x, db') \<Longrightarrow> ticketing_step c db db'"
| intent_recorded:
    "record_intent_in c origin d seen again now order_id intent tp db = Inr (x, db') \<Longrightarrow>
      ticketing_step c db db'"
| hold_released: "release_hold_of c now order_id db = Inr (x, db') \<Longrightarrow> ticketing_step c db db'"
| holds_expired: "expire_due_holds c locked now batch db = Inr (n, db') \<Longrightarrow> ticketing_step c db db'"
| waitlist_joined: "join_in c entry_id date_id account_id tp now db = Inr (x, db') \<Longrightarrow> ticketing_step c db db'"
| waitlist_left: "leave_in c date_id account_id tp now db = Inr (x, db') \<Longrightarrow> ticketing_step c db db'"
| window_ended: "end_due_priority_window c date_id now lk db = Inr (x, db') \<Longrightarrow> ticketing_step c db db'"
| waitlist_ended: "end_waitlist c date_id now db = Inr (x, db') \<Longrightarrow> ticketing_step c db db'"
| prices_set: "set_date_prices_in c date_id v tiers tp now db = Inr (x, db') \<Longrightarrow> ticketing_step c db db'"
| provision_set: "set_technical_provision_in c date_id v n tp now db = Inr (x, db') \<Longrightarrow> ticketing_step c db db'"
| tier_opened: "open_capacity_tier_in c tier_id date_id v n notify tp now db = Inr (x, db') \<Longrightarrow>
    ticketing_step c db db'"
| fact_learnt: "apply_catalog_date_fact c message_id told tp now seen db = Inr (x, db') \<Longrightarrow>
    ticketing_step c db db'"
| sale_closed: "close_ended_sale c date_id now db = Inr (x, db') \<Longrightarrow> ticketing_step c db db'"
| webhook_recorded: "record_payment_event w raw_body signature tp now db = Inr (x, db') \<Longrightarrow>
    ticketing_step c db db'"
| webhook_applied: "apply_payment_event c d random seen again lk now event_id db = (x, db') \<Longrightarrow>
    ticketing_step c db db'"
| refund_asked: "process_refund c provider final now refund_id seen db = (x, db') \<Longrightarrow>
    ticketing_step c db db'"
| cancellation_asked: "process_intent_cancellation c canceller final now order_id seen db = (x, db') \<Longrightarrow>
    ticketing_step c db db'"
| lost_refunds_given_up: "give_up_lost_refunds schedule locked now db = (n, db') \<Longrightarrow> ticketing_step c db db'"
| refunds_relayed: "relay_refunds locked now db = (n, jobs, db') \<Longrightarrow> ticketing_step c db db'"
| refunds_rerun: "rerun_asked_refunds states locked db = (n, promoted, db') \<Longrightarrow> ticketing_step c db db'"
| cancellations_relayed: "relay_intent_cancellations c schedule locked now db = (n, jobs, db') \<Longrightarrow>
    ticketing_step c db db'"
| seat_cancelled: "cancel_once c refund_id seen again lk now csc (records, db) = Inr (x, records', db') \<Longrightarrow>
    ticketing_step c db db'"
| seat_refunded: "refund_seat c refund_id seen lk now rsc (amounts, db) = Inr (y, amounts', db') \<Longrightarrow>
    ticketing_step c db db'"
| orders_settled: "settle_orders c locked fresh batch now date_id db = Inr (x, db') \<Longrightarrow> ticketing_step c db db'"
| outcome_ends_list: "end_waitlist_of_outcome c locked now date_id db = Inr (x, db') \<Longrightarrow>
    ticketing_step c db db'"
| settlement_set_aside: "db' = set_aside date_id now db \<Longrightarrow> ticketing_step c db db'"
| availability_published: "publish_if_due c lk seen now date_id db = Inr (x, db') \<Longrightarrow> ticketing_step c db db'"
| publication_set_aside: "db' = set_publication_aside date_id now db \<Longrightarrow> ticketing_step c db db'"
| replay_learnt: "record_replay_state c message_id replay_told seen now db = Inr (x, db') \<Longrightarrow>
    ticketing_step c db db'"

inductive_cases ticketing_stepE: "ticketing_step c db db'"

lemmas transaction_advances =
  place_in_advances resume_in_advances fail_sold_out_in_advances record_intent_in_advances
  release_hold_of_advances expire_due_holds_advances join_in_advances leave_in_advances
  end_due_priority_window_advances end_waitlist_advances set_date_prices_in_advances
  set_technical_provision_in_advances open_capacity_tier_in_advances
  apply_catalog_date_fact_advances close_ended_sale_advances record_payment_event_advances
  apply_payment_event_advances process_refund_advances process_intent_cancellation_advances
  cancel_once_advances refund_seat_advances settle_orders_advances end_waitlist_of_outcome_advances
  set_aside_advances publish_if_due_advances set_publication_aside_advances record_replay_state_advances

lemma relayed_advances:
  assumes "db_ok db"
  shows "give_up_lost_refunds schedule locked now db = (n, db') \<Longrightarrow> advances db db'"
    and "relay_refunds locked now db = (n, jobs, db') \<Longrightarrow> advances db db'"
    and "rerun_asked_refunds states locked db = (n, promoted, db') \<Longrightarrow> advances db db'"
    and "relay_intent_cancellations c schedule locked now db = (n, jobs, db') \<Longrightarrow> advances db db'"
  using relay_advances [OF assms] by (metis snd_conv)+

lemma ticketing_step_advances:
  assumes "hold_laws (checkout_rules c)" and "ticketing_step c db db'" and "db_ok db"
  shows "advances db db'"
  using assms(2)
  by (cases rule: ticketing_step.cases)
    (hypsubst?, blast intro: transaction_advances relayed_advances assms(1,3))+

definition no_tables :: "db \<Rightarrow> bool" where
  "no_tables db \<longleftrightarrow> db = empty_db"

lemma empty_db_ok: "db_ok empty_db" "ledger_abs empty_db = Map.empty"
  by (auto simp: db_ok_def empty_db_def sales_ok_def holds_ok_def links_ok_def ledger_abs_def ledger_of_def)

text \<open>The steps under a core that keeps the law of holds.\<close>

definition lawful_step :: "core \<Rightarrow> db \<Rightarrow> db \<Rightarrow> bool" where
  "lawful_step c db db' \<longleftrightarrow> hold_laws (checkout_rules c) \<and> ticketing_step c db db'"

interpretation ticketing: simulation no_tables "lawful_step c" db_ok no_dates ledger_step ledger_abs for c
  by unfold_locales
    (auto simp: no_tables_def no_dates_def empty_db_ok lawful_step_def
      dest: ticketing_step_advances [unfolded advances_def])

lemma lawful_run:
  assumes "hold_laws (checkout_rules c)" and "(ticketing_step c)\<^sup>*\<^sup>* db db'"
  shows "(lawful_step c)\<^sup>*\<^sup>* db db'"
proof -
  have "lawful_step c = ticketing_step c" using assms(1) by (auto simp: lawful_step_def fun_eq_iff)
  with assms(2) show ?thesis by simp
qed

lemma reachable_ok:
  assumes "hold_laws (checkout_rules c)" and "(ticketing_step c)\<^sup>*\<^sup>* empty_db db"
  shows "db_ok db"
  by (rule ticketing.concrete.reachable_inv [OF _ lawful_run [OF assms]]) (simp add: no_tables_def)

lemma reachable_ledger:
  assumes "hold_laws (checkout_rules c)" and "(ticketing_step c)\<^sup>*\<^sup>* empty_db db"
  shows "ledger_step\<^sup>*\<^sup>* Map.empty (ledger_abs db)"
  using ticketing.reachable_sim [OF _ lawful_run [OF assms]] by (auto simp: no_tables_def no_dates_def)

lemma reachable_seats:
  assumes "hold_laws (checkout_rules c)" and "(ticketing_step c)\<^sup>*\<^sup>* empty_db db"
  shows "ledger_ok (ledger_abs db)"
  by (rule spec.reachable_inv [OF _ reachable_ledger [OF assms]]) (simp add: no_dates_def)

section \<open>A run\<close>

text \<open>
  A run of ticketing on the sample core: a date is drafted, scheduled, given three seats and a
  price, and its prices are locked; one purchase is placed and paid, and a second one holds the two
  seats left. The witnesses of the properties of reachable states use it.
\<close>

definition committed :: "('a \<times> db) result \<Rightarrow> db result" where
  "committed r = bindE r (\<lambda>(_, db). Inr db)"

lemma committed_Inr [result_simps]: "committed r = Inr db \<longleftrightarrow> (\<exists>x. r = Inr (x, db))"
  by (auto simp: committed_def bindE_eq_Inr)

definition sample_draws :: "string \<Rightarrow> int \<Rightarrow> draws" where
  "sample_draws n i = \<lparr>dw_order_id = ''o'' @ n, dw_hold_id = ''h'' @ n, dw_sequence = i,
     dw_refund_id = ''r'' @ n, dw_seat_ids = [''s'' @ n], dw_code_rounds = [[''c'' @ n]],
     dw_key_lock_timeout = False\<rparr>"

definition sample_purchase :: "string \<Rightarrow> int \<Rightarrow> purchase_command" where
  "sample_purchase n q = \<lparr>pcm_date_id = ''d'', pcm_tier = Tier_Full, pcm_quantity = q,
     pcm_expected_total = \<lparr>amount_minor = 1500 * q, currency_code = ''EUR''\<rparr>,
     pcm_declared_tax_location = None, pcm_account_id = ''a'' @ n, pcm_profile_id = None,
     pcm_binding = \<lparr>ib_account_id = Some (''a'' @ n), ib_key = ''k'' @ n, ib_fingerprint = ''f''\<rparr>,
     pcm_traceparent = None, pcm_late_entry_acknowledged = False\<rparr>"

definition sample_intent :: payment_intent where
  "sample_intent = \<lparr>in_ref = ''pi'', in_status = Intent_Succeeded, in_client_secret = None,
     in_next_action = None, in_decline_code = None\<rparr>"

definition sample_price :: price_tier_column where
  "sample_price = \<lparr>ptc_tier = Tier_Full, ptc_amount_minor = 1500, ptc_currency_code = ''EUR'',
     ptc_active = True\<rparr>"

definition sample_opening :: "core \<Rightarrow> (db \<Rightarrow> db result) list" where
  "sample_opening c =
     [\<lambda>db. committed (apply_catalog_date_fact c ''m1'' (Drafted ''d'' ''ch'' 0) None 0 db db),
      \<lambda>db. committed (apply_catalog_date_fact c ''m2'' (Start_Fact ''d'' 100000000 1) None 1 db db),
      \<lambda>db. committed (open_capacity_tier_in c ''t1'' ''d'' 2 3 False None 2 db),
      \<lambda>db. committed (set_date_prices_in c ''d'' 3 [sample_price] None 3 db),
      \<lambda>db. committed (apply_catalog_date_fact c ''m3'' (Lock_Fact ''d'' 4) None 4 db db)]"

definition sample_sales :: "core \<Rightarrow> (db \<Rightarrow> db result) list" where
  "sample_sales c =
     [\<lambda>db. committed (place_in c ''x'' (sample_draws ''1'' 1) db 5 (sample_purchase ''1'' 1) db),
      \<lambda>db. committed (record_intent_in c ''x'' (sample_draws ''1'' 1) db db 6 ''o1'' sample_intent None db),
      \<lambda>db. committed (place_in c ''x'' (sample_draws ''2'' 2) db 7 (sample_purchase ''2'' 2) db)]"

definition run_all :: "(db \<Rightarrow> db result) list \<Rightarrow> db \<Rightarrow> db result" where
  "run_all = foldE (\<lambda>t. t)"

lemma run_all_steps:
  assumes "run_all ts db = Inr db'" and "\<And>t a b. t \<in> set ts \<Longrightarrow> t a = Inr b \<Longrightarrow> ticketing_step c a b"
  shows "(ticketing_step c)\<^sup>*\<^sup>* db db'"
  using assms(1) unfolding run_all_def
  by (rule foldE_invariant [where P = "(ticketing_step c)\<^sup>*\<^sup>* db"])
    (auto intro: rtranclp.rtrancl_into_rtrancl assms(2))

lemma sample_steps:
  "t \<in> set (sample_opening c @ sample_sales c) \<Longrightarrow> t a = Inr b \<Longrightarrow> ticketing_step c a b"
  unfolding sample_opening_def sample_sales_def
  by (auto simp: committed_Inr intro: ticketing_step.fact_learnt ticketing_step.tier_opened
      ticketing_step.prices_set ticketing_step.purchase_placed ticketing_step.intent_recorded)

lemma sample_run_reaches:
  "run_all (sample_opening c @ sample_sales c) empty_db = Inr db \<Longrightarrow> (ticketing_step c)\<^sup>*\<^sup>* empty_db db"
  by (erule run_all_steps) (rule sample_steps)

text \<open>What the run leaves: one seat sold, two held, none free.\<close>

lemma sample_run_result:
  "case run_all (sample_opening sample_core @ sample_sales sample_core) empty_db of
     Inl _ \<Rightarrow> False
   | Inr db \<Rightarrow> map dr_seats_available (db_sales db) = [0] \<and> map dr_seats_sold (db_sales db) = [1] \<and>
       map dr_capacity_total (db_sales db) = [3] \<and> map hr_state (db_holds db) = [Hold_Consumed, Hold_Active] \<and>
       map or_state (db_orders db) = [Order_Paid, Order_Pending] \<and> map sr_seat_code (db_seats db) = [''c1'']"
  by code_simp

lemma sample_run:
  obtains db where "(ticketing_step sample_core)\<^sup>*\<^sup>* empty_db db"
    and "map dr_seats_available (db_sales db) = [0]" and "map dr_seats_sold (db_sales db) = [1]"
    and "map dr_capacity_total (db_sales db) = [3]"
    and "map hr_state (db_holds db) = [Hold_Consumed, Hold_Active]"
    and "map or_state (db_orders db) = [Order_Paid, Order_Pending]"
    and "map sr_seat_code (db_seats db) = [''c1'']"
  using sample_run_result sample_run_reaches [of sample_core] by (auto split: sum.splits)

lemma sample_core_laws:
  "hold_laws (checkout_rules sample_core)" "money_of_laws (sales_rules sample_core)"
  "money_laws (order_rules sample_core)" "forward_laws (order_rules sample_core)"
  "seat_move_laws (order_rules sample_core)" "window_laws (waitlist_rules sample_core)"
  "time_laws (sales_rules sample_core)" "share_laws (refund_rules sample_core)"
  by (simp_all add: sample_core_def sample_hold_laws sample_money_of_laws sample_money_laws
      sample_forward_laws sample_seat_move_laws sample_window_laws sample_time_laws sample_share_laws)

end
