(* ===== verification/Order_Frames.thy ===== *)
theory Order_Frames
  imports Payments
begin

text \<open>
  What the transactions of a purchase and of a payment leave alone. They write the date's row, the
  holds, the seats, the refunds, the outbox and the columns of an order that a save may move; a view
  of the tables that none of these writes changes is the same after any of them. The views of
  interest are the inbox of webhooks and the keys the orders are bound to.
\<close>

section \<open>Views\<close>

definition order_binding :: "seat_order_row \<Rightarrow> ident \<times> ident option \<times> ident \<times> string" where
  "order_binding r = (or_id r, or_account_id r, or_idempotency_key r, or_fingerprint r)"

lemma fold_keeps: "(\<And>r db. g (h r db) = g db) \<Longrightarrow> g (fold h rs db) = g db"
  by (induction rs arbitrary: db) auto

text \<open>The counter moves a transaction leaves for its end.\<close>

definition moves_seats :: "counter_move option \<Rightarrow> bool" where
  "moves_seats pending \<longleftrightarrow> pending = None \<or> (\<exists>i q. pending = Some (sell_held_seats i q)) \<or>
     (\<exists>i q p now. pending = Some (return_held_seats i q p now))"

lemma moves_seats_intros [simp]:
  "moves_seats None" "moves_seats (Some (sell_held_seats i q))" "moves_seats (Some (return_held_seats i q p now))"
  unfolding moves_seats_def by blast+

locale sales_view =
  fixes view :: "db \<Rightarrow> 'v"
  assumes view_sales: "view (db\<lparr>db_sales := sales\<rparr>) = view db"
begin

lemma sales_update_view: "sales_update p f db = Inr (n, db') \<Longrightarrow> view db' = view db"
  by (auto simp: sales_update_def bindE_eq_Inr view_sales)

lemma seat_moves_view:
  "sell_held_seats i q db = Inr db1 \<Longrightarrow> view db1 = view db"
  "return_held_seats i q p now db = Inr db2 \<Longrightarrow> view db2 = view db"
  "take_and_sell_seats i q now b db = Inr (x, db3) \<Longrightarrow> view db3 = view db"
  "take_seats u q now db = Inr (y, u', db4) \<Longrightarrow> view db4 = view db"
  by (auto simp: sell_held_seats_def return_held_seats_def take_and_sell_seats_def take_seats_def Let_def
      bindE_eq_Inr split: if_splits dest: sales_update_view)

lemma run_counter_move_view: "run_counter_move pending db = Inr db' \<Longrightarrow> moves_seats pending \<Longrightarrow> view db' = view db"
  by (auto simp: moves_seats_def run_counter_move_def dest: seat_moves_view)

end

locale order_view = sales_view view for view :: "db \<Rightarrow> 'v" +
  assumes view_holds: "view (db\<lparr>db_holds := holds\<rparr>) = view db"
    and view_seats: "view (db\<lparr>db_seats := seats\<rparr>) = view db"
    and view_refunds: "view (db\<lparr>db_refunds := refunds\<rparr>) = view db"
    and view_outbox: "view (db\<lparr>db_outbox := outbox\<rparr>) = view db"
    and view_orders: "(\<And>r. order_binding (f r) = order_binding r) \<Longrightarrow>
      view (db\<lparr>db_orders := tbl_update p f (db_orders db)\<rparr>) = view db"
begin

lemmas writes = view_sales view_holds view_seats view_refunds view_outbox

lemma take_from_pool_view:
  assumes "take_seats_from_pool u i q now db = Inr (y, u', db')"
  shows "view db' = view db"
  using assms
  by (auto simp: take_seats_from_pool_def Let_def bindE_eq_Inr writes split: option.splits if_splits
      dest!: sales_update_view)

lemma take_seats_for_view: "take_seats_for b u i q now db = Inr (y, u', db') \<Longrightarrow> view db' = view db"
  by (auto simp: take_seats_for_def split: if_splits dest: take_from_pool_view seat_moves_view(4))

lemma write_outbox_view: "view (write_outbox rows db) = view db"
  by (simp add: write_outbox_def writes)

lemma save_hold_view: "save_hold t db = Inr (t', db') \<Longrightarrow> view db' = view db"
  by (auto simp: save_hold_def Let_def bindE_eq_Inr writes)

lemma ended_hold_view:
  "release_hold_in now h db = Inr (s, db1) \<Longrightarrow> view db1 = view db"
  "consume_hold_in now h db = Inr (s, db2) \<Longrightarrow> view db2 = view db"
  by (auto simp: release_hold_in_def consume_hold_in_def bindE_eq_Inr dest: save_hold_view)

lemma insert_refund_view: "insert_refund i r db = Inr db' \<Longrightarrow> view db' = view db"
  by (auto simp: insert_refund_def Let_def writes split: if_splits option.splits)

lemma save_refunds_view:
  assumes "save_refunds before s db = Inr db'"
  shows "view db' = view db"
proof -
  obtain rs h db1 where first: "foldE (insert_refund (so_id s)) rs db = Inr db1"
    and db': "db' = fold h (so_refunds s) db1" and h: "\<And>r x. view (h r x) = view x"
    using assms unfolding save_refunds_def Let_def bindE_eq_Inr
    by (elim exE conjE) (rule that, assumption, erule Inr_inject [symmetric],
        simp add: writes split: option.splits)
  have "view db' = view db1" unfolding db' by (rule fold_keeps) (rule h)
  also have "\<dots> = view db" using first
    by (rule foldE_invariant [where P = "\<lambda>x. view x = view db"]) (auto dest: insert_refund_view)
  finally show ?thesis .
qed

lemma save_moved_seats_view:
  assumes "save_moved_seats before s db = Inr db'"
  shows "view db' = view db"
  using assms unfolding save_moved_seats_def
  by (rule foldE_invariant [where P = "\<lambda>x. view x = view db"])
    (auto simp: bindE_eq_Inr writes split: option.splits if_splits)

lemma order_columns_binding: "order_binding (order_state_columns_of s r) = order_binding r"
  by (simp add: order_binding_def order_state_columns_of_def)

lemma save_order_view:
  assumes "save_order t db = Inr (t', db')"
  shows "view db' = view db"
proof -
  obtain v orders seats b db1 where
    orders: "save_versioned (\<lambda>r. or_id r = so_id (current (root t))) or_version v
      (order_state_columns_of (current (root t))) (db_orders db) = Inr orders"
    and refunds: "save_refunds b (current (root t)) (db\<lparr>db_orders := orders, db_seats := seats\<rparr>) = Inr db1"
    and moved: "save_moved_seats b (current (root t)) db1 = Inr db'"
    using assms by (auto simp: save_order_def Let_def bindE_eq_Inr split: option.splits)
  obtain p where "orders = tbl_update p (order_state_columns_of (current (root t))) (db_orders db)"
    using orders by (auto simp: save_versioned_def Let_def split: if_splits option.splits)
  then have "view (db\<lparr>db_orders := orders, db_seats := seats\<rparr>) = view db"
    using view_orders [of "order_state_columns_of (current (root t))", OF order_columns_binding]
    by (simp add: writes)
  with save_moved_seats_view [OF moved] save_refunds_view [OF refunds] show ?thesis by simp
qed

lemma save_resumed_view: "save_resumed c tp t db = Inr (t', db') \<Longrightarrow> view db' = view db"
  by (auto simp: save_resumed_def bindE_eq_Inr write_outbox_view dest: save_order_view)

lemma owe_payment_back_view:
  "owe_payment_back c d o' i now tp t db = Inr (t', db') \<Longrightarrow> view db' = view db"
  by (auto simp: owe_payment_back_def record_refund_traceparent_def Let_def bindE_eq_Inr writes
      split: prod.splits option.splits if_splits dest: save_order_view)

lemma settle_confirmed_payment_view:
  assumes "settle_confirmed_payment c d seen again i now tp t db = Inr (pending, t', db')"
  shows "moves_seats pending \<and> view db' = view db"
  using assms
  by (auto simp: settle_confirmed_payment_def Let_def bindE_eq_Inr
      split: if_splits option.splits
      dest!: owe_payment_back_view ended_hold_view seat_moves_view(3))

lemma fail_unpaid_order_view:
  assumes "fail_unpaid_order f now t db = Inr (pending, t', db')"
  shows "moves_seats pending \<and> view db' = view db"
  using assms
  by (auto simp: fail_unpaid_order_def bindE_eq_Inr
      split: prod.splits bool.splits option.splits dest!: ended_hold_view)

lemma owe_intent_cancellation_again_view: "view (owe_intent_cancellation_again i db) = view db"
  unfolding owe_intent_cancellation_again_def by (rule view_orders) (simp add: order_binding_def)

lemma record_waiting_intent_view:
  "record_waiting_intent c i st now t db = (t', db') \<Longrightarrow> view db' = view db"
  by (auto simp: record_waiting_intent_def owe_intent_cancellation_again_view split: prod.splits)

lemma apply_intent_view:
  assumes "apply_intent c d seen again now intent tp t db = Inr (pending, t', db')"
  shows "moves_seats pending \<and> view db' = view db"
  using assms
  by (cases "in_status intent")
    (auto simp: apply_intent_def Let_def split: prod.splits
      dest!: settle_confirmed_payment_view fail_unpaid_order_view record_waiting_intent_view)

lemma apply_to_view:
  assumes "apply_to c d seen again row now t db = Inr (pending, t', db')"
  shows "moves_seats pending \<and> view db' = view db"
  using assms
  by (cases "ir_kind row")
    (auto simp: apply_to_def Let_def apply_dispute_def rerun_refunds_reported_def ask_refund_calls_again_def
      refunds_update_def bindE_eq_Inr writes split: option.splits prod.splits if_splits
      dest!: settle_confirmed_payment_view fail_unpaid_order_view record_waiting_intent_view)

lemma store_answer_view: "store_answer i a db = (b, db') \<Longrightarrow> view db' = view db"
  unfolding store_answer_def Let_def using view_orders [of "\<lambda>r. r\<lparr>or_answer := Some a\<rparr>"]
  by (auto simp: order_binding_def)

lemma answer_of_view: "answer_of c origin seen now s db = Inr (x, db') \<Longrightarrow> view db' = view db"
  by (auto simp: answer_of_def kept_def split: if_splits option.splits prod.splits bool.splits
      dest: store_answer_view)

lemma record_intent_in_view:
  assumes "record_intent_in c origin d seen again now i intent tp db = Inr (x, db')"
  shows "view db' = view db"
  using assms
  by (auto simp: record_intent_in_def bindE_eq_Inr
      dest!: apply_intent_view save_resumed_view answer_of_view run_counter_move_view)

lemma release_hold_of_view: "release_hold_of c now i db = Inr (x, db') \<Longrightarrow> view db' = view db"
  by (auto simp: release_hold_of_def Let_def bindE_eq_Inr split: if_splits option.splits
      dest!: ended_hold_view seat_moves_view(2))

lemma renew_hold_in_view:
  assumes "renew_hold_in c d seen sales now t db = Inr (takes, t', db')"
  shows "view db' = view db \<and>
    (\<forall>move db1 y u db2. takes = Some move \<longrightarrow> move db1 = Inr (y, u, db2) \<longrightarrow> view db2 = view db1)"
  using assms
  by (auto simp: renew_hold_in_def Let_def bindE_eq_Inr split: option.splits if_splits
      dest: save_hold_view take_seats_for_view)

lemma resume_in_view:
  assumes "resume_in c origin d seen now i tp b db = Inr (x, db')"
  shows "view db' = view db"
  using assms
  by (auto simp: resume_in_def Let_def bindE_eq_Inr
      split: option.splits if_splits prod.splits bool.splits
      dest!: answer_of_view save_resumed_view renew_hold_in_view)

lemma fail_sold_out_in_view:
  "fail_sold_out_in c origin seen now i h tp db = Inr (x, db') \<Longrightarrow> view db' = view db"
  by (auto simp: fail_sold_out_in_def Let_def bindE_eq_Inr split: if_splits
      dest!: answer_of_view save_resumed_view)

end

interpretation orders: sales_view db_orders
  by unfold_locales simp

interpretation inbox: order_view db_inbox
  by unfold_locales simp_all

interpretation bindings: order_view "\<lambda>db. map order_binding (db_orders db)"
  by unfold_locales (simp_all add: map_tbl_update_same)

end
