(* ===== verification/Payment_Inbox.thy ===== *)
theory Payment_Inbox
  imports Order_Frames
begin

text \<open>
  What the inbox of webhooks promises (\<open>payments/record-payment-event.handler.ts\<close>,
  \<open>payments/apply-payment-events.handler.ts\<close>): an event is recorded once under its id, applied once,
  and given up on after the attempts its schedule allows.

  A transaction of the worker moves many tables; what it does to an order leaves the inbox alone
  (the interpretation \<open>inbox\<close> of \<open>Order_Frames\<close>), so the inbox moves by the worker's own marks.
\<close>

section \<open>The inbox\<close>

text \<open>The transaction of an event applied marks it and leaves the other rows.\<close>

lemma apply_in_inbox:
  assumes "apply_in c d seen again locked now event_id db = Inr (done, db')"
  shows "db_inbox db' = (if done then tbl_update (\<lambda>r. ir_event_id r = event_id)
      (\<lambda>r. r\<lparr>ir_applied_at := Some now\<rparr>) (db_inbox db) else db_inbox db)"
    and "done = list_ex (\<lambda>r. ir_event_id r = event_id \<and> inbox_due r \<and> \<not> locked) (db_inbox db)"
proof -
  note defs = apply_in_def mark_applied_def inbox_update_def write_outbox_def bindE_eq_Inr
  show "db_inbox db' = (if done then tbl_update (\<lambda>r. ir_event_id r = event_id)
      (\<lambda>r. r\<lparr>ir_applied_at := Some now\<rparr>) (db_inbox db) else db_inbox db)"
    using assms
    by (auto simp: defs split: option.splits bool.splits prod.splits
        dest!: inbox.apply_to_view inbox.save_order_view inbox.run_counter_move_view)
  show "done = list_ex (\<lambda>r. ir_event_id r = event_id \<and> inbox_due r \<and> \<not> locked) (db_inbox db)"
    using assms
    by (auto simp: defs find_None_iff find_Some_iff list_ex_iff split: option.splits bool.splits prod.splits)
qed

text \<open>The transactions of the inbox, among any others, which leave it alone.\<close>

inductive inbox_step :: "core \<Rightarrow> db \<Rightarrow> db \<Rightarrow> bool" for c :: core where
  recorded: "record_payment_event w raw_body signature tp now db = Inr (x, db') \<Longrightarrow> inbox_step c db db'"
| attempted: "apply_payment_event c d random seen again lk now event_id db = (x, db') \<Longrightarrow> inbox_step c db db'"
| elsewhere: "db_inbox db' = db_inbox db \<Longrightarrow> inbox_step c db db'"

inductive_cases inbox_stepE: "inbox_step c db db'"

lemma record_payment_event_inbox:
  assumes "record_payment_event w raw_body signature tp now db = Inr (x, db')"
  shows "db_inbox db' = db_inbox db \<or>
    (\<exists>e. db_inbox db' = db_inbox db @ [inbox_row_of e tp now] \<and> pe_event_id e \<notin> ir_event_id ` set (db_inbox db))"
  using assms by (auto simp: record_payment_event_def split: if_splits option.splits)

text \<open>An attempt that failed: one more, and due again later or given up on.\<close>

definition attempt_failed :: "instant option \<Rightarrow> instant \<Rightarrow> inbox_row \<Rightarrow> inbox_row" where
  "attempt_failed retry_at now r =
     (case retry_at of
        None \<Rightarrow> r\<lparr>ir_attempts := ir_attempts r + 1, ir_dead_at := Some now, ir_retry_at := None\<rparr>
      | Some at \<Rightarrow> r\<lparr>ir_attempts := ir_attempts r + 1, ir_retry_at := Some at\<rparr>)"

definition retry_at_of :: "int \<Rightarrow> instant \<Rightarrow> failure \<Rightarrow> inbox_row \<Rightarrow> instant option" where
  "retry_at_of random now e r =
     (if unappliable e then None
      else next_attempt_at random (int (ir_attempts r) + 1) now RETRY_DELAYS_MS)"

lemma tbl_update_twice:
  "(\<And>r. p r \<Longrightarrow> p (f r)) \<Longrightarrow> tbl_update p g (tbl_update p f t) = tbl_update p (g \<circ> f) t"
  by (auto simp: tbl_update_def)

lemma event_failed_inbox:
  assumes "distinct (map ir_event_id (db_inbox db))" and "r \<in> set (db_inbox db)"
  shows "db_inbox (snd (event_failed random now (ir_event_id r) e db)) =
      tbl_update (\<lambda>x. ir_event_id x = ir_event_id r) (attempt_failed (retry_at_of random now e r) now) (db_inbox db)"
    and "fst (event_failed random now (ir_event_id r) e db) \<longleftrightarrow> retry_at_of random now e r = None"
proof -
  let ?p = "\<lambda>x. ir_event_id x = ir_event_id r"
  have "find ?p (tbl_update ?p (\<lambda>x. x\<lparr>ir_attempts := ir_attempts x + 1\<rparr>) (db_inbox db)) =
      map_option (\<lambda>x. if ?p x then x\<lparr>ir_attempts := ir_attempts x + 1\<rparr> else x) (find ?p (db_inbox db))"
    using tbl_find_tbl_update [of ?p ir_event_id "\<lambda>x. x\<lparr>ir_attempts := ir_attempts x + 1\<rparr>"]
    by (simp add: tbl_find_def)
  moreover have "find ?p (db_inbox db) = Some r"
    using tbl_find_unique [OF assms] by (simp add: tbl_find_def)
  ultimately have found: "find ?p (db_inbox (inbox_update ?p (\<lambda>x. x\<lparr>ir_attempts := ir_attempts x + 1\<rparr>) db)) =
      Some (r\<lparr>ir_attempts := ir_attempts r + 1\<rparr>)"
    by (simp add: inbox_update_def)
  have attempts: "int (ir_attempts (r\<lparr>ir_attempts := ir_attempts r + 1\<rparr>)) = int (ir_attempts r) + 1" by simp
  have "event_failed random now (ir_event_id r) e db =
      (case retry_at_of random now e r of
         None \<Rightarrow> (True, inbox_update ?p (\<lambda>r. r\<lparr>ir_dead_at := Some now, ir_retry_at := None\<rparr>)
             (inbox_update ?p (\<lambda>r. r\<lparr>ir_attempts := ir_attempts r + 1\<rparr>) db))
       | Some at \<Rightarrow> (False, inbox_update ?p (\<lambda>r. r\<lparr>ir_retry_at := Some at\<rparr>)
             (inbox_update ?p (\<lambda>r. r\<lparr>ir_attempts := ir_attempts r + 1\<rparr>) db)))"
    unfolding event_failed_def Let_def retry_at_of_def found option.case attempts ..
  then show "db_inbox (snd (event_failed random now (ir_event_id r) e db)) =
      tbl_update ?p (attempt_failed (retry_at_of random now e r) now) (db_inbox db)"
    and "fst (event_failed random now (ir_event_id r) e db) \<longleftrightarrow> retry_at_of random now e r = None"
    by (auto simp: inbox_update_def tbl_update_twice attempt_failed_def [abs_def] comp_def split: option.splits)
qed

lemma next_attempt_None: "next_attempt_at random (int n + 1) now RETRY_DELAYS_MS = None \<longleftrightarrow> 3 \<le> n"
  by (auto simp: next_attempt_at_def retry_delay_after_def js_index_def RETRY_DELAYS_MS_def nth_Cons'
      split: option.splits if_splits)

text \<open>What one attempt at an event does to the inbox.\<close>

lemma attempt_inbox:
  assumes "apply_payment_event c d random seen again lk now event_id db = (x, db')"
    and "distinct (map ir_event_id (db_inbox db))"
  obtains (idle) "db' = db" "\<not> x" "lk \<or> \<not> list_ex (\<lambda>r. ir_event_id r = event_id \<and> inbox_due r) (db_inbox db)"
  | (applied) r where "r \<in> set (db_inbox db)" "ir_event_id r = event_id" "inbox_due r"
      "db_inbox db' = tbl_update (\<lambda>y. ir_event_id y = event_id) (\<lambda>y. y\<lparr>ir_applied_at := Some now\<rparr>) (db_inbox db)"
  | (failed) r e where "r \<in> set (db_inbox db)" "ir_event_id r = event_id" "inbox_due r"
      "db_inbox db' = tbl_update (\<lambda>y. ir_event_id y = event_id)
         (attempt_failed (retry_at_of random now e r) now) (db_inbox db)"
proof (cases "apply_in c d seen again lk now event_id db")
  case (Inl e)
  then obtain r where r: "r \<in> set (db_inbox db)" "ir_event_id r = event_id" "inbox_due r"
  proof (cases "find (\<lambda>r. ir_event_id r = event_id \<and> inbox_due r \<and> \<not> lk) (db_inbox db)")
    case None
    with Inl show thesis by (simp add: apply_in_def)
  next
    case (Some r)
    then show thesis by (intro that [of r]) (auto simp: find_Some_iff)
  qed
  have "db' = snd (event_failed random now event_id e db)"
    using assms(1) Inl by (auto simp: apply_payment_event_def split: prod.splits)
  with r event_failed_inbox(1) [OF assms(2) r(1), of random now e] show thesis by (intro failed [of r e]) auto
next
  case (Inr y)
  then have y: "apply_in c d seen again lk now event_id db = Inr (x, db')"
    using assms(1) by (auto simp: apply_payment_event_def split: prod.splits)
  show thesis
  proof (cases x)
    case True
    with apply_in_inbox [OF y] obtain r where "r \<in> set (db_inbox db)" "ir_event_id r = event_id" "inbox_due r"
      by (auto simp: list_ex_iff)
    with apply_in_inbox(1) [OF y] True show thesis by (intro applied) auto
  next
    case False
    with apply_in_inbox(2) [OF y] have none: "\<not> list_ex (\<lambda>r. ir_event_id r = event_id \<and> inbox_due r \<and> \<not> lk) (db_inbox db)"
      by simp
    then have "find (\<lambda>r. ir_event_id r = event_id \<and> inbox_due r \<and> \<not> lk) (db_inbox db) = None"
      by (auto simp: find_None_iff list_ex_iff)
    with y have "db' = db" by (simp add: apply_in_def)
    with False none show thesis by (intro idle) (auto simp: list_ex_iff)
  qed
qed

section \<open>Applied once\<close>

definition event_applied :: "string \<Rightarrow> db \<Rightarrow> bool" where
  "event_applied event_id db \<longleftrightarrow> event_id \<in> ir_event_id ` set (db_inbox db) \<and>
     (\<forall>r \<in> set (db_inbox db). ir_event_id r = event_id \<longrightarrow> ir_applied_at r \<noteq> None)"

definition inbox_keyed :: "db \<Rightarrow> bool" where
  "inbox_keyed db \<longleftrightarrow> distinct (map ir_event_id (db_inbox db))"

lemma attempt_failed_simps [simp]:
  "ir_event_id (attempt_failed a now r) = ir_event_id r"
  "ir_applied_at (attempt_failed a now r) = ir_applied_at r"
  "ir_attempts (attempt_failed a now r) = ir_attempts r + 1"
  "ir_dead_at (attempt_failed a now r) = (if a = None then Some now else ir_dead_at r)"
  by (simp_all add: attempt_failed_def split: option.splits)

lemma inbox_row_of_simps [simp]:
  "ir_event_id (inbox_row_of e tp now) = pe_event_id e" "ir_applied_at (inbox_row_of e tp now) = None"
  "ir_attempts (inbox_row_of e tp now) = 0" "ir_dead_at (inbox_row_of e tp now) = None"
  by (simp_all add: inbox_row_of_def)

lemma inbox_keyed_step: "inbox_step c db db' \<Longrightarrow> inbox_keyed db \<Longrightarrow> inbox_keyed db'"
proof (erule inbox_stepE)
  fix w raw_body signature tp now x
  assume "record_payment_event w raw_body signature tp now db = Inr (x, db')" and "inbox_keyed db"
  then show "inbox_keyed db'" using record_payment_event_inbox by (fastforce simp: inbox_keyed_def)
next
  fix d random seen again lk now event_id x
  assume run: "apply_payment_event c d random seen again lk now event_id db = (x, db')" and keyed: "inbox_keyed db"
  from run keyed [unfolded inbox_keyed_def] show "inbox_keyed db'"
    by (cases rule: attempt_inbox) (use keyed in \<open>simp_all add: inbox_keyed_def map_tbl_update_same\<close>)
qed (simp add: inbox_keyed_def)

lemma tbl_update_keys:
  "(\<And>r. p r \<Longrightarrow> key (f r) = key r) \<Longrightarrow> key ` set (tbl_update p f t) = key ` set t"
  using map_tbl_update_same [of p key f t] by (metis set_map)

lemma event_applied_update:
  assumes "event_applied i db" and "db_inbox db' = tbl_update p f (db_inbox db)"
    and "\<And>r. p r \<Longrightarrow> ir_event_id (f r) = ir_event_id r"
    and "\<And>r. p r \<Longrightarrow> ir_applied_at r \<noteq> None \<Longrightarrow> ir_applied_at (f r) \<noteq> None"
  shows "event_applied i db'"
proof -
  have "i \<in> ir_event_id ` set (db_inbox db')"
    unfolding assms(2) using assms(1,3) by (simp add: tbl_update_keys event_applied_def)
  with assms show ?thesis by (auto simp: event_applied_def table_simps)
qed

lemma event_applied_step:
  assumes "inbox_step c db db'" and "inbox_keyed db" and "event_applied event_id db"
  shows "event_applied event_id db'"
  using assms(1)
proof (rule inbox_stepE)
  fix w raw_body signature tp now x
  assume "record_payment_event w raw_body signature tp now db = Inr (x, db')"
  from record_payment_event_inbox [OF this] assms(3) show ?thesis by (auto simp: event_applied_def)
next
  fix d random seen again lk now event_id' x
  assume run: "apply_payment_event c d random seen again lk now event_id' db = (x, db')"
  from run assms(2) [unfolded inbox_keyed_def] show ?thesis
    by (cases rule: attempt_inbox) (use assms(3) in \<open>auto elim!: event_applied_update\<close>)
qed (use assms(3) in \<open>simp add: event_applied_def\<close>)

lemma inbox_keyed_run: "(inbox_step c)\<^sup>*\<^sup>* db db' \<Longrightarrow> inbox_keyed db \<Longrightarrow> inbox_keyed db'"
  by (induction rule: rtranclp_induct) (auto intro: inbox_keyed_step)

lemma event_applied_run:
  "(inbox_step c)\<^sup>*\<^sup>* db db' \<Longrightarrow> inbox_keyed db \<Longrightarrow> event_applied i db \<Longrightarrow> event_applied i db'"
  by (induction rule: rtranclp_induct) (auto intro: event_applied_step inbox_keyed_run)

lemma inbox_keyed_empty: "inbox_keyed empty_db"
  by (simp add: inbox_keyed_def empty_db_def)

text \<open>
  Property C5. A payment event moves an order once: whatever the provider delivers and the workers
  attempt after the transaction that applied an event, delivered again it is answered as a duplicate
  and nothing is recorded, and attempted again by any worker it moves nothing.
\<close>

theorem webhook_applied_once:
  assumes "(inbox_step c)\<^sup>*\<^sup>* empty_db db"
    and "apply_in c d seen again locked now event_id db = Inr (True, db1)"
    and "(inbox_step c)\<^sup>*\<^sup>* db1 db2"
    and "verify_signature w raw_body signature at" and "parse_event w raw_body = Some e"
    and "pe_event_id e = event_id"
  shows "record_payment_event w raw_body signature tp at db2 =
      Inr (\<lparr>rcp_event_id = event_id, rcp_duplicate = True\<rparr>, db2) \<and>
    apply_payment_event c d2 random seen2 again2 locked2 now2 event_id db2 = (False, db2)"
proof -
  have step: "inbox_step c db db1"
    by (rule attempted [of c d 0 seen again locked now event_id db True])
      (simp add: apply_payment_event_def assms(2))
  have keyed: "inbox_keyed db" by (rule inbox_keyed_run [OF assms(1) inbox_keyed_empty])
  have "db_inbox db1 = tbl_update (\<lambda>r. ir_event_id r = event_id) (\<lambda>r. r\<lparr>ir_applied_at := Some now\<rparr>) (db_inbox db)"
    "event_id \<in> ir_event_id ` set (db_inbox db)"
    using apply_in_inbox [OF assms(2)] by (auto simp: list_ex_iff)
  then have "event_applied event_id db1"
    by (auto simp: event_applied_def tbl_update_keys) (auto simp: table_simps)
  then have "event_applied event_id db2"
    by (rule event_applied_run [OF assms(3) inbox_keyed_step [OF step keyed]])
  moreover from this have
    "find (\<lambda>r. ir_event_id r = event_id \<and> inbox_due r \<and> \<not> locked2) (db_inbox db2) = None"
    by (auto simp: event_applied_def inbox_due_def find_None_iff)
  ultimately show ?thesis using assms(4-6)
    by (auto simp: event_applied_def record_payment_event_def apply_payment_event_def apply_in_def)
qed

definition sample_event :: payment_event where
  "sample_event = \<lparr>pe_event_id = ''evt'', pe_kind = Event_Unhandled, pe_intent_ref = None, pe_order_id = None,
     pe_decline_code = None, pe_occurred_at = 0, pe_refund_ref = None, pe_amount_refunded = None\<rparr>"

definition sample_webhooks :: "payment_event \<Rightarrow> webhook_port" where
  "sample_webhooks e = \<lparr>verify_signature = (\<lambda>_ s _. s \<noteq> None), parse_event = (\<lambda>_. Some e)\<rparr>"

definition sample_drawn :: draws where
  "sample_drawn = \<lparr>dw_order_id = ''o'', dw_hold_id = ''h'', dw_sequence = 1, dw_refund_id = ''r'', dw_seat_ids = [],
     dw_code_rounds = [], dw_key_lock_timeout = False\<rparr>"

lemma sample_inbox_run:
  assumes "record_payment_event (sample_webhooks e) ''body'' (Some ''sig'') None 5 empty_db = Inr (x, db)"
  shows "(inbox_step c)\<^sup>*\<^sup>* empty_db db"
  using recorded [OF assms, of c] by simp

theorem webhook_applied_once_witness:
  "\<exists>db1. apply_in sample_core sample_drawn empty_db empty_db False 6 ''evt''
        (empty_db\<lparr>db_inbox := [inbox_row_of sample_event None 5]\<rparr>) = Inr (True, db1) \<and>
     record_payment_event (sample_webhooks sample_event) ''body'' (Some ''sig'') None 7 db1 =
       Inr (\<lparr>rcp_event_id = ''evt'', rcp_duplicate = True\<rparr>, db1) \<and>
     apply_payment_event sample_core sample_drawn 0 empty_db empty_db False 8 ''evt'' db1 = (False, db1)"
proof -
  let ?db = "empty_db\<lparr>db_inbox := [inbox_row_of sample_event None 5]\<rparr>"
  let ?w = "sample_webhooks sample_event"
  have "record_payment_event ?w ''body'' (Some ''sig'') None 5 empty_db =
      Inr (\<lparr>rcp_event_id = ''evt'', rcp_duplicate = False\<rparr>, ?db)"
    by (simp add: record_payment_event_def sample_webhooks_def sample_event_def empty_db_def)
  then have run: "(inbox_step sample_core)\<^sup>*\<^sup>* empty_db ?db" by (rule sample_inbox_run)
  have "case apply_in sample_core sample_drawn empty_db empty_db False 6 ''evt'' ?db of
      Inl _ \<Rightarrow> False | Inr a \<Rightarrow> fst a"
    by code_simp
  then obtain db1 where first: "apply_in sample_core sample_drawn empty_db empty_db False 6 ''evt'' ?db = Inr (True, db1)"
    by (auto elim!: case_InrE)
  have "verify_signature ?w ''body'' (Some ''sig'') 7" "parse_event ?w ''body'' = Some sample_event"
    "pe_event_id sample_event = ''evt''"
    by (simp_all add: sample_webhooks_def sample_event_def)
  from webhook_applied_once [OF run first rtranclp.rtrancl_refl this] first show ?thesis by blast
qed

section \<open>Given up in time\<close>

definition attempts_left_of :: "inbox_row \<Rightarrow> nat" where
  "attempts_left_of r = (if inbox_due r then 4 - ir_attempts r else 0)"

definition attempts_left :: "db \<Rightarrow> nat" where
  "attempts_left db = sum_list (map attempts_left_of (db_inbox db))"

definition inbox_bounded :: "db \<Rightarrow> bool" where
  "inbox_bounded db \<longleftrightarrow> (\<forall>r \<in> set (db_inbox db). ir_attempts r \<le> 4 \<and> (inbox_due r \<longrightarrow> ir_attempts r \<le> 3))"

lemma attempts_left_bound: "attempts_left db \<le> 4 * length (db_inbox db)"
proof -
  have "sum_list (map attempts_left_of rs) \<le> 4 * length rs" for rs
    by (induction rs) (auto simp: attempts_left_of_def)
  then show ?thesis by (simp add: attempts_left_def)
qed

text \<open>An attempt that fails a third time leaves one more; the one after is the last.\<close>

lemma attempt_failed_bounded:
  assumes "ir_attempts r \<le> 3" and "inbox_due r"
  shows "attempts_left_of (attempt_failed (retry_at_of random now e r) now r) < attempts_left_of r"
    and "ir_attempts (attempt_failed (retry_at_of random now e r) now r) \<le> 4"
    and "inbox_due (attempt_failed (retry_at_of random now e r) now r) \<Longrightarrow>
      ir_attempts (attempt_failed (retry_at_of random now e r) now r) \<le> 3"
  using assms next_attempt_None [of random "ir_attempts r" now]
  by (auto simp: attempts_left_of_def inbox_due_def retry_at_of_def split: if_splits)

lemma keyed_update_row:
  assumes "distinct (map key t)" and "r \<in> set t"
  shows "x \<in> set (tbl_update (\<lambda>y. key y = key r) f t) \<Longrightarrow> x = f r \<or> x \<in> set t \<and> key x \<noteq> key r"
    and "sum_list (map g (tbl_update (\<lambda>y. key y = key r) f t)) + g r = sum_list (map g t) + (g (f r) :: nat)"
proof -
  have same: "y = r" if "y \<in> set t" "key y = key r" for y
    using tbl_find_unique [OF assms] tbl_find_unique [OF assms(1) that(1)] that(2) by simp
  then show "x \<in> set (tbl_update (\<lambda>y. key y = key r) f t) \<Longrightarrow> x = f r \<or> x \<in> set t \<and> key x \<noteq> key r"
    by (auto simp: table_simps)
  obtain ys zs where t: "t = ys @ r # zs" using split_list [OF assms(2)] by blast
  with assms(1) have "tbl_update (\<lambda>y. key y = key r) f ys = ys" "tbl_update (\<lambda>y. key y = key r) f zs = zs"
    by (auto intro!: tbl_update_none simp: rev_image_eqI)
  then have "tbl_update (\<lambda>y. key y = key r) f t = ys @ f r # zs" by (simp add: t tbl_update_def)
  then show "sum_list (map g (tbl_update (\<lambda>y. key y = key r) f t)) + g r = sum_list (map g t) + g (f r)"
    by (simp add: t)
qed

lemma inbox_bounded_step:
  assumes "inbox_step c db db'" and keyed: "inbox_keyed db" and bounded: "inbox_bounded db"
  shows "inbox_bounded db'"
  using assms(1)
proof (rule inbox_stepE)
  fix w raw_body signature tp now x
  assume "record_payment_event w raw_body signature tp now db = Inr (x, db')"
  from record_payment_event_inbox [OF this] bounded show ?thesis by (auto simp: inbox_bounded_def)
next
  fix d random seen again lk now event_id x
  assume "apply_payment_event c d random seen again lk now event_id db = (x, db')"
  from this keyed [unfolded inbox_keyed_def] show ?thesis
  proof (cases rule: attempt_inbox)
    case idle
    with bounded show ?thesis by simp
  next
    case (applied r)
    with bounded keyed_update_row(1) [OF keyed [unfolded inbox_keyed_def] applied(1)] show ?thesis
      by (fastforce simp: inbox_bounded_def inbox_due_def)
  next
    case (failed r e)
    have "ir_attempts r \<le> 3" using bounded failed by (auto simp: inbox_bounded_def)
    note left = attempt_failed_bounded(2,3) [OF this failed(3), of random now e]
    show ?thesis unfolding inbox_bounded_def
    proof (rule ballI)
      fix y assume "y \<in> set (db_inbox db')"
      with keyed_update_row(1) [OF keyed [unfolded inbox_keyed_def] failed(1)] failed(2,4)
      consider "y = attempt_failed (retry_at_of random now e r) now r" | "y \<in> set (db_inbox db)" by auto
      then show "ir_attempts y \<le> 4 \<and> (inbox_due y \<longrightarrow> ir_attempts y \<le> 3)"
        by cases (use left bounded in \<open>auto simp: inbox_bounded_def\<close>)
    qed
  qed
qed (use bounded in \<open>simp add: inbox_bounded_def\<close>)

lemma inbox_bounded_run:
  "(inbox_step c)\<^sup>*\<^sup>* db db' \<Longrightarrow> inbox_keyed db \<Longrightarrow> inbox_bounded db \<Longrightarrow> inbox_bounded db'"
  by (induction rule: rtranclp_induct) (auto intro: inbox_bounded_step inbox_keyed_run)

text \<open>
  Property C6. No payment event is attempted for ever: in every state the inbox reaches, an event
  still due has failed three times at most, and each attempt at one another worker does not hold
  lowers the attempts left of the whole inbox, which are four per event at most; the attempts left
  run out when every event is applied or given up on.
\<close>

theorem webhook_attempts_end:
  assumes "(inbox_step c)\<^sup>*\<^sup>* empty_db db"
    and "r \<in> set (db_inbox db)" and "inbox_due r"
    and "apply_payment_event c d random seen again False now (ir_event_id r) db = (x, db')"
  shows "ir_attempts r \<le> 3 \<and> attempts_left db' < attempts_left db \<and>
    attempts_left db \<le> 4 * length (db_inbox db)"
proof -
  have keyed: "inbox_keyed db" by (rule inbox_keyed_run [OF assms(1) inbox_keyed_empty])
  have "inbox_bounded db"
    by (rule inbox_bounded_run [OF assms(1) inbox_keyed_empty]) (simp add: inbox_bounded_def empty_db_def)
  with assms(2,3) have r: "ir_attempts r \<le> 3" by (auto simp: inbox_bounded_def)
  note sum = keyed_update_row(2) [OF keyed [unfolded inbox_keyed_def] assms(2), of attempts_left_of]
  from assms(4) keyed [unfolded inbox_keyed_def] have "attempts_left db' < attempts_left db"
  proof (cases rule: attempt_inbox)
    case idle
    with assms(2,3) show ?thesis by (auto simp: list_ex_iff)
  next
    case (applied s)
    with sum [of "\<lambda>y. y\<lparr>ir_applied_at := Some now\<rparr>"] r assms(3) show ?thesis
      by (simp add: attempts_left_def attempts_left_of_def inbox_due_def)
  next
    case (failed s e)
    have "s = r"
      using tbl_find_unique [OF keyed [unfolded inbox_keyed_def] failed(1), unfolded failed(2)]
        tbl_find_unique [OF keyed [unfolded inbox_keyed_def] assms(2)] by simp
    then have "attempts_left db' + attempts_left_of r =
        attempts_left db + attempts_left_of (attempt_failed (retry_at_of random now e r) now r)"
      unfolding attempts_left_def failed(4) by (simp only: sum)
    with attempt_failed_bounded(1) [OF r assms(3), of random now e] show ?thesis by linarith
  qed
  with r attempts_left_bound show ?thesis by blast
qed

text \<open>An event about an order unknown here is given up on at its first attempt.\<close>

theorem webhook_attempts_end_witness:
  "let e = sample_event\<lparr>pe_kind := Event_Intent_Succeeded, pe_order_id := Some ''o''\<rparr>;
       db = empty_db\<lparr>db_inbox := [inbox_row_of e None 5]\<rparr>
   in attempts_left db = 4 \<and>
     attempts_left (snd (apply_payment_event sample_core sample_drawn 0 empty_db empty_db False 6 ''evt'' db)) < 4"
proof -
  let ?e = "sample_event\<lparr>pe_kind := Event_Intent_Succeeded, pe_order_id := Some ''o''\<rparr>"
  let ?r = "inbox_row_of ?e None 5" and ?w = "sample_webhooks ?e"
  let ?db = "empty_db\<lparr>db_inbox := [?r]\<rparr>"
  have "record_payment_event ?w ''body'' (Some ''sig'') None 5 empty_db =
      Inr (\<lparr>rcp_event_id = ''evt'', rcp_duplicate = False\<rparr>, ?db)"
    by (simp add: record_payment_event_def sample_webhooks_def sample_event_def empty_db_def)
  then have run: "(inbox_step sample_core)\<^sup>*\<^sup>* empty_db ?db" by (rule sample_inbox_run)
  have r: "?r \<in> set (db_inbox ?db)" "inbox_due ?r" "ir_event_id ?r = ''evt''"
    by (simp_all add: inbox_due_def sample_event_def)
  have "attempts_left ?db = 4" by (simp add: attempts_left_def attempts_left_of_def inbox_due_def)
  with webhook_attempts_end [OF run r(1,2) prod.collapse [symmetric], of sample_drawn 0 empty_db empty_db 6] r(3)
  show ?thesis by (simp add: Let_def)
qed

end
