(* ===== verification/Purchase_Flow.thy ===== *)
theory Purchase_Flow
  imports Order_Frames Ticketing_System
begin

text \<open>
  A whole purchase (\<open>PurchaseSeatHandler.execute\<close>, \<open>orders/purchase-seat.handler.ts\<close>): its order found
  or placed, resumed where it stands, the provider asked for an intent outside any transaction, and
  what it said recorded, or the hold given back when it does not answer.

  A \<open>turn\<close> is what surrounds one of the purchase's transactions: what it draws, when it runs, what
  other transactions committed before it, and the tables its reads without a lock saw.
\<close>

section \<open>The handler\<close>

record turn =
  tu_draws :: draws
  tu_now :: instant
  tu_others :: "db \<Rightarrow> db"
  tu_seen :: "db \<Rightarrow> db"
  tu_again :: "db \<Rightarrow> db"

datatype provider_answer = Intent payment_intent | Provider_Unavailable | Provider_Fails failure

definition in_turn :: "turn \<Rightarrow> (turn \<Rightarrow> db \<Rightarrow> ('a \<times> db) result) \<Rightarrow> db \<Rightarrow> 'a result \<times> db" where
  "in_turn u work db = run_transaction False (work u) (tu_others u db)"

definition place_or_find ::
    "core \<Rightarrow> string \<Rightarrow> (nat \<Rightarrow> turn) \<Rightarrow> purchase_command \<Rightarrow> db \<Rightarrow> placement result \<times> db" where
  "place_or_find c origin turns cmd db =
     (let place = (\<lambda>u db. place_in c origin (tu_draws u) (tu_seen u db) (tu_now u) cmd db) in
      case in_turn (turns 0) place db of
        (Inl Key_Bound_Meanwhile, db1) \<Rightarrow> in_turn (turns 1) place db1
      | r \<Rightarrow> r)"

definition resume_purchase ::
    "core \<Rightarrow> string \<Rightarrow> (nat \<Rightarrow> turn) \<Rightarrow> purchase_command \<Rightarrow> ident \<Rightarrow> db \<Rightarrow> resumption result \<times> db" where
  "resume_purchase c origin turns cmd order_id db =
     (let tp = pcm_traceparent cmd in
      case in_turn (turns 2) (\<lambda>u db. resume_in c origin (tu_draws u) (tu_seen u db) (tu_now u)
             order_id tp (pcm_late_entry_acknowledged cmd) db) db of
        (Inl (Renewal_Sold_Out i stale_hold_id), db1) \<Rightarrow>
          in_turn (turns 3) (\<lambda>u db. fail_sold_out_in c origin (tu_seen u db) (tu_now u) i
            stale_hold_id tp db) db1
      | r \<Rightarrow> r)"

definition ask_provider ::
    "core \<Rightarrow> string \<Rightarrow> (resumption \<Rightarrow> provider_answer) \<Rightarrow> (nat \<Rightarrow> turn) \<Rightarrow> purchase_command \<Rightarrow> ident
       \<Rightarrow> resumption \<Rightarrow> db \<Rightarrow> (stored_answer \<times> bool) result \<times> db" where
  "ask_provider c origin create_intent turns cmd order_id request db =
     (case create_intent request of
        Provider_Fails e \<Rightarrow> (Inl e, db)
      | Provider_Unavailable \<Rightarrow>
          (case in_turn (turns 4) (\<lambda>u db. release_hold_of c (tu_now u) order_id db) db of
             (Inl e, db1) \<Rightarrow> (Inl e, db1)
           | (Inr _, db1) \<Rightarrow> (Inl payment_unavailable, db1))
      | Intent intent \<Rightarrow>
          (case in_turn (turns 5) (\<lambda>u db. record_intent_in c origin (tu_draws u) (tu_seen u db)
                  (tu_again u db) (tu_now u) order_id intent (pcm_traceparent cmd) db) db of
             (Inl e, db1) \<Rightarrow> (Inl e, db1)
           | (Inr (Answered answer replayed), db1) \<Rightarrow> (Inr (answer, replayed), db1)
           | (Inr (Refused e), db1) \<Rightarrow> (Inl e, db1)
           | (Inr (Create_Intent _ _ _ _), db1) \<Rightarrow> (Inl (Plain_Error ''order lost its intent''), db1)))"

definition purchase_seat ::
    "core \<Rightarrow> string \<Rightarrow> (resumption \<Rightarrow> provider_answer) \<Rightarrow> (nat \<Rightarrow> turn) \<Rightarrow> purchase_command \<Rightarrow> db
       \<Rightarrow> (stored_answer \<times> bool) result \<times> db" where
  "purchase_seat c origin create_intent turns cmd db =
     (case place_or_find c origin turns cmd db of
        (Inl e, db1) \<Rightarrow> (Inl e, db1)
      | (Inr (Placed order_id request), db1) \<Rightarrow>
          ask_provider c origin create_intent turns cmd order_id request db1
      | (Inr (Bound order_id), db1) \<Rightarrow>
          (case resume_purchase c origin turns cmd order_id db1 of
             (Inl e, db2) \<Rightarrow> (Inl e, db2)
           | (Inr (Answered answer replayed), db2) \<Rightarrow> (Inr (answer, replayed), db2)
           | (Inr (Refused e), db2) \<Rightarrow> (Inl e, db2)
           | (Inr request, db2) \<Rightarrow> ask_provider c origin create_intent turns cmd order_id request db2))"

lemma in_turn_Inr:
  "in_turn u work db = (Inr x, db') \<longleftrightarrow>
work u (tu_others u db) = Inr (x, db')"
  by (auto simp: in_turn_def run_transaction_def split: sum.splits)

lemma in_turn_Inl: "in_turn u work db = (Inl e, db') \<Longrightarrow> db' = tu_others u db"
  by (auto simp: in_turn_def run_transaction_def split: sum.splits)

section \<open>The key an order is bound to\<close>

text \<open>
  What others commit keeps the orders' keys and the answers once kept, and a read without a lock
  shows no key that is not committed; a read after a commit shows what it kept.
\<close>

definition keeps_answers :: "(db \<Rightarrow> db) \<Rightarrow> bool" where
  "keeps_answers f \<longleftrightarrow>
     (\<forall>a k x db. find_bound a k db = Some x \<longrightarrow> find_bound a k (f db) = Some x) \<and>
     (\<forall>i x db. stored_answer_of i db = Some x \<longrightarrow> stored_answer_of i (f db) = Some x)"

definition orders_keyed :: "db \<Rightarrow> bool" where
  "orders_keyed db \<longleftrightarrow> distinct (map or_id (db_orders db))"

definition commits_kept :: "turn \<Rightarrow> bool" where
  "commits_kept u \<longleftrightarrow> keeps_answers (tu_others u) \<and> (\<forall>db. orders_keyed db \<longrightarrow> orders_keyed (tu_others u db)) \<and>
     (\<forall>a k x db. find_bound a k (tu_seen u db) = Some x \<longrightarrow> find_bound a k db = Some x)"

definition bound_to :: "idempotency_binding \<Rightarrow> ident \<Rightarrow> db \<Rightarrow> bool" where
  "bound_to b i db \<longleftrightarrow> orders_keyed db \<and>
     find_bound (ib_account_id b) (ib_key b) db = Some (i, ib_fingerprint b)"

lemma find_bound_bindings:
  "find_bound a k db = map_option (\<lambda>(i, _, _, f). (i, f))
    (find (\<lambda>(_, a', k', _). a' = a \<and> k' = k) (map order_binding (db_orders db)))"
proof -
  have "map_option (\<lambda>r. (or_id r, or_fingerprint r)) (find (\<lambda>r. or_account_id r = a \<and> or_idempotency_key r = k) rs) =
      map_option (\<lambda>(i, _, _, f). (i, f)) (find (\<lambda>(_, a', k', _). a' = a \<and> k' = k) (map order_binding rs))" for rs
    by (induction rs) (auto simp: order_binding_def)
  then show ?thesis by (simp add: find_bound_def)
qed

lemma find_bound_same:
  "map order_binding (db_orders db') = map order_binding (db_orders db) \<Longrightarrow> find_bound a k db' = find_bound a k db"
  by (simp add: find_bound_bindings)

lemma same_bindings:
  assumes "map order_binding (db_orders db') = map order_binding (db_orders db)"
  shows "orders_keyed db' = orders_keyed db" and "bound_to b i db' = bound_to b i db"
proof -
  have "map or_id rs = map fst (map order_binding rs)" for rs by (simp add: order_binding_def)
  with assms have ids: "map or_id (db_orders db') = map or_id (db_orders db)" by metis
  then show "orders_keyed db' = orders_keyed db" by (simp add: orders_keyed_def)
  with find_bound_same [OF assms] show "bound_to b i db' = bound_to b i db" unfolding bound_to_def by metis
qed

lemma commits_kept_bound: "commits_kept u \<Longrightarrow> bound_to b i db \<Longrightarrow> bound_to b i (tu_others u db)"
  unfolding commits_kept_def keeps_answers_def bound_to_def by blast

lemma commits_kept_keyed: "commits_kept u \<Longrightarrow> orders_keyed db \<Longrightarrow> orders_keyed (tu_others u db)"
  unfolding commits_kept_def by blast

lemma commits_kept_read: "commits_kept u \<Longrightarrow> find_bound a k (tu_seen u db) = Some x \<Longrightarrow> find_bound a k db = Some x"
  unfolding commits_kept_def by blast

lemma place_order_bound:
  assumes "place_order t b db = Inr (True, t', db')" and "orders_keyed db"
  shows "bound_to b (so_id (current (root t))) db'"
proof -
  let ?row = "order_row_of b (current (root t))"
  have row: "or_id ?row = so_id (current (root t))" "or_account_id ?row = ib_account_id b"
    "or_idempotency_key ?row = ib_key b" "or_fingerprint ?row = ib_fingerprint b"
    by (simp_all add: order_row_of_def Let_def order_state_columns_of_def)
  have none: "find (\<lambda>r. or_account_id r = ib_account_id b \<and> or_idempotency_key r = ib_key b) (db_orders db) = None"
    and db': "db_orders db' = db_orders db @ [?row]" and new: "or_id ?row \<notin> or_id ` set (db_orders db)"
    using assms(1) row
    by (auto simp: place_order_def Let_def bindE_eq_Inr list_ex_iff find_None_iff split: if_splits)
  from none show ?thesis using assms(2) new
    by (simp add: bound_to_def orders_keyed_def find_bound_def find_append db' row)
qed

text \<open>Tx A leaves the key bound to the order it answers with, placed now or found.\<close>

lemma place_in_bound:
  assumes "place_in c origin d seen now cmd db = Inr (x, db')" and b: "b = pcm_binding cmd"
    and keyed: "orders_keyed db"
    and seen: "\<And>y. find_bound (ib_account_id b) (ib_key b) seen = Some y \<Longrightarrow>
      find_bound (ib_account_id b) (ib_key b) db = Some y"
  obtains i where "bound_to b i db'" and "x = Bound i \<or> (\<exists>r. x = Placed i r)"
  using place_in_placed [OF assms(1)] unfolding b [symmetric]
proof (elim disjE exE conjE)
  fix i f
  assume "db' = db" "find_bound (ib_account_id b) (ib_key b) seen = Some (i, f)" "f = ib_fingerprint b" "x = Bound i"
  then show thesis using seen keyed by (intro that [of i]) (auto simp: bound_to_def)
next
  fix sales e quote t db1 hold' db2 rows from_pool sales' and held :: date_sales and hold :: seat_hold
  let ?t = "created (order_of_purchase c d cmd (ds_channel_id (current held)) quote e now)"
  assume bind: "bind_key d ?t b db = Inr (t, db1)"
    and hold: "save_hold (created hold) db1 = Inr (hold', db2)"
    and took: "take_seats_for from_pool (with_root held sales) (dw_hold_id d) (pcm_quantity cmd) now
        (write_outbox rows db2) = Inr (True, sales', db')"
    and x: "x = Placed (dw_order_id d) (intent_request_of c origin (current (root t)))"
  have "so_id (current (root ?t)) = dw_order_id d" by (simp add: order_of_purchase_def order_place_def)
  with place_order_bound [OF bind_key_Inr [OF bind] keyed] have "bound_to b (dw_order_id d) db1" by simp
  moreover have "bound_to b i db' = bound_to b i db1" for i
    using bindings.take_seats_for_view [OF took] bindings.write_outbox_view bindings.save_hold_view [OF hold]
    by (intro same_bindings) simp
  ultimately show thesis using x by (intro that) auto
qed

lemma place_or_find_bound:
  assumes run: "place_or_find c origin turns cmd db = (Inr x, db')" and turns: "\<And>k. commits_kept (turns k)"
    and keyed: "orders_keyed db"
  obtains i where "bound_to (pcm_binding cmd) i db'" and "x = Bound i \<or> (\<exists>r. x = Placed i r)"
proof -
  let ?place = "\<lambda>u db. place_in c origin (tu_draws u) (tu_seen u db) (tu_now u) cmd db"
  have turn: "\<exists>i. bound_to (pcm_binding cmd) i db' \<and> (x = Bound i \<or> (\<exists>r. x = Placed i r))"
    if "in_turn (turns k) ?place db0 = (Inr x, db')" "orders_keyed db0" for k db0
    by (rule place_in_bound [OF that(1) [unfolded in_turn_Inr] refl commits_kept_keyed [OF turns that(2)]
          commits_kept_read [OF turns]]) (assumption, blast)
  obtain y db1 where y: "in_turn (turns 0) ?place db = (y, db1)" by force
  have keyed1: "orders_keyed db1" if "y = Inl e" for e
    using in_turn_Inl [OF y [unfolded that]] commits_kept_keyed [OF turns keyed] by simp
  show thesis
  proof (cases "y = Inl Key_Bound_Meanwhile")
    case True
    with run y have "in_turn (turns 1) ?place db1 = (Inr x, db')" by (simp add: place_or_find_def Let_def)
    from turn [OF this keyed1 [OF True]] that show thesis by blast
  next
    case False
    with run y have "y = Inr x \<and> db1 = db'"
      by (auto simp: place_or_find_def Let_def split: sum.splits failure.splits)
    with y turn [OF _ keyed, of 0] that show thesis by blast
  qed
qed

section \<open>The answer an order keeps\<close>

lemma store_answer_kept:
  assumes "store_answer i answer db = (True, db')" and "orders_keyed db"
  shows "stored_answer_of i db' = Some answer"
proof -
  let ?p = "\<lambda>r. or_id r = i \<and> or_answer r = None"
  have one: "tbl_affected ?p (db_orders db) = 1" and db': "db_orders db' =
      tbl_update ?p (\<lambda>r. r\<lparr>or_answer := Some answer\<rparr>) (db_orders db)"
    using assms(1) unfolding store_answer_def Let_def by auto
  then have "filter ?p (db_orders db) \<noteq> []" unfolding tbl_affected_def by force
  then obtain r where mem: "r \<in> set (db_orders db)" and p: "or_id r = i" "or_answer r = None"
    unfolding filter_empty_conv by blast
  have r: "tbl_find or_id i (db_orders db) = Some r"
    using tbl_find_unique [OF assms(2) [unfolded orders_keyed_def] mem] unfolding p .
  have "tbl_find or_id i (db_orders db') = Some (r\<lparr>or_answer := Some answer\<rparr>)"
    unfolding db' using r p by (subst tbl_find_tbl_update) simp_all
  then show ?thesis by (simp add: stored_answer_of_def)
qed

lemma kept_keeps: "kept i answer db = Inr (Answered a False, db') \<Longrightarrow> orders_keyed db \<Longrightarrow> stored_answer_of i db' = Some a"
  by (auto simp: kept_def split: prod.splits bool.splits option.splits intro: store_answer_kept)

lemma answer_of_kept:
  assumes "answer_of c origin seen now s db = Inr (Answered a False, db')" and "orders_keyed db"
  shows "stored_answer_of (so_id s) db' = Some a"
  using assms unfolding answer_of_def by (auto split: if_splits option.splits dest: kept_keeps)

lemma load_order_id: "load_order c i db = Inr t \<Longrightarrow> so_id (current (root t)) = i"
  by (auto simp: load_order_def split: option.splits dest: find_order_of(2))

lemma resume_in_kept:
  assumes "resume_in c origin d seen now i tp ack db = Inr (Answered a False, db')" and "orders_keyed db"
  shows "stored_answer_of i db' = Some a"
proof -
  obtain t where t: "load_order c i db = Inr t"
    using assms(1) by (auto simp: resume_in_def bindE_eq_Inr split: option.splits)
  have "answer_of c origin seen now (current (root t)) db = Inr (Answered a False, db')"
    using assms(1)
    by (auto simp: resume_in_def Let_def t bindE_eq_Inr intent_request_of_def
        split: option.splits if_splits prod.splits bool.splits)
  from answer_of_kept [OF this assms(2)] load_order_id [OF t] show ?thesis by simp
qed

lemma fail_sold_out_in_kept:
  assumes "fail_sold_out_in c origin seen now i h tp db = Inr (Answered a False, db')" and "orders_keyed db"
  shows "stored_answer_of i db' = Some a"
proof -
  obtain t where t: "load_order c i db = Inr t"
    using assms(1) by (auto simp: fail_sold_out_in_def bindE_eq_Inr)
  have "answer_of c origin seen now (current (root t)) db = Inr (Answered a False, db')"
    using assms(1) by (auto simp: fail_sold_out_in_def Let_def t bindE_eq_Inr split: if_splits)
  from answer_of_kept [OF this assms(2)] load_order_id [OF t] show ?thesis by simp
qed

lemma save_order_root: "save_order t db = Inr (t', db') \<Longrightarrow> root t' = root t"
  by (auto simp: save_order_def Let_def bindE_eq_Inr split: option.splits)

lemma save_resumed_root: "save_resumed c tp t db = Inr (t', db') \<Longrightarrow> root t' = root t"
  by (auto simp: save_resumed_def bindE_eq_Inr dest: save_order_root)

lemma owe_payment_back_key:
  assumes "owe_payment_back c d o' i now tp t db = Inr (t', db')"
  shows "order_key (current (root t')) = order_key (current (root t))"
proof -
  obtain a r where owed: "owe_unseated_payment_back (order_rules c) (dw_refund_id d)
      (refund_reason_on_date (checkout_rules c) o' Refund_Hold_Expired_Capacity_Lost) i now (root t) = (a, r)"
    by force
  then have "order_key (current a) = order_key (current (root t))" by (metis owe_unseated_key fst_conv)
  moreover have "root t' = a"
    using assms owed by (auto simp: owe_payment_back_def bindE_eq_Inr split: option.splits dest: save_order_root)
  ultimately show ?thesis by simp
qed

lemma settle_confirmed_payment_key:
  assumes "settle_confirmed_payment c d seen again i now tp t db = Inr (pending, t', db')"
  shows "order_key (current (root t')) = order_key (current (root t))"
  using assms
  by (auto simp: settle_confirmed_payment_def Let_def bindE_eq_Inr split: if_splits option.splits
      dest: owe_payment_back_key issue_seats_key)

lemma fail_unpaid_order_key:
  assumes "fail_unpaid_order f now t db = Inr (pending, t', db')"
  shows "order_key (current (root t')) = order_key (current (root t))"
proof -
  have "root t' = fst (order_fail f now (root t))"
    using assms by (auto simp: fail_unpaid_order_def bindE_eq_Inr split: prod.splits bool.splits option.splits)
  then show ?thesis by simp
qed

lemma record_waiting_intent_key:
  "record_waiting_intent c i st now t db = (t', db') \<Longrightarrow> order_key (current (root t')) = order_key (current (root t))"
  using record_intent_key [of "order_rules c" i st now "root t"]
  by (cases "record_intent (order_rules c) i st now (root t)") (auto simp: record_waiting_intent_def)

lemma apply_intent_key:
  assumes "apply_intent c d seen again now intent tp t db = Inr (pending, t', db')"
  shows "order_key (current (root t')) = order_key (current (root t))"
  using assms
  by (cases "in_status intent") (auto simp: apply_intent_def Let_def split: prod.splits
      dest: settle_confirmed_payment_key fail_unpaid_order_key record_waiting_intent_key)

lemma record_intent_in_kept:
  assumes "record_intent_in c origin d seen again now i intent tp db = Inr (Answered a False, db')"
    and keyed: "orders_keyed db"
  shows "stored_answer_of i db' = Some a"
proof -
  obtain t pending t1 db1 t2 db2 db3 where t: "load_order c i db = Inr t"
    and applied: "apply_intent c d seen again now intent tp t db = Inr (pending, t1, db1)"
    and saved: "save_resumed c tp t1 db1 = Inr (t2, db2)"
    and answer: "answer_of c origin again now (current (root t2)) db2 = Inr (Answered a False, db3)"
    and run: "run_counter_move pending db3 = Inr db'"
    using assms(1) by (auto simp: record_intent_in_def bindE_eq_Inr)
  have view: "moves_seats pending" "map order_binding (db_orders db1) = map order_binding (db_orders db)"
    using bindings.apply_intent_view [OF applied] by auto
  then have "orders_keyed db2"
    using same_bindings(1) [of db2 db] bindings.save_resumed_view [OF saved] keyed by simp
  from answer_of_kept [OF answer this] orders.run_counter_move_view [OF run view(1)]
  have "stored_answer_of (so_id (current (root t2))) db' = Some a" by (simp add: stored_answer_of_def)
  moreover have "so_id (current (root t2)) = i"
    using save_resumed_root [OF saved] apply_intent_key [OF applied] load_order_id [OF t]
    by (simp add: order_key_def)
  ultimately show ?thesis by simp
qed

section \<open>The purchase replayed\<close>

lemma ask_provider_kept:
  assumes "ask_provider c origin p turns cmd i r db = (Inr (a, False), db')" and turns: "\<And>k. commits_kept (turns k)"
    and bound: "bound_to b i db"
  shows "bound_to b i db' \<and> stored_answer_of i db' = Some a"
proof -
  let ?db = "tu_others (turns 5) db"
  obtain d seen again now intent where rec: "record_intent_in c origin d seen again now i
      intent (pcm_traceparent cmd) ?db = Inr (Answered a False, db')"
    using assms(1)
    by (auto simp: ask_provider_def in_turn_Inr split: provider_answer.splits prod.splits sum.splits resumption.splits)
  have "bound_to b i ?db" by (rule commits_kept_bound [OF turns bound])
  then show ?thesis
    using same_bindings(2) [OF bindings.record_intent_in_view [OF rec]] record_intent_in_kept [OF rec]
    by (auto simp: bound_to_def)
qed

text \<open>
  \<open>RenewalSoldOut\<close> is the handler's own exception: no table and no rule throws it, so the order it
  names is the one resumed.
\<close>

definition throws :: "'a result \<Rightarrow> ident \<Rightarrow> ident \<Rightarrow> bool" where
  "throws r i h \<longleftrightarrow> r = Inl (Renewal_Sold_Out i h)"

named_theorems silent

lemma throws_bindE: "throws (bindE r f) i h \<longleftrightarrow> throws r i h \<or> (\<exists>a. r = Inr a \<and> throws (f a) i h)"
  by (auto simp: throws_def bindE_eq_Inl)

lemma throws_values [simp]: "\<not> throws (Inr a) i h"
  "throws (Inl (Renewal_Sold_Out j k)) i h \<longleftrightarrow> j = i \<and> k = h" "\<not> throws (Inl (Plain_Error m)) i h"
  "\<not> throws (Inl (Domain_Error x)) i h" "\<not> throws (Inl (Constraint_Violation m)) i h"
  by (auto simp: throws_def)

lemma ensure_silent [silent]: "\<not> throws (ensure b (Constraint_Violation m)) i h"
  by (simp add: ensure_def)

lemma foldE_silent: "(\<And>x s. \<not> throws (f x s) i h) \<Longrightarrow> \<not> throws (foldE f xs s) i h"
  by (induction xs arbitrary: s) (auto simp: throws_bindE)

lemma tables_silent [silent]:
  "\<not> throws (table_update n ck p f t) i h" "\<not> throws (table_insert n ck key r t) i h"
  "\<not> throws (save_versioned p v k f t) i h" "\<not> throws (load_order c o' db) i h"
  by (auto simp: table_update_def table_insert_def save_versioned_def load_order_def Let_def ensure_silent
      throws_bindE split: option.splits)

lemma sales_update_silent [silent]: "\<not> throws (sales_update p f db) i h"
  by (auto simp: sales_update_def throws_bindE silent)

lemma take_seats_for_silent [silent]: "\<not> throws (take_seats_for b t k q now db) i h"
  by (auto simp: take_seats_for_def take_seats_from_pool_def take_seats_def throws_bindE Let_def silent
      split: option.splits)

lemma save_hold_silent [silent]: "\<not> throws (save_hold t db) i h"
  by (auto simp: save_hold_def throws_bindE Let_def silent split: option.splits)

lemma save_order_silent [silent]: "\<not> throws (save_order t db) i h"
proof -
  have "\<not> throws (insert_seat r x) i h" "\<not> throws (insert_refund k y db) i h" for r x k y db
    by (auto simp: insert_seat_def insert_refund_def throws_bindE Let_def silent split: option.splits)
  moreover have "\<not> throws (save_moved_seats b s db) i h" for b s db
    unfolding save_moved_seats_def by (rule foldE_silent) (auto simp: throws_bindE silent split: option.splits)
  ultimately show ?thesis
    by (auto simp: save_order_def save_refunds_def throws_bindE Let_def silent foldE_silent split: option.splits)
qed

lemma save_resumed_silent [silent]: "\<not> throws (save_resumed c tp t db) i h"
  by (auto simp: save_resumed_def throws_bindE silent)

lemma answer_of_silent [silent]: "\<not> throws (answer_of c origin seen now s db) i h"
  by (auto simp: answer_of_def kept_def split: prod.splits bool.splits option.splits)

lemma hold_seats_silent [silent]: "\<not> throws (hold_seats r q now a) i h"
  by (auto simp: hold_seats_def Let_def split: option.splits bool.splits)

lemma renew_hold_in_silent:
  assumes "\<And>q e i h. hold_for (checkout_rules c) q e \<noteq> Inl (Renewal_Sold_Out i h)"
  shows "\<not> throws (renew_hold_in c d seen sales now t db) i h"
  using assms
  by (auto simp: renew_hold_in_def throws_bindE Let_def silent hold_place_def renew_hold_def throws_def [of "hold_for _ _ _"]
      split: option.splits)

lemma renewed_take_silent: "renew_hold_in c d seen sales now t db = Inr (Some f, t', db') \<Longrightarrow> \<not> throws (f db1) i h"
  by (auto simp: renew_hold_in_def bindE_eq_Inr Let_def silent split: option.splits if_splits)

lemma renewal_names_order:
  assumes "\<And>q e i h. hold_for (checkout_rules c) q e \<noteq> Inl (Renewal_Sold_Out i h)"
    and "resume_in c origin d seen now i tp ack db = Inl (Renewal_Sold_Out j h)"
  shows "j = i"
proof -
  have "throws (resume_in c origin d seen now i tp ack db) j h" using assms(2) by (simp add: throws_def)
  then show ?thesis
    unfolding resume_in_def
    by (auto simp: throws_bindE Let_def silent renew_hold_in_silent [OF assms(1)] intent_request_of_def
        split: option.splits prod.splits bool.splits if_splits dest: renewed_take_silent)
qed

lemma resume_purchase_bound:
  assumes own: "\<And>q e i h. hold_for (checkout_rules c) q e \<noteq> Inl (Renewal_Sold_Out i h)"
    and run: "resume_purchase c origin turns cmd i db = (Inr x, db')" and turns: "\<And>k. commits_kept (turns k)"
    and bound: "bound_to b i db"
  shows "bound_to b i db' \<and> (\<forall>a. x = Answered a False \<longrightarrow> stored_answer_of i db' = Some a)"
proof -
  let ?resume = "\<lambda>u db. resume_in c origin (tu_draws u) (tu_seen u db) (tu_now u) i (pcm_traceparent cmd)
    (pcm_late_entry_acknowledged cmd) db"
  obtain y db1 where y: "in_turn (turns 2) ?resume db = (y, db1)" by force
  have bound2: "bound_to b i (tu_others (turns 2) db)" by (rule commits_kept_bound [OF turns bound])
  show ?thesis
  proof (cases "\<exists>j h. y = Inl (Renewal_Sold_Out j h)")
    case True
    then obtain j h where e: "y = Inl (Renewal_Sold_Out j h)" by blast
    have db1: "db1 = tu_others (turns 2) db" by (rule in_turn_Inl [OF y [unfolded e]])
    have "?resume (turns 2) db1 = Inl (Renewal_Sold_Out j h)"
      using y e by (auto simp: in_turn_def run_transaction_def db1 split: sum.splits)
    with own have j: "j = i" by (rule renewal_names_order)
    let ?db = "tu_others (turns 3) db1"
    have fails: "fail_sold_out_in c origin (tu_seen (turns 3) ?db) (tu_now (turns 3)) i h (pcm_traceparent cmd) ?db =
        Inr (x, db')"
      using run y e by (simp add: resume_purchase_def Let_def in_turn_Inr j)
    have "bound_to b i ?db" using commits_kept_bound [OF turns bound2] by (simp add: db1)
    with same_bindings(2) [OF bindings.fail_sold_out_in_view [OF fails]] fail_sold_out_in_kept fails
    show ?thesis by (auto simp: bound_to_def)
  next
    case False
    with run y have "y = Inr x" "db1 = db'"
      by (auto simp: resume_purchase_def Let_def split: sum.splits failure.splits)
    with y have "?resume (turns 2) (tu_others (turns 2) db) = Inr (x, db')" by (simp add: in_turn_Inr)
    with same_bindings(2) [OF bindings.resume_in_view [OF this]] bound2 resume_in_kept show ?thesis
      by (auto simp: bound_to_def)
  qed
qed

lemma purchase_seat_kept:
  assumes own: "\<And>q e i h. hold_for (checkout_rules c) q e \<noteq> Inl (Renewal_Sold_Out i h)"
    and run: "purchase_seat c origin p turns cmd db = (Inr (a, False), db')"
    and turns: "\<And>k. commits_kept (turns k)" and keyed: "orders_keyed db"
  obtains i where "bound_to (pcm_binding cmd) i db'" and "stored_answer_of i db' = Some a"
proof -
  obtain x db1 where placed: "place_or_find c origin turns cmd db = (Inr x, db1)"
    using run by (auto simp: purchase_seat_def split: prod.splits sum.splits)
  obtain i where i: "bound_to (pcm_binding cmd) i db1" and x: "x = Bound i \<or> (\<exists>r. x = Placed i r)"
    by (rule place_or_find_bound [OF placed turns keyed])
  from x show thesis
  proof (elim disjE exE)
    fix r assume "x = Placed i r"
    with run placed have "ask_provider c origin p turns cmd i r db1 = (Inr (a, False), db')"
      by (simp add: purchase_seat_def)
    from ask_provider_kept [OF this turns i] that show thesis by blast
  next
    assume "x = Bound i"
    with run placed obtain y db2 where y: "resume_purchase c origin turns cmd i db1 = (Inr y, db2)"
      and rest: "y = Answered a False \<and> db' = db2 \<or> ask_provider c origin p turns cmd i y db2 = (Inr (a, False), db')"
      by (auto simp: purchase_seat_def split: prod.splits sum.splits resumption.splits)
    note bound = resume_purchase_bound [OF own y turns i]
    from rest show thesis
    proof (elim disjE conjE)
      assume "y = Answered a False" "db' = db2"
      with bound that show thesis by blast
    next
      assume "ask_provider c origin p turns cmd i y db2 = (Inr (a, False), db')"
      from ask_provider_kept [OF this turns] bound that show thesis by blast
    qed
  qed
qed

lemma keeps_answersD:
  "keeps_answers f \<Longrightarrow> find_bound a k db = Some x \<Longrightarrow> find_bound a k (f db) = Some x"
  "keeps_answers f \<Longrightarrow> stored_answer_of i db = Some y \<Longrightarrow> stored_answer_of i (f db) = Some y"
  unfolding keeps_answers_def by blast+

lemma bound_purchase:
  assumes bound: "bound_to b i db" and answer: "stored_answer_of i db = Some a"
    and turns: "\<And>k. commits_kept (turns k) \<and> keeps_answers (tu_seen (turns k))"
    and key: "ib_account_id (pcm_binding cmd) = ib_account_id b" "ib_key (pcm_binding cmd) = ib_key b"
  shows "purchase_seat c origin p turns cmd db =
    (if ib_fingerprint (pcm_binding cmd) = ib_fingerprint b
     then (Inr (a, True), tu_others (turns 2) (tu_others (turns 0) db))
     else (Inl key_reused, tu_others (turns 0) db))"
proof -
  let ?db0 = "tu_others (turns 0) db"
  have k0: "keeps_answers (tu_others (turns k))" "keeps_answers (tu_seen (turns k))" for k
    using turns [of k] unfolding commits_kept_def by blast+
  have "find_bound (ib_account_id b) (ib_key b) (tu_seen (turns 0) ?db0) = Some (i, ib_fingerprint b)"
    using bound k0 unfolding bound_to_def keeps_answers_def by blast
  then have place: "place_or_find c origin turns cmd db =
      (if ib_fingerprint (pcm_binding cmd) = ib_fingerprint b then (Inr (Bound i), ?db0) else (Inl key_reused, ?db0))"
    by (auto simp: place_or_find_def in_turn_def run_transaction_def place_in_def Let_def key key_reused_def)
  have "stored_answer_of i (tu_seen (turns 2) (tu_others (turns 2) ?db0)) = Some a"
    by (intro keeps_answersD(2) [OF k0(2)] keeps_answersD(2) [OF k0(1)] answer)
  then have "resume_purchase c origin turns cmd i ?db0 = (Inr (Answered a True), tu_others (turns 2) ?db0)"
    by (simp add: resume_purchase_def Let_def in_turn_def run_transaction_def resume_in_def)
  with place show ?thesis by (simp add: purchase_seat_def)
qed


definition sample_turns :: "string \<Rightarrow> int \<Rightarrow> nat \<Rightarrow> turn" where
  "sample_turns n i k = \<lparr>tu_draws = sample_draws n i, tu_now = 5 + int k, tu_others = (\<lambda>db. db),
     tu_seen = (\<lambda>db. db), tu_again = (\<lambda>db. db)\<rparr>"

lemma sample_turns_kept:
  "commits_kept (sample_turns n i k)" "commits_kept (sample_turns n i k) \<and> keeps_answers (tu_seen (sample_turns n i k))"
  by (simp_all add: commits_kept_def keeps_answers_def sample_turns_def)

lemma fst_answer: "fst p = Inr a \<Longrightarrow> snd a = b \<Longrightarrow> \<exists>db. p = (Inr (fst a, b), db)"
  by (cases p) (auto simp: prod_eq_iff)

lemma sample_purchase_run:
  "case run_all (sample_opening sample_core) empty_db of
     Inl _ \<Rightarrow> False
   | Inr db \<Rightarrow> orders_keyed db \<and>
      (case fst (purchase_seat sample_core ''x'' (\<lambda>_. Intent sample_intent) (sample_turns ''1'' 1)
          (sample_purchase ''1'' 1) db) of
         Inl _ \<Rightarrow> False
       | Inr a \<Rightarrow> snd a = False \<and> sa_status (fst a) = 201)"
  by code_simp


end
