(* ===== verification/Store_Props.thy ===== *)
theory Store_Props
  imports Seat_Ledger
begin

text \<open>
  What the repositories promise of what they store (\<open>date-sales.typeorm-repository.ts\<close>,
  \<open>seat-hold.typeorm-repository.ts\<close>): what a transaction decided is what the next one loads, and a
  save by differences does not undo a hold's decrement it did not see.
\<close>

section \<open>A date's sales\<close>

lemma sales_row_round_trip:
  assumes "money_of_laws (sales_rules c)"
  shows "date_sales_snapshot_of c (sales_row_of s) = s"
proof -
  have "tier_price_of c (price_tier_column_of p) = p" for p
    using assms by (cases p) (simp add: tier_price_of_def price_tier_column_of_def money_of_laws_def)
  then show ?thesis
    by (cases s) (simp add: date_sales_snapshot_of_def sales_row_of_def sales_state_columns_of_def comp_def)
qed

lemma moved_columns_round_trip:
  assumes "money_of_laws (sales_rules c)" and "ds_date_id s = dr_date_id r"
  shows "date_sales_snapshot_of c (moved_columns s (date_sales_snapshot_of c r) r) = s"
proof -
  have "tier_price_of c (price_tier_column_of p) = p" for p
    using assms by (cases p) (simp add: tier_price_of_def price_tier_column_of_def money_of_laws_def)
  with assms(2) show ?thesis
    by (cases s) (simp add: date_sales_snapshot_of_def moved_columns_def sales_state_columns_of_def comp_def)
qed

lemma date_sales_step_date:
  "date_sales_step c cmd a = Inr a' \<Longrightarrow> ds_date_id (current a') = ds_date_id (current a)"
  by (cases cmd)
    (auto simp: date_sales_command_defs Let_def bindE_eq_Inr
      split: if_splits option.splits prod.splits bool.splits)

lemma date_sales_run_date:
  assumes "foldE (date_sales_step c) cmds a = Inr a'"
  shows "ds_date_id (current a') = ds_date_id (current a)"
  using assms by (rule foldE_invariant [where P = "\<lambda>x. ds_date_id (current x) = ds_date_id (current a)"])
    (auto dest: date_sales_step_date)

text \<open>
  Property C28. What a transaction decided about a date is what the next one loads: after any
  commands on the date it loaded and the save of what they left, the date found again is in the
  state, counters included, and at the version the commands left it.
\<close>

theorem saved_sales_read_back:
  assumes "money_of_laws (sales_rules c)" and "distinct (map dr_date_id (db_sales db))"
    and "find_sales c date_id db = Some t"
    and "foldE (date_sales_step (sales_rules c)) cmds (root t) = Inr a"
    and "save_sales (with_root a t) db = Inr (t', db')"
  shows "find_sales c date_id db' = Some (loaded (restore (current a)) (ds_version (current a)))"
proof -
  obtain r where r: "tbl_find dr_date_id date_id (db_sales db) = Some r" and t: "t = restored_sales c r"
    using assms(3) by (auto simp: find_sales_def)
  have id: "dr_date_id r = date_id" using tbl_find_SomeD [OF r] by simp
  have date: "ds_date_id (current a) = date_id"
    using date_sales_run_date [OF assms(4)] id by (simp add: t restored_sales_def date_sales_snapshot_of_def)
  let ?f = "moved_columns (current a) (date_sales_snapshot_of c r)"
  obtain rows where "save_versioned (\<lambda>x. dr_date_id x = date_id) dr_version (dr_version r) ?f (db_sales db) = Inr rows"
    and db': "db_sales db' = rows"
    using assms(5) date by (auto simp: save_sales_def Let_def bindE_eq_Inr t restored_sales_def)
  from save_versioned_Inr [OF this(1) assms(2)]
  have "rows = tbl_update (\<lambda>x. dr_date_id x = date_id) ?f (db_sales db)" by blast
  moreover have "dr_date_id (?f x) = dr_date_id x" for x
    by (simp add: moved_columns_def sales_state_columns_of_def)
  ultimately have "tbl_find dr_date_id date_id (db_sales db') = Some (?f r)"
    using r id by (simp add: db' tbl_find_tbl_update)
  moreover have "dr_version (?f r) = ds_version (current a)"
    by (simp add: moved_columns_def sales_state_columns_of_def)
  ultimately show ?thesis
    using moved_columns_round_trip [OF assms(1), of "current a" r] date id
    by (simp add: find_sales_def restored_sales_def)
qed

text \<open>A date with its prices set, a tier opened and its prices locked in one transaction.\<close>

definition sample_stored :: "int \<Rightarrow> db" where
  "sample_stored available = empty_db\<lparr>db_sales :=
     [(sales_row_of (current (open_sales ''d'' ''ch'' 0)))\<lparr>dr_capacity_total := 10, dr_seats_available := available,
        dr_seats_sold := 10 - available, dr_prices_locked_at := Some 1\<rparr>]\<rparr>"

definition sample_commands_run :: "date_sales result" where
  "sample_commands_run =
     (case find_sales sample_core ''d'' (sample_stored 4) of
        None \<Rightarrow> Inl Key_Bound_Meanwhile
      | Some t \<Rightarrow> foldE (date_sales_step (sales_rules sample_core))
          [Open_Tier ''t1'' 1 5 False 3, Hold 2 4, Record_Schedule 9000 2 4] (root t))"

lemma sample_loaded:
  obtains t where "find_sales sample_core ''d'' (sample_stored n) = Some t"
  by (auto simp: find_sales_def sample_stored_def sales_row_of_def sales_state_columns_of_def open_sales_def)

lemma sample_money_of: "money_of_laws (sales_rules sample_core)"
  by (simp add: sample_core_def sample_money_of_laws)

theorem saved_sales_read_back_witness:
  "\<exists>t a t' db'. find_sales sample_core ''d'' (sample_stored 4) = Some t \<and>
     save_sales (with_root a t) (sample_stored 4) = Inr (t', db') \<and>
     ds_seats_available (current a) = 7 \<and>
     find_sales sample_core ''d'' db' = Some (loaded (restore (current a)) (ds_version (current a)))"
proof -
  obtain t where t: "find_sales sample_core ''d'' (sample_stored 4) = Some t" by (rule sample_loaded)
  have "case sample_commands_run of Inl _ \<Rightarrow> False | Inr a \<Rightarrow> ds_seats_available (current a) = 7 \<and>
      (case save_sales (with_root a (the (find_sales sample_core ''d'' (sample_stored 4)))) (sample_stored 4) of
         Inl _ \<Rightarrow> False | Inr x \<Rightarrow> True)"
    by code_simp
  then obtain a x where a: "foldE (date_sales_step (sales_rules sample_core))
        [Open_Tier ''t1'' 1 5 False 3, Hold 2 4, Record_Schedule 9000 2 4] (root t) = Inr a"
      "ds_seats_available (current a) = 7" and "save_sales (with_root a t) (sample_stored 4) = Inr x"
    unfolding sample_commands_run_def t option.sel option.case by (elim case_InrE conjE)
  then obtain t' db' where s: "save_sales (with_root a t) (sample_stored 4) = Inr (t', db')" by (cases x) auto
  have "distinct (map dr_date_id (db_sales (sample_stored 4)))" by (simp add: sample_stored_def)
  from saved_sales_read_back [OF sample_money_of this t a(1) s] t s a(2) show ?thesis by blast
qed

text \<open>A date opened by its draft is read back too.\<close>

lemma opened_sales_read_back:
  assumes "money_of_laws (sales_rules c)" and "save_sales (created a) db = Inr (t', db')"
  shows "find_sales c (ds_date_id (current a)) db' =
    Some (loaded (restore (current a)) (ds_version (current a)))"
proof -
  let ?r = "sales_row_of (current a)"
  have key: "dr_date_id ?r = ds_date_id (current a)" "dr_version ?r = ds_version (current a)"
    by (simp_all add: sales_row_of_def sales_state_columns_of_def)
  have "ds_date_id (current a) \<notin> dr_date_id ` set (db_sales db)" and db': "db_sales db' = db_sales db @ [?r]"
    using assms(2) key by (auto simp: save_sales_def Let_def bindE_eq_Inr table_insert_Inr)
  then have "tbl_find dr_date_id (ds_date_id (current a)) (db_sales db') = Some ?r"
    by (simp add: tbl_find_append key tbl_find_None [THEN iffD2])
  then show ?thesis
    by (simp add: find_sales_def restored_sales_def sales_row_round_trip [OF assms(1)] key)
qed

section \<open>A save beside a hold's decrement\<close>

lemma take_seats_rows:
  assumes "take_seats u q now db = Inr (True, u', db1)"
  shows "db_sales db1 = tbl_update (\<lambda>r. dr_date_id r = ds_date_id (current (root u)) \<and> dr_on_sale r \<and>
      q \<le> dr_seats_available r \<and> before_sales_end now r)
    (\<lambda>r. one_more_move (r\<lparr>dr_seats_available := dr_seats_available r - q\<rparr>)) (db_sales db)"
    and "\<exists>r \<in> set (db_sales db). dr_date_id r = ds_date_id (current (root u)) \<and> dr_on_sale r \<and>
      q \<le> dr_seats_available r \<and> before_sales_end now r"
proof -
  show "db_sales db1 = tbl_update (\<lambda>r. dr_date_id r = ds_date_id (current (root u)) \<and> dr_on_sale r \<and>
      q \<le> dr_seats_available r \<and> before_sales_end now r)
    (\<lambda>r. one_more_move (r\<lparr>dr_seats_available := dr_seats_available r - q\<rparr>)) (db_sales db)"
    using assms by (auto simp: take_seats_def sales_update_def bindE_eq_Inr table_update_Inr split: if_splits)
  have "tbl_affected (\<lambda>r. dr_date_id r = ds_date_id (current (root u)) \<and> dr_on_sale r \<and>
      q \<le> dr_seats_available r \<and> before_sales_end now r) (db_sales db) = 1"
    using assms by (auto simp: take_seats_def sales_update_def bindE_eq_Inr table_update_Inr split: if_splits)
  then show "\<exists>r \<in> set (db_sales db). dr_date_id r = ds_date_id (current (root u)) \<and> dr_on_sale r \<and>
      q \<le> dr_seats_available r \<and> before_sales_end now r"
    by (auto simp: tbl_affected_def length_Suc_conv filter_eq_Cons_iff)
qed

lemma tbl_update_key_at:
  assumes "distinct (map key t)" and "r \<in> set t" and "p r" and "\<And>x. p x \<Longrightarrow> key x = key r"
  shows "tbl_update p f t = tbl_update (\<lambda>x. key x = key r) f t"
proof -
  have "p x = (key x = key r)" if "x \<in> set t" for x
    using assms tbl_find_unique [OF assms(1) that] tbl_find_unique [OF assms(1,2)] by (metis option.inject)
  then show ?thesis by (simp add: tbl_update_def)
qed

text \<open>
  Property C29. A save does not undo a decrement it did not see: saving a date loaded before a hold
  took seats of it leaves exactly the rows that the hold's statement would have left after the save,
  whatever the commands decided meanwhile.
\<close>

theorem save_keeps_decrement:
  assumes "distinct (map dr_date_id (db_sales db))"
    and "find_sales c date_id db = Some t" and "ds_date_id (current a) = date_id"
    and "take_seats u q now db = Inr (True, u', db1)" and "ds_date_id (current (root u)) = date_id"
    and "save_sales (with_root a t) db = Inr (t2, db2)"
    and "save_sales (with_root a t) db1 = Inr (t3, db3)"
  shows "db_sales db3 = tbl_update (\<lambda>r. dr_date_id r = date_id)
    (\<lambda>r. one_more_move (r\<lparr>dr_seats_available := dr_seats_available r - q\<rparr>)) (db_sales db2)"
proof -
  let ?key = "\<lambda>r. dr_date_id r = date_id"
  let ?take = "\<lambda>r. one_more_move (r\<lparr>dr_seats_available := dr_seats_available r - q\<rparr>)"
  obtain r where r: "tbl_find dr_date_id date_id (db_sales db) = Some r" and t: "t = restored_sales c r"
    using assms(2) by (auto simp: find_sales_def)
  let ?f = "moved_columns (current a) (date_sales_snapshot_of c r)"
  have saved: "db_sales y = tbl_update ?key ?f (db_sales x)"
    if "save_sales (with_root a t) x = Inr (s, y)" "distinct (map dr_date_id (db_sales x))" for x y s
    using that assms(3) save_versioned_Inr [of dr_date_id date_id dr_version "dr_version r" ?f "db_sales x"]
    by (auto simp: save_sales_def Let_def bindE_eq_Inr t restored_sales_def)
  obtain r0 where "r0 \<in> set (db_sales db)" "dr_date_id r0 = date_id" "dr_on_sale r0"
      "q \<le> dr_seats_available r0" "before_sales_end now r0"
    using take_seats_rows(2) [OF assms(4)] assms(5) by auto
  then have db1: "db_sales db1 = tbl_update ?key ?take (db_sales db)"
    using take_seats_rows(1) [OF assms(4), unfolded assms(5)]
      tbl_update_key_at [OF assms(1), of r0 "\<lambda>r. dr_date_id r = date_id \<and> dr_on_sale r \<and>
        q \<le> dr_seats_available r \<and> before_sales_end now r" ?take] by simp
  have "map dr_date_id (db_sales db1) = map dr_date_id (db_sales db)"
    unfolding db1 by (rule map_tbl_update_same) (simp add: one_more_move_def)
  with assms(1) have "distinct (map dr_date_id (db_sales db1))" by simp
  from saved [OF assms(7) this] saved [OF assms(6,1)] db1 show ?thesis
    by (auto simp: tbl_update_def one_more_move_def moved_columns_def sales_state_columns_of_def)
qed

theorem save_keeps_decrement_witness:
  "\<exists>t u u' db1 t3 db3. find_sales sample_core ''d'' (sample_stored 4) = Some t \<and>
     take_seats u 3 5 (sample_stored 4) = Inr (True, u', db1) \<and>
     save_sales t db1 = Inr (t3, db3) \<and> map dr_seats_available (db_sales db3) = [1]"
proof -
  let ?db = "sample_stored 4"
  obtain t where t: "find_sales sample_core ''d'' ?db = Some t" by (rule sample_loaded)
  have "case take_seats (the (find_sales sample_core ''d'' ?db)) 3 5 ?db of Inl _ \<Rightarrow> False | Inr x \<Rightarrow> fst x \<and>
      (case save_sales (the (find_sales sample_core ''d'' ?db)) (snd (snd x)) of Inl _ \<Rightarrow> False | Inr y \<Rightarrow> True) \<and>
      (case save_sales (the (find_sales sample_core ''d'' ?db)) ?db of
         Inl _ \<Rightarrow> False | Inr z \<Rightarrow> map dr_seats_available (db_sales (snd z)) = [4] \<and>
           map dr_date_id (db_sales (snd z)) = [''d''])"
    by code_simp
  then obtain x y z where x: "take_seats t 3 5 ?db = Inr x" "fst x" and y: "save_sales t (snd (snd x)) = Inr y"
    and z: "save_sales t ?db = Inr z" "map dr_seats_available (db_sales (snd z)) = [4]"
      "map dr_date_id (db_sales (snd z)) = [''d'']"
    unfolding t option.sel by (elim case_InrE conjE)
  obtain u' db1 t2 db2 t3 db3 where eqs: "x = (True, u', db1)" "y = (t3, db3)" "z = (t2, db2)"
    using x(2) by (cases x; cases y; cases z) auto
  have dist: "distinct (map dr_date_id (db_sales ?db))" by (simp add: sample_stored_def)
  have date: "ds_date_id (current (root t)) = ''d''"
    using t by (auto simp: find_sales_def sample_stored_def restored_sales_def date_sales_snapshot_of_def
        sales_row_of_def sales_state_columns_of_def open_sales_def)
  have same: "with_root (root t) t = t" by (simp add: with_root_def)
  have "db_sales db3 = tbl_update (\<lambda>r. dr_date_id r = ''d'')
      (\<lambda>r. one_more_move (r\<lparr>dr_seats_available := dr_seats_available r - 3\<rparr>)) (db_sales db2)"
    using save_keeps_decrement [OF dist t date x(1) [unfolded eqs] date, unfolded same,
        OF z(1) [unfolded eqs]] y [unfolded eqs] by simp
  with z eqs have "map dr_seats_available (db_sales db3) = [1]" by (auto simp: one_more_move_def)
  with t x(1) [unfolded eqs] y [unfolded eqs snd_conv] show ?thesis by (intro exI conjI)
qed

end
