(* ===== verification/Catalog_Core.thy ===== *)
theory Catalog_Core
  imports Core_Api
begin

text \<open>
  What \<open>apps/catalog\<close> takes from elsewhere: the vocabulary and the rules of \<open>@arthome/core\<close> its date
  commands call, as a record of functions, and the documented laws the theorems rely on. A rule that
  throws is an \<open>option\<close> or a sum of the failure.
\<close>

section \<open>Vocabulary\<close>

datatype publication_state =
    Pub_Draft | Pub_Reserve | Pub_Scheduled | Pub_Technical | Pub_Live | Pub_Ended | Pub_Replay_Online

datatype run_state = Run_Idle | Run_Rehearsal | Run_On_Air | Run_Interrupted | Run_State_Ended

datatype checklist_item =
    Item_Title_And_Discipline | Item_Poster | Item_Description | Item_At_Least_One_Active_Price
  | Item_Capacity | Item_Technical_Check_Passed | Item_Chat_Mode_Set

datatype publication_promise = Promise_Prices_Engaged | Promise_Replay_Sold

datatype rights_scope = Rights_Worldwide | Rights_Restricted

datatype blackout_reason = Blackout_Co_Production | Blackout_Broadcaster | Blackout_Festival

record territory_rights =
  tr_scope :: rights_scope
  tr_blackout_countries :: "string list"
  tr_reason :: "blackout_reason option"

record outcome_declaration =
  od_outcome :: date_outcome
  od_rescheduled_to :: "instant option"

record publication_transition_command =
  tc_to :: publication_state
  tc_expected_version :: int
  tc_acknowledged_promise :: "publication_promise option"

record publication_transition =
  pt_from :: publication_state
  pt_to :: publication_state
  pt_irreversible_promise :: "publication_promise option"

text \<open>A line of the publication's checklist, with the service that knows it.\<close>

datatype checklist_source = From_Catalog | From_Ticketing | From_Streaming | From_Chat

record checklist_entry =
  ce_item :: checklist_item
  ce_satisfied :: bool
  ce_source :: checklist_source
  ce_blocking :: bool

record date_timing =
  dt_starts_at :: instant
  dt_runtime_min :: int
  dt_room_opens_before_min :: int
  dt_replay_policy :: replay_policy
  dt_replay_window_hours :: int

record date_before_outcome =
  bo_outcome :: "date_outcome option"
  bo_postponements :: int
  bo_publication_state :: publication_state
  bo_timing :: date_timing

record replay_online_check =
  ro_state :: replay_state
  ro_asset_ready :: bool
  ro_closes_at :: instant
  ro_now :: instant

record wall_clock =
  wc_year :: int
  wc_month :: int
  wc_day :: int
  wc_hour :: int
  wc_minute :: int

section \<open>Failures\<close>

text \<open>
  What a date command throws: the refusals of its own rules with their parameters, a refusal of
  core's with its code, the two signals a consumer retries, a constraint of the database, or a plain
  \<open>Error\<close>.
\<close>

datatype catalog_failure =
    Transition_Forbidden publication_state publication_state
  | Checklist_Incomplete "checklist_item list"
  | Publication_Conflict int publication_state
  | Replay_Conflict int replay_state
  | Core_Refusal string
  | Catalog_Not_Found
  | Catalog_Schema_Invalid "string list"
  | Catalog_Conflict int
  | Artist_Slug_Taken
  | Run_Ended_Before_Started ident
  | Replay_Fact_Before_Run_Ended ident
  | Catalog_Constraint string
  | Catalog_Defect string

type_synonym 'a catalog_result = "catalog_failure + 'a"

section \<open>The functions called\<close>

text \<open>
  \<open>utc_offset_minutes\<close> is what \<open>Intl\<close> reads of a time zone at an instant, and \<open>is_known_time_zone\<close> whether it
  knows the zone (\<open>venues/venue-clock.ts\<close>). \<open>unaccented\<close> is the Unicode part of \<open>slugify\<close>: decomposed,
  its marks removed, lowercase, its ligatures spelt out.
\<close>

record catalog_core =
  assert_commanded_transition ::
    "publication_state \<Rightarrow> int \<Rightarrow> publication_transition_command \<Rightarrow> bool \<Rightarrow> publication_transition catalog_result"
  is_event_driven :: "publication_state \<Rightarrow> publication_state \<Rightarrow> bool"
  publication_readiness :: "checklist_item list \<Rightarrow> bool \<times> checklist_item list"
  readiness_entries :: "checklist_item list \<Rightarrow> checklist_entry list"
  order_rank_of :: "publication_state \<Rightarrow> int"
  next_publication_transitions :: "publication_state \<Rightarrow> bool \<Rightarrow> publication_transition list"
  assert_outcome_declarable ::
    "date_before_outcome \<Rightarrow> outcome_declaration \<Rightarrow> instant \<Rightarrow> catalog_failure option"
  room_opens_minutes_before :: int
  worldwide_rights :: territory_rights
  replay_closes_at :: "instant \<Rightarrow> int \<Rightarrow> instant"
  assert_replay_goes_online :: "replay_online_check option \<Rightarrow> catalog_failure option"
  creates_replay_on_live_end :: "replay_policy \<Rightarrow> int \<Rightarrow> date_outcome option \<Rightarrow> bool"
  outcome_withdraws_replay :: "date_outcome \<Rightarrow> bool"
  slug_redirect_days :: int
  wall_clock_at :: "instant \<Rightarrow> int \<Rightarrow> wall_clock"
  utc_offset_minutes :: "string \<Rightarrow> instant \<Rightarrow> int"
  is_known_time_zone :: "string \<Rightarrow> bool"
  unaccented :: "string \<Rightarrow> string"

section \<open>What is documented of them\<close>

definition not_yet_public :: "publication_state \<Rightarrow> bool" where
  "not_yet_public s \<longleftrightarrow> s = Pub_Draft \<or> s = Pub_Reserve"

text \<open>
  The transitions (HANDOVER 0g and 0h, data-model 2.3): a stale version is refused first; publishing
  leaves the draft or the reserve for \<open>scheduled\<close>, it alone engages the prices and it is one-way;
  \<open>replay_online\<close> is reached from \<open>ended\<close> alone; going on air and its end are learned, never commanded.
\<close>

definition transition_laws :: "catalog_core \<Rightarrow> bool" where
  "transition_laws c \<longleftrightarrow>
     (\<forall>s v cmd can t. assert_commanded_transition c s v cmd can = Inr t \<longrightarrow>
        v = tc_expected_version cmd \<and>
        (pt_irreversible_promise t = Some Promise_Prices_Engaged \<longleftrightarrow>
           not_yet_public s \<and> tc_to cmd = Pub_Scheduled) \<and>
        (not_yet_public s \<longrightarrow> not_yet_public (tc_to cmd) \<or> tc_to cmd = Pub_Scheduled) \<and>
        (\<not> not_yet_public s \<longrightarrow> \<not> not_yet_public (tc_to cmd)) \<and>
        (tc_to cmd = Pub_Replay_Online \<longrightarrow> s = Pub_Ended) \<and>
        (s = Pub_Ended \<longrightarrow> tc_to cmd = Pub_Replay_Online) \<and> s \<noteq> Pub_Replay_Online \<and> s \<noteq> Pub_Live \<and>
        tc_to cmd \<noteq> Pub_Live \<and> tc_to cmd \<noteq> Pub_Ended) \<and>
     (\<forall>s t. is_event_driven c s t \<longleftrightarrow> s = Pub_Technical \<and> t = Pub_Live \<or> s = Pub_Live \<and> t = Pub_Ended)"

text \<open>
  An outcome (HANDOVER 0c): on a public date, none after a cancellation or an interruption, and a new
  start with a postponement and only with one.
\<close>

definition outcome_laws :: "catalog_core \<Rightarrow> bool" where
  "outcome_laws c \<longleftrightarrow>
     (\<forall>b d now. assert_outcome_declarable c b d now = None \<longrightarrow>
        \<not> not_yet_public (bo_publication_state b) \<and>
        bo_outcome b \<noteq> Some Outcome_Cancelled \<and> bo_outcome b \<noteq> Some Outcome_Interrupted \<and>
        (od_outcome d = Outcome_Postponed \<longleftrightarrow> od_rescheduled_to d \<noteq> None))"

text \<open>A replay goes online from \<open>pending\<close>, its file ready, before its closing; none goes online without one.\<close>

definition replay_laws :: "catalog_core \<Rightarrow> bool" where
  "replay_laws c \<longleftrightarrow> assert_replay_goes_online c None \<noteq> None \<and>
     (\<forall>r. assert_replay_goes_online c (Some r) = None \<longrightarrow>
        ro_state r = Replay_Pending \<and> ro_asset_ready r \<and> ro_now r < ro_closes_at r)"

definition catalog_laws :: "catalog_core \<Rightarrow> bool" where
  "catalog_laws c \<longleftrightarrow> transition_laws c \<and> outcome_laws c \<and> replay_laws c"

lemma transition_lawsD:
  assumes "transition_laws c" and "assert_commanded_transition c s v cmd can = Inr t"
  shows "v = tc_expected_version cmd"
    and "pt_irreversible_promise t = Some Promise_Prices_Engaged \<longleftrightarrow> not_yet_public s \<and> tc_to cmd = Pub_Scheduled"
    and "not_yet_public s \<Longrightarrow> not_yet_public (tc_to cmd) \<or> tc_to cmd = Pub_Scheduled"
    and "\<not> not_yet_public s \<Longrightarrow> \<not> not_yet_public (tc_to cmd)"
    and "tc_to cmd = Pub_Replay_Online \<longleftrightarrow> s = Pub_Ended"
    and "s \<noteq> Pub_Replay_Online" and "s \<noteq> Pub_Live" and "tc_to cmd \<noteq> Pub_Live" and "tc_to cmd \<noteq> Pub_Ended"
  using assms unfolding transition_laws_def by blast+

lemma transition_laws_learned:
  "transition_laws c \<Longrightarrow> is_event_driven c s t \<longleftrightarrow>
     s = Pub_Technical \<and> t = Pub_Live \<or> s = Pub_Live \<and> t = Pub_Ended"
  unfolding transition_laws_def by blast

section \<open>A core that meets them\<close>

definition sample_transition :: "publication_state \<Rightarrow> publication_state \<Rightarrow> publication_promise option option" where
  "sample_transition s t =
     (case (s, t) of
        (Pub_Draft, Pub_Reserve) \<Rightarrow> Some None
      | (Pub_Reserve, Pub_Draft) \<Rightarrow> Some None
      | (Pub_Draft, Pub_Scheduled) \<Rightarrow> Some (Some Promise_Prices_Engaged)
      | (Pub_Reserve, Pub_Scheduled) \<Rightarrow> Some (Some Promise_Prices_Engaged)
      | (Pub_Scheduled, Pub_Technical) \<Rightarrow> Some None
      | (Pub_Technical, Pub_Scheduled) \<Rightarrow> Some None
      | (Pub_Ended, Pub_Replay_Online) \<Rightarrow> Some (Some Promise_Replay_Sold)
      | _ \<Rightarrow> None)"

definition sample_catalog_core :: catalog_core where
  "sample_catalog_core = \<lparr>
     assert_commanded_transition = (\<lambda>s v cmd can.
       if v \<noteq> tc_expected_version cmd then Inl (Publication_Conflict v s)
       else case sample_transition s (tc_to cmd) of
           None \<Rightarrow> Inl (Transition_Forbidden s (tc_to cmd))
         | Some p \<Rightarrow>
             if \<not> can \<or> (p \<noteq> None \<and> tc_acknowledged_promise cmd \<noteq> p) then Inl (Core_Refusal ''promise'')
             else Inr \<lparr>pt_from = s, pt_to = tc_to cmd, pt_irreversible_promise = p\<rparr>),
     is_event_driven = (\<lambda>s t. s = Pub_Technical \<and> t = Pub_Live \<or> s = Pub_Live \<and> t = Pub_Ended),
     publication_readiness = (\<lambda>satisfied.
       let missing = filter (\<lambda>i. i \<notin> set satisfied) [Item_Title_And_Discipline, Item_Poster, Item_Description,
         Item_At_Least_One_Active_Price, Item_Capacity] in (missing = [], missing)),
     readiness_entries = (\<lambda>satisfied. map (\<lambda>i. \<lparr>ce_item = i, ce_satisfied = i \<in> set satisfied,
       ce_source = From_Catalog, ce_blocking = True\<rparr>) [Item_Title_And_Discipline, Item_Poster]),
     order_rank_of = (\<lambda>s. if not_yet_public s then 0 else 1),
     next_publication_transitions = (\<lambda>s can.
       map (\<lambda>t. \<lparr>pt_from = s, pt_to = t, pt_irreversible_promise = the (sample_transition s t)\<rparr>)
         (filter (\<lambda>t. sample_transition s t \<noteq> None) [Pub_Draft, Pub_Reserve, Pub_Scheduled, Pub_Technical, Pub_Replay_Online])),
     assert_outcome_declarable = (\<lambda>b d now.
       if not_yet_public (bo_publication_state b) \<or> bo_outcome b = Some Outcome_Cancelled \<or>
          bo_outcome b = Some Outcome_Interrupted then Some (Core_Refusal ''state.conflict'')
       else if (od_outcome d = Outcome_Postponed) \<noteq> (od_rescheduled_to d \<noteq> None)
       then Some (Core_Refusal ''api.schema_invalid'')
       else if bo_postponements b \<ge> 3 \<and> od_outcome d = Outcome_Postponed
       then Some (Core_Refusal ''date.postponement_limit_reached'') else None),
     room_opens_minutes_before = 30,
     worldwide_rights = \<lparr>tr_scope = Rights_Worldwide, tr_blackout_countries = [], tr_reason = None\<rparr>,
     replay_closes_at = (\<lambda>ended hours. ended + hours * 3600000),
     assert_replay_goes_online = (\<lambda>r. case r of
         None \<Rightarrow> Some (Core_Refusal ''date.replay_unavailable'')
       | Some x \<Rightarrow> if ro_state x = Replay_Pending \<and> ro_now x < ro_closes_at x then
           (if ro_asset_ready x then None else Some (Core_Refusal ''date.replay_asset_not_ready''))
         else Some (Core_Refusal ''date.replay_unavailable'')),
     creates_replay_on_live_end = (\<lambda>policy hours outcome.
       policy \<noteq> Policy_None \<and> 0 < hours \<and> outcome \<noteq> Some Outcome_Cancelled \<and> outcome \<noteq> Some Outcome_Interrupted),
     outcome_withdraws_replay = (\<lambda>o'. o' \<noteq> Outcome_Postponed),
     slug_redirect_days = 30,
     wall_clock_at = (\<lambda>at offset. \<lparr>wc_year = 2026, wc_month = 1 + at div 2592000000 mod 12,
       wc_day = 1 + at div 86400000 mod 28, wc_hour = at div 3600000 mod 24, wc_minute = at div 60000 mod 60\<rparr>),
     utc_offset_minutes = (\<lambda>_ _. 60), is_known_time_zone = (\<lambda>z. z \<noteq> []), unaccented = (\<lambda>s. s)\<rparr>"

lemma sample_catalog_laws: "catalog_laws sample_catalog_core"
proof -
  have "transition_laws sample_catalog_core"
    by (auto simp: transition_laws_def sample_catalog_core_def sample_transition_def not_yet_public_def
        split: if_splits option.splits publication_state.splits)
  moreover have "outcome_laws sample_catalog_core"
    by (auto simp: outcome_laws_def sample_catalog_core_def split: if_splits)
  moreover have "replay_laws sample_catalog_core"
    by (auto simp: replay_laws_def sample_catalog_core_def split: if_splits)
  ultimately show ?thesis by (simp add: catalog_laws_def)
qed

end
