(* ===== verification/Performance_Date.thy ===== *)
theory Performance_Date
  imports Catalog_Core Transactions
begin

text \<open>
  \<open>PerformanceDate\<close>, catalog's date with the \<open>Publication\<close> it owns
  (\<open>apps/catalog/src/dates/performance-date.aggregate.ts\<close>, \<open>publication.ts\<close>): one aggregate, one
  version, the publication's. Publishing makes the date public once; an outcome may postpone it,
  cancel it or end it; going on air and its end are learned from streaming.
\<close>

section \<open>State\<close>

record outcome_message =
  om_content_language :: string
  om_text :: string

record performance_date_snapshot =
  pd_id :: ident
  pd_show_id :: ident
  pd_venue_id :: ident
  pd_channel_id :: ident
  pd_starts_at :: instant
  pd_runtime_min :: int
  pd_replay_policy :: replay_policy
  pd_replay_window_hours :: "int option"
  pd_rights :: territory_rights
  pd_slug :: "string option"
  pd_postponements :: int
  pd_outcome :: "date_outcome option"
  pd_rescheduled_to :: "instant option"
  pd_outcome_declared_at :: "instant option"
  pd_outcome_message :: "outcome_message option"

record publication_snapshot =
  pb_date_id :: ident
  pb_channel_id :: ident
  pb_state :: publication_state
  pb_version :: int
  pb_published_at :: "instant option"
  pb_prices_locked_at :: "instant option"
  pb_replay_online_at :: "instant option"

text \<open>The aggregate's two rows.\<close>

record performance_date_state =
  of_date :: performance_date_snapshot
  of_publication :: publication_snapshot

section \<open>Events\<close>

record public_date_facts =
  pf_date_id :: ident
  pf_channel_id :: ident
  pf_show_id :: ident
  pf_venue_id :: ident
  pf_starts_at :: instant
  pf_runtime_min :: int
  pf_replay_policy :: replay_policy
  pf_replay_window_hours :: "int option"
  pf_rights :: territory_rights
  pf_slug :: string

datatype performance_date_event =
    DateDrafted ident ident ident ident instant
  | DateScheduled public_date_facts instant
  | DateOutcomeDeclared ident ident date_outcome outcome_message "instant option" instant
  | DateRescheduled ident ident instant instant string string instant
  | PublicationStateChanged ident ident publication_state publication_state int bool instant
  | PublicationEngaged ident ident instant

type_synonym performance_date = "(performance_date_state, performance_date_event) aggregate"

section \<open>The publication\<close>

definition draft_publication :: "ident \<Rightarrow> ident \<Rightarrow> publication_snapshot" where
  "draft_publication date_id channel_id = \<lparr>pb_date_id = date_id, pb_channel_id = channel_id, pb_state = Pub_Draft,
     pb_version = 1, pb_published_at = None, pb_prices_locked_at = None, pb_replay_online_at = None\<rparr>"

definition publication_advanced_from :: "int \<Rightarrow> publication_snapshot \<Rightarrow> publication_snapshot catalog_result" where
  "publication_advanced_from expected p =
     (if pb_version p \<noteq> expected then Inl (Publication_Conflict (pb_version p) (pb_state p))
      else Inr (p\<lparr>pb_version := pb_version p + 1\<rparr>))"

definition publication_learned ::
    "catalog_core \<Rightarrow> publication_state \<Rightarrow> instant \<Rightarrow> publication_snapshot
       \<Rightarrow> (publication_snapshot \<times> performance_date_event) catalog_result" where
  "publication_learned c to now p =
     (if \<not> is_event_driven c (pb_state p) to then Inl (Transition_Forbidden (pb_state p) to)
      else Inr (p\<lparr>pb_state := to, pb_version := pb_version p + 1\<rparr>,
        PublicationStateChanged (pb_date_id p) (pb_channel_id p) (pb_state p) to (pb_version p + 1) False now))"

definition first_of :: "'a option \<Rightarrow> 'a \<Rightarrow> 'a option" where
  "first_of was now = (case was of None \<Rightarrow> Some now | Some x \<Rightarrow> Some x)"

definition publication_transitioned ::
    "catalog_core \<Rightarrow> publication_transition_command \<Rightarrow> checklist_item list \<Rightarrow> instant \<Rightarrow> publication_snapshot
       \<Rightarrow> (publication_snapshot \<times> performance_date_event \<times> performance_date_event option) catalog_result" where
  "publication_transitioned c cmd satisfied now p =
     bindE (assert_commanded_transition c (pb_state p) (pb_version p) cmd True) (\<lambda>transition.
     let publishing = (pt_irreversible_promise transition = Some Promise_Prices_Engaged) in
     bindE (if publishing then
              (case publication_readiness c satisfied of
                 (ready, missing) \<Rightarrow> ensure ready (Checklist_Incomplete missing))
            else Inr ()) (\<lambda>_.
     Inr (p\<lparr>pb_state := tc_to cmd, pb_version := pb_version p + 1,
            pb_published_at := (if publishing then first_of (pb_published_at p) now else pb_published_at p),
            pb_prices_locked_at :=
              (if publishing then first_of (pb_prices_locked_at p) now else pb_prices_locked_at p),
            pb_replay_online_at := (if tc_to cmd = Pub_Replay_Online then Some now else pb_replay_online_at p)\<rparr>,
          PublicationStateChanged (pb_date_id p) (pb_channel_id p) (pb_state p) (tc_to cmd) (pb_version p + 1)
            (pt_irreversible_promise transition \<noteq> None) now,
          if publishing then Some (PublicationEngaged (pb_date_id p) (pb_channel_id p) now) else None)))"

section \<open>The date\<close>

record date_draft =
  dd_id :: ident
  dd_show_id :: ident
  dd_venue_id :: ident
  dd_channel_id :: ident
  dd_starts_at :: instant
  dd_runtime_min :: int
  dd_replay_policy :: replay_policy
  dd_replay_window_hours :: "int option"

record publication_context =
  px_satisfied :: "checklist_item list"
  px_free_slug :: "string option"
  px_show_runtime_min :: int
  px_now :: instant

definition public_facts_of :: "performance_date_snapshot \<Rightarrow> string \<Rightarrow> public_date_facts" where
  "public_facts_of d slug = \<lparr>pf_date_id = pd_id d, pf_channel_id = pd_channel_id d, pf_show_id = pd_show_id d,
     pf_venue_id = pd_venue_id d, pf_starts_at = pd_starts_at d, pf_runtime_min = pd_runtime_min d,
     pf_replay_policy = pd_replay_policy d, pf_replay_window_hours = pd_replay_window_hours d,
     pf_rights = pd_rights d, pf_slug = slug\<rparr>"

definition draft_date :: "catalog_core \<Rightarrow> date_draft \<Rightarrow> instant \<Rightarrow> performance_date" where
  "draft_date c d now =
     apply_event (DateDrafted (dd_id d) (dd_channel_id d) (dd_show_id d) (dd_venue_id d) now)
       (restore \<lparr>of_date = \<lparr>pd_id = dd_id d, pd_show_id = dd_show_id d, pd_venue_id = dd_venue_id d,
            pd_channel_id = dd_channel_id d, pd_starts_at = dd_starts_at d, pd_runtime_min = dd_runtime_min d,
            pd_replay_policy = dd_replay_policy d, pd_replay_window_hours = dd_replay_window_hours d,
            pd_rights = worldwide_rights c, pd_slug = None, pd_postponements = 0, pd_outcome = None,
            pd_rescheduled_to = None, pd_outcome_declared_at = None, pd_outcome_message = None\<rparr>,
          of_publication = draft_publication (dd_id d) (dd_channel_id d)\<rparr>)"

definition made_public ::
    "publication_context \<Rightarrow> publication_state \<Rightarrow> publication_state \<Rightarrow> performance_date_snapshot
       \<Rightarrow> (performance_date_snapshot \<times> string) catalog_result" where
  "made_public x from to d =
     (if pd_slug d \<noteq> None then Inl (Transition_Forbidden from to)
      else case px_free_slug x of
          None \<Rightarrow> Inl (Catalog_Defect ''publishing a date without its free slug'')
        | Some slug \<Rightarrow> Inr (d\<lparr>pd_slug := Some slug, pd_runtime_min := px_show_runtime_min x\<rparr>, slug))"

definition transition_publication ::
    "catalog_core \<Rightarrow> publication_transition_command \<Rightarrow> publication_context \<Rightarrow> performance_date
       \<Rightarrow> performance_date catalog_result" where
  "transition_publication c cmd x a =
     (let s = current a; p = of_publication s in
      bindE (publication_transitioned c cmd (px_satisfied x) (px_now x) p) (\<lambda>(p', changed, engaged).
      case engaged of
        None \<Rightarrow> Inr (apply_event changed (a\<lparr>current := s\<lparr>of_publication := p'\<rparr>\<rparr>))
      | Some e \<Rightarrow>
          bindE (made_public x (pb_state p) (tc_to cmd) (of_date s)) (\<lambda>(d, slug).
          Inr (apply_event e (apply_event (DateScheduled (public_facts_of d slug) (px_now x))
            (apply_event changed (a\<lparr>current := \<lparr>of_date = d, of_publication = p'\<rparr>\<rparr>)))))))"

definition RUN_ALREADY_STARTED :: "publication_state set" where
  "RUN_ALREADY_STARTED = {Pub_Live, Pub_Ended, Pub_Replay_Online}"

definition RUN_ALREADY_ENDED :: "publication_state set" where
  "RUN_ALREADY_ENDED = {Pub_Ended, Pub_Replay_Online}"

definition learn_publication_state ::
    "catalog_core \<Rightarrow> publication_state \<Rightarrow> instant \<Rightarrow> performance_date \<Rightarrow> performance_date catalog_result" where
  "learn_publication_state c to now a =
     (let s = current a in
      bindE (publication_learned c to now (of_publication s)) (\<lambda>(p, changed).
      Inr (apply_event changed (a\<lparr>current := s\<lparr>of_publication := p\<rparr>\<rparr>))))"

text \<open>With whether the date moved.\<close>

definition learn_run_started ::
    "catalog_core \<Rightarrow> instant \<Rightarrow> performance_date \<Rightarrow> (performance_date \<times> bool) catalog_result" where
  "learn_run_started c now a =
     (if pb_state (of_publication (current a)) \<in> RUN_ALREADY_STARTED then Inr (a, False)
      else bindE (learn_publication_state c Pub_Live now a) (\<lambda>b. Inr (b, True)))"

definition learn_run_ended ::
    "catalog_core \<Rightarrow> instant \<Rightarrow> performance_date \<Rightarrow> (performance_date \<times> bool) catalog_result" where
  "learn_run_ended c now a =
     (let state = pb_state (of_publication (current a)) in
      if state \<in> RUN_ALREADY_ENDED then Inr (a, False)
      else if state = Pub_Technical then Inl (Run_Ended_Before_Started (pd_id (of_date (current a))))
      else bindE (learn_publication_state c Pub_Ended now a) (\<lambda>b. Inr (b, True)))"

definition before_outcome_of :: "catalog_core \<Rightarrow> performance_date_snapshot \<Rightarrow> publication_state \<Rightarrow> date_before_outcome" where
  "before_outcome_of c d state = \<lparr>bo_outcome = pd_outcome d, bo_postponements = pd_postponements d,
     bo_publication_state = state,
     bo_timing = \<lparr>dt_starts_at = pd_starts_at d, dt_runtime_min = pd_runtime_min d,
       dt_room_opens_before_min = room_opens_minutes_before c, dt_replay_policy = pd_replay_policy d,
       dt_replay_window_hours = (case pd_replay_window_hours d of None \<Rightarrow> 0 | Some h \<Rightarrow> h)\<rparr>\<rparr>"

definition declare_outcome ::
    "catalog_core \<Rightarrow> int \<Rightarrow> outcome_declaration \<Rightarrow> outcome_message \<Rightarrow> string option \<Rightarrow> instant \<Rightarrow> performance_date
       \<Rightarrow> performance_date catalog_result" where
  "declare_outcome c expected decl message slug_at_new_start now a =
     (let s = current a; d = of_date s in
      bindE (publication_advanced_from expected (of_publication s)) (\<lambda>p.
      bindE (assertE (assert_outcome_declarable c (before_outcome_of c d (pb_state p)) decl now)) (\<lambda>_.
      case pd_slug d of
        None \<Rightarrow> Inl (Catalog_Defect ''date is public without a slug'')
      | Some previous_slug \<Rightarrow>
          bindE (case (od_rescheduled_to decl, slug_at_new_start) of
              (None, _) \<Rightarrow> Inr previous_slug
            | (Some _, None) \<Rightarrow> Inl (Catalog_Defect ''a postponement without its new slug'')
            | (Some _, Some slug) \<Rightarrow> Inr slug) (\<lambda>slug.
          let moved_to = od_rescheduled_to decl;
              d' = d\<lparr>pd_outcome := Some (od_outcome decl), pd_rescheduled_to := moved_to,
                pd_outcome_declared_at := Some now, pd_outcome_message := Some message,
                pd_starts_at := (case moved_to of None \<Rightarrow> pd_starts_at d | Some t \<Rightarrow> t),
                pd_slug := Some slug,
                pd_postponements := pd_postponements d + (if moved_to = None then 0 else 1)\<rparr>;
              a1 = apply_event (DateOutcomeDeclared (pd_id d) (pd_channel_id d) (od_outcome decl) message moved_to now)
                (a\<lparr>current := \<lparr>of_date = d', of_publication = p\<rparr>\<rparr>)
          in Inr (case moved_to of
                None \<Rightarrow> a1
              | Some t \<Rightarrow> apply_event (DateRescheduled (pd_id d) (pd_show_id d) (pd_starts_at d) t previous_slug slug now)
                  a1)))))"

section \<open>Runs of commands\<close>

datatype date_command =
    Transition_Publication publication_transition_command publication_context
  | Run_Started instant
  | Run_Ended instant
  | Declare_Outcome int outcome_declaration outcome_message "string option" instant

fun date_step :: "catalog_core \<Rightarrow> date_command \<Rightarrow> performance_date \<Rightarrow> performance_date catalog_result" where
  "date_step c (Transition_Publication cmd x) a = transition_publication c cmd x a"
| "date_step c (Run_Started now) a = bindE (learn_run_started c now a) (\<lambda>(b, _). Inr b)"
| "date_step c (Run_Ended now) a = bindE (learn_run_ended c now a) (\<lambda>(b, _). Inr b)"
| "date_step c (Declare_Outcome v decl m slug now) a = declare_outcome c v decl m slug now a"

section \<open>What each command does\<close>

lemma publication_transitioned_Inr:
  assumes "publication_transitioned c cmd satisfied now p = Inr (p', changed, engaged)"
  obtains t where "assert_commanded_transition c (pb_state p) (pb_version p) cmd True = Inr t"
    and "engaged = (if pt_irreversible_promise t = Some Promise_Prices_Engaged
      then Some (PublicationEngaged (pb_date_id p) (pb_channel_id p) now) else None)"
    and "engaged \<noteq> None \<Longrightarrow> fst (publication_readiness c satisfied)"
    and "changed = PublicationStateChanged (pb_date_id p) (pb_channel_id p) (pb_state p) (tc_to cmd) (pb_version p + 1)
      (pt_irreversible_promise t \<noteq> None) now"
    and "p' = p\<lparr>pb_state := tc_to cmd, pb_version := pb_version p + 1,
      pb_published_at := (if engaged = None then pb_published_at p else first_of (pb_published_at p) now),
      pb_prices_locked_at := (if engaged = None then pb_prices_locked_at p else first_of (pb_prices_locked_at p) now),
      pb_replay_online_at := (if tc_to cmd = Pub_Replay_Online then Some now else pb_replay_online_at p)\<rparr>"
  using assms
  by (auto simp: publication_transitioned_def Let_def result_simps case_prod_beta split: if_splits)

lemma transition_publication_Inr:
  assumes "transition_publication c cmd x a = Inr b"
  obtains (kept) p' changed where
      "publication_transitioned c cmd (px_satisfied x) (px_now x) (of_publication (current a)) = Inr (p', changed, None)"
      "current b = (current a)\<lparr>of_publication := p'\<rparr>" "uncommitted b = uncommitted a @ [changed]"
  | (published) p' changed e slug d where
      "publication_transitioned c cmd (px_satisfied x) (px_now x) (of_publication (current a)) = Inr (p', changed, Some e)"
      "px_free_slug x = Some slug" "pd_slug (of_date (current a)) = None"
      "d = (of_date (current a))\<lparr>pd_slug := Some slug, pd_runtime_min := px_show_runtime_min x\<rparr>"
      "current b = \<lparr>of_date = d, of_publication = p'\<rparr>"
      "uncommitted b = uncommitted a @ [changed, DateScheduled (public_facts_of d slug) (px_now x), e]"
proof -
  obtain p' changed engaged where run: "publication_transitioned c cmd (px_satisfied x) (px_now x)
      (of_publication (current a)) = Inr (p', changed, engaged)"
    using assms by (auto simp: transition_publication_def Let_def result_simps)
  show thesis
  proof (cases engaged)
    case None
    with assms run show thesis by (intro kept [of p' changed]) (auto simp: transition_publication_def Let_def)
  next
    case (Some e)
    with assms run published [of p' changed e] show thesis
      by (auto simp: transition_publication_def made_public_def Let_def result_simps split: option.splits if_splits)
  qed
qed

lemma learn_publication_state_Inr:
  assumes "learn_publication_state c to now a = Inr b"
  shows "is_event_driven c (pb_state (of_publication (current a))) to \<and>
    current b = (current a)\<lparr>of_publication := (of_publication (current a))\<lparr>pb_state := to,
      pb_version := pb_version (of_publication (current a)) + 1\<rparr>\<rparr> \<and>
    (\<exists>i ch s v. uncommitted b = uncommitted a @ [PublicationStateChanged i ch s to v False now])"
  using assms
  by (auto simp: learn_publication_state_def publication_learned_def Let_def result_simps split: if_splits)

lemma learn_run_Inr:
  "learn_run_started c now a = Inr (b, moved) \<Longrightarrow> \<not> moved \<and> b = a \<or> moved \<and> learn_publication_state c Pub_Live now a = Inr b"
  "learn_run_ended c now a = Inr (b, moved) \<Longrightarrow> \<not> moved \<and> b = a \<or> moved \<and> learn_publication_state c Pub_Ended now a = Inr b"
  by (auto simp: learn_run_started_def learn_run_ended_def Let_def result_simps split: if_splits)

lemma declare_outcome_Inr:
  assumes "declare_outcome c v decl m new_slug now a = Inr b"
  obtains previous slug where "pb_version (of_publication (current a)) = v"
    and "assert_outcome_declarable c (before_outcome_of c (of_date (current a)) (pb_state (of_publication (current a))))
      decl now = None"
    and "pd_slug (of_date (current a)) = Some previous"
    and "slug = (if od_rescheduled_to decl = None then previous else slug)"
    and "od_rescheduled_to decl \<noteq> None \<Longrightarrow> new_slug = Some slug"
    and "current b = \<lparr>of_date = (of_date (current a))\<lparr>pd_outcome := Some (od_outcome decl),
        pd_rescheduled_to := od_rescheduled_to decl, pd_outcome_declared_at := Some now, pd_outcome_message := Some m,
        pd_starts_at := (case od_rescheduled_to decl of None \<Rightarrow> pd_starts_at (of_date (current a)) | Some t \<Rightarrow> t),
        pd_slug := Some slug, pd_postponements := pd_postponements (of_date (current a)) +
          (if od_rescheduled_to decl = None then 0 else 1)\<rparr>,
      of_publication = (of_publication (current a))\<lparr>pb_version := pb_version (of_publication (current a)) + 1\<rparr>\<rparr>"
    and "uncommitted b = uncommitted a @ DateOutcomeDeclared (pd_id (of_date (current a)))
        (pd_channel_id (of_date (current a))) (od_outcome decl) m (od_rescheduled_to decl) now #
      (case od_rescheduled_to decl of None \<Rightarrow> [] | Some t \<Rightarrow> [DateRescheduled (pd_id (of_date (current a)))
        (pd_show_id (of_date (current a))) (pd_starts_at (of_date (current a))) t previous slug now])"
  using assms
  by (auto simp: declare_outcome_def publication_advanced_from_def Let_def result_simps
      split: option.splits if_splits)

lemma date_step_version:
  assumes "date_step c cmd a = Inr b"
  shows "pb_version (of_publication (current b)) = pb_version (of_publication (current a)) \<or>
      pb_version (of_publication (current b)) = pb_version (of_publication (current a)) + 1"
    and "\<exists>es. uncommitted b = uncommitted a @ es"
  using assms
proof (atomize (full), cases cmd)
  case (Transition_Publication tc x)
  then have "transition_publication c tc x a = Inr b" using assms by simp
  then show "(pb_version (of_publication (current b)) = pb_version (of_publication (current a)) \<or>
      pb_version (of_publication (current b)) = pb_version (of_publication (current a)) + 1) \<and>
      (\<exists>es. uncommitted b = uncommitted a @ es)"
    by (cases rule: transition_publication_Inr) (auto elim!: publication_transitioned_Inr)
next
  case (Declare_Outcome v decl m slug now)
  then have "declare_outcome c v decl m slug now a = Inr b" using assms by simp
  then show "(pb_version (of_publication (current b)) = pb_version (of_publication (current a)) \<or>
      pb_version (of_publication (current b)) = pb_version (of_publication (current a)) + 1) \<and>
      (\<exists>es. uncommitted b = uncommitted a @ es)"
    by (rule declare_outcome_Inr) simp
qed (use assms in \<open>auto simp: result_simps dest!: learn_run_Inr learn_publication_state_Inr\<close>)

interpretation performance_date: versioned_aggregate "date_step c" "\<lambda>s. pb_version (of_publication s)" for c
  by unfold_locales (fact date_step_version)+

section \<open>The date's invariant\<close>

text \<open>
  A date is public from its publication on: it holds a slug, says when it was published and locked its
  prices then. Its replay's going online is dated while it is online. A postponement, and only one,
  says where it moved the date, which starts then; an outcome comes with its instant and message.
\<close>

definition date_wf :: "performance_date_state \<Rightarrow> bool" where
  "date_wf s \<longleftrightarrow> (let d = of_date s; p = of_publication s in
     pb_date_id p = pd_id d \<and> pb_channel_id p = pd_channel_id d \<and> 1 \<le> pb_version p \<and>
     (pd_slug d = None \<longleftrightarrow> not_yet_public (pb_state p)) \<and>
     (pb_published_at p = None \<longleftrightarrow> not_yet_public (pb_state p)) \<and> pb_prices_locked_at p = pb_published_at p \<and>
     (pb_replay_online_at p \<noteq> None \<longleftrightarrow> pb_state p = Pub_Replay_Online) \<and>
     (pd_outcome d = Some Outcome_Postponed \<longleftrightarrow> pd_rescheduled_to d \<noteq> None) \<and>
     (case pd_rescheduled_to d of None \<Rightarrow> True | Some t \<Rightarrow> pd_starts_at d = t) \<and>
     (pd_outcome d \<noteq> None \<longrightarrow> pd_slug d \<noteq> None) \<and>
     (pd_outcome_declared_at d \<noteq> None \<longleftrightarrow> pd_outcome d \<noteq> None) \<and>
     (pd_outcome_message d \<noteq> None \<longleftrightarrow> pd_outcome d \<noteq> None) \<and> 0 \<le> pd_postponements d)"

lemma draft_date_wf: "date_wf (current (draft_date c d now))"
  by (simp add: date_wf_def draft_date_def draft_publication_def not_yet_public_def Let_def)

text \<open>A move of the publication alone, within the drafts or within the public states.\<close>

lemma publication_moved_wf:
  assumes "date_wf s" and "not_yet_public to = not_yet_public (pb_state (of_publication s))"
    and "at \<noteq> None \<longleftrightarrow> to = Pub_Replay_Online"
  shows "date_wf (s\<lparr>of_publication := (of_publication s)\<lparr>pb_state := to,
    pb_version := pb_version (of_publication s) + 1, pb_replay_online_at := at\<rparr>\<rparr>)"
  using assms by (simp add: date_wf_def Let_def)

lemma date_wf_replay_online: "date_wf s \<Longrightarrow> pb_replay_online_at (of_publication s) \<noteq> None \<longleftrightarrow>
    pb_state (of_publication s) = Pub_Replay_Online"
  by (simp add: date_wf_def Let_def)

lemma transition_publication_wf:
  assumes laws: "transition_laws c" and run: "transition_publication c cmd x a = Inr b" and wf: "date_wf (current a)"
  shows "date_wf (current b)"
  using run
proof (cases rule: transition_publication_Inr)
  case (kept p' changed)
  let ?p = "of_publication (current a)"
  obtain t where t: "assert_commanded_transition c (pb_state ?p) (pb_version ?p) cmd True = Inr t"
    and kind: "pt_irreversible_promise t \<noteq> Some Promise_Prices_Engaged"
    and p': "p' = ?p\<lparr>pb_state := tc_to cmd, pb_version := pb_version ?p + 1,
      pb_replay_online_at := (if tc_to cmd = Pub_Replay_Online then Some (px_now x) else pb_replay_online_at ?p)\<rparr>"
    using kept(1) by (rule publication_transitioned_Inr) (simp split: if_splits)
  note law = transition_lawsD [OF laws t]
  have "not_yet_public (tc_to cmd) = not_yet_public (pb_state ?p)" using law(2,3,4) kind by blast
  moreover have "tc_to cmd \<noteq> Pub_Replay_Online \<Longrightarrow> pb_replay_online_at ?p = None"
    using date_wf_replay_online [OF wf] law(6) by blast
  ultimately show ?thesis
    unfolding kept(2) p' by (intro publication_moved_wf [OF wf]) auto
next
  case (published p' changed e slug d)
  from published(1) show ?thesis
  proof (rule publication_transitioned_Inr)
    fix t assume t: "assert_commanded_transition c (pb_state (of_publication (current a)))
        (pb_version (of_publication (current a))) cmd True = Inr t"
      and e: "Some e = (if pt_irreversible_promise t = Some Promise_Prices_Engaged
        then Some (PublicationEngaged (pb_date_id (of_publication (current a)))
          (pb_channel_id (of_publication (current a))) (px_now x)) else None)"
      and p': "p' = (of_publication (current a))\<lparr>pb_state := tc_to cmd,
        pb_version := pb_version (of_publication (current a)) + 1,
        pb_published_at := (if Some e = None then pb_published_at (of_publication (current a))
          else first_of (pb_published_at (of_publication (current a))) (px_now x)),
        pb_prices_locked_at := (if Some e = None then pb_prices_locked_at (of_publication (current a))
          else first_of (pb_prices_locked_at (of_publication (current a))) (px_now x)),
        pb_replay_online_at := (if tc_to cmd = Pub_Replay_Online then Some (px_now x)
          else pb_replay_online_at (of_publication (current a)))\<rparr>"
    have "not_yet_public (pb_state (of_publication (current a)))" "tc_to cmd = Pub_Scheduled"
      using e transition_lawsD(2) [OF laws t] by (auto split: if_splits)
    with wf p' published show ?thesis
      by (auto simp: date_wf_def Let_def not_yet_public_def first_of_def)
  qed
qed

lemma declare_outcome_wf:
  assumes laws: "outcome_laws c" and run: "declare_outcome c v decl m slug now a = Inr b" and wf: "date_wf (current a)"
  shows "date_wf (current b)"
  using run
proof (rule declare_outcome_Inr)
  fix previous slug'
  assume ok: "assert_outcome_declarable c (before_outcome_of c (of_date (current a))
      (pb_state (of_publication (current a)))) decl now = None"
    and b: "current b = \<lparr>of_date = (of_date (current a))\<lparr>pd_outcome := Some (od_outcome decl),
        pd_rescheduled_to := od_rescheduled_to decl, pd_outcome_declared_at := Some now, pd_outcome_message := Some m,
        pd_starts_at := (case od_rescheduled_to decl of None \<Rightarrow> pd_starts_at (of_date (current a)) | Some t \<Rightarrow> t),
        pd_slug := Some slug', pd_postponements := pd_postponements (of_date (current a)) +
          (if od_rescheduled_to decl = None then 0 else 1)\<rparr>,
      of_publication = (of_publication (current a))\<lparr>pb_version := pb_version (of_publication (current a)) + 1\<rparr>\<rparr>"
  have "\<not> not_yet_public (pb_state (of_publication (current a)))"
    "od_outcome decl = Outcome_Postponed \<longleftrightarrow> od_rescheduled_to decl \<noteq> None"
    using laws ok unfolding outcome_laws_def by (force simp: before_outcome_of_def)+
  with wf show ?thesis by (auto simp: date_wf_def Let_def b split: option.splits)
qed

lemma learn_publication_state_wf:
  assumes laws: "transition_laws c" and run: "learn_publication_state c to now a = Inr b" and wf: "date_wf (current a)"
  shows "date_wf (current b)"
proof -
  let ?p = "of_publication (current a)"
  have to: "pb_state ?p = Pub_Technical \<and> to = Pub_Live \<or> pb_state ?p = Pub_Live \<and> to = Pub_Ended"
    and b: "current b = (current a)\<lparr>of_publication := ?p\<lparr>pb_state := to, pb_version := pb_version ?p + 1,
      pb_replay_online_at := pb_replay_online_at ?p\<rparr>\<rparr>"
    using learn_publication_state_Inr [OF run] transition_laws_learned [OF laws] by auto
  show ?thesis unfolding b
    by (rule publication_moved_wf [OF wf])
      (use to date_wf_replay_online [OF wf] in \<open>auto simp: not_yet_public_def\<close>)
qed

lemma date_step_wf:
  assumes "transition_laws c" and "outcome_laws c" and "date_step c cmd a = Inr b" and "date_wf (current a)"
  shows "date_wf (current b)"
  using assms learn_publication_state_wf [OF assms(1)]
  by (cases cmd) (auto simp: result_simps dest!: learn_run_Inr intro: transition_publication_wf declare_outcome_wf)

section \<open>Published once\<close>

text \<open>The events that say a date is public and what it engaged.\<close>

fun publishes :: "performance_date_event \<Rightarrow> bool" where
  "publishes (DateScheduled _ _) = True"
| "publishes (PublicationEngaged _ _ _) = True"
| "publishes _ = False"

definition published_as :: "performance_date \<Rightarrow> bool" where
  "published_as a \<longleftrightarrow> (let d = of_date (current a); es = filter publishes (uncommitted a) in
     case pb_published_at (of_publication (current a)) of
       None \<Rightarrow> es = []
     | Some t \<Rightarrow> \<exists>f. pf_date_id f = pd_id d \<and>
         es = [DateScheduled f t, PublicationEngaged (pd_id d) (pd_channel_id d) t])"

lemma published_as_same:
  assumes "published_as a" and "filter publishes (uncommitted b) = filter publishes (uncommitted a)"
    and "pb_published_at (of_publication (current b)) = pb_published_at (of_publication (current a))"
    and "pd_id (of_date (current b)) = pd_id (of_date (current a))"
    and "pd_channel_id (of_date (current b)) = pd_channel_id (of_date (current a))"
  shows "published_as b"
  using assms by (simp add: published_as_def Let_def split: option.splits)

lemma transition_published_as:
  assumes laws: "transition_laws c" and run: "transition_publication c cmd x a = Inr b"
    and wf: "date_wf (current a)" and pub: "published_as a"
  shows "published_as b"
  using run
proof (cases rule: transition_publication_Inr)
  case (kept p' changed)
  from kept(1) show ?thesis
    by (rule publication_transitioned_Inr) (rule published_as_same [OF pub], use kept in simp_all)
next
  case (published p' changed e slug d)
  let ?p = "of_publication (current a)"
  obtain t where t: "assert_commanded_transition c (pb_state ?p) (pb_version ?p) cmd True = Inr t"
    and kind: "pt_irreversible_promise t = Some Promise_Prices_Engaged"
    and e: "e = PublicationEngaged (pb_date_id ?p) (pb_channel_id ?p) (px_now x)"
    and changed: "\<not> publishes changed" and p': "pb_published_at p' = first_of (pb_published_at ?p) (px_now x)"
    using published(1) by (rule publication_transitioned_Inr) (auto split: if_splits)
  have none: "pb_published_at ?p = None" and ids: "pb_date_id ?p = pd_id d" "pb_channel_id ?p = pd_channel_id d"
    using transition_lawsD(2) [OF laws t] kind wf by (auto simp: date_wf_def Let_def published(4))
  moreover have "filter publishes (uncommitted a) = []" using pub none by (simp add: published_as_def Let_def)
  moreover have "pf_date_id (public_facts_of d slug) = pd_id d" by (simp add: public_facts_of_def)
  ultimately show ?thesis
    using published(5,6) changed p' e by (auto simp: published_as_def Let_def first_of_def)
qed

lemma date_step_published_as:
  assumes "transition_laws c" and run: "date_step c cmd a = Inr b" and wf: "date_wf (current a)" and pub: "published_as a"
  shows "published_as b"
proof (cases cmd)
  case (Transition_Publication tc x)
  with assms transition_published_as show ?thesis by simp
next
  case (Declare_Outcome v decl m slug now)
  with run have "declare_outcome c v decl m slug now a = Inr b" by simp
  then show ?thesis
    by (rule declare_outcome_Inr) (rule published_as_same [OF pub], simp_all split: option.splits)
qed (use run pub in \<open>auto simp: result_simps elim!: published_as_same
    dest!: learn_run_Inr learn_publication_state_Inr\<close>)

text \<open>
  Property C24. A date is published once, and what its publication engages follows its public facts:
  whatever commands a draft went through, it holds a slug and its prices are locked exactly from its
  publication on, its outcome, its move and their instants agree, and of all its events one
  \<open>DateScheduled\<close> at most says it is public, at the instant the publication keeps, directly followed among
  the publishing events by the one \<open>PublicationEngaged\<close>.
\<close>

theorem date_published_once:
  assumes "transition_laws c" and "outcome_laws c"
    and "foldE (date_step c) cmds (draft_date c d now) = Inr a"
  shows "date_wf (current a) \<and> published_as a"
  using assms(3)
proof (rule foldE_invariant [where P = "\<lambda>x. date_wf (current x) \<and> published_as x"])
  have "pb_published_at (of_publication (current (draft_date c d now))) = None"
    "filter publishes (uncommitted (draft_date c d now)) = []"
    by (simp_all add: draft_date_def draft_publication_def)
  then have "published_as (draft_date c d now)" by (simp add: published_as_def Let_def)
  with draft_date_wf show "date_wf (current (draft_date c d now)) \<and> published_as (draft_date c d now)" by blast
next
  fix cmd x x' assume "date_wf (current x) \<and> published_as x" and "date_step c cmd x = Inr x'"
  with date_step_wf [OF assms(1,2)] date_step_published_as [OF assms(1)]
  show "date_wf (current x') \<and> published_as x'" by blast
qed

definition sample_date_draft :: date_draft where
  "sample_date_draft = \<lparr>dd_id = ''d'', dd_show_id = ''s'', dd_venue_id = ''v'', dd_channel_id = ''ch'',
     dd_starts_at = 100000000, dd_runtime_min = 90, dd_replay_policy = Policy_Included,
     dd_replay_window_hours = Some 72\<rparr>"

definition sample_context :: "instant \<Rightarrow> publication_context" where
  "sample_context now = \<lparr>px_satisfied = [Item_Title_And_Discipline, Item_Poster, Item_Description,
       Item_At_Least_One_Active_Price, Item_Capacity],
     px_free_slug = Some ''2026-01-02'', px_show_runtime_min = 95, px_now = now\<rparr>"

definition sample_date_commands :: "date_command list" where
  "sample_date_commands =
     [Transition_Publication \<lparr>tc_to = Pub_Scheduled, tc_expected_version = 1,
        tc_acknowledged_promise = Some Promise_Prices_Engaged\<rparr> (sample_context 10),
      Declare_Outcome 2 \<lparr>od_outcome = Outcome_Postponed, od_rescheduled_to = Some 200000000\<rparr>
        \<lparr>om_content_language = ''fr'', om_text = ''m''\<rparr> (Some ''2026-01-03'') 20,
      Transition_Publication \<lparr>tc_to = Pub_Technical, tc_expected_version = 3, tc_acknowledged_promise = None\<rparr>
        (sample_context 30),
      Run_Started 40, Run_Ended 50]"

theorem date_published_once_witness:
  "\<exists>a. foldE (date_step sample_catalog_core) sample_date_commands (draft_date sample_catalog_core sample_date_draft 5) =
       Inr a \<and> pb_state (of_publication (current a)) = Pub_Ended \<and> pd_starts_at (of_date (current a)) = 200000000 \<and>
     pb_prices_locked_at (of_publication (current a)) = Some 10 \<and> published_as a"
proof -
  have "case foldE (date_step sample_catalog_core) sample_date_commands (draft_date sample_catalog_core sample_date_draft 5)
      of Inl _ \<Rightarrow> False | Inr a \<Rightarrow> pb_state (of_publication (current a)) = Pub_Ended \<and>
        pd_starts_at (of_date (current a)) = 200000000 \<and> pb_prices_locked_at (of_publication (current a)) = Some 10"
    by code_simp
  then obtain a where a: "foldE (date_step sample_catalog_core) sample_date_commands
      (draft_date sample_catalog_core sample_date_draft 5) = Inr a"
    "pb_state (of_publication (current a)) = Pub_Ended" "pd_starts_at (of_date (current a)) = 200000000"
    "pb_prices_locked_at (of_publication (current a)) = Some 10" by (elim case_InrE conjE)
  moreover have "transition_laws sample_catalog_core" "outcome_laws sample_catalog_core"
    using sample_catalog_laws by (simp_all add: catalog_laws_def)
  ultimately show ?thesis using date_published_once [OF _ _ a(1)] by blast
qed

end
