(* ===== verification/Catalog_Replay.thy ===== *)
theory Catalog_Replay
  imports Catalog_Core Transactions
begin

text \<open>
  \<open>Replay\<close>, an aggregate of its own keyed by its date (\<open>apps/catalog/src/replays/replay.aggregate.ts\<close>):
  opened pending by the live's end, its file learned once, put online by the studio, closed or
  withdrawn for good.
\<close>

record replay_snapshot =
  rp_date_id :: ident
  rp_channel_id :: ident
  rp_state :: replay_state
  rp_policy :: replay_policy
  rp_live_ended_at :: instant
  rp_closes_at :: instant
  rp_asset_duration_sec :: "int option"
  rp_asset_ready_at :: "instant option"
  rp_online_at :: "instant option"
  rp_closed_at :: "instant option"
  rp_withdrawn_at :: "instant option"
  rp_version :: int

record replay_state_changed =
  rc_date_id :: ident
  rc_channel_id :: ident
  rc_from :: "replay_state option"
  rc_to :: replay_state
  rc_version :: int
  rc_policy :: replay_policy
  rc_live_ended_at :: instant
  rc_closes_at :: instant
  rc_online_at :: "instant option"
  rc_duration_sec :: "int option"
  rc_occurred_at :: instant

type_synonym replay = "(replay_snapshot, replay_state_changed) aggregate"

record replay_opening =
  rg_date_id :: ident
  rg_channel_id :: ident
  rg_policy :: replay_policy
  rg_live_ended_at :: instant
  rg_window_hours :: int

definition STILL_OPEN :: "replay_state set" where
  "STILL_OPEN = {Replay_Pending, Replay_Online}"

definition replay_changed_of :: "replay_state option \<Rightarrow> instant \<Rightarrow> replay_snapshot \<Rightarrow> replay_state_changed" where
  "replay_changed_of from now s = \<lparr>rc_date_id = rp_date_id s, rc_channel_id = rp_channel_id s, rc_from = from,
     rc_to = rp_state s, rc_version = rp_version s, rc_policy = rp_policy s, rc_live_ended_at = rp_live_ended_at s,
     rc_closes_at = rp_closes_at s, rc_online_at = rp_online_at s,
     rc_duration_sec = (if rp_online_at s \<noteq> None then rp_asset_duration_sec s else None), rc_occurred_at = now\<rparr>"

definition open_replay :: "catalog_core \<Rightarrow> replay_opening \<Rightarrow> instant \<Rightarrow> replay" where
  "open_replay c g now =
     (let s = \<lparr>rp_date_id = rg_date_id g, rp_channel_id = rg_channel_id g, rp_state = Replay_Pending,
            rp_policy = rg_policy g, rp_live_ended_at = rg_live_ended_at g,
            rp_closes_at = replay_closes_at c (rg_live_ended_at g) (rg_window_hours g),
            rp_asset_duration_sec = None, rp_asset_ready_at = None, rp_online_at = None, rp_closed_at = None,
            rp_withdrawn_at = None, rp_version = 1\<rparr>
      in apply_event (replay_changed_of None now s) (restore s))"

text \<open>With whether it moved.\<close>

definition learn_asset_ready :: "int \<Rightarrow> instant \<Rightarrow> replay \<Rightarrow> replay \<times> bool" where
  "learn_asset_ready duration_sec available_from a =
     (let s = current a in
      if rp_state s \<notin> STILL_OPEN \<or> rp_asset_ready_at s \<noteq> None then (a, False)
      else (a\<lparr>current := s\<lparr>rp_asset_duration_sec := Some duration_sec, rp_asset_ready_at := Some available_from,
              rp_version := rp_version s + 1\<rparr>\<rparr>, True))"

definition replay_move_to ::
    "replay_state \<Rightarrow> (replay_snapshot \<Rightarrow> replay_snapshot) \<Rightarrow> instant \<Rightarrow> replay \<Rightarrow> replay" where
  "replay_move_to to stamp now a =
     (let s = current a; s' = (stamp s)\<lparr>rp_state := to, rp_version := rp_version s + 1\<rparr>
      in apply_event (replay_changed_of (Some (rp_state s)) now s') (a\<lparr>current := s'\<rparr>))"

definition replay_go_online :: "catalog_core \<Rightarrow> instant \<Rightarrow> replay \<Rightarrow> replay catalog_result" where
  "replay_go_online c now a =
     (let s = current a in
      bindE (assertE (assert_replay_goes_online c (Some \<lparr>ro_state = rp_state s,
               ro_asset_ready = (rp_asset_ready_at s \<noteq> None), ro_closes_at = rp_closes_at s, ro_now = now\<rparr>))) (\<lambda>_.
      Inr (replay_move_to Replay_Online (\<lambda>s. s\<lparr>rp_online_at := Some now\<rparr>) now a)))"

definition replay_close :: "instant \<Rightarrow> replay \<Rightarrow> replay \<times> bool" where
  "replay_close now a =
     (if rp_state (current a) \<notin> STILL_OPEN then (a, False)
      else (replay_move_to Replay_Closed (\<lambda>s. s\<lparr>rp_closed_at := Some now\<rparr>) now a, True))"

definition replay_withdraw :: "instant \<Rightarrow> replay \<Rightarrow> replay \<times> bool" where
  "replay_withdraw now a =
     (if rp_state (current a) \<notin> STILL_OPEN then (a, False)
      else (replay_move_to Replay_Withdrawn (\<lambda>s. s\<lparr>rp_withdrawn_at := Some now\<rparr>) now a, True))"

section \<open>Runs of commands\<close>

datatype replay_command =
    Asset_Ready int instant
  | Go_Online instant
  | Close_Replay instant
  | Withdraw_Replay instant

fun replay_step :: "catalog_core \<Rightarrow> replay_command \<Rightarrow> replay \<Rightarrow> replay catalog_result" where
  "replay_step c (Asset_Ready n t) a = Inr (fst (learn_asset_ready n t a))"
| "replay_step c (Go_Online now) a = replay_go_online c now a"
| "replay_step c (Close_Replay now) a = Inr (fst (replay_close now a))"
| "replay_step c (Withdraw_Replay now) a = Inr (fst (replay_withdraw now a))"

lemma replay_moves_version:
  "rp_version (current (fst (learn_asset_ready n t a))) = rp_version (current a) \<or>
    rp_version (current (fst (learn_asset_ready n t a))) = rp_version (current a) + 1"
  "rp_version (current (fst (replay_close now a))) = rp_version (current a) \<or>
    rp_version (current (fst (replay_close now a))) = rp_version (current a) + 1"
  "rp_version (current (fst (replay_withdraw now a))) = rp_version (current a) \<or>
    rp_version (current (fst (replay_withdraw now a))) = rp_version (current a) + 1"
  "rp_version (current (replay_move_to to (\<lambda>s. s\<lparr>rp_online_at := t'\<rparr>) now a)) = rp_version (current a) + 1"
  by (simp_all add: learn_asset_ready_def replay_close_def replay_withdraw_def replay_move_to_def Let_def)

lemma replay_moves_events:
  "\<exists>es. uncommitted (fst (learn_asset_ready n t a)) = uncommitted a @ es"
  "\<exists>es. uncommitted (fst (replay_close now a)) = uncommitted a @ es"
  "\<exists>es. uncommitted (fst (replay_withdraw now a)) = uncommitted a @ es"
  "\<exists>es. uncommitted (replay_move_to to stamp now a) = uncommitted a @ es"
  by (simp_all add: learn_asset_ready_def replay_close_def replay_withdraw_def replay_move_to_def Let_def)

lemma replay_go_online_move:
  "replay_go_online c now a = Inr b \<Longrightarrow> b = replay_move_to Replay_Online (\<lambda>s. s\<lparr>rp_online_at := Some now\<rparr>) now a"
  by (simp add: replay_go_online_def Let_def result_simps)

interpretation replay: versioned_aggregate "replay_step c" rp_version for c
proof
  fix cmd and a a' :: replay
  assume step: "replay_step c cmd a = Inr a'"
  show "rp_version (current a') = rp_version (current a) \<or> rp_version (current a') = rp_version (current a) + 1"
  proof (cases cmd)
    case (Go_Online now)
    with step replay_go_online_move have "a' = replay_move_to Replay_Online (\<lambda>s. s\<lparr>rp_online_at := Some now\<rparr>) now a"
      by simp
    then show ?thesis by (simp add: replay_moves_version(4))
  next
    case (Asset_Ready n t)
    with step have "a' = fst (learn_asset_ready n t a)" by simp
    with replay_moves_version(1) show ?thesis by blast
  next
    case (Close_Replay now)
    with step have "a' = fst (replay_close now a)" by simp
    with replay_moves_version(2) show ?thesis by blast
  next
    case (Withdraw_Replay now)
    with step have "a' = fst (replay_withdraw now a)" by simp
    with replay_moves_version(3) show ?thesis by blast
  qed
  show "\<exists>es. uncommitted a' = uncommitted a @ es"
    using step replay_moves_events by (cases cmd) (auto dest!: replay_go_online_move)
qed

section \<open>The replay's invariant\<close>

text \<open>
  A replay says when it went online exactly when it did, and then its file is ready; closed and
  withdrawn are dated and exclude each other; its file comes with its duration.
\<close>

definition replay_wf :: "replay_snapshot \<Rightarrow> bool" where
  "replay_wf s \<longleftrightarrow> 1 \<le> rp_version s \<and>
     (rp_asset_duration_sec s = None \<longleftrightarrow> rp_asset_ready_at s = None) \<and>
     (rp_online_at s \<noteq> None \<longrightarrow> rp_asset_ready_at s \<noteq> None \<and> rp_state s \<noteq> Replay_Pending) \<and>
     (rp_state s = Replay_Online \<longrightarrow> rp_online_at s \<noteq> None) \<and>
     (rp_closed_at s \<noteq> None \<longleftrightarrow> rp_state s = Replay_Closed) \<and>
     (rp_withdrawn_at s \<noteq> None \<longleftrightarrow> rp_state s = Replay_Withdrawn)"

lemma open_replay_wf: "replay_wf (current (open_replay c g now))"
  by (simp add: replay_wf_def open_replay_def Let_def)

lemma replay_go_online_Inr:
  assumes "replay_laws c" and "replay_go_online c now a = Inr b"
  shows "rp_state (current a) = Replay_Pending" and "rp_asset_ready_at (current a) \<noteq> None"
    and "now < rp_closes_at (current a)"
    and "b = replay_move_to Replay_Online (\<lambda>s. s\<lparr>rp_online_at := Some now\<rparr>) now a"
proof -
  let ?x = "\<lparr>ro_state = rp_state (current a), ro_asset_ready = (rp_asset_ready_at (current a) \<noteq> None),
    ro_closes_at = rp_closes_at (current a), ro_now = now\<rparr>"
  have ok: "assert_replay_goes_online c (Some ?x) = None"
    and b: "b = replay_move_to Replay_Online (\<lambda>s. s\<lparr>rp_online_at := Some now\<rparr>) now a"
    using assms(2) by (simp_all add: replay_go_online_def Let_def result_simps)
  have "ro_state ?x = Replay_Pending \<and> ro_asset_ready ?x \<and> ro_now ?x < ro_closes_at ?x"
    using assms(1) ok unfolding replay_laws_def by blast
  then show "rp_state (current a) = Replay_Pending" "rp_asset_ready_at (current a) \<noteq> None"
    "now < rp_closes_at (current a)" by simp_all
  show "b = replay_move_to Replay_Online (\<lambda>s. s\<lparr>rp_online_at := Some now\<rparr>) now a" by (fact b)
qed

lemma replay_moves_wf:
  assumes "replay_wf (current a)"
  shows "replay_wf (current (fst (learn_asset_ready n t a)))"
    and "replay_wf (current (fst (replay_close now a)))"
    and "replay_wf (current (fst (replay_withdraw now a)))"
    and "rp_state (current a) = Replay_Pending \<Longrightarrow> rp_asset_ready_at (current a) \<noteq> None \<Longrightarrow>
      replay_wf (current (replay_move_to Replay_Online (\<lambda>s. s\<lparr>rp_online_at := Some now\<rparr>) now a))"
  using assms
  by (simp_all add: replay_wf_def learn_asset_ready_def replay_close_def replay_withdraw_def replay_move_to_def
      STILL_OPEN_def Let_def)

lemma replay_step_wf:
  assumes laws: "replay_laws c" and "replay_step c cmd a = Inr b" and "replay_wf (current a)"
  shows "replay_wf (current b)"
proof (cases cmd)
  case (Go_Online now)
  with assms(2) have "replay_go_online c now a = Inr b" by simp
  note online = replay_go_online_Inr [OF laws this]
  show ?thesis unfolding online(4) by (rule replay_moves_wf(4) [OF assms(3) online(1,2)])
qed (use assms(2) replay_moves_wf(1-3) [OF assms(3)] in auto)

text \<open>Closed or withdrawn, a replay never moves again.\<close>

lemma replay_ended_stays:
  assumes laws: "replay_laws c" and run: "foldE (replay_step c) cmds a = Inr b"
    and over: "rp_state (current a) \<notin> STILL_OPEN"
  shows "b = a"
  using run
proof (rule foldE_invariant [where P = "\<lambda>x. x = a"])
  fix cmd x x' assume "x = a" and "replay_step c cmd x = Inr x'"
  with over replay_go_online_Inr(1) [OF laws] show "x' = a"
    by (cases cmd) (auto simp: learn_asset_ready_def replay_close_def replay_withdraw_def STILL_OPEN_def Let_def)
qed simp

text \<open>
  Property C27. A replay moves forward only: whatever a replay goes through from its opening, it stays
  consistent, its closing is the one computed at the opening, it went online before that closing and
  with its file, and once closed or withdrawn no command moves it.
\<close>

theorem replay_forward_only:
  assumes "replay_laws c"
    and "foldE (replay_step c) cmds (open_replay c g now) = Inr a"
    and "foldE (replay_step c) later a = Inr b"
  shows "replay_wf (current a) \<and>
    rp_closes_at (current b) = replay_closes_at c (rg_live_ended_at g) (rg_window_hours g) \<and>
    (case rp_online_at (current a) of None \<Rightarrow> True | Some t \<Rightarrow> t < rp_closes_at (current a)) \<and>
    (if rp_state (current a) \<in> {Replay_Closed, Replay_Withdrawn} then b = a else True)"
proof -
  let ?close = "replay_closes_at c (rg_live_ended_at g) (rg_window_hours g)"
  define P where "P x \<longleftrightarrow> replay_wf (current x) \<and> rp_closes_at (current x) = ?close \<and>
    (case rp_online_at (current x) of None \<Rightarrow> True | Some t \<Rightarrow> t < rp_closes_at (current x))" for x :: replay
  have step: "P y" if "P x" "replay_step c cmd x = Inr y" for cmd x y
  proof (cases cmd)
    case (Go_Online t)
    with that(2) have "replay_go_online c t x = Inr y" by simp
    from replay_go_online_Inr [OF assms(1) this] replay_step_wf [OF assms(1) that(2)] that(1) show ?thesis
      by (auto simp: P_def replay_move_to_def Let_def)
  qed (use that replay_step_wf [OF assms(1) that(2)] in \<open>auto simp: P_def learn_asset_ready_def
      replay_close_def replay_withdraw_def replay_move_to_def Let_def split: option.splits if_splits\<close>)
  have "P (open_replay c g now)" using open_replay_wf by (simp add: P_def open_replay_def Let_def)
  with assms(2) have a: "P a" by (rule foldE_invariant) (use step in blast)
  with assms(3) have b: "P b" by (rule foldE_invariant) (use step in blast)
  have "b = a" if "rp_state (current a) \<in> {Replay_Closed, Replay_Withdrawn}"
    using replay_ended_stays [OF assms(1,3)] that by (auto simp: STILL_OPEN_def)
  with a b show ?thesis by (auto simp: P_def)
qed

definition sample_opening_of_replay :: replay_opening where
  "sample_opening_of_replay = \<lparr>rg_date_id = ''d'', rg_channel_id = ''ch'', rg_policy = Policy_Included,
     rg_live_ended_at = 1000, rg_window_hours = 72\<rparr>"

theorem replay_forward_only_witness:
  "\<exists>a. foldE (replay_step sample_catalog_core) [Asset_Ready 5400 2000, Go_Online 3000, Withdraw_Replay 4000]
       (open_replay sample_catalog_core sample_opening_of_replay 1000) = Inr a \<and>
     rp_state (current a) = Replay_Withdrawn \<and> rp_online_at (current a) = Some 3000 \<and>
     rp_closes_at (current a) = 259201000 \<and>
     foldE (replay_step sample_catalog_core) [Asset_Ready 10 5000, Close_Replay 6000] a = Inr a"
proof -
  have "case foldE (replay_step sample_catalog_core) [Asset_Ready 5400 2000, Go_Online 3000, Withdraw_Replay 4000]
      (open_replay sample_catalog_core sample_opening_of_replay 1000) of
      Inl _ \<Rightarrow> False
    | Inr a \<Rightarrow> rp_state (current a) = Replay_Withdrawn \<and> rp_online_at (current a) = Some 3000 \<and>
        (case foldE (replay_step sample_catalog_core) [Asset_Ready 10 5000, Close_Replay 6000] a of
           Inl _ \<Rightarrow> False | Inr b \<Rightarrow> True)"
    by code_simp
  then obtain a b where a: "foldE (replay_step sample_catalog_core)
      [Asset_Ready 5400 2000, Go_Online 3000, Withdraw_Replay 4000]
      (open_replay sample_catalog_core sample_opening_of_replay 1000) = Inr a"
      "rp_state (current a) = Replay_Withdrawn" "rp_online_at (current a) = Some 3000"
    and b: "foldE (replay_step sample_catalog_core) [Asset_Ready 10 5000, Close_Replay 6000] a = Inr b"
    by (elim case_InrE conjE)
  have laws: "replay_laws sample_catalog_core" using sample_catalog_laws by (simp add: catalog_laws_def)
  from replay_forward_only [OF laws a(1) b] a b show ?thesis
    by (auto simp: sample_catalog_core_def sample_opening_of_replay_def)
qed

end
