(* ===== verification/Catalog_Tables.thy ===== *)
theory Catalog_Tables
  imports Performance_Date Catalog_Replay
begin

text \<open>
  Catalog's tables as far as its date commands use them, the repositories of the date and of its
  replay, the slugs a date may take, and what a date's events leave beside the aggregates: the slugs a
  move retired, the public page's row, the outbox rows (\<open>apps/catalog/src/dates\<close>, \<open>public\<close>,
  \<open>replays\<close>). A row's columns are the snapshot's fields, its instants included, so the date's, the
  publication's and the replay's rows are their snapshots.
\<close>

section \<open>Rows\<close>

record bilingual =
  bl_fr :: string
  bl_en :: string

text \<open>The renditions of each format, whose fields the commands only copy.\<close>

record media_set =
  ms_wide :: "string list"
  ms_poster :: "string list"

record show_row =
  sw_id :: ident
  sw_slug :: string
  sw_channel_id :: ident
  sw_artist_id :: ident
  sw_category_id :: string
  sw_genre_ids :: "string list"
  sw_tag_ids :: "string list"
  sw_runtime_min :: int
  sw_language_dependency :: string
  sw_spoken_languages :: "string list"
  sw_subtitle_languages :: "string list"
  sw_surtitle_languages :: "string list"
  sw_media :: media_set
  sw_title :: bilingual
  sw_synopsis :: bilingual

record venue_row =
  ve_id :: ident
  ve_name :: string
  ve_city :: string
  ve_country :: string
  ve_time_zone :: string

record localized_copy =
  lc_content_language :: string
  lc_text :: string

record artist_row =
  ar_id :: ident
  ar_channel_id :: ident
  ar_public_name :: string
  ar_slug :: string
  ar_biography :: "localized_copy list"
  ar_category_id :: string
  ar_version :: int

record checklist_fact_row =
  cf_date_id :: ident
  cf_item :: checklist_item
  cf_satisfied :: bool
  cf_occurred_at :: instant

datatype link_kind = Link_Show | Link_Date | Link_Artist

record slug_alias_row =
  al_kind :: link_kind
  al_scope :: string
  al_slug :: string
  al_target_id :: ident
  al_expires_at :: instant

record date_detail_public =
  pu_date_id :: ident
  pu_show_id :: ident
  pu_channel_id :: ident
  pu_venue_id :: ident
  pu_venue_name :: string
  pu_venue_city :: string
  pu_venue_country :: string
  pu_venue_timezone :: string
  pu_starts_at :: instant
  pu_runtime_min :: int
  pu_replay_policy :: replay_policy
  pu_replay_window_hours :: int
  pu_rights :: territory_rights
  pu_show_slug :: string
  pu_slug :: string
  pu_publication_state :: publication_state
  pu_outcome :: "date_outcome option"
  pu_artist_name :: "string option"
  pu_rescheduled_to :: "instant option"
  pu_replay_state :: "replay_state option"
  pu_replay_closes_at :: "instant option"
  pu_replay_online_at :: "instant option"
  pu_replay_duration_sec :: "int option"
  pu_artist_id :: ident
  pu_category_id :: string
  pu_genre_ids :: "string list"
  pu_tag_ids :: "string list"
  pu_language_dependency :: string
  pu_spoken_languages :: "string list"
  pu_subtitle_languages :: "string list"
  pu_surtitle_languages :: "string list"
  pu_media :: media_set
  pu_title :: bilingual
  pu_synopsis :: bilingual
  pu_version :: int

section \<open>Integration events\<close>

datatype catalog_event_type =
    Type_Date_Drafted | Type_Date_Scheduled | Type_Publication_State_Changed | Type_Publication_Engaged
  | Type_Date_Outcome_Declared | Type_Date_Rescheduled | Type_Replay_State_Changed
  | Type_Show_Published | Type_Show_Updated | Type_Artist_Updated

datatype publication_engagement = Engaged_Prices | Engaged_Replay | Engaged_Chat_Mode

record date_scheduled_message =
  dm_facts :: public_date_facts
  dm_venue_timezone :: string
  dm_venue_utc_offset_min :: int
  dm_canonical_url :: string
  dm_show_slug :: string
  dm_venue_city :: string
  dm_venue_country :: string
  dm_occurred_at :: instant

record date_rescheduled_message =
  rm_date_id :: ident
  rm_previous_starts_at :: instant
  rm_new_starts_at :: instant
  rm_venue_timezone :: string
  rm_venue_utc_offset_min :: int
  rm_new_slug :: string
  rm_new_canonical_url :: string
  rm_occurred_at :: instant

text \<open>\<open>ShowPublished\<close> and \<open>ShowUpdated\<close> carry copy as one text per language that has some.\<close>

record show_published_message =
  sm_show_id :: ident
  sm_slug :: string
  sm_channel_id :: ident
  sm_artist_id :: ident
  sm_category_id :: string
  sm_genre_ids :: "string list"
  sm_tag_ids :: "string list"
  sm_runtime_min :: int
  sm_language_dependency :: string
  sm_spoken_languages :: "string list"
  sm_subtitle_languages :: "string list"
  sm_surtitle_languages :: "string list"
  sm_media :: media_set
  sm_title :: "localized_copy list"
  sm_synopsis :: "localized_copy list"
  sm_occurred_at :: instant

record show_updated_message =
  um_show_id :: ident
  um_genre_ids :: "string list"
  um_tag_ids :: "string list"
  um_language_dependency :: string
  um_media :: media_set
  um_title :: "localized_copy list"
  um_synopsis :: "localized_copy list"
  um_occurred_at :: instant

datatype catalog_payload =
    Payload_Date_Drafted ident ident ident ident instant
  | Payload_Date_Scheduled date_scheduled_message
  | Payload_Date_Outcome_Declared ident ident date_outcome outcome_message "instant option" instant
  | Payload_Date_Rescheduled date_rescheduled_message
  | Payload_Publication_State_Changed ident ident publication_state publication_state int bool instant
  | Payload_Publication_Engaged ident ident "publication_engagement list" instant
  | Payload_Replay_State_Changed replay_state_changed
  | Payload_Show_Published show_published_message
  | Payload_Show_Updated show_updated_message
  | Payload_Artist_Updated artist_row instant

record catalog_outbox_row =
  co_type :: catalog_event_type
  co_key :: ident
  co_payload :: catalog_payload
  co_traceparent :: "string option"
  co_created_at :: instant

record catalog_db =
  cd_shows :: "show_row list"
  cd_venues :: "venue_row list"
  cd_artists :: "artist_row list"
  cd_dates :: "performance_date_snapshot list"
  cd_publications :: "publication_snapshot list"
  cd_replays :: "replay_snapshot list"
  cd_checklist :: "checklist_fact_row list"
  cd_aliases :: "slug_alias_row list"
  cd_public :: "date_detail_public list"
  cd_outbox :: "catalog_outbox_row list"
  cd_processed :: "ident list"

section \<open>Repositories\<close>

type_synonym tracked_date = "(performance_date_state, performance_date_event) tracked"
type_synonym tracked_replay = "(replay_snapshot, replay_state_changed) tracked"

text \<open>\<open>saveVersioned\<close> with the conflict's own parameters.\<close>

definition save_conditioned ::
    "('r \<Rightarrow> bool) \<Rightarrow> ('r \<Rightarrow> int) \<Rightarrow> int \<Rightarrow> 'r \<Rightarrow> ('r \<Rightarrow> catalog_failure) \<Rightarrow> 'r list \<Rightarrow> 'r list catalog_result" where
  "save_conditioned key version loaded_version row conflict t =
     (let found = (\<lambda>r. key r \<and> version r = loaded_version) in
      if tbl_affected found t = 1 then Inr (tbl_update found (\<lambda>_. row) t)
      else case find key t of
          None \<Rightarrow> Inl (Catalog_Defect ''EntityNotFoundError'')
        | Some cur \<Rightarrow> Inl (conflict cur))"

definition date_slug_taken :: "performance_date_snapshot \<Rightarrow> performance_date_snapshot list \<Rightarrow> bool" where
  "date_slug_taken d t \<longleftrightarrow> pd_slug d \<noteq> None \<and>
     list_ex (\<lambda>r. pd_id r \<noteq> pd_id d \<and> pd_show_id r = pd_show_id d \<and> pd_slug r = pd_slug d) t"

definition find_date :: "ident \<Rightarrow> catalog_db \<Rightarrow> tracked_date option catalog_result" where
  "find_date date_id db =
     (case tbl_find pb_date_id date_id (cd_publications db) of
        None \<Rightarrow> Inr None
      | Some p \<Rightarrow>
          (case tbl_find pd_id date_id (cd_dates db) of
             None \<Rightarrow> Inl (Catalog_Defect ''EntityNotFoundError'')
           | Some d \<Rightarrow> Inr (Some (loaded (restore \<lparr>of_date = d, of_publication = p\<rparr>) (pb_version p)))))"

definition save_date :: "tracked_date \<Rightarrow> catalog_db \<Rightarrow> (tracked_date \<times> catalog_db) catalog_result" where
  "save_date t db =
     (let d = of_date (current (root t)); p = of_publication (current (root t)) in
      bindE (case version_of t of
          None \<Rightarrow>
            bindE (ensure (pd_id d \<notin> pd_id ` set (cd_dates db)) (Catalog_Constraint ''date_pkey'')) (\<lambda>_.
            bindE (ensure (\<not> date_slug_taken d (cd_dates db)) (Catalog_Constraint ''date_show_slug'')) (\<lambda>_.
            bindE (ensure (pb_date_id p \<notin> pb_date_id ` set (cd_publications db))
                     (Catalog_Constraint ''publication_pkey'')) (\<lambda>_.
            Inr (db\<lparr>cd_dates := cd_dates db @ [d], cd_publications := cd_publications db @ [p]\<rparr>))))
        | Some v \<Rightarrow>
            bindE (save_conditioned (\<lambda>r. pb_date_id r = pd_id d) pb_version v p
                     (\<lambda>cur. Publication_Conflict (pb_version cur) (pb_state cur)) (cd_publications db)) (\<lambda>ps.
            if map_option of_date (stored t) = Some d then Inr (db\<lparr>cd_publications := ps\<rparr>)
            else bindE (ensure (\<not> date_slug_taken d (cd_dates db)) (Catalog_Constraint ''date_show_slug'')) (\<lambda>_.
              Inr (db\<lparr>cd_publications := ps,
                 cd_dates := tbl_update (\<lambda>r. pd_id r = pd_id d) (\<lambda>_. d) (cd_dates db)\<rparr>)))) (\<lambda>db1.
      Inr (written (pb_version p) t, db1)))"

definition find_replay :: "ident \<Rightarrow> catalog_db \<Rightarrow> tracked_replay option" where
  "find_replay date_id db =
     map_option (\<lambda>r. loaded (restore r) (rp_version r)) (tbl_find rp_date_id date_id (cd_replays db))"

text \<open>The checks of the \<open>replay\<close> table.\<close>

definition replay_check :: "replay_snapshot \<Rightarrow> bool" where
  "replay_check r \<longleftrightarrow>
     (case rp_asset_duration_sec r of None \<Rightarrow> True | Some n \<Rightarrow> 0 \<le> n) \<and> 1 \<le> rp_version r \<and>
     (rp_state r = Replay_Online \<longrightarrow> rp_online_at r \<noteq> None) \<and>
     (rp_state r = Replay_Pending \<longrightarrow> rp_online_at r = None) \<and>
     (rp_state r = Replay_Online \<longrightarrow> rp_asset_ready_at r \<noteq> None) \<and>
     (rp_closed_at r \<noteq> None) = (rp_state r = Replay_Closed) \<and>
     (rp_withdrawn_at r \<noteq> None) = (rp_state r = Replay_Withdrawn)"

definition save_replay :: "tracked_replay \<Rightarrow> catalog_db \<Rightarrow> (tracked_replay \<times> catalog_db) catalog_result" where
  "save_replay t db =
     (let s = current (root t) in
      bindE (ensure (replay_check s) (Catalog_Constraint ''replay'')) (\<lambda>_.
      bindE (case version_of t of
          None \<Rightarrow>
            bindE (ensure (rp_date_id s \<notin> rp_date_id ` set (cd_replays db)) (Catalog_Constraint ''replay_pkey''))
              (\<lambda>_. Inr (cd_replays db @ [s]))
        | Some v \<Rightarrow> save_conditioned (\<lambda>r. rp_date_id r = rp_date_id s) rp_version v s
            (\<lambda>cur. Replay_Conflict (rp_version cur) (rp_state cur)) (cd_replays db)) (\<lambda>rs.
      Inr (written (rp_version s) t, db\<lparr>cd_replays := rs\<rparr>))))"

section \<open>Slugs\<close>

text \<open>\<open>String(n)\<close> of a whole number.\<close>

fun digits_of :: "nat \<Rightarrow> string" where
  "digits_of n = (if n < 10 then [char_of (48 + n)] else digits_of (n div 10) @ [char_of (48 + n mod 10)])"

declare digits_of.simps [simp del]

definition decimal :: "int \<Rightarrow> string" where
  "decimal n = (if n < 0 then ''-'' @ digits_of (nat (- n)) else digits_of (nat n))"

text \<open>\<open>padStart(2, '0')\<close> and \<open>slice(-n)\<close>.\<close>

definition pad2 :: "int \<Rightarrow> string" where
  "pad2 n = (let s = decimal n in replicate (2 - length s) (CHR ''0'') @ s)"

definition slice_last :: "nat \<Rightarrow> string \<Rightarrow> string" where
  "slice_last n s = drop (length s - n) s"

definition date_slug_candidates :: "catalog_core \<Rightarrow> instant \<Rightarrow> string \<Rightarrow> ident \<Rightarrow> string list" where
  "date_slug_candidates c starts_at time_zone date_id =
     (let wall = wall_clock_at c starts_at (utc_offset_minutes c time_zone starts_at);
          day = decimal (wc_year wall) @ ''-'' @ pad2 (wc_month wall) @ ''-'' @ pad2 (wc_day wall)
      in [day, day @ ''-'' @ pad2 (wc_hour wall) @ pad2 (wc_minute wall), day @ ''-'' @ slice_last 8 date_id])"

definition alias_target_of :: "link_kind \<Rightarrow> string \<Rightarrow> string \<Rightarrow> instant \<Rightarrow> catalog_db \<Rightarrow> ident option" where
  "alias_target_of kind scope slug now db =
     map_option al_target_id (find (\<lambda>r. al_kind r = kind \<and> al_scope r = scope \<and> al_slug r = slug \<and>
       now < al_expires_at r) (cd_aliases db))"

definition reserved_for_another :: "link_kind \<Rightarrow> string \<Rightarrow> string \<Rightarrow> ident \<Rightarrow> instant \<Rightarrow> catalog_db \<Rightarrow> bool" where
  "reserved_for_another kind scope slug claimant now db =
     (case alias_target_of kind scope slug now db of None \<Rightarrow> False | Some i \<Rightarrow> i \<noteq> claimant)"

definition slug_held :: "ident \<Rightarrow> ident \<Rightarrow> string \<Rightarrow> catalog_db \<Rightarrow> bool" where
  "slug_held date_id show_id slug db \<longleftrightarrow>
     list_ex (\<lambda>r. pd_show_id r = show_id \<and> pd_slug r = Some slug \<and> pd_id r \<noteq> date_id) (cd_dates db)"

definition free_date_slug ::
    "catalog_core \<Rightarrow> ident \<Rightarrow> ident \<Rightarrow> instant \<Rightarrow> string \<Rightarrow> instant \<Rightarrow> catalog_db \<Rightarrow> string" where
  "free_date_slug c date_id show_id starts_at time_zone now db =
     (let candidates = date_slug_candidates c starts_at time_zone date_id in
      case find (\<lambda>slug. \<not> slug_held date_id show_id slug db \<and>
             \<not> reserved_for_another Link_Date show_id slug date_id now db) candidates of
        Some slug \<Rightarrow> slug
      | None \<Rightarrow> last candidates)"

definition retire_slug ::
    "catalog_core \<Rightarrow> link_kind \<Rightarrow> string \<Rightarrow> string \<Rightarrow> ident \<Rightarrow> instant \<Rightarrow> catalog_db \<Rightarrow> catalog_db" where
  "retire_slug c kind scope slug target now db =
     (let row = \<lparr>al_kind = kind, al_scope = scope, al_slug = slug, al_target_id = target,
            al_expires_at = now + slug_redirect_days c * 86400000\<rparr>;
          key = (\<lambda>r. al_kind r = kind \<and> al_scope r = scope \<and> al_slug r = slug)
      in db\<lparr>cd_aliases := (if list_ex key (cd_aliases db) then tbl_update key (\<lambda>_. row) (cd_aliases db)
             else cd_aliases db @ [row])\<rparr>)"

section \<open>A date's consequences\<close>

datatype date_keyed_event = Date_Event performance_date_event | Replay_Event replay_state_changed

fun retire_moved_slug :: "catalog_core \<Rightarrow> date_keyed_event \<Rightarrow> catalog_db \<Rightarrow> catalog_db" where
  "retire_moved_slug c (Date_Event (DateRescheduled date_id show_id _ _ previous new at)) db =
     (if new = previous then db else retire_slug c Link_Date show_id previous date_id at db)"
| "retire_moved_slug c _ db = db"

definition retire_slugs_moved_from :: "catalog_core \<Rightarrow> date_keyed_event list \<Rightarrow> catalog_db \<Rightarrow> catalog_db" where
  "retire_slugs_moved_from c events db = fold (retire_moved_slug c) events db"

text \<open>
  The columns an event changes on the public row, as the function it applies; \<open>None\<close> for an event
  that changes none. Merging the changes, a later one winning, is applying them in order.
\<close>

fun changes_of :: "date_keyed_event \<Rightarrow> (date_detail_public \<Rightarrow> date_detail_public) option" where
  "changes_of (Date_Event (PublicationStateChanged _ _ _ to _ _ _)) = Some (\<lambda>r. r\<lparr>pu_publication_state := to\<rparr>)"
| "changes_of (Date_Event (DateOutcomeDeclared _ _ outcome _ rescheduled_to _)) =
     Some (\<lambda>r. r\<lparr>pu_outcome := Some outcome, pu_rescheduled_to := rescheduled_to\<rparr>)"
| "changes_of (Date_Event (DateRescheduled _ _ _ new_starts_at _ new_slug _)) =
     Some (\<lambda>r. r\<lparr>pu_starts_at := new_starts_at, pu_slug := new_slug\<rparr>)"
| "changes_of (Replay_Event e) = Some (\<lambda>r. r\<lparr>pu_replay_state := Some (rc_to e),
     pu_replay_closes_at := Some (rc_closes_at e), pu_replay_online_at := rc_online_at e,
     pu_replay_duration_sec := rc_duration_sec e\<rparr>)"
| "changes_of (Date_Event (DateDrafted _ _ _ _ _)) = None"
| "changes_of (Date_Event (DateScheduled _ _)) = None"
| "changes_of (Date_Event (PublicationEngaged _ _ _)) = None"

definition merged_changes_of :: "date_keyed_event list \<Rightarrow> date_detail_public \<Rightarrow> date_detail_public" where
  "merged_changes_of events = fold (\<lambda>f r. f r) (List.map_filter changes_of events)"

fun date_id_of_event :: "date_keyed_event \<Rightarrow> ident" where
  "date_id_of_event (Date_Event (DateDrafted i _ _ _ _)) = i"
| "date_id_of_event (Date_Event (DateScheduled f _)) = pf_date_id f"
| "date_id_of_event (Date_Event (DateOutcomeDeclared i _ _ _ _ _)) = i"
| "date_id_of_event (Date_Event (DateRescheduled i _ _ _ _ _ _)) = i"
| "date_id_of_event (Date_Event (PublicationStateChanged i _ _ _ _ _ _)) = i"
| "date_id_of_event (Date_Event (PublicationEngaged i _ _)) = i"
| "date_id_of_event (Replay_Event e) = rc_date_id e"

text \<open>\<open>date_detail_public_slug\<close>: one public slug per show.\<close>

definition public_slugs_unique :: "date_detail_public list \<Rightarrow> bool" where
  "public_slugs_unique t = distinct (map (\<lambda>r. (pu_show_id r, pu_slug r)) t)"

definition update_public_date :: "date_keyed_event list \<Rightarrow> catalog_db \<Rightarrow> catalog_db catalog_result" where
  "update_public_date events db =
     (case events of
        [] \<Rightarrow> Inr db
      | e # _ \<Rightarrow>
          if List.map_filter changes_of events = [] then Inr db
          else
            let rows = tbl_update (\<lambda>r. pu_date_id r = date_id_of_event e)
                  (\<lambda>r. (merged_changes_of events r)\<lparr>pu_version := pu_version r + 1\<rparr>) (cd_public db)
            in bindE (ensure (public_slugs_unique rows) (Catalog_Constraint ''date_detail_public_slug''))
                 (\<lambda>_. Inr (db\<lparr>cd_public := rows\<rparr>)))"

text \<open>
  The row's state, which the table requires, is among the changes: the publication's change comes with
  its \<open>DateScheduled\<close>. The value below is written over.
\<close>

definition public_row_of :: "public_date_facts \<Rightarrow> show_row \<Rightarrow> venue_row \<Rightarrow> artist_row option \<Rightarrow> date_detail_public" where
  "public_row_of f show venue artist = \<lparr>pu_date_id = pf_date_id f, pu_show_id = pf_show_id f,
     pu_channel_id = pf_channel_id f, pu_venue_id = ve_id venue, pu_venue_name = ve_name venue,
     pu_venue_city = ve_city venue, pu_venue_country = ve_country venue,
     pu_venue_timezone = ve_time_zone venue, pu_starts_at = pf_starts_at f, pu_runtime_min = pf_runtime_min f,
     pu_replay_policy = pf_replay_policy f,
     pu_replay_window_hours = (case pf_replay_window_hours f of None \<Rightarrow> 0 | Some h \<Rightarrow> h),
     pu_rights = pf_rights f, pu_show_slug = sw_slug show, pu_slug = pf_slug f,
     pu_publication_state = Pub_Draft, pu_outcome = None, pu_artist_name = map_option ar_public_name artist,
     pu_rescheduled_to = None, pu_replay_state = None, pu_replay_closes_at = None,
     pu_replay_online_at = None, pu_replay_duration_sec = None,
     pu_artist_id = (case artist of None \<Rightarrow> sw_artist_id show | Some a \<Rightarrow> ar_id a),
     pu_category_id = sw_category_id show, pu_genre_ids = sw_genre_ids show, pu_tag_ids = sw_tag_ids show,
     pu_language_dependency = sw_language_dependency show, pu_spoken_languages = sw_spoken_languages show,
     pu_subtitle_languages = sw_subtitle_languages show, pu_surtitle_languages = sw_surtitle_languages show,
     pu_media = sw_media show, pu_title = sw_title show, pu_synopsis = sw_synopsis show, pu_version = 1\<rparr>"

definition insert_public_date ::
    "public_date_facts \<Rightarrow> show_row \<Rightarrow> venue_row \<Rightarrow> date_keyed_event list \<Rightarrow> catalog_db \<Rightarrow> catalog_db catalog_result" where
  "insert_public_date f show venue events db =
     (let artist = find (\<lambda>a. ar_channel_id a = pf_channel_id f) (cd_artists db);
          row = merged_changes_of events (public_row_of f show venue artist)
      in bindE (ensure (pu_date_id row \<notin> pu_date_id ` set (cd_public db))
                  (Catalog_Constraint ''date_detail_public_pkey'')) (\<lambda>_.
         bindE (ensure (public_slugs_unique (cd_public db @ [row]))
                  (Catalog_Constraint ''date_detail_public_slug'')) (\<lambda>_.
         Inr (db\<lparr>cd_public := cd_public db @ [row]\<rparr>))))"

fun scheduled_facts :: "date_keyed_event \<Rightarrow> public_date_facts option" where
  "scheduled_facts (Date_Event (DateScheduled f _)) = Some f"
| "scheduled_facts _ = None"

definition project_date_events ::
    "date_keyed_event list \<Rightarrow> show_row \<Rightarrow> venue_row \<Rightarrow> catalog_db \<Rightarrow> catalog_db catalog_result" where
  "project_date_events events show venue db =
     (case List.map_filter scheduled_facts events of
        f # _ \<Rightarrow> insert_public_date f show venue events db
      | [] \<Rightarrow> update_public_date events db)"

text \<open>What a show's update and a channel's face copy onto the public rows.\<close>

definition project_show_copy :: "show_row \<Rightarrow> catalog_db \<Rightarrow> catalog_db" where
  "project_show_copy show db =
     db\<lparr>cd_public := tbl_update (\<lambda>r. pu_show_id r = sw_id show)
       (\<lambda>r. r\<lparr>pu_genre_ids := sw_genre_ids show, pu_tag_ids := sw_tag_ids show,
          pu_language_dependency := sw_language_dependency show, pu_media := sw_media show,
          pu_title := sw_title show, pu_synopsis := sw_synopsis show, pu_version := pu_version r + 1\<rparr>) (cd_public db)\<rparr>"

definition project_artist :: "artist_row \<Rightarrow> catalog_db \<Rightarrow> catalog_db" where
  "project_artist artist db =
     db\<lparr>cd_public := tbl_update (\<lambda>r. pu_channel_id r = ar_channel_id artist)
       (\<lambda>r. r\<lparr>pu_artist_id := ar_id artist, pu_artist_name := Some (ar_public_name artist),
          pu_version := pu_version r + 1\<rparr>) (cd_public db)\<rparr>"

section \<open>Outbox\<close>

definition show_url :: "string \<Rightarrow> string \<Rightarrow> string" where
  "show_url origin show_slug = origin @ ''/show/'' @ show_slug"

definition date_url :: "string \<Rightarrow> string \<Rightarrow> string \<Rightarrow> string" where
  "date_url origin show_slug date_slug = show_url origin show_slug @ ''/date/'' @ date_slug"

record date_wire_context =
  wx_origin :: string
  wx_show :: show_row
  wx_venue :: venue_row
  wx_traceparent :: "string option"

definition catalog_event ::
    "catalog_event_type \<Rightarrow> ident \<Rightarrow> catalog_payload \<Rightarrow> string option \<Rightarrow> instant \<Rightarrow> catalog_outbox_row" where
  "catalog_event type key payload tp at = \<lparr>co_type = type, co_key = key, co_payload = payload, co_traceparent = tp,
     co_created_at = at\<rparr>"

fun integration_event_of :: "catalog_core \<Rightarrow> date_wire_context \<Rightarrow> date_keyed_event \<Rightarrow> catalog_outbox_row" where
  "integration_event_of c x (Date_Event (DateDrafted i ch s v at)) =
     catalog_event Type_Date_Drafted i (Payload_Date_Drafted i ch s v at) (wx_traceparent x) at"
| "integration_event_of c x (Date_Event (DateScheduled f at)) =
     catalog_event Type_Date_Scheduled (pf_date_id f)
       (Payload_Date_Scheduled \<lparr>dm_facts = f, dm_venue_timezone = ve_time_zone (wx_venue x),
          dm_venue_utc_offset_min = utc_offset_minutes c (ve_time_zone (wx_venue x)) (pf_starts_at f),
          dm_canonical_url = date_url (wx_origin x) (sw_slug (wx_show x)) (pf_slug f),
          dm_show_slug = sw_slug (wx_show x), dm_venue_city = ve_city (wx_venue x),
          dm_venue_country = ve_country (wx_venue x), dm_occurred_at = at\<rparr>) (wx_traceparent x) at"
| "integration_event_of c x (Date_Event (DateOutcomeDeclared i ch outcome m moved at)) =
     catalog_event Type_Date_Outcome_Declared i (Payload_Date_Outcome_Declared i ch outcome m moved at)
       (wx_traceparent x) at"
| "integration_event_of c x (Date_Event (DateRescheduled i s previous new previous_slug new_slug at)) =
     catalog_event Type_Date_Rescheduled i
       (Payload_Date_Rescheduled \<lparr>rm_date_id = i, rm_previous_starts_at = previous, rm_new_starts_at = new,
          rm_venue_timezone = ve_time_zone (wx_venue x),
          rm_venue_utc_offset_min = utc_offset_minutes c (ve_time_zone (wx_venue x)) new, rm_new_slug = new_slug,
          rm_new_canonical_url = date_url (wx_origin x) (sw_slug (wx_show x)) new_slug, rm_occurred_at = at\<rparr>)
       (wx_traceparent x) at"
| "integration_event_of c x (Date_Event (PublicationStateChanged i ch from to v irreversible at)) =
     catalog_event Type_Publication_State_Changed i
       (Payload_Publication_State_Changed i ch from to v irreversible at) (wx_traceparent x) at"
| "integration_event_of c x (Date_Event (PublicationEngaged i ch at)) =
     catalog_event Type_Publication_Engaged i
       (Payload_Publication_Engaged i ch [Engaged_Prices, Engaged_Replay, Engaged_Chat_Mode] at) (wx_traceparent x) at"
| "integration_event_of c x (Replay_Event e) =
     catalog_event Type_Replay_State_Changed (rc_date_id e) (Payload_Replay_State_Changed e) (wx_traceparent x)
       (rc_occurred_at e)"

definition write_date_integration_events ::
    "catalog_core \<Rightarrow> date_wire_context \<Rightarrow> date_keyed_event list \<Rightarrow> catalog_db \<Rightarrow> catalog_db" where
  "write_date_integration_events c x events db =
     db\<lparr>cd_outbox := cd_outbox db @ map (integration_event_of c x) events\<rparr>"

definition record_date_events ::
    "catalog_core \<Rightarrow> date_wire_context \<Rightarrow> date_keyed_event list \<Rightarrow> catalog_db \<Rightarrow> catalog_db catalog_result" where
  "record_date_events c x events db =
     bindE (project_date_events events (wx_show x) (wx_venue x) (retire_slugs_moved_from c events db)) (\<lambda>db1.
     Inr (write_date_integration_events c x events db1))"

definition replay_outbox_row :: "string option \<Rightarrow> replay_state_changed \<Rightarrow> catalog_outbox_row" where
  "replay_outbox_row tp e = catalog_event Type_Replay_State_Changed (rc_date_id e) (Payload_Replay_State_Changed e) tp
     (rc_occurred_at e)"

definition record_replay_events ::
    "string option \<Rightarrow> replay_state_changed list \<Rightarrow> catalog_db \<Rightarrow> catalog_db catalog_result" where
  "record_replay_events tp events db =
     bindE (update_public_date (map Replay_Event events) db) (\<lambda>db1.
     Inr (db1\<lparr>cd_outbox := cd_outbox db1 @ map (replay_outbox_row tp) events\<rparr>))"

end
