(* ===== verification/Catalog_Dates.thy ===== *)
theory Catalog_Dates
  imports Catalog_Tables
begin

text \<open>
  The transactions that change a date in catalog (\<open>apps/catalog/src/dates\<close>, \<open>replays\<close>): the studio's
  draft, transition and outcome, and the facts learned from streaming about its run and its replay's
  file, from ticketing, streaming and chat about its checklist. A transaction that throws leaves
  the tables as they were.
\<close>

section \<open>Reading\<close>

record loaded_date =
  ld_date :: tracked_date
  ld_show :: show_row
  ld_venue :: venue_row

definition load_date :: "ident \<Rightarrow> catalog_db \<Rightarrow> loaded_date catalog_result" where
  "load_date date_id db =
     bindE (find_date date_id db) (\<lambda>found.
     case found of
       None \<Rightarrow> Inl Catalog_Not_Found
     | Some t \<Rightarrow>
         let d = of_date (current (root t)) in
         (case (tbl_find sw_id (pd_show_id d) (cd_shows db), tbl_find ve_id (pd_venue_id d) (cd_venues db)) of
            (Some show, Some venue) \<Rightarrow> Inr \<lparr>ld_date = t, ld_show = show, ld_venue = venue\<rparr>
          | _ \<Rightarrow> Inl (Catalog_Defect ''EntityNotFoundError'')))"

definition has_copy :: "bilingual \<Rightarrow> bool" where
  "has_copy b \<longleftrightarrow> bl_fr b \<noteq> [] \<or> bl_en b \<noteq> []"

definition own_checklist_facts :: "show_row \<Rightarrow> checklist_item list" where
  "own_checklist_facts show =
     (if has_copy (sw_title show) \<and> sw_category_id show \<noteq> [] then [Item_Title_And_Discipline] else []) @
     (if ms_poster (sw_media show) \<noteq> [] then [Item_Poster] else []) @
     (if has_copy (sw_synopsis show) then [Item_Description] else [])"

definition satisfied_checklist_items :: "show_row \<Rightarrow> checklist_fact_row list \<Rightarrow> checklist_item list" where
  "satisfied_checklist_items show facts = own_checklist_facts show @ map cf_item (filter cf_satisfied facts)"

section \<open>Sheets\<close>

record offered_transition =
  ot_from :: publication_state
  ot_to :: publication_state
  ot_irreversible :: bool
  ot_promise_code :: "publication_promise option"

record publication_view =
  pw_date_id :: ident
  pw_state :: publication_state
  pw_order_rank :: int
  pw_version :: int
  pw_published_at :: "instant option"
  pw_prices_locked_at :: "instant option"
  pw_replay_online_at :: "instant option"
  pw_checklist :: "checklist_entry list"
  pw_offered_transitions :: "offered_transition list"

definition publication_view_of :: "catalog_core \<Rightarrow> publication_snapshot \<Rightarrow> checklist_item list \<Rightarrow> publication_view" where
  "publication_view_of c p satisfied = \<lparr>pw_date_id = pb_date_id p, pw_state = pb_state p,
     pw_order_rank = order_rank_of c (pb_state p), pw_version = pb_version p, pw_published_at = pb_published_at p,
     pw_prices_locked_at = pb_prices_locked_at p, pw_replay_online_at = pb_replay_online_at p,
     pw_checklist = readiness_entries c satisfied,
     pw_offered_transitions = map (\<lambda>t. \<lparr>ot_from = pt_from t, ot_to = pt_to t,
         ot_irreversible = (pt_irreversible_promise t \<noteq> None), ot_promise_code = pt_irreversible_promise t\<rparr>)
       (next_publication_transitions c (pb_state p) True)\<rparr>"

text \<open>The venue's clock is its zone with the offset there at the start.\<close>

record date_sheet =
  ds_date_id :: ident
  ds_channel_id :: ident
  ds_show_id :: ident
  ds_venue_id :: ident
  ds_starts_at :: instant
  ds_venue_clock :: "string \<times> int"
  ds_runtime_min :: int
  ds_replay_policy :: replay_policy
  ds_replay_window_hours :: "int option"
  ds_rights :: territory_rights
  ds_canonical_url :: "string option"
  ds_publication :: publication_view

record date_records =
  rd_date :: performance_date_snapshot
  rd_publication :: publication_snapshot
  rd_show :: show_row
  rd_venue :: venue_row
  rd_projected_facts :: "checklist_fact_row list"

definition date_sheet_of :: "catalog_core \<Rightarrow> date_records \<Rightarrow> string \<Rightarrow> date_sheet" where
  "date_sheet_of c r origin = (let d = rd_date r in \<lparr>ds_date_id = pd_id d, ds_channel_id = pd_channel_id d,
     ds_show_id = pd_show_id d, ds_venue_id = pd_venue_id d, ds_starts_at = pd_starts_at d,
     ds_venue_clock = (ve_time_zone (rd_venue r), utc_offset_minutes c (ve_time_zone (rd_venue r)) (pd_starts_at d)),
     ds_runtime_min = pd_runtime_min d, ds_replay_policy = pd_replay_policy d,
     ds_replay_window_hours = pd_replay_window_hours d, ds_rights = pd_rights d,
     ds_canonical_url = map_option (date_url origin (sw_slug (rd_show r))) (pd_slug d),
     ds_publication = publication_view_of c (rd_publication r)
       (satisfied_checklist_items (rd_show r) (rd_projected_facts r))\<rparr>)"

definition date_records_of :: "ident \<Rightarrow> catalog_db \<Rightarrow> date_records catalog_result" where
  "date_records_of date_id db =
     (case tbl_find pd_id date_id (cd_dates db) of
        None \<Rightarrow> Inl Catalog_Not_Found
      | Some d \<Rightarrow>
          (case (tbl_find pb_date_id date_id (cd_publications db), tbl_find sw_id (pd_show_id d) (cd_shows db),
              tbl_find ve_id (pd_venue_id d) (cd_venues db)) of
             (Some p, Some show, Some venue) \<Rightarrow>
               Inr \<lparr>rd_date = d, rd_publication = p, rd_show = show, rd_venue = venue,
                 rd_projected_facts = filter (\<lambda>r. cf_date_id r = date_id) (cd_checklist db)\<rparr>
           | _ \<Rightarrow> Inl (Catalog_Defect ''EntityNotFoundError'')))"

definition get_date_sheet :: "catalog_core \<Rightarrow> string \<Rightarrow> ident \<Rightarrow> catalog_db \<Rightarrow> date_sheet catalog_result" where
  "get_date_sheet c origin date_id db = bindE (date_records_of date_id db) (\<lambda>r. Inr (date_sheet_of c r origin))"

definition wire_context :: "string \<Rightarrow> loaded_date \<Rightarrow> string option \<Rightarrow> date_wire_context" where
  "wire_context origin l tp = \<lparr>wx_origin = origin, wx_show = ld_show l, wx_venue = ld_venue l, wx_traceparent = tp\<rparr>"

definition keyed_events :: "performance_date_event list \<Rightarrow> replay_state_changed list \<Rightarrow> date_keyed_event list" where
  "keyed_events date_events replay_events = map Date_Event date_events @ map Replay_Event replay_events"

definition claim_catalog_message :: "ident \<Rightarrow> catalog_db \<Rightarrow> bool \<times> catalog_db" where
  "claim_catalog_message message_id db =
     (if message_id \<in> set (cd_processed db) then (False, db)
      else (True, db\<lparr>cd_processed := cd_processed db @ [message_id]\<rparr>))"

datatype learn_outcome = Learn_Applied | Learn_Ignored | Learn_Duplicate | Learn_Superseded

section \<open>The studio\<close>

record draft_date_command =
  dc_channel_id :: ident
  dc_date_id :: ident
  dc_show_id :: ident
  dc_venue_id :: ident
  dc_starts_at :: instant
  dc_replay_policy :: replay_policy
  dc_replay_window_hours :: "int option"
  dc_traceparent :: "string option"

definition draft_date_in ::
    "catalog_core \<Rightarrow> string \<Rightarrow> instant \<Rightarrow> draft_date_command \<Rightarrow> catalog_db
       \<Rightarrow> (date_sheet \<times> catalog_db) catalog_result" where
  "draft_date_in c origin now cmd db =
     (case tbl_find sw_id (dc_show_id cmd) (cd_shows db) of
        None \<Rightarrow> Inl (Catalog_Schema_Invalid [''showId''])
      | Some show \<Rightarrow>
        if sw_channel_id show \<noteq> dc_channel_id cmd then Inl (Catalog_Schema_Invalid [''showId''])
        else case tbl_find ve_id (dc_venue_id cmd) (cd_venues db) of
            None \<Rightarrow> Inl (Catalog_Schema_Invalid [''venueId''])
          | Some venue \<Rightarrow>
              bindE (find_date (dc_date_id cmd) db) (\<lambda>found.
              bindE (ensure (found = None) (Catalog_Schema_Invalid [''dateId''])) (\<lambda>_.
              let a = draft_date c \<lparr>dd_id = dc_date_id cmd, dd_show_id = sw_id show, dd_venue_id = ve_id venue,
                    dd_channel_id = dc_channel_id cmd, dd_starts_at = dc_starts_at cmd,
                    dd_runtime_min = sw_runtime_min show, dd_replay_policy = dc_replay_policy cmd,
                    dd_replay_window_hours = dc_replay_window_hours cmd\<rparr> now
              in
              bindE (save_date (created a) db) (\<lambda>(t, db1).
              bindE (record_date_events c \<lparr>wx_origin = origin, wx_show = show, wx_venue = venue,
                       wx_traceparent = dc_traceparent cmd\<rparr> (keyed_events (uncommitted (root t)) []) db1) (\<lambda>db2.
              Inr (date_sheet_of c \<lparr>rd_date = of_date (current (root t)), rd_publication = of_publication (current (root t)),
                     rd_show = show, rd_venue = venue, rd_projected_facts = []\<rparr> origin, db2))))))"

definition replay_put_online ::
    "catalog_core \<Rightarrow> ident \<Rightarrow> instant \<Rightarrow> catalog_db \<Rightarrow> tracked_replay catalog_result" where
  "replay_put_online c date_id now db =
     (case find_replay date_id db of
        None \<Rightarrow> bindE (assertE (assert_replay_goes_online c None)) (\<lambda>_.
          Inl (Catalog_Defect ''date has no replay, and core let it go online''))
      | Some t \<Rightarrow> bindE (replay_go_online c now (root t)) (\<lambda>a. Inr (with_root a t)))"

text \<open>The saves and the records every date command ends with, the date's first.\<close>

definition commit_date ::
    "catalog_core \<Rightarrow> date_wire_context \<Rightarrow> tracked_date \<Rightarrow> tracked_replay option \<Rightarrow> catalog_db \<Rightarrow> catalog_db catalog_result" where
  "commit_date c x t replay db =
     bindE (save_date t db) (\<lambda>(t', db1).
     bindE (case replay of
         None \<Rightarrow> Inr ([], db1)
       | Some r \<Rightarrow> bindE (save_replay r db1) (\<lambda>(r', db2). Inr (uncommitted (root r'), db2))) (\<lambda>(es, db2).
     record_date_events c x (keyed_events (uncommitted (root t')) es) db2))"

record transition_publication_command =
  tp_date_id :: ident
  tp_to :: publication_state
  tp_expected_version :: int
  tp_acknowledged_promise :: "publication_promise option"
  tp_traceparent :: "string option"

definition transition_publication_in ::
    "catalog_core \<Rightarrow> string \<Rightarrow> instant \<Rightarrow> transition_publication_command \<Rightarrow> catalog_db
       \<Rightarrow> (publication_view \<times> catalog_db) catalog_result" where
  "transition_publication_in c origin now cmd db =
     bindE (load_date (tp_date_id cmd) db) (\<lambda>l.
     let t = ld_date l; d = of_date (current (root t));
         satisfied = satisfied_checklist_items (ld_show l)
           (filter (\<lambda>r. cf_date_id r = tp_date_id cmd) (cd_checklist db));
         free_slug = (if pd_slug d = None
           then Some (free_date_slug c (tp_date_id cmd) (pd_show_id d) (pd_starts_at d) (ve_time_zone (ld_venue l)) now db)
           else None)
     in
     bindE (transition_publication c \<lparr>tc_to = tp_to cmd, tc_expected_version = tp_expected_version cmd,
              tc_acknowledged_promise = tp_acknowledged_promise cmd\<rparr>
              \<lparr>px_satisfied = satisfied, px_free_slug = free_slug,
               px_show_runtime_min = sw_runtime_min (ld_show l), px_now = now\<rparr> (root t)) (\<lambda>a.
     bindE (if tp_to cmd = Pub_Replay_Online
            then bindE (replay_put_online c (tp_date_id cmd) now db) (\<lambda>r. Inr (Some r)) else Inr None) (\<lambda>replay.
     bindE (commit_date c (wire_context origin l (tp_traceparent cmd)) (with_root a t) replay db) (\<lambda>db1.
     Inr (publication_view_of c (of_publication (current a)) satisfied, db1)))))"

record declare_outcome_command =
  do_date_id :: ident
  do_outcome :: date_outcome
  do_rescheduled_to :: "instant option"
  do_message :: outcome_message
  do_expected_version :: int
  do_traceparent :: "string option"

definition declaration_of :: "declare_outcome_command \<Rightarrow> outcome_declaration catalog_result" where
  "declaration_of cmd =
     (if do_outcome cmd \<noteq> Outcome_Postponed
      then Inr \<lparr>od_outcome = do_outcome cmd, od_rescheduled_to = None\<rparr>
      else case do_rescheduled_to cmd of
          None \<Rightarrow> Inl (Catalog_Defect ''a postponement without rescheduledTo'')
        | Some t \<Rightarrow> Inr \<lparr>od_outcome = Outcome_Postponed, od_rescheduled_to = Some t\<rparr>)"

definition declare_outcome_in ::
    "catalog_core \<Rightarrow> string \<Rightarrow> instant \<Rightarrow> declare_outcome_command \<Rightarrow> catalog_db
       \<Rightarrow> ((date_outcome \<times> instant) \<times> catalog_db) catalog_result" where
  "declare_outcome_in c origin now cmd db =
     bindE (load_date (do_date_id cmd) db) (\<lambda>l.
     bindE (declaration_of cmd) (\<lambda>decl.
     let t = ld_date l;
         slug = map_option (\<lambda>moved_to. free_date_slug c (do_date_id cmd) (pd_show_id (of_date (current (root t))))
           moved_to (ve_time_zone (ld_venue l)) now db) (od_rescheduled_to decl)
     in
     bindE (declare_outcome c (do_expected_version cmd) decl (do_message cmd) slug now (root t)) (\<lambda>a.
     let replay = (if outcome_withdraws_replay c (od_outcome decl) then find_replay (do_date_id cmd) db else None);
         withdrawn = Option.bind replay (\<lambda>r. case replay_withdraw now (root r) of
           (b, True) \<Rightarrow> Some (with_root b r) | (_, False) \<Rightarrow> None)
     in
     bindE (commit_date c (wire_context origin l (do_traceparent cmd)) (with_root a t) withdrawn db) (\<lambda>db1.
     Inr ((od_outcome decl, now), db1)))))"

section \<open>Facts learned\<close>

text \<open>A run's start, or its end with the instant it ended at.\<close>

record run_fact =
  rf_run_date_id :: ident
  rf_run_ended_at :: "instant option"

definition replay_opened_by ::
    "catalog_core \<Rightarrow> performance_date_snapshot \<Rightarrow> instant \<Rightarrow> instant \<Rightarrow> replay option" where
  "replay_opened_by c d live_ended_at now =
     (let hours = (case pd_replay_window_hours d of None \<Rightarrow> 0 | Some h \<Rightarrow> h) in
      if \<not> creates_replay_on_live_end c (pd_replay_policy d) hours (pd_outcome d) then None
      else Some (open_replay c \<lparr>rg_date_id = pd_id d, rg_channel_id = pd_channel_id d,
             rg_policy = pd_replay_policy d, rg_live_ended_at = live_ended_at, rg_window_hours = hours\<rparr> now))"

definition learn_run_fact ::
    "catalog_core \<Rightarrow> string \<Rightarrow> instant \<Rightarrow> ident \<Rightarrow> run_fact \<Rightarrow> string option \<Rightarrow> catalog_db
       \<Rightarrow> (learn_outcome \<times> catalog_db) catalog_result" where
  "learn_run_fact c origin now message_id told tp db =
     (case claim_catalog_message message_id db of
        (False, db0) \<Rightarrow> Inr (Learn_Duplicate, db0)
      | (True, db0) \<Rightarrow>
          bindE (load_date (rf_run_date_id told) db0) (\<lambda>l.
          let t = ld_date l in
          bindE (if rf_run_ended_at told = None then learn_run_started c now (root t)
                 else learn_run_ended c now (root t)) (\<lambda>(a, moved).
          if \<not> moved then Inr (Learn_Ignored, db0)
          else
            let replay = Option.bind (rf_run_ended_at told)
                  (\<lambda>ended_at. map_option created (replay_opened_by c (of_date (current a)) ended_at now))
            in bindE (commit_date c (wire_context origin l tp) (with_root a t) replay db0) (\<lambda>db1.
               Inr (Learn_Applied, db1)))))"

record replay_asset =
  as_duration_sec :: int
  as_available_from :: instant
  as_expires_at :: "instant option"

definition learn_replay_fact :: "instant \<Rightarrow> replay_asset option \<Rightarrow> replay \<Rightarrow> replay \<times> bool" where
  "learn_replay_fact now ready a =
     (case ready of
        None \<Rightarrow> replay_close now a
      | Some f \<Rightarrow> learn_asset_ready (as_duration_sec f) (as_available_from f) a)"

text \<open>The publication is read before the replay's lock, in tables that may be older.\<close>

definition learn_replay_asset_fact ::
    "instant \<Rightarrow> ident \<Rightarrow> ident \<Rightarrow> replay_asset option \<Rightarrow> string option \<Rightarrow> catalog_db \<Rightarrow> catalog_db
       \<Rightarrow> (learn_outcome \<times> catalog_db) catalog_result" where
  "learn_replay_asset_fact now message_id date_id ready tp seen db =
     (case claim_catalog_message message_id db of
        (False, db0) \<Rightarrow> Inr (Learn_Duplicate, db0)
      | (True, db0) \<Rightarrow>
          (case tbl_find pb_date_id date_id (cd_publications seen) of
             None \<Rightarrow> Inl Catalog_Not_Found
           | Some p \<Rightarrow>
               (case find_replay date_id db0 of
                  None \<Rightarrow>
                    if pb_state p \<notin> RUN_ALREADY_ENDED then Inl (Replay_Fact_Before_Run_Ended date_id)
                    else Inr (Learn_Ignored, db0)
                | Some t \<Rightarrow>
                    (case learn_replay_fact now ready (root t) of
                       (_, False) \<Rightarrow> Inr (Learn_Ignored, db0)
                     | (a, True) \<Rightarrow>
                         bindE (save_replay (with_root a t) db0) (\<lambda>(t', db1).
                         bindE (record_replay_events tp (uncommitted (root t')) db1) (\<lambda>db2.
                         Inr (Learn_Applied, db2)))))))"

record checklist_fact =
  ck_date_id :: ident
  ck_item :: checklist_item
  ck_satisfied :: bool
  ck_occurred_at :: instant

text \<open>The upsert, with whether a row was written.\<close>

definition upsert_checklist_fact :: "checklist_fact \<Rightarrow> checklist_fact_row list \<Rightarrow> bool \<times> checklist_fact_row list" where
  "upsert_checklist_fact f t =
     (let key = (\<lambda>r. cf_date_id r = ck_date_id f \<and> cf_item r = ck_item f);
          row = \<lparr>cf_date_id = ck_date_id f, cf_item = ck_item f, cf_satisfied = ck_satisfied f,
            cf_occurred_at = ck_occurred_at f\<rparr>
      in case find key t of
           None \<Rightarrow> (True, t @ [row])
         | Some r \<Rightarrow> if cf_occurred_at r \<le> ck_occurred_at f then (True, tbl_update key (\<lambda>_. row) t) else (False, t))"

definition record_checklist_fact ::
    "ident \<Rightarrow> checklist_fact \<Rightarrow> catalog_db \<Rightarrow> (learn_outcome \<times> catalog_db) catalog_result" where
  "record_checklist_fact message_id f db =
     (case claim_catalog_message message_id db of
        (False, db0) \<Rightarrow> Inr (Learn_Duplicate, db0)
      | (True, db0) \<Rightarrow>
          if tbl_find pb_date_id (ck_date_id f) (cd_publications db0) = None then Inl Catalog_Not_Found
          else case upsert_checklist_fact f (cd_checklist db0) of
              (applied, t) \<Rightarrow>
                Inr (if applied then Learn_Applied else Learn_Superseded, db0\<lparr>cd_checklist := t\<rparr>))"

end
