(* ===== verification/Catalog_Props.thy ===== *)
theory Catalog_Props
  imports Catalog_Dates
begin

text \<open>
  What catalog's tables keep whatever its transactions do: each date with its publication, its replay
  and its public page, which the lemmas follow through the saves and the records of a command.
\<close>

section \<open>Views of one date\<close>

text \<open>What the public page says of a date, and what its aggregates make it say.\<close>

record date_page =
  pg_show_id :: ident
  pg_channel_id :: ident
  pg_venue_id :: ident
  pg_starts_at :: instant
  pg_runtime_min :: int
  pg_replay_policy :: replay_policy
  pg_replay_window_hours :: int
  pg_rights :: territory_rights
  pg_slug :: string
  pg_publication_state :: publication_state
  pg_outcome :: "date_outcome option"
  pg_rescheduled_to :: "instant option"
  pg_replay_state :: "replay_state option"
  pg_replay_closes_at :: "instant option"
  pg_replay_online_at :: "instant option"
  pg_replay_duration_sec :: "int option"

definition page_shown :: "date_detail_public \<Rightarrow> date_page" where
  "page_shown r = \<lparr>pg_show_id = pu_show_id r, pg_channel_id = pu_channel_id r, pg_venue_id = pu_venue_id r,
     pg_starts_at = pu_starts_at r, pg_runtime_min = pu_runtime_min r, pg_replay_policy = pu_replay_policy r,
     pg_replay_window_hours = pu_replay_window_hours r, pg_rights = pu_rights r, pg_slug = pu_slug r,
     pg_publication_state = pu_publication_state r, pg_outcome = pu_outcome r,
     pg_rescheduled_to = pu_rescheduled_to r, pg_replay_state = pu_replay_state r,
     pg_replay_closes_at = pu_replay_closes_at r, pg_replay_online_at = pu_replay_online_at r,
     pg_replay_duration_sec = pu_replay_duration_sec r\<rparr>"

definition page_of :: "performance_date_snapshot \<Rightarrow> publication_snapshot \<Rightarrow> replay_snapshot option \<Rightarrow> date_page option" where
  "page_of d p r = map_option (\<lambda>slug. \<lparr>pg_show_id = pd_show_id d, pg_channel_id = pd_channel_id d,
     pg_venue_id = pd_venue_id d, pg_starts_at = pd_starts_at d, pg_runtime_min = pd_runtime_min d,
     pg_replay_policy = pd_replay_policy d,
     pg_replay_window_hours = (case pd_replay_window_hours d of None \<Rightarrow> 0 | Some h \<Rightarrow> h), pg_rights = pd_rights d,
     pg_slug = slug, pg_publication_state = pb_state p, pg_outcome = pd_outcome d,
     pg_rescheduled_to = pd_rescheduled_to d, pg_replay_state = map_option rp_state r,
     pg_replay_closes_at = map_option rp_closes_at r, pg_replay_online_at = Option.bind r rp_online_at,
     pg_replay_duration_sec = Option.bind r (\<lambda>r. if rp_online_at r \<noteq> None then rp_asset_duration_sec r else None)\<rparr>)
     (pd_slug d)"

text \<open>A replay is opened by the live's end, and online together with its publication.\<close>

definition replay_follows :: "publication_snapshot \<Rightarrow> replay_snapshot option \<Rightarrow> bool" where
  "replay_follows p r \<longleftrightarrow> pb_replay_online_at p = Option.bind r rp_online_at \<and>
     (case r of None \<Rightarrow> True | Some x \<Rightarrow> replay_wf x \<and> pb_state p \<in> {Pub_Ended, Pub_Replay_Online})"

fun coherent ::
    "performance_date_snapshot option \<Rightarrow> publication_snapshot option \<Rightarrow> replay_snapshot option \<Rightarrow> date_page option \<Rightarrow> bool" where
  "coherent (Some d) (Some p) r u \<longleftrightarrow>
     date_wf \<lparr>of_date = d, of_publication = p\<rparr> \<and> replay_follows p r \<and> u = page_of d p r"
| "coherent None None r u \<longleftrightarrow> r = None \<and> u = None"
| "coherent _ _ _ _ \<longleftrightarrow> False"

abbreviation date_at :: "catalog_db \<Rightarrow> ident \<Rightarrow> performance_date_snapshot option" where
  "date_at db i \<equiv> tbl_find pd_id i (cd_dates db)"

abbreviation publication_at :: "catalog_db \<Rightarrow> ident \<Rightarrow> publication_snapshot option" where
  "publication_at db i \<equiv> tbl_find pb_date_id i (cd_publications db)"

abbreviation replay_at :: "catalog_db \<Rightarrow> ident \<Rightarrow> replay_snapshot option" where
  "replay_at db i \<equiv> tbl_find rp_date_id i (cd_replays db)"

definition page_at :: "catalog_db \<Rightarrow> ident \<Rightarrow> date_page option" where
  "page_at db i = map_option page_shown (tbl_find pu_date_id i (cd_public db))"

definition catalog_ok :: "catalog_db \<Rightarrow> bool" where
  "catalog_ok db \<longleftrightarrow> (\<forall>i. coherent (date_at db i) (publication_at db i) (replay_at db i) (page_at db i))"

section \<open>Saves\<close>

lemma save_conditioned_find:
  assumes "save_conditioned (\<lambda>r. key r = k) version v row conflict t = Inr t'"
    and "tbl_find key k t = Some r" and "version r = v" and "key row = k"
  shows "tbl_find key j t' = (if j = k then Some row else tbl_find key j t)"
proof -
  have "t' = tbl_update (\<lambda>r. key r = k \<and> version r = v) (\<lambda>_. row) t"
    using assms(1) by (auto simp: save_conditioned_def Let_def split: if_splits option.splits)
  moreover have "tbl_find key j (tbl_update (\<lambda>r. key r = k \<and> version r = v) (\<lambda>_. row) t) =
      map_option (\<lambda>r. if key r = k \<and> version r = v then row else r) (tbl_find key j t)"
    by (rule tbl_find_tbl_update) (use assms(4) in simp)
  ultimately show ?thesis
    using assms(2,3) by (cases "tbl_find key j t") (auto dest: tbl_find_SomeD)
qed

text \<open>What a save leaves: the rows of its date, and nothing else.\<close>

definition date_saved :: "ident \<Rightarrow> performance_date_state \<Rightarrow> catalog_db \<Rightarrow> catalog_db \<Rightarrow> bool" where
  "date_saved i s db db' \<longleftrightarrow>
     (\<forall>j. date_at db' j = (if j = i then Some (of_date s) else date_at db j)) \<and>
     (\<forall>j. publication_at db' j = (if j = i then Some (of_publication s) else publication_at db j)) \<and>
     cd_replays db' = cd_replays db \<and> cd_public db' = cd_public db"

lemma save_date_saved:
  assumes "save_date t db = Inr (t', db')" and "t = with_root a (loaded (restore s) (pb_version (of_publication s)))"
    and "date_at db i = Some (of_date s)" and "publication_at db i = Some (of_publication s)"
    and "pd_id (of_date (current a)) = i" and "pb_date_id (of_publication (current a)) = i"
  shows "date_saved i (current a) db db'" and "root t' = a"
proof -
  let ?d = "of_date (current a)" and ?p = "of_publication (current a)"
  obtain ps where ps: "save_conditioned (\<lambda>r. pb_date_id r = i) pb_version (pb_version (of_publication s)) ?p
      (\<lambda>cur. Publication_Conflict (pb_version cur) (pb_state cur)) (cd_publications db) = Inr ps"
    and db': "db' = (if of_date s = ?d then db\<lparr>cd_publications := ps\<rparr> else db\<lparr>cd_publications := ps,
      cd_dates := tbl_update (\<lambda>r. pd_id r = i) (\<lambda>_. ?d) (cd_dates db)\<rparr>)" and t': "t' = written (pb_version ?p) t"
    using assms(1,5) by (auto simp: save_date_def assms(2) Let_def result_simps split: if_splits)
  have dates: "tbl_find pd_id j (tbl_update (\<lambda>r. pd_id r = i) (\<lambda>_. ?d) (cd_dates db)) =
      (if j = i then Some ?d else date_at db j)" for j
    using assms(3,5) by (subst tbl_find_tbl_update) (auto split: option.splits dest: tbl_find_SomeD
        simp: map_option_case)
  show "date_saved i (current a) db db'"
    using save_conditioned_find [OF ps assms(4) refl assms(6)] dates assms(3)
    by (auto simp: date_saved_def db')
  show "root t' = a" by (simp add: t' assms(2))
qed

lemma tbl_find_insert:
  "key row \<notin> key ` set t \<Longrightarrow> tbl_find key j (t @ [row]) = (if j = key row then Some row else tbl_find key j t)"
  using tbl_find_None [of key "key row" t]
  by (cases "tbl_find key j t") (auto simp: tbl_find_append dest: tbl_find_SomeD)

lemma save_created_date_saved:
  assumes "save_date (created a) db = Inr (t', db')" and "pd_id (of_date (current a)) = i"
    and "pb_date_id (of_publication (current a)) = i"
  shows "date_saved i (current a) db db'" and "root t' = a"
    and "date_at db i = None" and "publication_at db i = None"
  using assms
  by (auto simp: save_date_def Let_def result_simps date_saved_def tbl_find_insert tbl_find_None)

definition replay_saved :: "ident \<Rightarrow> replay_snapshot \<Rightarrow> catalog_db \<Rightarrow> catalog_db \<Rightarrow> bool" where
  "replay_saved i r db db' \<longleftrightarrow> (\<forall>j. replay_at db' j = (if j = i then Some r else replay_at db j)) \<and>
     cd_dates db' = cd_dates db \<and> cd_publications db' = cd_publications db \<and> cd_public db' = cd_public db"

lemma save_replay_saved:
  assumes "save_replay t db = Inr (t', db')" and "t = with_root a (loaded (restore r) (rp_version r))"
    and "replay_at db i = Some r" and "rp_date_id (current a) = i"
  shows "replay_saved i (current a) db db'" and "root t' = a"
proof -
  obtain rs where rs: "save_conditioned (\<lambda>x. rp_date_id x = i) rp_version (rp_version r) (current a)
      (\<lambda>cur. Replay_Conflict (rp_version cur) (rp_state cur)) (cd_replays db) = Inr rs"
    and db': "db' = db\<lparr>cd_replays := rs\<rparr>" and t': "t' = written (rp_version (current a)) t"
    using assms(1,4) by (auto simp: save_replay_def assms(2) Let_def result_simps)
  show "replay_saved i (current a) db db'"
    using save_conditioned_find [OF rs assms(3) refl assms(4)] by (simp add: replay_saved_def db')
  show "root t' = a" by (simp add: t' assms(2))
qed

lemma save_created_replay_saved:
  assumes "save_replay (created a) db = Inr (t', db')" and "rp_date_id (current a) = i"
  shows "replay_saved i (current a) db db'" and "root t' = a" and "replay_at db i = None"
  using assms
  by (auto simp: save_replay_def Let_def result_simps replay_saved_def tbl_find_insert tbl_find_None)

section \<open>Records\<close>

text \<open>What an event changes of the page.\<close>

fun page_change :: "date_keyed_event \<Rightarrow> date_page \<Rightarrow> date_page" where
  "page_change (Date_Event (PublicationStateChanged _ _ _ to _ _ _)) g = g\<lparr>pg_publication_state := to\<rparr>"
| "page_change (Date_Event (DateOutcomeDeclared _ _ outcome _ moved _)) g =
     g\<lparr>pg_outcome := Some outcome, pg_rescheduled_to := moved\<rparr>"
| "page_change (Date_Event (DateRescheduled _ _ _ new _ slug _)) g = g\<lparr>pg_starts_at := new, pg_slug := slug\<rparr>"
| "page_change (Replay_Event e) g = g\<lparr>pg_replay_state := Some (rc_to e),
     pg_replay_closes_at := Some (rc_closes_at e), pg_replay_online_at := rc_online_at e,
     pg_replay_duration_sec := rc_duration_sec e\<rparr>"
| "page_change _ g = g"

lemma page_change_changes:
  "(case changes_of e of None \<Rightarrow> page_shown r | Some f \<Rightarrow> page_shown (f r)) = page_change e (page_shown r)"
  by (cases rule: changes_of.cases [of e]) (simp_all add: page_shown_def)

lemma changes_keep_key: "changes_of e = Some f \<Longrightarrow> pu_date_id (f r) = pu_date_id r"
  by (cases rule: changes_of.cases [of e]) auto

lemma merged_changes_Cons:
  "merged_changes_of (e # es) r = merged_changes_of es (case changes_of e of None \<Rightarrow> r | Some f \<Rightarrow> f r)"
  by (simp add: merged_changes_of_def List.map_filter_def split: option.splits)

lemma merged_changes_page: "page_shown (merged_changes_of es r) = fold page_change es (page_shown r)"
proof (induction es arbitrary: r)
  case Nil
  then show ?case by (simp add: merged_changes_of_def List.map_filter_def)
next
  case (Cons e es)
  show ?case unfolding merged_changes_Cons Cons
    using page_change_changes [of r e] by (simp split: option.splits)
qed

lemma merged_changes_key: "pu_date_id (merged_changes_of es r) = pu_date_id r"
proof (induction es arbitrary: r)
  case Nil
  then show ?case by (simp add: merged_changes_of_def List.map_filter_def)
next
  case (Cons e es)
  then show ?case unfolding merged_changes_Cons by (auto split: option.splits dest: changes_keep_key)
qed

lemma page_shown_version [simp]: "page_shown (r\<lparr>pu_version := v\<rparr>) = page_shown r"
  by (simp add: page_shown_def)

lemma no_changes_page: "List.map_filter changes_of es = [] \<Longrightarrow> fold page_change es g = g"
proof (induction es arbitrary: g)
  case (Cons e es)
  then have "changes_of e = None" "List.map_filter changes_of es = []"
    by (auto simp: List.map_filter_def split: option.splits if_splits)
  moreover from this(1) have "page_change e g = g" by (cases rule: changes_of.cases [of e]) auto
  ultimately show ?case using Cons.IH by simp
qed simp

text \<open>The rows of the aggregates stay, and so does every other date's page.\<close>

definition page_recorded :: "ident \<Rightarrow> date_page option \<Rightarrow> catalog_db \<Rightarrow> catalog_db \<Rightarrow> bool" where
  "page_recorded i g db db' \<longleftrightarrow> (\<forall>j. page_at db' j = (if j = i then g else page_at db j)) \<and>
     cd_dates db' = cd_dates db \<and> cd_publications db' = cd_publications db \<and> cd_replays db' = cd_replays db"

lemma update_public_date_recorded:
  assumes "update_public_date es db = Inr db'" and "list_all (\<lambda>e. date_id_of_event e = i) es"
  shows "page_recorded i (map_option (fold page_change es) (page_at db i)) db db'"
proof (cases "List.map_filter changes_of es = []")
  case True
  then have "db' = db" using assms(1) by (auto simp: update_public_date_def split: list.splits)
  moreover have "fold page_change es = id" using no_changes_page [OF True] by auto
  ultimately show ?thesis by (simp add: page_recorded_def option.map_id)
next
  case False
  then obtain e rest where es: "es = e # rest" by (cases es) (auto simp: List.map_filter_def)
  let ?f = "\<lambda>r. (merged_changes_of es r)\<lparr>pu_version := pu_version r + 1\<rparr>"
  have db': "db' = db\<lparr>cd_public := tbl_update (\<lambda>r. pu_date_id r = i) ?f (cd_public db)\<rparr>"
    using assms False by (auto simp: update_public_date_def es result_simps Let_def)
  have "tbl_find pu_date_id j (tbl_update (\<lambda>r. pu_date_id r = i) ?f (cd_public db)) =
      map_option (\<lambda>r. if pu_date_id r = i then ?f r else r) (tbl_find pu_date_id j (cd_public db))" for j
    by (rule tbl_find_tbl_update) (simp add: merged_changes_key)
  then have "page_at db' j = (if j = i then map_option (fold page_change es) (page_at db i) else page_at db j)" for j
    by (cases "tbl_find pu_date_id j (cd_public db)")
      (auto simp: page_at_def db' merged_changes_page dest: tbl_find_SomeD)
  then show ?thesis by (simp add: page_recorded_def db')
qed

definition published_page :: "public_date_facts \<Rightarrow> venue_row \<Rightarrow> date_page" where
  "published_page f venue = \<lparr>pg_show_id = pf_show_id f, pg_channel_id = pf_channel_id f, pg_venue_id = ve_id venue,
     pg_starts_at = pf_starts_at f, pg_runtime_min = pf_runtime_min f, pg_replay_policy = pf_replay_policy f,
     pg_replay_window_hours = (case pf_replay_window_hours f of None \<Rightarrow> 0 | Some h \<Rightarrow> h), pg_rights = pf_rights f,
     pg_slug = pf_slug f, pg_publication_state = Pub_Draft, pg_outcome = None, pg_rescheduled_to = None,
     pg_replay_state = None, pg_replay_closes_at = None, pg_replay_online_at = None, pg_replay_duration_sec = None\<rparr>"

lemma insert_public_date_recorded:
  assumes "insert_public_date f show venue es db = Inr db'"
  shows "page_recorded (pf_date_id f) (Some (fold page_change es (published_page f venue))) db db'"
    and "page_at db (pf_date_id f) = None"
proof -
  obtain row0 where db': "db' = db\<lparr>cd_public := cd_public db @ [merged_changes_of es row0]\<rparr>"
    and row0: "pu_date_id row0 = pf_date_id f" "page_shown row0 = published_page f venue"
    and new: "pu_date_id row0 \<notin> pu_date_id ` set (cd_public db)"
  proof (rule that)
    let ?row = "public_row_of f show venue (find (\<lambda>a. ar_channel_id a = pf_channel_id f) (cd_artists db))"
    show "db' = db\<lparr>cd_public := cd_public db @ [merged_changes_of es ?row]\<rparr>"
      and "pu_date_id ?row \<notin> pu_date_id ` set (cd_public db)"
      using assms unfolding insert_public_date_def Let_def
      by (simp_all add: result_simps merged_changes_key)
    show "pu_date_id ?row = pf_date_id f" "page_shown ?row = published_page f venue"
      by (simp_all add: public_row_of_def page_shown_def published_page_def)
  qed
  show "page_at db (pf_date_id f) = None" using new row0 by (simp add: page_at_def tbl_find_None)
  show "page_recorded (pf_date_id f) (Some (fold page_change es (published_page f venue))) db db'"
    using new row0 by (auto simp: page_recorded_def page_at_def db' tbl_find_insert merged_changes_key merged_changes_page)
qed

lemma page_recorded_frame:
  assumes "page_recorded i g db db'" and "cd_public db0 = cd_public db" and "cd_dates db0 = cd_dates db"
    and "cd_publications db0 = cd_publications db" and "cd_replays db0 = cd_replays db"
    and "cd_public db1 = cd_public db'" and "cd_dates db1 = cd_dates db'"
    and "cd_publications db1 = cd_publications db'" and "cd_replays db1 = cd_replays db'"
  shows "page_recorded i g db0 db1"
  using assms by (simp add: page_recorded_def page_at_def)

lemma retire_slugs_frame:
  "cd_public (retire_slugs_moved_from c es db) = cd_public db \<and> cd_dates (retire_slugs_moved_from c es db) = cd_dates db \<and>
   cd_publications (retire_slugs_moved_from c es db) = cd_publications db \<and>
   cd_replays (retire_slugs_moved_from c es db) = cd_replays db"
proof -
  have "cd_public (retire_moved_slug c e db) = cd_public db \<and> cd_dates (retire_moved_slug c e db) = cd_dates db \<and>
      cd_publications (retire_moved_slug c e db) = cd_publications db \<and>
      cd_replays (retire_moved_slug c e db) = cd_replays db" for e db
    by (cases "(c, e, db)" rule: retire_moved_slug.cases) (simp_all add: retire_slug_def Let_def)
  then show ?thesis unfolding retire_slugs_moved_from_def
    by (induction es arbitrary: db) simp_all
qed

lemma record_date_events_recorded:
  assumes "record_date_events c x es db = Inr db'" and "list_all (\<lambda>e. date_id_of_event e = i) es"
  shows "case List.map_filter scheduled_facts es of
      [] \<Rightarrow> page_recorded i (map_option (fold page_change es) (page_at db i)) db db'
    | f # _ \<Rightarrow> page_recorded (pf_date_id f) (Some (fold page_change es (published_page f (wx_venue x)))) db db' \<and>
        page_at db (pf_date_id f) = None"
proof -
  let ?db = "retire_slugs_moved_from c es db"
  obtain db1 where proj: "project_date_events es (wx_show x) (wx_venue x) ?db = Inr db1"
    and db': "db' = write_date_integration_events c x es db1"
    using assms(1) by (auto simp: record_date_events_def result_simps)
  have page: "page_at ?db j = page_at db j" for j using retire_slugs_frame by (simp add: page_at_def)
  show ?thesis
  proof (cases "List.map_filter scheduled_facts es")
    case Nil
    with proj have "update_public_date es ?db = Inr db1" by (simp add: project_date_events_def)
    from update_public_date_recorded [OF this assms(2)] Nil page show ?thesis
      using retire_slugs_frame [of c es db]
      by (auto simp: db' write_date_integration_events_def elim!: page_recorded_frame)
  next
    case (Cons f fs)
    with proj have "insert_public_date f (wx_show x) (wx_venue x) es ?db = Inr db1" by (simp add: project_date_events_def)
    from insert_public_date_recorded [OF this] Cons page show ?thesis
      using retire_slugs_frame [of c es db]
      by (auto simp: db' write_date_integration_events_def elim!: page_recorded_frame)
  qed
qed

section \<open>Commands and commits\<close>

text \<open>
  What each of catalog's transactions does to a date, its publication, its replay and its public
  page: the events a command leaves change the page exactly as the aggregates changed, and the
  commit writes the aggregates and that page together.
\<close>

section \<open>What the events say of the page\<close>

definition told_of :: "performance_date \<Rightarrow> date_keyed_event list" where
  "told_of a = map Date_Event (uncommitted a)"

text \<open>
  The events of a command from \<open>s\<close> concern its date, and make of the page of \<open>s\<close> the page of what the
  command left; a publication's write it whole.
\<close>

definition page_told :: "venue_row \<Rightarrow> performance_date_state \<Rightarrow> performance_date \<Rightarrow> bool" where
  "page_told venue s a \<longleftrightarrow>
     list_all (\<lambda>e. date_id_of_event e = pd_id (of_date s)) (told_of a) \<and>
     pd_id (of_date (current a)) = pd_id (of_date s) \<and>
     (case List.map_filter scheduled_facts (told_of a) of
        [] \<Rightarrow> (\<forall>r. map_option (fold page_change (told_of a)) (page_of (of_date s) (of_publication s) r) =
                 page_of (of_date (current a)) (of_publication (current a)) r)
      | f # _ \<Rightarrow> pf_date_id f = pd_id (of_date s) \<and> not_yet_public (pb_state (of_publication s)) \<and>
          Some (fold page_change (told_of a) (published_page f venue)) =
            page_of (of_date (current a)) (of_publication (current a)) None)"

lemma transition_page_told:
  assumes laws: "transition_laws c" and run: "transition_publication c cmd x (restore s) = Inr b"
    and venue: "ve_id venue = pd_venue_id (of_date s)" and wf: "date_wf s"
  shows "page_told venue s b"
  using run
proof (cases rule: transition_publication_Inr)
  case (kept p' changed)
  from kept(1) show ?thesis
  proof (rule publication_transitioned_Inr)
    fix t
    assume "changed = PublicationStateChanged (pb_date_id (of_publication (current (restore s))))
        (pb_channel_id (of_publication (current (restore s)))) (pb_state (of_publication (current (restore s))))
        (tc_to cmd) (pb_version (of_publication (current (restore s))) + 1) (pt_irreversible_promise t \<noteq> None) (px_now x)"
      and "p' = (of_publication (current (restore s)))\<lparr>pb_state := tc_to cmd,
        pb_version := pb_version (of_publication (current (restore s))) + 1,
        pb_published_at := (if None = None then pb_published_at (of_publication (current (restore s)))
          else first_of (pb_published_at (of_publication (current (restore s)))) (px_now x)),
        pb_prices_locked_at := (if None = None then pb_prices_locked_at (of_publication (current (restore s)))
          else first_of (pb_prices_locked_at (of_publication (current (restore s)))) (px_now x)),
        pb_replay_online_at := (if tc_to cmd = Pub_Replay_Online then Some (px_now x)
          else pb_replay_online_at (of_publication (current (restore s))))\<rparr>"
    with kept wf show ?thesis
      by (simp add: page_told_def told_of_def List.map_filter_def date_wf_def Let_def page_of_def)
        (simp add: map_option.compositionality o_def)
  qed
next
  case (published p' changed e slug d)
  from published(1) show ?thesis
  proof (rule publication_transitioned_Inr)
    fix t
    assume t: "assert_commanded_transition c (pb_state (of_publication (current (restore s))))
        (pb_version (of_publication (current (restore s)))) cmd True = Inr t"
      and e: "Some e = (if pt_irreversible_promise t = Some Promise_Prices_Engaged
        then Some (PublicationEngaged (pb_date_id (of_publication (current (restore s))))
          (pb_channel_id (of_publication (current (restore s)))) (px_now x)) else None)"
      and changed: "changed = PublicationStateChanged (pb_date_id (of_publication (current (restore s))))
        (pb_channel_id (of_publication (current (restore s)))) (pb_state (of_publication (current (restore s))))
        (tc_to cmd) (pb_version (of_publication (current (restore s))) + 1) (pt_irreversible_promise t \<noteq> None) (px_now x)"
      and p': "p' = (of_publication (current (restore s)))\<lparr>pb_state := tc_to cmd,
        pb_version := pb_version (of_publication (current (restore s))) + 1,
        pb_published_at := (if Some e = None then pb_published_at (of_publication (current (restore s)))
          else first_of (pb_published_at (of_publication (current (restore s)))) (px_now x)),
        pb_prices_locked_at := (if Some e = None then pb_prices_locked_at (of_publication (current (restore s)))
          else first_of (pb_prices_locked_at (of_publication (current (restore s)))) (px_now x)),
        pb_replay_online_at := (if tc_to cmd = Pub_Replay_Online then Some (px_now x)
          else pb_replay_online_at (of_publication (current (restore s))))\<rparr>"
    have engaged: "pt_irreversible_promise t = Some Promise_Prices_Engaged"
      "e = PublicationEngaged (pb_date_id (of_publication s)) (pb_channel_id (of_publication s)) (px_now x)"
      using e by (auto split: if_splits)
    have "not_yet_public (pb_state (of_publication s))" using transition_lawsD(2) [OF laws t] engaged by simp
    moreover have "pd_outcome (of_date s) = None" "pd_rescheduled_to (of_date s) = None" "pb_date_id (of_publication s) = pd_id (of_date s)"
      using wf calculation by (auto simp: date_wf_def Let_def split: option.splits)
    ultimately show ?thesis
      using published(4-6) venue changed p' engaged
      by (simp add: page_told_def told_of_def List.map_filter_def public_facts_of_def published_page_def page_of_def)
  qed
qed

lemma learned_page_told:
  assumes "learn_publication_state c to now (restore s) = Inr b" and "date_wf s"
  shows "page_told venue s b"
proof -
  let ?p = "of_publication s"
  have "current b = s\<lparr>of_publication := ?p\<lparr>pb_state := to, pb_version := pb_version ?p + 1\<rparr>\<rparr>"
    "uncommitted b = [PublicationStateChanged (pb_date_id ?p) (pb_channel_id ?p) (pb_state ?p) to (pb_version ?p + 1) False now]"
    using assms(1) by (auto simp: learn_publication_state_def publication_learned_def Let_def result_simps split: if_splits)
  with assms(2) show ?thesis
    by (simp add: page_told_def told_of_def List.map_filter_def date_wf_def Let_def page_of_def)
      (simp add: map_option.compositionality o_def)
qed

lemma outcome_page_told:
  assumes "declare_outcome c v decl m slug now (restore s) = Inr b"
  shows "page_told venue s b"
  using assms
proof (rule declare_outcome_Inr)
  fix previous slug'
  assume "pd_slug (of_date (current (restore s))) = Some previous"
    and "slug' = (if od_rescheduled_to decl = None then previous else slug')"
    and "current b = \<lparr>of_date = (of_date (current (restore s)))\<lparr>pd_outcome := Some (od_outcome decl),
        pd_rescheduled_to := od_rescheduled_to decl, pd_outcome_declared_at := Some now, pd_outcome_message := Some m,
        pd_starts_at := (case od_rescheduled_to decl of None \<Rightarrow> pd_starts_at (of_date (current (restore s))) | Some t \<Rightarrow> t),
        pd_slug := Some slug', pd_postponements := pd_postponements (of_date (current (restore s))) +
          (if od_rescheduled_to decl = None then 0 else 1)\<rparr>,
      of_publication = (of_publication (current (restore s)))\<lparr>pb_version := pb_version (of_publication (current (restore s))) + 1\<rparr>\<rparr>"
    and "uncommitted b = uncommitted (restore s) @ DateOutcomeDeclared (pd_id (of_date (current (restore s))))
        (pd_channel_id (of_date (current (restore s)))) (od_outcome decl) m (od_rescheduled_to decl) now #
      (case od_rescheduled_to decl of None \<Rightarrow> [] | Some t \<Rightarrow> [DateRescheduled (pd_id (of_date (current (restore s))))
        (pd_show_id (of_date (current (restore s)))) (pd_starts_at (of_date (current (restore s)))) t previous slug' now])"
  then show ?thesis
    by (cases "od_rescheduled_to decl")
      (simp_all add: page_told_def told_of_def List.map_filter_def page_of_def)
qed

end
