(* ===== verification/Catalog_System.thy ===== *)
theory Catalog_System
  imports Catalog_Props
begin

text \<open>
  Catalog's transactions as steps of its tables, and what every state they reach keeps: a date and
  its publication agree, its replay follows its publication, and its public page says what its
  aggregates say.
\<close>

section \<open>A commit\<close>

definition date_committed :: "ident \<Rightarrow> performance_date_state \<Rightarrow> replay_snapshot option \<Rightarrow> catalog_db \<Rightarrow> catalog_db \<Rightarrow> bool" where
  "date_committed i s r db db' \<longleftrightarrow>
     (\<forall>j. date_at db' j = (if j = i then Some (of_date s) else date_at db j)) \<and>
     (\<forall>j. publication_at db' j = (if j = i then Some (of_publication s) else publication_at db j)) \<and>
     (\<forall>j. replay_at db' j = (if j = i then r else replay_at db j)) \<and>
     (\<forall>j. page_at db' j = (if j = i then page_of (of_date s) (of_publication s) r else page_at db j))"

lemma date_state_eta [simp]: "\<lparr>of_date = of_date s, of_publication = of_publication s\<rparr> = s"
  by simp

lemma date_committed_ok:
  assumes "date_committed i s r db db'" and "catalog_ok db" and "date_wf s" and "replay_follows (of_publication s) r"
  shows "catalog_ok db'"
  unfolding catalog_ok_def
proof
  fix j
  show "coherent (date_at db' j) (publication_at db' j) (replay_at db' j) (page_at db' j)"
    using assms by (cases "j = i") (simp_all add: date_committed_def catalog_ok_def)
qed

text \<open>A replay about to be saved: new, or loaded from the table; it moved once.\<close>

definition replay_told :: "ident \<Rightarrow> catalog_db \<Rightarrow> tracked_replay \<Rightarrow> bool" where
  "replay_told i db u \<longleftrightarrow> rp_date_id (current (root u)) = i \<and>
     (\<exists>from now. uncommitted (root u) = [replay_changed_of from now (current (root u))]) \<and>
     (u = created (root u) \<or>
      (\<exists>r. replay_at db i = Some r \<and> u = with_root (root u) (loaded (restore r) (rp_version r))))"

lemma replay_told_saved:
  assumes "replay_told i db u" and "cd_replays db1 = cd_replays db" and "save_replay u db1 = Inr (u', db2)"
  shows "replay_saved i (current (root u)) db1 db2" and "root u' = root u"
proof -
  have i: "rp_date_id (current (root u)) = i" using assms(1) by (simp add: replay_told_def)
  consider "u = created (root u)"
    | r where "replay_at db1 i = Some r" "u = with_root (root u) (loaded (restore r) (rp_version r))"
    using assms(1,2) unfolding replay_told_def by auto
  then have "replay_saved i (current (root u)) db1 db2 \<and> root u' = root u"
  proof cases
    case 1
    with assms(3) save_created_replay_saved [of "root u" db1 u' db2 i] i show ?thesis by metis
  next
    case 2
    with save_replay_saved [OF assms(3) 2(2,1) i] show ?thesis by blast
  qed
  then show "replay_saved i (current (root u)) db1 db2" "root u' = root u" by blast+
qed

lemma replay_page_change:
  "map_option (page_change (Replay_Event (replay_changed_of from now r'))) (page_of d p r) = page_of d p (Some r')"
  by (cases "pd_slug d") (simp_all add: page_of_def replay_changed_of_def)

lemma scheduled_keyed:
  "List.map_filter scheduled_facts (keyed_events (uncommitted a) es) = List.map_filter scheduled_facts (told_of a)"
  by (induction es) (simp_all add: keyed_events_def told_of_def List.map_filter_def)

text \<open>The records of a command, on the page of the aggregates it was decided on.\<close>

lemma record_told:
  assumes rec: "record_date_events c x (keyed_events (uncommitted a) es) db = Inr db'"
    and told: "page_told (wx_venue x) s a" and i: "pd_id (of_date s) = i"
    and page: "page_at db i = page_of (of_date s) (of_publication s) r0"
    and replay: "es = [] \<and> r = r0 \<or> List.map_filter scheduled_facts (told_of a) = [] \<and>
      (\<exists>from now r'. r = Some r' \<and> rp_date_id r' = i \<and> es = [replay_changed_of from now r'])"
    and fresh: "List.map_filter scheduled_facts (told_of a) \<noteq> [] \<Longrightarrow> r0 = None"
  shows "page_recorded i (page_of (of_date (current a)) (of_publication (current a)) r) db db'"
proof -
  let ?page = "page_of (of_date (current a)) (of_publication (current a))"
  have keyed: "keyed_events (uncommitted a) es = told_of a @ map Replay_Event es"
    by (simp add: keyed_events_def told_of_def)
  have ids: "list_all (\<lambda>e. date_id_of_event e = i) (keyed_events (uncommitted a) es)"
    using told i replay by (auto simp: keyed page_told_def replay_changed_of_def)
  note recorded = record_date_events_recorded [OF rec ids, unfolded scheduled_keyed]
  show ?thesis
  proof (cases "List.map_filter scheduled_facts (told_of a)")
    case Nil
    have "map_option (fold page_change (told_of a)) (page_of (of_date s) (of_publication s) r0) = ?page r0"
      using told Nil by (simp add: page_told_def)
    then have "map_option (fold page_change (keyed_events (uncommitted a) es)) (page_at db i) =
        map_option (fold page_change (map Replay_Event es)) (?page r0)"
      by (simp add: keyed page fold_append flip: map_option.compositionality)
    moreover have "\<dots> = ?page r"
      using replay by (elim disjE conjE exE) (simp_all add: option.map_id replay_page_change)
    ultimately show ?thesis using recorded Nil by simp
  next
    case (Cons f fs)
    then have es: "es = []" "r = None" using replay fresh by auto
    from Cons told have "pf_date_id f = i"
      "Some (fold page_change (told_of a) (published_page f (wx_venue x))) = ?page None"
      by (simp_all add: page_told_def i)
    moreover have "keyed_events (uncommitted a) [] = told_of a" by (simp add: keyed_events_def told_of_def)
    ultimately show ?thesis using recorded Cons es by simp
  qed
qed

lemma catalog_ok_at:
  assumes "catalog_ok db" and "date_at db i = Some d" and "publication_at db i = Some p"
  shows "date_wf \<lparr>of_date = d, of_publication = p\<rparr>" and "replay_follows p (replay_at db i)"
    and "page_at db i = page_of d p (replay_at db i)" and "pd_id d = i"
proof -
  have "coherent (Some d) (Some p) (replay_at db i) (page_at db i)"
    using assms unfolding catalog_ok_def by metis
  then show "date_wf \<lparr>of_date = d, of_publication = p\<rparr>" "replay_follows p (replay_at db i)"
    "page_at db i = page_of d p (replay_at db i)" by simp_all
  show "pd_id d = i" using assms(2) by (blast dest: tbl_find_SomeD)
qed

lemma commit_date_committed:
  assumes ok: "catalog_ok db" and at: "date_at db i = Some (of_date s)" "publication_at db i = Some (of_publication s)"
    and run: "commit_date c x (with_root a (loaded (restore s) (pb_version (of_publication s)))) replay db = Inr db'"
    and told: "page_told (wx_venue x) s a" and wf: "date_wf (current a)"
    and replay: "case replay of None \<Rightarrow> True
      | Some u \<Rightarrow> replay_told i db u \<and> List.map_filter scheduled_facts (told_of a) = []"
  shows "date_committed i (current a) (case replay of None \<Rightarrow> replay_at db i | Some u \<Rightarrow> Some (current (root u))) db db'"
proof -
  let ?t = "with_root a (loaded (restore s) (pb_version (of_publication s)))"
  let ?r = "case replay of None \<Rightarrow> replay_at db i | Some u \<Rightarrow> Some (current (root u))"
  note known = catalog_ok_at [OF ok at]
  have id: "pd_id (of_date (current a)) = i" "pb_date_id (of_publication (current a)) = i"
    using told known(4) wf by (simp_all add: page_told_def date_wf_def Let_def)
  obtain t' db1 es db2 where saved: "save_date ?t db = Inr (t', db1)"
    and moved: "(case replay of None \<Rightarrow> Inr ([], db1)
       | Some r \<Rightarrow> bindE (save_replay r db1) (\<lambda>(r', db2). Inr (uncommitted (root r'), db2))) = Inr (es, db2)"
    and rec: "record_date_events c x (keyed_events (uncommitted (root t')) es) db2 = Inr db'"
    using run by (auto simp: commit_date_def result_simps)
  note date = save_date_saved [OF saved refl at id]
  have tables: "cd_dates db2 = cd_dates db1 \<and> cd_publications db2 = cd_publications db1 \<and> cd_public db2 = cd_public db1 \<and>
      (\<forall>j. replay_at db2 j = (if j = i then ?r else replay_at db j)) \<and>
      (es = [] \<and> ?r = replay_at db i \<or> List.map_filter scheduled_facts (told_of a) = [] \<and>
        (\<exists>from now r'. ?r = Some r' \<and> rp_date_id r' = i \<and> es = [replay_changed_of from now r']))"
  proof (cases replay)
    case None
    with moved date show ?thesis by (simp add: date_saved_def)
  next
    case (Some u)
    then obtain u' where "save_replay u db1 = Inr (u', db2)" and es: "es = uncommitted (root u')"
      using moved by (auto simp: result_simps)
    with Some replay date(1) replay_told_saved [of i db u db1 u' db2] have
      "replay_saved i (current (root u)) db1 db2" "root u' = root u" "replay_told i db u"
      "List.map_filter scheduled_facts (told_of a) = []" "cd_replays db1 = cd_replays db"
      by (simp_all add: date_saved_def)
    with es Some show ?thesis by (auto simp: replay_saved_def replay_told_def)
  qed
  have public: "page_at db2 j = page_at db j" for j using tables date(1) by (simp add: page_at_def date_saved_def)
  have "page_recorded i (page_of (of_date (current a)) (of_publication (current a)) ?r) db2 db'"
  proof (rule record_told [where s = s and ?r0.0 = "replay_at db i"])
    show "record_date_events c x (keyed_events (uncommitted a) es) db2 = Inr db'" using rec date(2) by simp
    show "page_at db2 i = page_of (of_date s) (of_publication s) (replay_at db i)" using public known(3) by simp
    show "replay_at db i = None" if "List.map_filter scheduled_facts (told_of a) \<noteq> []"
    proof -
      have "not_yet_public (pb_state (of_publication s))"
        using told that by (auto simp: page_told_def split: list.splits)
      with known(2) show ?thesis by (auto simp: replay_follows_def not_yet_public_def split: option.splits)
    qed
  qed (use told known(4) tables in blast)+
  with tables date(1) public show ?thesis by (simp add: date_committed_def date_saved_def page_recorded_def)
qed

section \<open>The transactions\<close>

lemma catalog_ok_cong:
  assumes "catalog_ok db" and "cd_dates db' = cd_dates db" and "cd_publications db' = cd_publications db"
    and "cd_replays db' = cd_replays db" and "\<And>j. page_at db' j = page_at db j"
  shows "catalog_ok db'"
  using assms by (simp add: catalog_ok_def)

lemma load_date_Inr:
  assumes "load_date i db = Inr l"
  obtains s where "date_at db i = Some (of_date s)" and "publication_at db i = Some (of_publication s)"
    and "ld_date l = loaded (restore s) (pb_version (of_publication s))"
    and "ve_id (ld_venue l) = pd_venue_id (of_date s)" and "sw_id (ld_show l) = pd_show_id (of_date s)"
proof -
  obtain d p where at: "date_at db i = Some d" "publication_at db i = Some p"
    and l: "(case (tbl_find sw_id (pd_show_id d) (cd_shows db), tbl_find ve_id (pd_venue_id d) (cd_venues db)) of
        (Some show, Some venue) \<Rightarrow> Inr \<lparr>ld_date = loaded (restore \<lparr>of_date = d, of_publication = p\<rparr>) (pb_version p),
          ld_show = show, ld_venue = venue\<rparr>
      | _ \<Rightarrow> Inl (Catalog_Defect ''EntityNotFoundError'')) = (Inr l :: loaded_date catalog_result)"
    using assms by (auto simp: load_date_def find_date_def Let_def result_simps split: option.splits)
  show thesis
  proof (rule that [of "\<lparr>of_date = d, of_publication = p\<rparr>"])
    show "ld_date l = loaded (restore \<lparr>of_date = d, of_publication = p\<rparr>)
        (pb_version (of_publication \<lparr>of_date = d, of_publication = p\<rparr>))"
      "ve_id (ld_venue l) = pd_venue_id (of_date \<lparr>of_date = d, of_publication = p\<rparr>)"
      "sw_id (ld_show l) = pd_show_id (of_date \<lparr>of_date = d, of_publication = p\<rparr>)"
      using l by (auto split: option.splits dest: tbl_find_SomeD)
  qed (use at in simp_all)
qed

lemma draft_date_in_committed:
  assumes ok: "catalog_ok db" and run: "draft_date_in c origin now cmd db = Inr (v, db')"
  obtains d where "dd_id d = dc_date_id cmd" and "date_committed (dc_date_id cmd) (current (draft_date c d now)) None db db'"
proof -
  obtain sh venue a t db1 where
    a: "a = draft_date c \<lparr>dd_id = dc_date_id cmd, dd_show_id = sw_id sh, dd_venue_id = ve_id venue,
      dd_channel_id = dc_channel_id cmd, dd_starts_at = dc_starts_at cmd, dd_runtime_min = sw_runtime_min sh,
      dd_replay_policy = dc_replay_policy cmd, dd_replay_window_hours = dc_replay_window_hours cmd\<rparr> now"
    and saved: "save_date (created a) db = Inr (t, db1)"
    and rec: "record_date_events c \<lparr>wx_origin = origin, wx_show = sh, wx_venue = venue,
      wx_traceparent = dc_traceparent cmd\<rparr> (keyed_events (uncommitted (root t)) []) db1 = Inr db'"
    using run by (auto simp: draft_date_in_def Let_def result_simps split: option.splits if_splits)
  let ?i = "dc_date_id cmd"
  have ids: "pd_id (of_date (current a)) = ?i" "pb_date_id (of_publication (current a)) = ?i"
    by (simp_all add: a draft_date_def draft_publication_def)
  have s: "pd_slug (of_date (current a)) = None" "pb_replay_online_at (of_publication (current a)) = None"
    by (simp_all add: a draft_date_def draft_publication_def)
  have told: "keyed_events (uncommitted a) [] = [Date_Event (DateDrafted ?i (dc_channel_id cmd) (sw_id sh) (ve_id venue) now)]"
    by (simp add: a draft_date_def keyed_events_def)
  note date = save_created_date_saved [OF saved ids]
  have none: "replay_at db ?i = None" "page_at db ?i = None"
    using ok date(3,4) unfolding catalog_ok_def by (metis coherent.simps(2))+
  have "page_recorded ?i None db1 db'"
    using record_date_events_recorded [OF rec, of ?i] date(1,2) none
    by (simp add: told List.map_filter_def page_at_def date_saved_def)
  then have "date_committed ?i (current a) None db db'"
    using date(1) none s by (auto simp: date_committed_def page_recorded_def date_saved_def page_at_def page_of_def)
  then show thesis unfolding a by (rule that [rotated]) simp
qed

lemma draft_date_in_ok:
  assumes "catalog_ok db" and "draft_date_in c origin now cmd db = Inr (v, db')"
  shows "catalog_ok db'"
  using assms
proof (rule draft_date_in_committed)
  fix d assume "date_committed (dc_date_id cmd) (current (draft_date c d now)) None db db'"
  then show ?thesis
    by (rule date_committed_ok [OF _ assms(1) draft_date_wf])
      (simp add: draft_date_def draft_publication_def replay_follows_def)
qed

lemma replay_follows_none:
  assumes "replay_follows p r" and "pb_state p \<notin> {Pub_Ended, Pub_Replay_Online}"
  shows "r = None" and "pb_replay_online_at p = None"
  using assms by (cases r; simp add: replay_follows_def)+

lemma find_replay_told:
  assumes "find_replay i db = Some t" and "uncommitted a = [replay_changed_of from now (current a)]"
    and "rp_date_id (current a) = i"
  shows "replay_told i db (with_root a t)"
  using assms by (auto simp: replay_told_def find_replay_def with_root_def)

lemma replay_moved_told:
  assumes "find_replay i db = Some t"
  shows "replay_told i db (with_root (replay_move_to to (\<lambda>s. s\<lparr>rp_online_at := x\<rparr>) now (root t)) t)"
    and "replay_told i db (with_root (replay_move_to to (\<lambda>s. s\<lparr>rp_closed_at := x\<rparr>) now (root t)) t)"
    and "replay_told i db (with_root (replay_move_to to (\<lambda>s. s\<lparr>rp_withdrawn_at := x\<rparr>) now (root t)) t)"
proof -
  obtain r where "replay_at db i = Some r" and t: "t = loaded (restore r) (rp_version r)"
    using assms by (auto simp: find_replay_def)
  then have "rp_date_id r = i" by (blast dest: tbl_find_SomeD)
  with assms t show "replay_told i db (with_root (replay_move_to to (\<lambda>s. s\<lparr>rp_online_at := x\<rparr>) now (root t)) t)"
    "replay_told i db (with_root (replay_move_to to (\<lambda>s. s\<lparr>rp_closed_at := x\<rparr>) now (root t)) t)"
    "replay_told i db (with_root (replay_move_to to (\<lambda>s. s\<lparr>rp_withdrawn_at := x\<rparr>) now (root t)) t)"
    by (auto intro!: find_replay_told simp: replay_move_to_def Let_def)
qed

lemma replay_followed:
  assumes "replay_follows p r" and "r = Some x" and "replay_wf x'" and "rp_online_at x' = rp_online_at x"
    and "pb_state p' = pb_state p" and "pb_replay_online_at p' = pb_replay_online_at p"
  shows "replay_follows p' (Some x')"
  using assms by (simp add: replay_follows_def)

lemma replay_followed_same:
  "replay_follows p r \<Longrightarrow> pb_state p' = pb_state p \<Longrightarrow> pb_replay_online_at p' = pb_replay_online_at p \<Longrightarrow> replay_follows p' r"
  by (cases r) (simp_all add: replay_follows_def)

text \<open>The publication a transition leaves.\<close>

lemma transition_publication_left:
  assumes laws: "transition_laws c" and run: "transition_publication c cmd x a = Inr b"
  shows "pb_state (of_publication (current b)) = tc_to cmd"
    and "pb_replay_online_at (of_publication (current b)) =
      (if tc_to cmd = Pub_Replay_Online then Some (px_now x) else pb_replay_online_at (of_publication (current a)))"
    and "tc_to cmd = Pub_Replay_Online \<longleftrightarrow> pb_state (of_publication (current a)) = Pub_Ended"
    and "pb_state (of_publication (current a)) \<noteq> Pub_Replay_Online"
    and "tc_to cmd = Pub_Replay_Online \<Longrightarrow> uncommitted a = [] \<Longrightarrow> List.map_filter scheduled_facts (told_of b) = []"
proof -
  let ?p = "of_publication (current a)"
  have "\<exists>t. assert_commanded_transition c (pb_state ?p) (pb_version ?p) cmd True = Inr t \<and>
      pb_state (of_publication (current b)) = tc_to cmd \<and> pb_replay_online_at (of_publication (current b)) =
        (if tc_to cmd = Pub_Replay_Online then Some (px_now x) else pb_replay_online_at ?p) \<and>
      (tc_to cmd = Pub_Replay_Online \<longrightarrow> uncommitted a = [] \<longrightarrow> List.map_filter scheduled_facts (told_of b) = [])"
    using run
  proof (cases rule: transition_publication_Inr)
    case (kept p' changed)
    from kept(1) show ?thesis
      by (rule publication_transitioned_Inr) (use kept in \<open>auto simp: told_of_def List.map_filter_def\<close>)
  next
    case (published p' changed e slug d)
    from published(1) show ?thesis
    proof (rule publication_transitioned_Inr)
      fix t assume t: "assert_commanded_transition c (pb_state ?p) (pb_version ?p) cmd True = Inr t"
        and e: "Some e = (if pt_irreversible_promise t = Some Promise_Prices_Engaged
          then Some (PublicationEngaged (pb_date_id ?p) (pb_channel_id ?p) (px_now x)) else None)"
        and p': "p' = ?p\<lparr>pb_state := tc_to cmd, pb_version := pb_version ?p + 1,
          pb_published_at := (if Some e = None then pb_published_at ?p else first_of (pb_published_at ?p) (px_now x)),
          pb_prices_locked_at := (if Some e = None then pb_prices_locked_at ?p
            else first_of (pb_prices_locked_at ?p) (px_now x)),
          pb_replay_online_at := (if tc_to cmd = Pub_Replay_Online then Some (px_now x) else pb_replay_online_at ?p)\<rparr>"
      have "tc_to cmd = Pub_Scheduled" using transition_lawsD(2) [OF laws t] e by (auto split: if_splits)
      with t p' published(5) show ?thesis by simp
    qed
  qed
  then show "pb_state (of_publication (current b)) = tc_to cmd"
    "pb_replay_online_at (of_publication (current b)) =
      (if tc_to cmd = Pub_Replay_Online then Some (px_now x) else pb_replay_online_at ?p)"
    "tc_to cmd = Pub_Replay_Online \<longleftrightarrow> pb_state ?p = Pub_Ended" "pb_state ?p \<noteq> Pub_Replay_Online"
    "tc_to cmd = Pub_Replay_Online \<Longrightarrow> uncommitted a = [] \<Longrightarrow> List.map_filter scheduled_facts (told_of b) = []"
    using transition_lawsD(5,6) [OF laws] by blast+
qed

lemma replay_put_online_told:
  assumes laws: "replay_laws c" and "replay_put_online c i now db = Inr u"
    and follows: "replay_follows p (replay_at db i)"
  shows "replay_told i db u" and "replay_wf (current (root u))" and "rp_online_at (current (root u)) = Some now"
proof -
  obtain t b where t: "find_replay i db = Some t" and b: "replay_go_online c now (root t) = Inr b"
    and u: "u = with_root b t"
    using assms by (auto simp: replay_put_online_def replay_laws_def result_simps split: option.splits)
  note online = replay_go_online_Inr [OF laws b]
  show "replay_told i db u" unfolding u online(4) by (rule replay_moved_told(1) [OF t])
  have "replay_wf (current (root t))" using t follows by (auto simp: find_replay_def replay_follows_def)
  with online show "replay_wf (current (root u))" by (simp add: u replay_moves_wf(4))
  show "rp_online_at (current (root u)) = Some now" by (simp add: u online(4) replay_move_to_def Let_def)
qed

text \<open>A transition commits what the aggregate decided, with the slug that was free.\<close>

lemma transition_publication_in_committed:
  assumes laws: "catalog_laws c" and ok: "catalog_ok db"
    and run: "transition_publication_in c origin now cmd db = Inr (v, db')"
  obtains s tc x zone a r where "date_at db (tp_date_id cmd) = Some (of_date s)"
    and "transition_publication c tc x (restore s) = Inr a"
    and "px_free_slug x = (if pd_slug (of_date s) = None then Some (free_date_slug c (tp_date_id cmd)
      (pd_show_id (of_date s)) (pd_starts_at (of_date s)) zone now db) else None)"
    and "date_committed (tp_date_id cmd) (current a) r db db'" and "date_wf (current a)"
    and "replay_follows (of_publication (current a)) r"
proof -
  let ?i = "tp_date_id cmd"
  obtain l a replay where l: "load_date ?i db = Inr l"
    and tr: "transition_publication c \<lparr>tc_to = tp_to cmd, tc_expected_version = tp_expected_version cmd,
        tc_acknowledged_promise = tp_acknowledged_promise cmd\<rparr> \<lparr>px_satisfied = satisfied_checklist_items (ld_show l)
          (filter (\<lambda>r. cf_date_id r = ?i) (cd_checklist db)),
        px_free_slug = (if pd_slug (of_date (current (root (ld_date l)))) = None
          then Some (free_date_slug c ?i (pd_show_id (of_date (current (root (ld_date l)))))
            (pd_starts_at (of_date (current (root (ld_date l))))) (ve_time_zone (ld_venue l)) now db)
          else None),
        px_show_runtime_min = sw_runtime_min (ld_show l), px_now = now\<rparr> (root (ld_date l)) = Inr a"
    and replay: "(if tp_to cmd = Pub_Replay_Online
      then bindE (replay_put_online c ?i now db) (\<lambda>r. Inr (Some r)) else Inr None) = Inr replay"
    and commit: "commit_date c (wire_context origin l (tp_traceparent cmd)) (with_root a (ld_date l)) replay db = Inr db'"
    using run by (auto simp: transition_publication_in_def Let_def result_simps)
  obtain tc x where x: "px_now x = now" and tc: "tc_to tc = tp_to cmd"
    and free: "px_free_slug x = (if pd_slug (of_date (current (root (ld_date l)))) = None
          then Some (free_date_slug c ?i (pd_show_id (of_date (current (root (ld_date l)))))
            (pd_starts_at (of_date (current (root (ld_date l))))) (ve_time_zone (ld_venue l)) now db)
          else None)"
    and a: "transition_publication c tc x (root (ld_date l)) = Inr a" by (rule that [OF _ _ _ tr]) simp_all
  from l obtain s where at: "date_at db ?i = Some (of_date s)" "publication_at db ?i = Some (of_publication s)"
    and ld: "ld_date l = loaded (restore s) (pb_version (of_publication s))"
    and ve: "ve_id (ld_venue l) = pd_venue_id (of_date s)" by (rule load_date_Inr)
  note known = catalog_ok_at [OF ok at, simplified]
  have laws': "transition_laws c" "replay_laws c" using laws by (simp_all add: catalog_laws_def)
  have a': "transition_publication c tc x (restore s) = Inr a" using a by (simp add: ld)
  have wf: "date_wf (current a)" using transition_publication_wf [OF laws'(1) a'] known(1) by simp
  have told: "page_told (wx_venue (wire_context origin l (tp_traceparent cmd))) s a"
    using transition_page_told [OF laws'(1) a' ve known(1)] by (simp add: wire_context_def)
  note left = transition_publication_left [OF laws'(1) a', simplified, unfolded tc x]
  have "(case replay of None \<Rightarrow> True | Some u \<Rightarrow> replay_told ?i db u \<and> List.map_filter scheduled_facts (told_of a) = []) \<and>
    replay_follows (of_publication (current a))
      (case replay of None \<Rightarrow> replay_at db ?i | Some u \<Rightarrow> Some (current (root u)))"
  proof (cases "tp_to cmd = Pub_Replay_Online")
    case True
    then obtain u where u: "replay_put_online c ?i now db = Inr u" "replay = Some u"
      using replay by (auto simp: result_simps)
    with replay_put_online_told [OF laws'(2) u(1) known(2)] left True show ?thesis by (simp add: replay_follows_def)
  next
    case False
    with left have "pb_state (of_publication s) \<notin> {Pub_Ended, Pub_Replay_Online}" by simp
    with replay_follows_none [OF known(2)] False replay left show ?thesis by (simp add: replay_follows_def)
  qed
  with commit_date_committed [OF ok at commit [unfolded ld] told wf]
  have "date_committed ?i (current a) (case replay of None \<Rightarrow> replay_at db ?i | Some u \<Rightarrow> Some (current (root u))) db db'"
    and "replay_follows (of_publication (current a))
      (case replay of None \<Rightarrow> replay_at db ?i | Some u \<Rightarrow> Some (current (root u)))" by blast+
  moreover have "px_free_slug x = (if pd_slug (of_date s) = None then Some (free_date_slug c ?i
      (pd_show_id (of_date s)) (pd_starts_at (of_date s)) (ve_time_zone (ld_venue l)) now db) else None)"
    using free by (simp add: ld cong: if_cong)
  ultimately show thesis by (intro that [OF at(1) a' _ _ wf])
qed

lemma transition_publication_in_ok:
  assumes "catalog_laws c" and "catalog_ok db" and "transition_publication_in c origin now cmd db = Inr (v, db')"
  shows "catalog_ok db'"
  using assms by (rule transition_publication_in_committed) (rule date_committed_ok [OF _ assms(2)])

text \<open>An outcome commits what the aggregate decided, with the slug free at the new start.\<close>


lemma declare_outcome_in_committed:
  assumes laws: "catalog_laws c" and ok: "catalog_ok db"
    and run: "declare_outcome_in c origin now cmd db = Inr (v, db')"
  obtains s decl zone a x replay r where "date_at db (do_date_id cmd) = Some (of_date s)"
    and "declare_outcome c (do_expected_version cmd) decl (do_message cmd)
      (map_option (\<lambda>moved_to. free_date_slug c (do_date_id cmd) (pd_show_id (of_date s)) moved_to zone now db)
        (od_rescheduled_to decl)) now (restore s) = Inr a"
    and "commit_date c x (with_root a (loaded (restore s) (pb_version (of_publication s)))) replay db = Inr db'"
    and "date_committed (do_date_id cmd) (current a) r db db'" and "date_wf (current a)"
    and "replay_follows (of_publication (current a)) r"
proof -
  let ?i = "do_date_id cmd"
  obtain l decl a where l: "load_date ?i db = Inr l"
    and a: "declare_outcome c (do_expected_version cmd) decl (do_message cmd)
      (map_option (\<lambda>moved_to. free_date_slug c ?i (pd_show_id (of_date (current (root (ld_date l)))))
        moved_to (ve_time_zone (ld_venue l)) now db) (od_rescheduled_to decl)) now (root (ld_date l)) = Inr a"
    and commit: "commit_date c (wire_context origin l (do_traceparent cmd)) (with_root a (ld_date l))
      (Option.bind (if outcome_withdraws_replay c (od_outcome decl) then find_replay ?i db else None)
        (\<lambda>r. case replay_withdraw now (root r) of (b, True) \<Rightarrow> Some (with_root b r) | (_, False) \<Rightarrow> None)) db = Inr db'"
    using run by (auto simp: declare_outcome_in_def Let_def result_simps)
  let ?replay = "Option.bind (if outcome_withdraws_replay c (od_outcome decl) then find_replay ?i db else None)
    (\<lambda>r. case replay_withdraw now (root r) of (b, True) \<Rightarrow> Some (with_root b r) | (_, False) \<Rightarrow> None)"
  from l obtain s where at: "date_at db ?i = Some (of_date s)" "publication_at db ?i = Some (of_publication s)"
    and ld: "ld_date l = loaded (restore s) (pb_version (of_publication s))" by (rule load_date_Inr)
  note known = catalog_ok_at [OF ok at, simplified]
  have laws': "outcome_laws c" using laws by (simp add: catalog_laws_def)
  note a' = a [unfolded ld, simplified]
  have wf: "date_wf (current a)" using declare_outcome_wf [OF laws' a'] known(1) by simp
  have told: "page_told (wx_venue (wire_context origin l (do_traceparent cmd))) s a" by (rule outcome_page_told [OF a'])
  have same: "pb_state (of_publication (current a)) = pb_state (of_publication s)"
    "pb_replay_online_at (of_publication (current a)) = pb_replay_online_at (of_publication s)"
    "List.map_filter scheduled_facts (told_of a) = []"
    using a' by (rule declare_outcome_Inr, simp add: told_of_def List.map_filter_def split: option.splits)+
  have "(case ?replay of None \<Rightarrow> True | Some u \<Rightarrow> replay_told ?i db u \<and> List.map_filter scheduled_facts (told_of a) = []) \<and>
    replay_follows (of_publication (current a))
      (case ?replay of None \<Rightarrow> replay_at db ?i | Some u \<Rightarrow> Some (current (root u)))"
  proof (cases ?replay)
    case None
    with replay_followed_same [OF known(2) same(1,2)] show ?thesis by simp
  next
    case (Some u)
    then obtain t where t: "find_replay ?i db = Some t"
      and u: "u = with_root (replay_move_to Replay_Withdrawn (\<lambda>s. s\<lparr>rp_withdrawn_at := Some now\<rparr>) now (root t)) t"
      and still: "fst (replay_withdraw now (root t)) =
        replay_move_to Replay_Withdrawn (\<lambda>s. s\<lparr>rp_withdrawn_at := Some now\<rparr>) now (root t)"
      by (auto simp: replay_withdraw_def bind_eq_Some_conv split: if_splits)
    obtain r where r: "replay_at db ?i = Some r" "root t = restore r" using t by (auto simp: find_replay_def)
    with known(2) have "replay_wf (current (root t))" by (simp add: replay_follows_def)
    then have "replay_wf (current (root u))" using replay_moves_wf(3) [of "root t" now] still by (simp add: u)
    moreover have "rp_online_at (current (root u)) = rp_online_at r" by (simp add: u r replay_move_to_def Let_def)
    ultimately show ?thesis using Some replay_moved_told(3) [OF t] same replay_followed [OF known(2) r(1)] by (simp add: u)
  qed
  with commit_date_committed [OF ok at commit [unfolded ld] told wf]
  have "date_committed ?i (current a) (case ?replay of None \<Rightarrow> replay_at db ?i | Some u \<Rightarrow> Some (current (root u))) db db'"
    and "replay_follows (of_publication (current a))
      (case ?replay of None \<Rightarrow> replay_at db ?i | Some u \<Rightarrow> Some (current (root u)))" by blast+
  then show thesis by (intro that [OF at(1) a' commit [unfolded ld] _ wf])
qed

lemma declare_outcome_in_ok:
  assumes "catalog_laws c" and "catalog_ok db" and "declare_outcome_in c origin now cmd db = Inr (v, db')"
  shows "catalog_ok db'"
  using assms by (rule declare_outcome_in_committed) (rule date_committed_ok [OF _ assms(2)])


lemma claimed_tables:
  assumes "claim_catalog_message m db = (b, db0)"
  shows "cd_dates db0 = cd_dates db" and "cd_publications db0 = cd_publications db" and "cd_replays db0 = cd_replays db"
    and "cd_public db0 = cd_public db"
  using assms by (auto simp: claim_catalog_message_def split: if_splits)

lemma claimed_ok:
  assumes "catalog_ok db" and "claim_catalog_message m db = (b, db0)"
  shows "catalog_ok db0"
  by (rule catalog_ok_cong [OF assms(1)]) (simp_all add: claimed_tables [OF assms(2)] page_at_def)

lemma open_replay_told:
  "uncommitted (open_replay c g now) = [replay_changed_of None now (current (open_replay c g now))]"
  "rp_date_id (current (open_replay c g now)) = rg_date_id g" "rp_online_at (current (open_replay c g now)) = None"
  by (simp_all add: open_replay_def Let_def)

lemma replay_opened_told:
  assumes "replay_opened_by c d ended_at now = Some b" and "pd_id d = i"
  shows "replay_told i db (created b)" and "replay_wf (current b)" and "rp_online_at (current b) = None"
proof -
  obtain g where b: "b = open_replay c g now" and g: "rg_date_id g = i"
    using assms by (auto simp: replay_opened_by_def Let_def split: if_splits)
  have "uncommitted b = [replay_changed_of None now (current b)]" by (simp add: b open_replay_told(1))
  then show "replay_told i db (created b)" using open_replay_told(2) [of c g now] g by (auto simp: b replay_told_def)
  show "replay_wf (current b)" "rp_online_at (current b) = None"
    by (simp_all add: b open_replay_wf open_replay_told)
qed

lemma learn_run_fact_ok:
  assumes laws: "catalog_laws c" and ok: "catalog_ok db"
    and run: "learn_run_fact c origin now m told tp db = Inr (v, db')"
  shows "catalog_ok db'" and "date_at db' j = date_at db j"
proof -
  obtain claimed db0 where claim: "claim_catalog_message m db = (claimed, db0)" by (cases "claim_catalog_message m db")
  note ok0 = claimed_ok [OF ok claim]
  let ?i = "rf_run_date_id told" and ?to = "if rf_run_ended_at told = None then Pub_Live else Pub_Ended"
  consider "db' = db0" | l a where "load_date ?i db0 = Inr l"
      and "(if rf_run_ended_at told = None then learn_run_started c now (root (ld_date l))
        else learn_run_ended c now (root (ld_date l))) = Inr (a, True)"
      and "commit_date c (wire_context origin l tp) (with_root a (ld_date l))
        (Option.bind (rf_run_ended_at told)
          (\<lambda>ended_at. map_option created (replay_opened_by c (of_date (current a)) ended_at now))) db0 = Inr db'"
  proof (cases claimed)
    case True
    then obtain l a moved where l: "load_date ?i db0 = Inr l"
        "(if rf_run_ended_at told = None then learn_run_started c now (root (ld_date l))
          else learn_run_ended c now (root (ld_date l))) = Inr (a, moved)"
      and rest: "(if \<not> moved then Inr (Learn_Ignored, db0)
        else bindE (commit_date c (wire_context origin l tp) (with_root a (ld_date l))
          (Option.bind (rf_run_ended_at told)
            (\<lambda>ended_at. map_option created (replay_opened_by c (of_date (current a)) ended_at now))) db0)
          (\<lambda>db1. Inr (Learn_Applied, db1))) = Inr (v, db')"
      using run claim unfolding learn_run_fact_def Let_def by (auto simp: bindE_eq_Inr)
    show thesis
    proof (cases moved)
      case True
      with l rest that(2) show thesis by (simp add: result_simps)
    qed (use rest that(1) in simp)
  qed (use run claim that(1) in \<open>simp add: learn_run_fact_def\<close>)
  then have "catalog_ok db' \<and> date_at db' j = date_at db0 j"
  proof cases
    case 1
    with ok0 show ?thesis by simp
  next
    case (2 l a)
    let ?replay = "Option.bind (rf_run_ended_at told)
      (\<lambda>ended_at. map_option created (replay_opened_by c (of_date (current a)) ended_at now))"
    from 2(1) obtain s where at: "date_at db0 ?i = Some (of_date s)" "publication_at db0 ?i = Some (of_publication s)"
      and ld: "ld_date l = loaded (restore s) (pb_version (of_publication s))" by (rule load_date_Inr)
    note known = catalog_ok_at [OF ok0 at, simplified]
    have laws': "transition_laws c" using laws by (simp add: catalog_laws_def)
    have a: "learn_publication_state c ?to now (restore s) = Inr a"
      using 2(2) by (auto simp: ld dest: learn_run_Inr split: if_splits)
    note left = learn_publication_state_Inr [OF a]
    have moved_from: "pb_state (of_publication s) = Pub_Technical \<and> ?to = Pub_Live \<or>
        pb_state (of_publication s) = Pub_Live \<and> ?to = Pub_Ended"
      using left transition_laws_learned [OF laws'] by simp
    then have none: "replay_at db0 ?i = None" "pb_replay_online_at (of_publication s) = None"
      using replay_follows_none [OF known(2)] by auto
    have wf: "date_wf (current a)" using learn_publication_state_wf [OF laws' a] known(1) by simp
    have told: "page_told (wx_venue (wire_context origin l tp)) s a" by (rule learned_page_told [OF a known(1)])
    have id: "pd_id (of_date (current a)) = ?i" using told known(4) by (simp add: page_told_def)
    have fresh: "List.map_filter scheduled_facts (told_of a) = []" using left by (auto simp: told_of_def List.map_filter_def)
    have "(case ?replay of None \<Rightarrow> True | Some u \<Rightarrow> replay_told ?i db0 u \<and> List.map_filter scheduled_facts (told_of a) = []) \<and>
      replay_follows (of_publication (current a))
        (case ?replay of None \<Rightarrow> replay_at db0 ?i | Some u \<Rightarrow> Some (current (root u)))"
    proof (cases ?replay)
      case None
      with none left show ?thesis by (simp add: replay_follows_def)
    next
      case (Some u)
      then obtain ended_at b where "rf_run_ended_at told = Some ended_at" and u: "u = created b"
        and b: "replay_opened_by c (of_date (current a)) ended_at now = Some b"
        by (auto simp: bind_eq_Some_conv)
      with replay_opened_told [OF b id] Some fresh left none show ?thesis by (simp add: replay_follows_def)
    qed
    with commit_date_committed [OF ok0 at 2(3) [unfolded ld] told wf]
    have left_at: "date_committed ?i (current a) (case ?replay of None \<Rightarrow> replay_at db0 ?i | Some u \<Rightarrow> Some (current (root u))) db0 db'"
      and "replay_follows (of_publication (current a))
        (case ?replay of None \<Rightarrow> replay_at db0 ?i | Some u \<Rightarrow> Some (current (root u)))" by blast+
    then have "catalog_ok db'" by (rule date_committed_ok [OF _ ok0 wf])
    moreover have "of_date (current a) = of_date s" using left by simp
    ultimately show ?thesis using left_at at(1) by (simp add: date_committed_def)
  qed
  then show "catalog_ok db'" "date_at db' j = date_at db j" by (simp_all add: claimed_tables(1) [OF claim])
qed

text \<open>A fact on the replay's file: the page shows a duration only once the replay went online.\<close>

lemma learn_replay_fact_moved:
  assumes "learn_replay_fact now ready (restore r) = (b, True)" and "replay_wf r"
  shows "replay_wf (current b)" and "rp_online_at (current b) = rp_online_at r" and "rp_date_id (current b) = rp_date_id r"
    and "uncommitted b = [] \<and> (\<forall>d p. page_of d p (Some (current b)) = page_of d p (Some r)) \<or>
      uncommitted b = [replay_changed_of (Some (rp_state r)) now (current b)]"
proof -
  have "b = fst (learn_replay_fact now ready (restore r))" using assms(1) by simp
  then show "replay_wf (current b)"
    using replay_moves_wf(1,2) [of "restore r"] assms(2) by (simp add: learn_replay_fact_def split: option.splits)
  show "rp_online_at (current b) = rp_online_at r" "rp_date_id (current b) = rp_date_id r"
    using assms(1) by (auto simp: learn_replay_fact_def learn_asset_ready_def replay_close_def replay_move_to_def Let_def
        split: option.splits if_splits)
  show "uncommitted b = [] \<and> (\<forall>d p. page_of d p (Some (current b)) = page_of d p (Some r)) \<or>
      uncommitted b = [replay_changed_of (Some (rp_state r)) now (current b)]"
  proof (cases ready)
    case None
    with assms(1) show ?thesis
      by (auto simp: learn_replay_fact_def replay_close_def replay_move_to_def Let_def split: if_splits)
  next
    case (Some f)
    with assms have "uncommitted b = []" "rp_online_at r = None" "rp_online_at (current b) = None"
      "rp_state (current b) = rp_state r" "rp_closes_at (current b) = rp_closes_at r"
      by (auto simp: learn_replay_fact_def learn_asset_ready_def replay_wf_def Let_def split: if_splits)
    then show ?thesis by (simp add: page_of_def)
  qed
qed

lemma learn_replay_asset_fact_ok:
  assumes ok: "catalog_ok db" and run: "learn_replay_asset_fact now m i ready tp seen db = Inr (v, db')"
  shows "catalog_ok db'"
proof -
  obtain claimed db0 where claim: "claim_catalog_message m db = (claimed, db0)" by (cases "claim_catalog_message m db")
  note ok0 = claimed_ok [OF ok claim]
  consider "db' = db0" | t b t' db1 where "find_replay i db0 = Some t" "learn_replay_fact now ready (root t) = (b, True)"
      "save_replay (with_root b t) db0 = Inr (t', db1)" "record_replay_events tp (uncommitted (root t')) db1 = Inr db'"
    using run claim
    by (cases claimed) (auto simp: learn_replay_asset_fact_def result_simps split: option.splits if_splits bool.splits prod.splits)
  then show ?thesis
  proof cases
    case 1
    with ok0 show ?thesis by simp
  next
    case (2 t b t' db1)
    obtain r where r: "replay_at db0 i = Some r" "t = loaded (restore r) (rp_version r)"
      using 2(1) by (auto simp: find_replay_def)
    obtain d p where at: "date_at db0 i = Some d" "publication_at db0 i = Some p"
      using ok0 r(1) unfolding catalog_ok_def
      by (metis coherent.simps(2,3,4) option.distinct(1) option.exhaust)
    note known = catalog_ok_at [OF ok0 at]
    have wf: "replay_wf r" "rp_date_id r = i"
      using known(2) r(1) by (auto simp: replay_follows_def dest: tbl_find_SomeD)
    note moved = learn_replay_fact_moved [OF 2(2) [unfolded r(2), simplified] wf(1)]
    note saved = save_replay_saved [OF 2(3) [unfolded r(2)] refl r(1) moved(3) [unfolded wf(2)]]
    have pages: "page_at db1 j = page_at db0 j" for j using saved(1) by (simp add: page_at_def replay_saved_def)
    obtain db2 where upd: "update_public_date (map Replay_Event (uncommitted b)) db1 = Inr db2"
      and db': "db' = db2\<lparr>cd_outbox := cd_outbox db2 @ map (replay_outbox_row tp) (uncommitted b)\<rparr>"
      using 2(4) saved(2) by (auto simp: record_replay_events_def result_simps)
    have "page_recorded i (page_of d p (Some (current b))) db1 db2"
      using moved(4)
    proof (elim disjE conjE)
      assume "uncommitted b = []" and same: "\<forall>d p. page_of d p (Some (current b)) = page_of d p (Some r)"
      with upd have "db2 = db1" by (simp add: update_public_date_def)
      with same pages known(3) r(1) show ?thesis by (simp add: page_recorded_def)
    next
      assume es: "uncommitted b = [replay_changed_of (Some (rp_state r)) now (current b)]"
      have "page_recorded i (map_option (fold page_change (map Replay_Event (uncommitted b))) (page_at db1 i)) db1 db2"
        by (rule update_public_date_recorded [OF upd]) (simp add: es replay_changed_of_def moved(3) wf(2))
      then show ?thesis using pages known(3) by (simp add: es replay_page_change)
    qed
    then have "date_committed i \<lparr>of_date = d, of_publication = p\<rparr> (Some (current b)) db0 db'"
      using saved(1) pages at by (auto simp: date_committed_def page_recorded_def replay_saved_def db' page_at_def)
    then show ?thesis
      by (rule date_committed_ok [OF _ ok0 known(1)])
        (simp add: replay_followed [OF known(2) r(1) moved(1,2)])
  qed
qed

lemma record_checklist_fact_ok:
  assumes ok: "catalog_ok db" and run: "record_checklist_fact m f db = Inr (v, db')"
  shows "catalog_ok db'"
proof -
  obtain claimed db0 where claim: "claim_catalog_message m db = (claimed, db0)" by (cases "claim_catalog_message m db")
  have "db' = db0 \<or> (\<exists>t. db' = db0\<lparr>cd_checklist := t\<rparr>)"
    using run claim by (cases claimed) (auto simp: record_checklist_fact_def split: if_splits prod.splits)
  then show ?thesis
    by (elim disjE exE) (use claimed_ok [OF ok claim] in \<open>simp_all add: catalog_ok_def page_at_def\<close>)
qed

end
