(* ===== verification/Catalog_Shows.thy ===== *)
theory Catalog_Shows
  imports Catalog_Tables
begin

text \<open>
  Catalog's shows, venues and channel faces (\<open>apps/catalog/src/catalog\<close>, \<open>venues\<close>, \<open>artists\<close>, and the
  show's part of \<open>dates/slug.ts\<close>): the slugs they take, and the commands that write them with their
  copies on the public rows and their outbox rows. The identifier a command generates is an argument.
\<close>

section \<open>Slugs\<close>

definition TITLE_SLUG_MAX :: nat where
  "TITLE_SLUG_MAX = 60"

definition slug_char :: "char \<Rightarrow> bool" where
  "slug_char x \<longleftrightarrow> x \<in> set ''abcdefghijklmnopqrstuvwxyz0123456789''"

text \<open>A run of other characters becomes one hyphen.\<close>

function hyphenated :: "string \<Rightarrow> string" where
  "hyphenated [] = []"
| "hyphenated (x # xs) =
     (if slug_char x then x # hyphenated xs
      else CHR ''-'' # hyphenated (dropWhile (\<lambda>y. \<not> slug_char y) xs))"
  by pat_completeness auto
termination
  by (relation "measure length") (auto intro: le_imp_less_Suc length_dropWhile_le)

definition trimmed_start :: "string \<Rightarrow> string" where
  "trimmed_start s = dropWhile (\<lambda>x. x = CHR ''-'') s"

definition trimmed_end :: "string \<Rightarrow> string" where
  "trimmed_end s = rev (dropWhile (\<lambda>x. x = CHR ''-'') (rev s))"

definition slugify :: "catalog_core \<Rightarrow> string \<Rightarrow> string" where
  "slugify c text = trimmed_end (take TITLE_SLUG_MAX (trimmed_end (trimmed_start (hyphenated (unaccented c text)))))"

datatype locale_language = Fr | En

definition canonical_language_of :: "bilingual \<Rightarrow> locale_language" where
  "canonical_language_of title = (if bl_fr title \<noteq> [] then Fr else En)"

definition show_slug_candidates :: "catalog_core \<Rightarrow> bilingual \<Rightarrow> ident \<Rightarrow> string list" where
  "show_slug_candidates c title show_id =
     (let base = slugify c (if canonical_language_of title = Fr then bl_fr title else bl_en title) in
      if length base < 3 then [slice_last 12 show_id] else [base, base @ ''-'' @ slice_last 8 show_id])"

text \<open>Shows and artists share one namespace each.\<close>

definition UNSCOPED :: string where
  "UNSCOPED = []"

definition free_show_slug :: "catalog_core \<Rightarrow> bilingual \<Rightarrow> ident \<Rightarrow> instant \<Rightarrow> catalog_db \<Rightarrow> string" where
  "free_show_slug c title show_id now db =
     (case find (\<lambda>slug. \<not> list_ex (\<lambda>s. sw_slug s = slug) (cd_shows db) \<and>
             \<not> reserved_for_another Link_Show UNSCOPED slug show_id now db) (show_slug_candidates c title show_id) of
        Some slug \<Rightarrow> slug
      | None \<Rightarrow> show_id)"

section \<open>Shows\<close>

definition wire_localized_texts :: "bilingual \<Rightarrow> localized_copy list" where
  "wire_localized_texts b = filter (\<lambda>t. lc_text t \<noteq> [])
     [\<lparr>lc_content_language = ''fr'', lc_text = bl_fr b\<rparr>, \<lparr>lc_content_language = ''en'', lc_text = bl_en b\<rparr>]"

record show_to_publish =
  sp_channel_id :: ident
  sp_artist_id :: ident
  sp_category_id :: string
  sp_genre_ids :: "string list"
  sp_tag_ids :: "string list"
  sp_runtime_min :: int
  sp_language_dependency :: string
  sp_spoken_languages :: "string list"
  sp_subtitle_languages :: "string list"
  sp_surtitle_languages :: "string list"
  sp_media :: media_set
  sp_title :: bilingual
  sp_synopsis :: bilingual

definition show_row_of :: "ident \<Rightarrow> string \<Rightarrow> show_to_publish \<Rightarrow> show_row" where
  "show_row_of show_id slug s = \<lparr>sw_id = show_id, sw_slug = slug, sw_channel_id = sp_channel_id s,
     sw_artist_id = sp_artist_id s, sw_category_id = sp_category_id s, sw_genre_ids = sp_genre_ids s,
     sw_tag_ids = sp_tag_ids s, sw_runtime_min = sp_runtime_min s, sw_language_dependency = sp_language_dependency s,
     sw_spoken_languages = sp_spoken_languages s, sw_subtitle_languages = sp_subtitle_languages s,
     sw_surtitle_languages = sp_surtitle_languages s, sw_media = sp_media s, sw_title = sp_title s,
     sw_synopsis = sp_synopsis s\<rparr>"

definition show_published_of :: "show_row \<Rightarrow> instant \<Rightarrow> show_published_message" where
  "show_published_of s now = \<lparr>sm_show_id = sw_id s, sm_slug = sw_slug s, sm_channel_id = sw_channel_id s,
     sm_artist_id = sw_artist_id s, sm_category_id = sw_category_id s, sm_genre_ids = sw_genre_ids s,
     sm_tag_ids = sw_tag_ids s, sm_runtime_min = sw_runtime_min s, sm_language_dependency = sw_language_dependency s,
     sm_spoken_languages = sw_spoken_languages s, sm_subtitle_languages = sw_subtitle_languages s,
     sm_surtitle_languages = sw_surtitle_languages s, sm_media = sw_media s,
     sm_title = wire_localized_texts (sw_title s), sm_synopsis = wire_localized_texts (sw_synopsis s),
     sm_occurred_at = now\<rparr>"

definition write_catalog_event ::
    "catalog_event_type \<Rightarrow> ident \<Rightarrow> catalog_payload \<Rightarrow> string option \<Rightarrow> instant \<Rightarrow> catalog_db \<Rightarrow> catalog_db" where
  "write_catalog_event type key payload tp at db =
     db\<lparr>cd_outbox := cd_outbox db @ [catalog_event type key payload tp at]\<rparr>"

definition publish_show ::
    "catalog_core \<Rightarrow> ident \<Rightarrow> instant \<Rightarrow> show_to_publish \<Rightarrow> string option \<Rightarrow> catalog_db \<Rightarrow> (ident \<times> catalog_db) catalog_result" where
  "publish_show c show_id now s tp db =
     (let row = show_row_of show_id (free_show_slug c (sp_title s) show_id now db) s in
      bindE (ensure (sw_id row \<notin> sw_id ` set (cd_shows db)) (Catalog_Constraint ''show_pkey'')) (\<lambda>_.
      bindE (ensure (sw_slug row \<notin> sw_slug ` set (cd_shows db)) (Catalog_Constraint ''show_slug'')) (\<lambda>_.
      Inr (show_id, write_catalog_event Type_Show_Published show_id (Payload_Show_Published (show_published_of row now)) tp now
        (db\<lparr>cd_shows := cd_shows db @ [row]\<rparr>)))))"

record show_changes =
  sc_genre_ids :: "string list option"
  sc_tag_ids :: "string list option"
  sc_language_dependency :: "string option"
  sc_media :: "media_set option"
  sc_title :: "bilingual option"
  sc_synopsis :: "bilingual option"

definition changed_to :: "'a option \<Rightarrow> 'a \<Rightarrow> 'a" where
  "changed_to new old = (case new of None \<Rightarrow> old | Some x \<Rightarrow> x)"

definition show_changed :: "show_changes \<Rightarrow> show_row \<Rightarrow> show_row" where
  "show_changed ch s = s\<lparr>sw_genre_ids := changed_to (sc_genre_ids ch) (sw_genre_ids s),
     sw_tag_ids := changed_to (sc_tag_ids ch) (sw_tag_ids s),
     sw_language_dependency := changed_to (sc_language_dependency ch) (sw_language_dependency s),
     sw_media := changed_to (sc_media ch) (sw_media s), sw_title := changed_to (sc_title ch) (sw_title s),
     sw_synopsis := changed_to (sc_synopsis ch) (sw_synopsis s)\<rparr>"

definition update_show ::
    "ident \<Rightarrow> show_changes \<Rightarrow> instant \<Rightarrow> string option \<Rightarrow> catalog_db \<Rightarrow> catalog_db catalog_result" where
  "update_show show_id ch now tp db =
     (case tbl_find sw_id show_id (cd_shows db) of
        None \<Rightarrow> Inl Catalog_Not_Found
      | Some s \<Rightarrow>
          let row = show_changed ch s;
              db1 = db\<lparr>cd_shows := tbl_update (\<lambda>r. sw_id r = sw_id s) (\<lambda>_. row) (cd_shows db)\<rparr>
          in Inr (write_catalog_event Type_Show_Updated (sw_id s)
               (Payload_Show_Updated \<lparr>um_show_id = sw_id s, um_genre_ids = sw_genre_ids row, um_tag_ids = sw_tag_ids row,
                  um_language_dependency = sw_language_dependency row, um_media = sw_media row,
                  um_title = wire_localized_texts (sw_title row), um_synopsis = wire_localized_texts (sw_synopsis row),
                  um_occurred_at = now\<rparr>) tp now (project_show_copy row db1)))"

section \<open>Venues\<close>

record venue_to_create =
  vc_name :: string
  vc_city :: string
  vc_country :: string
  vc_time_zone :: string

definition create_venue ::
    "catalog_core \<Rightarrow> ident \<Rightarrow> venue_to_create \<Rightarrow> catalog_db \<Rightarrow> (ident \<times> catalog_db) catalog_result" where
  "create_venue c venue_id v db =
     bindE (ensure (is_known_time_zone c (vc_time_zone v)) (Catalog_Schema_Invalid [''timeZone''])) (\<lambda>_.
     bindE (ensure (venue_id \<notin> ve_id ` set (cd_venues db)) (Catalog_Constraint ''venue_pkey'')) (\<lambda>_.
     Inr (venue_id, db\<lparr>cd_venues := cd_venues db @ [\<lparr>ve_id = venue_id, ve_name = vc_name v, ve_city = vc_city v,
       ve_country = vc_country v, ve_time_zone = vc_time_zone v\<rparr>]\<rparr>)))"

section \<open>Channel faces\<close>

record update_identity_body =
  ui_expected_version :: int
  ui_public_name :: "string option"
  ui_slug :: "string option"
  ui_biography :: "localized_copy list option"
  ui_category_id :: "string option"

definition slug_held_by_another :: "string \<Rightarrow> ident \<Rightarrow> instant \<Rightarrow> catalog_db \<Rightarrow> bool" where
  "slug_held_by_another slug artist_id now db =
     (case tbl_find ar_slug slug (cd_artists db) of
        Some holder \<Rightarrow> ar_id holder \<noteq> artist_id
      | None \<Rightarrow> reserved_for_another Link_Artist UNSCOPED slug artist_id now db)"

definition free_artist_slug :: "catalog_core \<Rightarrow> string \<Rightarrow> ident \<Rightarrow> instant \<Rightarrow> catalog_db \<Rightarrow> string" where
  "free_artist_slug c public_name artist_id now db =
     (let base = slugify c public_name in
      if length base < 3 then slice_last 12 artist_id
      else if \<not> slug_held_by_another base artist_id now db then base
      else base @ ''-'' @ slice_last 8 artist_id)"

text \<open>\<open>manager.save\<close>: the row of that id replaced, or a new one, under the table's unique indexes.\<close>

definition save_artist :: "artist_row \<Rightarrow> artist_row list \<Rightarrow> artist_row list catalog_result" where
  "save_artist a t =
     (let others = filter (\<lambda>r. ar_id r \<noteq> ar_id a) t in
      bindE (ensure (ar_channel_id a \<notin> ar_channel_id ` set others) (Catalog_Constraint ''artist_channel_id'')) (\<lambda>_.
      bindE (ensure (ar_slug a \<notin> ar_slug ` set others) (Catalog_Constraint ''artist_slug'')) (\<lambda>_.
      Inr (if ar_id a \<in> ar_id ` set t then tbl_update (\<lambda>r. ar_id r = ar_id a) (\<lambda>_. a) t else t @ [a]))))"

text \<open>What an edit makes of a face: the name and the discipline are required of the first one.\<close>

definition face_fields ::
    "update_identity_body \<Rightarrow> artist_row option \<Rightarrow> (string \<times> string) catalog_result" where
  "face_fields body cur =
     (case (case ui_public_name body of None \<Rightarrow> map_option ar_public_name cur | Some n \<Rightarrow> Some n,
            case ui_category_id body of None \<Rightarrow> map_option ar_category_id cur | Some k \<Rightarrow> Some k) of
        (Some n, Some k) \<Rightarrow> Inr (n, k)
      | (name, category) \<Rightarrow> Inl (Catalog_Schema_Invalid
          ((if name = None then [''publicName''] else []) @ (if category = None then [''categoryId''] else []))))"

definition update_channel_identity ::
    "catalog_core \<Rightarrow> ident \<Rightarrow> instant \<Rightarrow> ident \<Rightarrow> update_identity_body \<Rightarrow> string option \<Rightarrow> catalog_db
       \<Rightarrow> (artist_row \<times> catalog_db) catalog_result" where
  "update_channel_identity c new_id now channel_id body tp db =
     (let cur = tbl_find ar_channel_id channel_id (cd_artists db);
          version = (case cur of None \<Rightarrow> 0 | Some a \<Rightarrow> ar_version a);
          artist_id = (case cur of None \<Rightarrow> new_id | Some a \<Rightarrow> ar_id a)
      in
      bindE (ensure (ui_expected_version body = version) (Catalog_Conflict version)) (\<lambda>_.
      bindE (face_fields body cur) (\<lambda>(name, category).
      let slug = (case (ui_slug body, cur) of
            (Some s, _) \<Rightarrow> s
          | (None, Some a) \<Rightarrow> ar_slug a
          | (None, None) \<Rightarrow> free_artist_slug c name artist_id now db)
      in
      bindE (ensure (\<not> (ui_slug body \<noteq> None \<and> slug_held_by_another slug artist_id now db)) Artist_Slug_Taken) (\<lambda>_.
      let db1 = (case cur of
            Some a \<Rightarrow> if ar_slug a \<noteq> slug then retire_slug c Link_Artist UNSCOPED (ar_slug a) artist_id now db else db
          | None \<Rightarrow> db);
          artist = \<lparr>ar_id = artist_id, ar_channel_id = channel_id, ar_public_name = name, ar_slug = slug,
            ar_biography = (case ui_biography body of
                None \<Rightarrow> (case cur of None \<Rightarrow> [] | Some a \<Rightarrow> ar_biography a) | Some b \<Rightarrow> b),
            ar_category_id = category, ar_version = version + 1\<rparr>
      in
      bindE (save_artist artist (cd_artists db1)) (\<lambda>artists.
      Inr (artist, write_catalog_event Type_Artist_Updated artist_id (Payload_Artist_Updated artist now) tp now
        (project_artist artist (db1\<lparr>cd_artists := artists\<rparr>))))))))"

end
