(* ===== verification/Public_Pages.thy ===== *)
theory Public_Pages
  imports Catalog_Shows
begin

text \<open>
  Catalog's public reads (\<open>apps/catalog/src/public\<close>): a date's card, its page with the other dates of
  its show, the artist's page, the links to them and what a link resolves to.
\<close>

section \<open>What the reads call\<close>

datatype display_state =
    Display_Scheduled | Display_Room_Open | Display_Live | Display_Postponed | Display_Replay
  | Display_Ended | Display_Cancelled | Display_Interrupted

record replay_display =
  rd_state :: replay_state
  rd_closes_at :: instant

record display_input =
  di_publication_state :: publication_state
  di_run_state :: "run_state option"
  di_outcome :: "date_outcome option"
  di_timing :: date_timing
  di_now :: instant
  di_replay :: "replay_display option"

text \<open>
  Of \<open>@arthome/core\<close>: what is shown of a date with the instant it holds until, when its room opens,
  whether it is over. \<open>url_parse\<close> is \<open>URL.parse\<close>, as its origin and its path.
\<close>

record display_core =
  public_display_state_of :: "display_input \<Rightarrow> display_state \<times> instant option"
  room_opens_at :: "date_timing \<Rightarrow> instant"
  is_fully_over :: "date_timing \<Rightarrow> instant \<Rightarrow> bool"
  url_parse :: "string \<Rightarrow> (string \<times> string) option"

section \<open>Cards\<close>

record public_date =
  pp_date_id :: ident
  pp_show_id :: ident
  pp_channel_id :: ident
  pp_artist_id :: "ident option"
  pp_artist_name :: "string option"
  pp_venue_id :: ident
  pp_venue_name :: "string option"
  pp_venue_city :: string
  pp_venue_country :: string
  pp_venue_timezone :: string
  pp_starts_at :: instant
  pp_runtime_min :: int
  pp_replay_policy :: replay_policy
  pp_replay_window_hours :: int
  pp_rights_scope :: rights_scope
  pp_blackout_countries :: "string list"
  pp_canonical_url :: string
  pp_show_slug :: string
  pp_slug :: string
  pp_publication_state :: publication_state
  pp_outcome :: "date_outcome option"
  pp_rescheduled_to :: "instant option"
  pp_category_id :: "string option"
  pp_genre_ids :: "string list"
  pp_tag_ids :: "string list"
  pp_language_dependency :: "string option"
  pp_title :: bilingual
  pp_media :: media_set
  pp_replay_state :: "replay_state option"
  pp_replay_closes_at :: "instant option"
  pp_replay_online_at :: "instant option"
  pp_replay_duration_sec :: "int option"

definition public_date_of_row :: "date_detail_public \<Rightarrow> string \<Rightarrow> public_date" where
  "public_date_of_row r origin = \<lparr>pp_date_id = pu_date_id r, pp_show_id = pu_show_id r, pp_channel_id = pu_channel_id r,
     pp_artist_id = Some (pu_artist_id r), pp_artist_name = pu_artist_name r, pp_venue_id = pu_venue_id r,
     pp_venue_name = Some (pu_venue_name r), pp_venue_city = pu_venue_city r, pp_venue_country = pu_venue_country r,
     pp_venue_timezone = pu_venue_timezone r, pp_starts_at = pu_starts_at r, pp_runtime_min = pu_runtime_min r,
     pp_replay_policy = pu_replay_policy r, pp_replay_window_hours = pu_replay_window_hours r,
     pp_rights_scope = tr_scope (pu_rights r), pp_blackout_countries = tr_blackout_countries (pu_rights r),
     pp_canonical_url = date_url origin (pu_show_slug r) (pu_slug r), pp_show_slug = pu_show_slug r, pp_slug = pu_slug r,
     pp_publication_state = pu_publication_state r, pp_outcome = pu_outcome r, pp_rescheduled_to = pu_rescheduled_to r,
     pp_category_id = Some (pu_category_id r), pp_genre_ids = pu_genre_ids r, pp_tag_ids = pu_tag_ids r,
     pp_language_dependency = Some (pu_language_dependency r), pp_title = pu_title r, pp_media = pu_media r,
     pp_replay_state = pu_replay_state r, pp_replay_closes_at = pu_replay_closes_at r,
     pp_replay_online_at = pu_replay_online_at r, pp_replay_duration_sec = pu_replay_duration_sec r\<rparr>"

definition timing_of :: "catalog_core \<Rightarrow> public_date \<Rightarrow> date_timing" where
  "timing_of c d = \<lparr>dt_starts_at = pp_starts_at d, dt_runtime_min = pp_runtime_min d,
     dt_room_opens_before_min = room_opens_minutes_before c, dt_replay_policy = pp_replay_policy d,
     dt_replay_window_hours = pp_replay_window_hours d\<rparr>"

definition served_in_french :: "public_date \<Rightarrow> bool" where
  "served_in_french d \<longleftrightarrow> canonical_language_of (pp_title d) = Fr"

fun run_state_known_from :: "publication_state \<Rightarrow> run_state option" where
  "run_state_known_from Pub_Scheduled = Some Run_Idle"
| "run_state_known_from Pub_Technical = Some Run_Idle"
| "run_state_known_from Pub_Live = Some Run_On_Air"
| "run_state_known_from Pub_Ended = Some Run_State_Ended"
| "run_state_known_from Pub_Replay_Online = Some Run_State_Ended"
| "run_state_known_from Pub_Draft = None"
| "run_state_known_from Pub_Reserve = None"

definition replay_display_of :: "public_date \<Rightarrow> replay_display option" where
  "replay_display_of d =
     (case (pp_replay_state d, pp_replay_closes_at d) of
        (Some s, Some t) \<Rightarrow> Some \<lparr>rd_state = s, rd_closes_at = t\<rparr>
      | _ \<Rightarrow> None)"

definition SHOWS_ITS_WINDOW :: "replay_state list" where
  "SHOWS_ITS_WINDOW = [Replay_Online, Replay_Closed]"

record card_replay =
  cr_policy :: replay_policy
  cr_window_hours :: int
  cr_available_from :: "instant option"
  cr_expires_at :: "instant option"
  cr_duration_sec :: "int option"

definition replay_of :: "public_date \<Rightarrow> card_replay" where
  "replay_of d =
     (let promise = \<lparr>cr_policy = pp_replay_policy d, cr_window_hours = pp_replay_window_hours d,
            cr_available_from = None, cr_expires_at = None, cr_duration_sec = None\<rparr>
      in case pp_replay_state d of
           None \<Rightarrow> promise
         | Some s \<Rightarrow>
             if s \<notin> set SHOWS_ITS_WINDOW then promise
             else promise\<lparr>cr_available_from := pp_replay_online_at d, cr_expires_at := pp_replay_closes_at d,
               cr_duration_sec := pp_replay_duration_sec d\<rparr>)"

record date_card =
  dk_id :: ident
  dk_show_id :: ident
  dk_channel_id :: ident
  dk_artist :: "(ident \<times> string) option"
  dk_slug :: string
  dk_canonical_url :: string
  dk_title :: string
  dk_category_id :: "string option"
  dk_genre_ids :: "string list"
  dk_tag_ids :: "string list"
  dk_starts_at :: instant
  dk_venue_clock :: "string \<times> int"
  dk_runtime_min :: int
  dk_venue :: "ident \<times> string option \<times> string \<times> string"
  dk_room_opens_at :: instant
  dk_display_state :: display_state
  dk_display_state_valid_until :: "instant option"
  dk_outcome :: "date_outcome option"
  dk_rescheduled_to :: "instant option"
  dk_replay :: card_replay
  dk_rights :: "rights_scope \<times> string list"
  dk_media :: media_set
  dk_language_dependency :: "string option"

definition date_card_of :: "catalog_core \<Rightarrow> display_core \<Rightarrow> public_date \<Rightarrow> instant \<Rightarrow> date_card" where
  "date_card_of c k d now =
     (let display = public_display_state_of k \<lparr>di_publication_state = pp_publication_state d,
            di_run_state = run_state_known_from (pp_publication_state d), di_outcome = pp_outcome d,
            di_timing = timing_of c d, di_now = now, di_replay = replay_display_of d\<rparr>
      in \<lparr>dk_id = pp_date_id d, dk_show_id = pp_show_id d, dk_channel_id = pp_channel_id d,
           dk_artist = (case (pp_artist_id d, pp_artist_name d) of (Some i, Some n) \<Rightarrow> Some (i, n) | _ \<Rightarrow> None),
           dk_slug = pp_slug d, dk_canonical_url = pp_canonical_url d,
           dk_title = (if served_in_french d then bl_fr (pp_title d) else bl_en (pp_title d)),
           dk_category_id = pp_category_id d, dk_genre_ids = pp_genre_ids d, dk_tag_ids = pp_tag_ids d,
           dk_starts_at = pp_starts_at d,
           dk_venue_clock = (pp_venue_timezone d, utc_offset_minutes c (pp_venue_timezone d) (pp_starts_at d)),
           dk_runtime_min = pp_runtime_min d,
           dk_venue = (pp_venue_id d, pp_venue_name d, pp_venue_city d, pp_venue_country d),
           dk_room_opens_at = room_opens_at k (timing_of c d), dk_display_state = fst display,
           dk_display_state_valid_until = snd display, dk_outcome = pp_outcome d,
           dk_rescheduled_to = pp_rescheduled_to d, dk_replay = replay_of d,
           dk_rights = (pp_rights_scope d, pp_blackout_countries d), dk_media = pp_media d,
           dk_language_dependency = pp_language_dependency d\<rparr>)"

definition sooner :: "date_card \<Rightarrow> instant option \<Rightarrow> instant option" where
  "sooner shown_card soonest =
     (case dk_display_state_valid_until shown_card of
        None \<Rightarrow> soonest
      | Some t \<Rightarrow> (case soonest of None \<Rightarrow> Some t | Some s \<Rightarrow> if t < s then Some t else Some s))"

definition earliest_valid_until :: "date_card list \<Rightarrow> instant option" where
  "earliest_valid_until cards = fold sooner cards None"

section \<open>A date's page\<close>

definition SERIES_DATES_MAX :: nat where
  "SERIES_DATES_MAX = 10"

definition synopsis_of :: "bilingual \<Rightarrow> bool \<Rightarrow> localized_copy option" where
  "synopsis_of synopsis french =
     (let fr = \<lparr>lc_content_language = ''fr'', lc_text = bl_fr synopsis\<rparr>;
          en = \<lparr>lc_content_language = ''en'', lc_text = bl_en synopsis\<rparr>
      in find (\<lambda>t. lc_text t \<noteq> []) (if french then [fr, en] else [en, fr]))"

record date_detail =
  dl_card :: date_card
  dl_synopsis :: "localized_copy option"
  dl_spoken_languages :: "string list"
  dl_subtitle_languages :: "string list"
  dl_surtitle_languages :: "string list"
  dl_series_dates :: "date_card list"
  dl_total_series_dates :: int

definition series_of ::
    "catalog_core \<Rightarrow> display_core \<Rightarrow> date_detail_public list \<Rightarrow> ident \<Rightarrow> string \<Rightarrow> instant \<Rightarrow> public_date list" where
  "series_of c k rows date_id origin now =
     sort_key pp_starts_at (filter (\<lambda>d. \<not> is_fully_over k (timing_of c d) now)
       (map (\<lambda>r. public_date_of_row r origin) (filter (\<lambda>r. pu_date_id r \<noteq> date_id) rows)))"

definition date_detail_of ::
    "catalog_core \<Rightarrow> display_core \<Rightarrow> date_detail_public list \<Rightarrow> ident \<Rightarrow> string \<Rightarrow> instant
       \<Rightarrow> (date_detail \<times> instant option) option" where
  "date_detail_of c k rows date_id origin now =
     (case tbl_find pu_date_id date_id rows of
        None \<Rightarrow> None
      | Some row \<Rightarrow>
          let d = public_date_of_row row origin; shown_card = date_card_of c k d now;
              series = series_of c k rows date_id origin now;
              shown = map (\<lambda>o'. date_card_of c k o' now) (take SERIES_DATES_MAX series)
          in Some (\<lparr>dl_card = shown_card, dl_synopsis = synopsis_of (pu_synopsis row) (served_in_french d),
               dl_spoken_languages = pu_spoken_languages row, dl_subtitle_languages = pu_subtitle_languages row,
               dl_surtitle_languages = pu_surtitle_languages row, dl_series_dates = shown,
               dl_total_series_dates = int (length series)\<rparr>, earliest_valid_until (shown_card # shown)))"

definition get_date_detail ::
    "catalog_core \<Rightarrow> display_core \<Rightarrow> string \<Rightarrow> instant \<Rightarrow> ident \<Rightarrow> catalog_db
       \<Rightarrow> (date_detail \<times> instant option) catalog_result" where
  "get_date_detail c k origin now date_id db =
     (let rows = (case tbl_find pu_date_id date_id (cd_public db) of
            None \<Rightarrow> []
          | Some row \<Rightarrow> filter (\<lambda>r. pu_show_id r = pu_show_id row) (cd_public db))
      in case date_detail_of c k rows date_id origin now of
           None \<Rightarrow> Inl Catalog_Not_Found
         | Some page \<Rightarrow> Inr page)"

section \<open>An artist's page\<close>

definition ARTIST_PAGE_DATES_MAX :: nat where
  "ARTIST_PAGE_DATES_MAX = 20"

definition UPCOMING :: "display_state list" where
  "UPCOMING = [Display_Scheduled, Display_Room_Open, Display_Live, Display_Postponed]"

record artist_summary =
  as_id :: ident
  as_channel_id :: ident
  as_name :: string
  as_slug :: string
  as_category_id :: string

definition artist_summary_of :: "artist_row \<Rightarrow> artist_summary" where
  "artist_summary_of a = \<lparr>as_id = ar_id a, as_channel_id = ar_channel_id a, as_name = ar_public_name a,
     as_slug = ar_slug a, as_category_id = ar_category_id a\<rparr>"

text \<open>French when it has French or neither language.\<close>

definition biography_language_of :: "localized_copy list \<Rightarrow> string" where
  "biography_language_of biography =
     (let languages = map lc_content_language biography in
      if languages = [] \<or> ''fr'' \<in> set languages \<or> ''en'' \<notin> set languages then ''fr'' else ''en'')"

definition biography_shown :: "localized_copy list \<Rightarrow> localized_copy option" where
  "biography_shown biography =
     (case find (\<lambda>b. lc_content_language b = biography_language_of biography) biography of
        Some b \<Rightarrow> Some b
      | None \<Rightarrow> (case biography of [] \<Rightarrow> None | b # _ \<Rightarrow> Some b))"

record artist_detail =
  ap_summary :: artist_summary
  ap_biography :: "localized_copy option"
  ap_upcoming_dates :: "date_card list"
  ap_replays :: "date_card list"
  ap_past_dates :: "date_card list"

definition expiry_of :: "date_card \<Rightarrow> instant" where
  "expiry_of shown_card = (case dk_display_state_valid_until shown_card of None \<Rightarrow> dk_starts_at shown_card | Some t \<Rightarrow> t)"

text \<open>The latest first: a stable sort on the start's opposite.\<close>

definition artist_page_of ::
    "catalog_core \<Rightarrow> display_core \<Rightarrow> artist_row \<Rightarrow> date_detail_public list \<Rightarrow> string \<Rightarrow> instant
       \<Rightarrow> artist_detail \<times> instant option" where
  "artist_page_of c k artist rows origin now =
     (let cards = map (\<lambda>r. date_card_of c k (public_date_of_row r origin) now) rows;
          upcoming = take ARTIST_PAGE_DATES_MAX
            (sort_key dk_starts_at (filter (\<lambda>d. dk_display_state d \<in> set UPCOMING) cards));
          replays = take ARTIST_PAGE_DATES_MAX
            (sort_key expiry_of (filter (\<lambda>d. dk_display_state d = Display_Replay) cards));
          past = take ARTIST_PAGE_DATES_MAX (sort_key (\<lambda>d. - dk_starts_at d)
            (filter (\<lambda>d. dk_display_state d \<notin> set UPCOMING \<and> dk_display_state d \<noteq> Display_Replay) cards))
      in (\<lparr>ap_summary = artist_summary_of artist, ap_biography = biography_shown (ar_biography artist),
            ap_upcoming_dates = upcoming, ap_replays = replays, ap_past_dates = past\<rparr>,
          earliest_valid_until (upcoming @ replays)))"

definition get_artist_detail ::
    "catalog_core \<Rightarrow> display_core \<Rightarrow> string \<Rightarrow> instant \<Rightarrow> ident \<Rightarrow> catalog_db
       \<Rightarrow> (artist_detail \<times> instant option) catalog_result" where
  "get_artist_detail c k origin now artist_id db =
     (case tbl_find ar_id artist_id (cd_artists db) of
        None \<Rightarrow> Inl Catalog_Not_Found
      | Some artist \<Rightarrow>
          Inr (artist_page_of c k artist (filter (\<lambda>r. pu_channel_id r = ar_channel_id artist) (cd_public db)) origin now))"

section \<open>Links\<close>

definition artist_url :: "string \<Rightarrow> string \<Rightarrow> string" where
  "artist_url origin slug = origin @ ''/artist/'' @ slug"

datatype public_link = To_Show string | To_Date string string | To_Artist string

text \<open>\<open>split('/')\<close>.\<close>

fun split_slash :: "string \<Rightarrow> string list" where
  "split_slash [] = [[]]"
| "split_slash (x # xs) =
     (case split_slash xs of
        [] \<Rightarrow> [[]]
      | s # ss \<Rightarrow> if x = CHR ''/'' then [] # s # ss else (x # s) # ss)"

definition public_link_of :: "display_core \<Rightarrow> string \<Rightarrow> string \<Rightarrow> public_link option" where
  "public_link_of k origin url =
     (case url_parse k url of
        None \<Rightarrow> None
      | Some (parsed_origin, pathname) \<Rightarrow>
          if parsed_origin \<noteq> origin then None
          else let segments = drop 1 (split_slash pathname) in
            if list_ex (\<lambda>s. s = []) segments then None
            else case segments of
                [base, slug] \<Rightarrow>
                  if base = ''show'' \<or> base = ''s'' then Some (To_Show slug)
                  else if base = ''artist'' \<or> base = ''a'' then Some (To_Artist slug) else None
              | [base, slug, child, child_slug] \<Rightarrow>
                  if base = ''show'' \<and> child = ''date'' then Some (To_Date slug child_slug) else None
              | _ \<Rightarrow> None)"

definition kind_link_of :: "link_kind \<Rightarrow> string \<Rightarrow> public_link option" where
  "kind_link_of kind slug =
     (case kind of
        Link_Show \<Rightarrow> Some (To_Show slug)
      | Link_Artist \<Rightarrow> Some (To_Artist slug)
      | Link_Date \<Rightarrow> (case split_slash slug of [show_slug, date_slug] \<Rightarrow> Some (To_Date show_slug date_slug) | _ \<Rightarrow> None))"

record resolve_query =
  rq_url :: "string option"
  rq_kind :: "link_kind option"
  rq_slug :: "string option"

definition link_of :: "display_core \<Rightarrow> string \<Rightarrow> resolve_query \<Rightarrow> public_link option catalog_result" where
  "link_of k origin q =
     (case (rq_url q, rq_kind q, rq_slug q) of
        (Some url, None, None) \<Rightarrow> Inr (public_link_of k origin url)
      | (Some url, kind, slug) \<Rightarrow> Inl (Catalog_Schema_Invalid
          ((if kind = None then [] else [''kind'']) @ (if slug = None then [] else [''slug''])))
      | (None, Some kind, Some slug) \<Rightarrow> Inr (kind_link_of kind slug)
      | (None, None, _) \<Rightarrow> Inl (Catalog_Schema_Invalid [''kind''])
      | (None, Some _, None) \<Rightarrow> Inl (Catalog_Schema_Invalid [''slug'']))"

datatype resolved_link =
    Resolved_Show ident string
  | Resolved_Date ident string date_card
  | Resolved_Artist ident string artist_summary

definition show_id_of :: "string \<Rightarrow> instant \<Rightarrow> catalog_db \<Rightarrow> ident option" where
  "show_id_of slug now db =
     (case tbl_find sw_slug slug (cd_shows db) of
        Some show \<Rightarrow> Some (sw_id show)
      | None \<Rightarrow> alias_target_of Link_Show UNSCOPED slug now db)"

definition resolve_show :: "string \<Rightarrow> string \<Rightarrow> instant \<Rightarrow> catalog_db \<Rightarrow> (resolved_link \<times> instant option) catalog_result" where
  "resolve_show origin slug now db =
     (case Option.bind (show_id_of slug now db) (\<lambda>i. tbl_find pu_show_id i (cd_public db)) of
        None \<Rightarrow> Inl Catalog_Not_Found
      | Some row \<Rightarrow> Inr (Resolved_Show (pu_show_id row) (show_url origin (pu_show_slug row)), None))"

definition date_row_of :: "string \<Rightarrow> string \<Rightarrow> instant \<Rightarrow> catalog_db \<Rightarrow> date_detail_public option" where
  "date_row_of show_slug slug now db =
     (case show_id_of show_slug now db of
        None \<Rightarrow> None
      | Some show_id \<Rightarrow>
          (case find (\<lambda>r. pu_show_id r = show_id \<and> pu_slug r = slug) (cd_public db) of
             Some row \<Rightarrow> Some row
           | None \<Rightarrow> Option.bind (alias_target_of Link_Date show_id slug now db)
               (\<lambda>i. tbl_find pu_date_id i (cd_public db))))"

definition resolve_date ::
    "catalog_core \<Rightarrow> display_core \<Rightarrow> string \<Rightarrow> string \<Rightarrow> string \<Rightarrow> instant \<Rightarrow> catalog_db
       \<Rightarrow> (resolved_link \<times> instant option) catalog_result" where
  "resolve_date c k origin show_slug slug now db =
     (case date_row_of show_slug slug now db of
        None \<Rightarrow> Inl Catalog_Not_Found
      | Some row \<Rightarrow>
          let shown_card = date_card_of c k (public_date_of_row row origin) now
          in Inr (Resolved_Date (pu_date_id row) (dk_canonical_url shown_card) shown_card, dk_display_state_valid_until shown_card))"

definition resolve_artist :: "string \<Rightarrow> string \<Rightarrow> instant \<Rightarrow> catalog_db \<Rightarrow> (resolved_link \<times> instant option) catalog_result" where
  "resolve_artist origin slug now db =
     (case (case tbl_find ar_slug slug (cd_artists db) of
              Some a \<Rightarrow> Some a
            | None \<Rightarrow> Option.bind (alias_target_of Link_Artist UNSCOPED slug now db)
                (\<lambda>i. tbl_find ar_id i (cd_artists db))) of
        None \<Rightarrow> Inl Catalog_Not_Found
      | Some a \<Rightarrow> Inr (Resolved_Artist (ar_id a) (artist_url origin (ar_slug a)) (artist_summary_of a), None))"

definition resolve_public_link ::
    "catalog_core \<Rightarrow> display_core \<Rightarrow> string \<Rightarrow> instant \<Rightarrow> resolve_query \<Rightarrow> catalog_db
       \<Rightarrow> (resolved_link \<times> instant option) catalog_result" where
  "resolve_public_link c k origin now q db =
     bindE (link_of k origin q) (\<lambda>link.
     case link of
       None \<Rightarrow> Inl Catalog_Not_Found
     | Some (To_Show slug) \<Rightarrow> resolve_show origin slug now db
     | Some (To_Date show_slug slug) \<Rightarrow> resolve_date c k origin show_slug slug now db
     | Some (To_Artist slug) \<Rightarrow> resolve_artist origin slug now db)"

end
