(* ===== verification/Catalog_Copies.thy ===== *)
theory Catalog_Copies
  imports Catalog_System Public_Pages
begin

text \<open>
  What a public row copies from its show, its venue and the face of its channel, and that every
  transaction keeps the copies equal to what they are copied from.
\<close>

section \<open>The copies\<close>

record public_copies =
  cp_show_slug :: string
  cp_artist_id :: ident
  cp_artist_name :: "string option"
  cp_category_id :: string
  cp_genre_ids :: "string list"
  cp_tag_ids :: "string list"
  cp_language_dependency :: string
  cp_spoken_languages :: "string list"
  cp_subtitle_languages :: "string list"
  cp_surtitle_languages :: "string list"
  cp_media :: media_set
  cp_title :: bilingual
  cp_synopsis :: bilingual
  cp_venue_name :: string
  cp_venue_city :: string
  cp_venue_country :: string
  cp_venue_timezone :: string

definition copies_shown :: "date_detail_public \<Rightarrow> public_copies" where
  "copies_shown r = \<lparr>cp_show_slug = pu_show_slug r, cp_artist_id = pu_artist_id r, cp_artist_name = pu_artist_name r,
     cp_category_id = pu_category_id r, cp_genre_ids = pu_genre_ids r, cp_tag_ids = pu_tag_ids r,
     cp_language_dependency = pu_language_dependency r, cp_spoken_languages = pu_spoken_languages r,
     cp_subtitle_languages = pu_subtitle_languages r, cp_surtitle_languages = pu_surtitle_languages r,
     cp_media = pu_media r, cp_title = pu_title r, cp_synopsis = pu_synopsis r, cp_venue_name = pu_venue_name r,
     cp_venue_city = pu_venue_city r, cp_venue_country = pu_venue_country r, cp_venue_timezone = pu_venue_timezone r\<rparr>"

definition copies_of :: "artist_row option \<Rightarrow> show_row \<Rightarrow> venue_row \<Rightarrow> public_copies" where
  "copies_of artist s v = \<lparr>cp_show_slug = sw_slug s,
     cp_artist_id = (case artist of None \<Rightarrow> sw_artist_id s | Some a \<Rightarrow> ar_id a),
     cp_artist_name = map_option ar_public_name artist, cp_category_id = sw_category_id s,
     cp_genre_ids = sw_genre_ids s, cp_tag_ids = sw_tag_ids s, cp_language_dependency = sw_language_dependency s,
     cp_spoken_languages = sw_spoken_languages s, cp_subtitle_languages = sw_subtitle_languages s,
     cp_surtitle_languages = sw_surtitle_languages s, cp_media = sw_media s, cp_title = sw_title s,
     cp_synopsis = sw_synopsis s, cp_venue_name = ve_name v, cp_venue_city = ve_city v,
     cp_venue_country = ve_country v, cp_venue_timezone = ve_time_zone v\<rparr>"

text \<open>What the row of these identifiers copies, read in the tables it copies from.\<close>

definition masters_of :: "ident \<Rightarrow> ident \<Rightarrow> ident \<Rightarrow> catalog_db \<Rightarrow> public_copies option" where
  "masters_of show_id venue_id channel_id db =
     (case (tbl_find sw_id show_id (cd_shows db), tbl_find ve_id venue_id (cd_venues db)) of
        (Some s, Some v) \<Rightarrow> Some (copies_of (tbl_find ar_channel_id channel_id (cd_artists db)) s v)
      | _ \<Rightarrow> None)"

definition row_copied :: "catalog_db \<Rightarrow> date_detail_public \<Rightarrow> bool" where
  "row_copied db r \<longleftrightarrow> masters_of (pu_show_id r) (pu_venue_id r) (pu_channel_id r) db = Some (copies_shown r)"

text \<open>The unique indexes of the tables the copies and the links read.\<close>

definition catalog_keys :: "catalog_db \<Rightarrow> bool" where
  "catalog_keys db \<longleftrightarrow> distinct (map sw_id (cd_shows db)) \<and> distinct (map sw_slug (cd_shows db)) \<and>
     distinct (map ar_id (cd_artists db)) \<and> distinct (map ar_channel_id (cd_artists db)) \<and>
     distinct (map pu_date_id (cd_public db)) \<and> public_slugs_unique (cd_public db)"

definition copies_ok :: "catalog_db \<Rightarrow> bool" where
  "copies_ok db \<longleftrightarrow> list_all (row_copied db) (cd_public db) \<and> catalog_keys db"

definition same_masters :: "catalog_db \<Rightarrow> catalog_db \<Rightarrow> bool" where
  "same_masters db db' \<longleftrightarrow> cd_shows db' = cd_shows db \<and> cd_venues db' = cd_venues db \<and> cd_artists db' = cd_artists db"

lemma same_masters_trans: "same_masters a b \<Longrightarrow> same_masters b d \<Longrightarrow> same_masters a d"
  by (simp add: same_masters_def)

lemma row_copied_same: "same_masters db db' \<Longrightarrow> row_copied db' = row_copied db"
  by (rule ext) (simp add: row_copied_def masters_of_def same_masters_def split: option.split)

lemma copies_ok_same: "copies_ok db \<Longrightarrow> same_masters db db' \<Longrightarrow> cd_public db' = cd_public db \<Longrightarrow> copies_ok db'"
  by (simp add: copies_ok_def row_copied_same catalog_keys_def) (simp add: same_masters_def)

section \<open>The projection of a date's events\<close>

definition copies_kept :: "date_detail_public \<Rightarrow> date_detail_public \<Rightarrow> bool" where
  "copies_kept r r' \<longleftrightarrow> copies_shown r' = copies_shown r \<and> pu_show_id r' = pu_show_id r \<and> pu_venue_id r' = pu_venue_id r \<and>
     pu_channel_id r' = pu_channel_id r \<and> pu_date_id r' = pu_date_id r"

lemma row_copied_kept: "copies_kept r r' \<Longrightarrow> row_copied db r' = row_copied db r"
  by (simp add: copies_kept_def row_copied_def)

lemma changes_keep_copies: "changes_of e = Some f \<Longrightarrow> copies_kept r (f r)"
  by (cases rule: changes_of.cases [of e]) (auto simp: copies_kept_def copies_shown_def)

lemma merged_changes_keep_copies: "copies_kept r (merged_changes_of es r)"
proof (induction es arbitrary: r)
  case Nil
  then show ?case by (simp add: merged_changes_of_def List.map_filter_def copies_kept_def)
next
  case (Cons e es)
  have "copies_kept r (case changes_of e of None \<Rightarrow> r | Some f \<Rightarrow> f r)"
    by (cases "changes_of e") (simp_all add: changes_keep_copies, simp add: copies_kept_def)
  with Cons [of "case changes_of e of None \<Rightarrow> r | Some f \<Rightarrow> f r"] show ?case
    unfolding merged_changes_Cons by (simp add: copies_kept_def)
qed

lemma kept_rows_copied:
  assumes "copies_ok db" and "\<And>r. copies_kept r (f r)" and "public_slugs_unique (tbl_update p f (cd_public db))"
  shows "copies_ok (db\<lparr>cd_public := tbl_update p f (cd_public db)\<rparr>)"
proof -
  have "row_copied (db\<lparr>cd_public := x\<rparr>) = row_copied db" for x
    by (rule row_copied_same) (simp add: same_masters_def)
  moreover have "row_copied db (f r)" if "row_copied db r" for r
    using that row_copied_kept [OF assms(2)] by blast
  moreover have "map pu_date_id (tbl_update p f (cd_public db)) = map pu_date_id (cd_public db)"
    by (rule map_tbl_update_same) (use assms(2) in \<open>simp add: copies_kept_def\<close>)
  ultimately show ?thesis
    using assms(1,3) by (auto simp: copies_ok_def list_all_iff table_simps catalog_keys_def)
qed

lemma update_public_date_copies:
  assumes "update_public_date es db = Inr db'" and "copies_ok db"
  shows "copies_ok db'" and "same_masters db db'"
proof -
  have "db' = db \<or> (\<exists>p. public_slugs_unique (tbl_update p (\<lambda>r. (merged_changes_of es r)\<lparr>pu_version := pu_version r + 1\<rparr>)
        (cd_public db)) \<and>
      db' = db\<lparr>cd_public := tbl_update p (\<lambda>r. (merged_changes_of es r)\<lparr>pu_version := pu_version r + 1\<rparr>) (cd_public db)\<rparr>)"
    using assms(1) by (auto simp: update_public_date_def Let_def result_simps split: list.splits if_splits)
  moreover have "copies_kept r ((merged_changes_of es r)\<lparr>pu_version := pu_version r + 1\<rparr>)" for r
    using merged_changes_keep_copies [of r es] by (simp add: copies_kept_def copies_shown_def)
  ultimately show "copies_ok db'" "same_masters db db'"
    using assms(2) kept_rows_copied by (auto simp: same_masters_def)
qed

lemma insert_public_date_copies:
  assumes "insert_public_date f s v es db = Inr db'" and "copies_ok db"
    and "tbl_find sw_id (pf_show_id f) (cd_shows db) = Some s" and "tbl_find ve_id (ve_id v) (cd_venues db) = Some v"
  shows "copies_ok db'" and "same_masters db db'"
proof -
  let ?base = "public_row_of f s v (find (\<lambda>a. ar_channel_id a = pf_channel_id f) (cd_artists db))"
  let ?row = "merged_changes_of es ?base"
  have db': "db' = db\<lparr>cd_public := cd_public db @ [?row]\<rparr>"
    and new: "pu_date_id ?row \<notin> pu_date_id ` set (cd_public db)" "public_slugs_unique (cd_public db @ [?row])"
    using assms(1) by (simp_all add: insert_public_date_def Let_def result_simps)
  show same: "same_masters db db'" by (simp add: db' same_masters_def)
  have "row_copied db ?base"
    using assms(3,4) by (simp add: row_copied_def masters_of_def public_row_of_def copies_shown_def copies_of_def tbl_find_def)
  then have "row_copied db ?row" using row_copied_kept [OF merged_changes_keep_copies] by blast
  then show "copies_ok db'"
    using assms(2) new by (simp add: copies_ok_def row_copied_same [OF same] catalog_keys_def) (simp add: db')
qed

lemma retire_slugs_masters:
  "same_masters db (retire_slugs_moved_from c es db) \<and> cd_public (retire_slugs_moved_from c es db) = cd_public db"
proof -
  have one: "same_masters db (retire_moved_slug c e db) \<and> cd_public (retire_moved_slug c e db) = cd_public db" for e db
    by (cases "(c, e, db)" rule: retire_moved_slug.cases) (simp_all add: retire_slug_def Let_def same_masters_def)
  show ?thesis unfolding retire_slugs_moved_from_def
  proof (induction es arbitrary: db)
    case (Cons e es)
    with one [of db e] Cons [of "retire_moved_slug c e db"] show ?case by (auto intro: same_masters_trans)
  qed (simp add: same_masters_def)
qed

lemma record_date_events_copies:
  assumes "record_date_events c x es db = Inr db'" and "copies_ok db"
    and "list_all (\<lambda>f. tbl_find sw_id (pf_show_id f) (cd_shows db) = Some (wx_show x)) (List.map_filter scheduled_facts es)"
    and "tbl_find ve_id (ve_id (wx_venue x)) (cd_venues db) = Some (wx_venue x)"
  shows "copies_ok db'" and "same_masters db db'"
proof -
  let ?db = "retire_slugs_moved_from c es db"
  have "same_masters db ?db \<and> cd_public ?db = cd_public db" by (rule retire_slugs_masters)
  then have ok: "copies_ok ?db" and same: "same_masters db ?db" using assms(2) copies_ok_same by blast+
  obtain db1 where proj: "project_date_events es (wx_show x) (wx_venue x) ?db = Inr db1"
    and db': "db' = write_date_integration_events c x es db1"
    using assms(1) by (auto simp: record_date_events_def result_simps)
  have "copies_ok db1 \<and> same_masters ?db db1"
  proof (cases "List.map_filter scheduled_facts es")
    case Nil
    with proj update_public_date_copies [OF _ ok] show ?thesis by (simp add: project_date_events_def)
  next
    case (Cons f fs)
    with proj insert_public_date_copies [OF _ ok] assms(3,4) same show ?thesis
      by (simp add: project_date_events_def same_masters_def)
  qed
  moreover have "same_masters db1 db' \<and> cd_public db' = cd_public db1"
    by (simp add: db' write_date_integration_events_def same_masters_def)
  ultimately show "copies_ok db'" "same_masters db db'"
    using same copies_ok_same same_masters_trans by blast+
qed

section \<open>The date transactions\<close>

lemma save_date_frame:
  assumes "save_date t db = Inr (t', db')"
  shows "root t' = root t \<and> cd_public db' = cd_public db \<and> same_masters db db'"
  using assms by (auto simp: save_date_def Let_def result_simps same_masters_def split: option.splits if_splits)

lemma save_replay_frame:
  assumes "save_replay t db = Inr (t', db')"
  shows "root t' = root t \<and> cd_public db' = cd_public db \<and> same_masters db db'"
  using assms by (auto simp: save_replay_def Let_def result_simps same_masters_def)

definition facts_of_show :: "ident \<Rightarrow> performance_date \<Rightarrow> bool" where
  "facts_of_show show_id a \<longleftrightarrow> list_all (\<lambda>f. pf_show_id f = show_id) (List.map_filter scheduled_facts (told_of a))"

lemma commit_date_copies:
  assumes run: "commit_date c x t replay db = Inr db'" and ok: "copies_ok db"
    and told: "facts_of_show show_id (root t)" and s: "tbl_find sw_id show_id (cd_shows db) = Some (wx_show x)"
    and v: "tbl_find ve_id (ve_id (wx_venue x)) (cd_venues db) = Some (wx_venue x)"
  shows "copies_ok db'"
proof -
  obtain t' db1 es db2 where saved: "save_date t db = Inr (t', db1)"
    and moved: "(case replay of None \<Rightarrow> Inr ([], db1)
       | Some r \<Rightarrow> bindE (save_replay r db1) (\<lambda>(r', db2). Inr (uncommitted (root r'), db2))) = Inr (es, db2)"
    and rec: "record_date_events c x (keyed_events (uncommitted (root t')) es) db2 = Inr db'"
    using run by (auto simp: commit_date_def result_simps)
  have "cd_public db2 = cd_public db1 \<and> same_masters db1 db2"
    using moved by (auto simp: result_simps same_masters_def dest: save_replay_frame split: option.splits)
  with save_date_frame [OF saved] have frame: "cd_public db2 = cd_public db" "same_masters db db2" "root t' = root t"
    by (simp_all add: same_masters_def)
  show ?thesis
  proof (rule record_date_events_copies(1) [OF rec])
    show "copies_ok db2" using ok frame copies_ok_same by blast
    show "list_all (\<lambda>f. tbl_find sw_id (pf_show_id f) (cd_shows db2) = Some (wx_show x))
        (List.map_filter scheduled_facts (keyed_events (uncommitted (root t')) es))"
      using told s frame by (simp add: scheduled_keyed facts_of_show_def same_masters_def list_all_iff)
    show "tbl_find ve_id (ve_id (wx_venue x)) (cd_venues db2) = Some (wx_venue x)"
      using v frame by (simp add: same_masters_def)
  qed
qed

lemma load_date_masters:
  assumes "load_date i db = Inr l"
  obtains s where "ld_date l = loaded (restore s) (pb_version (of_publication s))"
    and "tbl_find sw_id (pd_show_id (of_date s)) (cd_shows db) = Some (ld_show l)"
    and "tbl_find ve_id (ve_id (ld_venue l)) (cd_venues db) = Some (ld_venue l)"
proof -
  obtain d p where l: "(case (tbl_find sw_id (pd_show_id d) (cd_shows db), tbl_find ve_id (pd_venue_id d) (cd_venues db)) of
        (Some show, Some venue) \<Rightarrow> Inr \<lparr>ld_date = loaded (restore \<lparr>of_date = d, of_publication = p\<rparr>) (pb_version p),
          ld_show = show, ld_venue = venue\<rparr>
      | _ \<Rightarrow> Inl (Catalog_Defect ''EntityNotFoundError'')) = (Inr l :: loaded_date catalog_result)"
    using assms by (auto simp: load_date_def find_date_def Let_def result_simps split: option.splits)
  obtain s v where found: "tbl_find sw_id (pd_show_id d) (cd_shows db) = Some s"
      "tbl_find ve_id (pd_venue_id d) (cd_venues db) = Some v"
    and eq: "l = \<lparr>ld_date = loaded (restore \<lparr>of_date = d, of_publication = p\<rparr>) (pb_version p), ld_show = s, ld_venue = v\<rparr>"
    using l by (auto split: option.splits)
  have "ve_id v = pd_venue_id d" using found(2) by (blast dest: tbl_find_SomeD)
  with found eq show thesis by (intro that [of "\<lparr>of_date = d, of_publication = p\<rparr>"]) simp_all
qed

lemma transition_facts_of_show:
  assumes "transition_publication c cmd x (restore s) = Inr b"
  shows "facts_of_show (pd_show_id (of_date s)) b"
  using assms
proof (cases rule: transition_publication_Inr)
  case (kept p' changed)
  from kept(1) show ?thesis
    by (rule publication_transitioned_Inr) (use kept in \<open>auto simp: facts_of_show_def told_of_def List.map_filter_def\<close>)
next
  case (published p' changed e slug d)
  from published(1) show ?thesis
    by (rule publication_transitioned_Inr)
      (use published in \<open>auto simp: facts_of_show_def told_of_def List.map_filter_def public_facts_of_def split: if_splits\<close>)
qed

lemma no_facts: "List.map_filter scheduled_facts (told_of a) = [] \<Longrightarrow> facts_of_show i a"
  by (simp add: facts_of_show_def)

lemma transition_publication_in_copies:
  assumes run: "transition_publication_in c origin now cmd db = Inr (v, db')" and ok: "copies_ok db"
  shows "copies_ok db'"
proof -
  obtain l tc x a replay where l: "load_date (tp_date_id cmd) db = Inr l"
    and a: "transition_publication c tc x (root (ld_date l)) = Inr a"
    and commit: "commit_date c (wire_context origin l (tp_traceparent cmd)) (with_root a (ld_date l)) replay db = Inr db'"
    using run unfolding transition_publication_in_def Let_def bindE_eq_Inr by blast
  obtain s where "ld_date l = loaded (restore s) (pb_version (of_publication s))"
    and "tbl_find sw_id (pd_show_id (of_date s)) (cd_shows db) = Some (ld_show l)"
    and "tbl_find ve_id (ve_id (ld_venue l)) (cd_venues db) = Some (ld_venue l)"
    using l by (rule load_date_masters)
  with a show ?thesis
    by (intro commit_date_copies [OF commit ok, where show_id = "pd_show_id (of_date s)"])
      (simp_all add: wire_context_def transition_facts_of_show)
qed

lemma declare_outcome_in_copies:
  assumes run: "declare_outcome_in c origin now cmd db = Inr (v, db')" and ok: "copies_ok db"
  shows "copies_ok db'"
proof -
  obtain l e decl m slug a replay where l: "load_date (do_date_id cmd) db = Inr l"
    and a: "declare_outcome c e decl m slug now (root (ld_date l)) = Inr a"
    and commit: "commit_date c (wire_context origin l (do_traceparent cmd)) (with_root a (ld_date l)) replay db = Inr db'"
    using run unfolding declare_outcome_in_def Let_def bindE_eq_Inr by blast
  obtain s where ld: "ld_date l = loaded (restore s) (pb_version (of_publication s))"
    and found: "tbl_find sw_id (pd_show_id (of_date s)) (cd_shows db) = Some (ld_show l)"
      "tbl_find ve_id (ve_id (ld_venue l)) (cd_venues db) = Some (ld_venue l)"
    using l by (rule load_date_masters)
  have "declare_outcome c e decl m slug now (restore s) = Inr a" using a by (simp add: ld)
  then have "facts_of_show (pd_show_id (of_date s)) a"
    by (rule declare_outcome_Inr) (simp add: facts_of_show_def told_of_def List.map_filter_def split: option.splits)
  with ld found show ?thesis
    by (intro commit_date_copies [OF commit ok, where show_id = "pd_show_id (of_date s)"])
      (simp_all add: wire_context_def)
qed

lemma claimed_copies:
  assumes "copies_ok db" and "claim_catalog_message m db = (b, db0)"
  shows "copies_ok db0"
  using assms by (auto simp: claim_catalog_message_def same_masters_def elim!: copies_ok_same split: if_splits)

lemma learn_run_fact_copies:
  assumes run: "learn_run_fact c origin now m told tp db = Inr (v, db')" and ok: "copies_ok db"
  shows "copies_ok db'"
proof -
  obtain claimed db0 where claim: "claim_catalog_message m db = (claimed, db0)" by (cases "claim_catalog_message m db")
  note ok0 = claimed_copies [OF ok claim]
  show ?thesis
  proof (cases "db' = db0")
    case False
    then have claimed using run claim by (cases claimed) (simp_all add: learn_run_fact_def)
    then obtain l a moved where l: "load_date (rf_run_date_id told) db0 = Inr l"
      and a: "(if rf_run_ended_at told = None then learn_run_started c now (root (ld_date l))
        else learn_run_ended c now (root (ld_date l))) = Inr (a, moved)"
      and rest: "(if \<not> moved then Inr (Learn_Ignored, db0)
        else bindE (commit_date c (wire_context origin l tp) (with_root a (ld_date l))
          (Option.bind (rf_run_ended_at told)
            (\<lambda>ended_at. map_option created (replay_opened_by c (of_date (current a)) ended_at now))) db0)
          (\<lambda>db1. Inr (Learn_Applied, db1))) = Inr (v, db')"
      using run claim unfolding learn_run_fact_def Let_def by (auto simp: bindE_eq_Inr)
    with False have moved by (cases moved) auto
    with rest have commit: "commit_date c (wire_context origin l tp) (with_root a (ld_date l))
        (Option.bind (rf_run_ended_at told)
          (\<lambda>ended_at. map_option created (replay_opened_by c (of_date (current a)) ended_at now))) db0 = Inr db'"
      by (simp add: result_simps)
    obtain s where ld: "ld_date l = loaded (restore s) (pb_version (of_publication s))"
      and found: "tbl_find sw_id (pd_show_id (of_date s)) (cd_shows db0) = Some (ld_show l)"
        "tbl_find ve_id (ve_id (ld_venue l)) (cd_venues db0) = Some (ld_venue l)"
      using l by (rule load_date_masters)
    have "\<exists>to. learn_publication_state c to now (restore s) = Inr a"
      using a \<open>moved\<close> by (auto simp: ld dest: learn_run_Inr split: if_splits)
    then have "facts_of_show (pd_show_id (of_date s)) a"
      by (auto dest!: learn_publication_state_Inr simp: facts_of_show_def told_of_def List.map_filter_def)
    with ld found show ?thesis
      by (intro commit_date_copies [OF commit ok0, where show_id = "pd_show_id (of_date s)"])
        (simp_all add: wire_context_def)
  qed (use ok0 in simp)
qed

lemma learn_replay_asset_fact_copies:
  assumes run: "learn_replay_asset_fact now m i ready tp seen db = Inr (v, db')" and ok: "copies_ok db"
  shows "copies_ok db'"
proof -
  obtain claimed db0 where claim: "claim_catalog_message m db = (claimed, db0)" by (cases "claim_catalog_message m db")
  note ok0 = claimed_copies [OF ok claim]
  consider "db' = db0" | t t' es db1 where "save_replay t db0 = Inr (t', db1)" "record_replay_events tp es db1 = Inr db'"
    using run claim
    by (cases claimed) (auto simp: learn_replay_asset_fact_def result_simps split: option.splits if_splits bool.splits prod.splits)
  then show ?thesis
  proof cases
    case (2 t t' es db1)
    have "copies_ok db1" using save_replay_frame [OF 2(1)] ok0 copies_ok_same by blast
    moreover obtain db2 where "update_public_date (map Replay_Event es) db1 = Inr db2"
      and "db' = db2\<lparr>cd_outbox := cd_outbox db2 @ map (replay_outbox_row tp) es\<rparr>"
      using 2(2) by (auto simp: record_replay_events_def result_simps)
    ultimately show ?thesis
      using update_public_date_copies copies_ok_same [of db2 db'] by (simp add: same_masters_def)
  qed (use ok0 in simp)
qed

lemma draft_date_in_copies:
  assumes run: "draft_date_in c origin now cmd db = Inr (v, db')" and ok: "copies_ok db"
  shows "copies_ok db'"
proof -
  obtain sh venue a t db1 where found: "tbl_find sw_id (dc_show_id cmd) (cd_shows db) = Some sh"
      "tbl_find ve_id (dc_venue_id cmd) (cd_venues db) = Some venue"
    and a: "a = draft_date c \<lparr>dd_id = dc_date_id cmd, dd_show_id = sw_id sh, dd_venue_id = ve_id venue,
      dd_channel_id = dc_channel_id cmd, dd_starts_at = dc_starts_at cmd, dd_runtime_min = sw_runtime_min sh,
      dd_replay_policy = dc_replay_policy cmd, dd_replay_window_hours = dc_replay_window_hours cmd\<rparr> now"
    and saved: "save_date (created a) db = Inr (t, db1)"
    and rec: "record_date_events c \<lparr>wx_origin = origin, wx_show = sh, wx_venue = venue,
      wx_traceparent = dc_traceparent cmd\<rparr> (keyed_events (uncommitted (root t)) []) db1 = Inr db'"
    using run by (auto simp: draft_date_in_def Let_def result_simps split: option.splits if_splits)
  note frame = save_date_frame [OF saved]
  show ?thesis
  proof (rule record_date_events_copies(1) [OF rec])
    show "copies_ok db1" using ok frame copies_ok_same by blast
    show "list_all (\<lambda>f. tbl_find sw_id (pf_show_id f) (cd_shows db1) = Some (wx_show \<lparr>wx_origin = origin, wx_show = sh,
        wx_venue = venue, wx_traceparent = dc_traceparent cmd\<rparr>))
        (List.map_filter scheduled_facts (keyed_events (uncommitted (root t)) []))"
      using frame by (simp add: a draft_date_def keyed_events_def List.map_filter_def)
    have "ve_id venue = dc_venue_id cmd" using found(2) by (blast dest: tbl_find_SomeD)
    with found frame show "tbl_find ve_id (ve_id (wx_venue \<lparr>wx_origin = origin, wx_show = sh, wx_venue = venue,
        wx_traceparent = dc_traceparent cmd\<rparr>)) (cd_venues db1) = Some (wx_venue \<lparr>wx_origin = origin, wx_show = sh,
        wx_venue = venue, wx_traceparent = dc_traceparent cmd\<rparr>)"
      by (simp add: same_masters_def)
  qed
qed

lemma record_checklist_fact_copies:
  assumes run: "record_checklist_fact m f db = Inr (v, db')" and ok: "copies_ok db"
  shows "copies_ok db'"
proof -
  obtain claimed db0 where claim: "claim_catalog_message m db = (claimed, db0)" by (cases "claim_catalog_message m db")
  have "db' = db0 \<or> (\<exists>t. db' = db0\<lparr>cd_checklist := t\<rparr>)"
    using run claim by (cases claimed) (auto simp: record_checklist_fact_def split: if_splits prod.splits)
  then show ?thesis
    using copies_ok_same [OF claimed_copies [OF ok claim]] by (auto simp: same_masters_def)
qed

section \<open>Shows, venues and faces\<close>

text \<open>A row appended to a table keeps what was found there.\<close>

lemma tbl_find_kept: "tbl_find key k t = Some r \<Longrightarrow> tbl_find key k (t @ [x]) = Some r"
  by (simp add: tbl_find_append)

lemma row_copied_more:
  assumes "row_copied db r" and "cd_artists db' = cd_artists db"
    and "\<And>i s. tbl_find sw_id i (cd_shows db) = Some s \<Longrightarrow> tbl_find sw_id i (cd_shows db') = Some s"
    and "\<And>i v. tbl_find ve_id i (cd_venues db) = Some v \<Longrightarrow> tbl_find ve_id i (cd_venues db') = Some v"
  shows "row_copied db' r"
proof -
  obtain s v where "tbl_find sw_id (pu_show_id r) (cd_shows db) = Some s" "tbl_find ve_id (pu_venue_id r) (cd_venues db) = Some v"
    "copies_of (tbl_find ar_channel_id (pu_channel_id r) (cd_artists db)) s v = copies_shown r"
    using assms(1) by (auto simp: row_copied_def masters_of_def split: option.splits)
  with assms(2-4) show ?thesis by (simp add: row_copied_def masters_of_def)
qed

lemma publish_show_keeps:
  assumes run: "publish_show c show_id now s tp db = Inr (v, db')"
  shows "copies_ok db \<Longrightarrow> copies_ok db'" and "catalog_ok db \<Longrightarrow> catalog_ok db'"
proof -
  let ?row = "show_row_of show_id (free_show_slug c (sp_title s) show_id now db) s"
  have new: "sw_id ?row \<notin> sw_id ` set (cd_shows db)" "sw_slug ?row \<notin> sw_slug ` set (cd_shows db)"
    and db': "cd_shows db' = cd_shows db @ [?row]" "cd_public db' = cd_public db" "cd_venues db' = cd_venues db"
      "cd_artists db' = cd_artists db" "cd_dates db' = cd_dates db" "cd_publications db' = cd_publications db"
      "cd_replays db' = cd_replays db"
    using run by (auto simp: publish_show_def Let_def result_simps write_catalog_event_def)
  show "catalog_ok db \<Longrightarrow> catalog_ok db'" by (rule catalog_ok_cong) (simp_all add: db' page_at_def)
  assume ok: "copies_ok db"
  have "row_copied db' r" if "row_copied db r" for r
    by (rule row_copied_more [OF that]) (simp_all add: db' tbl_find_kept)
  with ok new show "copies_ok db'" by (auto simp: copies_ok_def list_all_iff catalog_keys_def db')
qed

lemma create_venue_keeps:
  assumes run: "create_venue c venue_id ve db = Inr (v, db')"
  shows "copies_ok db \<Longrightarrow> copies_ok db'" and "catalog_ok db \<Longrightarrow> catalog_ok db'"
proof -
  obtain row where db': "db' = db\<lparr>cd_venues := cd_venues db @ [row]\<rparr>"
    using run by (auto simp: create_venue_def result_simps)
  show "catalog_ok db \<Longrightarrow> catalog_ok db'" by (rule catalog_ok_cong) (simp_all add: db' page_at_def)
  assume ok: "copies_ok db"
  have "row_copied db' r" if "row_copied db r" for r
    by (rule row_copied_more [OF that]) (simp_all add: db' tbl_find_kept)
  with ok show "copies_ok db'" by (auto simp: copies_ok_def list_all_iff catalog_keys_def db')
qed

text \<open>A statement that changes copies only leaves the pages of the dates.\<close>

lemma page_at_copied:
  assumes "cd_public db' = tbl_update p f (cd_public db)"
    and "\<And>r. page_shown (f r) = page_shown r" and "\<And>r. pu_date_id (f r) = pu_date_id r"
  shows "page_at db' i = page_at db i"
  by (cases "tbl_find pu_date_id i (cd_public db)")
    (simp_all add: page_at_def assms tbl_find_tbl_update)

lemma public_slugs_unique_map:
  assumes "\<And>r. pu_show_id (f r) = pu_show_id r \<and> pu_slug (f r) = pu_slug r"
  shows "public_slugs_unique (tbl_update p f t) = public_slugs_unique t"
proof -
  have "map (\<lambda>r. (pu_show_id r, pu_slug r)) (tbl_update p f t) = map (\<lambda>r. (pu_show_id r, pu_slug r)) t"
    by (rule map_tbl_update_same) (simp add: assms)
  then show ?thesis by (simp add: public_slugs_unique_def)
qed

lemma rows_copied_map:
  assumes "list_all (row_copied db) t" and "\<And>r. row_copied db r \<Longrightarrow> row_copied db' (if p r then f r else r)"
  shows "list_all (row_copied db') (tbl_update p f t)"
  using assms by (induction t) (auto simp: tbl_update_def)

lemma update_show_keeps:
  assumes run: "update_show show_id ch now tp db = Inr db'"
  shows "copies_ok db \<Longrightarrow> copies_ok db'" and "catalog_ok db \<Longrightarrow> catalog_ok db'"
proof -
  obtain s where s: "tbl_find sw_id show_id (cd_shows db) = Some s"
    using run by (auto simp: update_show_def split: option.splits)
  define row where "row = show_changed ch s"
  define f where "f = (\<lambda>r :: date_detail_public. r\<lparr>pu_genre_ids := sw_genre_ids row, pu_tag_ids := sw_tag_ids row,
    pu_language_dependency := sw_language_dependency row, pu_media := sw_media row, pu_title := sw_title row,
    pu_synopsis := sw_synopsis row, pu_version := pu_version r + 1\<rparr>)"
  have kept: "sw_id row = sw_id s" "sw_slug row = sw_slug s" by (simp_all add: row_def show_changed_def)
  have db': "cd_shows db' = tbl_update (\<lambda>r. sw_id r = sw_id s) (\<lambda>_. row) (cd_shows db)"
    "cd_public db' = tbl_update (\<lambda>r. pu_show_id r = sw_id row) f (cd_public db)" "cd_venues db' = cd_venues db"
    "cd_artists db' = cd_artists db" "cd_dates db' = cd_dates db" "cd_publications db' = cd_publications db"
    "cd_replays db' = cd_replays db"
    using run s by (auto simp: update_show_def Let_def write_catalog_event_def project_show_copy_def row_def f_def)
  show "catalog_ok db \<Longrightarrow> catalog_ok db'"
    by (rule catalog_ok_cong) (simp_all add: db' page_at_copied [OF db'(2)] f_def page_shown_def)
  assume ok: "copies_ok db"
  have found: "tbl_find sw_id i (cd_shows db') = map_option (\<lambda>r. if sw_id r = sw_id s then row else r) (tbl_find sw_id i (cd_shows db))" for i
    unfolding db' by (rule tbl_find_tbl_update) (simp add: kept)
  have moved: "row_copied db' (if pu_show_id r = sw_id row then f r else r)" if r: "row_copied db r" for r
  proof -
    obtain s' v where m: "tbl_find sw_id (pu_show_id r) (cd_shows db) = Some s'"
      "tbl_find ve_id (pu_venue_id r) (cd_venues db) = Some v"
      "copies_of (tbl_find ar_channel_id (pu_channel_id r) (cd_artists db)) s' v = copies_shown r"
      using r by (auto simp: row_copied_def masters_of_def split: option.splits)
    have "sw_id s = show_id" using s by (blast dest: tbl_find_SomeD)
    with m(1) s have "sw_id s' = pu_show_id r" "s' = s \<or> pu_show_id r \<noteq> sw_id s"
      by (auto dest: tbl_find_SomeD)
    note ids = this
    show ?thesis
    proof (cases "pu_show_id r = sw_id s")
      case True
      with ids m have "copies_of (tbl_find ar_channel_id (pu_channel_id r) (cd_artists db)) row v = copies_shown (f r)"
        by (cases "tbl_find ar_channel_id (pu_channel_id r) (cd_artists db)")
          (simp_all add: copies_of_def copies_shown_def f_def row_def show_changed_def)
      with True ids m found [of "pu_show_id r"] show ?thesis
        by (simp add: row_copied_def masters_of_def db'(3,4) kept f_def)
    next
      case False
      with ids m found [of "pu_show_id r"] show ?thesis by (simp add: row_copied_def masters_of_def db'(3,4) kept)
    qed
  qed
  have "map sw_id (cd_shows db') = map sw_id (cd_shows db)"
    unfolding db' by (rule map_tbl_update_same) (simp add: kept)
  moreover have "map pu_date_id (cd_public db') = map pu_date_id (cd_public db)"
    unfolding db' by (rule map_tbl_update_same) (simp add: f_def)
  moreover have "map sw_slug (cd_shows db') = map sw_slug (cd_shows db)"
  proof -
    have "x = s" if "x \<in> set (cd_shows db)" "sw_id x = sw_id s" for x
      using ok that tbl_find_SomeD [OF s] tbl_find_unique [of sw_id "cd_shows db" x] s
      by (simp add: copies_ok_def catalog_keys_def)
    then show ?thesis by (auto simp: db' tbl_update_def kept)
  qed
  moreover have "public_slugs_unique (cd_public db') = public_slugs_unique (cd_public db)"
    unfolding db' by (rule public_slugs_unique_map) (simp add: f_def)
  moreover have "list_all (row_copied db') (cd_public db')"
    unfolding db'(2) by (rule rows_copied_map [OF _ moved]) (use ok in \<open>simp_all add: copies_ok_def\<close>)
  ultimately show "copies_ok db'" using ok by (simp add: copies_ok_def catalog_keys_def db'(4))
qed

text \<open>A face saved under its channel: the channel's face is that one, and no other channel's changes.\<close>

lemma save_artist_saved:
  assumes run: "save_artist a t = Inr t'" and keys: "distinct (map ar_id t)" "distinct (map ar_channel_id t)"
    and same: "case tbl_find ar_channel_id (ar_channel_id a) t of None \<Rightarrow> ar_id a \<notin> ar_id ` set t | Some x \<Rightarrow> ar_id x = ar_id a"
  shows "tbl_find ar_channel_id k t' = (if k = ar_channel_id a then Some a else tbl_find ar_channel_id k t)"
    and "distinct (map ar_id t')" and "distinct (map ar_channel_id t')"
proof -
  have chan: "ar_channel_id a \<notin> ar_channel_id ` set (filter (\<lambda>r. ar_id r \<noteq> ar_id a) t)"
    and t': "t' = (if ar_id a \<in> ar_id ` set t then tbl_update (\<lambda>r. ar_id r = ar_id a) (\<lambda>_. a) t else t @ [a])"
    using run by (simp_all add: save_artist_def Let_def result_simps)
  have ids: "map ar_id (tbl_update (\<lambda>r. ar_id r = ar_id a) (\<lambda>_. a) t) = map ar_id t"
    by (rule map_tbl_update_same) simp
  show "distinct (map ar_id t')" using keys(1) ids by (auto simp: t')
  have "(\<forall>k. tbl_find ar_channel_id k t' = (if k = ar_channel_id a then Some a else tbl_find ar_channel_id k t)) \<and>
    distinct (map ar_channel_id t')"
  proof (cases "tbl_find ar_channel_id (ar_channel_id a) t")
    case None
    with same have "ar_id a \<notin> ar_id ` set t" by simp
    with None keys(2) show ?thesis by (auto simp: t' tbl_find_insert tbl_find_None)
  next
    case (Some x)
    then have x: "x \<in> set t" "ar_channel_id x = ar_channel_id a" "ar_id x = ar_id a"
      using same by (auto dest: tbl_find_SomeD)
    have chans: "ar_channel_id r = ar_channel_id a" if "r \<in> set t" "ar_id r = ar_id a" for r
      using keys(1) that x by (metis (mono_tags, lifting) inj_onD distinct_map)
    have upd: "tbl_update (\<lambda>r. ar_id r = ar_id a) (\<lambda>_. a) t =
        tbl_update (\<lambda>r. ar_id r = ar_id a \<and> ar_channel_id r = ar_channel_id a) (\<lambda>_. a) t"
      unfolding tbl_update_def by (rule map_cong) (use chans in auto)
    have t2: "t' = tbl_update (\<lambda>r. ar_id r = ar_id a \<and> ar_channel_id r = ar_channel_id a) (\<lambda>_. a) t"
      using x upd unfolding t' by (metis image_eqI)
    have "tbl_find ar_channel_id k t' = map_option (\<lambda>r. if ar_id r = ar_id a \<and> ar_channel_id r = ar_channel_id a then a else r)
        (tbl_find ar_channel_id k t)" for k
      unfolding t2 by (rule tbl_find_tbl_update) simp
    moreover have "map ar_channel_id t' = map ar_channel_id t" unfolding t2 by (rule map_tbl_update_same) simp
    moreover have "map_option (\<lambda>r. if ar_id r = ar_id a \<and> ar_channel_id r = ar_channel_id a then a else r)
        (tbl_find ar_channel_id k t) = tbl_find ar_channel_id k t" if "k \<noteq> ar_channel_id a" for k
      using that by (cases "tbl_find ar_channel_id k t") (auto dest: tbl_find_SomeD)
    ultimately show ?thesis using Some x keys(2) by simp
  qed
  then show "tbl_find ar_channel_id k t' = (if k = ar_channel_id a then Some a else tbl_find ar_channel_id k t)"
    "distinct (map ar_channel_id t')" by blast+
qed

lemma update_channel_identity_keeps:
  assumes run: "update_channel_identity c new_id now channel_id body tp db = Inr (a, db')"
    and new: "new_id \<notin> ar_id ` set (cd_artists db)"
  shows "copies_ok db \<Longrightarrow> copies_ok db'" and "catalog_ok db \<Longrightarrow> catalog_ok db'"
proof -
  define f where "f = (\<lambda>r :: date_detail_public. r\<lparr>pu_artist_id := ar_id a, pu_artist_name := Some (ar_public_name a),
    pu_version := pu_version r + 1\<rparr>)"
  let ?cur = "tbl_find ar_channel_id channel_id (cd_artists db)"
  obtain slug db1 artists where db1: "db1 = (case ?cur of
        Some x \<Rightarrow> if ar_slug x \<noteq> slug then retire_slug c Link_Artist UNSCOPED (ar_slug x)
          (case ?cur of None \<Rightarrow> new_id | Some x \<Rightarrow> ar_id x) now db else db
      | None \<Rightarrow> db)"
    and save: "save_artist a (cd_artists db1) = Inr artists"
    and a: "ar_channel_id a = channel_id" "ar_id a = (case ?cur of None \<Rightarrow> new_id | Some x \<Rightarrow> ar_id x)"
    and left: "db' = write_catalog_event Type_Artist_Updated (ar_id a) (Payload_Artist_Updated a now) tp now
      (project_artist a (db1\<lparr>cd_artists := artists\<rparr>))"
    using run unfolding update_channel_identity_def Let_def
    by (clarsimp simp: bindE_eq_Inr case_prod_beta)
  have "cd_artists db1 = cd_artists db \<and> cd_public db1 = cd_public db \<and> cd_shows db1 = cd_shows db \<and>
      cd_venues db1 = cd_venues db \<and> cd_dates db1 = cd_dates db \<and> cd_publications db1 = cd_publications db \<and>
      cd_replays db1 = cd_replays db"
    unfolding db1 by (simp add: retire_slug_def Let_def split: option.split)
  with save left have saved: "save_artist a (cd_artists db) = Inr artists"
    and db': "cd_artists db' = artists" "cd_public db' = tbl_update (\<lambda>r. pu_channel_id r = ar_channel_id a) f (cd_public db)"
      "cd_shows db' = cd_shows db" "cd_venues db' = cd_venues db" "cd_dates db' = cd_dates db"
      "cd_publications db' = cd_publications db" "cd_replays db' = cd_replays db"
    by (simp_all add: write_catalog_event_def project_artist_def f_def)
  show "catalog_ok db \<Longrightarrow> catalog_ok db'"
    by (rule catalog_ok_cong) (simp_all add: db' page_at_copied [OF db'(2)] f_def page_shown_def)
  assume ok: "copies_ok db"
  have keys: "distinct (map ar_id (cd_artists db))" "distinct (map ar_channel_id (cd_artists db))"
    using ok by (simp_all add: copies_ok_def catalog_keys_def)
  note face = save_artist_saved [OF saved keys]
  have same: "case tbl_find ar_channel_id (ar_channel_id a) (cd_artists db) of None \<Rightarrow> ar_id a \<notin> ar_id ` set (cd_artists db)
    | Some x \<Rightarrow> ar_id x = ar_id a"
    using a new by (simp split: option.splits)
  have moved: "row_copied db' (if pu_channel_id r = ar_channel_id a then f r else r)" if r: "row_copied db r" for r
  proof -
    obtain s v where "tbl_find sw_id (pu_show_id r) (cd_shows db) = Some s"
      "tbl_find ve_id (pu_venue_id r) (cd_venues db) = Some v"
      "copies_of (tbl_find ar_channel_id (pu_channel_id r) (cd_artists db)) s v = copies_shown r"
      using r by (auto simp: row_copied_def masters_of_def split: option.splits)
    with face(1) [OF same] show ?thesis
      by (auto simp: row_copied_def masters_of_def db' f_def copies_of_def copies_shown_def)
  qed
  have "map pu_date_id (cd_public db') = map pu_date_id (cd_public db)"
    unfolding db' by (rule map_tbl_update_same) (simp add: f_def)
  moreover have "public_slugs_unique (cd_public db') = public_slugs_unique (cd_public db)"
    unfolding db' by (rule public_slugs_unique_map) (simp add: f_def)
  moreover have "list_all (row_copied db') (cd_public db')"
    unfolding db'(2) by (rule rows_copied_map [OF _ moved]) (use ok in \<open>simp_all add: copies_ok_def\<close>)
  ultimately show "copies_ok db'" using ok face(2,3) [OF same]
    by (simp add: copies_ok_def catalog_keys_def db'(1,3))
qed

end
