(* ===== verification/Catalog_Slugs.thy ===== *)
theory Catalog_Slugs
  imports Catalog_Copies
begin

text \<open>
  What a slug is made of: the characters the commands' slugs hold, and that every slug of a show and
  of a date is a segment a URL carries as it is.
\<close>

section \<open>Segments\<close>

definition slug_text :: "char \<Rightarrow> bool" where
  "slug_text x \<longleftrightarrow> slug_char x \<or> x = CHR ''-''"

text \<open>The characters of an identifier, of a slug and of nothing else between two slashes.\<close>

definition plain_segment :: "string \<Rightarrow> bool" where
  "plain_segment s \<longleftrightarrow> s \<noteq> [] \<and> list_all slug_text s"

lemma plain_segment_append: "plain_segment s \<Longrightarrow> list_all slug_text t \<Longrightarrow> plain_segment (s @ t)"
  by (simp add: plain_segment_def)

lemma slug_text_hyphen [simp]: "slug_text (CHR ''-'')"
  by (simp add: slug_text_def)

lemma not_slug_char_hyphen [simp]: "\<not> slug_char (CHR ''-'')"
  by (simp add: slug_char_def)

lemma hyphenated_text: "list_all slug_text (hyphenated s)"
  by (induction s rule: hyphenated.induct) (simp_all add: slug_text_def)

lemma list_all_dropWhile: "list_all p s \<Longrightarrow> list_all p (dropWhile q s)"
  by (induction s) simp_all

lemma trimmed_text:
  "list_all p s \<Longrightarrow> list_all p (trimmed_start s)" "list_all p s \<Longrightarrow> list_all p (trimmed_end s)"
  by (simp_all add: trimmed_start_def trimmed_end_def list_all_dropWhile list_all_rev)

lemma list_all_take: "list_all p s \<Longrightarrow> list_all p (take n s)"
  by (induction s arbitrary: n) (simp_all add: take_Cons')

lemma list_all_drop: "list_all p s \<Longrightarrow> list_all p (drop n s)"
  by (induction s arbitrary: n) (simp_all add: drop_Cons')

lemma slugify_text: "list_all slug_text (slugify c text)"
  unfolding slugify_def by (intro trimmed_text list_all_take hyphenated_text)

lemma slice_last_plain: "plain_segment s \<Longrightarrow> 0 < n \<Longrightarrow> plain_segment (slice_last n s)"
  by (simp add: plain_segment_def slice_last_def list_all_drop) (cases s; simp)

lemma digit_text: "n < 10 \<Longrightarrow> slug_text (char_of (48 + n))" for n :: nat
proof -
  assume "n < 10"
  moreover have "list_all (\<lambda>n. slug_text (char_of (48 + n))) [0..<10::nat]" by code_simp
  ultimately show ?thesis by (simp add: list_all_iff)
qed

lemma digits_plain: "plain_segment (digits_of n)"
proof (induction n rule: digits_of.induct)
  case (1 n)
  show ?case
  proof (cases "n < 10")
    case True
    then show ?thesis by (subst digits_of.simps) (simp add: plain_segment_def digit_text)
  next
    case False
    have "slug_text (char_of (48 + n mod 10))" by (rule digit_text) simp
    with 1 False show ?thesis by (subst digits_of.simps) (simp add: plain_segment_append)
  qed
qed

lemma decimal_plain: "plain_segment (decimal n)"
  using digits_plain by (simp add: decimal_def) (simp add: plain_segment_def)

lemma pad2_text: "list_all slug_text (pad2 n)"
proof -
  have "slug_text (CHR ''0'')" by (simp add: slug_text_def slug_char_def)
  then show ?thesis using decimal_plain [of n] by (auto simp: pad2_def Let_def plain_segment_def list_all_iff)
qed

lemma date_slug_candidates_plain:
  "plain_segment date_id \<Longrightarrow> list_all plain_segment (date_slug_candidates c starts_at zone date_id)"
  using slice_last_plain [of date_id 8] decimal_plain
  by (simp add: date_slug_candidates_def Let_def pad2_text plain_segment_def)

lemma find_pred: "find p xs = Some x \<Longrightarrow> list_all q xs \<Longrightarrow> q x"
  by (induction xs) (auto split: if_splits)

lemma free_date_slug_plain:
  assumes "plain_segment date_id"
  shows "plain_segment (free_date_slug c date_id show_id starts_at zone now db)"
proof -
  let ?cs = "date_slug_candidates c starts_at zone date_id"
  have "list_all plain_segment ?cs" by (rule date_slug_candidates_plain [OF assms])
  moreover have "?cs \<noteq> []" by (simp add: date_slug_candidates_def Let_def)
  ultimately show ?thesis
    unfolding free_date_slug_def Let_def
    by (cases "find (\<lambda>slug. \<not> slug_held date_id show_id slug db \<and>
        \<not> reserved_for_another Link_Date show_id slug date_id now db) ?cs") (auto simp: list_all_iff dest: find_pred)
qed

lemma free_show_slug_plain:
  assumes "plain_segment show_id"
  shows "plain_segment (free_show_slug c title show_id now db)"
proof -
  have "plain_segment base" if "list_all slug_text base" "\<not> length base < 3" for base
    using that by (cases base) (simp_all add: plain_segment_def)
  then have "list_all plain_segment (show_slug_candidates c title show_id)"
    using slugify_text slice_last_plain [OF assms, of 8] slice_last_plain [OF assms, of 12]
    by (simp add: show_slug_candidates_def Let_def plain_segment_append) (simp add: plain_segment_def)
  with assms show ?thesis
    unfolding free_show_slug_def by (auto split: option.splits dest: find_pred)
qed

section \<open>Every slug in the tables\<close>

lemma record_date_events_masters:
  assumes "record_date_events c x es db = Inr db'"
  shows "same_masters db db'"
proof -
  obtain db1 where proj: "project_date_events es (wx_show x) (wx_venue x) (retire_slugs_moved_from c es db) = Inr db1"
    and db': "db' = write_date_integration_events c x es db1"
    using assms by (auto simp: record_date_events_def result_simps)
  have "same_masters (retire_slugs_moved_from c es db) db1"
    using proj by (auto simp: project_date_events_def insert_public_date_def update_public_date_def Let_def
        same_masters_def result_simps split: list.splits if_splits)
  with retire_slugs_masters [of db c es] show ?thesis
    by (simp add: db' write_date_integration_events_def same_masters_def)
qed

lemma commit_date_masters:
  assumes run: "commit_date c x t replay db = Inr db'"
  shows "same_masters db db'"
proof -
  obtain t' db1 es db2 where saved: "save_date t db = Inr (t', db1)"
    and moved: "(case replay of None \<Rightarrow> Inr ([], db1)
       | Some r \<Rightarrow> bindE (save_replay r db1) (\<lambda>(r', db2). Inr (uncommitted (root r'), db2))) = Inr (es, db2)"
    and rec: "record_date_events c x (keyed_events (uncommitted (root t')) es) db2 = Inr db'"
    using run by (auto simp: commit_date_def result_simps)
  have "same_masters db1 db2"
    using moved by (auto simp: result_simps same_masters_def dest: save_replay_frame split: option.splits)
  with save_date_frame [OF saved] record_date_events_masters [OF rec] show ?thesis
    by (blast intro: same_masters_trans)
qed

lemma claimed_masters: "claim_catalog_message m db = (b, db0) \<Longrightarrow> same_masters db db0"
  by (auto simp: claim_catalog_message_def same_masters_def split: if_splits)

lemma date_transactions_masters:
  "draft_date_in c origin now draft db = Inr (sheet, db') \<Longrightarrow> same_masters db db'"
  "transition_publication_in c origin now move db = Inr (view, db') \<Longrightarrow> same_masters db db'"
  "declare_outcome_in c origin now outcome db = Inr (declared, db') \<Longrightarrow> same_masters db db'"
  "learn_run_fact c origin now m run tp db = Inr (learned, db') \<Longrightarrow> same_masters db db'"
  "learn_replay_asset_fact now m i ready tp seen db = Inr (learned, db') \<Longrightarrow> same_masters db db' \<and> cd_dates db' = cd_dates db"
  "record_checklist_fact m f db = Inr (learned, db') \<Longrightarrow> same_masters db db' \<and> cd_dates db' = cd_dates db"
proof -
  assume "draft_date_in c origin now draft db = Inr (sheet, db')"
  then show "same_masters db db'"
    by (auto simp: draft_date_in_def Let_def result_simps split: option.splits if_splits
        dest!: save_date_frame record_date_events_masters intro: same_masters_trans)
next
  assume "transition_publication_in c origin now move db = Inr (view, db')"
  then show "same_masters db db'"
    unfolding transition_publication_in_def Let_def bindE_eq_Inr by (auto dest: commit_date_masters)
next
  assume "declare_outcome_in c origin now outcome db = Inr (declared, db')"
  then show "same_masters db db'"
    unfolding declare_outcome_in_def Let_def bindE_eq_Inr by (auto dest: commit_date_masters)
next
  assume run: "learn_run_fact c origin now m run tp db = Inr (learned, db')"
  obtain claimed db0 where claim: "claim_catalog_message m db = (claimed, db0)" by (cases "claim_catalog_message m db")
  have "db' = db0 \<or> (\<exists>x t r. commit_date c x t r db0 = Inr db')"
    using run claim by (cases claimed) (auto simp: learn_run_fact_def Let_def result_simps split: if_splits)
  then show "same_masters db db'"
    using claimed_masters [OF claim] commit_date_masters by (blast intro: same_masters_trans)
next
  assume run: "learn_replay_asset_fact now m i ready tp seen db = Inr (learned, db')"
  obtain claimed db0 where claim: "claim_catalog_message m db = (claimed, db0)" by (cases "claim_catalog_message m db")
  consider "db' = db0" | t t' es db1 where "save_replay t db0 = Inr (t', db1)" "record_replay_events tp es db1 = Inr db'"
    using run claim
    by (cases claimed) (auto simp: learn_replay_asset_fact_def result_simps split: option.splits if_splits bool.splits prod.splits)
  then have "same_masters db0 db' \<and> cd_dates db' = cd_dates db0"
  proof cases
    case (2 t t' es db1)
    have "same_masters db0 db1 \<and> cd_dates db1 = cd_dates db0"
      using 2(1) by (auto simp: save_replay_def Let_def result_simps same_masters_def)
    with 2(2) show ?thesis
      by (auto simp: record_replay_events_def update_public_date_def Let_def result_simps same_masters_def
          split: list.splits if_splits)
  qed (simp add: same_masters_def)
  then show "same_masters db db' \<and> cd_dates db' = cd_dates db"
    using claimed_masters [OF claim] claimed_tables(1) [OF claim] by (auto intro: same_masters_trans)
next
  assume run: "record_checklist_fact m f db = Inr (learned, db')"
  obtain claimed db0 where claim: "claim_catalog_message m db = (claimed, db0)" by (cases "claim_catalog_message m db")
  have "db' = db0 \<or> (\<exists>t. db' = db0\<lparr>cd_checklist := t\<rparr>)"
    using run claim by (cases claimed) (auto simp: record_checklist_fact_def split: if_splits prod.splits)
  then show "same_masters db db' \<and> cd_dates db' = cd_dates db"
    using claimed_masters [OF claim] claimed_tables(1) [OF claim] by (auto simp: same_masters_def)
qed

definition plain_date :: "performance_date_snapshot \<Rightarrow> bool" where
  "plain_date d \<longleftrightarrow> plain_segment (pd_id d) \<and> (case pd_slug d of None \<Rightarrow> True | Some slug \<Rightarrow> plain_segment slug)"

definition slugs_plain :: "catalog_db \<Rightarrow> bool" where
  "slugs_plain db \<longleftrightarrow> list_all (\<lambda>s. plain_segment (sw_slug s)) (cd_shows db) \<and>
     (\<forall>i. case date_at db i of None \<Rightarrow> True | Some d \<Rightarrow> plain_date d)"

lemma slugs_plain_same:
  assumes "slugs_plain db" and "same_masters db db'" and "\<And>j. date_at db' j = date_at db j"
  shows "slugs_plain db'"
  using assms by (simp add: slugs_plain_def same_masters_def)

lemma slugs_plain_committed:
  assumes "slugs_plain db" and "same_masters db db'" and "date_committed i s r db db'" and "plain_date (of_date s)"
  shows "slugs_plain db'"
  using assms by (simp add: slugs_plain_def same_masters_def date_committed_def)

end
