(* ===== verification/Catalog_Runs.thy ===== *)
theory Catalog_Runs
  imports Catalog_Slugs
begin

text \<open>
  The runs of catalog: every committed transaction is a step, in any order and at any instants; what
  all reachable tables keep, and the properties of the public pages and of the links to them.
\<close>

section \<open>Steps\<close>

definition empty_catalog :: catalog_db where
  "empty_catalog = \<lparr>cd_shows = [], cd_venues = [], cd_artists = [], cd_dates = [], cd_publications = [], cd_replays = [],
     cd_checklist = [], cd_aliases = [], cd_public = [], cd_outbox = [], cd_processed = []\<rparr>"

text \<open>
  A generated identifier is fresh, and an identifier is a UUID: generated, or refused by the schema
  of the command otherwise.
\<close>

inductive catalog_step :: "catalog_core \<Rightarrow> string \<Rightarrow> catalog_db \<Rightarrow> catalog_db \<Rightarrow> bool" for c origin where
  date_drafted: "draft_date_in c origin now draft db = Inr (sheet, db') \<Longrightarrow> plain_segment (dc_date_id draft) \<Longrightarrow>
    catalog_step c origin db db'"
| publication_moved: "transition_publication_in c origin now move db = Inr (view, db') \<Longrightarrow> catalog_step c origin db db'"
| outcome_declared: "declare_outcome_in c origin now outcome db = Inr (declared, db') \<Longrightarrow> catalog_step c origin db db'"
| run_learned: "learn_run_fact c origin now message run tp db = Inr (learned, db') \<Longrightarrow> catalog_step c origin db db'"
| replay_file_learned: "learn_replay_asset_fact now message date_id ready tp seen db = Inr (learned, db') \<Longrightarrow>
    catalog_step c origin db db'"
| checklist_learned: "record_checklist_fact message told db = Inr (learned, db') \<Longrightarrow> catalog_step c origin db db'"
| show_published: "publish_show c show_id now show_facts tp db = Inr (published, db') \<Longrightarrow> plain_segment show_id \<Longrightarrow>
    catalog_step c origin db db'"
| show_updated: "update_show show_id edits now tp db = Inr db' \<Longrightarrow> catalog_step c origin db db'"
| venue_created: "create_venue c venue_id venue db = Inr (made, db') \<Longrightarrow> catalog_step c origin db db'"
| face_updated: "update_channel_identity c artist_id now channel_id face tp db = Inr (artist, db') \<Longrightarrow>
    artist_id \<notin> ar_id ` set (cd_artists db) \<Longrightarrow> catalog_step c origin db db'"

abbreviation catalog_runs :: "catalog_core \<Rightarrow> string \<Rightarrow> catalog_db \<Rightarrow> catalog_db \<Rightarrow> bool" where
  "catalog_runs c origin \<equiv> (catalog_step c origin)\<^sup>*\<^sup>*"

lemma catalog_step_ok:
  assumes "catalog_step c origin db db'" and "catalog_laws c" and "catalog_ok db"
  shows "catalog_ok db'"
  using assms
  by (cases rule: catalog_step.cases)
    (blast intro: draft_date_in_ok transition_publication_in_ok declare_outcome_in_ok learn_run_fact_ok(1)
      learn_replay_asset_fact_ok record_checklist_fact_ok publish_show_keeps(2) update_show_keeps(2)
      create_venue_keeps(2) update_channel_identity_keeps(2))+

lemma catalog_step_copies:
  assumes "catalog_step c origin db db'" and "copies_ok db"
  shows "copies_ok db'"
  using assms
  by (cases rule: catalog_step.cases)
    (blast intro: draft_date_in_copies transition_publication_in_copies declare_outcome_in_copies learn_run_fact_copies
      learn_replay_asset_fact_copies record_checklist_fact_copies publish_show_keeps(1) update_show_keeps(1)
      create_venue_keeps(1) update_channel_identity_keeps(1))+

lemma empty_catalog_ok: "catalog_ok empty_catalog" "copies_ok empty_catalog"
  by (simp_all add: empty_catalog_def catalog_ok_def copies_ok_def catalog_keys_def page_at_def public_slugs_unique_def)

lemma catalog_runs_ok:
  assumes "catalog_runs c origin empty_catalog db" and "catalog_laws c"
  shows "catalog_ok db" and "copies_ok db"
  using assms(1)
  by (induction rule: rtranclp_induct) (auto simp: empty_catalog_ok intro: catalog_step_ok [OF _ assms(2)] catalog_step_copies)

lemma transition_plain:
  assumes "transition_publication c tc x (restore s) = Inr a" and "plain_date (of_date s)"
    and "case px_free_slug x of None \<Rightarrow> True | Some slug \<Rightarrow> plain_segment slug"
  shows "plain_date (of_date (current a))"
  using assms(1)
proof (cases rule: transition_publication_Inr)
  case (kept p' changed)
  with assms(2) show ?thesis by simp
next
  case (published p' changed e slug d)
  with assms(2,3) show ?thesis by (simp add: plain_date_def)
qed

lemma outcome_plain:
  assumes "declare_outcome c v decl m slug now (restore s) = Inr a" and "plain_date (of_date s)"
    and "case slug of None \<Rightarrow> True | Some x \<Rightarrow> plain_segment x"
  shows "plain_date (of_date (current a))"
  using assms(1)
  by (rule declare_outcome_Inr) (use assms(2,3) in \<open>auto simp: plain_date_def split: if_splits option.splits\<close>)

lemma catalog_step_plain:
  assumes step: "catalog_step c origin db db'" and laws: "catalog_laws c" and ok: "catalog_ok db" and plain: "slugs_plain db"
  shows "slugs_plain db'"
  using step
proof (cases rule: catalog_step.cases)
  case (date_drafted now draft sheet)
  from ok date_drafted(1) show ?thesis
  proof (rule draft_date_in_committed)
    fix d assume "dd_id d = dc_date_id draft"
      and left: "date_committed (dc_date_id draft) (current (draft_date c d now)) None db db'"
    with date_drafted(2) have "plain_date (of_date (current (draft_date c d now)))"
      by (simp add: plain_date_def draft_date_def)
    then show ?thesis by (rule slugs_plain_committed [OF plain date_transactions_masters(1) [OF date_drafted(1)] left])
  qed
next
  case (publication_moved now move view)
  from laws ok publication_moved show ?thesis
  proof (rule transition_publication_in_committed)
    fix s tc x zone a r
    assume at: "date_at db (tp_date_id move) = Some (of_date s)"
      and a: "transition_publication c tc x (restore s) = Inr a"
      and free: "px_free_slug x = (if pd_slug (of_date s) = None then Some (free_date_slug c (tp_date_id move)
        (pd_show_id (of_date s)) (pd_starts_at (of_date s)) zone now db) else None)"
      and left: "date_committed (tp_date_id move) (current a) r db db'"
    have s: "plain_date (of_date s)" "pd_id (of_date s) = tp_date_id move"
      using plain at by (auto simp: slugs_plain_def dest: spec [of _ "tp_date_id move"] tbl_find_SomeD)
    then have "plain_segment (tp_date_id move)" by (simp add: plain_date_def)
    with transition_plain [OF a s(1)] free free_date_slug_plain have "plain_date (of_date (current a))" by simp
    then show ?thesis
      by (rule slugs_plain_committed [OF plain date_transactions_masters(2) [OF publication_moved] left])
  qed
next
  case (outcome_declared now outcome declared)
  from laws ok outcome_declared show ?thesis
  proof (rule declare_outcome_in_committed)
    fix s decl zone a x replay r
    assume at: "date_at db (do_date_id outcome) = Some (of_date s)"
      and a: "declare_outcome c (do_expected_version outcome) decl (do_message outcome)
        (map_option (\<lambda>moved_to. free_date_slug c (do_date_id outcome) (pd_show_id (of_date s)) moved_to zone now db)
          (od_rescheduled_to decl)) now (restore s) = Inr a"
      and left: "date_committed (do_date_id outcome) (current a) r db db'"
    have s: "plain_date (of_date s)" "pd_id (of_date s) = do_date_id outcome"
      using plain at by (auto simp: slugs_plain_def dest: spec [of _ "do_date_id outcome"] tbl_find_SomeD)
    then have "plain_segment (do_date_id outcome)" by (simp add: plain_date_def)
    then have "plain_date (of_date (current a))"
      by (intro outcome_plain [OF a s(1)]) (simp add: free_date_slug_plain split: option.split)
    then show ?thesis
      by (rule slugs_plain_committed [OF plain date_transactions_masters(3) [OF outcome_declared] left])
  qed
next
  case (run_learned now message run tp learned)
  show ?thesis
    by (rule slugs_plain_same [OF plain date_transactions_masters(4) [OF run_learned]])
      (rule learn_run_fact_ok(2) [OF laws ok run_learned])
next
  case (replay_file_learned now message date_id ready tp seen learned)
  from date_transactions_masters(5) [OF this] show ?thesis by (intro slugs_plain_same [OF plain]) simp_all
next
  case (checklist_learned message told learned)
  from date_transactions_masters(6) [OF this] show ?thesis by (intro slugs_plain_same [OF plain]) simp_all
next
  case (show_published show_id now show_facts tp published)
  then have "plain_segment (sw_slug (show_row_of show_id (free_show_slug c (sp_title show_facts) show_id now db) show_facts))"
    by (simp add: show_row_of_def free_show_slug_plain)
  with show_published(1) plain show ?thesis
    by (auto simp: publish_show_def Let_def result_simps write_catalog_event_def slugs_plain_def)
next
  case (show_updated show_id edits now tp)
  then obtain s where s: "tbl_find sw_id show_id (cd_shows db) = Some s"
    and db': "cd_shows db' = tbl_update (\<lambda>r. sw_id r = sw_id s) (\<lambda>_. show_changed edits s) (cd_shows db)"
      "cd_dates db' = cd_dates db"
    by (auto simp: update_show_def Let_def write_catalog_event_def project_show_copy_def split: option.splits)
  have "plain_segment (sw_slug (show_changed edits s))"
    using plain tbl_find_SomeD [OF s] by (simp add: slugs_plain_def list_all_iff show_changed_def)
  with plain show ?thesis by (auto simp: slugs_plain_def db' list_all_iff table_simps)
next
  case (venue_created venue_id venue made)
  with plain show ?thesis by (auto simp: create_venue_def result_simps slugs_plain_def)
next
  case (face_updated artist_id now channel_id face tp artist)
  from face_updated(1) have "cd_shows db' = cd_shows db \<and> cd_dates db' = cd_dates db"
    unfolding update_channel_identity_def Let_def
    by (clarsimp simp: bindE_eq_Inr case_prod_beta write_catalog_event_def project_artist_def retire_slug_def Let_def
        split: option.split)
  with plain show ?thesis by (simp add: slugs_plain_def)
qed

lemma catalog_runs_plain:
  assumes "catalog_runs c origin empty_catalog db" and "catalog_laws c"
  shows "slugs_plain db"
  using assms(1)
proof (induction rule: rtranclp_induct)
  case base
  show ?case by (simp add: slugs_plain_def empty_catalog_def)
next
  case (step db db')
  from catalog_step_plain [OF step(2) assms(2) catalog_runs_ok(1) [OF step(1) assms(2)] step(3)] show ?case .
qed

section \<open>A run\<close>

text \<open>
  The steps of a run as commands to execute, and one run: a show and a venue, a date drafted,
  published, postponed, played live, and its replay put online, with the channel's face along the way.
\<close>

section \<open>Commands\<close>

datatype catalog_command =
    Do_Venue ident venue_to_create
  | Do_Show ident instant show_to_publish
  | Do_Edit ident show_changes instant
  | Do_Face ident instant ident update_identity_body
  | Do_Draft instant draft_date_command
  | Do_Move instant transition_publication_command
  | Do_Outcome instant declare_outcome_command
  | Do_Run instant ident run_fact
  | Do_File instant ident ident "replay_asset option"
  | Do_Check ident checklist_fact

fun exec_catalog :: "catalog_core \<Rightarrow> string \<Rightarrow> catalog_command \<Rightarrow> catalog_db \<Rightarrow> catalog_db catalog_result" where
  "exec_catalog c origin (Do_Venue i v) db = bindE (create_venue c i v db) (\<lambda>(_, db'). Inr db')"
| "exec_catalog c origin (Do_Show i now s) db =
     bindE (ensure (plain_segment i) (Catalog_Defect ''not a UUID'')) (\<lambda>_.
     bindE (publish_show c i now s None db) (\<lambda>(_, db'). Inr db'))"
| "exec_catalog c origin (Do_Edit i ch now) db = update_show i ch now None db"
| "exec_catalog c origin (Do_Face i now channel_id body) db =
     bindE (ensure (i \<notin> ar_id ` set (cd_artists db)) (Catalog_Defect ''not fresh'')) (\<lambda>_.
     bindE (update_channel_identity c i now channel_id body None db) (\<lambda>(_, db'). Inr db'))"
| "exec_catalog c origin (Do_Draft now cmd) db =
     bindE (ensure (plain_segment (dc_date_id cmd)) (Catalog_Defect ''not a UUID'')) (\<lambda>_.
     bindE (draft_date_in c origin now cmd db) (\<lambda>(_, db'). Inr db'))"
| "exec_catalog c origin (Do_Move now cmd) db = bindE (transition_publication_in c origin now cmd db) (\<lambda>(_, db'). Inr db')"
| "exec_catalog c origin (Do_Outcome now cmd) db = bindE (declare_outcome_in c origin now cmd db) (\<lambda>(_, db'). Inr db')"
| "exec_catalog c origin (Do_Run now m told) db = bindE (learn_run_fact c origin now m told None db) (\<lambda>(_, db'). Inr db')"
| "exec_catalog c origin (Do_File now m i ready) db =
     bindE (learn_replay_asset_fact now m i ready None db db) (\<lambda>(_, db'). Inr db')"
| "exec_catalog c origin (Do_Check m told) db = bindE (record_checklist_fact m told db) (\<lambda>(_, db'). Inr db')"

lemma exec_catalog_step: "exec_catalog c origin cmd db = Inr db' \<Longrightarrow> catalog_step c origin db db'"
  by (cases cmd) (auto simp: result_simps intro: catalog_step.intros)

lemma exec_catalog_runs:
  assumes "foldE (exec_catalog c origin) cmds db = Inr db'"
  shows "catalog_runs c origin db db'"
  using assms
proof (rule foldE_invariant [where P = "catalog_runs c origin db"])
  fix cmd x y assume "catalog_runs c origin db x" and "exec_catalog c origin cmd x = Inr y"
  then show "catalog_runs c origin db y" using exec_catalog_step by (metis rtranclp.rtrancl_into_rtrancl)
qed simp

section \<open>A run\<close>

definition sample_show :: show_to_publish where
  "sample_show = \<lparr>sp_channel_id = ''ch'', sp_artist_id = ''a0'', sp_category_id = ''dance'', sp_genre_ids = [],
     sp_tag_ids = [], sp_runtime_min = 90, sp_language_dependency = ''none'', sp_spoken_languages = [],
     sp_subtitle_languages = [], sp_surtitle_languages = [], sp_media = \<lparr>ms_wide = [], ms_poster = [''p'']\<rparr>,
     sp_title = \<lparr>bl_fr = ''le lac'', bl_en = []\<rparr>, sp_synopsis = \<lparr>bl_fr = ''un lac'', bl_en = []\<rparr>\<rparr>"

definition sample_venue :: venue_to_create where
  "sample_venue = \<lparr>vc_name = ''Opera'', vc_city = ''Paris'', vc_country = ''FR'', vc_time_zone = ''Europe/Paris''\<rparr>"

definition sample_face :: update_identity_body where
  "sample_face = \<lparr>ui_expected_version = 0, ui_public_name = Some ''the company'', ui_slug = None, ui_biography = None,
     ui_category_id = Some ''dance''\<rparr>"

definition sample_drafted :: draft_date_command where
  "sample_drafted = \<lparr>dc_channel_id = ''ch'', dc_date_id = ''d1'', dc_show_id = ''s1'', dc_venue_id = ''v1'',
     dc_starts_at = 100000000, dc_replay_policy = Policy_Included, dc_replay_window_hours = Some 72,
     dc_traceparent = None\<rparr>"

definition sample_check :: "checklist_item \<Rightarrow> checklist_fact" where
  "sample_check item = \<lparr>ck_date_id = ''d1'', ck_item = item, ck_satisfied = True, ck_occurred_at = 5\<rparr>"

definition sample_move :: "publication_state \<Rightarrow> int \<Rightarrow> publication_promise option \<Rightarrow> transition_publication_command" where
  "sample_move to v promise = \<lparr>tp_date_id = ''d1'', tp_to = to, tp_expected_version = v,
     tp_acknowledged_promise = promise, tp_traceparent = None\<rparr>"

definition sample_postponement :: declare_outcome_command where
  "sample_postponement = \<lparr>do_date_id = ''d1'', do_outcome = Outcome_Postponed, do_rescheduled_to = Some 300000000,
     do_message = \<lparr>om_content_language = ''fr'', om_text = ''m''\<rparr>, do_expected_version = 2, do_traceparent = None\<rparr>"

definition sample_publication :: "catalog_command list" where
  "sample_publication =
     [Do_Venue ''v1'' sample_venue, Do_Show ''s1'' 1 sample_show, Do_Draft 2 sample_drafted,
      Do_Check ''m1'' (sample_check Item_At_Least_One_Active_Price), Do_Check ''m2'' (sample_check Item_Capacity),
      Do_Move 10 (sample_move Pub_Scheduled 1 (Some Promise_Prices_Engaged)), Do_Face ''a1'' 11 ''ch'' sample_face]"

definition sample_live :: "catalog_command list" where
  "sample_live =
     [Do_Outcome 20 sample_postponement, Do_Move 30 (sample_move Pub_Technical 3 None),
      Do_Run 40 ''m3'' \<lparr>rf_run_date_id = ''d1'', rf_run_ended_at = None\<rparr>,
      Do_Run 50 ''m4'' \<lparr>rf_run_date_id = ''d1'', rf_run_ended_at = Some 49\<rparr>,
      Do_File 60 ''m5'' ''d1'' (Some \<lparr>as_duration_sec = 5400, as_available_from = 59, as_expires_at = None\<rparr>),
      Do_Move 70 (sample_move Pub_Replay_Online 6 (Some Promise_Replay_Sold))]"

definition sample_origin :: string where
  "sample_origin = ''https://a''"

definition sample_display_core :: display_core where
  "sample_display_core = \<lparr>public_display_state_of = (\<lambda>i. (Display_Scheduled, None)),
     room_opens_at = (\<lambda>t. dt_starts_at t - dt_room_opens_before_min t * 60000),
     is_fully_over = (\<lambda>t now. dt_starts_at t + dt_runtime_min t * 60000 < now),
     url_parse = (\<lambda>url. if take (length sample_origin) url = sample_origin
       then Some (sample_origin, drop (length sample_origin) url) else None)\<rparr>"

lemma sample_url_parse: "url_parse sample_display_core (sample_origin @ p) = Some (sample_origin, p)"
  by (simp add: sample_display_core_def)

lemma sample_published:
  obtains db r where "foldE (exec_catalog sample_catalog_core sample_origin) sample_publication empty_catalog = Inr db"
    and "cd_public db = [r]" and "pu_date_id r = ''d1''" and "pu_show_slug r = ''le-lac''" and "pu_slug r = ''2026-01-02''"
    and "pu_artist_name r = Some ''the company''"
proof -
  have "case foldE (exec_catalog sample_catalog_core sample_origin) sample_publication empty_catalog of
      Inl _ \<Rightarrow> False
    | Inr db \<Rightarrow> (case cd_public db of [r] \<Rightarrow> pu_date_id r = ''d1'' \<and> pu_show_slug r = ''le-lac'' \<and>
        pu_slug r = ''2026-01-02'' \<and> pu_artist_name r = Some ''the company'' | _ \<Rightarrow> False)"
    by code_simp
  then show thesis by (elim case_InrE) (auto split: list.splits intro: that)
qed

lemma sample_replayed:
  obtains db r g where "foldE (exec_catalog sample_catalog_core sample_origin) (sample_publication @ sample_live) empty_catalog =
      Inr db" and "cd_replays db = [r]" and "rp_date_id r = ''d1''" and "rp_online_at r = Some 70"
    and "cd_public db = [g]" and "pu_date_id g = ''d1''"
proof -
  have "case foldE (exec_catalog sample_catalog_core sample_origin) (sample_publication @ sample_live) empty_catalog of
      Inl _ \<Rightarrow> False
    | Inr db \<Rightarrow> (case (cd_replays db, cd_public db) of ([r], [g]) \<Rightarrow> rp_date_id r = ''d1'' \<and> rp_online_at r = Some 70 \<and>
        pu_date_id g = ''d1'' | _ \<Rightarrow> False)"
    by code_simp
  then show thesis by (elim case_InrE) (auto split: list.splits intro: that)
qed

end
