(* ===== verification/Catalog_Pages.thy ===== *)
theory Catalog_Pages
  imports Catalog_Runs
begin

text \<open>
  The properties of catalog's public side over its runs: the pages say what the aggregates and the
  copied tables say, a replay follows its live, and the links lead to the pages.
\<close>

section \<open>Pages\<close>

text \<open>What a date's page is made of, read in the tables of the aggregates.\<close>

definition page_expected :: "catalog_db \<Rightarrow> ident \<Rightarrow> date_page option" where
  "page_expected db i =
     Option.bind (date_at db i) (\<lambda>d. Option.bind (publication_at db i) (\<lambda>p. page_of d p (replay_at db i)))"

lemma page_at_expected:
  assumes "catalog_ok db"
  shows "page_at db i = page_expected db i"
proof -
  have "coherent (date_at db i) (publication_at db i) (replay_at db i) (page_at db i)"
    using assms by (simp add: catalog_ok_def)
  then show ?thesis
    by (cases "date_at db i"; cases "publication_at db i") (simp_all add: page_expected_def)
qed

text \<open>
  Property C8. The public projection is never stale: whatever the studio, the consumers and the updates
  of shows, venues and faces commit, and in whatever order, a date has a public row exactly when it
  holds a slug, the row says what its date, its publication and its replay say, and it copies what its
  show, its venue and the face of its channel say.
\<close>

theorem public_page_current:
  assumes "catalog_laws c" and "catalog_runs c origin empty_catalog db"
  shows "page_at db i = page_expected db i \<and>
    list_all (\<lambda>r. masters_of (pu_show_id r) (pu_venue_id r) (pu_channel_id r) db = Some (copies_shown r)) (cd_public db)"
  using catalog_runs_ok [OF assms(2,1)] page_at_expected
  by (simp add: copies_ok_def row_copied_def [abs_def])

theorem public_page_current_witness:
  "\<exists>db r. catalog_runs sample_catalog_core sample_origin empty_catalog db \<and> cd_public db = [r] \<and>
     pu_slug r = ''2026-01-02'' \<and> page_at db ''d1'' = page_expected db ''d1'' \<and>
     masters_of (pu_show_id r) (pu_venue_id r) (pu_channel_id r) db = Some (copies_shown r)"
proof -
  obtain db r where run: "foldE (exec_catalog sample_catalog_core sample_origin) sample_publication empty_catalog = Inr db"
    and r: "cd_public db = [r]" "pu_slug r = ''2026-01-02''" by (rule sample_published)
  note runs = exec_catalog_runs [OF run]
  from public_page_current [OF sample_catalog_laws runs, of "''d1''"] r runs show ?thesis by auto
qed

text \<open>
  Property C26. A replay follows its live: in every state, a replay exists only on a date whose live
  ended, it is consistent, and its publication went online exactly when it did.
\<close>

theorem replay_follows_live:
  assumes "catalog_laws c" and "catalog_runs c origin empty_catalog db" and "replay_at db i = Some r"
  shows "replay_wf r \<and> (\<exists>d p. date_at db i = Some d \<and> publication_at db i = Some p \<and>
    pb_state p \<in> {Pub_Ended, Pub_Replay_Online} \<and> pb_replay_online_at p = rp_online_at r \<and>
    (pb_state p = Pub_Replay_Online \<longleftrightarrow> rp_online_at r \<noteq> None))"
proof -
  have "coherent (date_at db i) (publication_at db i) (Some r) (page_at db i)"
    using catalog_runs_ok(1) [OF assms(2,1)] assms(3) by (metis catalog_ok_def)
  then obtain d p where at: "date_at db i = Some d" "publication_at db i = Some p"
    and wf: "date_wf \<lparr>of_date = d, of_publication = p\<rparr>" "replay_follows p (Some r)"
    by (cases "date_at db i"; cases "publication_at db i") auto
  with date_wf_replay_online [OF wf(1)] show ?thesis by (simp add: replay_follows_def)
qed

theorem replay_follows_live_witness:
  "\<exists>db r p. catalog_runs sample_catalog_core sample_origin empty_catalog db \<and> replay_at db ''d1'' = Some r \<and>
     replay_wf r \<and> publication_at db ''d1'' = Some p \<and> pb_state p = Pub_Replay_Online \<and> rp_online_at r = Some 70"
proof -
  obtain db r where run: "foldE (exec_catalog sample_catalog_core sample_origin) (sample_publication @ sample_live)
      empty_catalog = Inr db"
    and r: "cd_replays db = [r]" "rp_date_id r = ''d1''" "rp_online_at r = Some 70" by (rule sample_replayed)
  note runs = exec_catalog_runs [OF run]
  have "replay_at db ''d1'' = Some r" using r by simp
  from replay_follows_live [OF sample_catalog_laws runs this] this runs r show ?thesis by auto
qed

section \<open>Links\<close>

definition path_of :: "string list \<Rightarrow> string" where
  "path_of segments = concat (map (\<lambda>s. CHR ''/'' # s) segments)"

text \<open>\<open>URL.parse\<close> leaves an origin and a path of plain segments as they are.\<close>

definition url_laws :: "display_core \<Rightarrow> string \<Rightarrow> bool" where
  "url_laws k origin \<longleftrightarrow>
     (\<forall>ss. list_all plain_segment ss \<longrightarrow> url_parse k (origin @ path_of ss) = Some (origin, path_of ss))"

lemma split_slash_prefix:
  "CHR ''/'' \<notin> set s \<Longrightarrow> split_slash t = u # us \<Longrightarrow> split_slash (s @ t) = (s @ u) # us"
  by (induction s) auto

lemma plain_no_slash: "plain_segment s \<Longrightarrow> CHR ''/'' \<notin> set s"
proof -
  have "\<not> slug_text (CHR ''/'')" by code_simp
  then show "plain_segment s \<Longrightarrow> CHR ''/'' \<notin> set s" by (auto simp: plain_segment_def list_all_iff)
qed

lemma split_slash_path: "list_all plain_segment ss \<Longrightarrow> split_slash (path_of ss) = [] # ss"
proof (induction ss)
  case (Cons s ss)
  then have "split_slash (s @ path_of ss) = s # ss"
    using split_slash_prefix [OF plain_no_slash] by simp
  then show ?case by (simp add: path_of_def)
qed (simp add: path_of_def)

lemma public_link_of_date_url:
  assumes "url_laws k origin" and "plain_segment s" and "plain_segment t"
  shows "public_link_of k origin (date_url origin s t) = Some (To_Date s t)"
proof -
  have segs: "list_all plain_segment [''show'', s, ''date'', t]"
  proof -
    have "plain_segment ''show''" "plain_segment ''date''" by code_simp+
    with assms(2,3) show ?thesis by simp
  qed
  have url: "date_url origin s t = origin @ path_of [''show'', s, ''date'', t]"
    by (simp add: date_url_def show_url_def path_of_def)
  have "url_parse k (date_url origin s t) = Some (origin, path_of [''show'', s, ''date'', t])"
    unfolding url using assms(1) segs by (simp add: url_laws_def)
  with split_slash_path [OF segs] assms(2,3) show ?thesis by (simp add: public_link_of_def plain_segment_def)
qed

text \<open>What a public row's link reads, in tables whose indexes hold.\<close>

lemma row_show_id:
  assumes "copies_ok db" and "r \<in> set (cd_public db)"
  shows "show_id_of (pu_show_slug r) now db = Some (pu_show_id r)"
    and "\<exists>s \<in> set (cd_shows db). sw_slug s = pu_show_slug r"
proof -
  have "row_copied db r" using assms by (simp add: copies_ok_def list_all_iff)
  then obtain s where "tbl_find sw_id (pu_show_id r) (cd_shows db) = Some s" and slug: "sw_slug s = pu_show_slug r"
    by (auto simp: row_copied_def masters_of_def copies_of_def copies_shown_def split: option.splits)
  then have s: "s \<in> set (cd_shows db)" "sw_id s = pu_show_id r" by (auto dest: tbl_find_SomeD)
  have "distinct (map sw_slug (cd_shows db))" using assms(1) by (simp add: copies_ok_def catalog_keys_def)
  from tbl_find_unique [OF this s(1)] s slug show "show_id_of (pu_show_slug r) now db = Some (pu_show_id r)"
    by (simp add: show_id_of_def)
  from s slug show "\<exists>s \<in> set (cd_shows db). sw_slug s = pu_show_slug r" by blast
qed

lemma find_unique_row:
  assumes "distinct (map key t)" and "r \<in> set t" and "\<And>q. p q \<longleftrightarrow> key q = key r"
  shows "find p t = Some r"
  using assms by (induction t) (auto simp: rev_image_eqI)

lemma live_row:
  assumes "copies_ok db" and "r \<in> set (cd_public db)"
  shows "date_row_of (pu_show_slug r) (pu_slug r) now db = Some r"
proof -
  have "distinct (map (\<lambda>r. (pu_show_id r, pu_slug r)) (cd_public db))"
    using assms(1) by (simp add: copies_ok_def catalog_keys_def public_slugs_unique_def)
  from find_unique_row [OF this assms(2), of "\<lambda>q. pu_show_id q = pu_show_id r \<and> pu_slug q = pu_slug r"]
  show ?thesis by (simp add: date_row_of_def row_show_id(1) [OF assms])
qed

lemma row_page:
  assumes "copies_ok db" and "r \<in> set (cd_public db)"
  shows "tbl_find pu_date_id (pu_date_id r) (cd_public db) = Some r" and "page_at db (pu_date_id r) = Some (page_shown r)"
proof -
  have "distinct (map pu_date_id (cd_public db))" using assms(1) by (simp add: copies_ok_def catalog_keys_def)
  from tbl_find_unique [OF this assms(2)] show "tbl_find pu_date_id (pu_date_id r) (cd_public db) = Some r" .
  then show "page_at db (pu_date_id r) = Some (page_shown r)" by (simp add: page_at_def)
qed

lemma page_of_slug: "page_of d p r = Some g \<Longrightarrow> pd_slug d = Some (pg_slug g) \<and> pd_show_id d = pg_show_id g"
  by (auto simp: page_of_def)

lemma row_plain:
  assumes "catalog_ok db" and "copies_ok db" and "slugs_plain db" and r: "r \<in> set (cd_public db)"
  shows "plain_segment (pu_show_slug r)" and "plain_segment (pu_slug r)"
proof -
  show "plain_segment (pu_show_slug r)"
    using row_show_id(2) [OF assms(2) r] assms(3) by (auto simp: slugs_plain_def list_all_iff)
  have "page_expected db (pu_date_id r) = Some (page_shown r)"
    using row_page(2) [OF assms(2) r] page_at_expected [OF assms(1)] by simp
  then obtain d p where "date_at db (pu_date_id r) = Some d" "page_of d p (replay_at db (pu_date_id r)) = Some (page_shown r)"
    by (auto simp: page_expected_def bind_eq_Some_conv)
  moreover from this have "pd_slug d = Some (pu_slug r)" by (auto dest!: page_of_slug simp: page_shown_def)
  moreover have "case date_at db (pu_date_id r) of None \<Rightarrow> True | Some d \<Rightarrow> plain_date d"
    using assms(3) by (simp add: slugs_plain_def)
  ultimately show "plain_segment (pu_slug r)" by (simp add: plain_date_def)
qed

definition link_query :: "string \<Rightarrow> resolve_query" where
  "link_query url = \<lparr>rq_url = Some url, rq_kind = None, rq_slug = None\<rparr>"

lemma resolve_date_url:
  assumes "url_laws k origin" and "plain_segment s" and "plain_segment t" and "date_row_of s t now db = Some r"
  shows "resolve_public_link c k origin now (link_query (date_url origin s t)) db =
    (let shown = date_card_of c k (public_date_of_row r origin) now
     in Inr (Resolved_Date (pu_date_id r) (date_url origin (pu_show_slug r) (pu_slug r)) shown,
          dk_display_state_valid_until shown))"
  using public_link_of_date_url [OF assms(1-3)] assms(4)
  by (simp add: resolve_public_link_def link_of_def link_query_def resolve_date_def Let_def date_card_of_def
      public_date_of_row_def)

text \<open>
  Property C23. Every canonical URL leads back to its page: in every state catalog reaches, the URL a
  public date's card carries resolves to that date, under the same URL and with its card.
\<close>

theorem canonical_url_resolves:
  assumes "catalog_laws c" and "url_laws k origin" and "catalog_runs c origin empty_catalog db"
    and "r \<in> set (cd_public db)"
  shows "resolve_public_link c k origin now
      (link_query (dk_canonical_url (date_card_of c k (public_date_of_row r origin) now))) db =
    (let shown = date_card_of c k (public_date_of_row r origin) now
     in Inr (Resolved_Date (pu_date_id r) (dk_canonical_url shown) shown, dk_display_state_valid_until shown))"
proof -
  note ok = catalog_runs_ok [OF assms(3,1)]
  note plain = row_plain [OF ok catalog_runs_plain [OF assms(3,1)] assms(4)]
  have "dk_canonical_url (date_card_of c k (public_date_of_row r origin) now) =
      date_url origin (pu_show_slug r) (pu_slug r)"
    by (simp add: date_card_of_def public_date_of_row_def Let_def)
  with resolve_date_url [OF assms(2) plain live_row [OF ok(2) assms(4)]] show ?thesis by (simp add: Let_def)
qed

lemma sample_url_laws: "url_laws sample_display_core sample_origin"
  by (simp add: url_laws_def sample_url_parse)

theorem canonical_url_resolves_witness:
  "\<exists>db r. catalog_runs sample_catalog_core sample_origin empty_catalog db \<and> cd_public db = [r] \<and>
     pu_show_slug r = ''le-lac'' \<and> pu_slug r = ''2026-01-02'' \<and>
     (\<exists>shown valid. resolve_public_link sample_catalog_core sample_display_core sample_origin 100
       (link_query (dk_canonical_url (date_card_of sample_catalog_core sample_display_core
         (public_date_of_row r sample_origin) 100))) db = Inr (Resolved_Date ''d1'' (dk_canonical_url shown) shown, valid))"
proof -
  obtain db r where run: "foldE (exec_catalog sample_catalog_core sample_origin) sample_publication empty_catalog = Inr db"
    and r: "cd_public db = [r]" "pu_date_id r = ''d1''" "pu_show_slug r = ''le-lac''" "pu_slug r = ''2026-01-02''"
    by (rule sample_published)
  note runs = exec_catalog_runs [OF run]
  have "r \<in> set (cd_public db)" using r by simp
  from canonical_url_resolves [OF sample_catalog_laws sample_url_laws runs this, of 100] r runs show ?thesis
    by (auto simp: Let_def)
qed

section \<open>Links a postponement replaced\<close>

lemma alias_of_retired:
  assumes "t < now + slug_redirect_days c * 86400000" and "cd_aliases db' = cd_aliases (retire_slug c kind scope slug target now db)"
  shows "alias_target_of kind scope slug t db' = Some target"
proof -
  let ?row = "\<lparr>al_kind = kind, al_scope = scope, al_slug = slug, al_target_id = target,
    al_expires_at = now + slug_redirect_days c * 86400000\<rparr>"
  let ?key = "\<lambda>r. al_kind r = kind \<and> al_scope r = scope \<and> al_slug r = slug"
  have "find (\<lambda>r. al_kind r = kind \<and> al_scope r = scope \<and> al_slug r = slug \<and> t < al_expires_at r)
      (if list_ex ?key xs then tbl_update ?key (\<lambda>_. ?row) xs else xs @ [?row]) = Some ?row" for xs
    using assms(1) by (induction xs) auto
  then show ?thesis by (simp add: alias_target_of_def assms(2) retire_slug_def Let_def)
qed

lemma commit_date_aliases:
  assumes "commit_date c x t replay db = Inr db'"
  obtains db2 es where "cd_aliases db2 = cd_aliases db"
    and "cd_aliases db' = cd_aliases (retire_slugs_moved_from c (keyed_events (uncommitted (root t)) es) db2)"
proof -
  obtain t' db1 es db2 where saved: "save_date t db = Inr (t', db1)"
    and moved: "(case replay of None \<Rightarrow> Inr ([], db1)
       | Some r \<Rightarrow> bindE (save_replay r db1) (\<lambda>(r', db2). Inr (uncommitted (root r'), db2))) = Inr (es, db2)"
    and rec: "record_date_events c x (keyed_events (uncommitted (root t')) es) db2 = Inr db'"
    using assms by (auto simp: commit_date_def result_simps)
  have "cd_aliases db1 = cd_aliases db" and t': "root t' = root t"
    using saved by (auto simp: save_date_def Let_def result_simps split: option.splits if_splits)
  moreover have "cd_aliases db2 = cd_aliases db1"
    using moved by (auto simp: save_replay_def Let_def result_simps split: option.splits)
  moreover have "cd_aliases db' = cd_aliases (retire_slugs_moved_from c (keyed_events (uncommitted (root t')) es) db2)"
    using rec by (auto simp: record_date_events_def project_date_events_def insert_public_date_def update_public_date_def
        write_date_integration_events_def Let_def result_simps split: list.splits if_splits)
  ultimately show thesis by (intro that [of db2 es]) simp_all
qed

lemma replay_events_retire: "fold (retire_moved_slug c) (map Replay_Event es) db = db"
  by (induction es) simp_all

lemma outcome_retires:
  assumes run: "declare_outcome c v decl m slug now (restore s) = Inr a"
    and commit: "commit_date c x (with_root a (loaded (restore s) w)) replay db = Inr db'"
    and "pd_slug (of_date s) = Some old" and "pd_slug (of_date (current a)) \<noteq> Some old"
    and t: "t < now + slug_redirect_days c * 86400000"
  shows "alias_target_of Link_Date (pd_show_id (of_date s)) old t db' = Some (pd_id (of_date s))"
proof -
  obtain db2 es where al: "cd_aliases db' = cd_aliases (retire_slugs_moved_from c (keyed_events (uncommitted a) es) db2)"
    using commit by (rule commit_date_aliases) simp
  have "cd_aliases db' = cd_aliases (retire_slug c Link_Date (pd_show_id (of_date s)) old (pd_id (of_date s)) now db2)"
    using run
  proof (rule declare_outcome_Inr)
    fix previous slug'
    assume previous: "pd_slug (of_date (current (restore s))) = Some previous"
      and slug': "slug' = (if od_rescheduled_to decl = None then previous else slug')"
      and cur: "current a = \<lparr>of_date = (of_date (current (restore s)))\<lparr>pd_outcome := Some (od_outcome decl),
        pd_rescheduled_to := od_rescheduled_to decl, pd_outcome_declared_at := Some now, pd_outcome_message := Some m,
        pd_starts_at := (case od_rescheduled_to decl of None \<Rightarrow> pd_starts_at (of_date (current (restore s))) | Some t \<Rightarrow> t),
        pd_slug := Some slug', pd_postponements := pd_postponements (of_date (current (restore s))) +
          (if od_rescheduled_to decl = None then 0 else 1)\<rparr>,
        of_publication = (of_publication (current (restore s)))\<lparr>pb_version := pb_version (of_publication (current (restore s))) + 1\<rparr>\<rparr>"
      and es': "uncommitted a = uncommitted (restore s) @ DateOutcomeDeclared (pd_id (of_date (current (restore s))))
        (pd_channel_id (of_date (current (restore s)))) (od_outcome decl) m (od_rescheduled_to decl) now #
        (case od_rescheduled_to decl of None \<Rightarrow> [] | Some t \<Rightarrow> [DateRescheduled (pd_id (of_date (current (restore s))))
          (pd_show_id (of_date (current (restore s)))) (pd_starts_at (of_date (current (restore s)))) t previous slug' now])"
    have "previous = old" "slug' \<noteq> old" using previous assms(3,4) cur by simp_all
    moreover from this obtain t' where "od_rescheduled_to decl = Some t'" using slug' by (cases "od_rescheduled_to decl") auto
    ultimately show ?thesis
      by (simp add: al es' keyed_events_def retire_slugs_moved_from_def replay_events_retire)
  qed
  then show ?thesis by (rule alias_of_retired [OF t])
qed

text \<open>The page of another date did not move, and the page of this one left its slug: nothing holds it.\<close>

lemma no_live_row:
  assumes ok: "copies_ok db" "copies_ok db'" and r: "r \<in> set (cd_public db)" "pu_date_id r = i"
    and others: "\<And>j. j \<noteq> i \<Longrightarrow> page_at db' j = page_at db j"
    and moved: "\<And>q. q \<in> set (cd_public db') \<Longrightarrow> pu_date_id q = i \<Longrightarrow> pu_slug q \<noteq> pu_slug r"
  shows "find (\<lambda>q. pu_show_id q = pu_show_id r \<and> pu_slug q = pu_slug r) (cd_public db') = None"
proof (rule ccontr)
  assume "find (\<lambda>q. pu_show_id q = pu_show_id r \<and> pu_slug q = pu_slug r) (cd_public db') \<noteq> None"
  then obtain q where q: "q \<in> set (cd_public db')" "pu_show_id q = pu_show_id r" "pu_slug q = pu_slug r"
    unfolding find_None_iff by blast
  then have other: "pu_date_id q \<noteq> i" using moved by blast
  then have "page_at db (pu_date_id q) = Some (page_shown q)" using others row_page(2) [OF ok(2) q(1)] by simp
  then obtain q' where q': "tbl_find pu_date_id (pu_date_id q) (cd_public db) = Some q'" "page_shown q' = page_shown q"
    by (auto simp: page_at_def)
  then have "q' \<in> set (cd_public db)" "pu_date_id q' = pu_date_id q" by (auto dest: tbl_find_SomeD)
  moreover have "pu_show_id q' = pu_show_id r" "pu_slug q' = pu_slug r" using q'(2) q by (simp_all add: page_shown_def)
  moreover have "inj_on (\<lambda>r. (pu_show_id r, pu_slug r)) (set (cd_public db))"
    using ok(1) by (simp add: copies_ok_def catalog_keys_def public_slugs_unique_def distinct_map)
  ultimately have "q' = r" using r(1) by (metis (mono_tags, lifting) inj_onD)
  with \<open>pu_date_id q' = pu_date_id q\<close> r(2) other show False by simp
qed



end
