(* ===== verification/Catalog_Facts.thy ===== *)
theory Catalog_Facts
  imports Catalog_Dates
begin

text \<open>
  The checklist catalog projects from ticketing's, streaming's and chat's facts
  (\<open>dates/record-checklist-fact.handler.ts\<close>): delivered at least once and in any order, the facts leave
  the same checklist.
\<close>

section \<open>Deliveries\<close>

definition deliver_checklist :: "(ident \<times> checklist_fact) list \<Rightarrow> catalog_db \<Rightarrow> catalog_db catalog_result" where
  "deliver_checklist messages =
     foldE (\<lambda>(m, f) db. bindE (record_checklist_fact m f db) (\<lambda>(_, db'). Inr db')) messages"

definition fact_of_row :: "checklist_fact_row \<Rightarrow> checklist_fact" where
  "fact_of_row r = \<lparr>ck_date_id = cf_date_id r, ck_item = cf_item r, ck_satisfied = cf_satisfied r,
     ck_occurred_at = cf_occurred_at r\<rparr>"

definition row_of_fact :: "checklist_fact \<Rightarrow> checklist_fact_row" where
  "row_of_fact f = \<lparr>cf_date_id = ck_date_id f, cf_item = ck_item f, cf_satisfied = ck_satisfied f,
     cf_occurred_at = ck_occurred_at f\<rparr>"

lemma row_of_fact_of_row [simp]: "row_of_fact (fact_of_row r) = r" "fact_of_row (row_of_fact f) = f"
  by (simp_all add: row_of_fact_def fact_of_row_def)

abbreviation fact_key :: "checklist_fact \<Rightarrow> ident \<times> checklist_item" where
  "fact_key f \<equiv> (ck_date_id f, ck_item f)"

abbreviation row_key :: "checklist_fact_row \<Rightarrow> ident \<times> checklist_item" where
  "row_key r \<equiv> (cf_date_id r, cf_item r)"

lemma row_key_fact: "row_key r = fact_key (fact_of_row r)"
  by (simp add: fact_of_row_def)

text \<open>No two facts on one item of a date at one instant: the one arriving last would win.\<close>

definition no_ties :: "checklist_fact set \<Rightarrow> bool" where
  "no_ties F \<longleftrightarrow> (\<forall>f \<in> F. \<forall>g \<in> F. fact_key f = fact_key g \<and> ck_occurred_at f = ck_occurred_at g \<longrightarrow> f = g)"

text \<open>The rows are the newest of the facts known, one per item of a date.\<close>

definition newest_of :: "checklist_fact set \<Rightarrow> checklist_fact_row list \<Rightarrow> bool" where
  "newest_of F t \<longleftrightarrow> distinct (map row_key t) \<and>
     (\<forall>r \<in> set t. fact_of_row r \<in> F \<and> (\<forall>g \<in> F. fact_key g = row_key r \<longrightarrow> ck_occurred_at g \<le> cf_occurred_at r)) \<and>
     (\<forall>g \<in> F. fact_key g \<in> row_key ` set t)"

lemma newest_of_unique:
  assumes "newest_of F t" and "newest_of F t'" and "no_ties F"
  shows "set t \<subseteq> set t'"
proof
  fix r assume r: "r \<in> set t"
  then have f: "fact_of_row r \<in> F" using assms(1) by (simp add: newest_of_def)
  then obtain r' where r': "r' \<in> set t'" "row_key r' = row_key r"
    using assms(2) by (fastforce simp: newest_of_def fact_of_row_def)
  then have f': "fact_of_row r' \<in> F" using assms(2) by (simp add: newest_of_def)
  have max: "\<And>g. g \<in> F \<Longrightarrow> fact_key g = row_key r \<Longrightarrow> ck_occurred_at g \<le> cf_occurred_at r"
    "\<And>g. g \<in> F \<Longrightarrow> fact_key g = row_key r' \<Longrightarrow> ck_occurred_at g \<le> cf_occurred_at r'"
    using assms(1,2) r r'(1) unfolding newest_of_def by blast+
  have "cf_occurred_at r' \<le> cf_occurred_at r" "cf_occurred_at r \<le> cf_occurred_at r'"
    using max(1) [OF f'] max(2) [OF f] r'(2) by (simp_all add: fact_of_row_def)
  then have "ck_occurred_at (fact_of_row r') = ck_occurred_at (fact_of_row r)" by (simp add: fact_of_row_def)
  moreover have "fact_key (fact_of_row r') = fact_key (fact_of_row r)" using r'(2) by (simp add: fact_of_row_def)
  ultimately have "fact_of_row r' = fact_of_row r" using assms(3) f f' unfolding no_ties_def by blast
  then show "r \<in> set t'" using r'(1) by (metis row_of_fact_of_row(1))
qed

lemma upsert_newest:
  assumes "newest_of F t"
  shows "newest_of (insert f F) (snd (upsert_checklist_fact f t))"
proof -
  let ?key = "\<lambda>r. cf_date_id r = ck_date_id f \<and> cf_item r = ck_item f"
  have distinct: "distinct (map row_key t)"
    and in_F: "\<And>r. r \<in> set t \<Longrightarrow> fact_of_row r \<in> F"
    and newest: "\<And>r g. r \<in> set t \<Longrightarrow> g \<in> F \<Longrightarrow> fact_key g = row_key r \<Longrightarrow> ck_occurred_at g \<le> cf_occurred_at r"
    and known: "\<And>g. g \<in> F \<Longrightarrow> fact_key g \<in> row_key ` set t"
    using assms unfolding newest_of_def by blast+
  show ?thesis
  proof (cases "find ?key t")
    case None
    then have fresh: "fact_key f \<notin> row_key ` set t" unfolding find_None_iff by auto
    then have "\<And>g. g \<in> F \<Longrightarrow> fact_key g \<noteq> fact_key f" using known by metis
    moreover have "snd (upsert_checklist_fact f t) = t @ [row_of_fact f]"
      using None by (simp add: upsert_checklist_fact_def Let_def row_of_fact_def)
    ultimately show ?thesis
      using distinct in_F newest known fresh unfolding newest_of_def
      by (auto simp: row_of_fact_def fact_of_row_def image_iff)
  next
    case (Some r0)
    then have r0: "r0 \<in> set t" "row_key r0 = fact_key f" unfolding find_Some_iff by auto
    have same: "r = r0" if "r \<in> set t" "row_key r = fact_key f" for r
      using distinct that r0 by (metis (mono_tags, lifting) distinct_map inj_onD)
    show ?thesis
    proof (cases "cf_occurred_at r0 \<le> ck_occurred_at f")
      case True
      let ?t = "tbl_update ?key (\<lambda>_. row_of_fact f) t"
      have t: "snd (upsert_checklist_fact f t) = ?t"
        using Some True by (simp add: upsert_checklist_fact_def Let_def row_of_fact_def)
      have keys: "map row_key ?t = map row_key t" by (rule map_tbl_update_same) (simp add: row_of_fact_def)
      have rows: "r \<in> set ?t \<Longrightarrow> r = row_of_fact f \<or> r \<in> set t \<and> row_key r \<noteq> fact_key f" for r
        by (auto simp: table_simps)
      have rest: "fact_of_row r \<in> insert f F \<and>
          (\<forall>g \<in> insert f F. fact_key g = row_key r \<longrightarrow> ck_occurred_at g \<le> cf_occurred_at r)" if "r \<in> set ?t" for r
        using rows [OF that]
      proof
        assume r: "r = row_of_fact f"
        have "ck_occurred_at g \<le> ck_occurred_at f" if "g \<in> F" "fact_key g = fact_key f" for g
          using newest [OF r0(1) that(1)] that(2) r0(2) True by simp
        with r show ?thesis by (auto simp: row_of_fact_def fact_of_row_def)
      qed (use in_F newest in auto)
      have "row_key ` set ?t = row_key ` set t" using arg_cong [where f = set, OF keys] by (simp only: set_map)
      moreover have "fact_key f \<in> row_key ` set t" unfolding r0(2) [symmetric] by (rule imageI) (fact r0(1))
      ultimately have "fact_key g \<in> row_key ` set ?t" if "g \<in> insert f F" for g
        using that known by blast
      moreover have "distinct (map row_key ?t)" unfolding keys by (fact distinct)
      moreover note rest
      ultimately show ?thesis unfolding t newest_of_def by blast
    next
      case False
      then have "snd (upsert_checklist_fact f t) = t" using Some by (simp add: upsert_checklist_fact_def Let_def)
      moreover have "ck_occurred_at f \<le> cf_occurred_at r" if "r \<in> set t" "fact_key f = row_key r" for r
        using same [of r] that False by simp
      moreover have "fact_key f \<in> row_key ` set t" unfolding r0(2) [symmetric] by (rule imageI) (fact r0(1))
      ultimately show ?thesis
        using distinct in_F newest known unfolding newest_of_def by auto
    qed
  qed
qed

text \<open>One message: applied unless it was, in which case it is one of those delivered.\<close>

lemma record_checklist_fact_newest:
  assumes run: "record_checklist_fact m f db = Inr (v, db')" and newest: "newest_of (B \<union> snd ` M) (cd_checklist db)"
    and processed: "set (cd_processed db) = P \<union> fst ` M" and new: "m \<notin> P"
    and one: "\<And>f'. (m, f') \<in> M \<Longrightarrow> f' = f"
  shows "newest_of (B \<union> snd ` insert (m, f) M) (cd_checklist db')"
    and "set (cd_processed db') = P \<union> fst ` insert (m, f) M"
proof -
  have "newest_of (B \<union> snd ` insert (m, f) M) (cd_checklist db') \<and> set (cd_processed db') = P \<union> fst ` insert (m, f) M"
  proof (cases "m \<in> set (cd_processed db)")
    case True
    then have "m \<in> fst ` M" using processed new by blast
    then have "(m, f) \<in> M" using one by force
    then have "insert (m, f) M = M" by blast
    moreover have "db' = db" using run True by (simp add: record_checklist_fact_def claim_catalog_message_def)
    ultimately show ?thesis using newest processed by simp
  next
    case False
    then have db': "cd_checklist db' = snd (upsert_checklist_fact f (cd_checklist db))"
      "cd_processed db' = cd_processed db @ [m]"
      using run by (auto simp: record_checklist_fact_def claim_catalog_message_def split: if_splits prod.splits)
    have "B \<union> snd ` insert (m, f) M = insert f (B \<union> snd ` M)" by auto
    with upsert_newest [OF newest, of f] processed show ?thesis by (simp add: db')
  qed
  then show "newest_of (B \<union> snd ` insert (m, f) M) (cd_checklist db')"
    "set (cd_processed db') = P \<union> fst ` insert (m, f) M" by blast+
qed

lemma deliver_checklist_newest:
  assumes "deliver_checklist ms db = Inr db'" and "newest_of (B \<union> snd ` M) (cd_checklist db)"
    and "set (cd_processed db) = P \<union> fst ` M" and "fst ` set ms \<inter> P = {}"
    and "inj_on fst (M \<union> set ms)"
  shows "newest_of (B \<union> snd ` (M \<union> set ms)) (cd_checklist db')"
  using assms
proof (induction ms arbitrary: db M)
  case Nil
  then show ?case by (simp add: deliver_checklist_def)
next
  case (Cons mf ms)
  obtain m f where mf: "mf = (m, f)" by fastforce
  obtain v db1 where one: "record_checklist_fact m f db = Inr (v, db1)" and rest: "deliver_checklist ms db1 = Inr db'"
    using Cons.prems(1) by (auto simp: deliver_checklist_def mf result_simps)
  have "f' = f" if "(m, f') \<in> M" for f'
    using inj_onD [OF Cons.prems(5), of "(m, f')" "(m, f)"] that by (simp add: mf)
  moreover have "m \<notin> P" using Cons.prems(4) by (auto simp: mf)
  ultimately have "newest_of (B \<union> snd ` insert (m, f) M) (cd_checklist db1)"
    "set (cd_processed db1) = P \<union> fst ` insert (m, f) M"
    using record_checklist_fact_newest [OF one Cons.prems(2,3)] by blast+
  from Cons.IH [OF rest this] Cons.prems(4,5) show ?case by (simp add: mf)
qed

text \<open>The satisfied items do not depend on the order of the rows.\<close>

lemma satisfied_items_set:
  "set t = set t' \<Longrightarrow> set (satisfied_checklist_items s (filter p t)) = set (satisfied_checklist_items s (filter p t'))"
  by (auto simp: satisfied_checklist_items_def)


definition sample_fact :: "bool \<Rightarrow> instant \<Rightarrow> checklist_fact" where
  "sample_fact satisfied at = \<lparr>ck_date_id = ''d'', ck_item = Item_Capacity, ck_satisfied = satisfied, ck_occurred_at = at\<rparr>"

definition sample_checklist_db :: catalog_db where
  "sample_checklist_db = \<lparr>cd_shows = [], cd_venues = [], cd_artists = [], cd_dates = [],
     cd_publications = [draft_publication ''d'' ''ch''], cd_replays = [], cd_checklist = [], cd_aliases = [],
     cd_public = [], cd_outbox = [], cd_processed = []\<rparr>"


end
