(* ===== verification/Stream_Core.thy ===== *)
theory Stream_Core
  imports Catalog_Core Transactions
begin

text \<open>
  What \<open>apps/streaming\<close>'s run desk takes from elsewhere: the vocabulary of \<open>@arthome/core\<close> that
  \<open>run/run-wire.ts\<close> lists exhaustively, the rules it calls there, and the part of the media plane's ports
  (\<open>media/media-ports.ts\<close>) it reads. Measured figures are whole numbers; they are only passed on.
\<close>

section \<open>Vocabulary\<close>

datatype ingest_protocol = Rtmps | Srt | Whip

datatype monitor_path = Whep | Ll_Hls

datatype incident_kind =
    Incident_Hold_Screen | Incident_Postponed | Incident_Cancelled | Incident_Interrupted

datatype incident_cause =
    Cause_Venue_Feed_Lost | Cause_Run_Desk_Disconnected | Cause_Bitrate_Collapsed
  | Cause_Compatibility_Worker_Failed | Cause_Provider_Error | Cause_Manual

datatype incident_trigger = Trigger_Manual | Trigger_Auto

datatype surface =
    Storefront_Web | Storefront_Mobile | Storefront_Tv | Studio_Web | Studio_Mobile | Surface_System

datatype technical_check_failure = Check_No_Feed | Check_Codec_Not_Carried | Check_Bitrate_Below_Floor

record incident_message =
  im_content_language :: string
  im_text :: string

record incident_snapshot =
  ic_id :: ident
  ic_kind :: incident_kind
  ic_cause :: incident_cause
  ic_trigger :: incident_trigger
  ic_message :: "incident_message option"
  ic_raised_at :: instant
  ic_raised_by :: "ident option"
  ic_resolved_at :: "instant option"
  ic_resolved_by :: "ident option"

record run_actor =
  ra_account_id :: "ident option"
  ra_surface :: surface

text \<open>\<open>STATE_CONFLICT\<close> names the version, and the state where the aggregate refuses.\<close>

datatype stream_failure =
    Run_Conflict int "run_state option"
  | Run_Transition_Forbidden run_state run_state
  | Technical_Check_Required
  | Publication_Not_Technical "publication_state option"
  | Run_Not_Found
  | Deadline_Exceeded
  | Stream_Forbidden
  | Signing_Unavailable
  | Stream_Permanent string
  | Stream_Constraint string
  | Stream_Defect string

type_synonym 'a stream_result = "stream_failure + 'a"

section \<open>The rules called\<close>

text \<open>The bitrate of a probe is \<open>None\<close> for \<open>Number.NaN\<close>.\<close>

record technical_check_probe =
  tp_feed_received :: bool
  tp_codec_carried :: bool
  tp_bitrate_kbps :: "int option"

record run_core =
  assert_run_transition :: "run_state \<Rightarrow> run_state \<Rightarrow> bool \<Rightarrow> stream_failure option"
  hold_screen_lifts_on_feed_return :: "incident_snapshot \<Rightarrow> bool"
  run_auto_ends_at :: "instant \<Rightarrow> instant option \<Rightarrow> bool \<Rightarrow> instant option"
  technical_check_failures_of :: "technical_check_probe \<Rightarrow> int \<Rightarrow> technical_check_failure list"
  timing_ends_at :: "date_timing \<Rightarrow> instant"
  is_after :: "instant \<Rightarrow> instant \<Rightarrow> bool"
  plus_seconds :: "instant \<Rightarrow> int \<Rightarrow> instant"
  publisher_grace_seconds :: int
  hold_screen_auto_after_seconds :: int
  bitrate_floor_kbps :: int

text \<open>
  What is documented of the transitions (HANDOVER 0b, \<open>run.aggregate.spec.ts\<close>): ended is final, the air is
  taken only once a check passed, and a run on air or interrupted may end.
\<close>

definition run_transition_laws :: "run_core \<Rightarrow> bool" where
  "run_transition_laws c \<longleftrightarrow>
     (\<forall>t ok. assert_run_transition c Run_State_Ended t ok \<noteq> None) \<and>
     (\<forall>s. s \<noteq> Run_On_Air \<longrightarrow> s \<noteq> Run_Interrupted \<longrightarrow> assert_run_transition c s Run_On_Air False \<noteq> None) \<and>
     (\<forall>s. s = Run_On_Air \<or> s = Run_Interrupted \<longrightarrow> assert_run_transition c s Run_State_Ended True = None)"

text \<open>
  The end by itself (D-123): fifteen minutes after the later of the scheduled end and the last loss, never
  with a publisher online; and the two functions on instants.
\<close>

definition run_time_laws :: "run_core \<Rightarrow> bool" where
  "run_time_laws c \<longleftrightarrow>
     (\<forall>s t. is_after c s t \<longleftrightarrow> t < s) \<and> (\<forall>t n. plus_seconds c t n = t + n * 1000) \<and>
     (\<forall>s lost. run_auto_ends_at c s lost True = None) \<and>
     (\<forall>s lost. run_auto_ends_at c s lost False =
        Some (max s (case lost of None \<Rightarrow> s | Some t \<Rightarrow> t) + 900000))"

definition sample_run_core :: run_core where
  "sample_run_core = \<lparr>
     assert_run_transition = (\<lambda>s t passed.
       if (s, t) \<in> {(Run_Idle, Run_Rehearsal), (Run_Rehearsal, Run_Idle), (Run_Rehearsal, Run_On_Air),
         (Run_On_Air, Run_Interrupted), (Run_Interrupted, Run_On_Air), (Run_On_Air, Run_State_Ended),
         (Run_Interrupted, Run_State_Ended)}
       then (if t = Run_On_Air \<and> \<not> passed then Some Technical_Check_Required else None)
       else Some (Run_Transition_Forbidden s t)),
     hold_screen_lifts_on_feed_return = (\<lambda>i. ic_trigger i = Trigger_Auto \<and> ic_cause i = Cause_Venue_Feed_Lost),
     run_auto_ends_at = (\<lambda>s lost online.
       if online then None else Some (max s (case lost of None \<Rightarrow> s | Some t \<Rightarrow> t) + 900000)),
     technical_check_failures_of = (\<lambda>p floor.
       (if tp_feed_received p then [] else [Check_No_Feed]) @
       (if tp_codec_carried p then [] else [Check_Codec_Not_Carried]) @
       (case tp_bitrate_kbps p of None \<Rightarrow> [Check_Bitrate_Below_Floor]
        | Some n \<Rightarrow> if n < floor then [Check_Bitrate_Below_Floor] else [])),
     timing_ends_at = (\<lambda>t. dt_starts_at t + dt_runtime_min t * 60000),
     is_after = (\<lambda>s t. t < s), plus_seconds = (\<lambda>t n. t + n * 1000),
     publisher_grace_seconds = 5, hold_screen_auto_after_seconds = 15, bitrate_floor_kbps = 2500\<rparr>"

lemma sample_run_laws: "run_transition_laws sample_run_core" "run_time_laws sample_run_core"
  by (auto simp: run_transition_laws_def run_time_laws_def sample_run_core_def)

section \<open>The media plane's ports\<close>

record carried_codecs =
  cc_video :: "string list"
  cc_audio :: "string list"

record live_ingest_capabilities =
  li_protocols :: "ingest_protocol list"
  li_monitor_paths :: "monitor_path list"
  li_carried_codecs :: "ingest_protocol \<Rightarrow> carried_codecs option"

record feed_sample =
  fd_measured_at :: instant
  fd_protocol :: ingest_protocol
  fd_video_codec :: string
  fd_audio_codec :: string
  fd_ingest_up_kbps :: int
  fd_jitter_ms :: "int option"
  fd_lost_packets :: "int option"

definition codecs_carried :: "live_ingest_capabilities \<Rightarrow> feed_sample \<Rightarrow> bool" where
  "codecs_carried capabilities sample =
     (case li_carried_codecs capabilities (fd_protocol sample) of
        None \<Rightarrow> False
      | Some carried \<Rightarrow>
          fd_video_codec sample \<in> set (cc_video carried) \<and> fd_audio_codec sample \<in> set (cc_audio carried))"

text \<open>A provider is what it declares and the URL it serves a monitor path at.\<close>

record live_ingest_provider =
  ip_capabilities :: live_ingest_capabilities
  ip_monitor_url_for :: "monitor_path \<Rightarrow> string \<Rightarrow> string option"

text \<open>D-019: the monitor path served is the true one, WHEP only on a WHIP ingest that offers it.\<close>

definition monitor_path_of :: "ingest_protocol \<Rightarrow> live_ingest_capabilities \<Rightarrow> monitor_path" where
  "monitor_path_of protocol capabilities =
     (if protocol = Whip \<and> Whep \<in> set (li_monitor_paths capabilities) then Whep else Ll_Hls)"

end
