(* ===== verification/Stream_Run.thy ===== *)
theory Stream_Run
  imports Stream_Core
begin

text \<open>
  \<open>Run\<close>, a date's run and its incidents (\<open>apps/streaming/src/run/run.aggregate.ts\<close>): its snapshot, its
  events, every command, what it keeps and what its events tell.
\<close>

section \<open>Snapshot and events\<close>

record run_snapshot =
  rn_run_id :: ident
  rn_date_id :: ident
  rn_channel_id :: ident
  rn_state :: run_state
  rn_stream_path :: string
  rn_ingest_protocol :: ingest_protocol
  rn_monitor_path :: monitor_path
  rn_technical_check_passed_at :: "instant option"
  rn_started_at :: "instant option"
  rn_ended_at :: "instant option"
  rn_publisher_online_since :: "instant option"
  rn_publisher_lost_at :: "instant option"
  rn_after_grace_period :: bool
  rn_incident :: "incident_snapshot option"
  rn_version :: int

record run_to_prepare =
  rt_run_id :: ident
  rt_date_id :: ident
  rt_channel_id :: ident
  rt_stream_path :: string

datatype run_event =
    RunPrepared ident instant
  | TechnicalCheckPassed ident ident ingest_protocol run_actor instant
  | RunStarted ident ident ingest_protocol monitor_path run_actor instant
  | RunEnded ident ident instant int run_actor instant
  | RunStateChanged ident run_state "incident_cause option" bool instant
  | IncidentRaised ident ident incident_snapshot run_actor instant
  | IncidentResolved ident ident run_actor instant

type_synonym run = "(run_snapshot, run_event) aggregate"

record raised_incident =
  ri_id :: ident
  ri_kind :: incident_kind
  ri_cause :: incident_cause
  ri_message :: "incident_message option"

definition SYSTEM_ACTOR :: run_actor where
  "SYSTEM_ACTOR = \<lparr>ra_account_id = None, ra_surface = Surface_System\<rparr>"

section \<open>Commands\<close>

definition prepare_run :: "run_to_prepare \<Rightarrow> instant \<Rightarrow> run" where
  "prepare_run r now =
     apply_event (RunPrepared (rt_date_id r) now)
       (restore \<lparr>rn_run_id = rt_run_id r, rn_date_id = rt_date_id r, rn_channel_id = rt_channel_id r,
          rn_state = Run_Idle, rn_stream_path = rt_stream_path r, rn_ingest_protocol = Rtmps,
          rn_monitor_path = Ll_Hls, rn_technical_check_passed_at = None, rn_started_at = None,
          rn_ended_at = None, rn_publisher_online_since = None, rn_publisher_lost_at = None,
          rn_after_grace_period = False, rn_incident = None, rn_version = 1\<rparr>)"

definition open_incident :: "run_snapshot \<Rightarrow> incident_snapshot option" where
  "open_incident s =
     (case rn_incident s of
        None \<Rightarrow> None
      | Some i \<Rightarrow> if ic_resolved_at i = None then Some i else None)"

definition technical_check_passed :: "run_snapshot \<Rightarrow> bool" where
  "technical_check_passed s \<longleftrightarrow> rn_technical_check_passed_at s \<noteq> None"

definition run_conflict :: "run_snapshot \<Rightarrow> stream_failure" where
  "run_conflict s = Run_Conflict (rn_version s) (Some (rn_state s))"

definition run_advanced_from :: "int \<Rightarrow> run_snapshot \<Rightarrow> int stream_result" where
  "run_advanced_from expected s = (if rn_version s \<noteq> expected then Inl (run_conflict s) else Inr (rn_version s + 1))"

definition apply_state_changed :: "instant \<Rightarrow> run \<Rightarrow> run" where
  "apply_state_changed now a =
     (let s = current a;
          cause = (if rn_state s = Run_Interrupted then map_option ic_cause (open_incident s) else None)
      in apply_event (RunStateChanged (rn_date_id s) (rn_state s) cause (rn_after_grace_period s) now) a)"

definition run_move :: "run_core \<Rightarrow> run_state \<Rightarrow> int \<Rightarrow> instant \<Rightarrow> run \<Rightarrow> run stream_result" where
  "run_move c to version now a =
     (let s = current a in
      bindE (assertE (assert_run_transition c (rn_state s) to (technical_check_passed s))) (\<lambda>_.
      Inr (apply_state_changed now (a\<lparr>current := s\<lparr>rn_state := to, rn_version := version\<rparr>\<rparr>))))"

definition rehearse :: "run_core \<Rightarrow> int \<Rightarrow> instant \<Rightarrow> run \<Rightarrow> run stream_result" where
  "rehearse c expected now a =
     bindE (run_advanced_from expected (current a)) (\<lambda>version. run_move c Run_Rehearsal version now a)"

definition run_reset :: "run_core \<Rightarrow> int \<Rightarrow> instant \<Rightarrow> run \<Rightarrow> run stream_result" where
  "run_reset c expected now a =
     bindE (run_advanced_from expected (current a)) (\<lambda>version. run_move c Run_Idle version now a)"

definition go_on_air ::
    "run_core \<Rightarrow> int \<Rightarrow> publication_state option \<Rightarrow> run_actor \<Rightarrow> instant \<Rightarrow> run \<Rightarrow> run stream_result" where
  "go_on_air c expected publication actor now a =
     (let s = current a in
      bindE (run_advanced_from expected s) (\<lambda>version.
      bindE (assertE (assert_run_transition c (rn_state s) Run_On_Air (technical_check_passed s))) (\<lambda>_.
      if publication \<noteq> Some Pub_Technical then Inl (Publication_Not_Technical publication)
      else if open_incident s \<noteq> None then Inl (run_conflict s)
      else
        let s' = s\<lparr>rn_state := Run_On_Air, rn_started_at := Some now, rn_version := version\<rparr>
        in Inr (apply_state_changed now
             (apply_event (RunStarted (rn_date_id s') (rn_channel_id s') (rn_ingest_protocol s')
                (rn_monitor_path s') actor now) (a\<lparr>current := s'\<rparr>))))))"

text \<open>\<open>Math.round\<close> of a quotient by 1000: half up.\<close>

definition duration_sec_of :: "instant option \<Rightarrow> instant \<Rightarrow> int" where
  "duration_sec_of start ended_at =
     (let duration_ms = (case start of None \<Rightarrow> 0 | Some t \<Rightarrow> ended_at - t)
      in max 0 ((duration_ms + 500) div 1000))"

definition resolved_incident :: "instant \<Rightarrow> ident option \<Rightarrow> incident_snapshot \<Rightarrow> incident_snapshot" where
  "resolved_incident now by_whom i = i\<lparr>ic_resolved_at := Some now, ic_resolved_by := by_whom\<rparr>"

definition run_end_at ::
    "run_core \<Rightarrow> int \<Rightarrow> instant \<Rightarrow> run_actor \<Rightarrow> instant \<Rightarrow> run \<Rightarrow> run stream_result" where
  "run_end_at c version ended_at actor now a =
     (let s = current a in
      bindE (assertE (assert_run_transition c (rn_state s) Run_State_Ended (technical_check_passed s))) (\<lambda>_.
      let still = open_incident s;
          incident = (case still of None \<Rightarrow> rn_incident s
                      | Some i \<Rightarrow> Some (resolved_incident now (ra_account_id SYSTEM_ACTOR) i));
          s' = s\<lparr>rn_incident := incident, rn_state := Run_State_Ended, rn_ended_at := Some ended_at,
                 rn_version := version\<rparr>;
          a1 = a\<lparr>current := s'\<rparr>;
          a2 = (case still of None \<Rightarrow> a1
                | Some i \<Rightarrow> apply_event (IncidentResolved (rn_date_id s) (ic_id i) SYSTEM_ACTOR now) a1);
          a3 = apply_event (RunEnded (rn_date_id s) (rn_channel_id s) ended_at
                 (duration_sec_of (rn_started_at s) ended_at) actor now) a2
      in Inr (apply_state_changed now a3)))"

definition run_end :: "run_core \<Rightarrow> int \<Rightarrow> run_actor \<Rightarrow> instant \<Rightarrow> run \<Rightarrow> run stream_result" where
  "run_end c expected actor now a =
     bindE (run_advanced_from expected (current a)) (\<lambda>version. run_end_at c version now actor now a)"

definition end_by_itself :: "run_core \<Rightarrow> instant \<Rightarrow> instant \<Rightarrow> run \<Rightarrow> (run \<times> bool) stream_result" where
  "end_by_itself c scheduled_ends_at now a =
     (let s = current a in
      if rn_state s \<noteq> Run_On_Air \<and> rn_state s \<noteq> Run_Interrupted then Inr (a, False)
      else case run_auto_ends_at c scheduled_ends_at (rn_publisher_lost_at s) (rn_publisher_online_since s \<noteq> None) of
          None \<Rightarrow> Inr (a, False)
        | Some ends_at \<Rightarrow>
            if is_after c ends_at now then Inr (a, False)
            else
              let last_feed = (case rn_publisher_lost_at s of None \<Rightarrow> scheduled_ends_at | Some t \<Rightarrow> t);
                  ended_at = (case rn_started_at s of None \<Rightarrow> last_feed
                              | Some t \<Rightarrow> if is_after c t last_feed then t else last_feed)
              in bindE (run_end_at c (rn_version s + 1) ended_at SYSTEM_ACTOR now a) (\<lambda>b. Inr (b, True)))"

definition run_technical_check ::
    "technical_check_failure list \<Rightarrow> ingest_protocol \<Rightarrow> run_actor \<Rightarrow> instant \<Rightarrow> run \<Rightarrow> (run \<times> bool) stream_result" where
  "run_technical_check failures protocol actor now a =
     (let s = current a in
      if rn_state s = Run_State_Ended then Inl (run_conflict s)
      else if failures \<noteq> [] then Inr (a, False)
      else
        let s' = (if technical_check_passed s then s
                  else s\<lparr>rn_technical_check_passed_at := Some now, rn_version := rn_version s + 1\<rparr>)
        in Inr (apply_event (TechnicalCheckPassed (rn_date_id s) (rn_channel_id s) protocol actor now)
             (a\<lparr>current := s'\<rparr>), True))"

definition run_raise ::
    "run_core \<Rightarrow> incident_snapshot \<Rightarrow> run_actor \<Rightarrow> instant \<Rightarrow> run \<Rightarrow> run stream_result" where
  "run_raise c raised actor now a =
     (let s = current a; interrupts = (rn_state s = Run_On_Air) in
      bindE (if interrupts
             then assertE (assert_run_transition c (rn_state s) Run_Interrupted (technical_check_passed s))
             else Inr ()) (\<lambda>_.
      let incident = raised\<lparr>ic_raised_at := now, ic_resolved_at := None, ic_resolved_by := None\<rparr>;
          s' = s\<lparr>rn_incident := Some incident, rn_state := (if interrupts then Run_Interrupted else rn_state s),
                 rn_version := rn_version s + 1\<rparr>;
          a1 = apply_event (IncidentRaised (rn_date_id s) (rn_channel_id s) incident actor now) (a\<lparr>current := s'\<rparr>)
      in Inr (if interrupts then apply_state_changed now a1 else a1)))"

definition raise_incident ::
    "run_core \<Rightarrow> raised_incident \<Rightarrow> run_actor \<Rightarrow> instant \<Rightarrow> run \<Rightarrow> run stream_result" where
  "raise_incident c raised actor now a =
     (if rn_state (current a) = Run_State_Ended \<or> open_incident (current a) \<noteq> None
      then Inl (run_conflict (current a))
      else run_raise c \<lparr>ic_id = ri_id raised, ic_kind = ri_kind raised, ic_cause = ri_cause raised,
             ic_trigger = Trigger_Manual, ic_message = ri_message raised, ic_raised_at = now,
             ic_raised_by = ra_account_id actor, ic_resolved_at = None, ic_resolved_by = None\<rparr> actor now a)"

definition raise_automatic ::
    "run_core \<Rightarrow> ident \<Rightarrow> incident_cause \<Rightarrow> instant \<Rightarrow> run \<Rightarrow> run stream_result" where
  "raise_automatic c incident_id cause now a =
     run_raise c \<lparr>ic_id = incident_id, ic_kind = Incident_Hold_Screen, ic_cause = cause,
       ic_trigger = Trigger_Auto, ic_message = None, ic_raised_at = now, ic_raised_by = None,
       ic_resolved_at = None, ic_resolved_by = None\<rparr> SYSTEM_ACTOR now a"

definition run_resolve ::
    "run_core \<Rightarrow> incident_snapshot \<Rightarrow> run_actor \<Rightarrow> bool \<Rightarrow> instant \<Rightarrow> run \<Rightarrow> run stream_result" where
  "run_resolve c still actor after_grace_period_cleared now a =
     (let s = current a; resumes = (rn_state s = Run_Interrupted) in
      bindE (if resumes
             then assertE (assert_run_transition c (rn_state s) Run_On_Air (technical_check_passed s))
             else Inr ()) (\<lambda>_.
      let s' = s\<lparr>rn_incident := Some (resolved_incident now (ra_account_id actor) still),
                 rn_state := (if resumes then Run_On_Air else rn_state s), rn_version := rn_version s + 1\<rparr>;
          a1 = apply_event (IncidentResolved (rn_date_id s) (ic_id still) actor now) (a\<lparr>current := s'\<rparr>)
      in Inr (if resumes \<or> after_grace_period_cleared then apply_state_changed now a1 else a1)))"

definition resolve_incident ::
    "run_core \<Rightarrow> ident \<Rightarrow> run_actor \<Rightarrow> instant \<Rightarrow> run \<Rightarrow> (run \<times> bool) stream_result" where
  "resolve_incident c incident_id actor now a =
     (case open_incident (current a) of
        None \<Rightarrow> Inr (a, False)
      | Some still \<Rightarrow>
          if ic_id still \<noteq> incident_id then Inr (a, False)
          else bindE (run_resolve c still actor False now a) (\<lambda>b. Inr (b, True)))"

definition feed_lost_for :: "run_core \<Rightarrow> int \<Rightarrow> instant \<Rightarrow> run_snapshot \<Rightarrow> bool" where
  "feed_lost_for c seconds now s \<longleftrightarrow>
     rn_state s = Run_On_Air \<and> rn_publisher_online_since s = None \<and>
     (case rn_publisher_lost_at s of None \<Rightarrow> False | Some t \<Rightarrow> \<not> is_after c (plus_seconds c t seconds) now)"

definition declare_publisher_gone :: "run_core \<Rightarrow> instant \<Rightarrow> run \<Rightarrow> run \<times> bool" where
  "declare_publisher_gone c now a =
     (let s = current a in
      if rn_after_grace_period s \<or> \<not> feed_lost_for c (publisher_grace_seconds c) now s then (a, False)
      else (apply_state_changed now (a\<lparr>current := s\<lparr>rn_after_grace_period := True\<rparr>\<rparr>), True))"

definition raise_hold_screen_if_feed_lost ::
    "run_core \<Rightarrow> ident \<Rightarrow> instant \<Rightarrow> run \<Rightarrow> (run \<times> bool) stream_result" where
  "raise_hold_screen_if_feed_lost c incident_id now a =
     (if open_incident (current a) \<noteq> None \<or>
         \<not> feed_lost_for c (hold_screen_auto_after_seconds c) now (current a) then Inr (a, False)
      else bindE (raise_automatic c incident_id Cause_Venue_Feed_Lost now a) (\<lambda>b. Inr (b, True)))"

definition raise_worker_failure :: "run_core \<Rightarrow> ident \<Rightarrow> instant \<Rightarrow> run \<Rightarrow> (run \<times> bool) stream_result" where
  "raise_worker_failure c incident_id now a =
     (if rn_state (current a) = Run_State_Ended \<or> open_incident (current a) \<noteq> None then Inr (a, False)
      else bindE (raise_automatic c incident_id Cause_Compatibility_Worker_Failed now a) (\<lambda>b. Inr (b, True)))"

definition publisher_back :: "run_core \<Rightarrow> bool \<Rightarrow> instant \<Rightarrow> run \<Rightarrow> run stream_result" where
  "publisher_back c was_after_grace_period now a =
     (case open_incident (current a) of
        Some still \<Rightarrow>
          if hold_screen_lifts_on_feed_return c still
          then run_resolve c still SYSTEM_ACTOR was_after_grace_period now a
          else Inr (if was_after_grace_period then apply_state_changed now a else a)
      | None \<Rightarrow> Inr (if was_after_grace_period then apply_state_changed now a else a))"

end
