(* ===== verification/Stream_Run_Props.thy ===== *)
theory Stream_Run_Props
  imports Stream_Run
begin

text \<open>
  What a run keeps through its commands and what its events tell: who reads them in order knows its state,
  the cause of its interruption and whether its publisher is gone.
\<close>

section \<open>What is shown and what is told\<close>

type_synonym run_shown = "run_state \<times> incident_cause option \<times> bool"

definition run_shown_of :: "run_snapshot \<Rightarrow> run_shown" where
  "run_shown_of s = (rn_state s,
     (if rn_state s = Run_Interrupted then map_option ic_cause (open_incident s) else None),
     rn_after_grace_period s)"

fun run_told :: "run_event \<Rightarrow> run_shown \<Rightarrow> run_shown" where
  "run_told (RunStateChanged _ state cause after_grace _) x = (state, cause, after_grace)"
| "run_told _ x = x"

fun run_event_date :: "run_event \<Rightarrow> ident" where
  "run_event_date (RunPrepared d _) = d"
| "run_event_date (TechnicalCheckPassed d _ _ _ _) = d"
| "run_event_date (RunStarted d _ _ _ _ _) = d"
| "run_event_date (RunEnded d _ _ _ _ _) = d"
| "run_event_date (RunStateChanged d _ _ _ _) = d"
| "run_event_date (IncidentRaised d _ _ _ _) = d"
| "run_event_date (IncidentResolved d _ _ _) = d"

text \<open>The air is taken with a passed check and no veil; an interruption has its incident; ended is dated, with no veil.\<close>

definition run_wf :: "run_snapshot \<Rightarrow> bool" where
  "run_wf s \<longleftrightarrow> 1 \<le> rn_version s \<and>
     (rn_ended_at s \<noteq> None \<longleftrightarrow> rn_state s = Run_State_Ended) \<and>
     (rn_state s = Run_On_Air \<or> rn_state s = Run_Interrupted \<longrightarrow>
        rn_technical_check_passed_at s \<noteq> None \<and> rn_started_at s \<noteq> None) \<and>
     (rn_state s = Run_On_Air \<or> rn_state s = Run_State_Ended \<longrightarrow> open_incident s = None) \<and>
     (rn_state s = Run_Interrupted \<longrightarrow> open_incident s \<noteq> None)"

definition run_kept :: "run_snapshot \<Rightarrow> run_snapshot \<Rightarrow> bool" where
  "run_kept s s' \<longleftrightarrow> rn_run_id s' = rn_run_id s \<and> rn_date_id s' = rn_date_id s \<and>
     rn_channel_id s' = rn_channel_id s \<and> rn_stream_path s' = rn_stream_path s \<and>
     rn_ingest_protocol s' = rn_ingest_protocol s \<and> rn_monitor_path s' = rn_monitor_path s \<and>
     rn_publisher_online_since s' = rn_publisher_online_since s \<and> rn_publisher_lost_at s' = rn_publisher_lost_at s"

text \<open>An incident is left, raised where none is open, or resolved.\<close>

definition incident_moved :: "run_snapshot \<Rightarrow> run_snapshot \<Rightarrow> bool" where
  "incident_moved s s' \<longleftrightarrow> rn_incident s' = rn_incident s \<or>
     (open_incident s = None \<and> (\<exists>i. rn_incident s' = Some i \<and> ic_resolved_at i = None \<and> ic_resolved_by i = None)) \<or>
     (\<exists>i t b. open_incident s = Some i \<and> rn_incident s' = Some (resolved_incident t b i))"

definition same_state :: "run_snapshot \<Rightarrow> run_snapshot \<Rightarrow> bool" where
  "same_state s s' \<longleftrightarrow> s' = s\<lparr>rn_after_grace_period := rn_after_grace_period s'\<rparr>"

text \<open>A command by one who was told \<open>x\<close>: the version moves by one exactly when the state does.\<close>

definition run_moved :: "run_shown \<Rightarrow> run \<Rightarrow> run \<Rightarrow> bool" where
  "run_moved x a b \<longleftrightarrow> run_wf (current b) \<and> run_kept (current a) (current b) \<and>
     (same_state (current a) (current b) \<or>
        rn_version (current b) = rn_version (current a) + 1 \<and> incident_moved (current a) (current b)) \<and>
     (\<exists>es. uncommitted b = uncommitted a @ es \<and> list_all (\<lambda>e. run_event_date e = rn_date_id (current a)) es \<and>
        fold run_told es x = run_shown_of (current b))"

lemma run_movedD:
  assumes "run_moved x a b"
  shows "run_wf (current b)" "run_kept (current a) (current b)"
    "same_state (current a) (current b) \<or>
       rn_version (current b) = rn_version (current a) + 1 \<and> incident_moved (current a) (current b)"
    "\<exists>es. uncommitted b = uncommitted a @ es \<and> list_all (\<lambda>e. run_event_date e = rn_date_id (current a)) es \<and>
       fold run_told es x = run_shown_of (current b)"
  using assms by (simp_all add: run_moved_def)

lemma run_keeps_refl [simp]: "run_kept s s" "same_state s s" "incident_moved s s"
  by (simp_all add: run_kept_def same_state_def incident_moved_def)

lemma run_moved_refl: "run_wf (current a) \<Longrightarrow> x = run_shown_of (current a) \<Longrightarrow> run_moved x a a"
  by (simp add: run_moved_def)

lemma run_moved_same:
  assumes "run_moved x a b" and "same_state (current a) (current b)"
    and "run_moved (run_shown_of (current b)) b d"
  shows "run_moved x a d"
proof -
  have ab: "current b = (current a)\<lparr>rn_after_grace_period := rn_after_grace_period (current b)\<rparr>"
    using assms(2) by (simp add: same_state_def)
  obtain es where es: "uncommitted b = uncommitted a @ es" "list_all (\<lambda>e. run_event_date e = rn_date_id (current a)) es"
    "fold run_told es x = run_shown_of (current b)" using run_movedD(4) [OF assms(1)] by blast
  obtain fs where fs: "uncommitted d = uncommitted b @ fs" "list_all (\<lambda>e. run_event_date e = rn_date_id (current b)) fs"
    "fold run_told fs (run_shown_of (current b)) = run_shown_of (current d)" using run_movedD(4) [OF assms(3)] by blast
  have date: "rn_date_id (current b) = rn_date_id (current a)" by (subst ab) simp
  have "\<exists>gs. uncommitted d = uncommitted a @ gs \<and> list_all (\<lambda>e. run_event_date e = rn_date_id (current a)) gs \<and>
      fold run_told gs x = run_shown_of (current d)"
    using es fs date by (intro exI [of _ "es @ fs"]) simp
  moreover have "run_kept (current a) (current d)"
    using run_movedD(2) [OF assms(1)] run_movedD(2) [OF assms(3)] by (simp add: run_kept_def)
  moreover have "rn_version (current b) = rn_version (current a)" by (subst ab) simp
  moreover have "open_incident (current b) = open_incident (current a)" "rn_incident (current b) = rn_incident (current a)"
    by (subst ab, simp add: open_incident_def)+
  moreover have "same_state (current a) (current d)" if "same_state (current b) (current d)"
  proof -
    have "current d = (current b)\<lparr>rn_after_grace_period := rn_after_grace_period (current d)\<rparr>"
      using that by (simp add: same_state_def)
    also have "\<dots> = (current a)\<lparr>rn_after_grace_period := rn_after_grace_period (current d)\<rparr>" by (subst ab) simp
    finally show ?thesis by (simp add: same_state_def)
  qed
  ultimately show ?thesis
    using run_movedD(1,3) [OF assms(3)] unfolding run_moved_def incident_moved_def by metis
qed

section \<open>The commands\<close>

lemma apply_state_changed_simps [simp]:
  "current (apply_state_changed now a) = current a"
  "uncommitted (apply_state_changed now a) = uncommitted a @ [RunStateChanged (rn_date_id (current a)) (rn_state (current a))
     (fst (snd (run_shown_of (current a)))) (rn_after_grace_period (current a)) now]"
  by (simp_all add: apply_state_changed_def run_shown_of_def Let_def)

text \<open>A command that ends by telling the state tells all there is.\<close>

lemma run_moved_telling:
  assumes "run_wf s'" and "run_kept (current a) s'" and "rn_version s' = rn_version (current a) + 1"
    and "incident_moved (current a) s'" and "current b = s'" and "uncommitted b = uncommitted a @ es"
    and "list_all (\<lambda>e. run_event_date e = rn_date_id (current a)) es"
  shows "run_moved x a (apply_state_changed now b)"
  unfolding run_moved_def
proof (intro conjI exI [of _ "es @ [RunStateChanged (rn_date_id s') (rn_state s') (fst (snd (run_shown_of s'))) (rn_after_grace_period s') now]"])
  show "list_all (\<lambda>e. run_event_date e = rn_date_id (current a))
      (es @ [RunStateChanged (rn_date_id s') (rn_state s') (fst (snd (run_shown_of s'))) (rn_after_grace_period s') now])"
    using assms(2,7) by (simp add: run_kept_def)
qed (use assms in \<open>simp_all add: run_shown_of_def\<close>)

lemma open_incident_simps [simp]:
  "open_incident (s\<lparr>rn_state := st\<rparr>) = open_incident s" "open_incident (s\<lparr>rn_version := v\<rparr>) = open_incident s"
  "open_incident (s\<lparr>rn_started_at := t\<rparr>) = open_incident s" "open_incident (s\<lparr>rn_ended_at := t\<rparr>) = open_incident s"
  "open_incident (s\<lparr>rn_technical_check_passed_at := t\<rparr>) = open_incident s"
  "open_incident (s\<lparr>rn_after_grace_period := g\<rparr>) = open_incident s"
  "open_incident (s\<lparr>rn_incident := None\<rparr>) = None"
  "open_incident (s\<lparr>rn_incident := Some i\<rparr>) = (if ic_resolved_at i = None then Some i else None)"
  by (simp_all add: open_incident_def)

lemma resolved_incident_simps [simp]:
  "ic_resolved_at (resolved_incident t b i) = Some t" "ic_id (resolved_incident t b i) = ic_id i"
  by (simp_all add: resolved_incident_def)

lemma run_advanced_from_Inr: "run_advanced_from e s = Inr v \<longleftrightarrow> rn_version s = e \<and> v = rn_version s + 1"
  by (auto simp: run_advanced_from_def)

lemma run_move_moved:
  assumes "run_move c to (rn_version (current a) + 1) now a = Inr b" and "run_wf (current a)"
    and "run_transition_laws c" and "to = Run_Idle \<or> to = Run_Rehearsal"
  shows "run_moved x a b"
proof -
  let ?s' = "(current a)\<lparr>rn_state := to, rn_version := rn_version (current a) + 1\<rparr>"
  have ok: "assert_run_transition c (rn_state (current a)) to (technical_check_passed (current a)) = None"
    and b: "b = apply_state_changed now (a\<lparr>current := ?s'\<rparr>)"
    using assms(1) by (simp_all add: run_move_def Let_def result_simps)
  have "rn_state (current a) \<noteq> Run_State_Ended" using ok assms(3) unfolding run_transition_laws_def by metis
  then have wf: "run_wf ?s'" using assms(2,4) by (auto simp: run_wf_def)
  show ?thesis unfolding b by (rule run_moved_telling [OF wf, of _ _ "[]"])
      (simp_all add: run_kept_def incident_moved_def)
qed

lemma go_on_air_moved:
  assumes "go_on_air c e p actor now a = Inr b" and "run_wf (current a)" and "run_transition_laws c"
  shows "run_moved x a b" and "p = Some Pub_Technical"
proof -
  let ?s = "current a"
  let ?s' = "?s\<lparr>rn_state := Run_On_Air, rn_started_at := Some now, rn_version := rn_version ?s + 1\<rparr>"
  let ?a = "apply_event (RunStarted (rn_date_id ?s) (rn_channel_id ?s) (rn_ingest_protocol ?s) (rn_monitor_path ?s) actor now)
    (a\<lparr>current := ?s'\<rparr>)"
  have ok: "assert_run_transition c (rn_state ?s) Run_On_Air (technical_check_passed ?s) = None"
    and p: "p = Some Pub_Technical" and i: "open_incident ?s = None" and b: "b = apply_state_changed now ?a"
    using assms(1)
    by (auto simp: go_on_air_def Let_def result_simps run_advanced_from_Inr split: if_splits)
  have "rn_state ?s \<noteq> Run_State_Ended" using ok assms(3) unfolding run_transition_laws_def by metis
  moreover have "technical_check_passed ?s"
    using ok assms(2,3) unfolding run_transition_laws_def run_wf_def technical_check_passed_def by metis
  ultimately have wf: "run_wf ?s'" using assms(2) i by (auto simp: run_wf_def technical_check_passed_def)
  show "run_moved x a b" unfolding b
    by (rule run_moved_telling [OF wf, where es = "[RunStarted (rn_date_id ?s) (rn_channel_id ?s) (rn_ingest_protocol ?s)
        (rn_monitor_path ?s) actor now]"]) (simp_all add: run_kept_def incident_moved_def)
  show "p = Some Pub_Technical" by (fact p)
qed

lemma run_end_at_moved:
  assumes "run_end_at c (rn_version (current a) + 1) ended_at actor now a = Inr b" and "run_wf (current a)"
  shows "run_moved x a b" and "rn_state (current b) = Run_State_Ended" and "rn_ended_at (current b) = Some ended_at"
    and "rn_version (current b) = rn_version (current a) + 1" and "incident_moved (current a) (current b)"
proof -
  let ?s = "current a"
  let ?i = "case open_incident ?s of None \<Rightarrow> rn_incident ?s
    | Some i \<Rightarrow> Some (resolved_incident now (ra_account_id SYSTEM_ACTOR) i)"
  let ?s' = "?s\<lparr>rn_incident := ?i, rn_state := Run_State_Ended, rn_ended_at := Some ended_at, rn_version := rn_version ?s + 1\<rparr>"
  let ?a = "case open_incident ?s of None \<Rightarrow> a\<lparr>current := ?s'\<rparr>
    | Some i \<Rightarrow> apply_event (IncidentResolved (rn_date_id ?s) (ic_id i) SYSTEM_ACTOR now) (a\<lparr>current := ?s'\<rparr>)"
  let ?b = "apply_event (RunEnded (rn_date_id ?s) (rn_channel_id ?s) ended_at
    (duration_sec_of (rn_started_at ?s) ended_at) actor now) ?a"
  have b: "b = apply_state_changed now ?b"
    using assms(1) by (simp add: run_end_at_def Let_def result_simps)
  have cur: "current ?b = ?s'" by (simp split: option.split)
  have no: "open_incident ?s' = None"
    by (auto simp: open_incident_def split: option.splits if_splits)
  have wf: "run_wf ?s'" using assms(2) no by (simp add: run_wf_def)
  have inc: "incident_moved ?s ?s'" by (auto simp: incident_moved_def split: option.split)
  show "run_moved x a b" unfolding b
    by (rule run_moved_telling [OF wf _ _ inc cur, where es = "(case open_incident ?s of None \<Rightarrow> []
          | Some i \<Rightarrow> [IncidentResolved (rn_date_id ?s) (ic_id i) SYSTEM_ACTOR now]) @
        [RunEnded (rn_date_id ?s) (rn_channel_id ?s) ended_at (duration_sec_of (rn_started_at ?s) ended_at) actor now]"])
      (simp_all add: run_kept_def split: option.split)
  have "current b = ?s'" unfolding b by (simp split: option.split)
  then show "rn_state (current b) = Run_State_Ended" "rn_ended_at (current b) = Some ended_at"
    "rn_version (current b) = rn_version ?s + 1" "incident_moved ?s (current b)" using inc by simp_all
qed

text \<open>An incident raised where none is open: it interrupts the run on air.\<close>

lemma run_raise_moved:
  assumes "run_raise c raised actor now a = Inr b" and "run_wf (current a)"
    and "open_incident (current a) = None" and "rn_state (current a) \<noteq> Run_State_Ended"
  shows "run_moved (run_shown_of (current a)) a b"
    and "open_incident (current b) = Some (raised\<lparr>ic_raised_at := now, ic_resolved_at := None, ic_resolved_by := None\<rparr>)"
proof -
  let ?s = "current a" and ?i = "raised\<lparr>ic_raised_at := now, ic_resolved_at := None, ic_resolved_by := None\<rparr>"
  let ?s' = "?s\<lparr>rn_incident := Some ?i, rn_state := (if rn_state ?s = Run_On_Air then Run_Interrupted else rn_state ?s),
    rn_version := rn_version ?s + 1\<rparr>"
  let ?a = "apply_event (IncidentRaised (rn_date_id ?s) (rn_channel_id ?s) ?i actor now) (a\<lparr>current := ?s'\<rparr>)"
  have b: "b = (if rn_state ?s = Run_On_Air then apply_state_changed now ?a else ?a)"
    using assms(1) by (auto simp: run_raise_def Let_def result_simps split: if_splits)
  have calm: "rn_state ?s \<noteq> Run_Interrupted" using assms(2,3) by (auto simp: run_wf_def)
  have wf: "run_wf ?s'" using assms(2,4) calm by (auto simp: run_wf_def)
  have inc: "incident_moved ?s ?s'" using assms(3) by (simp add: incident_moved_def)
  show "run_moved (run_shown_of ?s) a b"
  proof (cases "rn_state ?s = Run_On_Air")
    case True
    have "b = apply_state_changed now ?a" unfolding b by (rule if_P [OF True])
    then show ?thesis
      using run_moved_telling [OF wf _ _ inc, where es = "[IncidentRaised (rn_date_id ?s) (rn_channel_id ?s) ?i actor now]"
          and b = ?a and now = now] by (simp add: run_kept_def)
  next
    case False
    with wf inc calm show ?thesis unfolding b
      by (simp add: run_moved_def run_kept_def run_shown_of_def)
  qed
  show "open_incident (current b) = Some ?i" unfolding b by simp
qed

text \<open>An incident resolved by one who was told \<open>g\<close> of the publisher, back since.\<close>

lemma run_resolve_moved:
  assumes "run_resolve c still actor g now a = Inr b" and "run_wf (current a)"
    and "open_incident (current a) = Some still" and "\<not> rn_after_grace_period (current a) \<or> \<not> g"
  shows "run_moved (run_shown_of ((current a)\<lparr>rn_after_grace_period := rn_after_grace_period (current a) \<or> g\<rparr>)) a b"
    and "open_incident (current b) = None"
proof -
  let ?s = "current a" and ?i = "resolved_incident now (ra_account_id actor) still"
  let ?s' = "?s\<lparr>rn_incident := Some ?i, rn_state := (if rn_state ?s = Run_Interrupted then Run_On_Air else rn_state ?s),
    rn_version := rn_version ?s + 1\<rparr>"
  let ?a = "apply_event (IncidentResolved (rn_date_id ?s) (ic_id still) actor now) (a\<lparr>current := ?s'\<rparr>)"
  have b: "b = (if rn_state ?s = Run_Interrupted \<or> g then apply_state_changed now ?a else ?a)"
    using assms(1) by (auto simp: run_resolve_def Let_def result_simps split: if_splits)
  have states: "rn_state ?s \<noteq> Run_On_Air" "rn_state ?s \<noteq> Run_State_Ended" using assms(2,3) by (auto simp: run_wf_def)
  have wf: "run_wf ?s'" using assms(2) states by (auto simp: run_wf_def)
  have inc: "incident_moved ?s ?s'" using assms(3) by (auto simp: incident_moved_def)
  show "run_moved (run_shown_of (?s\<lparr>rn_after_grace_period := rn_after_grace_period ?s \<or> g\<rparr>)) a b"
  proof (cases "rn_state ?s = Run_Interrupted \<or> g")
    case True
    have "b = apply_state_changed now ?a" unfolding b by (rule if_P [OF True])
    then show ?thesis
      using run_moved_telling [OF wf _ _ inc, where es = "[IncidentResolved (rn_date_id ?s) (ic_id still) actor now]"
          and b = ?a and now = now] by (simp add: run_kept_def)
  next
    case False
    with wf inc states show ?thesis unfolding b
      by (simp add: run_moved_def run_kept_def run_shown_of_def)
  qed
  show "open_incident (current b) = None" unfolding b by simp
qed

lemma rehearse_moved:
  assumes "rehearse c e now a = Inr b" and "run_wf (current a)" and "run_transition_laws c"
  shows "run_moved x a b"
  using assms(1) run_move_moved [OF _ assms(2,3), where x = x] by (auto simp: rehearse_def result_simps run_advanced_from_Inr)

lemma run_reset_moved:
  assumes "run_reset c e now a = Inr b" and "run_wf (current a)" and "run_transition_laws c"
  shows "run_moved x a b"
  using assms(1) run_move_moved [OF _ assms(2,3), where x = x] by (auto simp: run_reset_def result_simps run_advanced_from_Inr)

lemma run_end_moved:
  assumes "run_end c e actor now a = Inr b" and "run_wf (current a)"
  shows "run_moved x a b"
  using assms(1) run_end_at_moved(1) [OF _ assms(2), where x = x] by (auto simp: run_end_def result_simps run_advanced_from_Inr)

lemma end_by_itself_moved:
  assumes "end_by_itself c ends now a = Inr (b, m)" and "run_wf (current a)"
  shows "run_moved (run_shown_of (current a)) a b" and "\<not> m \<Longrightarrow> b = a"
    and "m \<Longrightarrow> rn_state (current b) = Run_State_Ended"
proof -
  have "b = a \<and> \<not> m \<or> m \<and> (\<exists>t. run_end_at c (rn_version (current a) + 1) t SYSTEM_ACTOR now a = Inr b)"
    using assms(1) by (auto simp: end_by_itself_def Let_def result_simps split: if_splits option.splits)
  then show "run_moved (run_shown_of (current a)) a b" "\<not> m \<Longrightarrow> b = a" "m \<Longrightarrow> rn_state (current b) = Run_State_Ended"
    using run_end_at_moved(1,2) [OF _ assms(2)] run_moved_refl [OF assms(2) refl] by blast+
qed

lemma run_technical_check_moved:
  assumes "run_technical_check failures protocol actor now a = Inr (b, m)" and "run_wf (current a)"
  shows "run_moved (run_shown_of (current a)) a b"
proof -
  let ?s = "current a"
  let ?s' = "if technical_check_passed ?s then ?s
    else ?s\<lparr>rn_technical_check_passed_at := Some now, rn_version := rn_version ?s + 1\<rparr>"
  have b: "b = a \<or> b = apply_event (TechnicalCheckPassed (rn_date_id ?s) (rn_channel_id ?s) protocol actor now) (a\<lparr>current := ?s'\<rparr>)"
    using assms(1) by (auto simp: run_technical_check_def Let_def split: if_splits)
  have "run_wf ?s'" using assms(2) by (auto simp: run_wf_def)
  moreover have "run_shown_of ?s' = run_shown_of ?s" by (simp add: run_shown_of_def)
  ultimately show ?thesis
    using b run_moved_refl [OF assms(2) refl]
    by (cases "technical_check_passed ?s") (auto simp: run_moved_def run_kept_def incident_moved_def)
qed

lemma raise_incident_moved:
  assumes "raise_incident c raised actor now a = Inr b" and "run_wf (current a)"
  shows "run_moved (run_shown_of (current a)) a b" and "open_incident (current b) \<noteq> None"
  using assms(1) run_raise_moved [OF _ assms(2)]
  by (auto simp: raise_incident_def split: if_splits)

lemma resolve_incident_moved:
  assumes "resolve_incident c i actor now a = Inr (b, m)" and "run_wf (current a)"
  shows "run_moved (run_shown_of (current a)) a b"
  using assms(1) run_resolve_moved(1) [OF _ assms(2)] run_moved_refl [OF assms(2) refl]
  by (fastforce simp: resolve_incident_def result_simps split: option.splits if_splits)

lemma declare_publisher_gone_moved:
  assumes "declare_publisher_gone c now a = (b, m)" and "run_wf (current a)"
  shows "run_moved (run_shown_of (current a)) a b" and "same_state (current a) (current b)"
    and "m \<longleftrightarrow> rn_after_grace_period (current b) \<noteq> rn_after_grace_period (current a)"
proof -
  let ?s = "current a"
  have b: "b = a \<and> \<not> m \<or> b = apply_state_changed now (a\<lparr>current := ?s\<lparr>rn_after_grace_period := True\<rparr>\<rparr>) \<and>
      \<not> rn_after_grace_period ?s \<and> m"
    using assms(1) by (auto simp: declare_publisher_gone_def Let_def split: if_splits)
  have "run_wf (?s\<lparr>rn_after_grace_period := True\<rparr>)" using assms(2) by (simp add: run_wf_def)
  then show "run_moved (run_shown_of ?s) a b" using b run_moved_refl [OF assms(2) refl]
    by (auto simp: run_moved_def run_kept_def run_shown_of_def same_state_def)
  show "same_state ?s (current b)" "m \<longleftrightarrow> rn_after_grace_period (current b) \<noteq> rn_after_grace_period ?s"
    using b by (auto simp: same_state_def)
qed

lemma raise_automatic_moved:
  assumes "raise_automatic c i cause now a = Inr b" and "run_wf (current a)"
    and "open_incident (current a) = None" and "rn_state (current a) \<noteq> Run_State_Ended"
  shows "run_moved (run_shown_of (current a)) a b"
  using assms(1) run_raise_moved(1) [OF _ assms(2-4)] by (simp add: raise_automatic_def)

lemma raise_hold_screen_moved:
  assumes "raise_hold_screen_if_feed_lost c i now a = Inr (b, m)" and "run_wf (current a)"
  shows "run_moved (run_shown_of (current a)) a b" and "\<not> m \<Longrightarrow> b = a"
proof -
  have "b = a \<and> \<not> m \<or> open_incident (current a) = None \<and> rn_state (current a) = Run_On_Air \<and>
      raise_automatic c i Cause_Venue_Feed_Lost now a = Inr b \<and> m"
    using assms(1) by (auto simp: raise_hold_screen_if_feed_lost_def feed_lost_for_def result_simps split: if_splits)
  then show "run_moved (run_shown_of (current a)) a b" "\<not> m \<Longrightarrow> b = a"
    using raise_automatic_moved [OF _ assms(2)] run_moved_refl [OF assms(2) refl] by auto
qed

lemma raise_worker_failure_moved:
  assumes "raise_worker_failure c i now a = Inr (b, m)" and "run_wf (current a)"
  shows "run_moved (run_shown_of (current a)) a b" and "\<not> m \<Longrightarrow> b = a"
  using assms(1) raise_automatic_moved [OF _ assms(2)] run_moved_refl [OF assms(2) refl]
  by (auto simp: raise_worker_failure_def result_simps split: if_splits)

text \<open>The publisher's return tells one who was told it is gone that it is back.\<close>

lemma publisher_back_moved:
  assumes "publisher_back c g now a = Inr b" and "run_wf (current a)" and "\<not> rn_after_grace_period (current a)"
  shows "run_moved (run_shown_of ((current a)\<lparr>rn_after_grace_period := g\<rparr>)) a b"
proof -
  let ?s = "current a"
  consider i where "open_incident ?s = Some i" "run_resolve c i SYSTEM_ACTOR g now a = Inr b"
    | "b = (if g then apply_state_changed now a else a)"
  proof (cases "open_incident ?s")
    case None
    with assms(1) that show ?thesis by (simp add: publisher_back_def)
  next
    case (Some i)
    with assms(1) that show ?thesis
      by (cases "hold_screen_lifts_on_feed_return c i") (simp_all add: publisher_back_def)
  qed
  then show ?thesis
  proof cases
    case 1
    from run_resolve_moved(1) [OF 1(2) assms(2) 1(1)] assms(3) show ?thesis by simp
  next
    case 2
    with assms(2,3) show ?thesis by (auto simp: run_moved_def run_shown_of_def)
  qed
qed

lemma prepare_run_wf:
  "run_wf (current (prepare_run r now))" "run_shown_of (current (prepare_run r now)) = (Run_Idle, None, False)"
  by (simp_all add: prepare_run_def run_wf_def run_shown_of_def open_incident_def)

end
