(* ===== verification/Stream_Desk.thy ===== *)
theory Stream_Desk
  imports Stream_Run_Props "HOL-Library.List_Lexorder" "HOL-Library.Char_ord"
begin

text \<open>
  Streaming's run desk (\<open>apps/streaming/src/run\<close>): its tables and its repository, the outbox rows of a
  run's events, the preparation of a run, the studio's commands, the provider's reports of a feed and the
  sweeper's passes. Each transaction is a function of the tables it finds; one that throws leaves them.
\<close>

section \<open>Tables\<close>

record run_row =
  rr_id :: ident
  rr_date_id :: ident
  rr_channel_id :: ident
  rr_state :: run_state
  rr_stream_path :: string
  rr_ingest_protocol :: ingest_protocol
  rr_monitor_path :: monitor_path
  rr_technical_check_passed_at :: "instant option"
  rr_started_at :: "instant option"
  rr_ended_at :: "instant option"
  rr_publisher_online_since :: "instant option"
  rr_publisher_lost_at :: "instant option"
  rr_after_grace_period :: bool
  rr_version :: int

record incident_row =
  ir_id :: ident
  ir_run_id :: ident
  ir_date_id :: ident
  ir_kind :: incident_kind
  ir_cause :: incident_cause
  ir_trigger :: incident_trigger
  ir_message_language :: "string option"
  ir_message_text :: "string option"
  ir_raised_at :: instant
  ir_raised_by :: "ident option"
  ir_resolved_at :: "instant option"
  ir_resolved_by :: "ident option"

record stream_key_row =
  sk_run_id :: ident
  sk_generation :: int
  sk_digest :: string
  sk_created_at :: instant
  sk_retired_at :: "instant option"

datatype stream_event_type =
    Type_Technical_Check_Passed | Type_Run_Started | Type_Run_Ended | Type_Run_State_Changed
  | Type_Incident_Raised | Type_Incident_Resolved | Type_Replay_Asset_Ready | Type_Replay_Expired

text \<open>The Protobuf messages before their encoding to bytes, with the domain's members for the wire's numbers.\<close>

datatype stream_message =
    Technical_Check_Passed_Message ident ident ingest_protocol instant run_actor
  | Run_Started_Message ident ident ingest_protocol monitor_path instant run_actor
  | Run_Ended_Message ident ident instant int instant run_actor
  | Run_State_Changed_Message ident run_state "incident_cause option" bool instant
  | Incident_Raised_Message ident ident ident incident_kind incident_cause incident_trigger
      "incident_message option" instant run_actor
  | Incident_Resolved_Message ident ident instant run_actor
  | Replay_Asset_Ready_Message ident ident int instant instant instant
  | Replay_Expired_Message ident instant

record stream_outbox_row =
  sx_topic :: string
  sx_type :: stream_event_type
  sx_key :: ident
  sx_payload :: stream_message
  sx_traceparent :: "string option"
  sx_occurred_at :: instant

record stream_db =
  sd_runs :: "run_row list"
  sd_incidents :: "incident_row list"
  sd_keys :: "stream_key_row list"
  sd_outbox :: "stream_outbox_row list"
  sd_processed :: "ident list"

definition run_check :: "run_row \<Rightarrow> bool" where
  "run_check r \<longleftrightarrow> 1 \<le> rr_version r \<and> (rr_state r = Run_State_Ended) = (rr_ended_at r \<noteq> None)"

definition incident_check :: "incident_row \<Rightarrow> bool" where
  "incident_check r \<longleftrightarrow>
     (case ir_message_text r of None \<Rightarrow> True | Some text \<Rightarrow> length text \<le> 400) \<and>
     (ir_message_language r = None) = (ir_message_text r = None)"

section \<open>The repository\<close>

type_synonym tracked_run = "(run_snapshot, run_event) tracked"

definition incident_snapshot_of :: "incident_row \<Rightarrow> incident_snapshot" where
  "incident_snapshot_of r = \<lparr>ic_id = ir_id r, ic_kind = ir_kind r, ic_cause = ir_cause r, ic_trigger = ir_trigger r,
     ic_message = (case (ir_message_language r, ir_message_text r) of
        (Some language, Some text) \<Rightarrow> Some \<lparr>im_content_language = language, im_text = text\<rparr>
      | _ \<Rightarrow> None),
     ic_raised_at = ir_raised_at r, ic_raised_by = ir_raised_by r, ic_resolved_at = ir_resolved_at r,
     ic_resolved_by = ir_resolved_by r\<rparr>"

definition run_snapshot_of :: "run_row \<Rightarrow> incident_row option \<Rightarrow> run_snapshot" where
  "run_snapshot_of r incident = \<lparr>rn_run_id = rr_id r, rn_date_id = rr_date_id r, rn_channel_id = rr_channel_id r,
     rn_state = rr_state r, rn_stream_path = rr_stream_path r, rn_ingest_protocol = rr_ingest_protocol r,
     rn_monitor_path = rr_monitor_path r, rn_technical_check_passed_at = rr_technical_check_passed_at r,
     rn_started_at = rr_started_at r, rn_ended_at = rr_ended_at r,
     rn_publisher_online_since = rr_publisher_online_since r, rn_publisher_lost_at = rr_publisher_lost_at r,
     rn_after_grace_period = rr_after_grace_period r, rn_incident = map_option incident_snapshot_of incident,
     rn_version = rr_version r\<rparr>"

definition open_incident_row :: "ident \<Rightarrow> stream_db \<Rightarrow> incident_row option" where
  "open_incident_row run_id db = find (\<lambda>i. ir_run_id i = run_id \<and> ir_resolved_at i = None) (sd_incidents db)"

text \<open>\<open>findByDate\<close>, \<open>findById\<close>, \<open>findByStreamPath\<close> by their column; the row's lock is held to the commit.\<close>

definition find_run :: "(run_row \<Rightarrow> 'k) \<Rightarrow> 'k \<Rightarrow> stream_db \<Rightarrow> tracked_run option" where
  "find_run column key db =
     map_option (\<lambda>r. loaded (restore (run_snapshot_of r (open_incident_row (rr_id r) db))) (rr_version r))
       (tbl_find column key (sd_runs db))"

text \<open>A pass's claim: none when another transaction holds the row.\<close>

definition claim_run :: "(ident \<Rightarrow> bool) \<Rightarrow> ident \<Rightarrow> stream_db \<Rightarrow> tracked_run option" where
  "claim_run locked run_id db = (if locked run_id then None else find_run rr_id run_id db)"

text \<open>The columns an insert leaves out are null.\<close>

definition add_run :: "run \<Rightarrow> stream_db \<Rightarrow> (bool \<times> stream_db) stream_result" where
  "add_run a db =
     (let s = current a in
      if list_ex (\<lambda>r. rr_date_id r = rn_date_id s) (sd_runs db) then Inr (False, db)
      else if list_ex (\<lambda>r. rr_id r = rn_run_id s \<or> rr_stream_path r = rn_stream_path s) (sd_runs db)
      then Inl (Stream_Constraint ''run'')
      else
        let row = \<lparr>rr_id = rn_run_id s, rr_date_id = rn_date_id s, rr_channel_id = rn_channel_id s,
              rr_state = rn_state s, rr_stream_path = rn_stream_path s, rr_ingest_protocol = rn_ingest_protocol s,
              rr_monitor_path = rn_monitor_path s, rr_technical_check_passed_at = None, rr_started_at = None,
              rr_ended_at = None, rr_publisher_online_since = None, rr_publisher_lost_at = None,
              rr_after_grace_period = rn_after_grace_period s, rr_version = rn_version s\<rparr>
        in bindE (ensure (run_check row) (Stream_Constraint ''run_check'')) (\<lambda>_.
           Inr (True, db\<lparr>sd_runs := sd_runs db @ [row]\<rparr>)))"

definition state_columns_of :: "run_snapshot \<Rightarrow> run_row \<Rightarrow> run_row" where
  "state_columns_of s r = r\<lparr>rr_state := rn_state s, rr_technical_check_passed_at := rn_technical_check_passed_at s,
     rr_started_at := rn_started_at s, rr_ended_at := rn_ended_at s, rr_version := rn_version s\<rparr>"

definition incident_row_of :: "run_snapshot \<Rightarrow> incident_snapshot \<Rightarrow> incident_row" where
  "incident_row_of s i = \<lparr>ir_id = ic_id i, ir_run_id = rn_run_id s, ir_date_id = rn_date_id s, ir_kind = ic_kind i,
     ir_cause = ic_cause i, ir_trigger = ic_trigger i,
     ir_message_language = map_option im_content_language (ic_message i),
     ir_message_text = map_option im_text (ic_message i), ir_raised_at = ic_raised_at i,
     ir_raised_by = ic_raised_by i, ir_resolved_at = None, ir_resolved_by = None\<rparr>"

definition write_incident ::
    "run_snapshot \<Rightarrow> incident_snapshot \<Rightarrow> ident option \<Rightarrow> int \<Rightarrow> incident_row list \<Rightarrow> incident_row list stream_result" where
  "write_incident s i loaded_incident loaded_version t =
     (if Some (ic_id i) = loaded_incident then
        (case ic_resolved_at i of
           None \<Rightarrow> Inr t
         | Some at \<Rightarrow> Inr (tbl_update (\<lambda>r. ir_id r = ic_id i \<and> ir_resolved_at r = None)
             (\<lambda>r. r\<lparr>ir_resolved_at := Some at, ir_resolved_by := ic_resolved_by i\<rparr>) t))
      else
        let row = incident_row_of s i in
        bindE (ensure (incident_check row) (Stream_Constraint ''incident'')) (\<lambda>_.
        if list_ex (\<lambda>r. ir_id r = ir_id row \<or> (ir_run_id r = ir_run_id row \<and> ir_resolved_at r = None)) t
        then Inl (Run_Conflict loaded_version None)
        else Inr (t @ [row])))"

definition save_run_columns :: "run_snapshot \<Rightarrow> int \<Rightarrow> run_row list \<Rightarrow> run_row list stream_result" where
  "save_run_columns s loaded_version t =
     (let found = (\<lambda>r. rr_id r = rn_run_id s \<and> rr_version r = loaded_version) in
      if \<not> list_all (\<lambda>r. found r \<longrightarrow> run_check (state_columns_of s r)) t then Inl (Stream_Constraint ''run_check'')
      else if tbl_affected found t = 1 then Inr (tbl_update found (state_columns_of s) t)
      else case tbl_find rr_id (rn_run_id s) t of
          None \<Rightarrow> Inl (Stream_Defect ''EntityNotFoundError'')
        | Some cur \<Rightarrow> Inl (Run_Conflict (rr_version cur) (Some (rr_state cur))))"

definition save_run :: "tracked_run \<Rightarrow> stream_db \<Rightarrow> (tracked_run \<times> stream_db) stream_result" where
  "save_run t db =
     (let s = current (root t) in
      case (version_of t, stored t) of
        (Some loaded_version, Some was) \<Rightarrow>
          bindE (case rn_incident s of
              None \<Rightarrow> Inr (sd_incidents db)
            | Some i \<Rightarrow> write_incident s i (map_option ic_id (rn_incident was)) loaded_version (sd_incidents db)) (\<lambda>incidents.
          bindE (if rn_version s = loaded_version then Inr (sd_runs db)
                 else save_run_columns s loaded_version (sd_runs db)) (\<lambda>runs.
          let runs' = (if rn_after_grace_period s = rn_after_grace_period was then runs
                       else tbl_update (\<lambda>r. rr_id r = rn_run_id s)
                         (\<lambda>r. r\<lparr>rr_after_grace_period := rn_after_grace_period s\<rparr>) runs)
          in Inr (written (rn_version s) t, db\<lparr>sd_incidents := incidents, sd_runs := runs'\<rparr>)))
      | _ \<Rightarrow> Inl (Stream_Defect ''a run is saved by the transaction that loaded or added it''))"

section \<open>The outbox\<close>

definition STREAM_RUN_TOPIC :: string where
  "STREAM_RUN_TOPIC = ''streaming.run''"

fun wire_form_of :: "run_event \<Rightarrow> (stream_event_type \<times> stream_message) option" where
  "wire_form_of (RunPrepared _ _) = None"
| "wire_form_of (TechnicalCheckPassed date channel protocol checked_by at) =
     Some (Type_Technical_Check_Passed, Technical_Check_Passed_Message date channel protocol at checked_by)"
| "wire_form_of (RunStarted date channel protocol monitor_path started_by at) =
     Some (Type_Run_Started, Run_Started_Message date channel protocol monitor_path at started_by)"
| "wire_form_of (RunEnded date channel ended_at duration_sec ended_by at) =
     Some (Type_Run_Ended, Run_Ended_Message date channel ended_at duration_sec at ended_by)"
| "wire_form_of (RunStateChanged date state cause after_grace_period at) =
     Some (Type_Run_State_Changed, Run_State_Changed_Message date state cause after_grace_period at)"
| "wire_form_of (IncidentRaised date channel i raised_by at) =
     Some (Type_Incident_Raised, Incident_Raised_Message (ic_id i) date channel (ic_kind i) (ic_cause i) (ic_trigger i)
       (ic_message i) at raised_by)"
| "wire_form_of (IncidentResolved date incident_id resolved_by at) =
     Some (Type_Incident_Resolved, Incident_Resolved_Message incident_id date at resolved_by)"

fun run_event_at :: "run_event \<Rightarrow> instant" where
  "run_event_at (RunPrepared _ at) = at"
| "run_event_at (TechnicalCheckPassed _ _ _ _ at) = at"
| "run_event_at (RunStarted _ _ _ _ _ at) = at"
| "run_event_at (RunEnded _ _ _ _ _ at) = at"
| "run_event_at (RunStateChanged _ _ _ _ at) = at"
| "run_event_at (IncidentRaised _ _ _ _ at) = at"
| "run_event_at (IncidentResolved _ _ _ at) = at"

definition run_outbox_row :: "string option \<Rightarrow> run_event \<Rightarrow> stream_outbox_row option" where
  "run_outbox_row traceparent e =
     map_option (\<lambda>(type, payload). \<lparr>sx_topic = STREAM_RUN_TOPIC, sx_type = type, sx_key = run_event_date e,
       sx_payload = payload, sx_traceparent = traceparent, sx_occurred_at = run_event_at e\<rparr>) (wire_form_of e)"

definition record_run_events :: "run_event list \<Rightarrow> string option \<Rightarrow> stream_db \<Rightarrow> stream_db" where
  "record_run_events events traceparent db =
     db\<lparr>sd_outbox := sd_outbox db @ List.map_filter (run_outbox_row traceparent) events\<rparr>"

text \<open>The save and the rows every command ends with.\<close>

definition commit_run :: "tracked_run \<Rightarrow> string option \<Rightarrow> stream_db \<Rightarrow> stream_db stream_result" where
  "commit_run t traceparent db =
     bindE (save_run t db) (\<lambda>(t', db1). Inr (record_run_events (uncommitted (root t')) traceparent db1))"

section \<open>The preparation of a run\<close>

text \<open>
  \<open>newStreamPath\<close>, \<open>randomUUID\<close> and the digest of the derived key are drawn by the caller: the crypto
  functions of Node are an argument. \<open>digest_of\<close> is \<open>streamKeyDigestOf\<close> of \<open>streamKeyOf\<close> under the secret.
\<close>

datatype message_outcome = Message_Applied | Message_Duplicate | Message_Superseded

definition FIRST_STREAM_KEY_GENERATION :: int where
  "FIRST_STREAM_KEY_GENERATION = 1"

definition insert_stream_key :: "string \<Rightarrow> ident \<Rightarrow> int \<Rightarrow> instant \<Rightarrow> stream_db \<Rightarrow> stream_db stream_result" where
  "insert_stream_key digest run_id generation now db =
     bindE (ensure (1 \<le> generation \<and> \<not> list_ex (\<lambda>k. sk_run_id k = run_id \<and> (sk_generation k = generation \<or> sk_retired_at k = None) \<or>
              sk_digest k = digest) (sd_keys db)) (Stream_Constraint ''stream_key'')) (\<lambda>_.
     Inr (db\<lparr>sd_keys := sd_keys db @ [\<lparr>sk_run_id = run_id, sk_generation = generation, sk_digest = digest,
       sk_created_at = now, sk_retired_at = None\<rparr>]\<rparr>))"

definition claim_stream_message :: "ident \<Rightarrow> stream_db \<Rightarrow> bool \<times> stream_db" where
  "claim_stream_message message_id db =
     (if message_id \<in> set (sd_processed db) then (False, db)
      else (True, db\<lparr>sd_processed := sd_processed db @ [message_id]\<rparr>))"

definition prepare_run_in ::
    "(ident \<Rightarrow> int \<Rightarrow> string) \<Rightarrow> ident \<Rightarrow> run_to_prepare \<Rightarrow> string option \<Rightarrow> instant \<Rightarrow> stream_db
       \<Rightarrow> (message_outcome \<times> stream_db) stream_result" where
  "prepare_run_in digest_of message_id r traceparent now db =
     (case claim_stream_message message_id db of
        (False, db0) \<Rightarrow> Inr (Message_Duplicate, db0)
      | (True, db0) \<Rightarrow>
          let a = prepare_run r now in
          bindE (add_run a db0) (\<lambda>(added, db1).
          if \<not> added then Inr (Message_Superseded, db1)
          else bindE (insert_stream_key (digest_of (rt_run_id r) FIRST_STREAM_KEY_GENERATION) (rt_run_id r)
                   FIRST_STREAM_KEY_GENERATION now db1) (\<lambda>db2.
               Inr (Message_Applied, record_run_events (uncommitted a) traceparent db2))))"

section \<open>The studio's commands\<close>

text \<open>What the run desk reads of the date streaming projects, without a lock: an argument of the transaction.\<close>

record run_date_facts =
  rd_timing :: "date_timing option"
  rd_publication_state :: "publication_state option"

datatype run_move_target = To_Idle | To_Rehearsal | To_On_Air | To_Ended

record studio_incident =
  si_id :: ident
  si_kind :: incident_kind
  si_cause :: incident_cause
  si_trigger :: incident_trigger
  si_message :: "incident_message option"
  si_raised_at :: instant

record health_sample =
  hs_measured_at :: instant
  hs_source :: string
  hs_ingest_up_kbps :: int
  hs_jitter_ms :: "int option"
  hs_lost_packets :: "int option"

record run_console =
  rk_date_id :: ident
  rk_state :: run_state
  rk_after_grace_period :: bool
  rk_ingest_protocol :: ingest_protocol
  rk_monitor_path :: monitor_path
  rk_monitor_url :: "string option"
  rk_started_at :: "instant option"
  rk_last_sample :: "health_sample option"
  rk_incident :: "studio_incident option"
  rk_version :: int

definition studio_incident_of :: "incident_snapshot \<Rightarrow> studio_incident" where
  "studio_incident_of i = \<lparr>si_id = ic_id i, si_kind = ic_kind i, si_cause = ic_cause i, si_trigger = ic_trigger i,
     si_message = ic_message i, si_raised_at = ic_raised_at i\<rparr>"

definition health_sample_of :: "feed_sample \<Rightarrow> health_sample" where
  "health_sample_of f = \<lparr>hs_measured_at = fd_measured_at f, hs_source = ''ingest_server'',
     hs_ingest_up_kbps = fd_ingest_up_kbps f, hs_jitter_ms = fd_jitter_ms f, hs_lost_packets = fd_lost_packets f\<rparr>"

definition run_console_of ::
    "run_snapshot \<Rightarrow> incident_snapshot option \<Rightarrow> live_ingest_provider \<Rightarrow> feed_sample option \<Rightarrow> run_console" where
  "run_console_of s still ingest sample = \<lparr>rk_date_id = rn_date_id s, rk_state = rn_state s,
     rk_after_grace_period = rn_after_grace_period s, rk_ingest_protocol = rn_ingest_protocol s,
     rk_monitor_path = rn_monitor_path s,
     rk_monitor_url = ip_monitor_url_for ingest (rn_monitor_path s) (rn_stream_path s),
     rk_started_at = rn_started_at s, rk_last_sample = map_option health_sample_of sample,
     rk_incident = map_option studio_incident_of still, rk_version = rn_version s\<rparr>"

definition move_run_in ::
    "run_core \<Rightarrow> live_ingest_provider \<Rightarrow> run_date_facts option \<Rightarrow> ident \<Rightarrow> run_move_target \<Rightarrow> int \<Rightarrow> run_actor
       \<Rightarrow> string option \<Rightarrow> instant \<Rightarrow> stream_db \<Rightarrow> ((run_console \<times> int) \<times> stream_db) stream_result" where
  "move_run_in c ingest facts date_id to expected actor traceparent now db =
     (case find_run rr_date_id date_id db of
        None \<Rightarrow> Inl Run_Not_Found
      | Some t \<Rightarrow>
          bindE (case to of
              To_Idle \<Rightarrow> run_reset c expected now (root t)
            | To_Rehearsal \<Rightarrow> rehearse c expected now (root t)
            | To_On_Air \<Rightarrow> go_on_air c expected (Option.bind facts rd_publication_state) actor now (root t)
            | To_Ended \<Rightarrow> run_end c expected actor now (root t)) (\<lambda>a.
          bindE (commit_run (with_root a t) traceparent db) (\<lambda>db1.
          Inr ((run_console_of (current a) (open_incident (current a)) ingest None, rn_version (current a)), db1))))"

record technical_check_answer =
  ta_passed :: bool
  ta_passed_at :: "instant option"
  ta_failures :: "technical_check_failure list"
  ta_sample :: "health_sample option"

text \<open>\<open>sample\<close> is what the metrics provider answered within the deadline, read before the transaction.\<close>

definition check_run_in ::
    "run_core \<Rightarrow> live_ingest_provider \<Rightarrow> feed_sample option \<Rightarrow> ident \<Rightarrow> run_actor \<Rightarrow> string option \<Rightarrow> instant
       \<Rightarrow> stream_db \<Rightarrow> ((technical_check_answer \<times> int) \<times> stream_db) stream_result" where
  "check_run_in c ingest sample date_id actor traceparent now db =
     (case find_run rr_date_id date_id db of
        None \<Rightarrow> Inl Run_Not_Found
      | Some t \<Rightarrow>
          let failures = technical_check_failures_of c \<lparr>tp_feed_received = (sample \<noteq> None),
                tp_codec_carried = (case sample of None \<Rightarrow> False | Some f \<Rightarrow> codecs_carried (ip_capabilities ingest) f),
                tp_bitrate_kbps = map_option fd_ingest_up_kbps sample\<rparr> (bitrate_floor_kbps c);
              protocol = (case sample of None \<Rightarrow> rn_ingest_protocol (current (root t)) | Some f \<Rightarrow> fd_protocol f)
          in bindE (run_technical_check failures protocol actor now (root t)) (\<lambda>(a, passed).
             bindE (commit_run (with_root a t) traceparent db) (\<lambda>db1.
             Inr ((\<lparr>ta_passed = passed, ta_passed_at = (if passed then Some now else None), ta_failures = failures,
               ta_sample = map_option health_sample_of sample\<rparr>, rn_version (current a)), db1))))"

definition check_run ::
    "run_core \<Rightarrow> live_ingest_provider \<Rightarrow> (string \<Rightarrow> feed_sample option stream_result) \<Rightarrow> stream_db \<Rightarrow> ident \<Rightarrow> run_actor
       \<Rightarrow> string option \<Rightarrow> instant \<Rightarrow> stream_db \<Rightarrow> ((technical_check_answer \<times> int) \<times> stream_db) stream_result" where
  "check_run c ingest sample_within seen date_id actor traceparent now db =
     (case tbl_find rr_date_id date_id (sd_runs seen) of
        None \<Rightarrow> Inl Run_Not_Found
      | Some prepared \<Rightarrow>
          bindE (sample_within (rr_stream_path prepared)) (\<lambda>sample.
          check_run_in c ingest sample date_id actor traceparent now db))"

definition raise_incident_in ::
    "run_core \<Rightarrow> ident \<Rightarrow> raised_incident \<Rightarrow> run_actor \<Rightarrow> string option \<Rightarrow> instant \<Rightarrow> stream_db
       \<Rightarrow> (studio_incident \<times> stream_db) stream_result" where
  "raise_incident_in c date_id raised actor traceparent now db =
     (case find_run rr_date_id date_id db of
        None \<Rightarrow> Inl Run_Not_Found
      | Some t \<Rightarrow>
          bindE (raise_incident c raised actor now (root t)) (\<lambda>a.
          bindE (commit_run (with_root a t) traceparent db) (\<lambda>db1.
          case open_incident (current a) of
            None \<Rightarrow> Inl (Stream_Defect ''an incident raised is the open one'')
          | Some i \<Rightarrow> Inr (studio_incident_of i, db1))))"

text \<open>An incident is located without a lock, in \<open>seen\<close>; one already resolved answers its resolution.\<close>

definition resolve_incident_in ::
    "run_core \<Rightarrow> stream_db \<Rightarrow> ident \<Rightarrow> run_actor \<Rightarrow> string option \<Rightarrow> instant \<Rightarrow> stream_db
       \<Rightarrow> (instant option \<times> stream_db) stream_result" where
  "resolve_incident_in c seen incident_id actor traceparent now db =
     (case tbl_find ir_id incident_id (sd_incidents seen) of
        None \<Rightarrow> Inl Run_Not_Found
      | Some located \<Rightarrow>
          let as_committed = (case tbl_find ir_id incident_id (sd_incidents db) of
                None \<Rightarrow> Inl (Stream_Defect ''EntityNotFoundError'')
              | Some resolved \<Rightarrow> Inr (ir_resolved_at resolved, db))
          in case find_run rr_id (ir_run_id located) db of
               None \<Rightarrow> as_committed
             | Some t \<Rightarrow>
                 bindE (resolve_incident c incident_id actor now (root t)) (\<lambda>(a, moved).
                 if \<not> moved then as_committed
                 else bindE (commit_run (with_root a t) traceparent db) (\<lambda>db1. Inr (Some now, db1))))"

text \<open>The console as committed, with no lock.\<close>

definition console_of ::
    "live_ingest_provider \<Rightarrow> (string \<Rightarrow> feed_sample option stream_result) \<Rightarrow> ident \<Rightarrow> stream_db \<Rightarrow> run_console option stream_result" where
  "console_of ingest sample_within date_id db =
     (case tbl_find rr_date_id date_id (sd_runs db) of
        None \<Rightarrow> Inr None
      | Some r \<Rightarrow>
          let incident = open_incident_row (rr_id r) db; s = run_snapshot_of r incident
          in bindE (sample_within (rn_stream_path s)) (\<lambda>sample.
             Inr (Some (run_console_of s (map_option incident_snapshot_of incident) ingest sample))))"

section \<open>The provider's reports\<close>

text \<open>The run on a path and whether it is reported online at that very instant already.\<close>

definition publisher_online ::
    "run_core \<Rightarrow> live_ingest_provider \<Rightarrow> string \<Rightarrow> ingest_protocol \<Rightarrow> instant \<Rightarrow> stream_db \<Rightarrow> stream_db stream_result" where
  "publisher_online c ingest stream_path protocol at db =
     (case tbl_find rr_stream_path stream_path (sd_runs db) of
        None \<Rightarrow> Inr db
      | Some r \<Rightarrow>
          if rr_publisher_online_since r = Some at then Inr db
          else if rr_state r = Run_State_Ended \<or>
                  (case rr_publisher_lost_at r of None \<Rightarrow> False | Some lost \<Rightarrow> at < lost) then Inr db
          else
            let db1 = db\<lparr>sd_runs := tbl_update (\<lambda>x. rr_id x = rr_id r)
                  (\<lambda>x. x\<lparr>rr_publisher_online_since := Some at, rr_ingest_protocol := protocol,
                     rr_monitor_path := monitor_path_of protocol (ip_capabilities ingest),
                     rr_after_grace_period := False\<rparr>) (sd_runs db)\<rparr>
            in case find_run rr_id (rr_id r) db1 of
                 None \<Rightarrow> Inr db1
               | Some t \<Rightarrow>
                   bindE (publisher_back c (rr_after_grace_period r) at (root t)) (\<lambda>a.
                   commit_run (with_root a t) None db1))"

definition publisher_offline :: "string \<Rightarrow> instant \<Rightarrow> instant \<Rightarrow> stream_db \<Rightarrow> stream_db" where
  "publisher_offline stream_path online_since at db =
     db\<lparr>sd_runs := tbl_update (\<lambda>r. rr_stream_path r = stream_path \<and> rr_publisher_online_since r = Some online_since)
       (\<lambda>r. r\<lparr>rr_publisher_online_since := None, rr_publisher_lost_at := Some at\<rparr>) (sd_runs db)\<rparr>"

definition worker_failed ::
    "run_core \<Rightarrow> ident \<Rightarrow> string \<Rightarrow> bool \<Rightarrow> instant \<Rightarrow> stream_db \<Rightarrow> stream_db stream_result" where
  "worker_failed c incident_id stream_path final at db =
     (if \<not> final then Inr db
      else case find_run rr_stream_path stream_path db of
          None \<Rightarrow> Inr db
        | Some t \<Rightarrow>
            bindE (raise_worker_failure c incident_id at (root t)) (\<lambda>(a, raised).
            if \<not> raised then Inr db else commit_run (with_root a t) None db))"

datatype ingest_refusal = Unknown_Path | Key_Not_Current | Refused_Run_Ended | Refused_Publisher_Online

text \<open>Whether a feed is accepted, decided on the digest of the key it presents.\<close>

definition authorize_ingest :: "string \<Rightarrow> string \<Rightarrow> stream_db \<Rightarrow> ingest_refusal option" where
  "authorize_ingest stream_path presented_digest db =
     (case tbl_find rr_stream_path stream_path (sd_runs db) of
        None \<Rightarrow> Some Unknown_Path
      | Some r \<Rightarrow>
          (case find (\<lambda>k. sk_run_id k = rr_id r \<and> sk_retired_at k = None) (sd_keys db) of
             None \<Rightarrow> Some Key_Not_Current
           | Some k \<Rightarrow>
               if presented_digest \<noteq> sk_digest k then Some Key_Not_Current
               else if rr_state r = Run_State_Ended then Some Refused_Run_Ended
               else if rr_publisher_online_since r \<noteq> None then Some Refused_Publisher_Online
               else None))"

section \<open>The passes\<close>

definition RUN_PASS_BATCH :: nat where
  "RUN_PASS_BATCH = 100"

text \<open>\<open>PRESENCE_DUE_SQL\<close>: on air with no publisher, lost long enough.\<close>

definition presence_due :: "run_core \<Rightarrow> instant \<Rightarrow> nat \<Rightarrow> stream_db \<Rightarrow> ident list" where
  "presence_due c now batch db =
     map rr_id (take batch (sort_key (\<lambda>r. the (rr_publisher_lost_at r))
       (filter (\<lambda>r. rr_state r = Run_On_Air \<and> rr_publisher_online_since r = None \<and>
          (case rr_publisher_lost_at r of
             None \<Rightarrow> False
           | Some lost \<Rightarrow> lost \<le> plus_seconds c now (- publisher_grace_seconds c) \<and>
               (\<not> rr_after_grace_period r \<or> lost \<le> plus_seconds c now (- hold_screen_auto_after_seconds c))))
          (sd_runs db))))"

definition sweep_presence_in ::
    "run_core \<Rightarrow> (ident \<Rightarrow> bool) \<Rightarrow> ident \<Rightarrow> ident \<Rightarrow> instant \<Rightarrow> stream_db \<Rightarrow> (bool \<times> stream_db) stream_result" where
  "sweep_presence_in c locked incident_id run_id now db =
     (case claim_run locked run_id db of
        None \<Rightarrow> Inr (False, db)
      | Some t \<Rightarrow>
          let (a, gone) = declare_publisher_gone c now (root t) in
          bindE (raise_hold_screen_if_feed_lost c incident_id now a) (\<lambda>(b, veiled).
          if \<not> gone \<and> \<not> veiled then Inr (False, db)
          else bindE (commit_run (with_root b t) None db) (\<lambda>db1. Inr (True, db1))))"

text \<open>A pass is its transactions one after the other; one that throws ends it with what the others committed.\<close>

fun run_each :: "('i \<Rightarrow> 's \<Rightarrow> (bool \<times> 's) stream_result) \<Rightarrow> 'i list \<Rightarrow> 's \<Rightarrow> nat stream_result \<times> 's" where
  "run_each f [] db = (Inr 0, db)"
| "run_each f (i # is) db =
     (case f i db of
        Inl e \<Rightarrow> (Inl e, db)
      | Inr (moved, db1) \<Rightarrow>
          let (n, db2) = run_each f is db1
          in (bindE n (\<lambda>k. Inr (if moved then Suc k else k)), db2))"

definition sweep_run_presence ::
    "run_core \<Rightarrow> (ident \<Rightarrow> bool) \<Rightarrow> (ident \<Rightarrow> ident) \<Rightarrow> instant \<Rightarrow> nat \<Rightarrow> stream_db \<Rightarrow> nat stream_result \<times> stream_db" where
  "sweep_run_presence c locked fresh now batch db =
     run_each (\<lambda>i. sweep_presence_in c locked (fresh i) i now) (presence_due c now batch db) db"

text \<open>\<open>LIVE_RUNS_SQL\<close>: the page of live runs with no publisher after a date.\<close>

definition live_runs :: "ident option \<Rightarrow> nat \<Rightarrow> stream_db \<Rightarrow> run_row list" where
  "live_runs after batch db =
     take batch (sort_key rr_date_id
       (filter (\<lambda>r. (rr_state r = Run_On_Air \<or> rr_state r = Run_Interrupted) \<and> rr_publisher_online_since r = None \<and>
          (case after of None \<Rightarrow> True | Some d \<Rightarrow> d < rr_date_id r)) (sd_runs db)))"

definition end_run_in ::
    "run_core \<Rightarrow> (ident \<Rightarrow> bool) \<Rightarrow> (ident \<Rightarrow> run_date_facts option) \<Rightarrow> run_row \<Rightarrow> instant \<Rightarrow> stream_db
       \<Rightarrow> (bool \<times> stream_db) stream_result" where
  "end_run_in c locked facts candidate now db =
     (case (claim_run locked (rr_id candidate) db, Option.bind (facts (rr_date_id candidate)) rd_timing) of
        (Some t, Some timing) \<Rightarrow>
          bindE (end_by_itself c (timing_ends_at c timing) now (root t)) (\<lambda>(a, ended).
          if \<not> ended then Inr (False, db)
          else bindE (commit_run (with_root a t) None db) (\<lambda>db1. Inr (True, db1)))
      | _ \<Rightarrow> Inr (False, db))"

definition end_if_due ::
    "run_core \<Rightarrow> (ident \<Rightarrow> bool) \<Rightarrow> (ident \<Rightarrow> run_date_facts option) \<Rightarrow> instant \<Rightarrow> run_row \<Rightarrow> stream_db
       \<Rightarrow> (bool \<times> stream_db) stream_result" where
  "end_if_due c locked facts now candidate db =
     (case Option.bind (facts (rr_date_id candidate)) rd_timing of
        None \<Rightarrow> Inr (False, db)
      | Some timing \<Rightarrow>
          (case run_auto_ends_at c (timing_ends_at c timing) (rr_publisher_lost_at candidate) False of
             None \<Rightarrow> Inr (False, db)
           | Some ends \<Rightarrow>
               if is_after c ends now then Inr (False, db) else end_run_in c locked facts candidate now db))"

partial_function (option) end_runs_from ::
    "run_core \<Rightarrow> (ident \<Rightarrow> bool) \<Rightarrow> (ident \<Rightarrow> run_date_facts option) \<Rightarrow> instant \<Rightarrow> nat \<Rightarrow> ident option \<Rightarrow> nat \<Rightarrow> stream_db
       \<Rightarrow> (nat stream_result \<times> stream_db) option" where
  "end_runs_from c locked facts now batch after ended db =
     (let live = live_runs after batch db in
      case run_each (end_if_due c locked facts now) live db of
        (Inl e, db1) \<Rightarrow> Some (Inl e, db1)
      | (Inr n, db1) \<Rightarrow>
          if live = [] \<or> length live < batch then Some (Inr (ended + n), db1)
          else end_runs_from c locked facts now batch (Some (rr_date_id (last live))) (ended + n) db1)"

definition end_runs_by_themselves ::
    "run_core \<Rightarrow> (ident \<Rightarrow> bool) \<Rightarrow> (ident \<Rightarrow> run_date_facts option) \<Rightarrow> instant \<Rightarrow> nat \<Rightarrow> stream_db
       \<Rightarrow> (nat stream_result \<times> stream_db) option" where
  "end_runs_by_themselves c locked facts now batch db = end_runs_from c locked facts now batch None 0 db"

end
