(* ===== verification/Stream_System.thy ===== *)
theory Stream_System
  imports Stream_Desk
begin

text \<open>
  The run desk's transactions as steps of its tables, and what every state they reach keeps: each run
  is consistent with its open incident, and the rows of its date in the outbox tell its state.
\<close>

section \<open>Views\<close>

definition run_at :: "stream_db \<Rightarrow> ident \<Rightarrow> run_snapshot option" where
  "run_at db i = map_option (\<lambda>r. run_snapshot_of r (open_incident_row i db)) (tbl_find rr_id i (sd_runs db))"

fun message_told :: "stream_message \<Rightarrow> run_shown \<Rightarrow> run_shown" where
  "message_told (Run_State_Changed_Message _ state cause after_grace _) x = (state, cause, after_grace)"
| "message_told _ x = x"

text \<open>What one who read every row keyed by a date knows of its run.\<close>

definition run_told_of :: "ident \<Rightarrow> stream_outbox_row list \<Rightarrow> run_shown" where
  "run_told_of date_id rows =
     fold message_told (map sx_payload (filter (\<lambda>x. sx_key x = date_id) rows)) (Run_Idle, None, False)"

text \<open>One open incident per run.\<close>

definition incidents_keyed :: "incident_row list \<Rightarrow> bool" where
  "incidents_keyed t \<longleftrightarrow> distinct (map ir_id t) \<and> distinct (map ir_run_id (filter (\<lambda>x. ir_resolved_at x = None) t))"

definition stream_keyed :: "stream_db \<Rightarrow> bool" where
  "stream_keyed db \<longleftrightarrow> distinct (map rr_id (sd_runs db)) \<and> distinct (map rr_date_id (sd_runs db)) \<and>
     distinct (map rr_stream_path (sd_runs db)) \<and> incidents_keyed (sd_incidents db) \<and>
     ir_run_id ` set (sd_incidents db) \<subseteq> rr_id ` set (sd_runs db) \<and>
     sx_key ` set (sd_outbox db) \<subseteq> rr_date_id ` set (sd_runs db)"

definition stream_ok :: "stream_db \<Rightarrow> bool" where
  "stream_ok db \<longleftrightarrow> stream_keyed db \<and>
     (\<forall>i s. run_at db i = Some s \<longrightarrow> run_wf s \<and> run_told_of (rn_date_id s) (sd_outbox db) = run_shown_of s)"

lemma stream_keyedD:
  assumes "stream_keyed db"
  shows "distinct (map rr_id (sd_runs db))" "distinct (map rr_date_id (sd_runs db))"
    "distinct (map rr_stream_path (sd_runs db))" "incidents_keyed (sd_incidents db)"
    "ir_run_id ` set (sd_incidents db) \<subseteq> rr_id ` set (sd_runs db)"
    "sx_key ` set (sd_outbox db) \<subseteq> rr_date_id ` set (sd_runs db)"
  using assms by (simp_all add: stream_keyed_def)

text \<open>A run with the incident it has resolved left out, as it is loaded again.\<close>

definition run_reloaded :: "run_snapshot \<Rightarrow> run_snapshot" where
  "run_reloaded s = s\<lparr>rn_incident := open_incident s\<rparr>"

lemma open_incident_reloaded [simp]: "open_incident (run_reloaded s) = open_incident s"
  by (simp add: run_reloaded_def open_incident_def split: option.split)

lemma run_reloaded_same [simp]:
  "run_wf (run_reloaded s) = run_wf s" "run_shown_of (run_reloaded s) = run_shown_of s"
  "rn_date_id (run_reloaded s) = rn_date_id s" "rn_run_id (run_reloaded s) = rn_run_id s"
  unfolding run_wf_def run_shown_of_def open_incident_reloaded by (simp_all add: run_reloaded_def)

section \<open>Incidents\<close>

definition opened_incident :: "ident \<Rightarrow> incident_row list \<Rightarrow> incident_row option" where
  "opened_incident i t = find (\<lambda>x. ir_run_id x = i \<and> ir_resolved_at x = None) t"

lemma open_incident_row_opened: "open_incident_row i db = opened_incident i (sd_incidents db)"
  by (simp add: open_incident_row_def opened_incident_def)

lemma opened_incident_SomeD:
  "opened_incident i t = Some x \<Longrightarrow> x \<in> set t \<and> ir_run_id x = i \<and> ir_resolved_at x = None"
  unfolding opened_incident_def by (metis (mono_tags, lifting) find_Some_iff nth_mem)

lemma opened_incident_iff:
  assumes "incidents_keyed t"
  shows "opened_incident i t = Some x \<longleftrightarrow> x \<in> set t \<and> ir_run_id x = i \<and> ir_resolved_at x = None"
proof
  assume r: "x \<in> set t \<and> ir_run_id x = i \<and> ir_resolved_at x = None"
  then obtain y where y: "opened_incident i t = Some y"
    by (cases "opened_incident i t") (auto simp: opened_incident_def find_None_iff)
  from opened_incident_SomeD [OF y] r assms have "y = x"
    by (auto simp: incidents_keyed_def distinct_map inj_on_def)
  with y show "opened_incident i t = Some x" by simp
qed (rule opened_incident_SomeD)

lemma opened_incident_None: "opened_incident i t = None \<longleftrightarrow> (\<forall>x \<in> set t. ir_run_id x = i \<longrightarrow> ir_resolved_at x \<noteq> None)"
  by (auto simp: opened_incident_def find_None_iff)

lemma opened_incident_append:
  "opened_incident i (t @ [x]) =
    (case opened_incident i t of None \<Rightarrow> if ir_run_id x = i \<and> ir_resolved_at x = None then Some x else None | Some y \<Rightarrow> Some y)"
  by (induction t) (simp_all add: opened_incident_def)

text \<open>The open incident of a run resolved: none is open there, the others are as they were.\<close>

lemma incident_resolved_opened:
  assumes keyed: "incidents_keyed t" and y: "opened_incident i t = Some y"
    and t': "t' = tbl_update (\<lambda>x. ir_id x = ir_id y \<and> ir_resolved_at x = None)
      (\<lambda>x. x\<lparr>ir_resolved_at := Some at, ir_resolved_by := b\<rparr>) t"
  shows "incidents_keyed t'" and "opened_incident j t' = (if j = i then None else opened_incident j t)"
    and "ir_run_id ` set t' = ir_run_id ` set t"
proof -
  let ?p = "\<lambda>x. ir_id x = ir_id y \<and> ir_resolved_at x = None"
  note yD = opened_incident_SomeD [OF y]
  have only: "x = y" if "x \<in> set t" "ir_id x = ir_id y" for x
    using keyed that yD by (auto simp: incidents_keyed_def distinct_map inj_on_def)
  have ids: "map ir_id t' = map ir_id t" "map ir_run_id t' = map ir_run_id t"
    unfolding t' by (simp_all add: map_tbl_update_same)
  have left: "filter (\<lambda>x. ir_resolved_at x = None) t' = filter (\<lambda>x. ir_resolved_at x = None \<and> ir_id x \<noteq> ir_id y) t"
    unfolding t' by (induction t) auto
  then have "filter (\<lambda>x. ir_resolved_at x = None) t' =
      filter (\<lambda>x. ir_id x \<noteq> ir_id y) (filter (\<lambda>x. ir_resolved_at x = None) t)" by (simp add: conj_commute)
  then have "distinct (map ir_run_id (filter (\<lambda>x. ir_resolved_at x = None) t'))"
    using keyed by (simp only: incidents_keyed_def) (rule distinct_map_filter, simp)
  then show keyed': "incidents_keyed t'" using keyed ids by (simp add: incidents_keyed_def)
  have "x \<in> set t' \<and> ir_resolved_at x = None \<longleftrightarrow> x \<in> set t \<and> ir_resolved_at x = None \<and> x \<noteq> y" for x
    using arg_cong [OF left, of set] only by (auto simp: set_eq_iff)
  then have opens: "opened_incident j t' = Some x \<longleftrightarrow> opened_incident j t = Some x \<and> x \<noteq> y" for x
    using opened_incident_iff [OF keyed'] opened_incident_iff [OF keyed] by metis
  show "opened_incident j t' = (if j = i then None else opened_incident j t)"
  proof (cases "j = i")
    case True
    with opens y show ?thesis by (cases "opened_incident j t'") auto
  next
    case False
    then have "opened_incident j t = Some x \<Longrightarrow> x \<noteq> y" for x using opened_incident_SomeD yD by metis
    with opens False show ?thesis by (metis not_None_eq)
  qed
  show "ir_run_id ` set t' = ir_run_id ` set t" using arg_cong [OF ids(2), of set] by simp
qed

lemma incident_raised_opened:
  assumes keyed: "incidents_keyed t" and "opened_incident i t = None" and "ir_run_id x = i"
    and "ir_resolved_at x = None" and "ir_id x \<notin> ir_id ` set t"
  shows "incidents_keyed (t @ [x])" and "opened_incident j (t @ [x]) = (if j = i then Some x else opened_incident j t)"
proof -
  show "incidents_keyed (t @ [x])" using assms by (auto simp: incidents_keyed_def opened_incident_None)
  show "opened_incident j (t @ [x]) = (if j = i then Some x else opened_incident j t)"
    using assms(2-4) by (auto simp: opened_incident_append split: option.split)
qed

lemma run_snapshot_open:
  assumes "\<And>x. incident = Some x \<Longrightarrow> ir_resolved_at x = None"
  shows "open_incident (run_snapshot_of r incident) = map_option incident_snapshot_of incident"
  using assms by (cases incident) (simp_all add: open_incident_def run_snapshot_of_def incident_snapshot_of_def)

lemma incident_row_of_round_trip:
  assumes "ic_resolved_at i = None" and "ic_resolved_by i = None"
  shows "incident_snapshot_of (incident_row_of s i) = i"
  using assms by (cases "ic_message i") (simp_all add: incident_snapshot_of_def incident_row_of_def)

text \<open>What a save does to the incidents of a run that was loaded with its open one.\<close>

lemma incidents_saved:
  assumes keyed: "incidents_keyed t"
    and s: "s = run_snapshot_of r (opened_incident i t)" and id: "rn_run_id s' = i"
    and moved: "incident_moved s s'"
    and save: "(case rn_incident s' of None \<Rightarrow> Inr t
      | Some x \<Rightarrow> write_incident s' x (map_option ic_id (rn_incident s)) v t) = Inr t'"
  shows "incidents_keyed t' \<and> ir_run_id ` set t' \<subseteq> insert i (ir_run_id ` set t) \<and>
    (\<forall>j. j \<noteq> i \<longrightarrow> opened_incident j t' = opened_incident j t) \<and>
    map_option incident_snapshot_of (opened_incident i t') = open_incident s'"
proof -
  let ?o = "opened_incident i t"
  have opened: "ir_resolved_at x = None" if "?o = Some x" for x using opened_incident_SomeD [OF that] by auto
  have inc: "rn_incident s = map_option incident_snapshot_of ?o" by (simp add: s run_snapshot_of_def)
  have op: "open_incident s = rn_incident s" unfolding s using run_snapshot_open [of ?o r] opened
    by (simp add: run_snapshot_of_def)
  from moved consider (same) "rn_incident s' = rn_incident s"
    | (raised) x where "rn_incident s = None" "rn_incident s' = Some x" "ic_resolved_at x = None" "ic_resolved_by x = None"
    | (resolved) x at b where "rn_incident s = Some x" "rn_incident s' = Some (resolved_incident at b x)"
    unfolding incident_moved_def op by blast
  then show ?thesis
  proof cases
    case same
    have "open_incident s' = rn_incident s" using op same by (simp add: open_incident_def)
    moreover have "t' = t"
    proof (cases ?o)
      case (Some x)
      with save same inc opened [OF Some] show ?thesis by (simp add: write_incident_def incident_snapshot_of_def)
    qed (use save same inc in simp)
    ultimately show ?thesis using keyed inc by auto
  next
    case raised
    let ?x = "incident_row_of s' x"
    have none: "?o = None" using raised(1) inc by simp
    have row: "ir_run_id ?x = i" "ir_resolved_at ?x = None" "ir_id ?x = ic_id x" using id by (simp_all add: incident_row_of_def)
    have t': "t' = t @ [?x]" and fresh: "ic_id x \<notin> ir_id ` set t"
      using save raised(1,2) row(3)
      by (auto simp: write_incident_def Let_def result_simps list_ex_iff split: if_splits)
    note up = incident_raised_opened [OF keyed none row(1,2)]
    from fresh row(3) have f: "ir_id ?x \<notin> ir_id ` set t" by simp
    have "open_incident s' = Some x" using raised by (simp add: open_incident_def)
    then show ?thesis using up [OF f] incident_row_of_round_trip [OF raised(3,4)] row(1) by (auto simp: t')
  next
    case resolved
    then obtain y where y: "?o = Some y" "x = incident_snapshot_of y" using inc by (cases ?o) auto
    have t': "t' = tbl_update (\<lambda>z. ir_id z = ir_id y \<and> ir_resolved_at z = None)
        (\<lambda>z. z\<lparr>ir_resolved_at := Some at, ir_resolved_by := b\<rparr>) t"
      using save resolved y(2) by (simp add: write_incident_def incident_snapshot_of_def resolved_incident_def)
    have "open_incident s' = None" using resolved by (simp add: open_incident_def)
    with incident_resolved_opened [OF keyed y(1) t'] show ?thesis by auto
  qed
qed

section \<open>A commit\<close>

definition run_kept_rows :: "run_row list \<Rightarrow> run_row list \<Rightarrow> bool" where
  "run_kept_rows t t' \<longleftrightarrow> map rr_id t' = map rr_id t \<and> map rr_date_id t' = map rr_date_id t \<and>
     map rr_stream_path t' = map rr_stream_path t"

lemma run_kept_rows_update:
  "(\<And>r. rr_id (f r) = rr_id r \<and> rr_date_id (f r) = rr_date_id r \<and> rr_stream_path (f r) = rr_stream_path r) \<Longrightarrow>
    run_kept_rows t (tbl_update p f t)"
  by (simp add: run_kept_rows_def map_tbl_update_same)

lemma save_run_columns_Inr:
  assumes "save_run_columns s v t = Inr t'" and "distinct (map rr_id t)" and "tbl_find rr_id (rn_run_id s) t = Some r"
    and "rr_version r = v"
  shows "run_kept_rows t t'"
    and "tbl_find rr_id j t' = (if j = rn_run_id s then Some (state_columns_of s r) else tbl_find rr_id j t)"
proof -
  let ?p = "\<lambda>r. rr_id r = rn_run_id s \<and> rr_version r = v"
  have t': "t' = tbl_update ?p (state_columns_of s) t"
    using assms(1) by (auto simp: save_run_columns_def Let_def split: if_splits option.splits)
  show "run_kept_rows t t'" unfolding t' by (rule run_kept_rows_update) (simp add: state_columns_of_def)
  show "tbl_find rr_id j t' = (if j = rn_run_id s then Some (state_columns_of s r) else tbl_find rr_id j t)"
    unfolding t' using assms(3,4) tbl_find_SomeD [of rr_id _ t]
    by (subst tbl_find_tbl_update) (auto simp: state_columns_of_def intro!: option.map_ident_strong split: if_splits)
qed

text \<open>The row a save leaves is the one the aggregate is loaded from again.\<close>

lemma runs_saved:
  assumes keys: "distinct (map rr_id t)" and r: "tbl_find rr_id i t = Some r" and s: "s = run_snapshot_of r incident"
    and kept: "run_kept s s'"
    and moved: "same_state s s' \<or> rn_version s' = rn_version s + 1"
    and save: "(if rn_version s' = rr_version r then Inr t else save_run_columns s' (rr_version r) t) = Inr t1"
    and t2: "t2 = (if rn_after_grace_period s' = rn_after_grace_period s then t1
       else tbl_update (\<lambda>x. rr_id x = rn_run_id s') (\<lambda>x. x\<lparr>rr_after_grace_period := rn_after_grace_period s'\<rparr>) t1)"
  shows "run_kept_rows t t2 \<and> (\<forall>j. j \<noteq> i \<longrightarrow> tbl_find rr_id j t2 = tbl_find rr_id j t) \<and>
    (\<exists>r'. tbl_find rr_id i t2 = Some r' \<and>
      (\<forall>x. run_snapshot_of r' x = s'\<lparr>rn_incident := map_option incident_snapshot_of x\<rparr>))"
proof -
  have i: "rr_id r = i" using tbl_find_SomeD [OF r] by simp
  then have i': "rn_run_id s' = i" using kept s by (simp add: run_kept_def run_snapshot_of_def)
  let ?r1 = "state_columns_of s' r"
  have t1: "run_kept_rows t t1 \<and> (\<forall>j. tbl_find rr_id j t1 = (if j = i then Some ?r1 else tbl_find rr_id j t))"
  proof (cases "rn_version s' = rr_version r")
    case True
    then have same: "s' = s\<lparr>rn_after_grace_period := rn_after_grace_period s'\<rparr>"
      using moved s by (auto simp: run_snapshot_of_def same_state_def)
    have "rn_state s' = rr_state r" "rn_technical_check_passed_at s' = rr_technical_check_passed_at r"
      "rn_started_at s' = rr_started_at r" "rn_ended_at s' = rr_ended_at r"
      by (subst same, simp add: s run_snapshot_of_def)+
    with True have "?r1 = r" by (simp add: state_columns_of_def)
    then show ?thesis using True save r by (auto simp: run_kept_rows_def)
  next
    case False
    then show ?thesis using save save_run_columns_Inr [OF _ keys, of s' "rr_version r" t1 r] r i' by auto
  qed
  let ?g = "rn_after_grace_period s'"
  let ?r2 = "?r1\<lparr>rr_after_grace_period := ?g\<rparr>"
  have same: "?r1\<lparr>rr_after_grace_period := ?g\<rparr> = ?r1" if "?g = rn_after_grace_period s"
    using that s by (simp add: state_columns_of_def run_snapshot_of_def)
  have "run_kept_rows t t2 \<and> (\<forall>j. tbl_find rr_id j t2 = (if j = i then Some ?r2 else tbl_find rr_id j t))"
  proof (cases "?g = rn_after_grace_period s")
    case True
    with t1 t2 same show ?thesis by simp
  next
    case False
    let ?f = "\<lambda>x. x\<lparr>rr_after_grace_period := ?g\<rparr>"
    have u: "t2 = tbl_update (\<lambda>x. rr_id x = i) ?f t1" using False t2 i' by simp
    have "run_kept_rows t1 t2" unfolding u by (rule run_kept_rows_update) simp
    moreover have "tbl_find rr_id j t2 = map_option (\<lambda>x. if rr_id x = i then ?f x else x) (tbl_find rr_id j t1)" for j
      unfolding u by (rule tbl_find_tbl_update) simp
    moreover have "rr_id ?r1 = i" using i by (simp add: state_columns_of_def)
    moreover have "map_option (\<lambda>x. if rr_id x = i then ?f x else x) (tbl_find rr_id j t) = tbl_find rr_id j t" if "j \<noteq> i" for j
      using that by (cases "tbl_find rr_id j t") (auto dest: tbl_find_SomeD)
    ultimately show ?thesis using t1 by (simp add: run_kept_rows_def)
  qed
  moreover have "run_snapshot_of ?r2 x = s'\<lparr>rn_incident := map_option incident_snapshot_of x\<rparr>" for x
    using kept by (simp add: s run_kept_def run_snapshot_of_def state_columns_of_def)
  ultimately show ?thesis by auto
qed

lemma run_told_of_recorded:
  assumes "list_all (\<lambda>e. run_event_date e = d) es"
  shows "run_told_of d' (rows @ List.map_filter (run_outbox_row tp) es) =
    (if d' = d then fold run_told es (run_told_of d rows) else run_told_of d' rows)"
proof -
  have own: "map sx_payload (filter (\<lambda>x. sx_key x = d) (List.map_filter (run_outbox_row tp) es)) =
      List.map_filter (map_option snd \<circ> wire_form_of) es"
    using assms by (induction es) (auto simp: List.map_filter_def run_outbox_row_def split: option.splits)
  have other: "filter (\<lambda>x. sx_key x = d') (List.map_filter (run_outbox_row tp) es) = []" if "d' \<noteq> d"
    using assms that by (induction es) (auto simp: List.map_filter_def run_outbox_row_def split: option.splits)
  have fold: "fold message_told (List.map_filter (map_option snd \<circ> wire_form_of) es) x = fold run_told es x" for x
  proof (induction es arbitrary: x)
    case (Cons e es)
    have "(case wire_form_of e of None \<Rightarrow> x | Some (_, m) \<Rightarrow> message_told m x) = run_told e x" by (cases e; cases x) simp_all
    with Cons show ?case by (cases "wire_form_of e") (auto simp: List.map_filter_simps)
  qed (simp add: List.map_filter_simps)
  show ?thesis using other own fold by (simp add: run_told_of_def)
qed

lemma recorded_keys:
  assumes "list_all (\<lambda>e. run_event_date e = d) es"
  shows "sx_key ` set (List.map_filter (run_outbox_row tp) es) \<subseteq> {d}"
  using assms by (induction es) (auto simp: List.map_filter_def run_outbox_row_def split: option.splits)

text \<open>A run that moved, saved and recorded.\<close>

lemma commit_run_ok:
  assumes ok: "stream_keyed db" and r: "tbl_find rr_id i (sd_runs db) = Some r"
    and s: "s = run_snapshot_of r (open_incident_row i db)" and v: "v = rr_version r"
    and moved: "run_moved x (restore s) b"
    and run: "commit_run (with_root b (loaded (restore s) v)) tp db = Inr db'"
  shows "stream_keyed db'" and "run_at db' j = (if j = i then Some (run_reloaded (current b)) else run_at db j)"
    and "x = run_told_of (rn_date_id s) (sd_outbox db) \<Longrightarrow>
      run_told_of d (sd_outbox db') = (if d = rn_date_id s then run_shown_of (current b) else run_told_of d (sd_outbox db))"
proof -
  let ?s' = "current b"
  note k = stream_keyedD [OF ok]
  note m = run_movedD [OF moved, simplified]
  obtain es where es: "uncommitted b = es" "list_all (\<lambda>e. run_event_date e = rn_date_id s) es"
    "fold run_told es x = run_shown_of ?s'" using m(4) by auto
  have i: "rr_id r = i" using tbl_find_SomeD [OF r] by simp
  have mem: "r \<in> set (sd_runs db)" using tbl_find_SomeD [OF r] by simp
  have id: "rn_run_id ?s' = i" using m(2) i by (simp add: run_kept_def s run_snapshot_of_def)
  obtain inc t1 where inc: "(case rn_incident ?s' of None \<Rightarrow> Inr (sd_incidents db)
      | Some x \<Rightarrow> write_incident ?s' x (map_option ic_id (rn_incident s)) v (sd_incidents db)) = Inr inc"
    and t1: "(if rn_version ?s' = v then Inr (sd_runs db) else save_run_columns ?s' v (sd_runs db)) = Inr t1"
    and db': "db' = db\<lparr>sd_incidents := inc,
       sd_runs := (if rn_after_grace_period ?s' = rn_after_grace_period s then t1
         else tbl_update (\<lambda>x. rr_id x = rn_run_id ?s') (\<lambda>x. x\<lparr>rr_after_grace_period := rn_after_grace_period ?s'\<rparr>) t1),
       sd_outbox := sd_outbox db @ List.map_filter (run_outbox_row tp) es\<rparr>"
    using run es(1) by (auto simp: commit_run_def save_run_def record_run_events_def Let_def result_simps)
  let ?t2 = "sd_runs db'"
  have s2: "s = run_snapshot_of r (opened_incident i (sd_incidents db))" by (simp add: s open_incident_row_opened)
  have version: "same_state s ?s' \<or> rn_version ?s' = rn_version s + 1" using m(3) by blast
  have "rn_incident ?s' = rn_incident s" if "same_state s ?s'"
  proof -
    have "?s' = s\<lparr>rn_after_grace_period := rn_after_grace_period ?s'\<rparr>" using that by (simp add: same_state_def)
    then show ?thesis by (rule ssubst) simp
  qed
  with m(3) have incm: "incident_moved s ?s'" by (auto simp: incident_moved_def)
  have t2: "?t2 = (if rn_after_grace_period ?s' = rn_after_grace_period s then t1
      else tbl_update (\<lambda>x. rr_id x = rn_run_id ?s') (\<lambda>x. x\<lparr>rr_after_grace_period := rn_after_grace_period ?s'\<rparr>) t1)"
    by (simp add: db')
  note rows = runs_saved [OF k(1) r s m(2) version t1 [unfolded v] t2]
  note incs = incidents_saved [OF k(4) s2 id incm inc]
  have maps: "map rr_id ?t2 = map rr_id (sd_runs db)" "map rr_date_id ?t2 = map rr_date_id (sd_runs db)"
    "map rr_stream_path ?t2 = map rr_stream_path (sd_runs db)" using rows by (simp_all add: run_kept_rows_def)
  have sets: "rr_id ` set ?t2 = rr_id ` set (sd_runs db)" "rr_date_id ` set ?t2 = rr_date_id ` set (sd_runs db)"
    using arg_cong [OF maps(1), of set] arg_cong [OF maps(2), of set] by simp_all
  have "sx_key ` set (sd_outbox db') \<subseteq> insert (rn_date_id s) (sx_key ` set (sd_outbox db))"
    using recorded_keys [OF es(2)] by (auto simp: db')
  moreover have "rn_date_id s \<in> rr_date_id ` set (sd_runs db)" using mem by (simp add: s run_snapshot_of_def)
  ultimately have outbox: "sx_key ` set (sd_outbox db') \<subseteq> rr_date_id ` set (sd_runs db)" using k(6) by (meson insert_subset subset_trans)
  have "i \<in> rr_id ` set (sd_runs db)" using mem i by blast
  moreover have "incidents_keyed (sd_incidents db')" "ir_run_id ` set (sd_incidents db') \<subseteq> insert i (ir_run_id ` set (sd_incidents db))"
    using incs by (simp_all add: db')
  ultimately have "incidents_keyed (sd_incidents db') \<and> ir_run_id ` set (sd_incidents db') \<subseteq> rr_id ` set (sd_runs db)"
    using k(5) by (meson insert_subset subset_trans)
  then show "stream_keyed db'" using k(1-3) outbox by (simp add: stream_keyed_def maps sets)
  show "run_at db' j = (if j = i then Some (run_reloaded ?s') else run_at db j)"
  proof (cases "j = i")
    case True
    obtain r' where "tbl_find rr_id i ?t2 = Some r'"
      "\<And>x. run_snapshot_of r' x = ?s'\<lparr>rn_incident := map_option incident_snapshot_of x\<rparr>" using rows by blast
    with True incs show ?thesis by (simp add: run_at_def open_incident_row_opened run_reloaded_def db')
  next
    case False
    with rows incs show ?thesis by (simp add: run_at_def open_incident_row_opened db')
  qed
  show "run_told_of d (sd_outbox db') = (if d = rn_date_id s then run_shown_of ?s' else run_told_of d (sd_outbox db))"
    if "x = run_told_of (rn_date_id s) (sd_outbox db)" using run_told_of_recorded [OF es(2)] es(3) that by (simp add: db')
qed

lemma run_at_row:
  "run_at db i = Some s \<Longrightarrow> \<exists>r \<in> set (sd_runs db). rr_id r = i \<and> rr_date_id r = rn_date_id s \<and>
    tbl_find rr_id i (sd_runs db) = Some r \<and> s = run_snapshot_of r (open_incident_row i db)"
proof -
  assume "run_at db i = Some s"
  then obtain r where r: "tbl_find rr_id i (sd_runs db) = Some r" and s: "s = run_snapshot_of r (open_incident_row i db)"
    by (auto simp: run_at_def)
  have "rr_date_id r = rn_date_id s" by (simp add: s run_snapshot_of_def)
  with r s tbl_find_SomeD [OF r] show ?thesis by blast
qed

lemma run_at_dates:
  assumes "stream_keyed db" and "run_at db i = Some s" and "run_at db j = Some s'" and "rn_date_id s = rn_date_id s'"
  shows "i = j"
proof -
  obtain r r' where "r \<in> set (sd_runs db)" "rr_id r = i" "rr_date_id r = rn_date_id s"
    "r' \<in> set (sd_runs db)" "rr_id r' = j" "rr_date_id r' = rn_date_id s'" using run_at_row assms(2,3) by metis
  with stream_keyedD(2) [OF assms(1)] assms(4) show ?thesis by (auto simp: distinct_map inj_on_def)
qed

text \<open>A run reported online is told the state it had before the report: the others are consistent.\<close>

lemma commit_stream_ok:
  assumes keyed: "stream_keyed db"
    and others: "\<And>j s. j \<noteq> i \<Longrightarrow> run_at db j = Some s \<Longrightarrow>
      run_wf s \<and> run_told_of (rn_date_id s) (sd_outbox db) = run_shown_of s"
    and r: "tbl_find rr_id i (sd_runs db) = Some r" and s: "s = run_snapshot_of r (open_incident_row i db)"
    and moved: "run_moved (run_told_of (rn_date_id s) (sd_outbox db)) (restore s) b"
    and run: "commit_run (with_root b (loaded (restore s) (rr_version r))) tp db = Inr db'"
  shows "stream_ok db'" and "run_at db' j = (if j = i then Some (run_reloaded (current b)) else run_at db j)"
proof -
  note c = commit_run_ok [OF keyed r s refl moved run]
  have at: "run_at db i = Some s" using r s by (simp add: run_at_def)
  have date: "rn_date_id (current b) = rn_date_id s" using run_movedD(2) [OF moved] by (simp add: run_kept_def)
  have "run_wf s' \<and> run_told_of (rn_date_id s') (sd_outbox db') = run_shown_of s'" if "run_at db' k = Some s'" for k s'
  proof (cases "k = i")
    case True
    then have "s' = run_reloaded (current b)" using that c(2) by simp
    then show ?thesis using run_movedD(1) [OF moved] c(3) [OF refl] date by simp
  next
    case False
    then have "run_at db k = Some s'" using that c(2) by simp
    moreover from this have "rn_date_id s' \<noteq> rn_date_id s" using run_at_dates [OF keyed at] False by metis
    ultimately show ?thesis using others [OF False] c(3) [OF refl] by simp
  qed
  then show "stream_ok db'" using c(1) by (auto simp: stream_ok_def)
  show "run_at db' j = (if j = i then Some (run_reloaded (current b)) else run_at db j)" by (rule c(2))
qed

lemma stream_okD:
  assumes "stream_ok db"
  shows "stream_keyed db" and "run_at db i = Some s \<Longrightarrow> run_wf s"
    and "run_at db i = Some s \<Longrightarrow> run_told_of (rn_date_id s) (sd_outbox db) = run_shown_of s"
  using assms by (auto simp: stream_ok_def)

lemma find_run_SomeD:
  assumes "find_run column k db = Some t" and "stream_keyed db"
  shows "\<exists>r s. column r = k \<and> tbl_find rr_id (rr_id r) (sd_runs db) = Some r \<and>
    s = run_snapshot_of r (open_incident_row (rr_id r) db) \<and> run_at db (rr_id r) = Some s \<and>
    t = loaded (restore s) (rr_version r)"
proof -
  obtain r where r: "tbl_find column k (sd_runs db) = Some r"
    and t: "t = loaded (restore (run_snapshot_of r (open_incident_row (rr_id r) db))) (rr_version r)"
    using assms(1) by (auto simp: find_run_def)
  have "tbl_find rr_id (rr_id r) (sd_runs db) = Some r"
    using tbl_find_unique [OF stream_keyedD(1) [OF assms(2)]] tbl_find_SomeD [OF r] by blast
  with tbl_find_SomeD [OF r] t show ?thesis by (auto simp: run_at_def)
qed

text \<open>A run found, moved by a command and committed.\<close>

lemma found_run_ok:
  assumes ok: "stream_ok db" and found: "find_run column k db = Some t"
    and run: "commit_run (with_root b t) tp db = Inr db'"
    and moved: "\<And>s. run_wf s \<Longrightarrow> root t = restore s \<Longrightarrow> run_moved (run_shown_of s) (restore s) b"
  shows "stream_ok db'" and "\<exists>i. run_at db' i = Some (run_reloaded (current b)) \<and>
    run_at db i = Some (current (root t)) \<and> (\<forall>j. j \<noteq> i \<longrightarrow> run_at db' j = run_at db j)"
proof -
  note keyed = stream_okD(1) [OF ok]
  obtain r s where r: "tbl_find rr_id (rr_id r) (sd_runs db) = Some r" "s = run_snapshot_of r (open_incident_row (rr_id r) db)"
    and at: "run_at db (rr_id r) = Some s" and t: "t = loaded (restore s) (rr_version r)"
    using find_run_SomeD [OF found keyed] by blast
  have m: "run_moved (run_told_of (rn_date_id s) (sd_outbox db)) (restore s) b"
    using moved [OF stream_okD(2) [OF ok at]] t stream_okD(3) [OF ok at] by simp
  note c = commit_stream_ok [OF keyed _ r m run [unfolded t]]
  show "stream_ok db'" by (rule c(1)) (use stream_okD(2,3) [OF ok] in blast)
  have "run_at db' j = (if j = rr_id r then Some (run_reloaded (current b)) else run_at db j)" for j
    by (rule c(2)) (use stream_okD(2,3) [OF ok] in blast)
  then show "\<exists>i. run_at db' i = Some (run_reloaded (current b)) \<and>
    run_at db i = Some (current (root t)) \<and> (\<forall>j. j \<noteq> i \<longrightarrow> run_at db' j = run_at db j)"
    using at t by (intro exI [of _ "rr_id r"]) simp
qed

section \<open>Steps\<close>

text \<open>
  A step is one committed transaction of the API, the consumer, the provider's hooks or the sweeper; what it
  reads without a lock (\<open>seen\<close>, \<open>facts\<close>, the sample of a feed) is of any tables.
\<close>

inductive stream_step :: "run_core \<Rightarrow> live_ingest_provider \<Rightarrow> stream_db \<Rightarrow> stream_db \<Rightarrow> bool"
  for c :: run_core and ingest :: live_ingest_provider where
  run_prepared: "prepare_run_in digest_of m r tp now db = Inr (x, db') \<Longrightarrow> stream_step c ingest db db'"
| run_moved_to: "move_run_in c ingest facts d to e actor tp now db = Inr (x, db') \<Longrightarrow> stream_step c ingest db db'"
| run_checked: "check_run_in c ingest sample d actor tp now db = Inr (x, db') \<Longrightarrow> stream_step c ingest db db'"
| incident_was_raised: "raise_incident_in c d raised actor tp now db = Inr (x, db') \<Longrightarrow> stream_step c ingest db db'"
| incident_was_resolved: "resolve_incident_in c seen i actor tp now db = Inr (x, db') \<Longrightarrow> stream_step c ingest db db'"
| publisher_came: "publisher_online c ingest path protocol at db = Inr db' \<Longrightarrow> stream_step c ingest db db'"
| publisher_left: "stream_step c ingest db (publisher_offline path since at db)"
| worker_stopped: "worker_failed c i path final at db = Inr db' \<Longrightarrow> stream_step c ingest db db'"
| presence_swept: "sweep_presence_in c locked i run_id now db = Inr (x, db') \<Longrightarrow> stream_step c ingest db db'"
| run_ended_itself: "end_run_in c locked facts candidate now db = Inr (x, db') \<Longrightarrow> stream_step c ingest db db'"

definition empty_stream :: stream_db where
  "empty_stream = \<lparr>sd_runs = [], sd_incidents = [], sd_keys = [], sd_outbox = [], sd_processed = []\<rparr>"

lemma empty_stream_ok: "stream_ok empty_stream"
  by (simp add: stream_ok_def stream_keyed_def incidents_keyed_def empty_stream_def run_at_def)

lemma stream_ok_tables:
  assumes "stream_ok db" and "sd_runs db' = sd_runs db" "sd_incidents db' = sd_incidents db" "sd_outbox db' = sd_outbox db"
  shows "stream_ok db'"
  using assms by (simp add: stream_ok_def stream_keyed_def run_at_def open_incident_row_def)

text \<open>A run prepared: nothing is open on it and nothing was told of its date.\<close>

lemma add_run_ok:
  assumes ok: "stream_ok db" and run: "add_run (prepare_run q now) db = Inr (True, db')"
  shows "stream_ok db'"
proof -
  let ?s = "current (prepare_run q now)"
  note k = stream_keyedD [OF stream_okD(1) [OF ok]]
  obtain row where db': "db' = db\<lparr>sd_runs := sd_runs db @ [row]\<rparr>"
    and row: "\<And>x. run_snapshot_of row x = ?s\<lparr>rn_incident := map_option incident_snapshot_of x\<rparr>"
    and fresh: "rn_run_id ?s \<notin> rr_id ` set (sd_runs db)" "rn_date_id ?s \<notin> rr_date_id ` set (sd_runs db)"
      "rn_stream_path ?s \<notin> rr_stream_path ` set (sd_runs db)"
  proof -
    let ?row = "\<lparr>rr_id = rn_run_id ?s, rr_date_id = rn_date_id ?s, rr_channel_id = rn_channel_id ?s,
      rr_state = rn_state ?s, rr_stream_path = rn_stream_path ?s, rr_ingest_protocol = rn_ingest_protocol ?s,
      rr_monitor_path = rn_monitor_path ?s, rr_technical_check_passed_at = None, rr_started_at = None,
      rr_ended_at = None, rr_publisher_online_since = None, rr_publisher_lost_at = None,
      rr_after_grace_period = rn_after_grace_period ?s, rr_version = rn_version ?s\<rparr>"
    have "run_snapshot_of ?row x = ?s\<lparr>rn_incident := map_option incident_snapshot_of x\<rparr>" for x
      by (simp add: run_snapshot_of_def prepare_run_def)
    moreover have "db' = db\<lparr>sd_runs := sd_runs db @ [?row]\<rparr>"
      using run by (auto simp: add_run_def Let_def result_simps split: if_splits)
    moreover have "rn_run_id ?s \<notin> rr_id ` set (sd_runs db)" "rn_date_id ?s \<notin> rr_date_id ` set (sd_runs db)"
      "rn_stream_path ?s \<notin> rr_stream_path ` set (sd_runs db)"
      using run by (auto simp: add_run_def Let_def result_simps list_ex_iff split: if_splits)
    ultimately show ?thesis using that by blast
  qed
  have ids: "rr_id row = rn_run_id ?s" "rr_date_id row = rn_date_id ?s" "rr_stream_path row = rn_stream_path ?s"
    using arg_cong [OF row [of None], of rn_run_id] arg_cong [OF row [of None], of rn_date_id]
      arg_cong [OF row [of None], of rn_stream_path] by (simp_all add: run_snapshot_of_def)
  have keyed: "stream_keyed db'" using k ids fresh by (auto simp: stream_keyed_def db')
  have none: "open_incident_row (rn_run_id ?s) db' = None"
  proof -
    have "ir_run_id x \<noteq> rn_run_id ?s" if "x \<in> set (sd_incidents db)" for x using k(5) fresh(1) that by (metis imageI subsetD)
    then show ?thesis unfolding open_incident_row_def find_None_iff by (auto simp: db')
  qed
  have "sx_key x \<noteq> rn_date_id ?s" if "x \<in> set (sd_outbox db)" for x using k(6) fresh(2) that by (metis imageI subsetD)
  then have "filter (\<lambda>x. sx_key x = rn_date_id ?s) (sd_outbox db) = []" by (simp add: filter_empty_conv)
  then have told: "run_told_of (rn_date_id ?s) (sd_outbox db') = run_shown_of ?s"
    by (simp add: run_told_of_def db' prepare_run_wf)
  have at: "run_at db' i = (if i = rn_run_id ?s then Some (?s\<lparr>rn_incident := None\<rparr>) else run_at db i)" for i
  proof (cases "i = rn_run_id ?s")
    case True
    have "tbl_find rr_id (rn_run_id ?s) (sd_runs db) = None" using fresh(1) by (simp add: tbl_find_None)
    then have "tbl_find rr_id i (sd_runs db') = Some row" using True ids(1) by (simp add: db' tbl_find_append)
    with True none row [of None] show ?thesis by (simp add: run_at_def)
  next
    case False
    then have "tbl_find rr_id i (sd_runs db') = tbl_find rr_id i (sd_runs db)"
      using ids(1) by (simp add: db' tbl_find_append split: option.split)
    with False show ?thesis by (simp add: run_at_def open_incident_row_def db')
  qed
  have "?s\<lparr>rn_incident := None\<rparr> = ?s" by (simp add: prepare_run_def)
  then have new: "run_at db' (rn_run_id ?s) = Some ?s" "i \<noteq> rn_run_id ?s \<Longrightarrow> run_at db' i = run_at db i" for i using at by simp_all
  have rows: "sd_outbox db' = sd_outbox db" by (simp add: db')
  have "run_wf s \<and> run_told_of (rn_date_id s) (sd_outbox db') = run_shown_of s" if "run_at db' i = Some s" for i s
  proof (cases "i = rn_run_id ?s")
    case True
    with that new(1) have "s = ?s" by simp
    then show ?thesis using told prepare_run_wf(1) by simp
  next
    case False
    with that new(2) stream_okD(2,3) [OF ok] rows show ?thesis by simp
  qed
  with keyed show ?thesis by (simp add: stream_ok_def)
qed

lemma prepare_run_in_ok:
  assumes ok: "stream_ok db" and run: "prepare_run_in digest_of m q tp now db = Inr (x, db')"
  shows "stream_ok db'"
proof -
  obtain claimed db0 where claim: "claim_stream_message m db = (claimed, db0)" by (cases "claim_stream_message m db")
  have ok0: "stream_ok db0"
    using claim by (auto simp: claim_stream_message_def split: if_splits intro: ok stream_ok_tables [OF ok])
  show ?thesis
  proof (cases claimed)
    case False
    with run claim ok0 show ?thesis by (simp add: prepare_run_in_def)
  next
    case True
    with run claim obtain added db1 where add: "add_run (prepare_run q now) db0 = Inr (added, db1)"
      and rest: "(if \<not> added then Inr (Message_Superseded, db1)
          else bindE (insert_stream_key (digest_of (rt_run_id q) FIRST_STREAM_KEY_GENERATION) (rt_run_id q)
                   FIRST_STREAM_KEY_GENERATION now db1) (\<lambda>db2.
               Inr (Message_Applied, record_run_events (uncommitted (prepare_run q now)) tp db2))) = Inr (x, db')"
      by (auto simp: prepare_run_in_def Let_def result_simps)
    have ok1: "stream_ok db1"
    proof (cases added)
      case False
      with add have "db1 = db0" by (auto simp: add_run_def Let_def result_simps split: if_splits)
      with ok0 show ?thesis by simp
    qed (use add add_run_ok [OF ok0] in simp)
    have "record_run_events (uncommitted (prepare_run q now)) tp db2 = db2" for db2
      by (simp add: record_run_events_def prepare_run_def List.map_filter_simps run_outbox_row_def)
    with rest have "sd_runs db' = sd_runs db1" "sd_incidents db' = sd_incidents db1" "sd_outbox db' = sd_outbox db1"
      by (auto simp: insert_stream_key_def result_simps split: if_splits)
    then show ?thesis by (rule stream_ok_tables [OF ok1])
  qed
qed

lemma move_run_in_ok:
  assumes laws: "run_transition_laws c" and ok: "stream_ok db"
    and run: "move_run_in c ingest facts d to e actor tp now db = Inr (x, db')"
  shows "stream_ok db'"
proof -
  from run obtain t a where found: "find_run rr_date_id d db = Some t"
    and cmd: "(case to of
              To_Idle \<Rightarrow> run_reset c e now (root t)
            | To_Rehearsal \<Rightarrow> rehearse c e now (root t)
            | To_On_Air \<Rightarrow> go_on_air c e (Option.bind facts rd_publication_state) actor now (root t)
            | To_Ended \<Rightarrow> run_end c e actor now (root t)) = Inr a"
    and commit: "commit_run (with_root a t) tp db = Inr db'"
    by (auto simp: move_run_in_def result_simps split: option.splits)
  show ?thesis
  proof (rule found_run_ok(1) [OF ok found commit])
    fix s assume s: "run_wf s" "root t = restore s"
    then have wf: "run_wf (current (root t))" by simp
    from cmd show "run_moved (run_shown_of s) (restore s) a" unfolding s(2) [symmetric]
      using run_reset_moved [OF _ wf laws] rehearse_moved [OF _ wf laws] go_on_air_moved(1) [OF _ wf laws] run_end_moved [OF _ wf]
      by (cases to) simp_all
  qed
qed

lemma check_run_in_ok:
  assumes ok: "stream_ok db" and run: "check_run_in c ingest sample d actor tp now db = Inr (x, db')"
  shows "stream_ok db'"
proof -
  from run obtain t failures protocol a m where found: "find_run rr_date_id d db = Some t"
    and cmd: "run_technical_check failures protocol actor now (root t) = Inr (a, m)"
    and commit: "commit_run (with_root a t) tp db = Inr db'"
    by (auto simp: check_run_in_def Let_def result_simps split: option.splits)
  show ?thesis
    by (rule found_run_ok(1) [OF ok found commit]) (use run_technical_check_moved [OF cmd] in simp)
qed

lemma raise_incident_in_ok:
  assumes ok: "stream_ok db" and run: "raise_incident_in c d raised actor tp now db = Inr (x, db')"
  shows "stream_ok db'"
proof -
  from run obtain t a where found: "find_run rr_date_id d db = Some t"
    and cmd: "raise_incident c raised actor now (root t) = Inr a"
    and commit: "commit_run (with_root a t) tp db = Inr db'"
    by (auto simp: raise_incident_in_def result_simps split: option.splits)
  show ?thesis
    by (rule found_run_ok(1) [OF ok found commit]) (use raise_incident_moved(1) [OF cmd] in simp)
qed

lemma resolve_incident_in_ok:
  assumes ok: "stream_ok db" and run: "resolve_incident_in c seen i actor tp now db = Inr (x, db')"
  shows "stream_ok db'"
proof -
  from run consider "db' = db"
    | run_id t a m where "find_run rr_id run_id db = Some t" "resolve_incident c i actor now (root t) = Inr (a, m)"
        "commit_run (with_root a t) tp db = Inr db'"
    by (fastforce simp: resolve_incident_in_def Let_def result_simps split: option.splits if_splits)
  then show ?thesis
  proof cases
    case 2
    show ?thesis
      by (rule found_run_ok(1) [OF ok 2(1,3)]) (use resolve_incident_moved [OF 2(2)] in simp)
  qed (use ok in simp)
qed

lemma worker_failed_ok:
  assumes ok: "stream_ok db" and run: "worker_failed c i path final at db = Inr db'"
  shows "stream_ok db'"
proof -
  from run consider "db' = db"
    | t a m where "find_run rr_stream_path path db = Some t" "raise_worker_failure c i at (root t) = Inr (a, m)"
        "commit_run (with_root a t) None db = Inr db'"
    by (auto simp: worker_failed_def result_simps split: option.splits if_splits)
  then show ?thesis
  proof cases
    case 2
    show ?thesis
      by (rule found_run_ok(1) [OF ok 2(1,3)]) (use raise_worker_failure_moved(1) [OF 2(2)] in simp)
  qed (use ok in simp)
qed

lemma sweep_presence_in_ok:
  assumes ok: "stream_ok db" and run: "sweep_presence_in c locked i run_id now db = Inr (x, db')"
  shows "stream_ok db'"
proof -
  from run consider "db' = db"
    | t a gone b veiled where "find_run rr_id run_id db = Some t" "declare_publisher_gone c now (root t) = (a, gone)"
        "raise_hold_screen_if_feed_lost c i now a = Inr (b, veiled)" "commit_run (with_root b t) None db = Inr db'"
    by (auto simp: sweep_presence_in_def claim_run_def result_simps split: option.splits if_splits prod.splits)
  then show ?thesis
  proof cases
    case 2
    show ?thesis
    proof (rule found_run_ok(1) [OF ok 2(1,4)])
      fix s assume s: "run_wf s" "root t = restore s"
      then have wf: "run_wf (current (root t))" by simp
      note gone = declare_publisher_gone_moved [OF 2(2) wf]
      from run_moved_same [OF gone(1,2) raise_hold_screen_moved(1) [OF 2(3) run_movedD(1) [OF gone(1)]]]
      show "run_moved (run_shown_of s) (restore s) b" unfolding s(2) [symmetric] using s(2) by simp
    qed
  qed (use ok in simp)
qed

lemma end_run_in_ok:
  assumes ok: "stream_ok db" and run: "end_run_in c locked facts candidate now db = Inr (x, db')"
  shows "stream_ok db'"
proof -
  from run consider "db' = db"
    | t ends a m where "find_run rr_id (rr_id candidate) db = Some t" "end_by_itself c ends now (root t) = Inr (a, m)"
        "commit_run (with_root a t) None db = Inr db'"
    by (auto simp: end_run_in_def claim_run_def result_simps split: option.splits if_splits)
  then show ?thesis
  proof cases
    case 2
    show ?thesis
      by (rule found_run_ok(1) [OF ok 2(1,3)]) (use end_by_itself_moved(1) [OF 2(2)] in simp)
  qed (use ok in simp)
qed

lemma open_incident_row_runs [simp]: "open_incident_row i (db\<lparr>sd_runs := t\<rparr>) = open_incident_row i db"
  by (simp add: open_incident_row_def)

text \<open>A statement on one run's presence: the others, its incident and its state are as they were.\<close>

lemma presence_run_at:
  assumes "\<And>r. rr_id (f r) = rr_id r"
  shows "run_at (db\<lparr>sd_runs := tbl_update p f (sd_runs db)\<rparr>) i =
    map_option (\<lambda>r. run_snapshot_of (if p r then f r else r) (open_incident_row i db)) (tbl_find rr_id i (sd_runs db))"
  using assms by (simp add: run_at_def tbl_find_tbl_update option.map_comp comp_def)

lemma presence_keyed:
  assumes "stream_keyed db"
    and "\<And>r. rr_id (f r) = rr_id r \<and> rr_date_id (f r) = rr_date_id r \<and> rr_stream_path (f r) = rr_stream_path r"
  shows "stream_keyed (db\<lparr>sd_runs := tbl_update p f (sd_runs db)\<rparr>)"
proof -
  have m: "map rr_id (tbl_update p f (sd_runs db)) = map rr_id (sd_runs db)"
    "map rr_date_id (tbl_update p f (sd_runs db)) = map rr_date_id (sd_runs db)"
    "map rr_stream_path (tbl_update p f (sd_runs db)) = map rr_stream_path (sd_runs db)"
    using assms(2) by (simp_all add: map_tbl_update_same)
  have "rr_id ` set (tbl_update p f (sd_runs db)) = rr_id ` set (sd_runs db)"
    "rr_date_id ` set (tbl_update p f (sd_runs db)) = rr_date_id ` set (sd_runs db)"
    using arg_cong [OF m(1), of set] arg_cong [OF m(2), of set] by simp_all
  with assms(1) m show ?thesis by (simp add: stream_keyed_def)
qed

lemma presence_same:
  assumes "rr_state r' = rr_state r" and "rr_version r' = rr_version r" and "rr_ended_at r' = rr_ended_at r"
    and "rr_started_at r' = rr_started_at r" and "rr_technical_check_passed_at r' = rr_technical_check_passed_at r"
    and "rr_date_id r' = rr_date_id r"
  shows "run_wf (run_snapshot_of r' x) = run_wf (run_snapshot_of r x)"
    and "rn_date_id (run_snapshot_of r' x) = rn_date_id (run_snapshot_of r x)"
    and "rr_after_grace_period r' = rr_after_grace_period r \<Longrightarrow>
      run_shown_of (run_snapshot_of r' x) = run_shown_of (run_snapshot_of r x)"
proof -
  have "open_incident (run_snapshot_of r' x) = open_incident (run_snapshot_of r x)"
    by (simp add: open_incident_def run_snapshot_of_def)
  with assms show "run_wf (run_snapshot_of r' x) = run_wf (run_snapshot_of r x)"
    "rn_date_id (run_snapshot_of r' x) = rn_date_id (run_snapshot_of r x)"
    "rr_after_grace_period r' = rr_after_grace_period r \<Longrightarrow>
      run_shown_of (run_snapshot_of r' x) = run_shown_of (run_snapshot_of r x)"
    by (simp_all add: run_wf_def run_shown_of_def, simp_all add: run_snapshot_of_def)
qed

lemma publisher_offline_ok:
  assumes ok: "stream_ok db" shows "stream_ok (publisher_offline path since at db)"
proof -
  let ?db = "publisher_offline path since at db"
  have keyed: "stream_keyed ?db" unfolding publisher_offline_def
    by (rule presence_keyed [OF stream_okD(1) [OF ok]]) simp
  have "run_wf s \<and> run_told_of (rn_date_id s) (sd_outbox ?db) = run_shown_of s" if left: "run_at ?db i = Some s" for i s
  proof -
    obtain r where r: "tbl_find rr_id i (sd_runs db) = Some r"
      and s: "s = run_snapshot_of r (open_incident_row i db) \<or>
        s = run_snapshot_of (r\<lparr>rr_publisher_online_since := None, rr_publisher_lost_at := Some at\<rparr>) (open_incident_row i db)"
      using left [unfolded publisher_offline_def presence_run_at [of "\<lambda>r. r\<lparr>rr_publisher_online_since := None,
        rr_publisher_lost_at := Some at\<rparr>", simplified]] by (auto split: if_splits)
    let ?s = "run_snapshot_of r (open_incident_row i db)"
    have at: "run_at db i = Some ?s" using r by (simp add: run_at_def)
    have "run_wf s = run_wf ?s \<and> run_shown_of s = run_shown_of ?s \<and> rn_date_id s = rn_date_id ?s"
      using s presence_same [of "r\<lparr>rr_publisher_online_since := None, rr_publisher_lost_at := Some at\<rparr>" r "open_incident_row i db"]
      by (elim disjE) simp_all
    with stream_okD(2,3) [OF ok at] show ?thesis by (simp add: publisher_offline_def)
  qed
  with keyed show ?thesis by (simp add: stream_ok_def)
qed

lemma publisher_online_ok:
  assumes ok: "stream_ok db" and run: "publisher_online c ingest path protocol at db = Inr db'"
  shows "stream_ok db'"
proof -
  let ?f = "\<lambda>x. x\<lparr>rr_publisher_online_since := Some at, rr_ingest_protocol := protocol,
     rr_monitor_path := monitor_path_of protocol (ip_capabilities ingest), rr_after_grace_period := False\<rparr>"
  from run consider "db' = db"
    | r t a db1 where "tbl_find rr_stream_path path (sd_runs db) = Some r"
        "db1 = db\<lparr>sd_runs := tbl_update (\<lambda>x. rr_id x = rr_id r) ?f (sd_runs db)\<rparr>"
        "find_run rr_id (rr_id r) db1 = Some t" "publisher_back c (rr_after_grace_period r) at (root t) = Inr a"
        "commit_run (with_root a t) None db1 = Inr db'"
    | r where "tbl_find rr_stream_path path (sd_runs db) = Some r"
        "find_run rr_id (rr_id r) (db\<lparr>sd_runs := tbl_update (\<lambda>x. rr_id x = rr_id r) ?f (sd_runs db)\<rparr>) = None"
    by (auto simp: publisher_online_def Let_def result_simps split: option.splits if_splits)
  then show ?thesis
  proof cases
    case 1
    with ok show ?thesis by simp
  next
    case 3
    have "r \<in> set (sd_runs db)" using tbl_find_SomeD [OF 3(1)] by simp
    then have "rr_id r \<in> rr_id ` set (tbl_update (\<lambda>x. rr_id x = rr_id r) ?f (sd_runs db))"
      using arg_cong [OF map_tbl_update_same [of "\<lambda>x. rr_id x = rr_id r" rr_id ?f "sd_runs db"], of set] by simp
    with 3(2) show ?thesis by (simp add: find_run_def tbl_find_None)
  next
    case 2
    let ?i = "rr_id r" and ?was = "run_snapshot_of r (open_incident_row (rr_id r) db)"
    let ?s = "run_snapshot_of (?f r) (open_incident_row ?i db)"
    have r: "tbl_find rr_id ?i (sd_runs db) = Some r"
      using tbl_find_unique [OF stream_keyedD(1) [OF stream_okD(1) [OF ok]]] tbl_find_SomeD [OF 2(1)] by blast
    have at: "run_at db ?i = Some ?was" using r by (simp add: run_at_def)
    have keyed: "stream_keyed db1" unfolding 2(2) by (rule presence_keyed [OF stream_okD(1) [OF ok]]) simp
    have r1: "tbl_find rr_id ?i (sd_runs db1) = Some (?f r)"
      unfolding 2(2) using r by (simp add: tbl_find_tbl_update)
    have s1: "?s = run_snapshot_of (?f r) (open_incident_row ?i db1)" unfolding 2(2) by simp
    have t: "t = loaded (restore ?s) (rr_version (?f r))" using 2(3) r1 s1 by (simp add: find_run_def)
    have wf: "run_wf ?s" using stream_okD(2) [OF ok at] by (simp add: presence_same(1) [of "?f r" r])
    have "?s\<lparr>rn_after_grace_period := rr_after_grace_period r\<rparr> =
        run_snapshot_of ((?f r)\<lparr>rr_after_grace_period := rr_after_grace_period r\<rparr>) (open_incident_row ?i db)"
      by (simp add: run_snapshot_of_def)
    then have shown: "run_shown_of (?s\<lparr>rn_after_grace_period := rr_after_grace_period r\<rparr>) = run_shown_of ?was"
      using presence_same(3) [of "(?f r)\<lparr>rr_after_grace_period := rr_after_grace_period r\<rparr>" r] by simp
    have "run_moved (run_shown_of (?s\<lparr>rn_after_grace_period := rr_after_grace_period r\<rparr>)) (root t) a"
      using publisher_back_moved [OF 2(4)] wf t by (simp add: run_snapshot_of_def)
    moreover have "rn_date_id ?s = rn_date_id ?was" by (simp add: run_snapshot_of_def)
    ultimately have moved: "run_moved (run_told_of (rn_date_id ?s) (sd_outbox db1)) (restore ?s) a"
      using stream_okD(3) [OF ok at] shown t by (simp add: 2(2))
    have others: "run_wf s \<and> run_told_of (rn_date_id s) (sd_outbox db1) = run_shown_of s"
      if "j \<noteq> ?i" "run_at db1 j = Some s" for j s
    proof -
      have "run_at db j = Some s" using that(1) that(2) [unfolded 2(2) presence_run_at [of ?f, simplified]]
        by (auto simp: run_at_def dest: tbl_find_SomeD)
      with stream_okD(2,3) [OF ok] show ?thesis by (simp add: 2(2))
    qed
    show ?thesis by (rule commit_stream_ok(1) [OF keyed others r1 s1 moved 2(5) [unfolded t]])
  qed
qed

theorem stream_step_ok:
  assumes "run_transition_laws c" and "stream_step c ingest db db'" and "stream_ok db"
  shows "stream_ok db'"
  using assms(2)
proof cases
  case run_prepared
  then show ?thesis by (rule prepare_run_in_ok [OF assms(3)])
next
  case run_moved_to
  then show ?thesis by (rule move_run_in_ok [OF assms(1,3)])
next
  case run_checked
  then show ?thesis by (rule check_run_in_ok [OF assms(3)])
next
  case incident_was_raised
  then show ?thesis by (rule raise_incident_in_ok [OF assms(3)])
next
  case incident_was_resolved
  then show ?thesis by (rule resolve_incident_in_ok [OF assms(3)])
next
  case publisher_came
  then show ?thesis by (rule publisher_online_ok [OF assms(3)])
next
  case publisher_left
  then show ?thesis using publisher_offline_ok [OF assms(3)] by simp
next
  case worker_stopped
  then show ?thesis by (rule worker_failed_ok [OF assms(3)])
next
  case presence_swept
  then show ?thesis by (rule sweep_presence_in_ok [OF assms(3)])
next
  case run_ended_itself
  then show ?thesis by (rule end_run_in_ok [OF assms(3)])
qed

end
