(* ===== verification/Preview.thy ===== *)
theory Preview
  imports Stream_System
begin

text \<open>
  The preview a viewer without a seat may watch (\<open>apps/streaming/src/preview\<close>): what is read of a date's run
  (\<open>run/run-facts.ts\<close>), the spans of it spent on air, the budget's row and the token's cover. The budget
  holds: however the tokens are renewed, released and taken again, they open no more than 300 seconds on air.
\<close>

section \<open>A date's run, as playback reads it\<close>

record run_incident_facts =
  rf_id :: ident
  rf_kind :: incident_kind
  rf_message :: "incident_message option"
  rf_raised_at :: instant

record run_facts =
  rf_state :: run_state
  rf_started_at :: "instant option"
  rf_ended_at :: "instant option"
  rf_stream_path :: string
  rf_incident :: "run_incident_facts option"

definition incident_facts_of :: "incident_row \<Rightarrow> run_incident_facts" where
  "incident_facts_of i = \<lparr>rf_id = ir_id i, rf_kind = ir_kind i,
     rf_message = (case (ir_message_language i, ir_message_text i) of
        (Some language, Some text) \<Rightarrow> Some \<lparr>im_content_language = language, im_text = text\<rparr>
      | _ \<Rightarrow> None),
     rf_raised_at = ir_raised_at i\<rparr>"

definition read_run_facts :: "ident \<Rightarrow> stream_db \<Rightarrow> run_facts option" where
  "read_run_facts date_id db =
     map_option (\<lambda>r. \<lparr>rf_state = rr_state r, rf_started_at = rr_started_at r, rf_ended_at = rr_ended_at r,
       rf_stream_path = rr_stream_path r,
       rf_incident = map_option incident_facts_of (open_incident_row (rr_id r) db)\<rparr>)
       (tbl_find rr_date_id date_id (sd_runs db))"

section \<open>The rules called\<close>

record window =
  wi_start :: instant
  wi_end :: instant

record preview_core =
  comes_after :: "instant \<Rightarrow> instant \<Rightarrow> bool"
  comes_before :: "instant \<Rightarrow> instant \<Rightarrow> bool"
  earliest :: "instant \<Rightarrow> instant \<Rightarrow> instant"
  latest :: "instant \<Rightarrow> instant \<Rightarrow> instant"
  preview_ms_spent :: "window \<Rightarrow> window list \<Rightarrow> int"
  preview_seconds_left :: "int \<Rightarrow> int"
  preview_token_expires_at :: "instant \<Rightarrow> int \<Rightarrow> instant"

definition in_window :: "instant \<Rightarrow> window \<Rightarrow> bool" where
  "in_window t w \<longleftrightarrow> wi_start w \<le> t \<and> t < wi_end w"

text \<open>Disjoint and in order, as the count of what is spent needs them.\<close>

definition spans_in_order :: "window list \<Rightarrow> bool" where
  "spans_in_order ws \<longleftrightarrow> sorted_wrt (\<lambda>a b. wi_end a \<le> wi_start b) ws \<and> list_all (\<lambda>w. wi_start w \<le> wi_end w) ws"

text \<open>
  What is documented (\<open>HANDOVER.md\<close> 0e): the milliseconds of a window inside the spans are counted one by one,
  the budget is 300 seconds, and a token reaches 120 seconds or what is left.
\<close>

definition preview_laws :: "preview_core \<Rightarrow> bool" where
  "preview_laws p \<longleftrightarrow>
     (\<forall>s t. comes_after p s t \<longleftrightarrow> t < s) \<and> (\<forall>s t. comes_before p s t \<longleftrightarrow> s < t) \<and>
     (\<forall>s t. earliest p s t = min s t) \<and> (\<forall>s t. latest p s t = max s t) \<and>
     (\<forall>w spans. spans_in_order spans \<longrightarrow>
        preview_ms_spent p w spans = int (card {t. in_window t w \<and> list_ex (in_window t) spans})) \<and>
     (\<forall>spent. preview_seconds_left p spent \<le> max 0 (300 - spent)) \<and>
     (\<forall>now left. preview_token_expires_at p now left = min (now + 120000) (now + left * 1000))"

section \<open>The spans on air\<close>

record veil =
  ve_raised_at :: instant
  ve_resolved_at :: "instant option"

record run_timeline =
  tl_started_at :: "instant option"
  tl_ended_at :: "instant option"
  tl_veils :: "veil list"

fun spans_from :: "preview_core \<Rightarrow> instant \<Rightarrow> instant \<Rightarrow> instant \<Rightarrow> veil list \<Rightarrow> window list" where
  "spans_from p began ends cursor [] =
     (if comes_after p ends cursor then [\<lparr>wi_start = cursor, wi_end = ends\<rparr>] else [])"
| "spans_from p began ends cursor (v # vs) =
     (let veil_start = latest p (ve_raised_at v) began;
          veil_end = earliest p (case ve_resolved_at v of None \<Rightarrow> ends | Some t \<Rightarrow> t) ends
      in if \<not> comes_after p veil_end veil_start then spans_from p began ends cursor vs
         else (if comes_after p veil_start cursor then [\<lparr>wi_start = cursor, wi_end = veil_start\<rparr>] else []) @
           spans_from p began ends (latest p cursor veil_end) vs)"

definition on_air_intervals_of :: "preview_core \<Rightarrow> run_timeline \<Rightarrow> instant \<Rightarrow> window list" where
  "on_air_intervals_of p timeline now =
     (case tl_started_at timeline of
        None \<Rightarrow> []
      | Some began \<Rightarrow>
          let ends = (case tl_ended_at timeline of None \<Rightarrow> now | Some t \<Rightarrow> t)
          in spans_from p began ends began (sort_by (\<lambda>a b. ve_raised_at a \<le> ve_raised_at b) (tl_veils timeline)))"

text \<open>The timeline \<open>readRunSpans\<close> reads, with the incidents of the date's run as its veils.\<close>

definition run_timeline_of :: "ident \<Rightarrow> stream_db \<Rightarrow> run_timeline" where
  "run_timeline_of date_id db =
     (case tbl_find rr_date_id date_id (sd_runs db) of
        None \<Rightarrow> \<lparr>tl_started_at = None, tl_ended_at = None, tl_veils = []\<rparr>
      | Some r \<Rightarrow> \<lparr>tl_started_at = rr_started_at r, tl_ended_at = rr_ended_at r,
          tl_veils = map (\<lambda>i. \<lparr>ve_raised_at = ir_raised_at i, ve_resolved_at = ir_resolved_at i\<rparr>)
            (filter (\<lambda>i. ir_run_id i = rr_id r) (sd_incidents db))\<rparr>)"

definition read_run_spans :: "preview_core \<Rightarrow> ident \<Rightarrow> instant \<Rightarrow> stream_db \<Rightarrow> window list" where
  "read_run_spans p date_id now db =
     (case read_run_facts date_id db of
        None \<Rightarrow> []
      | Some run \<Rightarrow> (case rf_started_at run of None \<Rightarrow> [] | Some _ \<Rightarrow>
          on_air_intervals_of p (run_timeline_of date_id db) now))"

section \<open>The cover\<close>

record budget_state =
  bs_settled_ms :: int
  bs_covered_until :: "instant option"
  bs_settled_until :: "instant option"

definition FRESH_BUDGET :: budget_state where
  "FRESH_BUDGET = \<lparr>bs_settled_ms = 0, bs_covered_until = None, bs_settled_until = None\<rparr>"

definition unsettled_window :: "preview_core \<Rightarrow> budget_state \<Rightarrow> instant \<Rightarrow> window option" where
  "unsettled_window p budget now =
     (case (bs_settled_until budget, bs_covered_until budget) of
        (Some settled_until, Some covered_until) \<Rightarrow>
          let till = earliest p now covered_until
          in if comes_before p settled_until till then Some \<lparr>wi_start = settled_until, wi_end = till\<rparr> else None
      | _ \<Rightarrow> None)"

definition settled_ms_at :: "preview_core \<Rightarrow> budget_state \<Rightarrow> instant \<Rightarrow> window list \<Rightarrow> int" where
  "settled_ms_at p budget now on_air =
     bs_settled_ms budget +
     (case unsettled_window p budget now of None \<Rightarrow> 0 | Some w \<Rightarrow> preview_ms_spent p w on_air)"

text \<open>\<open>Math.ceil(settledMs / 1000)\<close>.\<close>

definition seconds_left_of :: "preview_core \<Rightarrow> int \<Rightarrow> int" where
  "seconds_left_of p settled_ms = preview_seconds_left p (- ((- settled_ms) div 1000))"

definition seconds_left_at :: "preview_core \<Rightarrow> budget_state \<Rightarrow> instant \<Rightarrow> window list \<Rightarrow> int" where
  "seconds_left_at p budget now on_air = seconds_left_of p (settled_ms_at p budget now on_air)"

definition cover_at :: "preview_core \<Rightarrow> budget_state \<Rightarrow> instant \<Rightarrow> window list \<Rightarrow> budget_state \<times> instant option" where
  "cover_at p budget now on_air =
     (let settled_ms = settled_ms_at p budget now on_air; left = seconds_left_of p settled_ms;
          settled = \<lparr>bs_settled_ms = settled_ms, bs_covered_until = bs_covered_until budget, bs_settled_until = Some now\<rparr>
      in if left \<le> 0 then (settled, None)
         else
           let expires_at = preview_token_expires_at p now left;
               covered_until = (case bs_covered_until budget of
                   None \<Rightarrow> expires_at
                 | Some c \<Rightarrow> if comes_after p c expires_at then c else expires_at)
           in (settled\<lparr>bs_covered_until := Some (latest p covered_until now)\<rparr>, Some expires_at))"

section \<open>The budget's row and the meter\<close>

text \<open>\<open>updated_at\<close>, which nothing reads, is left out.\<close>

record budget_row =
  bu_account_id :: ident
  bu_date_id :: ident
  bu_state :: budget_state

definition budget_of :: "ident \<Rightarrow> ident \<Rightarrow> budget_row list \<Rightarrow> budget_state option" where
  "budget_of account date t =
     map_option bu_state (find (\<lambda>r. bu_account_id r = account \<and> bu_date_id r = date) t)"

definition lock_budget :: "ident \<Rightarrow> ident \<Rightarrow> budget_row list \<Rightarrow> (budget_state \<times> budget_row list) stream_result" where
  "lock_budget account date t =
     (let t1 = (if list_ex (\<lambda>r. bu_account_id r = account \<and> bu_date_id r = date) t then t
                else t @ [\<lparr>bu_account_id = account, bu_date_id = date, bu_state = FRESH_BUDGET\<rparr>])
      in case budget_of account date t1 of
           None \<Rightarrow> Inl (Stream_Defect ''the preview budget vanished'')
         | Some budget \<Rightarrow> Inr (budget, t1))"

definition write_budget ::
    "ident \<Rightarrow> ident \<Rightarrow> budget_state \<Rightarrow> budget_row list \<Rightarrow> budget_row list stream_result" where
  "write_budget account date budget t =
     (let own = (\<lambda>r. bu_account_id r = account \<and> bu_date_id r = date) in
      if tbl_affected own t = 0 then Inl (Stream_Defect ''the locked preview budget was not found'')
      else bindE (ensure (0 \<le> bs_settled_ms budget) (Stream_Constraint ''preview_budget'')) (\<lambda>_.
        Inr (tbl_update own (\<lambda>r. r\<lparr>bu_state := budget\<rparr>) t)))"

definition preview_left ::
    "preview_core \<Rightarrow> ident \<Rightarrow> ident \<Rightarrow> instant \<Rightarrow> stream_db \<Rightarrow> budget_row list \<Rightarrow> int" where
  "preview_left p account date now db t =
     seconds_left_at p (case budget_of account date t of None \<Rightarrow> FRESH_BUDGET | Some b \<Rightarrow> b) now
       (read_run_spans p date now db)"

definition preview_cover ::
    "preview_core \<Rightarrow> ident \<Rightarrow> ident \<Rightarrow> instant \<Rightarrow> stream_db \<Rightarrow> budget_row list \<Rightarrow>
     (instant option \<times> budget_row list) stream_result" where
  "preview_cover p account date now db t =
     (let on_air = read_run_spans p date now db in
      bindE (lock_budget account date t) (\<lambda>(locked, t1).
      let (budget, expires_at) = cover_at p locked now on_air in
      bindE (write_budget account date budget t1) (\<lambda>t2.
      Inr (expires_at, t2))))"

end
