(* ===== verification/Entitlement.thy ===== *)
theory Entitlement
  imports Stream_Desk
begin

text \<open>
  Streaming's entitlement projection (\<open>apps/streaming/src/entitlement\<close>): the seats, dates and subscriptions it
  keeps from ticketing's and catalog's facts, the handlers that record a fact, and the facts playback reads.
  A text column is what this build reads it as: a member it knows, or another string.
\<close>

section \<open>Vocabulary\<close>

datatype plan_tier = Plan_Free | Plan_Pass | Plan_Premium

datatype subscription_state =
    Subscription_Active | Subscription_Past_Due | Subscription_Cancelled | Subscription_Trialing

datatype plan_opening =
    Opens_Browse | Opens_Trailers | Opens_Free_Dates | Opens_Replays | Opens_No_Ads | Opens_One_Live_Month
  | Opens_All_Lives | Opens_Multi_Screen | Opens_Archive

datatype 'm stored_member = Known_Member 'm | Other_Member string

definition member_of :: "'m stored_member option \<Rightarrow> 'm option" where
  "member_of column = (case column of Some (Known_Member m) \<Rightarrow> Some m | _ \<Rightarrow> None)"

record subscription_openings =
  so_state :: subscription_state
  so_opens :: "plan_opening list"
  so_paid_through :: "instant option"

record entitlement_core =
  plan_openings_of :: "subscription_openings \<Rightarrow> instant \<Rightarrow> plan_opening list"
  concurrent_streams_allowed_for :: "plan_opening list \<Rightarrow> int \<Rightarrow> int"
  entitlement_room_opens_minutes_before :: int

section \<open>Tables\<close>

record entitlement_seat_row =
  es_seat_id :: ident
  es_account_id :: ident
  es_date_id :: ident
  es_state :: seat_state
  es_occurred_at :: instant
  es_applied_at :: instant

record entitlement_date_row =
  eo_date_id :: ident
  eo_channel_id :: "ident option"
  eo_starts_at :: "instant option"
  eo_runtime_min :: "int option"
  eo_timing_occurred_at :: "instant option"
  eo_replay_policy :: "replay_policy stored_member option"
  eo_replay_window_hours :: "int option"
  eo_replay_occurred_at :: "instant option"
  eo_rights_scope :: "rights_scope stored_member option"
  eo_blackout_countries :: "string list option"
  eo_blackout_reason :: "blackout_reason stored_member option"
  eo_rights_occurred_at :: "instant option"
  eo_publication_state :: "publication_state stored_member option"
  eo_publication_version :: "int option"
  eo_outcome :: "date_outcome stored_member option"
  eo_outcome_declared_at :: "instant option"
  eo_applied_at :: instant

record entitlement_subscription_row =
  eu_account_id :: ident
  eu_plan :: "plan_tier stored_member option"
  eu_state :: "subscription_state stored_member option"
  eu_openings :: "plan_opening stored_member list"
  eu_paid_through :: "instant option"
  eu_version :: "int option"
  eu_occurred_at :: instant
  eu_applied_at :: instant

text \<open>The service's database, of which the run desk's tables are a part.\<close>

record entitlement_db =
  en_stream :: stream_db
  en_seats :: "entitlement_seat_row list"
  en_dates :: "entitlement_date_row list"
  en_subscriptions :: "entitlement_subscription_row list"

definition claim_entitlement_message :: "ident \<Rightarrow> 'a entitlement_db_scheme \<Rightarrow> bool \<times> 'a entitlement_db_scheme" where
  "claim_entitlement_message message_id db =
     (let (claimed, stream) = claim_stream_message message_id (en_stream db) in (claimed, db\<lparr>en_stream := stream\<rparr>))"

section \<open>Facts of a date\<close>

record replay_facts =
  rp_policy :: replay_policy
  rp_window_hours :: int

record rights_facts =
  rg_scope :: "rights_scope option"
  rg_blackout_countries :: "string list"
  rg_reason :: "blackout_reason option"

datatype date_fact =
    Fact_Date_Scheduled ident ident instant int replay_facts rights_facts instant
  | Fact_Date_Rescheduled ident instant instant
  | Fact_Replay_Policy_Set ident replay_facts instant
  | Fact_Rights_Changed ident rights_facts instant
  | Fact_Publication_State_Changed ident ident "publication_state option" int instant
  | Fact_Outcome_Declared ident ident date_outcome instant

fun fact_date_id :: "date_fact \<Rightarrow> ident" where
  "fact_date_id (Fact_Date_Scheduled date _ _ _ _ _ _) = date"
| "fact_date_id (Fact_Date_Rescheduled date _ _) = date"
| "fact_date_id (Fact_Replay_Policy_Set date _ _) = date"
| "fact_date_id (Fact_Rights_Changed date _ _) = date"
| "fact_date_id (Fact_Publication_State_Changed date _ _ _ _) = date"
| "fact_date_id (Fact_Outcome_Declared date _ _ _) = date"

text \<open>\<open>kept.i IS NULL OR excluded.i >= kept.i\<close>.\<close>

definition newer_or_same :: "instant option \<Rightarrow> instant \<Rightarrow> bool" where
  "newer_or_same kept stated = (case kept of None \<Rightarrow> True | Some k \<Rightarrow> k \<le> stated)"

definition no_date_row :: "ident \<Rightarrow> instant \<Rightarrow> entitlement_date_row" where
  "no_date_row date applied_at = \<lparr>eo_date_id = date, eo_channel_id = None, eo_starts_at = None, eo_runtime_min = None,
     eo_timing_occurred_at = None, eo_replay_policy = None, eo_replay_window_hours = None, eo_replay_occurred_at = None,
     eo_rights_scope = None, eo_blackout_countries = None, eo_blackout_reason = None, eo_rights_occurred_at = None,
     eo_publication_state = None, eo_publication_version = None, eo_outcome = None, eo_outcome_declared_at = None,
     eo_applied_at = applied_at\<rparr>"

text \<open>An upsert of some columns under a guard on the kept row; false when the guard left the row.\<close>

definition group_upsert ::
    "(entitlement_date_row \<Rightarrow> entitlement_date_row) \<Rightarrow> (entitlement_date_row \<Rightarrow> bool) \<Rightarrow> ident \<Rightarrow> instant \<Rightarrow>
     entitlement_date_row list \<Rightarrow> bool \<times> entitlement_date_row list" where
  "group_upsert columns guard date applied_at t =
     (case tbl_find eo_date_id date t of
        None \<Rightarrow> (True, t @ [columns (no_date_row date applied_at)])
      | Some kept \<Rightarrow>
          if guard kept then (True, tbl_update (\<lambda>r. eo_date_id r = date) (\<lambda>r. columns (r\<lparr>eo_applied_at := applied_at\<rparr>)) t)
          else (False, t))"

definition schedule_timing ::
    "ident \<Rightarrow> instant \<Rightarrow> int \<Rightarrow> instant \<Rightarrow> ident \<Rightarrow> instant \<Rightarrow> entitlement_date_row list \<Rightarrow> bool \<times> entitlement_date_row list" where
  "schedule_timing channel starts_at runtime_min stated =
     group_upsert
       (\<lambda>r. r\<lparr>eo_channel_id := Some channel,
          eo_starts_at := (if newer_or_same (eo_timing_occurred_at r) stated then Some starts_at else eo_starts_at r),
          eo_runtime_min := Some runtime_min,
          eo_timing_occurred_at := Some (case eo_timing_occurred_at r of None \<Rightarrow> stated | Some k \<Rightarrow> max k stated)\<rparr>)
       (\<lambda>kept. eo_runtime_min kept = None \<or> newer_or_same (eo_timing_occurred_at kept) stated)"

definition reschedule_timing ::
    "instant \<Rightarrow> instant \<Rightarrow> ident \<Rightarrow> instant \<Rightarrow> entitlement_date_row list \<Rightarrow> bool \<times> entitlement_date_row list" where
  "reschedule_timing starts_at stated =
     group_upsert (\<lambda>r. r\<lparr>eo_starts_at := Some starts_at, eo_timing_occurred_at := Some stated\<rparr>)
       (\<lambda>kept. newer_or_same (eo_timing_occurred_at kept) stated)"

definition set_replay ::
    "replay_facts \<Rightarrow> instant \<Rightarrow> ident \<Rightarrow> instant \<Rightarrow> entitlement_date_row list \<Rightarrow> bool \<times> entitlement_date_row list" where
  "set_replay replay stated =
     group_upsert
       (\<lambda>r. r\<lparr>eo_replay_policy := Some (Known_Member (rp_policy replay)),
          eo_replay_window_hours := Some (rp_window_hours replay), eo_replay_occurred_at := Some stated\<rparr>)
       (\<lambda>kept. newer_or_same (eo_replay_occurred_at kept) stated)"

definition set_rights ::
    "rights_facts \<Rightarrow> instant \<Rightarrow> ident \<Rightarrow> instant \<Rightarrow> entitlement_date_row list \<Rightarrow> bool \<times> entitlement_date_row list" where
  "set_rights rights stated =
     group_upsert
       (\<lambda>r. r\<lparr>eo_rights_scope := map_option Known_Member (rg_scope rights),
          eo_blackout_countries := Some (rg_blackout_countries rights),
          eo_blackout_reason := map_option Known_Member (rg_reason rights), eo_rights_occurred_at := Some stated\<rparr>)
       (\<lambda>kept. newer_or_same (eo_rights_occurred_at kept) stated)"

definition set_publication ::
    "ident \<Rightarrow> publication_state option \<Rightarrow> int \<Rightarrow> ident \<Rightarrow> instant \<Rightarrow> entitlement_date_row list \<Rightarrow> bool \<times> entitlement_date_row list" where
  "set_publication channel state version =
     group_upsert
       (\<lambda>r. r\<lparr>eo_channel_id := Some channel, eo_publication_state := map_option Known_Member state,
          eo_publication_version := Some version\<rparr>)
       (\<lambda>kept. case eo_publication_version kept of None \<Rightarrow> True | Some k \<Rightarrow> k < version)"

definition declare_date_outcome ::
    "ident \<Rightarrow> date_outcome \<Rightarrow> instant \<Rightarrow> ident \<Rightarrow> instant \<Rightarrow> entitlement_date_row list \<Rightarrow> bool \<times> entitlement_date_row list" where
  "declare_date_outcome channel outcome stated =
     group_upsert
       (\<lambda>r. r\<lparr>eo_channel_id := Some channel, eo_outcome := Some (Known_Member outcome),
          eo_outcome_declared_at := Some stated\<rparr>)
       (\<lambda>kept. newer_or_same (eo_outcome_declared_at kept) stated \<and>
          eo_outcome kept \<noteq> Some (Known_Member Outcome_Cancelled) \<and>
          eo_outcome kept \<noteq> Some (Known_Member Outcome_Interrupted))"

fun date_fact_applied :: "date_fact \<Rightarrow> instant \<Rightarrow> entitlement_date_row list \<Rightarrow> bool \<times> entitlement_date_row list" where
  "date_fact_applied (Fact_Date_Scheduled date channel starts_at runtime_min replay rights stated) at t =
     (let (timing, t1) = schedule_timing channel starts_at runtime_min stated date at t;
          (replayed, t2) = set_replay replay stated date at t1;
          (righted, t3) = set_rights rights stated date at t2
      in (timing \<or> replayed \<or> righted, t3))"
| "date_fact_applied (Fact_Date_Rescheduled date starts_at stated) at t = reschedule_timing starts_at stated date at t"
| "date_fact_applied (Fact_Replay_Policy_Set date replay stated) at t = set_replay replay stated date at t"
| "date_fact_applied (Fact_Rights_Changed date rights stated) at t = set_rights rights stated date at t"
| "date_fact_applied (Fact_Publication_State_Changed date channel state version _) at t =
     set_publication channel state version date at t"
| "date_fact_applied (Fact_Outcome_Declared date channel outcome stated) at t = declare_date_outcome channel outcome stated date at t"

text \<open>A handler's transaction; the staleness it logs afterwards changes nothing.\<close>

definition record_date_fact ::
    "ident \<Rightarrow> date_fact \<Rightarrow> instant \<Rightarrow> 'a entitlement_db_scheme \<Rightarrow> message_outcome \<times> 'a entitlement_db_scheme" where
  "record_date_fact message_id fct now db =
     (let (claimed, db1) = claim_entitlement_message message_id db in
      if \<not> claimed then (Message_Duplicate, db)
      else let (wrote, t) = date_fact_applied fct now (en_dates db1)
           in (if wrote then Message_Applied else Message_Superseded, db1\<lparr>en_dates := t\<rparr>))"

section \<open>Facts of a seat\<close>

record seat_fact =
  sf_cancelled :: bool
  sf_seat_id :: ident
  sf_account_id :: ident
  sf_date_id :: ident
  sf_stated_at :: instant

datatype seat_message_fact = Seat_Fact seat_fact | Cancellation_Of_Kept_Row ident "instant option"

definition activate_seat :: "seat_fact \<Rightarrow> instant \<Rightarrow> entitlement_seat_row list \<Rightarrow> bool \<times> entitlement_seat_row list" where
  "activate_seat f at t =
     (if list_ex (\<lambda>r. es_seat_id r = sf_seat_id f) t then (False, t)
      else (True, t @ [\<lparr>es_seat_id = sf_seat_id f, es_account_id = sf_account_id f, es_date_id = sf_date_id f,
        es_state = Seat_Active, es_occurred_at = sf_stated_at f, es_applied_at = at\<rparr>]))"

definition cancel_entitled_seat :: "seat_fact \<Rightarrow> instant \<Rightarrow> entitlement_seat_row list \<Rightarrow> bool \<times> entitlement_seat_row list" where
  "cancel_entitled_seat f at t =
     (case tbl_find es_seat_id (sf_seat_id f) t of
        None \<Rightarrow> (True, t @ [\<lparr>es_seat_id = sf_seat_id f, es_account_id = sf_account_id f, es_date_id = sf_date_id f,
          es_state = Seat_Cancelled, es_occurred_at = sf_stated_at f, es_applied_at = at\<rparr>])
      | Some kept \<Rightarrow>
          if es_state kept = Seat_Active
          then (True, tbl_update (\<lambda>r. es_seat_id r = sf_seat_id f)
            (\<lambda>r. r\<lparr>es_state := Seat_Cancelled, es_occurred_at := sf_stated_at f, es_applied_at := at\<rparr>) t)
          else (False, t))"

definition cancel_kept_seat ::
    "ident \<Rightarrow> instant option \<Rightarrow> instant \<Rightarrow> entitlement_seat_row list \<Rightarrow> nat \<times> entitlement_seat_row list" where
  "cancel_kept_seat seat_id stated at t =
     (let own = (\<lambda>r. es_seat_id r = seat_id \<and> es_state r = Seat_Active) in
      (tbl_affected own t,
       tbl_update own (\<lambda>r. r\<lparr>es_state := Seat_Cancelled,
         es_occurred_at := (case stated of None \<Rightarrow> es_occurred_at r | Some i \<Rightarrow> i), es_applied_at := at\<rparr>) t))"

definition record_seat_fact ::
    "ident \<Rightarrow> seat_message_fact \<Rightarrow> instant \<Rightarrow> 'a entitlement_db_scheme \<Rightarrow>
     (message_outcome \<times> 'a entitlement_db_scheme) stream_result" where
  "record_seat_fact message_id fct now db =
     (let (claimed, db1) = claim_entitlement_message message_id db in
      if \<not> claimed then Inr (Message_Duplicate, db)
      else case fct of
          Cancellation_Of_Kept_Row seat_id stated \<Rightarrow>
            let (ended, t) = cancel_kept_seat seat_id stated now (en_seats db1) in
            if ended = 1 then Inr (Message_Applied, db1\<lparr>en_seats := t\<rparr>)
            else if \<not> list_ex (\<lambda>r. es_seat_id r = seat_id) t
            then Inl (Stream_Permanent ''seat cancelled without an account, none kept'')
            else Inr (Message_Superseded, db1\<lparr>en_seats := t\<rparr>)
        | Seat_Fact f \<Rightarrow>
            let (wrote, t) = (if sf_cancelled f then cancel_entitled_seat f now (en_seats db1) else activate_seat f now (en_seats db1))
            in Inr (if wrote then Message_Applied else Message_Superseded, db1\<lparr>en_seats := t\<rparr>))"

section \<open>Facts of a subscription\<close>

record subscription_fact =
  sb_account_id :: ident
  sb_plan :: "plan_tier option"
  sb_state :: "subscription_state option"
  sb_openings :: "plan_opening list"
  sb_paid_through :: "instant option"
  sb_version :: "int option"
  sb_stated_at :: instant

definition subscription_columns :: "subscription_fact \<Rightarrow> instant \<Rightarrow> entitlement_subscription_row \<Rightarrow> entitlement_subscription_row" where
  "subscription_columns f at r = r\<lparr>eu_plan := map_option Known_Member (sb_plan f),
     eu_state := map_option Known_Member (sb_state f), eu_openings := map Known_Member (sb_openings f),
     eu_paid_through := sb_paid_through f,
     eu_version := (case sb_version f of None \<Rightarrow> eu_version r | Some v \<Rightarrow> Some v),
     eu_occurred_at := max (sb_stated_at f) (eu_occurred_at r), eu_applied_at := at\<rparr>"

definition subscription_supersedes :: "subscription_fact \<Rightarrow> entitlement_subscription_row \<Rightarrow> bool" where
  "subscription_supersedes f kept =
     (case (sb_version f, eu_version kept) of
        (Some v, Some k) \<Rightarrow> k < v
      | _ \<Rightarrow> eu_occurred_at kept \<le> sb_stated_at f)"

definition write_subscription ::
    "subscription_fact \<Rightarrow> instant \<Rightarrow> entitlement_subscription_row list \<Rightarrow> bool \<times> entitlement_subscription_row list" where
  "write_subscription f at t =
     (case tbl_find eu_account_id (sb_account_id f) t of
        None \<Rightarrow> (True, t @ [\<lparr>eu_account_id = sb_account_id f, eu_plan = map_option Known_Member (sb_plan f),
          eu_state = map_option Known_Member (sb_state f), eu_openings = map Known_Member (sb_openings f),
          eu_paid_through = sb_paid_through f, eu_version = sb_version f, eu_occurred_at = sb_stated_at f,
          eu_applied_at = at\<rparr>])
      | Some kept \<Rightarrow>
          if subscription_supersedes f kept
          then (True, tbl_update (\<lambda>r. eu_account_id r = sb_account_id f) (subscription_columns f at) t)
          else (False, t))"

definition record_subscription_fact ::
    "ident \<Rightarrow> subscription_fact \<Rightarrow> instant \<Rightarrow> 'a entitlement_db_scheme \<Rightarrow> message_outcome \<times> 'a entitlement_db_scheme" where
  "record_subscription_fact message_id fct now db =
     (let (claimed, db1) = claim_entitlement_message message_id db in
      if \<not> claimed then (Message_Duplicate, db)
      else let (wrote, t) = write_subscription fct now (en_subscriptions db1)
           in (if wrote then Message_Applied else Message_Superseded, db1\<lparr>en_subscriptions := t\<rparr>))"

section \<open>The facts playback reads\<close>

record date_facts =
  df_date_id :: ident
  df_channel_id :: "ident option"
  df_timing :: "date_timing option"
  df_publication_state :: "publication_state option"
  df_outcome :: "date_outcome option"
  df_rights :: "territory_rights option"

record entitlement_facts =
  ef_active_seats_on_date :: int
  ef_seat_expired :: bool
  ef_plan_openings :: "plan_opening list"
  ef_date :: "date_facts option"

definition date_timing_of :: "entitlement_core \<Rightarrow> entitlement_date_row \<Rightarrow> date_timing option" where
  "date_timing_of c r =
     (case (eo_starts_at r, eo_runtime_min r, eo_replay_policy r) of
        (Some starts_at, Some runtime_min, Some _) \<Rightarrow>
          Some \<lparr>dt_starts_at = starts_at, dt_runtime_min = runtime_min,
            dt_room_opens_before_min = entitlement_room_opens_minutes_before c,
            dt_replay_policy = (case member_of (eo_replay_policy r) of None \<Rightarrow> Policy_None | Some p \<Rightarrow> p),
            dt_replay_window_hours = (case eo_replay_window_hours r of None \<Rightarrow> 0 | Some h \<Rightarrow> h)\<rparr>
      | _ \<Rightarrow> None)"

definition rights_of :: "entitlement_date_row \<Rightarrow> territory_rights option" where
  "rights_of r =
     map_option (\<lambda>scope. \<lparr>tr_scope = scope,
       tr_blackout_countries = (case eo_blackout_countries r of None \<Rightarrow> [] | Some cs \<Rightarrow> cs),
       tr_reason = member_of (eo_blackout_reason r)\<rparr>) (member_of (eo_rights_scope r))"

definition date_facts_of :: "entitlement_core \<Rightarrow> entitlement_date_row \<Rightarrow> date_facts" where
  "date_facts_of c r = \<lparr>df_date_id = eo_date_id r, df_channel_id = eo_channel_id r, df_timing = date_timing_of c r,
     df_publication_state = member_of (eo_publication_state r), df_outcome = member_of (eo_outcome r),
     df_rights = rights_of r\<rparr>"

definition read_date_facts :: "entitlement_core \<Rightarrow> ident \<Rightarrow> 'a entitlement_db_scheme \<Rightarrow> date_facts option" where
  "read_date_facts c date db = map_option (date_facts_of c) (tbl_find eo_date_id date (en_dates db))"

definition seats_counted :: "seat_state \<Rightarrow> ident \<Rightarrow> ident \<Rightarrow> entitlement_seat_row list \<Rightarrow> nat" where
  "seats_counted state account date t =
     tbl_affected (\<lambda>r. es_account_id r = account \<and> es_date_id r = date \<and> es_state r = state) t"

definition read_entitlement_facts ::
    "entitlement_core \<Rightarrow> ident \<Rightarrow> ident \<Rightarrow> instant \<Rightarrow> 'a entitlement_db_scheme \<Rightarrow> entitlement_facts" where
  "read_entitlement_facts c account date now db =
     (let active = seats_counted Seat_Active account date (en_seats db);
          cancelled = seats_counted Seat_Cancelled account date (en_seats db);
          subscription = tbl_find eu_account_id account (en_subscriptions db)
      in \<lparr>ef_active_seats_on_date = int active, ef_seat_expired = (0 < cancelled \<and> active = 0),
        ef_plan_openings = (case Option.bind subscription (\<lambda>s. member_of (eu_state s)) of
            None \<Rightarrow> []
          | Some state \<Rightarrow> plan_openings_of c \<lparr>so_state = state,
              so_opens = (case subscription of None \<Rightarrow> [] | Some s \<Rightarrow> List.map_filter (\<lambda>x. member_of (Some x)) (eu_openings s)),
              so_paid_through = Option.bind subscription eu_paid_through\<rparr> now),
        ef_date = read_date_facts c date db\<rparr>)"

end
