(* ===== verification/Playback.thy ===== *)
theory Playback
  imports Preview Entitlement
begin

text \<open>
  Streaming's playback (\<open>apps/streaming/src/playback\<close>): the screens an account holds on a date, the format and
  the token of a player, the verdict, the leases' table and its statements, and the tables of the viewers.
\<close>

section \<open>Vocabulary\<close>

datatype watch_denial_reason =
    Concurrent_Limit_Reached | Denied_Date_Cancelled | Denied_Date_Interrupted | Denied_Live_Ended
  | Denied_Not_Published | Denied_No_Replay | Denied_Out_Of_Territory | Denied_Preview_Exhausted
  | Denied_Replay_Expired | Denied_Seat_Expired | Denied_Otherwise string

datatype revoke_reason = Watch_Denied watch_denial_reason | Signed_Out_Elsewhere

datatype watch_scope = Scope_None | Scope_Full | Scope_Preview

datatype ticket_scope = Ticket_Full | Ticket_Preview

datatype playback_session_state = Session_Active | Session_Released | Session_Expired | Session_Revoked

datatype playback_protocol = Hls | Dash

datatype drm_system = Fairplay | Widevine | Playready

datatype quality_cap = Quality_Uhd | Quality_Fhd | Quality_Hd | Quality_Sd

datatype edge_renewal_mode = Signed_Cookie | Query_Token

section \<open>Screens\<close>

text \<open>A row of \<open>playback_session\<close>, \<open>closed_at\<close> included; a \<open>ScreenLease\<close> is what the decisions read of it.\<close>

record playback_session =
  ps_id :: ident
  ps_account_id :: ident
  ps_profile_id :: ident
  ps_device_id :: ident
  ps_date_id :: ident
  ps_state :: playback_session_state
  ps_revoke_reason :: "revoke_reason option"
  ps_scope :: ticket_scope
  ps_session_scope :: string
  ps_protocol :: playback_protocol
  ps_drm_system :: "drm_system option"
  ps_quality_cap :: quality_cap
  ps_edge_renewal_mode :: edge_renewal_mode
  ps_surface :: surface
  ps_token_id :: ident
  ps_token_expires_at :: instant
  ps_lease_expires_at :: instant
  ps_opened_at :: instant
  ps_last_renewed_at :: instant
  ps_closed_at :: "instant option"

definition session_check :: "playback_session \<Rightarrow> bool" where
  "session_check s \<longleftrightarrow>
     (ps_state s = Session_Revoked) = (ps_revoke_reason s \<noteq> None) \<and> (ps_state s = Session_Active) = (ps_closed_at s = None)"

definition holds_a_screen :: "preview_core \<Rightarrow> playback_session \<Rightarrow> instant \<Rightarrow> bool" where
  "holds_a_screen p lease now = comes_after p (ps_lease_expires_at lease) now"

definition resumable_lease_of :: "preview_core \<Rightarrow> playback_session list \<Rightarrow> ident \<Rightarrow> instant \<Rightarrow> playback_session option" where
  "resumable_lease_of p leases device now = find (\<lambda>lease. ps_device_id lease = device \<and> holds_a_screen p lease now) leases"

text \<open>Of two leases, the one renewed before, then opened before, then of the smaller id stands first.\<close>

definition least_recently_renewed :: "playback_session \<Rightarrow> playback_session \<Rightarrow> bool" where
  "least_recently_renewed x y \<longleftrightarrow>
     ps_last_renewed_at x < ps_last_renewed_at y \<or>
     (ps_last_renewed_at x = ps_last_renewed_at y \<and>
        (ps_opened_at x < ps_opened_at y \<or> (ps_opened_at x = ps_opened_at y \<and> ps_id x \<le> ps_id y)))"

definition leases_taken_over_by :: "playback_session list \<Rightarrow> int \<Rightarrow> playback_session list" where
  "leases_taken_over_by other_screens allowed =
     (let excess = int (length other_screens) - max 0 (allowed - 1)
      in if excess \<le> 0 then [] else List.take (nat excess) (sort_by least_recently_renewed other_screens))"

definition opened_later :: "playback_session \<Rightarrow> playback_session \<Rightarrow> bool" where
  "opened_later lease than \<longleftrightarrow>
     ps_opened_at than < ps_opened_at lease \<or> (ps_opened_at lease = ps_opened_at than \<and> ps_id than < ps_id lease)"

definition newer_screens_than :: "preview_core \<Rightarrow> playback_session \<Rightarrow> playback_session list \<Rightarrow> instant \<Rightarrow> nat" where
  "newer_screens_than p lease screens now =
     length (filter (\<lambda>x. ps_id x \<noteq> ps_id lease \<and> holds_a_screen p x now \<and> opened_later x lease) screens)"

record active_screen =
  as_session_id :: ident
  as_device_id :: ident
  as_is_current_device :: bool
  as_device_label :: surface
  as_opened_at :: instant

definition active_screens_of :: "playback_session list \<Rightarrow> ident \<Rightarrow> active_screen list" where
  "active_screens_of screens device =
     map (\<lambda>s. \<lparr>as_session_id = ps_id s, as_device_id = ps_device_id s, as_is_current_device = (ps_device_id s = device),
       as_device_label = ps_surface s, as_opened_at = ps_opened_at s\<rparr>)
       (sort_by (\<lambda>x y. ps_opened_at x \<le> ps_opened_at y) screens)"

section \<open>The format\<close>

record playback_capabilities =
  pc_supports_signed_cookies :: bool
  pc_protocols :: "playback_protocol list"
  pc_drm_systems :: "drm_system list"

record declared_capabilities =
  dc_drm_systems :: "drm_system list option"
  dc_max_height_px :: "int option"

record playback_format =
  fm_protocol :: playback_protocol
  fm_drm_system :: "drm_system option"
  fm_quality_cap :: quality_cap
  fm_mechanism :: edge_renewal_mode

definition QUALITY_FLOORS_PX :: "(int \<times> quality_cap) list" where
  "QUALITY_FLOORS_PX = [(2160, Quality_Uhd), (1080, Quality_Fhd), (720, Quality_Hd)]"

definition quality_cap_for :: "int option \<Rightarrow> quality_cap" where
  "quality_cap_for max_height_px =
     (case max_height_px of
        None \<Rightarrow> Quality_Hd
      | Some h \<Rightarrow> (case find (\<lambda>(floor_px, _). floor_px \<le> h) QUALITY_FLOORS_PX of None \<Rightarrow> Quality_Sd | Some (_, cap) \<Rightarrow> cap))"

definition drm_system_for :: "playback_capabilities \<Rightarrow> declared_capabilities option \<Rightarrow> drm_system option" where
  "drm_system_for provider declared =
     (let offered = (case Option.bind declared dc_drm_systems of None \<Rightarrow> [] | Some ds \<Rightarrow> ds)
      in find (\<lambda>system. system \<in> set offered) (pc_drm_systems provider))"

definition protocol_for :: "playback_capabilities \<Rightarrow> drm_system option \<Rightarrow> playback_protocol stream_result" where
  "protocol_for provider drm =
     (let preferred = (if drm = None \<or> drm = Some Fairplay then Hls else Dash)
      in if preferred \<in> set (pc_protocols provider) then Inr preferred
         else case pc_protocols provider of
             [] \<Rightarrow> Inl (Stream_Defect ''the playback provider declares no protocol'')
           | first # _ \<Rightarrow> Inr first)"

definition edge_renewal_mode_for :: "playback_capabilities \<Rightarrow> surface \<Rightarrow> edge_renewal_mode" where
  "edge_renewal_mode_for provider surf =
     (if surf = Storefront_Web \<and> pc_supports_signed_cookies provider then Signed_Cookie else Query_Token)"

definition playback_format_for ::
    "playback_capabilities \<Rightarrow> declared_capabilities option \<Rightarrow> surface \<Rightarrow> playback_format stream_result" where
  "playback_format_for provider declared surf =
     (let drm = drm_system_for provider declared
      in bindE (protocol_for provider drm) (\<lambda>protocol.
         Inr \<lparr>fm_protocol = protocol, fm_drm_system = drm,
           fm_quality_cap = quality_cap_for (Option.bind declared dc_max_height_px),
           fm_mechanism = edge_renewal_mode_for provider surf\<rparr>))"

section \<open>The verdict\<close>

record watch_input =
  wt_holds_seat :: bool
  wt_seat_expired :: bool
  wt_plan_openings :: "plan_opening list"
  wt_concurrent_streams_open :: int
  wt_concurrent_streams_allowed :: int
  wt_preview_seconds_left :: int
  wt_viewer_country :: string
  wt_rights :: territory_rights
  wt_timing :: date_timing
  wt_publication_state :: publication_state
  wt_run_state :: "run_state option"
  wt_outcome :: "date_outcome option"
  wt_now :: instant

record verdict =
  vd_allowed :: bool
  vd_scope :: watch_scope
  vd_reason :: "watch_denial_reason option"
  vd_preview_seconds_left :: int

text \<open>What playback calls of \<open>@arthome/core\<close>. The seat standing, always unknown here, is left out of the input.\<close>

record playback_core =
  pk_preview :: preview_core
  pk_entitlement :: entitlement_core
  decide_watch :: "watch_input \<Rightarrow> verdict"
  playback_lease_expires_at :: "instant \<Rightarrow> instant"
  playback_token_expires_at :: "instant \<Rightarrow> instant"
  preview_renew_after_seconds :: "int \<Rightarrow> int"
  playback_renewal_interval_seconds :: int

definition screens_allowed_by :: "playback_core \<Rightarrow> entitlement_facts \<Rightarrow> int" where
  "screens_allowed_by c facts =
     concurrent_streams_allowed_for (pk_entitlement c) (ef_plan_openings facts) (ef_active_seats_on_date facts)"

definition refused_for :: "watch_denial_reason \<Rightarrow> verdict" where
  "refused_for reason = \<lparr>vd_allowed = False, vd_scope = Scope_None, vd_reason = Some reason, vd_preview_seconds_left = 0\<rparr>"

definition verdict_of ::
    "playback_core \<Rightarrow> entitlement_facts \<Rightarrow> run_facts option \<Rightarrow> int \<Rightarrow> int \<Rightarrow> int \<Rightarrow> string \<Rightarrow> instant \<Rightarrow> verdict" where
  "verdict_of c facts run screens_open allowed seconds_left viewer_country now =
     (case ef_date facts of
        None \<Rightarrow> refused_for Denied_Not_Published
      | Some date \<Rightarrow> (case (df_publication_state date, df_timing date) of
          (Some publication_state, Some timing) \<Rightarrow> (case df_rights date of
              None \<Rightarrow> refused_for Denied_Out_Of_Territory
            | Some rights \<Rightarrow> decide_watch c \<lparr>wt_holds_seat = (0 < ef_active_seats_on_date facts),
                wt_seat_expired = ef_seat_expired facts, wt_plan_openings = ef_plan_openings facts,
                wt_concurrent_streams_open = screens_open, wt_concurrent_streams_allowed = allowed,
                wt_preview_seconds_left = seconds_left, wt_viewer_country = viewer_country,
                wt_rights = rights, wt_timing = timing, wt_publication_state = publication_state,
                wt_run_state = map_option rf_state run, wt_outcome = df_outcome date, wt_now = now\<rparr>)
        | _ \<Rightarrow> refused_for Denied_Not_Published))"

section \<open>The token\<close>

record playback_claims =
  cl_sub :: ident
  cl_did :: ident
  cl_dat :: ident
  cl_sid :: ident
  cl_qmax :: quality_cap
  cl_scope :: ticket_scope
  cl_jti :: ident

definition playback_claims_of :: "playback_session \<Rightarrow> playback_claims" where
  "playback_claims_of s = \<lparr>cl_sub = ps_profile_id s, cl_did = ps_device_id s, cl_dat = ps_date_id s, cl_sid = ps_id s,
     cl_qmax = ps_quality_cap s, cl_scope = ps_scope s, cl_jti = ps_token_id s\<rparr>"

definition token_expires_at :: "playback_core \<Rightarrow> ticket_scope \<Rightarrow> instant \<Rightarrow> instant option \<Rightarrow> instant stream_result" where
  "token_expires_at c scope now preview_cover_until =
     (if scope = Ticket_Full then Inr (playback_token_expires_at c now)
      else case preview_cover_until of
          None \<Rightarrow> Inl (Stream_Defect ''a preview token is never issued without a cover'')
        | Some cover \<Rightarrow> Inr (earliest (pk_preview c) (playback_token_expires_at c now) cover))"

definition renew_after_seconds_of :: "playback_core \<Rightarrow> ticket_scope \<Rightarrow> int \<Rightarrow> int" where
  "renew_after_seconds_of c scope seconds_left =
     (if scope = Ticket_Preview then preview_renew_after_seconds c seconds_left
      else playback_renewal_interval_seconds c)"

record playback_grant =
  gr_date_id :: ident
  gr_stream_path :: "string option"
  gr_session_scope :: string
  gr_claims :: playback_claims
  gr_expires_at :: instant
  gr_mechanism :: edge_renewal_mode

record playback_cookie =
  ck_name :: string
  ck_value :: string
  ck_path :: string
  ck_expires_at :: instant

record signed_playback =
  sg_manifest_url :: string
  sg_query_token :: "string option"
  sg_cookies :: "playback_cookie list"

text \<open>A provider signs a grant, or does not sign that way (\<open>PlaybackSigningUnavailable\<close>).\<close>

record playback_provider =
  pv_capabilities :: playback_capabilities
  pv_sign :: "playback_grant \<Rightarrow> signed_playback option"

definition sign_session :: "playback_provider \<Rightarrow> playback_session \<Rightarrow> string option \<Rightarrow> signed_playback stream_result" where
  "sign_session provider s stream_path =
     (case pv_sign provider \<lparr>gr_date_id = ps_date_id s, gr_stream_path = stream_path, gr_session_scope = ps_session_scope s,
        gr_claims = playback_claims_of s, gr_expires_at = ps_token_expires_at s, gr_mechanism = ps_edge_renewal_mode s\<rparr> of
        None \<Rightarrow> Inl Signing_Unavailable
      | Some signed_ticket \<Rightarrow> Inr signed_ticket)"

section \<open>The leases' statements\<close>

record lease_issue =
  iu_scope :: ticket_scope
  iu_token_id :: ident
  iu_token_expires_at :: instant
  iu_lease_expires_at :: instant
  iu_at :: instant

record lease_reopening = lease_issue +
  re_profile_id :: ident
  re_protocol :: playback_protocol
  re_drm_system :: "drm_system option"
  re_quality_cap :: quality_cap
  re_edge_renewal_mode :: edge_renewal_mode
  re_surface :: surface

record lease_opening = lease_reopening +
  op_id :: ident
  op_account_id :: ident
  op_device_id :: ident
  op_date_id :: ident
  op_session_scope :: string

definition active_on_date :: "ident \<Rightarrow> ident \<Rightarrow> playback_session list \<Rightarrow> playback_session list" where
  "active_on_date account date t =
     sort_by (\<lambda>x y. ps_id x \<le> ps_id y)
       (filter (\<lambda>s. ps_account_id s = account \<and> ps_date_id s = date \<and> ps_state s = Session_Active) t)"

definition opened_session :: "lease_opening \<Rightarrow> playback_session" where
  "opened_session x = \<lparr>ps_id = op_id x, ps_account_id = op_account_id x, ps_profile_id = re_profile_id x,
     ps_device_id = op_device_id x, ps_date_id = op_date_id x, ps_state = Session_Active, ps_revoke_reason = None,
     ps_scope = iu_scope x, ps_session_scope = op_session_scope x, ps_protocol = re_protocol x,
     ps_drm_system = re_drm_system x, ps_quality_cap = re_quality_cap x,
     ps_edge_renewal_mode = re_edge_renewal_mode x, ps_surface = re_surface x, ps_token_id = iu_token_id x,
     ps_token_expires_at = iu_token_expires_at x, ps_lease_expires_at = iu_lease_expires_at x,
     ps_opened_at = iu_at x, ps_last_renewed_at = iu_at x, ps_closed_at = None\<rparr>"

text \<open>The conflict is of the partial index of active leases; a taken id breaks the primary key.\<close>

definition insert_session ::
    "lease_opening \<Rightarrow> playback_session list \<Rightarrow> (bool \<times> playback_session list) stream_result" where
  "insert_session x t =
     (if list_ex (\<lambda>s. ps_account_id s = op_account_id x \<and> ps_date_id s = op_date_id x \<and>
           ps_device_id s = op_device_id x \<and> ps_state s = Session_Active) t then Inr (False, t)
      else if list_ex (\<lambda>s. ps_id s = op_id x) t then Inl (Stream_Constraint ''playback_session'')
      else Inr (True, t @ [opened_session x]))"

definition reopen_columns :: "'a lease_reopening_scheme \<Rightarrow> playback_session \<Rightarrow> playback_session" where
  "reopen_columns x s = s\<lparr>ps_profile_id := re_profile_id x, ps_scope := iu_scope x, ps_protocol := re_protocol x,
     ps_drm_system := re_drm_system x, ps_quality_cap := re_quality_cap x,
     ps_edge_renewal_mode := re_edge_renewal_mode x, ps_surface := re_surface x, ps_token_id := iu_token_id x,
     ps_token_expires_at := iu_token_expires_at x, ps_lease_expires_at := iu_lease_expires_at x,
     ps_opened_at := iu_at x, ps_last_renewed_at := iu_at x\<rparr>"

definition renew_columns :: "'a lease_issue_scheme \<Rightarrow> playback_session \<Rightarrow> playback_session" where
  "renew_columns x s = s\<lparr>ps_scope := iu_scope x, ps_token_id := iu_token_id x,
     ps_token_expires_at := iu_token_expires_at x, ps_lease_expires_at := iu_lease_expires_at x,
     ps_last_renewed_at := iu_at x\<rparr>"

text \<open>An update of an active lease by its id, with the row it returns.\<close>

definition update_active ::
    "(playback_session \<Rightarrow> playback_session) \<Rightarrow> ident \<Rightarrow> playback_session list \<Rightarrow>
     playback_session option \<times> playback_session list" where
  "update_active columns i t =
     (let found = (\<lambda>s. ps_id s = i \<and> ps_state s = Session_Active)
      in (map_option columns (find found t), tbl_update found columns t))"

definition close_active ::
    "playback_session_state \<Rightarrow> revoke_reason option \<Rightarrow> instant \<Rightarrow> ident list \<Rightarrow> playback_session list \<Rightarrow> playback_session list" where
  "close_active state reason now ids t =
     tbl_update (\<lambda>s. ps_id s \<in> set ids \<and> ps_state s = Session_Active)
       (\<lambda>s. s\<lparr>ps_state := state, ps_revoke_reason := reason, ps_closed_at := Some now\<rparr>) t"

definition revoke_sessions :: "ident list \<Rightarrow> revoke_reason \<Rightarrow> instant \<Rightarrow> playback_session list \<Rightarrow> playback_session list" where
  "revoke_sessions ids reason now t = (if ids = [] then t else close_active Session_Revoked (Some reason) now ids t)"

definition expire_sessions :: "ident list \<Rightarrow> instant \<Rightarrow> playback_session list \<Rightarrow> playback_session list" where
  "expire_sessions ids now t = (if ids = [] then t else close_active Session_Expired None now ids t)"

definition release_session :: "ident \<Rightarrow> instant \<Rightarrow> playback_session list \<Rightarrow> playback_session list" where
  "release_session i now t = close_active Session_Released None now [i] t"

definition revoke_device ::
    "ident \<Rightarrow> ident \<Rightarrow> ident option \<Rightarrow> instant option \<Rightarrow> revoke_reason \<Rightarrow> instant \<Rightarrow> playback_session list \<Rightarrow>
     nat \<times> playback_session list" where
  "revoke_device account device profile opened_at_or_before reason now t =
     (let found = (\<lambda>s. ps_state s = Session_Active \<and> ps_account_id s = account \<and> ps_device_id s = device \<and>
            (case profile of None \<Rightarrow> True | Some p \<Rightarrow> ps_profile_id s = p) \<and>
            (case opened_at_or_before of None \<Rightarrow> True | Some at \<Rightarrow> ps_opened_at s \<le> at))
      in (tbl_affected found t,
          tbl_update found (\<lambda>s. s\<lparr>ps_state := Session_Revoked, ps_revoke_reason := Some reason, ps_closed_at := Some now\<rparr>) t))"

text \<open>The sweep's statement, over the due rows no other transaction holds.\<close>

definition expire_lapsed ::
    "(ident \<Rightarrow> bool) \<Rightarrow> instant \<Rightarrow> nat \<Rightarrow> playback_session list \<Rightarrow> nat \<times> playback_session list" where
  "expire_lapsed locked now batch t =
     (let due = List.take batch (filter (\<lambda>s. \<not> locked (ps_id s)) (sort_by (\<lambda>x y. ps_lease_expires_at x \<le> ps_lease_expires_at y)
            (filter (\<lambda>s. ps_state s = Session_Active \<and> ps_lease_expires_at s \<le> now) t)));
          found = (\<lambda>s. ps_state s = Session_Active \<and> ps_id s \<in> set (map ps_id due))
      in (tbl_affected found t, tbl_update found (\<lambda>s. s\<lparr>ps_state := Session_Expired, ps_closed_at := Some now\<rparr>) t))"

section \<open>The viewers' tables\<close>

record resume_point_row =
  rs_owner_id :: ident
  rs_date_id :: ident
  rs_account_id :: ident
  rs_profile_id :: "ident option"
  rs_device_id :: ident
  rs_position_sec :: int
  rs_completed :: bool
  rs_version :: int
  rs_written_at :: instant

record viewer_db = entitlement_db +
  vw_sessions :: "playback_session list"
  vw_budgets :: "budget_row list"
  vw_points :: "resume_point_row list"

end
