(* ===== verification/Playback_Desk.thy ===== *)
theory Playback_Desk
  imports Playback
begin

text \<open>
  The transactions of streaming's viewers: opening, renewing and releasing a screen
  (\<open>playback/playback-desk.ts\<close>), the leases identity's facts revoke (\<open>devices\<close>), the lapsed ones swept
  (\<open>playback/lease-sweep.ts\<close>), the resume points (\<open>progress\<close>), and the routes (\<open>playback.controller.ts\<close>,
  \<open>progress.controller.ts\<close>). The ids and scopes Node draws are arguments.
\<close>

section \<open>Answers\<close>

record viewer =
  vi_account_id :: ident
  vi_profile_id :: ident
  vi_device_id :: ident

record opening_request =
  oq_viewer :: viewer
  oq_date_id :: ident
  oq_surface :: surface
  oq_viewer_country :: string
  oq_capabilities :: "declared_capabilities option"

record drawn_ids =
  dr_session_id :: ident
  dr_session_scope :: string
  dr_token_id :: ident

datatype playback_refusal =
    Playback_Not_Found
  | Playback_Refused revoke_reason
  | Screens_Refused int "active_screen list"

record issued =
  id_session :: playback_session
  id_signed :: signed_playback
  id_renew_after_sec :: int
  id_preview_seconds_left :: int

record opened_playback = issued +
  od_resumed_existing_session :: bool
  od_incident :: "run_incident_facts option"

definition refusal_for :: "revoke_reason \<Rightarrow> int \<times> active_screen list \<Rightarrow> playback_refusal" where
  "refusal_for reason listed =
     (if reason = Watch_Denied Concurrent_Limit_Reached then Screens_Refused (fst listed) (snd listed)
      else Playback_Refused reason)"

section \<open>The issue\<close>

text \<open>The budget is the last row written; a preview it cannot cover is spent.\<close>

definition issue_for ::
    "playback_core \<Rightarrow> verdict \<Rightarrow> ident \<Rightarrow> ident \<Rightarrow> instant \<Rightarrow> ident \<Rightarrow> stream_db \<Rightarrow> budget_row list \<Rightarrow>
     ((watch_denial_reason + lease_issue) \<times> budget_row list) stream_result" where
  "issue_for c verdict account date now token_id stream budgets =
     (if \<not> vd_allowed verdict \<or> vd_reason verdict \<noteq> None \<or> vd_scope verdict = Scope_None
      then Inr (Inl (case vd_reason verdict of None \<Rightarrow> Denied_Not_Published | Some r \<Rightarrow> r), budgets)
      else
        let scope = (if vd_scope verdict = Scope_Preview then Ticket_Preview else Ticket_Full) in
        bindE (if scope = Ticket_Preview then preview_cover (pk_preview c) account date now stream budgets
               else Inr (None, budgets)) (\<lambda>(cover, budgets').
        if scope = Ticket_Preview \<and> cover = None then Inr (Inl Denied_Preview_Exhausted, budgets')
        else bindE (token_expires_at c scope now cover) (\<lambda>expires.
          Inr (Inr \<lparr>iu_scope = scope, iu_token_id = token_id, iu_token_expires_at = expires,
            iu_lease_expires_at = playback_lease_expires_at c now, iu_at = now\<rparr>, budgets'))))"

section \<open>Opening\<close>

definition lease_for ::
    "viewer \<Rightarrow> ident \<Rightarrow> ident option \<Rightarrow> lease_reopening \<Rightarrow> drawn_ids \<Rightarrow> playback_session list \<Rightarrow>
     ((playback_session \<times> bool) \<times> playback_session list) stream_result" where
  "lease_for v date resumed_id x ids t =
     bindE (case resumed_id of
         Some _ \<Rightarrow> Inr (None, t)
       | None \<Rightarrow>
           bindE (insert_session (lease_reopening.extend x \<lparr>op_id = dr_session_id ids, op_account_id = vi_account_id v,
               op_device_id = vi_device_id v, op_date_id = date, op_session_scope = dr_session_scope ids\<rparr>) t)
             (\<lambda>(inserted, t1). Inr (if inserted then tbl_find ps_id (dr_session_id ids) t1 else None, t1))) (\<lambda>(opened, t1).
     case opened of
       Some s \<Rightarrow> Inr ((s, False), t1)
     | None \<Rightarrow>
         let own = (case resumed_id of
               Some i \<Rightarrow> Some i
             | None \<Rightarrow> map_option ps_id (find (\<lambda>s. ps_device_id s = vi_device_id v) (active_on_date (vi_account_id v) date t1)))
         in case own of
              None \<Rightarrow> Inl (Stream_Defect ''no active lease to resume'')
            | Some i \<Rightarrow> (case update_active (reopen_columns x) i t1 of
                  (None, _) \<Rightarrow> Inl (Stream_Defect ''no active lease to resume'')
                | (Some s, t2) \<Rightarrow> Inr ((s, True), t2)))"

text \<open>What is decided before anything is written: the screens of the account on the date.\<close>

record screens_view =
  sv_active :: "playback_session list"
  sv_screens :: "playback_session list"
  sv_others :: "playback_session list"
  sv_taken_over :: "playback_session list"
  sv_allowed :: int

definition screens_at ::
    "playback_core \<Rightarrow> viewer \<Rightarrow> ident \<Rightarrow> instant \<Rightarrow> entitlement_facts \<Rightarrow> playback_session list \<Rightarrow> screens_view" where
  "screens_at c v date now facts t =
     (let active = active_on_date (vi_account_id v) date t;
          screens = filter (\<lambda>lease. holds_a_screen (pk_preview c) lease now) active;
          others = filter (\<lambda>lease. ps_device_id lease \<noteq> vi_device_id v) screens;
          allowed = screens_allowed_by c facts
      in \<lparr>sv_active = active, sv_screens = screens, sv_others = others,
        sv_taken_over = leases_taken_over_by others allowed, sv_allowed = allowed\<rparr>)"

text \<open>The leases an opening ends before it writes its own: the lapsed, and those it takes over.\<close>

definition leases_made_room ::
    "playback_core \<Rightarrow> screens_view \<Rightarrow> instant \<Rightarrow> playback_session list \<Rightarrow> playback_session list" where
  "leases_made_room c v now t =
     revoke_sessions (map ps_id (sv_taken_over v)) (Watch_Denied Concurrent_Limit_Reached) now
       (expire_sessions (map ps_id (filter (\<lambda>lease. \<not> holds_a_screen (pk_preview c) lease now) (sv_active v))) now t)"

text \<open>The opening as it is written and signed once the verdict allows it.\<close>

definition open_granted ::
    "playback_core \<Rightarrow> playback_provider \<Rightarrow> opening_request \<Rightarrow> drawn_ids \<Rightarrow> instant \<Rightarrow> screens_view \<Rightarrow> run_facts option \<Rightarrow>
     verdict \<Rightarrow> lease_issue \<Rightarrow> budget_row list \<Rightarrow> viewer_db \<Rightarrow> (opened_playback \<times> viewer_db) stream_result" where
  "open_granted c provider q ids now view run verdict x budgets db =
     (let v = oq_viewer q in
      bindE (playback_format_for (pv_capabilities provider) (oq_capabilities q) (oq_surface q)) (\<lambda>fmt.
      bindE (lease_for v (oq_date_id q) (map_option ps_id (resumable_lease_of (pk_preview c) (sv_screens view) (vi_device_id v) now))
          (lease_issue.extend x \<lparr>re_profile_id = vi_profile_id v, re_protocol = fm_protocol fmt,
            re_drm_system = fm_drm_system fmt, re_quality_cap = fm_quality_cap fmt,
            re_edge_renewal_mode = fm_mechanism fmt, re_surface = oq_surface q\<rparr>) ids
          (leases_made_room c view now (vw_sessions db))) (\<lambda>((session, resumed), t).
      bindE (sign_session provider session (map_option rf_stream_path run)) (\<lambda>signed_ticket.
      Inr (\<lparr>id_session = session, id_signed = signed_ticket,
          id_renew_after_sec = renew_after_seconds_of c (iu_scope x) (vd_preview_seconds_left verdict),
          id_preview_seconds_left = vd_preview_seconds_left verdict,
          od_resumed_existing_session = resumed, od_incident = Option.bind run rf_incident\<rparr>,
        db\<lparr>vw_budgets := budgets, vw_sessions := t\<rparr>)))))"

definition open_playback ::
    "playback_core \<Rightarrow> playback_provider \<Rightarrow> opening_request \<Rightarrow> drawn_ids \<Rightarrow> instant \<Rightarrow> viewer_db \<Rightarrow>
     ((playback_refusal + opened_playback) \<times> viewer_db) stream_result" where
  "open_playback c provider q ids now db =
     (let v = oq_viewer q; account = vi_account_id v; date = oq_date_id q; p = pk_preview c;
          facts = read_entitlement_facts (pk_entitlement c) account date now db in
      if ef_date facts = None then Inr (Inl Playback_Not_Found, db)
      else
        let run = read_run_facts date (en_stream db);
            view = screens_at c v date now facts (vw_sessions db);
            left = preview_left p account date now (en_stream db) (vw_budgets db);
            verdict = verdict_of c facts run (int (length (sv_others view)) - int (length (sv_taken_over view)))
              (sv_allowed view) left (oq_viewer_country q) now in
        bindE (issue_for c verdict account date now (dr_token_id ids) (en_stream db) (vw_budgets db)) (\<lambda>(issue, budgets).
        case issue of
          Inl reason \<Rightarrow>
            Inr (Inl (refusal_for (Watch_Denied reason)
              (sv_allowed view, active_screens_of (sv_screens view) (vi_device_id v))), db\<lparr>vw_budgets := budgets\<rparr>)
        | Inr x \<Rightarrow>
            bindE (open_granted c provider q ids now view run verdict x budgets db) (\<lambda>(opened, db').
            Inr (Inr opened, db'))))"

section \<open>Renewing and releasing\<close>

text \<open>\<open>held\<close> is the caller's check of the session, asked before the lock and again on the row locked.\<close>

text \<open>A renewal once the lease is locked and the caller checked again.\<close>

definition renew_lease ::
    "playback_core \<Rightarrow> playback_provider \<Rightarrow> viewer \<Rightarrow> playback_session \<Rightarrow> playback_session list \<Rightarrow> entitlement_facts \<Rightarrow>
     int \<times> active_screen list \<Rightarrow> string \<Rightarrow> ident \<Rightarrow> instant \<Rightarrow> viewer_db \<Rightarrow>
     ((playback_refusal + issued) \<times> viewer_db) stream_result" where
  "renew_lease c provider v lease screens facts listed viewer_country token_id now db =
     (if \<not> holds_a_screen (pk_preview c) lease now
      then Inr (Inl Playback_Not_Found, db\<lparr>vw_sessions := expire_sessions [ps_id lease] now (vw_sessions db)\<rparr>)
      else
        let account = vi_account_id v; date = ps_date_id lease; run = read_run_facts date (en_stream db);
            left = preview_left (pk_preview c) account date now (en_stream db) (vw_budgets db);
            verdict = verdict_of c facts run (int (newer_screens_than (pk_preview c) lease screens now))
              (screens_allowed_by c facts) left viewer_country now in
        bindE (issue_for c verdict account date now token_id (en_stream db) (vw_budgets db)) (\<lambda>(issue, budgets).
        case issue of
          Inl reason \<Rightarrow>
            Inr (Inl (refusal_for (Watch_Denied reason) listed), db\<lparr>vw_budgets := budgets,
              vw_sessions := revoke_sessions [ps_id lease] (Watch_Denied reason) now (vw_sessions db)\<rparr>)
        | Inr x \<Rightarrow> (case update_active (renew_columns x) (ps_id lease) (vw_sessions db) of
              (None, _) \<Rightarrow> Inl (Stream_Defect ''the locked lease was not active'')
            | (Some renewed, t) \<Rightarrow>
                bindE (sign_session provider renewed (map_option rf_stream_path run)) (\<lambda>signed_ticket.
                Inr (Inr \<lparr>id_session = renewed, id_signed = signed_ticket,
                    id_renew_after_sec = renew_after_seconds_of c (iu_scope x) (vd_preview_seconds_left verdict),
                    id_preview_seconds_left = vd_preview_seconds_left verdict\<rparr>,
                  db\<lparr>vw_budgets := budgets, vw_sessions := t\<rparr>)))))"

definition renew_playback ::
    "playback_core \<Rightarrow> playback_provider \<Rightarrow> viewer \<Rightarrow> ident \<Rightarrow> string \<Rightarrow> (playback_session \<Rightarrow> bool) \<Rightarrow> ident \<Rightarrow> instant \<Rightarrow>
     viewer_db \<Rightarrow> ((playback_refusal + issued) \<times> viewer_db) stream_result" where
  "renew_playback c provider v session_id viewer_country held token_id now db =
     (case tbl_find ps_id session_id (vw_sessions db) of
        None \<Rightarrow> Inr (Inl Playback_Not_Found, db)
      | Some found \<Rightarrow>
          if ps_account_id found \<noteq> vi_account_id v then Inr (Inl Playback_Not_Found, db)
          else bindE (ensure (held found) Stream_Forbidden) (\<lambda>_.
            let account = vi_account_id v; date = ps_date_id found; p = pk_preview c;
                active = active_on_date account date (vw_sessions db);
                screens = filter (\<lambda>lease. holds_a_screen p lease now) active;
                facts = read_entitlement_facts (pk_entitlement c) account date now db;
                listed = (screens_allowed_by c facts,
                  active_screens_of (filter (\<lambda>s. ps_id s \<noteq> session_id) screens) (vi_device_id v))
            in case find (\<lambda>s. ps_id s = session_id) active of
                 None \<Rightarrow> (case tbl_find ps_id session_id (vw_sessions db) of
                     None \<Rightarrow> Inr (Inl Playback_Not_Found, db)
                   | Some cur \<Rightarrow> (case (ps_state cur, ps_revoke_reason cur) of
                         (Session_Revoked, Some reason) \<Rightarrow> Inr (Inl (refusal_for reason listed), db)
                       | _ \<Rightarrow> Inr (Inl Playback_Not_Found, db)))
               | Some lease \<Rightarrow> bindE (ensure (held lease) Stream_Forbidden) (\<lambda>_.
                   renew_lease c provider v lease screens facts listed viewer_country token_id now db)))"

definition release_playback :: "ident \<Rightarrow> ident \<Rightarrow> instant \<Rightarrow> viewer_db \<Rightarrow> bool \<times> viewer_db" where
  "release_playback account session_id now db =
     (case tbl_find ps_id session_id (vw_sessions db) of
        None \<Rightarrow> (False, db)
      | Some found \<Rightarrow>
          if ps_account_id found \<noteq> account then (False, db)
          else (True, db\<lparr>vw_sessions := release_session (ps_id found) now (vw_sessions db)\<rparr>))"

section \<open>Leases revoked and swept\<close>

definition revoke_device_leases ::
    "ident \<Rightarrow> ident \<Rightarrow> ident \<Rightarrow> instant \<Rightarrow> viewer_db \<Rightarrow> message_outcome \<times> viewer_db" where
  "revoke_device_leases message_id account device now db =
     (let (claimed, db1) = claim_entitlement_message message_id db in
      if \<not> claimed then (Message_Duplicate, db)
      else (Message_Applied, db1\<lparr>vw_sessions :=
        snd (revoke_device account device None None Signed_Out_Elsewhere now (vw_sessions db1))\<rparr>))"

definition revoke_profile_leases ::
    "ident \<Rightarrow> ident \<Rightarrow> ident \<Rightarrow> ident \<Rightarrow> instant \<Rightarrow> instant \<Rightarrow> viewer_db \<Rightarrow> message_outcome \<times> viewer_db" where
  "revoke_profile_leases message_id account device profile occurred_at now db =
     (let (claimed, db1) = claim_entitlement_message message_id db in
      if \<not> claimed then (Message_Duplicate, db)
      else (Message_Applied, db1\<lparr>vw_sessions :=
        snd (revoke_device account device (Some profile) (Some occurred_at) Signed_Out_Elsewhere now (vw_sessions db1))\<rparr>))"

definition LEASE_SWEEP_BATCH :: nat where
  "LEASE_SWEEP_BATCH = 500"

definition expire_lapsed_leases :: "(ident \<Rightarrow> bool) \<Rightarrow> instant \<Rightarrow> nat \<Rightarrow> viewer_db \<Rightarrow> nat \<times> viewer_db" where
  "expire_lapsed_leases locked now batch db =
     (let (n, t) = expire_lapsed locked now batch (vw_sessions db) in (n, db\<lparr>vw_sessions := t\<rparr>))"

section \<open>Resume points\<close>

record stored_point =
  sp_position_sec :: int
  sp_version :: int

record progress =
  pg_position_sec :: int
  pg_written_at :: instant
  pg_completed :: bool
  pg_version :: int

record point_write =
  pw_owner_id :: ident
  pw_account_id :: ident
  pw_profile_id :: ident
  pw_device_id :: ident
  pw_date_id :: ident
  pw_position_sec :: int
  pw_completed :: bool
  pw_at :: instant

definition point_of :: "resume_point_row \<Rightarrow> stored_point" where
  "point_of r = \<lparr>sp_position_sec = rs_position_sec r, sp_version = rs_version r\<rparr>"

abbreviation point_key :: "resume_point_row \<Rightarrow> ident \<times> ident" where
  "point_key r \<equiv> (rs_owner_id r, rs_date_id r)"

definition stored_point_of :: "ident \<Rightarrow> ident \<Rightarrow> resume_point_row list \<Rightarrow> stored_point option" where
  "stored_point_of owner date t = map_option point_of (tbl_find point_key (owner, date) t)"

text \<open>One statement: an upsert, taken once the date's run has ended, under the column's check.\<close>

definition record_after_run ::
    "point_write \<Rightarrow> viewer_db \<Rightarrow> (stored_point option \<times> viewer_db) stream_result" where
  "record_after_run w db =
     (if \<not> list_ex (\<lambda>r. rr_date_id r = pw_date_id w \<and> rr_state r = Run_State_Ended) (sd_runs (en_stream db))
      then Inr (None, db)
      else bindE (ensure (0 \<le> pw_position_sec w) (Stream_Constraint ''resume_point'')) (\<lambda>_.
        let key = (pw_owner_id w, pw_date_id w);
            t = (case tbl_find point_key key (vw_points db) of
                None \<Rightarrow> vw_points db @ [\<lparr>rs_owner_id = pw_owner_id w, rs_date_id = pw_date_id w,
                  rs_account_id = pw_account_id w, rs_profile_id = Some (pw_profile_id w), rs_device_id = pw_device_id w,
                  rs_position_sec = pw_position_sec w, rs_completed = pw_completed w, rs_version = 1, rs_written_at = pw_at w\<rparr>]
              | Some _ \<Rightarrow> tbl_update (\<lambda>r. point_key r = key)
                  (\<lambda>r. r\<lparr>rs_position_sec := pw_position_sec w, rs_completed := pw_completed w,
                    rs_device_id := pw_device_id w, rs_written_at := pw_at w, rs_version := rs_version r + 1\<rparr>) (vw_points db))
        in Inr (stored_point_of (pw_owner_id w) (pw_date_id w) t, db\<lparr>vw_points := t\<rparr>)))"

definition progress_on ::
    "ident \<Rightarrow> ident \<Rightarrow> ident list \<Rightarrow> resume_point_row list \<Rightarrow> (ident \<times> progress) list" where
  "progress_on owner account dates t =
     map (\<lambda>r. (rs_date_id r, \<lparr>pg_position_sec = rs_position_sec r, pg_written_at = rs_written_at r,
        pg_completed = rs_completed r, pg_version = rs_version r\<rparr>))
       (filter (\<lambda>r. rs_owner_id r = owner \<and> rs_date_id r \<in> set dates \<and> rs_account_id r = account) t)"

section \<open>The routes\<close>

text \<open>The verified principal; a claim the token lacks is null.\<close>

record service_principal =
  pr_user_id :: "ident option"
  pr_profile_id :: "ident option"
  pr_device_id :: "ident option"

definition account_of :: "service_principal \<Rightarrow> ident stream_result" where
  "account_of p = (case pr_user_id p of None \<Rightarrow> Inl Stream_Forbidden | Some a \<Rightarrow> Inr a)"

definition profile_of_principal :: "service_principal \<Rightarrow> ident stream_result" where
  "profile_of_principal p = (case pr_profile_id p of None \<Rightarrow> Inl Stream_Forbidden | Some x \<Rightarrow> Inr x)"

definition viewer_of :: "service_principal \<Rightarrow> viewer stream_result" where
  "viewer_of p =
     bindE (account_of p) (\<lambda>account.
     bindE (profile_of_principal p) (\<lambda>profile.
     case pr_device_id p of
       None \<Rightarrow> Inl Stream_Forbidden
     | Some device \<Rightarrow> Inr \<lparr>vi_account_id = account, vi_profile_id = profile, vi_device_id = device\<rparr>))"

text \<open>A body's profile or device that differs from the token's is refused; one left out is not compared.\<close>

definition same_caller :: "service_principal \<Rightarrow> ident option \<Rightarrow> ident option \<Rightarrow> bool" where
  "same_caller p profile device \<longleftrightarrow>
     (profile = None \<or> profile = pr_profile_id p) \<and> (device = None \<or> device = pr_device_id p)"

record opening_body =
  ob_replay :: bool
  ob_profile_id :: "ident option"
  ob_device_id :: ident
  ob_capabilities :: "declared_capabilities option"

definition open_route ::
    "playback_core \<Rightarrow> playback_provider \<Rightarrow> bool \<Rightarrow> service_principal \<Rightarrow> ident \<Rightarrow> opening_body \<Rightarrow> surface \<Rightarrow> string \<Rightarrow>
     drawn_ids \<Rightarrow> instant \<Rightarrow> viewer_db \<Rightarrow> ((playback_refusal + opened_playback) \<times> viewer_db) stream_result" where
  "open_route c provider in_time caller date body surf country ids now db =
     bindE (ensure in_time Deadline_Exceeded) (\<lambda>_.
     if ob_replay body then Inr (Inl (Playback_Refused (Watch_Denied Denied_No_Replay)), db)
     else bindE (viewer_of caller) (\<lambda>v.
       bindE (ensure (same_caller caller (ob_profile_id body) (Some (ob_device_id body))) Stream_Forbidden) (\<lambda>_.
       open_playback c provider \<lparr>oq_viewer = v, oq_date_id = date, oq_surface = surf, oq_viewer_country = country,
         oq_capabilities = ob_capabilities body\<rparr> ids now db)))"

text \<open>
  What an opening answers; the resume point and the chat mode it adds are constants. The token is
  answered only as a query token, the cookies only as set.
\<close>

record opening_data =
  oa_session_id :: ident
  oa_resumed_existing_session :: bool
  oa_date_id :: ident
  oa_scope :: ticket_scope
  oa_preview_seconds_left :: "int option"
  oa_protocol :: playback_protocol
  oa_drm_system :: "drm_system option"
  oa_quality_cap :: quality_cap
  oa_manifest_url :: string
  oa_query_token :: "string option"
  oa_cookie_set :: bool
  oa_edge_renewal_mode :: edge_renewal_mode
  oa_expires_at :: instant
  oa_renew_after_sec :: int
  oa_lease_expires_at :: instant
  oa_incident :: "run_incident_facts option"

definition opening_data_of :: "opened_playback \<Rightarrow> opening_data" where
  "opening_data_of x =
     (let s = id_session x; signed_ticket = id_signed x
      in \<lparr>oa_session_id = ps_id s, oa_resumed_existing_session = od_resumed_existing_session x, oa_date_id = ps_date_id s,
        oa_scope = ps_scope s,
        oa_preview_seconds_left = (if ps_scope s = Ticket_Preview then Some (id_preview_seconds_left x) else None),
        oa_protocol = ps_protocol s, oa_drm_system = ps_drm_system s, oa_quality_cap = ps_quality_cap s,
        oa_manifest_url = sg_manifest_url signed_ticket, oa_query_token = sg_query_token signed_ticket,
        oa_cookie_set = (sg_cookies signed_ticket \<noteq> []), oa_edge_renewal_mode = ps_edge_renewal_mode s,
        oa_expires_at = ps_token_expires_at s, oa_renew_after_sec = id_renew_after_sec x,
        oa_lease_expires_at = ps_lease_expires_at s, oa_incident = od_incident x\<rparr>)"

record renewal_data =
  na_expires_at :: instant
  na_renew_after_sec :: int
  na_lease_expires_at :: instant
  na_query_token :: "string option"
  na_cookie_set :: bool
  na_quality_cap :: quality_cap

definition renewal_data_of :: "'a issued_scheme \<Rightarrow> renewal_data" where
  "renewal_data_of x = \<lparr>na_expires_at = ps_token_expires_at (id_session x), na_renew_after_sec = id_renew_after_sec x,
     na_lease_expires_at = ps_lease_expires_at (id_session x), na_query_token = sg_query_token (id_signed x),
     na_cookie_set = (sg_cookies (id_signed x) \<noteq> []), na_quality_cap = ps_quality_cap (id_session x)\<rparr>"

definition renew_route ::
    "playback_core \<Rightarrow> playback_provider \<Rightarrow> bool \<Rightarrow> service_principal \<Rightarrow> ident \<Rightarrow> string \<Rightarrow> ident \<Rightarrow> instant \<Rightarrow>
     viewer_db \<Rightarrow> ((playback_refusal + issued) \<times> viewer_db) stream_result" where
  "renew_route c provider in_time caller session_id country token_id now db =
     bindE (ensure in_time Deadline_Exceeded) (\<lambda>_.
     bindE (viewer_of caller) (\<lambda>v.
     renew_playback c provider v session_id country
       (\<lambda>s. same_caller caller (Some (ps_profile_id s)) (Some (ps_device_id s))) token_id now db))"

definition release_route ::
    "bool \<Rightarrow> service_principal \<Rightarrow> ident \<Rightarrow> instant \<Rightarrow> viewer_db \<Rightarrow> ((playback_refusal + unit) \<times> viewer_db) stream_result" where
  "release_route in_time caller session_id now db =
     bindE (ensure in_time Deadline_Exceeded) (\<lambda>_.
     bindE (account_of caller) (\<lambda>account.
     let (released, db') = release_playback account session_id now db
     in Inr (if released then Inr () else Inl Playback_Not_Found, db')))"

definition record_position_route ::
    "entitlement_core \<Rightarrow> bool \<Rightarrow> service_principal \<Rightarrow> ident \<Rightarrow> ident \<Rightarrow> int \<Rightarrow> bool option \<Rightarrow> instant \<Rightarrow> viewer_db \<Rightarrow>
     ((playback_refusal + stored_point option) \<times> viewer_db) stream_result" where
  "record_position_route c in_time caller date device position_sec completed now db =
     bindE (ensure in_time Deadline_Exceeded) (\<lambda>_.
     bindE (account_of caller) (\<lambda>account.
     bindE (profile_of_principal caller) (\<lambda>profile.
     bindE (ensure (same_caller caller None (Some device)) Stream_Forbidden) (\<lambda>_.
     if read_date_facts c date db = None then Inr (Inl Playback_Not_Found, db)
     else bindE (record_after_run \<lparr>pw_owner_id = profile, pw_account_id = account, pw_profile_id = profile,
         pw_device_id = device, pw_date_id = date, pw_position_sec = position_sec,
         pw_completed = (completed = Some True), pw_at = now\<rparr> db) (\<lambda>(recorded, db').
       Inr (Inr (case recorded of Some x \<Rightarrow> Some x | None \<Rightarrow> stored_point_of profile date (vw_points db')), db'))))))"

definition progress_batch_route ::
    "bool \<Rightarrow> service_principal \<Rightarrow> ident \<Rightarrow> ident list \<Rightarrow> viewer_db \<Rightarrow> (ident \<times> progress) list stream_result" where
  "progress_batch_route in_time caller profile_id dates db =
     bindE (ensure in_time Deadline_Exceeded) (\<lambda>_.
     bindE (account_of caller) (\<lambda>account.
     bindE (profile_of_principal caller) (\<lambda>profile.
     bindE (ensure (same_caller caller (Some profile_id) None) Stream_Forbidden) (\<lambda>_.
     Inr (progress_on profile account dates (vw_points db))))))"

end
