(* ===== verification/Playback_Screens.thy ===== *)
theory Playback_Screens
  imports Playback_Desk
begin

text \<open>
  The screens an account holds on a date: what each statement on the leases leaves active, and the room an
  opening makes before it writes its own.
\<close>

section \<open>Active leases\<close>

definition actives :: "ident \<Rightarrow> ident \<Rightarrow> playback_session list \<Rightarrow> playback_session list" where
  "actives account date t = filter (\<lambda>s. ps_account_id s = account \<and> ps_date_id s = date \<and> ps_state s = Session_Active) t"

text \<open>One row per id, one active lease per device of an account on a date.\<close>

definition leases_keyed :: "playback_session list \<Rightarrow> bool" where
  "leases_keyed t \<longleftrightarrow> distinct (map ps_id t) \<and> (\<forall>a d. distinct (map ps_device_id (actives a d t)))"

lemma leases_keyedD:
  assumes "leases_keyed t"
  shows "distinct (map ps_id t)" "distinct (map ps_device_id (actives a d t))"
  using assms by (simp_all add: leases_keyed_def)

lemma actives_ids: "leases_keyed t \<Longrightarrow> distinct (map ps_id (actives a d t))"
  by (simp add: leases_keyed_def actives_def distinct_map_filter)

lemma set_actives:
  "s \<in> set (actives a d t) \<longleftrightarrow> s \<in> set t \<and> ps_account_id s = a \<and> ps_date_id s = d \<and> ps_state s = Session_Active"
  by (auto simp: actives_def)

lemma length_filter_insert_by: "length (filter q (insert_by le x xs)) = length (filter q (x # xs))"
  by (induction xs) auto

lemma length_filter_sort_by [simp]: "length (filter q (sort_by le xs)) = length (filter q xs)"
proof (induction xs)
  case Nil
  then show ?case by (simp add: sort_by_def)
next
  case (Cons x xs)
  have "sort_by le (x # xs) = insert_by le x (sort_by le xs)" by (simp add: sort_by_def)
  with Cons show ?case by (simp add: length_filter_insert_by)
qed

lemma active_on_date_actives:
  "set (active_on_date a d t) = set (actives a d t)" "length (filter q (active_on_date a d t)) = length (filter q (actives a d t))"
  "distinct (map f (active_on_date a d t)) = distinct (map f (actives a d t))"
  by (simp_all add: active_on_date_def actives_def)

section \<open>Statements\<close>

text \<open>Leases closed: the ones left active are those not selected.\<close>

lemma actives_closed:
  assumes "\<And>s. ps_state (f s) \<noteq> Session_Active"
  shows "actives a d (tbl_update (\<lambda>s. q s \<and> ps_state s = Session_Active) f t) = filter (\<lambda>s. \<not> q s) (actives a d t)"
  by (induction t) (auto simp: actives_def assms)

lemma actives_close_active:
  "state \<noteq> Session_Active \<Longrightarrow> actives a d (close_active state reason now ids t) = filter (\<lambda>s. ps_id s \<notin> set ids) (actives a d t)"
  by (simp add: close_active_def actives_closed)

lemma actives_revoke [simp]: "actives a d (revoke_sessions ids reason now t) = filter (\<lambda>s. ps_id s \<notin> set ids) (actives a d t)"
  by (simp add: revoke_sessions_def actives_close_active)

lemma actives_expire [simp]: "actives a d (expire_sessions ids now t) = filter (\<lambda>s. ps_id s \<notin> set ids) (actives a d t)"
  by (simp add: expire_sessions_def actives_close_active)

lemma ids_close_active [simp]: "map ps_id (close_active state reason now ids t) = map ps_id t"
  unfolding close_active_def by (rule map_tbl_update_same) simp

lemma ids_revoke [simp]: "map ps_id (revoke_sessions ids reason now t) = map ps_id t"
  by (simp add: revoke_sessions_def)

lemma ids_expire [simp]: "map ps_id (expire_sessions ids now t) = map ps_id t"
  by (simp add: expire_sessions_def)

text \<open>Leases that only go: the rows keep their ids and what is active was.\<close>

definition leases_ended :: "playback_session list \<Rightarrow> playback_session list \<Rightarrow> bool" where
  "leases_ended t t' \<longleftrightarrow> map ps_id t' = map ps_id t \<and> (\<forall>a d. \<exists>q. actives a d t' = filter q (actives a d t))"

lemma leases_ended_refl [simp]: "leases_ended t t"
  by (auto simp: leases_ended_def intro: exI [of _ "\<lambda>_. True"])

lemma leases_ended_keyed: "leases_ended t t' \<Longrightarrow> leases_keyed t \<Longrightarrow> leases_keyed t'"
  unfolding leases_ended_def leases_keyed_def by (metis distinct_map_filter)

lemma leases_ended_length: "leases_ended t t' \<Longrightarrow> length (actives a d t') \<le> length (actives a d t)"
  unfolding leases_ended_def by (metis length_filter_le)

lemma leases_ended_revoke [simp]: "leases_ended t (revoke_sessions ids reason now t)"
  by (auto simp: leases_ended_def)

lemma leases_ended_expire [simp]: "leases_ended t (expire_sessions ids now t)"
  by (auto simp: leases_ended_def)

lemma leases_ended_release [simp]: "leases_ended t (release_session i now t)"
  by (auto simp: leases_ended_def release_session_def actives_close_active)

lemma leases_ended_update:
  assumes "\<And>s. ps_state (f s) \<noteq> Session_Active" and "\<And>s. ps_id (f s) = ps_id s"
  shows "leases_ended t (tbl_update (\<lambda>s. q s \<and> ps_state s = Session_Active) f t)"
  using map_tbl_update_same [of _ ps_id f] assms by (auto simp: leases_ended_def actives_closed)

lemma leases_ended_revoke_device [simp]: "leases_ended t (snd (revoke_device a d p before reason now t))"
proof -
  let ?f = "\<lambda>s. s\<lparr>ps_state := Session_Revoked, ps_revoke_reason := Some reason, ps_closed_at := Some now\<rparr>"
  have "leases_ended t (tbl_update (\<lambda>s. (ps_account_id s = a \<and> ps_device_id s = d \<and>
      (case p of None \<Rightarrow> True | Some p \<Rightarrow> ps_profile_id s = p) \<and>
      (case before of None \<Rightarrow> True | Some at \<Rightarrow> ps_opened_at s \<le> at)) \<and> ps_state s = Session_Active) ?f t)"
    by (rule leases_ended_update) simp_all
  then show ?thesis by (simp add: revoke_device_def Let_def conj_ac cong: conj_cong)
qed

lemma leases_ended_expire_lapsed [simp]: "leases_ended t (snd (expire_lapsed locked now batch t))"
  unfolding expire_lapsed_def Let_def snd_conv conj_commute [of "ps_state _ = _"]
  by (rule leases_ended_update) simp_all

text \<open>A lease rewritten keeps its place.\<close>

definition lease_place :: "playback_session \<Rightarrow> ident \<times> ident \<times> ident \<times> ident \<times> playback_session_state" where
  "lease_place s = (ps_id s, ps_account_id s, ps_date_id s, ps_device_id s, ps_state s)"

lemma actives_same_places:
  assumes "map lease_place t' = map lease_place t"
  shows "map lease_place (actives a d t') = map lease_place (actives a d t)"
proof -
  let ?q = "\<lambda>(_, account, date, _, state). account = a \<and> date = d \<and> state = Session_Active"
  have "map lease_place (actives a d t) = filter ?q (map lease_place t)" for t
    by (induction t) (auto simp: actives_def lease_place_def)
  with assms show ?thesis by simp
qed

lemma leases_keyed_places:
  assumes "map lease_place t' = map lease_place t" and "leases_keyed t"
  shows "leases_keyed t'" "length (actives a d t') = length (actives a d t)"
proof -
  have ids: "map ps_id t = map fst (map lease_place t)" "map ps_device_id t = map (\<lambda>(_, _, _, x, _). x) (map lease_place t)" for t
    by (simp_all add: lease_place_def)
  have "map ps_id t' = map ps_id t" unfolding ids assms(1) ..
  moreover have "map ps_device_id (actives a d t') = map ps_device_id (actives a d t)" for a d
    unfolding ids actives_same_places [OF assms(1)] ..
  ultimately show "leases_keyed t'" using assms(2) by (simp add: leases_keyed_def)
  show "length (actives a d t') = length (actives a d t)"
    using arg_cong [where f = length, OF actives_same_places [OF assms(1), of a d]] by simp
qed

lemma update_active_places:
  assumes "update_active f i t = (Some s, t')" and "\<And>s. lease_place (f s) = lease_place s"
  shows "map lease_place t' = map lease_place t"
  using assms map_tbl_update_same [of _ lease_place f t] by (auto simp: update_active_def Let_def)

lemma columns_place [simp]:
  "lease_place (reopen_columns x s) = lease_place s" "lease_place (renew_columns y s) = lease_place s"
  by (simp_all add: lease_place_def reopen_columns_def renew_columns_def)

section \<open>The table's checks\<close>

definition leases_checked :: "playback_session list \<Rightarrow> bool" where
  "leases_checked t \<longleftrightarrow> list_all session_check t"

lemma leases_checked_update:
  assumes "leases_checked t" and "\<And>s. q s \<Longrightarrow> session_check s \<Longrightarrow> session_check (f s)"
  shows "leases_checked (tbl_update q f t)"
  using assms by (auto simp: leases_checked_def list_all_iff table_simps)

lemma leases_checked_closed:
  "leases_checked t \<Longrightarrow> leases_checked (revoke_sessions ids reason now t)"
  "leases_checked t \<Longrightarrow> leases_checked (expire_sessions ids now t)"
  "leases_checked t \<Longrightarrow> leases_checked (release_session i now t)"
  "leases_checked t \<Longrightarrow> leases_checked (snd (revoke_device a d p before reason now t))"
  "leases_checked t \<Longrightarrow> leases_checked (snd (expire_lapsed locked now batch t))"
  by (auto simp: revoke_sessions_def expire_sessions_def release_session_def close_active_def revoke_device_def
      expire_lapsed_def Let_def session_check_def intro!: leases_checked_update)

lemma leases_checked_rewritten:
  assumes "leases_checked t" and "update_active f i t = (r, t')" and "\<And>s. session_check (f s) = session_check s"
  shows "leases_checked t'"
  using assms by (auto simp: update_active_def Let_def intro!: leases_checked_update)

lemma columns_check [simp]:
  "session_check (reopen_columns x s) = session_check s" "session_check (renew_columns y s) = session_check s"
  by (simp_all add: session_check_def reopen_columns_def renew_columns_def)

section \<open>The room an opening makes\<close>

lemma filter_taken_length:
  assumes "distinct (map f xs)" and "set ys \<subseteq> set xs" and "distinct (map f ys)"
  shows "length (filter (\<lambda>x. f x \<notin> f ` set ys) xs) + length ys = length xs"
proof -
  have "f x \<in> f ` set ys \<longleftrightarrow> x \<in> set ys" if "x \<in> set xs" for x
    using that assms(1,2) by (auto simp: distinct_map dest: inj_onD)
  then have "filter (\<lambda>x. f x \<in> f ` set ys) xs = filter (\<lambda>x. x \<in> set ys) xs" by (auto intro: filter_cong)
  moreover have "length (filter (\<lambda>x. x \<in> set ys) xs) = length ys"
  proof -
    have "distinct xs" "distinct ys" using assms(1,3) by (simp_all add: distinct_map)
    moreover from this assms(2) have "set (filter (\<lambda>x. x \<in> set ys) xs) = set ys" by auto
    ultimately show ?thesis by (metis distinct_card distinct_filter)
  qed
  ultimately have "length (filter (\<lambda>x. f x \<in> f ` set ys) xs) = length ys" by simp
  then show ?thesis using sum_length_filter_compl [of "\<lambda>x. f x \<in> f ` set ys" xs] by simp
qed

lemma taken_over:
  shows "set (leases_taken_over_by others allowed) \<subseteq> set others"
    and "distinct (map ps_id others) \<Longrightarrow> distinct (map ps_id (leases_taken_over_by others allowed))"
    and "int (length others) - int (length (leases_taken_over_by others allowed)) = min (int (length others)) (max 0 (allowed - 1))"
proof -
  show "set (leases_taken_over_by others allowed) \<subseteq> set others"
    using set_take_subset [of _ "sort_by least_recently_renewed others"] by (auto simp: leases_taken_over_by_def Let_def)
  show "distinct (map ps_id (leases_taken_over_by others allowed))" if "distinct (map ps_id others)"
    using that by (simp add: leases_taken_over_by_def Let_def take_map [symmetric])
  show "int (length others) - int (length (leases_taken_over_by others allowed)) = min (int (length others)) (max 0 (allowed - 1))"
    by (simp add: leases_taken_over_by_def Let_def)
qed

text \<open>Once room is made, what is left active on other devices fits beside one more screen.\<close>

lemma room_made:
  fixes c :: playback_core and v :: viewer and date :: ident and now :: instant and facts :: entitlement_facts
  assumes "leases_keyed t"
  defines "view \<equiv> screens_at c v date now facts t"
  defines "left \<equiv> actives (vi_account_id v) date (leases_made_room c view now t)"
  shows "int (length (filter (\<lambda>s. ps_device_id s \<noteq> vi_device_id v) left)) \<le> max 0 (sv_allowed view - 1)"
    and "\<And>s. s \<in> set left \<Longrightarrow> holds_a_screen (pk_preview c) s now"
    and "\<And>s. s \<in> set (actives (vi_account_id v) date t) \<Longrightarrow> ps_device_id s = vi_device_id v \<Longrightarrow>
      holds_a_screen (pk_preview c) s now \<Longrightarrow> s \<in> set left"
proof -
  let ?A = "actives (vi_account_id v) date t" and ?holds = "\<lambda>s. holds_a_screen (pk_preview c) s now"
  let ?other = "\<lambda>s. ps_device_id s \<noteq> vi_device_id v"
  let ?active = "active_on_date (vi_account_id v) date t"
  let ?lapsed = "filter (\<lambda>s. \<not> ?holds s) ?active" and ?others = "filter ?other (filter ?holds ?active)"
  let ?taken = "leases_taken_over_by ?others (sv_allowed view)"
  have ids: "distinct (map ps_id ?A)" by (rule actives_ids [OF assms(1)])
  then have same: "s = s'" if "s \<in> set ?A" "s' \<in> set ?A" "ps_id s = ps_id s'" for s s'
    using that by (auto simp: distinct_map dest: inj_onD)
  have left: "left = filter (\<lambda>s. ps_id s \<notin> ps_id ` set ?taken \<and> ps_id s \<notin> ps_id ` set ?lapsed) ?A"
    unfolding left_def leases_made_room_def view_def screens_at_def by (simp add: Let_def conj_commute)
  have taken: "set ?taken \<subseteq> set ?others" by (rule taken_over(1))
  have others: "set ?others = {s \<in> set ?A. ?holds s \<and> ?other s}" by (auto simp: active_on_date_actives)
  have "ps_id s \<in> ps_id ` set ?lapsed \<longleftrightarrow> \<not> ?holds s" if "s \<in> set ?A" for s
    using that same by (force simp: active_on_date_actives)
  then have left': "left = filter (\<lambda>s. ps_id s \<notin> ps_id ` set ?taken \<and> ?holds s) ?A"
    unfolding left by (intro filter_cong) auto
  show "?holds s" if "s \<in> set left" for s using that by (simp add: left')
  show "s \<in> set left" if "s \<in> set ?A" "ps_device_id s = vi_device_id v" "?holds s" for s
  proof -
    have "ps_id s \<notin> ps_id ` set ?taken"
    proof
      assume "ps_id s \<in> ps_id ` set ?taken"
      then obtain x where "x \<in> set ?others" "ps_id s = ps_id x" using taken by blast
      with same [OF that(1), of x] that(2) others show False by auto
    qed
    with that show ?thesis by (simp add: left')
  qed
  have "filter ?other left = filter (\<lambda>s. ps_id s \<notin> ps_id ` set ?taken) (filter ?other (filter ?holds ?A))"
    unfolding left' by (auto intro: filter_cong)
  moreover have "length (filter (\<lambda>s. ps_id s \<notin> ps_id ` set ?taken) (filter ?other (filter ?holds ?A))) + length ?taken =
      length (filter ?other (filter ?holds ?A))"
  proof (rule filter_taken_length)
    show "distinct (map ps_id (filter ?other (filter ?holds ?A)))" using ids by (intro distinct_map_filter)
    show "set ?taken \<subseteq> set (filter ?other (filter ?holds ?A))" using taken others by auto
    have "distinct (map ps_id ?others)" using ids by (intro distinct_map_filter) (simp add: active_on_date_actives)
    then show "distinct (map ps_id ?taken)" by (rule taken_over(2))
  qed
  moreover have "length ?others = length (filter ?other (filter ?holds ?A))"
    by (simp add: active_on_date_actives)
  ultimately have "length (filter ?other left) + length ?taken = length ?others" by (simp only:)
  then show "int (length (filter ?other left)) \<le> max 0 (sv_allowed view - 1)"
    using taken_over(3) [of ?others "sv_allowed view"] by linarith
qed

end
