(* ===== verification/Playback_System.thy ===== *)
theory Playback_System
  imports Playback_Screens
begin

text \<open>
  The viewers' transactions as steps of their tables, with what each opening was allowed: no account ever holds
  more screens on a date than its last opening there was allowed.
\<close>

section \<open>An opening\<close>

lemma insert_session_actives:
  assumes "leases_keyed t" and "insert_session x t = Inr (True, t')"
  shows "leases_keyed t'" "actives (op_account_id x) (op_date_id x) t' = actives (op_account_id x) (op_date_id x) t @ [opened_session x]"
    "(a, d) \<noteq> (op_account_id x, op_date_id x) \<Longrightarrow> actives a d t' = actives a d t"
    "tbl_find ps_id (op_id x) t' = Some (opened_session x)"
proof -
  have t': "t' = t @ [opened_session x]" and fresh: "op_id x \<notin> ps_id ` set t"
    and free: "\<And>s. s \<in> set (actives (op_account_id x) (op_date_id x) t) \<Longrightarrow> ps_device_id s \<noteq> op_device_id x"
    using assms(2) by (auto simp: insert_session_def list_ex_iff set_actives split: if_splits)
  have place: "ps_account_id (opened_session x) = op_account_id x" "ps_date_id (opened_session x) = op_date_id x"
    "ps_device_id (opened_session x) = op_device_id x" "ps_state (opened_session x) = Session_Active" "ps_id (opened_session x) = op_id x"
    by (simp_all add: opened_session_def)
  show own: "actives (op_account_id x) (op_date_id x) t' = actives (op_account_id x) (op_date_id x) t @ [opened_session x]"
    by (simp add: t' actives_def place)
  show others: "actives a d t' = actives a d t" if "(a, d) \<noteq> (op_account_id x, op_date_id x)" for a d
    using that by (auto simp: t' actives_def place)
  show "tbl_find ps_id (op_id x) t' = Some (opened_session x)"
    using fresh by (simp add: t' tbl_find_append place tbl_find_None [THEN iffD2])
  have "distinct (map ps_device_id (actives a d t'))" for a d
  proof (cases "(a, d) = (op_account_id x, op_date_id x)")
    case True
    have "op_device_id x \<notin> ps_device_id ` set (actives (op_account_id x) (op_date_id x) t)" using free by force
    with True own leases_keyedD(2) [OF assms(1), of a d] show ?thesis by (simp add: place)
  next
    case False
    with others [OF False] leases_keyedD(2) [OF assms(1), of a d] show ?thesis by simp
  qed
  with fresh leases_keyedD(1) [OF assms(1)] show "leases_keyed t'" by (auto simp: leases_keyed_def t' place)
qed

text \<open>The lease written is active, the device's own, and the only one that may be new.\<close>

lemma lease_for_actives:
  assumes keyed: "leases_keyed t" and run: "lease_for v date resumed x ids t = Inr ((s, again), t')"
  defines "others \<equiv> \<lambda>t. length (filter (\<lambda>y. ps_device_id y \<noteq> vi_device_id v) (actives (vi_account_id v) date t))"
  shows "leases_keyed t'" "others t' = others t"
    "(a, d) \<noteq> (vi_account_id v, date) \<Longrightarrow> length (actives a d t') = length (actives a d t)"
proof -
  let ?x = "lease_reopening.extend x \<lparr>op_id = dr_session_id ids, op_account_id = vi_account_id v,
    op_device_id = vi_device_id v, op_date_id = date, op_session_scope = dr_session_scope ids\<rparr>"
  have fields: "op_id ?x = dr_session_id ids" "op_account_id ?x = vi_account_id v" "op_device_id ?x = vi_device_id v" "op_date_id ?x = date"
    by (simp_all add: lease_reopening.defs)
  have "leases_keyed t' \<and> others t' = others t \<and>
    (\<forall>a d. (a, d) \<noteq> (vi_account_id v, date) \<longrightarrow> length (actives a d t') = length (actives a d t))"
  proof (cases "resumed = None \<and> (\<exists>t1. insert_session ?x t = Inr (True, t1))")
    case True
    then obtain t1 where t1: "resumed = None" "insert_session ?x t = Inr (True, t1)" by blast
    note ins = insert_session_actives [OF keyed t1(2), unfolded fields]
    have "t' = t1" using run t1 ins(4) by (simp add: lease_for_def)
    with ins show ?thesis by (simp add: others_def opened_session_def fields)
  next
    case False
    have kept: "t1 = t" if "insert_session ?x t = Inr (False, t1)" for t1
      using that by (simp add: insert_session_def split: if_splits)
    obtain i where "update_active (reopen_columns x) i t = (Some s, t')"
    proof (cases resumed)
      case (Some i)
      with run that show ?thesis
        by (auto simp: lease_for_def Let_def split: prod.splits option.splits)
    next
      case None
      with False obtain t1 where t1: "insert_session ?x t = Inr (False, t1)"
        using run by (cases "insert_session ?x t") (auto simp: lease_for_def)
      with run None kept [OF t1] that show ?thesis
        by (auto simp: lease_for_def Let_def split: prod.splits option.splits)
    qed
    then have places: "map lease_place t' = map lease_place t" by (rule update_active_places) simp
    have "others t' = others t"
    proof -
      have "others t = length (filter (\<lambda>(_, _, _, y, _). y \<noteq> vi_device_id v) (map lease_place (actives (vi_account_id v) date t)))" for t
        by (simp add: others_def filter_map o_def lease_place_def)
      then show ?thesis by (simp only: actives_same_places [OF places])
    qed
    with leases_keyed_places [OF places keyed] show ?thesis by blast
  qed
  then show "leases_keyed t'" "others t' = others t"
    "(a, d) \<noteq> (vi_account_id v, date) \<Longrightarrow> length (actives a d t') = length (actives a d t)" by simp_all
qed

lemma lease_for_checked:
  assumes checked: "leases_checked t" and run: "lease_for v date resumed x ids t = Inr (y, t')"
  shows "leases_checked t'"
proof -
  have inserted: "leases_checked t1" if "insert_session z t = Inr (b, t1)" for z b t1
    using that checked by (auto simp: insert_session_def leases_checked_def session_check_def opened_session_def split: if_splits)
  have updated: "leases_checked t2" if "update_active (reopen_columns x) i t1 = (r, t2)" "leases_checked t1" for i t1 t2 r
    using that by (auto intro: leases_checked_rewritten)
  show ?thesis
    using run checked inserted updated
    by (auto simp: lease_for_def Let_def result_simps split: option.splits prod.splits)
qed

definition screens_bound :: "int option \<Rightarrow> nat" where
  "screens_bound allowed = (case allowed of None \<Rightarrow> 0 | Some n \<Rightarrow> nat (max 1 n))"

lemma actives_split_device:
  assumes "leases_keyed t"
  shows "length (actives a d t) \<le> Suc (length (filter (\<lambda>s. ps_device_id s \<noteq> device) (actives a d t)))"
proof -
  have "length (filter (\<lambda>s. ps_device_id s = device \<and> True) (actives a d t)) \<le> 1"
    by (rule filter_key_length) (rule leases_keyedD(2) [OF assms])
  then show ?thesis using sum_length_filter_compl [of "\<lambda>s. ps_device_id s = device" "actives a d t"] by simp
qed

lemma leases_ended_made_room: "leases_ended t (leases_made_room c view now t)"
  unfolding leases_made_room_def leases_ended_def by auto

lemma leases_checked_made_room: "leases_checked t \<Longrightarrow> leases_checked (leases_made_room c view now t)"
  by (simp add: leases_made_room_def leases_checked_closed)

definition allowed_now :: "playback_core \<Rightarrow> opening_request \<Rightarrow> instant \<Rightarrow> viewer_db \<Rightarrow> int" where
  "allowed_now c q now db = screens_allowed_by c
     (read_entitlement_facts (pk_entitlement c) (vi_account_id (oq_viewer q)) (oq_date_id q) now db)"

lemma open_playback_lease:
  assumes "open_playback c provider q ids now db = Inr (Inr x, db')"
  obtains resumed y s again where "lease_for (oq_viewer q) (oq_date_id q) resumed y ids
      (leases_made_room c (screens_at c (oq_viewer q) (oq_date_id q) now
          (read_entitlement_facts (pk_entitlement c) (vi_account_id (oq_viewer q)) (oq_date_id q) now db) (vw_sessions db))
        now (vw_sessions db)) = Inr ((s, again), vw_sessions db')"
proof -
  let ?v = "oq_viewer q" and ?date = "oq_date_id q"
  let ?facts = "read_entitlement_facts (pk_entitlement c) (vi_account_id ?v) ?date now db"
  let ?view = "screens_at c ?v ?date now ?facts (vw_sessions db)"
  obtain run verdict issue budgets
    where "(case issue of Inl reason \<Rightarrow> Inr (Inl (refusal_for (Watch_Denied reason)
        (sv_allowed ?view, active_screens_of (sv_screens ?view) (vi_device_id ?v))), db\<lparr>vw_budgets := budgets\<rparr>)
      | Inr y \<Rightarrow> bindE (open_granted c provider q ids now ?view run verdict y budgets db) (\<lambda>(opened, db'). Inr (Inr opened, db'))) =
      Inr (Inr x, db')"
    using assms unfolding open_playback_def Let_def by (auto simp: bindE_eq_Inr split: if_splits)
  then obtain y where "open_granted c provider q ids now ?view run verdict y budgets db = Inr (x, db')"
    by (cases issue) (auto simp: bindE_eq_Inr)
  then show thesis unfolding open_granted_def Let_def by (auto simp: bindE_eq_Inr intro: that)
qed

lemma open_playback_screens:
  assumes keyed: "leases_keyed (vw_sessions db)" and run: "open_playback c provider q ids now db = Inr (Inr x, db')"
  shows "leases_keyed (vw_sessions db')"
    "length (actives (vi_account_id (oq_viewer q)) (oq_date_id q) (vw_sessions db')) \<le> screens_bound (Some (allowed_now c q now db))"
    "(a, d) \<noteq> (vi_account_id (oq_viewer q), oq_date_id q) \<Longrightarrow>
      length (actives a d (vw_sessions db')) \<le> length (actives a d (vw_sessions db))"
proof -
  let ?v = "oq_viewer q" and ?date = "oq_date_id q"
  let ?facts = "read_entitlement_facts (pk_entitlement c) (vi_account_id ?v) ?date now db"
  let ?view = "screens_at c ?v ?date now ?facts (vw_sessions db)"
  let ?room = "leases_made_room c ?view now (vw_sessions db)"
  obtain resumed y s again where lease: "lease_for ?v ?date resumed y ids ?room = Inr ((s, again), vw_sessions db')"
    by (rule open_playback_lease [OF run])
  have keyed': "leases_keyed ?room" by (rule leases_ended_keyed [OF leases_ended_made_room keyed])
  note after = lease_for_actives [OF keyed' lease]
  show "leases_keyed (vw_sessions db')" by (rule after(1))
  have "sv_allowed ?view = allowed_now c q now db" by (simp add: screens_at_def allowed_now_def Let_def)
  then have "int (length (filter (\<lambda>s. ps_device_id s \<noteq> vi_device_id ?v) (actives (vi_account_id ?v) ?date ?room))) \<le>
      max 0 (allowed_now c q now db - 1)"
    using room_made(1) [OF keyed, of ?v ?date c now ?facts] by simp
  with after(2) have "int (length (filter (\<lambda>s. ps_device_id s \<noteq> vi_device_id ?v) (actives (vi_account_id ?v) ?date (vw_sessions db')))) \<le>
      max 0 (allowed_now c q now db - 1)" by simp
  with actives_split_device [OF after(1), of "vi_account_id ?v" ?date "vi_device_id ?v"]
  show "length (actives (vi_account_id ?v) ?date (vw_sessions db')) \<le> screens_bound (Some (allowed_now c q now db))"
    by (simp add: screens_bound_def)
  show "length (actives a d (vw_sessions db')) \<le> length (actives a d (vw_sessions db))"
    if "(a, d) \<noteq> (vi_account_id ?v, ?date)"
    using after(3) [OF that] leases_ended_length [OF leases_ended_made_room, of a d c ?view now "vw_sessions db"] by simp
qed

lemma open_playback_checked:
  assumes "leases_checked (vw_sessions db)" and "open_playback c provider q ids now db = Inr (Inr x, db')"
  shows "leases_checked (vw_sessions db')"
proof -
  obtain resumed y s again view where "lease_for (oq_viewer q) (oq_date_id q) resumed y ids
      (leases_made_room c view now (vw_sessions db)) = Inr ((s, again), vw_sessions db')"
    by (rule open_playback_lease [OF assms(2)])
  then show ?thesis by (rule lease_for_checked [OF leases_checked_made_room [OF assms(1)]])
qed

section \<open>The other transactions\<close>

text \<open>What every other transaction may do to the leases: end some, rewrite some in place, never add one.\<close>

definition leases_kept :: "playback_session list \<Rightarrow> playback_session list \<Rightarrow> bool" where
  "leases_kept t t' \<longleftrightarrow> (leases_ended t t' \<or> map lease_place t' = map lease_place t) \<and>
     (leases_checked t \<longrightarrow> leases_checked t')"

lemma leases_kept_refl [simp]: "leases_kept t t"
  by (simp add: leases_kept_def)

lemma leases_keptD:
  assumes "leases_kept t t'" and "leases_keyed t"
  shows "leases_keyed t'" "length (actives a d t') \<le> length (actives a d t)"
  using assms leases_ended_keyed leases_ended_length leases_keyed_places unfolding leases_kept_def by (metis order_refl)+

lemma renew_lease_kept:
  assumes "renew_lease c provider v lease screens facts listed country token_id now db = Inr (x, db')"
  shows "leases_kept (vw_sessions db) (vw_sessions db')"
proof (cases "holds_a_screen (pk_preview c) lease now")
  case False
  with assms show ?thesis by (auto simp: renew_lease_def leases_kept_def leases_checked_closed)
next
  case True
  let ?run = "read_run_facts (ps_date_id lease) (en_stream db)"
  let ?left = "preview_left (pk_preview c) (vi_account_id v) (ps_date_id lease) now (en_stream db) (vw_budgets db)"
  let ?verdict = "verdict_of c facts ?run (int (newer_screens_than (pk_preview c) lease screens now))
    (screens_allowed_by c facts) ?left country now"
  obtain issue budgets where issued: "issue_for c ?verdict (vi_account_id v) (ps_date_id lease) now token_id
      (en_stream db) (vw_budgets db) = Inr (issue, budgets)"
    using assms True unfolding renew_lease_def Let_def by (auto simp: bindE_eq_Inr)
  note run = assms [unfolded renew_lease_def Let_def] True issued
  show ?thesis
  proof (cases issue)
    case (Inl reason)
    with run show ?thesis by (auto simp: leases_kept_def leases_checked_closed)
  next
    case (Inr y)
    with run obtain renewed where update: "update_active (renew_columns y) (ps_id lease) (vw_sessions db) = (Some renewed, vw_sessions db')"
      by (auto simp: bindE_eq_Inr split: prod.splits option.splits)
    then have "map lease_place (vw_sessions db') = map lease_place (vw_sessions db)"
      by (rule update_active_places) simp
    with update show ?thesis by (auto simp: leases_kept_def intro: leases_checked_rewritten)
  qed
qed

lemma renew_playback_kept:
  assumes "renew_playback c provider v i country held token_id now db = Inr (x, db')"
  shows "leases_kept (vw_sessions db) (vw_sessions db')"
proof (cases "tbl_find ps_id i (vw_sessions db)")
  case None
  with assms show ?thesis by (auto simp: renew_playback_def)
next
  case (Some found)
  let ?active = "active_on_date (vi_account_id v) (ps_date_id found) (vw_sessions db)"
  show ?thesis
  proof (cases "find (\<lambda>s. ps_id s = i) ?active")
    case None
    with assms Some show ?thesis
      by (auto simp: renew_playback_def Let_def result_simps split: if_splits playback_session_state.splits option.splits)
  next
    case (Some lease)
    with assms \<open>tbl_find ps_id i (vw_sessions db) = Some found\<close> show ?thesis
      by (auto simp: renew_playback_def Let_def result_simps split: if_splits intro: renew_lease_kept)
  qed
qed

lemma refused_opening_kept:
  assumes "open_playback c provider q ids now db = Inr (Inl x, db')"
  shows "vw_sessions db' = vw_sessions db"
proof -
  let ?v = "oq_viewer q" and ?date = "oq_date_id q"
  let ?facts = "read_entitlement_facts (pk_entitlement c) (vi_account_id ?v) ?date now db"
  let ?view = "screens_at c ?v ?date now ?facts (vw_sessions db)"
  show ?thesis
  proof (cases "ef_date ?facts = None")
    case True
    with assms show ?thesis by (simp add: open_playback_def)
  next
    case False
    then obtain run verdict issue budgets
      where "(case issue of Inl reason \<Rightarrow> Inr (Inl (refusal_for (Watch_Denied reason)
          (sv_allowed ?view, active_screens_of (sv_screens ?view) (vi_device_id ?v))), db\<lparr>vw_budgets := budgets\<rparr>)
        | Inr y \<Rightarrow> bindE (open_granted c provider q ids now ?view run verdict y budgets db) (\<lambda>(opened, db'). Inr (Inr opened, db'))) =
        Inr (Inl x, db')"
      using assms unfolding open_playback_def Let_def by (auto simp: bindE_eq_Inr)
    then show ?thesis by (cases issue) (auto simp: bindE_eq_Inr)
  qed
qed

section \<open>The system\<close>

text \<open>
  The tables with what the last opening of each account on each date was allowed. The run desk's steps move
  the runs beside them.
\<close>

type_synonym viewer_state = "(ident \<times> ident \<Rightarrow> int option) \<times> viewer_db"

inductive viewer_step :: "playback_core \<Rightarrow> playback_provider \<Rightarrow> run_core \<Rightarrow> live_ingest_provider \<Rightarrow> viewer_state \<Rightarrow> viewer_state \<Rightarrow> bool"
  for c :: playback_core and provider :: playback_provider and rc :: run_core and ingest :: live_ingest_provider where
  screen_opened: "open_playback c provider q ids now db = Inr (Inr x, db') \<Longrightarrow>
    viewer_step c provider rc ingest (was, db)
      (was((vi_account_id (oq_viewer q), oq_date_id q) := Some (allowed_now c q now db)), db')"
| screen_refused: "open_playback c provider q ids now db = Inr (Inl r, db') \<Longrightarrow> viewer_step c provider rc ingest (was, db) (was, db')"
| screen_renewed: "renew_playback c provider v i country held token_id now db = Inr (y, db') \<Longrightarrow>
    viewer_step c provider rc ingest (was, db) (was, db')"
| screen_released: "release_playback account i now db = (z, db') \<Longrightarrow> viewer_step c provider rc ingest (was, db) (was, db')"
| device_revoked: "revoke_device_leases m account device now db = (o1, db') \<Longrightarrow> viewer_step c provider rc ingest (was, db) (was, db')"
| profile_closed: "revoke_profile_leases m account device profile at now db = (o1, db') \<Longrightarrow>
    viewer_step c provider rc ingest (was, db) (was, db')"
| leases_swept: "expire_lapsed_leases locked now batch db = (n, db') \<Longrightarrow> viewer_step c provider rc ingest (was, db) (was, db')"
| date_fact_recorded: "record_date_fact m df now db = (o1, db') \<Longrightarrow> viewer_step c provider rc ingest (was, db) (was, db')"
| seat_fact_recorded: "record_seat_fact m sf now db = Inr (o1, db') \<Longrightarrow> viewer_step c provider rc ingest (was, db) (was, db')"
| subscription_recorded: "record_subscription_fact m sb now db = (o1, db') \<Longrightarrow> viewer_step c provider rc ingest (was, db) (was, db')"
| point_recorded: "record_after_run w db = Inr (p, db') \<Longrightarrow> viewer_step c provider rc ingest (was, db) (was, db')"
| run_stepped: "stream_step rc ingest (en_stream db) stream \<Longrightarrow>
    viewer_step c provider rc ingest (was, db) (was, db\<lparr>en_stream := stream\<rparr>)"

definition viewer_ok :: "viewer_state \<Rightarrow> bool" where
  "viewer_ok x \<longleftrightarrow> leases_keyed (vw_sessions (snd x)) \<and> leases_checked (vw_sessions (snd x)) \<and>
     (\<forall>a d. length (actives a d (vw_sessions (snd x))) \<le> screens_bound (fst x (a, d)))"

lemma claim_entitlement_sessions:
  fixes db :: viewer_db
  shows "vw_sessions (snd (claim_entitlement_message m db)) = vw_sessions db"
  by (simp add: claim_entitlement_message_def split: prod.split)

lemma facts_keep_sessions:
  fixes db :: viewer_db
  shows "record_date_fact m df now db = (o1, db') \<Longrightarrow> vw_sessions db' = vw_sessions db"
    "record_seat_fact m sf now db = Inr (o1, db') \<Longrightarrow> vw_sessions db' = vw_sessions db"
    "record_subscription_fact m sb now db = (o1, db') \<Longrightarrow> vw_sessions db' = vw_sessions db"
  using claim_entitlement_sessions [of m db]
  by (auto simp: record_date_fact_def record_seat_fact_def record_subscription_fact_def Let_def
      split: prod.splits if_splits seat_message_fact.splits)

lemma revocations_kept:
  shows "revoke_device_leases m a d now db = (o1, db') \<Longrightarrow> leases_kept (vw_sessions db) (vw_sessions db')"
    "revoke_profile_leases m a d p at now db = (o1, db') \<Longrightarrow> leases_kept (vw_sessions db) (vw_sessions db')"
  using claim_entitlement_sessions [of m db]
  by (auto simp: revoke_device_leases_def revoke_profile_leases_def leases_kept_def leases_checked_closed Let_def split: prod.splits if_splits)

lemma point_keeps_sessions: "record_after_run w db = Inr (p, db') \<Longrightarrow> vw_sessions db' = vw_sessions db"
  by (auto simp: record_after_run_def Let_def result_simps split: if_splits)

lemma viewer_step_cases:
  assumes "viewer_step c provider rc ingest (was, db) (now_allowed, db')"
  shows "(now_allowed = was \<and> leases_kept (vw_sessions db) (vw_sessions db')) \<or>
    (\<exists>q ids now x. open_playback c provider q ids now db = Inr (Inr x, db') \<and>
      now_allowed = was((vi_account_id (oq_viewer q), oq_date_id q) := Some (allowed_now c q now db)))"
  using assms
proof (cases rule: viewer_step.cases)
  case (screen_released account i now z)
  then show ?thesis by (auto simp: release_playback_def leases_kept_def leases_checked_closed split: option.splits if_splits)
next
  case (leases_swept locked now batch n)
  then have "vw_sessions db' = snd (expire_lapsed locked now batch (vw_sessions db))"
    by (auto simp: expire_lapsed_leases_def split: prod.splits)
  then have "leases_ended (vw_sessions db) (vw_sessions db')" "leases_checked (vw_sessions db) \<longrightarrow> leases_checked (vw_sessions db')"
    by (simp_all only: leases_ended_expire_lapsed) (simp add: leases_checked_closed)
  with leases_swept show ?thesis by (simp add: leases_kept_def)
qed (auto simp: refused_opening_kept facts_keep_sessions point_keeps_sessions dest: renew_playback_kept revocations_kept)

lemma viewer_step_ok:
  assumes "viewer_step c provider rc ingest x y" and "viewer_ok x"
  shows "viewer_ok y"
proof -
  obtain was db where x: "x = (was, db)" by fastforce
  obtain allowed db' where y: "y = (allowed, db')" by fastforce
  have keyed: "leases_keyed (vw_sessions db)" and checked: "leases_checked (vw_sessions db)" and bound: "\<And>a d. length (actives a d (vw_sessions db)) \<le> screens_bound (was (a, d))"
    using assms(2) by (simp_all add: viewer_ok_def x)
  from viewer_step_cases [OF assms(1) [unfolded x y]] show ?thesis
  proof
    assume kept: "allowed = was \<and> leases_kept (vw_sessions db) (vw_sessions db')"
    then have "length (actives a d (vw_sessions db')) \<le> screens_bound (allowed (a, d))" for a d
      using leases_keptD(2) [OF _ keyed] bound le_trans by blast
    with kept leases_keptD(1) [OF _ keyed] checked show ?thesis by (simp add: viewer_ok_def y leases_kept_def)
  next
    assume "\<exists>q ids now z. open_playback c provider q ids now db = Inr (Inr z, db') \<and>
      allowed = was((vi_account_id (oq_viewer q), oq_date_id q) := Some (allowed_now c q now db))"
    then obtain q ids now z where run: "open_playback c provider q ids now db = Inr (Inr z, db')"
      and allowed: "allowed = was((vi_account_id (oq_viewer q), oq_date_id q) := Some (allowed_now c q now db))" by blast
    have "length (actives a d (vw_sessions db')) \<le> screens_bound (allowed (a, d))" for a d
    proof (cases "(a, d) = (vi_account_id (oq_viewer q), oq_date_id q)")
      case True
      with open_playback_screens(2) [OF keyed run] show ?thesis by (simp add: allowed)
    next
      case False
      with open_playback_screens(3) [OF keyed run False] bound [of a d] show ?thesis by (auto simp: allowed)
    qed
    with open_playback_screens(1) [OF keyed run] open_playback_checked [OF checked run]
    show ?thesis by (simp add: viewer_ok_def y)
  qed
qed

definition no_viewers :: viewer_db where
  "no_viewers = \<lparr>en_stream = empty_stream, en_seats = [], en_dates = [], en_subscriptions = [], vw_sessions = [],
     vw_budgets = [], vw_points = []\<rparr>"

lemma no_viewers_ok: "viewer_ok (Map.empty, no_viewers)"
  by (simp add: viewer_ok_def no_viewers_def leases_keyed_def leases_checked_def actives_def)

interpretation viewers: invariant_system "\<lambda>x. x = (Map.empty, no_viewers)" "viewer_step c provider rc ingest" viewer_ok
  for c provider rc ingest
proof unfold_locales
  show "viewer_ok x" if "x = (Map.empty, no_viewers)" for x unfolding that by (rule no_viewers_ok)
  show "viewer_ok y" if "viewer_step c provider rc ingest x y" "viewer_ok x" for x y by (rule viewer_step_ok [OF that])
qed

end
