(* ===== verification/Preview_Budget.thy ===== *)
theory Preview_Budget
  imports Preview
begin

text \<open>
  What the preview's meter promises: the spans it reads are the instants on air and not veiled, and the
  tokens of an account on a date open 300 seconds of them at most.
\<close>

section \<open>The spans are the instants on air\<close>

definition veiled :: "instant \<Rightarrow> veil \<Rightarrow> instant \<Rightarrow> bool" where
  "veiled ends v t \<longleftrightarrow> ve_raised_at v \<le> t \<and> t < (case ve_resolved_at v of None \<Rightarrow> ends | Some u \<Rightarrow> u)"

definition on_air_at :: "run_timeline \<Rightarrow> instant \<Rightarrow> instant \<Rightarrow> bool" where
  "on_air_at timeline now t \<longleftrightarrow>
     (case tl_started_at timeline of
        None \<Rightarrow> False
      | Some began \<Rightarrow>
          let ends = (case tl_ended_at timeline of None \<Rightarrow> now | Some u \<Rightarrow> u)
          in began \<le> t \<and> t < ends \<and> \<not> list_ex (\<lambda>v. veiled ends v t) (tl_veils timeline))"

lemma preview_lawsD:
  assumes "preview_laws p"
  shows "comes_after p s t \<longleftrightarrow> t < s" "comes_before p s t \<longleftrightarrow> s < t" "earliest p s t = min s t" "latest p s t = max s t"
    "spans_in_order spans \<Longrightarrow> preview_ms_spent p w spans = int (card {t. in_window t w \<and> list_ex (in_window t) spans})"
    "preview_seconds_left p n \<le> max 0 (300 - n)" "preview_token_expires_at p t n = min (t + 120000) (t + n * 1000)"
  using assms by (auto simp: preview_laws_def)

text \<open>From a cursor on, the spans are the instants no veil to come covers.\<close>

lemma spans_from_cover:
  assumes "preview_laws p" and "sorted_wrt (\<lambda>a b. ve_raised_at a \<le> ve_raised_at b) vs" and "began \<le> cursor"
  shows "list_ex (in_window t) (spans_from p began ends cursor vs) \<longleftrightarrow>
    cursor \<le> t \<and> t < ends \<and> \<not> list_ex (\<lambda>v. veiled ends v t) vs"
  using assms(2,3)
proof (induction vs arbitrary: cursor)
  case Nil
  then show ?case by (auto simp: preview_lawsD [OF assms(1)] in_window_def)
next
  case (Cons v vs)
  let ?start = "max (ve_raised_at v) began"
  let ?stop = "min (case ve_resolved_at v of None \<Rightarrow> ends | Some t \<Rightarrow> t) ends"
  have covers: "veiled ends v t \<longleftrightarrow> ?start \<le> t \<and> t < ?stop" if "began \<le> t" "t < ends"
    using that by (auto simp: veiled_def split: option.split)
  have later: "\<not> list_ex (\<lambda>v. veiled ends v t) vs" if "t < ve_raised_at v"
    using Cons.prems(1) that by (force simp: list_ex_iff veiled_def)
  note IH = Cons.IH [of cursor] Cons.IH [of "max cursor ?stop"]
  show ?case
  proof (cases "?start < ?stop")
    case False
    then have "spans_from p began ends cursor (v # vs) = spans_from p began ends cursor vs"
      by (simp add: preview_lawsD [OF assms(1)] Let_def)
    with IH(1) Cons.prems covers False show ?thesis by auto
  next
    case True
    then have spans: "list_ex (in_window t) (spans_from p began ends cursor (v # vs)) \<longleftrightarrow>
        cursor \<le> t \<and> t < ?start \<or> list_ex (in_window t) (spans_from p began ends (max cursor ?stop) vs)"
      by (auto simp: preview_lawsD [OF assms(1)] Let_def in_window_def)
    have "began \<le> max cursor ?stop" using Cons.prems(2) by simp
    with IH(2) Cons.prems(1) have rest: "list_ex (in_window t) (spans_from p began ends (max cursor ?stop) vs) \<longleftrightarrow>
        max cursor ?stop \<le> t \<and> t < ends \<and> \<not> list_ex (\<lambda>v. veiled ends v t) vs" by simp
    have "?stop \<le> ends" by simp
    have "\<not> list_ex (\<lambda>v. veiled ends v t) (v # vs) \<longleftrightarrow> \<not> veiled ends v t \<and> \<not> list_ex (\<lambda>v. veiled ends v t) vs" by simp
    then show ?thesis
      unfolding spans rest using covers later Cons.prems(2) True \<open>?stop \<le> ends\<close> by linarith
  qed
qed

lemma spans_from_in_order:
  assumes "preview_laws p"
  shows "spans_in_order (spans_from p began ends cursor vs) \<and>
    (\<forall>w \<in> set (spans_from p began ends cursor vs). cursor \<le> wi_start w)"
proof (induction vs arbitrary: cursor)
  case Nil
  then show ?case by (auto simp: preview_lawsD [OF assms] spans_in_order_def)
next
  case (Cons v vs)
  let ?start = "max (ve_raised_at v) began"
  let ?stop = "min (case ve_resolved_at v of None \<Rightarrow> ends | Some t \<Rightarrow> t) ends"
  let ?rest = "spans_from p began ends (max cursor ?stop) vs"
  show ?case
  proof (cases "?start < ?stop")
    case False
    then show ?thesis using Cons.IH [of cursor] by (simp add: preview_lawsD [OF assms] Let_def)
  next
    case True
    then have spans: "spans_from p began ends cursor (v # vs) =
        (if cursor < ?start then [\<lparr>wi_start = cursor, wi_end = ?start\<rparr>] else []) @ ?rest"
      by (simp add: preview_lawsD [OF assms] Let_def)
    have "spans_in_order ?rest" and starts: "\<And>w. w \<in> set ?rest \<Longrightarrow> max cursor ?stop \<le> wi_start w"
      using Cons.IH [of "max cursor ?stop"] by blast+
    moreover have "?start \<le> wi_start w" "cursor \<le> wi_start w" if "w \<in> set ?rest" for w
      using starts [OF that] True by linarith+
    ultimately show ?thesis unfolding spans spans_in_order_def by auto
  qed
qed

lemma sorted_insert_by:
  fixes f :: "'a \<Rightarrow> int"
  assumes "sorted_wrt (\<lambda>a b. f a \<le> f b) xs"
  shows "sorted_wrt (\<lambda>a b. f a \<le> f b) (insert_by (\<lambda>a b. f a \<le> f b) x xs)"
  using assms by (induction xs) auto

lemma sorted_sort_by:
  fixes f :: "'a \<Rightarrow> int"
  shows "sorted_wrt (\<lambda>a b. f a \<le> f b) (sort_by (\<lambda>a b. f a \<le> f b) xs)"
  unfolding sort_by_def by (induction xs) (simp_all add: sorted_insert_by)

lemma on_air_intervals_exact:
  assumes "preview_laws p"
  shows "list_ex (in_window t) (on_air_intervals_of p timeline now) \<longleftrightarrow> on_air_at timeline now t"
    and "spans_in_order (on_air_intervals_of p timeline now)"
proof -
  have "list_ex (in_window t) (spans_from p began ends began (sort_by (\<lambda>a b. ve_raised_at a \<le> ve_raised_at b) vs)) \<longleftrightarrow>
      began \<le> t \<and> t < ends \<and> \<not> list_ex (\<lambda>v. veiled ends v t) vs" for began ends vs
    unfolding spans_from_cover [OF assms sorted_sort_by [of ve_raised_at] order_refl] by (simp add: list_ex_iff)
  then show "list_ex (in_window t) (on_air_intervals_of p timeline now) \<longleftrightarrow> on_air_at timeline now t"
    by (simp add: on_air_intervals_of_def on_air_at_def Let_def split: option.split)
  show "spans_in_order (on_air_intervals_of p timeline now)"
    using spans_from_in_order [OF assms]
    by (simp add: on_air_intervals_of_def Let_def spans_in_order_def split: option.split)
qed

lemma read_run_spans_exact:
  assumes "preview_laws p"
  shows "list_ex (in_window t) (read_run_spans p date now db) \<longleftrightarrow> on_air_at (run_timeline_of date db) now t"
    and "spans_in_order (read_run_spans p date now db)"
proof -
  have "read_run_spans p date now db = on_air_intervals_of p (run_timeline_of date db) now"
    by (auto simp: read_run_spans_def read_run_facts_def run_timeline_of_def on_air_intervals_of_def split: option.split)
  with on_air_intervals_exact [OF assms] show
    "list_ex (in_window t) (read_run_spans p date now db) \<longleftrightarrow> on_air_at (run_timeline_of date db) now t"
    "spans_in_order (read_run_spans p date now db)" by simp_all
qed

section \<open>The budget holds\<close>

text \<open>A token is the instant it was issued at and the one it reaches.\<close>

definition opened_by :: "(instant \<times> instant) list \<Rightarrow> instant \<Rightarrow> bool" where
  "opened_by tokens t \<longleftrightarrow> list_ex (\<lambda>(issued, expires). issued \<le> t \<and> t < expires) tokens"

lemma opened_by_simps [simp]:
  "\<not> opened_by [] t" "opened_by (x # xs) t \<longleftrightarrow> (fst x \<le> t \<and> t < snd x) \<or> opened_by xs t"
  "opened_by (xs @ ys) t \<longleftrightarrow> opened_by xs t \<or> opened_by ys t"
  by (auto simp: opened_by_def)

lemma finite_opened [simp]: "finite {t. opened_by tokens t}"
proof (induction tokens)
  case Nil
  then show ?case by simp
next
  case (Cons x xs)
  have "{t. opened_by (x # xs) t} \<subseteq> {fst x..<snd x} \<union> {t. opened_by xs t}" by auto
  then show ?case by (rule finite_subset) (simp add: Cons)
qed

lemma finite_opened_in [simp]: "finite {t \<in> A. opened_by tokens t \<and> q t}"
  by (rule finite_subset [OF _ finite_opened [of tokens]]) blast

text \<open>How far the tokens reach, no earlier than the settled past.\<close>

definition covered_to :: "budget_state \<Rightarrow> instant \<Rightarrow> instant" where
  "covered_to b since = (case bs_covered_until b of None \<Rightarrow> since | Some c \<Rightarrow> max since c)"

definition budget_holds :: "instant set \<Rightarrow> (instant \<times> instant) list \<Rightarrow> budget_state \<Rightarrow> bool" where
  "budget_holds A tokens b \<longleftrightarrow> 0 \<le> bs_settled_ms b \<and>
     (case bs_settled_until b of
        None \<Rightarrow> tokens = [] \<and> bs_settled_ms b = 0 \<and> bs_covered_until b = None
      | Some since \<Rightarrow> int (card {t \<in> A. opened_by tokens t \<and> t < since}) \<le> bs_settled_ms b \<and>
          (\<forall>t. opened_by tokens t \<longrightarrow> t < covered_to b since) \<and> bs_settled_ms b + (covered_to b since - since) \<le> 300000)"

lemma budget_holds_bound:
  assumes "budget_holds A tokens b"
  shows "card {t \<in> A. opened_by tokens t} \<le> 300000" "bs_settled_ms b \<le> 300000"
proof -
  have "card {t \<in> A. opened_by tokens t} \<le> 300000 \<and> bs_settled_ms b \<le> 300000"
  proof (cases "bs_settled_until b")
    case None
    then show ?thesis using assms by (simp add: budget_holds_def)
  next
    case (Some since)
    let ?past = "{t \<in> A. opened_by tokens t \<and> t < since}" and ?to = "covered_to b since"
    have past: "int (card ?past) \<le> bs_settled_ms b" and reach: "\<And>t. opened_by tokens t \<Longrightarrow> t < ?to"
      and within: "bs_settled_ms b + (?to - since) \<le> 300000"
      using assms Some by (simp_all add: budget_holds_def)
    have to: "since \<le> ?to" by (simp add: covered_to_def split: option.split)
    have "{t \<in> A. opened_by tokens t} \<subseteq> ?past \<union> {since..<?to}" using reach by force
    then have "card {t \<in> A. opened_by tokens t} \<le> card (?past \<union> {since..<?to})" by (intro card_mono) simp_all
    also have "\<dots> \<le> card ?past + card {since..<?to}" by (rule card_Un_le)
    finally have "int (card {t \<in> A. opened_by tokens t}) \<le> bs_settled_ms b + (?to - since)"
      using past to by simp
    with within to show ?thesis by linarith
  qed
  then show "card {t \<in> A. opened_by tokens t} \<le> 300000" "bs_settled_ms b \<le> 300000" by simp_all
qed

text \<open>The settlement charges every instant on air the tokens opened up to now, and leaves room for the rest.\<close>

lemma settled_past:
  assumes laws: "preview_laws p" and holds: "budget_holds A tokens b" and spans: "spans_in_order spans"
    and seen: "\<And>t. t \<in> A \<Longrightarrow> t < now \<Longrightarrow> list_ex (in_window t) spans"
    and forward: "\<And>since. bs_settled_until b = Some since \<Longrightarrow> since \<le> now"
  defines "s \<equiv> settled_ms_at p b now spans"
  shows "int (card {t \<in> A. opened_by tokens t \<and> t < now}) \<le> s" and "bs_settled_ms b \<le> s"
    and "\<And>t. opened_by tokens t \<Longrightarrow> t < covered_to b now" and "s + (covered_to b now - now) \<le> 300000"
proof -
  have "int (card {t \<in> A. opened_by tokens t \<and> t < now}) \<le> s \<and> bs_settled_ms b \<le> s \<and>
    (\<forall>t. opened_by tokens t \<longrightarrow> t < covered_to b now) \<and> s + (covered_to b now - now) \<le> 300000"
  proof (cases "bs_settled_until b")
    case None
    then show ?thesis using holds
      by (auto simp: budget_holds_def s_def settled_ms_at_def unsettled_window_def covered_to_def)
  next
    case (Some since)
    let ?past = "{t \<in> A. opened_by tokens t \<and> t < since}" and ?to = "covered_to b since"
    let ?due = "{t. since \<le> t \<and> t < min now ?to \<and> list_ex (in_window t) spans}"
    have past: "int (card ?past) \<le> bs_settled_ms b" and reach: "\<And>t. opened_by tokens t \<Longrightarrow> t < ?to"
      and within: "bs_settled_ms b + (?to - since) \<le> 300000"
      using holds Some by (simp_all add: budget_holds_def)
    have to: "since \<le> ?to" "since \<le> now" "covered_to b now = max now ?to"
      using forward [OF Some] by (auto simp: covered_to_def split: option.split)
    have due: "finite ?due" "card ?due \<le> nat (min now ?to - since)"
    proof -
      have sub: "?due \<subseteq> {since..<min now ?to}" by auto
      then show "finite ?due" by (rule finite_subset) simp
      from card_mono [OF _ sub] show "card ?due \<le> nat (min now ?to - since)" by simp
    qed
    have s: "s = bs_settled_ms b + int (card ?due)"
    proof (cases "bs_covered_until b")
      case None
      then have due: "?due = {}" by (auto simp: covered_to_def)
      show ?thesis unfolding due using None Some by (simp add: s_def settled_ms_at_def unsettled_window_def)
    next
      case (Some c)
      show ?thesis
      proof (cases "since < min now c")
        case True
        then have due: "?due = {t. in_window t \<lparr>wi_start = since, wi_end = min now c\<rparr> \<and> list_ex (in_window t) spans}"
          using Some by (auto simp: covered_to_def in_window_def)
        show ?thesis unfolding due using True Some \<open>bs_settled_until b = Some since\<close>
          by (simp add: s_def settled_ms_at_def unsettled_window_def preview_lawsD [OF laws] spans Let_def)
      next
        case False
        then have due: "?due = {}" using Some to(2) by (auto simp: covered_to_def)
        show ?thesis unfolding due using False Some \<open>bs_settled_until b = Some since\<close>
          by (auto simp: s_def settled_ms_at_def unsettled_window_def preview_lawsD [OF laws] Let_def)
      qed
    qed
    have "{t \<in> A. opened_by tokens t \<and> t < now} \<subseteq> ?past \<union> ?due" using reach seen by force
    then have "card {t \<in> A. opened_by tokens t \<and> t < now} \<le> card (?past \<union> ?due)"
      using due(1) finite_opened_in [of A tokens "\<lambda>t. t < since"] by (intro card_mono finite_UnI)
    also have "\<dots> \<le> card ?past + card ?due" by (rule card_Un_le)
    finally have "int (card {t \<in> A. opened_by tokens t \<and> t < now}) \<le> s" using past s by simp
    moreover have "s + (covered_to b now - now) \<le> 300000" using s due(2) within to by (simp add: max_def min_def split: if_splits)
    moreover have "t < covered_to b now" if "opened_by tokens t" for t using reach [OF that] to(3) by simp
    moreover have "bs_settled_ms b \<le> s" using s by simp
    ultimately show ?thesis by blast
  qed
  then show "int (card {t \<in> A. opened_by tokens t \<and> t < now}) \<le> s" "bs_settled_ms b \<le> s"
    "\<And>t. opened_by tokens t \<Longrightarrow> t < covered_to b now" "s + (covered_to b now - now) \<le> 300000" by simp_all
qed

lemma seconds_left_within:
  assumes "preview_laws p" and "0 < seconds_left_of p ms"
  shows "ms + seconds_left_of p ms * 1000 \<le> 300000"
  using preview_lawsD(6) [OF assms(1), of "- ((- ms) div 1000)"] assms(2) by (simp add: seconds_left_of_def)

lemma cover_at_holds:
  assumes laws: "preview_laws p" and holds: "budget_holds A tokens b" and spans: "spans_in_order spans"
    and seen: "\<And>t. t \<in> A \<Longrightarrow> t < now \<Longrightarrow> list_ex (in_window t) spans"
    and forward: "\<And>since. bs_settled_until b = Some since \<Longrightarrow> since \<le> now"
    and cover: "cover_at p b now spans = (b', expires)"
  shows "budget_holds A (tokens @ (case expires of None \<Rightarrow> [] | Some e \<Rightarrow> [(now, e)])) b'" "bs_settled_until b' = Some now"
proof -
  let ?s = "settled_ms_at p b now spans" and ?to = "covered_to b now"
  note past = settled_past [OF laws holds spans seen forward]
  have nonneg: "0 \<le> ?s" using past(2) holds by (simp add: budget_holds_def)
  show "bs_settled_until b' = Some now" using cover by (auto simp: cover_at_def Let_def split: if_splits)
  show "budget_holds A (tokens @ (case expires of None \<Rightarrow> [] | Some e \<Rightarrow> [(now, e)])) b'"
  proof (cases "seconds_left_of p ?s \<le> 0")
    case True
    then have b': "bs_settled_ms b' = ?s" "bs_settled_until b' = Some now" "covered_to b' now = ?to" "expires = None"
      using cover by (auto simp: cover_at_def covered_to_def Let_def)
    with past nonneg show ?thesis by (simp add: budget_holds_def)
  next
    case False
    let ?e = "min (now + 120000) (now + seconds_left_of p ?s * 1000)"
    define e where "e = ?e"
    have b': "bs_settled_ms b' = ?s" "bs_settled_until b' = Some now" "expires = Some e"
      "bs_covered_until b' = Some (max (case bs_covered_until b of None \<Rightarrow> e | Some c \<Rightarrow> if e < c then c else e) now)"
      using cover False by (cases "bs_covered_until b"; auto simp: cover_at_def e_def Let_def preview_lawsD [OF laws])+
    have "now < e" using False by (simp add: e_def)
    then have to: "covered_to b' now = max ?to e" by (auto simp: covered_to_def b' split: option.split)
    have "{t \<in> A. (opened_by tokens t \<or> now \<le> t \<and> t < e) \<and> t < now} = {t \<in> A. opened_by tokens t \<and> t < now}" by auto
    moreover have "?s + (max ?to e - now) \<le> 300000"
      using past(4) seconds_left_within [OF laws, of ?s] False by (simp add: e_def max_def min_def split: if_splits)
    moreover have "t < max ?to e" if "opened_by tokens t \<or> now \<le> t \<and> t < e" for t
      using that past(3) [of t] by auto
    ultimately show ?thesis using past(1) nonneg b' to by (simp add: budget_holds_def)
  qed
qed

section \<open>The meter\<close>

text \<open>The covers of openings and renewals one after the other, with the tokens they issue.\<close>

fun preview_tokens ::
    "preview_core \<Rightarrow> (ident \<times> ident \<times> instant \<times> stream_db) list \<Rightarrow> budget_row list \<Rightarrow>
     ((ident \<times> ident \<times> instant \<times> instant) list \<times> budget_row list) stream_result" where
  "preview_tokens p [] t = Inr ([], t)"
| "preview_tokens p ((account, date, now, db) # calls) t =
     bindE (preview_cover p account date now db t) (\<lambda>(expires, t1).
     bindE (preview_tokens p calls t1) (\<lambda>(tokens, t2).
     Inr ((case expires of None \<Rightarrow> [] | Some e \<Rightarrow> [(account, date, now, e)]) @ tokens, t2)))"

definition own_tokens :: "ident \<Rightarrow> ident \<Rightarrow> (ident \<times> ident \<times> instant \<times> instant) list \<Rightarrow> (instant \<times> instant) list" where
  "own_tokens account date tokens =
     map (\<lambda>(_, _, x). x) (filter (\<lambda>(a, d, _). a = account \<and> d = date) tokens)"

definition own_budget :: "ident \<Rightarrow> ident \<Rightarrow> budget_row list \<Rightarrow> budget_state" where
  "own_budget account date t = (case budget_of account date t of None \<Rightarrow> FRESH_BUDGET | Some b \<Rightarrow> b)"

abbreviation budget_key :: "budget_row \<Rightarrow> ident \<times> ident" where
  "budget_key r \<equiv> (bu_account_id r, bu_date_id r)"

lemma budget_of_find: "budget_of a d t = map_option bu_state (tbl_find budget_key (a, d) t)"
  by (simp add: budget_of_def tbl_find_def)

lemma lock_budget_run:
  "\<exists>t1. lock_budget a d t = Inr (own_budget a d t, t1) \<and> (a, d) \<in> budget_key ` set t1 \<and>
     set t1 \<subseteq> insert \<lparr>bu_account_id = a, bu_date_id = d, bu_state = FRESH_BUDGET\<rparr> (set t) \<and>
     (\<forall>a' d'. (a', d') \<noteq> (a, d) \<longrightarrow> budget_of a' d' t1 = budget_of a' d' t)"
proof (cases "tbl_find budget_key (a, d) t")
  case None
  then have "\<not> list_ex (\<lambda>r. bu_account_id r = a \<and> bu_date_id r = d) t" by (auto simp: tbl_find_None list_ex_iff image_iff)
  with None show ?thesis
    by (auto simp: lock_budget_def own_budget_def budget_of_find tbl_find_append split: option.split)
next
  case (Some r)
  then have "r \<in> set t" "budget_key r = (a, d)" using tbl_find_SomeD [OF Some] by blast+
  then have "list_ex (\<lambda>r. bu_account_id r = a \<and> bu_date_id r = d) t" "(a, d) \<in> budget_key ` set t"
    by (auto simp: list_ex_iff image_iff)
  with Some show ?thesis by (auto simp: lock_budget_def own_budget_def budget_of_find)
qed

lemma write_budget_run:
  assumes "(a, d) \<in> budget_key ` set t" and "0 \<le> bs_settled_ms b"
  defines "t' \<equiv> tbl_update (\<lambda>r. bu_account_id r = a \<and> bu_date_id r = d) (\<lambda>r. r\<lparr>bu_state := b\<rparr>) t"
  shows "write_budget a d b t = Inr t'" "budget_of a d t' = Some b"
    "(a', d') \<noteq> (a, d) \<Longrightarrow> budget_of a' d' t' = budget_of a' d' t"
proof -
  have "tbl_affected (\<lambda>r. bu_account_id r = a \<and> bu_date_id r = d) t \<noteq> 0"
    using assms(1) by (auto simp: tbl_affected_def filter_empty_conv)
  then show "write_budget a d b t = Inr t'" using assms(2) by (simp add: write_budget_def t'_def ensure_def)
  have find: "tbl_find budget_key k t' = map_option (\<lambda>r. if budget_key r = (a, d) then r\<lparr>bu_state := b\<rparr> else r) (tbl_find budget_key k t)" for k
    unfolding t'_def by (subst tbl_find_tbl_update) simp_all
  obtain r where r: "tbl_find budget_key (a, d) t = Some r" "budget_key r = (a, d)"
    using assms(1) tbl_find_None [of budget_key "(a, d)" t] by (auto dest: tbl_find_SomeD)
  then show "budget_of a d t' = Some b" by (simp add: budget_of_find find)
  show "budget_of a' d' t' = budget_of a' d' t" if "(a', d') \<noteq> (a, d)"
  proof (cases "tbl_find budget_key (a', d') t")
    case (Some x)
    then have "budget_key x \<noteq> (a, d)" using tbl_find_SomeD [OF Some] that by simp
    with Some show ?thesis by (auto simp: budget_of_find find)
  qed (simp add: budget_of_find find)
qed

definition budgets_nonneg :: "budget_row list \<Rightarrow> bool" where
  "budgets_nonneg t \<longleftrightarrow> list_all (\<lambda>r. 0 \<le> bs_settled_ms (bu_state r)) t"

lemma cover_at_nonneg:
  assumes "preview_laws p" and "0 \<le> bs_settled_ms b" and "spans_in_order spans"
  shows "0 \<le> bs_settled_ms (fst (cover_at p b now spans))"
  using assms(2) preview_lawsD(5) [OF assms(1,3)] by (simp add: cover_at_def settled_ms_at_def Let_def split: option.split)

lemma preview_cover_run:
  assumes "preview_laws p" and "budgets_nonneg t"
  obtains expires t' b' where "preview_cover p a d now db t = Inr (expires, t')"
    "cover_at p (own_budget a d t) now (read_run_spans p d now db) = (b', expires)" "budget_of a d t' = Some b'"
    "budgets_nonneg t'" "\<And>a' d'. (a', d') \<noteq> (a, d) \<Longrightarrow> budget_of a' d' t' = budget_of a' d' t"
proof -
  let ?spans = "read_run_spans p d now db"
  obtain t1 where lock: "lock_budget a d t = Inr (own_budget a d t, t1)" and key: "(a, d) \<in> budget_key ` set t1"
    and rows: "set t1 \<subseteq> insert \<lparr>bu_account_id = a, bu_date_id = d, bu_state = FRESH_BUDGET\<rparr> (set t)"
    and others: "\<And>a' d'. (a', d') \<noteq> (a, d) \<Longrightarrow> budget_of a' d' t1 = budget_of a' d' t"
    using lock_budget_run by blast
  have nonneg1: "0 \<le> bs_settled_ms (bu_state r)" if "r \<in> set t1" for r
    using that rows assms(2) by (auto simp: budgets_nonneg_def list_all_iff FRESH_BUDGET_def)
  have own: "0 \<le> bs_settled_ms (own_budget a d t)"
  proof (cases "tbl_find budget_key (a, d) t")
    case None
    then show ?thesis by (simp add: own_budget_def budget_of_find FRESH_BUDGET_def)
  next
    case (Some r)
    then have "0 \<le> bs_settled_ms (bu_state r)"
      using assms(2) tbl_find_SomeD [OF Some] by (simp add: budgets_nonneg_def list_all_iff)
    with Some show ?thesis by (simp add: own_budget_def budget_of_find)
  qed
  obtain b' expires where cover: "cover_at p (own_budget a d t) now ?spans = (b', expires)" by fastforce
  have "0 \<le> bs_settled_ms b'"
    using cover_at_nonneg [OF assms(1) own read_run_spans_exact(2) [OF assms(1), where date = d and now = now and db = db], where now = now] cover
    by simp
  note stored = write_budget_run [OF key this]
  let ?t = "tbl_update (\<lambda>r. bu_account_id r = a \<and> bu_date_id r = d) (\<lambda>r. r\<lparr>bu_state := b'\<rparr>) t1"
  have "preview_cover p a d now db t = Inr (expires, ?t)" by (simp add: preview_cover_def Let_def lock cover stored(1))
  moreover have "budgets_nonneg ?t"
    using nonneg1 \<open>0 \<le> bs_settled_ms b'\<close> by (auto simp: budgets_nonneg_def list_all_iff table_simps)
  moreover have "budget_of a' d' ?t = budget_of a' d' t" if "(a', d') \<noteq> (a, d)" for a' d'
    using stored(3) [OF that] others [OF that] by simp
  ultimately show thesis using cover stored(2) by (intro that)
qed

abbreviation own_call :: "ident \<Rightarrow> ident \<Rightarrow> ident \<times> ident \<times> instant \<times> stream_db \<Rightarrow> bool" where
  "own_call a d call \<equiv> fst call = a \<and> fst (snd call) = d"

abbreviation call_at :: "ident \<times> ident \<times> instant \<times> stream_db \<Rightarrow> instant" where
  "call_at call \<equiv> fst (snd (snd call))"

lemma own_tokens_append [simp]: "own_tokens a d (xs @ ys) = own_tokens a d xs @ own_tokens a d ys"
  by (simp add: own_tokens_def)

lemma preview_tokens_hold:
  assumes laws: "preview_laws p" and "budgets_nonneg t"
    and "sorted_wrt (\<lambda>x y. call_at x \<le> call_at y) (filter (own_call a d) calls)"
    and "\<And>call u. call \<in> set calls \<Longrightarrow> own_call a d call \<Longrightarrow> u \<in> A \<Longrightarrow> u < call_at call \<Longrightarrow>
      on_air_at (run_timeline_of d (snd (snd (snd call)))) (call_at call) u"
    and "budget_holds A before (own_budget a d t)"
    and "\<And>since call. bs_settled_until (own_budget a d t) = Some since \<Longrightarrow> call \<in> set calls \<Longrightarrow> own_call a d call \<Longrightarrow>
      since \<le> call_at call"
  shows "\<exists>tokens t'. preview_tokens p calls t = Inr (tokens, t') \<and>
    budget_holds A (before @ own_tokens a d tokens) (own_budget a d t')"
  using assms(2-)
proof (induction calls arbitrary: t before)
  case Nil
  then show ?case by (simp add: own_tokens_def)
next
  case (Cons call calls)
  obtain a0 d0 now db where call: "call = (a0, d0, now, db)" by (cases call)
  obtain expires t1 b where cover: "preview_cover p a0 d0 now db t = Inr (expires, t1)"
    "cover_at p (own_budget a0 d0 t) now (read_run_spans p d0 now db) = (b, expires)" "budget_of a0 d0 t1 = Some b"
    and nonneg: "budgets_nonneg t1" and others: "\<And>a' d'. (a', d') \<noteq> (a0, d0) \<Longrightarrow> budget_of a' d' t1 = budget_of a' d' t"
    using preview_cover_run [OF laws Cons.prems(1), of a0 d0 now db] by metis
  let ?issued = "case expires of None \<Rightarrow> [] | Some e \<Rightarrow> [(a0, d0, now, e)]"
  have sorted: "sorted_wrt (\<lambda>x y. call_at x \<le> call_at y) (filter (own_call a d) calls)"
    using Cons.prems(2) by (simp split: if_splits)
  have seen: "\<And>call u. call \<in> set calls \<Longrightarrow> own_call a d call \<Longrightarrow> u \<in> A \<Longrightarrow> u < call_at call \<Longrightarrow>
      on_air_at (run_timeline_of d (snd (snd (snd call)))) (call_at call) u" using Cons.prems(3) by simp
  have "budget_holds A (before @ own_tokens a d ?issued) (own_budget a d t1) \<and>
    (\<forall>since x. bs_settled_until (own_budget a d t1) = Some since \<longrightarrow> x \<in> set calls \<longrightarrow> own_call a d x \<longrightarrow> since \<le> call_at x)"
  proof (cases "(a0, d0) = (a, d)")
    case True
    have own: "own_budget a d t1 = b" using cover(3) True by (simp add: own_budget_def)
    have "u \<in> A \<Longrightarrow> u < now \<Longrightarrow> list_ex (in_window u) (read_run_spans p d now db)" for u
      using Cons.prems(3) [of call u] True by (simp add: call read_run_spans_exact(1) [OF laws])
    moreover have "since \<le> now" if "bs_settled_until (own_budget a d t) = Some since" for since
      using Cons.prems(5) [OF that, of call] True by (simp add: call)
    ultimately have "budget_holds A (before @ (case expires of None \<Rightarrow> [] | Some e \<Rightarrow> [(now, e)])) b" "bs_settled_until b = Some now"
      using cover_at_holds [OF laws Cons.prems(4) read_run_spans_exact(2) [OF laws]] cover(2) True by blast+
    moreover have "own_tokens a d ?issued = (case expires of None \<Rightarrow> [] | Some e \<Rightarrow> [(now, e)])"
      using True by (simp add: own_tokens_def split: option.split)
    moreover have "now \<le> call_at x" if "x \<in> set calls" "own_call a d x" for x
      using Cons.prems(2) that True by (cases x) (auto simp: call)
    ultimately show ?thesis unfolding own by (metis option.inject)
  next
    case False
    then have "own_budget a d t1 = own_budget a d t" "own_tokens a d ?issued = []"
      using others [of a d] by (auto simp: own_budget_def own_tokens_def split: option.split)
    then show ?thesis using Cons.prems(4,5) by simp
  qed
  then obtain tokens t2 where "preview_tokens p calls t1 = Inr (tokens, t2)"
    "budget_holds A ((before @ own_tokens a d ?issued) @ own_tokens a d tokens) (own_budget a d t2)"
    using Cons.IH [OF nonneg sorted seen, of "before @ own_tokens a d ?issued"] by blast
  then show ?case by (simp add: call cover(1))
qed

section \<open>The property\<close>

definition sample_preview_core :: preview_core where
  "sample_preview_core = \<lparr>comes_after = (\<lambda>s t. t < s), comes_before = (\<lambda>s t. s < t), earliest = min, latest = max,
     preview_ms_spent = (\<lambda>w spans. \<Sum>s\<leftarrow>spans. max 0 (min (wi_end s) (wi_end w) - max (wi_start s) (wi_start w))),
     preview_seconds_left = (\<lambda>spent. max 0 (300 - spent)),
     preview_token_expires_at = (\<lambda>now left. min (now + 120000) (now + left * 1000))\<rparr>"

lemma sample_ms_spent:
  assumes "spans_in_order spans"
  shows "(\<Sum>s\<leftarrow>spans. max 0 (min (wi_end s) (wi_end w) - max (wi_start s) (wi_start w))) =
    int (card {t. in_window t w \<and> list_ex (in_window t) spans})"
  using assms
proof (induction spans)
  case Nil
  then show ?case by simp
next
  case (Cons s spans)
  let ?here = "{max (wi_start s) (wi_start w)..<min (wi_end s) (wi_end w)}"
    and ?rest = "{t. in_window t w \<and> list_ex (in_window t) spans}"
  have "?rest \<subseteq> {wi_start w..<wi_end w}" by (auto simp: in_window_def)
  then have "finite ?rest" by (rule finite_subset) simp
  moreover have "?here \<inter> ?rest = {}"
    using Cons.prems by (force simp: spans_in_order_def in_window_def list_ex_iff)
  ultimately have "card (?here \<union> ?rest) = card ?here + card ?rest" by (intro card_Un_disjoint) simp_all
  moreover have "{t. in_window t w \<and> list_ex (in_window t) (s # spans)} = ?here \<union> ?rest"
    by (auto simp: in_window_def)
  moreover have "int (card ?here) = max 0 (min (wi_end s) (wi_end w) - max (wi_start s) (wi_start w))"
    by (simp only: card_atLeastLessThan_int int_nat_eq max_def)
  moreover have "spans_in_order spans" using Cons.prems by (simp add: spans_in_order_def)
  ultimately show ?case using Cons.IH by (simp del: card_atLeastLessThan_int)
qed

lemma sample_preview_laws: "preview_laws sample_preview_core"
  by (simp add: preview_laws_def sample_preview_core_def sample_ms_spent)

text \<open>
  Property C14. However a viewer's screens are opened, renewed, released and opened again, and whoever else
  watches meanwhile, the preview tokens of an account on a date open at most 300 seconds of the instants the
  date is on air and not veiled, every cover is written, and what is settled stays within the column's bound.
\<close>

theorem preview_budget_holds:
  assumes "preview_laws p"
    and "sorted_wrt (\<lambda>x y. call_at x \<le> call_at y) (filter (own_call a d) calls)"
    and "\<And>call u. call \<in> set calls \<Longrightarrow> own_call a d call \<Longrightarrow> u \<in> A \<Longrightarrow> u < call_at call \<Longrightarrow>
      on_air_at (run_timeline_of d (snd (snd (snd call)))) (call_at call) u"
  shows "\<exists>tokens t. preview_tokens p calls [] = Inr (tokens, t) \<and>
    card {u \<in> A. opened_by (own_tokens a d tokens) u} \<le> 300000 \<and> bs_settled_ms (own_budget a d t) \<in> {0..300000}"
proof -
  have "budget_holds A [] (own_budget a d [])" "bs_settled_until (own_budget a d []) = None"
    by (simp_all add: own_budget_def budget_of_def budget_holds_def FRESH_BUDGET_def)
  moreover have "budgets_nonneg []" by (simp add: budgets_nonneg_def)
  ultimately have "\<exists>tokens t. preview_tokens p calls [] = Inr (tokens, t) \<and>
      budget_holds A ([] @ own_tokens a d tokens) (own_budget a d t)"
    by (intro preview_tokens_hold [OF assms(1) _ assms(2,3)]) simp_all
  then obtain tokens t where run: "preview_tokens p calls [] = Inr (tokens, t)"
    and holds: "budget_holds A (own_tokens a d tokens) (own_budget a d t)" by auto
  have "0 \<le> bs_settled_ms (own_budget a d t)" using holds by (simp add: budget_holds_def)
  with run budget_holds_bound [OF holds] show ?thesis by auto
qed

definition sample_on_air :: stream_db where
  "sample_on_air = \<lparr>sd_runs = [\<lparr>rr_id = ''r'', rr_date_id = ''d'', rr_channel_id = ''ch'', rr_state = Run_On_Air,
       rr_stream_path = ''p'', rr_ingest_protocol = Rtmps, rr_monitor_path = Ll_Hls,
       rr_technical_check_passed_at = Some (- 10), rr_started_at = Some 0, rr_ended_at = None,
       rr_publisher_online_since = Some (- 20), rr_publisher_lost_at = None, rr_after_grace_period = False,
       rr_version = 3\<rparr>],
     sd_incidents = [], sd_keys = [], sd_outbox = [], sd_processed = []\<rparr>"

definition sample_calls :: "(ident \<times> ident \<times> instant \<times> stream_db) list" where
  "sample_calls = map (\<lambda>now. (''a'', ''d'', now, sample_on_air)) [0, 100000, 200000, 290000, 400000]"

lemma sample_tokens_run:
  "case preview_tokens sample_preview_core sample_calls [] of Inl _ \<Rightarrow> False
   | Inr (tokens, t) \<Rightarrow> own_tokens ''a'' ''d'' tokens = [(0, 120000), (100000, 220000), (200000, 300000), (290000, 300000)]"
  by code_simp

theorem preview_budget_holds_witness:
  "\<exists>tokens t. preview_tokens sample_preview_core sample_calls [] = Inr (tokens, t) \<and>
     own_tokens ''a'' ''d'' tokens = [(0, 120000), (100000, 220000), (200000, 300000), (290000, 300000)] \<and>
     card {u \<in> {0..}. opened_by (own_tokens ''a'' ''d'' tokens) u} \<le> 300000 \<and>
     bs_settled_ms (own_budget ''a'' ''d'' t) \<in> {0..300000}"
proof -
  have order: "sorted_wrt (\<lambda>x y. call_at x \<le> call_at y) (filter (own_call ''a'' ''d'') sample_calls)"
    by (simp add: sample_calls_def)
  have air: "on_air_at (run_timeline_of ''d'' (snd (snd (snd call)))) (call_at call) u"
    if "call \<in> set sample_calls" "own_call ''a'' ''d'' call" "u \<in> {0..}" "u < call_at call" for call u
    using that by (auto simp: sample_calls_def sample_on_air_def run_timeline_of_def on_air_at_def)
  obtain tokens t where run: "preview_tokens sample_preview_core sample_calls [] = Inr (tokens, t)"
    "own_tokens ''a'' ''d'' tokens = [(0, 120000), (100000, 220000), (200000, 300000), (290000, 300000)]"
    using sample_tokens_run by (elim case_InrE) (auto split: prod.splits)
  from preview_budget_holds [OF sample_preview_laws order, of "{0..}", OF air]
  obtain tokens' t' where holds: "preview_tokens sample_preview_core sample_calls [] = Inr (tokens', t')"
    "card {u \<in> {0..}. opened_by (own_tokens ''a'' ''d'' tokens') u} \<le> 300000"
    "bs_settled_ms (own_budget ''a'' ''d'' t') \<in> {0..300000}" by blast
  have "tokens' = tokens" "t' = t" using holds(1) run(1) by simp_all
  then show ?thesis using run holds(2,3) by blast
qed

end
