(* ===== verification/Entitlement_Seats.thy ===== *)
theory Entitlement_Seats
  imports Entitlement
begin

text \<open>
  The seats streaming counts (\<open>entitlement/record-seat-fact.handler.ts\<close>, \<open>entitlement/entitlement-facts.ts\<close>):
  whatever the order and the number of their deliveries, ticketing's facts leave the same counts.
\<close>

section \<open>What the facts say\<close>

definition seats_activated :: "seat_fact set \<Rightarrow> ident \<Rightarrow> ident \<Rightarrow> ident set" where
  "seats_activated F account date =
     sf_seat_id ` {f \<in> F. \<not> sf_cancelled f \<and> sf_account_id f = account \<and> sf_date_id f = date}"

definition seats_cancelled :: "seat_fact set \<Rightarrow> ident \<Rightarrow> ident \<Rightarrow> ident set" where
  "seats_cancelled F account date =
     sf_seat_id ` {f \<in> F. sf_cancelled f \<and> sf_account_id f = account \<and> sf_date_id f = date}"

text \<open>A seat is of one account and one date.\<close>

definition seats_consistent :: "seat_fact set \<Rightarrow> bool" where
  "seats_consistent F \<longleftrightarrow> (\<forall>f \<in> F. \<forall>g \<in> F. sf_seat_id f = sf_seat_id g \<longrightarrow>
     sf_account_id f = sf_account_id g \<and> sf_date_id f = sf_date_id g)"

text \<open>Each message with its id, the seat's fact and the instant it is applied at.\<close>

definition deliver_seats ::
    "(ident \<times> seat_fact \<times> instant) list \<Rightarrow> 'a entitlement_db_scheme \<Rightarrow> 'a entitlement_db_scheme stream_result" where
  "deliver_seats messages =
     foldE (\<lambda>(m, f, now) db. bindE (record_seat_fact m (Seat_Fact f) now db) (\<lambda>(_, db'). Inr db')) messages"

section \<open>The rows\<close>

definition seat_ended :: "seat_fact set \<Rightarrow> ident \<Rightarrow> bool" where
  "seat_ended F seat \<longleftrightarrow> (\<exists>g \<in> F. sf_seat_id g = seat \<and> sf_cancelled g)"

definition row_of_facts :: "seat_fact set \<Rightarrow> entitlement_seat_row \<Rightarrow> bool" where
  "row_of_facts F r \<longleftrightarrow>
     (\<exists>f \<in> F. sf_seat_id f = es_seat_id r \<and> sf_account_id f = es_account_id r \<and> sf_date_id f = es_date_id r) \<and>
     es_state r = (if seat_ended F (es_seat_id r) then Seat_Cancelled else Seat_Active)"

definition seats_hold :: "seat_fact set \<Rightarrow> entitlement_seat_row list \<Rightarrow> bool" where
  "seats_hold F t \<longleftrightarrow> distinct (map es_seat_id t) \<and> list_all (row_of_facts F) t \<and> sf_seat_id ` F = es_seat_id ` set t"

definition seat_written :: "seat_fact \<Rightarrow> instant \<Rightarrow> entitlement_seat_row list \<Rightarrow> entitlement_seat_row list" where
  "seat_written f at t = snd (if sf_cancelled f then cancel_entitled_seat f at t else activate_seat f at t)"

lemma seat_row_of_insert_other:
  assumes "row_of_facts F r" and "sf_seat_id f = es_seat_id r \<Longrightarrow> sf_cancelled f \<Longrightarrow> es_state r = Seat_Cancelled"
  shows "row_of_facts (insert f F) r"
proof -
  have "seat_ended (insert f F) (es_seat_id r) = seat_ended F (es_seat_id r)"
    using assms by (auto simp: seat_ended_def row_of_facts_def split: if_splits)
  with assms(1) show ?thesis unfolding row_of_facts_def by auto
qed

lemma seat_written_new:
  assumes "seats_hold F t" and "tbl_find es_seat_id (sf_seat_id f) t = None"
  shows "seats_hold (insert f F) (seat_written f at t)"
proof -
  let ?r = "\<lparr>es_seat_id = sf_seat_id f, es_account_id = sf_account_id f, es_date_id = sf_date_id f,
    es_state = (if sf_cancelled f then Seat_Cancelled else Seat_Active), es_occurred_at = sf_stated_at f, es_applied_at = at\<rparr>"
  have fresh: "sf_seat_id f \<notin> es_seat_id ` set t" using assms(2) by (simp add: tbl_find_None)
  then have "\<not> list_ex (\<lambda>r. es_seat_id r = sf_seat_id f) t" by (force simp: list_ex_iff)
  then have t: "seat_written f at t = t @ [?r]"
    using assms(2) by (simp add: seat_written_def cancel_entitled_seat_def activate_seat_def)
  have "sf_seat_id g \<noteq> sf_seat_id f" if "g \<in> F" for g
  proof
    assume "sf_seat_id g = sf_seat_id f"
    then have "sf_seat_id f \<in> sf_seat_id ` F" using that by (metis image_eqI)
    with fresh assms(1) show False by (simp add: seats_hold_def)
  qed
  then have "row_of_facts (insert f F) ?r" by (auto simp: row_of_facts_def seat_ended_def)
  moreover have "row_of_facts (insert f F) r" if "r \<in> set t" for r
  proof (rule seat_row_of_insert_other)
    show "row_of_facts F r" using assms(1) that by (simp add: seats_hold_def list_all_iff)
    assume "sf_seat_id f = es_seat_id r"
    with fresh that show "es_state r = Seat_Cancelled" by (metis image_eqI)
  qed
  ultimately show ?thesis using assms(1) fresh unfolding t by (auto simp: seats_hold_def list_all_iff)
qed

lemma seat_written_kept:
  assumes "seats_hold F t" and "tbl_find es_seat_id (sf_seat_id f) t = Some kept"
    and "seats_consistent (insert f F)"
  shows "seats_hold (insert f F) (seat_written f at t)"
proof -
  note kept = tbl_find_SomeD [OF assms(2)]
  have ids: "sf_seat_id ` insert f F = es_seat_id ` set t"
    using assms(1) kept by (simp add: seats_hold_def) (metis image_eqI insert_absorb)
  have distinct: "distinct (map es_seat_id t)" and rows: "\<And>r. r \<in> set t \<Longrightarrow> row_of_facts F r"
    using assms(1) by (simp_all add: seats_hold_def list_all_iff)
  have same: "r = kept" if "r \<in> set t" "es_seat_id r = sf_seat_id f" for r
    using tbl_find_unique [OF distinct that(1)] assms(2) that(2) by simp
  show ?thesis
  proof (cases "sf_cancelled f \<and> es_state kept = Seat_Active")
    case True
    let ?ended = "\<lambda>r. r\<lparr>es_state := Seat_Cancelled, es_occurred_at := sf_stated_at f, es_applied_at := at\<rparr>"
    let ?t = "tbl_update (\<lambda>r. es_seat_id r = sf_seat_id f) ?ended t"
    have t: "seat_written f at t = ?t" using True assms(2) by (simp add: seat_written_def cancel_entitled_seat_def)
    have keys: "map es_seat_id ?t = map es_seat_id t" by (rule map_tbl_update_same) simp
    obtain g where g: "g \<in> F" "sf_seat_id g = es_seat_id kept" "sf_account_id g = es_account_id kept" "sf_date_id g = es_date_id kept"
      using rows [of kept] kept unfolding row_of_facts_def by blast
    have ended: "row_of_facts (insert f F) (?ended kept)"
      using g True kept by (auto simp: row_of_facts_def seat_ended_def)
    have rows': "row_of_facts (insert f F) r" if "r \<in> set ?t" for r
    proof -
      from that obtain x where x: "x \<in> set t" "r = (if es_seat_id x = sf_seat_id f then ?ended x else x)"
        by (auto simp: table_simps)
      show ?thesis
      proof (cases "es_seat_id x = sf_seat_id f")
        case True
        then have "r = ?ended kept" using x(2) same [OF x(1)] by simp
        then show ?thesis using ended by (rule ssubst)
      next
        case False
        have "row_of_facts (insert f F) x"
          by (rule seat_row_of_insert_other [OF rows [OF x(1)]]) (use False in metis)
        moreover have "r = x" unfolding x(2) using False by (rule if_not_P)
        ultimately show ?thesis by (simp only:)
      qed
    qed
    have "es_seat_id ` set ?t = es_seat_id ` set t" using arg_cong [where f = set, OF keys] by (simp only: set_map)
    then show ?thesis unfolding t seats_hold_def keys list_all_iff using distinct ids rows' by (intro conjI ballI) (simp_all only:)
  next
    case False
    then have "seat_written f at t = t"
      using assms(2) kept by (auto simp: seat_written_def cancel_entitled_seat_def activate_seat_def list_ex_iff)
    moreover have "es_state r = Seat_Cancelled" if "r \<in> set t" "sf_seat_id f = es_seat_id r" "sf_cancelled f" for r
      using same [of r] False that rows [OF that(1)] by (auto simp: row_of_facts_def split: if_splits)
    then have "row_of_facts (insert f F) r" if "r \<in> set t" for r
      using that rows seat_row_of_insert_other by blast
    ultimately show ?thesis unfolding seats_hold_def list_all_iff using distinct ids by simp
  qed
qed

lemma seat_written_holds:
  assumes "seats_hold F t" and "seats_consistent (insert f F)"
  shows "seats_hold (insert f F) (seat_written f at t)"
  using seat_written_new [OF assms(1)] seat_written_kept [OF assms(1) _ assms(2)]
  by (cases "tbl_find es_seat_id (sf_seat_id f) t") auto

section \<open>Deliveries\<close>

lemma record_seat_fact_holds:
  assumes "seats_hold (fst ` snd ` M) (en_seats db)" and "seats_consistent (insert f (fst ` snd ` M))"
    and "set (sd_processed (en_stream db)) = P \<union> fst ` M" and "m \<notin> P" and "\<And>f' t. (m, f', t) \<in> M \<Longrightarrow> f' = f"
  shows "\<exists>v db'. record_seat_fact m (Seat_Fact f) now db = Inr (v, db') \<and>
    seats_hold (fst ` snd ` insert (m, f, now) M) (en_seats db') \<and>
    set (sd_processed (en_stream db')) = P \<union> fst ` insert (m, f, now) M"
proof (cases "m \<in> set (sd_processed (en_stream db))")
  case True
  then obtain x where "x \<in> M" "fst x = m" using assms(3,4) by auto
  then have "f \<in> fst ` snd ` M" using assms(5) by (cases x) force
  moreover have "m \<in> fst ` M" using \<open>x \<in> M\<close> \<open>fst x = m\<close> by blast
  ultimately have same: "insert f (fst ` snd ` M) = fst ` snd ` M" "insert m (P \<union> fst ` M) = P \<union> fst ` M" by auto
  then show ?thesis
    using True assms(1,3) by (simp add: record_seat_fact_def claim_entitlement_message_def claim_stream_message_def)
next
  case False
  then have "\<exists>v db'. record_seat_fact m (Seat_Fact f) now db = Inr (v, db') \<and>
      en_seats db' = seat_written f now (en_seats db) \<and> sd_processed (en_stream db') = sd_processed (en_stream db) @ [m]"
    by (auto simp: record_seat_fact_def claim_entitlement_message_def claim_stream_message_def seat_written_def split: prod.split)
  then obtain v db' where run: "record_seat_fact m (Seat_Fact f) now db = Inr (v, db')"
    and db': "en_seats db' = seat_written f now (en_seats db)" "sd_processed (en_stream db') = sd_processed (en_stream db) @ [m]"
    by blast
  have "seats_hold (insert f (fst ` snd ` M)) (en_seats db')"
    unfolding db'(1) by (rule seat_written_holds [OF assms(1,2)])
  with run db'(2) assms(3) show ?thesis by simp
qed

lemma deliver_seats_hold:
  assumes "seats_hold (fst ` snd ` M) (en_seats db)" and "seats_consistent (fst ` snd ` (M \<union> set ms))"
    and "set (sd_processed (en_stream db)) = P \<union> fst ` M" and "fst ` set ms \<inter> P = {}"
    and "\<And>m f f' t t'. (m, f, t) \<in> M \<union> set ms \<Longrightarrow> (m, f', t') \<in> M \<union> set ms \<Longrightarrow> f' = f"
  shows "\<exists>db'. deliver_seats ms db = Inr db' \<and> seats_hold (fst ` snd ` (M \<union> set ms)) (en_seats db')"
  using assms
proof (induction ms arbitrary: db M)
  case Nil
  then show ?case by (simp add: deliver_seats_def)
next
  case (Cons x ms)
  obtain m f now where x: "x = (m, f, now)" by (cases x)
  have f: "insert f (fst ` snd ` M) \<subseteq> fst ` snd ` (M \<union> set (x # ms))" by (auto simp: x)
  then have "seats_consistent (insert f (fst ` snd ` M))"
    using Cons.prems(2) unfolding seats_consistent_def by blast
  moreover have "m \<notin> P" using Cons.prems(4) by (auto simp: x)
  moreover have "f' = f" if "(m, f', t) \<in> M" for f' t using Cons.prems(5) [of m f now f' t] that by (simp add: x)
  ultimately obtain v db1 where one: "record_seat_fact m (Seat_Fact f) now db = Inr (v, db1)"
    and held: "seats_hold (fst ` snd ` insert (m, f, now) M) (en_seats db1)"
      "set (sd_processed (en_stream db1)) = P \<union> fst ` insert (m, f, now) M"
    using record_seat_fact_holds [OF Cons.prems(1) _ Cons.prems(3)] by blast
  have all: "insert (m, f, now) M \<union> set ms = M \<union> set (x # ms)" by (simp add: x)
  have "\<exists>db'. deliver_seats ms db1 = Inr db' \<and> seats_hold (fst ` snd ` (insert (m, f, now) M \<union> set ms)) (en_seats db')"
    using Cons.prems(2,4,5) by (intro Cons.IH [OF held(1) _ held(2)]) (simp_all only: all, auto)
  then show ?case unfolding all by (simp add: deliver_seats_def x one)
qed

section \<open>The counts\<close>

lemma seats_counted_card:
  "distinct (map es_seat_id t) \<Longrightarrow>
    seats_counted state account date t =
      card (es_seat_id ` {r \<in> set t. es_account_id r = account \<and> es_date_id r = date \<and> es_state r = state})"
proof -
  let ?p = "\<lambda>r. es_account_id r = account \<and> es_date_id r = date \<and> es_state r = state"
  assume "distinct (map es_seat_id t)"
  then have "distinct (map es_seat_id (filter ?p t))" by (rule distinct_map_filter)
  then have "card (set (map es_seat_id (filter ?p t))) = length (filter ?p t)"
    using distinct_card [of "map es_seat_id (filter ?p t)"] by (simp only: length_map)
  moreover have "set (map es_seat_id (filter ?p t)) = es_seat_id ` {r \<in> set t. ?p r}" by (simp only: set_map set_filter)
  ultimately show ?thesis unfolding seats_counted_def tbl_affected_def by (simp only:)
qed

lemma seats_hold_rows:
  assumes "seats_hold F t" and "seats_consistent F"
  shows "es_seat_id ` {r \<in> set t. es_account_id r = account \<and> es_date_id r = date \<and> es_state r = Seat_Active} =
      seats_activated F account date - seats_cancelled F account date"
    and "es_seat_id ` {r \<in> set t. es_account_id r = account \<and> es_date_id r = date \<and> es_state r = Seat_Cancelled} =
      seats_cancelled F account date"
proof -
  have row: "\<exists>r \<in> set t. es_seat_id r = sf_seat_id f \<and> es_account_id r = sf_account_id f \<and> es_date_id r = sf_date_id f \<and>
      es_state r = (if seat_ended F (sf_seat_id f) then Seat_Cancelled else Seat_Active)" if "f \<in> F" for f
  proof -
    have "sf_seat_id f \<in> es_seat_id ` set t" using assms(1) that unfolding seats_hold_def by blast
    then obtain r where r: "r \<in> set t" "es_seat_id r = sf_seat_id f" by force
    then have "row_of_facts F r" using assms(1) by (simp add: seats_hold_def list_all_iff)
    then obtain g where g: "g \<in> F" "sf_seat_id g = es_seat_id r" "sf_account_id g = es_account_id r" "sf_date_id g = es_date_id r"
      and state: "es_state r = (if seat_ended F (es_seat_id r) then Seat_Cancelled else Seat_Active)"
      unfolding row_of_facts_def by blast
    have "sf_seat_id f = sf_seat_id g" using g(2) r(2) by simp
    then have "sf_account_id f = sf_account_id g" "sf_date_id f = sf_date_id g"
      using assms(2) that g(1) unfolding seats_consistent_def by blast+
    then have "es_account_id r = sf_account_id f" "es_date_id r = sf_date_id f" using g(3,4) by simp_all
    moreover have "es_state r = (if seat_ended F (sf_seat_id f) then Seat_Cancelled else Seat_Active)"
      using state unfolding r(2) .
    ultimately show ?thesis using r by blast
  qed
  have ended: "seat_ended F (sf_seat_id f) \<longleftrightarrow> sf_seat_id f \<in> seats_cancelled F (sf_account_id f) (sf_date_id f)" if "f \<in> F" for f
  proof
    assume "seat_ended F (sf_seat_id f)"
    then obtain g where g: "g \<in> F" "sf_seat_id g = sf_seat_id f" "sf_cancelled g" unfolding seat_ended_def by blast
    then have "sf_account_id g = sf_account_id f" "sf_date_id g = sf_date_id f"
      using assms(2) that unfolding seats_consistent_def by blast+
    with g show "sf_seat_id f \<in> seats_cancelled F (sf_account_id f) (sf_date_id f)"
      unfolding seats_cancelled_def by (intro image_eqI [of _ _ g]) simp_all
  next
    assume "sf_seat_id f \<in> seats_cancelled F (sf_account_id f) (sf_date_id f)"
    then obtain g where "g \<in> F" "sf_seat_id f = sf_seat_id g" "sf_cancelled g" unfolding seats_cancelled_def by blast
    then show "seat_ended F (sf_seat_id f)" unfolding seat_ended_def by metis
  qed
  have fact_of: "\<exists>f \<in> F. sf_seat_id f = es_seat_id r \<and> sf_account_id f = es_account_id r \<and> sf_date_id f = es_date_id r \<and>
      es_state r = (if seat_ended F (sf_seat_id f) then Seat_Cancelled else Seat_Active)" if "r \<in> set t" for r
    using assms(1) that unfolding seats_hold_def list_all_iff row_of_facts_def by metis
  show "es_seat_id ` {r \<in> set t. es_account_id r = account \<and> es_date_id r = date \<and> es_state r = Seat_Active} =
      seats_activated F account date - seats_cancelled F account date"
  proof (intro equalityI subsetI)
    fix i assume "i \<in> es_seat_id ` {r \<in> set t. es_account_id r = account \<and> es_date_id r = date \<and> es_state r = Seat_Active}"
    then obtain r where r: "i = es_seat_id r" "r \<in> set t" "es_account_id r = account" "es_date_id r = date" "es_state r = Seat_Active"
      by blast
    then obtain f where f: "f \<in> F" "sf_seat_id f = i" "sf_account_id f = account" "sf_date_id f = date" "\<not> seat_ended F i"
      using fact_of [OF r(2)] by (auto split: if_splits)
    then have "\<not> sf_cancelled f" by (auto simp: seat_ended_def)
    with f ended [OF f(1)] show "i \<in> seats_activated F account date - seats_cancelled F account date"
      by (auto simp: seats_activated_def)
  next
    fix i assume i: "i \<in> seats_activated F account date - seats_cancelled F account date"
    then obtain f where f: "f \<in> F" "i = sf_seat_id f" "sf_account_id f = account" "sf_date_id f = date"
      by (auto simp: seats_activated_def)
    with i ended [OF f(1)] have "\<not> seat_ended F (sf_seat_id f)" by simp
    with row [OF f(1)] f show "i \<in> es_seat_id ` {r \<in> set t. es_account_id r = account \<and> es_date_id r = date \<and> es_state r = Seat_Active}"
      by (auto simp: image_iff)
  qed
  show "es_seat_id ` {r \<in> set t. es_account_id r = account \<and> es_date_id r = date \<and> es_state r = Seat_Cancelled} =
      seats_cancelled F account date"
  proof (intro equalityI subsetI)
    fix i assume "i \<in> es_seat_id ` {r \<in> set t. es_account_id r = account \<and> es_date_id r = date \<and> es_state r = Seat_Cancelled}"
    then obtain r where r: "i = es_seat_id r" "r \<in> set t" "es_account_id r = account" "es_date_id r = date" "es_state r = Seat_Cancelled"
      by blast
    then obtain f where "f \<in> F" "sf_seat_id f = i" "sf_account_id f = account" "sf_date_id f = date" "seat_ended F i"
      using fact_of [OF r(2)] by (auto split: if_splits)
    then show "i \<in> seats_cancelled F account date" using ended by metis
  next
    fix i assume i: "i \<in> seats_cancelled F account date"
    then obtain f where f: "f \<in> F" "i = sf_seat_id f" "sf_account_id f = account" "sf_date_id f = date" "sf_cancelled f"
      by (auto simp: seats_cancelled_def)
    then have "seat_ended F (sf_seat_id f)" by (auto simp: seat_ended_def)
    with row [OF f(1)] f show "i \<in> es_seat_id ` {r \<in> set t. es_account_id r = account \<and> es_date_id r = date \<and> es_state r = Seat_Cancelled}"
      by (auto simp: image_iff)
  qed
qed

text \<open>
  Property C15. The seats playback reads are the ones ticketing stated: from no seats, facts delivered in any
  order and any number of times leave an account on a date with the seats activated and not cancelled, and
  with its seat lost exactly when one was cancelled and none is left.
\<close>

theorem seats_follow_facts:
  fixes db :: "'a entitlement_db_scheme" and account date :: ident
  assumes "en_seats db = []" and "fst ` set ms \<inter> set (sd_processed (en_stream db)) = {}"
    and "\<And>m f f' t t'. (m, f, t) \<in> set ms \<Longrightarrow> (m, f', t') \<in> set ms \<Longrightarrow> f' = f"
    and "seats_consistent (fst ` snd ` set ms)"
  defines "activated \<equiv> seats_activated (fst ` snd ` set ms) account date"
    and "cancelled \<equiv> seats_cancelled (fst ` snd ` set ms) account date"
  shows "\<exists>db'. deliver_seats ms db = Inr db' \<and>
    ef_active_seats_on_date (read_entitlement_facts c account date now db') = int (card (activated - cancelled)) \<and>
    (ef_seat_expired (read_entitlement_facts c account date now db') \<longleftrightarrow> cancelled \<noteq> {} \<and> activated \<subseteq> cancelled)"
proof -
  let ?F = "fst ` snd ` set ms"
  have "\<exists>db'. deliver_seats ms db = Inr db' \<and> seats_hold (fst ` snd ` ({} \<union> set ms)) (en_seats db')"
    using assms(1-4) by (intro deliver_seats_hold [where P = "set (sd_processed (en_stream db))"]) (auto simp: seats_hold_def)
  then obtain db' where run: "deliver_seats ms db = Inr db'" and held: "seats_hold ?F (en_seats db')" by auto
  have distinct: "distinct (map es_seat_id (en_seats db'))" using held by (simp add: seats_hold_def)
  have active: "seats_counted Seat_Active account date (en_seats db') = card (activated - cancelled)"
    and ended: "seats_counted Seat_Cancelled account date (en_seats db') = card cancelled"
    unfolding seats_counted_card [OF distinct] seats_hold_rows [OF held assms(4)] activated_def cancelled_def by (rule refl)+
  have finite: "finite activated" "finite cancelled"
    by (simp_all add: activated_def cancelled_def seats_activated_def seats_cancelled_def)
  show ?thesis
    using run finite by (intro exI [of _ db'])
      (auto simp: read_entitlement_facts_def Let_def active ended card_gt_0_iff)
qed

definition sample_seat_fact :: "bool \<Rightarrow> ident \<Rightarrow> instant \<Rightarrow> seat_fact" where
  "sample_seat_fact cancelled seat at = \<lparr>sf_cancelled = cancelled, sf_seat_id = seat, sf_account_id = ''a'',
     sf_date_id = ''d'', sf_stated_at = at\<rparr>"

definition no_entitlement :: entitlement_db where
  "no_entitlement = \<lparr>en_stream = \<lparr>sd_runs = [], sd_incidents = [], sd_keys = [], sd_outbox = [], sd_processed = []\<rparr>,
     en_seats = [], en_dates = [], en_subscriptions = []\<rparr>"

definition sample_entitlement_core :: entitlement_core where
  "sample_entitlement_core = \<lparr>plan_openings_of = (\<lambda>s _. so_opens s),
     concurrent_streams_allowed_for = (\<lambda>opens seats. if Opens_Multi_Screen \<in> set opens then max 4 seats else max 1 seats),
     entitlement_room_opens_minutes_before = 30\<rparr>"

text \<open>A cancellation before its activation, a late copy, and a second seat kept.\<close>

definition sample_seat_messages :: "(ident \<times> seat_fact \<times> instant) list" where
  "sample_seat_messages = [(''m2'', sample_seat_fact True ''s1'' 20, 21), (''m1'', sample_seat_fact False ''s1'' 10, 22),
     (''m3'', sample_seat_fact False ''s2'' 15, 23), (''m2'', sample_seat_fact True ''s1'' 20, 24)]"

theorem seats_follow_facts_witness:
  "\<exists>db'. deliver_seats sample_seat_messages no_entitlement = Inr db' \<and>
     ef_active_seats_on_date (read_entitlement_facts sample_entitlement_core ''a'' ''d'' 30 db') = 1 \<and>
     \<not> ef_seat_expired (read_entitlement_facts sample_entitlement_core ''a'' ''d'' 30 db')"
proof -
  let ?F = "fst ` snd ` set sample_seat_messages"
  have F: "?F = {sample_seat_fact True ''s1'' 20, sample_seat_fact False ''s1'' 10, sample_seat_fact False ''s2'' 15}"
    by (auto simp: sample_seat_messages_def)
  have "fst ` set sample_seat_messages \<inter> set (sd_processed (en_stream no_entitlement)) = {}" "en_seats no_entitlement = []"
    by (simp_all add: no_entitlement_def)
  moreover have "f' = f" if "(m, f, t) \<in> set sample_seat_messages" "(m, f', t') \<in> set sample_seat_messages" for m f f' t t'
    using that by (auto simp: sample_seat_messages_def)
  moreover have "seats_consistent ?F" unfolding F by (auto simp: seats_consistent_def sample_seat_fact_def)
  moreover have "seats_activated ?F ''a'' ''d'' = {''s1'', ''s2''}" "seats_cancelled ?F ''a'' ''d'' = {''s1''}"
    unfolding F by (auto simp: seats_activated_def seats_cancelled_def sample_seat_fact_def image_iff ex_disj_distrib conj_disj_distribR)
  ultimately show ?thesis
    using seats_follow_facts [of no_entitlement sample_seat_messages sample_entitlement_core "''a''" "''d''" 30] by auto
qed

end
