(* ===== verification/Stream_Passes.thy ===== *)
theory Stream_Passes
  imports Stream_System
begin

text \<open>
  The pass that ends the runs left on air (\<open>EndRunsByThemselvesHandler\<close>, \<open>run/run-passes.ts\<close>): its loop over
  the pages of live runs returns, and leaves none due.
\<close>

section \<open>A run due\<close>

definition run_live :: "run_row \<Rightarrow> bool" where
  "run_live r \<longleftrightarrow> (rr_state r = Run_On_Air \<or> rr_state r = Run_Interrupted) \<and> rr_publisher_online_since r = None"

definition run_due :: "run_core \<Rightarrow> (ident \<Rightarrow> run_date_facts option) \<Rightarrow> instant \<Rightarrow> run_row \<Rightarrow> bool" where
  "run_due c facts now r \<longleftrightarrow>
     (case Option.bind (facts (rr_date_id r)) rd_timing of
        None \<Rightarrow> False
      | Some timing \<Rightarrow>
          (case run_auto_ends_at c (timing_ends_at c timing) (rr_publisher_lost_at r) False of
             None \<Rightarrow> False
           | Some ends \<Rightarrow> \<not> is_after c ends now))"

lemma end_by_itself_due:
  assumes laws: "run_transition_laws c" and wf: "run_wf s"
    and live: "rn_state s = Run_On_Air \<or> rn_state s = Run_Interrupted" and off: "rn_publisher_online_since s = None"
    and ends: "run_auto_ends_at c sched (rn_publisher_lost_at s) False = Some ends" "\<not> is_after c ends now"
  shows "\<exists>t b. run_end_at c (rn_version s + 1) t SYSTEM_ACTOR now (restore s) = Inr b \<and>
    end_by_itself c sched now (restore s) = Inr (b, True)"
proof -
  have "technical_check_passed s" using wf live by (auto simp: run_wf_def technical_check_passed_def)
  then have "assert_run_transition c (rn_state s) Run_State_Ended (technical_check_passed s) = None"
    using laws live unfolding run_transition_laws_def by metis
  then have "\<exists>b. run_end_at c (rn_version s + 1) t SYSTEM_ACTOR now (restore s) = Inr b" for t
    by (simp add: run_end_at_def Let_def assertE_def)
  then obtain b where b: "run_end_at c (rn_version s + 1) (let last_feed = (case rn_publisher_lost_at s of None \<Rightarrow> sched | Some t \<Rightarrow> t)
      in case rn_started_at s of None \<Rightarrow> last_feed | Some t \<Rightarrow> if is_after c t last_feed then t else last_feed)
      SYSTEM_ACTOR now (restore s) = Inr b" (is "run_end_at _ _ ?t _ _ _ = _") by blast
  have "end_by_itself c sched now (restore s) =
      bindE (run_end_at c (rn_version s + 1) ?t SYSTEM_ACTOR now (restore s)) (\<lambda>b. Inr (b, True))"
    using live off ends by (elim disjE) (simp_all add: end_by_itself_def Let_def)
  with b show ?thesis by auto
qed

text \<open>A run that ends is always saved.\<close>

lemma end_committed:
  assumes keyed: "stream_keyed db" and r: "tbl_find rr_id i (sd_runs db) = Some r"
    and s: "s = run_snapshot_of r (open_incident_row i db)" and wf: "run_wf s"
    and run: "run_end_at c (rn_version s + 1) t actor now (restore s) = Inr b"
  shows "\<exists>db'. commit_run (with_root b (loaded (restore s) (rr_version r))) tp db = Inr db'"
proof -
  let ?s' = "current b"
  note moved = run_end_at_moved [of c "restore s", simplified, OF run wf]
  note m = run_movedD [OF moved(1) [of "run_shown_of s"], simplified]
  have i: "rr_id r = i" using tbl_find_SomeD [OF r] by simp
  have id: "rn_run_id ?s' = i" using m(2) i by (simp add: run_kept_def s run_snapshot_of_def)
  have version: "rn_version s = rr_version r" by (simp add: s run_snapshot_of_def)
  have "open_incident ?s' = None" using m(1) moved(2) by (simp add: run_wf_def)
  then have "\<exists>inc. (case rn_incident ?s' of None \<Rightarrow> Inr (sd_incidents db)
      | Some x \<Rightarrow> write_incident ?s' x (map_option ic_id (rn_incident s)) (rr_version r) (sd_incidents db)) = Inr inc"
  proof -
    have op: "open_incident s = rn_incident s"
      using run_snapshot_open [of "open_incident_row i db" r] opened_incident_SomeD [of i "sd_incidents db"]
      by (simp add: s run_snapshot_of_def open_incident_row_opened)
    then consider "rn_incident ?s' = None" | x at y where "rn_incident ?s' = Some x" "rn_incident s = Some y"
        "ic_id x = ic_id y" "ic_resolved_at x = Some at"
      using moved(5) \<open>open_incident ?s' = None\<close>
      by (auto simp: incident_moved_def open_incident_def split: option.splits if_splits)
    then show ?thesis by cases (simp_all add: write_incident_def)
  qed
  moreover have "\<exists>t1. save_run_columns ?s' (rr_version r) (sd_runs db) = Inr t1"
  proof -
    have "run_check (state_columns_of ?s' x)" for x
      using m(1) moved(2,3) by (simp add: run_check_def state_columns_of_def run_wf_def)
    moreover have "tbl_affected (\<lambda>x. rr_id x = i \<and> rr_version x = rr_version r) (sd_runs db) = 1"
      using tbl_affected_key [OF stream_keyedD(1) [OF keyed], of "\<lambda>x. rr_id x = i \<and> rr_version x = rr_version r" i] r i by simp
    ultimately show ?thesis using id by (simp add: save_run_columns_def Let_def list.pred_True)
  qed
  ultimately obtain inc t1 where saved: "(case rn_incident ?s' of None \<Rightarrow> Inr (sd_incidents db)
      | Some x \<Rightarrow> write_incident ?s' x (map_option ic_id (rn_incident s)) (rr_version r) (sd_incidents db)) = Inr inc"
    "save_run_columns ?s' (rr_version r) (sd_runs db) = Inr t1" by blast
  have "rn_version ?s' \<noteq> rr_version r" using moved(4) version by simp
  with saved show ?thesis by (simp add: commit_run_def save_run_def Let_def)
qed

text \<open>The rows of a state are read off its runs.\<close>

lemma run_snapshot_of_inject: "run_snapshot_of r x = run_snapshot_of r' x' \<Longrightarrow> r = r'"
  by (simp add: run_snapshot_of_def)

lemma run_row_at:
  assumes "stream_keyed db"
  shows "r \<in> set (sd_runs db) \<longleftrightarrow> run_at db (rr_id r) = Some (run_snapshot_of r (open_incident_row (rr_id r) db))"
proof
  assume "r \<in> set (sd_runs db)"
  then show "run_at db (rr_id r) = Some (run_snapshot_of r (open_incident_row (rr_id r) db))"
    using tbl_find_unique [OF stream_keyedD(1) [OF assms]] by (simp add: run_at_def)
next
  assume "run_at db (rr_id r) = Some (run_snapshot_of r (open_incident_row (rr_id r) db))"
  then obtain r' where "tbl_find rr_id (rr_id r) (sd_runs db) = Some r'"
    "run_snapshot_of r' (open_incident_row (rr_id r) db) = run_snapshot_of r (open_incident_row (rr_id r) db)"
    by (auto simp: run_at_def)
  then show "r \<in> set (sd_runs db)" using run_snapshot_of_inject tbl_find_SomeD by metis
qed

lemma end_if_due_effect:
  assumes laws: "run_transition_laws c" and ok: "stream_ok db" and r: "r \<in> set (sd_runs db)" and live: "run_live r"
  shows "\<exists>m db'. end_if_due c (\<lambda>_. False) facts now r db = Inr (m, db') \<and> stream_ok db' \<and>
    (\<forall>y \<in> set (sd_runs db'). run_live y \<longrightarrow> y \<in> set (sd_runs db) \<and> (rr_id y = rr_id r \<longrightarrow> \<not> run_due c facts now r)) \<and>
    (\<forall>y \<in> set (sd_runs db). rr_id y \<noteq> rr_id r \<longrightarrow> y \<in> set (sd_runs db'))"
proof (cases "run_due c facts now r")
  case False
  then have "end_if_due c (\<lambda>_. False) facts now r db = Inr (False, db)"
    by (auto simp: end_if_due_def run_due_def split: option.splits)
  with ok False show ?thesis by auto
next
  case True
  then obtain timing ends where timing: "Option.bind (facts (rr_date_id r)) rd_timing = Some timing"
    and ends: "run_auto_ends_at c (timing_ends_at c timing) (rr_publisher_lost_at r) False = Some ends" "\<not> is_after c ends now"
    by (auto simp: run_due_def split: option.splits)
  let ?i = "rr_id r"
  let ?s = "run_snapshot_of r (open_incident_row ?i db)"
  note keyed = stream_okD(1) [OF ok]
  have found: "tbl_find rr_id ?i (sd_runs db) = Some r" by (rule tbl_find_unique [OF stream_keyedD(1) [OF keyed] r])
  then have at: "run_at db ?i = Some ?s" by (simp add: run_at_def)
  note wf = stream_okD(2) [OF ok at]
  have cols: "rn_state ?s = rr_state r" "rn_publisher_online_since ?s = rr_publisher_online_since r"
    "rn_publisher_lost_at ?s = rr_publisher_lost_at r" by (simp_all add: run_snapshot_of_def)
  obtain t b where b: "run_end_at c (rn_version ?s + 1) t SYSTEM_ACTOR now (restore ?s) = Inr b"
    and run: "end_by_itself c (timing_ends_at c timing) now (restore ?s) = Inr (b, True)"
    using end_by_itself_due [OF laws wf, of "timing_ends_at c timing" ends now] live ends cols by (auto simp: run_live_def)
  obtain db' where commit: "commit_run (with_root b (loaded (restore ?s) (rr_version r))) None db = Inr db'"
    using end_committed [OF keyed found refl wf b] by blast
  have result: "end_if_due c (\<lambda>_. False) facts now r db = Inr (True, db')"
    using timing ends found run commit
    by (simp add: end_if_due_def end_run_in_def claim_run_def find_run_def)
  have told: "run_told_of (rn_date_id ?s) (sd_outbox db) = run_shown_of ?s" by (rule stream_okD(3) [OF ok at])
  have moved: "run_moved (run_told_of (rn_date_id ?s) (sd_outbox db)) (restore ?s) b"
    by (rule run_end_at_moved(1) [of c "restore ?s", simplified, OF b wf])
  note c = commit_stream_ok [OF keyed _ found refl moved commit]
  have ok': "stream_ok db'" by (rule c(1)) (use stream_okD(2,3) [OF ok] in blast)
  note keyed' = stream_okD(1) [OF ok']
  have at': "run_at db' j = (if j = ?i then Some (run_reloaded (current b)) else run_at db j)" for j
    by (rule c(2)) (use stream_okD(2,3) [OF ok] in blast)
  have state: "rn_state (current b) = Run_State_Ended" by (rule run_end_at_moved(2) [of c "restore ?s", simplified, OF b wf])
  have "y \<in> set (sd_runs db) \<and> rr_id y \<noteq> ?i" if y: "y \<in> set (sd_runs db')" "run_live y" for y
  proof -
    have y': "run_at db' (rr_id y) = Some (run_snapshot_of y (open_incident_row (rr_id y) db'))"
      using y(1) run_row_at [OF keyed'] by blast
    have other: "rr_id y \<noteq> ?i"
    proof
      assume "rr_id y = ?i"
      with y' at' have "run_snapshot_of y (open_incident_row (rr_id y) db') = run_reloaded (current b)" by simp
      from arg_cong [OF this, of rn_state] state y(2) show False
        by (auto simp: run_snapshot_of_def run_reloaded_def run_live_def)
    qed
    then have "run_at db (rr_id y) = Some (run_snapshot_of y (open_incident_row (rr_id y) db'))" using y' at' by simp
    then obtain z where "tbl_find rr_id (rr_id y) (sd_runs db) = Some z"
      "run_snapshot_of z (open_incident_row (rr_id y) db) = run_snapshot_of y (open_incident_row (rr_id y) db')"
      by (auto simp: run_at_def)
    then show ?thesis using other run_snapshot_of_inject tbl_find_SomeD by metis
  qed
  moreover have "y \<in> set (sd_runs db')" if y: "y \<in> set (sd_runs db)" "rr_id y \<noteq> ?i" for y
  proof -
    have "run_at db' (rr_id y) = Some (run_snapshot_of y (open_incident_row (rr_id y) db))"
      using y at' run_row_at [OF keyed] by simp
    then obtain z where "tbl_find rr_id (rr_id y) (sd_runs db') = Some z"
      "run_snapshot_of z (open_incident_row (rr_id y) db') = run_snapshot_of y (open_incident_row (rr_id y) db)"
      by (auto simp: run_at_def)
    then show ?thesis using run_snapshot_of_inject tbl_find_SomeD by metis
  qed
  ultimately show ?thesis using result ok' by blast
qed

section \<open>The pages\<close>

lemma end_page_effect:
  assumes "run_transition_laws c" and "stream_ok db" and "set rows \<subseteq> set (sd_runs db)" and "distinct (map rr_id rows)"
    and "list_all run_live rows"
  shows "\<exists>n db'. run_each (end_if_due c (\<lambda>_. False) facts now) rows db = (Inr n, db') \<and> stream_ok db' \<and>
    (\<forall>y \<in> set (sd_runs db'). run_live y \<longrightarrow> y \<in> set (sd_runs db) \<and> (y \<in> set rows \<longrightarrow> \<not> run_due c facts now y))"
  using assms(2-)
proof (induction rows arbitrary: db)
  case Nil
  then show ?case by simp
next
  case (Cons r rows)
  obtain m db1 where run: "end_if_due c (\<lambda>_. False) facts now r db = Inr (m, db1)" and ok1: "stream_ok db1"
    and live1: "\<And>y. y \<in> set (sd_runs db1) \<Longrightarrow> run_live y \<Longrightarrow>
      y \<in> set (sd_runs db) \<and> (rr_id y = rr_id r \<longrightarrow> \<not> run_due c facts now r)"
    and kept: "\<And>y. y \<in> set (sd_runs db) \<Longrightarrow> rr_id y \<noteq> rr_id r \<Longrightarrow> y \<in> set (sd_runs db1)"
    using end_if_due_effect [OF assms(1) Cons.prems(1), of r facts now] Cons.prems by auto
  have "y \<in> set (sd_runs db1)" if "y \<in> set rows" for y
    by (rule kept) (use Cons.prems(2,3) that in \<open>auto simp: image_iff\<close>)
  then have "set rows \<subseteq> set (sd_runs db1)" by blast
  then obtain n db' where rest: "run_each (end_if_due c (\<lambda>_. False) facts now) rows db1 = (Inr n, db')" "stream_ok db'"
    and live2: "\<And>y. y \<in> set (sd_runs db') \<Longrightarrow> run_live y \<Longrightarrow>
      y \<in> set (sd_runs db1) \<and> (y \<in> set rows \<longrightarrow> \<not> run_due c facts now y)"
    using Cons.IH [OF ok1] Cons.prems by auto
  have "y \<in> set (sd_runs db) \<and> (y \<in> set (r # rows) \<longrightarrow> \<not> run_due c facts now y)"
    if "y \<in> set (sd_runs db')" "run_live y" for y
    using live2 [OF that] live1 [of y] that(2) by auto
  with run rest show ?case by auto
qed

text \<open>A page is the first of the live runs after a date, in the order of their dates.\<close>

lemma live_runs_page:
  fixes after :: "ident option"
  assumes "stream_keyed db" and "0 < batch"
  defines "beyond \<equiv> \<lambda>r. run_live r \<and> (case after of None \<Rightarrow> True | Some d \<Rightarrow> d < rr_date_id r)"
  shows "set (live_runs after batch db) \<subseteq> {r \<in> set (sd_runs db). beyond r}"
    and "distinct (map rr_id (live_runs after batch db))"
    and "r \<in> set (sd_runs db) \<Longrightarrow> beyond r \<Longrightarrow> length (live_runs after batch db) < batch \<Longrightarrow> r \<in> set (live_runs after batch db)"
    and "r \<in> set (sd_runs db) \<Longrightarrow> beyond r \<Longrightarrow> live_runs after batch db \<noteq> [] \<Longrightarrow>
      \<not> rr_date_id (last (live_runs after batch db)) < rr_date_id r \<Longrightarrow> r \<in> set (live_runs after batch db)"
proof -
  let ?L = "filter beyond (sd_runs db)"
  let ?S = "sort_key rr_date_id ?L"
  have page: "live_runs after batch db = take batch ?S" by (simp add: live_runs_def beyond_def run_live_def conj_assoc)
  have set: "set ?S = {r \<in> set (sd_runs db). beyond r}" by auto
  show "set (live_runs after batch db) \<subseteq> {r \<in> set (sd_runs db). beyond r}"
    unfolding page set [symmetric] by (rule set_take_subset)
  have "distinct (map rr_id ?L)" using stream_keyedD(1) [OF assms(1)] by (simp add: distinct_map_filter)
  then have "distinct (map rr_id ?S)" by (simp add: distinct_map)
  then show "distinct (map rr_id (live_runs after batch db))" unfolding page by (metis distinct_take take_map)
  show "r \<in> set (live_runs after batch db)"
    if "r \<in> set (sd_runs db)" "beyond r" "length (live_runs after batch db) < batch"
  proof -
    have "take batch ?S = ?S" using that(3) unfolding page by simp
    then show ?thesis unfolding page using that(1,2) set by simp
  qed
  show "r \<in> set (live_runs after batch db)"
    if r: "r \<in> set (sd_runs db)" "beyond r" and ne: "live_runs after batch db \<noteq> []"
      and le: "\<not> rr_date_id (last (live_runs after batch db)) < rr_date_id r"
  proof (rule ccontr)
    assume out: "r \<notin> set (live_runs after batch db)"
    let ?l = "last (live_runs after batch db)"
    have l: "?l \<in> set (take batch ?S)" using ne unfolding page by (rule last_in_set)
    have "r \<in> set ?S" using r set by simp
    then have "r \<in> set (drop batch ?S)" using out unfolding page by (metis Un_iff append_take_drop_id set_append)
    moreover have "sorted (map rr_date_id (take batch ?S @ drop batch ?S))" by simp
    ultimately have "rr_date_id ?l \<le> rr_date_id r"
      using l unfolding map_append sorted_append by auto
    with le have "rr_date_id ?l = rr_date_id r" by simp
    moreover have "?l \<in> set (sd_runs db)" using l set_take_subset [of batch ?S] set by blast
    ultimately have "?l = r" using stream_keyedD(2) [OF assms(1)] r(1) by (auto simp: distinct_map inj_on_def)
    with l out page show False by simp
  qed
qed

definition live_beyond :: "ident option \<Rightarrow> stream_db \<Rightarrow> run_row set" where
  "live_beyond after db = {r \<in> set (sd_runs db). run_live r \<and> (case after of None \<Rightarrow> True | Some d \<Rightarrow> d < rr_date_id r)}"

lemma end_runs_from_returns:
  assumes laws: "run_transition_laws c" and batch: "0 < batch"
  shows "stream_ok db \<Longrightarrow>
    (\<forall>r \<in> set (sd_runs db). run_live r \<and> r \<notin> live_beyond after db \<longrightarrow> \<not> run_due c facts now r) \<Longrightarrow>
    \<exists>n db'. end_runs_from c (\<lambda>_. False) facts now batch after ended db = Some (Inr n, db') \<and> stream_ok db' \<and>
      (\<forall>r \<in> set (sd_runs db'). run_live r \<longrightarrow> \<not> run_due c facts now r)"
proof (induction "card (live_beyond after db)" arbitrary: after ended db rule: less_induct)
  case less
  let ?page = "live_runs after batch db"
  note page = live_runs_page [OF stream_okD(1) [OF less.prems(1)] batch, where after = after]
  have rows: "set ?page \<subseteq> live_beyond after db" using page(1) by (simp add: live_beyond_def)
  have "set ?page \<subseteq> set (sd_runs db)" "list_all run_live ?page" using rows by (auto simp: live_beyond_def list_all_iff)
  then obtain k db1 where run: "run_each (end_if_due c (\<lambda>_. False) facts now) ?page db = (Inr k, db1)" and ok1: "stream_ok db1"
    and live1: "\<And>y. y \<in> set (sd_runs db1) \<Longrightarrow> run_live y \<Longrightarrow>
      y \<in> set (sd_runs db) \<and> (y \<in> set ?page \<longrightarrow> \<not> run_due c facts now y)"
    using end_page_effect [OF laws less.prems(1) _ page(2), of facts now] by blast
  have step: "end_runs_from c (\<lambda>_. False) facts now batch after ended db =
      (if ?page = [] \<or> length ?page < batch then Some (Inr (ended + k), db1)
       else end_runs_from c (\<lambda>_. False) facts now batch (Some (rr_date_id (last ?page))) (ended + k) db1)"
    by (subst end_runs_from.simps) (simp add: run Let_def)
  show ?case
  proof (cases "?page = [] \<or> length ?page < batch")
    case True
    then have short: "length ?page < batch" using batch by auto
    have "\<not> run_due c facts now y" if "y \<in> set (sd_runs db1)" "run_live y" for y
    proof (cases "y \<in> live_beyond after db")
      case True
      then have "y \<in> set ?page" using page(3) [OF _ _ short] by (simp add: live_beyond_def)
      with live1 [OF that] show ?thesis by blast
    next
      case False
      with live1 [OF that] less.prems(2) that(2) show ?thesis by blast
    qed
    with True step ok1 show ?thesis by auto
  next
    case False
    let ?after = "Some (rr_date_id (last ?page))"
    have l: "last ?page \<in> live_beyond after db" using False rows last_in_set by blast
    have sub: "live_beyond ?after db1 \<subseteq> live_beyond after db - {last ?page}"
    proof
      fix y assume "y \<in> live_beyond ?after db1"
      then have y: "y \<in> set (sd_runs db1)" "run_live y" "rr_date_id (last ?page) < rr_date_id y" by (auto simp: live_beyond_def)
      with l live1 [OF y(1,2)] show "y \<in> live_beyond after db - {last ?page}"
        by (auto simp: live_beyond_def split: option.splits)
    qed
    have "finite (live_beyond after db)" by (simp add: live_beyond_def)
    with l sub have smaller: "card (live_beyond ?after db1) < card (live_beyond after db)"
      by (metis Diff_subset card_Diff1_less card_mono finite_Diff order_le_less_trans)
    have "\<not> run_due c facts now y" if y: "y \<in> set (sd_runs db1)" "run_live y" "y \<notin> live_beyond ?after db1" for y
    proof (cases "y \<in> live_beyond after db")
      case True
      have "\<not> rr_date_id (last ?page) < rr_date_id y" using y by (simp add: live_beyond_def)
      then have "y \<in> set ?page" using True page(4) False by (simp add: live_beyond_def)
      with live1 [OF y(1,2)] show ?thesis by blast
    next
      case False
      with live1 [OF y(1,2)] less.prems(2) y(2) show ?thesis by blast
    qed
    then show ?thesis unfolding step using less.hyps [OF smaller ok1] False by simp
  qed
qed

section \<open>Runs of the desk\<close>

text \<open>The run desk's properties over its runs, from empty tables, and a run executed for their witnesses.\<close>

section \<open>Reachable states\<close>

definition lawful_stream_step :: "run_core \<Rightarrow> live_ingest_provider \<Rightarrow> stream_db \<Rightarrow> stream_db \<Rightarrow> bool" where
  "lawful_stream_step c ingest db db' \<longleftrightarrow> run_transition_laws c \<and> stream_step c ingest db db'"

interpretation streaming: invariant_system "\<lambda>db. db = empty_stream" "lawful_stream_step c ingest" stream_ok for c ingest
  by unfold_locales (auto simp: lawful_stream_step_def empty_stream_ok intro: stream_step_ok)

lemma stream_reachable_ok:
  assumes "run_transition_laws c" and "(stream_step c ingest)\<^sup>*\<^sup>* empty_stream db"
  shows "stream_ok db"
proof -
  have "(lawful_stream_step c ingest)\<^sup>*\<^sup>* empty_stream db"
    using assms(2) by (rule rtranclp_mono [THEN predicate2D, rotated]) (use assms(1) in \<open>auto simp: lawful_stream_step_def\<close>)
  then show ?thesis by (rule streaming.reachable_inv [OF refl])
qed

section \<open>A run\<close>

definition sample_provider :: live_ingest_provider where
  "sample_provider = \<lparr>ip_capabilities = \<lparr>li_protocols = [Rtmps, Whip], li_monitor_paths = [Ll_Hls, Whep],
       li_carried_codecs = (\<lambda>_. Some \<lparr>cc_video = [''h264''], cc_audio = [''aac'']\<rparr>)\<rparr>,
     ip_monitor_url_for = (\<lambda>_ path. Some path)\<rparr>"

definition sample_feed :: feed_sample where
  "sample_feed = \<lparr>fd_measured_at = 10, fd_protocol = Rtmps, fd_video_codec = ''h264'', fd_audio_codec = ''aac'',
     fd_ingest_up_kbps = 6000, fd_jitter_ms = None, fd_lost_packets = None\<rparr>"

definition sample_facts :: "run_date_facts option" where
  "sample_facts = Some \<lparr>rd_timing = Some \<lparr>dt_starts_at = 0, dt_runtime_min = 10, dt_room_opens_before_min = 30,
       dt_replay_policy = Policy_None, dt_replay_window_hours = 0\<rparr>, rd_publication_state = Some Pub_Technical\<rparr>"

definition sample_operator :: run_actor where
  "sample_operator = \<lparr>ra_account_id = Some ''op'', ra_surface = Studio_Web\<rparr>"

definition stream_tables :: "('a \<times> stream_db) stream_result \<Rightarrow> stream_db stream_result" where
  "stream_tables r = bindE r (\<lambda>(_, db). Inr db)"

definition sample_stream_steps :: "(stream_db \<Rightarrow> stream_db stream_result) list" where
  "sample_stream_steps =
     [\<lambda>db. stream_tables (prepare_run_in (\<lambda>i g. i) ''m1'' \<lparr>rt_run_id = ''r'', rt_date_id = ''d'', rt_channel_id = ''ch'',
         rt_stream_path = ''p''\<rparr> None 1 db),
      \<lambda>db. stream_tables (check_run_in sample_run_core sample_provider (Some sample_feed) ''d'' sample_operator None 2 db),
      \<lambda>db. stream_tables (move_run_in sample_run_core sample_provider sample_facts ''d'' To_Rehearsal 2 sample_operator None 3 db),
      \<lambda>db. publisher_online sample_run_core sample_provider ''p'' Whip 4 db,
      \<lambda>db. stream_tables (move_run_in sample_run_core sample_provider sample_facts ''d'' To_On_Air 3 sample_operator None 5 db),
      \<lambda>db. Inr (publisher_offline ''p'' 4 1000 db),
      \<lambda>db. stream_tables (sweep_presence_in sample_run_core (\<lambda>_. False) ''i1'' ''r'' 20000 db)]"

lemma sample_stream_step:
  "f \<in> set sample_stream_steps \<Longrightarrow> f x = Inr x' \<Longrightarrow> stream_step sample_run_core sample_provider x x'"
  by (auto simp: sample_stream_steps_def stream_tables_def result_simps intro: stream_step.intros)

lemma sample_stream_steps_run:
  assumes "foldE (\<lambda>f. f) (take n sample_stream_steps) empty_stream = Inr db"
  shows "(stream_step sample_run_core sample_provider)\<^sup>*\<^sup>* empty_stream db"
proof (rule foldE_invariant [OF assms])
  fix f x x' assume "f \<in> set (take n sample_stream_steps)" and "f x = Inr x'"
    and "(stream_step sample_run_core sample_provider)\<^sup>*\<^sup>* empty_stream x"
  then show "(stream_step sample_run_core sample_provider)\<^sup>*\<^sup>* empty_stream x'"
    by (metis in_set_takeD rtranclp.simps sample_stream_step)
qed simp

text \<open>After all of them the run is veiled by the lost feed; after six, it is on air with its publisher lost.\<close>

lemma sample_stream_interrupted:
  "case foldE (\<lambda>f. f) (take 7 sample_stream_steps) empty_stream of Inl _ \<Rightarrow> False
   | Inr db \<Rightarrow> map_option run_shown_of (run_at db ''r'') = Some (Run_Interrupted, Some Cause_Venue_Feed_Lost, True) \<and>
       map_option rn_version (run_at db ''r'') = Some 5 \<and> length (sd_outbox db) = 7"
  by code_simp

text \<open>With no publisher, a run is due from fifteen minutes after the later of its scheduled end and the loss.\<close>

definition run_left_open :: "run_core \<Rightarrow> date_timing \<Rightarrow> instant \<Rightarrow> run_row \<Rightarrow> bool" where
  "run_left_open c timing now r \<longleftrightarrow> run_live r \<and>
     max (timing_ends_at c timing) (case rr_publisher_lost_at r of None \<Rightarrow> timing_ends_at c timing | Some t \<Rightarrow> t) + 900000 \<le> now"

lemma sample_stream_lost:
  "case foldE (\<lambda>f. f) (take 6 sample_stream_steps) empty_stream of Inl _ \<Rightarrow> False
   | Inr db \<Rightarrow> list_ex (run_left_open sample_run_core (the (rd_timing (the sample_facts))) 2000000) (sd_runs db)"
  by code_simp

section \<open>Properties\<close>

text \<open>
  Property C10. On air always means on air with no veil: whatever the studio, the feeds and the sweepers
  commit, a run on air or interrupted has passed its check and started, it is interrupted exactly while an
  incident raised on air is open, an ended run is dated and carries none, and the tables hold one open
  incident of a run at most.
\<close>

theorem on_air_unveiled:
  assumes "run_transition_laws c" and "(stream_step c ingest)\<^sup>*\<^sup>* empty_stream db" and "run_at db i = Some s"
  shows "run_wf s \<and> length (filter (\<lambda>x. ir_run_id x = i \<and> ir_resolved_at x = None) (sd_incidents db)) =
    (if open_incident s = None then 0 else 1)"
proof -
  note ok = stream_reachable_ok [OF assms(1,2)]
  let ?open = "filter (\<lambda>x. ir_resolved_at x = None) (sd_incidents db)"
  have keyed: "distinct (map ir_run_id ?open)" using stream_keyedD(4) [OF stream_okD(1) [OF ok]] by (simp add: incidents_keyed_def)
  have s: "open_incident s = map_option incident_snapshot_of (opened_incident i (sd_incidents db))"
    using assms(3) run_snapshot_open [of "open_incident_row i db"] opened_incident_SomeD [of i "sd_incidents db"]
    by (auto simp: run_at_def open_incident_row_opened)
  have "length (filter (\<lambda>x. ir_run_id x = i) ?open) = (if i \<in> ir_run_id ` set ?open then 1 else 0)"
  proof (cases "tbl_find ir_run_id i ?open")
    case None
    then show ?thesis using tbl_affected_key [OF keyed, of "\<lambda>x. ir_run_id x = i" i] tbl_find_None [of ir_run_id i ?open]
      by (simp add: tbl_affected_def)
  next
    case (Some x)
    then have "i \<in> ir_run_id ` set ?open" "ir_run_id x = i" using tbl_find_SomeD [OF Some] by blast+
    with Some tbl_affected_key [OF keyed, of "\<lambda>x. ir_run_id x = i" i] show ?thesis by (simp add: tbl_affected_def)
  qed
  also have "i \<in> ir_run_id ` set ?open \<longleftrightarrow> opened_incident i (sd_incidents db) \<noteq> None"
    by (auto simp: opened_incident_None)
  finally show ?thesis using stream_okD(2) [OF ok assms(3)] s by (simp add: conj_commute)
qed

theorem on_air_unveiled_witness:
  "\<exists>db s. (stream_step sample_run_core sample_provider)\<^sup>*\<^sup>* empty_stream db \<and> run_at db ''r'' = Some s \<and>
     rn_state s = Run_Interrupted \<and> run_wf s \<and>
     length (filter (\<lambda>x. ir_run_id x = ''r'' \<and> ir_resolved_at x = None) (sd_incidents db)) = (if open_incident s = None then 0 else 1)"
proof -
  obtain db where run: "foldE (\<lambda>f. f) (take 7 sample_stream_steps) empty_stream = Inr db"
    and shown: "map_option run_shown_of (run_at db ''r'') = Some (Run_Interrupted, Some Cause_Venue_Feed_Lost, True)"
    using sample_stream_interrupted by (auto split: sum.splits)
  from shown obtain s where s: "run_at db ''r'' = Some s" "rn_state s = Run_Interrupted" by (auto simp: run_shown_of_def)
  note runs = sample_stream_steps_run [OF run]
  from on_air_unveiled [OF sample_run_laws(1) runs s(1)] runs s show ?thesis by blast
qed

text \<open>
  Property C11. Who reads the topic knows the run: in every state the desk reaches, the rows of a date in the
  outbox, read in order, tell its run's state, the cause of its interruption and whether its publisher is
  gone, exactly as the tables have them.
\<close>

theorem run_state_told:
  assumes "run_transition_laws c" and "(stream_step c ingest)\<^sup>*\<^sup>* empty_stream db" and "run_at db i = Some s"
  shows "run_told_of (rn_date_id s) (sd_outbox db) = run_shown_of s"
  by (rule stream_okD(3) [OF stream_reachable_ok [OF assms(1,2)] assms(3)])

theorem run_state_told_witness:
  "\<exists>db s. (stream_step sample_run_core sample_provider)\<^sup>*\<^sup>* empty_stream db \<and> run_at db ''r'' = Some s \<and>
     run_told_of (rn_date_id s) (sd_outbox db) = (Run_Interrupted, Some Cause_Venue_Feed_Lost, True)"
proof -
  obtain db where run: "foldE (\<lambda>f. f) (take 7 sample_stream_steps) empty_stream = Inr db"
    and shown: "map_option run_shown_of (run_at db ''r'') = Some (Run_Interrupted, Some Cause_Venue_Feed_Lost, True)"
    using sample_stream_interrupted by (auto split: sum.splits)
  then obtain s where s: "run_at db ''r'' = Some s" "run_shown_of s = (Run_Interrupted, Some Cause_Venue_Feed_Lost, True)" by auto
  note runs = sample_stream_steps_run [OF run]
  from run_state_told [OF sample_run_laws(1) runs s(1)] runs s show ?thesis by metis
qed

lemma run_due_time:
  assumes "run_time_laws c" and "Option.bind (facts (rr_date_id r)) rd_timing = Some timing"
  shows "run_left_open c timing now r \<longleftrightarrow> run_live r \<and> run_due c facts now r"
  using assms by (auto simp: run_due_def run_left_open_def run_time_laws_def)



end
