(* ===== verification/Playback_Runs.thy ===== *)
theory Playback_Runs
  imports Playback_System Preview_Budget Entitlement_Seats Stream_Passes
begin

text \<open>The viewers' properties over their runs, from empty tables, and a run executed for the witness.\<close>

section \<open>The ceiling never refuses an opening\<close>

text \<open>Once an opening has taken over, the screens it counts leave it one, so the verdict is asked with room.\<close>

lemma opening_counts_room:
  assumes "1 \<le> sv_allowed (screens_at c v date now facts t)"
  shows "int (length (sv_others (screens_at c v date now facts t))) - int (length (sv_taken_over (screens_at c v date now facts t)))
    < sv_allowed (screens_at c v date now facts t)"
  using assms taken_over(3) by (simp add: screens_at_def Let_def)

section \<open>A run\<close>

definition sample_playback_core :: playback_core where
  "sample_playback_core = \<lparr>pk_preview = sample_preview_core, pk_entitlement = sample_entitlement_core,
     decide_watch = (\<lambda>w.
       if wt_concurrent_streams_allowed w \<le> wt_concurrent_streams_open w then refused_for Concurrent_Limit_Reached
       else if wt_holds_seat w then \<lparr>vd_allowed = True, vd_scope = Scope_Full, vd_reason = None, vd_preview_seconds_left = 0\<rparr>
       else if 0 < wt_preview_seconds_left w
       then \<lparr>vd_allowed = True, vd_scope = Scope_Preview, vd_reason = None, vd_preview_seconds_left = wt_preview_seconds_left w\<rparr>
       else refused_for Denied_Preview_Exhausted),
     playback_lease_expires_at = (\<lambda>now. now + 90000), playback_token_expires_at = (\<lambda>now. now + 120000),
     preview_renew_after_seconds = (\<lambda>n. min 45 n), playback_renewal_interval_seconds = 45\<rparr>"

definition sample_playback_provider :: playback_provider where
  "sample_playback_provider = \<lparr>pv_capabilities = \<lparr>pc_supports_signed_cookies = True, pc_protocols = [Hls], pc_drm_systems = []\<rparr>,
     pv_sign = (\<lambda>g. Some \<lparr>sg_manifest_url = gr_session_scope g, sg_query_token = Some (cl_jti (gr_claims g)), sg_cookies = []\<rparr>)\<rparr>"

definition sample_opening_request :: "ident \<Rightarrow> opening_request" where
  "sample_opening_request device = \<lparr>oq_viewer = \<lparr>vi_account_id = ''a'', vi_profile_id = ''p'', vi_device_id = device\<rparr>, oq_date_id = ''d'',
     oq_surface = Storefront_Tv, oq_viewer_country = ''FR'', oq_capabilities = None\<rparr>"

definition sample_ids :: "ident \<Rightarrow> drawn_ids" where
  "sample_ids i = \<lparr>dr_session_id = i, dr_session_scope = i, dr_token_id = i\<rparr>"

definition sample_open :: "ident \<Rightarrow> ident \<Rightarrow> instant \<Rightarrow> viewer_state \<Rightarrow> viewer_state stream_result" where
  "sample_open device i now x =
     bindE (open_playback sample_playback_core sample_playback_provider (sample_opening_request device) (sample_ids i) now (snd x)) (\<lambda>(answer, db).
     case answer of
       Inl _ \<Rightarrow> Inr (fst x, db)
     | Inr _ \<Rightarrow> Inr ((fst x)((''a'', ''d'') := Some (allowed_now sample_playback_core (sample_opening_request device) now (snd x))), db))"

definition sample_seat :: "ident \<Rightarrow> ident \<Rightarrow> viewer_state \<Rightarrow> viewer_state stream_result" where
  "sample_seat m seat x =
     bindE (record_seat_fact m (Seat_Fact (sample_seat_fact False seat 1)) 2 (snd x)) (\<lambda>(_, db). Inr (fst x, db))"

definition sample_date :: "ident \<Rightarrow> date_fact \<Rightarrow> viewer_state \<Rightarrow> viewer_state stream_result" where
  "sample_date m df x = Inr (fst x, snd (record_date_fact m df 2 (snd x)))"

text \<open>Two seats, so two screens: a television, a telephone, then a tablet that takes the television's over.\<close>

definition sample_viewer_steps :: "(viewer_state \<Rightarrow> viewer_state stream_result) list" where
  "sample_viewer_steps = [sample_seat ''m1'' ''s1'', sample_seat ''m2'' ''s2'',
     sample_date ''m3'' (Fact_Date_Scheduled ''d'' ''ch'' 1000 90 \<lparr>rp_policy = Policy_None, rp_window_hours = 0\<rparr>
       \<lparr>rg_scope = Some Rights_Worldwide, rg_blackout_countries = [], rg_reason = None\<rparr> 1),
     sample_date ''m4'' (Fact_Publication_State_Changed ''d'' ''ch'' (Some Pub_Live) 5 1),
     sample_open ''tv'' ''l1'' 10000, sample_open ''phone'' ''l2'' 20000, sample_open ''tablet'' ''l3'' 30000]"

lemma bindE_pairE:
  assumes "bindE m (\<lambda>(a, b). f a b) = Inr y" obtains a b where "m = Inr (a, b)" and "f a b = Inr y"
  using assms by (auto simp: bindE_eq_Inr)

lemma sample_step:
  assumes "step \<in> set sample_viewer_steps" and "step x = Inr y"
  shows "(viewer_step sample_playback_core sample_playback_provider rc ingest)\<^sup>*\<^sup>* x y"
proof -
  have "viewer_step sample_playback_core sample_playback_provider rc ingest x y"
  proof -
    obtain was db where x: "x = (was, db)" by fastforce
    consider (seat) m s where "step = sample_seat m s" | (date) m df where "step = sample_date m df"
      | (opened) device i now where "step = sample_open device i now"
      using assms(1) by (auto simp: sample_viewer_steps_def)
    then show ?thesis
    proof cases
      case seat
      with assms(2) show ?thesis by (auto simp: sample_seat_def x bindE_eq_Inr intro: seat_fact_recorded)
    next
      case date
      with assms(2) show ?thesis
        by (auto simp: sample_date_def x intro!: date_fact_recorded [of m df 2 db "fst (record_date_fact m df 2 db)"])
    next
      case opened
      from assms(2) obtain answer db' where run: "open_playback sample_playback_core sample_playback_provider
          (sample_opening_request device) (sample_ids i) now db = Inr (answer, db')"
        and y: "(Inr y :: viewer_state stream_result) = (case answer of Inl _ \<Rightarrow> Inr (was, db')
          | Inr _ \<Rightarrow> Inr (was((''a'', ''d'') := Some (allowed_now sample_playback_core (sample_opening_request device) now db)), db'))"
        unfolding opened sample_open_def x snd_conv fst_conv by (rule bindE_pairE) (rule that, assumption, rule sym, assumption)
      have who: "(vi_account_id (oq_viewer (sample_opening_request device)), oq_date_id (sample_opening_request device)) = (''a'', ''d'')"
        by (simp add: sample_opening_request_def)
      show ?thesis
      proof (cases answer)
        case (Inl r)
        with y have y': "y = (was, db')" by simp
        show ?thesis unfolding x y' by (rule screen_refused) (rule run [unfolded Inl])
      next
        case (Inr z)
        with y have y': "y = (was((''a'', ''d'') := Some (allowed_now sample_playback_core (sample_opening_request device) now db)), db')" by simp
        from screen_opened [OF run [unfolded Inr], of rc ingest was] show ?thesis unfolding x y' who .
      qed
    qed
  qed
  then show ?thesis by blast
qed

lemma sample_viewer_run:
  assumes "foldE (\<lambda>f. f) fs x = Inr y" and "set fs \<subseteq> set sample_viewer_steps"
  shows "(viewer_step sample_playback_core sample_playback_provider rc ingest)\<^sup>*\<^sup>* x y"
  using assms
proof (induction fs arbitrary: x)
  case Nil
  then show ?case by simp
next
  case (Cons f fs)
  from Cons.prems(1) obtain z where z: "f x = Inr z" "foldE (\<lambda>f. f) fs z = Inr y" by (auto simp: bindE_eq_Inr)
  from Cons.prems(2) have "f \<in> set sample_viewer_steps" "set fs \<subseteq> set sample_viewer_steps" by simp_all
  from rtranclp_trans [OF sample_step [OF this(1) z(1)] Cons.IH [OF z(2) this(2)]] show ?case .
qed

lemma sample_viewers_end:
  "case foldE (\<lambda>f. f) sample_viewer_steps (Map.empty, no_viewers) of Inl _ \<Rightarrow> False
   | Inr (allowed, db) \<Rightarrow> allowed (''a'', ''d'') = Some 2 \<and>
       map ps_device_id (actives ''a'' ''d'' (vw_sessions db)) = [''phone'', ''tablet''] \<and>
       map ps_revoke_reason (vw_sessions db) = [Some (Watch_Denied Concurrent_Limit_Reached), None, None]"
  by code_simp

section \<open>The property\<close>

text \<open>
  Property C13. No account shares its screens: in every state the viewers' transactions reach, beside the run
  desk's, the active leases of an account on a date are each of another device and no more than its last
  opening there was allowed (none before a first opening), and every lease's row meets the table's checks.
\<close>

theorem screens_within_allowance:
  assumes "(viewer_step c provider rc ingest)\<^sup>*\<^sup>* (Map.empty, no_viewers) (allowed, db)"
  shows "length (actives account date (vw_sessions db)) \<le> (case allowed (account, date) of None \<Rightarrow> 0 | Some n \<Rightarrow> nat (max 1 n)) \<and>
    distinct (map ps_device_id (actives account date (vw_sessions db))) \<and> list_all session_check (vw_sessions db)"
proof -
  have "viewer_ok (allowed, db)" by (rule viewers.reachable_inv [OF refl assms])
  then show ?thesis by (simp add: viewer_ok_def screens_bound_def leases_keyed_def leases_checked_def)
qed

theorem screens_within_allowance_witness:
  "\<exists>allowed db. (viewer_step sample_playback_core sample_playback_provider sample_run_core sample_provider)\<^sup>*\<^sup>*
       (Map.empty, no_viewers) (allowed, db) \<and> allowed (''a'', ''d'') = Some 2 \<and>
     map ps_device_id (actives ''a'' ''d'' (vw_sessions db)) = [''phone'', ''tablet''] \<and>
     length (actives ''a'' ''d'' (vw_sessions db)) \<le> 2 \<and> list_all session_check (vw_sessions db)"
proof -
  obtain allowed db where run: "foldE (\<lambda>f. f) sample_viewer_steps (Map.empty, no_viewers) = Inr (allowed, db)"
    and last_one: "allowed (''a'', ''d'') = Some 2" "map ps_device_id (actives ''a'' ''d'' (vw_sessions db)) = [''phone'', ''tablet'']"
    using sample_viewers_end by (auto split: sum.splits)
  have steps: "(viewer_step sample_playback_core sample_playback_provider sample_run_core sample_provider)\<^sup>*\<^sup>*
      (Map.empty, no_viewers) (allowed, db)"
    by (rule sample_viewer_run [OF run order_refl])
  from screens_within_allowance [OF steps, of "''a''" "''d''"] last_one
  have "length (actives ''a'' ''d'' (vw_sessions db)) \<le> 2" "list_all session_check (vw_sessions db)" by simp_all
  with steps last_one show ?thesis by (intro exI conjI)
qed

end
