(* ===== verification/Entitlement_Wire.thy ===== *)
theory Entitlement_Wire
  imports Entitlement
begin

text \<open>
  How streaming reads the messages it consumes (\<open>entitlement/entitlement-wire.ts\<close>,
  \<open>entitlement/entitlement-messages.ts\<close>, \<open>devices/device-messages.ts\<close>): the wire's numbers to the domain's
  members, an unknown one kept out, and each decoded message to its fact. Protobuf's decoding of the bytes
  is a library's; a message is its fields, a timestamp the instant it stands for.
\<close>

section \<open>Members\<close>

definition domain_of :: "('m \<times> int) list \<Rightarrow> int \<Rightarrow> 'm option" where
  "domain_of table wire = map_option fst (find (\<lambda>(_, n). n = wire) table)"

definition WIRE_PUBLICATION_STATE :: "(publication_state \<times> int) list" where
  "WIRE_PUBLICATION_STATE = [(Pub_Draft, 1), (Pub_Reserve, 2), (Pub_Scheduled, 3), (Pub_Technical, 4), (Pub_Live, 5),
     (Pub_Ended, 6), (Pub_Replay_Online, 7)]"

definition WIRE_DATE_OUTCOME :: "(date_outcome \<times> int) list" where
  "WIRE_DATE_OUTCOME = [(Outcome_Postponed, 1), (Outcome_Cancelled, 2), (Outcome_Interrupted, 3)]"

definition WIRE_REPLAY_POLICY :: "(replay_policy \<times> int) list" where
  "WIRE_REPLAY_POLICY = [(Policy_Included, 1), (Policy_Subscription, 2), (Policy_Unit, 3), (Policy_None, 4)]"

definition WIRE_RIGHTS_SCOPE :: "(rights_scope \<times> int) list" where
  "WIRE_RIGHTS_SCOPE = [(Rights_Worldwide, 1), (Rights_Restricted, 2)]"

definition WIRE_BLACKOUT_REASON :: "(blackout_reason \<times> int) list" where
  "WIRE_BLACKOUT_REASON = [(Blackout_Co_Production, 1), (Blackout_Broadcaster, 2), (Blackout_Festival, 3)]"

definition WIRE_PLAN_TIER :: "(plan_tier \<times> int) list" where
  "WIRE_PLAN_TIER = [(Plan_Free, 1), (Plan_Pass, 2), (Plan_Premium, 3)]"

definition WIRE_SUBSCRIPTION_STATE :: "(subscription_state \<times> int) list" where
  "WIRE_SUBSCRIPTION_STATE = [(Subscription_Active, 1), (Subscription_Past_Due, 2), (Subscription_Cancelled, 3),
     (Subscription_Trialing, 4)]"

definition WIRE_PLAN_OPENING :: "(plan_opening \<times> int) list" where
  "WIRE_PLAN_OPENING = [(Opens_Browse, 1), (Opens_Trailers, 2), (Opens_Free_Dates, 3), (Opens_Replays, 4),
     (Opens_No_Ads, 5), (Opens_One_Live_Month, 6), (Opens_All_Lives, 7), (Opens_Multi_Screen, 8), (Opens_Archive, 9)]"

definition publication_state_of :: "int \<Rightarrow> publication_state option" where
  "publication_state_of = domain_of WIRE_PUBLICATION_STATE"

definition date_outcome_of :: "int \<Rightarrow> date_outcome option" where
  "date_outcome_of = domain_of WIRE_DATE_OUTCOME"

definition replay_policy_of :: "int \<Rightarrow> replay_policy" where
  "replay_policy_of wire = (case domain_of WIRE_REPLAY_POLICY wire of None \<Rightarrow> Policy_None | Some p \<Rightarrow> p)"

definition rights_scope_of :: "int \<Rightarrow> rights_scope option" where
  "rights_scope_of = domain_of WIRE_RIGHTS_SCOPE"

definition blackout_reason_of :: "int \<Rightarrow> blackout_reason option" where
  "blackout_reason_of = domain_of WIRE_BLACKOUT_REASON"

definition plan_tier_of :: "int \<Rightarrow> plan_tier option" where
  "plan_tier_of = domain_of WIRE_PLAN_TIER"

definition subscription_state_of :: "int \<Rightarrow> subscription_state option" where
  "subscription_state_of = domain_of WIRE_SUBSCRIPTION_STATE"

definition openings_of :: "int list \<Rightarrow> plan_opening list" where
  "openings_of = List.map_filter (domain_of WIRE_PLAN_OPENING)"

section \<open>Fields\<close>

definition is_hex :: "char \<Rightarrow> bool" where
  "is_hex c \<longleftrightarrow> c \<in> set ''0123456789abcdefABCDEF''"

definition is_uuid :: "string \<Rightarrow> bool" where
  "is_uuid s \<longleftrightarrow> length s = 36 \<and>
     list_all (\<lambda>(i, c). if i = 8 \<or> i = 13 \<or> i = 18 \<or> i = 23 then c = CHR ''-'' else is_hex c) (enumerate 0 s)"

text \<open>A message that does not read is an error of its field.\<close>

definition id_of :: "string \<Rightarrow> string \<Rightarrow> string + ident" where
  "id_of value field = (if is_uuid value then Inr value else Inl field)"

definition instant_of :: "instant option \<Rightarrow> string \<Rightarrow> string + instant" where
  "instant_of timestamp field = (case timestamp of None \<Rightarrow> Inl field | Some t \<Rightarrow> Inr t)"

text \<open>\<open>toUpperCase\<close> of a country's letters.\<close>

definition upper_char :: "char \<Rightarrow> char" where
  "upper_char c = (if 97 \<le> (of_char c :: nat) \<and> (of_char c :: nat) \<le> 122 then char_of (of_char c - 32 :: nat) else c)"

record wire_territory_rights =
  wr_scope :: int
  wr_blackout_countries :: "string list"
  wr_reason :: int

definition rights_facts_of :: "wire_territory_rights option \<Rightarrow> rights_facts" where
  "rights_facts_of rights = \<lparr>rg_scope = Option.bind rights (\<lambda>r. rights_scope_of (wr_scope r)),
     rg_blackout_countries = (case rights of None \<Rightarrow> [] | Some r \<Rightarrow> map (map upper_char) (wr_blackout_countries r)),
     rg_reason = Option.bind rights (\<lambda>r. blackout_reason_of (wr_reason r))\<rparr>"

section \<open>Messages\<close>

record wire_seat =
  ws_seat_id :: string
  ws_account_id :: string
  ws_date_id :: string
  ws_occurred_at :: "instant option"

record wire_subscription =
  wu_account_id :: string
  wu_plan :: int
  wu_state :: int
  wu_opens :: "int list"
  wu_paid_through :: "instant option"
  wu_version :: int
  wu_occurred_at :: "instant option"

datatype streaming_message =
    Wire_Seat_Activated wire_seat
  | Wire_Seat_Cancelled wire_seat
  | Wire_Subscription_Changed wire_subscription
  | Wire_Date_Scheduled string string "instant option" int int int "wire_territory_rights option" "instant option"
  | Wire_Date_Rescheduled string "instant option" "instant option"
  | Wire_Replay_Policy_Set string int int "instant option"
  | Wire_Rights_Changed string "wire_territory_rights option" "instant option"
  | Wire_Publication_State_Changed string string int int "instant option"
  | Wire_Outcome_Declared string string int "instant option"
  | Wire_Device_Revoked string string "instant option"
  | Wire_Device_Session_Closed string string string "instant option"

datatype streaming_command =
    Record_Seat_Fact seat_message_fact
  | Record_Subscription_Fact subscription_fact
  | Record_Date_Fact date_fact
  | Revoke_Device_Leases ident ident instant
  | Revoke_Profile_Leases ident ident ident instant

definition seat_activated_read :: "wire_seat \<Rightarrow> string + streaming_command" where
  "seat_activated_read e =
     bindE (id_of (ws_seat_id e) ''seat_id'') (\<lambda>seat.
     bindE (id_of (ws_account_id e) ''account_id'') (\<lambda>account.
     bindE (id_of (ws_date_id e) ''date_id'') (\<lambda>date.
     bindE (instant_of (ws_occurred_at e) ''occurred_at'') (\<lambda>stated.
     Inr (Record_Seat_Fact (Seat_Fact \<lparr>sf_cancelled = False, sf_seat_id = seat, sf_account_id = account,
       sf_date_id = date, sf_stated_at = stated\<rparr>))))))"

definition seat_cancelled_read :: "wire_seat \<Rightarrow> string + streaming_command" where
  "seat_cancelled_read e =
     bindE (id_of (ws_seat_id e) ''seat_id'') (\<lambda>seat.
     case ws_occurred_at e of
       Some stated \<Rightarrow>
         if is_uuid (ws_account_id e) \<and> is_uuid (ws_date_id e)
         then Inr (Record_Seat_Fact (Seat_Fact \<lparr>sf_cancelled = True, sf_seat_id = seat,
           sf_account_id = ws_account_id e, sf_date_id = ws_date_id e, sf_stated_at = stated\<rparr>))
         else Inr (Record_Seat_Fact (Cancellation_Of_Kept_Row seat (Some stated)))
     | None \<Rightarrow> Inr (Record_Seat_Fact (Cancellation_Of_Kept_Row seat None)))"

definition subscription_changed_read :: "wire_subscription \<Rightarrow> string + streaming_command" where
  "subscription_changed_read e =
     bindE (id_of (wu_account_id e) ''account_id'') (\<lambda>account.
     bindE (instant_of (wu_occurred_at e) ''occurred_at'') (\<lambda>stated.
     Inr (Record_Subscription_Fact \<lparr>sb_account_id = account, sb_plan = plan_tier_of (wu_plan e),
       sb_state = subscription_state_of (wu_state e), sb_openings = openings_of (wu_opens e),
       sb_paid_through = wu_paid_through e, sb_version = (if wu_version e = 0 then None else Some (wu_version e)),
       sb_stated_at = stated\<rparr>)))"

text \<open>Identity's two facts of a device.\<close>

definition device_revoked_read :: "string \<Rightarrow> string \<Rightarrow> instant option \<Rightarrow> string + streaming_command" where
  "device_revoked_read account device occurred_at =
     bindE (id_of account ''account_id'') (\<lambda>account.
     bindE (id_of device ''device_id'') (\<lambda>device.
     bindE (instant_of occurred_at ''occurred_at'') (\<lambda>stated.
     Inr (Revoke_Device_Leases account device stated))))"

definition device_session_closed_read ::
    "string \<Rightarrow> string \<Rightarrow> string \<Rightarrow> instant option \<Rightarrow> string + streaming_command" where
  "device_session_closed_read account device profile occurred_at =
     bindE (id_of account ''account_id'') (\<lambda>account.
     bindE (id_of device ''device_id'') (\<lambda>device.
     bindE (id_of profile ''profile_id'') (\<lambda>profile.
     bindE (instant_of occurred_at ''occurred_at'') (\<lambda>stated.
     Inr (Revoke_Profile_Leases account device profile stated)))))"

text \<open>\<open>None\<close> for a fact this build keeps nothing of.\<close>

fun streaming_message_read :: "streaming_message \<Rightarrow> string + streaming_command option" where
  "streaming_message_read (Wire_Seat_Activated e) = bindE (seat_activated_read e) (\<lambda>c. Inr (Some c))"
| "streaming_message_read (Wire_Seat_Cancelled e) = bindE (seat_cancelled_read e) (\<lambda>c. Inr (Some c))"
| "streaming_message_read (Wire_Subscription_Changed e) = bindE (subscription_changed_read e) (\<lambda>c. Inr (Some c))"
| "streaming_message_read (Wire_Date_Scheduled date channel starts_at runtime_min policy window_hours rights occurred_at) =
     bindE (id_of date ''date_id'') (\<lambda>date.
     bindE (instant_of starts_at ''starts_at'') (\<lambda>starts.
     bindE (instant_of occurred_at ''occurred_at'') (\<lambda>stated.
     Inr (Some (Record_Date_Fact (Fact_Date_Scheduled date channel starts runtime_min
       \<lparr>rp_policy = replay_policy_of policy, rp_window_hours = window_hours\<rparr> (rights_facts_of rights) stated))))))"
| "streaming_message_read (Wire_Date_Rescheduled date starts_at occurred_at) =
     bindE (id_of date ''date_id'') (\<lambda>date.
     bindE (instant_of starts_at ''new_starts_at'') (\<lambda>starts.
     bindE (instant_of occurred_at ''occurred_at'') (\<lambda>stated.
     Inr (Some (Record_Date_Fact (Fact_Date_Rescheduled date starts stated))))))"
| "streaming_message_read (Wire_Replay_Policy_Set date policy window_hours occurred_at) =
     bindE (id_of date ''date_id'') (\<lambda>date.
     bindE (instant_of occurred_at ''occurred_at'') (\<lambda>stated.
     Inr (Some (Record_Date_Fact (Fact_Replay_Policy_Set date
       \<lparr>rp_policy = replay_policy_of policy, rp_window_hours = window_hours\<rparr> stated)))))"
| "streaming_message_read (Wire_Rights_Changed date rights occurred_at) =
     bindE (id_of date ''date_id'') (\<lambda>date.
     bindE (instant_of occurred_at ''occurred_at'') (\<lambda>stated.
     Inr (Some (Record_Date_Fact (Fact_Rights_Changed date (rights_facts_of rights) stated)))))"
| "streaming_message_read (Wire_Publication_State_Changed date channel to_state version occurred_at) =
     bindE (id_of date ''date_id'') (\<lambda>date.
     bindE (instant_of occurred_at ''occurred_at'') (\<lambda>stated.
     Inr (Some (Record_Date_Fact (Fact_Publication_State_Changed date channel (publication_state_of to_state) version stated)))))"
| "streaming_message_read (Wire_Outcome_Declared date channel outcome declared_at) =
     (case date_outcome_of outcome of
        None \<Rightarrow> Inr None
      | Some known \<Rightarrow>
          bindE (id_of date ''date_id'') (\<lambda>date.
          bindE (instant_of declared_at ''declared_at'') (\<lambda>stated.
          Inr (Some (Record_Date_Fact (Fact_Outcome_Declared date channel known stated))))))"
| "streaming_message_read (Wire_Device_Revoked account device occurred_at) =
     bindE (device_revoked_read account device occurred_at) (\<lambda>c. Inr (Some c))"
| "streaming_message_read (Wire_Device_Session_Closed account device profile occurred_at) =
     bindE (device_session_closed_read account device profile occurred_at) (\<lambda>c. Inr (Some c))"

section \<open>What the readers keep out\<close>

text \<open>An activation reads only with an account, a date and an instant; a cancellation needs its seat alone.\<close>

lemma seat_activated_reads:
  "(\<exists>c. seat_activated_read e = Inr c) \<longleftrightarrow>
     is_uuid (ws_seat_id e) \<and> is_uuid (ws_account_id e) \<and> is_uuid (ws_date_id e) \<and> ws_occurred_at e \<noteq> None"
  by (auto simp: seat_activated_read_def id_of_def instant_of_def bindE_def split: option.splits)

lemma seat_cancelled_reads: "(\<exists>c. seat_cancelled_read e = Inr c) \<longleftrightarrow> is_uuid (ws_seat_id e)"
  by (auto simp: seat_cancelled_read_def id_of_def bindE_def split: option.splits)

lemma unspecified_unknown:
  "publication_state_of 0 = None" "date_outcome_of 0 = None" "rights_scope_of 0 = None" "blackout_reason_of 0 = None"
  "subscription_state_of 0 = None" "openings_of [0] = []" "replay_policy_of 0 = Policy_None"
  by code_simp+

end
