(* ===== verification/Replay_Assets.thy ===== *)
theory Replay_Assets
  imports Entitlement Preview Retry
begin

text \<open>
  The asset of a date's replay (\<open>apps/streaming/src/replay-asset\<close>): one row per recorded date, the decisions on
  it (\<open>replay-asset.ts\<close>), its statements (\<open>replay-asset.store.ts\<close>), the passes that move it with its run, its date's
  outcome and its window (\<open>replay-asset-passes.ts\<close>), and the calls it owes the recording provider
  (\<open>recording-calls.ts\<close>), each claimed, made and settled apart. The provider is a record over a store of any type.
\<close>

section \<open>The rules called\<close>

record replay_asset_core =
  has_replay_policy :: "date_timing \<Rightarrow> bool"
  withdraws_replay :: "date_outcome option \<Rightarrow> bool"
  replay_window_closes_at :: "instant \<Rightarrow> int \<Rightarrow> instant"
  falls_after :: "instant \<Rightarrow> instant \<Rightarrow> bool"

section \<open>The table\<close>

datatype asset_state = Asset_Recording | Asset_Processing | Asset_Online | Asset_Failed | Asset_Deleting | Asset_Deleted

datatype recording_call = Call_Start | Call_Stop | Call_Status | Call_Delete

record replay_asset_row =
  ay_date_id :: ident
  ay_channel_id :: ident
  ay_state :: asset_state
  ay_recording_ref :: "string option"
  ay_recorded_from :: instant
  ay_recorded_until :: "instant option"
  ay_stopped_at :: "instant option"
  ay_duration_sec :: "int option"
  ay_available_from :: "instant option"
  ay_expires_at :: "instant option"
  ay_announced_at :: "instant option"
  ay_call_attempts :: int
  ay_call_next_attempt_at :: "instant option"
  ay_call_dead_at :: "instant option"
  ay_failed_call :: "recording_call option"
  ay_deleted_at :: "instant option"
  ay_version :: int

definition asset_check :: "replay_asset_row \<Rightarrow> bool" where
  "asset_check r \<longleftrightarrow> (case ay_duration_sec r of None \<Rightarrow> True | Some n \<Rightarrow> 0 \<le> n) \<and> 1 \<le> ay_version r \<and>
     (ay_state r = Asset_Online \<longrightarrow> ay_expires_at r \<noteq> None) \<and>
     (ay_state r = Asset_Deleted) = (ay_deleted_at r \<noteq> None) \<and>
     (ay_state r = Asset_Failed) = (ay_call_dead_at r \<noteq> None)"

record orphan_recording_row =
  oc_date_id :: ident
  oc_recording_ref :: string
  oc_attempts :: int

record asset_db = entitlement_db +
  ab_assets :: "replay_asset_row list"
  ab_orphans :: "orphan_recording_row list"

section \<open>Decisions\<close>

record replay_asset_snapshot =
  at_date_id :: ident
  at_channel_id :: ident
  at_state :: asset_state
  at_recording_ref :: "string option"
  at_recorded_until :: "instant option"
  at_stopped_at :: "instant option"
  at_announced_at :: "instant option"
  at_expires_at :: "instant option"

definition should_record :: "replay_asset_core \<Rightarrow> date_facts option \<Rightarrow> bool" where
  "should_record c facts \<longleftrightarrow>
     (case Option.bind facts df_timing of
        None \<Rightarrow> False
      | Some timing \<Rightarrow> has_replay_policy c timing \<and> \<not> withdraws_replay c (Option.bind facts df_outcome))"

definition closes_with :: "'a replay_asset_snapshot_scheme \<Rightarrow> instant option \<Rightarrow> bool" where
  "closes_with a run_ended_at \<longleftrightarrow> at_state a = Asset_Recording \<and> at_recording_ref a \<noteq> None \<and> run_ended_at \<noteq> None"

definition can_be_withdrawn :: "asset_state \<Rightarrow> bool" where
  "can_be_withdrawn s \<longleftrightarrow> s = Asset_Recording \<or> s = Asset_Processing \<or> s = Asset_Online"

definition is_withdrawn :: "replay_asset_core \<Rightarrow> 'a replay_asset_snapshot_scheme \<Rightarrow> date_outcome option \<Rightarrow> bool" where
  "is_withdrawn c a outcome \<longleftrightarrow> can_be_withdrawn (at_state a) \<and> withdraws_replay c outcome"

definition is_expired :: "replay_asset_core \<Rightarrow> 'a replay_asset_snapshot_scheme \<Rightarrow> instant \<Rightarrow> bool" where
  "is_expired c a now \<longleftrightarrow> at_state a = Asset_Online \<and>
     (case at_expires_at a of None \<Rightarrow> False | Some t \<Rightarrow> \<not> falls_after c t now)"

definition call_due :: "'a replay_asset_snapshot_scheme \<Rightarrow> recording_call option" where
  "call_due a =
     (case at_state a of
        Asset_Recording \<Rightarrow> if at_recording_ref a = None then Some Call_Start else None
      | Asset_Processing \<Rightarrow> Some (if at_stopped_at a = None then Call_Stop else Call_Status)
      | Asset_Deleting \<Rightarrow> Some (if at_recording_ref a \<noteq> None \<and> at_stopped_at a = None then Call_Stop else Call_Delete)
      | _ \<Rightarrow> None)"

datatype readiness = Readiness_Withdrawn | Readiness_Opens instant instant

definition readiness_at :: "replay_asset_core \<Rightarrow> instant \<Rightarrow> instant \<Rightarrow> date_timing \<Rightarrow> date_outcome option \<Rightarrow> readiness" where
  "readiness_at c now run_ended_at timing outcome =
     (if withdraws_replay c outcome then Readiness_Withdrawn
      else let expires_at = replay_window_closes_at c run_ended_at (dt_replay_window_hours timing) in
        if \<not> falls_after c expires_at now then Readiness_Withdrawn else Readiness_Opens now expires_at)"

definition owes_expired_event :: "'a replay_asset_snapshot_scheme \<Rightarrow> bool" where
  "owes_expired_event a \<longleftrightarrow> at_state a = Asset_Online \<and> at_announced_at a \<noteq> None"

section \<open>Statements\<close>

record locked_asset = replay_asset_snapshot +
  at_attempts :: int

definition asset_of :: "replay_asset_row \<Rightarrow> locked_asset" where
  "asset_of r = \<lparr>at_date_id = ay_date_id r, at_channel_id = ay_channel_id r, at_state = ay_state r,
     at_recording_ref = ay_recording_ref r, at_recorded_until = ay_recorded_until r, at_stopped_at = ay_stopped_at r,
     at_announced_at = ay_announced_at r, at_expires_at = ay_expires_at r, at_attempts = ay_call_attempts r\<rparr>"

definition lock_asset_waiting :: "ident \<Rightarrow> asset_db \<Rightarrow> locked_asset option" where
  "lock_asset_waiting date db = map_option asset_of (tbl_find ay_date_id date (ab_assets db))"

text \<open>\<open>SKIP LOCKED\<close>: another transaction may hold the row.\<close>

definition lock_asset :: "(ident \<Rightarrow> bool) \<Rightarrow> ident \<Rightarrow> asset_db \<Rightarrow> locked_asset option" where
  "lock_asset locked date db = (if locked date then None else lock_asset_waiting date db)"

text \<open>The columns a transition writes, and the version with them; the row meets its checks.\<close>

definition patch_asset :: "ident \<Rightarrow> (replay_asset_row \<Rightarrow> replay_asset_row) \<Rightarrow> asset_db \<Rightarrow> asset_db stream_result" where
  "patch_asset date patch db =
     (let rows = tbl_update (\<lambda>r. ay_date_id r = date) (\<lambda>r. (patch r)\<lparr>ay_version := ay_version r + 1\<rparr>) (ab_assets db)
      in if list_all asset_check (filter (\<lambda>r. ay_date_id r = date) rows) then Inr (db\<lparr>ab_assets := rows\<rparr>)
         else Inl (Stream_Constraint ''replay_asset_check''))"

definition CALL_DUE_NOW :: "replay_asset_row \<Rightarrow> replay_asset_row" where
  "CALL_DUE_NOW r = r\<lparr>ay_call_attempts := 0, ay_call_next_attempt_at := None\<rparr>"

definition TO_DELETING :: "replay_asset_row \<Rightarrow> replay_asset_row" where
  "TO_DELETING r = (CALL_DUE_NOW r)\<lparr>ay_state := Asset_Deleting, ay_call_dead_at := None, ay_failed_call := None\<rparr>"

definition asset_due :: "instant \<Rightarrow> replay_asset_row \<Rightarrow> bool" where
  "asset_due now r \<longleftrightarrow> ay_call_dead_at r = None \<and> ay_state r \<in> {Asset_Recording, Asset_Processing, Asset_Deleting} \<and>
     (ay_state r \<noteq> Asset_Recording \<or> ay_recording_ref r = None) \<and>
     (case ay_call_next_attempt_at r of None \<Rightarrow> True | Some t \<Rightarrow> t \<le> now)"

text \<open>The ones never scheduled first, then by instant and date.\<close>

definition lock_assets_due :: "(ident \<Rightarrow> bool) \<Rightarrow> instant \<Rightarrow> nat \<Rightarrow> asset_db \<Rightarrow> locked_asset list" where
  "lock_assets_due locked now batch db =
     (let due = sort_key ay_date_id (filter (\<lambda>r. asset_due now r \<and> \<not> locked (ay_date_id r)) (ab_assets db));
          ordered = filter (\<lambda>r. ay_call_next_attempt_at r = None) due @
            sort_key (\<lambda>r. the (ay_call_next_attempt_at r)) (filter (\<lambda>r. ay_call_next_attempt_at r \<noteq> None) due)
      in map asset_of (List.take batch ordered))"

section \<open>The events\<close>

record asset_ready =
  ar_date_id :: ident
  ar_channel_id :: ident
  ar_duration_sec :: int
  ar_available_from :: instant
  ar_expires_at :: instant

definition write_replay_event ::
    "stream_event_type \<Rightarrow> ident \<Rightarrow> stream_message \<Rightarrow> instant \<Rightarrow> asset_db \<Rightarrow> asset_db" where
  "write_replay_event type date payload occurred_at db =
     db\<lparr>en_stream := (en_stream db)\<lparr>sd_outbox := sd_outbox (en_stream db) @ [\<lparr>sx_topic = STREAM_RUN_TOPIC, sx_type = type,
       sx_key = date, sx_payload = payload, sx_traceparent = None, sx_occurred_at = occurred_at\<rparr>]\<rparr>\<rparr>"

definition write_asset_ready :: "asset_ready \<Rightarrow> instant \<Rightarrow> asset_db \<Rightarrow> asset_db" where
  "write_asset_ready x occurred_at = write_replay_event Type_Replay_Asset_Ready (ar_date_id x)
     (Replay_Asset_Ready_Message (ar_date_id x) (ar_channel_id x) (ar_duration_sec x) (ar_available_from x) (ar_expires_at x)
       occurred_at) occurred_at"

definition write_replay_expired :: "ident \<Rightarrow> instant \<Rightarrow> asset_db \<Rightarrow> asset_db" where
  "write_replay_expired date occurred_at =
     write_replay_event Type_Replay_Expired date (Replay_Expired_Message date occurred_at) occurred_at"

section \<open>The passes\<close>

definition REPLAY_ASSET_PASS_BATCH :: nat where
  "REPLAY_ASSET_PASS_BATCH = 100"

text \<open>\<open>UNRECORDED_LIVE_RUNS_SQL\<close>.\<close>

definition unrecorded_live_runs :: "ident option \<Rightarrow> nat \<Rightarrow> asset_db \<Rightarrow> run_row list" where
  "unrecorded_live_runs after batch db =
     List.take batch (sort_key rr_date_id
       (filter (\<lambda>r. (rr_state r = Run_On_Air \<or> rr_state r = Run_Interrupted) \<and> rr_started_at r \<noteq> None \<and>
          (case after of None \<Rightarrow> True | Some d \<Rightarrow> d < rr_date_id r) \<and>
          \<not> list_ex (\<lambda>a. ay_date_id a = rr_date_id r) (ab_assets db)) (sd_runs (en_stream db))))"

text \<open>A live run's asset; the insert does nothing when the date has one.\<close>

definition request_recording ::
    "replay_asset_core \<Rightarrow> entitlement_core \<Rightarrow> instant \<Rightarrow> run_row \<Rightarrow> asset_db \<Rightarrow> (bool \<times> asset_db) stream_result" where
  "request_recording c ec now r db =
     (if \<not> should_record c (read_date_facts ec (rr_date_id r) db) then Inr (False, db)
      else if list_ex (\<lambda>a. ay_date_id a = rr_date_id r) (ab_assets db) then Inr (False, db)
      else case rr_started_at r of
        None \<Rightarrow> Inl (Stream_Constraint ''recorded_from'')
      | Some began \<Rightarrow> Inr (True, db\<lparr>ab_assets := ab_assets db @ [\<lparr>ay_date_id = rr_date_id r, ay_channel_id = rr_channel_id r,
          ay_state = Asset_Recording, ay_recording_ref = None, ay_recorded_from = began, ay_recorded_until = None,
          ay_stopped_at = None, ay_duration_sec = None, ay_available_from = None, ay_expires_at = None, ay_announced_at = None,
          ay_call_attempts = 0, ay_call_next_attempt_at = None, ay_call_dead_at = None, ay_failed_call = None,
          ay_deleted_at = None, ay_version = 1\<rparr>]\<rparr>))"

text \<open>
  The loop over the pages, which goes on after the last date read: the runs left are those of later dates, fewer
  with each page.
\<close>

definition runs_after :: "ident option \<Rightarrow> 'a entitlement_db_scheme \<Rightarrow> run_row list" where
  "runs_after after db = filter (\<lambda>r. case after of None \<Rightarrow> True | Some d \<Rightarrow> d < rr_date_id r) (sd_runs (en_stream db))"

lemma request_recording_stream: "request_recording c ec now r db = Inr (b, db1) \<Longrightarrow> en_stream db1 = en_stream db"
  by (auto simp: request_recording_def split: if_splits option.splits)

lemma requests_stream: "run_each (request_recording c ec now) rows db = (x, db1) \<Longrightarrow> en_stream db1 = en_stream db"
  by (induction rows arbitrary: db x) (auto simp: Let_def request_recording_stream split: sum.splits prod.splits)

lemma filter_shorter:
  assumes "x \<in> set xs" and "Q x" and "\<not> P x" and "\<And>y. P y \<Longrightarrow> Q y"
  shows "length (filter P xs) < length (filter Q xs)"
proof -
  have "filter P xs = filter P (filter Q xs)" using assms(4) by (auto intro: filter_cong)
  moreover have "\<exists>y \<in> set (filter Q xs). \<not> P y" using assms(1-3) by auto
  then have "length (filter P (filter Q xs)) < length (filter Q xs)" by (blast intro: length_filter_less)
  ultimately show ?thesis by simp
qed

lemma live_page:
  assumes "r \<in> set (unrecorded_live_runs after batch db)"
  shows "r \<in> set (sd_runs (en_stream db))" "case after of None \<Rightarrow> True | Some d \<Rightarrow> d < rr_date_id r"
  using assms unfolding unrecorded_live_runs_def by (auto dest!: in_set_takeD)

lemma page_shortens:
  assumes "unrecorded_live_runs after batch db \<noteq> []" and "en_stream db1 = en_stream db"
  shows "length (runs_after (Some (rr_date_id (List.last (unrecorded_live_runs after batch db)))) db1) < length (runs_after after db)"
proof -
  let ?last = "List.last (unrecorded_live_runs after batch db)"
  have in_page: "?last \<in> set (unrecorded_live_runs after batch db)" using assms(1) by (rule last_in_set)
  show ?thesis unfolding runs_after_def assms(2)
  proof (rule filter_shorter)
    show "?last \<in> set (sd_runs (en_stream db))" by (rule live_page(1) [OF in_page])
    show "case after of None \<Rightarrow> True | Some d \<Rightarrow> d < rr_date_id ?last" by (rule live_page(2) [OF in_page])
  qed (use live_page(2) [OF in_page] in \<open>auto split: option.splits\<close>)
qed

function request_recordings_from ::
    "replay_asset_core \<Rightarrow> entitlement_core \<Rightarrow> instant \<Rightarrow> nat \<Rightarrow> ident option \<Rightarrow> nat \<Rightarrow> asset_db \<Rightarrow> nat stream_result \<times> asset_db" where
  "request_recordings_from c ec now batch after requested db =
     (let live = unrecorded_live_runs after batch db in
      case run_each (request_recording c ec now) live db of
        (Inl e, db1) \<Rightarrow> (Inl e, db1)
      | (Inr n, db1) \<Rightarrow>
          if live = [] \<or> length live < batch then (Inr (requested + n), db1)
          else request_recordings_from c ec now batch (Some (rr_date_id (List.last live))) (requested + n) db1)"
  by pat_completeness auto

termination request_recordings_from
  by (relation "measure (\<lambda>(c, ec, now, batch, after, requested, db). length (runs_after after db))")
    (auto dest!: sym [of _ "run_each _ _ _"] intro!: page_shortens dest: requests_stream)

definition request_recordings ::
    "replay_asset_core \<Rightarrow> entitlement_core \<Rightarrow> instant \<Rightarrow> nat \<Rightarrow> asset_db \<Rightarrow> nat stream_result \<times> asset_db" where
  "request_recordings c ec now batch db = request_recordings_from c ec now batch None 0 db"

text \<open>\<open>ENDED_RECORDINGS_SQL\<close>, \<open>WITHDRAWN_ASSETS_SQL\<close>, \<open>EXPIRED_ASSETS_SQL\<close>: the candidates, read with no lock.\<close>

definition ended_recordings :: "nat \<Rightarrow> asset_db \<Rightarrow> ident list" where
  "ended_recordings batch db =
     List.take batch (map ay_date_id (sort_key ay_date_id (filter (\<lambda>a. ay_state a = Asset_Recording \<and> ay_recording_ref a \<noteq> None \<and>
       ay_call_dead_at a = None \<and>
       list_ex (\<lambda>r. rr_date_id r = ay_date_id a \<and> rr_ended_at r \<noteq> None) (sd_runs (en_stream db))) (ab_assets db))))"

definition withdrawn_assets :: "replay_asset_core \<Rightarrow> nat \<Rightarrow> asset_db \<Rightarrow> ident list" where
  "withdrawn_assets c batch db =
     List.take batch (map ay_date_id (sort_key ay_date_id (filter (\<lambda>a. can_be_withdrawn (ay_state a) \<and>
       list_ex (\<lambda>d. eo_date_id d = ay_date_id a \<and>
         (case eo_outcome d of Some (Known_Member x) \<Rightarrow> withdraws_replay c (Some x) | _ \<Rightarrow> False)) (en_dates db)) (ab_assets db))))"

definition expired_assets :: "instant \<Rightarrow> nat \<Rightarrow> asset_db \<Rightarrow> ident list" where
  "expired_assets now batch db =
     List.take batch (map ay_date_id (sort_key (\<lambda>a. the (ay_expires_at a)) (filter (\<lambda>a. ay_state a = Asset_Online \<and>
       (case ay_expires_at a of None \<Rightarrow> False | Some t \<Rightarrow> t \<le> now)) (ab_assets db))))"

text \<open>Each in a transaction of its own, which decides again on the row it locked.\<close>

definition close_recording ::
    "(ident \<Rightarrow> bool) \<Rightarrow> instant \<Rightarrow> ident \<Rightarrow> asset_db \<Rightarrow> (bool \<times> asset_db) stream_result" where
  "close_recording locked now date db =
     (case (lock_asset locked date db, read_run_facts date (en_stream db)) of
        (Some a, Some run) \<Rightarrow>
          if \<not> closes_with a (rf_ended_at run) then Inr (False, db)
          else bindE (patch_asset date (\<lambda>r. CALL_DUE_NOW (r\<lparr>ay_state := Asset_Processing, ay_recorded_until := rf_ended_at run\<rparr>)) db)
            (\<lambda>db'. Inr (True, db'))
      | _ \<Rightarrow> Inr (False, db))"

definition to_deleting :: "locked_asset \<Rightarrow> instant \<Rightarrow> asset_db \<Rightarrow> asset_db stream_result" where
  "to_deleting a now db =
     patch_asset (at_date_id a) TO_DELETING (if owes_expired_event a then write_replay_expired (at_date_id a) now db else db)"

definition withdraw_asset ::
    "replay_asset_core \<Rightarrow> entitlement_core \<Rightarrow> (ident \<Rightarrow> bool) \<Rightarrow> instant \<Rightarrow> ident \<Rightarrow> asset_db \<Rightarrow> (bool \<times> asset_db) stream_result" where
  "withdraw_asset c ec locked now date db =
     (case lock_asset locked date db of
        None \<Rightarrow> Inr (False, db)
      | Some a \<Rightarrow>
          if \<not> is_withdrawn c a (Option.bind (read_date_facts ec date db) df_outcome) then Inr (False, db)
          else bindE (to_deleting a now db) (\<lambda>db'. Inr (True, db')))"

definition expire_asset ::
    "replay_asset_core \<Rightarrow> (ident \<Rightarrow> bool) \<Rightarrow> instant \<Rightarrow> ident \<Rightarrow> asset_db \<Rightarrow> (bool \<times> asset_db) stream_result" where
  "expire_asset c locked now date db =
     (case lock_asset locked date db of
        None \<Rightarrow> Inr (False, db)
      | Some a \<Rightarrow> if \<not> is_expired c a now then Inr (False, db) else bindE (to_deleting a now db) (\<lambda>db'. Inr (True, db')))"

definition close_recordings :: "(ident \<Rightarrow> bool) \<Rightarrow> (ident \<Rightarrow> instant) \<Rightarrow> nat \<Rightarrow> asset_db \<Rightarrow> nat stream_result \<times> asset_db" where
  "close_recordings locked now batch db = run_each (\<lambda>date. close_recording locked (now date) date) (ended_recordings batch db) db"

definition withdraw_assets ::
    "replay_asset_core \<Rightarrow> entitlement_core \<Rightarrow> (ident \<Rightarrow> bool) \<Rightarrow> (ident \<Rightarrow> instant) \<Rightarrow> nat \<Rightarrow> asset_db \<Rightarrow> nat stream_result \<times> asset_db" where
  "withdraw_assets c ec locked now batch db =
     run_each (\<lambda>date. withdraw_asset c ec locked (now date) date) (withdrawn_assets c batch db) db"

definition expire_assets ::
    "replay_asset_core \<Rightarrow> (ident \<Rightarrow> bool) \<Rightarrow> instant \<Rightarrow> (ident \<Rightarrow> instant) \<Rightarrow> nat \<Rightarrow> asset_db \<Rightarrow> nat stream_result \<times> asset_db" where
  "expire_assets c locked read_at now batch db =
     run_each (\<lambda>date. expire_asset c locked (now date) date) (expired_assets read_at batch db) db"

section \<open>What the operator reads\<close>

text \<open>
  The rows each check counts, the oldest first: the assets given up on, the orphans, and the runs not on air half an
  hour after their date began. A check answers degraded when it counts any.
\<close>

record ops_check =
  op_up :: bool
  op_counted :: nat
  op_oldest_date_id :: "ident option"

definition ops_check_of :: "ident list \<Rightarrow> ops_check" where
  "ops_check_of dates = \<lparr>op_up = (dates = []), op_counted = length dates,
     op_oldest_date_id = (case dates of [] \<Rightarrow> None | d # _ \<Rightarrow> Some d)\<rparr>"

definition check_replay_assets_failed :: "asset_db \<Rightarrow> ops_check" where
  "check_replay_assets_failed db =
     ops_check_of (map ay_date_id (sort_key (\<lambda>r. the (ay_call_dead_at r)) (filter (\<lambda>r. ay_state r = Asset_Failed) (ab_assets db))))"

definition check_orphan_recordings :: "asset_db \<Rightarrow> ops_check" where
  "check_orphan_recordings db = ops_check_of (map oc_date_id (ab_orphans db))"

definition ROOM_IDLE_AFTER_MS :: int where
  "ROOM_IDLE_AFTER_MS = 30 * 60000"

definition check_rooms_idle :: "instant \<Rightarrow> asset_db \<Rightarrow> ops_check" where
  "check_rooms_idle now db =
     ops_check_of (map fst (sort_key snd (List.map_filter (\<lambda>r.
       (case tbl_find eo_date_id (rr_date_id r) (en_dates db) of
          None \<Rightarrow> None
        | Some d \<Rightarrow>
            (case eo_starts_at d of
               None \<Rightarrow> None
             | Some starts_at \<Rightarrow>
                 if (rr_state r = Run_Idle \<or> rr_state r = Run_Rehearsal) \<and> starts_at < now - ROOM_IDLE_AFTER_MS \<and>
                    (eo_outcome d = None \<or> eo_outcome d = Some (Known_Member Outcome_Postponed))
                 then Some (rr_date_id r, starts_at) else None))) (sd_runs (en_stream db)))))"

section \<open>The provider\<close>

text \<open>An answer past its timeout is a failure; what a call answers late it still did. \<open>Threw\<close>: any other error.\<close>

datatype 'a provider_answer = Answered 'a | Not_Held | Timed_Out "'a option" | Threw

record recording_status =
  rs_ready :: bool
  rs_duration_sec :: "int option"

record 'p recording_provider =
  vp_start :: "string \<Rightarrow> 'p \<Rightarrow> string provider_answer \<times> 'p"
  vp_stop :: "string \<Rightarrow> 'p \<Rightarrow> unit provider_answer \<times> 'p"
  vp_status :: "string \<Rightarrow> 'p \<Rightarrow> recording_status provider_answer \<times> 'p"
  vp_delete :: "string \<Rightarrow> 'p \<Rightarrow> unit provider_answer \<times> 'p"

definition RECORDING_RETRY_DELAYS_MS :: "int list" where
  "RECORDING_RETRY_DELAYS_MS = (case doubling_delays 5000 (5 * 60000) HOUR_MS of None \<Rightarrow> [] | Some delays \<Rightarrow> delays)"

definition RECORDING_ATTEMPTS_MAX :: int where
  "RECORDING_ATTEMPTS_MAX = attempts_allowed_by RECORDING_RETRY_DELAYS_MS"

definition READINESS_POLL_EVERY_MS :: int where
  "READINESS_POLL_EVERY_MS = 30000"

definition READINESS_GIVE_UP_AFTER_MS :: int where
  "READINESS_GIVE_UP_AFTER_MS = 6 * HOUR_MS"

definition RECORDING_CALLS_BATCH :: nat where
  "RECORDING_CALLS_BATCH = 20"

definition ORPHAN_DELETE_ATTEMPTS :: nat where
  "ORPHAN_DELETE_ATTEMPTS = 3"

section \<open>A call claimed\<close>

text \<open>The attempt is counted and the next one scheduled before the call is made; the last one's lease is the last delay.\<close>

fun claim_each ::
    "(ident \<Rightarrow> int) \<Rightarrow> instant \<Rightarrow> locked_asset list \<Rightarrow> asset_db \<Rightarrow> ((locked_asset \<times> int) list \<times> asset_db) stream_result" where
  "claim_each random now [] db = Inr ([], db)"
| "claim_each random now (a # rest) db =
     (if call_due a = None then claim_each random now rest db
      else
        let attempt = at_attempts a + 1;
            next_at = (case next_attempt_at (random (at_date_id a)) attempt now RECORDING_RETRY_DELAYS_MS of
              Some t \<Rightarrow> t
            | None \<Rightarrow> now + (if RECORDING_RETRY_DELAYS_MS = [] then 0 else List.last RECORDING_RETRY_DELAYS_MS))
        in bindE (patch_asset (at_date_id a) (\<lambda>r. r\<lparr>ay_call_attempts := attempt, ay_call_next_attempt_at := Some next_at\<rparr>) db) (\<lambda>db1.
           bindE (claim_each random now rest db1) (\<lambda>(claimed, db2). Inr ((a, attempt) # claimed, db2))))"

definition claim_calls ::
    "(ident \<Rightarrow> int) \<Rightarrow> (ident \<Rightarrow> bool) \<Rightarrow> instant \<Rightarrow> nat \<Rightarrow> asset_db \<Rightarrow> ((locked_asset \<times> int) list \<times> asset_db) stream_result" where
  "claim_calls random locked now batch db = claim_each random now (lock_assets_due locked now batch db) db"

section \<open>A call made\<close>

datatype call_failure = Call_Refused | Call_Error

datatype call_result = Started string | Stopped | Status_Read recording_status | Deletion_Made

fun call_of :: "call_result \<Rightarrow> recording_call" where
  "call_of (Started ref) = Call_Start"
| "call_of Stopped = Call_Stop"
| "call_of (Status_Read status) = Call_Status"
| "call_of Deletion_Made = Call_Delete"

definition ignoring_unknown :: "unit provider_answer \<Rightarrow> call_failure + unit" where
  "ignoring_unknown x = (case x of Answered u \<Rightarrow> Inr u | Not_Held \<Rightarrow> Inr () | _ \<Rightarrow> Inl Call_Error)"

text \<open>The reference of a recording started after its timeout comes with the failure.\<close>

definition invoke ::
    "'p recording_provider \<Rightarrow> recording_call \<Rightarrow> locked_asset \<Rightarrow> asset_db \<Rightarrow> 'p \<Rightarrow> (call_failure + call_result) \<times> string option \<times> 'p" where
  "invoke pr call a db p =
     (case (call, at_recording_ref a) of
        (Call_Start, _) \<Rightarrow>
          (case read_run_facts (at_date_id a) (en_stream db) of
             None \<Rightarrow> (Inl Call_Error, None, p)
           | Some run \<Rightarrow>
               (case vp_start pr (rf_stream_path run) p of
                  (Answered ref, p') \<Rightarrow> (Inr (Started ref), None, p')
                | (Timed_Out late, p') \<Rightarrow> (Inl Call_Error, late, p')
                | (_, p') \<Rightarrow> (Inl Call_Error, None, p')))
      | (Call_Stop, None) \<Rightarrow> (Inr Stopped, None, p)
      | (Call_Stop, Some ref) \<Rightarrow>
          (case vp_stop pr ref p of (x, p') \<Rightarrow> (bindE (ignoring_unknown x) (\<lambda>_. Inr Stopped), None, p'))
      | (Call_Status, None) \<Rightarrow> (Inl Call_Refused, None, p)
      | (Call_Status, Some ref) \<Rightarrow>
          (case vp_status pr ref p of
             (Answered status, p') \<Rightarrow> (Inr (Status_Read status), None, p')
           | (Not_Held, p') \<Rightarrow> (Inl Call_Refused, None, p')
           | (_, p') \<Rightarrow> (Inl Call_Error, None, p'))
      | (Call_Delete, None) \<Rightarrow> (Inr Deletion_Made, None, p)
      | (Call_Delete, Some ref) \<Rightarrow>
          (case vp_delete pr ref p of (x, p') \<Rightarrow> (bindE (ignoring_unknown x) (\<lambda>_. Inr Deletion_Made), None, p')))"

section \<open>A call settled\<close>

definition settle_written :: "'a stream_result \<Rightarrow> call_failure + 'a" where
  "settle_written r = (case r of Inl _ \<Rightarrow> Inl Call_Error | Inr x \<Rightarrow> Inr x)"

text \<open>The reference kept, or given back when the asset moved on.\<close>

definition settle_start ::
    "locked_asset option \<Rightarrow> string \<Rightarrow> asset_db \<Rightarrow> call_failure + string option \<times> asset_db" where
  "settle_start asset ref db =
     (case asset of
        None \<Rightarrow> Inr (Some ref, db)
      | Some a \<Rightarrow>
          if at_recording_ref a = None \<and> (at_state a = Asset_Recording \<or> at_state a = Asset_Deleting)
          then bindE (settle_written (patch_asset (at_date_id a) (\<lambda>r. CALL_DUE_NOW (r\<lparr>ay_recording_ref := Some ref\<rparr>)) db))
            (\<lambda>db'. Inr (None, db'))
          else Inr (Some ref, db))"

definition settle_status ::
    "replay_asset_core \<Rightarrow> entitlement_core \<Rightarrow> locked_asset \<Rightarrow> recording_status \<Rightarrow> instant \<Rightarrow> asset_db \<Rightarrow> call_failure + asset_db" where
  "settle_status c ec a status now db =
     (case (rs_ready status, rs_duration_sec status) of
        (True, Some duration) \<Rightarrow>
          (case (Option.bind (read_date_facts ec (at_date_id a) db) df_timing,
                 Option.bind (read_run_facts (at_date_id a) (en_stream db)) rf_ended_at) of
             (Some timing, Some ended_at) \<Rightarrow>
               (case readiness_at c now ended_at timing (Option.bind (read_date_facts ec (at_date_id a) db) df_outcome) of
                  Readiness_Withdrawn \<Rightarrow>
                    settle_written (patch_asset (at_date_id a) (\<lambda>r. CALL_DUE_NOW (r\<lparr>ay_state := Asset_Deleting\<rparr>)) db)
                | Readiness_Opens available_from expires_at \<Rightarrow>
                    settle_written (patch_asset (at_date_id a)
                      (\<lambda>r. CALL_DUE_NOW (r\<lparr>ay_state := Asset_Online, ay_duration_sec := Some duration,
                         ay_available_from := Some available_from, ay_expires_at := Some expires_at, ay_announced_at := Some now\<rparr>))
                      (write_asset_ready \<lparr>ar_date_id = at_date_id a, ar_channel_id = at_channel_id a, ar_duration_sec = duration,
                         ar_available_from = available_from, ar_expires_at = expires_at\<rparr> now db)))
           | _ \<Rightarrow> Inl Call_Error)
      | _ \<Rightarrow>
          let give_up_at = (case at_recorded_until a of None \<Rightarrow> now | Some t \<Rightarrow> t) + READINESS_GIVE_UP_AFTER_MS
          in if \<not> falls_after c give_up_at now then Inl Call_Refused
             else settle_written (patch_asset (at_date_id a)
               (\<lambda>r. r\<lparr>ay_call_attempts := 0, ay_call_next_attempt_at := Some (now + READINESS_POLL_EVERY_MS)\<rparr>) db))"

text \<open>The outcome of a call, decided again on the row; a recording the asset does not keep comes back.\<close>

definition settle ::
    "replay_asset_core \<Rightarrow> entitlement_core \<Rightarrow> ident \<Rightarrow> call_result \<Rightarrow> instant \<Rightarrow> asset_db \<Rightarrow> call_failure + string option \<times> asset_db" where
  "settle c ec date result now db =
     (let asset = lock_asset_waiting date db in
      case result of
        Started ref \<Rightarrow> settle_start asset ref db
      | _ \<Rightarrow>
          (case asset of
             None \<Rightarrow> Inr (None, db)
           | Some a \<Rightarrow>
               if call_due a \<noteq> Some (call_of result) then Inr (None, db)
               else bindE (case result of
                   Stopped \<Rightarrow> settle_written (patch_asset date (\<lambda>r. CALL_DUE_NOW (r\<lparr>ay_stopped_at := Some now\<rparr>)) db)
                 | Deletion_Made \<Rightarrow> settle_written (patch_asset date
                     (\<lambda>r. CALL_DUE_NOW (r\<lparr>ay_state := Asset_Deleted, ay_deleted_at := Some now, ay_recording_ref := None\<rparr>)) db)
                 | Status_Read status \<Rightarrow> settle_status c ec a status now db
                 | Started ref \<Rightarrow> Inl Call_Error) (\<lambda>db'. Inr (None, db'))))"

definition give_up :: "ident \<Rightarrow> recording_call \<Rightarrow> instant \<Rightarrow> asset_db \<Rightarrow> (bool \<times> asset_db) stream_result" where
  "give_up date call now db =
     (case lock_asset_waiting date db of
        None \<Rightarrow> Inr (False, db)
      | Some a \<Rightarrow>
          if call_due a \<noteq> Some call then Inr (False, db)
          else bindE (patch_asset date (\<lambda>r. r\<lparr>ay_state := Asset_Failed, ay_call_dead_at := Some now, ay_call_next_attempt_at := None,
              ay_failed_call := Some call\<rparr>) db) (\<lambda>db'. Inr (True, db')))"

section \<open>Orphans\<close>

fun delete_attempts :: "'p recording_provider \<Rightarrow> nat \<Rightarrow> string \<Rightarrow> 'p \<Rightarrow> bool \<times> 'p" where
  "delete_attempts pr 0 ref p = (False, p)"
| "delete_attempts pr (Suc n) ref p =
     (case vp_delete pr ref p of (Answered _, p') \<Rightarrow> (True, p') | (_, p') \<Rightarrow> delete_attempts pr n ref p')"

text \<open>A failure of the insert is only logged.\<close>

definition record_orphan :: "bool \<Rightarrow> ident \<Rightarrow> string \<Rightarrow> asset_db \<Rightarrow> asset_db" where
  "record_orphan fails date ref db =
     (if fails \<or> list_ex (\<lambda>r. oc_recording_ref r = ref) (ab_orphans db) then db
      else db\<lparr>ab_orphans := ab_orphans db @ [\<lparr>oc_date_id = date, oc_recording_ref = ref, oc_attempts = int ORPHAN_DELETE_ATTEMPTS\<rparr>]\<rparr>)"

definition delete_orphan ::
    "'p recording_provider \<Rightarrow> bool \<Rightarrow> ident \<Rightarrow> string \<Rightarrow> asset_db \<times> 'p \<Rightarrow> asset_db \<times> 'p" where
  "delete_orphan pr fails date ref x =
     (case x of (db, p) \<Rightarrow>
        (case delete_attempts pr ORPHAN_DELETE_ATTEMPTS ref p of
           (True, p') \<Rightarrow> (db, p')
         | (False, p') \<Rightarrow> (record_orphan fails date ref db, p')))"

section \<open>The pass of the calls\<close>

record call_circumstances =
  cc_settled_at :: instant
  cc_given_up_at :: instant
  cc_settle_fails :: bool
  cc_orphan_fails :: bool

text \<open>A give-up whose transaction throws ends the pass.\<close>

definition attempt_call ::
    "replay_asset_core \<Rightarrow> entitlement_core \<Rightarrow> 'p recording_provider \<Rightarrow> call_circumstances \<Rightarrow> locked_asset \<Rightarrow> int \<Rightarrow> asset_db \<times> 'p \<Rightarrow>
     stream_failure option \<times> asset_db \<times> 'p" where
  "attempt_call c ec pr x a attempt dbp =
     (case (call_due a, dbp) of
        (None, _) \<Rightarrow> (None, dbp)
      | (Some call, db, p) \<Rightarrow>
          let dead = (\<lambda>db p. case give_up (at_date_id a) call (cc_given_up_at x) db of
                Inl f \<Rightarrow> (Some f, db, p) | Inr (_, db') \<Rightarrow> (None, db', p));
              orphaned = (\<lambda>ref db p. case ref of None \<Rightarrow> (db, p) | Some r \<Rightarrow> delete_orphan pr (cc_orphan_fails x) (at_date_id a) r (db, p))
          in case invoke pr call a db p of
               (Inl f, late, p1) \<Rightarrow>
                 let (db1, p2) = orphaned late db p1 in
                 if f = Call_Refused \<or> RECORDING_ATTEMPTS_MAX \<le> attempt then dead db1 p2 else (None, db1, p2)
             | (Inr result, _, p1) \<Rightarrow>
                 (case (if cc_settle_fails x then Inl Call_Error else settle c ec (at_date_id a) result (cc_settled_at x) db) of
                    Inl Call_Refused \<Rightarrow> dead db p1
                  | Inl Call_Error \<Rightarrow> (None, orphaned (case result of Started ref \<Rightarrow> Some ref | _ \<Rightarrow> None) db p1)
                  | Inr (orphan, db1) \<Rightarrow> (None, orphaned orphan db1 p1)))"

fun attempt_each ::
    "replay_asset_core \<Rightarrow> entitlement_core \<Rightarrow> 'p recording_provider \<Rightarrow> (ident \<Rightarrow> call_circumstances) \<Rightarrow> (locked_asset \<times> int) list \<Rightarrow>
     asset_db \<times> 'p \<Rightarrow> stream_failure option \<times> asset_db \<times> 'p" where
  "attempt_each c ec pr x [] dbp = (None, dbp)"
| "attempt_each c ec pr x ((a, attempt) # rest) dbp =
     (case attempt_call c ec pr (x (at_date_id a)) a attempt dbp of
        (Some f, dbp') \<Rightarrow> (Some f, dbp')
      | (None, dbp') \<Rightarrow> attempt_each c ec pr x rest dbp')"

definition recording_calls_pass ::
    "replay_asset_core \<Rightarrow> entitlement_core \<Rightarrow> 'p recording_provider \<Rightarrow> (ident \<Rightarrow> int) \<Rightarrow> (ident \<Rightarrow> bool) \<Rightarrow>
     (ident \<Rightarrow> call_circumstances) \<Rightarrow> instant \<Rightarrow> nat \<Rightarrow> asset_db \<times> 'p \<Rightarrow> nat stream_result \<times> asset_db \<times> 'p" where
  "recording_calls_pass c ec pr random locked x now batch dbp =
     (case dbp of (db, p) \<Rightarrow>
        (case claim_calls random locked now batch db of
           Inl f \<Rightarrow> (Inl f, db, p)
         | Inr (claimed, db1) \<Rightarrow>
             (case attempt_each c ec pr x claimed (db1, p) of
                (Some f, y) \<Rightarrow> (Inl f, y)
              | (None, y) \<Rightarrow> (Inr (length claimed), y))))"

end
