(* ===== verification/Replay_Recordings.thy ===== *)
theory Replay_Recordings
  imports Replay_Assets
begin

text \<open>
  What the topic tells of a replay: the transactions on the asset's row as a step relation, in any interleaving, and
  their invariant. Where a recording started ends. Histories of both, and the one of a deletion overtaken by a start.
\<close>

section \<open>What is told\<close>

definition replay_row :: "stream_outbox_row \<Rightarrow> bool" where
  "replay_row x \<longleftrightarrow> sx_type x = Type_Replay_Asset_Ready \<or> sx_type x = Type_Replay_Expired"

definition asset_told :: "ident \<Rightarrow> 'a entitlement_db_scheme \<Rightarrow> stream_event_type list" where
  "asset_told date db = map sx_type (filter (\<lambda>x. replay_row x \<and> sx_key x = date) (sd_outbox (en_stream db)))"

text \<open>Online and not withdrawn is told ready; any state after it, expired.\<close>

definition asset_told_of :: "replay_asset_row \<Rightarrow> stream_event_type list" where
  "asset_told_of r = (if ay_announced_at r = None then []
     else if ay_state r = Asset_Online then [Type_Replay_Asset_Ready] else [Type_Replay_Asset_Ready, Type_Replay_Expired])"

definition announced_online :: "replay_asset_row \<Rightarrow> bool" where
  "announced_online r \<longleftrightarrow> (ay_state r = Asset_Online \<longrightarrow> ay_announced_at r \<noteq> None) \<and>
     (ay_announced_at r \<noteq> None \<longrightarrow> ay_state r \<noteq> Asset_Recording \<and> ay_state r \<noteq> Asset_Processing)"

definition asset_sound :: "asset_db \<Rightarrow> ident \<Rightarrow> bool" where
  "asset_sound db date \<longleftrightarrow>
     (case tbl_find ay_date_id date (ab_assets db) of
        None \<Rightarrow> asset_told date db = []
      | Some r \<Rightarrow> asset_check r \<and> announced_online r \<and> asset_told date db = asset_told_of r)"

definition assets_keyed :: "asset_db \<Rightarrow> bool" where
  "assets_keyed db \<longleftrightarrow> distinct (map ay_date_id (ab_assets db))"

definition assets_ok :: "asset_db \<Rightarrow> bool" where
  "assets_ok db \<longleftrightarrow> assets_keyed db \<and> (\<forall>date. asset_sound db date)"

lemma assets_okD:
  assumes "assets_ok db"
  shows "assets_keyed db" "tbl_find ay_date_id date (ab_assets db) = None \<Longrightarrow> asset_told date db = []"
    "tbl_find ay_date_id date (ab_assets db) = Some r \<Longrightarrow> asset_check r \<and> announced_online r \<and> asset_told date db = asset_told_of r"
proof -
  show "assets_keyed db" using assms by (simp add: assets_ok_def)
  have "asset_sound db date" using assms by (simp add: assets_ok_def)
  then show "tbl_find ay_date_id date (ab_assets db) = None \<Longrightarrow> asset_told date db = []"
    "tbl_find ay_date_id date (ab_assets db) = Some r \<Longrightarrow> asset_check r \<and> announced_online r \<and> asset_told date db = asset_told_of r"
    by (simp_all add: asset_sound_def)
qed

lemma told_write [simp]:
  "asset_told d (write_replay_event type date payload at db) =
     asset_told d db @ (if (type = Type_Replay_Asset_Ready \<or> type = Type_Replay_Expired) \<and> d = date then [type] else [])"
  by (auto simp: asset_told_def write_replay_event_def replay_row_def)

lemma told_tables [simp]: "ab_assets (write_replay_event type date payload at db) = ab_assets db"
  "ab_orphans (write_replay_event type date payload at db) = ab_orphans db"
  by (simp_all add: write_replay_event_def)

lemma told_assets [simp]: "asset_told d (db\<lparr>ab_assets := t\<rparr>) = asset_told d db"
  "asset_told d (db\<lparr>ab_orphans := t'\<rparr>) = asset_told d db"
  by (simp_all add: asset_told_def)

section \<open>A row patched\<close>

lemma patched:
  assumes "patch_asset date f db = Inr db'"
  shows "db' = db\<lparr>ab_assets := tbl_update (\<lambda>r. ay_date_id r = date) (\<lambda>r. (f r)\<lparr>ay_version := ay_version r + 1\<rparr>) (ab_assets db)\<rparr>"
    "list_all asset_check (filter (\<lambda>r. ay_date_id r = date) (ab_assets db'))"
  using assms by (auto simp: patch_asset_def Let_def split: if_splits)

lemma patched_dates:
  assumes "patch_asset date f db = Inr db'" and "\<And>r. ay_date_id (f r) = ay_date_id r"
  shows "map ay_date_id (ab_assets db') = map ay_date_id (ab_assets db)"
  unfolding patched(1) [OF assms(1)] by (simp add: map_tbl_update_same assms(2))

lemma patched_find:
  assumes run: "patch_asset date f db = Inr db'" and dates: "\<And>r. ay_date_id (f r) = ay_date_id r"
  shows "tbl_find ay_date_id d (ab_assets db') = (case tbl_find ay_date_id d (ab_assets db) of
    None \<Rightarrow> None | Some r \<Rightarrow> Some (if d = date then (f r)\<lparr>ay_version := ay_version r + 1\<rparr> else r))"
proof -
  have "tbl_find ay_date_id d (tbl_update (\<lambda>r. ay_date_id r = date) (\<lambda>r. (f r)\<lparr>ay_version := ay_version r + 1\<rparr>) t) =
    (case tbl_find ay_date_id d t of None \<Rightarrow> None | Some r \<Rightarrow> Some (if d = date then (f r)\<lparr>ay_version := ay_version r + 1\<rparr> else r))" for t
    by (induction t) (auto simp: dates)
  then show ?thesis by (simp add: patched(1) [OF run])
qed

lemma patched_ok:
  assumes ok: "assets_ok db" and r: "tbl_find ay_date_id date (ab_assets db) = Some r"
    and same: "ab_assets db1 = ab_assets db" "\<And>d. d \<noteq> date \<Longrightarrow> asset_told d db1 = asset_told d db"
    and run: "patch_asset date f db1 = Inr db'" and dates: "\<And>r. ay_date_id (f r) = ay_date_id r"
    and sound: "announced_online (f r)" "asset_told date db1 = asset_told_of (f r)"
  shows "assets_ok db'"
proof -
  let ?r = "(f r)\<lparr>ay_version := ay_version r + 1\<rparr>"
  have found: "tbl_find ay_date_id date (ab_assets db') = Some ?r"
    using patched_find [OF run dates, of date] r by (simp add: same)
  have told: "asset_told d db' = asset_told d db1" for d using patched(1) [OF run] by simp
  have "asset_check ?r"
    using patched(2) [OF run] tbl_find_SomeD [OF found] by (auto simp: list_all_iff)
  moreover have "announced_online ?r" "asset_told_of ?r = asset_told_of (f r)" using sound(1) by (auto simp: announced_online_def asset_told_of_def)
  ultimately have here: "asset_sound db' date" using sound(2) by (simp add: asset_sound_def found told)
  have there: "asset_sound db' d" if "d \<noteq> date" for d
  proof -
    have "tbl_find ay_date_id d (ab_assets db') = tbl_find ay_date_id d (ab_assets db)"
      using that patched_find [OF run dates, of d] by (simp add: same(1) split: option.splits)
    moreover have "asset_told d db' = asset_told d db" unfolding told by (rule same(2) [OF that])
    moreover have "asset_sound db d" using ok by (simp add: assets_ok_def)
    ultimately show ?thesis by (simp only: asset_sound_def)
  qed
  have keyed: "assets_keyed db'" using assets_okD(1) [OF ok] unfolding assets_keyed_def patched_dates [OF run dates] same(1) .
  have "asset_sound db' d" for d by (cases "d = date") (simp_all only: here there not_False_eq_True)
  with keyed show ?thesis by (simp add: assets_ok_def)
qed

lemma unpatched:
  assumes "patch_asset date f db = Inr db'" and "tbl_find ay_date_id date (ab_assets db) = None"
  shows "db' = db"
proof -
  have "tbl_update (\<lambda>r. ay_date_id r = date) g (ab_assets db) = ab_assets db" for g
    using assms(2) by (intro tbl_update_none) (auto simp: tbl_find_None)
  then show ?thesis using patched(1) [OF assms(1)] by simp
qed

text \<open>A patch that moves neither the state nor the announcement tells nothing.\<close>

lemma patched_same_ok:
  assumes ok: "assets_ok db" and run: "patch_asset date f db = Inr db'"
    and f: "\<And>r. ay_date_id (f r) = ay_date_id r" "\<And>r. ay_state (f r) = ay_state r" "\<And>r. ay_announced_at (f r) = ay_announced_at r"
  shows "assets_ok db'"
proof (cases "tbl_find ay_date_id date (ab_assets db)")
  case None
  with unpatched [OF run] ok show ?thesis by simp
next
  case (Some r)
  show ?thesis
    by (rule patched_ok [OF ok Some refl refl run f(1)])
      (use assets_okD(3) [OF ok Some] in \<open>auto simp: announced_online_def asset_told_of_def f(2,3)\<close>)
qed

lemma lock_waiting_Some:
  assumes "lock_asset_waiting date db = Some a"
  obtains r where "tbl_find ay_date_id date (ab_assets db) = Some r" "a = asset_of r" "at_date_id a = date"
  using assms by (auto simp: lock_asset_waiting_def asset_of_def dest: tbl_find_SomeD)

lemma lock_Some: "lock_asset locked date db = Some a \<Longrightarrow> lock_asset_waiting date db = Some a"
  by (simp add: lock_asset_def split: if_splits)

section \<open>Each transaction\<close>

lemma to_deleting_ok:
  assumes ok: "assets_ok db" and r: "tbl_find ay_date_id date (ab_assets db) = Some r" and run: "to_deleting (asset_of r) now db = Inr db'"
    and withdrawable: "can_be_withdrawn (ay_state r)"
  shows "assets_ok db'"
proof -
  have date: "at_date_id (asset_of r) = date" using tbl_find_SomeD [OF r] by (simp add: asset_of_def)
  let ?db1 = "if owes_expired_event (asset_of r) then write_replay_expired date now db else db"
  have run: "patch_asset date TO_DELETING ?db1 = Inr db'" using run by (simp add: to_deleting_def date split: if_splits)
  note sound = assets_okD(3) [OF ok r]
  show ?thesis
    by (rule patched_ok [OF ok r _ _ run])
      (use sound withdrawable in \<open>auto simp: write_replay_expired_def TO_DELETING_def CALL_DUE_NOW_def announced_online_def asset_told_of_def
         owes_expired_event_def asset_of_def can_be_withdrawn_def\<close>)
qed

lemma request_recording_ok:
  assumes ok: "assets_ok db" and run: "request_recording c ec now x db = Inr (b, db')"
  shows "assets_ok db'"
proof (cases b)
  case False
  with run ok show ?thesis by (auto simp: request_recording_def split: if_splits option.splits)
next
  case True
  with run obtain r where db': "db' = db\<lparr>ab_assets := ab_assets db @ [r]\<rparr>" and r: "ay_date_id r = rr_date_id x"
      "asset_check r" "ay_state r = Asset_Recording" "ay_announced_at r = None"
    and fresh: "\<not> list_ex (\<lambda>a. ay_date_id a = rr_date_id x) (ab_assets db)"
    by (auto simp: request_recording_def asset_check_def split: if_splits option.splits)
  have none: "tbl_find ay_date_id (rr_date_id x) (ab_assets db) = None" using fresh by (auto simp: tbl_find_None list_ex_iff)
  have "asset_sound db' d" for d
  proof (cases "d = rr_date_id x")
    case True
    then show ?thesis using assets_okD(2) [OF ok none] none r
      by (simp add: db' asset_sound_def tbl_find_append announced_online_def asset_told_of_def)
  next
    case False
    have "asset_sound db d" using ok by (simp add: assets_ok_def)
    with False r(1) show ?thesis by (simp add: db' asset_sound_def tbl_find_append split: option.splits)
  qed
  moreover have "assets_keyed db'" using assets_okD(1) [OF ok] fresh r(1)
    by (auto simp: db' assets_keyed_def list_ex_iff)
  ultimately show ?thesis by (simp add: assets_ok_def)
qed

lemma close_recording_ok:
  assumes ok: "assets_ok db" and run: "close_recording locked now date db = Inr (b, db')"
  shows "assets_ok db'"
proof (cases "db' = db")
  case False
  with run obtain a and facts :: run_facts where a: "lock_asset locked date db = Some a" and closes: "closes_with a (rf_ended_at facts)"
    and patch: "patch_asset date (\<lambda>r. CALL_DUE_NOW (r\<lparr>ay_state := Asset_Processing, ay_recorded_until := rf_ended_at facts\<rparr>)) db = Inr db'"
    by (auto simp: close_recording_def bindE_eq_Inr split: option.splits if_splits)
  obtain r where r: "tbl_find ay_date_id date (ab_assets db) = Some r" "a = asset_of r" by (rule lock_waiting_Some [OF lock_Some [OF a]])
  show ?thesis
    by (rule patched_ok [OF ok r(1) refl refl patch])
      (use assets_okD(3) [OF ok r(1)] closes in \<open>auto simp: r(2) closes_with_def asset_of_def CALL_DUE_NOW_def announced_online_def asset_told_of_def\<close>)
qed (use ok in simp)

lemma withdraw_asset_ok:
  assumes ok: "assets_ok db" and run: "withdraw_asset c ec locked now date db = Inr (b, db')"
  shows "assets_ok db'"
proof (cases "db' = db")
  case False
  with run obtain a where a: "lock_asset locked date db = Some a" and move: "to_deleting a now db = Inr db'"
    and "can_be_withdrawn (at_state a)"
    by (auto simp: withdraw_asset_def is_withdrawn_def bindE_eq_Inr split: option.splits if_splits)
  moreover obtain r where r: "tbl_find ay_date_id date (ab_assets db) = Some r" "a = asset_of r" by (rule lock_waiting_Some [OF lock_Some [OF a]])
  ultimately show ?thesis using to_deleting_ok [OF ok r(1)] by (simp add: asset_of_def)
qed (use ok in simp)

lemma expire_asset_ok:
  assumes ok: "assets_ok db" and run: "expire_asset c locked now date db = Inr (b, db')"
  shows "assets_ok db'"
proof (cases "db' = db")
  case False
  with run obtain a where a: "lock_asset locked date db = Some a" and move: "to_deleting a now db = Inr db'"
    and "at_state a = Asset_Online"
    by (auto simp: expire_asset_def is_expired_def bindE_eq_Inr split: option.splits if_splits)
  moreover obtain r where r: "tbl_find ay_date_id date (ab_assets db) = Some r" "a = asset_of r" by (rule lock_waiting_Some [OF lock_Some [OF a]])
  ultimately show ?thesis using to_deleting_ok [OF ok r(1)] by (simp add: asset_of_def can_be_withdrawn_def)
qed (use ok in simp)

lemma claim_each_ok: "claim_each random now as db = Inr (cs, db') \<Longrightarrow> assets_ok db \<Longrightarrow> assets_ok db'"
proof (induction "as" arbitrary: cs db)
  case (Cons a "as")
  show ?case
  proof (cases "call_due a = None")
    case True
    with Cons show ?thesis by simp
  next
    case False
    with Cons.prems(1) obtain t db1 cs1 where patch: "patch_asset (at_date_id a) (\<lambda>r. r\<lparr>ay_call_attempts := at_attempts a + 1,
        ay_call_next_attempt_at := Some t\<rparr>) db = Inr db1" and rest: "claim_each random now as db1 = Inr (cs1, db')"
      by (auto simp: Let_def bindE_eq_Inr)
    have "assets_ok db1" by (rule patched_same_ok [OF Cons.prems(2) patch]) simp_all
    with Cons.IH [OF rest] show ?thesis .
  qed
qed simp

lemma give_up_ok:
  assumes ok: "assets_ok db" and run: "give_up date call now db = Inr (b, db')"
  shows "assets_ok db'"
proof (cases "db' = db")
  case False
  with run obtain a where a: "lock_asset_waiting date db = Some a" and due: "call_due a = Some call"
    and patch: "patch_asset date (\<lambda>r. r\<lparr>ay_state := Asset_Failed, ay_call_dead_at := Some now, ay_call_next_attempt_at := None,
      ay_failed_call := Some call\<rparr>) db = Inr db'"
    by (auto simp: give_up_def bindE_eq_Inr split: option.splits if_splits)
  obtain r where r: "tbl_find ay_date_id date (ab_assets db) = Some r" "a = asset_of r" by (rule lock_waiting_Some [OF a])
  have "ay_state r \<noteq> Asset_Online" using due by (auto simp: r(2) call_due_def asset_of_def)
  then show ?thesis
    by (intro patched_ok [OF ok r(1) refl refl patch])
      (use assets_okD(3) [OF ok r(1)] in \<open>auto simp: announced_online_def asset_told_of_def\<close>)
qed (use ok in simp)

lemma settle_start_ok:
  assumes ok: "assets_ok db" and run: "settle_start (lock_asset_waiting date db) ref db = Inr (x, db')"
  shows "assets_ok db'"
proof (cases "db' = db")
  case False
  with run obtain a :: locked_asset where "patch_asset (at_date_id a) (\<lambda>r. CALL_DUE_NOW (r\<lparr>ay_recording_ref := Some ref\<rparr>)) db = Inr db'"
    by (auto simp: settle_start_def settle_written_def bindE_eq_Inr split: option.splits if_splits sum.splits)
  then show ?thesis by (rule patched_same_ok [OF ok]) (simp_all add: CALL_DUE_NOW_def)
qed (use ok in simp)

lemma settle_written_Inr [simp]: "settle_written r = Inr x \<longleftrightarrow> r = Inr x"
  by (simp add: settle_written_def split: sum.split)

lemma settle_status_ok:
  assumes ok: "assets_ok db" and a: "lock_asset_waiting date db = Some a" and due: "call_due a = Some Call_Status"
    and run: "settle_status c ec a status now db = Inr db'"
  shows "assets_ok db'"
proof -
  obtain r where r: "tbl_find ay_date_id date (ab_assets db) = Some r" "a = asset_of r" "at_date_id a = date"
    by (rule lock_waiting_Some [OF a])
  have state: "ay_state r = Asset_Processing" and silent: "ay_announced_at r = None"
    using due assets_okD(3) [OF ok r(1)]
    by (auto simp: r(2) call_due_def asset_of_def announced_online_def split: asset_state.splits if_splits)
  note sound = assets_okD(3) [OF ok r(1)]
  show ?thesis
  proof (cases "rs_ready status \<and> rs_duration_sec status \<noteq> None")
    case False
    with run have "patch_asset date (\<lambda>r. r\<lparr>ay_call_attempts := 0,
        ay_call_next_attempt_at := Some (now + READINESS_POLL_EVERY_MS)\<rparr>) db = Inr db'"
      by (auto simp: settle_status_def Let_def r(3) split: option.splits if_splits bool.splits)
    then show ?thesis by (rule patched_same_ok [OF ok]) simp_all
  next
    case True
    with run obtain n timing ended where n: "rs_duration_sec status = Some n"
      and timing: "Option.bind (read_date_facts ec date db) df_timing = Some timing"
      and ended: "Option.bind (read_run_facts date (en_stream db)) rf_ended_at = Some ended"
      by (auto simp: settle_status_def r(3) split: option.splits)
    note run = run [unfolded settle_status_def r(3) n timing ended, simplified True, simplified]
    show ?thesis
    proof (cases "readiness_at c now ended timing (Option.bind (read_date_facts ec date db) df_outcome)")
      case Readiness_Withdrawn
      with run have "patch_asset date (\<lambda>r. CALL_DUE_NOW (r\<lparr>ay_state := Asset_Deleting\<rparr>)) db = Inr db'" by simp
      then show ?thesis
        by (rule patched_ok [OF ok r(1) refl refl])
          (use sound silent in \<open>simp_all add: CALL_DUE_NOW_def announced_online_def asset_told_of_def\<close>)
    next
      case (Readiness_Opens from_at to_at)
      from run [unfolded Readiness_Opens, simplified] show ?thesis
        by (rule patched_ok [OF ok r(1), rotated 2])
          (use sound silent in \<open>simp_all add: CALL_DUE_NOW_def announced_online_def asset_told_of_def write_asset_ready_def\<close>)
    qed
  qed
qed

lemma settle_ok:
  assumes ok: "assets_ok db" and run: "settle c ec date result now db = Inr (x, db')"
  shows "assets_ok db'"
proof (cases "\<exists>ref. result = Started ref")
  case True
  with run settle_start_ok [OF ok] show ?thesis by (auto simp: settle_def)
next
  case False
  show ?thesis
  proof (cases "db' = db")
    case moved: False
    from run False obtain a where a: "lock_asset_waiting date db = Some a" and due: "call_due a = Some (call_of result)"
      using moved by (cases result) (auto simp: settle_def split: option.splits if_splits)
    obtain r where r: "tbl_find ay_date_id date (ab_assets db) = Some r" "a = asset_of r" by (rule lock_waiting_Some [OF a])
    show ?thesis
    proof (cases result)
      case (Started ref)
      with False show ?thesis by simp
    next
      case Stopped
      with run a due have "patch_asset date (\<lambda>r. CALL_DUE_NOW (r\<lparr>ay_stopped_at := Some now\<rparr>)) db = Inr db'"
        by (auto simp: settle_def bindE_eq_Inr)
      then show ?thesis by (rule patched_same_ok [OF ok]) (simp_all add: CALL_DUE_NOW_def)
    next
      case (Status_Read status)
      with run a due have "settle_status c ec a status now db = Inr db'" by (auto simp: settle_def bindE_eq_Inr)
      with settle_status_ok [OF ok a] due Status_Read show ?thesis by simp
    next
      case Deletion_Made
      with run a due have patch: "patch_asset date (\<lambda>r. CALL_DUE_NOW (r\<lparr>ay_state := Asset_Deleted, ay_deleted_at := Some now,
          ay_recording_ref := None\<rparr>)) db = Inr db'"
        by (auto simp: settle_def bindE_eq_Inr)
      have "ay_state r = Asset_Deleting"
        using due Deletion_Made by (auto simp: r(2) call_due_def asset_of_def split: asset_state.splits if_splits)
      then show ?thesis
        by (intro patched_ok [OF ok r(1) refl refl patch])
          (use assets_okD(3) [OF ok r(1)] in \<open>auto simp: CALL_DUE_NOW_def announced_online_def asset_told_of_def\<close>)
    qed
  qed (use ok in simp)
qed

section \<open>The asset's transactions\<close>

text \<open>
  Every transaction on the table of assets, and those of the rest of streaming, which leave the assets
  and tell nothing of a replay.
\<close>

inductive asset_move :: "replay_asset_core \<Rightarrow> entitlement_core \<Rightarrow> asset_db \<Rightarrow> asset_db \<Rightarrow> bool" for c ec where
  requested: "request_recording c ec now r db = Inr (b, db') \<Longrightarrow> asset_move c ec db db'"
| closed_with_run: "close_recording locked now date db = Inr (b, db') \<Longrightarrow> asset_move c ec db db'"
| withdrawn: "withdraw_asset c ec locked now date db = Inr (b, db') \<Longrightarrow> asset_move c ec db db'"
| expired: "expire_asset c locked now date db = Inr (b, db') \<Longrightarrow> asset_move c ec db db'"
| given_up: "give_up date call now db = Inr (b, db') \<Longrightarrow> asset_move c ec db db'"
| elsewhere: "ab_assets db' = ab_assets db \<Longrightarrow> ab_orphans db' = ab_orphans db \<Longrightarrow>
    filter replay_row (sd_outbox (en_stream db')) = filter replay_row (sd_outbox (en_stream db)) \<Longrightarrow> asset_move c ec db db'"

inductive asset_step :: "replay_asset_core \<Rightarrow> entitlement_core \<Rightarrow> asset_db \<Rightarrow> asset_db \<Rightarrow> bool" for c ec where
  moved: "asset_move c ec db db' \<Longrightarrow> asset_step c ec db db'"
| claimed: "claim_calls random locked now batch db = Inr (cs, db') \<Longrightarrow> asset_step c ec db db'"
| settled: "settle c ec date result now db = Inr (orphan, db') \<Longrightarrow> asset_step c ec db db'"
| orphan_recorded: "asset_step c ec db (record_orphan fails date ref db)"

text \<open>The run desk is such a rest: its commands tell nothing of a replay.\<close>

lemma run_events_elsewhere: "filter replay_row (sd_outbox (record_run_events events tp db)) = filter replay_row (sd_outbox db)"
proof -
  have "\<not> replay_row x" if "run_outbox_row tp e = Some x" for e x
    using that by (cases e) (auto simp: run_outbox_row_def replay_row_def)
  then have "filter replay_row (List.map_filter (run_outbox_row tp) events) = []"
    by (auto simp: filter_empty_conv map_filter_def)
  then show ?thesis by (simp add: record_run_events_def)
qed

lemma told_filtered:
  "asset_told date db = map sx_type (filter (\<lambda>x. sx_key x = date) (filter replay_row (sd_outbox (en_stream db))))"
  by (simp add: asset_told_def conj_commute)

lemma elsewhere_ok:
  assumes "assets_ok db" and "ab_assets db' = ab_assets db"
    and "filter replay_row (sd_outbox (en_stream db')) = filter replay_row (sd_outbox (en_stream db))"
  shows "assets_ok db'"
proof -
  have "asset_told date db' = asset_told date db" for date unfolding told_filtered assms(3) ..
  then have "asset_sound db' date = asset_sound db date" for date by (simp only: asset_sound_def assms(2))
  with assms(1) show ?thesis by (simp add: assets_ok_def assets_keyed_def assms(2))
qed

lemma asset_move_ok: "asset_move c ec db db' \<Longrightarrow> assets_ok db \<Longrightarrow> assets_ok db'"
proof (induction rule: asset_move.induct)
  case (elsewhere db' db)
  show ?case by (rule elsewhere_ok [OF elsewhere(4) elsewhere(1,3)])
qed (blast intro: request_recording_ok close_recording_ok withdraw_asset_ok expire_asset_ok give_up_ok)+

lemma record_orphan_tables [simp]: "ab_assets (record_orphan fails date ref db) = ab_assets db"
  "en_stream (record_orphan fails date ref db) = en_stream db"
  by (simp_all add: record_orphan_def)

lemma asset_step_ok: "asset_step c ec db db' \<Longrightarrow> assets_ok db \<Longrightarrow> assets_ok db'"
proof (induction rule: asset_step.induct)
  case (claimed random locked now batch db cs db')
  then show ?case unfolding claim_calls_def by (blast intro: claim_each_ok)
next
  case (orphan_recorded db fails date ref)
  then show ?case by (rule elsewhere_ok) simp_all
qed (blast intro: asset_move_ok settle_ok)+

text \<open>No asset yet, whatever the runs and the dates.\<close>

definition unrecorded :: "asset_db \<Rightarrow> bool" where
  "unrecorded db \<longleftrightarrow> ab_assets db = [] \<and> ab_orphans db = [] \<and> filter replay_row (sd_outbox (en_stream db)) = []"

interpretation assets: invariant_system unrecorded "asset_step c ec" assets_ok for c ec
proof unfold_locales
  fix db assume none: "unrecorded db"
  then have "asset_told date db = []" for date unfolding told_filtered unrecorded_def by simp
  with none show "assets_ok db" by (simp add: unrecorded_def assets_ok_def assets_keyed_def asset_sound_def)
qed (rule asset_step_ok)

text \<open>
  Property C21. The topic tells a replay as the table has it: in every state the passes and the calls reach, in any
  interleaving, a date was told ready exactly when its asset went online, told expired exactly when it was told
  ready and is online no more, each once and in that order; and its row meets the table's checks.
\<close>

theorem replay_told_as_kept:
  assumes "unrecorded db0" and "(asset_step c ec)\<^sup>*\<^sup>* db0 db"
  shows "case tbl_find ay_date_id date (ab_assets db) of
      None \<Rightarrow> asset_told date db = []
    | Some r \<Rightarrow> asset_check r \<and> asset_told date db =
        (if ay_announced_at r = None then []
         else if ay_state r = Asset_Online then [Type_Replay_Asset_Ready] else [Type_Replay_Asset_Ready, Type_Replay_Expired])"
proof -
  have "asset_sound db date" using assets.reachable_inv [OF assms] by (simp add: assets_ok_def)
  then show ?thesis by (simp add: asset_sound_def asset_told_of_def split: option.splits)
qed

section \<open>A recording started\<close>

lemma deleted_by_attempts: "delete_attempts pr n ref p = (True, p') \<Longrightarrow> \<exists>q. vp_delete pr ref q = (Answered (), p')"
  by (induction n arbitrary: p) (auto split: prod.splits provider_answer.splits)

definition no_orphan_left :: "'p recording_provider \<Rightarrow> string \<Rightarrow> bool \<Rightarrow> asset_db \<Rightarrow> 'p \<Rightarrow> bool" where
  "no_orphan_left pr ref fails db p \<longleftrightarrow>
     (\<exists>q. vp_delete pr ref q = (Answered (), p)) \<or> ref \<in> oc_recording_ref ` set (ab_orphans db) \<or> fails"

lemma orphan_dealt_with:
  assumes "delete_orphan pr fails date ref (db, p) = (db', p')"
  shows "no_orphan_left pr ref fails db' p'"
proof -
  have "ref \<in> oc_recording_ref ` set (ab_orphans (record_orphan fails date ref db)) \<or> fails"
    by (auto simp: record_orphan_def list_ex_iff image_iff)
  with assms show ?thesis
    by (auto simp: delete_orphan_def no_orphan_left_def dest: deleted_by_attempts split: prod.splits bool.splits)
qed

lemma give_up_orphans: "give_up date call now db = Inr (b, db') \<Longrightarrow> ab_orphans db' = ab_orphans db"
  by (auto simp: give_up_def bindE_eq_Inr dest!: patched(1) split: option.splits if_splits)

lemma no_orphan_given_up:
  assumes "give_up date call now db = Inr (b, db')" and "no_orphan_left pr ref fails db p"
  shows "no_orphan_left pr ref fails db' p"
  using assms by (simp add: no_orphan_left_def give_up_orphans)

lemma start_kept:
  assumes "settle c ec date (Started ref) now db = Inr (None, db')"
  shows "\<exists>r \<in> set (ab_assets db'). ay_date_id r = date \<and> ay_recording_ref r = Some ref"
proof -
  from assms obtain a where a: "lock_asset_waiting date db = Some a"
    and patch: "patch_asset (at_date_id a) (\<lambda>r. CALL_DUE_NOW (r\<lparr>ay_recording_ref := Some ref\<rparr>)) db = Inr db'"
    by (auto simp: settle_def settle_start_def bindE_eq_Inr split: option.splits if_splits)
  from a obtain r where r: "tbl_find ay_date_id date (ab_assets db) = Some r" "at_date_id a = date" by (rule lock_waiting_Some)
  have "tbl_find ay_date_id date (ab_assets db') = Some ((CALL_DUE_NOW (r\<lparr>ay_recording_ref := Some ref\<rparr>))\<lparr>ay_version := ay_version r + 1\<rparr>)"
    by (subst patched_find [OF patch]) (simp_all add: r CALL_DUE_NOW_def)
  then show ?thesis by (auto dest!: tbl_find_SomeD simp: CALL_DUE_NOW_def)
qed

lemma started_orphan: "settle c ec date (Started ref) now db = Inr (Some orphan, db') \<Longrightarrow> orphan = ref"
  by (auto simp: settle_def settle_start_def bindE_eq_Inr split: option.splits if_splits)

lemma started_never_refused: "settle c ec date (Started ref) now db \<noteq> Inl Call_Refused"
  by (auto simp: settle_def settle_start_def bindE_def settle_written_def split: option.splits if_splits sum.splits)

lemma start_answered:
  assumes due: "call_due a = Some Call_Start" and facts: "read_run_facts (at_date_id a) (en_stream db) = Some rn"
    and answer: "vp_start pr (rf_stream_path rn) p = (Answered ref, p1)"
    and run: "attempt_call c ec pr x a attempt (db, p) = (failed, db', p')"
  shows "(\<exists>r \<in> set (ab_assets db'). ay_date_id r = at_date_id a \<and> ay_recording_ref r = Some ref) \<and> p' = p1 \<or>
    no_orphan_left pr ref (cc_orphan_fails x) db' p'"
proof -
  have invoked: "invoke pr Call_Start a db p = (Inr (Started ref), None, p1)" by (simp add: invoke_def facts answer)
  note run = run [unfolded attempt_call_def due Let_def, simplified, unfolded invoked, simplified]
  show ?thesis
  proof (cases "if cc_settle_fails x then Inl Call_Error else settle c ec (at_date_id a) (Started ref) (cc_settled_at x) db")
    case (Inl f)
    then have "f = Call_Error" using started_never_refused [of c ec "at_date_id a" ref "cc_settled_at x" db]
      by (cases f) (auto split: if_splits)
    with run Inl show ?thesis by (auto intro: orphan_dealt_with)
  next
    case (Inr y)
    then obtain orphan db1 where y: "y = (orphan, db1)" and settled: "settle c ec (at_date_id a) (Started ref) (cc_settled_at x) db = Inr (orphan, db1)"
      by (cases y) (auto split: if_splits)
    show ?thesis
    proof (cases orphan)
      case None
      with run Inr y start_kept [OF settled [unfolded None]] show ?thesis by auto
    next
      case (Some o')
      with run Inr y started_orphan [OF settled [unfolded Some]] show ?thesis by (auto intro: orphan_dealt_with)
    qed
  qed
qed

lemma start_late:
  assumes due: "call_due a = Some Call_Start" and facts: "read_run_facts (at_date_id a) (en_stream db) = Some rn"
    and answer: "vp_start pr (rf_stream_path rn) p = (Timed_Out (Some ref), p1)"
    and run: "attempt_call c ec pr x a attempt (db, p) = (failed, db', p')"
  shows "no_orphan_left pr ref (cc_orphan_fails x) db' p'"
proof -
  have invoked: "invoke pr Call_Start a db p = (Inl Call_Error, Some ref, p1)" by (simp add: invoke_def facts answer)
  note run = run [unfolded attempt_call_def due Let_def, simplified, unfolded invoked, simplified]
  obtain db1 p2 where deleted: "delete_orphan pr (cc_orphan_fails x) (at_date_id a) ref (db, p1) = (db1, p2)" by fastforce
  show ?thesis using run orphan_dealt_with [OF deleted]
    by (auto simp: deleted split: if_splits sum.splits intro: no_orphan_given_up)
qed

text \<open>
  Property C22. No recording is started and forgotten: whatever the provider answers of a start, in time or late, and
  whatever happened to the asset meanwhile, the attempt ends with the asset's row keeping the reference, or with the
  provider having deleted that recording, or with the reference in the table of orphans, unless that last insert
  itself fails, which is only logged.
\<close>

theorem started_recording_accounted_for:
  assumes "call_due a = Some Call_Start" and "read_run_facts (at_date_id a) (en_stream db) = Some rn"
    and "vp_start pr (rf_stream_path rn) p = (answer, p1)" and "answer \<in> {Answered ref, Timed_Out (Some ref)}"
    and "attempt_call c ec pr x a attempt (db, p) = (failed, db', p')"
  shows "(\<exists>r \<in> set (ab_assets db'). ay_date_id r = at_date_id a \<and> ay_recording_ref r = Some ref) \<and> p' = p1 \<or>
    (\<exists>q. vp_delete pr ref q = (Answered (), p')) \<or> ref \<in> oc_recording_ref ` set (ab_orphans db') \<or> cc_orphan_fails x"
proof (cases "answer = Answered ref")
  case True
  from start_answered [OF assms(1,2) assms(3) [unfolded True] assms(5)] show ?thesis unfolding no_orphan_left_def by blast
next
  case False
  with assms(4) have "answer = Timed_Out (Some ref)" by simp
  from start_late [OF assms(1,2) assms(3) [unfolded this] assms(5)] show ?thesis unfolding no_orphan_left_def by blast
qed

section \<open>A replay recorded and expired\<close>

lemma recording_delays_eq [code]:
  "RECORDING_RETRY_DELAYS_MS = [5000, 10000, 20000, 40000, 80000, 160000] @ replicate 11 300000"
  unfolding RECORDING_RETRY_DELAYS_MS_def doubling_delays_def HOUR_MS_def
  by (simp add: doubling_from.simps eval_nat_numeral)

definition sample_asset_core :: replay_asset_core where
  "sample_asset_core = \<lparr>has_replay_policy = (\<lambda>t. dt_replay_policy t \<noteq> Policy_None),
     withdraws_replay = (\<lambda>x. x = Some Outcome_Cancelled), replay_window_closes_at = (\<lambda>t hours. t + hours * 3600000),
     falls_after = (\<lambda>a b. b < a)\<rparr>"

definition sample_dates_core :: entitlement_core where
  "sample_dates_core = \<lparr>plan_openings_of = (\<lambda>s _. so_opens s), concurrent_streams_allowed_for = (\<lambda>_ seats. max 1 seats),
     entitlement_room_opens_minutes_before = 30\<rparr>"

definition sample_live_run :: run_row where
  "sample_live_run = \<lparr>rr_id = ''r'', rr_date_id = ''d'', rr_channel_id = ''ch'', rr_state = Run_On_Air, rr_stream_path = ''p'',
     rr_ingest_protocol = Rtmps, rr_monitor_path = Ll_Hls, rr_technical_check_passed_at = Some 1, rr_started_at = Some 10,
     rr_ended_at = None, rr_publisher_online_since = Some 5, rr_publisher_lost_at = None, rr_after_grace_period = False,
     rr_version = 3\<rparr>"

definition sample_recorded_date :: entitlement_date_row where
  "sample_recorded_date = \<lparr>eo_date_id = ''d'', eo_channel_id = Some ''ch'', eo_starts_at = Some 10, eo_runtime_min = Some 60,
     eo_timing_occurred_at = Some 1, eo_replay_policy = Some (Known_Member Policy_Included), eo_replay_window_hours = Some 1,
     eo_replay_occurred_at = Some 1, eo_rights_scope = None, eo_blackout_countries = None, eo_blackout_reason = None,
     eo_rights_occurred_at = None, eo_publication_state = None, eo_publication_version = None, eo_outcome = None,
     eo_outcome_declared_at = None, eo_applied_at = 1\<rparr>"

definition sample_live_db :: asset_db where
  "sample_live_db = \<lparr>en_stream = \<lparr>sd_runs = [sample_live_run], sd_incidents = [], sd_keys = [], sd_outbox = [], sd_processed = []\<rparr>,
     en_seats = [], en_dates = [sample_recorded_date], en_subscriptions = [], ab_assets = [], ab_orphans = []\<rparr>"

text \<open>The run ends and, in another history, the date is cancelled: steps of the rest of streaming.\<close>

definition sample_run_ends :: "asset_db \<Rightarrow> asset_db" where
  "sample_run_ends db = db\<lparr>en_stream := (en_stream db)\<lparr>sd_runs := [sample_live_run\<lparr>rr_state := Run_State_Ended, rr_ended_at := Some 50\<rparr>]\<rparr>\<rparr>"

definition sample_date_cancelled :: "asset_db \<Rightarrow> asset_db" where
  "sample_date_cancelled db = db\<lparr>en_dates := [sample_recorded_date\<lparr>eo_outcome := Some (Known_Member Outcome_Cancelled)\<rparr>]\<rparr>"

definition tables_left :: "'e + 'a \<times> asset_db \<Rightarrow> unit + asset_db" where
  "tables_left r = (case r of Inl _ \<Rightarrow> Inl () | Inr (_, db) \<Rightarrow> Inr db)"

lemma tables_left_Inr [simp]: "tables_left r = Inr db \<longleftrightarrow> (\<exists>x. r = Inr (x, db))"
  by (auto simp: tables_left_def split: sum.splits)

definition sample_asset_steps :: "(asset_db \<Rightarrow> unit + asset_db) list" where
  "sample_asset_steps =
     [\<lambda>db. tables_left (request_recording sample_asset_core sample_dates_core 20 sample_live_run db),
      \<lambda>db. tables_left (claim_calls (\<lambda>_. 0) (\<lambda>_. False) 21 RECORDING_CALLS_BATCH db),
      \<lambda>db. tables_left (settle sample_asset_core sample_dates_core ''d'' (Started ''rec'') 22 db),
      \<lambda>db. Inr (sample_run_ends db),
      \<lambda>db. tables_left (close_recording (\<lambda>_. False) 51 ''d'' db),
      \<lambda>db. tables_left (settle sample_asset_core sample_dates_core ''d'' Stopped 52 db),
      \<lambda>db. tables_left (settle sample_asset_core sample_dates_core ''d'' (Status_Read \<lparr>rs_ready = True, rs_duration_sec = Some 40\<rparr>) 60 db),
      \<lambda>db. tables_left (expire_asset sample_asset_core (\<lambda>_. False) 3700000 ''d'' db)]"

lemma sample_asset_step:
  assumes "f \<in> set sample_asset_steps" and "f db = Inr db'"
  shows "asset_step sample_asset_core sample_dates_core db db'"
proof -
  have ends: "asset_move sample_asset_core sample_dates_core x (sample_run_ends x)" for x
    by (rule asset_move.elsewhere) (simp_all add: sample_run_ends_def)
  show ?thesis using assms
    by (auto simp: sample_asset_steps_def intro: asset_step.claimed asset_step.settled asset_step.moved [OF ends]
        asset_step.moved [OF asset_move.requested] asset_step.moved [OF asset_move.closed_with_run]
        asset_step.moved [OF asset_move.expired])
qed

lemma sample_asset_run:
  "case foldE (\<lambda>f. f) sample_asset_steps sample_live_db of Inl _ \<Rightarrow> False
   | Inr db \<Rightarrow> map_option (\<lambda>r. (ay_state r, ay_announced_at r)) (tbl_find ay_date_id ''d'' (ab_assets db)) = Some (Asset_Deleting, Some 60)"
  by code_simp

theorem replay_told_as_kept_witness:
  "\<exists>db. (asset_step sample_asset_core sample_dates_core)\<^sup>*\<^sup>* sample_live_db db \<and>
     asset_told ''d'' db = [Type_Replay_Asset_Ready, Type_Replay_Expired]"
proof -
  obtain db r where run: "foldE (\<lambda>f. f) sample_asset_steps sample_live_db = Inr db"
    and r: "tbl_find ay_date_id ''d'' (ab_assets db) = Some r" "ay_state r = Asset_Deleting" "ay_announced_at r = Some 60"
    using sample_asset_run by (auto split: sum.splits)
  have steps: "(asset_step sample_asset_core sample_dates_core)\<^sup>*\<^sup>* sample_live_db db"
    by (rule foldE_invariant [OF run]) (auto intro: rtranclp.rtrancl_into_rtrancl sample_asset_step)
  have none: "unrecorded sample_live_db" by (simp add: unrecorded_def sample_live_db_def)
  show ?thesis using steps replay_told_as_kept [OF none steps, of "''d''"] r by auto
qed

section \<open>A deletion overtaken\<close>

text \<open>
  A provider that keeps a list of recordings. The date is cancelled while one replica's start is in flight; a
  second claims the deletion, when the asset has no reference yet; the start is kept, a third stops the recording;
  the second then makes the deletion it claimed: without a reference it calls nobody, and the row, whose due call is
  a deletion again, is settled deleted. The provider keeps a recording that neither the row nor an orphan names.
\<close>

definition list_provider :: "string list recording_provider" where
  "list_provider = \<lparr>vp_start = (\<lambda>path p. (Answered path, p @ [path])), vp_stop = (\<lambda>_ p. (Answered (), p)),
     vp_status = (\<lambda>ref p. (if List.member p ref then Answered \<lparr>rs_ready = True, rs_duration_sec = Some 1\<rparr> else Not_Held, p)),
     vp_delete = (\<lambda>ref p. if List.member p ref then (Answered (), removeAll ref p) else (Not_Held, p))\<rparr>"

definition sample_circumstances :: "instant \<Rightarrow> call_circumstances" where
  "sample_circumstances now = \<lparr>cc_settled_at = now, cc_given_up_at = now, cc_settle_fails = False, cc_orphan_fails = False\<rparr>"

definition claimed_by :: "instant \<Rightarrow> asset_db \<Rightarrow> (locked_asset \<times> int) list \<times> asset_db" where
  "claimed_by now db = (case claim_calls (\<lambda>_. 0) (\<lambda>_. False) now RECORDING_CALLS_BATCH db of Inl _ \<Rightarrow> ([], db) | Inr x \<Rightarrow> x)"

definition attempted_at :: "instant \<Rightarrow> (locked_asset \<times> int) list \<Rightarrow> asset_db \<times> string list \<Rightarrow> asset_db \<times> string list" where
  "attempted_at now claimed x =
     snd (attempt_each sample_asset_core sample_dates_core list_provider (\<lambda>_. sample_circumstances now) claimed x)"

definition overtaken_deletion :: "asset_db \<times> string list" where
  "overtaken_deletion =
     (case request_recording sample_asset_core sample_dates_core 20 sample_live_run sample_live_db of
        Inl _ \<Rightarrow> (sample_live_db, [])
      | Inr (_, db1) \<Rightarrow>
          let (starts, db2) = claimed_by 21 db1;
              db3 = (case withdraw_asset sample_asset_core sample_dates_core (\<lambda>_. False) 22 ''d'' (sample_date_cancelled db2) of
                Inl _ \<Rightarrow> db2 | Inr (_, db) \<Rightarrow> db);
              (deletions, db4) = claimed_by 23 db3;
              (db5, held) = attempted_at 24 starts (db4, []);
              (stops, db6) = claimed_by 25 db5
          in attempted_at 27 deletions (attempted_at 26 stops (db6, held)))"

lemma overtaken_deletion_leaves_recording:
  "snd overtaken_deletion = [''p''] \<and> ab_orphans (fst overtaken_deletion) = [] \<and>
     map (\<lambda>r. (ay_state r, ay_recording_ref r)) (ab_assets (fst overtaken_deletion)) = [(Asset_Deleted, None)]"
  by code_simp

section \<open>A start its asset moved on from\<close>

text \<open>The date is cancelled while the start is in flight, and the asset, with no reference, is deleted before it answers.\<close>

definition start_in_flight :: "((locked_asset \<times> int) list \<times> asset_db) option" where
  "start_in_flight =
     (case request_recording sample_asset_core sample_dates_core 20 sample_live_run sample_live_db of
        Inl _ \<Rightarrow> None
      | Inr (_, db1) \<Rightarrow>
          let (starts, db2) = claimed_by 21 db1;
              db3 = (case withdraw_asset sample_asset_core sample_dates_core (\<lambda>_. False) 22 ''d'' (sample_date_cancelled db2) of
                Inl _ \<Rightarrow> db2 | Inr (_, db) \<Rightarrow> db);
              (deletions, db4) = claimed_by 23 db3
          in Some (starts, fst (attempted_at 24 deletions (db4, []))))"

lemma start_in_flight_moved_on:
  "case start_in_flight of None \<Rightarrow> False
   | Some (starts, db) \<Rightarrow>
       (case hd starts of (a, attempt) \<Rightarrow> call_due a = Some Call_Start \<and> at_date_id a = ''d'' \<and>
            map_option rf_stream_path (read_run_facts ''d'' (en_stream db)) = Some ''p'' \<and>
            attempt_call sample_asset_core sample_dates_core list_provider (sample_circumstances 25) a attempt (db, []) = (None, db, []) \<and>
            map ay_state (ab_assets db) = [Asset_Deleted] \<and> map ay_recording_ref (ab_assets db) = [None] \<and> ab_orphans db = [])"
  by code_simp

theorem started_recording_accounted_for_witness:
  "\<exists>a attempt db. call_due a = Some Call_Start \<and> map ay_recording_ref (ab_assets db) = [None] \<and> ab_orphans db = [] \<and>
     attempt_call sample_asset_core sample_dates_core list_provider (sample_circumstances 25) a attempt (db, []) = (None, db, []) \<and>
     (\<exists>q. vp_delete list_provider ''p'' q = (Answered (), []))"
proof -
  obtain starts db where flight: "start_in_flight = Some (starts, db)" using start_in_flight_moved_on by (cases start_in_flight) auto
  obtain a attempt where a: "call_due a = Some Call_Start" "at_date_id a = ''d''"
    and path: "map_option rf_stream_path (read_run_facts ''d'' (en_stream db)) = Some ''p''"
    and run: "attempt_call sample_asset_core sample_dates_core list_provider (sample_circumstances 25) a attempt (db, []) = (None, db, [])"
    and left: "map ay_recording_ref (ab_assets db) = [None]" "ab_orphans db = []"
    using start_in_flight_moved_on unfolding flight by (cases "hd starts") (auto simp del: map_eq_Cons_conv)
  from path obtain rn where rn: "read_run_facts (at_date_id a) (en_stream db) = Some rn" "rf_stream_path rn = ''p''" by (auto simp: a(2))
  have start: "vp_start list_provider (rf_stream_path rn) [] = (Answered ''p'', [''p''])" by (simp add: list_provider_def rn(2))
  have "\<exists>q. vp_delete list_provider ''p'' q = (Answered (), [])"
    using started_recording_accounted_for [OF a(1) rn(1) start _ run, of "''p''"] left by (auto simp: sample_circumstances_def)
  then show ?thesis
    by (intro exI [of _ a] exI [of _ attempt] exI [of _ db] conjI a(1) left run)
qed

end
