(* ===== verification/Identity_Db.thy ===== *)
theory Identity_Db
  imports Idempotency Stream_Core
begin

text \<open>
  The data of \<open>apps/identity\<close>: its tables (\<open>migrations/1758700000000-initial.ts\<close>,
  \<open>1790500000000-storefront-session.ts\<close>, \<open>1791800000000-profiles-and-devices.ts\<close>), its outbox rows
  (\<open>devices/device-events.ts\<close>, \<open>auth/*.service.ts\<close>), and what it takes from elsewhere: digests, the
  comparison of \<open>citext\<close>, and better-auth, a package whose store is a value of any type that only its own
  functions read or write. Of that store identity's SQL reads the table of sessions, which is one of them.
\<close>

section \<open>Vocabulary\<close>

datatype account_status = Account_Active | Account_Deletion_Requested | Account_Suspended

datatype device_kind =
    Kind_Tv | Kind_Mobile | Kind_Tablet | Kind_Desktop | Kind_Stick | Kind_Console | Kind_Box

datatype profile_kind = Profile_Adult | Profile_Child

text \<open>The statuses whose credential still opens a session.\<close>

definition SIGNING_IN_STATUSES :: "account_status list" where
  "SIGNING_IN_STATUSES = [Account_Active, Account_Deletion_Requested]"

section \<open>better-auth\<close>

record auth_session =
  as_id :: string
  as_token :: string
  as_user_id :: ident
  as_expires_at :: instant

datatype auth_error = Auth_Unauthorized | Auth_User_Already_Exists | Auth_Failed string

text \<open>
  The calls identity makes. \<open>ba_session\<close> reads a session by the signed token a surface carries and slides
  it forward, so it may write; a sign-in or a sign-up answers the user's id and the token header, when set.
\<close>

record 's auth_api =
  ba_session :: "instant \<Rightarrow> string \<Rightarrow> 's \<Rightarrow> auth_session option \<times> 's"
  ba_sign_in :: "instant \<Rightarrow> string \<Rightarrow> string \<Rightarrow> 's \<Rightarrow> (auth_error + ident \<times> string option) \<times> 's"
  ba_sign_up :: "instant \<Rightarrow> ident \<Rightarrow> string \<Rightarrow> string \<Rightarrow> string \<Rightarrow> 's \<Rightarrow> (auth_error + ident \<times> string option) \<times> 's"
  ba_user_by_email :: "string \<Rightarrow> 's \<Rightarrow> ident option"
  ba_has_user :: "ident \<Rightarrow> 's \<Rightarrow> bool"
  ba_sessions_of :: "ident \<Rightarrow> 's \<Rightarrow> auth_session list"
  ba_create_session :: "instant \<Rightarrow> ident \<Rightarrow> 's \<Rightarrow> auth_session \<times> 's"
  ba_delete_sessions :: "string list \<Rightarrow> 's \<Rightarrow> 's"
  ba_delete_user :: "ident \<Rightarrow> 's \<Rightarrow> 's"
  ba_credential :: "ident \<Rightarrow> 's \<Rightarrow> string option"
  ba_update_password :: "ident \<Rightarrow> string \<Rightarrow> 's \<Rightarrow> 's"
  ba_table :: "'s \<Rightarrow> auth_session list"

text \<open>A token names one session for ever: better-auth draws it with the session and never gives it to another.\<close>

definition tokens_name_sessions :: "'s auth_api \<Rightarrow> (string \<Rightarrow> string) \<Rightarrow> bool" where
  "tokens_name_sessions b name \<longleftrightarrow> (\<forall>now token st x st'. ba_session b now token st = (Some x, st') \<longrightarrow> as_id x = name token)"

text \<open>The rest of the environment: digests, the fold of case \<open>citext\<close> compares under, the handles core generates.\<close>

record identity_env =
  sha256 :: "string \<Rightarrow> string"
  session_mac :: "string \<Rightarrow> string"
  argon2_hash :: "string \<Rightarrow> string"
  argon2_needs_rehash :: "string \<Rightarrow> bool"
  nfkc :: "string \<Rightarrow> string"
  citext :: "string \<Rightarrow> string"
  generated_public_handle :: "string \<Rightarrow> string"
  device_token_lifetime_seconds :: int
  verification_link_lifetime_hours :: int

definition hash_password :: "identity_env \<Rightarrow> string \<Rightarrow> string" where
  "hash_password e password = argon2_hash e (nfkc e password)"

definition is_outdated :: "identity_env \<Rightarrow> string \<Rightarrow> bool" where
  "is_outdated e digest = argon2_needs_rehash e digest"

text \<open>The raw token and its MAC.\<close>

definition signed_token :: "identity_env \<Rightarrow> string \<Rightarrow> string" where
  "signed_token e raw_token = raw_token @ ''.'' @ session_mac e raw_token"

definition digest_of :: "identity_env \<Rightarrow> string \<Rightarrow> string" where
  "digest_of e token = sha256 e token"

section \<open>Tables\<close>

record account_row =
  ac_id :: ident
  ac_public_handle :: string
  ac_email :: string
  ac_locale :: string
  ac_country :: string
  ac_status :: account_status
  ac_email_verified_at :: "instant option"
  ac_terms_version :: "int option"
  ac_terms_accepted_at :: "instant option"

record email_verification_row =
  ev_token_hash :: string
  ev_account_id :: ident
  ev_email :: string
  ev_expires_at :: instant
  ev_used_at :: "instant option"

record profile_row =
  pf_id :: ident
  pf_account_id :: ident
  pf_name :: string
  pf_kind :: profile_kind
  pf_is_default :: bool

record device_row =
  dv_id :: ident
  dv_token_hash :: string
  dv_token_expires_at :: instant
  dv_kind :: device_kind
  dv_label :: string
  dv_last_seen_at :: instant
  dv_revoked_at :: "instant option"

record device_session_row =
  dn_id :: ident
  dn_device_id :: ident
  dn_account_id :: ident
  dn_profile_id :: ident
  dn_auth_session_id :: string
  dn_opened_at :: instant
  dn_closed_at :: "instant option"

text \<open>JavaScript's white space and Postgres's \<open>\s\<close>, among the characters of one byte.\<close>

definition is_space :: "char \<Rightarrow> bool" where
  "is_space c \<longleftrightarrow> (of_char c :: nat) \<in> {9, 10, 11, 12, 13, 32}"

definition profile_check :: "profile_row \<Rightarrow> bool" where
  "profile_check p \<longleftrightarrow> length (pf_name p) \<le> 80 \<and> list_ex (\<lambda>c. \<not> is_space c) (pf_name p)"

definition device_check :: "device_row \<Rightarrow> bool" where
  "device_check d \<longleftrightarrow> 1 \<le> length (dv_label d) \<and> length (dv_label d) \<le> 80"

section \<open>The outbox\<close>

text \<open>\<open>None\<close> for a surface the vocabulary does not know.\<close>

record event_actor =
  ea_account_id :: ident
  ea_surface :: "surface option"

datatype identity_message =
    Account_Registered ident instant string string
  | Email_Verification_Requested ident instant string string string instant
  | Device_Revoked ident ident device_kind instant event_actor
  | Device_Session_Closed ident ident ident instant bool event_actor

record identity_outbox_row =
  io_aggregate_type :: string
  io_aggregate_id :: string
  io_type :: string
  io_payload :: identity_message
  io_tracecontext :: "string option"
  io_actor_id :: "ident option"
  io_created_at :: instant

section \<open>The database\<close>

record profile_summary =
  sy_id :: ident
  sy_name :: string
  sy_kind :: profile_kind

text \<open>What the idempotency record keeps of a session: its ids, never its token.\<close>

record resolved_session =
  rv_account_id :: ident
  rv_device_id :: ident
  rv_device_session_id :: ident
  rv_expires_at :: instant
  rv_profile :: profile_summary

record stored_session = resolved_session +
  ss_auth_session_id :: string

record viewer_account =
  va_public_handle :: string
  va_email_verified :: bool

datatype identity_answer =
    Sign_Up_Record stored_session viewer_account
  | Link_Queued bool
  | Address_Verified
  | Device_Revoked_Answer
  | Session_Closed_Answer

record identity_db =
  id_accounts :: "account_row list"
  id_links :: "email_verification_row list"
  id_profiles :: "profile_row list"
  id_devices :: "device_row list"
  id_bindings :: "device_session_row list"
  id_outbox :: "identity_outbox_row list"
  id_records :: "identity_answer idempotency_record list"

definition write_identity_event :: "identity_outbox_row \<Rightarrow> identity_db \<Rightarrow> identity_db" where
  "write_identity_event row db = db\<lparr>id_outbox := id_outbox db @ [row]\<rparr>"

text \<open>
  A command of a request under its key: the record is claimed, completed and committed with the command's rows.
  The instants and whether the claim waited too long are those of the call.
\<close>

record call =
  ca_now :: instant
  ca_wall :: instant
  ca_lock_timeout :: bool

definition under_key ::
    "call \<Rightarrow> idempotent_request \<Rightarrow> (identity_db \<Rightarrow> (identity_answer \<times> identity_db) result) \<Rightarrow> identity_db \<Rightarrow>
     (identity_answer memorised_response \<times> identity_db) result" where
  "under_key k q command db =
     bindE (run_idempotently (ca_lock_timeout k) (ca_wall k) q (ca_now k) command (id_records db, db))
       (\<lambda>(answer, records, db'). Inr (answer, db'\<lparr>id_records := records\<rparr>))"

end
