(* ===== verification/Identity_Devices.thy ===== *)
theory Identity_Devices
  imports Identity_Db
begin

text \<open>
  The registered devices and their bindings (\<open>devices/devices.service.ts\<close>), with the events told of them
  (\<open>devices/device-events.ts\<close>) and the default profile (\<open>profiles/default-profile.ts\<close>), each in its
  caller's transaction. Tokens and ids are drawn by the caller.
\<close>

section \<open>Events\<close>

record device_act =
  ad_account_id :: ident
  ad_from_device_id :: "ident option"
  ad_surface :: "surface option"
  ad_traceparent :: "string option"

record closed_binding =
  cb_device_session_id :: ident
  cb_device_id :: ident
  cb_account_id :: ident
  cb_profile_id :: ident
  cb_auth_session_id :: string

definition DEVICE_AGGREGATE :: string where
  "DEVICE_AGGREGATE = ''identity.device''"

definition actor_of :: "device_act \<Rightarrow> event_actor" where
  "actor_of act = \<lparr>ea_account_id = ad_account_id act, ea_surface = ad_surface act\<rparr>"

definition record_device_revoked ::
    "ident \<Rightarrow> ident \<Rightarrow> device_kind \<Rightarrow> device_act \<Rightarrow> instant \<Rightarrow> identity_db \<Rightarrow> identity_db" where
  "record_device_revoked device account kind act occurred_at = write_identity_event
     \<lparr>io_aggregate_type = DEVICE_AGGREGATE, io_aggregate_id = device, io_type = ''identity.device.revoked.v1'',
      io_payload = Device_Revoked device account kind occurred_at (actor_of act),
      io_tracecontext = ad_traceparent act, io_actor_id = Some (ad_account_id act), io_created_at = occurred_at\<rparr>"

text \<open>\<open>self_initiated\<close> when the act comes from the device itself.\<close>

definition record_device_session_closed ::
    "closed_binding \<Rightarrow> device_act \<Rightarrow> instant \<Rightarrow> identity_db \<Rightarrow> identity_db" where
  "record_device_session_closed b act occurred_at = write_identity_event
     \<lparr>io_aggregate_type = DEVICE_AGGREGATE, io_aggregate_id = cb_device_id b, io_type = ''identity.device_session.closed.v1'',
      io_payload = Device_Session_Closed (cb_device_id b) (cb_account_id b) (cb_profile_id b) occurred_at
        (ad_from_device_id act = Some (cb_device_id b)) (actor_of act),
      io_tracecontext = ad_traceparent act, io_actor_id = Some (ad_account_id act), io_created_at = occurred_at\<rparr>"

section \<open>The default profile\<close>

definition trim :: "string \<Rightarrow> string" where
  "trim s = rev (dropWhile is_space (rev (dropWhile is_space s)))"

definition non_blank :: "string option \<Rightarrow> string option" where
  "non_blank name = (case name of None \<Rightarrow> None | Some n \<Rightarrow> if trim n = [] then None else Some (trim n))"

text \<open>The partial unique index lets one default profile through per account.\<close>

definition default_profile_of ::
    "ident \<Rightarrow> ident \<Rightarrow> string option \<Rightarrow> identity_db \<Rightarrow> (profile_summary \<times> identity_db) result" where
  "default_profile_of profile_id account name db =
     bindE (case tbl_find ac_id account (id_accounts db) of
         None \<Rightarrow> Inr db
       | Some a \<Rightarrow>
           let p = \<lparr>pf_id = profile_id, pf_account_id = account,
             pf_name = (case non_blank name of None \<Rightarrow> ac_public_handle a | Some n \<Rightarrow> n), pf_kind = Profile_Adult, pf_is_default = True\<rparr>
           in if \<not> profile_check p then Inl (Constraint_Violation ''profile_name_check'')
              else if list_ex (\<lambda>r. pf_account_id r = account \<and> pf_is_default r) (id_profiles db) then Inr db
              else if list_ex (\<lambda>r. pf_id r = profile_id) (id_profiles db) then Inl (Constraint_Violation ''profile_pkey'')
              else Inr (db\<lparr>id_profiles := id_profiles db @ [p]\<rparr>)) (\<lambda>db1.
     case find (\<lambda>r. pf_account_id r = account \<and> pf_is_default r) (id_profiles db1) of
       None \<Rightarrow> Inl (Plain_Error ''the account has no default profile'')
     | Some p \<Rightarrow> Inr (\<lparr>sy_id = pf_id p, sy_name = pf_name p, sy_kind = pf_kind p\<rparr>, db1))"

section \<open>Registering\<close>

record presented_device =
  pd_token :: "string option"
  pd_kind :: device_kind
  pd_label :: string

definition UNDESCRIBED_DEVICE :: presented_device where
  "UNDESCRIBED_DEVICE = \<lparr>pd_token = None, pd_kind = Kind_Desktop, pd_label = ''unknown''\<rparr>"

record registered_device =
  gd_device_id :: ident
  gd_token :: string

definition insert_device :: "device_row \<Rightarrow> identity_db \<Rightarrow> identity_db result" where
  "insert_device d db =
     (if \<not> device_check d then Inl (Constraint_Violation ''device_label_check'')
      else if list_ex (\<lambda>r. dv_id r = dv_id d \<or> dv_token_hash r = dv_token_hash d) (id_devices db)
      then Inl (Constraint_Violation ''device'')
      else Inr (db\<lparr>id_devices := id_devices db @ [d]\<rparr>))"

text \<open>The token of the presented device is rotated, or a device is registered: it never refuses.\<close>

definition device_for ::
    "identity_env \<Rightarrow> presented_device \<Rightarrow> ident \<Rightarrow> string \<Rightarrow> instant \<Rightarrow> identity_db \<Rightarrow> (registered_device \<times> identity_db) result" where
  "device_for e p device_id token now db =
     (let expires_at = now + device_token_lifetime_seconds e * 1000;
          holds = (\<lambda>d. pd_token p \<noteq> None \<and> dv_token_hash d = digest_of e (the (pd_token p)) \<and>
            dv_revoked_at d = None \<and> now < dv_token_expires_at d)
      in case find holds (id_devices db) of
           Some d \<Rightarrow>
             if list_ex (\<lambda>r. dv_token_hash r = digest_of e token \<and> dv_id r \<noteq> dv_id d) (id_devices db)
             then Inl (Constraint_Violation ''uq_device_token_hash'')
             else Inr (\<lparr>gd_device_id = dv_id d, gd_token = token\<rparr>,
               db\<lparr>id_devices := tbl_update holds (\<lambda>r. r\<lparr>dv_token_hash := digest_of e token,
                 dv_token_expires_at := expires_at, dv_last_seen_at := now\<rparr>) (id_devices db)\<rparr>)
         | None \<Rightarrow>
             bindE (insert_device \<lparr>dv_id = device_id, dv_token_hash = digest_of e token, dv_token_expires_at = expires_at,
                 dv_kind = pd_kind p, dv_label = pd_label p, dv_last_seen_at = now, dv_revoked_at = None\<rparr> db) (\<lambda>db1.
             Inr (\<lparr>gd_device_id = device_id, gd_token = token\<rparr>, db1)))"

definition is_revoked :: "ident \<Rightarrow> identity_db \<Rightarrow> bool" where
  "is_revoked device db \<longleftrightarrow> \<not> list_ex (\<lambda>d. dv_id d = device \<and> dv_revoked_at d = None) (id_devices db)"

section \<open>Binding\<close>

record binding_request =
  bq_auth_session_id :: string
  bq_device_id :: ident
  bq_account_id :: ident
  bq_profile_id :: ident

record bound =
  bn_device_session_id :: ident
  bn_replaced_auth_session_ids :: "string list"

definition pair_open :: "ident \<Rightarrow> ident \<Rightarrow> device_session_row \<Rightarrow> bool" where
  "pair_open device profile r \<longleftrightarrow> dn_device_id r = device \<and> dn_profile_id r = profile \<and> dn_closed_at r = None"

definition insert_binding ::
    "binding_request \<Rightarrow> ident \<Rightarrow> instant \<Rightarrow> identity_db \<Rightarrow> (bool \<times> identity_db) result" where
  "insert_binding q binding_id now db =
     (if list_ex (pair_open (bq_device_id q) (bq_profile_id q)) (id_bindings db) then Inr (False, db)
      else if list_ex (\<lambda>r. dn_id r = binding_id \<or> dn_auth_session_id r = bq_auth_session_id q) (id_bindings db)
      then Inl (Constraint_Violation ''device_session'')
      else if bq_device_id q \<notin> dv_id ` set (id_devices db) \<or> bq_account_id q \<notin> ac_id ` set (id_accounts db) \<or>
        bq_profile_id q \<notin> pf_id ` set (id_profiles db)
      then Inl (Constraint_Violation ''device_session_fkey'')
      else Inr (True, db\<lparr>id_bindings := id_bindings db @ [\<lparr>dn_id = binding_id, dn_device_id = bq_device_id q,
        dn_account_id = bq_account_id q, dn_profile_id = bq_profile_id q, dn_auth_session_id = bq_auth_session_id q,
        dn_opened_at = now, dn_closed_at = None\<rparr>]\<rparr>))"

text \<open>\<open>BIND_ATTEMPTS\<close>: one id is drawn per attempt.\<close>

definition BIND_ATTEMPTS :: nat where
  "BIND_ATTEMPTS = 2"

fun bind_attempts ::
    "binding_request \<Rightarrow> instant \<Rightarrow> string list \<Rightarrow> ident list \<Rightarrow> identity_db \<Rightarrow> (bound \<times> identity_db) result" where
  "bind_attempts q now replaced [] db = Inl (Plain_Error ''the device kept an open binding'')"
| "bind_attempts q now replaced (binding_id # ids) db =
     (let found = pair_open (bq_device_id q) (bq_profile_id q);
          replaced' = replaced @ map dn_auth_session_id (filter found (id_bindings db)) in
      bindE (insert_binding q binding_id now
          (db\<lparr>id_bindings := tbl_update found (\<lambda>r. r\<lparr>dn_closed_at := Some now\<rparr>) (id_bindings db)\<rparr>)) (\<lambda>(inserted, db1).
      if inserted then Inr (\<lparr>bn_device_session_id = binding_id, bn_replaced_auth_session_ids = replaced'\<rparr>, db1)
      else bind_attempts q now replaced' ids db1))"

definition bind_session ::
    "binding_request \<Rightarrow> instant \<Rightarrow> ident list \<Rightarrow> identity_db \<Rightarrow> (bound \<times> identity_db) result" where
  "bind_session q now ids db = bind_attempts q now [] (List.take BIND_ATTEMPTS ids) db"

section \<open>Revoking and closing\<close>

definition closed_binding_of :: "device_session_row \<Rightarrow> closed_binding" where
  "closed_binding_of r = \<lparr>cb_device_session_id = dn_id r, cb_device_id = dn_device_id r, cb_account_id = dn_account_id r,
     cb_profile_id = dn_profile_id r, cb_auth_session_id = dn_auth_session_id r\<rparr>"

text \<open>An \<open>UPDATE \<dots> RETURNING\<close> that closes the bindings it selects.\<close>

definition close_bindings ::
    "(device_session_row \<Rightarrow> bool) \<Rightarrow> instant \<Rightarrow> identity_db \<Rightarrow> closed_binding list \<times> identity_db" where
  "close_bindings found now db =
     (map closed_binding_of (filter found (id_bindings db)),
      db\<lparr>id_bindings := tbl_update found (\<lambda>r. r\<lparr>dn_closed_at := Some now\<rparr>) (id_bindings db)\<rparr>)"

text \<open>\<open>STILL_HELD_SQL\<close>: a binding holds the device while it still resolves. \<open>wall\<close> is the database's clock.\<close>

definition still_held :: "auth_session list \<Rightarrow> instant \<Rightarrow> ident \<Rightarrow> identity_db \<Rightarrow> bool" where
  "still_held sessions wall device db \<longleftrightarrow>
     list_ex (\<lambda>r. dn_device_id r = device \<and> dn_closed_at r = None \<and>
       list_ex (\<lambda>a. ac_id a = dn_account_id r \<and> ac_status a \<in> set SIGNING_IN_STATUSES) (id_accounts db) \<and>
       list_ex (\<lambda>s. as_id s = dn_auth_session_id r \<and> as_user_id s = dn_account_id r \<and> wall < as_expires_at s) sessions)
       (id_bindings db)"

definition revoke_device_in ::
    "auth_session list \<Rightarrow> instant \<Rightarrow> ident \<Rightarrow> device_act \<Rightarrow> instant \<Rightarrow> identity_db \<Rightarrow> (closed_binding list \<times> identity_db) result" where
  "revoke_device_in sessions wall device act now db =
     (case tbl_find dv_id device (id_devices db) of
        None \<Rightarrow> Inl (Refusal NOT_FOUND)
      | Some d \<Rightarrow>
          if dv_revoked_at d \<noteq> None then Inl (Refusal NOT_FOUND)
          else
            let (closed, db1) = close_bindings (\<lambda>r. dn_device_id r = device \<and> dn_account_id r = ad_account_id act \<and>
                  dn_closed_at r = None) now db in
            if closed = [] then Inl (Refusal NOT_FOUND)
            else
              let db2 = fold (\<lambda>b. record_device_session_closed b act now) closed db1 in
              Inr (closed, if still_held sessions wall device db2 then db2
                else record_device_revoked device (ad_account_id act) (dv_kind d) act now
                  (db2\<lparr>id_devices := tbl_update (\<lambda>r. dv_id r = device) (\<lambda>r. r\<lparr>dv_revoked_at := Some now\<rparr>) (id_devices db2)\<rparr>)))"

definition close_session_in ::
    "ident \<Rightarrow> device_act \<Rightarrow> instant \<Rightarrow> identity_db \<Rightarrow> (closed_binding option \<times> identity_db) result" where
  "close_session_in binding_id act now db =
     (case tbl_find dn_id binding_id (id_bindings db) of
        None \<Rightarrow> Inl (Refusal NOT_FOUND)
      | Some r \<Rightarrow>
          if dn_account_id r \<noteq> ad_account_id act then Inl (Refusal NOT_FOUND)
          else if dn_closed_at r \<noteq> None then Inr (None, db)
          else Inr (Some (closed_binding_of r), record_device_session_closed (closed_binding_of r) act now
            (snd (close_bindings (\<lambda>x. dn_id x = binding_id) now db))))"

text \<open>The device itself asks; a session with no open binding writes nothing.\<close>

definition sign_out_in ::
    "string \<Rightarrow> ident \<Rightarrow> surface option \<Rightarrow> string option \<Rightarrow> instant \<Rightarrow> identity_db \<Rightarrow> identity_db" where
  "sign_out_in auth_session_id account surf traceparent now db =
     (let (closed, db1) = close_bindings (\<lambda>r. dn_auth_session_id r = auth_session_id \<and> dn_closed_at r = None) now db
      in case closed of
           [] \<Rightarrow> db
         | b # _ \<Rightarrow> record_device_session_closed b \<lparr>ad_account_id = account, ad_from_device_id = Some (cb_device_id b),
             ad_surface = surf, ad_traceparent = traceparent\<rparr> now db1)"

end
