(* ===== verification/Identity_Sessions.thy ===== *)
theory Identity_Sessions
  imports Identity_Devices
begin

text \<open>
  Sessions (\<open>auth/sessions.service.ts\<close>): resolving a token, binding a session just opened, forgetting the
  sessions a binding replaced or a revocation closed, signing out, reissuing the session of a replayed
  sign-up; signing in (\<open>auth/sign-in.service.ts\<close>); and a viewer's acts on devices
  (\<open>devices/device-revocations.ts\<close>). A flow runs over identity's tables and better-auth's store: a
  transaction that throws leaves the tables as they were, the calls to better-auth made by then stay made. The calls
  whose failure the code only logs take an argument that says whether they fail.
\<close>

type_synonym ('a, 's) flow = "'a result \<times> identity_db \<times> 's"

section \<open>Resolving\<close>

record resolved_viewer = resolved_session +
  rv_account :: viewer_account

record opened_auth_session =
  os_token :: string
  os_auth_session_id :: string
  os_account_id :: ident
  os_expires_at :: instant

text \<open>\<open>OPEN_BINDING_SQL\<close>.\<close>

definition open_binding :: "string \<Rightarrow> ident \<Rightarrow> identity_db \<Rightarrow> (device_session_row \<times> profile_row \<times> account_row) option" where
  "open_binding auth_session_id account db =
     Option.bind (find (\<lambda>r. dn_auth_session_id r = auth_session_id \<and> dn_closed_at r = None) (id_bindings db)) (\<lambda>r.
     Option.bind (find (\<lambda>d. dv_id d = dn_device_id r \<and> dv_revoked_at d = None) (id_devices db)) (\<lambda>_.
     Option.bind (tbl_find pf_id (dn_profile_id r) (id_profiles db)) (\<lambda>p.
     Option.bind (find (\<lambda>a. ac_id a = dn_account_id r \<and> ac_id a = account \<and> ac_status a \<in> set SIGNING_IN_STATUSES)
       (id_accounts db)) (\<lambda>a. Some (r, p, a)))))"

definition summary_of :: "profile_row \<Rightarrow> profile_summary" where
  "summary_of p = \<lparr>sy_id = pf_id p, sy_name = pf_name p, sy_kind = pf_kind p\<rparr>"

definition viewer_account_of :: "account_row \<Rightarrow> viewer_account" where
  "viewer_account_of a = \<lparr>va_public_handle = ac_public_handle a, va_email_verified = (ac_email_verified_at a \<noteq> None)\<rparr>"

definition viewer_account_at :: "ident \<Rightarrow> identity_db \<Rightarrow> viewer_account result" where
  "viewer_account_at account db =
     (case tbl_find ac_id account (id_accounts db) of
        None \<Rightarrow> Inl (Refusal UNAUTHENTICATED)
      | Some a \<Rightarrow> Inr (viewer_account_of a))"

definition resolve_session ::
    "'s auth_api \<Rightarrow> instant \<Rightarrow> string \<Rightarrow> identity_db \<Rightarrow> 's \<Rightarrow> resolved_viewer option \<times> 's" where
  "resolve_session b wall token db st =
     (if token = [] then (None, st)
      else case ba_session b wall token st of
        (None, st') \<Rightarrow> (None, st')
      | (Some x, st') \<Rightarrow>
          (map_option (\<lambda>(r, p, a). \<lparr>rv_account_id = as_user_id x, rv_device_id = dn_device_id r, rv_device_session_id = dn_id r,
             rv_expires_at = as_expires_at x, rv_profile = summary_of p, rv_account = viewer_account_of a\<rparr>)
             (open_binding (as_id x) (as_user_id x) db), st'))"

definition opened_by_token :: "'s auth_api \<Rightarrow> instant \<Rightarrow> string \<Rightarrow> 's \<Rightarrow> opened_auth_session result \<times> 's" where
  "opened_by_token b wall token st =
     (case ba_session b wall token st of
        (None, st') \<Rightarrow> (Inl (Plain_Error ''a session just opened could not be read back''), st')
      | (Some x, st') \<Rightarrow> (Inr \<lparr>os_token = token, os_auth_session_id = as_id x, os_account_id = as_user_id x,
          os_expires_at = as_expires_at x\<rparr>, st'))"

section \<open>Establishing\<close>

record established_session = resolved_session +
  es_token :: string

record established =
  et_session :: established_session
  et_auth_session_id :: string
  et_replaced :: "string list"

definition established_of :: "string \<Rightarrow> resolved_session \<Rightarrow> established_session" where
  "established_of token r = resolved_session.extend r \<lparr>es_token = token\<rparr>"

definition stored_of :: "established \<Rightarrow> stored_session" where
  "stored_of x = resolved_session.extend (resolved_session.truncate (et_session x)) \<lparr>ss_auth_session_id = et_auth_session_id x\<rparr>"

definition establish ::
    "opened_auth_session \<Rightarrow> ident \<Rightarrow> profile_summary \<Rightarrow> instant \<Rightarrow> ident list \<Rightarrow> identity_db \<Rightarrow> (established \<times> identity_db) result" where
  "establish opened device p now ids db =
     bindE (bind_session \<lparr>bq_auth_session_id = os_auth_session_id opened, bq_device_id = device,
       bq_account_id = os_account_id opened, bq_profile_id = sy_id p\<rparr> now ids db) (\<lambda>(n, db1).
     Inr (\<lparr>et_session = established_of (os_token opened) \<lparr>rv_account_id = os_account_id opened, rv_device_id = device,
         rv_device_session_id = bn_device_session_id n, rv_expires_at = os_expires_at opened, rv_profile = p\<rparr>,
       et_auth_session_id = os_auth_session_id opened, et_replaced = bn_replaced_auth_session_ids n\<rparr>, db1))"

text \<open>The sessions of the ids are deleted, unless better-auth fails, which is only logged.\<close>

definition forget :: "'s auth_api \<Rightarrow> bool \<Rightarrow> ident \<Rightarrow> string list \<Rightarrow> 's \<Rightarrow> 's" where
  "forget b fails account auth_session_ids st =
     (if auth_session_ids = [] \<or> fails then st
      else ba_delete_sessions b (map as_token (filter (\<lambda>x. as_id x \<in> set auth_session_ids) (ba_sessions_of b account st))) st)"

definition forget_closed :: "'s auth_api \<Rightarrow> (ident \<Rightarrow> bool) \<Rightarrow> closed_binding list \<Rightarrow> 's \<Rightarrow> 's" where
  "forget_closed b fails bindings =
     fold (\<lambda>account. forget b (fails account) account
       (map cb_auth_session_id (filter (\<lambda>x. cb_account_id x = account) bindings)))
       (rev (remdups (rev (map cb_account_id bindings))))"

section \<open>Signing out\<close>

record sign_out_context =
  sx_surface :: "surface option"
  sx_traceparent :: "string option"

definition UNTRACED_SIGN_OUT :: sign_out_context where
  "UNTRACED_SIGN_OUT = \<lparr>sx_surface = None, sx_traceparent = None\<rparr>"

text \<open>The binding goes first, in a transaction of its own, then the session.\<close>

definition revoke_session ::
    "'s auth_api \<Rightarrow> call \<Rightarrow> string \<Rightarrow> sign_out_context \<Rightarrow> identity_db \<Rightarrow> 's \<Rightarrow> identity_db \<times> 's" where
  "revoke_session b k token out db st =
     (if token = [] then (db, st)
      else case ba_session b (ca_wall k) token st of
        (None, st') \<Rightarrow> (db, st')
      | (Some x, st') \<Rightarrow>
          (sign_out_in (as_id x) (as_user_id x) (sx_surface out) (sx_traceparent out) (ca_now k) db,
           ba_delete_sessions b [as_token x] st'))"

text \<open>A binding in its transaction; its failure revokes the session, unless that fails too, which is only logged.\<close>

definition bind_in_transaction ::
    "'s auth_api \<Rightarrow> call \<Rightarrow> bool \<Rightarrow> bool \<Rightarrow> opened_auth_session \<Rightarrow> (identity_db \<Rightarrow> ((established \<times> 'x) \<times> identity_db) result) \<Rightarrow>
     identity_db \<Rightarrow> 's \<Rightarrow> (established \<times> 'x, 's) flow" where
  "bind_in_transaction b k revoke_fails forget_fails opened binding db st =
     (case binding db of
        Inl e \<Rightarrow> if revoke_fails then (Inl e, db, st)
          else (Inl e, revoke_session b k (os_token opened) UNTRACED_SIGN_OUT db st)
      | Inr ((x, y), db') \<Rightarrow> (Inr (x, y), db', forget b forget_fails (os_account_id opened) (et_replaced x) st))"

section \<open>Reissuing\<close>

record drawn =
  dw_account_id :: ident
  dw_handle_bytes :: "string list"
  dw_link_token :: string
  dw_profile_id :: ident
  dw_device_id :: ident
  dw_device_token :: string
  dw_binding_ids :: "ident list"

definition is_allowed_to_sign_in :: "account_row option \<Rightarrow> bool" where
  "is_allowed_to_sign_in a \<longleftrightarrow> (case a of None \<Rightarrow> False | Some x \<Rightarrow> ac_status x \<in> set SIGNING_IN_STATUSES)"

definition reissue_bind ::
    "identity_env \<Rightarrow> stored_session \<Rightarrow> presented_device \<Rightarrow> opened_auth_session \<Rightarrow> drawn \<Rightarrow> instant \<Rightarrow> identity_db \<Rightarrow>
     ((established \<times> unit) \<times> identity_db) result" where
  "reissue_bind e kept p opened x now db =
     bindE (if is_revoked (rv_device_id kept) db
            then bindE (device_for e (p\<lparr>pd_token := None\<rparr>) (dw_device_id x) (dw_device_token x) now db)
              (\<lambda>(d, db1). Inr (gd_device_id d, db1))
            else Inr (rv_device_id kept, db)) (\<lambda>(device, db1).
     bindE (default_profile_of (dw_profile_id x) (rv_account_id kept) None db1) (\<lambda>(profile, db2).
     bindE (establish opened device profile now (dw_binding_ids x) db2) (\<lambda>(z, db3). Inr ((z, ()), db3))))"

text \<open>A session of its own for an account that may still sign in.\<close>

definition reissue_fresh ::
    "identity_env \<Rightarrow> 's auth_api \<Rightarrow> call \<Rightarrow> bool \<Rightarrow> bool \<Rightarrow> stored_session \<Rightarrow> presented_device \<Rightarrow> drawn \<Rightarrow> identity_db \<Rightarrow> 's \<Rightarrow>
     (established_session, 's) flow" where
  "reissue_fresh e b k revoke_fails forget_fails kept p x db st =
     (if \<not> is_allowed_to_sign_in (tbl_find ac_id (rv_account_id kept) (id_accounts db))
      then (Inl (Refusal INVALID_CREDENTIALS), db, st)
      else
        let (fresh, st1) = ba_create_session b (ca_wall k) (rv_account_id kept) st in
        case opened_by_token b (ca_wall k) (signed_token e (as_token fresh)) st1 of
          (Inl f, st2) \<Rightarrow> (Inl f, db, st2)
        | (Inr opened, st2) \<Rightarrow>
            let (r, db', st3) = bind_in_transaction b k revoke_fails forget_fails opened
              (reissue_bind e kept p opened x (ca_now k)) db st2
            in (bindE r (\<lambda>(z, _). Inr (et_session z)), db', st3))"

definition reissue ::
    "identity_env \<Rightarrow> 's auth_api \<Rightarrow> call \<Rightarrow> bool \<Rightarrow> bool \<Rightarrow> stored_session \<Rightarrow> presented_device \<Rightarrow> drawn \<Rightarrow> identity_db \<Rightarrow> 's \<Rightarrow>
     (established_session, 's) flow" where
  "reissue e b k revoke_fails forget_fails kept p x db st =
     (case find (\<lambda>s. as_id s = ss_auth_session_id kept) (ba_sessions_of b (rv_account_id kept) st) of
        None \<Rightarrow> reissue_fresh e b k revoke_fails forget_fails kept p x db st
      | Some same \<Rightarrow>
          (case resolve_session b (ca_wall k) (signed_token e (as_token same)) db st of
             (Some r, st1) \<Rightarrow> (Inr (established_of (signed_token e (as_token same)) (resolved_session.truncate r)), db, st1)
           | (None, st1) \<Rightarrow> reissue_fresh e b k revoke_fails forget_fails kept p x db st1))"

section \<open>Signing in\<close>

record signed_in =
  sn_session :: established_session
  sn_account :: viewer_account
  sn_device_token :: "string option"

definition rehash_if_outdated :: "identity_env \<Rightarrow> 's auth_api \<Rightarrow> ident \<Rightarrow> string \<Rightarrow> 's \<Rightarrow> 's" where
  "rehash_if_outdated e b account password st =
     (case ba_credential b account st of
        None \<Rightarrow> st
      | Some digest \<Rightarrow> if digest \<noteq> [] \<and> is_outdated e digest
          then ba_update_password b account (hash_password e password) st else st)"

text \<open>The device is registered or its token rotated, and the session bound, in one transaction.\<close>

definition sign_in_bind ::
    "identity_env \<Rightarrow> ident \<Rightarrow> presented_device \<Rightarrow> opened_auth_session \<Rightarrow> drawn \<Rightarrow> instant \<Rightarrow> identity_db \<Rightarrow>
     ((established \<times> string) \<times> identity_db) result" where
  "sign_in_bind e account p opened x now db =
     bindE (default_profile_of (dw_profile_id x) account None db) (\<lambda>(profile, db1).
     bindE (device_for e p (dw_device_id x) (dw_device_token x) now db1) (\<lambda>(d, db2).
     bindE (establish opened (gd_device_id d) profile now (dw_binding_ids x) db2) (\<lambda>(z, db3).
     Inr ((z, gd_token d), db3))))"

definition sign_in_opened ::
    "identity_env \<Rightarrow> 's auth_api \<Rightarrow> call \<Rightarrow> bool \<Rightarrow> bool \<Rightarrow> account_row \<Rightarrow> string \<Rightarrow> string \<Rightarrow> presented_device \<Rightarrow> drawn \<Rightarrow>
     identity_db \<Rightarrow> 's \<Rightarrow> (signed_in, 's) flow" where
  "sign_in_opened e b k revoke_fails forget_fails account password token p x db st =
     (case opened_by_token b (ca_wall k) token (rehash_if_outdated e b (ac_id account) password st) of
        (Inl f, st2) \<Rightarrow> (Inl f, db, st2)
      | (Inr opened, st2) \<Rightarrow>
          let (r, db', st3) = bind_in_transaction b k revoke_fails forget_fails opened
            (sign_in_bind e (ac_id account) p opened x (ca_now k)) db st2
          in (bindE r (\<lambda>(z, device_token). Inr \<lparr>sn_session = et_session z, sn_account = viewer_account_of account,
                sn_device_token = Some device_token\<rparr>), db', st3))"

text \<open>Every refusal of a credential or of an account that may not sign in is the same.\<close>

definition sign_in ::
    "identity_env \<Rightarrow> 's auth_api \<Rightarrow> call \<Rightarrow> bool \<Rightarrow> bool \<Rightarrow> string \<Rightarrow> string \<Rightarrow> presented_device \<Rightarrow> drawn \<Rightarrow> identity_db \<Rightarrow> 's \<Rightarrow>
     (signed_in, 's) flow" where
  "sign_in e b k revoke_fails forget_fails email password p x db st =
     (case ba_sign_in b (ca_wall k) email password st of
        (Inl Auth_Unauthorized, st1) \<Rightarrow> (Inl (Refusal INVALID_CREDENTIALS), db, st1)
      | (Inl _, st1) \<Rightarrow> (Inl (Plain_Error ''better-auth''), db, st1)
      | (Inr (_, None), st1) \<Rightarrow> (Inl (Plain_Error ''better-auth opened a session and handed no token''), db, st1)
      | (Inr (user, Some token), st1) \<Rightarrow>
          (case tbl_find ac_id user (id_accounts db) of
             Some account \<Rightarrow>
               if is_allowed_to_sign_in (Some account)
               then sign_in_opened e b k revoke_fails forget_fails account password token p x db st1
               else (Inl (Refusal INVALID_CREDENTIALS), revoke_session b k token UNTRACED_SIGN_OUT db st1)
           | None \<Rightarrow> (Inl (Refusal INVALID_CREDENTIALS), revoke_session b k token UNTRACED_SIGN_OUT db st1)))"

section \<open>A viewer's acts on devices\<close>

text \<open>A replay closes nothing, so it deletes nothing.\<close>

definition revoke_device_once ::
    "'s auth_api \<Rightarrow> call \<Rightarrow> (ident \<Rightarrow> bool) \<Rightarrow> ident \<Rightarrow> device_act \<Rightarrow> idempotent_request \<Rightarrow> identity_db \<Rightarrow> 's \<Rightarrow>
     (identity_answer memorised_response, 's) flow" where
  "revoke_device_once b k fails device act q db st =
     (case under_key k q (\<lambda>db. bindE (revoke_device_in (ba_table b st) (ca_wall k) device act (ca_now k) db)
          (\<lambda>(_, db'). Inr (Device_Revoked_Answer, db'))) db of
        Inl e \<Rightarrow> (Inl e, db, st)
      | Inr (answer, db') \<Rightarrow>
          (Inr answer, db', if mr_replayed answer then st
             else forget_closed b fails (case revoke_device_in (ba_table b st) (ca_wall k) device act (ca_now k) db of
               Inr (closed, _) \<Rightarrow> closed | Inl _ \<Rightarrow> []) st))"

definition close_session_once ::
    "'s auth_api \<Rightarrow> call \<Rightarrow> (ident \<Rightarrow> bool) \<Rightarrow> ident \<Rightarrow> device_act \<Rightarrow> idempotent_request \<Rightarrow> identity_db \<Rightarrow> 's \<Rightarrow>
     (identity_answer memorised_response, 's) flow" where
  "close_session_once b k fails binding_id act q db st =
     (case under_key k q (\<lambda>db. bindE (close_session_in binding_id act (ca_now k) db)
          (\<lambda>(_, db'). Inr (Session_Closed_Answer, db'))) db of
        Inl e \<Rightarrow> (Inl e, db, st)
      | Inr (answer, db') \<Rightarrow>
          (Inr answer, db', if mr_replayed answer then st
             else case close_session_in binding_id act (ca_now k) db of
               Inr (Some closed, _) \<Rightarrow> forget_closed b fails [closed] st
             | _ \<Rightarrow> st))"

end
