(* ===== verification/Identity_Accounts.thy ===== *)
theory Identity_Accounts
  imports Identity_Sessions
begin

text \<open>
  Accounts: the links that verify an address (\<open>auth/email-verifications.service.ts\<close>) and signing up
  (\<open>auth/sign-up.service.ts\<close>), over identity's transaction and better-auth's store, whose credential is written
  before the commit.
\<close>

section \<open>Links\<close>

definition requested_row :: "ident \<Rightarrow> instant \<Rightarrow> string \<Rightarrow> string \<Rightarrow> string \<Rightarrow> instant \<Rightarrow> string option \<Rightarrow> identity_outbox_row" where
  "requested_row account at email locale token expires_at traceparent =
     \<lparr>io_aggregate_type = ''identity.email_verification'', io_aggregate_id = account,
      io_type = ''identity.email_verification.requested.v1'',
      io_payload = Email_Verification_Requested account at email locale token expires_at,
      io_tracecontext = traceparent, io_actor_id = Some account, io_created_at = at\<rparr>"

text \<open>The earlier links of the account are spent. The link references its account, and its digest is its key.\<close>

definition issue_link ::
    "identity_env \<Rightarrow> ident \<Rightarrow> string \<Rightarrow> string \<Rightarrow> string \<Rightarrow> string option \<Rightarrow> instant \<Rightarrow> identity_db \<Rightarrow> identity_db result" where
  "issue_link e account email locale token traceparent now db =
     (let expires_at = now + verification_link_lifetime_hours e * 3600000;
          links = tbl_update (\<lambda>l. ev_account_id l = account \<and> ev_used_at l = None) (\<lambda>l. l\<lparr>ev_used_at := Some now\<rparr>) (id_links db)
      in if list_ex (\<lambda>l. ev_token_hash l = sha256 e token) links then Inl (Constraint_Violation ''email_verification_pkey'')
         else if account \<notin> ac_id ` set (id_accounts db) then Inl (Constraint_Violation ''email_verification_account_id_fkey'')
         else Inr (write_identity_event (requested_row account now email locale token expires_at traceparent)
           (db\<lparr>id_links := links @ [\<lparr>ev_token_hash = sha256 e token, ev_account_id = account, ev_email = email,
             ev_expires_at = expires_at, ev_used_at = None\<rparr>]\<rparr>)))"

definition resend_in ::
    "identity_env \<Rightarrow> ident \<Rightarrow> string \<Rightarrow> string option \<Rightarrow> instant \<Rightarrow> identity_db \<Rightarrow> (identity_answer \<times> identity_db) result" where
  "resend_in e account token traceparent now db =
     (case tbl_find ac_id account (id_accounts db) of
        None \<Rightarrow> Inl (Refusal UNAUTHENTICATED)
      | Some a \<Rightarrow>
          if ac_email_verified_at a \<noteq> None then Inr (Link_Queued False, db)
          else bindE (issue_link e account (ac_email a) (ac_locale a) token traceparent now db) (\<lambda>db'.
            Inr (Link_Queued True, db')))"

text \<open>The link is spent by one conditional update: unused, unexpired, and of the address its account has.\<close>

definition link_open :: "identity_env \<Rightarrow> string \<Rightarrow> instant \<Rightarrow> identity_db \<Rightarrow> email_verification_row \<Rightarrow> bool" where
  "link_open e token now db l \<longleftrightarrow> ev_token_hash l = sha256 e token \<and> ev_used_at l = None \<and> now < ev_expires_at l \<and>
     list_ex (\<lambda>a. ac_id a = ev_account_id l \<and> citext e (ac_email a) = citext e (ev_email l)) (id_accounts db)"

definition confirm_in ::
    "identity_env \<Rightarrow> string \<Rightarrow> instant \<Rightarrow> identity_db \<Rightarrow> (identity_answer \<times> identity_db) result" where
  "confirm_in e token now db =
     (case tbl_find ev_token_hash (sha256 e token) (id_links db) of
        None \<Rightarrow> Inl (Refusal VERIFICATION_LINK_INVALID)
      | Some _ \<Rightarrow>
          (case find (link_open e token now db) (id_links db) of
             None \<Rightarrow> Inl (Refusal VERIFICATION_LINK_INVALID)
           | Some spent \<Rightarrow>
               Inr (Address_Verified, db\<lparr>
                 id_links := tbl_update (link_open e token now db) (\<lambda>l. l\<lparr>ev_used_at := Some now\<rparr>) (id_links db),
                 id_accounts := tbl_update (\<lambda>a. ac_id a = ev_account_id spent \<and> ac_email_verified_at a = None)
                   (\<lambda>a. a\<lparr>ac_email_verified_at := Some now\<rparr>) (id_accounts db)\<rparr>)))"

definition resend_link ::
    "identity_env \<Rightarrow> call \<Rightarrow> ident \<Rightarrow> string \<Rightarrow> string option \<Rightarrow> idempotent_request \<Rightarrow> identity_db \<Rightarrow>
     (identity_answer memorised_response \<times> identity_db) result" where
  "resend_link e k account token traceparent q = under_key k q (resend_in e account token traceparent (ca_now k))"

definition confirm_link ::
    "identity_env \<Rightarrow> call \<Rightarrow> string \<Rightarrow> idempotent_request \<Rightarrow> identity_db \<Rightarrow> (identity_answer memorised_response \<times> identity_db) result" where
  "confirm_link e k token q = under_key k q (confirm_in e token (ca_now k))"

section \<open>Signing up\<close>

record sign_up_body =
  sb_email :: string
  sb_password :: string
  sb_display_name :: "string option"
  sb_locale :: string
  sb_country :: string
  sb_accepted_terms_version :: int

definition HANDLE_ATTEMPTS :: nat where
  "HANDLE_ATTEMPTS = 5"

text \<open>Nothing is inserted when the id, the handle or the address is taken.\<close>

definition account_conflicts :: "identity_env \<Rightarrow> account_row \<Rightarrow> account_row \<Rightarrow> bool" where
  "account_conflicts e a r \<longleftrightarrow> ac_id r = ac_id a \<or> citext e (ac_public_handle r) = citext e (ac_public_handle a) \<or>
     citext e (ac_email r) = citext e (ac_email a)"

fun insert_account ::
    "identity_env \<Rightarrow> ident \<Rightarrow> sign_up_body \<Rightarrow> instant \<Rightarrow> string list \<Rightarrow> identity_db \<Rightarrow> (string \<times> identity_db) result" where
  "insert_account e account body now [] db = Inl (Plain_Error ''no free public handle'')"
| "insert_account e account body now (bytes # more_bytes) db =
     (let handle = generated_public_handle e bytes;
          a = \<lparr>ac_id = account, ac_public_handle = handle, ac_email = sb_email body, ac_locale = sb_locale body,
            ac_country = sb_country body, ac_status = Account_Active, ac_email_verified_at = None,
            ac_terms_version = Some (sb_accepted_terms_version body), ac_terms_accepted_at = Some now\<rparr>
      in if \<not> list_ex (account_conflicts e a) (id_accounts db) then Inr (handle, db\<lparr>id_accounts := id_accounts db @ [a]\<rparr>)
         else if list_ex (\<lambda>r. citext e (ac_email r) = citext e (sb_email body)) (id_accounts db) then Inl (Refusal EMAIL_TAKEN)
         else insert_account e account body now more_bytes db)"

definition registered_row :: "ident \<Rightarrow> sign_up_body \<Rightarrow> string option \<Rightarrow> instant \<Rightarrow> identity_outbox_row" where
  "registered_row account body traceparent at =
     \<lparr>io_aggregate_type = ''identity.account'', io_aggregate_id = account, io_type = ''identity.account.registered.v1'',
      io_payload = Account_Registered account at (sb_locale body) (sb_country body),
      io_tracecontext = traceparent, io_actor_id = Some account, io_created_at = at\<rparr>"

text \<open>What the transaction writes before better-auth is called: the account and its two events.\<close>

definition register_account ::
    "identity_env \<Rightarrow> drawn \<Rightarrow> sign_up_body \<Rightarrow> string option \<Rightarrow> instant \<Rightarrow> identity_db \<Rightarrow> (string \<times> identity_db) result" where
  "register_account e x body traceparent now db =
     bindE (insert_account e (dw_account_id x) body now (List.take HANDLE_ATTEMPTS (dw_handle_bytes x)) db) (\<lambda>(handle, db1).
     bindE (issue_link e (dw_account_id x) (sb_email body) (sb_locale body) (dw_link_token x) traceparent now
       (write_identity_event (registered_row (dw_account_id x) body traceparent now) db1)) (\<lambda>db2.
     Inr (handle, db2)))"

text \<open>A credential that belongs to no account is replaced.\<close>

definition create_credential ::
    "'s auth_api \<Rightarrow> instant \<Rightarrow> ident \<Rightarrow> sign_up_body \<Rightarrow> 's \<Rightarrow> string result \<times> 's" where
  "create_credential b wall account body st =
     (let attempt = ba_sign_up b wall account (sb_email body) (sb_password body)
            (case sb_display_name body of None \<Rightarrow> [] | Some n \<Rightarrow> n);
          token_of = (\<lambda>r. case r of
            (Inl _, st') \<Rightarrow> (Inl (Plain_Error ''better-auth''), st')
          | (Inr (user, token), st') \<Rightarrow>
              if user \<noteq> account \<or> token = None
              then (Inl (Plain_Error ''better-auth did not create the credential under the account id''), st')
              else (Inr (the token), st'))
      in case attempt st of
           (Inl Auth_User_Already_Exists, st1) \<Rightarrow>
             token_of (attempt (case ba_user_by_email b (sb_email body) st1 of
               None \<Rightarrow> st1 | Some orphan \<Rightarrow> ba_delete_user b orphan st1))
         | r \<Rightarrow> token_of r)"

text \<open>What the transaction writes once the session is opened.\<close>

definition bind_sign_up ::
    "identity_env \<Rightarrow> drawn \<Rightarrow> sign_up_body \<Rightarrow> presented_device \<Rightarrow> opened_auth_session \<Rightarrow> instant \<Rightarrow> identity_db \<Rightarrow>
     ((established \<times> string) \<times> identity_db) result" where
  "bind_sign_up e x body p opened now db =
     bindE (default_profile_of (dw_profile_id x) (dw_account_id x) (sb_display_name body) db) (\<lambda>(profile, db1).
     bindE (device_for e p (dw_device_id x) (dw_device_token x) now db1) (\<lambda>(d, db2).
     bindE (establish opened (gd_device_id d) profile now (dw_binding_ids x) db2) (\<lambda>(z, db3).
     Inr ((z, gd_token d), db3))))"

text \<open>
  The command under the key, given what better-auth answers: the account, then the credential, the
  session opened with it, and the binding. \<open>issued_of\<close> is what it issues beside its record.
\<close>

definition sign_up_command ::
    "identity_env \<Rightarrow> drawn \<Rightarrow> sign_up_body \<Rightarrow> presented_device \<Rightarrow> string option \<Rightarrow> instant \<Rightarrow> opened_auth_session result \<Rightarrow>
     identity_db \<Rightarrow> ((string \<times> established \<times> string) \<times> identity_db) result" where
  "sign_up_command e x body p traceparent now opening db =
     bindE (register_account e x body traceparent now db) (\<lambda>(handle, db1).
     bindE opening (\<lambda>opened.
     bindE (bind_sign_up e x body p opened now db1) (\<lambda>((z, token), db2).
     Inr ((handle, z, token), db2))))"

definition sign_up_record :: "string \<times> established \<times> string \<Rightarrow> identity_answer" where
  "sign_up_record issued = (case issued of (handle, z, _) \<Rightarrow>
     Sign_Up_Record (stored_of z) \<lparr>va_public_handle = handle, va_email_verified = False\<rparr>)"

text \<open>better-auth is called once the key is claimed and the account written.\<close>

definition reaches_credential ::
    "identity_env \<Rightarrow> call \<Rightarrow> drawn \<Rightarrow> sign_up_body \<Rightarrow> string option \<Rightarrow> idempotent_request \<Rightarrow> identity_db \<Rightarrow> bool" where
  "reaches_credential e k x body traceparent q db \<longleftrightarrow>
     (case claim_key (ca_lock_timeout k) (ca_wall k) q (id_records db) of
        Inr (True, _) \<Rightarrow> (case register_account e x body traceparent (ca_now k) db of Inr _ \<Rightarrow> True | Inl _ \<Rightarrow> False)
      | _ \<Rightarrow> False)"

text \<open>The credential, then the session read back; the flag says that the credential exists.\<close>

definition open_credential ::
    "'s auth_api \<Rightarrow> call \<Rightarrow> drawn \<Rightarrow> sign_up_body \<Rightarrow> 's \<Rightarrow> opened_auth_session result \<times> bool \<times> 's" where
  "open_credential b k x body st =
     (case create_credential b (ca_wall k) (dw_account_id x) body st of
        (Inl f, st1) \<Rightarrow> (Inl f, False, st1)
      | (Inr token, st1) \<Rightarrow> (case opened_by_token b (ca_wall k) token st1 of (r, st2) \<Rightarrow> (r, True, st2)))"

text \<open>What may go wrong besides: the commit, and three clean-ups that are only logged.\<close>

record mishaps =
  mi_commit_fails :: bool
  mi_removal_fails :: bool
  mi_revoke_fails :: bool
  mi_forget_fails :: bool

definition answered_sign_up ::
    "identity_env \<Rightarrow> 's auth_api \<Rightarrow> call \<Rightarrow> mishaps \<Rightarrow> presented_device \<Rightarrow> drawn \<Rightarrow> (string \<times> established \<times> string) option \<Rightarrow>
     identity_answer \<Rightarrow> identity_db \<Rightarrow> 's \<Rightarrow> (signed_in, 's) flow" where
  "answered_sign_up e b k m p x issued answer db st =
     (case answer of
        Sign_Up_Record kept account \<Rightarrow>
          (case issued of
             Some (_, z, token) \<Rightarrow>
               (Inr \<lparr>sn_session = et_session z, sn_account = account, sn_device_token = Some token\<rparr>, db,
                forget b (mi_forget_fails m) (rv_account_id (et_session z)) (et_replaced z) st)
           | None \<Rightarrow>
               let (r, db', st') = reissue e b k (mi_revoke_fails m) (mi_forget_fails m) kept p x db st
               in (bindE r (\<lambda>session. Inr \<lparr>sn_session = session, sn_account = account, sn_device_token = None\<rparr>), db', st'))
      | _ \<Rightarrow> (Inl (Plain_Error ''another route's record''), db, st))"

text \<open>A failure once the credential exists removes it.\<close>

definition sign_up ::
    "identity_env \<Rightarrow> 's auth_api \<Rightarrow> call \<Rightarrow> mishaps \<Rightarrow> sign_up_body \<Rightarrow> presented_device \<Rightarrow> drawn \<Rightarrow> string option \<Rightarrow>
     idempotent_request \<Rightarrow> identity_db \<Rightarrow> 's \<Rightarrow> (signed_in, 's) flow" where
  "sign_up e b k m body p x traceparent q db st =
     (let (opening, created, st1) = (if reaches_credential e k x body traceparent q db then open_credential b k x body st
            else (Inl (Plain_Error ''not called''), False, st));
          command = sign_up_command e x body p traceparent (ca_now k) opening;
          committed = bindE (under_key k q (\<lambda>db. bindE (command db) (\<lambda>(issued, db'). Inr (sign_up_record issued, db'))) db)
            (\<lambda>r. if mi_commit_fails m then Inl (Plain_Error ''commit'') else Inr r);
          removed = (\<lambda>st. if created \<and> \<not> mi_removal_fails m then ba_delete_user b (dw_account_id x) st else st)
      in case committed of
           Inl f \<Rightarrow> (Inl f, db, removed st1)
         | Inr (answer, db') \<Rightarrow>
             let issued = (if mr_replayed answer then None else (case command db of Inr (i, _) \<Rightarrow> Some i | Inl _ \<Rightarrow> None))
             in case answered_sign_up e b k m p x issued (sv_data (mr_envelope answer)) db' st1 of
                  (Inl f, db2, st2) \<Rightarrow> (Inl f, db2, removed st2)
                | r \<Rightarrow> r)"

end
