(* ===== verification/Identity_System.thy ===== *)
theory Identity_System
  imports Identity_Accounts
begin

text \<open>
  Identity's transactions as a step relation on its tables, in any interleaving and whatever better-auth's store
  holds, with what every one keeps of the tables (\<open>identity_ok\<close>) and of the rows already there (\<open>rows_kept\<close>): a
  binding once closed stays closed, a device once revoked stays revoked, a link once spent stays spent.
\<close>

section \<open>The invariant\<close>

definition open_pair :: "device_session_row \<Rightarrow> ident \<times> ident" where
  "open_pair r = (dn_device_id r, dn_profile_id r)"

definition identity_ok :: "identity_db \<Rightarrow> bool" where
  "identity_ok db \<longleftrightarrow> distinct (map ac_id (id_accounts db)) \<and> distinct (map ev_token_hash (id_links db)) \<and>
     distinct (map dv_id (id_devices db)) \<and> distinct (map dn_id (id_bindings db)) \<and>
     distinct (map dn_auth_session_id (id_bindings db)) \<and>
     distinct (map open_pair (filter (\<lambda>r. dn_closed_at r = None) (id_bindings db)))"

lemma identity_okD:
  assumes "identity_ok db"
  shows "distinct (map ac_id (id_accounts db))" "distinct (map ev_token_hash (id_links db))"
    "distinct (map dv_id (id_devices db))" "distinct (map dn_id (id_bindings db))"
    "distinct (map dn_auth_session_id (id_bindings db))"
    "distinct (map open_pair (filter (\<lambda>r. dn_closed_at r = None) (id_bindings db)))"
  using assms by (simp_all add: identity_ok_def)

text \<open>The rows a transaction leaves: each still there, with its identity, and what ended still ended.\<close>

definition binding_kept :: "device_session_row \<Rightarrow> device_session_row \<Rightarrow> bool" where
  "binding_kept r r' \<longleftrightarrow> dn_id r' = dn_id r \<and> dn_device_id r' = dn_device_id r \<and> dn_account_id r' = dn_account_id r \<and>
     dn_profile_id r' = dn_profile_id r \<and> dn_auth_session_id r' = dn_auth_session_id r \<and>
     (dn_closed_at r \<noteq> None \<longrightarrow> dn_closed_at r' \<noteq> None)"

definition device_kept :: "device_row \<Rightarrow> device_row \<Rightarrow> bool" where
  "device_kept d d' \<longleftrightarrow> dv_id d' = dv_id d \<and> dv_kind d' = dv_kind d \<and> (dv_revoked_at d \<noteq> None \<longrightarrow> dv_revoked_at d' \<noteq> None)"

definition link_kept :: "email_verification_row \<Rightarrow> email_verification_row \<Rightarrow> bool" where
  "link_kept l l' \<longleftrightarrow> ev_token_hash l' = ev_token_hash l \<and> ev_account_id l' = ev_account_id l \<and> ev_email l' = ev_email l \<and>
     ev_expires_at l' = ev_expires_at l \<and> (ev_used_at l \<noteq> None \<longrightarrow> ev_used_at l' \<noteq> None)"

definition account_kept :: "account_row \<Rightarrow> account_row \<Rightarrow> bool" where
  "account_kept a a' \<longleftrightarrow> ac_id a' = ac_id a \<and> ac_email a' = ac_email a \<and> ac_public_handle a' = ac_public_handle a \<and>
     ac_status a' = ac_status a \<and> (ac_email_verified_at a \<noteq> None \<longrightarrow> ac_email_verified_at a' \<noteq> None)"

definition all_kept :: "('r \<Rightarrow> 'r \<Rightarrow> bool) \<Rightarrow> 'r list \<Rightarrow> 'r list \<Rightarrow> bool" where
  "all_kept keeps t t' \<longleftrightarrow> (\<forall>r \<in> set t. \<exists>r' \<in> set t'. keeps r r')"

definition rows_kept :: "identity_db \<Rightarrow> identity_db \<Rightarrow> bool" where
  "rows_kept db db' \<longleftrightarrow> all_kept account_kept (id_accounts db) (id_accounts db') \<and>
     all_kept link_kept (id_links db) (id_links db') \<and> all_kept device_kept (id_devices db) (id_devices db') \<and>
     all_kept binding_kept (id_bindings db) (id_bindings db')"

definition identity_moved :: "identity_db \<Rightarrow> identity_db \<Rightarrow> bool" where
  "identity_moved db db' \<longleftrightarrow> rows_kept db db' \<and> (identity_ok db \<longrightarrow> identity_ok db')"

lemma all_kept_refl: "(\<And>r. keeps r r) \<Longrightarrow> all_kept keeps t t"
  by (auto simp: all_kept_def)

lemma all_kept_trans:
  assumes "\<And>x y z. keeps x y \<Longrightarrow> keeps y z \<Longrightarrow> keeps x z" and "all_kept keeps t u" and "all_kept keeps u v"
  shows "all_kept keeps t v"
  using assms(2,3) unfolding all_kept_def by (meson assms(1))

lemma all_kept_update: "(\<And>r. r \<in> set t \<Longrightarrow> p r \<Longrightarrow> keeps r (f r)) \<Longrightarrow> (\<And>r. keeps r r) \<Longrightarrow> all_kept keeps t (tbl_update p f t)"
proof (unfold all_kept_def, rule ballI)
  fix r assume keep: "\<And>r. r \<in> set t \<Longrightarrow> p r \<Longrightarrow> keeps r (f r)" "\<And>r. keeps r r" and r: "r \<in> set t"
  then have "keeps r (if p r then f r else r)" by simp
  with r show "\<exists>r' \<in> set (tbl_update p f t). keeps r r'" unfolding set_tbl_update by blast
qed

lemma all_kept_append: "(\<And>r. keeps r r) \<Longrightarrow> all_kept keeps t (t @ u)"
  by (auto simp: all_kept_def)

lemma kept_refl [simp]: "binding_kept r r" "device_kept d d" "link_kept l l" "account_kept a a"
  by (simp_all add: binding_kept_def device_kept_def link_kept_def account_kept_def)

lemma kept_trans:
  "binding_kept r r' \<Longrightarrow> binding_kept r' r'' \<Longrightarrow> binding_kept r r''" "device_kept d d' \<Longrightarrow> device_kept d' d'' \<Longrightarrow> device_kept d d''"
  "link_kept l l' \<Longrightarrow> link_kept l' l'' \<Longrightarrow> link_kept l l''" "account_kept a a' \<Longrightarrow> account_kept a' a'' \<Longrightarrow> account_kept a a''"
  by (auto simp: binding_kept_def device_kept_def link_kept_def account_kept_def)

lemma rows_kept_refl: "rows_kept db db"
  by (simp add: rows_kept_def all_kept_refl)

lemma rows_kept_trans: "rows_kept db db' \<Longrightarrow> rows_kept db' db'' \<Longrightarrow> rows_kept db db''"
  unfolding rows_kept_def by (blast intro: all_kept_trans kept_trans)

lemma identity_moved_refl [intro]: "identity_moved db db"
  by (simp add: identity_moved_def rows_kept_refl)

lemma identity_moved_trans: "identity_moved db db' \<Longrightarrow> identity_moved db' db'' \<Longrightarrow> identity_moved db db''"
  unfolding identity_moved_def by (blast intro: rows_kept_trans)

text \<open>What no property reads of the tables.\<close>

lemma identity_moved_same:
  assumes "id_accounts db' = id_accounts db" "id_links db' = id_links db" "id_devices db' = id_devices db"
    "id_bindings db' = id_bindings db"
  shows "identity_moved db db'"
  using rows_kept_refl [of db] assms by (simp add: identity_moved_def rows_kept_def identity_ok_def)

section \<open>Statements\<close>

lemma write_identity_event_moved: "identity_moved db (write_identity_event row db)"
  by (rule identity_moved_same) (simp_all add: write_identity_event_def)

lemma default_profile_moved:
  assumes "default_profile_of i account name db = Inr (p, db')"
  shows "identity_moved db db'"
  using assms by (intro identity_moved_same)
    (auto simp: default_profile_of_def bindE_eq_Inr Let_def split: option.splits if_splits)

lemma insert_device_moved:
  assumes "insert_device d db = Inr db'"
  shows "identity_moved db db'"
proof -
  have db': "db' = db\<lparr>id_devices := id_devices db @ [d]\<rparr>" and "dv_id d \<notin> dv_id ` set (id_devices db)"
    using assms by (auto simp: insert_device_def list_ex_iff split: if_splits)
  then show ?thesis
    by (simp add: identity_moved_def rows_kept_def all_kept_refl all_kept_append identity_ok_def)
qed

lemma update_devices_moved:
  assumes "\<And>d. p d \<Longrightarrow> device_kept d (f d)"
  shows "identity_moved db (db\<lparr>id_devices := tbl_update p f (id_devices db)\<rparr>)"
proof -
  have ids: "map dv_id (tbl_update p f (id_devices db)) = map dv_id (id_devices db)"
    by (rule map_tbl_update_same) (use assms in \<open>auto simp: device_kept_def\<close>)
  show ?thesis
    using assms by (simp add: identity_moved_def rows_kept_def all_kept_refl all_kept_update identity_ok_def ids)
qed

lemma device_for_moved:
  assumes "device_for e p i token now db = Inr (d, db')"
  shows "identity_moved db db'"
proof -
  define holds where "holds = (\<lambda>d :: device_row. pd_token p \<noteq> None \<and> dv_token_hash d = digest_of e (the (pd_token p)) \<and>
    dv_revoked_at d = None \<and> now < dv_token_expires_at d)"
  note run = assms [unfolded device_for_def Let_def, folded holds_def]
  show ?thesis
  proof (cases "find holds (id_devices db)")
    case None
    with run show ?thesis by (auto simp: bindE_eq_Inr dest: insert_device_moved)
  next
    case (Some x)
    with run show ?thesis
      by (auto split: if_splits intro!: update_devices_moved simp: device_kept_def)
  qed
qed

text \<open>A statement that closes bindings.\<close>

lemma closed_open_pairs:
  assumes "distinct (map open_pair (filter (\<lambda>r. dn_closed_at r = None) t))"
  shows "distinct (map open_pair (filter (\<lambda>r. dn_closed_at r = None) (tbl_update p (\<lambda>r. r\<lparr>dn_closed_at := Some now\<rparr>) t)))"
  using assms
proof (induction t)
  case (Cons r t)
  have "open_pair ` set (filter (\<lambda>r. dn_closed_at r = None) (tbl_update p (\<lambda>r. r\<lparr>dn_closed_at := Some now\<rparr>) t))
      \<subseteq> open_pair ` set (filter (\<lambda>r. dn_closed_at r = None) t)"
    by (auto simp: tbl_update_def split: if_splits)
  with Cons show ?case by (auto split: if_splits)
qed simp

lemma close_bindings_moved: "identity_moved db (snd (close_bindings p now db))"
proof -
  let ?t = "tbl_update p (\<lambda>r. r\<lparr>dn_closed_at := Some now\<rparr>) (id_bindings db)"
  have "map dn_id ?t = map dn_id (id_bindings db)" "map dn_auth_session_id ?t = map dn_auth_session_id (id_bindings db)"
    by (simp_all add: map_tbl_update_same)
  moreover have "all_kept binding_kept (id_bindings db) ?t" by (rule all_kept_update) (simp_all add: binding_kept_def)
  ultimately show ?thesis
    by (simp add: close_bindings_def identity_moved_def rows_kept_def all_kept_refl identity_ok_def closed_open_pairs)
qed

lemma insert_binding_moved:
  assumes "insert_binding q i now db = Inr (inserted, db')"
  shows "identity_moved db db'"
proof (cases inserted)
  case True
  let ?r = "\<lparr>dn_id = i, dn_device_id = bq_device_id q, dn_account_id = bq_account_id q, dn_profile_id = bq_profile_id q,
    dn_auth_session_id = bq_auth_session_id q, dn_opened_at = now, dn_closed_at = None\<rparr>"
  have db': "db' = db\<lparr>id_bindings := id_bindings db @ [?r]\<rparr>"
    and none: "\<not> list_ex (pair_open (bq_device_id q) (bq_profile_id q)) (id_bindings db)"
    and fresh: "i \<notin> dn_id ` set (id_bindings db)" "bq_auth_session_id q \<notin> dn_auth_session_id ` set (id_bindings db)"
    using assms True by (auto simp: insert_binding_def list_ex_iff split: if_splits)
  have "(bq_device_id q, bq_profile_id q) \<notin> open_pair ` set (filter (\<lambda>r. dn_closed_at r = None) (id_bindings db))"
    using none by (auto simp: list_ex_iff pair_open_def open_pair_def)
  then show ?thesis
    by (simp add: db' identity_moved_def rows_kept_def all_kept_refl all_kept_append identity_ok_def fresh open_pair_def)
next
  case False
  with assms show ?thesis by (auto simp: insert_binding_def split: if_splits)
qed

lemma bind_attempts_moved: "bind_attempts q now replaced ids db = Inr (n, db') \<Longrightarrow> identity_moved db db'"
proof (induction ids arbitrary: replaced db)
  case (Cons i ids)
  let ?found = "pair_open (bq_device_id q) (bq_profile_id q)"
  let ?closed = "db\<lparr>id_bindings := tbl_update ?found (\<lambda>r. r\<lparr>dn_closed_at := Some now\<rparr>) (id_bindings db)\<rparr>"
  from Cons.prems obtain inserted db1 where ins: "insert_binding q i now ?closed = Inr (inserted, db1)"
    and rest: "(if inserted then Inr (\<lparr>bn_device_session_id = i,
        bn_replaced_auth_session_ids = replaced @ map dn_auth_session_id (filter ?found (id_bindings db))\<rparr>, db1)
      else bind_attempts q now (replaced @ map dn_auth_session_id (filter ?found (id_bindings db))) ids db1) = Inr (n, db')"
    by (auto simp: Let_def bindE_eq_Inr)
  have closed: "identity_moved db db1"
    using close_bindings_moved [of db ?found now] insert_binding_moved [OF ins]
    by (auto simp: close_bindings_def intro: identity_moved_trans)
  show ?case
  proof (cases inserted)
    case True
    with rest closed show ?thesis by simp
  next
    case False
    with rest have "identity_moved db1 db'" by (auto intro: Cons.IH)
    with closed show ?thesis by (rule identity_moved_trans)
  qed
qed simp

lemma bind_session_moved: "bind_session q now ids db = Inr (n, db') \<Longrightarrow> identity_moved db db'"
  unfolding bind_session_def by (rule bind_attempts_moved)

lemma establish_moved: "establish opened device p now ids db = Inr (z, db') \<Longrightarrow> identity_moved db db'"
  unfolding establish_def by (auto simp: bindE_eq_Inr dest: bind_session_moved)

section \<open>Transactions\<close>

lemma moved_through:
  assumes "identity_moved a b" and "identity_moved b c" and "identity_moved c d"
  shows "identity_moved a d"
  using assms by (blast intro: identity_moved_trans)

lemma sign_in_bind_moved: "sign_in_bind e account p opened x now db = Inr (z, db') \<Longrightarrow> identity_moved db db'"
  unfolding sign_in_bind_def
  by (auto simp: bindE_eq_Inr intro: moved_through [OF default_profile_moved device_for_moved establish_moved])

lemma reissue_bind_moved: "reissue_bind e kept p opened x now db = Inr (z, db') \<Longrightarrow> identity_moved db db'"
  unfolding reissue_bind_def
  by (auto simp: bindE_eq_Inr split: if_splits
      intro: identity_moved_trans [OF default_profile_moved establish_moved]
        moved_through [OF device_for_moved default_profile_moved establish_moved])

lemma bind_sign_up_moved: "bind_sign_up e x body p opened now db = Inr (z, db') \<Longrightarrow> identity_moved db db'"
  unfolding bind_sign_up_def
  by (auto simp: bindE_eq_Inr intro: moved_through [OF default_profile_moved device_for_moved establish_moved])

lemma insert_account_moved: "insert_account e account body now bytes db = Inr (h, db') \<Longrightarrow> identity_moved db db'"
proof (induction bytes)
  case (Cons x bytes)
  then show ?case
    by (auto simp: Let_def identity_moved_def rows_kept_def all_kept_refl all_kept_append identity_ok_def list_ex_iff
        account_conflicts_def split: if_splits)
qed simp

text \<open>Links: the earlier ones spent, the new one added.\<close>

lemma update_links_moved:
  assumes "\<And>l. p l \<Longrightarrow> link_kept l (f l)"
  shows "identity_moved db (db\<lparr>id_links := tbl_update p f (id_links db)\<rparr>)"
proof -
  have ids: "map ev_token_hash (tbl_update p f (id_links db)) = map ev_token_hash (id_links db)"
    by (rule map_tbl_update_same) (use assms in \<open>auto simp: link_kept_def\<close>)
  show ?thesis
    using assms by (simp add: identity_moved_def rows_kept_def all_kept_refl all_kept_update identity_ok_def ids)
qed

lemma issue_link_moved:
  assumes "issue_link e account email locale token tp now db = Inr db'"
  shows "identity_moved db db'"
proof -
  let ?spent = "db\<lparr>id_links := tbl_update (\<lambda>l. ev_account_id l = account \<and> ev_used_at l = None)
    (\<lambda>l. l\<lparr>ev_used_at := Some now\<rparr>) (id_links db)\<rparr>"
  let ?l = "\<lparr>ev_token_hash = sha256 e token, ev_account_id = account, ev_email = email,
    ev_expires_at = now + verification_link_lifetime_hours e * 3600000, ev_used_at = None\<rparr>"
  let ?row = "requested_row account now email locale token (now + verification_link_lifetime_hours e * 3600000) tp"
  have none: "\<not> list_ex (\<lambda>l. ev_token_hash l = sha256 e token) (id_links ?spent)"
    and db': "db' = write_identity_event ?row (?spent\<lparr>id_links := id_links ?spent @ [?l]\<rparr>)"
    using assms by (simp_all add: issue_link_def Let_def split: if_splits)
  have fresh: "ev_token_hash ?l \<notin> ev_token_hash ` set (id_links ?spent)"
    using none unfolding list_ex_iff by (metis (mono_tags, lifting) email_verification_row.select_convs(1) imageE)
  have "identity_moved db ?spent" by (rule update_links_moved) (simp add: link_kept_def)
  moreover have "identity_moved ?spent (?spent\<lparr>id_links := id_links ?spent @ [?l]\<rparr>)"
    using fresh by (simp only: set_map [symmetric]) (simp del: set_map add: identity_moved_def rows_kept_def all_kept_refl all_kept_append identity_ok_def)
  ultimately show ?thesis unfolding db' by (blast intro: identity_moved_trans write_identity_event_moved)
qed

lemma register_account_moved: "register_account e x body tp now db = Inr (h, db') \<Longrightarrow> identity_moved db db'"
  unfolding register_account_def
  by (auto simp: bindE_eq_Inr intro: moved_through [OF insert_account_moved write_identity_event_moved issue_link_moved])

lemma sign_up_command_moved: "sign_up_command e x body p tp now opening db = Inr (z, db') \<Longrightarrow> identity_moved db db'"
  unfolding sign_up_command_def
  by (auto simp: bindE_eq_Inr intro: identity_moved_trans [OF register_account_moved bind_sign_up_moved])

lemma resend_in_moved: "resend_in e account token tp now db = Inr (a, db') \<Longrightarrow> identity_moved db db'"
  unfolding resend_in_def by (auto simp: bindE_eq_Inr split: option.splits if_splits intro: issue_link_moved)

lemma confirm_in_moved:
  assumes "confirm_in e token now db = Inr (a, db')"
  shows "identity_moved db db'"
proof -
  let ?links = "db\<lparr>id_links := tbl_update (link_open e token now db) (\<lambda>l. l\<lparr>ev_used_at := Some now\<rparr>) (id_links db)\<rparr>"
  obtain account where db': "db' = ?links\<lparr>id_accounts := tbl_update (\<lambda>a. ac_id a = account \<and> ac_email_verified_at a = None)
      (\<lambda>a. a\<lparr>ac_email_verified_at := Some now\<rparr>) (id_accounts db)\<rparr>"
    using assms by (auto simp: confirm_in_def split: option.splits)
  let ?accounts = "tbl_update (\<lambda>a. ac_id a = account \<and> ac_email_verified_at a = None)
    (\<lambda>a. a\<lparr>ac_email_verified_at := Some now\<rparr>) (id_accounts db)"
  have "identity_moved db ?links" by (rule update_links_moved) (simp add: link_kept_def)
  moreover have "map ac_id ?accounts = map ac_id (id_accounts db)" by (simp add: map_tbl_update_same)
  moreover have "all_kept account_kept (id_accounts db) ?accounts" by (rule all_kept_update) (simp_all add: account_kept_def)
  ultimately have "identity_moved db ?links" "identity_moved ?links db'"
    unfolding db' by (simp_all add: identity_moved_def rows_kept_def all_kept_refl identity_ok_def)
  then show ?thesis by (rule identity_moved_trans)
qed

lemma fold_write_moved:
  "identity_moved db (fold (\<lambda>b. record_device_session_closed b act now) bs db)"
proof (induction bs arbitrary: db)
  case (Cons b bs)
  have "identity_moved db (record_device_session_closed b act now db)"
    unfolding record_device_session_closed_def by (rule write_identity_event_moved)
  with Cons.IH show ?case by (auto intro: identity_moved_trans)
qed auto

lemma revoke_device_in_moved:
  assumes "revoke_device_in sessions wall device act now db = Inr (closed, db')"
  shows "identity_moved db db'"
proof -
  let ?own = "\<lambda>r. dn_device_id r = device \<and> dn_account_id r = ad_account_id act \<and> dn_closed_at r = None"
  let ?closed = "fst (close_bindings ?own now db)"
  let ?db1 = "snd (close_bindings ?own now db)"
  let ?db2 = "fold (\<lambda>b. record_device_session_closed b act now) ?closed ?db1"
  obtain d :: device_row where db': "db' = (if still_held sessions wall device ?db2 then ?db2
      else record_device_revoked device (ad_account_id act) (dv_kind d) act now
        (?db2\<lparr>id_devices := tbl_update (\<lambda>r. dv_id r = device) (\<lambda>r. r\<lparr>dv_revoked_at := Some now\<rparr>) (id_devices ?db2)\<rparr>))"
  proof (cases "tbl_find dv_id device (id_devices db)")
    case None
    with assms show ?thesis by (simp add: revoke_device_in_def)
  next
    case (Some d)
    with assms have "Inr (closed, db') = (Inr (?closed, if still_held sessions wall device ?db2 then ?db2
      else record_device_revoked device (ad_account_id act) (dv_kind d) act now
        (?db2\<lparr>id_devices := tbl_update (\<lambda>r. dv_id r = device) (\<lambda>r. r\<lparr>dv_revoked_at := Some now\<rparr>) (id_devices ?db2)\<rparr>))
        :: (closed_binding list \<times> identity_db) result)"
      unfolding revoke_device_in_def Let_def case_prod_beta by (auto split: if_splits)
    then show ?thesis by (intro that) simp
  qed
  have "identity_moved db ?db2" by (rule identity_moved_trans [OF close_bindings_moved fold_write_moved])
  moreover have "identity_moved ?db2 (?db2\<lparr>id_devices := tbl_update (\<lambda>r. dv_id r = device) (\<lambda>r. r\<lparr>dv_revoked_at := Some now\<rparr>)
      (id_devices ?db2)\<rparr>)"
    by (rule update_devices_moved) (simp add: device_kept_def)
  ultimately show ?thesis
    unfolding db' record_device_revoked_def by (auto intro: identity_moved_trans write_identity_event_moved)
qed

lemma close_session_in_moved: "close_session_in i act now db = Inr (c, db') \<Longrightarrow> identity_moved db db'"
  unfolding close_session_in_def record_device_session_closed_def
  by (auto split: option.splits if_splits intro: identity_moved_trans [OF close_bindings_moved write_identity_event_moved])

lemma sign_out_in_moved: "identity_moved db (sign_out_in i account surf tp now db)"
  using close_bindings_moved [of db "\<lambda>r. dn_auth_session_id r = i \<and> dn_closed_at r = None" now]
  unfolding sign_out_in_def record_device_session_closed_def
  by (auto simp: Let_def split: prod.splits list.splits intro: identity_moved_trans write_identity_event_moved)

text \<open>Under a key, a command moves the tables as it does alone, or is replayed and moves nothing.\<close>

lemma under_key_cases:
  assumes "under_key k q command db = Inr (answer, db')"
  obtains (replayed) "mr_replayed answer" "db' = db"
  | (fresh) a db1 records where "\<not> mr_replayed answer" "command db = Inr (a, db1)" "sv_data (mr_envelope answer) = a"
      "db' = db1\<lparr>id_records := records\<rparr>"
proof -
  obtain records db1 where run: "run_idempotently (ca_lock_timeout k) (ca_wall k) q (ca_now k) command (id_records db, db)
      = Inr (answer, records, db1)" and db': "db' = db1\<lparr>id_records := records\<rparr>"
    using assms by (auto simp: under_key_def bindE_eq_Inr)
  note run = run [unfolded run_idempotently_def]
  show thesis
  proof (cases "mr_replayed answer")
    case True
    with run_enveloped_replayed(1,2) [OF run] db' show thesis by (intro replayed) simp_all
  next
    case False
    with run_enveloped_fresh(3) [OF run] obtain a where "command db = Inr (a, db1)"
        "mr_envelope answer = \<lparr>sv_served_at = ca_now k, sv_version = None, sv_data = a\<rparr>"
      by (auto simp: bindE_eq_Inr)
    with False db' show thesis by (intro fresh [of a]) simp_all
  qed
qed

lemma under_key_moved:
  assumes "under_key k q command db = Inr (answer, db')"
    and "\<And>a db1. command db = Inr (a, db1) \<Longrightarrow> identity_moved db db1"
  shows "identity_moved db db'"
  using assms(1)
proof (cases rule: under_key_cases)
  case (fresh a db1 records)
  have "identity_moved db1 db'" by (rule identity_moved_same) (simp_all add: fresh)
  with assms(2) [OF fresh(2)] show ?thesis by (rule identity_moved_trans)
qed auto

section \<open>The system\<close>

text \<open>One step per committed transaction; the purge forgets the answers kept past their life.\<close>

inductive identity_step :: "identity_env \<Rightarrow> identity_db \<Rightarrow> identity_db \<Rightarrow> bool" for e where
  signed_up: "under_key k q (\<lambda>db. bindE (sign_up_command e x body p tp (ca_now k) opening db)
      (\<lambda>(issued, db'). Inr (sign_up_record issued, db'))) db = Inr (r, db') \<Longrightarrow> identity_step e db db'"
| signed_in: "sign_in_bind e account p opened x now db = Inr (z, db') \<Longrightarrow> identity_step e db db'"
| reissued: "reissue_bind e kept p opened x now db = Inr (z', db') \<Longrightarrow> identity_step e db db'"
| link_resent: "resend_link e k account token tp q db = Inr (r, db') \<Longrightarrow> identity_step e db db'"
| link_confirmed: "confirm_link e k token q db = Inr (r, db') \<Longrightarrow> identity_step e db db'"
| device_revoked: "under_key k q (\<lambda>db. bindE (revoke_device_in sessions wall device act now db)
      (\<lambda>(_, db'). Inr (Device_Revoked_Answer, db'))) db = Inr (r, db') \<Longrightarrow> identity_step e db db'"
| session_closed: "under_key k q (\<lambda>db. bindE (close_session_in i act now db)
      (\<lambda>(_, db'). Inr (Session_Closed_Answer, db'))) db = Inr (r, db') \<Longrightarrow> identity_step e db db'"
| signed_out: "identity_step e db (sign_out_in i account surf tp now db)"
| records_purged: "identity_step e db (db\<lparr>id_records := snd (purge_idempotency_records at (id_records db))\<rparr>)"

lemma identity_step_moved: "identity_step e db db' \<Longrightarrow> identity_moved db db'"
proof (induction rule: identity_step.induct)
  case (link_resent k account token tp q db r db')
  then show ?case unfolding resend_link_def by (rule under_key_moved) (rule resend_in_moved)
next
  case (link_confirmed k token q db r db')
  then show ?case unfolding confirm_link_def by (rule under_key_moved) (rule confirm_in_moved)
next
  case (records_purged db at)
  show ?case by (rule identity_moved_same) simp_all
qed (auto elim!: under_key_moved simp: bindE_eq_Inr
    intro: sign_up_command_moved sign_in_bind_moved reissue_bind_moved revoke_device_in_moved close_session_in_moved sign_out_in_moved)

definition no_identity :: identity_db where
  "no_identity = \<lparr>id_accounts = [], id_links = [], id_profiles = [], id_devices = [], id_bindings = [], id_outbox = [],
     id_records = []\<rparr>"

lemma no_identity_ok: "identity_ok no_identity"
  by (simp add: no_identity_def identity_ok_def)

interpretation identity: invariant_system "\<lambda>db. db = no_identity" "identity_step e" identity_ok for e
  by unfold_locales (auto dest: identity_step_moved simp: identity_moved_def no_identity_ok)

lemma identity_reachable_ok: "(identity_step e)\<^sup>*\<^sup>* no_identity db \<Longrightarrow> identity_ok db"
  by (rule identity.reachable_inv [OF refl])

lemma identity_runs_kept: "(identity_step e)\<^sup>*\<^sup>* db db' \<Longrightarrow> identity_moved db db'"
  by (induction rule: rtranclp_induct) (auto intro: identity_moved_trans identity_step_moved)

section \<open>The flows\<close>

text \<open>
  The flows over both stores commit nothing of identity's but the steps of \<open>Identity_System\<close>: what they answer,
  refuse or fail at leaves tables that a run of steps reaches.
\<close>

lemma flow_steps: "(identity_step e)\<^sup>*\<^sup>* db (fst (snd flow)) \<Longrightarrow> flow = (r, db', st') \<Longrightarrow> (identity_step e)\<^sup>*\<^sup>* db db'"
  by simp

lemma revoke_session_steps: "(identity_step e)\<^sup>*\<^sup>* db (fst (revoke_session b k token out db st))"
proof (cases "token = []")
  case False
  obtain x st' where "ba_session b (ca_wall k) token st = (x, st')" by fastforce
  with False show ?thesis
    by (cases x) (auto simp: revoke_session_def intro!: r_into_rtranclp signed_out)
qed (simp add: revoke_session_def)

lemma bind_in_transaction_steps:
  assumes "\<And>z db1. binding db = Inr (z, db1) \<Longrightarrow> identity_step e db db1"
  shows "(identity_step e)\<^sup>*\<^sup>* db (fst (snd (bind_in_transaction b k rf ff opened binding db st)))"
proof (cases "binding db")
  case (Inl f)
  then show ?thesis using revoke_session_steps [of e db b k "os_token opened" UNTRACED_SIGN_OUT st]
    by (cases "revoke_session b k (os_token opened) UNTRACED_SIGN_OUT db st") (simp add: bind_in_transaction_def)
next
  case (Inr y)
  then show ?thesis using assms by (cases y) (auto simp: bind_in_transaction_def split: prod.splits)
qed

lemma reissue_fresh_steps:
  "(identity_step e)\<^sup>*\<^sup>* db (fst (snd (reissue_fresh e b k rf ff kept p x db st)))"
proof -
  obtain fresh st1 where create: "ba_create_session b (ca_wall k) (rv_account_id kept) st = (fresh, st1)" by fastforce
  obtain got st2 where opened: "opened_by_token b (ca_wall k) (signed_token e (as_token fresh)) st1 = (got, st2)" by fastforce
  have "(identity_step e)\<^sup>*\<^sup>* db (fst (snd (bind_in_transaction b k rf ff y (reissue_bind e kept p y x (ca_now k)) db st2)))" for y
    by (rule bind_in_transaction_steps) (use identity_step.reissued in blast)
  with create opened show ?thesis by (cases got) (auto simp: reissue_fresh_def split: prod.split intro: flow_steps)
qed

lemma reissue_steps: "(identity_step e)\<^sup>*\<^sup>* db (fst (snd (reissue e b k rf ff kept p x db st)))"
  unfolding reissue_def using reissue_fresh_steps [of e db b k rf ff kept p x] by (auto split: option.split prod.split)

lemma sign_in_steps: "(identity_step e)\<^sup>*\<^sup>* db (fst (snd (sign_in e b k rf ff email password p x db st)))"
proof -
  have bind: "(identity_step e)\<^sup>*\<^sup>* db (fst (snd (bind_in_transaction b k rf ff y (sign_in_bind e u p y x (ca_now k)) db st2)))" for u y st2
    by (rule bind_in_transaction_steps) (use identity_step.signed_in in blast)
  have "(identity_step e)\<^sup>*\<^sup>* db (fst (snd (sign_in_opened e b k rf ff a password token p x db s)))" for a token s
    using bind unfolding sign_in_opened_def by (auto split: sum.split prod.split simp: Let_def intro: flow_steps)
  then show ?thesis unfolding sign_in_def by (auto split: sum.split prod.split option.split auth_error.split intro: revoke_session_steps)
qed

lemma answered_sign_up_steps:
  "(identity_step e)\<^sup>*\<^sup>* db (fst (snd (answered_sign_up e b k m p x issued answer db st)))"
  unfolding answered_sign_up_def
  by (auto split: identity_answer.split option.split prod.split simp: Let_def intro: flow_steps [OF reissue_steps])

lemma sign_up_tables:
  assumes "sign_up e b k m body p x tp q db st = (r, db', st')"
  obtains "db' = db"
  | start answer db1 issued st1 got st2 where
      "under_key k q (\<lambda>db. bindE (sign_up_command e x body p tp (ca_now k) start db)
         (\<lambda>(issued, db'). Inr (sign_up_record issued, db'))) db = Inr (answer, db1)"
      "answered_sign_up e b k m p x issued (sv_data (mr_envelope answer)) db1 st1 = (got, db', st2)"
proof -
  obtain start born st1 where opens: "(if reaches_credential e k x body tp q db then open_credential b k x body st
      else (Inl (Plain_Error ''not called''), False, st)) = (start, born, st1)" by (metis prod_cases3)
  let ?keyed = "under_key k q (\<lambda>db. bindE (sign_up_command e x body p tp (ca_now k) start db)
      (\<lambda>(issued, db'). Inr (sign_up_record issued, db'))) db"
  note run = assms [unfolded sign_up_def opens Let_def case_prod_conv]
  show thesis
  proof (cases "bindE ?keyed (\<lambda>r. if mi_commit_fails m then Inl (Plain_Error ''commit'') else Inr r)")
    case (Inl f)
    with run show thesis by (intro that(1)) simp
  next
    case committed: (Inr y)
    obtain answer db1 where y: "y = (answer, db1)" by (cases y)
    with committed have keyed: "?keyed = Inr (answer, db1)" by (auto simp: bindE_eq_Inr split: if_splits)
    let ?issued = "if mr_replayed answer then None
      else case sign_up_command e x body p tp (ca_now k) start db of Inr (i, _) \<Rightarrow> Some i | Inl _ \<Rightarrow> None"
    obtain got db2 st2 where answered: "answered_sign_up e b k m p x ?issued (sv_data (mr_envelope answer)) db1 st1 = (got, db2, st2)"
      by (metis prod_cases3)
    from run have "db' = db2" by (cases got) (simp_all add: committed y answered)
    with keyed answered show thesis by (intro that(2)) simp_all
  qed
qed

lemma sign_up_steps: "(identity_step e)\<^sup>*\<^sup>* db (fst (snd (sign_up e b k m body p x tp q db st)))"
proof -
  obtain r db' st' where run: "sign_up e b k m body p x tp q db st = (r, db', st')" by (metis prod_cases3)
  from run have "(identity_step e)\<^sup>*\<^sup>* db db'"
  proof (cases rule: sign_up_tables)
    case (2 start answer db1 issued st1 got st2)
    show ?thesis
      using r_into_rtranclp [of "identity_step e", OF identity_step.signed_up [OF 2(1)]] flow_steps [OF answered_sign_up_steps 2(2)]
      by (rule rtranclp_trans)
  qed simp
  with run show ?thesis by simp
qed

lemma revoke_device_once_steps: "(identity_step e)\<^sup>*\<^sup>* db (fst (snd (revoke_device_once b k fails device act q db st)))"
  unfolding revoke_device_once_def by (auto split: sum.split prod.split intro!: r_into_rtranclp device_revoked)

lemma close_session_once_steps: "(identity_step e)\<^sup>*\<^sup>* db (fst (snd (close_session_once b k fails i act q db st)))"
  unfolding close_session_once_def by (auto split: sum.split prod.split intro!: r_into_rtranclp session_closed)

end
