(* ===== verification/Identity_Props.thy ===== *)
theory Identity_Props
  imports Identity_System
begin

text \<open>
  What identity's transactions make of a session and of a link: a session ended never resolves again, an account
  never ends another's, a link verifies its address once.
\<close>

section \<open>Bindings\<close>

text \<open>The row a token resolved through.\<close>

lemma resolved_binding:
  assumes "resolve_session b wall token db st = (Some v, st')"
  obtains x r where "token \<noteq> []" "ba_session b wall token st = (Some x, st')" "r \<in> set (id_bindings db)"
    "dn_auth_session_id r = as_id x" "dn_closed_at r = None" "dn_id r = rv_device_session_id v"
    "dn_device_id r = rv_device_id v" "dn_account_id r = rv_account_id v" "dn_profile_id r = sy_id (rv_profile v)"
    "as_user_id x = rv_account_id v"
    "list_ex (\<lambda>a. ac_id a = rv_account_id v \<and> ac_status a \<in> set SIGNING_IN_STATUSES) (id_accounts db)"
proof -
  have token: "token \<noteq> []" using assms by (auto simp: resolve_session_def)
  obtain x s where x: "ba_session b wall token st = (Some x, s)"
    using assms token by (auto simp: resolve_session_def split: prod.splits option.splits)
  with assms token obtain r p a where binding: "open_binding (as_id x) (as_user_id x) db = Some (r, p, a)" and s: "s = st'"
    and v: "v = \<lparr>rv_account_id = as_user_id x, rv_device_id = dn_device_id r, rv_device_session_id = dn_id r,
      rv_expires_at = as_expires_at x, rv_profile = summary_of p, rv_account = viewer_account_of a\<rparr>"
    by (auto simp: resolve_session_def)
  have r: "find (\<lambda>r. dn_auth_session_id r = as_id x \<and> dn_closed_at r = None) (id_bindings db) = Some r"
    and p: "tbl_find pf_id (dn_profile_id r) (id_profiles db) = Some p"
    and a: "find (\<lambda>a. ac_id a = dn_account_id r \<and> ac_id a = as_user_id x \<and> ac_status a \<in> set SIGNING_IN_STATUSES)
      (id_accounts db) = Some a"
    using binding by (auto simp: open_binding_def bind_eq_Some_conv)
  have row: "r \<in> set (id_bindings db)" "dn_auth_session_id r = as_id x" "dn_closed_at r = None"
    using r by (auto simp: find_Some_iff)
  have account: "a \<in> set (id_accounts db)" "ac_id a = dn_account_id r" "ac_id a = as_user_id x" "ac_status a \<in> set SIGNING_IN_STATUSES"
    using a by (auto simp: find_Some_iff)
  have "list_ex (\<lambda>a. ac_id a = as_user_id x \<and> ac_status a \<in> set SIGNING_IN_STATUSES) (id_accounts db)"
    using account unfolding list_ex_iff by blast
  moreover have "pf_id p = dn_profile_id r" using tbl_find_SomeD [OF p] by simp
  ultimately show thesis
    using x [unfolded s] row account token by (intro that [of x r]) (simp_all add: v summary_of_def)
qed

text \<open>A binding ended by a transaction, as its row.\<close>

definition binding_ended :: "device_session_row \<Rightarrow> identity_db \<Rightarrow> bool" where
  "binding_ended r db \<longleftrightarrow> (\<exists>r' \<in> set (id_bindings db). binding_kept r r' \<and> dn_closed_at r' \<noteq> None)"

lemma binding_ended_kept:
  assumes "binding_ended r db" and "identity_moved db db'"
  shows "binding_ended r db'"
proof -
  obtain r' where r': "r' \<in> set (id_bindings db)" "binding_kept r r'" "dn_closed_at r' \<noteq> None"
    using assms(1) by (auto simp: binding_ended_def)
  obtain r'' where r'': "r'' \<in> set (id_bindings db')" "binding_kept r' r''"
    using assms(2) r'(1) unfolding identity_moved_def rows_kept_def all_kept_def by blast
  have "binding_kept r r''" by (rule kept_trans(1) [OF r'(2) r''(2)])
  moreover have "dn_closed_at r'' \<noteq> None" using r'(3) r''(2) by (simp add: binding_kept_def)
  ultimately show ?thesis using r''(1) unfolding binding_ended_def by blast
qed

lemma close_bindings_ended:
  assumes "r \<in> set (id_bindings db)" and "p r"
  shows "binding_ended r (snd (close_bindings p now db))"
proof -
  have "r\<lparr>dn_closed_at := Some now\<rparr> \<in> set (id_bindings (snd (close_bindings p now db)))"
    using assms by (auto simp: close_bindings_def set_tbl_update image_iff)
  then show ?thesis unfolding binding_ended_def by (rule bexI [rotated]) (simp add: binding_kept_def)
qed

lemma ended_binding_unresolved:
  assumes "binding_ended r db" and "identity_ok db"
  shows "open_binding (dn_auth_session_id r) account db = None"
proof -
  obtain r' where r': "r' \<in> set (id_bindings db)" "dn_auth_session_id r' = dn_auth_session_id r" "dn_closed_at r' \<noteq> None"
    using assms(1) by (auto simp: binding_ended_def binding_kept_def)
  have same: "x = r'" if "x \<in> set (id_bindings db)" "dn_auth_session_id x = dn_auth_session_id r" for x
    using identity_okD(5) [OF assms(2)] that r' unfolding distinct_map inj_on_def by simp
  have "find (\<lambda>x. dn_auth_session_id x = dn_auth_session_id r \<and> dn_closed_at x = None) (id_bindings db) = None"
  proof (unfold find_None_iff, rule notI, elim exE conjE)
    fix x assume x: "x \<in> set (id_bindings db)" "dn_auth_session_id x = dn_auth_session_id r" and "dn_closed_at x = None"
    with r'(3) same [OF x] show False by simp
  qed
  then show ?thesis by (simp add: open_binding_def)
qed

section \<open>The acts that end a session\<close>

lemma recorded_bindings [simp]:
  "id_bindings (write_identity_event row db) = id_bindings db" "id_accounts (write_identity_event row db) = id_accounts db"
  "id_bindings (fold (\<lambda>b. record_device_session_closed b act now) bs db) = id_bindings db"
  "id_accounts (fold (\<lambda>b. record_device_session_closed b act now) bs db) = id_accounts db"
  "id_profiles (fold (\<lambda>b. record_device_session_closed b act now) bs db) = id_profiles db"
  "id_devices (fold (\<lambda>b. record_device_session_closed b act now) bs db) = id_devices db"
  "id_profiles (write_identity_event row db) = id_profiles db" "id_devices (write_identity_event row db) = id_devices db"
proof -
  show "id_bindings (fold (\<lambda>b. record_device_session_closed b act now) bs db) = id_bindings db"
    "id_accounts (fold (\<lambda>b. record_device_session_closed b act now) bs db) = id_accounts db"
    "id_profiles (fold (\<lambda>b. record_device_session_closed b act now) bs db) = id_profiles db"
    "id_devices (fold (\<lambda>b. record_device_session_closed b act now) bs db) = id_devices db"
    by (induction bs arbitrary: db) (simp_all add: record_device_session_closed_def write_identity_event_def)
qed (simp_all add: write_identity_event_def)

lemma closed_tables [simp]:
  "id_devices (snd (close_bindings p now db)) = id_devices db" "id_profiles (snd (close_bindings p now db)) = id_profiles db"
  "id_accounts (snd (close_bindings p now db)) = id_accounts db"
  "id_bindings (snd (close_bindings p now db)) = tbl_update p (\<lambda>r. r\<lparr>dn_closed_at := Some now\<rparr>) (id_bindings db)"
  by (simp_all add: close_bindings_def)

lemma revoke_device_in_Inr:
  assumes "revoke_device_in sessions wall device act now db = Inr (closed, db')"
  obtains d where "tbl_find dv_id device (id_devices db) = Some d" "dv_revoked_at d = None"
    "closed = map closed_binding_of (filter (\<lambda>r. dn_device_id r = device \<and> dn_account_id r = ad_account_id act \<and> dn_closed_at r = None)
      (id_bindings db))" "closed \<noteq> []"
    "db' = (let db2 = fold (\<lambda>b. record_device_session_closed b act now) closed
        (snd (close_bindings (\<lambda>r. dn_device_id r = device \<and> dn_account_id r = ad_account_id act \<and> dn_closed_at r = None) now db))
      in if still_held sessions wall device db2 then db2
         else record_device_revoked device (ad_account_id act) (dv_kind d) act now
           (db2\<lparr>id_devices := tbl_update (\<lambda>r. dv_id r = device) (\<lambda>r. r\<lparr>dv_revoked_at := Some now\<rparr>) (id_devices db2)\<rparr>))"
proof (cases "tbl_find dv_id device (id_devices db)")
  case None
  with assms show thesis by (simp add: revoke_device_in_def)
next
  case (Some d)
  with assms that [OF Some] show thesis
    unfolding revoke_device_in_def Let_def case_prod_beta by (auto simp: close_bindings_def split: if_splits)
qed

lemma revoked_bindings:
  assumes "revoke_device_in sessions wall device act now db = Inr (closed, db')"
  shows "id_bindings db' = id_bindings (snd (close_bindings
    (\<lambda>r. dn_device_id r = device \<and> dn_account_id r = ad_account_id act \<and> dn_closed_at r = None) now db))"
  using assms by (elim revoke_device_in_Inr) (auto simp: Let_def record_device_revoked_def)

lemma bind_session_closes:
  assumes "bind_session q now ids db = Inr (n, db')"
  shows "identity_moved (snd (close_bindings (pair_open (bq_device_id q) (bq_profile_id q)) now db)) db'"
proof (cases "List.take BIND_ATTEMPTS ids")
  case Nil
  with assms show ?thesis by (simp add: bind_session_def)
next
  case (Cons i rest)
  let ?closed = "snd (close_bindings (pair_open (bq_device_id q) (bq_profile_id q)) now db)"
  from assms Cons obtain inserted db1 replaced where ins: "insert_binding q i now ?closed = Inr (inserted, db1)"
    and rest: "(if inserted then Inr (n, db1) else bind_attempts q now replaced rest db1) = Inr (n, db')"
    by (auto simp: bind_session_def close_bindings_def Let_def bindE_eq_Inr split: if_splits)
  have "identity_moved ?closed db1" by (rule insert_binding_moved [OF ins])
  moreover have "identity_moved db1 db'"
    using rest by (cases inserted) (auto dest: bind_attempts_moved)
  ultimately show ?thesis by (rule identity_moved_trans)
qed

text \<open>The four acts: signing out, revoking the device, closing the session, signing the profile in again on it.\<close>

definition ends_session ::
    "'s auth_api \<Rightarrow> string \<Rightarrow> resolved_viewer \<Rightarrow> identity_db \<Rightarrow> identity_db \<Rightarrow> bool" where
  "ends_session b token v db db' \<longleftrightarrow>
     (\<exists>k st x st' out. ba_session b (ca_wall k) token st = (Some x, st') \<and> db' = fst (revoke_session b k token out db st)) \<or>
     (\<exists>sessions wall act now closed. ad_account_id act = rv_account_id v \<and>
        revoke_device_in sessions wall (rv_device_id v) act now db = Inr (closed, db')) \<or>
     (\<exists>act now c. close_session_in (rv_device_session_id v) act now db = Inr (c, db')) \<or>
     (\<exists>q now ids n. bq_device_id q = rv_device_id v \<and> bq_profile_id q = sy_id (rv_profile v) \<and>
        bind_session q now ids db = Inr (n, db'))"

lemma sign_out_ends:
  assumes "r \<in> set (id_bindings db)" and "dn_closed_at r = None"
  shows "binding_ended r (sign_out_in (dn_auth_session_id r) account surf tp now db)"
proof -
  let ?p = "\<lambda>x. dn_auth_session_id x = dn_auth_session_id r \<and> dn_closed_at x = None"
  have "filter ?p (id_bindings db) \<noteq> []" using assms by (auto simp: filter_empty_conv)
  then have "id_bindings (sign_out_in (dn_auth_session_id r) account surf tp now db) = id_bindings (snd (close_bindings ?p now db))"
    by (auto simp: sign_out_in_def close_bindings_def record_device_session_closed_def Let_def split: list.splits)
  moreover have "binding_ended r (snd (close_bindings ?p now db))" using assms by (intro close_bindings_ended) simp_all
  ultimately show ?thesis by (simp add: binding_ended_def)
qed

lemma close_session_ends:
  assumes "close_session_in (dn_id r) act now db = Inr (c, db')" and "r \<in> set (id_bindings db)" and "dn_closed_at r = None"
    and "identity_ok db"
  shows "binding_ended r db'"
proof -
  have "tbl_find dn_id (dn_id r) (id_bindings db) = Some r"
    by (rule tbl_find_unique [OF identity_okD(4) [OF assms(4)] assms(2)])
  with assms(1,3) have "id_bindings db' = id_bindings (snd (close_bindings (\<lambda>x. dn_id x = dn_id r) now db))"
    by (auto simp: close_session_in_def record_device_session_closed_def split: if_splits)
  moreover have "binding_ended r (snd (close_bindings (\<lambda>x. dn_id x = dn_id r) now db))"
    using assms(2) by (intro close_bindings_ended) simp_all
  ultimately show ?thesis by (simp add: binding_ended_def)
qed

lemma session_ended:
  assumes "ends_session b token v db db'" and "identity_ok db" and "tokens_name_sessions b name"
    and live: "resolve_session b wall token db st = (Some v, st')"
  shows "\<exists>r. dn_auth_session_id r = name token \<and> binding_ended r db' \<and> identity_ok db'"
proof -
  obtain x r where token: "token \<noteq> []" and x: "ba_session b wall token st = (Some x, st')" and r: "r \<in> set (id_bindings db)"
    and row: "dn_auth_session_id r = as_id x" "dn_closed_at r = None" "dn_id r = rv_device_session_id v"
      "dn_device_id r = rv_device_id v" "dn_account_id r = rv_account_id v" "dn_profile_id r = sy_id (rv_profile v)"
    by (rule resolved_binding [OF live])
  have name: "dn_auth_session_id r = name token" using assms(3) x unfolding row(1) tokens_name_sessions_def by blast
  have moved: "binding_ended r db'" "identity_moved db db'" if "\<exists>db1. binding_ended r db1 \<and> identity_moved db db1 \<and> identity_moved db1 db'"
    using that by (blast intro: binding_ended_kept identity_moved_trans)+
  have "binding_ended r db' \<and> identity_moved db db'"
    using assms(1) unfolding ends_session_def
  proof (elim disjE exE conjE)
    fix k st y st' out assume y: "ba_session b (ca_wall k) token st = (Some y, st')" and db': "db' = fst (revoke_session b k token out db st)"
    have "as_id y = dn_auth_session_id r" using assms(3) y unfolding name tokens_name_sessions_def by blast
    then have "db' = sign_out_in (dn_auth_session_id r) (as_user_id y) (sx_surface out) (sx_traceparent out) (ca_now k) db"
      using y token by (simp add: db' revoke_session_def)
    then show ?thesis using sign_out_ends [OF r row(2)] sign_out_in_moved by simp
  next
    fix sessions wall act now closed
    assume own: "ad_account_id act = rv_account_id v"
      and run: "revoke_device_in sessions wall (rv_device_id v) act now db = Inr (closed, db')"
    have "binding_ended r (snd (close_bindings (\<lambda>r. dn_device_id r = rv_device_id v \<and> dn_account_id r = ad_account_id act \<and>
        dn_closed_at r = None) now db))"
      using row own by (intro close_bindings_ended [OF r]) simp
    then show ?thesis using revoked_bindings [OF run] revoke_device_in_moved [OF run] by (simp add: binding_ended_def)
  next
    fix act now c assume run: "close_session_in (rv_device_session_id v) act now db = Inr (c, db')"
    then show ?thesis using close_session_ends [of r act now db c db'] r row assms(2) close_session_in_moved [OF run] by simp
  next
    fix q now ids n assume q: "bq_device_id q = rv_device_id v" "bq_profile_id q = sy_id (rv_profile v)"
      and run: "bind_session q now ids db = Inr (n, db')"
    have "binding_ended r (snd (close_bindings (pair_open (bq_device_id q) (bq_profile_id q)) now db))"
      using row q by (intro close_bindings_ended [OF r]) (simp add: pair_open_def)
    then show ?thesis using bind_session_closes [OF run] bind_session_moved [OF run] by (blast intro: binding_ended_kept)
  qed
  with name assms(2) show ?thesis by (auto simp: identity_moved_def)
qed

text \<open>
  Property C16. A session ended is ended for good: once a viewer signs out, revokes the device, closes the
  session, or the profile signs in again on the device, its token resolves to nothing, whatever transactions
  identity commits after and whatever better-auth's store holds then.
\<close>

theorem ended_session_never_resolves:
  assumes "tokens_name_sessions b name" and "(identity_step e)\<^sup>*\<^sup>* no_identity db"
    and "resolve_session b wall token db st = (Some v, st')" and "ends_session b token v db db1"
    and "(identity_step e)\<^sup>*\<^sup>* db1 db2"
  shows "fst (resolve_session b wall2 token db2 st2) = None"
proof -
  obtain r where r: "dn_auth_session_id r = name token" "binding_ended r db1" "identity_ok db1"
    using session_ended [OF assms(4) identity_reachable_ok [OF assms(2)] assms(1,3)] by blast
  have moved: "identity_moved db1 db2" by (rule identity_runs_kept [OF assms(5)])
  then have "identity_ok db2" using r(3) by (simp add: identity_moved_def)
  from ended_binding_unresolved [OF binding_ended_kept [OF r(2) moved] this] r(1)
  have none: "open_binding (name token) account db2 = None" for account by simp
  have "as_id x = name token" if "ba_session b wall2 token st2 = (Some x, s)" for x s
    using assms(1) that unfolding tokens_name_sessions_def by blast
  with none show ?thesis by (auto simp: resolve_session_def split: prod.splits option.splits)
qed

section \<open>Another account's sessions\<close>

text \<open>What \<open>STILL_HELD_SQL\<close> reads of better-auth: a session it answers is in its table, of its user, unexpired.\<close>

definition sessions_in_table :: "'s auth_api \<Rightarrow> bool" where
  "sessions_in_table b \<longleftrightarrow> (\<forall>now token st x st'. ba_session b now token st = (Some x, st') \<longrightarrow>
     x \<in> set (ba_table b st') \<and> now < as_expires_at x)"

lemma find_SomeD: "find p t = Some x \<Longrightarrow> x \<in> set t \<and> p x"
  by (induction t) (auto split: if_splits)

lemma find_SomeI: "x \<in> set t \<Longrightarrow> p x \<Longrightarrow> \<exists>y. find p t = Some y"
  using find_None_iff [of p t] by (cases "find p t") simp_all

lemma find_unique:
  assumes "r \<in> set t" and "p r" and "\<And>x. x \<in> set t \<Longrightarrow> p x \<Longrightarrow> x = r"
  shows "find p t = Some r"
proof -
  obtain y where y: "find p t = Some y" using find_SomeI [of r t p] assms(1,2) by blast
  with assms(3) [of y] find_SomeD [OF y] show ?thesis by simp
qed

lemma open_binding_SomeD:
  assumes "open_binding i account db = Some (r, p, a)"
  shows "r \<in> set (id_bindings db)" "dn_auth_session_id r = i" "dn_closed_at r = None" "dn_account_id r = account"
    "\<exists>d \<in> set (id_devices db). dv_id d = dn_device_id r \<and> dv_revoked_at d = None"
    "tbl_find pf_id (dn_profile_id r) (id_profiles db) = Some p"
    "find (\<lambda>a. ac_id a = dn_account_id r \<and> ac_id a = account \<and> ac_status a \<in> set SIGNING_IN_STATUSES) (id_accounts db) = Some a"
proof -
  from assms obtain d where r: "find (\<lambda>r. dn_auth_session_id r = i \<and> dn_closed_at r = None) (id_bindings db) = Some r"
    and d: "find (\<lambda>d. dv_id d = dn_device_id r \<and> dv_revoked_at d = None) (id_devices db) = Some d"
    and p: "tbl_find pf_id (dn_profile_id r) (id_profiles db) = Some p"
    and a: "find (\<lambda>a. ac_id a = dn_account_id r \<and> ac_id a = account \<and> ac_status a \<in> set SIGNING_IN_STATUSES) (id_accounts db) = Some a"
    unfolding open_binding_def bind_eq_Some_conv by blast
  show "r \<in> set (id_bindings db)" "dn_auth_session_id r = i" "dn_closed_at r = None" using find_SomeD [OF r] by simp_all
  show "dn_account_id r = account" using find_SomeD [OF a] by (elim conjE) (rule trans [OF sym])
  show "\<exists>d \<in> set (id_devices db). dv_id d = dn_device_id r \<and> dv_revoked_at d = None" by (rule bexI [of _ d]) (use find_SomeD [OF d] in simp_all)
  show "tbl_find pf_id (dn_profile_id r) (id_profiles db) = Some p" by (rule p)
  show "find (\<lambda>a. ac_id a = dn_account_id r \<and> ac_id a = account \<and> ac_status a \<in> set SIGNING_IN_STATUSES) (id_accounts db) = Some a"
    by (rule a)
qed

lemma open_binding_SomeI:
  assumes "identity_ok db" and "r \<in> set (id_bindings db)" and "dn_auth_session_id r = i" and "dn_closed_at r = None"
    and "\<exists>d \<in> set (id_devices db). dv_id d = dn_device_id r \<and> dv_revoked_at d = None"
    and "tbl_find pf_id (dn_profile_id r) (id_profiles db) = Some p"
    and "find (\<lambda>a. ac_id a = dn_account_id r \<and> ac_id a = account \<and> ac_status a \<in> set SIGNING_IN_STATUSES) (id_accounts db) = Some a"
  shows "open_binding i account db = Some (r, p, a)"
proof -
  have "find (\<lambda>r. dn_auth_session_id r = i \<and> dn_closed_at r = None) (id_bindings db) = Some r"
    using identity_okD(5) [OF assms(1)] assms(2-4) by (intro find_unique) (auto simp: distinct_map inj_on_def)
  moreover obtain d where "find (\<lambda>d. dv_id d = dn_device_id r \<and> dv_revoked_at d = None) (id_devices db) = Some d"
    using assms(5) find_SomeI [of _ "id_devices db" "\<lambda>d. dv_id d = dn_device_id r \<and> dv_revoked_at d = None"] by blast
  ultimately show ?thesis using assms(6,7) by (simp add: open_binding_def)
qed

text \<open>A binding that still resolves holds its device.\<close>

lemma open_binding_holds:
  assumes "open_binding (as_id x) (as_user_id x) db = Some (r, p, a)" and "x \<in> set sessions" and "wall < as_expires_at x"
  shows "still_held sessions wall (dn_device_id r) db"
proof -
  note row = open_binding_SomeD [OF assms(1)]
  have "list_ex (\<lambda>a. ac_id a = dn_account_id r \<and> ac_status a \<in> set SIGNING_IN_STATUSES) (id_accounts db)"
    using find_SomeD [OF row(7)] unfolding list_ex_iff by blast
  moreover have "list_ex (\<lambda>s. as_id s = dn_auth_session_id r \<and> as_user_id s = dn_account_id r \<and> wall < as_expires_at s) sessions"
    unfolding list_ex_iff using assms(2,3) row(2,4) by (intro bexI [of _ x]) simp_all
  ultimately show ?thesis unfolding still_held_def list_ex_iff [of _ "id_bindings db"] using row(1,3) by blast
qed

lemma revocation_keeps_binding:
  assumes "revoke_device_in sessions wall device act now db = Inr (closed, db')" and "identity_ok db"
    and binding: "open_binding (as_id x) (as_user_id x) db = Some (r, p, a)" and "x \<in> set sessions" and "wall < as_expires_at x"
    and other: "ad_account_id act \<noteq> as_user_id x"
  shows "open_binding (as_id x) (as_user_id x) db' = Some (r, p, a)"
proof -
  let ?own = "\<lambda>r. dn_device_id r = device \<and> dn_account_id r = ad_account_id act \<and> dn_closed_at r = None"
  let ?db2 = "fold (\<lambda>b. record_device_session_closed b act now) closed (snd (close_bindings ?own now db))"
  note row = open_binding_SomeD [OF binding]
  have kept: "r \<in> set (tbl_update ?own (\<lambda>r. r\<lparr>dn_closed_at := Some now\<rparr>) (id_bindings db))"
    unfolding set_tbl_update using row(1,4) other by (intro image_eqI [of _ _ r]) auto
  have ok: "identity_ok ?db2"
    using identity_moved_trans [OF close_bindings_moved fold_write_moved] assms(2) unfolding identity_moved_def by blast
  have tables: "id_bindings ?db2 = tbl_update ?own (\<lambda>r. r\<lparr>dn_closed_at := Some now\<rparr>) (id_bindings db)"
    "id_devices ?db2 = id_devices db" "id_profiles ?db2 = id_profiles db" "id_accounts ?db2 = id_accounts db"
    by (simp_all add: close_bindings_def)
  have two: "open_binding (as_id x) (as_user_id x) ?db2 = Some (r, p, a)"
    by (rule open_binding_SomeI [OF ok]) (use kept row in \<open>simp_all add: tables close_bindings_def\<close>)
  obtain d :: device_row where db': "db' = (if still_held sessions wall device ?db2 then ?db2
      else record_device_revoked device (ad_account_id act) (dv_kind d) act now
        (?db2\<lparr>id_devices := tbl_update (\<lambda>r. dv_id r = device) (\<lambda>r. r\<lparr>dv_revoked_at := Some now\<rparr>) (id_devices ?db2)\<rparr>))"
  proof (rule revoke_device_in_Inr [OF assms(1)], goal_cases)
    case (1 d)
    show thesis by (rule 1(1) [of d], rule trans [OF 1(6)]) (simp add: Let_def)
  qed
  show ?thesis
  proof (cases "still_held sessions wall device ?db2")
    case True
    with two show ?thesis by (simp add: db')
  next
    case False
    then have device: "dn_device_id r \<noteq> device" using open_binding_holds [OF two assms(4,5)] by blast
    have okd: "identity_ok db'" using revoke_device_in_moved [OF assms(1)] assms(2) by (simp add: identity_moved_def)
    obtain f where f: "f \<in> set (id_devices db)" "dv_id f = dn_device_id r" "dv_revoked_at f = None" using row(5) by blast
    have "f \<in> set (tbl_update (\<lambda>r. dv_id r = device) (\<lambda>r. r\<lparr>dv_revoked_at := Some now\<rparr>) (id_devices db))"
      unfolding set_tbl_update using f(1,2) device by (intro image_eqI [of _ _ f]) auto
    with False f have "\<exists>d \<in> set (id_devices db'). dv_id d = dn_device_id r \<and> dv_revoked_at d = None"
      unfolding db' record_device_revoked_def by (intro bexI [of _ f]) simp_all
    then show ?thesis
      by (rule open_binding_SomeI [OF okd, rotated 3])
        (use False kept row in \<open>simp_all add: db' record_device_revoked_def tables\<close>)
  qed
qed

text \<open>
  Property C18. No account signs another out: revoking a device shared with another account leaves that account's
  live session resolving to the same binding.
\<close>

theorem revocation_spares_others:
  assumes "sessions_in_table b" and "(identity_step e)\<^sup>*\<^sup>* no_identity db"
    and live: "resolve_session b wall token db st = (Some v, st')"
    and run: "revoke_device_in (ba_table b st') wall device act now db = Inr (closed, db')"
    and other: "ad_account_id act \<noteq> rv_account_id v" and "tokens_name_sessions b name"
    and again: "ba_session b wall2 token st2 = (Some y, st3)" "as_user_id y = rv_account_id v"
  shows "\<exists>w. resolve_session b wall2 token db' st2 = (Some w, st3) \<and> rv_device_session_id w = rv_device_session_id v \<and>
    rv_device_id w = rv_device_id v \<and> rv_profile w = rv_profile v \<and> rv_account w = rv_account v"
proof -
  have token: "token \<noteq> []" using live by (auto simp: resolve_session_def)
  obtain x where x: "ba_session b wall token st = (Some x, st')"
    using live token by (auto simp: resolve_session_def split: prod.splits option.splits)
  with live token obtain r p a where binding: "open_binding (as_id x) (as_user_id x) db = Some (r, p, a)"
    and v: "v = \<lparr>rv_account_id = as_user_id x, rv_device_id = dn_device_id r, rv_device_session_id = dn_id r,
      rv_expires_at = as_expires_at x, rv_profile = summary_of p, rv_account = viewer_account_of a\<rparr>"
    by (auto simp: resolve_session_def)
  have table: "x \<in> set (ba_table b st')" "wall < as_expires_at x" using assms(1) x unfolding sessions_in_table_def by blast+
  have "as_id x = name token" "as_id y = name token"
    using assms(6) x again(1) unfolding tokens_name_sessions_def by blast+
  then have same: "as_id y = as_id x" "as_user_id y = as_user_id x" using again(2) by (simp_all add: v)
  have "open_binding (as_id x) (as_user_id x) db' = Some (r, p, a)"
    using revocation_keeps_binding [OF run identity_reachable_ok [OF assms(2)] binding table] other by (simp add: v)
  then show ?thesis using token again(1) by (simp add: resolve_session_def same v)
qed

section \<open>Links\<close>

definition link_spent :: "identity_env \<Rightarrow> string \<Rightarrow> identity_db \<Rightarrow> bool" where
  "link_spent e token db \<longleftrightarrow> (\<exists>l \<in> set (id_links db). ev_token_hash l = sha256 e token \<and> ev_used_at l \<noteq> None \<and>
     (\<exists>a \<in> set (id_accounts db). ac_id a = ev_account_id l \<and> citext e (ac_email a) = citext e (ev_email l) \<and>
       ac_email_verified_at a \<noteq> None))"

lemma link_spent_kept:
  assumes "link_spent e token db" and "identity_moved db db'"
  shows "link_spent e token db'"
proof -
  obtain l a where l: "l \<in> set (id_links db)" "ev_token_hash l = sha256 e token" "ev_used_at l \<noteq> None"
    and a: "a \<in> set (id_accounts db)" "ac_id a = ev_account_id l" "citext e (ac_email a) = citext e (ev_email l)"
      "ac_email_verified_at a \<noteq> None"
    using assms(1) by (auto simp: link_spent_def)
  obtain l' where l': "l' \<in> set (id_links db')" "link_kept l l'"
    using assms(2) l(1) unfolding identity_moved_def rows_kept_def all_kept_def by blast
  obtain a' where a': "a' \<in> set (id_accounts db')" "account_kept a a'"
    using assms(2) a(1) unfolding identity_moved_def rows_kept_def all_kept_def by blast
  show ?thesis
    unfolding link_spent_def using l l' a a' by (intro bexI [of _ l'] bexI [of _ a'] conjI) (simp_all add: link_kept_def account_kept_def)
qed

lemma confirm_in_spends:
  assumes "confirm_in e token now db = Inr (x, db')"
  shows "link_spent e token db'"
proof -
  obtain l where found: "find (link_open e token now db) (id_links db) = Some l"
    and db': "db' = db\<lparr>id_links := tbl_update (link_open e token now db) (\<lambda>l. l\<lparr>ev_used_at := Some now\<rparr>) (id_links db),
      id_accounts := tbl_update (\<lambda>a. ac_id a = ev_account_id l \<and> ac_email_verified_at a = None)
        (\<lambda>a. a\<lparr>ac_email_verified_at := Some now\<rparr>) (id_accounts db)\<rparr>"
    using assms by (auto simp: confirm_in_def split: option.splits)
  have l: "l \<in> set (id_links db)" "link_open e token now db l" using found by (auto simp: find_Some_iff)
  then obtain a where a: "a \<in> set (id_accounts db)" "ac_id a = ev_account_id l" "citext e (ac_email a) = citext e (ev_email l)"
    and hash: "ev_token_hash l = sha256 e token"
    by (auto simp: link_open_def list_ex_iff)
  let ?a = "if ac_email_verified_at a = None then a\<lparr>ac_email_verified_at := Some now\<rparr> else a"
  have "l\<lparr>ev_used_at := Some now\<rparr> \<in> set (id_links db')" unfolding db' using l by (force simp: set_tbl_update)
  moreover have "?a \<in> set (id_accounts db')" unfolding db' using a by (force simp: set_tbl_update)
  ultimately show ?thesis
    unfolding link_spent_def using a hash
    by (intro bexI [of _ "l\<lparr>ev_used_at := Some now\<rparr>"] bexI [of _ ?a] conjI) simp_all
qed

lemma spent_link_refused:
  assumes "link_spent e token db" and "identity_ok db"
  shows "confirm_in e token now db = Inl (Refusal VERIFICATION_LINK_INVALID)"
proof -
  obtain l where l: "l \<in> set (id_links db)" "ev_token_hash l = sha256 e token" "ev_used_at l \<noteq> None"
    using assms(1) by (auto simp: link_spent_def)
  have same: "x = l" if "x \<in> set (id_links db)" "ev_token_hash x = sha256 e token" for x
    using identity_okD(2) [OF assms(2)] that l unfolding distinct_map inj_on_def by simp
  have "find (link_open e token now db) (id_links db) = None"
  proof (unfold find_None_iff, rule notI, elim exE conjE)
    fix x assume x: "x \<in> set (id_links db)" "link_open e token now db x"
    then have "x = l" by (intro same) (simp_all add: link_open_def)
    with x l(3) show False by (simp add: link_open_def)
  qed
  then show ?thesis by (simp add: confirm_in_def split: option.split)
qed

text \<open>
  Property C20. A link verifies its address once: after it is confirmed under some key, its account's address stays
  verified, and any later success of the same token, whatever transactions are committed between, is the
  replay of an answer already kept, which changes nothing.
\<close>

theorem link_spent_once:
  assumes "(identity_step e)\<^sup>*\<^sup>* no_identity db" and "confirm_link e k token q db = Inr (answer, db1)" and "\<not> mr_replayed answer"
    and "(identity_step e)\<^sup>*\<^sup>* db1 db2" and "confirm_link e k2 token q2 db2 = Inr (answer2, db3)"
  shows "mr_replayed answer2 \<and> db3 = db2 \<and>
    list_ex (\<lambda>l. ev_token_hash l = sha256 e token \<and> list_ex (\<lambda>a. ac_id a = ev_account_id l \<and>
      citext e (ac_email a) = citext e (ev_email l) \<and> ac_email_verified_at a \<noteq> None) (id_accounts db2)) (id_links db2)"
proof -
  have moved: "identity_moved db db1" "identity_moved db1 db2"
    using identity_step_moved [OF link_confirmed [OF assms(2)]] identity_runs_kept [OF assms(4)] .
  then have ok: "identity_ok db2" using identity_reachable_ok [OF assms(1)] by (simp add: identity_moved_def)
  have spent: "link_spent e token db1"
    using assms(2) unfolding confirm_link_def
  proof (cases rule: under_key_cases)
    case (fresh a db0 records)
    with confirm_in_spends [OF fresh(2)] show ?thesis by (simp add: link_spent_def)
  qed (use assms(3) in simp)
  then have spent: "link_spent e token db2" using moved(2) by (rule link_spent_kept)
  have "mr_replayed answer2 \<and> db3 = db2"
    using assms(5) unfolding confirm_link_def
    by (cases rule: under_key_cases) (simp_all add: spent_link_refused [OF spent ok])
  with spent show ?thesis by (auto simp: link_spent_def list_ex_iff)
qed

end
