(* ===== verification/Identity_Sign_Up.thy ===== *)
theory Identity_Sign_Up
  imports Identity_System
begin

text \<open>
  Signing up writes two stores: identity's tables in a transaction, better-auth's users outside of it. What it
  promises is that the two agree whatever fails, short of the removal of a credential that failed.
\<close>

section \<open>The two stores\<close>

definition keeps_users :: "'s auth_api \<Rightarrow> 's \<Rightarrow> 's \<Rightarrow> bool" where
  "keeps_users b st st' \<longleftrightarrow> (\<forall>u. ba_has_user b u st' = ba_has_user b u st) \<and>
     (\<forall>email. ba_user_by_email b email st' = ba_user_by_email b email st)"

text \<open>
  What better-auth documents of its users: only a sign-up and a deletion write them; a sign-up that answers has
  created the user under the id preset for it, with its address, and one that refuses has written nothing;
  a deletion removes that user alone; a user found by an address exists.
\<close>

definition user_laws :: "identity_env \<Rightarrow> 's auth_api \<Rightarrow> bool" where
  "user_laws e b \<longleftrightarrow>
     (\<forall>now token st. keeps_users b st (snd (ba_session b now token st))) \<and>
     (\<forall>tokens st. keeps_users b st (ba_delete_sessions b tokens st)) \<and>
     (\<forall>now u st. keeps_users b st (snd (ba_create_session b now u st))) \<and>
     (\<forall>email st u. ba_user_by_email b email st = Some u \<longrightarrow> ba_has_user b u st) \<and>
     (\<forall>u st v. ba_has_user b v (ba_delete_user b u st) \<longleftrightarrow> v \<noteq> u \<and> ba_has_user b v st) \<and>
     (\<forall>u st email. ba_user_by_email b email (ba_delete_user b u st) =
        (if ba_user_by_email b email st = Some u then None else ba_user_by_email b email st)) \<and>
     (\<forall>now u email password name st f st'. ba_sign_up b now u email password name st = (Inl f, st') \<longrightarrow> keeps_users b st st') \<and>
     (\<forall>now u email password name st v token st'. ba_sign_up b now u email password name st = (Inr (v, token), st') \<longrightarrow>
        v = u \<and> token \<noteq> None \<and> (\<forall>w. ba_has_user b w st' \<longleftrightarrow> w = u \<or> ba_has_user b w st) \<and>
        (\<forall>email'. ba_user_by_email b email' st' =
           (if citext e email' = citext e email then Some u else ba_user_by_email b email' st)))"

lemma user_lawsD:
  assumes "user_laws e b"
  shows "keeps_users b st (snd (ba_session b now token st))" "keeps_users b st (ba_delete_sessions b tokens st)"
    "keeps_users b st (snd (ba_create_session b now u st))"
    "ba_has_user b v (ba_delete_user b u st) \<longleftrightarrow> v \<noteq> u \<and> ba_has_user b v st"
    "ba_user_by_email b email (ba_delete_user b u st) =
       (if ba_user_by_email b email st = Some u then None else ba_user_by_email b email st)"
    "ba_user_by_email b email st = Some u \<Longrightarrow> ba_has_user b u st"
  using assms by (auto simp: user_laws_def)

lemma user_laws_refused: "user_laws e b \<Longrightarrow> ba_sign_up b now u email password name st = (Inl f, st') \<Longrightarrow> keeps_users b st st'"
  unfolding user_laws_def by blast

lemma user_laws_created:
  assumes "user_laws e b" and "ba_sign_up b now u email password name st = (Inr (v, token), st')"
  shows "v = u \<and> token \<noteq> None \<and> (\<forall>w. ba_has_user b w st' \<longleftrightarrow> w = u \<or> ba_has_user b w st) \<and>
    (\<forall>email'. ba_user_by_email b email' st' = (if citext e email' = citext e email then Some u else ba_user_by_email b email' st))"
  using assms unfolding user_laws_def by blast

lemma keeps_users_refl [simp]: "keeps_users b st st"
  by (simp add: keeps_users_def)

lemma keeps_users_trans [trans]: "keeps_users b x y \<Longrightarrow> keeps_users b y z \<Longrightarrow> keeps_users b x z"
  by (simp add: keeps_users_def)

text \<open>Every account has its user, whose address is the account's.\<close>

definition users_match :: "identity_env \<Rightarrow> 's auth_api \<Rightarrow> identity_db \<Rightarrow> 's \<Rightarrow> bool" where
  "users_match e b db st \<longleftrightarrow> (\<forall>a \<in> set (id_accounts db). ba_has_user b (ac_id a) st \<and>
     (\<forall>email. ba_user_by_email b email st = Some (ac_id a) \<longrightarrow> citext e email = citext e (ac_email a)))"

lemma users_match_kept:
  "keeps_users b st st' \<Longrightarrow> id_accounts db' = id_accounts db \<Longrightarrow> users_match e b db' st' \<longleftrightarrow> users_match e b db st"
  by (simp add: users_match_def keeps_users_def)

section \<open>What each store keeps\<close>

text \<open>The statements that leave the accounts as they were.\<close>

lemma default_profile_accounts: "default_profile_of i account name db = Inr (p, db') \<Longrightarrow> id_accounts db' = id_accounts db"
  by (auto simp: default_profile_of_def bindE_eq_Inr Let_def split: option.splits if_splits)

lemma insert_device_accounts: "insert_device d db = Inr db' \<Longrightarrow> id_accounts db' = id_accounts db"
  by (auto simp: insert_device_def split: if_splits)

lemma device_for_accounts: "device_for e p i token now db = Inr (d, db') \<Longrightarrow> id_accounts db' = id_accounts db"
  by (auto simp: device_for_def bindE_eq_Inr Let_def dest: insert_device_accounts split: option.splits if_splits)

lemma insert_binding_accounts: "insert_binding q i now db = Inr (x, db') \<Longrightarrow> id_accounts db' = id_accounts db"
  by (auto simp: insert_binding_def split: if_splits)

lemma bind_attempts_accounts: "bind_attempts q now replaced ids db = Inr (n, db') \<Longrightarrow> id_accounts db' = id_accounts db"
proof (induction q now replaced ids db rule: bind_attempts.induct)
  case (2 q now replaced i ids db)
  from 2(2) obtain inserted db1 where ins: "insert_binding q i now (db\<lparr>id_bindings := tbl_update
      (pair_open (bq_device_id q) (bq_profile_id q)) (\<lambda>r. r\<lparr>dn_closed_at := Some now\<rparr>) (id_bindings db)\<rparr>) = Inr (inserted, db1)"
    and rest: "\<not> inserted \<longrightarrow> bind_attempts q now (replaced @ map dn_auth_session_id
      (filter (pair_open (bq_device_id q) (bq_profile_id q)) (id_bindings db))) ids db1 = Inr (n, db')"
    and inserted: "inserted \<longrightarrow> db' = db1"
    by (auto simp: Let_def bindE_eq_Inr split: if_splits)
  have "id_accounts db1 = id_accounts db" using insert_binding_accounts [OF ins] by simp
  then show ?case using 2(1) [OF refl refl ins refl] rest inserted by (cases inserted) simp_all
qed simp

lemma establish_accounts: "establish opened device p now ids db = Inr (z, db') \<Longrightarrow> id_accounts db' = id_accounts db"
  by (auto simp: establish_def bind_session_def bindE_eq_Inr dest: bind_attempts_accounts)

lemma issue_link_accounts: "issue_link e account email locale token tp now db = Inr db' \<Longrightarrow> id_accounts db' = id_accounts db"
  by (auto simp: issue_link_def write_identity_event_def Let_def split: if_splits)

lemma bind_sign_up_accounts: "bind_sign_up e x body p opened now db = Inr (z, db') \<Longrightarrow> id_accounts db' = id_accounts db"
  by (auto simp: bind_sign_up_def bindE_eq_Inr dest!: default_profile_accounts device_for_accounts establish_accounts)

lemma reissue_bind_accounts: "reissue_bind e kept p opened x now db = Inr (z, db') \<Longrightarrow> id_accounts db' = id_accounts db"
  by (auto simp: reissue_bind_def bindE_eq_Inr dest!: default_profile_accounts device_for_accounts establish_accounts
      split: if_splits)

lemma sign_out_accounts: "id_accounts (sign_out_in i account surf tp now db) = id_accounts db"
  by (simp add: sign_out_in_def close_bindings_def record_device_session_closed_def write_identity_event_def Let_def split: list.split)

lemma insert_account_Inr:
  assumes "insert_account e account body now bytes db = Inr (handle, db')"
  obtains a where "id_accounts db' = id_accounts db @ [a]" "ac_id a = account" "ac_email a = sb_email body"
    "list_all (\<lambda>r. ac_id r \<noteq> account \<and> citext e (ac_email r) \<noteq> citext e (sb_email body)) (id_accounts db)"
  using assms
proof (induction e account body now bytes db rule: insert_account.induct)
  case (2 e account body now bytes rest db)
  show thesis
  proof (cases "list_ex (\<lambda>r. citext e (ac_email r) = citext e (sb_email body)) (id_accounts db)")
    case True
    with 2(2,3) show thesis by (auto simp: Let_def account_conflicts_def list_ex_iff list_all_iff split: if_splits)
  next
    case False
    with 2 show thesis by (auto simp: Let_def account_conflicts_def list_ex_iff list_all_iff split: if_splits)
  qed
qed simp

lemma register_account_Inr:
  assumes "register_account e x body tp now db = Inr (handle, db')"
  obtains a where "id_accounts db' = id_accounts db @ [a]" "ac_id a = dw_account_id x" "ac_email a = sb_email body"
    "list_all (\<lambda>r. ac_id r \<noteq> dw_account_id x \<and> citext e (ac_email r) \<noteq> citext e (sb_email body)) (id_accounts db)"
  using assms
  by (auto simp: register_account_def bindE_eq_Inr write_identity_event_def elim!: insert_account_Inr dest!: issue_link_accounts)

lemma sign_up_command_Inr:
  assumes "sign_up_command e x body p tp now opening db = Inr (issued, db')"
  obtains opened a where "opening = Inr opened" "id_accounts db' = id_accounts db @ [a]" "ac_id a = dw_account_id x"
    "ac_email a = sb_email body" "list_all (\<lambda>r. ac_id r \<noteq> dw_account_id x \<and> citext e (ac_email r) \<noteq> citext e (sb_email body)) (id_accounts db)"
  using assms by (auto simp: sign_up_command_def bindE_eq_Inr elim!: register_account_Inr dest!: bind_sign_up_accounts)

text \<open>The calls that leave better-auth's users as they were.\<close>

lemma session_users: "user_laws e b \<Longrightarrow> ba_session b now token st = (x, st') \<Longrightarrow> keeps_users b st st'"
  using user_lawsD(1) by (metis snd_conv)

lemma opened_users: "user_laws e b \<Longrightarrow> opened_by_token b wall token st = (r, st') \<Longrightarrow> keeps_users b st st'"
  by (auto simp: opened_by_token_def intro: session_users split: prod.splits option.splits)

lemma resolve_users: "user_laws e b \<Longrightarrow> resolve_session b wall token db st = (r, st') \<Longrightarrow> keeps_users b st st'"
  by (auto simp: resolve_session_def intro: session_users split: prod.splits option.splits if_splits)

lemma forget_users: "user_laws e b \<Longrightarrow> keeps_users b st (forget b fails account ids st)"
  by (simp add: forget_def user_lawsD(2))

lemma revoke_users:
  assumes "user_laws e b" and "revoke_session b k token out db st = (db', st')"
  shows "keeps_users b st st' \<and> id_accounts db' = id_accounts db"
  using assms(2) unfolding revoke_session_def
  by (auto simp: sign_out_accounts dest: session_users [OF assms(1)] split: prod.splits option.splits if_splits
      intro: keeps_users_trans [OF _ user_lawsD(2) [OF assms(1)]])

definition flow_kept :: "'s auth_api \<Rightarrow> identity_db \<Rightarrow> 's \<Rightarrow> identity_db \<Rightarrow> 's \<Rightarrow> bool" where
  "flow_kept b db st db' st' \<longleftrightarrow> keeps_users b st st' \<and> id_accounts db' = id_accounts db"

lemma bind_in_transaction_kept:
  assumes "user_laws e b" and "bind_in_transaction b k rf ff opened binding db st = (r, db', st')"
    and "\<And>z db1. binding db = Inr (z, db1) \<Longrightarrow> id_accounts db1 = id_accounts db"
  shows "flow_kept b db st db' st'"
proof (cases "binding db")
  case (Inl f)
  with assms(2) revoke_users [OF assms(1)] show ?thesis
    by (auto simp: bind_in_transaction_def flow_kept_def split: if_splits)
next
  case (Inr y)
  with assms(2,3) forget_users [OF assms(1)] show ?thesis
    by (auto simp: bind_in_transaction_def flow_kept_def split: prod.splits)
qed

lemma reissue_fresh_kept:
  assumes laws: "user_laws e' b" and "reissue_fresh e b k rf ff kept p x db st = (r, db', st')"
  shows "flow_kept b db st db' st'"
proof (cases "is_allowed_to_sign_in (tbl_find ac_id (rv_account_id kept) (id_accounts db))")
  case False
  with assms(2) show ?thesis by (simp add: reissue_fresh_def flow_kept_def)
next
  case True
  obtain fresh st1 where create: "ba_create_session b (ca_wall k) (rv_account_id kept) st = (fresh, st1)" by fastforce
  obtain got st2 where opened: "opened_by_token b (ca_wall k) (signed_token e (as_token fresh)) st1 = (got, st2)" by fastforce
  have "keeps_users b st st1" using user_lawsD(3) [OF laws, of st "ca_wall k" "rv_account_id kept"] create by simp
  then have two: "keeps_users b st st2" using opened_users [OF laws opened] by (rule keeps_users_trans)
  show ?thesis
  proof (cases got)
    case (Inl f)
    with assms(2) True create opened two show ?thesis by (simp add: reissue_fresh_def flow_kept_def)
  next
    case (Inr y)
    obtain q db3 st3 where bind: "bind_in_transaction b k rf ff y (reissue_bind e kept p y x (ca_now k)) db st2 = (q, db3, st3)"
      by (metis prod_cases3)
    have "flow_kept b db st2 db3 st3"
      by (rule bind_in_transaction_kept [OF laws bind]) (auto dest: reissue_bind_accounts)
    moreover have "db' = db3" "st' = st3" using assms(2) True create opened bind Inr by (simp_all add: reissue_fresh_def)
    ultimately show ?thesis using two unfolding flow_kept_def by (blast intro: keeps_users_trans)
  qed
qed

lemma reissue_kept:
  assumes laws: "user_laws e' b" and "reissue e b k rf ff kept p x db st = (r, db', st')"
  shows "flow_kept b db st db' st'"
proof (cases "find (\<lambda>s. as_id s = ss_auth_session_id kept) (ba_sessions_of b (rv_account_id kept) st)")
  case None
  with assms(2) show ?thesis by (intro reissue_fresh_kept [OF laws]) (simp add: reissue_def)
next
  case (Some same)
  obtain v st1 where resolve: "resolve_session b (ca_wall k) (signed_token e (as_token same)) db st = (v, st1)" by fastforce
  have one: "keeps_users b st st1" by (rule resolve_users [OF laws resolve])
  show ?thesis
  proof (cases v)
    case None
    with assms(2) Some resolve have "reissue_fresh e b k rf ff kept p x db st1 = (r, db', st')" by (simp add: reissue_def)
    from reissue_fresh_kept [OF laws this] one show ?thesis unfolding flow_kept_def by (blast intro: keeps_users_trans)
  next
    case (Some w)
    with assms(2) \<open>find _ _ = Some same\<close> resolve one show ?thesis by (auto simp: reissue_def flow_kept_def)
  qed
qed

section \<open>The credential\<close>

text \<open>Whatever the attempts answer: no other account's user is written, and the preset one exists when a token is answered.\<close>

lemma attempt_users:
  assumes laws: "user_laws e b" and match: "users_match e b db st"
    and fresh: "list_all (\<lambda>r. ac_id r \<noteq> u \<and> citext e (ac_email r) \<noteq> citext e email) (id_accounts db)"
    and run: "ba_sign_up b now u email password name st = (Inr (v, token), st')"
  shows "users_match e b db st' \<and> ba_has_user b u st' \<and> v = u \<and> token \<noteq> None \<and>
    (\<forall>mail. ba_user_by_email b mail st' = Some u \<longrightarrow> citext e mail = citext e email \<or> ba_user_by_email b mail st = Some u)"
proof -
  have new: "v = u" "token \<noteq> None" "ba_has_user b w st' \<longleftrightarrow> w = u \<or> ba_has_user b w st"
    "ba_user_by_email b mail st' = (if citext e mail = citext e email then Some u else ba_user_by_email b mail st)" for w mail
    using user_laws_created [OF laws run] by simp_all
  have "users_match e b db st'"
    using match fresh by (auto simp: users_match_def new list_all_iff)
  then show ?thesis by (auto simp: new)
qed

text \<open>An address of no account's user, removed with it.\<close>

lemma orphan_removed:
  assumes laws: "user_laws e b" and match: "users_match e b db st" and clear: "u \<notin> ac_id ` set (id_accounts db)"
  shows "users_match e b db (ba_delete_user b u st)"
  using assms by (auto simp: users_match_def user_lawsD(4,5) [OF laws] split: if_splits)

definition orphaned :: "'s auth_api \<Rightarrow> string \<Rightarrow> 's \<Rightarrow> 's" where
  "orphaned b email st = (case ba_user_by_email b email st of None \<Rightarrow> st | Some orphan \<Rightarrow> ba_delete_user b orphan st)"

lemma orphaned_match:
  assumes laws: "user_laws e b" and match: "users_match e b db st"
    and fresh: "list_all (\<lambda>r. ac_id r \<noteq> u \<and> citext e (ac_email r) \<noteq> citext e email) (id_accounts db)"
  shows "users_match e b db (orphaned b email st) \<and> (ba_has_user b u (orphaned b email st) \<longrightarrow> ba_has_user b u st)"
proof (cases "ba_user_by_email b email st")
  case None
  with match show ?thesis by (simp add: orphaned_def)
next
  case (Some v)
  have "v \<notin> ac_id ` set (id_accounts db)"
  proof
    assume "v \<in> ac_id ` set (id_accounts db)"
    then obtain a :: account_row where a: "a \<in> set (id_accounts db)" "v = ac_id a" by auto
    with match Some have "citext e email = citext e (ac_email a)" by (simp add: users_match_def)
    with fresh a(1) show False by (auto simp: list_all_iff)
  qed
  from orphan_removed [OF laws match this] Some show ?thesis by (simp add: orphaned_def user_lawsD(4) [OF laws])
qed

lemma create_credential_users:
  assumes laws: "user_laws e b" and match: "users_match e b db st" and none: "\<not> ba_has_user b u st"
    and fresh: "list_all (\<lambda>r. ac_id r \<noteq> u \<and> citext e (ac_email r) \<noteq> citext e (sb_email body)) (id_accounts db)"
    and run: "create_credential b wall u body st = (r, st')"
  shows "users_match e b db st' \<and> (ba_has_user b u st' \<longleftrightarrow> (case r of Inl _ \<Rightarrow> False | Inr _ \<Rightarrow> True)) \<and>
    (\<forall>mail. ba_user_by_email b mail st' = Some u \<longrightarrow> citext e mail = citext e (sb_email body))"
proof -
  let ?name = "case sb_display_name body of None \<Rightarrow> [] | Some n \<Rightarrow> n"
  let ?attempt = "ba_sign_up b wall u (sb_email body) (sb_password body) ?name"
  let ?of = "\<lambda>r. case r of (Inl _, s) \<Rightarrow> (Inl (Plain_Error ''better-auth'') :: string result, s)
    | (Inr (user, token), s) \<Rightarrow> if user \<noteq> u \<or> token = None
        then (Inl (Plain_Error ''better-auth did not create the credential under the account id''), s) else (Inr (the token), s)"
  have once: "users_match e b db s' \<and> (ba_has_user b u s' \<longleftrightarrow> (case r of Inl _ \<Rightarrow> False | Inr _ \<Rightarrow> True)) \<and>
      (\<forall>mail. ba_user_by_email b mail s' = Some u \<longrightarrow> citext e mail = citext e (sb_email body))"
    if one: "users_match e b db s" "\<not> ba_has_user b u s" and eq: "?of (?attempt s) = (r, s')" for s s'
  proof (cases "?attempt s")
    have clear: "ba_user_by_email b mail s \<noteq> Some u" for mail using one(2) user_lawsD(6) [OF laws] by blast
    case (Pair x s1)
    show ?thesis
    proof (cases x)
      case (Inl f)
      with eq Pair have "r = Inl (Plain_Error ''better-auth'')" "s' = s1" by auto
      moreover have "keeps_users b s s1" using user_laws_refused [OF laws] Pair Inl by blast
      ultimately show ?thesis using one clear by (simp add: users_match_kept [of b s s1 db db e]) (simp add: keeps_users_def)
    next
      case (Inr y)
      obtain v token where y: "y = (v, token)" by (cases y)
      from attempt_users [OF laws one(1) fresh] Pair Inr y
      have got: "users_match e b db s1 \<and> ba_has_user b u s1 \<and> v = u \<and> token \<noteq> None" and
        "\<forall>mail. ba_user_by_email b mail s1 = Some u \<longrightarrow> citext e mail = citext e (sb_email body)" using clear by blast+
      moreover have "s' = s1" "r = Inr (the token)" using eq Pair Inr y got by auto
      ultimately show ?thesis by simp
    qed
  qed
  obtain x s1 where first: "?attempt st = (x, s1)" by fastforce
  show ?thesis
  proof (cases "x = Inl Auth_User_Already_Exists")
    case True
    have "keeps_users b st s1" using user_laws_refused [OF laws] first True by blast
    then have "users_match e b db s1" "\<not> ba_has_user b u s1"
      using match none by (simp_all add: users_match_kept [of b st s1 db db e]) (simp add: keeps_users_def)
    with orphaned_match [OF laws _ fresh] have two: "users_match e b db (orphaned b (sb_email body) s1)"
        "\<not> ba_has_user b u (orphaned b (sb_email body) s1)" by blast+
    have "?of (?attempt (orphaned b (sb_email body) s1)) = (r, st')"
      using run first True by (simp add: create_credential_def orphaned_def)
    from once [OF two this] show ?thesis .
  next
    case False
    have "?of (?attempt st) = (r, st')"
      using run first False by (auto simp: create_credential_def Let_def split: sum.splits auth_error.splits)
    from once [OF match none this] show ?thesis .
  qed
qed

lemma open_credential_users:
  assumes laws: "user_laws e b" and match: "users_match e b db st" and none: "\<not> ba_has_user b (dw_account_id x) st"
    and fresh: "list_all (\<lambda>r. ac_id r \<noteq> dw_account_id x \<and> citext e (ac_email r) \<noteq> citext e (sb_email body)) (id_accounts db)"
    and run: "open_credential b k x body st = (r, born, st')"
  shows "users_match e b db st' \<and> (ba_has_user b (dw_account_id x) st' \<longleftrightarrow> born) \<and> (r = Inr opened \<longrightarrow> born) \<and>
    (\<forall>mail. ba_user_by_email b mail st' = Some (dw_account_id x) \<longrightarrow> citext e mail = citext e (sb_email body))"
proof -
  obtain y st1 where create: "create_credential b (ca_wall k) (dw_account_id x) body st = (y, st1)" by fastforce
  note made = create_credential_users [OF laws match none fresh create]
  show ?thesis
  proof (cases y)
    case (Inl f)
    with run create made show ?thesis by (auto simp: open_credential_def)
  next
    case (Inr token)
    with run create obtain "born" and opened: "opened_by_token b (ca_wall k) token st1 = (r, st')"
      by (auto simp: open_credential_def split: prod.splits)
    have "keeps_users b st1 st'" by (rule opened_users [OF laws opened])
    with made Inr \<open>born\<close> show ?thesis by (simp add: users_match_kept [of b st1 st' db db e]) (simp add: keeps_users_def)
  qed
qed

section \<open>Both or neither\<close>

lemma replayed_unreached:
  assumes "under_key k q command db = Inr (answer, db')" and "mr_replayed answer"
  shows "\<not> reaches_credential e k x body tp q db"
  using assms by (auto simp: under_key_def run_idempotently_def run_enveloped_def reaches_credential_def bindE_eq_Inr
      claim_key_def split: if_splits)

lemma answered_kept:
  assumes laws: "user_laws e' b" and "answered_sign_up e b k m p x issued answer db st = (r, db', st')"
  shows "flow_kept b db st db' st'"
proof (cases answer)
  case (Sign_Up_Record kept account)
  show ?thesis
  proof (cases issued)
    case None
    obtain y db1 st1 where reissue: "reissue e b k (mi_revoke_fails m) (mi_forget_fails m) kept p x db st = (y, db1, st1)"
      by (metis prod_cases3)
    from reissue_kept [OF laws reissue] assms(2) Sign_Up_Record None reissue show ?thesis by (simp add: answered_sign_up_def)
  next
    case (Some y)
    with assms(2) Sign_Up_Record forget_users [OF laws] show ?thesis
      by (auto simp: answered_sign_up_def flow_kept_def split: prod.splits)
  qed
qed (use assms(2) in \<open>auto simp: answered_sign_up_def flow_kept_def\<close>)

definition credential_of_account :: "'s auth_api \<Rightarrow> ident \<Rightarrow> identity_db \<Rightarrow> 's \<Rightarrow> bool" where
  "credential_of_account b account db st \<longleftrightarrow> (ba_has_user b account st \<longleftrightarrow> list_ex (\<lambda>a. ac_id a = account) (id_accounts db))"

lemma answered_agree:
  assumes laws: "user_laws e b" and run: "answered_sign_up e' b k m p x issued answer db st = (r, db', st')"
  shows "users_match e b db' st' = users_match e b db st" "credential_of_account b u db' st' = credential_of_account b u db st"
  using answered_kept [OF laws run] users_match_kept [of b st st' db' db e]
  by (simp_all add: flow_kept_def credential_of_account_def keeps_users_def)

text \<open>What precedes the commit.\<close>

lemma opening_users:
  assumes laws: "user_laws e b" and match: "users_match e b db st" and none: "\<not> ba_has_user b (dw_account_id x) st"
    and run: "(if reaches_credential e k x body tp q db then open_credential b k x body st
      else (Inl (Plain_Error ''not called''), False, st)) = (opening, born, st1)"
  shows "users_match e b db st1" "ba_has_user b (dw_account_id x) st1 \<longleftrightarrow> born" "born \<Longrightarrow> reaches_credential e k x body tp q db"
    "opening = Inr opened \<Longrightarrow> born"
    "ba_user_by_email b mail st1 = Some (dw_account_id x) \<Longrightarrow> citext e mail = citext e (sb_email body)"
proof -
  have "users_match e b db st1 \<and> (ba_has_user b (dw_account_id x) st1 \<longleftrightarrow> born) \<and> (born \<longrightarrow> reaches_credential e k x body tp q db) \<and>
    (opening = Inr opened \<longrightarrow> born) \<and>
    (ba_user_by_email b mail st1 = Some (dw_account_id x) \<longrightarrow> citext e mail = citext e (sb_email body))" for opened mail
  proof (cases "reaches_credential e k x body tp q db")
    case True
    then obtain handle db1 where "register_account e x body tp (ca_now k) db = Inr (handle, db1)"
      by (auto simp: reaches_credential_def split: sum.splits bool.splits)
    then have fresh: "list_all (\<lambda>r. ac_id r \<noteq> dw_account_id x \<and> citext e (ac_email r) \<noteq> citext e (sb_email body)) (id_accounts db)"
      by (rule register_account_Inr)
    have "open_credential b k x body st = (opening, born, st1)" using run True by simp
    from open_credential_users [OF laws match none fresh this, where opened = opened] True show ?thesis by blast
  next
    case False
    have "ba_user_by_email b mail st \<noteq> Some (dw_account_id x)" using none user_lawsD(6) [OF laws] by blast
    with False run match none show ?thesis by auto
  qed
  then show "users_match e b db st1" "ba_has_user b (dw_account_id x) st1 \<longleftrightarrow> born" "born \<Longrightarrow> reaches_credential e k x body tp q db"
    "opening = Inr opened \<Longrightarrow> born"
    "ba_user_by_email b mail st1 = Some (dw_account_id x) \<Longrightarrow> citext e mail = citext e (sb_email body)" by blast+
qed

text \<open>A failure removes the credential it created.\<close>

lemma removed_agree:
  assumes laws: "user_laws e b" and match: "users_match e b db st1" and born: "ba_has_user b u st1 \<longleftrightarrow> born"
    and fresh: "u \<notin> ac_id ` set (id_accounts db)"
  shows "users_match e b db (if born then ba_delete_user b u st1 else st1) \<and>
    credential_of_account b u db (if born then ba_delete_user b u st1 else st1)"
proof -
  have none: "\<not> list_ex (\<lambda>a. ac_id a = u) (id_accounts db)" using fresh by (auto simp: list_ex_iff)
  show ?thesis
  proof (cases born)
    case True
    with none orphan_removed [OF laws match fresh] show ?thesis by (simp add: credential_of_account_def user_lawsD(4) [OF laws])
  next
    case False
    with none match born show ?thesis by (simp add: credential_of_account_def)
  qed
qed

lemma registered_agree:
  assumes match: "users_match e b db st1" and accounts: "id_accounts db1 = id_accounts db @ [a]" and "ac_id a = u"
    and "ac_email a = email" and "ba_has_user b u st1"
    and "\<And>mail. ba_user_by_email b mail st1 = Some u \<Longrightarrow> citext e mail = citext e email"
  shows "users_match e b db1 st1 \<and> credential_of_account b u db1 st1"
  using assms by (auto simp: users_match_def credential_of_account_def)


end
