(* ===== verification/Identity_Runs.thy ===== *)
theory Identity_Runs
  imports Identity_Props Identity_Sign_Up Identity_System
begin

text \<open>
  A store for better-auth that keeps the laws asked of it, and a household's run over it: a sign-up that
  replaces an orphan, a link confirmed, a profile's sign-in on a shared device, a revocation, a sign-out.
\<close>

section \<open>A store\<close>

record sample_store =
  us_users :: "ident \<Rightarrow> bool"
  us_by_email :: "string \<Rightarrow> ident option"
  us_sessions :: "auth_session list"
  us_drawn :: nat

definition sample_env :: identity_env where
  "sample_env = \<lparr>sha256 = (\<lambda>s. s), session_mac = (\<lambda>_. ''m''), argon2_hash = (\<lambda>s. s), argon2_needs_rehash = (\<lambda>_. False),
     nfkc = (\<lambda>s. s), citext = (\<lambda>s. s), generated_public_handle = (\<lambda>s. s), device_token_lifetime_seconds = 1000,
     verification_link_lifetime_hours = 24\<rparr>"

definition sample_auth_session :: "instant \<Rightarrow> ident \<Rightarrow> sample_store \<Rightarrow> auth_session \<times> sample_store" where
  "sample_auth_session now u st =
     (let x = \<lparr>as_id = replicate (us_drawn st) (CHR ''t''), as_token = replicate (us_drawn st) (CHR ''t''), as_user_id = u,
        as_expires_at = now + 1000\<rparr>
      in (x, st\<lparr>us_sessions := us_sessions st @ [x], us_drawn := us_drawn st + 1\<rparr>))"

definition sample_user_by_email :: "string \<Rightarrow> sample_store \<Rightarrow> ident option" where
  "sample_user_by_email email st = (case us_by_email st email of None \<Rightarrow> None | Some u \<Rightarrow> if us_users st u then Some u else None)"

definition sample_auth :: "sample_store auth_api" where
  "sample_auth = \<lparr>
     ba_session = (\<lambda>now token st. (find (\<lambda>x. as_token x @ ''.m'' = token \<and> as_id x = as_token x \<and> now < as_expires_at x) (us_sessions st), st)),
     ba_sign_in = (\<lambda>now email password st. case sample_user_by_email email st of None \<Rightarrow> (Inl Auth_Unauthorized, st)
       | Some u \<Rightarrow> let (x, st') = sample_auth_session now u st in (Inr (u, Some (as_token x @ ''.m'')), st')),
     ba_sign_up = (\<lambda>now u email password name st.
       if sample_user_by_email email st \<noteq> None then (Inl Auth_User_Already_Exists, st)
       else let (x, st') = sample_auth_session now u st
         in (Inr (u, Some (as_token x @ ''.m'')), st'\<lparr>us_users := (us_users st')(u := True), 
           us_by_email := (\<lambda>m. if m = email then Some u else sample_user_by_email m st)\<rparr>)),
     ba_user_by_email = sample_user_by_email,
     ba_has_user = (\<lambda>u st. us_users st u),
     ba_sessions_of = (\<lambda>u st. filter (\<lambda>x. as_user_id x = u) (us_sessions st)),
     ba_create_session = sample_auth_session,
     ba_delete_sessions = (\<lambda>tokens st. st\<lparr>us_sessions := filter (\<lambda>x. as_token x \<notin> set tokens) (us_sessions st)\<rparr>),
     ba_delete_user = (\<lambda>u st. st\<lparr>us_users := (us_users st)(u := False),
       us_by_email := (\<lambda>m. if us_by_email st m = Some u then None else us_by_email st m),
       us_sessions := filter (\<lambda>x. as_user_id x \<noteq> u) (us_sessions st)\<rparr>),
     ba_credential = (\<lambda>u st. None), ba_update_password = (\<lambda>u digest st. st), ba_table = us_sessions\<rparr>"

lemma sample_tokens: "tokens_name_sessions sample_auth (\<lambda>token. List.take (length token - 2) token)"
  by (auto simp: tokens_name_sessions_def sample_auth_def dest!: find_SomeD)

lemma sample_sessions: "sessions_in_table sample_auth"
  by (auto simp: sessions_in_table_def sample_auth_def dest!: find_SomeD)

lemma sample_users: "user_laws sample_env sample_auth"
  unfolding user_laws_def
  by (intro conjI allI impI)
    (auto simp: sample_auth_def sample_env_def sample_auth_session_def sample_user_by_email_def keeps_users_def Let_def split: if_splits option.splits)

section \<open>A run\<close>

definition sample_no_store :: sample_store where
  "sample_no_store = \<lparr>us_users = (\<lambda>u. u = ''lost''), us_by_email = (\<lambda>m. if m = ''ann'' then Some ''lost'' else None),
     us_sessions = [], us_drawn = 0\<rparr>"

definition sample_draw :: "string \<Rightarrow> drawn" where
  "sample_draw s = \<lparr>dw_account_id = ''a'' @ s, dw_handle_bytes = [''h'' @ s], dw_link_token = ''l'' @ s, dw_profile_id = ''p'' @ s,
     dw_device_id = ''d'' @ s, dw_device_token = ''k'' @ s, dw_binding_ids = [''b'' @ s]\<rparr>"

definition sample_sign_up_body :: "string \<Rightarrow> sign_up_body" where
  "sample_sign_up_body email = \<lparr>sb_email = email, sb_password = ''pw'', sb_display_name = None, sb_locale = ''fr'', sb_country = ''FR'',
     sb_accepted_terms_version = 1\<rparr>"

definition sample_tv :: "string option \<Rightarrow> presented_device" where
  "sample_tv token = \<lparr>pd_token = token, pd_kind = Kind_Tv, pd_label = ''tv''\<rparr>"

definition sample_call :: "instant \<Rightarrow> call" where
  "sample_call now = \<lparr>ca_now = now, ca_wall = now, ca_lock_timeout = False\<rparr>"

definition keyed_request :: "string \<Rightarrow> idempotent_request" where
  "keyed_request key = \<lparr>rq_key = key, rq_account_id = None, rq_fingerprint = key, rq_status_code = 200\<rparr>"

definition no_mishaps :: mishaps where
  "no_mishaps = \<lparr>mi_commit_fails = False, mi_removal_fails = False, mi_revoke_fails = False, mi_forget_fails = False\<rparr>"

text \<open>Ann signs up, then Bob on the same device.\<close>

definition sample_ann :: "(signed_in, sample_store) flow" where
  "sample_ann = sign_up sample_env sample_auth (sample_call 1) no_mishaps (sample_sign_up_body ''ann'') (sample_tv None)
     (sample_draw ''1'') None (keyed_request ''s1'') no_identity sample_no_store"

definition sample_bob :: "(signed_in, sample_store) flow" where
  "sample_bob = (case sample_ann of (_, db, st) \<Rightarrow>
     sign_up sample_env sample_auth (sample_call 2) no_mishaps (sample_sign_up_body ''bob'') (sample_tv (Some ''k1''))
       (sample_draw ''2'') None (keyed_request ''s2'') db st)"

definition sample_household :: "identity_db \<times> sample_store" where
  "sample_household = snd sample_bob"

lemma sample_household_reached: "(identity_step sample_env)\<^sup>*\<^sup>* no_identity (fst sample_household)"
proof -
  have "(identity_step sample_env)\<^sup>*\<^sup>* no_identity (fst (snd sample_ann))" unfolding sample_ann_def by (rule sign_up_steps)
  moreover have "(identity_step sample_env)\<^sup>*\<^sup>* (fst (snd sample_ann)) (fst (snd sample_bob))"
    unfolding sample_bob_def case_prod_beta by (rule sign_up_steps)
  ultimately show ?thesis unfolding sample_household_def by (rule rtranclp_trans)
qed

definition sample_token :: string where
  "sample_token = ''.m''"

definition sample_viewer :: "resolved_viewer option" where
  "sample_viewer = fst (resolve_session sample_auth 3 sample_token (fst sample_household) (snd sample_household))"

definition sample_act :: "ident \<Rightarrow> device_act" where
  "sample_act account = \<lparr>ad_account_id = account, ad_from_device_id = None, ad_surface = None, ad_traceparent = None\<rparr>"

definition sample_revocation :: "(closed_binding list \<times> identity_db) result" where
  "sample_revocation = revoke_device_in (us_sessions (snd sample_household)) 3 ''d1'' (sample_act ''a2'') 3 (fst sample_household)"

text \<open>A device shared, a session each, and a device still held once the other account has revoked it.\<close>

lemma household_run:
  "case sample_viewer of None \<Rightarrow> False | Some v \<Rightarrow> rv_account_id v = ''a1'' \<and> rv_device_id v = ''d1''"
  "case sample_revocation of Inl _ \<Rightarrow> False | Inr (closed, db) \<Rightarrow> map cb_account_id closed = [''a2''] \<and> \<not> is_revoked ''d1'' db"
  by code_simp+

section \<open>Witnesses\<close>

text \<open>Ann signs out; better-auth's store restored as it was opens nothing.\<close>

definition sample_signed_out :: identity_db where
  "sample_signed_out = fst (revoke_session sample_auth (sample_call 4) sample_token UNTRACED_SIGN_OUT
     (fst sample_household) (snd sample_household))"

lemma sample_resolved:
  obtains v st where "resolve_session sample_auth 3 sample_token (fst sample_household) (snd sample_household) = (Some v, st)"
    "rv_account_id v = ''a1''"
proof -
  obtain r st where run: "resolve_session sample_auth 3 sample_token (fst sample_household) (snd sample_household) = (r, st)" by fastforce
  then have "sample_viewer = r" by (simp add: sample_viewer_def)
  show thesis
  proof (cases r)
    case None
    with household_run(1) \<open>sample_viewer = r\<close> show thesis by simp
  next
    case (Some v)
    have "rv_account_id v = ''a1''" using household_run(1) [unfolded \<open>sample_viewer = r\<close> Some option.case] by simp
    with run Some show thesis by (intro that) simp_all
  qed
qed

lemma ended_session_never_resolves_witness:
  "sample_viewer \<noteq> None \<and> fst (resolve_session sample_auth 5 sample_token sample_signed_out (snd sample_household)) = None"
proof -
  obtain v st where live: "resolve_session sample_auth 3 sample_token (fst sample_household) (snd sample_household) = (Some v, st)"
    by (rule sample_resolved)
  have "case ba_session sample_auth 4 sample_token (snd sample_household) of (Some _, _) \<Rightarrow> True | _ \<Rightarrow> False" by code_simp
  then obtain x st2 where "ba_session sample_auth 4 sample_token (snd sample_household) = (Some x, st2)"
    by (auto split: prod.splits option.splits)
  then have "ends_session sample_auth sample_token v (fst sample_household) sample_signed_out"
    unfolding ends_session_def sample_signed_out_def
    by (intro disjI1 exI [of _ "sample_call 4"] exI [of _ "snd sample_household"] exI [of _ x] exI [of _ st2]
        exI [of _ UNTRACED_SIGN_OUT]) (simp add: sample_call_def)
  from ended_session_never_resolves [OF sample_tokens sample_household_reached live this rtranclp.rtrancl_refl] live
  show ?thesis by (simp add: sample_viewer_def)
qed

lemma revocation_spares_others_witness:
  "case sample_revocation of Inl _ \<Rightarrow> False
   | Inr (_, db) \<Rightarrow> (case resolve_session sample_auth 3 sample_token db (snd sample_household) of
       (None, _) \<Rightarrow> False | (Some w, _) \<Rightarrow> rv_device_id w = ''d1'')"
proof -
  obtain v st where live: "resolve_session sample_auth 3 sample_token (fst sample_household) (snd sample_household) = (Some v, st)"
    and v: "rv_account_id v = ''a1''" by (rule sample_resolved)
  have "case resolve_session sample_auth 3 sample_token (fst sample_household) (snd sample_household) of
      (Some w, st) \<Rightarrow> rv_device_id w = ''d1'' \<and> us_sessions st = us_sessions (snd sample_household) | _ \<Rightarrow> False" by code_simp
  with live have device: "rv_device_id v = ''d1''" and table: "ba_table sample_auth st = us_sessions (snd sample_household)"
    by (simp_all add: sample_auth_def)
  obtain closed db where run: "sample_revocation = Inr (closed, db)" using household_run(2) by (auto split: sum.splits)
  have "case ba_session sample_auth 3 sample_token (snd sample_household) of (Some y, _) \<Rightarrow> as_user_id y = ''a1'' | _ \<Rightarrow> False"
    by code_simp
  then obtain y st3 where y: "ba_session sample_auth 3 sample_token (snd sample_household) = (Some y, st3)" "as_user_id y = ''a1''"
    by (auto split: prod.splits option.splits)
  obtain w where "resolve_session sample_auth 3 sample_token db (snd sample_household) = (Some w, st3)" "rv_device_id w = rv_device_id v"
  proof -
    have "\<exists>w. resolve_session sample_auth 3 sample_token db (snd sample_household) = (Some w, st3) \<and>
      rv_device_session_id w = rv_device_session_id v \<and> rv_device_id w = rv_device_id v \<and> rv_profile w = rv_profile v \<and>
      rv_account w = rv_account v"
    by (rule revocation_spares_others [OF sample_sessions sample_household_reached live
          run [unfolded sample_revocation_def, folded table] _ sample_tokens y(1)]) (simp_all add: sample_act_def v y(2))
    then show thesis by (elim exE conjE) (rule that)
  qed
  with device show ?thesis by (simp only: run sum.case prod.case option.case)
qed

definition sample_confirmation :: "string \<Rightarrow> identity_db \<Rightarrow> (identity_answer memorised_response \<times> identity_db) result" where
  "sample_confirmation key = confirm_link sample_env (sample_call 4) ''l1'' (keyed_request key)"

lemma link_spent_once_witness:
  "case sample_confirmation ''c1'' (fst sample_household) of Inl _ \<Rightarrow> False
   | Inr (_, db1) \<Rightarrow> (case sample_confirmation ''c1'' db1 of Inl _ \<Rightarrow> False | Inr (answer, db2) \<Rightarrow> mr_replayed answer \<and> db2 = db1)"
proof -
  have run: "case sample_confirmation ''c1'' (fst sample_household) of Inl _ \<Rightarrow> False
     | Inr (a, db1) \<Rightarrow> \<not> mr_replayed a \<and> (case sample_confirmation ''c1'' db1 of Inl _ \<Rightarrow> False | Inr _ \<Rightarrow> True)" by code_simp
  then obtain a db1 where one: "sample_confirmation ''c1'' (fst sample_household) = Inr (a, db1)" "\<not> mr_replayed a"
    and again: "case sample_confirmation ''c1'' db1 of Inl _ \<Rightarrow> False | Inr _ \<Rightarrow> True"
    by (cases "sample_confirmation ''c1'' (fst sample_household)") auto
  from again obtain a2 db2 where two: "sample_confirmation ''c1'' db1 = Inr (a2, db2)"
    by (cases "sample_confirmation ''c1'' db1") auto
  from link_spent_once [OF sample_household_reached one(1) [unfolded sample_confirmation_def] one(2) rtranclp.rtrancl_refl
      two [unfolded sample_confirmation_def]] one two
  show ?thesis by simp
qed


end
