(* ===== verification/Identity_Streaming.thy ===== *)
theory Identity_Streaming
  imports Identity_Props Entitlement_Wire Playback_System
begin

text \<open>
  Identity's revocations as streaming takes them: the rows of identity's outbox are the messages
  \<open>Entitlement_Wire\<close> reads, whose commands are those of \<open>Playback_Desk\<close>. Encoding, Kafka and decoding
  carry the fields of a message as they are.
\<close>

fun device_message :: "identity_message \<Rightarrow> streaming_message option" where
  "device_message (Device_Revoked device account kind at actor) = Some (Wire_Device_Revoked account device (Some at))"
| "device_message (Device_Session_Closed device account profile at self_initiated actor) =
     Some (Wire_Device_Session_Closed account device profile (Some at))"
| "device_message _ = None"

definition told_streaming :: "identity_outbox_row \<Rightarrow> streaming_command option" where
  "told_streaming row = (case device_message (io_payload row) of
     None \<Rightarrow> None
   | Some m \<Rightarrow> (case streaming_message_read m of Inl _ \<Rightarrow> None | Inr command \<Rightarrow> command))"

text \<open>The rows a transaction adds.\<close>

definition newly_told :: "identity_db \<Rightarrow> identity_db \<Rightarrow> streaming_command list" where
  "newly_told db db' = List.map_filter told_streaming (drop (length (id_outbox db)) (id_outbox db'))"

definition active_lease :: "ident \<Rightarrow> ident \<Rightarrow> playback_session \<Rightarrow> bool" where
  "active_lease account device s \<longleftrightarrow> ps_state s = Session_Active \<and> ps_account_id s = account \<and> ps_device_id s = device"

definition closed_row :: "device_act \<Rightarrow> instant \<Rightarrow> closed_binding \<Rightarrow> identity_outbox_row" where
  "closed_row act now b = \<lparr>io_aggregate_type = DEVICE_AGGREGATE, io_aggregate_id = cb_device_id b,
     io_type = ''identity.device_session.closed.v1'',
     io_payload = Device_Session_Closed (cb_device_id b) (cb_account_id b) (cb_profile_id b) now
       (ad_from_device_id act = Some (cb_device_id b)) (actor_of act),
     io_tracecontext = ad_traceparent act, io_actor_id = Some (ad_account_id act), io_created_at = now\<rparr>"

lemma outbox_closed:
  "id_outbox (fold (\<lambda>b. record_device_session_closed b act now) bs db) = id_outbox db @ map (closed_row act now) bs"
  by (induction bs arbitrary: db) (simp_all add: record_device_session_closed_def write_identity_event_def closed_row_def)

lemma told_closed:
  assumes "is_uuid account" "is_uuid device" "is_uuid profile"
    and "io_payload row = Device_Session_Closed device account profile at self actor"
  shows "told_streaming row = Some (Revoke_Profile_Leases account device profile at)"
  using assms by (simp add: told_streaming_def device_session_closed_read_def id_of_def instant_of_def bindE_def)

lemma told_revoked:
  assumes "is_uuid account" "is_uuid device" and "io_payload row = Device_Revoked device account kind at actor"
  shows "told_streaming row = Some (Revoke_Device_Leases account device at)"
  using assms by (simp add: told_streaming_def device_revoked_read_def id_of_def instant_of_def bindE_def)

lemma newly_told_append:
  assumes "id_outbox db' = id_outbox db @ rows" and "row \<in> set rows" and "told_streaming row = Some command"
  shows "command \<in> set (newly_told db db')"
  using assms by (force simp: newly_told_def map_filter_def)

lemma tbl_update_ends: "(\<And>s. \<not> found (f s)) \<Longrightarrow> list_all (\<lambda>s. \<not> found s) (tbl_update found f t)"
  by (induction t) (simp_all add: tbl_update_def)

lemma revoke_device_ends:
  "list_all (\<lambda>s. \<not> (active_lease account device s \<and> (case profile of None \<Rightarrow> True | Some p \<Rightarrow> ps_profile_id s = p) \<and>
      (case opened of None \<Rightarrow> True | Some at \<Rightarrow> ps_opened_at s \<le> at)))
    (snd (revoke_device account device profile opened reason now t))"
  unfolding revoke_device_def Let_def snd_conv active_lease_def conj_assoc by (rule tbl_update_ends) simp

lemma profile_leases_ended:
  assumes "fst (claim_entitlement_message m db)"
  shows "list_all (\<lambda>s. \<not> (active_lease account device s \<and> ps_profile_id s = profile \<and> ps_opened_at s \<le> at))
    (vw_sessions (snd (revoke_profile_leases m account device profile at now db)))"
proof -
  obtain db1 where "claim_entitlement_message m db = (True, db1)" using assms by (cases "claim_entitlement_message m db") simp
  then have "vw_sessions (snd (revoke_profile_leases m account device profile at now db)) =
      snd (revoke_device account device (Some profile) (Some at) Signed_Out_Elsewhere now (vw_sessions db1))"
    by (simp add: revoke_profile_leases_def)
  then show ?thesis
    using revoke_device_ends [of account device "Some profile" "Some at" Signed_Out_Elsewhere now "vw_sessions db1"] by simp
qed

lemma device_leases_ended:
  assumes "fst (claim_entitlement_message m db)"
  shows "list_all (\<lambda>s. \<not> active_lease account device s) (vw_sessions (snd (revoke_device_leases m account device now db)))"
proof -
  obtain db1 where "claim_entitlement_message m db = (True, db1)" using assms by (cases "claim_entitlement_message m db") simp
  then have "vw_sessions (snd (revoke_device_leases m account device now db)) =
      snd (revoke_device account device None None Signed_Out_Elsewhere now (vw_sessions db1))"
    by (simp add: revoke_device_leases_def)
  then show ?thesis
    using revoke_device_ends [of account device None None Signed_Out_Elsewhere now "vw_sessions db1"] by simp
qed

text \<open>The rows a revocation leaves.\<close>

lemma revocation_rows:
  assumes "revoke_device_in sessions wall device act now db = Inr (closed, db')"
  obtains rest where "id_outbox db' = id_outbox db @ map (closed_row act now) closed @ rest"
    "is_revoked device db' \<longrightarrow> (\<exists>kind. \<exists>row \<in> set rest. io_payload row = Device_Revoked device (ad_account_id act) kind now (actor_of act))"
    "list_all (\<lambda>b. cb_device_id b = device \<and> cb_account_id b = ad_account_id act) closed"
proof (rule revoke_device_in_Inr [OF assms], goal_cases)
  case (1 d)
  let ?db1 = "snd (close_bindings (\<lambda>r. dn_device_id r = device \<and> dn_account_id r = ad_account_id act \<and> dn_closed_at r = None) now db)"
  let ?db2 = "fold (\<lambda>b. record_device_session_closed b act now) closed ?db1"
  have outbox: "id_outbox ?db2 = id_outbox db @ map (closed_row act now) closed"
    by (simp add: outbox_closed close_bindings_def)
  have own: "list_all (\<lambda>b. cb_device_id b = device \<and> cb_account_id b = ad_account_id act) closed"
    unfolding 1(4) by (simp add: list_all_iff closed_binding_of_def)
  show thesis
  proof (cases "still_held sessions wall device ?db2")
    case True
    with 1(6) have db': "db' = ?db2" by (simp add: Let_def)
    have "d \<in> set (id_devices db')" "dv_id d = device" using tbl_find_SomeD [OF 1(2)] by (simp_all add: db')
    then have "\<not> is_revoked device db'" using 1(3) by (auto simp: is_revoked_def list_ex_iff)
    with outbox own db' show thesis by (intro that [of "[]"]) simp_all
  next
    case False
    with 1(6) have db': "db' = record_device_revoked device (ad_account_id act) (dv_kind d) act now
        (?db2\<lparr>id_devices := tbl_update (\<lambda>r. dv_id r = device) (\<lambda>r. r\<lparr>dv_revoked_at := Some now\<rparr>) (id_devices ?db2)\<rparr>)"
      by (simp add: Let_def)
    show thesis
      by (rule that [OF _ _ own]) (auto simp: db' record_device_revoked_def write_identity_event_def outbox)
  qed
qed


text \<open>A television its only account revokes while it watches.\<close>

definition sample_uuid :: "char \<Rightarrow> ident" where
  "sample_uuid c = replicate 8 c @ ''-'' @ replicate 4 c @ ''-'' @ replicate 4 c @ ''-'' @ replicate 4 c @ ''-'' @ replicate 12 c"

definition sample_watching :: identity_db where
  "sample_watching = no_identity\<lparr>
     id_devices := [\<lparr>dv_id = sample_uuid (CHR ''d''), dv_token_hash = ''k'', dv_token_expires_at = 9, dv_kind = Kind_Tv, dv_label = ''tv'',
       dv_last_seen_at = 1, dv_revoked_at = None\<rparr>],
     id_bindings := [\<lparr>dn_id = ''b'', dn_device_id = sample_uuid (CHR ''d''), dn_account_id = sample_uuid (CHR ''a''),
       dn_profile_id = sample_uuid (CHR ''f''), dn_auth_session_id = ''t'', dn_opened_at = 1, dn_closed_at = None\<rparr>]\<rparr>"

definition sample_screen :: viewer_db where
  "sample_screen = no_viewers\<lparr>vw_sessions := [\<lparr>ps_id = ''s'', ps_account_id = sample_uuid (CHR ''a''), ps_profile_id = sample_uuid (CHR ''f''),
     ps_device_id = sample_uuid (CHR ''d''), ps_date_id = ''x'', ps_state = Session_Active, ps_revoke_reason = None,
     ps_scope = Ticket_Full, ps_session_scope = ''live'', ps_protocol = Hls, ps_drm_system = None, ps_quality_cap = Quality_Uhd,
     ps_edge_renewal_mode = Query_Token, ps_surface = Storefront_Tv, ps_token_id = ''t'', ps_token_expires_at = 9, ps_lease_expires_at = 9,
     ps_opened_at = 2, ps_last_renewed_at = 2, ps_closed_at = None\<rparr>]\<rparr>"

definition sample_owner :: device_act where
  "sample_owner = \<lparr>ad_account_id = sample_uuid (CHR ''a''), ad_from_device_id = None, ad_surface = None, ad_traceparent = None\<rparr>"

lemma sample_screen_revoked:
  "case revoke_device_in [] 3 (sample_uuid (CHR ''d'')) sample_owner 3 sample_watching of Inl _ \<Rightarrow> False
   | Inr (closed, db') \<Rightarrow> list_all (\<lambda>b. is_uuid (cb_profile_id b)) closed \<and> closed \<noteq> [] \<and> is_revoked (sample_uuid (CHR ''d'')) db'"
  "is_uuid (sample_uuid (CHR ''d''))" "is_uuid (ad_account_id sample_owner)" "fst (claim_entitlement_message ''m'' sample_screen)"
  "list_ex (active_lease (ad_account_id sample_owner) (sample_uuid (CHR ''d''))) (vw_sessions sample_screen)"
  by code_simp+


end
