(* ===== verification/Spec2Isabelle.thy ===== *)
theory Spec2Isabelle
  imports Ticketing_System Payment_Inbox Purchase_Flow Store_Props Expiry Catalog_Pages Catalog_Facts Playback_Runs Entitlement_Wire Replay_Recordings Identity_Runs Identity_Streaming
begin

text \<open>
  A verification library for the services of the platform that decide what is sold, what is shown, what
  is on air and who watches it: \<open>apps/ticketing\<close>, \<open>apps/catalog\<close>, \<open>apps/streaming\<close> with its run desk, its viewers and its replays' recordings, and \<open>apps/identity\<close>, who signs in and
  from where, with the shared libraries
  they commit through (\<open>libs/transactions\<close>, \<open>libs/messaging\<close>, \<open>libs/http-edge\<close>). All paths are under \<open>src/\<close>.

  \<^bold>\<open>How the services are modelled.\<close> An aggregate is a snapshot record and its uncommitted events
  (\<open>Prelude\<close>), each of its commands a function to a failure (\<open>Inl\<close>) or the aggregate it leaves. Each
  entity is a row record, each table a list of rows, each database one record of its tables; a handler
  is one function per transaction from the committed tables to a failure or the answer and the tables it
  commits, so a transaction that throws leaves nothing. A statement that inserts or updates checks the
  constraints of the migrations. What a transaction reads without a lock is an argument of its own
  (\<open>seen\<close>, \<open>again\<close>), as are the ids and codes it draws, the instants at which it runs, and the rows other
  transactions hold locked where a statement skips them. A service is a step relation on its tables, one
  step per committed transaction, in any interleaving.

  \<^bold>\<open>What is a parameter.\<close> \<open>@arthome/core\<close>, the package of the domain's rules, is not part of the
  repository: its enumerations are the members the sources name, its functions are fields of the records
  \<open>core\<close> (\<open>Core_Api\<close>), \<open>catalog_core\<close> (\<open>Catalog_Core\<close>), \<open>display_core\<close> (\<open>Public_Pages\<close>),
  \<open>run_core\<close> (\<open>Stream_Core\<close>), \<open>preview_core\<close> (\<open>Preview\<close>), \<open>entitlement_core\<close> (\<open>Entitlement\<close>),
  \<open>playback_core\<close> (\<open>Playback\<close>) and \<open>replay_asset_core\<close> (\<open>Replay_Assets\<close>), and what the code relies on of them is named by the \<open>\<dots>_laws\<close> predicates beside them, each shown to hold of a
  sample instance. So are the payment, media and recording providers, the URL parser, Unicode decomposition, the time
  zones and the derivation of stream keys. better-auth is the record \<open>auth_api\<close> over a store of any type, digests
  and \<open>citext\<close> are fields of \<open>identity_env\<close> (\<open>Identity_Db\<close>); what is relied on of better-auth is
  \<open>tokens_name_sessions\<close>, \<open>sessions_in_table\<close> and \<open>user_laws\<close>, which hold of the store of \<open>Identity_Runs\<close>.

  \<^bold>\<open>Shared theories.\<close> \<open>Prelude\<close>: failures, folds of failing steps, tables, aggregates, and the locales
  \<open>invariant_system\<close>, \<open>simulation\<close> and \<open>versioned_aggregate\<close> that the components interpret.
  \<open>Transactions\<close>: the runner and the versioned save (\<open>libs/transactions/src\<close>). \<open>Idempotency\<close>: the store
  of answers (\<open>libs/http-edge/src/idempotency.ts\<close>), with its contract as the locale \<open>answer_store\<close>.
  \<open>Retry\<close>: where a failed message goes and the retry schedules (\<open>libs/messaging/src/failure.ts\<close>,
  \<open>payments/owed-calls.ts\<close>).

  \<^bold>\<open>Ticketing.\<close> The aggregates: \<open>Date_Sales\<close> (\<open>date-sales/date-sales.aggregate.ts\<close>), \<open>Seat_Hold\<close>,
  \<open>Seat_Order\<close> with its invariant in \<open>Seat_Order_Props\<close> (\<open>orders/*.aggregate.ts\<close>), \<open>Waitlist\<close>
  (\<open>waitlist/\<close>), \<open>Credits\<close> (\<open>credits/\<close>). The tables and the repositories: \<open>Ticketing_Db\<close>,
  \<open>Date_Sales_Store\<close>, \<open>Order_Store\<close>, \<open>Store_Props\<close>; the outbox: \<open>Ticketing_Events\<close>; what the API
  shows: \<open>Order_Views\<close>. The transactions: \<open>Sales_Commands\<close> (the studio and catalog's facts), \<open>Purchase\<close>
  and \<open>Purchase_Flow\<close> (\<open>orders/purchase-seat.handler.ts\<close>), \<open>Expiry\<close> with the sweeper's loop
  (\<open>orders/expire-due-holds.handler.ts\<close>, \<open>sweeper-loop.ts\<close>), \<open>Payments\<close> and \<open>Payment_Inbox\<close>
  (\<open>payments/\<close>), \<open>Seats\<close> (\<open>seats/\<close>), \<open>Date_Outcomes\<close> (\<open>date-outcomes/\<close>), \<open>Availability\<close>
  (\<open>availability/\<close>), \<open>Replay_Access\<close> (\<open>replay-access/\<close>).

  \<open>Seat_Ledger\<close> is the specification of a date's capacity: seats are free, held or sold, and every
  operation moves some of them from one to another. \<open>Ledger_Statements\<close>, \<open>Ledger_Frames\<close>,
  \<open>Ledger_Refinement\<close> and the theories \<open>Ledger_Purchases\<close>, \<open>Ledger_Studio\<close>, \<open>Ledger_Payments\<close>,
  \<open>Ledger_Outcomes\<close>, \<open>Ledger_Sweeps\<close> show that every transaction refines it; \<open>Ticketing_System\<close> is
  the step relation and the simulation, from which no date is ever oversold. \<open>Order_Frames\<close> has, as the
  locales \<open>sales_view\<close> and \<open>order_view\<close>, what the calls of a transaction leave alone. The other
  properties of ticketing: a key answers once and a purchase under it is replayed; a webhook is applied
  once and its attempts end; the sweeper comes to its pause; facts of the schedule arrive in any order;
  holds, orders, prices and sales move forward only; an order's refunds stay within its total; the
  repositories give back what they keep; the publisher does not lose a move; a withdrawn replay is not
  watched. \<open>Ticketing_System\<close> ends with a run executed, which the witnesses use.

  \<^bold>\<open>Catalog.\<close> The aggregates: \<open>Performance_Date\<close> (\<open>dates/publication.ts\<close>,
  \<open>dates/performance-date.aggregate.ts\<close>) and \<open>Catalog_Replay\<close> (\<open>replays/replay.aggregate.ts\<close>).
  \<open>Catalog_Tables\<close>: the tables, the repositories, the slugs of a date, the projection of the public rows
  and the outbox rows. The transactions: \<open>Catalog_Dates\<close> (drafts, transitions, outcomes, the facts of a
  run, of a replay's file and of the checklist) and \<open>Catalog_Shows\<close> (shows, venues, the faces of channels).
  The reads: \<open>Public_Pages\<close> (cards, pages, links). \<open>Catalog_Props\<close> and
  \<open>Catalog_System\<close> follow a date, its publication, its replay and its public page through a commit,
  \<open>Catalog_Copies\<close> what a public row copies of its show, its venue and its artist, \<open>Catalog_Slugs\<close> the shape of
  the slugs; \<open>Catalog_Runs\<close> is the step relation, with a run. \<open>Catalog_Pages\<close> has the
  properties: the public projection is never stale, a replay follows its live, a canonical URL leads back
  to its page and the URL a date had before a postponement leads to it still. \<open>Catalog_Facts\<close>: the
  checklist depends on the facts and not on the order or the number of their deliveries.

  \<^bold>\<open>Streaming's run desk.\<close> \<open>Stream_Core\<close>: the vocabulary, the rules called and the media ports.
  \<open>Stream_Run\<close>: the aggregate of a date's run and its incidents (\<open>run/run.aggregate.ts\<close>), and
  \<open>Stream_Run_Props\<close> what every command keeps and tells. \<open>Stream_Desk\<close>: the tables, the repository, the
  outbox rows, the preparation of a run, the studio's commands, the provider's reports and the sweeper's
  passes (\<open>run/*.ts\<close>). \<open>Stream_System\<close> is the step relation and its invariant, \<open>Stream_Passes\<close> the
  loop that ends the runs left on air, and the properties: on air means with no veil, the topic
  tells the state of a run, the runs left on air end.

  \<^bold>\<open>Streaming's viewers.\<close> \<open>Entitlement\<close>: the projection of what an account may watch, written by the
  facts of dates, seats and subscriptions (\<open>entitlement/*.handler.ts\<close>) and read by playback
  (\<open>entitlement-facts.ts\<close>); \<open>Entitlement_Wire\<close>: the readers of the messages, where a member this build
  does not know is kept out; \<open>Entitlement_Seats\<close>: the seats counted depend on the facts and not on their
  deliveries. \<open>Preview\<close>: the spans a run was on air and the budget settled against them (\<open>preview/*.ts\<close>,
  \<open>run/run-facts.ts\<close>); \<open>Preview_Budget\<close>: the spans are exactly the instants on air and not veiled, and
  the tokens of an account open at most the budget of them. \<open>Playback\<close>: the leases' table and statements,
  the screens taken over, the format, the verdict, the token (\<open>playback/*.ts\<close>); \<open>Playback_Desk\<close>: opening,
  renewing and releasing a screen, the leases revoked by identity's facts and swept, the resume points, the
  routes (\<open>playback-desk.ts\<close>, \<open>lease-sweep.ts\<close>, \<open>devices\<close>, \<open>progress\<close>). \<open>Playback_Screens\<close> follows an
  account's active leases through each statement, \<open>Playback_System\<close> is the step relation of the viewers'
  transactions beside the run desk's and its invariant, \<open>Playback_Runs\<close> the property: an account holds no
  more screens than its last opening there was allowed. The advisory lock on an account's screens is what
  lets an opening be one step; the answer to a refused caller commits what it wrote, as the code does.
  Times of update that nothing reads are left out of the rows. The enumerations stored as text are
  members or \<open>Other_Member\<close>, which a newer build may have written.

  \<^bold>\<open>Streaming's replays.\<close> \<open>Replay_Assets\<close>: the asset of a date's replay, its decisions and statements, the passes
  that move it with its run, its outcome and its window, and the calls it owes the recording provider, each claimed
  in a transaction, made outside any and settled in another (\<open>replay-asset/*.ts\<close>); a call late past its timeout is
  an answer of the provider. \<open>Replay_Recordings\<close>: the transactions as a step relation and its invariant, what the
  topic is told of a replay, where a recording started ends, and the one interleaving of a deletion with a late
  start that leaves a recording nobody names.

  \<^bold>\<open>Identity.\<close> \<open>Identity_Db\<close>: its tables, its outbox and a command under the key of a request.
  \<open>Identity_Devices\<close>: registering a device, binding a session to it and a profile, revoking, closing and
  signing out (\<open>devices/*.ts\<close>, \<open>profiles/default-profile.ts\<close>). \<open>Identity_Sessions\<close>: a session resolved, bound,
  forgotten, revoked and reissued, signing in, a viewer's acts on devices (\<open>auth/sessions.service.ts\<close>,
  \<open>auth/sign-in.service.ts\<close>, \<open>devices/device-revocations.ts\<close>); \<open>Identity_Accounts\<close>: the links that verify an
  address and signing up (\<open>auth/email-verifications.service.ts\<close>, \<open>auth/sign-up.service.ts\<close>). A flow runs
  over identity's tables and better-auth's store, where a call made stays made. \<open>Identity_System\<close> is the step relation of identity's
  transactions and what each keeps of the rows; it ends with the flows, which commit its steps and
  nothing else. \<open>Identity_Props\<close>: a session ended never resolves again, one account never signs another out, a
  link is spent once; \<open>Identity_Sign_Up\<close>: a sign-up leaves both halves of an account or neither;
  \<open>Identity_Streaming\<close>: a revocation, read by streaming, ends the leases; \<open>Identity_Runs\<close>: a household's run.

  \<^bold>\<open>Loops.\<close> Loops over rows are structural. The three that need not end, the sweeper's loop (\<open>drain\<close>), the one
  that builds a retry schedule (\<open>doubling_from\<close>) and the one over the pages of live runs (\<open>end_runs_from\<close>),
  are partial functions to \<open>option\<close>, and are shown to return.

  \<^bold>\<open>Not modelled.\<close> Controllers, modules, request schemas, processes and migrations of data: NestJS and
  Zod glue. The encoding of messages to bytes and the generated code of \<open>libs/events\<close>. The Kafka
  consumers and the republisher of \<open>libs/messaging\<close>. Catalog's search, which composes OpenSearch requests.
  The adapters of the media server, the text of streaming's cookies and its logs; the options better-auth is
  given; \<open>apps/bff-storefront\<close>, \<open>apps/search-indexer\<close> and \<open>apps/notifications\<close>. Catalog's and the run desk's commands are modelled inside their
  transaction: the idempotency record that surrounds them there is the one of \<open>Idempotency\<close>.
\<close>

section \<open>Seats\<close>

text \<open>
  Property C1. No date is ever oversold: whatever transactions the API, the consumer and the sweepers
  commit and in whatever order, in every state ticketing reaches each date's free seats (public and
  pool), the seats its active holds carry and the seats sold add up to its capacity, and none of them
  is negative.
\<close>

theorem no_oversell:
  assumes "hold_laws (checkout_rules c)" and "(ticketing_step c)\<^sup>*\<^sup>* empty_db db"
  shows "list_all (\<lambda>r. 0 \<le> dr_seats_available r \<and> 0 \<le> dr_priority_pool_seats r \<and> 0 \<le> dr_seats_sold r \<and>
      0 \<le> held_of (db_holds db) (dr_date_id r) \<and>
      dr_seats_available r + dr_priority_pool_seats r + held_of (db_holds db) (dr_date_id r) +
        dr_seats_sold r = dr_capacity_total r) (db_sales db)"
proof (unfold list_all_iff, rule ballI)
  fix r assume r: "r \<in> set (db_sales db)"
  have ok: "db_ok db" by (rule reachable_ok [OF assms])
  have "tbl_find dr_date_id (dr_date_id r) (db_sales db) = Some r"
    by (rule tbl_find_unique [OF db_okD(4) [OF ok] r])
  then have "ledger_abs db (dr_date_id r) = Some (row_seats r (held_of (db_holds db) (dr_date_id r)))"
    by (simp add: ledger_abs_def ledger_of_def)
  then have "seats_ok (row_seats r (held_of (db_holds db) (dr_date_id r)))"
    by (rule ledger_okD [OF reachable_seats [OF assms]])
  moreover have "date_sales_check r" using db_okD(1) [OF ok] r by (simp add: sales_ok_def)
  ultimately show "0 \<le> dr_seats_available r \<and> 0 \<le> dr_priority_pool_seats r \<and> 0 \<le> dr_seats_sold r \<and>
      0 \<le> held_of (db_holds db) (dr_date_id r) \<and>
      dr_seats_available r + dr_priority_pool_seats r + held_of (db_holds db) (dr_date_id r) +
        dr_seats_sold r = dr_capacity_total r"
    by (auto simp: seats_ok_def row_seats_def date_sales_check_def)
qed

theorem no_oversell_witness:
  "\<exists>db r. (ticketing_step sample_core)\<^sup>*\<^sup>* empty_db db \<and> db_sales db = [r] \<and> dr_capacity_total r = 3 \<and>
     dr_seats_sold r = 1 \<and> held_of (db_holds db) (dr_date_id r) + dr_priority_pool_seats r = 2"
proof -
  obtain db where db: "(ticketing_step sample_core)\<^sup>*\<^sup>* empty_db db"
    and "map dr_seats_available (db_sales db) = [0]" "map dr_seats_sold (db_sales db) = [1]"
      "map dr_capacity_total (db_sales db) = [3]"
    by (rule sample_run)
  then obtain r where r: "db_sales db = [r]" "dr_seats_available r = 0" "dr_seats_sold r = 1"
    "dr_capacity_total r = 3" by auto
  with no_oversell [OF sample_core_laws(1) db] have
    "held_of (db_holds db) (dr_date_id r) + dr_priority_pool_seats r = 2" by simp
  with db r show ?thesis by blast
qed



text \<open>
  Property C3. The tables keep their types and their links in every state ticketing reaches: each
  table is keyed, each row meets the checks of its table, a hold is of a date on record, and each
  order has a hold of its own, of its date and of its quantity.
\<close>

theorem tables_well_formed:
  assumes "hold_laws (checkout_rules c)" and "(ticketing_step c)\<^sup>*\<^sup>* empty_db db"
  shows "distinct (map dr_date_id (db_sales db)) \<and> list_all date_sales_check (db_sales db) \<and>
    distinct (map hr_id (db_holds db)) \<and>
    list_all (\<lambda>h. seat_hold_check h \<and> hr_date_id h \<in> dr_date_id ` set (db_sales db)) (db_holds db) \<and>
    distinct (map or_id (db_orders db)) \<and> distinct (map or_hold_id (db_orders db)) \<and>
    list_all (\<lambda>r. list_ex (\<lambda>h. hr_id h = or_hold_id r \<and> hr_date_id h = or_date_id r \<and>
      hr_quantity h = or_quantity r) (db_holds db)) (db_orders db)"
proof -
  have ok: "db_ok db" by (rule reachable_ok [OF assms])
  have "(\<lambda>(_, _, _, h). h) \<circ> order_link = or_hold_id" by (auto simp: order_link_def)
  with db_okD(1-3,6) [OF ok] show ?thesis
    by (auto simp: sales_ok_def holds_ok_def links_ok_def list_all_iff list_ex_iff order_link_def)
qed

theorem tables_well_formed_witness:
  "\<exists>db. (ticketing_step sample_core)\<^sup>*\<^sup>* empty_db db \<and> map or_state (db_orders db) = [Order_Paid, Order_Pending] \<and>
     list_all (\<lambda>r. or_hold_id r \<in> hr_id ` set (db_holds db)) (db_orders db)"
proof -
  obtain db where db: "(ticketing_step sample_core)\<^sup>*\<^sup>* empty_db db"
    and "map or_state (db_orders db) = [Order_Paid, Order_Pending]"
    by (rule sample_run)
  moreover from tables_well_formed [OF sample_core_laws(1) db]
  have "list_all (\<lambda>r. or_hold_id r \<in> hr_id ` set (db_holds db)) (db_orders db)"
    by (elim conjE) (erule list.pred_mono_strong, auto simp: list_ex_iff intro: rev_image_eqI)
  ultimately show ?thesis by (intro exI conjI)
qed

end
